(* ===== verification/Prelude.thy ===== *)
theory Prelude
  imports Main "HOL-Library.Char_ord" "HOL-Library.List_Lexorder"
    "HOL-Library.Product_Lexorder" "HOL-Library.Word"
begin

text \<open>
  Shared vocabulary of the development.

  \<^item> Rust's \<open>Result<T, E>\<close> is the sum \<open>E + T\<close> (\<open>Inl\<close> the error); the \<open>?\<close> operator is
    \<open>bindR\<close>, an early \<open>return Err(e)\<close> under a condition is \<open>ensure\<close>, and
    \<open>iter().map(f).collect::<Result<Vec<_>, _>>()\<close> is \<open>traverse\<close>.
  \<^item> A Rust \<open>String\<close> is the list of its UTF-8 bytes, held as HOL characters (a HOL
    \<open>char\<close> is one byte), so \<open>len()\<close> is \<open>length\<close> and \<open>Ord\<close> on strings is the
    lexicographic byte order of \<open>List_Lexorder\<close> and \<open>Char_ord\<close>.
  \<^item> \<open>format!(template, args)\<close> is kept unrendered, as the template with its arguments.
  \<^item> \<open>i64\<close>, \<open>u32\<close> and \<open>u64\<close> quantities are integers with their ranges written out.

  The second half holds the list facts the components share and the two interface
  locales every wire-level enum and every stored document of the program fits:
  \<open>wire_enum\<close> (a text form with \<open>as_str\<close> and \<open>parse\<close>) is stated here,
  the document codec in \<open>Codec\<close>.
\<close>

section \<open>Types\<close>

type_synonym byte = "8 word"

type_synonym ('e, 'a) res = "'e + 'a"

datatype fmt_arg = FStr string | FInt int | FMsg message
  and message = Fmt string "fmt_arg list"


definition i64_min :: int where
  "i64_min = - (2 ^ 63)"

definition i64_max :: int where
  "i64_max = 2 ^ 63 - 1"

definition is_i64 :: "int \<Rightarrow> bool" where
  "is_i64 n \<longleftrightarrow> i64_min \<le> n \<and> n \<le> i64_max"

text \<open>\<open>n + 1\<close> on an \<open>i64\<close>, with the wrap-around of a release build.\<close>

definition i64_succ :: "int \<Rightarrow> int" where
  "i64_succ n = (if n = i64_max then i64_min else n + 1)"

definition is_u32 :: "int \<Rightarrow> bool" where
  "is_u32 n \<longleftrightarrow> 0 \<le> n \<and> n < 2 ^ 32"

definition is_u64 :: "int \<Rightarrow> bool" where
  "is_u64 n \<longleftrightarrow> 0 \<le> n \<and> n < 2 ^ 64"

text \<open>\<open>u32::try_from\<close> on an \<open>i64\<close>.\<close>

definition u32_try_from :: "int \<Rightarrow> int option" where
  "u32_try_from n = (if is_u32 n then Some n else None)"

section \<open>The result monad\<close>

fun bindR :: "('e, 'a) res \<Rightarrow> ('a \<Rightarrow> ('e, 'b) res) \<Rightarrow> ('e, 'b) res" where
  "bindR (Inl e) f = Inl e"
| "bindR (Inr x) f = f x"

definition ensure :: "bool \<Rightarrow> 'e \<Rightarrow> ('e, unit) res" where
  "ensure b e = (if b then Inr () else Inl e)"

definition ok_or :: "'a option \<Rightarrow> 'e \<Rightarrow> ('e, 'a) res" where
  "ok_or x e = (case x of None \<Rightarrow> Inl e | Some v \<Rightarrow> Inr v)"

fun traverse :: "('a \<Rightarrow> ('e, 'b) res) \<Rightarrow> 'a list \<Rightarrow> ('e, 'b list) res" where
  "traverse f [] = Inr []"
| "traverse f (x # xs) = bindR (f x) (\<lambda>y. bindR (traverse f xs) (\<lambda>ys. Inr (y # ys)))"

text \<open>A \<open>for\<close> loop whose body may return early and produces nothing else.\<close>

fun for_each :: "('a \<Rightarrow> ('e, unit) res) \<Rightarrow> 'a list \<Rightarrow> ('e, unit) res" where
  "for_each f [] = Inr ()"
| "for_each f (x # xs) = bindR (f x) (\<lambda>_. for_each f xs)"

text \<open>A \<open>for\<close> loop that threads a state and may return early.\<close>

fun fold_res :: "('s \<Rightarrow> 'a \<Rightarrow> ('e, 's) res) \<Rightarrow> 's \<Rightarrow> 'a list \<Rightarrow> ('e, 's) res" where
  "fold_res f s [] = Inr s"
| "fold_res f s (x # xs) = bindR (f s x) (\<lambda>s'. fold_res f s' xs)"

section \<open>Strings\<close>

fun starts_with :: "string \<Rightarrow> string \<Rightarrow> bool" where
  "starts_with [] s = True"
| "starts_with (p # ps) [] = False"
| "starts_with (p # ps) (c # s) = (p = c \<and> starts_with ps s)"

definition ends_with :: "string \<Rightarrow> string \<Rightarrow> bool" where
  "ends_with p s = starts_with (rev p) (rev s)"

text \<open>\<open>str::contains\<close> with a substring.\<close>

fun contains_str :: "string \<Rightarrow> string \<Rightarrow> bool" where
  "contains_str p [] = (p = [])"
| "contains_str p (c # s) = (starts_with p (c # s) \<or> contains_str p s)"

text \<open>\<open>slice::split\<close>: the pieces between separators, empty ones included.\<close>

fun split_on :: "'a \<Rightarrow> 'a list \<Rightarrow> 'a list list" where
  "split_on d [] = [[]]"
| "split_on d (c # cs) =
     (if c = d then [] # split_on d cs
      else (case split_on d cs of [] \<Rightarrow> [[c]] | w # ws \<Rightarrow> (c # w) # ws))"

text \<open>\<open>str::strip_prefix\<close>.\<close>

definition strip_prefix :: "string \<Rightarrow> string \<Rightarrow> string option" where
  "strip_prefix p s = (if starts_with p s then Some (drop (length p) s) else None)"

definition is_continuation :: "char \<Rightarrow> bool" where
  "is_continuation c \<longleftrightarrow> 128 \<le> (of_char c :: nat) \<and> (of_char c :: nat) < 192"

text \<open>\<open>text.chars().count()\<close> on UTF-8 bytes: every byte that starts a character.\<close>

definition chars_count :: "string \<Rightarrow> nat" where
  "chars_count s = length (filter (\<lambda>c. \<not> is_continuation c) s)"

text \<open>
  The byte length of the Unicode \<open>White_Space\<close> character at the front of a string, 0 when
  there is none; \<open>is_blank\<close> is \<open>text.trim().is_empty()\<close>.
\<close>

definition white_space_len :: "string \<Rightarrow> nat" where
  "white_space_len s = (case map of_char (take 3 s) :: nat list of
     [] \<Rightarrow> 0
   | a # t \<Rightarrow>
       if (9 \<le> a \<and> a \<le> 13) \<or> a = 32 then 1
       else (case t of
           [] \<Rightarrow> 0
         | b # u \<Rightarrow>
             if a = 194 \<and> (b = 133 \<or> b = 160) then 2
             else (case u of
                 [] \<Rightarrow> 0
               | c # _ \<Rightarrow>
                   if (a = 225 \<and> b = 154 \<and> c = 128)
                    \<or> (a = 226 \<and> b = 128 \<and> (128 \<le> c \<and> c \<le> 138 \<or> c = 168 \<or> c = 169 \<or> c = 175))
                    \<or> (a = 226 \<and> b = 129 \<and> c = 159)
                    \<or> (a = 227 \<and> b = 128 \<and> c = 128)
                   then 3 else 0)))"

function is_blank :: "string \<Rightarrow> bool" where
  "is_blank s =
     (if s = [] then True
      else if white_space_len s = 0 then False
      else is_blank (drop (white_space_len s) s))"
  by pat_completeness auto
termination by (relation "measure length") auto

declare is_blank.simps [simp del]

section \<open>Decimal text of integers\<close>

definition digit_char :: "nat \<Rightarrow> char" where
  "digit_char d = char_of (48 + d)"

fun nat_to_string :: "nat \<Rightarrow> string" where
  "nat_to_string n =
     (if n < 10 then [digit_char n] else nat_to_string (n div 10) @ [digit_char (n mod 10)])"

declare nat_to_string.simps [simp del]

definition int_to_string :: "int \<Rightarrow> string" where
  "int_to_string n = (if n < 0 then CHR ''-'' # nat_to_string (nat (- n)) else nat_to_string (nat n))"

section \<open>Lemmas on results\<close>

named_theorems res_simps \<open>rules that evaluate the result monad\<close>

lemma bindR_Inr_iff [res_simps]: "bindR r f = Inr y \<longleftrightarrow> (\<exists>x. r = Inr x \<and> f x = Inr y)"
  by (cases r) auto

lemma bindR_Inl_iff: "bindR r f = Inl e \<longleftrightarrow> r = Inl e \<or> (\<exists>x. r = Inr x \<and> f x = Inl e)"
  by (cases r) auto

lemma ensure_simps [simp]: "ensure True e = Inr ()" "ensure False e = Inl e"
  by (auto simp: ensure_def)

lemma ensure_Inr_iff [res_simps]: "ensure b e = Inr u \<longleftrightarrow> b"
  by (auto simp: ensure_def)

lemma ok_or_simps [simp]: "ok_or None e = Inl e" "ok_or (Some x) e = Inr x"
  by (auto simp: ok_or_def)

lemma ok_or_Inr_iff [res_simps]: "ok_or x e = Inr y \<longleftrightarrow> x = Some y"
  by (cases x) auto

lemma traverse_Inr_length: "traverse f xs = Inr ys \<Longrightarrow> length ys = length xs"
  by (induction xs arbitrary: ys) (auto simp: res_simps)

lemma traverse_Inr_nth:
  "traverse f xs = Inr ys \<Longrightarrow> i < length xs \<Longrightarrow> f (xs ! i) = Inr (ys ! i)"
proof (induction xs arbitrary: ys i)
  case Nil
  then show ?case by simp
next
  case (Cons x xs)
  then show ?case by (cases i) (auto simp: res_simps)
qed

lemma traverse_map_inverse:
  "(\<And>x. x \<in> set xs \<Longrightarrow> f (g x) = Inr x) \<Longrightarrow> traverse f (map g xs) = Inr xs"
  by (induction xs) auto

lemma traverse_Inr_all:
  "traverse f xs = Inr ys \<Longrightarrow> (\<And>x y. f x = Inr y \<Longrightarrow> P y) \<Longrightarrow> y \<in> set ys \<Longrightarrow> P y"
  by (induction xs arbitrary: ys) (auto simp: res_simps)

lemma for_each_Inr_iff [res_simps]:
  "for_each f xs = Inr u \<longleftrightarrow> (\<forall>x \<in> set xs. f x = Inr ())"
  by (induction xs) (auto simp: res_simps)

lemma u32_try_from_Some [simp]: "u32_try_from n = Some m \<longleftrightarrow> is_u32 n \<and> m = n"
  by (auto simp: u32_try_from_def)

section \<open>Lemmas on lists and strings\<close>

lemma starts_with_append [simp]: "starts_with p (p @ s)"
  by (induction p) auto

lemma starts_with_iff: "starts_with p s \<longleftrightarrow> (\<exists>t. s = p @ t)"
  by (induction p s rule: starts_with.induct) auto

lemma starts_with_take: "starts_with p s \<longleftrightarrow> take (length p) s = p"
  by (metis append_eq_conv_conj append_take_drop_id starts_with_iff)

lemma strip_prefix_Some: "strip_prefix p s = Some t \<longleftrightarrow> s = p @ t"
  by (auto simp: strip_prefix_def starts_with_iff)

lemma strip_prefix_append [simp]: "strip_prefix p (p @ s) = Some s"
  by (simp add: strip_prefix_Some)

lemma strip_prefix_char [simp]:
  "strip_prefix [c] (d # s) = (if c = d then Some s else None)" "strip_prefix [c] [] = None"
  by (auto simp: strip_prefix_def starts_with_iff)

lemma ends_with_iff: "ends_with p s \<longleftrightarrow> (\<exists>t. s = t @ p)"
proof -
  have "ends_with p s \<longleftrightarrow> (\<exists>t. rev s = rev p @ t)"
    by (simp add: ends_with_def starts_with_iff)
  also have "\<dots> \<longleftrightarrow> (\<exists>t. s = t @ p)"
    by (metis rev_append rev_rev_ident)
  finally show ?thesis .
qed

lemma contains_str_iff: "contains_str p s \<longleftrightarrow> (\<exists>u v. s = u @ p @ v)"
proof (induction s)
  case Nil
  then show ?case by auto
next
  case (Cons c s)
  have "(\<exists>u v. c # s = u @ p @ v) \<longleftrightarrow> (\<exists>v. c # s = p @ v) \<or> (\<exists>u v. s = u @ p @ v)"
    by (metis append_Cons append_Nil append_eq_Cons_conv)
  then show ?case by (simp add: Cons.IH starts_with_iff del: starts_with.simps)
qed

lemma split_on_nonempty [simp]: "split_on d xs \<noteq> []"
  by (induction xs) (auto split: list.splits)

lemma split_on_no_sep: "w \<in> set (split_on d xs) \<Longrightarrow> d \<notin> set w"
proof (induction xs arbitrary: w)
  case Nil
  then show ?case by simp
next
  case (Cons c cs)
  obtain v vs where vs: "split_on d cs = v # vs"
    by (cases "split_on d cs") auto
  have IH: "\<And>w. w = v \<or> w \<in> set vs \<Longrightarrow> d \<notin> set w"
    using Cons.IH vs by simp
  show ?case
    using Cons.prems IH by (auto simp: vs split: if_splits)
qed

lemma split_on_singleton: "d \<notin> set xs \<Longrightarrow> split_on d xs = [xs]"
  by (induction xs) auto

lemma split_on_append_sep:
  "split_on d (xs @ d # ys) = split_on d xs @ split_on d ys"
proof (induction xs)
  case Nil
  then show ?case by simp
next
  case (Cons c cs)
  obtain v vs where "split_on d cs = v # vs"
    by (cases "split_on d cs") auto
  with Cons show ?case by auto
qed

lemma find_SomeD: "List.find P xs = Some x \<Longrightarrow> x \<in> set xs \<and> P x"
  by (metis find_Some_iff nth_mem)

lemma find_append: "List.find P (xs @ ys) = (case List.find P xs of Some x \<Rightarrow> Some x | None \<Rightarrow> List.find P ys)"
  by (induction xs) auto

lemma find_map_same:
  "(\<And>x. P (f x) = P x) \<Longrightarrow> List.find P (map f xs) = map_option f (List.find P xs)"
  by (induction xs) auto

lemma find_map_of:
  "List.find (\<lambda>(a, b). a = k) xs = map_option (\<lambda>v. (k, v)) (map_of xs k)"
  by (induction xs) auto

section \<open>Decimal text\<close>

lemma of_char_digit: "d < 10 \<Longrightarrow> (of_char (digit_char d) :: nat) = 48 + d"
  by (simp add: digit_char_def of_char_of)

lemma nat_to_string_nonempty [simp]: "nat_to_string n \<noteq> []"
  by (subst nat_to_string.simps) simp

lemma nat_to_string_digits:
  "c \<in> set (nat_to_string n) \<Longrightarrow> 48 \<le> (of_char c :: nat) \<and> (of_char c :: nat) \<le> 57"
proof (induction n rule: nat_to_string.induct)
  case (1 n)
  show ?case
  proof (cases "n < 10")
    case True
    with "1.prems" show ?thesis
      by (auto simp: nat_to_string.simps [of n] of_char_digit)
  next
    case False
    have "n mod 10 < 10" by simp
    with "1" False show ?thesis
      by (auto simp: nat_to_string.simps [of n] of_char_digit)
  qed
qed

lemma nat_to_string_no_leading_zero:
  "10 \<le> n \<Longrightarrow> hd (nat_to_string n) \<noteq> CHR ''0''"
proof (induction n rule: nat_to_string.induct)
  case (1 n)
  then have ge: "\<not> n < 10" by simp
  have hd_eq: "hd (nat_to_string n) = hd (nat_to_string (n div 10))"
    using ge by (subst nat_to_string.simps) simp
  show ?case
  proof (cases "n div 10 < 10")
    case True
    have "1 \<le> n div 10" using ge by simp
    then have "(of_char (digit_char (n div 10)) :: nat) \<noteq> of_char (CHR ''0'')"
      using True by (simp add: of_char_digit)
    then show ?thesis
      using True hd_eq by (auto simp: nat_to_string.simps [of "n div 10"])
  next
    case False
    with "1.IH" ge hd_eq show ?thesis by simp
  qed
qed

section \<open>Text forms of enumerations\<close>

text \<open>
  Every persisted enumeration of the program has \<open>as_str\<close> and \<open>parse\<close>; the store
  writes the first and reads back through the second. The contract is that reading
  inverts writing and accepts nothing else.
\<close>

locale wire_enum =
  fixes as_str :: "'a \<Rightarrow> string"
    and of_str :: "string \<Rightarrow> 'a option"
  assumes of_str_as_str: "of_str (as_str x) = Some x"
    and of_str_SomeD: "of_str s = Some x \<Longrightarrow> s = as_str x"
begin

lemma as_str_inj: "as_str x = as_str y \<longleftrightarrow> x = y"
  by (metis of_str_as_str option.inject)

lemma of_str_iff: "of_str s = Some x \<longleftrightarrow> s = as_str x"
  using of_str_as_str of_str_SomeD by blast

lemma of_str_None_iff: "of_str s = None \<longleftrightarrow> s \<notin> range as_str"
  by (metis not_None_eq of_str_as_str of_str_SomeD range_eqI rangeE)

end

end
