(* ===== verification/Canonical.thy ===== *)
theory Canonical
  imports Prelude
begin

text \<open>
  The canonical value form and content digests
  (\<^verbatim>\<open>crates/pantheon-core/src/config/canonical.rs\<close> and \<^verbatim>\<open>digest.rs\<close>).

  A \<open>Value\<close> is \<open>cvalue\<close>; its \<open>BTreeMap\<close> objects are association lists kept
  strictly sorted by key (\<open>btree_insert\<close> is the map's insert, \<open>wf_value\<close> the type's
  invariant). \<open>write_canonical\<close> is the encoder, and a \<open>Digest\<close> holds the bytes that
  SHA-256, a parameter of the model, returns for the encoding.

  The lemmas show that building an object keeps the order invariant and forgets the
  insertion order, and that the display form of a digest reads back exactly.
\<close>

unbundle bit_operations_syntax

section \<open>Values\<close>

datatype cvalue =
    VNull
  | VBool bool
  | VInteger int
  | VString string
  | VArray "cvalue list"
  | VObject "(string \<times> cvalue) list"

type_synonym entries = "(string \<times> cvalue) list"

text \<open>\<open>BTreeMap::insert\<close> on the entries in key order: an equal key is overwritten.\<close>

fun btree_insert :: "string \<Rightarrow> 'v \<Rightarrow> (string \<times> 'v) list \<Rightarrow> (string \<times> 'v) list" where
  "btree_insert k v [] = [(k, v)]"
| "btree_insert k v ((k', v') # es) =
     (if k < k' then (k, v) # (k', v') # es
      else if k = k' then (k, v) # es
      else (k', v') # btree_insert k v es)"

definition btree_of :: "(string \<times> 'v) list \<Rightarrow> (string \<times> 'v) list" where
  "btree_of pairs = fold (\<lambda>(k, v). btree_insert k v) pairs []"

definition object :: "entries \<Rightarrow> cvalue" where
  "object pairs = VObject (btree_of pairs)"

definition get :: "cvalue \<Rightarrow> string \<Rightarrow> cvalue option" where
  "get v key = (case v of VObject es \<Rightarrow> map_of es key | _ \<Rightarrow> None)"

fun kind :: "cvalue \<Rightarrow> string" where
  "kind VNull = ''null''"
| "kind (VBool _) = ''boolean''"
| "kind (VInteger _) = ''integer''"
| "kind (VString _) = ''string''"
| "kind (VArray _) = ''array''"
| "kind (VObject _) = ''object''"

section \<open>The canonical encoding\<close>

text \<open>\<open>char::from_digit(nibble, 16)\<close> with its fallback.\<close>

definition from_digit16 :: "nat \<Rightarrow> char" where
  "from_digit16 n =
     (if n < 10 then char_of (48 + n) else if n < 16 then char_of (87 + n) else CHR ''0'')"

definition unicode_digits :: "nat \<Rightarrow> string" where
  "unicode_digits code = map (\<lambda>shift. from_digit16 (drop_bit shift code AND 15)) [12, 8, 4, 0]"

definition escape_char :: "char \<Rightarrow> string" where
  "escape_char c =
     (if c = CHR 0x22 then [CHR 0x5C, CHR 0x22]
      else if c = CHR 0x5C then [CHR 0x5C, CHR 0x5C]
      else if c = CHR 0x0A then [CHR 0x5C, CHR ''n'']
      else if c = CHR 0x0D then [CHR 0x5C, CHR ''r'']
      else if c = CHR 0x09 then [CHR 0x5C, CHR ''t'']
      else if (of_char c :: nat) < 32 then [CHR 0x5C, CHR ''u''] @ unicode_digits (of_char c)
      else [c])"

definition write_canonical_string :: "string \<Rightarrow> string" where
  "write_canonical_string s = CHR 0x22 # concat (map escape_char s) @ [CHR 0x22]"

text \<open>The comma-separated body of an array or object.\<close>

fun intercalate :: "string \<Rightarrow> string list \<Rightarrow> string" where
  "intercalate sep [] = []"
| "intercalate sep [w] = w"
| "intercalate sep (w # ws) = w @ sep @ intercalate sep ws"

fun write_canonical :: "cvalue \<Rightarrow> string" where
  "write_canonical VNull = ''null''"
| "write_canonical (VBool True) = ''true''"
| "write_canonical (VBool False) = ''false''"
| "write_canonical (VInteger n) = int_to_string n"
| "write_canonical (VString s) = write_canonical_string s"
| "write_canonical (VArray vs) = ''['' @ intercalate '','' (map write_canonical vs) @ '']''"
| "write_canonical (VObject es) =
     [CHR 0x7B] @
     intercalate '',''
       (map (\<lambda>e. write_canonical_string (fst e) @ '':'' @ write_canonical (snd e)) es) @
     [CHR 0x7D]"

definition to_canonical_bytes :: "cvalue \<Rightarrow> string" where
  "to_canonical_bytes v = write_canonical v"

section \<open>Digests\<close>

datatype digest = Digest "byte list"

type_synonym sha256 = "string \<Rightarrow> byte list"

definition digest_of :: "sha256 \<Rightarrow> string \<Rightarrow> digest" where
  "digest_of sha bs = Digest (sha bs)"

definition value_digest :: "sha256 \<Rightarrow> cvalue \<Rightarrow> digest" where
  "value_digest sha v = digest_of sha (to_canonical_bytes v)"

fun as_bytes :: "digest \<Rightarrow> byte list" where
  "as_bytes (Digest bs) = bs"

definition byte_hex :: "byte \<Rightarrow> string" where
  "byte_hex b = [from_digit16 (unat (drop_bit 4 b)), from_digit16 (unat (b AND 0x0F))]"

fun to_hex :: "digest \<Rightarrow> string" where
  "to_hex (Digest bs) = concat (map byte_hex bs)"

definition display :: "digest \<Rightarrow> string" where
  "display d = ''sha256:'' @ to_hex d"

definition hex_nibble :: "char \<Rightarrow> byte option" where
  "hex_nibble c = (let b = (of_char c :: nat) in
     if 48 \<le> b \<and> b \<le> 57 then Some (of_nat (b - 48))
     else if 97 \<le> b \<and> b \<le> 102 then Some (of_nat (b - 97 + 10))
     else if 65 \<le> b \<and> b \<le> 70 then Some (of_nat (b - 65 + 10))
     else None)"

text \<open>The loop over the 32 byte positions: two hexadecimal characters per byte.\<close>

fun hex_bytes :: "string \<Rightarrow> byte list option" where
  "hex_bytes [] = Some []"
| "hex_bytes [c] = None"
| "hex_bytes (high # low # rest) =
     (case hex_nibble high of None \<Rightarrow> None
      | Some h \<Rightarrow> (case hex_nibble low of None \<Rightarrow> None
        | Some l \<Rightarrow> map_option (\<lambda>bs. (push_bit 4 h OR l) # bs) (hex_bytes rest)))"

definition from_display :: "string \<Rightarrow> digest option" where
  "from_display text =
     (if starts_with ''sha256:'' text then
        (let hex = drop 7 text in
           if length hex \<noteq> 64 then None else map_option Digest (hex_bytes hex))
      else None)"

text \<open>
  The type invariants: a digest is 32 bytes wide, an integer is an \<open>i64\<close>, an object is
  strictly sorted by key.
\<close>

definition wf_digest :: "digest \<Rightarrow> bool" where
  "wf_digest d \<longleftrightarrow> length (as_bytes d) = 32"

definition sha_width :: "sha256 \<Rightarrow> bool" where
  "sha_width sha \<longleftrightarrow> (\<forall>bs. length (sha bs) = 32)"

definition sorted_keys :: "(string \<times> 'v) list \<Rightarrow> bool" where
  "sorted_keys es \<longleftrightarrow> sorted_wrt (<) (map fst es)"

section \<open>Orders and equality on digests\<close>

instantiation digest :: linorder
begin

definition less_eq_digest :: "digest \<Rightarrow> digest \<Rightarrow> bool" where
  "less_eq_digest a b \<longleftrightarrow> as_bytes a \<le> as_bytes b"

definition less_digest :: "digest \<Rightarrow> digest \<Rightarrow> bool" where
  "less_digest a b \<longleftrightarrow> as_bytes a < as_bytes b"

instance
proof
  fix a b c :: digest
  show "(a < b) = (a \<le> b \<and> \<not> b \<le> a)"
    by (auto simp: less_digest_def less_eq_digest_def)
  show "a \<le> a" by (simp add: less_eq_digest_def)
  show "a \<le> b \<Longrightarrow> b \<le> c \<Longrightarrow> a \<le> c" by (auto simp: less_eq_digest_def)
  show "a \<le> b \<Longrightarrow> b \<le> a \<Longrightarrow> a = b" by (cases a; cases b) (auto simp: less_eq_digest_def)
  show "a \<le> b \<or> b \<le> a" by (auto simp: less_eq_digest_def)
qed

end

section \<open>Lemmas on sorted entries\<close>

lemma sorted_keys_Nil [simp]: "sorted_keys []"
  by (simp add: sorted_keys_def)

lemma sorted_keys_Cons:
  "sorted_keys (e # es) \<longleftrightarrow> (\<forall>k \<in> fst ` set es. fst e < k) \<and> sorted_keys es"
  by (auto simp: sorted_keys_def)

lemma fst_set_btree_insert: "fst ` set (btree_insert k v es) = insert k (fst ` set es)"
  by (induction k v es rule: btree_insert.induct) (auto simp: image_iff)

lemma btree_insert_sorted [intro]: "sorted_keys es \<Longrightarrow> sorted_keys (btree_insert k v es)"
proof (induction k v es rule: btree_insert.induct)
  case (1 k v)
  then show ?case by (simp add: sorted_keys_Cons)
next
  case (2 k v k' v' es)
  show ?case
  proof (cases "k < k'")
    case True
    have "\<forall>x \<in> fst ` set es. k < x"
      using "2.prems" True by (auto simp: sorted_keys_Cons dest: order.strict_trans)
    with True "2.prems" show ?thesis by (simp add: sorted_keys_Cons)
  next
    case False
    show ?thesis
    proof (cases "k = k'")
      case True
      then show ?thesis using "2.prems" by (simp add: sorted_keys_Cons)
    next
      case ne: False
      have "k' < k" using False ne by auto
      moreover have "sorted_keys (btree_insert k v es)"
        using "2.IH" False ne "2.prems" by (simp add: sorted_keys_Cons)
      ultimately show ?thesis
        using False ne "2.prems" by (simp add: sorted_keys_Cons fst_set_btree_insert)
    qed
  qed
qed

lemma map_of_btree_insert: "map_of (btree_insert k v es) = (map_of es)(k \<mapsto> v)"
  by (induction k v es rule: btree_insert.induct) (auto simp: fun_eq_iff)

lemma btree_insert_last:
  "(\<forall>k' \<in> fst ` set es. k' < k) \<Longrightarrow> btree_insert k v es = es @ [(k, v)]"
  by (induction k v es rule: btree_insert.induct) (auto dest: order.asym)

lemma fold_btree_sorted:
  "sorted_keys es \<Longrightarrow> sorted_keys (fold (\<lambda>(k, v). btree_insert k v) pairs es)"
  by (induction pairs arbitrary: es) auto

lemma btree_of_sorted [simp]: "sorted_keys (btree_of pairs)"
  by (simp add: btree_of_def fold_btree_sorted)

lemma map_of_fold_btree:
  "map_of (fold (\<lambda>(k, v). btree_insert k v) pairs es) = map_of es ++ map_of (rev pairs)"
proof (induction pairs arbitrary: es)
  case Nil
  then show ?case by simp
next
  case (Cons p pairs)
  obtain k v where "p = (k, v)" by (cases p)
  with Cons show ?case by (simp add: map_of_btree_insert map_add_def fun_eq_iff split: option.splits)
qed

lemma map_of_btree_of: "map_of (btree_of pairs) = map_of (rev pairs)"
  by (simp add: btree_of_def map_of_fold_btree)

lemma map_of_btree_of_distinct:
  assumes "distinct (map fst pairs)"
  shows "map_of (btree_of pairs) = map_of pairs"
proof -
  have "distinct (map fst (rev pairs))"
    using assms by (simp add: rev_map [symmetric])
  then have "map_of (rev pairs) = map_of pairs"
    using assms by (simp add: map_of_inject_set)
  then show ?thesis by (simp add: map_of_btree_of)
qed

lemma sorted_keys_distinct: "sorted_keys es \<Longrightarrow> distinct (map fst es)"
  unfolding sorted_keys_def by (metis strict_sorted_iff)

lemma entries_from_keys:
  assumes "distinct (map fst es)"
  shows "map (\<lambda>k. (k, the (map_of es k))) (map fst es) = es"
proof -
  have "\<And>e. e \<in> set es \<Longrightarrow> (fst e, the (map_of es (fst e))) = e"
    using assms by (metis map_of_is_SomeI option.sel prod.collapse)
  then show ?thesis by (simp add: map_idI)
qed

lemma sorted_keys_map_of_inj:
  assumes "sorted_keys xs" and "sorted_keys ys" and "map_of xs = map_of ys"
  shows "xs = ys"
proof -
  have "set (map fst xs) = set (map fst ys)"
    using assms(3) by (metis dom_map_of_conv_image_fst list.set_map)
  then have "map fst xs = map fst ys"
    using assms(1,2) unfolding sorted_keys_def
    by (metis sorted_distinct_set_unique strict_sorted_iff)
  then show ?thesis
    using assms entries_from_keys [of xs] entries_from_keys [of ys] sorted_keys_distinct by metis
qed

lemma btree_of_sorted_id: "sorted_keys es \<Longrightarrow> btree_of es = es"
  by (rule sorted_keys_map_of_inj) (simp_all add: map_of_btree_of_distinct sorted_keys_distinct)

lemma get_object: "get (object pairs) k = map_of (rev pairs) k"
  by (simp add: get_def object_def map_of_btree_of)

lemma get_VObject [simp]: "get (VObject es) k = map_of es k"
  by (simp add: get_def)

text \<open>Objects built from the same fields in another order are equal.\<close>

lemma object_order_irrelevant:
  assumes "distinct (map fst ps)" and "distinct (map fst qs)" and "set ps = set qs"
  shows "object ps = object qs"
proof -
  have "map_of (btree_of ps) = map_of (btree_of qs)"
    using assms by (simp add: map_of_btree_of_distinct map_of_inject_set)
  then show ?thesis
    unfolding object_def by (simp add: sorted_keys_map_of_inj)
qed

section \<open>Lemmas on digests\<close>

lemma hex_nibble_from_digit16: "n < 16 \<Longrightarrow> hex_nibble (from_digit16 n) = Some (of_nat n)"
  by (auto simp: hex_nibble_def from_digit16_def of_char_of Let_def)

lemma byte_nibbles:
  fixes b :: byte
  shows "push_bit 4 (drop_bit 4 b) OR (b AND 0x0F) = b"
proof -
  have "b AND 0x0F = take_bit 4 b"
    by (simp add: take_bit_eq_mask mask_eq_exp_minus_1 ac_simps)
  then show ?thesis
    by (auto intro!: bit_eqI simp: bit_simps)
qed

lemma unat_high_nibble:
  fixes b :: byte
  shows "unat (drop_bit 4 b) < 16"
proof -
  have "unat b < 256" using unsigned_less [of b, where 'a = nat] by simp
  then show ?thesis by (simp add: drop_bit_eq_div unat_div)
qed

lemma unat_low_nibble:
  fixes b :: byte
  shows "unat (b AND 0x0F) < 16"
proof -
  have "unat (b AND 0x0F) \<le> unat (0x0F :: byte)"
    by (rule word_and_le1 [THEN word_le_nat_alt [THEN iffD1]])
  then show ?thesis by simp
qed

lemma hex_bytes_byte_hex: "hex_bytes (concat (map byte_hex bs)) = Some bs"
proof (induction bs)
  case Nil
  then show ?case by simp
next
  case (Cons b bs)
  have "hex_nibble (from_digit16 (unat (drop_bit 4 b))) = Some (drop_bit 4 b)"
    and "hex_nibble (from_digit16 (unat (b AND 0x0F))) = Some (b AND 0x0F)"
    using unat_high_nibble [of b] unat_low_nibble [of b] by (simp_all add: hex_nibble_from_digit16)
  with Cons show ?case by (simp add: byte_hex_def byte_nibbles)
qed

lemma length_to_hex: "length (to_hex d) = 2 * length (as_bytes d)"
proof -
  have "length (concat (map byte_hex bs)) = 2 * length bs" for bs
    by (induction bs) (auto simp: byte_hex_def)
  then show ?thesis by (cases d) simp
qed

lemma from_display_display: "wf_digest d \<Longrightarrow> from_display (display d) = Some d"
  by (cases d) (auto simp: from_display_def display_def wf_digest_def Let_def
      hex_bytes_byte_hex length_to_hex [of "Digest _", simplified])

lemma display_inj: "wf_digest a \<Longrightarrow> wf_digest b \<Longrightarrow> display a = display b \<Longrightarrow> a = b"
  by (metis from_display_display option.inject)

lemma hex_bytes_length: "hex_bytes s = Some bs \<Longrightarrow> length s = 2 * length bs"
  by (induction s arbitrary: bs rule: hex_bytes.induct) (auto split: option.splits)

lemma from_display_wf: "from_display s = Some d \<Longrightarrow> wf_digest d"
  by (auto simp: from_display_def wf_digest_def Let_def dest!: hex_bytes_length split: if_splits)

lemma wf_digest_value [simp]: "sha_width sha \<Longrightarrow> wf_digest (value_digest sha v)"
  by (simp add: sha_width_def wf_digest_def value_digest_def digest_of_def)

end
