(* ===== verification/Utf8.thy ===== *)
theory Utf8
  imports Prelude
begin

text \<open>
  Well-formed UTF-8, as \<open>std::str::from_utf8\<close> decides it, and the encoding of one scalar
  value, as \<open>String::push\<close> performs it. The parser and the artifact paths use both. The
  lemmas give concatenation and an induction rule that walks a valid string character by
  character.
\<close>

definition in_range :: "nat \<Rightarrow> nat \<Rightarrow> char \<Rightarrow> bool" where
  "in_range lo hi c \<longleftrightarrow> lo \<le> of_char c \<and> of_char c \<le> hi"

text \<open>The byte length a first byte announces and the range of the second byte.\<close>

definition utf8_need :: "char \<Rightarrow> (nat \<times> nat \<times> nat) option" where
  "utf8_need a =
     (let x = (of_char a :: nat) in
      if x < 128 then Some (1, 0, 0)
      else if 194 \<le> x \<and> x \<le> 223 then Some (2, 128, 191)
      else if 224 \<le> x \<and> x \<le> 239 then
        Some (3, if x = 224 then 160 else 128, if x = 237 then 159 else 191)
      else if 240 \<le> x \<and> x \<le> 244 then
        Some (4, if x = 240 then 144 else 128, if x = 244 then 143 else 191)
      else None)"

definition utf8_tail :: "nat \<Rightarrow> nat \<Rightarrow> nat \<Rightarrow> string \<Rightarrow> bool" where
  "utf8_tail n lo hi w \<longleftrightarrow>
     length w = n \<and> list_all (in_range lo hi) (take 1 (drop 1 w)) \<and> list_all is_continuation (drop 2 w)"

text \<open>The byte length of the first character, when it is well formed.\<close>

definition utf8_step :: "string \<Rightarrow> nat option" where
  "utf8_step s = (case s of
     [] \<Rightarrow> None
   | a # _ \<Rightarrow> (case utf8_need a of
       None \<Rightarrow> None
     | Some (n, lo, hi) \<Rightarrow> if utf8_tail n lo hi (take n s) then Some n else None))"

lemma utf8_need_pos: "utf8_need a = Some (n, lo, hi) \<Longrightarrow> 0 < n"
  by (auto simp: utf8_need_def Let_def split: if_splits)

lemma utf8_step_SomeE:
  assumes "utf8_step s = Some n"
  obtains a s' lo hi where "s = a # s'" and "utf8_need a = Some (n, lo, hi)"
    and "utf8_tail n lo hi (take n s)"
  using assms by (auto simp: utf8_step_def split: list.splits option.splits if_splits)

lemma utf8_step_bounds: "utf8_step s = Some n \<Longrightarrow> 0 < n \<and> n \<le> length s"
  by (erule utf8_step_SomeE) (auto simp: utf8_tail_def dest: utf8_need_pos)

function utf8_valid :: "string \<Rightarrow> bool" where
  "utf8_valid s = (s = [] \<or> (case utf8_step s of None \<Rightarrow> False | Some n \<Rightarrow> utf8_valid (drop n s)))"
  by pat_completeness auto
termination
  by (relation "measure length") (auto dest: utf8_step_bounds)

declare utf8_valid.simps [simp del]

text \<open>The bytes \<open>String::push\<close> appends for a scalar value of the basic plane.\<close>

definition utf8_encode :: "nat \<Rightarrow> string" where
  "utf8_encode code =
     (if code < 128 then [char_of code]
      else if code < 2048 then [char_of (192 + code div 64), char_of (128 + code mod 64)]
      else [char_of (224 + code div 4096), char_of (128 + (code div 64) mod 64),
            char_of (128 + code mod 64)])"

lemma utf8_valid_Nil [simp]: "utf8_valid []"
  by (simp add: utf8_valid.simps)

lemma utf8_step_cong:
  assumes "utf8_step s = Some n" and "take n t = take n s"
  shows "utf8_step t = Some n"
proof -
  obtain a s' lo hi where s: "s = a # s'" "utf8_need a = Some (n, lo, hi)"
    "utf8_tail n lo hi (take n s)"
    using assms(1) by (rule utf8_step_SomeE)
  have "0 < n" using s(2) by (rule utf8_need_pos)
  then obtain t' where "t = a # t'"
    using assms(2) s(1) by (cases t) (auto simp: take_Cons')
  then show ?thesis using s assms(2) by (simp add: utf8_step_def)
qed

lemma utf8_step_append: "utf8_step s = Some n \<Longrightarrow> utf8_step (s @ t) = Some n"
  using utf8_step_bounds [of s n] by (auto intro: utf8_step_cong)

lemma utf8_step_take: "utf8_step s = Some n \<Longrightarrow> utf8_step (take n s) = Some n"
  by (erule utf8_step_cong) simp

lemma utf8_valid_step:
  "utf8_step w = Some (length w) \<Longrightarrow> utf8_valid (w @ t) = utf8_valid t"
  by (subst utf8_valid.simps) (auto simp: utf8_step_append utf8_step_def [of "[]"])

lemma utf8_valid_induct [consumes 1, case_names Nil Char]:
  assumes "utf8_valid s" and "P []"
    and "\<And>w t. utf8_step w = Some (length w) \<Longrightarrow> utf8_valid t \<Longrightarrow> P t \<Longrightarrow> P (w @ t)"
  shows "P s"
  using assms(1)
proof (induction s rule: utf8_valid.induct)
  case (1 s)
  show ?case
  proof (cases "s = []")
    case True
    with assms(2) show ?thesis by simp
  next
    case False
    with "1.prems" obtain n where n: "utf8_step s = Some n" "utf8_valid (drop n s)"
      by (subst (asm) utf8_valid.simps) (auto split: option.splits)
    have "n \<le> length s" using n(1) utf8_step_bounds by blast
    then have "utf8_step (take n s) = Some (length (take n s))"
      using utf8_step_take [OF n(1)] by simp
    from assms(3) [OF this n(2)] "1.IH" [OF n(1) n(2)]
    show ?thesis by simp
  qed
qed

lemma utf8_valid_append: "utf8_valid a \<Longrightarrow> utf8_valid b \<Longrightarrow> utf8_valid (a @ b)"
  by (induction a rule: utf8_valid_induct) (simp_all add: utf8_valid_step)

lemma utf8_step_ascii [simp]: "(of_char c :: nat) < 128 \<Longrightarrow> utf8_step (c # s) = Some 1"
  by (simp add: utf8_step_def utf8_need_def utf8_tail_def)

lemma utf8_step_one: "utf8_step (c # s) = Some 1 \<Longrightarrow> (of_char c :: nat) < 128"
  by (erule utf8_step_SomeE) (auto simp: utf8_need_def Let_def split: if_splits)

lemma utf8_step_high:
  assumes "utf8_step s = Some n" and "n \<noteq> 1"
  shows "\<forall>c \<in> set (take n s). 128 \<le> (of_char c :: nat)"
proof -
  obtain a s' lo hi where s: "s = a # s'" "utf8_need a = Some (n, lo, hi)"
    "utf8_tail n lo hi (take n s)"
    using assms(1) by (rule utf8_step_SomeE)
  have a: "128 \<le> (of_char a :: nat)" "128 \<le> lo"
    using s(2) assms(2) by (auto simp: utf8_need_def Let_def split: if_splits)
  define w where "w = take (n - 1) s'"
  have w: "take n s = a # w"
    using s(1,2) utf8_need_pos by (auto simp: w_def take_Cons')
  have "list_all (in_range lo hi) (take 1 w)" "list_all is_continuation (drop 1 w)"
    using s(3) unfolding w by (auto simp: utf8_tail_def numeral_2_eq_2)
  then have "\<forall>c \<in> set w. 128 \<le> (of_char c :: nat)"
    using a(2) by (cases w) (auto simp: list_all_iff in_range_def is_continuation_def)
  then show ?thesis using a(1) w by simp
qed

lemma utf8_valid_Cons_ascii:
  "(of_char c :: nat) < 128 \<Longrightarrow> utf8_valid (c # s) = utf8_valid s"
  using utf8_valid_step [of "[c]" s] by simp

lemma utf8_valid_ascii: "\<forall>c \<in> set s. (of_char c :: nat) < 128 \<Longrightarrow> utf8_valid s"
  by (induction s) (auto simp: utf8_valid_Cons_ascii)

lemma utf8_valid_concat: "\<forall>w \<in> set ws. utf8_valid w \<Longrightarrow> utf8_valid (concat ws)"
  by (induction ws) (auto simp: utf8_valid_append)

lemma utf8_valid_tail:
  assumes "utf8_valid (c # s)" and "(of_char c :: nat) < 128"
  shows "utf8_valid s"
  using assms by (simp add: utf8_valid_Cons_ascii)

text \<open>One character off the front of a valid string leaves a valid string.\<close>

lemma utf8_valid_drop_step:
  assumes "utf8_valid s" and "s \<noteq> []"
  obtains n where "utf8_step s = Some n" and "utf8_valid (drop n s)" and "utf8_valid (take n s)"
proof -
  from assms obtain n where n: "utf8_step s = Some n" "utf8_valid (drop n s)"
    by (subst (asm) utf8_valid.simps) (auto split: option.splits)
  have "n \<le> length s" using n(1) utf8_step_bounds by blast
  then have "utf8_step (take n s) = Some (length (take n s))"
    using utf8_step_take [OF n(1)] by simp
  from utf8_valid_step [OF this, of "[]"] have "utf8_valid (take n s)" by simp
  with n that show ?thesis by blast
qed

lemma utf8_valid_encode:
  assumes "code < 65536" and "\<not> (55296 \<le> code \<and> code < 57344)"
  shows "utf8_valid (utf8_encode code)"
proof -
  have "utf8_step (utf8_encode code) = Some (length (utf8_encode code))"
  proof -
    consider "code < 128" | "128 \<le> code" "code < 2048" | "2048 \<le> code" by linarith
    then show ?thesis
    proof cases
      case 1
      then show ?thesis by (simp add: utf8_encode_def utf8_step_def utf8_need_def utf8_tail_def of_char_of)
    next
      case 2
      have "code div 64 < 32" using 2 by linarith
      moreover have "2 \<le> code div 64" using 2 by linarith
      moreover have "code mod 64 < 64" by simp
      ultimately show ?thesis
        using 2 by (simp add: utf8_encode_def utf8_step_def utf8_need_def utf8_tail_def of_char_of is_continuation_def in_range_def)
    next
      case 3
      have d: "code div 4096 < 16" using assms(1) by linarith
      have m: "code div 64 mod 64 < 64" "code mod 64 < 64" by simp_all
      have q: "code div 4096 = code div 64 div 64"
        by (simp add: div_mult2_eq [symmetric])
      have split: "code div 64 = 64 * (code div 64 div 64) + code div 64 mod 64"
        "code = 64 * (code div 64) + code mod 64" by simp_all
      have z: "code div 4096 = 0 \<Longrightarrow> 32 \<le> code div 64 mod 64"
        using 3 q split m by linarith
      have t: "code div 4096 = 13 \<Longrightarrow> code div 64 mod 64 < 32"
        using assms(2) q split m by linarith
      have enc: "utf8_encode code = [char_of (224 + code div 4096),
          char_of (128 + code div 64 mod 64), char_of (128 + code mod 64)]"
        using 3 by (simp add: utf8_encode_def)
      define f e g where "f = code div 4096" and "e = code div 64 mod 64" and "g = code mod 64"
      note facts = d m z t
      have fs: "f < 16" "e < 64" "g < 64" "f = 0 \<Longrightarrow> 32 \<le> e" "f = 13 \<Longrightarrow> e < 32"
        using facts unfolding f_def e_def g_def by blast+
      then have "utf8_step [char_of (224 + f), char_of (128 + e), char_of (128 + g)] = Some 3"
        by (auto simp: utf8_step_def utf8_need_def utf8_tail_def of_char_of
            is_continuation_def in_range_def Let_def)
      then show ?thesis by (simp add: enc f_def e_def g_def)
    qed
  qed
  from utf8_valid_step [OF this, of "[]"] show ?thesis by simp
qed

end
