(* ===== verification/Parse_Progress.thy ===== *)
theory Parse_Progress
  imports Parse
begin

text \<open>
  Progress of the source parser: what each method consumes, that the methods move the
  parser forward and never past the end, and that the fuel \<open>parse\<close> supplies is enough
  on every input, so that \<open>parse\<close> always returns what the source returns.
\<close>

section \<open>The remaining input\<close>

lemma peek_remaining: "peek p = (case remaining p of [] \<Rightarrow> None | c # _ \<Rightarrow> Some c)"
  by (cases "offset p < length (bytes p)")
    (auto simp: peek_def remaining_def Cons_nth_drop_Suc [symmetric])

lemma remaining_advance [simp]: "remaining (advance n p) = drop n (remaining p)"
  by (simp add: remaining_def add.commute)

lemma advance_advance [simp]: "advance m (advance n p) = advance (n + m) p"
  by (simp add: advance_def)

lemma advance_0 [simp]: "advance 0 p = p"
  by (simp add: advance_def)

lemma length_remaining: "length (remaining p) = length (bytes p) - offset p"
  by (simp add: remaining_def)

lemma skip_while_eq: "skip_while P p = advance (length (takeWhile P (remaining p))) p"
proof (induction P p rule: skip_while.induct)
  case (1 P p)
  show ?case
  proof (cases "remaining p")
    case Nil
    then show ?thesis by (simp add: skip_while.simps [of P p] peek_remaining)
  next
    case (Cons c r)
    then have p: "peek p = Some c" by (simp add: peek_remaining)
    show ?thesis
    proof (cases "P c")
      case True
      with "1" p Cons show ?thesis by (simp add: skip_while.simps [of P p])
    next
      case False
      with p Cons show ?thesis by (simp add: skip_while.simps [of P p])
    qed
  qed
qed

lemma skip_whitespace_none:
  "remaining p = c # r \<Longrightarrow> \<not> is_ws c \<Longrightarrow> skip_whitespace p = p"
  by (simp add: skip_whitespace_def skip_while_eq)

lemma skip_whitespace_end: "remaining p = [] \<Longrightarrow> skip_whitespace p = p"
  by (simp add: skip_whitespace_def skip_while_eq)

section \<open>Progress\<close>

text \<open>How far a successful step may move the parser.\<close>

definition moved :: "nat \<Rightarrow> parser \<Rightarrow> parser \<Rightarrow> bool" where
  "moved k p q \<longleftrightarrow> bytes q = bytes p \<and> offset p + k \<le> offset q \<and> offset q \<le> length (bytes q)"

lemma moved_bytes: "moved k p q \<Longrightarrow> bytes q = bytes p"
  by (simp add: moved_def)

lemma moved_trans: "moved j p q \<Longrightarrow> moved k q r \<Longrightarrow> moved (j + k) p r"
  by (auto simp: moved_def)

lemma moved_remaining:
  "moved k p q \<Longrightarrow> length (remaining q) + k \<le> length (remaining p)"
  by (auto simp: moved_def length_remaining)

lemma moved_advance: "n \<le> length (remaining p) \<Longrightarrow> 0 < n \<Longrightarrow> moved n p (advance n p)"
  by (auto simp: moved_def length_remaining)

lemma moved_skip: "moved k p q \<Longrightarrow> moved k p (skip_whitespace q)"
proof -
  assume m: "moved k p q"
  have "length (takeWhile is_ws (remaining q)) \<le> length (bytes q) - offset q"
    using length_takeWhile_le [of is_ws "remaining q"] by (simp add: length_remaining)
  with m show ?thesis
    by (auto simp: moved_def skip_whitespace_def skip_while_eq)
qed

lemma moved_skip_first:
  assumes "moved k (skip_whitespace p) q" shows "moved k p q"
  using assms by (auto simp: moved_def skip_whitespace_def skip_while_eq)

lemma moved_peek: "moved k p q \<Longrightarrow> peek q = Some c \<Longrightarrow> moved (Suc k) p (advance 1 q)"
  by (auto simp: moved_def dest: peek_bound)

lemma peek_moved: "peek p = Some c \<Longrightarrow> moved (Suc 0) p (advance (Suc 0) p)"
  by (auto simp: moved_def dest: peek_bound)

lemma moved_weaken: "moved k p q \<Longrightarrow> j \<le> k \<Longrightarrow> moved j p q"
  by (auto simp: moved_def)

lemma expect_moved: "expect b p = Inr (u, q) \<Longrightarrow> q = advance 1 p \<and> peek p = Some b \<and> moved (Suc 0) p q"
  by (auto simp: expect_def peek_moved split: if_splits)

lemma literal_moved: "literal w v p = Inr (x, q) \<Longrightarrow> w \<noteq> [] \<Longrightarrow> x = v \<and> moved (Suc 0) p q"
proof -
  assume *: "literal w v p = Inr (x, q)" "w \<noteq> []"
  then have "length w \<le> length (remaining p)" and q: "q = advance (length w) p" "x = v"
    by (auto simp: literal_def starts_with_iff split: if_splits)
  then have "moved (length w) p q" using *(2) by (simp add: moved_advance)
  with *(2) q show ?thesis by (auto intro: moved_weaken simp: Suc_le_eq)
qed

lemma p_integer_moved: "p_integer p = Inr (v, q) \<Longrightarrow> moved (Suc 0) p q"
proof -
  assume *: "p_integer p = Inr (v, q)"
  define p1 where "p1 = (if peek p = Some (CHR ''-'') then advance 1 p else p)"
  have q: "q = skip_while is_digit p1" and ne: "offset q \<noteq> offset p1"
    using * by (auto simp: p_integer_def Let_def p1_def split: if_splits option.splits)
  define k where "k = length (takeWhile is_digit (remaining p1))"
  have k: "q = advance k p1" "k \<le> length (remaining p1)"
    by (simp_all add: q k_def skip_while_eq length_takeWhile_le)
  with ne have "moved k p1 q" "0 < k" by (auto intro: moved_advance)
  then have "moved (Suc 0) p1 q" by (auto intro: moved_weaken)
  then show ?thesis by (auto simp: p1_def moved_def split: if_splits)
qed

lemma p_string_loop_moved: "p_string_loop out p = Inr (s, q) \<Longrightarrow> moved (Suc 0) p q"
proof (induction out p rule: p_string_loop.induct)
  case (1 out p)
  obtain b where b: "peek p = Some b"
    using "1.prems" by (subst (asm) p_string_loop.simps) (auto split: option.splits)
  note simps = p_string_loop.simps [of out p]
  consider "b = CHR 0x22" | "b = CHR 0x5C" | "b \<noteq> CHR 0x22" "b \<noteq> CHR 0x5C" by blast
  then show ?case
  proof cases
    case 1
    with b "1.prems" show ?thesis by (auto simp: simps peek_moved)
  next
    case esc: 2
    obtain e where e: "peek (advance 1 p) = Some e"
      using b esc "1.prems" by (auto simp: simps split: option.splits)
    have two: "moved 2 p (advance 2 p)"
      using e by (auto simp: moved_def dest: peek_bound)
    show ?thesis
    proof (cases "simple_escape e")
      case (Some w)
      with b esc e "1.prems" have "p_string_loop (out @ w) (advance 2 p) = Inr (s, q)"
        by (simp add: simps)
      from "1.IH"(2) [OF b _ esc e Some this] esc show ?thesis
        using two by (auto dest: moved_trans intro: moved_weaken)
    next
      case None
      with b esc e "1.prems" obtain w q' where u: "e = CHR ''u''"
        "p_unicode_escape (advance 2 p) = Inr (w, q')" "p_string_loop (out @ w) q' = Inr (s, q)"
        by (auto simp: simps split: if_splits sum.splits)
      have "moved 2 p q'"
        using p_unicode_escape_Inr [OF u(2)] two by (auto simp: moved_def)
      moreover have "moved (Suc 0) q' q"
        using "1.IH"(1) [OF b _ esc e None u(1,2) refl u(3)] esc by auto
      ultimately show ?thesis by (auto dest: moved_trans intro: moved_weaken)
    qed
  next
    case oth: 3
    obtain n where n: "\<not> (of_char b :: nat) < 32" "utf8_valid (remaining p)"
      "utf8_step (remaining p) = Some n"
      "p_string_loop (out @ take n (remaining p)) (advance n p) = Inr (s, q)"
      using b oth "1.prems" by (auto simp: simps split: if_splits option.splits)
    have "moved n p (advance n p)"
      using utf8_step_bounds [OF n(3)] by (auto intro: moved_advance)
    moreover have "moved (Suc 0) (advance n p) q"
      using "1.IH"(3) [OF b oth n(1) _ n(3,4)] n(2) by simp
    ultimately show ?thesis by (auto dest: moved_trans intro: moved_weaken)
  qed
qed

lemma p_string_moved: "p_string p = Inr (s, q) \<Longrightarrow> moved (Suc 0) p q"
  by (auto simp: p_string_def res_simps dest!: expect_moved p_string_loop_moved
      dest: moved_trans intro: moved_weaken)

section \<open>Values move the parser\<close>

lemma bindF_Inr_iff:
  "bindF m f = Some (Inr y) \<longleftrightarrow> (\<exists>x p. m = Some (Inr (x, p)) \<and> f x p = Some (Inr y))"
  by (auto simp: bindF_def split: option.splits sum.splits prod.splits)

lemma bindF_None_iff:
  "bindF m f = None \<longleftrightarrow> m = None \<or> (\<exists>x p. m = Some (Inr (x, p)) \<and> f x p = None)"
  by (auto simp: bindF_def split: option.splits sum.splits prod.splits)

lemma bindF_Some_Inr [simp]: "bindF (Some (Inr (x, p))) f = f x p"
  by (simp add: bindF_def)

lemma bindF_Some_Inl [simp]: "bindF (Some (Inl e)) f = Some (Inl e)"
  by (simp add: bindF_def)

lemma p_value_cases:
  assumes "p_value (Suc n) p = Some (Inr (v, q))"
  obtains (Lit) w x where "w \<noteq> []" and "literal w x p = Inr (v, q)"
    and "x \<in> {VNull, VBool True, VBool False}" and "\<forall>c \<in> set w. (of_char c :: nat) < 128"
  | (Str) s where "p_string p = Inr (s, q)" and "v = VString s"
  | (Arr) "p_array n p = Some (Inr (v, q))"
  | (Obj) "p_object n p = Some (Inr (v, q))"
  | (Int) "p_integer p = Inr (v, q)"
proof -
  obtain b where b: "peek p = Some b"
    using assms by (cases "peek p") auto
  note r = assms [unfolded p_value.simps b option.case]
  show ?thesis
  proof (cases "b = CHR ''n'' \<or> b = CHR ''t'' \<or> b = CHR ''f''")
    case True
    then show ?thesis
      using r Lit [of "''null''" VNull] Lit [of "''true''" "VBool True"]
        Lit [of "''false''" "VBool False"] by auto
  next
    case False
    then have nl: "b \<noteq> CHR ''n''" "b \<noteq> CHR ''t''" "b \<noteq> CHR ''f''" by simp_all
    note r = r [simplified nl if_False]
    consider "b = CHR 0x22" | "b = CHR ''[''" | "b = CHR 0x7B"
      | "b \<noteq> CHR 0x22" "b \<noteq> CHR ''[''" "b \<noteq> CHR 0x7B" by blast
    then show ?thesis
    proof cases
      case 1
      then show ?thesis using r Str by (auto simp: bindF_Inr_iff)
    next
      case 2
      then show ?thesis using r Arr by auto
    next
      case 3
      then show ?thesis using r Obj by auto
    next
      case 4
      then show ?thesis using r Int by (simp split: if_splits)
    qed
  qed
qed

lemma p_value_moved_step:
  assumes "p_value (Suc n) p = Some (Inr (v, q))"
    and "\<And>v q. p_array n p = Some (Inr (v, q)) \<Longrightarrow> moved (Suc 0) p q"
    and "\<And>v q. p_object n p = Some (Inr (v, q)) \<Longrightarrow> moved (Suc 0) p q"
  shows "moved (Suc 0) p q"
  using assms(1)
proof (cases rule: p_value_cases)
  case (Lit w x)
  then show ?thesis using literal_moved by blast
qed (use assms(2,3) p_string_moved p_integer_moved in blast)+

lemma p_array_moved_step:
  assumes "p_array (Suc n) p = Some (Inr (v, q))"
    and "\<And>p q vs v. p_array_loop n vs p = Some (Inr (v, q)) \<Longrightarrow> moved (Suc 0) p q"
  shows "moved (Suc 0) p q"
proof -
  obtain p1 where p1: "expect (CHR ''['') p = Inr ((), p1)"
    and r: "(let p2 = skip_whitespace p1 in
        if peek p2 = Some (CHR '']'') then Some (Inr (VArray [], advance 1 p2))
        else p_array_loop n [] p2) = Some (Inr (v, q))"
    using assms(1) by (auto simp: bindF_Inr_iff)
  have m: "moved (Suc 0) p (skip_whitespace p1)"
    using expect_moved [OF p1] by (auto intro: moved_skip)
  show ?thesis
  proof (cases "peek (skip_whitespace p1) = Some (CHR '']'')")
    case True
    with r moved_peek [OF m True] show ?thesis by (auto simp: Let_def moved_def)
  next
    case False
    with r have "moved (Suc 0) (skip_whitespace p1) q" using assms(2) by (simp add: Let_def)
    with m show ?thesis by (auto simp: moved_def)
  qed
qed

lemma p_object_moved_step:
  assumes "p_object (Suc n) p = Some (Inr (v, q))"
    and "\<And>p q es v. p_object_loop n es p = Some (Inr (v, q)) \<Longrightarrow> moved (Suc 0) p q"
  shows "moved (Suc 0) p q"
proof -
  obtain p1 where p1: "expect (CHR 0x7B) p = Inr ((), p1)"
    and r: "(let p2 = skip_whitespace p1 in
        if peek p2 = Some (CHR 0x7D) then Some (Inr (VObject [], advance 1 p2))
        else p_object_loop n [] p2) = Some (Inr (v, q))"
    using assms(1) by (auto simp: bindF_Inr_iff)
  have m: "moved (Suc 0) p (skip_whitespace p1)"
    using expect_moved [OF p1] by (auto intro: moved_skip)
  show ?thesis
  proof (cases "peek (skip_whitespace p1) = Some (CHR 0x7D)")
    case True
    with r moved_peek [OF m True] show ?thesis by (auto simp: Let_def moved_def)
  next
    case False
    with r have "moved (Suc 0) (skip_whitespace p1) q" using assms(2) by (simp add: Let_def)
    with m show ?thesis by (auto simp: moved_def)
  qed
qed

text \<open>One element of an array, up to its separator.\<close>

lemma p_array_loop_cases:
  assumes "p_array_loop (Suc n) vs p = Some (Inr (w, q))"
  obtains v p1 where "p_value n (skip_whitespace p) = Some (Inr (v, p1))"
    and "peek (skip_whitespace p1) = Some (CHR '','')"
    and "p_array_loop n (vs @ [v]) (advance 1 (skip_whitespace p1)) = Some (Inr (w, q))"
  | v p1 where "p_value n (skip_whitespace p) = Some (Inr (v, p1))"
    and "peek (skip_whitespace p1) = Some (CHR '']'')"
    and "w = VArray (vs @ [v])" and "q = advance 1 (skip_whitespace p1)"
  using assms by (auto simp: bindF_Inr_iff Let_def split: if_splits)

text \<open>One member of an object, up to its separator.\<close>

lemma p_object_loop_cases:
  assumes "p_object_loop (Suc n) es p = Some (Inr (w, q))"
  obtains key p1 p2 v p3 where "p_string (skip_whitespace p) = Inr (key, p1)"
    and "map_of es key = None" and "expect (CHR '':'') (skip_whitespace p1) = Inr ((), p2)"
    and "p_value n (skip_whitespace p2) = Some (Inr (v, p3))"
    and "peek (skip_whitespace p3) = Some (CHR '','') \<and>
         p_object_loop n (btree_insert key v es) (advance 1 (skip_whitespace p3)) = Some (Inr (w, q))
       \<or> peek (skip_whitespace p3) = Some (CHR 0x7D) \<and>
         w = VObject (btree_insert key v es) \<and> q = advance 1 (skip_whitespace p3)"
  using assms by (auto simp: bindF_Inr_iff Let_def split: if_splits)

lemma p_object_loop_member_moved:
  assumes "p_string (skip_whitespace p) = Inr (key, p1)"
    and "expect (CHR '':'') (skip_whitespace p1) = Inr ((), p2)"
    and "moved (Suc 0) (skip_whitespace p2) p3" and "peek (skip_whitespace p3) = Some c"
  shows "moved 2 p (skip_whitespace p2)" and "moved 4 p (advance 1 (skip_whitespace p3))"
proof -
  have "moved (Suc 0) p p1" using p_string_moved [OF assms(1)] by (rule moved_skip_first)
  moreover have "moved (Suc 0) p1 p2"
    using expect_moved [OF assms(2)] by (auto intro: moved_skip_first)
  ultimately have "moved 2 p p2" by (auto simp: moved_def)
  then show m: "moved 2 p (skip_whitespace p2)" by (rule moved_skip)
  have "moved 3 p p3" using moved_trans [OF m assms(3)] by simp
  then have "moved 3 p (skip_whitespace p3)" by (rule moved_skip)
  from moved_peek [OF this assms(4)] show "moved 4 p (advance 1 (skip_whitespace p3))" by simp
qed

lemma p_loops_moved_step:
  assumes "\<And>p q v. p_value n p = Some (Inr (v, q)) \<Longrightarrow> moved (Suc 0) p q"
    and "\<And>p q vs v. p_array_loop n vs p = Some (Inr (v, q)) \<Longrightarrow> moved (Suc 0) p q"
    and "\<And>p q es v. p_object_loop n es p = Some (Inr (v, q)) \<Longrightarrow> moved (Suc 0) p q"
  shows "p_array_loop (Suc n) vs p = Some (Inr (w, q)) \<Longrightarrow> moved (Suc 0) p q"
    and "p_object_loop (Suc n) es p = Some (Inr (w, q)) \<Longrightarrow> moved (Suc 0) p q"
proof -
  have elem: "moved 2 p (advance 1 (skip_whitespace p1))"
    if "p_value n (skip_whitespace p) = Some (Inr (v, p1))" "peek (skip_whitespace p1) = Some c"
    for v p1 c
  proof -
    have "moved (Suc 0) p (skip_whitespace p1)"
      using assms(1) [OF that(1)] by (auto intro: moved_skip moved_skip_first)
    from moved_peek [OF this that(2)] show ?thesis by (simp add: numeral_2_eq_2)
  qed
  show "p_array_loop (Suc n) vs p = Some (Inr (w, q)) \<Longrightarrow> moved (Suc 0) p q"
    by (erule p_array_loop_cases)
      (auto dest!: elem assms(2) simp: moved_def)
  assume "p_object_loop (Suc n) es p = Some (Inr (w, q))"
  then show "moved (Suc 0) p q"
  proof (rule p_object_loop_cases)
    fix key p1 p2 v p3
    assume s: "p_string (skip_whitespace p) = Inr (key, p1)"
      "expect (CHR '':'') (skip_whitespace p1) = Inr ((), p2)"
      "p_value n (skip_whitespace p2) = Some (Inr (v, p3))"
      and d: "peek (skip_whitespace p3) = Some (CHR '','') \<and>
         p_object_loop n (btree_insert key v es) (advance 1 (skip_whitespace p3)) = Some (Inr (w, q))
       \<or> peek (skip_whitespace p3) = Some (CHR 0x7D) \<and>
         w = VObject (btree_insert key v es) \<and> q = advance 1 (skip_whitespace p3)"
    from d obtain c where c: "peek (skip_whitespace p3) = Some c" by blast
    have m: "moved 4 p (advance 1 (skip_whitespace p3))"
      using p_object_loop_member_moved(2) [OF s(1,2) assms(1) [OF s(3)] c] .
    from d show ?thesis
      using m by (auto dest!: assms(3) simp: moved_def)
  qed
qed

lemma p_value_moved_all:
  "(\<forall>p v q. p_value n p = Some (Inr (v, q)) \<longrightarrow> moved (Suc 0) p q) \<and>
   (\<forall>p v q. p_array n p = Some (Inr (v, q)) \<longrightarrow> moved (Suc 0) p q) \<and>
   (\<forall>p vs v q. p_array_loop n vs p = Some (Inr (v, q)) \<longrightarrow> moved (Suc 0) p q) \<and>
   (\<forall>p v q. p_object n p = Some (Inr (v, q)) \<longrightarrow> moved (Suc 0) p q) \<and>
   (\<forall>p es v q. p_object_loop n es p = Some (Inr (v, q)) \<longrightarrow> moved (Suc 0) p q)"
proof (induction n)
  case 0
  then show ?case by simp
next
  case (Suc n)
  note IH = Suc.IH
  show ?case
  proof (intro conjI allI impI)
    fix p v q assume "p_value (Suc n) p = Some (Inr (v, q))"
    then show "moved (Suc 0) p q" by (rule p_value_moved_step) (use IH in blast)+
  next
    fix p v q assume "p_array (Suc n) p = Some (Inr (v, q))"
    then show "moved (Suc 0) p q" by (rule p_array_moved_step) (use IH in blast)
  next
    fix p vs v q assume "p_array_loop (Suc n) vs p = Some (Inr (v, q))"
    then show "moved (Suc 0) p q" by (rule p_loops_moved_step(1) [rotated 3]) (use IH in blast)+
  next
    fix p v q assume "p_object (Suc n) p = Some (Inr (v, q))"
    then show "moved (Suc 0) p q" by (rule p_object_moved_step) (use IH in blast)
  next
    fix p es v q assume "p_object_loop (Suc n) es p = Some (Inr (v, q))"
    then show "moved (Suc 0) p q" by (rule p_loops_moved_step(2) [rotated 3]) (use IH in blast)+
  qed
qed

lemmas p_value_moved = p_value_moved_all [THEN conjunct1, rule_format]

section \<open>The fuel is enough\<close>

lemma bindF_not_None:
  "m \<noteq> None \<Longrightarrow> (\<And>x p. m = Some (Inr (x, p)) \<Longrightarrow> f x p \<noteq> None) \<Longrightarrow> bindF m f \<noteq> None"
  by (auto simp: bindF_None_iff)

lemma peek_Some_remaining: "peek p = Some c \<Longrightarrow> 0 < length (remaining p)"
  by (cases "remaining p") (auto simp: peek_remaining)

lemma skip_remaining_le: "length (remaining (skip_whitespace p)) \<le> length (remaining p)"
  by (simp add: skip_whitespace_def skip_while_eq)

lemma p_value_total_step:
  assumes "\<And>p. 3 * length (remaining p) \<le> n \<Longrightarrow> peek p \<noteq> None \<Longrightarrow> p_array n p \<noteq> None"
    and "\<And>p. 3 * length (remaining p) \<le> n \<Longrightarrow> peek p \<noteq> None \<Longrightarrow> p_object n p \<noteq> None"
    and "3 * length (remaining p) + 1 \<le> Suc n"
  shows "p_value (Suc n) p \<noteq> None"
  using assms by (auto simp: bindF_None_iff split: option.splits)

lemma p_array_total_step:
  assumes "\<And>p vs. 3 * length (remaining p) + 2 \<le> n \<Longrightarrow> p_array_loop n vs p \<noteq> None"
    and "3 * length (remaining p) \<le> Suc n"
  shows "p_array (Suc n) p \<noteq> None"
proof -
  have loop: "p_array_loop n [] (skip_whitespace q) \<noteq> None" if "expect c p = Inr (u, q)" for c u q
  proof (rule assms(1))
    have "length (remaining (skip_whitespace q)) + 1 \<le> length (remaining p)"
      using expect_moved [OF that] skip_remaining_le [of q] by (auto dest!: moved_remaining)
    with assms(2) show "3 * length (remaining (skip_whitespace q)) + 2 \<le> n" by linarith
  qed
  show ?thesis
    unfolding p_array.simps
    by (rule bindF_not_None) (auto simp: Let_def dest!: loop)
qed

lemma p_object_total_step:
  assumes "\<And>p es. 3 * length (remaining p) + 2 \<le> n \<Longrightarrow> p_object_loop n es p \<noteq> None"
    and "3 * length (remaining p) \<le> Suc n"
  shows "p_object (Suc n) p \<noteq> None"
proof -
  have loop: "p_object_loop n [] (skip_whitespace q) \<noteq> None" if "expect c p = Inr (u, q)" for c u q
  proof (rule assms(1))
    have "length (remaining (skip_whitespace q)) + 1 \<le> length (remaining p)"
      using expect_moved [OF that] skip_remaining_le [of q] by (auto dest!: moved_remaining)
    with assms(2) show "3 * length (remaining (skip_whitespace q)) + 2 \<le> n" by linarith
  qed
  show ?thesis
    unfolding p_object.simps
    by (rule bindF_not_None) (auto simp: Let_def dest!: loop)
qed

lemma after_value_remaining:
  assumes "p_value n p = Some (Inr (v, q))" and "peek (skip_whitespace q) = Some c"
  shows "length (remaining (advance 1 (skip_whitespace q))) + 2 \<le> length (remaining p)"
proof -
  have "moved (Suc 0) p (skip_whitespace q)"
    using p_value_moved [OF assms(1)] by (rule moved_skip)
  from moved_remaining [OF moved_peek [OF this assms(2)]] show ?thesis by simp
qed

lemma p_array_loop_total_step:
  assumes "\<And>p. 3 * length (remaining p) + 1 \<le> n \<Longrightarrow> p_value n p \<noteq> None"
    and "\<And>p vs. 3 * length (remaining p) + 2 \<le> n \<Longrightarrow> p_array_loop n vs p \<noteq> None"
    and "3 * length (remaining p) + 2 \<le> Suc n"
  shows "p_array_loop (Suc n) vs p \<noteq> None"
proof -
  have le: "length (remaining (skip_whitespace p)) \<le> length (remaining p)"
    by (rule skip_remaining_le)
  have v: "p_value n (skip_whitespace p) \<noteq> None"
    by (rule assms(1)) (use le assms(3) in linarith)
  have l: "p_array_loop n ws (advance 1 (skip_whitespace q)) \<noteq> None"
    if "p_value n (skip_whitespace p) = Some (Inr (w, q))" "peek (skip_whitespace q) = Some c"
    for ws w q c
    by (rule assms(2)) (use le assms(3) after_value_remaining [OF that] in linarith)
  show ?thesis using v l by (auto simp: bindF_None_iff Let_def split: if_splits)
qed

lemma p_object_loop_total_step:
  assumes "\<And>p. 3 * length (remaining p) + 1 \<le> n \<Longrightarrow> p_value n p \<noteq> None"
    and "\<And>p es. 3 * length (remaining p) + 2 \<le> n \<Longrightarrow> p_object_loop n es p \<noteq> None"
    and "3 * length (remaining p) + 2 \<le> Suc n"
  shows "p_object_loop (Suc n) es p \<noteq> None"
proof -
  have key: "length (remaining (skip_whitespace p2)) \<le> length (remaining p)"
    if "p_string (skip_whitespace p) = Inr (key, p1)"
      "expect c (skip_whitespace p1) = Inr (u, p2)" for key p1 c u p2
  proof -
    have "moved (Suc 0) p p1" using p_string_moved [OF that(1)] by (rule moved_skip_first)
    moreover have "moved (Suc 0) p1 p2"
      using expect_moved [OF that(2)] by (auto intro: moved_skip_first)
    ultimately show ?thesis
      using skip_remaining_le [of p2] by (auto dest!: moved_remaining)
  qed
  have v: "p_value n (skip_whitespace p2) \<noteq> None"
    if "p_string (skip_whitespace p) = Inr (key, p1)"
      "expect c (skip_whitespace p1) = Inr (u, p2)" for key p1 c u p2
    by (rule assms(1)) (use key [OF that] assms(3) in linarith)
  have l: "p_object_loop n es' (advance 1 (skip_whitespace q)) \<noteq> None"
    if "p_string (skip_whitespace p) = Inr (key, p1)"
      "expect c (skip_whitespace p1) = Inr (u, p2)"
      "p_value n (skip_whitespace p2) = Some (Inr (w, q))" "peek (skip_whitespace q) = Some d"
    for key p1 c u p2 es' w q d
    by (rule assms(2)) (use key [OF that(1,2)] assms(3) after_value_remaining [OF that(3,4)] in linarith)
  show ?thesis
  proof
    assume "p_object_loop (Suc n) es p = None"
    then show False
      unfolding p_object_loop.simps Let_def bindF_None_iff
      by (auto simp del: not_None_eq split: if_splits simp: bindF_None_iff) (use v l [unfolded One_nat_def] in blast)+
  qed
qed

lemma p_value_total_all:
  "(\<forall>p. 3 * length (remaining p) + 1 \<le> n \<longrightarrow> p_value n p \<noteq> None) \<and>
   (\<forall>p. 3 * length (remaining p) \<le> n \<longrightarrow> peek p \<noteq> None \<longrightarrow> p_array n p \<noteq> None) \<and>
   (\<forall>p vs. 3 * length (remaining p) + 2 \<le> n \<longrightarrow> p_array_loop n vs p \<noteq> None) \<and>
   (\<forall>p. 3 * length (remaining p) \<le> n \<longrightarrow> peek p \<noteq> None \<longrightarrow> p_object n p \<noteq> None) \<and>
   (\<forall>p es. 3 * length (remaining p) + 2 \<le> n \<longrightarrow> p_object_loop n es p \<noteq> None)"
proof (induction n)
  case 0
  then show ?case by (auto simp: peek_remaining)
next
  case (Suc n)
  note IH = Suc.IH
  show ?case
  proof (intro conjI allI impI)
    fix p assume "3 * length (remaining p) + 1 \<le> Suc n"
    then show "p_value (Suc n) p \<noteq> None"
      by (rule p_value_total_step [rotated 2]) (use IH in blast)+
  next
    fix p assume "3 * length (remaining p) \<le> Suc n"
    then show "p_array (Suc n) p \<noteq> None"
      by (rule p_array_total_step [rotated 1]) (use IH in blast)
  next
    fix p vs assume "3 * length (remaining p) + 2 \<le> Suc n"
    then show "p_array_loop (Suc n) vs p \<noteq> None"
      by (rule p_array_loop_total_step [rotated 2]) (use IH in blast)+
  next
    fix p assume "3 * length (remaining p) \<le> Suc n"
    then show "p_object (Suc n) p \<noteq> None"
      by (rule p_object_total_step [rotated 1]) (use IH in blast)
  next
    fix p es assume "3 * length (remaining p) + 2 \<le> Suc n"
    then show "p_object_loop (Suc n) es p \<noteq> None"
      by (rule p_object_loop_total_step [rotated 2]) (use IH in blast)+
  qed
qed

lemmas p_value_total = p_value_total_all [THEN conjunct1, rule_format]

lemma parse_fuel_total: "parse_budget source \<le> fuel \<Longrightarrow> parse_fuel fuel source \<noteq> None"
proof -
  assume "parse_budget source \<le> fuel"
  then have "3 * length (remaining (skip_whitespace \<lparr>bytes = source, offset = 0\<rparr>)) + 1 \<le> fuel"
    using skip_remaining_le [of "\<lparr>bytes = source, offset = 0\<rparr>"]
    by (simp add: parse_budget_def remaining_def)
  then have "p_value fuel (skip_whitespace \<lparr>bytes = source, offset = 0\<rparr>) \<noteq> None"
    by (rule p_value_total)
  then show ?thesis
    by (auto simp: parse_fuel_def Let_def split: option.splits sum.splits)
qed

lemma parse_parse_fuel: "parse_fuel (parse_budget source) source = Some (parse source)"
  using parse_fuel_total [of source "parse_budget source"] by (auto simp: parse_def)

section \<open>Independence of the fuel\<close>

text \<open>
  The parser does not depend on its fuel: every amount from the budget on gives the same
  result, so the fuel is only the device that makes the mutual recursion of
  \<^verbatim>\<open>parse.rs\<close>

 structural.
\<close>

definition extends :: "('p \<Rightarrow> 'a option) \<Rightarrow> ('p \<Rightarrow> 'a option) \<Rightarrow> bool" where
  "extends f g \<longleftrightarrow> (\<forall>p r. f p = Some r \<longrightarrow> g p = Some r)"

lemma bindF_extends:
  assumes "bindF m f = Some r" and "\<And>x. m = Some x \<Longrightarrow> m' = Some x"
    and "\<And>x p r. f x p = Some r \<Longrightarrow> g x p = Some r"
  shows "bindF m' g = Some r"
proof (cases m)
  case None
  with assms(1) show ?thesis by (simp add: bindF_def)
next
  case (Some x)
  with assms(2) have "m' = Some x" by simp
  with Some assms(1,3) show ?thesis
    by (cases x) (auto simp: bindF_def)
qed

lemma p_value_extends_step:
  assumes "extends (p_array n) (p_array m)" and "extends (p_object n) (p_object m)"
  shows "extends (p_value (Suc n)) (p_value (Suc m))"
  using assms unfolding extends_def p_value.simps by (auto split: option.splits)

lemma p_array_extends_step:
  assumes "extends (p_array_loop n []) (p_array_loop m [])"
  shows "extends (p_array (Suc n)) (p_array (Suc m))"
  unfolding extends_def p_array.simps Let_def
  by (intro allI impI, erule bindF_extends) (use assms in \<open>auto simp: extends_def split: if_splits\<close>)

lemma p_object_extends_step:
  assumes "extends (p_object_loop n []) (p_object_loop m [])"
  shows "extends (p_object (Suc n)) (p_object (Suc m))"
  unfolding extends_def p_object.simps Let_def
  by (intro allI impI, erule bindF_extends) (use assms in \<open>auto simp: extends_def split: if_splits\<close>)

lemma p_array_loop_extends_step:
  assumes "extends (p_value n) (p_value m)" and "\<And>vs. extends (p_array_loop n vs) (p_array_loop m vs)"
  shows "extends (p_array_loop (Suc n) vs) (p_array_loop (Suc m) vs)"
  unfolding extends_def p_array_loop.simps Let_def
  by (intro allI impI, erule bindF_extends) (use assms in \<open>auto simp: extends_def split: if_splits\<close>)

lemma p_object_loop_extends_step:
  assumes "extends (p_value n) (p_value m)" and "\<And>es. extends (p_object_loop n es) (p_object_loop m es)"
  shows "extends (p_object_loop (Suc n) es) (p_object_loop (Suc m) es)"
  unfolding extends_def p_object_loop.simps Let_def
proof (intro allI impI)
  fix p r
  let ?loop = "\<lambda>n key p1. if map_of es key \<noteq> None then
          Some (Inl \<lparr>pe_offset = offset (skip_whitespace p), pe_detail = Fmt ''duplicate key {key:?}'' [FStr key]\<rparr>)
        else
          bindF (Some (expect (CHR '':'') (skip_whitespace p1))) (\<lambda>_ p2.
            bindF (p_value n (skip_whitespace p2)) (\<lambda>v p3.
               if peek (skip_whitespace p3) = Some (CHR '','')
               then p_object_loop n (btree_insert key v es) (advance 1 (skip_whitespace p3))
               else if peek (skip_whitespace p3) = Some (CHR 0x7D)
               then Some (Inr (VObject (btree_insert key v es), advance 1 (skip_whitespace p3)))
               else Some (Inl (perror (skip_whitespace p3)
                 (Fmt (''expected ',' or '' @ [CHR 0x27, CHR 0x7D, CHR 0x27]) [])))))"
  have tail: "?loop m key p1 = Some r" if "?loop n key p1 = Some r" for key p1 r
  proof (cases "map_of es key")
    case None
    with that show ?thesis
      apply (simp only: if_False simp_thms)
      apply (erule bindF_extends, assumption)
      apply (erule bindF_extends)
      using assms by (auto simp: extends_def split: if_splits)
  next
    case (Some v)
    with that show ?thesis by simp
  qed
  assume "bindF (Some (p_string (skip_whitespace p))) (?loop n) = Some r"
  then show "bindF (Some (p_string (skip_whitespace p))) (?loop m) = Some r"
    by (rule bindF_extends) (assumption, rule tail)
qed

lemma parser_extends:
  "extends (p_value n) (p_value (Suc n)) \<and> extends (p_array n) (p_array (Suc n)) \<and>
   extends (p_object n) (p_object (Suc n)) \<and> (\<forall>vs. extends (p_array_loop n vs) (p_array_loop (Suc n) vs)) \<and>
   (\<forall>es. extends (p_object_loop n es) (p_object_loop (Suc n) es))"
proof (induction n)
  case 0
  show ?case by (simp add: extends_def)
next
  case (Suc n)
  then show ?case
    by (intro conjI allI p_value_extends_step p_array_extends_step p_object_extends_step
        p_array_loop_extends_step p_object_loop_extends_step) blast+
qed

lemma p_value_more_fuel: "p_value n p = Some r \<Longrightarrow> p_value (n + k) p = Some r"
  using parser_extends by (induction k) (auto simp: extends_def)

lemma parse_more_fuel: "parse_fuel n s = Some r \<Longrightarrow> parse_fuel (n + k) s = Some r"
  by (auto simp: parse_fuel_def split: option.splits dest: p_value_more_fuel [where k = k])

lemma parse_fuel_enough: "parse_fuel (parse_budget s + k) s = Some (parse s)"
  by (rule parse_more_fuel [OF parse_parse_fuel])

end
