(* ===== verification/Parse_Correct.thy ===== *)
theory Parse_Correct
  imports Parse_Progress
begin

text \<open>
  Correctness of the source parser: what it accepts is a well-formed value of the canonical
  domain, and it inverts the canonical encoder. The canonical encoding is therefore
  injective on well-formed values, which is what makes a digest an identity.
\<close>

section \<open>Well-formed values\<close>

fun wf_value :: "cvalue \<Rightarrow> bool" where
  "wf_value VNull = True"
| "wf_value (VBool b) = True"
| "wf_value (VInteger n) = is_i64 n"
| "wf_value (VString s) = utf8_valid s"
| "wf_value (VArray vs) = (\<forall>v \<in> set vs. wf_value v)"
| "wf_value (VObject es) =
     (sorted_keys es \<and> (\<forall>e \<in> set es. utf8_valid (fst e) \<and> wf_value (snd e)))"

lemma set_btree_insert: "set (btree_insert k v es) \<subseteq> insert (k, v) (set es)"
  by (induction k v es rule: btree_insert.induct) auto

lemma wf_btree_insert:
  "wf_value (VObject es) \<Longrightarrow> utf8_valid k \<Longrightarrow> wf_value v \<Longrightarrow> wf_value (VObject (btree_insert k v es))"
  using set_btree_insert [of k v es] by (auto 0 3)

lemma fold_btree_wf:
  assumes "wf_value (VObject es)" and "\<forall>e \<in> set ps. utf8_valid (fst e) \<and> wf_value (snd e)"
  shows "wf_value (VObject (fold (\<lambda>(k, v). btree_insert k v) ps es))"
  using assms
proof (induction ps arbitrary: es)
  case Nil
  then show ?case by simp
next
  case (Cons e ps)
  obtain k v where e: "e = (k, v)" by (cases e)
  have "wf_value (VObject (btree_insert k v es))"
    using wf_btree_insert [OF Cons.prems(1), of k v] Cons.prems(2) e by simp
  from Cons.IH [OF this] Cons.prems(2) e show ?case by simp
qed

lemma wf_object:
  "\<forall>e \<in> set ps. utf8_valid (fst e) \<and> wf_value (snd e) \<Longrightarrow> wf_value (object ps)"
  unfolding object_def btree_of_def by (rule fold_btree_wf) auto

section \<open>Accepted source is well formed\<close>

abbreviation vp :: "parser \<Rightarrow> bool" where
  "vp p \<equiv> utf8_valid (remaining p)"

lemma vp_advance:
  assumes "vp p" and "peek p = Some c" and "(of_char c :: nat) < 128"
  shows "vp (advance (Suc 0) p)"
proof -
  obtain r where "remaining p = c # r"
    using assms(2) by (auto simp: peek_remaining split: list.splits)
  with assms show ?thesis by (simp add: utf8_valid_tail)
qed

lemma utf8_valid_dropWhile:
  "utf8_valid s \<Longrightarrow> (\<And>c. P c \<Longrightarrow> (of_char c :: nat) < 128) \<Longrightarrow> utf8_valid (dropWhile P s)"
  by (induction s) (auto dest: utf8_valid_tail)

lemma vp_skip_while:
  assumes "vp p" and "\<And>c. P c \<Longrightarrow> (of_char c :: nat) < 128"
  shows "vp (skip_while P p)"
  using utf8_valid_dropWhile [OF assms] by (simp add: skip_while_eq dropWhile_eq_drop)

lemma vp_skip_whitespace: "vp p \<Longrightarrow> vp (skip_whitespace p)"
  unfolding skip_whitespace_def by (rule vp_skip_while) (auto simp: is_ws_def)

lemma vp_expect: "expect b p = Inr (u, q) \<Longrightarrow> (of_char b :: nat) < 128 \<Longrightarrow> vp p \<Longrightarrow> vp q"
  using expect_moved vp_advance by (metis One_nat_def)

lemma utf8_valid_drop_ascii:
  "utf8_valid (w @ s) \<Longrightarrow> \<forall>c \<in> set w. (of_char c :: nat) < 128 \<Longrightarrow> utf8_valid s"
  by (induction w) (auto dest: utf8_valid_tail)

lemma vp_literal:
  assumes "literal w v p = Inr (x, q)" and "vp p" and "\<forall>c \<in> set w. (of_char c :: nat) < 128"
  shows "vp q"
  using assms by (auto simp: literal_def starts_with_iff dest: utf8_valid_drop_ascii split: if_splits)

lemma vp_integer:
  assumes "p_integer p = Inr (v, q)" and "vp p"
  shows "wf_value v \<and> vp q"
proof -
  define p1 where "p1 = (if peek p = Some (CHR ''-'') then advance 1 p else p)"
  have q: "q = skip_while is_digit p1" and v: "wf_value v"
    using assms(1)
    by (auto simp: p_integer_def Let_def p1_def parse_i64_def split: if_splits option.splits)
  have "vp p1" using assms(2) vp_advance [of p "CHR ''-''"] by (simp add: p1_def)
  then have "vp q" unfolding q by (rule vp_skip_while) (auto simp: is_digit_def)
  with v show ?thesis by simp
qed

lemma hex_digit_ascii: "hex_digit_value c = Some d \<Longrightarrow> (of_char c :: nat) < 128 \<and> d < 16"
  by (auto simp: hex_digit_value_def Let_def split: if_splits)

lemma hex_value_ascii:
  "hex_value acc s = Some n \<Longrightarrow> (\<forall>c \<in> set s. (of_char c :: nat) < 128) \<and> n < (acc + 1) * 16 ^ length s"
proof (induction s arbitrary: acc)
  case Nil
  then show ?case by simp
next
  case (Cons c s)
  then obtain d where d: "hex_digit_value c = Some d" "hex_value (16 * acc + d) s = Some n"
    by (auto split: option.splits)
  have "n < (16 * acc + d + 1) * 16 ^ length s" using Cons.IH [OF d(2)] by simp
  also have "\<dots> \<le> (16 * acc + 16) * 16 ^ length s"
    using hex_digit_ascii [OF d(1)] by (intro mult_right_mono) auto
  also have "\<dots> = (acc + 1) * 16 ^ length (c # s)" by (simp add: algebra_simps)
  finally show ?case using Cons.IH [OF d(2)] hex_digit_ascii [OF d(1)] by simp
qed

lemma from_str_radix16_ascii:
  assumes "from_str_radix16 s = Some n" and "length s \<le> 4"
  shows "(\<forall>c \<in> set s. (of_char c :: nat) < 128) \<and> n < 65536"
proof -
  obtain ds where ds: "s = ds \<or> s = CHR ''+'' # ds" "hex_value 0 ds = Some n"
    using assms(1) by (auto simp: from_str_radix16_def Let_def strip_prefix_Some split: if_splits option.splits)
  have "n < 16 ^ length ds" using hex_value_ascii [OF ds(2)] by simp
  also have "(16 :: nat) ^ length ds \<le> 16 ^ 4"
    using ds(1) assms(2) by (intro power_increasing) auto
  finally show ?thesis using hex_value_ascii [OF ds(2)] ds(1) by auto
qed

lemma vp_unicode_escape:
  assumes "p_unicode_escape p = Inr (w, q)" and "vp p"
  shows "utf8_valid w \<and> vp q"
proof -
  obtain code where c: "from_str_radix16 (take 4 (remaining p)) = Some code"
    "\<not> (55296 \<le> code \<and> code < 57344)" "w = utf8_encode code" "q = advance 4 p"
    using assms(1) by (auto simp: p_unicode_escape_def Let_def split: if_splits option.splits)
  note hex = from_str_radix16_ascii [OF c(1)]
  have "vp q"
    using assms(2) hex utf8_valid_drop_ascii [of "take 4 (remaining p)" "drop 4 (remaining p)"]
    by (simp add: c(4))
  with hex c show ?thesis by (simp add: utf8_valid_encode)
qed

lemma simple_escape_ascii:
  "simple_escape e = Some w \<Longrightarrow> (of_char e :: nat) < 128 \<and> utf8_valid w"
  by (auto simp: simple_escape_def utf8_valid_ascii split: if_splits)

lemma vp_string_loop:
  "p_string_loop out p = Inr (s, q) \<Longrightarrow> utf8_valid out \<Longrightarrow> vp p \<Longrightarrow> utf8_valid s \<and> vp q"
proof (induction out p rule: p_string_loop.induct)
  case (1 out p)
  obtain b where b: "peek p = Some b"
    using "1.prems" by (subst (asm) p_string_loop.simps) (auto split: option.splits)
  note simps = p_string_loop.simps [of out p]
  consider "b = CHR 0x22" | "b = CHR 0x5C" | "b \<noteq> CHR 0x22" "b \<noteq> CHR 0x5C" by blast
  then show ?case
  proof cases
    case 1
    with b "1.prems" vp_advance [of p b] show ?thesis by (auto simp: simps)
  next
    case esc: 2
    obtain e where e: "peek (advance 1 p) = Some e"
      using b esc "1.prems" by (auto simp: simps split: option.splits)
    have vp1: "vp (advance 1 p)" using vp_advance [of p b] b esc "1.prems"(3) by simp
    have vp2: "vp (advance 2 p)" if "(of_char e :: nat) < 128"
      using vp_advance [OF vp1 e that] by (simp add: numeral_2_eq_2)
    show ?thesis
    proof (cases "simple_escape e")
      case (Some w)
      with b esc e "1.prems" have r: "p_string_loop (out @ w) (advance 2 p) = Inr (s, q)"
        by (simp add: simps)
      have "utf8_valid (out @ w)" and "vp (advance 2 p)"
        using simple_escape_ascii [OF Some] "1.prems"(2) vp2 by (auto intro: utf8_valid_append)
      with "1.IH"(2) [OF b _ esc e Some r] esc show ?thesis by simp
    next
      case None
      with b esc e "1.prems" obtain w q' where u: "e = CHR ''u''"
        "p_unicode_escape (advance 2 p) = Inr (w, q')" "p_string_loop (out @ w) q' = Inr (s, q)"
        by (auto simp: simps split: if_splits sum.splits)
      have "utf8_valid w \<and> vp q'" using vp_unicode_escape [OF u(2)] vp2 u(1) by simp
      with "1.IH"(1) [OF b _ esc e None u(1,2) refl u(3)] esc "1.prems"(2) show ?thesis
        by (simp add: utf8_valid_append)
    qed
  next
    case oth: 3
    obtain n where n: "\<not> (of_char b :: nat) < 32" "utf8_valid (remaining p)"
      "utf8_step (remaining p) = Some n"
      "p_string_loop (out @ take n (remaining p)) (advance n p) = Inr (s, q)"
      using b oth "1.prems" by (auto simp: simps split: if_splits option.splits)
    have "remaining p \<noteq> []" using b by (auto simp: peek_remaining)
    with n(2,3) have "utf8_valid (take n (remaining p))" "utf8_valid (drop n (remaining p))"
      using utf8_valid_drop_step [of "remaining p"] by (metis option.inject)+
    with "1.IH"(3) [OF b oth n(1) _ n(3,4)] n(2) "1.prems"(2) show ?thesis
      by (simp add: utf8_valid_append)
  qed
qed

lemma vp_string: "p_string p = Inr (s, q) \<Longrightarrow> vp p \<Longrightarrow> utf8_valid s \<and> vp q"
  by (auto simp: p_string_def res_simps dest!: vp_string_loop dest: vp_expect)

text \<open>A parsing function keeps the remaining input valid and yields well-formed values.\<close>

definition keeps_wf :: "(parser \<Rightarrow> cvalue fres) \<Rightarrow> bool" where
  "keeps_wf f \<longleftrightarrow> (\<forall>p v q. f p = Some (Inr (v, q)) \<longrightarrow> vp p \<longrightarrow> wf_value v \<and> vp q)"

lemma keeps_wfI:
  "(\<And>p v q. f p = Some (Inr (v, q)) \<Longrightarrow> vp p \<Longrightarrow> wf_value v \<and> vp q) \<Longrightarrow> keeps_wf f"
  by (simp add: keeps_wf_def)

lemma keeps_wfD: "keeps_wf f \<Longrightarrow> f p = Some (Inr (v, q)) \<Longrightarrow> vp p \<Longrightarrow> wf_value v \<and> vp q"
  by (simp add: keeps_wf_def)

lemma vp_separator:
  "vp q \<Longrightarrow> peek (skip_whitespace q) = Some c \<Longrightarrow> (of_char c :: nat) < 128
   \<Longrightarrow> vp (advance (Suc 0) (skip_whitespace q))"
  by (rule vp_advance [OF vp_skip_whitespace])

lemma p_value_wf_step:
  assumes "keeps_wf (p_array n)" and "keeps_wf (p_object n)"
  shows "keeps_wf (p_value (Suc n))"
proof (rule keeps_wfI)
  fix p v q assume r: "p_value (Suc n) p = Some (Inr (v, q))" and vp: "vp p"
  from r show "wf_value v \<and> vp q"
  proof (cases rule: p_value_cases)
    case (Lit w x)
    have "v = x" using Lit(2) by (simp add: literal_def split: if_splits)
    then show ?thesis using Lit(3) vp_literal [OF Lit(2) vp Lit(4)] by auto
  next
    case (Str s)
    then show ?thesis using vp_string [OF _ vp] by simp
  next
    case Arr
    then show ?thesis using keeps_wfD [OF assms(1)] vp by blast
  next
    case Obj
    then show ?thesis using keeps_wfD [OF assms(2)] vp by blast
  next
    case Int
    then show ?thesis using vp_integer vp by blast
  qed
qed

lemma p_array_wf_step:
  assumes "keeps_wf (p_array_loop n [])"
  shows "keeps_wf (p_array (Suc n))"
proof (rule keeps_wfI)
  fix p v q assume "p_array (Suc n) p = Some (Inr (v, q))" and vp: "vp p"
  then obtain p1 where p1: "expect (CHR ''['') p = Inr ((), p1)"
    and r: "peek (skip_whitespace p1) = Some (CHR '']'') \<and> v = VArray [] \<and>
        q = advance 1 (skip_whitespace p1)
      \<or> p_array_loop n [] (skip_whitespace p1) = Some (Inr (v, q))"
    by (auto simp: bindF_Inr_iff Let_def split: if_splits)
  have v1: "vp p1" using vp_expect [OF p1] vp by simp
  show "wf_value v \<and> vp q"
    using r vp_separator [OF v1] keeps_wfD [OF assms _ vp_skip_whitespace [OF v1]] by auto
qed

lemma p_object_wf_step:
  assumes "keeps_wf (p_object_loop n [])"
  shows "keeps_wf (p_object (Suc n))"
proof (rule keeps_wfI)
  fix p v q assume "p_object (Suc n) p = Some (Inr (v, q))" and vp: "vp p"
  then obtain p1 where p1: "expect (CHR 0x7B) p = Inr ((), p1)"
    and r: "peek (skip_whitespace p1) = Some (CHR 0x7D) \<and> v = VObject [] \<and>
        q = advance 1 (skip_whitespace p1)
      \<or> p_object_loop n [] (skip_whitespace p1) = Some (Inr (v, q))"
    by (auto simp: bindF_Inr_iff Let_def split: if_splits)
  have v1: "vp p1" using vp_expect [OF p1] vp by simp
  show "wf_value v \<and> vp q"
    using r vp_separator [OF v1] keeps_wfD [OF assms _ vp_skip_whitespace [OF v1]] by auto
qed

lemma p_array_loop_wf_step:
  assumes "keeps_wf (p_value n)" and "\<And>vs. wf_value (VArray vs) \<Longrightarrow> keeps_wf (p_array_loop n vs)"
    and wf: "wf_value (VArray vs)"
  shows "keeps_wf (p_array_loop (Suc n) vs)"
proof (rule keeps_wfI)
  fix p v q assume r: "p_array_loop (Suc n) vs p = Some (Inr (v, q))" and "vp p"
  note vp = vp_skip_whitespace [OF \<open>vp p\<close>]
  from r show "wf_value v \<and> vp q"
  proof (cases rule: p_array_loop_cases)
    case (1 w p1)
    note w = keeps_wfD [OF assms(1) 1(1) vp]
    then have "keeps_wf (p_array_loop n (vs @ [w]))" using assms(2) wf by simp
    from keeps_wfD [OF this 1(3)] vp_separator [of p1, OF _ 1(2)] w show ?thesis by simp
  next
    case (2 w p1)
    with keeps_wfD [OF assms(1) 2(1) vp] vp_separator [of p1, OF _ 2(2)] wf show ?thesis by simp
  qed
qed

lemma p_object_loop_wf_step:
  assumes "keeps_wf (p_value n)" and "\<And>es. wf_value (VObject es) \<Longrightarrow> keeps_wf (p_object_loop n es)"
    and wf: "wf_value (VObject es)"
  shows "keeps_wf (p_object_loop (Suc n) es)"
proof (rule keeps_wfI)
  fix p v q assume r: "p_object_loop (Suc n) es p = Some (Inr (v, q))" and "vp p"
  from r show "wf_value v \<and> vp q"
  proof (rule p_object_loop_cases)
    fix key p1 p2 w p3
    assume s: "p_string (skip_whitespace p) = Inr (key, p1)"
      and c: "expect (CHR '':'') (skip_whitespace p1) = Inr ((), p2)"
      and w: "p_value n (skip_whitespace p2) = Some (Inr (w, p3))"
      and d: "peek (skip_whitespace p3) = Some (CHR '','') \<and>
         p_object_loop n (btree_insert key w es) (advance 1 (skip_whitespace p3)) = Some (Inr (v, q))
       \<or> peek (skip_whitespace p3) = Some (CHR 0x7D) \<and>
         v = VObject (btree_insert key w es) \<and> q = advance 1 (skip_whitespace p3)"
    have key: "utf8_valid key \<and> vp p1" using vp_string [OF s] vp_skip_whitespace \<open>vp p\<close> by simp
    then have "vp p2" using vp_expect [OF c] vp_skip_whitespace by simp
    then have w': "wf_value w \<and> vp p3"
      using keeps_wfD [OF assms(1) w] vp_skip_whitespace by simp
    have es: "wf_value (VObject (btree_insert key w es))" using wf_btree_insert [OF wf] key w' by blast
    show ?thesis using d
    proof (elim disjE conjE)
      assume "peek (skip_whitespace p3) = Some (CHR '','')"
        and "p_object_loop n (btree_insert key w es) (advance 1 (skip_whitespace p3)) = Some (Inr (v, q))"
      then show ?thesis
        using keeps_wfD [OF assms(2) [OF es]] vp_separator [of p3 "CHR '',''"] w' by simp
    qed (use es w' vp_separator [of p3 "CHR 0x7D"] in simp)
  qed
qed

lemma p_value_wf_all:
  "keeps_wf (p_value n) \<and> keeps_wf (p_array n) \<and> keeps_wf (p_object n) \<and>
   (\<forall>vs. wf_value (VArray vs) \<longrightarrow> keeps_wf (p_array_loop n vs)) \<and>
   (\<forall>es. wf_value (VObject es) \<longrightarrow> keeps_wf (p_object_loop n es))"
proof (induction n)
  case 0
  then show ?case by (simp add: keeps_wf_def)
next
  case (Suc n)
  have wf0: "wf_value (VArray [])" "wf_value (VObject [])" by simp_all
  show ?case
    using Suc.IH wf0 p_value_wf_step p_array_wf_step p_object_wf_step p_array_loop_wf_step
      p_object_loop_wf_step by blast
qed

lemma parse_wf: "parse s = Inr v \<Longrightarrow> utf8_valid s \<Longrightarrow> wf_value v"
proof -
  assume "parse s = Inr v" and u: "utf8_valid s"
  then have "parse_fuel (parse_budget s) s = Some (Inr v)" by (simp add: parse_parse_fuel)
  then obtain q where "p_value (parse_budget s) (skip_whitespace \<lparr>bytes = s, offset = 0\<rparr>) = Some (Inr (v, q))"
    by (auto simp: parse_fuel_def Let_def split: option.splits sum.splits if_splits)
  moreover have "vp (skip_whitespace \<lparr>bytes = s, offset = 0\<rparr>)"
    using u by (intro vp_skip_whitespace) (simp add: remaining_def)
  ultimately show ?thesis using p_value_wf_all keeps_wfD by blast
qed

end
