(* ===== verification/Parse_Roundtrip.thy ===== *)
theory Parse_Roundtrip
  imports Parse_Correct
begin

text \<open>
  The source parser inverts the canonical encoder on well-formed values: strings with
  every escape the encoder writes, integers over the whole \<open>i64\<close> range, arrays, and
  objects in key order.
\<close>

section \<open>Strings\<close>

lemma from_digit16_char:
  assumes "n < 16"
  shows "hex_digit_value (from_digit16 n) = Some n" and "from_digit16 n \<noteq> CHR ''+''"
    and "(of_char (from_digit16 n) :: nat) < 128"
proof -
  have code: "(of_char (from_digit16 n) :: nat) = (if n < 10 then 48 + n else 87 + n)"
    using assms by (simp add: from_digit16_def of_char_of)
  then show "hex_digit_value (from_digit16 n) = Some n"
    using assms by (simp add: hex_digit_value_def)
  show "(of_char (from_digit16 n) :: nat) < 128" using code assms by simp
  have "(of_char (CHR ''+'') :: nat) = 43" by simp
  with code show "from_digit16 n \<noteq> CHR ''+''" by (auto split: if_splits)
qed

lemma unicode_digits_eq:
  "unicode_digits k = map (\<lambda>n. from_digit16 (n mod 16)) [k div 4096, k div 256, k div 16, k]"
proof -
  have m: "n AND 15 = n mod 16" for n :: nat
    using take_bit_eq_mask [of 4 n] by (simp add: take_bit_eq_mod mask_eq_exp_minus_1)
  show ?thesis by (simp add: unicode_digits_def m drop_bit_eq_div)
qed

lemma unicode_digits_radix:
  assumes "k < 65536"
  shows "from_str_radix16 (unicode_digits k) = Some k" and "length (unicode_digits k) = 4"
    and "\<forall>c \<in> set (unicode_digits k). (of_char c :: nat) < 128"
proof -
  have d: "n mod 16 < 16" for n :: nat by simp
  have "16 * (16 * (16 * (k div 4096 mod 16) + k div 256 mod 16) + k div 16 mod 16) + k mod 16 = k"
  proof -
    define a b where "a = k div 16" and "b = a div 16"
    have "k div 256 = b" "k div 4096 = b div 16" by (simp_all add: a_def b_def div_mult2_eq [symmetric])
    moreover have "b div 16 mod 16 = b div 16" using assms by (simp add: a_def b_def div_mult2_eq [symmetric])
    moreover have "k = 16 * a + k mod 16" "a = 16 * b + a mod 16" "b = 16 * (b div 16) + b mod 16"
      by (simp_all add: a_def b_def)
    ultimately show ?thesis using a_def by (metis (no_types))
  qed
  moreover have "k div 4096 < 16" using assms by simp
  ultimately show "from_str_radix16 (unicode_digits k) = Some k"
    using from_digit16_char [OF d] from_digit16_char [of "k div 4096"]
    by (auto simp: from_str_radix16_def unicode_digits_eq)
  show "length (unicode_digits k) = 4" by (simp add: unicode_digits_eq)
  show "\<forall>c \<in> set (unicode_digits k). (of_char c :: nat) < 128"
    by (simp add: unicode_digits_eq from_digit16_char)
qed

lemma p_string_loop_control:
  assumes "k < 32" and "remaining p = CHR 0x5C # CHR ''u'' # unicode_digits k @ rest"
  shows "p_string_loop out p = p_string_loop (out @ [char_of k]) (advance 6 p)"
proof -
  have "k < 65536" using assms(1) by simp
  note u = unicode_digits_radix [OF this]
  have r: "remaining (advance 2 p) = unicode_digits k @ rest" using assms(2) by simp
  have "length (remaining (advance 2 p)) = 4 + length rest" using r u by simp
  then have len: "\<not> length (bytes p) < offset p + 6" by (simp add: length_remaining)
  have "utf8_valid (unicode_digits k)" using u by (blast intro: utf8_valid_ascii)
  then have "p_unicode_escape (advance 2 p) = Inr ([char_of k], advance 6 p)"
    using u r len assms(1) by (simp add: p_unicode_escape_def utf8_encode_def)
  moreover have "peek p = Some (CHR 0x5C)" "peek (advance 1 p) = Some (CHR ''u'')"
    using assms(2) by (simp_all add: peek_remaining)
  ultimately show ?thesis
    by (subst p_string_loop.simps) (simp add: simple_escape_def)
qed

lemma p_string_loop_simple:
  assumes "simple_escape e = Some w" and "remaining p = CHR 0x5C # e # rest"
  shows "p_string_loop out p = p_string_loop (out @ w) (advance 2 p)"
  using assms by (subst p_string_loop.simps) (simp add: peek_remaining)

lemma p_string_loop_plain:
  assumes "utf8_step w = Some (length w)" and "remaining p = w @ rest" and "utf8_valid rest"
    and "hd w \<noteq> CHR 0x22" and "hd w \<noteq> CHR 0x5C" and "32 \<le> (of_char (hd w) :: nat)"
  shows "p_string_loop out p = p_string_loop (out @ w) (advance (length w) p)"
proof -
  have "w \<noteq> []" using assms(1) utf8_step_bounds [of w] by auto
  then have "peek p = Some (hd w)" using assms(2) by (cases w) (simp_all add: peek_remaining)
  moreover have "utf8_valid (remaining p)" using assms by (simp add: utf8_valid_step)
  moreover have "utf8_step (remaining p) = Some (length w)"
    using assms(1,2) by (simp add: utf8_step_append)
  ultimately show ?thesis
    using assms by (subst p_string_loop.simps) simp
qed

lemma escape_char_wide: "128 \<le> (of_char c :: nat) \<Longrightarrow> escape_char c = [c]"
  by (auto simp: escape_char_def)

lemma p_string_loop_escaped:
  assumes "(of_char c :: nat) < 128" and "remaining p = escape_char c @ rest" and "utf8_valid rest"
  shows "p_string_loop out p = p_string_loop (out @ [c]) (advance (length (escape_char c)) p)"
proof -
  have named: "\<exists>e. escape_char c = [CHR 0x5C, e] \<and> simple_escape e = Some [c]"
    if "c \<in> {CHR 0x22, CHR 0x5C, CHR 0x0A, CHR 0x0D, CHR 0x09}"
    using that by (auto simp: escape_char_def simple_escape_def)
  consider e where "escape_char c = [CHR 0x5C, e]" "simple_escape e = Some [c]"
    | "(of_char c :: nat) < 32" "escape_char c = [CHR 0x5C, CHR ''u''] @ unicode_digits (of_char c)"
    | "c \<noteq> CHR 0x22" "c \<noteq> CHR 0x5C" "32 \<le> (of_char c :: nat)" "escape_char c = [c]"
  proof (cases "c \<in> {CHR 0x22, CHR 0x5C, CHR 0x0A, CHR 0x0D, CHR 0x09}")
    case True
    from named [OF True] that(1) show ?thesis by blast
  next
    case False
    with that(2,3) show ?thesis by (cases "(of_char c :: nat) < 32") (auto simp: escape_char_def)
  qed
  then show ?thesis
  proof cases
    case 1
    with p_string_loop_simple [OF 1(2)] assms(2) show ?thesis by (simp add: numeral_2_eq_2)
  next
    case 2
    have "length (escape_char c) = 6" using 2 unicode_digits_radix(2) [of "of_char c"] by simp
    with p_string_loop_control [OF 2(1), of p rest out] assms(2) 2 show ?thesis by simp
  next
    case 3
    with p_string_loop_plain [of "[c]"] assms show ?thesis by simp
  qed
qed

lemma concat_escape_wide:
  "\<forall>c \<in> set w. 128 \<le> (of_char c :: nat) \<Longrightarrow> concat (map escape_char w) = w"
  by (induction w) (auto simp: escape_char_wide)

lemma escape_char_valid: "(of_char c :: nat) < 128 \<Longrightarrow> utf8_valid (escape_char c)"
  using unicode_digits_radix(3) [of "of_char c"]
  by (intro utf8_valid_ascii) (auto simp: escape_char_def split: if_splits)

lemma utf8_char_cases:
  assumes "utf8_step w = Some (length w)"
  obtains (Ascii) c where "w = [c]" and "(of_char c :: nat) < 128"
  | (Wide) "\<forall>c \<in> set w. 128 \<le> (of_char c :: nat)" and "w \<noteq> []"
proof (cases "length w = 1")
  case True
  then obtain c where "w = [c]" by (cases w) auto
  with assms utf8_step_one [of c "[]"] Ascii show ?thesis by simp
next
  case False
  have "w \<noteq> []" using assms utf8_step_bounds [of w] by auto
  with False utf8_step_high [OF assms] Wide show ?thesis by simp
qed

lemma p_string_loop_written:
  assumes "utf8_valid s" and "utf8_valid rest"
    and "remaining p = concat (map escape_char s) @ CHR 0x22 # rest"
  shows "p_string_loop out p = Inr (out @ s, advance (Suc (length (concat (map escape_char s)))) p)"
    and "utf8_valid (concat (map escape_char s))"
proof -
  have "utf8_valid (concat (map escape_char s)) \<and>
    (\<forall>p out. remaining p = concat (map escape_char s) @ CHR 0x22 # rest \<longrightarrow>
       p_string_loop out p = Inr (out @ s, advance (Suc (length (concat (map escape_char s)))) p))"
    using assms(1)
  proof (induction s rule: utf8_valid_induct)
    case Nil
    then show ?case by (auto simp: p_string_loop.simps peek_remaining)
  next
    case (Char w t)
    define e where "e = concat (map escape_char t)"
    have rest: "utf8_valid (e @ CHR 0x22 # rest)"
      using Char assms(2) by (simp add: e_def utf8_valid_append utf8_valid_Cons_ascii)
    from Char(1) show ?case
    proof (cases rule: utf8_char_cases)
      case (Ascii c)
      have "p_string_loop out p = Inr (out @ c # t, advance (Suc (length (escape_char c) + length e)) p)"
        if "remaining p = escape_char c @ e @ CHR 0x22 # rest" for p out
        using Char.IH p_string_loop_escaped [OF Ascii(2) that rest, of out] that
        by (simp add: e_def)
      with Ascii Char.IH show ?thesis by (simp add: e_def utf8_valid_append escape_char_valid)
    next
      case Wide
      then have "128 \<le> (of_char (hd w) :: nat)" by simp
      then have hd: "hd w \<noteq> CHR 0x22" "hd w \<noteq> CHR 0x5C" "32 \<le> (of_char (hd w) :: nat)" by auto
      have "p_string_loop out p = Inr (out @ w @ t, advance (Suc (length w + length e)) p)"
        if r: "remaining p = w @ e @ CHR 0x22 # rest" for p out
        using Char.IH p_string_loop_plain [OF Char(1) r rest hd, of out] r by (simp add: e_def)
      with Wide Char show ?thesis by (simp add: e_def concat_escape_wide utf8_valid_step)
    qed
  qed
  with assms(3) show "p_string_loop out p = Inr (out @ s, advance (Suc (length (concat (map escape_char s)))) p)"
    and "utf8_valid (concat (map escape_char s))" by blast+
qed

lemma p_string_written:
  assumes "utf8_valid s" and "utf8_valid rest" and "remaining p = write_canonical_string s @ rest"
  shows "p_string p = Inr (s, advance (length (write_canonical_string s)) p)"
proof -
  have "expect (CHR 0x22) p = Inr ((), advance 1 p)"
    using assms(3) by (simp add: expect_def peek_remaining write_canonical_string_def)
  moreover have "remaining (advance 1 p) = concat (map escape_char s) @ CHR 0x22 # rest"
    using assms(3) by (simp add: write_canonical_string_def)
  from p_string_loop_written(1) [OF assms(1,2) this, of "[]"]
  have "p_string_loop [] (advance 1 p) = Inr (s, advance (length (write_canonical_string s)) p)"
    by (simp add: write_canonical_string_def)
  ultimately show ?thesis by (simp add: p_string_def)
qed

lemma write_canonical_string_valid: "utf8_valid s \<Longrightarrow> utf8_valid (write_canonical_string s)"
  using p_string_loop_written(2) [of s "[]" "\<lparr>bytes = concat (map escape_char s) @ [CHR 0x22], offset = 0\<rparr>"]
  by (auto simp: write_canonical_string_def utf8_valid_Cons_ascii utf8_valid_append remaining_def)

section \<open>Integers\<close>

text \<open>What may follow a value inside the canonical encoding.\<close>

definition delim :: "string \<Rightarrow> bool" where
  "delim rest \<longleftrightarrow> rest = [] \<or> hd rest \<in> {CHR '','', CHR '']'', CHR 0x7D}"

lemma delim_simps [simp]:
  "delim []" "delim (c # s) \<longleftrightarrow> c = CHR '','' \<or> c = CHR '']'' \<or> c = CHR 0x7D"
  by (auto simp: delim_def)

lemma digits_value_snoc: "digits_value (ds @ [c]) = 10 * digits_value ds + (of_char c - 48)"
  by (simp add: digits_value_def)

lemma digits_value_nat_to_string [simp]: "digits_value (nat_to_string n) = n"
proof (induction n rule: nat_to_string.induct)
  case (1 n)
  show ?case
  proof (cases "n < 10")
    case True
    then show ?thesis
      by (simp add: nat_to_string.simps [of n] digits_value_def of_char_digit)
  next
    case False
    have "n mod 10 < 10" by simp
    with 1 False show ?thesis
      by (simp add: nat_to_string.simps [of n] digits_value_snoc of_char_digit)
  qed
qed

lemma nat_to_string_is_digit: "c \<in> set (nat_to_string n) \<Longrightarrow> is_digit c"
  using nat_to_string_digits by (simp add: is_digit_def)

lemma strip_minus_nat [simp]: "strip_prefix ''-'' (nat_to_string n) = None"
proof -
  obtain c ds where d: "nat_to_string n = c # ds" by (cases "nat_to_string n") auto
  then have "is_digit c" using nat_to_string_is_digit [of c n] by simp
  with d show ?thesis by (auto simp: is_digit_def)
qed

lemma parse_i64_int_to_string: "is_i64 n \<Longrightarrow> parse_i64 (int_to_string n) = Some n"
  by (simp add: parse_i64_def int_to_string_def)

lemma delim_not_digit: "delim (c # s) \<Longrightarrow> \<not> is_digit c"
  by (auto simp: is_digit_def)

lemma skip_digits_written:
  assumes "remaining p = nat_to_string n @ rest" and "delim rest"
  shows "skip_while is_digit p = advance (length (nat_to_string n)) p"
proof -
  have "takeWhile is_digit rest = []" using assms(2) delim_not_digit by (cases rest) auto
  then have "takeWhile is_digit (nat_to_string n @ rest) = nat_to_string n"
    by (subst takeWhile_append2) (auto dest: nat_to_string_is_digit)
  then show ?thesis by (simp add: skip_while_eq assms(1))
qed

lemma no_leading_zero:
  "\<not> (1 < length (nat_to_string n) \<and> starts_with ''0'' (nat_to_string n))"
proof (cases "n < 10")
  case True
  then show ?thesis by (simp add: nat_to_string.simps [of n])
next
  case False
  then show ?thesis using nat_to_string_no_leading_zero [of n] by (auto simp: starts_with_iff)
qed

lemma p_integer_written:
  assumes "is_i64 n" and "remaining p = int_to_string n @ rest" and "delim rest"
  shows "p_integer p = Inr (VInteger n, advance (length (int_to_string n)) p)"
proof -
  define m where "m = nat (abs n)"
  define p1 where "p1 = (if peek p = Some (CHR ''-'') then advance 1 p else p)"
  have minus: "peek p = Some (CHR ''-'') \<longleftrightarrow> n < 0"
    using assms(2) strip_minus_nat [of "nat n"]
    by (cases "nat_to_string (nat n)") (auto simp: peek_remaining int_to_string_def split: if_splits)
  have r1: "remaining p1 = nat_to_string m @ rest"
    using assms(2) minus by (simp add: p1_def m_def int_to_string_def abs_if)
  note p2 = skip_digits_written [OF r1 assms(3)]
  have adv: "advance (length (nat_to_string m)) p1 = advance (length (int_to_string n)) p"
    using minus by (simp add: p1_def m_def int_to_string_def abs_if)
  have follow: "peek (advance (length (int_to_string n)) p) \<notin> {Some (CHR ''.''), Some (CHR ''e''), Some (CHR ''E'')}"
    using assms(2,3) by (auto simp: peek_remaining split: list.splits)
  have lexeme: "drop (offset p) (take (offset p + length (int_to_string n)) (bytes p)) = int_to_string n"
    using assms(2) by (simp add: drop_take remaining_def)
  have unsigned: "(case strip_prefix ''-'' (int_to_string n) of Some ds \<Rightarrow> ds | None \<Rightarrow> int_to_string n)
      = nat_to_string m"
    by (simp add: int_to_string_def m_def abs_if)
  have "offset (advance (length (nat_to_string m)) p1) \<noteq> offset p1" by simp
  then show ?thesis
    using follow no_leading_zero [of m] parse_i64_int_to_string [OF assms(1)]
    unfolding p_integer_def Let_def p1_def [symmetric] p2 adv bytes_advance offset_advance lexeme
      unsigned by simp
qed

section \<open>Values\<close>

definition inverts :: "cvalue \<Rightarrow> bool" where
  "inverts v \<longleftrightarrow> (\<forall>n p rest r. p_value n p = Some r \<longrightarrow> remaining p = write_canonical v @ rest \<longrightarrow>
     delim rest \<longrightarrow> utf8_valid rest \<longrightarrow> r = Inr (v, advance (length (write_canonical v)) p))"

lemma invertsD:
  "inverts v \<Longrightarrow> p_value n p = Some r \<Longrightarrow> remaining p = write_canonical v @ rest \<Longrightarrow> delim rest
   \<Longrightarrow> utf8_valid rest \<Longrightarrow> r = Inr (v, advance (length (write_canonical v)) p)"
  by (simp add: inverts_def)

text \<open>Every encoding starts with a byte that is neither whitespace nor a delimiter.\<close>

lemma int_to_string_head:
  obtains c r where "int_to_string n = c # r" and "c = CHR ''-'' \<or> is_digit c"
  using nat_to_string_is_digit nat_to_string_nonempty unfolding int_to_string_def
  by (metis list.exhaust list.set_intros(1))

lemma write_canonical_head:
  obtains c r where "write_canonical v = c # r" and "\<not> is_ws c" and "\<not> delim [c]"
proof (cases v rule: write_canonical.cases)
  case (4 n)
  obtain c r where "int_to_string n = c # r" "c = CHR ''-'' \<or> is_digit c" by (rule int_to_string_head)
  moreover from this(2) have "\<not> is_ws c" "\<not> delim [c]" by (auto simp: is_ws_def is_digit_def)
  ultimately show ?thesis using that [of c r] 4 by simp
qed (use that in \<open>auto simp: is_ws_def write_canonical_string_def\<close>)

lemma utf8_valid_intercalate:
  "\<forall>w \<in> set ws. utf8_valid w \<Longrightarrow> utf8_valid (intercalate '','' ws)"
  by (induction "'',''" ws rule: intercalate.induct) (auto simp: utf8_valid_append utf8_valid_Cons_ascii)

lemma utf8_valid_int_to_string: "utf8_valid (int_to_string n)"
  by (rule utf8_valid_ascii) (auto simp: int_to_string_def dest: nat_to_string_digits)

lemma utf8_valid_write_canonical: "wf_value v \<Longrightarrow> utf8_valid (write_canonical v)"
proof (induction v rule: write_canonical.induct)
  case (7 es)
  then show ?case
    by (auto intro!: utf8_valid_append utf8_valid_intercalate write_canonical_string_valid
        simp: utf8_valid_Cons_ascii)
qed (auto intro!: utf8_valid_append utf8_valid_intercalate write_canonical_string_valid
    utf8_valid_int_to_string simp: utf8_valid_Cons_ascii)

lemma inverts_literal: "v \<in> {VNull, VBool True, VBool False} \<Longrightarrow> inverts v"
proof -
  have "r = Inr (v, advance (length (write_canonical v)) p)"
    if "v \<in> {VNull, VBool True, VBool False}" "p_value n p = Some r" "remaining p = write_canonical v @ rest"
    for n p rest r
    using that by (cases n) (auto simp: peek_remaining literal_def)
  then show "v \<in> {VNull, VBool True, VBool False} \<Longrightarrow> inverts v" by (auto simp: inverts_def)
qed

lemma inverts_integer:
  assumes "is_i64 n"
  shows "inverts (VInteger n)"
proof -
  have "r = Inr (VInteger n, advance (length (int_to_string n)) p)"
    if "p_value m p = Some r" "remaining p = int_to_string n @ rest" "delim rest" for m p rest r
  proof -
    obtain c s where c: "int_to_string n = c # s" "c = CHR ''-'' \<or> is_digit c" by (rule int_to_string_head)
    then have "peek p = Some c" using that(2) by (simp add: peek_remaining)
    moreover have "c \<notin> {CHR ''n'', CHR ''t'', CHR ''f'', CHR 0x22, CHR ''['', CHR 0x7B}"
      using c(2) by (auto simp: is_digit_def)
    ultimately have "r = p_integer p" using that(1) c(2) by (cases m) auto
    with p_integer_written [OF assms that(2,3)] show ?thesis by simp
  qed
  then show ?thesis by (simp add: inverts_def)
qed

lemma inverts_string:
  assumes "utf8_valid s"
  shows "inverts (VString s)"
proof -
  have "r = Inr (VString s, advance (length (write_canonical_string s)) p)"
    if "p_value n p = Some r" "remaining p = write_canonical_string s @ rest" "utf8_valid rest" for n p rest r
  proof -
    have "peek p = Some (CHR 0x22)" using that(2) by (simp add: peek_remaining write_canonical_string_def)
    then show ?thesis using p_string_written [OF assms that(3,2)] that(1) by (cases n) auto
  qed
  then show ?thesis by (simp add: inverts_def)
qed

lemma skip_whitespace_written:
  "remaining p = write_canonical v @ rest \<Longrightarrow> skip_whitespace p = p"
  by (rule write_canonical_head [of v]) (simp add: skip_whitespace_none)

lemma skip_whitespace_delim: "remaining p = c # r \<Longrightarrow> delim [c] \<Longrightarrow> skip_whitespace p = p"
  by (rule skip_whitespace_none) (auto simp: is_ws_def)

text \<open>After a value that the parser inverts, the separator is what was written.\<close>

lemma p_value_written:
  assumes "inverts v" and "remaining p = write_canonical v @ c # tail" and "delim [c]" and "utf8_valid tail"
    and "bindF (p_value m (skip_whitespace p)) f = Some r"
  shows "f v (advance (length (write_canonical v)) p) = Some r"
    and "skip_whitespace (advance (length (write_canonical v)) p) = advance (length (write_canonical v)) p"
    and "peek (advance (length (write_canonical v)) p) = Some c"
proof -
  note skip = skip_whitespace_written [OF assms(2)]
  obtain x where x: "p_value m p = Some x"
    using assms(5) skip by (cases "p_value m p") (auto simp: bindF_def)
  then have "p_value m p = Some (Inr (v, advance (length (write_canonical v)) p))"
    using invertsD [OF assms(1) x assms(2)] assms(3,4) by (auto simp: utf8_valid_Cons_ascii)
  then show "f v (advance (length (write_canonical v)) p) = Some r" using assms(5) skip by simp
  show "skip_whitespace (advance (length (write_canonical v)) p) = advance (length (write_canonical v)) p"
    using assms(2,3) by (intro skip_whitespace_delim) auto
  show "peek (advance (length (write_canonical v)) p) = Some c"
    using assms(2) by (simp add: peek_remaining)
qed

lemma p_array_loop_written:
  assumes "vs \<noteq> []" and "\<forall>v \<in> set vs. inverts v \<and> wf_value v" and "utf8_valid rest"
    and "p_array_loop n acc p = Some r"
    and "remaining p = intercalate '','' (map write_canonical vs) @ CHR '']'' # rest"
  shows "r = Inr (VArray (acc @ vs), advance (Suc (length (intercalate '','' (map write_canonical vs)))) p)"
  using assms
proof (induction vs arbitrary: n acc p rule: list_nonempty_induct)
  case (single v)
  then obtain m where m: "n = Suc m" by (cases n) auto
  have r: "remaining p = write_canonical v @ CHR '']'' # rest" using single.prems(4) by simp
  show ?case
    using p_value_written [OF _ r _ _ single.prems(3) [unfolded m p_array_loop.simps]] single.prems(1,2)
    by simp
next
  case (cons v vs)
  then obtain m where m: "n = Suc m" by (cases n) auto
  define tail where "tail = intercalate '','' (map write_canonical vs) @ CHR '']'' # rest"
  have r: "remaining p = write_canonical v @ CHR '','' # tail"
    using cons.prems(4) cons.hyps by (cases vs) (simp_all add: tail_def)
  have "utf8_valid tail"
    using cons.prems(1,2) unfolding tail_def
    by (auto intro!: utf8_valid_append utf8_valid_intercalate utf8_valid_write_canonical
        simp: utf8_valid_Cons_ascii)
  define q where "q = advance (Suc (length (write_canonical v))) p"
  have "p_array_loop m (acc @ [v]) q = Some r"
    using p_value_written [OF _ r _ \<open>utf8_valid tail\<close> cons.prems(3) [unfolded m p_array_loop.simps]]
      cons.prems(1) by (simp add: q_def)
  moreover have "remaining q = tail" by (simp add: q_def r)
  ultimately have "r = Inr (VArray (acc @ v # vs),
      advance (Suc (length (intercalate '','' (map write_canonical vs)))) q)"
    using cons.IH [of m "acc @ [v]" q] cons.prems by (simp add: tail_def)
  then show ?case using cons.hyps by (cases vs) (simp_all add: q_def)
qed

lemma p_array_written:
  assumes "p_array n p = Some r" and "remaining p = CHR ''['' # intercalate '','' (map write_canonical vs) @ CHR '']'' # rest"
    and "\<forall>v \<in> set vs. inverts v \<and> wf_value v" and "utf8_valid rest"
  shows "r = Inr (VArray vs, advance (2 + length (intercalate '','' (map write_canonical vs))) p)"
proof -
  obtain m where "n = Suc m" using assms(1) by (cases n) auto
  with assms(1,2) have loop: "(let p2 = skip_whitespace (advance 1 p) in
        if peek p2 = Some (CHR '']'') then Some (Inr (VArray [], advance 1 p2))
        else p_array_loop m [] p2) = Some r"
    by (simp add: expect_def peek_remaining)
  have r1: "remaining (advance 1 p) = intercalate '','' (map write_canonical vs) @ CHR '']'' # rest"
    using assms(2) by simp
  show ?thesis
  proof (cases vs)
    case Nil
    then have "skip_whitespace (advance 1 p) = advance 1 p"
      using r1 by (intro skip_whitespace_delim) auto
    with Nil loop r1 show ?thesis by (simp add: peek_remaining numeral_2_eq_2)
  next
    case (Cons v vs')
    obtain s where s: "remaining (advance 1 p) = write_canonical v @ s"
      using r1 Cons by (cases vs') auto
    obtain c w where c: "write_canonical v = c # w" "\<not> delim [c]" by (rule write_canonical_head)
    have "p_array_loop m [] (advance 1 p) = Some r"
      using loop skip_whitespace_written [OF s] s c by (simp add: peek_remaining)
    from p_array_loop_written [OF _ assms(3,4) this r1] Cons show ?thesis by simp
  qed
qed

lemma inverts_array:
  assumes "\<forall>v \<in> set vs. inverts v \<and> wf_value v"
  shows "inverts (VArray vs)"
proof -
  have "r = Inr (VArray vs, advance (length (write_canonical (VArray vs))) p)"
    if pv: "p_value n p = Some r" and rp: "remaining p = write_canonical (VArray vs) @ rest"
      and ur: "utf8_valid rest" for n p rest r
  proof -
    have "peek p = Some (CHR ''['')" using rp by (simp add: peek_remaining)
    then obtain m where "p_array m p = Some r" using pv by (cases n) auto
    from p_array_written [OF this _ assms ur] rp show ?thesis by simp
  qed
  then show ?thesis by (simp add: inverts_def)
qed

text \<open>Members are written in key order, so each new key goes to the end of the map.\<close>

abbreviation write_member :: "string \<times> cvalue \<Rightarrow> string" where
  "write_member e \<equiv> write_canonical_string (fst e) @ '':'' @ write_canonical (snd e)"

lemma write_member_head: "\<exists>w. write_member e = CHR 0x22 # w"
  by (simp add: write_canonical_string_def)

lemma p_object_member_written:
  assumes "p_object_loop (Suc m) es p = Some r" and "remaining p = write_member (k, v) @ c # tail"
    and "delim [c]" and "utf8_valid tail" and "utf8_valid k" and "inverts v" and "wf_value v"
    and "\<forall>k' \<in> set (map fst es). k' < k"
  defines "q \<equiv> advance (Suc (length (write_member (k, v)))) p"
  shows "(if c = CHR '','' then p_object_loop m (es @ [(k, v)]) q
          else if c = CHR 0x7D then Some (Inr (VObject (es @ [(k, v)]), q)) else Some r) = Some r"
proof -
  define a b where "a = length (write_canonical_string k)" and "b = length (write_canonical v)"
  have rp: "remaining p = write_canonical_string k @ CHR '':'' # write_canonical v @ c # tail"
    using assms(2) by simp
  have skip0: "skip_whitespace p = p"
    using rp by (intro skip_whitespace_none) (auto simp: write_canonical_string_def is_ws_def)
  have uc: "utf8_valid (c # tail)" using assms(3,4) by (auto simp: utf8_valid_Cons_ascii)
  then have "utf8_valid (CHR '':'' # write_canonical v @ c # tail)"
    using assms(7) by (simp add: utf8_valid_Cons_ascii utf8_valid_append utf8_valid_write_canonical)
  from p_string_written [OF assms(5) this rp] have str: "p_string p = Inr (k, advance a p)"
    by (simp add: a_def)
  have fresh: "map_of es k = None"
    using assms(8) by (auto simp: map_of_eq_None_iff)
  have skip1: "skip_whitespace (advance a p) = advance a p"
    using rp by (intro skip_whitespace_none) (auto simp: a_def is_ws_def)
  have colon: "expect (CHR '':'') (advance a p) = Inr ((), advance (Suc a) p)"
    using rp by (simp add: expect_def peek_remaining a_def)
  have r2: "remaining (advance (Suc a) p) = write_canonical v @ c # tail" using rp by (simp add: a_def)
  note value_step = assms(1) [unfolded p_object_loop.simps Let_def skip0 str bindF_Some_Inr fresh
      skip1 colon, simplified]
  note w = p_value_written [OF assms(6) r2 assms(3,4) value_step]
  have "btree_insert k v es = es @ [(k, v)]" by (rule btree_insert_last) (use assms(8) in simp)
  with w assms(3) show ?thesis by (auto simp: q_def a_def)
qed

lemma utf8_valid_member: "utf8_valid (fst e) \<Longrightarrow> wf_value (snd e) \<Longrightarrow> utf8_valid (write_member e)"
  by (simp add: utf8_valid_append utf8_valid_Cons_ascii write_canonical_string_valid
      utf8_valid_write_canonical)

lemma utf8_valid_members:
  assumes "\<forall>e \<in> set ms. utf8_valid (fst e) \<and> wf_value (snd e)"
  shows "utf8_valid (intercalate '','' (map write_member ms))"
proof (rule utf8_valid_intercalate, rule ballI)
  fix w assume "w \<in> set (map write_member ms)"
  then obtain e where "e \<in> set ms" and w: "w = write_member e" by (simp only: set_map) blast
  with assms have "utf8_valid (fst e)" "wf_value (snd e)" by simp_all
  then show "utf8_valid w" unfolding w by (rule utf8_valid_member)
qed

lemma p_object_loop_written:
  assumes "ms \<noteq> []" and "\<forall>e \<in> set ms. utf8_valid (fst e) \<and> inverts (snd e) \<and> wf_value (snd e)"
    and "sorted_keys (es @ ms)" and "utf8_valid rest" and "p_object_loop n es p = Some r"
    and "remaining p = intercalate '','' (map write_member ms) @ CHR 0x7D # rest"
  shows "r = Inr (VObject (es @ ms), advance (Suc (length (intercalate '','' (map write_member ms)))) p)"
  using assms
proof (induction ms arbitrary: n es p rule: list_nonempty_induct)
  case (single e)
  then obtain m where m: "n = Suc m" by (cases n) auto
  have "\<forall>k' \<in> set (map fst es). k' < fst e"
    using single.prems(2) by (auto simp: sorted_keys_def sorted_wrt_append)
  with p_object_member_written [OF single.prems(4) [unfolded m], of "fst e" "snd e" "CHR 0x7D" rest]
    single.prems(1,3,5) show ?case by simp
next
  case (cons e ms)
  then obtain m where m: "n = Suc m" by (cases n) auto
  define tail where "tail = intercalate '','' (map write_member ms) @ CHR 0x7D # rest"
  have r: "remaining p = write_member e @ CHR '','' # tail"
    using cons.prems(5) cons.hyps by (cases ms) (simp_all add: tail_def)
  have "utf8_valid tail"
  proof -
    have "\<forall>e \<in> set ms. utf8_valid (fst e) \<and> wf_value (snd e)" using cons.prems(1) by simp
    from utf8_valid_members [OF this] cons.prems(3) show ?thesis
      unfolding tail_def by (intro utf8_valid_append) (simp_all add: utf8_valid_Cons_ascii)
  qed
  define q where "q = advance (Suc (length (write_member e))) p"
  have "\<forall>k' \<in> set (map fst es). k' < fst e"
    using cons.prems(2) by (auto simp: sorted_keys_def sorted_wrt_append)
  with p_object_member_written [OF cons.prems(4) [unfolded m], of "fst e" "snd e" "CHR '',''" tail]
    cons.prems(1) r \<open>utf8_valid tail\<close>
  have "p_object_loop m (es @ [e]) q = Some r" by (simp add: q_def)
  moreover have "remaining q = tail" by (simp add: q_def r)
  ultimately have "r = Inr (VObject (es @ e # ms),
      advance (Suc (length (intercalate '','' (map write_member ms)))) q)"
    using cons.IH [of "es @ [e]" m q] cons.prems by (simp add: tail_def)
  then show ?case using cons.hyps by (cases ms) (simp_all add: q_def)
qed

lemma p_object_written:
  assumes "p_object n p = Some r"
    and "remaining p = CHR 0x7B # intercalate '','' (map write_member ms) @ CHR 0x7D # rest"
    and "\<forall>e \<in> set ms. utf8_valid (fst e) \<and> inverts (snd e) \<and> wf_value (snd e)"
    and "sorted_keys ms" and "utf8_valid rest"
  shows "r = Inr (VObject ms, advance (2 + length (intercalate '','' (map write_member ms))) p)"
proof -
  obtain m where "n = Suc m" using assms(1) by (cases n) auto
  with assms(1,2) have loop: "(let p2 = skip_whitespace (advance 1 p) in
        if peek p2 = Some (CHR 0x7D) then Some (Inr (VObject [], advance 1 p2))
        else p_object_loop m [] p2) = Some r"
    by (simp add: expect_def peek_remaining)
  have r1: "remaining (advance 1 p) = intercalate '','' (map write_member ms) @ CHR 0x7D # rest"
    using assms(2) by simp
  show ?thesis
  proof (cases ms)
    case Nil
    then have "skip_whitespace (advance 1 p) = advance 1 p"
      using r1 by (intro skip_whitespace_delim) auto
    with Nil loop r1 show ?thesis by (simp add: peek_remaining numeral_2_eq_2)
  next
    case (Cons e ms')
    obtain s where s: "remaining (advance 1 p) = CHR 0x22 # s"
      using r1 Cons by (cases ms') (auto simp: write_canonical_string_def)
    then have "skip_whitespace (advance 1 p) = advance 1 p"
      by (rule skip_whitespace_none) (simp add: is_ws_def)
    with loop s have "p_object_loop m [] (advance 1 p) = Some r" by (simp add: peek_remaining)
    from p_object_loop_written [OF _ assms(3) _ assms(5) this r1] Cons assms(4) show ?thesis by simp
  qed
qed

lemma inverts_object:
  assumes "\<forall>e \<in> set ms. utf8_valid (fst e) \<and> inverts (snd e) \<and> wf_value (snd e)" and "sorted_keys ms"
  shows "inverts (VObject ms)"
proof -
  have "r = Inr (VObject ms, advance (length (write_canonical (VObject ms))) p)"
    if pv: "p_value n p = Some r" and rp: "remaining p = write_canonical (VObject ms) @ rest"
      and ur: "utf8_valid rest" for n p rest r
  proof -
    have "peek p = Some (CHR 0x7B)" using rp by (simp add: peek_remaining)
    then obtain m where "p_object m p = Some r" using pv by (cases n) auto
    from p_object_written [OF this _ assms ur] rp show ?thesis by simp
  qed
  then show ?thesis by (simp add: inverts_def)
qed

lemma wf_value_inverts: "wf_value v \<Longrightarrow> inverts v"
proof (induction v rule: wf_value.induct)
  case (5 vs)
  then show ?case by (auto intro!: inverts_array)
next
  case (6 es)
  then show ?case by (auto intro!: inverts_object)
qed (auto intro: inverts_literal inverts_integer inverts_string)

lemma parse_to_canonical_bytes:
  assumes "wf_value v"
  shows "parse (to_canonical_bytes v) = Inr v"
proof -
  let ?s = "to_canonical_bytes v" and ?p = "\<lparr>bytes = to_canonical_bytes v, offset = 0\<rparr>"
  have r: "remaining ?p = write_canonical v @ []" by (simp add: remaining_def to_canonical_bytes_def)
  note skip = skip_whitespace_written [OF r]
  obtain x where x: "p_value (parse_budget ?s) ?p = Some x"
    using parse_fuel_total [of ?s "parse_budget ?s"] skip
    by (cases "p_value (parse_budget ?s) ?p") (auto simp: parse_fuel_def)
  have v: "x = Inr (v, advance (length (write_canonical v)) ?p)"
    using invertsD [OF wf_value_inverts [OF assms] x r] by simp
  have "skip_whitespace (advance (length (write_canonical v)) ?p) = advance (length (write_canonical v)) ?p"
    using r by (intro skip_whitespace_end) simp
  with v x skip have "parse_fuel (parse_budget ?s) ?s = Some (Inr v)"
    by (simp add: parse_fuel_def to_canonical_bytes_def)
  then show ?thesis using parse_parse_fuel [of ?s] by simp
qed

lemma to_canonical_bytes_inj:
  "wf_value a \<Longrightarrow> wf_value b \<Longrightarrow> to_canonical_bytes a = to_canonical_bytes b \<longleftrightarrow> a = b"
  by (metis parse_to_canonical_bytes sum.inject(2))

text \<open>Equal digests identify equal values, or exhibit a collision of the hash function.\<close>

lemma value_digest_identity:
  assumes "wf_value a" and "wf_value b" and "value_digest sha a = value_digest sha b"
  shows "a = b \<or> (\<exists>x y. x \<noteq> y \<and> sha x = sha y)"
proof (cases "a = b")
  case False
  with assms(1,2) have "to_canonical_bytes a \<noteq> to_canonical_bytes b" by (simp add: to_canonical_bytes_inj)
  moreover have "sha (to_canonical_bytes a) = sha (to_canonical_bytes b)"
    using assms(3) by (simp add: value_digest_def digest_of_def)
  ultimately show ?thesis by blast
qed simp

end
