(* ===== verification/Codec.thy ===== *)
theory Codec
  imports Parse_Roundtrip
begin

text \<open>
  Stored documents. A Goal revision, a Task specification and a context snapshot are
  written as the canonical JSON of their \<open>to_value\<close> and read back by parsing that text and
  decoding the value. The locale states what a document type promises (its values are
  well formed, its decoder inverts its encoder); its lemmas are what the rest of the
  program relies on: reading a stored document returns exactly what was stored, and a
  digest names one document unless the hash function collides.
\<close>

text \<open>\<open>fmt::Display for ParseError\<close>.\<close>

definition parse_error_display :: "parse_error \<Rightarrow> message" where
  "parse_error_display e =
     Fmt ''malformed configuration source at byte {}: {}'' [FInt (int (pe_offset e)), FMsg (pe_detail e)]"

text \<open>\<open>parse(text)\<close> with its error mapped, followed by the decoding of the value.\<close>

definition decode_text :: "(parse_error \<Rightarrow> 'e) \<Rightarrow> (cvalue \<Rightarrow> ('e, 'a) res) \<Rightarrow> string \<Rightarrow> ('e, 'a) res" where
  "decode_text err dec s = (case parse s of Inl e \<Rightarrow> Inl (err e) | Inr v \<Rightarrow> dec v)"

definition strings :: "string list \<Rightarrow> cvalue" where
  "strings vs = VArray (map VString vs)"

lemma wf_strings [simp]: "wf_value (strings vs) \<longleftrightarrow> (\<forall>s \<in> set vs. utf8_valid s)"
  by (auto simp: strings_def)

lemma wf_object_iff [simp]:
  "distinct (map fst ps) \<Longrightarrow>
   wf_value (object ps) \<longleftrightarrow> (\<forall>e \<in> set ps. utf8_valid (fst e) \<and> wf_value (snd e))"
proof -
  assume d: "distinct (map fst ps)"
  have "wf_value (object ps) \<Longrightarrow> e \<in> set ps \<Longrightarrow> utf8_valid (fst e) \<and> wf_value (snd e)" for e
  proof -
    assume wf: "wf_value (object ps)" and e: "e \<in> set ps"
    have "map_of (btree_of ps) (fst e) = Some (snd e)"
      using d e by (simp add: map_of_btree_of_distinct)
    then have "e \<in> set (btree_of ps)" by (metis map_of_SomeD prod.collapse)
    with wf show ?thesis by (simp add: object_def)
  qed
  with wf_object show "wf_value (object ps) \<longleftrightarrow> (\<forall>e \<in> set ps. utf8_valid (fst e) \<and> wf_value (snd e))"
    by blast
qed

text \<open>Two objects built from member lists are equal only if every member agrees.\<close>

lemma object_member_eq: "object ps = object qs \<Longrightarrow> map_of (rev ps) k = map_of (rev qs) k"
  by (metis get_object)

lemma utf8_valid_literal: "list_all (\<lambda>c. (of_char c :: nat) < 128) s \<Longrightarrow> utf8_valid s"
  by (simp add: list_all_iff utf8_valid_ascii)

lemma from_digit16_ascii: "(of_char (from_digit16 n) :: nat) < 128"
  using from_digit16_char(3) [of n] by (cases "n < 16") (simp_all add: from_digit16_def)

lemma utf8_valid_display: "utf8_valid (display d)"
proof (rule utf8_valid_ascii)
  obtain bs where d: "d = Digest bs" by (cases d)
  have "\<forall>c \<in> set (concat (map byte_hex bs)). (of_char c :: nat) < 128"
    by (induction bs) (simp_all add: byte_hex_def from_digit16_ascii)
  then show "\<forall>c \<in> set (display d). (of_char c :: nat) < 128" by (simp add: display_def d)
qed

locale canonical_codec =
  fixes to_value :: "'a \<Rightarrow> cvalue"
    and decode :: "cvalue \<Rightarrow> ('e, 'a) res"
    and wf :: "'a \<Rightarrow> bool"
    and err :: "parse_error \<Rightarrow> 'e"
  assumes wf_to_value: "wf x \<Longrightarrow> wf_value (to_value x)"
    and decode_to_value: "wf x \<Longrightarrow> decode (to_value x) = Inr x"
begin

lemma stored_roundtrip: "wf x \<Longrightarrow> decode_text err decode (to_canonical_bytes (to_value x)) = Inr x"
  by (simp add: decode_text_def parse_to_canonical_bytes wf_to_value decode_to_value)

lemma to_value_inj: "wf x \<Longrightarrow> wf y \<Longrightarrow> to_value x = to_value y \<longleftrightarrow> x = y"
  by (metis decode_to_value sum.inject(2))

lemma stored_text_inj:
  "wf x \<Longrightarrow> wf y \<Longrightarrow> to_canonical_bytes (to_value x) = to_canonical_bytes (to_value y) \<longleftrightarrow> x = y"
  by (simp add: to_canonical_bytes_inj wf_to_value to_value_inj)

lemma digest_identity:
  assumes "wf x" and "wf y" and "value_digest sha (to_value x) = value_digest sha (to_value y)"
  shows "x = y \<or> (\<exists>a b. a \<noteq> b \<and> sha a = sha b)"
  using value_digest_identity [OF wf_to_value [OF assms(1)] wf_to_value [OF assms(2)] assms(3)]
    to_value_inj [OF assms(1,2)] by blast

end

end
