(* ===== verification/Goal.thy ===== *)
theory Goal
  imports Codec
begin

text \<open>
  The Goal and its immutable revision content
  (\<^verbatim>\<open>crates/pantheon-core/src/planning/goal.rs\<close>): lifecycle phases, the specification
  record, its canonical value and the decoder that reads a stored revision back.
\<close>

section \<open>Phases\<close>

datatype goal_phase =
    GPlanning | GActive | GEvaluating | GFinalizing | GSucceeded | GFailed | GCancelled

fun goal_phase_as_str :: "goal_phase \<Rightarrow> string" where
  "goal_phase_as_str GPlanning = ''Planning''"
| "goal_phase_as_str GActive = ''Active''"
| "goal_phase_as_str GEvaluating = ''Evaluating''"
| "goal_phase_as_str GFinalizing = ''Finalizing''"
| "goal_phase_as_str GSucceeded = ''Succeeded''"
| "goal_phase_as_str GFailed = ''Failed''"
| "goal_phase_as_str GCancelled = ''Cancelled''"

fun goal_phase_is_nonterminal :: "goal_phase \<Rightarrow> bool" where
  "goal_phase_is_nonterminal p = (p \<in> {GPlanning, GActive, GEvaluating, GFinalizing})"

definition goal_phase_parse :: "string \<Rightarrow> goal_phase option" where
  "goal_phase_parse s =
     (if s = ''Planning'' then Some GPlanning
      else if s = ''Active'' then Some GActive
      else if s = ''Evaluating'' then Some GEvaluating
      else if s = ''Finalizing'' then Some GFinalizing
      else if s = ''Succeeded'' then Some GSucceeded
      else if s = ''Failed'' then Some GFailed
      else if s = ''Cancelled'' then Some GCancelled
      else None)"

interpretation goal_phase: wire_enum goal_phase_as_str goal_phase_parse
proof
  fix x show "goal_phase_parse (goal_phase_as_str x) = Some x"
    by (cases x) (simp_all add: goal_phase_parse_def)
next
  fix s x assume "goal_phase_parse s = Some x"
  then show "s = goal_phase_as_str x" by (auto simp: goal_phase_parse_def split: if_splits)
qed

section \<open>Specification\<close>

record goal_input =
  gi_name :: string
  gi_reference :: string

record deliverable =
  dl_name :: string
  dl_kind :: string
  dl_required :: bool

record goal_constraints =
  gc_permitted_effects :: "string list"
  gc_forbidden_effects :: "string list"
  gc_permitted_resources :: "string list"

record goal_spec =
  gs_objective :: string
  gs_inputs :: "goal_input list"
  gs_deliverables :: "deliverable list"
  gs_constraints :: goal_constraints

definition goal_to_value :: "goal_spec \<Rightarrow> cvalue" where
  "goal_to_value g = object [
     (''objective'', VString (gs_objective g)),
     (''inputs'', VArray (map (\<lambda>i. object [
        (''name'', VString (gi_name i)), (''ref'', VString (gi_reference i))]) (gs_inputs g))),
     (''deliverables'', VArray (map (\<lambda>d. object [
        (''name'', VString (dl_name d)), (''kind'', VString (dl_kind d)),
        (''required'', VBool (dl_required d))]) (gs_deliverables g))),
     (''constraints'', object [
        (''permittedEffects'', strings (gc_permitted_effects (gs_constraints g))),
        (''forbiddenEffects'', strings (gc_forbidden_effects (gs_constraints g))),
        (''permittedResources'', strings (gc_permitted_resources (gs_constraints g)))])]"

definition goal_digest :: "sha256 \<Rightarrow> goal_spec \<Rightarrow> digest" where
  "goal_digest sha g = value_digest sha (goal_to_value g)"

definition required_deliverable_kinds :: "goal_spec \<Rightarrow> string list" where
  "required_deliverable_kinds g = map dl_kind (filter dl_required (gs_deliverables g))"

section \<open>Reading a stored revision\<close>

datatype goal_decode_error = GoalDecodeError message

definition goal_field :: "cvalue \<Rightarrow> string \<Rightarrow> (goal_decode_error, cvalue) res" where
  "goal_field v name = ok_or (get v name) (GoalDecodeError (Fmt ''missing {name}'' [FStr name]))"

definition goal_input_of :: "cvalue \<Rightarrow> (goal_decode_error, goal_input) res" where
  "goal_input_of entry = (case (get entry ''name'', get entry ''ref'') of
     (Some (VString name), Some (VString reference)) \<Rightarrow> Inr \<lparr>gi_name = name, gi_reference = reference\<rparr>
   | _ \<Rightarrow> Inl (GoalDecodeError (Fmt ''malformed input'' [])))"

definition deliverable_of :: "cvalue \<Rightarrow> (goal_decode_error, deliverable) res" where
  "deliverable_of entry = (case (get entry ''name'', get entry ''kind'', get entry ''required'') of
     (Some (VString name), Some (VString knd), Some (VBool required)) \<Rightarrow>
       Inr \<lparr>dl_name = name, dl_kind = knd, dl_required = required\<rparr>
   | _ \<Rightarrow> Inl (GoalDecodeError (Fmt ''malformed deliverable'' [])))"

text \<open>
  The two \<open>if let Value::Array(entries)\<close> loops: a member that is present but is not an
  array contributes nothing.
\<close>

definition array_or_nothing :: "(cvalue \<Rightarrow> ('e, 'a) res) \<Rightarrow> cvalue \<Rightarrow> ('e, 'a list) res" where
  "array_or_nothing f v = (case v of VArray entries \<Rightarrow> traverse f entries | _ \<Rightarrow> Inr [])"

definition goal_list :: "cvalue \<Rightarrow> string \<Rightarrow> (goal_decode_error, string list) res" where
  "goal_list constraints_value name = (case get constraints_value name of
     Some (VArray entries) \<Rightarrow>
       traverse (\<lambda>entry. case entry of
           VString s \<Rightarrow> Inr s
         | _ \<Rightarrow> Inl (GoalDecodeError (Fmt ''constraints.{name} is not strings'' [FStr name]))) entries
   | _ \<Rightarrow> Inl (GoalDecodeError (Fmt ''missing constraints.{name}'' [FStr name])))"

definition goal_of_value :: "cvalue \<Rightarrow> (goal_decode_error, goal_spec) res" where
  "goal_of_value v =
     bindR (goal_field v ''objective'') (\<lambda>objective_value.
     bindR (case objective_value of
              VString s \<Rightarrow> Inr s
            | _ \<Rightarrow> Inl (GoalDecodeError (Fmt ''objective is not a string'' []))) (\<lambda>objective.
     bindR (bindR (goal_field v ''inputs'') (array_or_nothing goal_input_of)) (\<lambda>inputs.
     bindR (bindR (goal_field v ''deliverables'') (array_or_nothing deliverable_of)) (\<lambda>deliverables.
     bindR (goal_field v ''constraints'') (\<lambda>constraints_value.
     bindR (goal_list constraints_value ''permittedEffects'') (\<lambda>pe.
     bindR (goal_list constraints_value ''forbiddenEffects'') (\<lambda>fe.
     bindR (goal_list constraints_value ''permittedResources'') (\<lambda>pr.
       Inr \<lparr>gs_objective = objective, gs_inputs = inputs, gs_deliverables = deliverables,
            gs_constraints = \<lparr>gc_permitted_effects = pe, gc_forbidden_effects = fe,
                              gc_permitted_resources = pr\<rparr>\<rparr>))))))))"

definition goal_parse_error :: "parse_error \<Rightarrow> goal_decode_error" where
  "goal_parse_error e = GoalDecodeError (parse_error_display e)"

definition goal_from_canonical_json :: "string \<Rightarrow> (goal_decode_error, goal_spec) res" where
  "goal_from_canonical_json s = decode_text goal_parse_error goal_of_value s"

section \<open>The stored document\<close>

text \<open>Rust strings are valid UTF-8; that is all a well-formed specification needs.\<close>

definition wf_goal :: "goal_spec \<Rightarrow> bool" where
  "wf_goal g \<longleftrightarrow> utf8_valid (gs_objective g) \<and>
     list_all (\<lambda>i. utf8_valid (gi_name i) \<and> utf8_valid (gi_reference i)) (gs_inputs g) \<and>
     list_all (\<lambda>d. utf8_valid (dl_name d) \<and> utf8_valid (dl_kind d)) (gs_deliverables g) \<and>
     list_all utf8_valid (gc_permitted_effects (gs_constraints g)) \<and>
     list_all utf8_valid (gc_forbidden_effects (gs_constraints g)) \<and>
     list_all utf8_valid (gc_permitted_resources (gs_constraints g))"

lemma wf_goal_to_value: "wf_goal g \<Longrightarrow> wf_value (goal_to_value g)"
  by (auto simp: wf_goal_def goal_to_value_def list_all_iff utf8_valid_literal)

lemma goal_list_strings:
  "get v name = Some (strings ss) \<Longrightarrow> goal_list v name = Inr ss"
  by (simp add: goal_list_def strings_def traverse_map_inverse)

lemma goal_of_value_to_value: "goal_of_value (goal_to_value g) = Inr g"
proof -
  have i: "traverse goal_input_of (map (\<lambda>i. object [
      (''name'', VString (gi_name i)), (''ref'', VString (gi_reference i))]) is) = Inr is" for "is"
    by (rule traverse_map_inverse) (simp add: goal_input_of_def get_object)
  have d: "traverse deliverable_of (map (\<lambda>d. object [
      (''name'', VString (dl_name d)), (''kind'', VString (dl_kind d)),
      (''required'', VBool (dl_required d))]) ds) = Inr ds" for ds
    by (rule traverse_map_inverse) (simp add: deliverable_of_def get_object)
  show ?thesis
    by (simp add: goal_of_value_def goal_to_value_def goal_field_def get_object array_or_nothing_def
        i d goal_list_strings)
qed

interpretation goal_codec: canonical_codec goal_to_value goal_of_value wf_goal goal_parse_error
  by unfold_locales (simp_all add: wf_goal_to_value goal_of_value_to_value)

end
