(* ===== verification/Task.thy ===== *)
theory Task
  imports Codec
begin

text \<open>
  The immutable Task specification and the Task lifecycle
  (\<^verbatim>\<open>crates/pantheon-core/src/planning/task.rs\<close>): phases, the specification with its
  pinned acceptance contract, the canonical value behind the spec digest, and the decoder
  routing uses to read a stored Task.
\<close>

section \<open>Phases\<close>

datatype task_phase =
    TPending | TReady | TActive | TWaiting | TEvaluating | TFinalizing
  | TSucceeded | TFailed | TCancelled | TSuperseded

fun task_phase_as_str :: "task_phase \<Rightarrow> string" where
  "task_phase_as_str TPending = ''Pending''"
| "task_phase_as_str TReady = ''Ready''"
| "task_phase_as_str TActive = ''Active''"
| "task_phase_as_str TWaiting = ''Waiting''"
| "task_phase_as_str TEvaluating = ''Evaluating''"
| "task_phase_as_str TFinalizing = ''Finalizing''"
| "task_phase_as_str TSucceeded = ''Succeeded''"
| "task_phase_as_str TFailed = ''Failed''"
| "task_phase_as_str TCancelled = ''Cancelled''"
| "task_phase_as_str TSuperseded = ''Superseded''"

fun task_phase_is_terminal :: "task_phase \<Rightarrow> bool" where
  "task_phase_is_terminal p = (p \<in> {TSucceeded, TFailed, TCancelled, TSuperseded})"

fun requires_no_run :: "task_phase \<Rightarrow> bool" where
  "requires_no_run p = (p \<in> {TReady, TWaiting})"

definition task_phase_parse :: "string \<Rightarrow> task_phase option" where
  "task_phase_parse s =
     (if s = ''Pending'' then Some TPending
      else if s = ''Ready'' then Some TReady
      else if s = ''Active'' then Some TActive
      else if s = ''Waiting'' then Some TWaiting
      else if s = ''Evaluating'' then Some TEvaluating
      else if s = ''Finalizing'' then Some TFinalizing
      else if s = ''Succeeded'' then Some TSucceeded
      else if s = ''Failed'' then Some TFailed
      else if s = ''Cancelled'' then Some TCancelled
      else if s = ''Superseded'' then Some TSuperseded
      else None)"

interpretation task_phase: wire_enum task_phase_as_str task_phase_parse
proof
  fix x show "task_phase_parse (task_phase_as_str x) = Some x"
    by (cases x) (simp_all add: task_phase_parse_def)
next
  fix s x assume "task_phase_parse s = Some x"
  then show "s = task_phase_as_str x" by (auto simp: task_phase_parse_def split: if_splits)
qed

section \<open>Specification\<close>

record task_input =
  ti_name :: string
  ti_reference :: string

record task_output =
  to_name :: string
  to_kind :: string
  to_required :: bool

record task_scope =
  ts_resources :: "string list"
  ts_permitted_effects :: "string list"
  ts_forbidden_effects :: "string list"

datatype severity = SevRequired | SevAdvisory

fun severity_as_str :: "severity \<Rightarrow> string" where
  "severity_as_str SevRequired = ''required''"
| "severity_as_str SevAdvisory = ''advisory''"

record acceptance_criterion =
  ac_id :: string
  ac_statement :: string
  ac_evaluator_ref :: string
  ac_evaluator_version :: string
  ac_severity :: severity

record acceptance_contract =
  act_criteria :: "acceptance_criterion list"
  act_evaluator_registry_digest :: digest
  act_configuration_activation_sequence :: int

record task_spec =
  tk_task_type :: string
  tk_objective :: string
  tk_inputs :: "task_input list"
  tk_outputs :: "task_output list"
  tk_competencies :: "string list"
  tk_scope :: task_scope
  tk_acceptance :: acceptance_contract
  tk_goal_id :: string
  tk_goal_revision :: int

definition criterion_value :: "acceptance_criterion \<Rightarrow> cvalue" where
  "criterion_value c = object [
     (''id'', VString (ac_id c)),
     (''statement'', VString (ac_statement c)),
     (''evaluatorRef'', VString (ac_evaluator_ref c)),
     (''evaluatorVersion'', VString (ac_evaluator_version c)),
     (''severity'', VString (severity_as_str (ac_severity c)))]"

definition acceptance_value :: "task_spec \<Rightarrow> cvalue" where
  "acceptance_value t = object [
     (''strategy'', VString ''all''),
     (''criteria'', VArray (map criterion_value (act_criteria (tk_acceptance t)))),
     (''evaluatorRegistryDigest'',
        VString (display (act_evaluator_registry_digest (tk_acceptance t)))),
     (''configurationActivationSequence'',
        VInteger (act_configuration_activation_sequence (tk_acceptance t)))]"

definition task_to_value :: "task_spec \<Rightarrow> cvalue" where
  "task_to_value t = object [
     (''type'', VString (tk_task_type t)),
     (''objective'', VString (tk_objective t)),
     (''inputs'', VArray (map (\<lambda>i. object [
        (''name'', VString (ti_name i)), (''ref'', VString (ti_reference i))]) (tk_inputs t))),
     (''outputs'', VArray (map (\<lambda>out. object [
        (''name'', VString (to_name out)), (''kind'', VString (to_kind out)),
        (''required'', VBool (to_required out))]) (tk_outputs t))),
     (''competencies'', strings (tk_competencies t)),
     (''scope'', object [
        (''resources'', strings (ts_resources (tk_scope t))),
        (''permittedEffects'', strings (ts_permitted_effects (tk_scope t))),
        (''forbiddenEffects'', strings (ts_forbidden_effects (tk_scope t)))]),
     (''acceptance'', acceptance_value t),
     (''goalId'', VString (tk_goal_id t)),
     (''goalRevision'', VInteger (tk_goal_revision t))]"

definition task_digest :: "sha256 \<Rightarrow> task_spec \<Rightarrow> digest" where
  "task_digest sha t = value_digest sha (task_to_value t)"

definition acceptance_digest :: "sha256 \<Rightarrow> task_spec \<Rightarrow> digest" where
  "acceptance_digest sha t = value_digest sha (acceptance_value t)"

section \<open>Reading a stored specification\<close>

datatype task_decode_error = TaskDecodeError message

definition entry_string :: "cvalue \<Rightarrow> string \<Rightarrow> (task_decode_error, string) res" where
  "entry_string v name = (case get v name of
     Some (VString s) \<Rightarrow> Inr s
   | Some other \<Rightarrow> Inl (TaskDecodeError
       (Fmt ''{name} is not a string (found {})'' [FStr name, FStr (kind other)]))
   | None \<Rightarrow> Inl (TaskDecodeError (Fmt ''missing {name}'' [FStr name])))"

definition entry_integer :: "cvalue \<Rightarrow> string \<Rightarrow> (task_decode_error, int) res" where
  "entry_integer v name = (case get v name of
     Some (VInteger n) \<Rightarrow> Inr n
   | Some other \<Rightarrow> Inl (TaskDecodeError
       (Fmt ''{name} is not an integer (found {})'' [FStr name, FStr (kind other)]))
   | None \<Rightarrow> Inl (TaskDecodeError (Fmt ''missing {name}'' [FStr name])))"

definition task_string_list :: "cvalue \<Rightarrow> string \<Rightarrow> (task_decode_error, string list) res" where
  "task_string_list parent name = (case get parent name of
     Some (VArray entries) \<Rightarrow>
       traverse (\<lambda>entry. case entry of
           VString s \<Rightarrow> Inr s
         | other \<Rightarrow> Inl (TaskDecodeError
             (Fmt ''{name} contains a non-string value ({})'' [FStr name, FStr (kind other)]))) entries
   | _ \<Rightarrow> Inl (TaskDecodeError (Fmt ''missing or malformed {name}'' [FStr name])))"

definition task_input_of :: "cvalue \<Rightarrow> (task_decode_error, task_input) res" where
  "task_input_of entry = (case (get entry ''name'', get entry ''ref'') of
     (Some (VString name), Some (VString reference)) \<Rightarrow> Inr \<lparr>ti_name = name, ti_reference = reference\<rparr>
   | _ \<Rightarrow> Inl (TaskDecodeError (Fmt ''malformed input'' [])))"

definition task_output_of :: "cvalue \<Rightarrow> (task_decode_error, task_output) res" where
  "task_output_of entry = (case (get entry ''name'', get entry ''kind'', get entry ''required'') of
     (Some (VString name), Some (VString knd), Some (VBool required)) \<Rightarrow>
       Inr \<lparr>to_name = name, to_kind = knd, to_required = required\<rparr>
   | _ \<Rightarrow> Inl (TaskDecodeError (Fmt ''malformed output'' [])))"

definition severity_of :: "string \<Rightarrow> (task_decode_error, severity) res" where
  "severity_of s =
     (if s = ''required'' then Inr SevRequired
      else if s = ''advisory'' then Inr SevAdvisory
      else Inl (TaskDecodeError (Fmt ''unknown criterion severity {other:?}'' [FStr s])))"

definition criterion_of :: "cvalue \<Rightarrow> (task_decode_error, acceptance_criterion) res" where
  "criterion_of entry =
     bindR (entry_string entry ''id'') (\<lambda>id.
     bindR (entry_string entry ''statement'') (\<lambda>statement.
     bindR (entry_string entry ''evaluatorRef'') (\<lambda>evaluator_ref.
     bindR (entry_string entry ''evaluatorVersion'') (\<lambda>evaluator_version.
     bindR (bindR (entry_string entry ''severity'') severity_of) (\<lambda>sev.
       Inr \<lparr>ac_id = id, ac_statement = statement, ac_evaluator_ref = evaluator_ref,
            ac_evaluator_version = evaluator_version, ac_severity = sev\<rparr>)))))"

text \<open>A member that must be an array, with the error the source gives otherwise.\<close>

definition task_array :: "message \<Rightarrow> (cvalue \<Rightarrow> (task_decode_error, 'a) res) \<Rightarrow> cvalue option
    \<Rightarrow> (task_decode_error, 'a list) res" where
  "task_array msg f v = (case v of
     Some (VArray entries) \<Rightarrow> traverse f entries
   | _ \<Rightarrow> Inl (TaskDecodeError msg))"

definition task_missing :: "cvalue \<Rightarrow> string \<Rightarrow> message \<Rightarrow> (task_decode_error, cvalue) res" where
  "task_missing v name msg = ok_or (get v name) (TaskDecodeError msg)"

definition acceptance_of :: "cvalue \<Rightarrow> (task_decode_error, acceptance_contract) res" where
  "acceptance_of acceptance =
     bindR (task_missing acceptance ''criteria'' (Fmt ''missing acceptance.criteria'' [])) (\<lambda>criteria_value.
     bindR (task_array (Fmt ''acceptance.criteria is not an array'' []) criterion_of (Some criteria_value)) (\<lambda>criteria.
     bindR (entry_string acceptance ''strategy'') (\<lambda>strategy.
     bindR (ensure (strategy = ''all'') (TaskDecodeError
              (Fmt ''unsupported acceptance strategy {strategy:?}'' [FStr strategy]))) (\<lambda>_.
     bindR (entry_string acceptance ''evaluatorRegistryDigest'') (\<lambda>digest_text.
     bindR (ok_or (from_display digest_text)
              (TaskDecodeError (Fmt ''invalid evaluator registry digest'' []))) (\<lambda>registry.
     bindR (entry_integer acceptance ''configurationActivationSequence'') (\<lambda>sequence.
       Inr \<lparr>act_criteria = criteria, act_evaluator_registry_digest = registry,
            act_configuration_activation_sequence = sequence\<rparr>)))))))"

definition task_of_value :: "cvalue \<Rightarrow> (task_decode_error, task_spec) res" where
  "task_of_value v =
     bindR (task_array (Fmt ''missing or malformed inputs'' []) task_input_of (get v ''inputs'')) (\<lambda>inputs.
     bindR (task_array (Fmt ''missing or malformed outputs'' []) task_output_of (get v ''outputs'')) (\<lambda>outputs.
     bindR (task_missing v ''scope'' (Fmt ''missing scope'' [])) (\<lambda>scope.
     bindR (task_missing v ''acceptance'' (Fmt ''missing acceptance'' [])) (\<lambda>acceptance.
     bindR (acceptance_of acceptance) (\<lambda>contract.
     bindR (entry_string v ''type'') (\<lambda>task_type.
     bindR (entry_string v ''objective'') (\<lambda>objective.
     bindR (task_string_list v ''competencies'') (\<lambda>competencies.
     bindR (task_string_list scope ''resources'') (\<lambda>resources.
     bindR (task_string_list scope ''permittedEffects'') (\<lambda>permitted.
     bindR (task_string_list scope ''forbiddenEffects'') (\<lambda>forbidden.
     bindR (entry_string v ''goalId'') (\<lambda>goal_id.
     bindR (entry_integer v ''goalRevision'') (\<lambda>goal_revision.
       Inr \<lparr>tk_task_type = task_type, tk_objective = objective, tk_inputs = inputs,
            tk_outputs = outputs, tk_competencies = competencies,
            tk_scope = \<lparr>ts_resources = resources, ts_permitted_effects = permitted,
                        ts_forbidden_effects = forbidden\<rparr>,
            tk_acceptance = contract, tk_goal_id = goal_id, tk_goal_revision = goal_revision\<rparr>)))))))))))))"

definition task_parse_error :: "parse_error \<Rightarrow> task_decode_error" where
  "task_parse_error e = TaskDecodeError (parse_error_display e)"

definition task_from_canonical_json :: "string \<Rightarrow> (task_decode_error, task_spec) res" where
  "task_from_canonical_json s = decode_text task_parse_error task_of_value s"

section \<open>The stored document\<close>

definition wf_criterion :: "acceptance_criterion \<Rightarrow> bool" where
  "wf_criterion c \<longleftrightarrow> utf8_valid (ac_id c) \<and> utf8_valid (ac_statement c) \<and>
     utf8_valid (ac_evaluator_ref c) \<and> utf8_valid (ac_evaluator_version c)"

definition wf_task :: "task_spec \<Rightarrow> bool" where
  "wf_task t \<longleftrightarrow> utf8_valid (tk_task_type t) \<and> utf8_valid (tk_objective t) \<and>
     list_all (\<lambda>i. utf8_valid (ti_name i) \<and> utf8_valid (ti_reference i)) (tk_inputs t) \<and>
     list_all (\<lambda>out. utf8_valid (to_name out) \<and> utf8_valid (to_kind out)) (tk_outputs t) \<and>
     list_all utf8_valid (tk_competencies t) \<and>
     list_all utf8_valid (ts_resources (tk_scope t)) \<and>
     list_all utf8_valid (ts_permitted_effects (tk_scope t)) \<and>
     list_all utf8_valid (ts_forbidden_effects (tk_scope t)) \<and>
     list_all wf_criterion (act_criteria (tk_acceptance t)) \<and>
     wf_digest (act_evaluator_registry_digest (tk_acceptance t)) \<and>
     is_i64 (act_configuration_activation_sequence (tk_acceptance t)) \<and>
     utf8_valid (tk_goal_id t) \<and> is_i64 (tk_goal_revision t)"

lemma utf8_valid_severity: "utf8_valid (severity_as_str s)"
  by (cases s) (simp_all add: utf8_valid_literal)

lemma wf_acceptance_value:
  "list_all wf_criterion (act_criteria (tk_acceptance t)) \<Longrightarrow>
   is_i64 (act_configuration_activation_sequence (tk_acceptance t)) \<Longrightarrow> wf_value (acceptance_value t)"
  by (auto simp: acceptance_value_def criterion_value_def wf_criterion_def list_all_iff
      utf8_valid_literal utf8_valid_severity utf8_valid_display)

lemma wf_task_to_value: "wf_task t \<Longrightarrow> wf_value (task_to_value t)"
  by (auto simp: wf_task_def task_to_value_def list_all_iff utf8_valid_literal wf_acceptance_value)

lemma entry_string_VString [simp]: "get v name = Some (VString s) \<Longrightarrow> entry_string v name = Inr s"
  by (simp add: entry_string_def)

lemma entry_integer_VInteger [simp]: "get v name = Some (VInteger n) \<Longrightarrow> entry_integer v name = Inr n"
  by (simp add: entry_integer_def)

lemma task_string_list_strings [simp]:
  "get v name = Some (strings ss) \<Longrightarrow> task_string_list v name = Inr ss"
  by (simp add: task_string_list_def strings_def traverse_map_inverse)

lemma criterion_of_value: "criterion_of (criterion_value c) = Inr c"
  by (cases "ac_severity c")
    (simp_all add: criterion_of_def criterion_value_def get_object severity_of_def)

lemma acceptance_of_value:
  "wf_digest (act_evaluator_registry_digest (tk_acceptance t)) \<Longrightarrow>
   acceptance_of (acceptance_value t) = Inr (tk_acceptance t)"
  by (simp add: acceptance_of_def acceptance_value_def task_missing_def task_array_def get_object
      traverse_map_inverse criterion_of_value from_display_display)

lemma task_of_value_to_value:
  assumes "wf_task t"
  shows "task_of_value (task_to_value t) = Inr t"
proof -
  have i: "traverse task_input_of (map (\<lambda>i. object [
      (''name'', VString (ti_name i)), (''ref'', VString (ti_reference i))]) is) = Inr is" for "is"
    by (rule traverse_map_inverse) (simp add: task_input_of_def get_object)
  have out: "traverse task_output_of (map (\<lambda>out. object [
      (''name'', VString (to_name out)), (''kind'', VString (to_kind out)),
      (''required'', VBool (to_required out))]) os) = Inr os" for os
    by (rule traverse_map_inverse) (simp add: task_output_of_def get_object)
  show ?thesis
    using assms acceptance_of_value [of t]
    by (simp add: wf_task_def task_of_value_def task_to_value_def get_object task_array_def
        task_missing_def i out)
qed

interpretation task_codec: canonical_codec task_to_value task_of_value wf_task task_parse_error
  by unfold_locales (simp_all add: wf_task_to_value task_of_value_to_value)

end
