(* ===== verification/Planning.thy ===== *)
theory Planning
  imports Goal Task
begin

text \<open>
  Planning: the normalized proposal, the deterministic DIRECT planner, evaluator
  resolution, and the validation that turns a proposal into something materializable
  (\<^verbatim>\<open>planning/proposal.rs\<close>, \<^verbatim>\<open>planning/direct.rs\<close>,
  \<^verbatim>\<open>planning/evaluators.rs\<close> and \<^verbatim>\<open>planning/validate.rs\<close> of
  \<^verbatim>\<open>crates/pantheon-core/src\<close>).

  \<open>admissible\<close> is the abstract contract of validation: one bounded Task with no edges,
  inside the Goal's ceilings, covering its required deliverables, with every evaluator
  resolvable. \<open>validate_iff\<close> shows that the sequence of checks in the code decides exactly
  that, and what the resulting specification is.
\<close>

section \<open>Proposals\<close>

record proposed_criterion =
  pc_id :: string
  pc_statement :: string
  pc_evaluator_ref :: string
  pc_required :: bool

record proposed_task =
  pt_task_type :: string
  pt_objective :: string
  pt_inputs :: "(string \<times> string) list"
  pt_outputs :: "(string \<times> string \<times> bool) list"
  pt_competencies :: "string list"
  pt_resources :: "string list"
  pt_permitted_effects :: "string list"
  pt_forbidden_effects :: "string list"
  pt_criteria :: "proposed_criterion list"

record proposal =
  pr_tasks :: "proposed_task list"
  pr_edges :: "(nat \<times> nat) list"

text \<open>\<open>i64::try_from(usize).unwrap_or(i64::MAX)\<close>.\<close>

definition saturate_i64 :: "nat \<Rightarrow> int" where
  "saturate_i64 n = (if is_i64 (int n) then int n else i64_max)"

definition proposed_task_value :: "proposed_task \<Rightarrow> cvalue" where
  "proposed_task_value t = object [
     (''type'', VString (pt_task_type t)),
     (''objective'', VString (pt_objective t)),
     (''inputs'', VArray (map (\<lambda>(name, reference).
        object [(''name'', VString name), (''ref'', VString reference)]) (pt_inputs t))),
     (''outputs'', VArray (map (\<lambda>(name, knd, required).
        object [(''name'', VString name), (''kind'', VString knd), (''required'', VBool required)])
        (pt_outputs t))),
     (''competencies'', strings (pt_competencies t)),
     (''scope'', object [
        (''resources'', strings (pt_resources t)),
        (''permittedEffects'', strings (pt_permitted_effects t)),
        (''forbiddenEffects'', strings (pt_forbidden_effects t))]),
     (''criteria'', VArray (map (\<lambda>c. object [
        (''id'', VString (pc_id c)), (''statement'', VString (pc_statement c)),
        (''evaluatorRef'', VString (pc_evaluator_ref c)), (''required'', VBool (pc_required c))])
        (pt_criteria t)))]"

definition proposal_to_value :: "proposal \<Rightarrow> cvalue" where
  "proposal_to_value p = object [
     (''tasks'', VArray (map proposed_task_value (pr_tasks p))),
     (''edges'', VArray (map (\<lambda>(upstream, downstream). object [
        (''upstream'', VInteger (saturate_i64 upstream)),
        (''downstream'', VInteger (saturate_i64 downstream))]) (pr_edges p)))]"

definition proposal_digest :: "sha256 \<Rightarrow> proposal \<Rightarrow> digest" where
  "proposal_digest sha p = value_digest sha (proposal_to_value p)"

section \<open>The DIRECT planner\<close>

definition planner_implementation :: string where
  "planner_implementation = ''pantheon-direct-planner''"

definition planner_version :: string where
  "planner_version = ''v1''"

definition mvp_evaluator_ref :: string where
  "mvp_evaluator_ref = ''check://project/unit-tests''"

datatype trigger = TriggerInitial

fun trigger_as_str :: "trigger \<Rightarrow> string" where
  "trigger_as_str TriggerInitial = ''initial''"

record planning_input =
  pi_goal_id :: string
  pi_goal_revision :: int
  pi_goal :: goal_spec
  pi_expected_graph_revision :: int
  pi_configuration_activation_sequence :: int
  pi_trigger :: trigger

definition planning_input_value :: "planning_input \<Rightarrow> cvalue" where
  "planning_input_value i = object [
     (''goalId'', VString (pi_goal_id i)),
     (''goalRevision'', VInteger (pi_goal_revision i)),
     (''goalSpec'', goal_to_value (pi_goal i)),
     (''expectedGraphRevision'', VInteger (pi_expected_graph_revision i)),
     (''configurationActivationSequence'', VInteger (pi_configuration_activation_sequence i)),
     (''trigger'', VString (trigger_as_str (pi_trigger i))),
     (''plannerImplementation'', VString planner_implementation),
     (''plannerVersion'', VString planner_version)]"

definition planning_input_digest :: "sha256 \<Rightarrow> planning_input \<Rightarrow> digest" where
  "planning_input_digest sha i = value_digest sha (planning_input_value i)"

definition plan :: "planning_input \<Rightarrow> proposal" where
  "plan i = (let g = pi_goal i in
     \<lparr>pr_tasks = [
        \<lparr>pt_task_type = ''code.change'',
         pt_objective = gs_objective g,
         pt_inputs = map (\<lambda>gi. (gi_name gi, gi_reference gi)) (gs_inputs g),
         pt_outputs = map (\<lambda>d. (dl_name d, dl_kind d, dl_required d)) (gs_deliverables g),
         pt_competencies = [''code.analysis'', ''code.editing'', ''test.execution''],
         pt_resources = gc_permitted_resources (gs_constraints g),
         pt_permitted_effects = gc_permitted_effects (gs_constraints g),
         pt_forbidden_effects = gc_forbidden_effects (gs_constraints g),
         pt_criteria = [
           \<lparr>pc_id = ''acceptance-checks-pass'',
            pc_statement = ''The configured deterministic acceptance checks pass.'',
            pc_evaluator_ref = mvp_evaluator_ref,
            pc_required = True\<rparr>]\<rparr>],
      pr_edges = []\<rparr>)"

section \<open>Evaluator resolution\<close>

type_synonym registry_resolver = "(string \<times> string) list"

text \<open>Entries without both texts are skipped; a missing or non-array \<open>refs\<close> is empty.\<close>

definition registry_entry :: "cvalue \<Rightarrow> (string \<times> string) option" where
  "registry_entry entry = (case (get entry ''ref'', get entry ''currentVersion'') of
     (Some (VString reference), Some (VString version)) \<Rightarrow> Some (reference, version)
   | _ \<Rightarrow> None)"

definition registry_from_canonical_json :: "string \<Rightarrow> (parse_error, registry_resolver) res" where
  "registry_from_canonical_json s =
     bindR (parse s) (\<lambda>v. Inr (case get v ''refs'' of
         Some (VArray refs) \<Rightarrow> List.map_filter registry_entry refs
       | _ \<Rightarrow> []))"

definition registry_resolve :: "registry_resolver \<Rightarrow> string \<Rightarrow> string option" where
  "registry_resolve entries reference =
     map_option snd (List.find (\<lambda>(candidate, _). candidate = reference) entries)"

section \<open>Validation\<close>

datatype plan_error =
    PShape message
  | PInvalidValue string message
  | PUnknownEvaluator string
  | PScopeEscalation message
  | PDeliverableNotCovered string string
  | PForbiddenTaskContent message

fun plan_error_kind :: "plan_error \<Rightarrow> string" where
  "plan_error_kind (PShape _) = ''shape''"
| "plan_error_kind (PInvalidValue _ _) = ''invalid-value''"
| "plan_error_kind (PUnknownEvaluator _) = ''unknown-evaluator''"
| "plan_error_kind (PScopeEscalation _) = ''scope-escalation''"
| "plan_error_kind (PDeliverableNotCovered _ _) = ''deliverable-not-covered''"
| "plan_error_kind (PForbiddenTaskContent _) = ''forbidden-task-content''"

text \<open>The resolver is a trait object: any function from references to version ids.\<close>

record authority =
  au_goal :: goal_spec
  au_goal_id :: string
  au_goal_revision :: int
  au_evaluators :: "string \<Rightarrow> string option"
  au_evaluator_registry_digest :: digest
  au_configuration_activation_sequence :: int

record materializable =
  mt_spec :: task_spec
  mt_proposal_digest :: digest
  mt_goal_revision :: int
  mt_goal_digest :: digest

definition forbidden_prefixes :: "(string \<times> string) list" where
  "forbidden_prefixes = [
     (''agent://'', ''a Logical Agent assignment''),
     (''backend://'', ''a backend assignment''),
     (''model://'', ''a provider or model assignment''),
     (''runtime://'', ''a runtime assignment''),
     (''secret://'', ''credential material''),
     (''run://'', ''a Run reference''),
     (''attempt://'', ''an Attempt reference''),
     (''sandbox://'', ''a Sandbox reference'')]"

definition reject_prefixes :: "string \<Rightarrow> (plan_error, unit) res" where
  "reject_prefixes reference =
     for_each (\<lambda>(prefix, description).
       ensure (\<not> starts_with prefix reference)
         (PForbiddenTaskContent (Fmt ''{description} ({reference})'' [FStr description, FStr reference])))
       forbidden_prefixes"

definition reject_forbidden_content :: "proposed_task \<Rightarrow> (plan_error, unit) res" where
  "reject_forbidden_content t =
     bindR (for_each (\<lambda>(_, reference). reject_prefixes reference) (pt_inputs t))
       (\<lambda>_. for_each reject_prefixes (pt_resources t))"

definition check_effect :: "goal_constraints \<Rightarrow> string \<Rightarrow> (plan_error, unit) res" where
  "check_effect c effect =
     bindR (ensure (effect \<in> set (gc_permitted_effects c))
              (PScopeEscalation (Fmt ''effect {effect:?} is not permitted by the Goal'' [FStr effect])))
       (\<lambda>_. ensure (effect \<notin> set (gc_forbidden_effects c))
              (PScopeEscalation (Fmt ''effect {effect:?} is forbidden by the Goal'' [FStr effect])))"

definition check_resource :: "goal_constraints \<Rightarrow> string \<Rightarrow> (plan_error, unit) res" where
  "check_resource c resource =
     ensure (resource \<in> set (gc_permitted_resources c))
       (PScopeEscalation (Fmt ''resource {resource:?} is outside the Goal's scope'' [FStr resource]))"

definition check_deliverable :: "proposed_task \<Rightarrow> deliverable \<Rightarrow> (plan_error, unit) res" where
  "check_deliverable t d =
     (if \<not> dl_required d then Inr ()
      else ensure (list_ex (\<lambda>(_, knd, required). required \<and> knd = dl_kind d) (pt_outputs t))
             (PDeliverableNotCovered (dl_name d) (dl_kind d)))"

definition pin_criterion :: "authority \<Rightarrow> proposed_criterion \<Rightarrow> (plan_error, acceptance_criterion) res" where
  "pin_criterion a c =
     bindR (ok_or (au_evaluators a (pc_evaluator_ref c)) (PUnknownEvaluator (pc_evaluator_ref c)))
       (\<lambda>version. Inr \<lparr>ac_id = pc_id c, ac_statement = pc_statement c,
          ac_evaluator_ref = pc_evaluator_ref c, ac_evaluator_version = version,
          ac_severity = (if pc_required c then SevRequired else SevAdvisory)\<rparr>)"

definition pinned_spec :: "proposed_task \<Rightarrow> authority \<Rightarrow> acceptance_criterion list \<Rightarrow> task_spec" where
  "pinned_spec t a criteria =
     \<lparr>tk_task_type = pt_task_type t,
      tk_objective = pt_objective t,
      tk_inputs = map (\<lambda>(name, reference). \<lparr>ti_name = name, ti_reference = reference\<rparr>) (pt_inputs t),
      tk_outputs = map (\<lambda>(name, knd, required).
        \<lparr>to_name = name, to_kind = knd, to_required = required\<rparr>) (pt_outputs t),
      tk_competencies = pt_competencies t,
      tk_scope = \<lparr>ts_resources = pt_resources t, ts_permitted_effects = pt_permitted_effects t,
                  ts_forbidden_effects = pt_forbidden_effects t\<rparr>,
      tk_acceptance = \<lparr>act_criteria = criteria,
        act_evaluator_registry_digest = au_evaluator_registry_digest a,
        act_configuration_activation_sequence = au_configuration_activation_sequence a\<rparr>,
      tk_goal_id = au_goal_id a,
      tk_goal_revision = au_goal_revision a\<rparr>"

definition validate :: "sha256 \<Rightarrow> proposal \<Rightarrow> authority \<Rightarrow> (plan_error, materializable) res" where
  "validate sha p a =
     bindR (ensure (length (pr_tasks p) = 1) (PShape
        (Fmt ''DIRECT planning proposes exactly one task, found {}'' [FInt (int (length (pr_tasks p)))]))) (\<lambda>_.
     bindR (ensure (pr_edges p = []) (PShape
        (Fmt ''DIRECT planning proposes no dependencies, found {} edge(s)'' [FInt (int (length (pr_edges p)))]))) (\<lambda>_.
     (let t = pr_tasks p ! 0; c = gs_constraints (au_goal a) in
     bindR (ensure (\<not> is_blank (pt_task_type t))
        (PInvalidValue ''task.type'' (Fmt ''must not be empty'' []))) (\<lambda>_.
     bindR (ensure (\<not> is_blank (pt_objective t))
        (PInvalidValue ''task.objective'' (Fmt ''must not be empty'' []))) (\<lambda>_.
     bindR (ensure (pt_competencies t \<noteq> []) (PInvalidValue ''task.competencies''
        (Fmt ''a Task must state the semantic abilities it needs'' []))) (\<lambda>_.
     bindR (ensure (pt_criteria t \<noteq> []) (PInvalidValue ''task.criteria''
        (Fmt ''a Task must carry an acceptance contract'' []))) (\<lambda>_.
     bindR (reject_forbidden_content t) (\<lambda>_.
     bindR (for_each (check_effect c) (pt_permitted_effects t)) (\<lambda>_.
     bindR (for_each (check_resource c) (pt_resources t)) (\<lambda>_.
     bindR (for_each (check_deliverable t) (gs_deliverables (au_goal a))) (\<lambda>_.
     bindR (traverse (pin_criterion a) (pt_criteria t)) (\<lambda>criteria.
       Inr \<lparr>mt_spec = pinned_spec t a criteria,
            mt_proposal_digest = proposal_digest sha p,
            mt_goal_revision = au_goal_revision a,
            mt_goal_digest = goal_digest sha (au_goal a)\<rparr>))))))))))))"

section \<open>What validation decides\<close>

definition names_execution :: "string \<Rightarrow> bool" where
  "names_execution reference \<longleftrightarrow> (\<exists>e \<in> set forbidden_prefixes. starts_with (fst e) reference)"

definition within_ceiling :: "goal_spec \<Rightarrow> proposed_task \<Rightarrow> bool" where
  "within_ceiling g t \<longleftrightarrow>
     set (pt_permitted_effects t) \<subseteq>
       set (gc_permitted_effects (gs_constraints g)) - set (gc_forbidden_effects (gs_constraints g)) \<and>
     set (pt_resources t) \<subseteq> set (gc_permitted_resources (gs_constraints g))"

definition covers_deliverables :: "goal_spec \<Rightarrow> proposed_task \<Rightarrow> bool" where
  "covers_deliverables g t \<longleftrightarrow>
     (\<forall>d \<in> set (gs_deliverables g). dl_required d \<longrightarrow> (\<exists>name. (name, dl_kind d, True) \<in> set (pt_outputs t)))"

definition admissible :: "proposed_task \<Rightarrow> authority \<Rightarrow> bool" where
  "admissible t a \<longleftrightarrow>
     \<not> is_blank (pt_task_type t) \<and> \<not> is_blank (pt_objective t) \<and>
     pt_competencies t \<noteq> [] \<and> pt_criteria t \<noteq> [] \<and>
     (\<forall>i \<in> set (pt_inputs t). \<not> names_execution (snd i)) \<and>
     (\<forall>r \<in> set (pt_resources t). \<not> names_execution r) \<and>
     within_ceiling (au_goal a) t \<and> covers_deliverables (au_goal a) t \<and>
     (\<forall>c \<in> set (pt_criteria t). au_evaluators a (pc_evaluator_ref c) \<noteq> None)"

definition pinned :: "authority \<Rightarrow> proposed_criterion \<Rightarrow> acceptance_criterion" where
  "pinned a c = \<lparr>ac_id = pc_id c, ac_statement = pc_statement c,
     ac_evaluator_ref = pc_evaluator_ref c,
     ac_evaluator_version = the (au_evaluators a (pc_evaluator_ref c)),
     ac_severity = (if pc_required c then SevRequired else SevAdvisory)\<rparr>"

lemma reject_prefixes_iff [res_simps]: "reject_prefixes r = Inr u \<longleftrightarrow> \<not> names_execution r"
  by (auto simp: reject_prefixes_def names_execution_def res_simps)

lemma reject_forbidden_content_iff [res_simps]:
  "reject_forbidden_content t = Inr u \<longleftrightarrow>
     (\<forall>i \<in> set (pt_inputs t). \<not> names_execution (snd i)) \<and>
     (\<forall>r \<in> set (pt_resources t). \<not> names_execution r)"
  by (auto simp: reject_forbidden_content_def res_simps)

lemma check_effect_iff [res_simps]:
  "check_effect c e = Inr u \<longleftrightarrow> e \<in> set (gc_permitted_effects c) - set (gc_forbidden_effects c)"
  by (simp add: check_effect_def res_simps)

lemma check_resource_iff [res_simps]:
  "check_resource c r = Inr u \<longleftrightarrow> r \<in> set (gc_permitted_resources c)"
  by (simp add: check_resource_def res_simps)

lemma check_deliverable_iff [res_simps]:
  "check_deliverable t d = Inr u \<longleftrightarrow>
     (dl_required d \<longrightarrow> (\<exists>name. (name, dl_kind d, True) \<in> set (pt_outputs t)))"
  by (fastforce simp: check_deliverable_def res_simps list_ex_iff)

lemma pin_criterion_iff:
  "pin_criterion a c = Inr r \<longleftrightarrow> au_evaluators a (pc_evaluator_ref c) \<noteq> None \<and> r = pinned a c"
  by (auto simp: pin_criterion_def pinned_def res_simps)

lemma pin_criteria_iff:
  "traverse (pin_criterion a) cs = Inr rs \<longleftrightarrow>
     (\<forall>c \<in> set cs. au_evaluators a (pc_evaluator_ref c) \<noteq> None) \<and> rs = map (pinned a) cs"
  by (induction cs arbitrary: rs) (auto simp: res_simps pin_criterion_iff)

lemma validate_iff_admissible:
  "validate sha p a = Inr m \<longleftrightarrow>
     (\<exists>t. p = \<lparr>pr_tasks = [t], pr_edges = []\<rparr> \<and> admissible t a \<and>
       m = \<lparr>mt_spec = pinned_spec t a (map (pinned a) (pt_criteria t)),
            mt_proposal_digest = proposal_digest sha p,
            mt_goal_revision = au_goal_revision a,
            mt_goal_digest = goal_digest sha (au_goal a)\<rparr>)"
proof (cases "length (pr_tasks p) = 1 \<and> pr_edges p = []")
  case False
  then show ?thesis by (cases p) (auto simp: validate_def res_simps)
next
  case True
  then obtain t where p: "p = \<lparr>pr_tasks = [t], pr_edges = []\<rparr>"
    by (cases p) (auto simp: length_Suc_conv)
  show ?thesis
    unfolding p validate_def Let_def admissible_def within_ceiling_def covers_deliverables_def
    by (simp add: res_simps pin_criteria_iff subset_iff) blast
qed

end
