(* ===== verification/Ordering.thy ===== *)
theory Ordering
  imports Prelude "HOL-Library.Multiset"
begin

text \<open>
  Sorting facts the components share: a stable sort by key (\<open>slice::sort_by_key\<close>,
  \<open>sort_by\<close> on a key comparison) depends only on the multiset of its input as soon as the
  keys are distinct, and its keys depend only on the multiset in every case.
\<close>

lemma distinct_map_sort_key [simp]: "distinct (map f (sort_key f xs)) \<longleftrightarrow> distinct (map f xs)"
  by (simp add: distinct_map)

lemma sort_key_distinct_mset:
  assumes "mset xs = mset ys" and "distinct (map f xs)"
  shows "sort_key f xs = sort_key f ys"
  using assms by (intro sort_key_inj_key_eq) (simp_all add: distinct_map)

lemma sort_mset: "mset xs = mset ys \<Longrightarrow> sort xs = sort ys"
  by (rule properties_for_sort) simp_all

lemma sort_key_keys_mset:
  assumes "mset xs = mset ys"
  shows "map f (sort_key f xs) = map f (sort_key f ys)"
proof -
  have "mset (map f (sort_key f xs)) = mset (map f (sort_key f ys))" using assms by simp
  then have "sort (map f (sort_key f ys)) = map f (sort_key f xs)"
    by (intro properties_for_sort) simp_all
  then show ?thesis by (simp add: sorted_sort_id)
qed

section \<open>Comparison results\<close>

text \<open>\<open>std::cmp::Ordering\<close>, \<open>Ord::cmp\<close>, and \<open>Iterator::min_by\<close> (the first of several minima).\<close>

datatype ordering = Lt | Eq | Gt

definition cmp :: "'a :: linorder \<Rightarrow> 'a \<Rightarrow> ordering" where
  "cmp x y = (if x < y then Lt else if x = y then Eq else Gt)"

fun min_by :: "('a \<Rightarrow> 'a \<Rightarrow> ordering) \<Rightarrow> 'a list \<Rightarrow> 'a option" where
  "min_by c [] = None"
| "min_by c (x # xs) = Some (foldl (\<lambda>m y. if c m y = Gt then y else m) x xs)"

lemma cmp_simps [simp]:
  "cmp x y = Eq \<longleftrightarrow> x = y" "cmp x y = Lt \<longleftrightarrow> x < y" "cmp x y = Gt \<longleftrightarrow> y < x"
  by (auto simp: cmp_def)

lemma cmp_refl [simp]: "cmp x x = Eq"
  by simp

lemma cmp_pair: "cmp (a, b) (c, d) = (if cmp a c \<noteq> Eq then cmp a c else cmp b d)"
  by (auto simp: cmp_def less_prod_def')

lemma cmp_Cons: "cmp (a # as) (b # bs) = (if cmp a b \<noteq> Eq then cmp a b else cmp as bs)"
  by (auto simp: cmp_def)

lemma cmp_minus: "cmp (- a) (- b) = cmp b (a :: int)"
  by (simp add: cmp_def)

text \<open>
  A comparator that agrees with a key on a set of values: the minimum is a value with the
  least key, and its key does not depend on the order in which the values are visited.
\<close>

locale key_comparator =
  fixes c :: "'a \<Rightarrow> 'a \<Rightarrow> ordering"
    and rank :: "'a \<Rightarrow> 'k :: linorder"
    and coherent :: "'a set \<Rightarrow> bool"
  assumes compare_rank: "coherent A \<Longrightarrow> x \<in> A \<Longrightarrow> y \<in> A \<Longrightarrow> c x y = cmp (rank x) (rank y)"
begin

lemma foldl_min:
  "coherent A \<Longrightarrow> x \<in> A \<Longrightarrow> set xs \<subseteq> A \<Longrightarrow>
   (let m = foldl (\<lambda>m y. if c m y = Gt then y else m) x xs
    in m \<in> insert x (set xs) \<and> (\<forall>y \<in> insert x (set xs). rank m \<le> rank y))"
proof (induction xs arbitrary: x)
  case Nil
  then show ?case by simp
next
  case (Cons z xs)
  define y where "y = (if c x z = Gt then z else x)"
  have y: "y \<in> {x, z}" "rank y \<le> rank x" "rank y \<le> rank z"
    using Cons.prems compare_rank [of A x z] by (auto simp: y_def)
  have "y \<in> A" "set xs \<subseteq> A" using y(1) Cons.prems by auto
  from Cons.IH [OF Cons.prems(1) this] y show ?case
    by (auto simp: Let_def y_def [symmetric])
qed

lemma min_by_least:
  assumes "coherent (set xs)" and "min_by c xs = Some m"
  shows "m \<in> set xs \<and> (\<forall>y \<in> set xs. rank m \<le> rank y)"
  using assms foldl_min [of "set xs"] by (cases xs) (auto simp: Let_def)

lemma min_by_rank_set:
  assumes "coherent (set xs)" and "set xs = set ys" and "min_by c xs = Some m" and "min_by c ys = Some n"
  shows "rank m = rank n"
  using min_by_least [OF assms(1,3)] min_by_least [of ys n] assms by (simp add: order_antisym)

end

end
