(* ===== verification/Artifact.thy ===== *)
theory Artifact
  imports Codec Ordering
begin

text \<open>
  The Artifact vocabulary for \<open>code.changeset\<close> sealing
  (\<^verbatim>\<open>crates/pantheon-core/src/artifact.rs\<close>): repository paths with their lossless
  manifest spelling, changeset entries whose operation agrees with their states, the
  normalized revision state with its digest and binary-search lookup, and the manifest.

  Raw bytes are HOL characters, so a path is a string that need not be valid UTF-8.
\<close>

section \<open>Repository paths\<close>

datatype changeset_error =
    InvalidPath string string
  | OperationStateMismatch message

datatype repository_path = RepositoryPath string

fun path_as_bytes :: "repository_path \<Rightarrow> string" where
  "path_as_bytes (RepositoryPath bs) = bs"

definition path_sort_key :: "repository_path \<Rightarrow> string" where
  "path_sort_key p = path_as_bytes p"

definition max_path_bytes :: nat where
  "max_path_bytes = 4096"

text \<open>\<open>format!("{byte:02x}")\<close>.\<close>

definition char_hex :: "char \<Rightarrow> string" where
  "char_hex c = [from_digit16 (of_char c div 16), from_digit16 (of_char c mod 16)]"

definition encode_path :: "string \<Rightarrow> string" where
  "encode_path bs =
     (if utf8_valid bs \<and> CHR ''%'' \<notin> set bs then bs
      else CHR ''%'' # concat (map char_hex bs))"

fun decode_pairs :: "string \<Rightarrow> string option" where
  "decode_pairs [] = Some []"
| "decode_pairs [c] = Some []"
| "decode_pairs (a # b # rest) =
     (case hex_digit_value a of None \<Rightarrow> None
      | Some high \<Rightarrow> (case hex_digit_value b of None \<Rightarrow> None
        | Some low \<Rightarrow> map_option (\<lambda>bs. char_of (high * 16 + low) # bs) (decode_pairs rest)))"

definition decode_manifest_string :: "string \<Rightarrow> string option" where
  "decode_manifest_string s =
     (if \<not> starts_with ''%'' s then Some s
      else (let hex = drop 1 s in
        if length hex mod 2 \<noteq> 0 then None else decode_pairs hex))"

definition check_component :: "string \<Rightarrow> string \<Rightarrow> (changeset_error, unit) res" where
  "check_component bs component =
     (if component = '''' then Inl (InvalidPath (encode_path bs) ''it has an empty path component'')
      else if component = ''.'' then Inl (InvalidPath (encode_path bs) ''a component is `.`'')
      else if component = ''..'' then Inl (InvalidPath (encode_path bs) ''a component is `..`'')
      else ensure (length component \<le> 255)
             (InvalidPath (encode_path bs) ''a component is longer than 255 bytes''))"

definition path_from_bytes :: "string \<Rightarrow> (changeset_error, repository_path) res" where
  "path_from_bytes bs =
     (if bs = [] then Inl (InvalidPath (encode_path bs) ''it is empty'')
      else if max_path_bytes < length bs then
        Inl (InvalidPath (encode_path bs) ''it is longer than 4096 bytes'')
      else if CHR 0x00 \<in> set bs then Inl (InvalidPath (encode_path bs) ''it contains a NUL byte'')
      else if hd bs = CHR ''/'' then Inl (InvalidPath (encode_path bs) ''it is absolute'')
      else bindR (for_each (check_component bs) (split_on (CHR ''/'') bs)) (\<lambda>_. Inr (RepositoryPath bs)))"

definition to_manifest_string :: "repository_path \<Rightarrow> string" where
  "to_manifest_string p = encode_path (path_as_bytes p)"

definition from_manifest_string :: "string \<Rightarrow> (changeset_error, repository_path) res" where
  "from_manifest_string s =
     bindR (ok_or (decode_manifest_string s) (InvalidPath s ''it is not a valid manifest spelling''))
       path_from_bytes"

text \<open>The derived \<open>Ord\<close>: the order of the raw bytes.\<close>

instantiation repository_path :: linorder
begin

definition less_eq_repository_path :: "repository_path \<Rightarrow> repository_path \<Rightarrow> bool" where
  "less_eq_repository_path a b \<longleftrightarrow> path_as_bytes a \<le> path_as_bytes b"

definition less_repository_path :: "repository_path \<Rightarrow> repository_path \<Rightarrow> bool" where
  "less_repository_path a b \<longleftrightarrow> path_as_bytes a < path_as_bytes b"

instance
proof
  fix a b c :: repository_path
  show "(a < b) = (a \<le> b \<and> \<not> b \<le> a)"
    by (auto simp: less_repository_path_def less_eq_repository_path_def)
  show "a \<le> a" by (simp add: less_eq_repository_path_def)
  show "a \<le> b \<Longrightarrow> b \<le> c \<Longrightarrow> a \<le> c" by (auto simp: less_eq_repository_path_def)
  show "a \<le> b \<Longrightarrow> b \<le> a \<Longrightarrow> a = b"
    by (cases a; cases b) (auto simp: less_eq_repository_path_def)
  show "a \<le> b \<or> b \<le> a" by (auto simp: less_eq_repository_path_def)
qed

end

section \<open>Entries\<close>

datatype entry_kind = Regular | Executable | Symlink

fun entry_kind_as_str :: "entry_kind \<Rightarrow> string" where
  "entry_kind_as_str Regular = ''regular''"
| "entry_kind_as_str Executable = ''executable''"
| "entry_kind_as_str Symlink = ''symlink''"

definition entry_kind_parse :: "string \<Rightarrow> entry_kind option" where
  "entry_kind_parse s =
     (if s = ''regular'' then Some Regular
      else if s = ''executable'' then Some Executable
      else if s = ''symlink'' then Some Symlink
      else None)"

interpretation entry_kind: wire_enum entry_kind_as_str entry_kind_parse
proof
  fix x show "entry_kind_parse (entry_kind_as_str x) = Some x"
    by (cases x) (simp_all add: entry_kind_parse_def)
next
  fix s x assume "entry_kind_parse s = Some x"
  then show "s = entry_kind_as_str x" by (auto simp: entry_kind_parse_def split: if_splits)
qed

datatype entry_state = Absent | Present entry_kind digest int

text \<open>\<open>size as i64\<close> on a \<open>u64\<close>: the upper half wraps to the negative numbers.\<close>

definition u64_as_i64 :: "int \<Rightarrow> int" where
  "u64_as_i64 n = (if n \<le> i64_max then n else n - 2 ^ 64)"

fun entry_state_to_value :: "entry_state \<Rightarrow> cvalue" where
  "entry_state_to_value Absent = object [(''state'', VString ''absent'')]"
| "entry_state_to_value (Present knd blob sz) = object [
     (''state'', VString ''present''), (''mode'', VString (entry_kind_as_str knd)),
     (''blob'', VString (display blob)), (''size'', VInteger (u64_as_i64 sz))]"

datatype operation = Add | Modify | Delete

fun operation_as_str :: "operation \<Rightarrow> string" where
  "operation_as_str Add = ''add''"
| "operation_as_str Modify = ''modify''"
| "operation_as_str Delete = ''delete''"

record changeset_entry =
  ce_path :: repository_path
  ce_operation :: operation
  ce_before :: entry_state
  ce_after :: entry_state

fun is_present :: "entry_state \<Rightarrow> bool" where
  "is_present Absent = False"
| "is_present (Present _ _ _) = True"

fun describe :: "entry_state \<Rightarrow> message" where
  "describe Absent = Fmt ''absent'' []"
| "describe (Present knd _ _) = Fmt ''present ({kind})'' [FStr (entry_kind_as_str knd)]"

definition changeset_entry_new ::
    "repository_path \<Rightarrow> operation \<Rightarrow> entry_state \<Rightarrow> entry_state \<Rightarrow> (changeset_error, changeset_entry) res" where
  "changeset_entry_new path op before after =
     (if (case op of
            Add \<Rightarrow> \<not> is_present before \<and> is_present after
          | Modify \<Rightarrow> is_present before \<and> is_present after
          | Delete \<Rightarrow> is_present before \<and> \<not> is_present after)
      then Inr \<lparr>ce_path = path, ce_operation = op, ce_before = before, ce_after = after\<rparr>
      else Inl (OperationStateMismatch (Fmt ''{} claims before {} and after {}''
        [FStr (operation_as_str op), FMsg (describe before), FMsg (describe after)])))"

definition changeset_entry_to_value :: "changeset_entry \<Rightarrow> cvalue" where
  "changeset_entry_to_value e = object [
     (''path'', VString (to_manifest_string (ce_path e))),
     (''operation'', VString (operation_as_str (ce_operation e))),
     (''before'', entry_state_to_value (ce_before e)),
     (''after'', entry_state_to_value (ce_after e))]"

section \<open>Revision states\<close>

record final_entry =
  fe_path :: repository_path
  fe_kind :: entry_kind
  fe_blob :: digest
  fe_size :: int

record revision_state =
  rs_entries :: "final_entry list"
  rs_digest :: digest

definition final_entry_value :: "final_entry \<Rightarrow> cvalue" where
  "final_entry_value e = object [
     (''path'', VString (to_manifest_string (fe_path e))),
     (''mode'', VString (entry_kind_as_str (fe_kind e))),
     (''blob'', VString (display (fe_blob e))),
     (''size'', VInteger (u64_as_i64 (fe_size e)))]"

text \<open>\<open>windows(2).find_map\<close>: the second path of the first adjacent pair with equal keys.\<close>

fun first_duplicate :: "final_entry list \<Rightarrow> repository_path option" where
  "first_duplicate (a # b # es) =
     (if path_sort_key (fe_path a) = path_sort_key (fe_path b) then Some (fe_path b)
      else first_duplicate (b # es))"
| "first_duplicate _ = None"

definition revision_state_new :: "sha256 \<Rightarrow> final_entry list \<Rightarrow> (changeset_error, revision_state) res" where
  "revision_state_new sha es =
     (let sorted = sort_key (\<lambda>e. path_sort_key (fe_path e)) es in
      case first_duplicate sorted of
        Some d \<Rightarrow> Inl (InvalidPath (to_manifest_string d) ''the captured state names it twice'')
      | None \<Rightarrow> Inr \<lparr>rs_entries = sorted,
                     rs_digest = value_digest sha (VArray (map final_entry_value sorted))\<rparr>)"

definition changeset_schema_version :: int where
  "changeset_schema_version = 1"

definition code_changeset_kind :: string where
  "code_changeset_kind = ''code.changeset''"

definition revision_state_to_canonical_json :: "revision_state \<Rightarrow> string" where
  "revision_state_to_canonical_json st = to_canonical_bytes (object [
     (''schemaVersion'', VInteger changeset_schema_version),
     (''entries'', VArray (map final_entry_value (rs_entries st)))])"

text \<open>
  \<open>slice::binary_search_by\<close>: the candidate range \<open>base .. base + n\<close> is halved until one
  element is left, which is then compared.
\<close>

function bsearch_base :: "('a \<Rightarrow> bool) \<Rightarrow> 'a list \<Rightarrow> nat \<Rightarrow> nat \<Rightarrow> nat" where
  "bsearch_base gt xs base n =
     (if n \<le> 1 then base
      else (let half = n div 2; mid = base + half in
        bsearch_base gt xs (if gt (xs ! mid) then base else mid) (n - half)))"
  by pat_completeness auto
termination
  by (relation "measure (\<lambda>(_, _, _, n). n)") auto

declare bsearch_base.simps [simp del]

definition revision_entry :: "revision_state \<Rightarrow> repository_path \<Rightarrow> final_entry option" where
  "revision_entry st path =
     (let es = rs_entries st; k = path_sort_key path in
      if es = [] then None
      else (let i = bsearch_base (\<lambda>e. k < path_sort_key (fe_path e)) es 0 (length es) in
        if path_sort_key (fe_path (es ! i)) = k then Some (es ! i) else None))"

section \<open>The manifest\<close>

definition changeset_manifest ::
    "string \<Rightarrow> string \<Rightarrow> digest \<Rightarrow> changeset_entry list \<Rightarrow> cvalue" where
  "changeset_manifest repository base_commit workspace_revision_state es = object [
     (''schemaVersion'', VInteger changeset_schema_version),
     (''artifactKind'', VString code_changeset_kind),
     (''repository'', VString repository),
     (''baseCommit'', VString base_commit),
     (''workspaceRevision'', VString (display workspace_revision_state)),
     (''entries'', VArray (map changeset_entry_to_value (sort_key (\<lambda>e. path_sort_key (ce_path e)) es)))]"

section \<open>Paths survive the manifest\<close>

lemma decode_pairs_char_hex: "decode_pairs (concat (map char_hex bs)) = Some bs"
proof (induction bs)
  case Nil
  then show ?case by simp
next
  case (Cons c bs)
  have b: "(of_char c :: nat) div 16 < 16" "(of_char c :: nat) mod 16 < 16"
    using nat_of_char_less_256 [of c] by linarith+
  have "(of_char c :: nat) div 16 * 16 + of_char c mod 16 = of_char c" by simp
  with Cons b show ?case by (simp add: char_hex_def from_digit16_char)
qed

lemma length_char_hex: "length (concat (map char_hex bs)) = 2 * length bs"
  by (induction bs) (simp_all add: char_hex_def)

lemma decode_encode_path: "decode_manifest_string (encode_path bs) = Some bs"
  by (auto simp: decode_manifest_string_def encode_path_def decode_pairs_char_hex length_char_hex
      starts_with_iff)

lemma encode_path_inj: "encode_path a = encode_path b \<longleftrightarrow> a = b"
  by (metis decode_encode_path option.inject)

lemma to_manifest_string_inj: "to_manifest_string p = to_manifest_string q \<longleftrightarrow> p = q"
  by (cases p; cases q) (simp add: to_manifest_string_def encode_path_inj)

lemma encode_path_valid: "utf8_valid (encode_path bs)"
proof (cases "utf8_valid bs \<and> CHR ''%'' \<notin> set bs")
  case True
  then show ?thesis by (simp add: encode_path_def)
next
  case False
  have "\<forall>c \<in> set (concat (map char_hex bs)). (of_char c :: nat) < 128"
    by (induction bs) (simp_all add: char_hex_def from_digit16_ascii)
  then have "utf8_valid (concat (map char_hex bs))" by (rule utf8_valid_ascii)
  with False show ?thesis by (auto simp: encode_path_def utf8_valid_Cons_ascii)
qed

lemma path_from_bytes_Inr: "path_from_bytes bs = Inr p \<Longrightarrow> p = RepositoryPath bs"
  by (auto simp: path_from_bytes_def res_simps split: if_splits)

text \<open>The paths the constructor accepts.\<close>

definition wf_path :: "repository_path \<Rightarrow> bool" where
  "wf_path p \<longleftrightarrow> path_from_bytes (path_as_bytes p) = Inr p"

lemma from_manifest_string_to: "wf_path p \<Longrightarrow> from_manifest_string (to_manifest_string p) = Inr p"
  by (simp add: wf_path_def from_manifest_string_def to_manifest_string_def decode_encode_path)

lemma wf_path_iff:
  "wf_path (RepositoryPath bs) \<longleftrightarrow> bs \<noteq> [] \<and> length bs \<le> 4096 \<and> CHR 0x00 \<notin> set bs \<and>
     (\<forall>c \<in> set (split_on (CHR ''/'') bs). c \<noteq> '''' \<and> c \<noteq> ''.'' \<and> c \<noteq> ''..'' \<and> length c \<le> 255)"
proof -
  have "hd bs \<noteq> CHR ''/''" if "bs \<noteq> []" "'''' \<notin> set (split_on (CHR ''/'') bs)"
    using that by (cases bs) auto
  moreover have "check_component bs c = Inr u \<longleftrightarrow> c \<noteq> '''' \<and> c \<noteq> ''.'' \<and> c \<noteq> ''..'' \<and> length c \<le> 255" for c u
    by (auto simp: check_component_def res_simps)
  ultimately show ?thesis
    by (auto simp: wf_path_def path_from_bytes_def max_path_bytes_def res_simps)
qed

section \<open>Normalization of a captured state\<close>

abbreviation entry_key :: "final_entry \<Rightarrow> string" where
  "entry_key e \<equiv> path_sort_key (fe_path e)"

lemma path_sort_key_eq [simp]: "path_sort_key p = path_sort_key q \<longleftrightarrow> p = q"
  by (cases p; cases q) (simp add: path_sort_key_def)

lemma path_sort_key_inj: "inj path_sort_key"
  by (simp add: inj_def)

lemma first_duplicate_None:
  "sorted (map entry_key es) \<Longrightarrow> first_duplicate es = None \<longleftrightarrow> distinct (map entry_key es)"
proof (induction es rule: first_duplicate.induct)
  case (1 a b es)
  show ?case
  proof (cases "entry_key a = entry_key b")
    case False
    have "entry_key a < entry_key b" using "1.prems" False by (simp add: le_neq_trans)
    moreover have "\<forall>e \<in> set es. entry_key b \<le> entry_key e" using "1.prems" by simp
    ultimately have "\<forall>e \<in> set (b # es). entry_key a \<noteq> entry_key e" by auto
    then show ?thesis using "1.IH" [OF False] "1.prems" False by auto
  qed simp
qed auto

lemma sort_keys_sorted: "sorted (map entry_key (sort_key entry_key es))"
  by simp

lemma revision_state_new_iff:
  "(\<exists>st. revision_state_new sha es = Inr st) \<longleftrightarrow> distinct (map fe_path es)"
proof -
  have "distinct (map entry_key es) \<longleftrightarrow> distinct (map fe_path es)"
    using distinct_map [of path_sort_key "map fe_path es"] path_sort_key_inj
    by (simp add: comp_def inj_on_subset [of _ UNIV])
  then show ?thesis
    using first_duplicate_None [OF sort_keys_sorted, of es]
    by (auto simp: revision_state_new_def Let_def split: option.splits)
qed

text \<open>The normalized state depends on the set of entries only, errors included.\<close>

lemma first_duplicate_keys:
  "map entry_key xs = map entry_key ys \<Longrightarrow> first_duplicate xs = first_duplicate ys"
proof (induction xs arbitrary: ys rule: first_duplicate.induct)
  case (1 a b es)
  then obtain a' b' es' where ys: "ys = a' # b' # es'" by (auto simp: map_eq_Cons_conv)
  have "fe_path b = fe_path b'"
    using "1.prems" ys by simp
  with "1" ys show ?case by auto
qed (auto simp: Cons_eq_map_conv)

lemma revision_state_new_mset:
  assumes "mset xs = mset ys"
  shows "revision_state_new sha xs = revision_state_new sha ys"
proof -
  have keys: "map entry_key (sort_key entry_key xs) = map entry_key (sort_key entry_key ys)"
    by (rule sort_key_keys_mset [OF assms])
  have dup: "first_duplicate (sort_key entry_key xs) = first_duplicate (sort_key entry_key ys)"
    by (rule first_duplicate_keys [OF keys])
  show ?thesis
  proof (cases "first_duplicate (sort_key entry_key xs)")
    case None
    then have "distinct (map entry_key (sort_key entry_key xs))"
      using first_duplicate_None [OF sort_keys_sorted] by simp
    then have "distinct (map entry_key xs)" by simp
    from sort_key_distinct_mset [OF assms this] show ?thesis by (simp add: revision_state_new_def)
  next
    case (Some d)
    then show ?thesis using dup by (simp add: revision_state_new_def Let_def)
  qed
qed

section \<open>Lookup by binary search\<close>

lemma bsearch_base_finds:
  fixes key :: "'a \<Rightarrow> 'k :: linorder"
  assumes "sorted_wrt (<) (map key xs)" and "i < length xs" and "key (xs ! i) = k"
    and "base \<le> i" and "i < base + n" and "base + n \<le> length xs"
  shows "bsearch_base (\<lambda>x. k < key x) xs base n = i"
  using assms(4-6)
proof (induction n arbitrary: base rule: less_induct)
  case (less n)
  show ?case
  proof (cases "n \<le> 1")
    case True
    with less.prems show ?thesis by (simp add: bsearch_base.simps)
  next
    case False
    define half where "half = n div 2"
    have half: "1 \<le> half" "half \<le> n - half" "half < n" using False by (simp_all add: half_def)
    define b where "b = (if k < key (xs ! (base + half)) then base else base + half)"
    have lt: "key (xs ! x) < key (xs ! y)" if "x < y" "y < length xs" for x y
      using sorted_wrt_nth_less [OF assms(1), of x y] that by simp
    have "b \<le> i \<and> i < b + (n - half) \<and> b + (n - half) \<le> length xs"
    proof (cases "k < key (xs ! (base + half))")
      case True
      then have "i < base + half" using lt [of "base + half" i] assms(2,3) by (cases "base + half" i rule: linorder_cases) auto
      with True half less.prems show ?thesis unfolding b_def by simp linarith
    next
      case g: False
      then have "base + half \<le> i" using lt [of i "base + half"] half less.prems assms(3) by (cases "i < base + half") auto
      with g half less.prems show ?thesis by (simp add: b_def)
    qed
    with less.IH [of "n - half" b] half have "bsearch_base (\<lambda>x. k < key x) xs b (n - half) = i" by simp
    then show ?thesis using False unfolding b_def half_def
      by (subst bsearch_base.simps) (simp add: Let_def split: if_splits)
  qed
qed

lemma bsearch_base_bound: "0 < n \<Longrightarrow> base + n \<le> length xs \<Longrightarrow> bsearch_base gt xs base n < length xs"
proof (induction n arbitrary: base rule: less_induct)
  case (less n)
  then show ?case
    using less.IH [of "n - n div 2" base] less.IH [of "n - n div 2" "base + n div 2"]
    by (subst bsearch_base.simps) (auto simp: Let_def)
qed

lemma revision_state_new_Inr:
  assumes "revision_state_new sha es = Inr st"
  shows "rs_entries st = sort_key entry_key es" and "sorted_wrt (<) (map entry_key (rs_entries st))"
    and "rs_digest st = value_digest sha (VArray (map final_entry_value (rs_entries st)))"
proof -
  show e: "rs_entries st = sort_key entry_key es"
    and "rs_digest st = value_digest sha (VArray (map final_entry_value (rs_entries st)))"
    using assms by (auto simp: revision_state_new_def Let_def split: option.splits)
  have "first_duplicate (sort_key entry_key es) = None"
    using assms by (auto simp: revision_state_new_def Let_def split: option.splits)
  then have "distinct (map entry_key (sort_key entry_key es))"
    using first_duplicate_None [OF sort_keys_sorted] by simp
  then show "sorted_wrt (<) (map entry_key (rs_entries st))"
    unfolding e strict_sorted_iff by simp
qed

lemma revision_entry_iff:
  assumes "revision_state_new sha es = Inr st"
  shows "revision_entry st p = Some e \<longleftrightarrow> e \<in> set es \<and> fe_path e = p"
proof -
  note st = revision_state_new_Inr [OF assms]
  have set: "set (rs_entries st) = set es" by (simp add: st(1))
  show ?thesis
  proof (cases "rs_entries st = []")
    case True
    with set show ?thesis by (simp add: revision_entry_def)
  next
    case False
    define i where "i = bsearch_base (\<lambda>e. path_sort_key p < entry_key e) (rs_entries st) 0 (length (rs_entries st))"
    have i: "i < length (rs_entries st)" using False unfolding i_def by (intro bsearch_base_bound) simp_all
    have eq: "revision_entry st p =
        (if fe_path (rs_entries st ! i) = p then Some (rs_entries st ! i) else None)"
      using False by (simp add: revision_entry_def Let_def i_def)
    have "e = rs_entries st ! i" if "e \<in> set es" "fe_path e = p"
    proof -
      have "e \<in> set (rs_entries st)" using that(1) set by simp
      then obtain j where j: "j < length (rs_entries st)" "rs_entries st ! j = e"
        unfolding in_set_conv_nth by blast
      then have "i = j"
        using j that(2) unfolding i_def
        by (intro bsearch_base_finds [OF st(2)]) simp_all
      with j show ?thesis by simp
    qed
    moreover have "rs_entries st ! i \<in> set es" using nth_mem [OF i] set by simp
    ultimately show ?thesis unfolding eq by auto
  qed
qed

section \<open>Digests identify states\<close>

definition wf_final_entry :: "final_entry \<Rightarrow> bool" where
  "wf_final_entry e \<longleftrightarrow> wf_digest (fe_blob e) \<and> is_u64 (fe_size e)"

lemma u64_as_i64_range: "is_u64 n \<Longrightarrow> is_i64 (u64_as_i64 n)"
  by (auto simp: u64_as_i64_def is_u64_def is_i64_def i64_max_def i64_min_def)

lemma u64_as_i64_inj: "is_u64 a \<Longrightarrow> is_u64 b \<Longrightarrow> u64_as_i64 a = u64_as_i64 b \<longleftrightarrow> a = b"
  by (auto simp: u64_as_i64_def is_u64_def i64_max_def split: if_splits)

lemma utf8_valid_entry_kind: "utf8_valid (entry_kind_as_str k)"
  by (cases k) (simp_all add: utf8_valid_literal)

lemma wf_final_entry_value: "wf_final_entry e \<Longrightarrow> wf_value (final_entry_value e)"
  by (simp add: final_entry_value_def wf_final_entry_def utf8_valid_literal to_manifest_string_def
      encode_path_valid utf8_valid_entry_kind utf8_valid_display u64_as_i64_range)

lemma final_entry_value_inj:
  assumes "wf_final_entry a" and "wf_final_entry b" and "final_entry_value a = final_entry_value b"
  shows "a = b"
proof -
  note m = assms(3) [unfolded final_entry_value_def, THEN object_member_eq]
  have "fe_path a = fe_path b" using m [of "''path''"] by (simp add: to_manifest_string_inj)
  moreover have "fe_kind a = fe_kind b" using m [of "''mode''"] by (simp add: entry_kind.as_str_inj)
  moreover have "fe_blob a = fe_blob b"
    using m [of "''blob''"] assms(1,2) display_inj by (simp add: wf_final_entry_def)
  moreover have "fe_size a = fe_size b"
    using m [of "''size''"] assms(1,2) by (simp add: wf_final_entry_def u64_as_i64_inj)
  ultimately show ?thesis by simp
qed

lemma final_entries_value_inj:
  "\<forall>e \<in> set xs \<union> set ys. wf_final_entry e \<Longrightarrow> map final_entry_value xs = map final_entry_value ys \<Longrightarrow> xs = ys"
  using final_entry_value_inj by (intro inj_on_map_eq_map [THEN iffD1, of final_entry_value])
    (auto simp: inj_on_def)

lemma revision_state_digest_identity:
  assumes "revision_state_new sha xs = Inr s" and "revision_state_new sha ys = Inr t"
    and "\<forall>e \<in> set xs \<union> set ys. wf_final_entry e" and "rs_digest s = rs_digest t"
  shows "set xs = set ys \<or> (\<exists>a b. a \<noteq> b \<and> sha a = sha b)"
proof -
  note s = revision_state_new_Inr [OF assms(1)] and t = revision_state_new_Inr [OF assms(2)]
  have set: "set (rs_entries s) = set xs" "set (rs_entries t) = set ys" by (simp_all add: s(1) t(1))
  have "wf_value (VArray (map final_entry_value (rs_entries s)))"
    "wf_value (VArray (map final_entry_value (rs_entries t)))"
    using assms(3) set wf_final_entry_value by auto
  from value_digest_identity [OF this] assms(4) s(3) t(3)
  consider "map final_entry_value (rs_entries s) = map final_entry_value (rs_entries t)"
    | "\<exists>a b. a \<noteq> b \<and> sha a = sha b" by auto
  then show ?thesis
  proof cases
    case 1
    from final_entries_value_inj [OF _ this] assms(3) set show ?thesis by simp
  qed blast
qed

section \<open>Changeset entries and the manifest\<close>

text \<open>The agreement of operation and states that every constructed entry has.\<close>

definition entry_agrees :: "changeset_entry \<Rightarrow> bool" where
  "entry_agrees e \<longleftrightarrow>
     is_present (ce_before e) = (ce_operation e \<noteq> Add) \<and>
     is_present (ce_after e) = (ce_operation e \<noteq> Delete)"

lemma changeset_entry_new_iff:
  "changeset_entry_new p op b a = Inr e \<longleftrightarrow>
     e = \<lparr>ce_path = p, ce_operation = op, ce_before = b, ce_after = a\<rparr> \<and> entry_agrees e"
  by (cases op) (auto simp: changeset_entry_new_def entry_agrees_def)

lemma changeset_manifest_mset:
  "mset xs = mset ys \<Longrightarrow> distinct (map ce_path xs) \<Longrightarrow>
   changeset_manifest r b w xs = changeset_manifest r b w ys"
proof -
  assume a: "mset xs = mset ys" "distinct (map ce_path xs)"
  have "distinct (map (\<lambda>e. path_sort_key (ce_path e)) xs)"
    using a(2) by (simp add: distinct_map inj_on_def)
  from sort_key_distinct_mset [OF a(1) this] show ?thesis by (simp add: changeset_manifest_def)
qed

end
