(* ===== verification/Scope.thy ===== *)
theory Scope
  imports Artifact
begin

text \<open>
  Matching of Task scope resource patterns against changed repository paths
  (\<^verbatim>\<open>crates/pantheon-core/src/planning/scope.rs\<close>).

  The specification of the matcher is \<open>pattern_denotes\<close>: a path is in a pattern when it
  splits into consecutive pieces, one per segment, with a literal covering exactly itself,
  \<open>*\<close> one component and \<open>**\<close> any number. \<open>matches_from_iff\<close> shows the backtracking
  matcher decides it.
\<close>

record scope_error =
  se_pattern :: string
  se_reason :: string

datatype segment = Literal string | One | Many

type_synonym pattern = "segment list"

type_synonym workspace_scope = "pattern list"

definition compile_segment :: "string \<Rightarrow> string \<Rightarrow> (scope_error, segment) res" where
  "compile_segment pattern piece =
     (if piece = '''' then
        Inl \<lparr>se_pattern = pattern, se_reason = ''it has an empty path component''\<rparr>
      else if piece = ''**'' then Inr Many
      else if piece = ''*'' then Inr One
      else if CHR ''*'' \<in> set piece then
        Inl \<lparr>se_pattern = pattern, se_reason = ''a wildcard must be a whole component''\<rparr>
      else Inr (Literal piece))"

definition compile_pattern :: "string \<Rightarrow> (scope_error, pattern) res" where
  "compile_pattern pattern = (case strip_prefix ''workspace://'' pattern of
     None \<Rightarrow> Inl \<lparr>se_pattern = pattern, se_reason = ''it does not begin with workspace://''\<rparr>
   | Some rest \<Rightarrow>
       if rest = [] then Inl \<lparr>se_pattern = pattern, se_reason = ''it names no path''\<rparr>
       else traverse (compile_segment pattern) (split_on (CHR ''/'') rest))"

definition scope_compile :: "string list \<Rightarrow> (scope_error, workspace_scope) res" where
  "scope_compile patterns = traverse compile_pattern patterns"

definition scope_is_empty :: "workspace_scope \<Rightarrow> bool" where
  "scope_is_empty scope \<longleftrightarrow> scope = []"

fun matches_from :: "pattern \<Rightarrow> string list \<Rightarrow> bool" where
  "matches_from [] [] = True"
| "matches_from (Literal lit # prest) (component # crest) =
     (component = lit \<and> matches_from prest crest)"
| "matches_from (One # prest) (component # crest) = matches_from prest crest"
| "matches_from (Many # prest) path =
     (matches_from prest path
      \<or> (case path of [] \<Rightarrow> False | _ # crest \<Rightarrow> matches_from (Many # prest) crest))"
| "matches_from _ _ = False"

definition authorizes :: "workspace_scope \<Rightarrow> repository_path \<Rightarrow> bool" where
  "authorizes scope path \<longleftrightarrow>
     list_ex (\<lambda>pattern. matches_from pattern (split_on (CHR ''/'') (path_as_bytes path))) scope"

section \<open>What a pattern denotes\<close>

fun segment_covers :: "segment \<Rightarrow> string list \<Rightarrow> bool" where
  "segment_covers (Literal lit) piece = (piece = [lit])"
| "segment_covers One piece = (length piece = 1)"
| "segment_covers Many piece = True"

definition pattern_denotes :: "pattern \<Rightarrow> string list \<Rightarrow> bool" where
  "pattern_denotes pattern components \<longleftrightarrow>
     (\<exists>pieces. components = concat pieces \<and> list_all2 segment_covers pattern pieces)"

lemma pattern_denotes_Nil: "pattern_denotes [] cs \<longleftrightarrow> cs = []"
  by (simp add: pattern_denotes_def)

lemma pattern_denotes_Cons:
  "pattern_denotes (s # ps) cs \<longleftrightarrow>
     (\<exists>piece rest. cs = piece @ rest \<and> segment_covers s piece \<and> pattern_denotes ps rest)"
proof
  assume "pattern_denotes (s # ps) cs"
  then obtain piece pieces where "cs = piece @ concat pieces" "segment_covers s piece"
    "list_all2 segment_covers ps pieces"
    by (auto simp: pattern_denotes_def list_all2_Cons1)
  then show "\<exists>piece rest. cs = piece @ rest \<and> segment_covers s piece \<and> pattern_denotes ps rest"
    unfolding pattern_denotes_def by blast
next
  assume "\<exists>piece rest. cs = piece @ rest \<and> segment_covers s piece \<and> pattern_denotes ps rest"
  then obtain piece pieces where "cs = concat (piece # pieces)"
    "list_all2 segment_covers (s # ps) (piece # pieces)"
    by (auto simp: pattern_denotes_def)
  then show "pattern_denotes (s # ps) cs" unfolding pattern_denotes_def by blast
qed

lemma pattern_denotes_Many:
  "pattern_denotes (Many # ps) cs \<longleftrightarrow>
     pattern_denotes ps cs \<or> (\<exists>c rest. cs = c # rest \<and> pattern_denotes (Many # ps) rest)"
proof -
  have "pattern_denotes (Many # ps) cs \<longleftrightarrow> (\<exists>piece rest. cs = piece @ rest \<and> pattern_denotes ps rest)" for cs
    by (simp add: pattern_denotes_Cons)
  then show ?thesis by (metis append_Cons append_Nil list.exhaust)
qed

lemma matches_from_iff: "matches_from pattern components \<longleftrightarrow> pattern_denotes pattern components"
proof (induction pattern components rule: matches_from.induct)
  case (2 lit prest component crest)
  then show ?case by (auto simp: pattern_denotes_Cons)
next
  case (3 prest component crest)
  have "pattern_denotes (One # prest) (component # crest) \<longleftrightarrow> pattern_denotes prest crest"
    unfolding pattern_denotes_Cons
    by (auto simp: length_Suc_conv) (metis append_Cons append_Nil)
  with 3 show ?case by simp
next
  case (4 prest path)
  then show ?case by (subst pattern_denotes_Many) (auto split: list.splits)
qed (auto simp: pattern_denotes_Nil pattern_denotes_Cons)

section \<open>The pattern grammar\<close>

fun segment_text :: "segment \<Rightarrow> string" where
  "segment_text (Literal lit) = lit"
| "segment_text One = ''*''"
| "segment_text Many = ''**''"

fun wf_segment :: "segment \<Rightarrow> bool" where
  "wf_segment (Literal lit) \<longleftrightarrow> lit \<noteq> [] \<and> CHR ''*'' \<notin> set lit \<and> CHR ''/'' \<notin> set lit"
| "wf_segment _ = True"

definition pattern_text :: "pattern \<Rightarrow> string" where
  "pattern_text p = ''workspace://'' @ intercalate ''/'' (map segment_text p)"

lemma compile_segment_iff:
  "CHR ''/'' \<notin> set piece \<Longrightarrow>
   compile_segment pattern piece = Inr s \<longleftrightarrow> wf_segment s \<and> piece = segment_text s"
  by (cases s) (auto simp: compile_segment_def)

lemma traverse_compile_segment:
  "\<forall>w \<in> set pieces. CHR ''/'' \<notin> set w \<Longrightarrow>
   traverse (compile_segment pattern) pieces = Inr ss \<longleftrightarrow>
     list_all wf_segment ss \<and> pieces = map segment_text ss"
  by (induction pieces arbitrary: ss) (auto simp: res_simps compile_segment_iff)

lemma split_on_intercalate:
  "ws \<noteq> [] \<Longrightarrow> \<forall>w \<in> set ws. d \<notin> set w \<Longrightarrow> split_on d (intercalate [d] ws) = ws"
  by (induction "[d]" ws rule: intercalate.induct) (simp_all add: split_on_singleton split_on_append_sep)

lemma intercalate_split_on: "intercalate [d] (split_on d xs) = xs"
proof (induction xs)
  case (Cons c xs)
  obtain w ws where w: "split_on d xs = w # ws" by (cases "split_on d xs") auto
  with Cons show ?case by (cases ws) auto
qed simp

lemma compile_pattern_iff:
  "compile_pattern pattern = Inr p \<longleftrightarrow> p \<noteq> [] \<and> list_all wf_segment p \<and> pattern = pattern_text p"
proof
  assume "compile_pattern pattern = Inr p"
  then obtain rest where r: "pattern = ''workspace://'' @ rest" "rest \<noteq> []"
    "traverse (compile_segment pattern) (split_on (CHR ''/'') rest) = Inr p"
    by (auto simp: compile_pattern_def strip_prefix_Some split: option.splits if_splits)
  have "list_all wf_segment p \<and> split_on (CHR ''/'') rest = map segment_text p"
    using r(3) traverse_compile_segment [of "split_on (CHR ''/'') rest" pattern p]
      split_on_no_sep [of _ "CHR ''/''" rest] by simp
  with r(1) intercalate_split_on [of "CHR ''/''" rest] split_on_nonempty [of "CHR ''/''" rest]
  show "p \<noteq> [] \<and> list_all wf_segment p \<and> pattern = pattern_text p" by (auto simp: pattern_text_def)
next
  assume p: "p \<noteq> [] \<and> list_all wf_segment p \<and> pattern = pattern_text p"
  define rest where "rest = intercalate ''/'' (map segment_text p)"
  have seg: "wf_segment s \<Longrightarrow> CHR ''/'' \<notin> set (segment_text s) \<and> segment_text s \<noteq> []" for s
    by (cases s) auto
  have ws: "\<forall>w \<in> set (map segment_text p). CHR ''/'' \<notin> set w" using p seg by (auto simp: list_all_iff)
  have split: "split_on (CHR ''/'') rest = map segment_text p"
    unfolding rest_def using p ws by (intro split_on_intercalate) auto
  have "rest \<noteq> []" using split p seg [of "hd p"] by (cases p) auto
  moreover have "traverse (compile_segment pattern) (map segment_text p) = Inr p"
    using traverse_compile_segment [OF ws] p by blast
  moreover have "pattern = ''workspace://'' @ rest" using p by (simp only: pattern_text_def rest_def)
  then have "strip_prefix ''workspace://'' pattern = Some rest" by (simp only: strip_prefix_append)
  ultimately show "compile_pattern pattern = Inr p" by (simp add: compile_pattern_def split)
qed

lemma scope_compile_iff:
  "scope_compile patterns = Inr scope \<longleftrightarrow>
     (\<forall>p \<in> set scope. p \<noteq> [] \<and> list_all wf_segment p) \<and> patterns = map pattern_text scope"
  unfolding scope_compile_def
  by (induction patterns arbitrary: scope) (auto simp: res_simps compile_pattern_iff)

lemma authorizes_iff:
  "authorizes scope path \<longleftrightarrow>
     (\<exists>p \<in> set scope. pattern_denotes p (split_on (CHR ''/'') (path_as_bytes path)))"
  by (simp add: authorizes_def matches_from_iff list_ex_iff)

lemma authorizes_mono: "set s \<subseteq> set t \<Longrightarrow> authorizes s path \<Longrightarrow> authorizes t path"
  by (auto simp: authorizes_iff)

end
