(* ===== verification/Candidate.thy ===== *)
theory Candidate
  imports Task Ordering
begin

text \<open>
  The content-addressed answer of a Run to its Task
  (\<^verbatim>\<open>crates/pantheon-core/src/candidate.rs\<close>): normalisation with refusal of duplicate
  slots, the identity document, and validation against the Task's specification. The
  lemmas give the exact acceptance condition of the constructor and of the validation, and
  show that the identity does not depend on the order in which outputs were submitted.
\<close>

definition max_output_slot_bytes :: nat where
  "max_output_slot_bytes = 128"

record candidate_output =
  co_slot :: string
  co_artifact :: digest

definition candidate_output_to_value :: "candidate_output \<Rightarrow> cvalue" where
  "candidate_output_to_value out = object [
     (''artifact'', VString (display (co_artifact out))),
     (''slot'', VString (co_slot out))]"

datatype candidate_error =
    DuplicateOutputSlot string
  | InvalidOutputSlot string string
  | OutputKindMismatch string string string
  | UndeclaredOutputSlot string
  | MissingRequiredOutput string

record candidate_result =
  cr_task_id :: string
  cr_run_id :: string
  cr_outputs :: "candidate_output list"

definition check_slot :: "candidate_output \<Rightarrow> (candidate_error, unit) res" where
  "check_slot out =
     bindR (ensure (co_slot out \<noteq> [])
              (InvalidOutputSlot (co_slot out) ''the slot name is empty''))
       (\<lambda>_. ensure (length (co_slot out) \<le> max_output_slot_bytes)
              (InvalidOutputSlot (co_slot out) ''the slot name exceeds the bounded length''))"

text \<open>The walk over \<open>windows(2)\<close>: the first slot equal to its successor is reported.\<close>

fun check_adjacent_slots :: "candidate_output list \<Rightarrow> (candidate_error, unit) res" where
  "check_adjacent_slots (a # b # rest) =
     (if co_slot a = co_slot b then Inl (DuplicateOutputSlot (co_slot a))
      else check_adjacent_slots (b # rest))"
| "check_adjacent_slots _ = Inr ()"

definition candidate_new ::
  "string \<Rightarrow> string \<Rightarrow> (string \<times> digest) list \<Rightarrow> (candidate_error, candidate_result) res" where
  "candidate_new task_id run_id outputs =
     (let normalized = map (\<lambda>(slot, artifact). \<lparr>co_slot = slot, co_artifact = artifact\<rparr>) outputs in
      bindR (for_each check_slot normalized) (\<lambda>_.
        (let sorted_outputs = sort_key co_slot normalized in
         bindR (check_adjacent_slots sorted_outputs) (\<lambda>_.
           Inr \<lparr>cr_task_id = task_id, cr_run_id = run_id, cr_outputs = sorted_outputs\<rparr>))))"

definition candidate_to_value :: "candidate_result \<Rightarrow> cvalue" where
  "candidate_to_value c = object [
     (''outputs'', VArray (map candidate_output_to_value (cr_outputs c))),
     (''run'', VString (cr_run_id c)),
     (''task'', VString (cr_task_id c))]"

definition candidate_result_digest :: "sha256 \<Rightarrow> candidate_result \<Rightarrow> digest" where
  "candidate_result_digest sha c = digest_of sha (to_canonical_bytes (candidate_to_value c))"

definition check_required_output :: "candidate_result \<Rightarrow> task_output \<Rightarrow> (candidate_error, unit) res" where
  "check_required_output c r =
     ensure (list_ex (\<lambda>out. co_slot out = to_name r) (cr_outputs c)) (MissingRequiredOutput (to_name r))"

definition check_declared_output :: "task_spec \<Rightarrow> candidate_output \<Rightarrow> (candidate_error, unit) res" where
  "check_declared_output t out =
     ensure (List.find (\<lambda>d. to_name d = co_slot out) (tk_outputs t) \<noteq> None) (UndeclaredOutputSlot (co_slot out))"

definition validate_against_spec :: "candidate_result \<Rightarrow> task_spec \<Rightarrow> (candidate_error, unit) res" where
  "validate_against_spec c t =
     bindR (for_each (check_required_output c) (filter to_required (tk_outputs t)))
       (\<lambda>_. for_each (check_declared_output t) (cr_outputs c))"

definition kind_permitted :: "task_output \<Rightarrow> string \<Rightarrow> (candidate_error, unit) res" where
  "kind_permitted slot artifact_kind =
     (if to_kind slot = artifact_kind then Inr ()
      else Inl (OutputKindMismatch (to_name slot) (to_kind slot) artifact_kind))"

section \<open>Construction\<close>

definition slot_ok :: "string \<Rightarrow> bool" where
  "slot_ok s \<longleftrightarrow> 0 < length s \<and> length s \<le> 128"

definition output_of :: "string \<times> digest \<Rightarrow> candidate_output" where
  "output_of e = \<lparr>co_slot = fst e, co_artifact = snd e\<rparr>"

lemma check_slot_iff [res_simps]: "check_slot out = Inr u \<longleftrightarrow> slot_ok (co_slot out)"
  by (auto simp: check_slot_def slot_ok_def max_output_slot_bytes_def res_simps)

lemma check_adjacent_slots_iff:
  "sorted (map co_slot xs) \<Longrightarrow> check_adjacent_slots xs = Inr u \<longleftrightarrow> distinct (map co_slot xs)"
proof (induction xs rule: check_adjacent_slots.induct)
  case (1 a b rest)
  have "co_slot a \<notin> co_slot ` set (b # rest) \<longleftrightarrow> co_slot a \<noteq> co_slot b"
    using "1.prems" by fastforce
  with "1" show ?case by auto
qed simp_all

lemma candidate_new_iff:
  "candidate_new task_id run_id outputs = Inr c \<longleftrightarrow>
     (\<forall>e \<in> set outputs. slot_ok (fst e)) \<and> distinct (map fst outputs) \<and>
     c = \<lparr>cr_task_id = task_id, cr_run_id = run_id, cr_outputs = sort_key co_slot (map output_of outputs)\<rparr>"
proof -
  have m: "map (\<lambda>(slot, artifact). \<lparr>co_slot = slot, co_artifact = artifact\<rparr>) outputs = map output_of outputs"
    by (auto simp: output_of_def)
  have "distinct (map co_slot (sort_key co_slot (map output_of outputs))) \<longleftrightarrow> distinct (map fst outputs)"
    by (simp add: comp_def output_of_def)
  then show ?thesis
    unfolding candidate_new_def Let_def m
    by (auto simp: res_simps check_adjacent_slots_iff output_of_def)
qed

lemma candidate_new_mset:
  assumes "candidate_new task_id run_id outputs = Inr c" and "mset outputs = mset outputs'"
  shows "candidate_new task_id run_id outputs' = Inr c"
proof -
  have d: "distinct (map fst outputs)" using assms(1) by (simp add: candidate_new_iff)
  then have d': "distinct (map fst outputs')"
    using assms(2) by (metis mset_eq_imp_distinct_iff mset_map)
  have "sort_key co_slot (map output_of outputs) = sort_key co_slot (map output_of outputs')"
    using assms(2) d by (intro sort_key_distinct_mset) (simp_all add: comp_def output_of_def)
  with assms d' show ?thesis by (simp add: candidate_new_iff mset_eq_setD [OF assms(2)])
qed

section \<open>Validation\<close>

lemma check_required_output_iff [res_simps]:
  "check_required_output c r = Inr u \<longleftrightarrow> to_name r \<in> co_slot ` set (cr_outputs c)"
  by (simp add: check_required_output_def res_simps list_ex_iff image_iff) metis

lemma check_declared_output_iff [res_simps]:
  "check_declared_output t out = Inr u \<longleftrightarrow> co_slot out \<in> to_name ` set (tk_outputs t)"
  by (simp add: check_declared_output_def res_simps find_None_iff image_iff del: not_None_eq) metis

lemma validate_against_spec_iff:
  "validate_against_spec c t = Inr u \<longleftrightarrow>
     to_name ` set (filter to_required (tk_outputs t)) \<subseteq> co_slot ` set (cr_outputs c) \<and>
     co_slot ` set (cr_outputs c) \<subseteq> to_name ` set (tk_outputs t)"
  by (simp add: validate_against_spec_def res_simps subset_iff image_iff) blast

section \<open>Identity\<close>

definition wf_candidate :: "candidate_result \<Rightarrow> bool" where
  "wf_candidate c \<longleftrightarrow> utf8_valid (cr_task_id c) \<and> utf8_valid (cr_run_id c) \<and>
     (\<forall>out \<in> set (cr_outputs c). utf8_valid (co_slot out) \<and> wf_digest (co_artifact out))"

lemma wf_candidate_to_value: "wf_candidate c \<Longrightarrow> wf_value (candidate_to_value c)"
  by (auto simp: wf_candidate_def candidate_to_value_def candidate_output_to_value_def
      utf8_valid_literal utf8_valid_display)

lemma candidate_output_to_value_inj:
  assumes "candidate_output_to_value a = candidate_output_to_value b"
    and "wf_digest (co_artifact a)" and "wf_digest (co_artifact b)"
  shows "a = b"
proof -
  have "co_slot a = co_slot b" "display (co_artifact a) = display (co_artifact b)"
    using object_member_eq [OF assms(1) [unfolded candidate_output_to_value_def], of "''slot''"]
      object_member_eq [OF assms(1) [unfolded candidate_output_to_value_def], of "''artifact''"] by simp_all
  then show ?thesis using assms(2,3) by (metis candidate_output.surjective from_display_display old.unit.exhaust option.inject)
qed

lemma candidate_to_value_inj:
  assumes "candidate_to_value a = candidate_to_value b" and "wf_candidate a" and "wf_candidate b"
  shows "a = b"
proof -
  note eq = object_member_eq [OF assms(1) [unfolded candidate_to_value_def]]
  have ids: "cr_task_id a = cr_task_id b" "cr_run_id a = cr_run_id b"
    using eq [of "''task''"] eq [of "''run''"] by simp_all
  have outs: "map candidate_output_to_value (cr_outputs a) = map candidate_output_to_value (cr_outputs b)"
    using eq [of "''outputs''"] by simp
  have "cr_outputs a = cr_outputs b"
    by (rule list.inj_map_strong [OF _ outs])
      (use assms(2,3) candidate_output_to_value_inj in \<open>auto simp: wf_candidate_def\<close>)
  with ids show ?thesis by simp
qed

lemma candidate_result_digest_identity:
  assumes "wf_candidate a" and "wf_candidate b" and "candidate_result_digest sha a = candidate_result_digest sha b"
  shows "a = b \<or> (\<exists>x y. x \<noteq> y \<and> sha x = sha y)"
  using value_digest_identity [OF wf_candidate_to_value [OF assms(1)] wf_candidate_to_value [OF assms(2)], of sha]
    assms candidate_to_value_inj by (auto simp: candidate_result_digest_def value_digest_def)

end
