(* ===== verification/Workspace.thy ===== *)
theory Workspace
  imports Codec
begin

text \<open>
  The Workspace and Sandbox vocabularies (\<^verbatim>\<open>crates/pantheon-core/src/workspace.rs\<close>,
  \<^verbatim>\<open>crates/pantheon-core/src/sandbox.rs\<close>): lifecycle phases, the separate observation of
  external state, the two base identities a Workspace binds, the Sandbox key, plan and
  verification. The lemmas give the exact language each validated identity accepts.
\<close>

section \<open>Workspace phases\<close>

datatype workspace_phase =
  WRequested | WMaterializing | WReady | WFrozen | WReleasing | WReleased | WError

fun workspace_phase_as_str :: "workspace_phase \<Rightarrow> string" where
  "workspace_phase_as_str WRequested = ''Requested''"
| "workspace_phase_as_str WMaterializing = ''Materializing''"
| "workspace_phase_as_str WReady = ''Ready''"
| "workspace_phase_as_str WFrozen = ''Frozen''"
| "workspace_phase_as_str WReleasing = ''Releasing''"
| "workspace_phase_as_str WReleased = ''Released''"
| "workspace_phase_as_str WError = ''Error''"

definition workspace_phase_parse :: "string \<Rightarrow> workspace_phase option" where
  "workspace_phase_parse s =
     (if s = ''Requested'' then Some WRequested
      else if s = ''Materializing'' then Some WMaterializing
      else if s = ''Ready'' then Some WReady
      else if s = ''Frozen'' then Some WFrozen
      else if s = ''Releasing'' then Some WReleasing
      else if s = ''Released'' then Some WReleased
      else if s = ''Error'' then Some WError
      else None)"

interpretation workspace_phase: wire_enum workspace_phase_as_str workspace_phase_parse
proof
  fix x show "workspace_phase_parse (workspace_phase_as_str x) = Some x"
    by (cases x) (simp_all add: workspace_phase_parse_def)
next
  fix s x assume "workspace_phase_parse s = Some x"
  then show "s = workspace_phase_as_str x" by (auto simp: workspace_phase_parse_def split: if_splits)
qed

fun has_been_mutable :: "workspace_phase \<Rightarrow> bool" where
  "has_been_mutable WReady = True"
| "has_been_mutable WFrozen = True"
| "has_been_mutable WReleasing = True"
| "has_been_mutable WReleased = True"
| "has_been_mutable _ = False"

datatype materialization = MPresent | MAbsent | MUnknown

fun materialization_as_str :: "materialization \<Rightarrow> string" where
  "materialization_as_str MPresent = ''Present''"
| "materialization_as_str MAbsent = ''Absent''"
| "materialization_as_str MUnknown = ''Unknown''"

definition materialization_parse :: "string \<Rightarrow> materialization option" where
  "materialization_parse s =
     (if s = ''Present'' then Some MPresent
      else if s = ''Absent'' then Some MAbsent
      else if s = ''Unknown'' then Some MUnknown
      else None)"

interpretation materialization: wire_enum materialization_as_str materialization_parse
proof
  fix x show "materialization_parse (materialization_as_str x) = Some x"
    by (cases x) (simp_all add: materialization_parse_def)
next
  fix s x assume "materialization_parse s = Some x"
  then show "s = materialization_as_str x" by (auto simp: materialization_parse_def split: if_splits)
qed

definition repository_input :: string where
  "repository_input = ''repository''"

section \<open>Base identities\<close>

datatype base_error = NotAnObjectName string | NotARefName string string

definition is_lower_hex :: "char \<Rightarrow> bool" where
  "is_lower_hex c \<longleftrightarrow>
     (48 \<le> (of_char c :: nat) \<and> (of_char c :: nat) \<le> 57) \<or> (97 \<le> (of_char c :: nat) \<and> (of_char c :: nat) \<le> 102)"

definition resolved_base_parse :: "string \<Rightarrow> (base_error, string) res" where
  "resolved_base_parse v =
     (if (length v = 40 \<or> length v = 64) \<and> list_all is_lower_hex v then Inr v
      else Inl (NotAnObjectName v))"

definition max_requested_base_len :: nat where
  "max_requested_base_len = 255"

text \<open>
  The loop over \<open>chars()\<close>: every character it refuses is a single ASCII byte, and no byte
  of a longer UTF-8 sequence is one, so the walk over bytes refuses the same values for
  the same reason.
\<close>

definition check_ref_char :: "string \<Rightarrow> char \<Rightarrow> (base_error, unit) res" where
  "check_ref_char v c =
     bindR (ensure (\<not> ((of_char c :: nat) < 32 \<or> (of_char c :: nat) = 127))
              (NotARefName v ''it contains a control character''))
       (\<lambda>_. ensure (c \<notin> {CHR '' '', CHR ''~'', CHR ''^'', CHR '':'', CHR ''?'', CHR ''*'', CHR ''['', CHR 0x5C})
              (NotARefName v ''it contains a character Git forbids in a ref name''))"

definition requested_base_parse :: "string \<Rightarrow> (base_error, string) res" where
  "requested_base_parse v =
     bindR (ensure (v \<noteq> []) (NotARefName v ''it is empty'')) (\<lambda>_.
     bindR (ensure (length v \<le> max_requested_base_len)
              (NotARefName v ''it is longer than 255 characters'')) (\<lambda>_.
     bindR (ensure (\<not> starts_with ''-'' v) (NotARefName v (''it starts with '' @ [CHR 0x27, CHR ''-'', CHR 0x27]))) (\<lambda>_.
     bindR (ensure (\<not> (starts_with ''/'' v \<or> ends_with ''/'' v \<or> contains_str ''//'' v))
              (NotARefName v ''it has an empty path component'')) (\<lambda>_.
     bindR (ensure (\<not> (ends_with ''.'' v \<or> ends_with ''.lock'' v \<or> contains_str ''/.'' v))
              (NotARefName v ''a component starts or ends with a reserved character'')) (\<lambda>_.
     bindR (ensure (\<not> (contains_str ''..'' v \<or> contains_str [CHR ''@'', CHR 0x7B] v))
              (NotARefName v ''it contains a revision-expression sequence'')) (\<lambda>_.
     bindR (for_each (check_ref_char v) v) (\<lambda>_.
       Inr v)))))))"

section \<open>Sandbox\<close>

datatype sandbox_phase = SRequested | SPreparing | SReady | SReleasing | SReleased | SError

fun sandbox_phase_as_str :: "sandbox_phase \<Rightarrow> string" where
  "sandbox_phase_as_str SRequested = ''Requested''"
| "sandbox_phase_as_str SPreparing = ''Preparing''"
| "sandbox_phase_as_str SReady = ''Ready''"
| "sandbox_phase_as_str SReleasing = ''Releasing''"
| "sandbox_phase_as_str SReleased = ''Released''"
| "sandbox_phase_as_str SError = ''Error''"

definition sandbox_phase_parse :: "string \<Rightarrow> sandbox_phase option" where
  "sandbox_phase_parse s =
     (if s = ''Requested'' then Some SRequested
      else if s = ''Preparing'' then Some SPreparing
      else if s = ''Ready'' then Some SReady
      else if s = ''Releasing'' then Some SReleasing
      else if s = ''Released'' then Some SReleased
      else if s = ''Error'' then Some SError
      else None)"

interpretation sandbox_phase: wire_enum sandbox_phase_as_str sandbox_phase_parse
proof
  fix x show "sandbox_phase_parse (sandbox_phase_as_str x) = Some x"
    by (cases x) (simp_all add: sandbox_phase_parse_def)
next
  fix s x assume "sandbox_phase_parse s = Some x"
  then show "s = sandbox_phase_as_str x" by (auto simp: sandbox_phase_parse_def split: if_splits)
qed

datatype sandbox_presence = PPresent | PAbsent | PUnknown

fun sandbox_presence_as_str :: "sandbox_presence \<Rightarrow> string" where
  "sandbox_presence_as_str PPresent = ''Present''"
| "sandbox_presence_as_str PAbsent = ''Absent''"
| "sandbox_presence_as_str PUnknown = ''Unknown''"

definition sandbox_presence_parse :: "string \<Rightarrow> sandbox_presence option" where
  "sandbox_presence_parse s =
     (if s = ''Present'' then Some PPresent
      else if s = ''Absent'' then Some PAbsent
      else if s = ''Unknown'' then Some PUnknown
      else None)"

interpretation sandbox_presence: wire_enum sandbox_presence_as_str sandbox_presence_parse
proof
  fix x show "sandbox_presence_parse (sandbox_presence_as_str x) = Some x"
    by (cases x) (simp_all add: sandbox_presence_parse_def)
next
  fix s x assume "sandbox_presence_parse s = Some x"
  then show "s = sandbox_presence_as_str x" by (auto simp: sandbox_presence_parse_def split: if_splits)
qed

datatype sandbox_key_error = SandboxKeyEmpty | SandboxKeyTooLong

definition sandbox_key_new :: "string \<Rightarrow> (sandbox_key_error, string) res" where
  "sandbox_key_new v =
     bindR (ensure (v \<noteq> []) SandboxKeyEmpty) (\<lambda>_.
     bindR (ensure (length v \<le> 128) SandboxKeyTooLong) (\<lambda>_.
       Inr v))"

record sandbox_mount =
  sm_source :: string
  sm_destination :: string
  sm_read_only :: bool

datatype sandbox_network_mode = NetNone | NetBrokered

fun sandbox_network_mode_as_str :: "sandbox_network_mode \<Rightarrow> string" where
  "sandbox_network_mode_as_str NetNone = ''NONE''"
| "sandbox_network_mode_as_str NetBrokered = ''BROKERED''"

record sandbox_plan =
  sb_sandbox_profile_digest :: digest
  sb_environment_identity :: string
  sb_mounts :: "sandbox_mount list"
  sb_network_mode :: sandbox_network_mode
  sb_cpu_limit_millicores :: "int option"
  sb_memory_limit_mb :: "int option"

definition mount_value :: "sandbox_mount \<Rightarrow> cvalue" where
  "mount_value m = object [
     (''source'', VString (sm_source m)),
     (''destination'', VString (sm_destination m)),
     (''readOnly'', VBool (sm_read_only m))]"

definition limit_value :: "int option \<Rightarrow> cvalue" where
  "limit_value l = (case l of Some n \<Rightarrow> VInteger n | None \<Rightarrow> VNull)"

definition sandbox_plan_value :: "sandbox_plan \<Rightarrow> cvalue" where
  "sandbox_plan_value p = object [
     (''sandboxProfileDigest'', VString (display (sb_sandbox_profile_digest p))),
     (''environmentIdentity'', VString (sb_environment_identity p)),
     (''mounts'', VArray (map mount_value (sb_mounts p))),
     (''networkMode'', VString (sandbox_network_mode_as_str (sb_network_mode p))),
     (''cpuLimitMillicores'', limit_value (sb_cpu_limit_millicores p)),
     (''memoryLimitMb'', limit_value (sb_memory_limit_mb p))]"

definition sandbox_plan_digest :: "sha256 \<Rightarrow> sandbox_plan \<Rightarrow> digest" where
  "sandbox_plan_digest sha p = value_digest sha (sandbox_plan_value p)"

section \<open>The accepted identities\<close>

lemma resolved_base_parse_iff:
  "resolved_base_parse v = Inr b \<longleftrightarrow>
     b = v \<and> length v \<in> {40, 64} \<and> set v \<subseteq> set ''0123456789abcdef''"
proof -
  have hex: "is_lower_hex c \<longleftrightarrow> c \<in> set ''0123456789abcdef''" for c
  proof -
    have "is_lower_hex c \<longleftrightarrow> (of_char c :: nat) \<in> set ([48..<58] @ [97..<103])"
      unfolding is_lower_hex_def set_append set_upt Un_iff atLeastLessThan_iff by presburger
    also have "\<dots> \<longleftrightarrow> c \<in> char_of ` set ([48..<58] @ [97..<103])"
    proof
      assume "(of_char c :: nat) \<in> set ([48..<58] @ [97..<103])"
      then show "c \<in> char_of ` set ([48..<58] @ [97..<103])"
        by (metis char_of_char imageI)
    next
      assume "c \<in> char_of ` set ([48..<58] @ [97..<103])"
      then show "(of_char c :: nat) \<in> set ([48..<58] @ [97..<103])"
        by (auto simp only: of_char_of set_append set_upt) auto
    qed
    also have "char_of ` set ([48..<58] @ [97..<103]) = set ''0123456789abcdef''"
      by code_simp
    finally show ?thesis .
  qed
  show ?thesis by (auto simp: resolved_base_parse_def list_all_iff hex subset_iff)
qed

text \<open>
  The declarative reading of a requested base: a non-empty bounded sequence of non-empty
  components, none after the first starting with a dot, free of option, revision and
  control syntax.
\<close>

definition ref_name :: "string \<Rightarrow> bool" where
  "ref_name v \<longleftrightarrow> v \<noteq> [] \<and> length v \<le> 255 \<and> hd v \<noteq> CHR ''-'' \<and>
     [] \<notin> set (split_on (CHR ''/'') v) \<and>
     (\<forall>w \<in> set (tl (split_on (CHR ''/'') v)). hd w \<noteq> CHR ''.'') \<and>
     \<not> (\<exists>u. v = u @ ''.'') \<and> \<not> (\<exists>u. v = u @ ''.lock'') \<and>
     \<not> (\<exists>u w. v = u @ ''..'' @ w) \<and> \<not> (\<exists>u w. v = u @ [CHR ''@'', CHR 0x7B] @ w) \<and>
     (\<forall>c \<in> set v. 32 < (of_char c :: nat) \<and> (of_char c :: nat) \<noteq> 127 \<and>
        c \<notin> {CHR ''~'', CHR ''^'', CHR '':'', CHR ''?'', CHR ''*'', CHR ''['', CHR 0x5C})"

lemma split_on_hd: "hd (split_on d v) = takeWhile (\<lambda>c. c \<noteq> d) v"
  by (induction v) (auto split: list.splits)

lemma split_on_tl: "tl (split_on d (c # v)) = (if c = d then split_on d v else tl (split_on d v))"
  by (auto split: list.splits)

lemma split_on_set: "set (split_on d v) = insert (takeWhile (\<lambda>c. c \<noteq> d) v) (set (tl (split_on d v)))"
  by (metis list.exhaust_sel list.simps(15) split_on_hd split_on_nonempty)

lemma starts_with_Cons2: "starts_with [a, b] (c # v) \<longleftrightarrow> a = c \<and> v \<noteq> [] \<and> hd v = b"
  by (cases v) auto

lemma empty_later_component:
  "[] \<in> set (tl (split_on d v)) \<longleftrightarrow> (v \<noteq> [] \<and> last v = d) \<or> contains_str [d, d] v"
proof (induction v)
  case Nil
  then show ?case by simp
next
  case (Cons c v)
  show ?case
  proof (cases "c = d")
    case True
    have "[] \<in> set (split_on d v) \<longleftrightarrow> v = [] \<or> hd v = d \<or> [] \<in> set (tl (split_on d v))"
      by (subst split_on_set) (cases v; auto)
    with True Cons.IH show ?thesis
      by (auto simp only: split_on_tl contains_str.simps starts_with_Cons2 last.simps split: if_splits)
  next
    case False
    with Cons.IH show ?thesis
      by (auto simp only: split_on_tl contains_str.simps starts_with_Cons2 last.simps contains_str.simps(1)
          list.simps split: if_splits)
  qed
qed

lemma empty_component:
  "[] \<in> set (split_on d v) \<longleftrightarrow> v = [] \<or> starts_with [d] v \<or> ends_with [d] v \<or> contains_str [d, d] v"
proof -
  have "[] \<in> set (split_on d v) \<longleftrightarrow> v = [] \<or> starts_with [d] v \<or> [] \<in> set (tl (split_on d v))"
    by (subst split_on_set) (cases v; auto)
  moreover have "ends_with [d] v \<longleftrightarrow> v \<noteq> [] \<and> last v = d"
    by (cases v rule: rev_cases) (auto simp: ends_with_iff)
  ultimately show ?thesis using empty_later_component [of d v] by blast
qed

lemma dotted_component:
  "d \<noteq> e \<Longrightarrow> (\<exists>w \<in> set (tl (split_on d v)). w \<noteq> [] \<and> hd w = e) \<longleftrightarrow> contains_str [d, e] v"
proof (induction v)
  case Nil
  then show ?case by simp
next
  case (Cons c v)
  show ?case
  proof (cases "c = d")
    case True
    have "(\<exists>w \<in> set (split_on d v). w \<noteq> [] \<and> hd w = e) \<longleftrightarrow>
        (v \<noteq> [] \<and> hd v = e) \<or> (\<exists>w \<in> set (tl (split_on d v)). w \<noteq> [] \<and> hd w = e)"
      using Cons.prems by (subst split_on_set) (cases v; auto)
    with True Cons show ?thesis
      by (simp add: split_on_tl starts_with_Cons2 del: split_on.simps starts_with.simps)
  next
    case False
    with Cons show ?thesis
      by (simp add: split_on_tl starts_with_Cons2 del: split_on.simps starts_with.simps)
  qed
qed

lemma check_ref_char_iff [res_simps]:
  "check_ref_char v c = Inr u \<longleftrightarrow> 32 < (of_char c :: nat) \<and> (of_char c :: nat) \<noteq> 127 \<and>
     c \<notin> {CHR ''~'', CHR ''^'', CHR '':'', CHR ''?'', CHR ''*'', CHR ''['', CHR 0x5C}"
proof -
  have "c = CHR '' '' \<longleftrightarrow> (of_char c :: nat) = 32"
    using of_char_eq_iff [of c "CHR '' ''", where ?'a = nat] by simp
  then have "\<not> ((of_char c :: nat) < 32 \<or> (of_char c :: nat) = 127) \<and> c \<noteq> CHR '' '' \<longleftrightarrow>
      32 < (of_char c :: nat) \<and> (of_char c :: nat) \<noteq> 127"
    by linarith
  then show ?thesis
    unfolding check_ref_char_def bindR_Inr_iff ensure_Inr_iff insert_iff empty_iff de_Morgan_disj by blast
qed

lemma requested_base_parse_iff: "requested_base_parse v = Inr b \<longleftrightarrow> b = v \<and> ref_name v"
proof -
  have dots: "(\<forall>w \<in> set (tl (split_on (CHR ''/'') v)). hd w \<noteq> CHR ''.'') \<longleftrightarrow> \<not> contains_str ''/.'' v"
    if "[] \<notin> set (split_on (CHR ''/'') v)"
  proof -
    have "\<forall>w \<in> set (tl (split_on (CHR ''/'') v)). w \<noteq> []"
      using that by (metis list.set_sel(2) split_on_nonempty)
    then show ?thesis using dotted_component [of "CHR ''/''" "CHR ''.''" v] by auto
  qed
  have dash: "starts_with ''-'' v \<longleftrightarrow> v \<noteq> [] \<and> hd v = CHR ''-''" by (cases v) auto
  have "requested_base_parse v = Inr b \<longleftrightarrow> v \<noteq> [] \<and> length v \<le> 255 \<and> \<not> starts_with ''-'' v \<and>
      \<not> (starts_with ''/'' v \<or> ends_with ''/'' v \<or> contains_str ''//'' v) \<and>
      \<not> (ends_with ''.'' v \<or> ends_with ''.lock'' v \<or> contains_str ''/.'' v) \<and>
      \<not> (contains_str ''..'' v \<or> contains_str [CHR ''@'', CHR 0x7B] v) \<and>
      (\<forall>c \<in> set v. check_ref_char v c = Inr ()) \<and> v = b"
    by (simp only: requested_base_parse_def max_requested_base_len_def bindR_Inr_iff ensure_Inr_iff
        for_each_Inr_iff ex_simps simp_thms sum.inject)
  also have "\<dots> \<longleftrightarrow> b = v \<and> ref_name v"
    unfolding ref_name_def check_ref_char_iff contains_str_iff [symmetric] ends_with_iff [symmetric]
    using dots dash empty_component [of "CHR ''/''" v] by argo
  finally show ?thesis .
qed

section \<open>Sandbox verification\<close>

record sandbox_probe_result =
  pb_name :: string
  pb_expected :: string
  pb_observed :: string
  pb_passed :: bool

record sandbox_verification =
  sv_sandbox_key :: string
  sv_holder_id :: string
  sv_environment_identity :: string
  sv_mounts_verified :: bool
  sv_network_mode_verified :: bool
  sv_privilege_verified :: bool
  sv_capability_verified :: bool
  sv_agent_control_route_verified :: bool
  sv_workspace_binding_verified :: bool
  sv_resource_limits_verified :: bool
  sv_seccomp_active_verified :: bool
  sv_host_pid_hidden_verified :: bool
  sv_host_user_namespace_verified :: bool
  sv_host_mount_namespace_verified :: bool
  sv_cloud_metadata_unreachable_verified :: bool
  sv_dns_resolution_denied_verified :: bool
  sv_forbidden_mounts_absent_verified :: bool
  sv_runtime_socket_absent_verified :: bool
  sv_cross_attempt_isolation_verified :: bool
  sv_control_plane_unreachable_verified :: bool
  sv_probe_results :: "sandbox_probe_result list"
  sv_backend_descriptor :: string
  sv_backend_version :: string
  sv_platform :: string
  sv_architecture :: string
  sv_probe_implementation_version :: string

definition all_passed :: "sandbox_verification \<Rightarrow> bool" where
  "all_passed v \<longleftrightarrow>
     sv_mounts_verified v \<and> sv_network_mode_verified v \<and> sv_privilege_verified v \<and>
     sv_capability_verified v \<and> sv_agent_control_route_verified v \<and>
     sv_workspace_binding_verified v \<and> sv_resource_limits_verified v \<and>
     sv_seccomp_active_verified v \<and> sv_host_pid_hidden_verified v \<and>
     sv_host_user_namespace_verified v \<and> sv_host_mount_namespace_verified v \<and>
     sv_cloud_metadata_unreachable_verified v \<and> sv_dns_resolution_denied_verified v \<and>
     sv_forbidden_mounts_absent_verified v \<and> sv_runtime_socket_absent_verified v \<and>
     sv_cross_attempt_isolation_verified v \<and> sv_control_plane_unreachable_verified v"

section \<open>Identity of a Sandbox plan\<close>

definition wf_sandbox_plan :: "sandbox_plan \<Rightarrow> bool" where
  "wf_sandbox_plan p \<longleftrightarrow> wf_digest (sb_sandbox_profile_digest p) \<and> utf8_valid (sb_environment_identity p) \<and>
     (\<forall>m \<in> set (sb_mounts p). utf8_valid (sm_source m) \<and> utf8_valid (sm_destination m)) \<and>
     (\<forall>n \<in> set_option (sb_cpu_limit_millicores p). is_u32 n) \<and>
     (\<forall>n \<in> set_option (sb_memory_limit_mb p). is_u32 n)"

lemma wf_limit_value: "\<forall>n \<in> set_option l. is_u32 n \<Longrightarrow> wf_value (limit_value l)"
  by (cases l) (simp_all add: limit_value_def is_u32_def is_i64_def i64_min_def i64_max_def)

lemma wf_sandbox_plan_value: "wf_sandbox_plan p \<Longrightarrow> wf_value (sandbox_plan_value p)"
  by (cases "sb_network_mode p")
    (auto simp: wf_sandbox_plan_def sandbox_plan_value_def mount_value_def utf8_valid_literal
      utf8_valid_display wf_limit_value)

lemma mount_value_inj: "mount_value a = mount_value b \<Longrightarrow> a = b"
proof -
  assume "mount_value a = mount_value b"
  note eq = object_member_eq [OF this [unfolded mount_value_def]]
  show "a = b" using eq [of "''source''"] eq [of "''destination''"] eq [of "''readOnly''"] by simp
qed

lemma limit_value_inj: "limit_value a = limit_value b \<Longrightarrow> a = b"
  by (auto simp: limit_value_def split: option.splits)

lemma sandbox_plan_value_inj:
  assumes "sandbox_plan_value a = sandbox_plan_value b" and "wf_sandbox_plan a" and "wf_sandbox_plan b"
  shows "a = b"
proof -
  note eq = object_member_eq [OF assms(1) [unfolded sandbox_plan_value_def]]
  have "display (sb_sandbox_profile_digest a) = display (sb_sandbox_profile_digest b)"
    using eq [of "''sandboxProfileDigest''"] by simp
  then have d: "sb_sandbox_profile_digest a = sb_sandbox_profile_digest b"
    using assms(2,3) by (metis from_display_display option.inject wf_sandbox_plan_def)
  have m: "sb_mounts a = sb_mounts b"
    by (rule list.inj_map_strong [of _ _ mount_value mount_value])
      (use eq [of "''mounts''"] mount_value_inj in auto)
  have n: "sb_network_mode a = sb_network_mode b"
    using eq [of "''networkMode''"] by (cases "sb_network_mode a"; cases "sb_network_mode b") simp_all
  have l: "sb_cpu_limit_millicores a = sb_cpu_limit_millicores b" "sb_memory_limit_mb a = sb_memory_limit_mb b"
    using eq [of "''cpuLimitMillicores''"] eq [of "''memoryLimitMb''"] by (auto intro: limit_value_inj)
  show ?thesis using d m n l eq [of "''environmentIdentity''"] by simp
qed

lemma sandbox_plan_digest_identity:
  assumes "wf_sandbox_plan a" and "wf_sandbox_plan b"
    and "sandbox_plan_digest sha a = sandbox_plan_digest sha b"
  shows "a = b \<or> (\<exists>x y. x \<noteq> y \<and> sha x = sha y)"
  using value_digest_identity [OF wf_sandbox_plan_value [OF assms(1)] wf_sandbox_plan_value [OF assms(2)], of sha]
    assms sandbox_plan_value_inj by (auto simp: sandbox_plan_digest_def)

end
