(* ===== verification/Documents.thy ===== *)
theory Documents
  imports Parse_Progress Planning Scope Candidate Workspace
begin

text \<open>
  The properties of the documents the program stores, names by digest and validates:
  canonical bytes and their parser, Goals, plans and Task specifications, repository paths
  and change sets, workspace scopes, candidates and base identities. Each property is
  followed by a witness where it has hypotheses.
\<close>

section \<open>Examples used by the witnesses\<close>

definition zero_sha :: sha256 where
  "zero_sha bs = replicate 32 0"

definition zero_digest :: digest where
  "zero_digest = Digest (replicate 32 0)"

definition example_goal :: goal_spec where
  "example_goal = \<lparr>gs_objective = ''Fix the parser'',
     gs_inputs = [\<lparr>gi_name = ''repository'', gi_reference = ''repo://main''\<rparr>],
     gs_deliverables = [\<lparr>dl_name = ''patch'', dl_kind = ''code.changeset'', dl_required = True\<rparr>],
     gs_constraints = \<lparr>gc_permitted_effects = [''workspace.write''], gc_forbidden_effects = [''network''],
       gc_permitted_resources = [''workspace://src/**'']\<rparr>\<rparr>"

definition example_input :: planning_input where
  "example_input = \<lparr>pi_goal_id = ''g1'', pi_goal_revision = 1, pi_goal = example_goal,
     pi_expected_graph_revision = 0, pi_configuration_activation_sequence = 1, pi_trigger = TriggerInitial\<rparr>"

definition example_authority :: authority where
  "example_authority = \<lparr>au_goal = example_goal, au_goal_id = ''g1'', au_goal_revision = 1,
     au_evaluators = (\<lambda>r. if r = mvp_evaluator_ref then Some ''v1'' else None),
     au_evaluator_registry_digest = zero_digest, au_configuration_activation_sequence = 1\<rparr>"

lemma zero_sha_width: "sha_width zero_sha"
  by (simp add: sha_width_def zero_sha_def)

lemma wf_example_goal: "wf_goal example_goal"
  by (simp add: wf_goal_def example_goal_def utf8_valid_literal)

section \<open>Canonical bytes\<close>

text \<open>C8.
  Parsing the canonical bytes of any well-formed value gives that value back: no escape,
  sign, member order or nesting is lost.
\<close>

theorem canonical_roundtrip:
  assumes "wf_value v"
  shows "parse (to_canonical_bytes v) = Inr v"
  using assms by (rule parse_to_canonical_bytes)

theorem canonical_roundtrip_witness:
  "parse (to_canonical_bytes (VObject [(''a'', VArray [VInteger (- 7), VString [CHR 0x0A]])])) =
     Inr (VObject [(''a'', VArray [VInteger (- 7), VString [CHR 0x0A]])])"
  by (rule canonical_roundtrip) code_simp

text \<open>C36.
  The parser returns on every source: the budget \<open>3 * length + 1\<close> always suffices, and
  any larger amount of fuel gives the same result.
\<close>

theorem parse_terminates: "parse_fuel (parse_budget s + k) s = Some (parse s)"
  by (rule parse_fuel_enough)

text \<open>C39.
  A source the parser accepts denotes a well-formed value (sorted members without
  duplicates, \<open>i64\<close> integers, valid UTF-8), and rewriting it canonically and parsing again
  changes nothing.
\<close>

theorem parse_accepts_well_formed:
  assumes "utf8_valid s" and "parse s = Inr v"
  shows "wf_value v \<and> parse (to_canonical_bytes v) = Inr v"
  using parse_wf [OF assms(2,1)] by (simp add: parse_to_canonical_bytes)

theorem parse_accepts_well_formed_witness:
  "wf_value (VArray [VInteger (- 3), VBool True]) \<and>
   parse (to_canonical_bytes (VArray [VInteger (- 3), VBool True])) = Inr (VArray [VInteger (- 3), VBool True])"
  by (rule parse_accepts_well_formed [of "''[ -3 , true ] ''"]) (simp add: utf8_valid_literal, code_simp)

text \<open>
  Two well-formed values with the same printed digest are equal, unless the hash function
  maps two byte strings to the same digest; and a printed digest reads back as itself.
\<close>

theorem digest_names_value:
  assumes "sha_width sha" and "wf_value a" and "wf_value b"
  shows "from_display (display (value_digest sha a)) = Some (value_digest sha a) \<and>
    (display (value_digest sha a) = display (value_digest sha b) \<longrightarrow>
      a = b \<or> (\<exists>x y. x \<noteq> y \<and> sha x = sha y))"
proof (intro conjI impI)
  show "from_display (display (value_digest sha a)) = Some (value_digest sha a)"
    by (rule from_display_display) (use assms(1) in simp)
next
  assume "display (value_digest sha a) = display (value_digest sha b)"
  then have "value_digest sha a = value_digest sha b" using assms(1) by (metis display_inj wf_digest_value)
  then show "a = b \<or> (\<exists>x y. x \<noteq> y \<and> sha x = sha y)" by (rule value_digest_identity [OF assms(2,3)])
qed

theorem digest_names_value_witness:
  "from_display (display (value_digest zero_sha VNull)) = Some (value_digest zero_sha VNull) \<and>
   (VNull = VBool True \<or> (\<exists>x y. x \<noteq> y \<and> zero_sha x = zero_sha y))"
  using digest_names_value [OF zero_sha_width, of VNull "VBool True"]
  by (simp add: value_digest_def digest_of_def zero_sha_def)

section \<open>Goals, plans and Task specifications\<close>

text \<open>
  A stored Goal revision decodes to exactly the Goal that was stored, and its digest names
  that Goal unless the hash function collides.
\<close>

theorem goal_stored_roundtrip:
  assumes "wf_goal g" and "wf_goal h"
  shows "goal_from_canonical_json (to_canonical_bytes (goal_to_value g)) = Inr g \<and>
    (goal_digest sha g = goal_digest sha h \<longrightarrow> g = h \<or> (\<exists>x y. x \<noteq> y \<and> sha x = sha y))"
proof (intro conjI impI)
  show "goal_from_canonical_json (to_canonical_bytes (goal_to_value g)) = Inr g"
    unfolding goal_from_canonical_json_def by (rule goal_codec.stored_roundtrip [OF assms(1)])
  show "goal_digest sha g = goal_digest sha h \<Longrightarrow> g = h \<or> (\<exists>x y. x \<noteq> y \<and> sha x = sha y)"
    unfolding goal_digest_def by (rule goal_codec.digest_identity [OF assms])
qed

theorem goal_stored_roundtrip_witness:
  "goal_from_canonical_json (to_canonical_bytes (goal_to_value example_goal)) = Inr example_goal"
  using goal_stored_roundtrip [OF wf_example_goal wf_example_goal] by blast


text \<open>C14.
  A materialised specification never exceeds its Goal: its effects are permitted and not
  forbidden, its resources are the Goal's, every required deliverable has a required
  output of its kind, and every criterion carries the evaluator version its reference
  resolves to.
\<close>

theorem materialized_within_goal:
  assumes "validate sha p a = Inr m"
  shows "set (ts_permitted_effects (tk_scope (mt_spec m))) \<subseteq>
      set (gc_permitted_effects (gs_constraints (au_goal a))) - set (gc_forbidden_effects (gs_constraints (au_goal a))) \<and>
    set (ts_resources (tk_scope (mt_spec m))) \<subseteq> set (gc_permitted_resources (gs_constraints (au_goal a))) \<and>
    (\<forall>d \<in> set (gs_deliverables (au_goal a)). dl_required d \<longrightarrow>
      (\<exists>out \<in> set (tk_outputs (mt_spec m)). to_kind out = dl_kind d \<and> to_required out)) \<and>
    (\<forall>c \<in> set (act_criteria (tk_acceptance (mt_spec m))).
      au_evaluators a (ac_evaluator_ref c) = Some (ac_evaluator_version c))"
proof -
  obtain t where t: "admissible t a" and m: "mt_spec m = pinned_spec t a (map (pinned a) (pt_criteria t))"
    using assms by (auto simp: validate_iff_admissible)
  have "\<forall>d \<in> set (gs_deliverables (au_goal a)). dl_required d \<longrightarrow>
      (\<exists>out \<in> set (tk_outputs (mt_spec m)). to_kind out = dl_kind d \<and> to_required out)"
    using t by (force simp: m pinned_spec_def admissible_def covers_deliverables_def)
  moreover have "\<forall>c \<in> set (act_criteria (tk_acceptance (mt_spec m))).
      au_evaluators a (ac_evaluator_ref c) = Some (ac_evaluator_version c)"
    using t by (auto simp: m pinned_spec_def admissible_def pinned_def)
  ultimately show ?thesis
    using t by (simp add: m pinned_spec_def admissible_def within_ceiling_def)
qed

lemma is_blank_Cons: "white_space_len (c # s) = 0 \<Longrightarrow> \<not> is_blank (c # s)"
  by (subst is_blank.simps) simp

lemma example_direct: "\<exists>m. validate sha (plan example_input) example_authority = Inr m"
  by (simp add: validate_iff_admissible plan_def example_input_def example_authority_def example_goal_def
      admissible_def names_execution_def forbidden_prefixes_def within_ceiling_def covers_deliverables_def
      is_blank_Cons white_space_len_def Let_def)

theorem materialized_within_goal_witness:
  "\<exists>m. validate zero_sha (plan example_input) example_authority = Inr m \<and>
     set (ts_permitted_effects (tk_scope (mt_spec m))) \<subseteq> {''workspace.write''}"
proof -
  obtain m where m: "validate zero_sha (plan example_input) example_authority = Inr m"
    using example_direct by blast
  from materialized_within_goal [OF m] m show ?thesis
    by (auto simp: example_authority_def example_goal_def)
qed

text \<open>
  The DIRECT planner's own proposal materialises exactly when the Goal's objective is not
  blank, no input or resource names an execution object, no permitted effect is also
  forbidden, and the default evaluator is known: it can never fail for exceeding the
  Goal's ceiling or for leaving a deliverable uncovered.
\<close>

theorem direct_plan_materializes:
  assumes "au_goal a = pi_goal i"
  shows "(\<exists>m. validate sha (plan i) a = Inr m) \<longleftrightarrow>
    \<not> is_blank (gs_objective (pi_goal i)) \<and>
    (\<forall>x \<in> set (gs_inputs (pi_goal i)). \<not> names_execution (gi_reference x)) \<and>
    (\<forall>r \<in> set (gc_permitted_resources (gs_constraints (pi_goal i))). \<not> names_execution r) \<and>
    set (gc_permitted_effects (gs_constraints (pi_goal i))) \<inter>
      set (gc_forbidden_effects (gs_constraints (pi_goal i))) = {} \<and>
    au_evaluators a mvp_evaluator_ref \<noteq> None"
proof -
  have blank: "\<not> is_blank ''code.change''" by (simp add: is_blank_Cons white_space_len_def)
  have covered: "\<forall>d \<in> set (gs_deliverables (pi_goal i)). dl_required d \<longrightarrow>
      (\<exists>name. (name, dl_kind d, True) \<in> (\<lambda>d. (dl_name d, dl_kind d, dl_required d)) ` set (gs_deliverables (pi_goal i)))"
    by (auto intro: rev_image_eqI)
  show ?thesis
    unfolding validate_iff_admissible plan_def Let_def
    using blank covered assms
    by (simp add: admissible_def within_ceiling_def covers_deliverables_def) blast
qed

theorem direct_plan_materializes_witness:
  "\<exists>m. validate zero_sha (plan example_input) example_authority = Inr m"
  using direct_plan_materializes [of example_authority example_input zero_sha]
  by (simp add: example_input_def example_authority_def example_goal_def names_execution_def
      forbidden_prefixes_def is_blank_Cons white_space_len_def)

text \<open>
  A stored Task specification decodes to exactly the specification that was stored, and
  its digest names that specification unless the hash function collides.
\<close>

theorem task_stored_roundtrip:
  assumes "wf_task t" and "wf_task u"
  shows "task_from_canonical_json (to_canonical_bytes (task_to_value t)) = Inr t \<and>
    (task_digest sha t = task_digest sha u \<longrightarrow> t = u \<or> (\<exists>x y. x \<noteq> y \<and> sha x = sha y))"
proof (intro conjI impI)
  show "task_from_canonical_json (to_canonical_bytes (task_to_value t)) = Inr t"
    unfolding task_from_canonical_json_def by (rule task_codec.stored_roundtrip [OF assms(1)])
  show "task_digest sha t = task_digest sha u \<Longrightarrow> t = u \<or> (\<exists>x y. x \<noteq> y \<and> sha x = sha y)"
    unfolding task_digest_def by (rule task_codec.digest_identity [OF assms])
qed

definition example_task :: task_spec where
  "example_task = \<lparr>tk_task_type = ''code.change'', tk_objective = ''Fix the parser'',
     tk_inputs = [\<lparr>ti_name = ''repository'', ti_reference = ''repo://main''\<rparr>],
     tk_outputs = [\<lparr>to_name = ''patch'', to_kind = ''code.changeset'', to_required = True\<rparr>],
     tk_competencies = [''code.editing''],
     tk_scope = \<lparr>ts_resources = [''workspace://src/**''], ts_permitted_effects = [''workspace.write''],
       ts_forbidden_effects = []\<rparr>,
     tk_acceptance = \<lparr>act_criteria = [\<lparr>ac_id = ''c1'', ac_statement = ''Checks pass'',
         ac_evaluator_ref = mvp_evaluator_ref, ac_evaluator_version = ''v1'', ac_severity = SevRequired\<rparr>],
       act_evaluator_registry_digest = zero_digest, act_configuration_activation_sequence = 1\<rparr>,
     tk_goal_id = ''g1'', tk_goal_revision = 1\<rparr>"

lemma wf_example_task: "wf_task example_task"
  by (simp add: wf_task_def example_task_def wf_criterion_def mvp_evaluator_ref_def zero_digest_def
      utf8_valid_literal wf_digest_def is_i64_def i64_min_def i64_max_def)

theorem task_stored_roundtrip_witness:
  "task_from_canonical_json (to_canonical_bytes (task_to_value example_task)) = Inr example_task"
  using task_stored_roundtrip [OF wf_example_task wf_example_task] by blast

section \<open>Repository content\<close>

text \<open>
  An accepted repository path is relative and normalised (no empty, \<open>.\<close> or \<open>..\<close>
  component, no NUL, bounded lengths), its manifest spelling reads back as the same path,
  and no other path has that spelling.
\<close>

theorem manifest_path_roundtrip:
  assumes "path_from_bytes bs = Inr p"
  shows "(\<forall>c \<in> set (split_on (CHR ''/'') bs). c \<notin> {'''', ''.'', ''..''} \<and> length c \<le> 255) \<and>
    CHR 0x00 \<notin> set bs \<and> length bs \<le> 4096 \<and>
    from_manifest_string (to_manifest_string p) = Inr p \<and>
    (\<forall>q. to_manifest_string q = to_manifest_string p \<longrightarrow> q = p)"
proof -
  have p: "p = RepositoryPath bs" using assms by (rule path_from_bytes_Inr)
  then have wf: "wf_path (RepositoryPath bs)" using assms by (simp add: wf_path_def)
  have "q = p" if "to_manifest_string q = to_manifest_string p" for q
    using that by (cases q) (simp add: p to_manifest_string_def encode_path_inj)
  moreover have "from_manifest_string (to_manifest_string p) = Inr p"
    using wf by (simp add: p from_manifest_string_to)
  ultimately show ?thesis using wf [unfolded wf_path_iff] by blast
qed

theorem manifest_path_roundtrip_witness:
  "from_manifest_string (to_manifest_string (RepositoryPath ''src/main.rs'')) = Inr (RepositoryPath ''src/main.rs'')"
proof -
  have "path_from_bytes ''src/main.rs'' = Inr (RepositoryPath ''src/main.rs'')" by code_simp
  from manifest_path_roundtrip [OF this] show ?thesis by blast
qed

text \<open>A Workspace revision state depends only on which entries it holds, not on the order they
  were enumerated in, and looking a path up returns exactly the entry recorded for it.
\<close>

theorem revision_state_order_independent:
  assumes "revision_state_new sha xs = Inr st" and "mset xs = mset ys"
  shows "revision_state_new sha ys = Inr st \<and>
    (\<forall>p e. revision_entry st p = Some e \<longleftrightarrow> e \<in> set xs \<and> fe_path e = p)"
  using revision_state_new_mset [OF assms(2), of sha] revision_entry_iff [OF assms(1)] assms(1) by simp

definition example_entries :: "final_entry list" where
  "example_entries =
     [\<lparr>fe_path = RepositoryPath ''b'', fe_kind = Regular, fe_blob = zero_digest, fe_size = 1\<rparr>,
      \<lparr>fe_path = RepositoryPath ''a'', fe_kind = Symlink, fe_blob = zero_digest, fe_size = 2\<rparr>]"

lemma example_entries_distinct: "distinct (map fe_path example_entries)"
  by (simp add: example_entries_def)

theorem revision_state_order_independent_witness:
  "\<exists>st. revision_state_new zero_sha (rev example_entries) = Inr st \<and>
     revision_entry st (RepositoryPath ''a'') = Some (example_entries ! 1)"
proof -
  obtain st where st: "revision_state_new zero_sha example_entries = Inr st"
    using example_entries_distinct revision_state_new_iff by blast
  from revision_state_order_independent [OF st, of "rev example_entries"] show ?thesis
    by (auto simp: example_entries_def)
qed

text \<open>
  Two revision states with the same digest hold the same entries, unless the hash function
  collides: the digest commits to path, kind, content and size of every entry.
\<close>

theorem revision_digest_commits:
  assumes "revision_state_new sha xs = Inr s" and "revision_state_new sha ys = Inr t"
    and "\<forall>e \<in> set xs \<union> set ys. wf_final_entry e" and "rs_digest s = rs_digest t"
  shows "set xs = set ys \<or> (\<exists>a b. a \<noteq> b \<and> sha a = sha b)"
  using assms by (rule revision_state_digest_identity)

theorem revision_digest_commits_witness:
  "set example_entries = set (rev example_entries) \<or> (\<exists>a b. a \<noteq> b \<and> zero_sha a = zero_sha b)"
proof -
  obtain st where st: "revision_state_new zero_sha example_entries = Inr st"
    using example_entries_distinct revision_state_new_iff by blast
  then have st': "revision_state_new zero_sha (rev example_entries) = Inr st"
    by (simp add: revision_state_new_mset [of "rev example_entries" example_entries])
  have "\<forall>e \<in> set example_entries \<union> set (rev example_entries). wf_final_entry e"
    by (simp add: example_entries_def wf_final_entry_def wf_digest_def is_u64_def zero_digest_def)
  from revision_digest_commits [OF st st' this refl] show ?thesis .
qed

text \<open>C37.
  A workspace scope compiles exactly when every pattern is \<^verbatim>\<open>workspace://\<close> followed by
  non-empty segments, each a literal, \<open>*\<close> or \<open>**\<close>; and the compiled scope authorises
  exactly the paths whose components split into one piece per segment, where a literal
  covers itself, \<open>*\<close> any one component and \<open>**\<close> any number of components.
\<close>

theorem scope_authorizes_denotation:
  "(scope_compile patterns = Inr scope \<longleftrightarrow>
      (\<forall>p \<in> set scope. p \<noteq> [] \<and> list_all wf_segment p) \<and> patterns = map pattern_text scope) \<and>
   (authorizes scope path \<longleftrightarrow>
      (\<exists>p \<in> set scope. pattern_denotes p (split_on (CHR ''/'') (path_as_bytes path))))"
  by (simp only: scope_compile_iff authorizes_iff)

theorem scope_authorizes_denotation_witness:
  "(scope_compile [''workspace://src/**''] = Inr [[Literal ''src'', Many]]) \<and>
   pattern_denotes [Literal ''src'', Many] (split_on (CHR ''/'') ''src/a/b'')"
  using scope_authorizes_denotation [of "[''workspace://src/**'']" "[[Literal ''src'', Many]]" "RepositoryPath ''src/a/b''"]
  by (simp add: pattern_text_def authorizes_def)

text \<open>A change-set entry is accepted exactly when its operation agrees with what was and is
  there (an addition has no before state, a deletion no after state, a modification both),
  and the manifest of a change set does not depend on the order of its entries.
\<close>

theorem changeset_entry_and_manifest:
  "(changeset_entry_new p op b a = Inr e \<longleftrightarrow>
      e = \<lparr>ce_path = p, ce_operation = op, ce_before = b, ce_after = a\<rparr> \<and> entry_agrees e) \<and>
   (mset xs = mset ys \<and> distinct (map ce_path xs) \<longrightarrow>
      changeset_manifest r c w xs = changeset_manifest r c w ys)"
  by (auto simp: changeset_entry_new_iff intro: changeset_manifest_mset)

theorem changeset_entry_and_manifest_witness:
  "changeset_manifest ''repo'' ''c0'' zero_digest
     [\<lparr>ce_path = RepositoryPath ''b'', ce_operation = Delete, ce_before = Present Regular zero_digest 1, ce_after = Absent\<rparr>,
      \<lparr>ce_path = RepositoryPath ''a'', ce_operation = Add, ce_before = Absent, ce_after = Present Regular zero_digest 1\<rparr>] =
   changeset_manifest ''repo'' ''c0'' zero_digest
     [\<lparr>ce_path = RepositoryPath ''a'', ce_operation = Add, ce_before = Absent, ce_after = Present Regular zero_digest 1\<rparr>,
      \<lparr>ce_path = RepositoryPath ''b'', ce_operation = Delete, ce_before = Present Regular zero_digest 1, ce_after = Absent\<rparr>]"
  by (rule changeset_entry_and_manifest [THEN conjunct2, rule_format]) simp

section \<open>Candidates and bases\<close>

text \<open>
  A candidate is accepted exactly when its slots are non-empty, at most 128 bytes long and
  pairwise distinct; whatever order the outputs were submitted in gives the same
  candidate, with its outputs sorted by slot.
\<close>

theorem candidate_normal_form:
  "(candidate_new task_id run_id outputs = Inr c \<longleftrightarrow>
     (\<forall>e \<in> set outputs. slot_ok (fst e)) \<and> distinct (map fst outputs) \<and>
     c = \<lparr>cr_task_id = task_id, cr_run_id = run_id, cr_outputs = sort_key co_slot (map output_of outputs)\<rparr>) \<and>
   (candidate_new task_id run_id outputs = Inr c \<and> mset outputs = mset outputs' \<longrightarrow>
     candidate_new task_id run_id outputs' = Inr c)"
proof (rule conjI [OF candidate_new_iff], rule impI, elim conjE)
  assume "candidate_new task_id run_id outputs = Inr c" and "mset outputs = mset outputs'"
  then show "candidate_new task_id run_id outputs' = Inr c" by (rule candidate_new_mset)
qed

theorem candidate_normal_form_witness:
  "candidate_new ''t'' ''r'' [(''b'', zero_digest), (''a'', zero_digest)] =
   Inr \<lparr>cr_task_id = ''t'', cr_run_id = ''r'',
     cr_outputs = sort_key co_slot (map output_of [(''a'', zero_digest), (''b'', zero_digest)])\<rparr>"
proof -
  note nf = candidate_normal_form [of "''t''" "''r''" "[(''a'', zero_digest), (''b'', zero_digest)]"
      "\<lparr>cr_task_id = ''t'', cr_run_id = ''r'',
        cr_outputs = sort_key co_slot (map output_of [(''a'', zero_digest), (''b'', zero_digest)])\<rparr>"
      "[(''b'', zero_digest), (''a'', zero_digest)]"]
  have "\<forall>e \<in> set [(''a'', zero_digest), (''b'', zero_digest)]. slot_ok (fst e)"
    and "distinct (map fst [(''a'', zero_digest), (''b'', zero_digest)])"
    and "mset [(''a'', zero_digest), (''b'', zero_digest)] = mset [(''b'', zero_digest), (''a'', zero_digest)]"
    by (simp_all add: slot_ok_def)
  with nf show ?thesis by blast
qed

text \<open>
  A candidate validates against a specification exactly when it fills every required
  output slot and no undeclared one; and two candidates with the same digest are the same
  candidate (Task, Run and outputs), unless the hash function collides.
\<close>

theorem candidate_validation_and_identity:
  "(validate_against_spec c t = Inr u \<longleftrightarrow>
     to_name ` set (filter to_required (tk_outputs t)) \<subseteq> co_slot ` set (cr_outputs c) \<and>
     co_slot ` set (cr_outputs c) \<subseteq> to_name ` set (tk_outputs t)) \<and>
   (wf_candidate c \<and> wf_candidate d \<and> candidate_result_digest sha c = candidate_result_digest sha d \<longrightarrow>
     c = d \<or> (\<exists>x y. x \<noteq> y \<and> sha x = sha y))"
  by (intro conjI validate_against_spec_iff impI) (elim conjE, rule candidate_result_digest_identity)

theorem candidate_validation_and_identity_witness:
  "validate_against_spec \<lparr>cr_task_id = ''t'', cr_run_id = ''r'',
      cr_outputs = [\<lparr>co_slot = ''patch'', co_artifact = zero_digest\<rparr>]\<rparr> example_task = Inr () \<and>
   (\<exists>x y. x \<noteq> y \<and> zero_sha x = zero_sha y)"
proof -
  let ?c = "\<lambda>run. \<lparr>cr_task_id = ''t'', cr_run_id = run,
      cr_outputs = [\<lparr>co_slot = ''patch'', co_artifact = zero_digest\<rparr>]\<rparr>"
  have "wf_candidate (?c ''r'')" "wf_candidate (?c ''s'')"
    by (simp_all add: wf_candidate_def utf8_valid_literal wf_digest_def zero_digest_def)
  moreover have "candidate_result_digest zero_sha (?c ''r'') = candidate_result_digest zero_sha (?c ''s'')"
    by (simp add: candidate_result_digest_def digest_of_def zero_sha_def)
  ultimately have "\<exists>x y. x \<noteq> y \<and> zero_sha x = zero_sha y"
    using candidate_validation_and_identity [of "?c ''r''" example_task "()" "?c ''s''" zero_sha] by simp
  moreover have "validate_against_spec (?c ''r'') example_task = Inr ()"
    using candidate_validation_and_identity [of "?c ''r''" example_task "()"] by (simp add: example_task_def)
  ultimately show ?thesis by simp
qed

text \<open>C40.
  The two base identities of a Workspace: a resolved base is exactly 40 or 64 lowercase
  hexadecimal digits, and a requested base is exactly a ref name that carries no option,
  revision or control syntax.
\<close>

theorem workspace_bases:
  "(resolved_base_parse v = Inr b \<longleftrightarrow> b = v \<and> length v \<in> {40, 64} \<and> set v \<subseteq> set ''0123456789abcdef'') \<and>
   (requested_base_parse v = Inr b \<longleftrightarrow> b = v \<and> ref_name v)"
  by (simp only: resolved_base_parse_iff requested_base_parse_iff)

end
