(* ===== verification/Config_Model.thy ===== *)
theory Config_Model
  imports Codec Ordering
begin

text \<open>
  The compiled configuration (\<^verbatim>\<open>crates/pantheon-core/src/config/model.rs\<close> and
  \<^verbatim>\<open>config/revision.rs\<close>): the six components, the canonical value each digests to, the
  decoder for a stored context policy, and the revision identity taken over the component
  digests and the compiler version.
\<close>

section \<open>Agents\<close>

datatype logical_agent_version =
  LogicalAgentVersion (lav_name: string) (lav_version: int)

text \<open>The derived \<open>Ord\<close>: by name, then by version.\<close>

instantiation logical_agent_version :: linorder
begin

definition less_eq_logical_agent_version :: "logical_agent_version \<Rightarrow> logical_agent_version \<Rightarrow> bool" where
  "less_eq_logical_agent_version a b \<longleftrightarrow> (lav_name a, lav_version a) \<le> (lav_name b, lav_version b)"

definition less_logical_agent_version :: "logical_agent_version \<Rightarrow> logical_agent_version \<Rightarrow> bool" where
  "less_logical_agent_version a b \<longleftrightarrow> (lav_name a, lav_version a) < (lav_name b, lav_version b)"

instance
proof
  fix a b c :: logical_agent_version
  show "(a < b) = (a \<le> b \<and> \<not> b \<le> a)"
    by (auto simp: less_logical_agent_version_def less_eq_logical_agent_version_def)
  show "a \<le> a" by (simp add: less_eq_logical_agent_version_def)
  show "a \<le> b \<Longrightarrow> b \<le> c \<Longrightarrow> a \<le> c"
    unfolding less_eq_logical_agent_version_def by (rule order_trans)
  show "a \<le> b \<Longrightarrow> b \<le> a \<Longrightarrow> a = b"
    unfolding less_eq_logical_agent_version_def by (drule (1) order_antisym) (cases a; cases b; simp)
  show "a \<le> b \<or> b \<le> a"
    unfolding less_eq_logical_agent_version_def by (rule linear)
qed

end

record agent =
  ag_name :: string
  ag_version :: int
  ag_enabled :: bool
  ag_current :: bool
  ag_accepts :: "string list"
  ag_competencies :: "string list"
  ag_route_policy :: string
  ag_execution_features :: "string list"
  ag_min_context_tokens :: int
  ag_sandbox_profile :: string
  ag_sandbox_requirements :: "string list"
  ag_actions :: "string list"
  ag_soul :: string
  ag_behavior :: string

definition identity :: "agent \<Rightarrow> logical_agent_version" where
  "identity a = LogicalAgentVersion (ag_name a) (ag_version a)"

text \<open>\<open>set_strings\<close>: set-valued fields are written sorted.\<close>

definition set_strings :: "string list \<Rightarrow> cvalue" where
  "set_strings vs = VArray (map VString (sort vs))"

definition agent_to_value :: "agent \<Rightarrow> cvalue" where
  "agent_to_value a = object [
     (''name'', VString (ag_name a)),
     (''version'', VInteger (ag_version a)),
     (''enabled'', VBool (ag_enabled a)),
     (''current'', VBool (ag_current a)),
     (''accepts'', set_strings (ag_accepts a)),
     (''competencies'', set_strings (ag_competencies a)),
     (''routePolicy'', VString (ag_route_policy a)),
     (''executionFeatures'', set_strings (ag_execution_features a)),
     (''minContextTokens'', VInteger (ag_min_context_tokens a)),
     (''sandboxProfile'', VString (ag_sandbox_profile a)),
     (''sandboxRequirements'', set_strings (ag_sandbox_requirements a)),
     (''actions'', set_strings (ag_actions a)),
     (''soul'', VString (ag_soul a)),
     (''behavior'', VString (ag_behavior a))]"

type_synonym agent_component = "agent list"

definition agents_to_value :: "agent_component \<Rightarrow> cvalue" where
  "agents_to_value agents = object [
     (''agents'', VArray (map agent_to_value (sort_key identity agents)))]"

section \<open>Routing\<close>

record route_policy =
  rp_name :: string
  rp_priority :: int
  rp_ordering :: "string list"
  rp_tie_break :: string
  rp_requires_keyed_launch :: bool

record routing_component =
  ro_policies :: "route_policy list"
  ro_agent_pins :: "logical_agent_version list"
  ro_agent_exclusions :: "logical_agent_version list"

definition route_policy_to_value :: "route_policy \<Rightarrow> cvalue" where
  "route_policy_to_value p = object [
     (''name'', VString (rp_name p)),
     (''priority'', VInteger (rp_priority p)),
     (''ordering'', strings (rp_ordering p)),
     (''tieBreak'', VString (rp_tie_break p)),
     (''requiresKeyedLaunch'', VBool (rp_requires_keyed_launch p))]"

definition route_policy_digest :: "sha256 \<Rightarrow> route_policy \<Rightarrow> digest" where
  "route_policy_digest sha p = value_digest sha (route_policy_to_value p)"

definition agent_references_value :: "logical_agent_version list \<Rightarrow> cvalue" where
  "agent_references_value vs = VArray (map (\<lambda>r. object [
     (''name'', VString (lav_name r)), (''version'', VInteger (lav_version r))]) (sort vs))"

definition routing_to_value :: "routing_component \<Rightarrow> cvalue" where
  "routing_to_value r = object [
     (''policies'', VArray (map route_policy_to_value (sort_key rp_name (ro_policies r)))),
     (''agentPins'', agent_references_value (ro_agent_pins r)),
     (''agentExclusions'', agent_references_value (ro_agent_exclusions r))]"

section \<open>Execution profiles and backends\<close>

datatype isolation_class = TrustedHost | Container

fun isolation_class_as_str :: "isolation_class \<Rightarrow> string" where
  "isolation_class_as_str TrustedHost = ''TRUSTED_HOST''"
| "isolation_class_as_str Container = ''CONTAINER''"

fun can_isolate_control_plane :: "isolation_class \<Rightarrow> bool" where
  "can_isolate_control_plane Container = True"
| "can_isolate_control_plane TrustedHost = False"

datatype network_mode = NoNetwork | Brokered

fun network_mode_as_str :: "network_mode \<Rightarrow> string" where
  "network_mode_as_str NoNetwork = ''NONE''"
| "network_mode_as_str Brokered = ''BROKERED''"

record sandbox_profile =
  sp_name :: string
  sp_isolation_class :: isolation_class
  sp_guarantees :: "string list"
  sp_network_mode :: network_mode
  sp_environment_identity :: string

definition sandbox_profile_to_value :: "sandbox_profile \<Rightarrow> cvalue" where
  "sandbox_profile_to_value p = object [
     (''name'', VString (sp_name p)),
     (''isolationClass'', VString (isolation_class_as_str (sp_isolation_class p))),
     (''guarantees'', set_strings (sp_guarantees p)),
     (''networkMode'', VString (network_mode_as_str (sp_network_mode p))),
     (''environmentIdentity'', VString (sp_environment_identity p))]"

definition sandbox_profile_digest :: "sha256 \<Rightarrow> sandbox_profile \<Rightarrow> digest" where
  "sandbox_profile_digest sha p = value_digest sha (sandbox_profile_to_value p)"

record backend_registration =
  br_backend_id :: string
  br_enabled :: bool
  br_selector :: string

record execution_component =
  ex_profiles :: "sandbox_profile list"
  ex_backends :: "backend_registration list"

definition execution_to_value :: "execution_component \<Rightarrow> cvalue" where
  "execution_to_value e = object [
     (''profiles'', VArray (map sandbox_profile_to_value (ex_profiles e))),
     (''backends'', VArray (map (\<lambda>b. object [
        (''backendId'', VString (br_backend_id b)), (''enabled'', VBool (br_enabled b)),
        (''selector'', VString (br_selector b))]) (ex_backends e)))]"

section \<open>Evaluators\<close>

record evaluator_ref =
  er_reference :: string
  er_current_version :: string

datatype evaluator_kind = Check | Schema

fun evaluator_kind_as_str :: "evaluator_kind \<Rightarrow> string" where
  "evaluator_kind_as_str Check = ''check''"
| "evaluator_kind_as_str Schema = ''schema''"

record evaluator_version =
  ev_id :: string
  ev_kind :: evaluator_kind
  ev_argv :: "string list"
  ev_timeout_ms :: int
  ev_sandbox_profile :: string
  ev_result_protocol :: string

record evaluator_component =
  ec_refs :: "evaluator_ref list"
  ec_versions :: "evaluator_version list"

definition evaluators_to_value :: "evaluator_component \<Rightarrow> cvalue" where
  "evaluators_to_value e = object [
     (''refs'', VArray (map (\<lambda>r. object [
        (''ref'', VString (er_reference r)),
        (''currentVersion'', VString (er_current_version r))]) (ec_refs e))),
     (''versions'', VArray (map (\<lambda>v. object [
        (''id'', VString (ev_id v)),
        (''kind'', VString (evaluator_kind_as_str (ev_kind v))),
        (''argv'', strings (ev_argv v)),
        (''timeoutMs'', VInteger (ev_timeout_ms v)),
        (''sandboxProfile'', VString (ev_sandbox_profile v)),
        (''resultProtocol'', VString (ev_result_protocol v))]) (ec_versions e)))]"

section \<open>Context policy\<close>

record context_component =
  cc_schema_version :: int
  cc_mandatory_sections :: "string list"
  cc_preload_priority :: "string list"
  cc_memory_limit_tokens :: int
  cc_workspace_orientation_limit_tokens :: int
  cc_safety_margin_tokens :: int
  cc_optional_drop_order :: "string list"

definition context_to_value :: "context_component \<Rightarrow> cvalue" where
  "context_to_value c = object [
     (''schemaVersion'', VInteger (cc_schema_version c)),
     (''mandatorySections'', strings (cc_mandatory_sections c)),
     (''preloadPriority'', strings (cc_preload_priority c)),
     (''memoryLimitTokens'', VInteger (cc_memory_limit_tokens c)),
     (''workspaceOrientationLimitTokens'', VInteger (cc_workspace_orientation_limit_tokens c)),
     (''safetyMarginTokens'', VInteger (cc_safety_margin_tokens c)),
     (''optionalDropOrder'', strings (cc_optional_drop_order c))]"

datatype context_policy_decode_error = ContextPolicyDecodeError message

definition policy_string_list :: "cvalue \<Rightarrow> string \<Rightarrow> (context_policy_decode_error, string list) res" where
  "policy_string_list v name = (case get v name of
     Some (VArray entries) \<Rightarrow>
       traverse (\<lambda>entry. case entry of
           VString s \<Rightarrow> Inr s
         | other \<Rightarrow> Inl (ContextPolicyDecodeError
             (Fmt ''{name} contains a non-string value ({})'' [FStr name, FStr (kind other)]))) entries
   | _ \<Rightarrow> Inl (ContextPolicyDecodeError (Fmt ''missing or malformed {name}'' [FStr name])))"

definition policy_integer :: "cvalue \<Rightarrow> string \<Rightarrow> (context_policy_decode_error, int) res" where
  "policy_integer v name = (case get v name of
     Some (VInteger n) \<Rightarrow> Inr n
   | Some other \<Rightarrow> Inl (ContextPolicyDecodeError
       (Fmt ''{name} is not an integer (found {})'' [FStr name, FStr (kind other)]))
   | None \<Rightarrow> Inl (ContextPolicyDecodeError (Fmt ''missing {name}'' [FStr name])))"

definition context_from_canonical_value ::
    "cvalue \<Rightarrow> (context_policy_decode_error, context_component) res" where
  "context_from_canonical_value v =
     bindR (policy_integer v ''schemaVersion'') (\<lambda>schema_version.
     bindR (ok_or (u32_try_from schema_version) (ContextPolicyDecodeError
              (Fmt ''schemaVersion does not fit a 32-bit version'' []))) (\<lambda>schema_version.
     bindR (policy_string_list v ''mandatorySections'') (\<lambda>mandatory.
     bindR (policy_string_list v ''preloadPriority'') (\<lambda>preload.
     bindR (policy_integer v ''memoryLimitTokens'') (\<lambda>memory.
     bindR (policy_integer v ''workspaceOrientationLimitTokens'') (\<lambda>orientation.
     bindR (policy_integer v ''safetyMarginTokens'') (\<lambda>margin.
     bindR (policy_string_list v ''optionalDropOrder'') (\<lambda>drop_order.
       Inr \<lparr>cc_schema_version = schema_version, cc_mandatory_sections = mandatory,
            cc_preload_priority = preload, cc_memory_limit_tokens = memory,
            cc_workspace_orientation_limit_tokens = orientation,
            cc_safety_margin_tokens = margin, cc_optional_drop_order = drop_order\<rparr>))))))))"

section \<open>Authorization\<close>

definition hard_policy_version :: string where
  "hard_policy_version = ''pantheon-hard-policy-v1''"

datatype rule_effect = Permit | Forbid

fun rule_effect_as_str :: "rule_effect \<Rightarrow> string" where
  "rule_effect_as_str Permit = ''permit''"
| "rule_effect_as_str Forbid = ''forbid''"

record authorization_rule =
  ar_action :: string
  ar_effect :: rule_effect

record authorization_component =
  az_schema_version :: int
  az_rules :: "authorization_rule list"

definition authorization_to_value :: "authorization_component \<Rightarrow> cvalue" where
  "authorization_to_value a = object [
     (''schemaVersion'', VInteger (az_schema_version a)),
     (''hardPolicyVersion'', VString hard_policy_version),
     (''rules'', VArray (map (\<lambda>r. object [
        (''action'', VString (ar_action r)),
        (''effect'', VString (rule_effect_as_str (ar_effect r)))]) (az_rules a)))]"

section \<open>The compiled configuration and its revision identity\<close>

record component_digests =
  cd_agents :: digest
  cd_routing :: digest
  cd_execution_profile :: digest
  cd_evaluator_registry :: digest
  cd_context_policy :: digest
  cd_authorization :: digest

record compiled_configuration =
  cf_agents :: agent_component
  cf_routing :: routing_component
  cf_execution :: execution_component
  cf_evaluators :: evaluator_component
  cf_context :: context_component
  cf_authorization :: authorization_component

definition compiler_version :: string where
  "compiler_version = ''pantheon-config-v3''"

definition component_digests_value :: "component_digests \<Rightarrow> cvalue" where
  "component_digests_value d = object [
     (''agents'', VString (display (cd_agents d))),
     (''routing'', VString (display (cd_routing d))),
     (''executionProfiles'', VString (display (cd_execution_profile d))),
     (''evaluators'', VString (display (cd_evaluator_registry d))),
     (''context'', VString (display (cd_context_policy d))),
     (''authorization'', VString (display (cd_authorization d)))]"

definition digests_revision_digest :: "sha256 \<Rightarrow> component_digests \<Rightarrow> string \<Rightarrow> digest" where
  "digests_revision_digest sha d version = value_digest sha (object [
     (''compilerVersion'', VString version),
     (''components'', component_digests_value d)])"

definition component_record :: "sha256 \<Rightarrow> string \<Rightarrow> cvalue \<Rightarrow> string \<times> digest \<times> string" where
  "component_record sha domain v = (domain, digest_of sha (to_canonical_bytes v), to_canonical_bytes v)"

definition component_records :: "sha256 \<Rightarrow> compiled_configuration \<Rightarrow> (string \<times> digest \<times> string) list" where
  "component_records sha c = [
     component_record sha ''agents'' (agents_to_value (cf_agents c)),
     component_record sha ''routing'' (routing_to_value (cf_routing c)),
     component_record sha ''executionProfiles'' (execution_to_value (cf_execution c)),
     component_record sha ''evaluators'' (evaluators_to_value (cf_evaluators c)),
     component_record sha ''context'' (context_to_value (cf_context c)),
     component_record sha ''authorization'' (authorization_to_value (cf_authorization c))]"

definition component_digests_of :: "sha256 \<Rightarrow> compiled_configuration \<Rightarrow> component_digests" where
  "component_digests_of sha c = \<lparr>
     cd_agents = value_digest sha (agents_to_value (cf_agents c)),
     cd_routing = value_digest sha (routing_to_value (cf_routing c)),
     cd_execution_profile = value_digest sha (execution_to_value (cf_execution c)),
     cd_evaluator_registry = value_digest sha (evaluators_to_value (cf_evaluators c)),
     cd_context_policy = value_digest sha (context_to_value (cf_context c)),
     cd_authorization = value_digest sha (authorization_to_value (cf_authorization c))\<rparr>"

definition revision_digest :: "sha256 \<Rightarrow> compiled_configuration \<Rightarrow> digest" where
  "revision_digest sha c = digests_revision_digest sha (component_digests_of sha c) compiler_version"

definition source_set_digest :: "sha256 \<Rightarrow> (string \<times> string) list \<Rightarrow> digest" where
  "source_set_digest sha sources = value_digest sha (VArray (map (\<lambda>(name, content). object [
     (''name'', VString name),
     (''contentDigest'', VString (display (digest_of sha content)))]) (sort_key fst sources)))"

section \<open>The stored context policy\<close>

definition wf_context :: "context_component \<Rightarrow> bool" where
  "wf_context c \<longleftrightarrow> is_u32 (cc_schema_version c) \<and>
     list_all utf8_valid (cc_mandatory_sections c) \<and> list_all utf8_valid (cc_preload_priority c) \<and>
     list_all utf8_valid (cc_optional_drop_order c) \<and> is_i64 (cc_memory_limit_tokens c) \<and>
     is_i64 (cc_workspace_orientation_limit_tokens c) \<and> is_i64 (cc_safety_margin_tokens c)"

lemma is_u32_i64: "is_u32 n \<Longrightarrow> is_i64 n"
  by (simp add: is_u32_def is_i64_def i64_max_def i64_min_def)

lemma wf_context_to_value: "wf_context c \<Longrightarrow> wf_value (context_to_value c)"
  by (simp add: wf_context_def context_to_value_def list_all_iff utf8_valid_literal is_u32_i64)

lemma policy_string_list_strings [simp]:
  "get v name = Some (strings ss) \<Longrightarrow> policy_string_list v name = Inr ss"
  by (simp add: policy_string_list_def strings_def traverse_map_inverse)

lemma policy_integer_VInteger [simp]: "get v name = Some (VInteger n) \<Longrightarrow> policy_integer v name = Inr n"
  by (simp add: policy_integer_def)

lemma context_from_value: "wf_context c \<Longrightarrow> context_from_canonical_value (context_to_value c) = Inr c"
  by (simp add: context_from_canonical_value_def context_to_value_def get_object wf_context_def
      u32_try_from_def)

definition policy_parse_error :: "parse_error \<Rightarrow> context_policy_decode_error" where
  "policy_parse_error e = ContextPolicyDecodeError (parse_error_display e)"

interpretation context_policy_codec:
  canonical_codec context_to_value context_from_canonical_value wf_context policy_parse_error
  by unfold_locales (simp_all add: wf_context_to_value context_from_value)

section \<open>Identity is independent of listing order\<close>

text \<open>Agents up to the order of their set-valued fields.\<close>

definition same_agent :: "agent \<Rightarrow> agent \<Rightarrow> bool" where
  "same_agent a b \<longleftrightarrow>
     ag_name a = ag_name b \<and> ag_version a = ag_version b \<and> ag_enabled a = ag_enabled b \<and>
     ag_current a = ag_current b \<and> mset (ag_accepts a) = mset (ag_accepts b) \<and>
     mset (ag_competencies a) = mset (ag_competencies b) \<and> ag_route_policy a = ag_route_policy b \<and>
     mset (ag_execution_features a) = mset (ag_execution_features b) \<and>
     ag_min_context_tokens a = ag_min_context_tokens b \<and> ag_sandbox_profile a = ag_sandbox_profile b \<and>
     mset (ag_sandbox_requirements a) = mset (ag_sandbox_requirements b) \<and>
     mset (ag_actions a) = mset (ag_actions b) \<and> ag_soul a = ag_soul b \<and> ag_behavior a = ag_behavior b"

lemma set_strings_mset: "mset xs = mset ys \<Longrightarrow> set_strings xs = set_strings ys"
  unfolding set_strings_def by (drule sort_mset) simp

lemma agent_to_value_same:
  assumes "same_agent a b"
  shows "agent_to_value a = agent_to_value b"
proof -
  have "set_strings (ag_accepts a) = set_strings (ag_accepts b)"
    "set_strings (ag_competencies a) = set_strings (ag_competencies b)"
    "set_strings (ag_execution_features a) = set_strings (ag_execution_features b)"
    "set_strings (ag_sandbox_requirements a) = set_strings (ag_sandbox_requirements b)"
    "set_strings (ag_actions a) = set_strings (ag_actions b)"
    using assms unfolding same_agent_def by (blast intro: set_strings_mset)+
  moreover have "ag_name a = ag_name b" "ag_version a = ag_version b" "ag_enabled a = ag_enabled b"
    "ag_current a = ag_current b" "ag_route_policy a = ag_route_policy b"
    "ag_min_context_tokens a = ag_min_context_tokens b" "ag_sandbox_profile a = ag_sandbox_profile b"
    "ag_soul a = ag_soul b" "ag_behavior a = ag_behavior b"
    using assms unfolding same_agent_def by blast+
  ultimately show ?thesis by (simp only: agent_to_value_def)
qed

lemma agents_to_value_mset:
  "mset xs = mset ys \<Longrightarrow> distinct (map identity xs) \<Longrightarrow> agents_to_value xs = agents_to_value ys"
  unfolding agents_to_value_def by (drule (1) sort_key_distinct_mset) simp

lemma routing_to_value_mset:
  assumes "mset (ro_policies r) = mset (ro_policies s)" and "distinct (map rp_name (ro_policies r))"
    and "mset (ro_agent_pins r) = mset (ro_agent_pins s)"
    and "mset (ro_agent_exclusions r) = mset (ro_agent_exclusions s)"
  shows "routing_to_value r = routing_to_value s"
  unfolding routing_to_value_def agent_references_value_def
    sort_key_distinct_mset [OF assms(1,2)] sort_mset [OF assms(3)] sort_mset [OF assms(4)] ..

end
