(* ===== verification/Config_Compile.thy ===== *)
theory Config_Compile
  imports Config_Model
begin

text \<open>
  Compiling configuration source
  (\<^verbatim>\<open>crates/pantheon-core/src/config/\<close>\<open>{reader,error,compile,validate}.rs\<close>): typed field
  access with the path it failed at, one compilation function per component in the order
  the code performs its checks, and cross-reference validation over the whole candidate.

  Each list of declarations is a loop that carries the identities seen so far. The locale
  \<open>keyed_declarations\<close> states what one iteration promises and concludes, once for all
  seven kinds of declaration, that identities are unique and every entry is acceptable.
\<close>

section \<open>Errors\<close>

datatype config_error =
    Malformed parse_error
  | MissingField string
  | InvalidValue string message
  | DuplicateIdentity string string
  | UnknownReference message string string
  | IncompatibleCombination message
  | HardPolicyViolation message

fun config_error_kind :: "config_error \<Rightarrow> string" where
  "config_error_kind (Malformed _) = ''malformed''"
| "config_error_kind (MissingField _) = ''missing-field''"
| "config_error_kind (InvalidValue _ _) = ''invalid-value''"
| "config_error_kind (DuplicateIdentity _ _) = ''duplicate-identity''"
| "config_error_kind (UnknownReference _ _ _) = ''unknown-reference''"
| "config_error_kind (IncompatibleCombination _) = ''incompatible-combination''"
| "config_error_kind (HardPolicyViolation _) = ''hard-policy-violation''"

type_synonym 'a cres = "(config_error, 'a) res"

section \<open>Typed field access\<close>

definition path :: "string \<Rightarrow> string \<Rightarrow> string" where
  "path prefix key = (if prefix = [] then key else prefix @ ''.'' @ key)"

definition field :: "cvalue \<Rightarrow> string \<Rightarrow> string \<Rightarrow> cvalue cres" where
  "field v prefix key = ok_or (get v key) (MissingField (path prefix key))"

definition as_str :: "cvalue \<Rightarrow> string \<Rightarrow> string cres" where
  "as_str v at = (case v of
     VString s \<Rightarrow> Inr s
   | other \<Rightarrow> Inl (InvalidValue at (Fmt ''expected a string, found {}'' [FStr (kind other)])))"

definition as_i64 :: "cvalue \<Rightarrow> string \<Rightarrow> int cres" where
  "as_i64 v at = (case v of
     VInteger n \<Rightarrow> Inr n
   | other \<Rightarrow> Inl (InvalidValue at (Fmt ''expected an integer, found {}'' [FStr (kind other)])))"

definition as_bool :: "cvalue \<Rightarrow> string \<Rightarrow> bool cres" where
  "as_bool v at = (case v of
     VBool b \<Rightarrow> Inr b
   | other \<Rightarrow> Inl (InvalidValue at (Fmt ''expected a boolean, found {}'' [FStr (kind other)])))"

definition as_array :: "cvalue \<Rightarrow> string \<Rightarrow> cvalue list cres" where
  "as_array v at = (case v of
     VArray vs \<Rightarrow> Inr vs
   | other \<Rightarrow> Inl (InvalidValue at (Fmt ''expected an array, found {}'' [FStr (kind other)])))"

definition string_list :: "cvalue \<Rightarrow> string \<Rightarrow> string \<Rightarrow> string list cres" where
  "string_list parent prefix key =
     bindR (bindR (field parent prefix key) (\<lambda>v. as_array v (path prefix key)))
       (traverse (\<lambda>entry. as_str entry (path prefix key)))"

definition non_empty :: "string \<Rightarrow> string \<Rightarrow> unit cres" where
  "non_empty s at = ensure (s \<noteq> []) (InvalidValue at (Fmt ''must not be empty'' []))"

definition positive :: "int \<Rightarrow> string \<Rightarrow> unit cres" where
  "positive n at = ensure (0 < n) (InvalidValue at (Fmt ''must be greater than zero, found {number}'' [FInt n]))"

text \<open>\<open>unique\<close> extends the identities seen so far.\<close>

definition unique :: "string list \<Rightarrow> string \<Rightarrow> string \<Rightarrow> string list cres" where
  "unique seen knd ident =
     (if ident \<in> set seen then Inl (DuplicateIdentity knd ident) else Inr (seen @ [ident]))"

definition unique_list :: "string list \<Rightarrow> string \<Rightarrow> unit cres" where
  "unique_list vs knd = bindR (fold_res (\<lambda>seen v. unique seen knd v) [] vs) (\<lambda>_. Inr ())"

definition non_empty_list :: "string list \<Rightarrow> string \<Rightarrow> unit cres" where
  "non_empty_list vs at = ensure (vs \<noteq> []) (InvalidValue at (Fmt ''must contain at least one value'' []))"

definition optional_bool :: "cvalue \<Rightarrow> string \<Rightarrow> string \<Rightarrow> bool \<Rightarrow> bool cres" where
  "optional_bool parent prefix key dflt = (case get parent key of
     None \<Rightarrow> Inr dflt
   | Some v \<Rightarrow> as_bool v (path prefix key))"

definition optional_i64 :: "cvalue \<Rightarrow> string \<Rightarrow> string \<Rightarrow> int \<Rightarrow> int cres" where
  "optional_i64 parent prefix key dflt = (case get parent key of
     None \<Rightarrow> Inr dflt
   | Some v \<Rightarrow> as_i64 v (path prefix key))"

definition reject_unknown_fields :: "cvalue \<Rightarrow> string \<Rightarrow> string list \<Rightarrow> unit cres" where
  "reject_unknown_fields v prefix allowed = (case v of
     VObject es \<Rightarrow>
       (case List.find (\<lambda>key. key \<notin> set allowed) (map fst es) of
          Some unknown \<Rightarrow> Inl (InvalidValue prefix (Fmt ''unknown field {unknown:?}'' [FStr unknown]))
        | None \<Rightarrow> Inr ())
   | _ \<Rightarrow> Inr ())"

text \<open>\<open>as_str(field(entry, prefix, key)?, &path(prefix, key))?\<close>, and the same for integers.\<close>

definition str_at :: "cvalue \<Rightarrow> string \<Rightarrow> string \<Rightarrow> string cres" where
  "str_at entry prefix key = bindR (field entry prefix key) (\<lambda>v. as_str v (path prefix key))"

definition i64_at :: "cvalue \<Rightarrow> string \<Rightarrow> string \<Rightarrow> int cres" where
  "i64_at entry prefix key = bindR (field entry prefix key) (\<lambda>v. as_i64 v (path prefix key))"

definition array_at :: "cvalue \<Rightarrow> string \<Rightarrow> string \<Rightarrow> cvalue list cres" where
  "array_at entry prefix key = bindR (field entry prefix key) (\<lambda>v. as_array v (path prefix key))"

definition indexed :: "string \<Rightarrow> nat \<Rightarrow> string" where
  "indexed base i = base @ ''['' @ nat_to_string i @ '']''"

section \<open>Vocabularies\<close>

definition control_plane_actions :: "string list" where
  "control_plane_actions = [''shell.execute'', ''process.spawn'']"

definition control_plane_guarantee :: string where
  "control_plane_guarantee = ''isolation.control-plane''"

definition actions :: "string list" where
  "actions = [''filesystem.read'', ''filesystem.write'', ''filesystem.delete'', ''shell.execute'',
     ''process.spawn'', ''artifact.read'', ''artifact.seal'', ''secret.read'', ''secret.use'']"

definition hard_denied_action :: string where
  "hard_denied_action = ''secret.read''"

definition route_preference_keys :: "string list" where
  "route_preference_keys = [''contextCapacity'']"

definition route_tie_break_keys :: "string list" where
  "route_tie_break_keys = [''backendId'', ''agentId'']"

definition max_guidance_chars :: nat where
  "max_guidance_chars = 8192"

section \<open>Declaration loops\<close>

text \<open>
  \<open>for (index, entry) in entries.iter().enumerate()\<close> with a \<open>seen\<close> list: the body gets
  the index, the identities seen so far and the entry.
\<close>

definition compile_entries ::
    "(nat \<Rightarrow> string list \<Rightarrow> cvalue \<Rightarrow> (string list \<times> 'a) cres) \<Rightarrow> cvalue list \<Rightarrow> 'a list cres" where
  "compile_entries body entries =
     bindR (fold_res (\<lambda>(seen, items) (i, entry).
              bindR (body i seen entry) (\<lambda>(seen', item). Inr (seen', items @ [item])))
            ([], []) (enumerate 0 entries))
       (\<lambda>(_, items). Inr items)"

definition guidance :: "cvalue \<Rightarrow> string \<Rightarrow> string \<Rightarrow> string cres" where
  "guidance entry prefix key =
     (let at = path prefix key in
      bindR (str_at entry prefix key) (\<lambda>s.
      bindR (non_empty s at) (\<lambda>_.
      bindR (ensure (chars_count s \<le> max_guidance_chars) (InvalidValue at
               (Fmt ''must be at most {MAX_GUIDANCE_CHARS} characters'' [FInt (int max_guidance_chars)]))) (\<lambda>_.
        Inr s))))"

definition agent_fields :: "string list" where
  "agent_fields = [''name'', ''version'', ''enabled'', ''current'', ''accepts'', ''competencies'',
     ''routePolicy'', ''executionFeatures'', ''minContextTokens'', ''sandboxProfile'',
     ''sandboxRequirements'', ''actions'', ''soul'', ''behavior'']"

definition check_agent_action :: "string \<Rightarrow> string \<Rightarrow> string \<Rightarrow> unit cres" where
  "check_agent_action prefix name action =
     bindR (ensure (action \<in> set actions) (InvalidValue (path prefix ''actions'')
              (Fmt ''{action:?} is not a canonical Pantheon action'' [FStr action]))) (\<lambda>_.
       ensure (action \<noteq> hard_denied_action) (HardPolicyViolation
         (Fmt ''agent {name:?} declares {HARD_DENIED_ACTION}, which v1 built-in hard policy denies to Agent principals non-approvably''
           [FStr name, FStr hard_denied_action])))"

definition version_u32 :: "int \<Rightarrow> string \<Rightarrow> int cres" where
  "version_u32 n at = ok_or (u32_try_from n) (InvalidValue at (Fmt ''does not fit a 32-bit version'' []))"

definition unique_strings :: "cvalue \<Rightarrow> string \<Rightarrow> string \<Rightarrow> string \<Rightarrow> string list cres" where
  "unique_strings entry prefix key knd =
     bindR (string_list entry prefix key) (\<lambda>vs. bindR (unique_list vs knd) (\<lambda>_. Inr vs))"

definition non_empty_strings :: "cvalue \<Rightarrow> string \<Rightarrow> string \<Rightarrow> string \<Rightarrow> string list cres" where
  "non_empty_strings entry prefix key knd =
     bindR (string_list entry prefix key) (\<lambda>vs.
     bindR (non_empty_list vs (path prefix key)) (\<lambda>_.
     bindR (unique_list vs knd) (\<lambda>_. Inr vs)))"

definition agent_label :: "string \<Rightarrow> int \<Rightarrow> string" where
  "agent_label name version = name @ ''@'' @ int_to_string version"

definition compile_agent :: "nat \<Rightarrow> string list \<Rightarrow> cvalue \<Rightarrow> (string list \<times> agent) cres" where
  "compile_agent i seen entry =
     (let prefix = indexed ''agents'' i in
      bindR (reject_unknown_fields entry prefix agent_fields) (\<lambda>_.
      bindR (str_at entry prefix ''name'') (\<lambda>name.
      bindR (non_empty name (path prefix ''name'')) (\<lambda>_.
      bindR (i64_at entry prefix ''version'') (\<lambda>version.
      bindR (positive version (path prefix ''version'')) (\<lambda>_.
      bindR (unique seen ''Agent version'' (agent_label name version)) (\<lambda>seen'.
      bindR (i64_at entry prefix ''minContextTokens'') (\<lambda>min_context_tokens.
      bindR (positive min_context_tokens (path prefix ''minContextTokens'')) (\<lambda>_.
      bindR (unique_strings entry prefix ''actions'' ''agent action'') (\<lambda>acts.
      bindR (for_each (check_agent_action prefix name) acts) (\<lambda>_.
      bindR (non_empty_strings entry prefix ''accepts'' ''accepts entry'') (\<lambda>accepts.
      bindR (non_empty_strings entry prefix ''competencies'' ''competency'') (\<lambda>competencies.
      bindR (guidance entry prefix ''soul'') (\<lambda>soul.
      bindR (guidance entry prefix ''behavior'') (\<lambda>behavior.
      bindR (version_u32 version (path prefix ''version'')) (\<lambda>version'.
      bindR (optional_bool entry prefix ''enabled'' True) (\<lambda>enabled.
      bindR (optional_bool entry prefix ''current'' True) (\<lambda>current.
      bindR (str_at entry prefix ''routePolicy'') (\<lambda>policy.
      bindR (unique_strings entry prefix ''executionFeatures'' ''execution feature'') (\<lambda>features.
      bindR (str_at entry prefix ''sandboxProfile'') (\<lambda>profile.
      bindR (unique_strings entry prefix ''sandboxRequirements'' ''sandbox requirement'') (\<lambda>requirements.
        Inr (seen', \<lparr>ag_name = name, ag_version = version', ag_enabled = enabled,
          ag_current = current, ag_accepts = accepts, ag_competencies = competencies,
          ag_route_policy = policy, ag_execution_features = features,
          ag_min_context_tokens = min_context_tokens, ag_sandbox_profile = profile,
          ag_sandbox_requirements = requirements, ag_actions = acts, ag_soul = soul,
          ag_behavior = behavior\<rparr>)))))))))))))))))))))))"

definition compile_agents :: "cvalue \<Rightarrow> agent_component cres" where
  "compile_agents v = bindR (as_array v ''agents'') (compile_entries compile_agent)"

definition check_preference_key :: "string \<Rightarrow> string \<Rightarrow> unit cres" where
  "check_preference_key prefix key =
     ensure (key \<in> set route_preference_keys) (InvalidValue (path prefix ''ordering'')
       (Fmt ''unknown route preference key {key:?}'' [FStr key]))"

definition compile_policy :: "nat \<Rightarrow> string list \<Rightarrow> cvalue \<Rightarrow> (string list \<times> route_policy) cres" where
  "compile_policy i seen entry =
     (let prefix = indexed ''routing.policies'' i in
      bindR (str_at entry prefix ''name'') (\<lambda>name.
      bindR (non_empty name (path prefix ''name'')) (\<lambda>_.
      bindR (unique seen ''route policy'' name) (\<lambda>seen'.
      bindR (optional_i64 entry prefix ''priority'' 0) (\<lambda>priority.
      bindR (string_list entry prefix ''ordering'') (\<lambda>ordering.
      bindR (for_each (check_preference_key prefix) ordering) (\<lambda>_.
      bindR (str_at entry prefix ''tieBreak'') (\<lambda>tie_break.
      bindR (non_empty tie_break (path prefix ''tieBreak'')) (\<lambda>_.
      bindR (ensure (tie_break \<in> set route_tie_break_keys) (InvalidValue (path prefix ''tieBreak'')
               (Fmt ''unknown route tie-break key {tie_break:?}'' [FStr tie_break]))) (\<lambda>_.
      bindR (optional_bool entry prefix ''requiresKeyedLaunch'' True) (\<lambda>keyed.
        Inr (seen', \<lparr>rp_name = name, rp_priority = priority, rp_ordering = ordering,
          rp_tie_break = tie_break, rp_requires_keyed_launch = keyed\<rparr>))))))))))))"

definition compile_reference ::
    "string \<Rightarrow> nat \<Rightarrow> string list \<Rightarrow> cvalue \<Rightarrow> (string list \<times> logical_agent_version) cres" where
  "compile_reference key i seen entry =
     (let prefix = indexed (''routing.'' @ key) i in
      bindR (str_at entry prefix ''name'') (\<lambda>name.
      bindR (non_empty name (path prefix ''name'')) (\<lambda>_.
      bindR (i64_at entry prefix ''version'') (\<lambda>version.
      bindR (positive version (path prefix ''version'')) (\<lambda>_.
      bindR (version_u32 version (path prefix ''version'')) (\<lambda>version'.
      bindR (unique seen ''agent reference'' (agent_label name version')) (\<lambda>seen'.
        Inr (seen', LogicalAgentVersion name version'))))))))"

definition agent_references :: "cvalue \<Rightarrow> string \<Rightarrow> logical_agent_version list cres" where
  "agent_references v key = (case get v key of
     None \<Rightarrow> Inr []
   | Some raw \<Rightarrow> bindR (as_array raw (path ''routing'' key)) (compile_entries (compile_reference key)))"

definition compile_routing :: "cvalue \<Rightarrow> routing_component cres" where
  "compile_routing v =
     bindR (bindR (array_at v ''routing'' ''policies'') (compile_entries compile_policy)) (\<lambda>policies.
     bindR (agent_references v ''agentPins'') (\<lambda>pins.
     bindR (agent_references v ''agentExclusions'') (\<lambda>exclusions.
       Inr \<lparr>ro_policies = policies, ro_agent_pins = pins, ro_agent_exclusions = exclusions\<rparr>)))"

definition isolation_class_of :: "string \<Rightarrow> string \<Rightarrow> isolation_class cres" where
  "isolation_class_of at s =
     (if s = ''TRUSTED_HOST'' then Inr TrustedHost
      else if s = ''CONTAINER'' then Inr Container
      else Inl (InvalidValue at (Fmt ''unknown isolation class {other:?}'' [FStr s])))"

definition network_mode_of :: "string \<Rightarrow> string \<Rightarrow> network_mode cres" where
  "network_mode_of at s =
     (if s = ''NONE'' then Inr NoNetwork
      else if s = ''BROKERED'' then Inr Brokered
      else Inl (InvalidValue at (Fmt ''unknown network mode {other:?}'' [FStr s])))"

definition compile_profile :: "nat \<Rightarrow> string list \<Rightarrow> cvalue \<Rightarrow> (string list \<times> sandbox_profile) cres" where
  "compile_profile i seen entry =
     (let prefix = indexed ''execution.profiles'' i in
      bindR (str_at entry prefix ''name'') (\<lambda>name.
      bindR (non_empty name (path prefix ''name'')) (\<lambda>_.
      bindR (unique seen ''sandbox profile'' name) (\<lambda>seen'.
      bindR (bindR (str_at entry prefix ''isolationClass'')
               (isolation_class_of (path prefix ''isolationClass''))) (\<lambda>class.
      bindR (bindR (str_at entry prefix ''networkMode'')
               (network_mode_of (path prefix ''networkMode''))) (\<lambda>network.
      bindR (str_at entry prefix ''environmentIdentity'') (\<lambda>environment.
      bindR (non_empty environment (path prefix ''environmentIdentity'')) (\<lambda>_.
      bindR (unique_strings entry prefix ''guarantees'' ''sandbox guarantee'') (\<lambda>guarantees.
        Inr (seen', \<lparr>sp_name = name, sp_isolation_class = class, sp_guarantees = guarantees,
          sp_network_mode = network, sp_environment_identity = environment\<rparr>))))))))))"

definition compile_backend :: "nat \<Rightarrow> string list \<Rightarrow> cvalue \<Rightarrow> (string list \<times> backend_registration) cres" where
  "compile_backend i seen entry =
     (let prefix = indexed ''execution.backends'' i in
      bindR (str_at entry prefix ''backendId'') (\<lambda>backend_id.
      bindR (non_empty backend_id (path prefix ''backendId'')) (\<lambda>_.
      bindR (unique seen ''backend'' backend_id) (\<lambda>seen'.
      bindR (str_at entry prefix ''selector'') (\<lambda>selector.
      bindR (non_empty selector (path prefix ''selector'')) (\<lambda>_.
      bindR (bindR (field entry prefix ''enabled'') (\<lambda>v. as_bool v (path prefix ''enabled''))) (\<lambda>enabled.
        Inr (seen', \<lparr>br_backend_id = backend_id, br_enabled = enabled, br_selector = selector\<rparr>))))))))"

definition compile_execution :: "cvalue \<Rightarrow> execution_component cres" where
  "compile_execution v =
     bindR (bindR (array_at v ''execution'' ''profiles'') (compile_entries compile_profile)) (\<lambda>profiles.
     bindR (bindR (array_at v ''execution'' ''backends'') (compile_entries compile_backend)) (\<lambda>backends.
       Inr \<lparr>ex_profiles = profiles, ex_backends = backends\<rparr>))"

definition evaluator_kind_of :: "string \<Rightarrow> string \<Rightarrow> evaluator_kind cres" where
  "evaluator_kind_of at s =
     (if s = ''check'' then Inr Check
      else if s = ''schema'' then Inr Schema
      else Inl (InvalidValue at (Fmt ''unknown evaluator kind {other:?}'' [FStr s])))"

definition compile_evaluator_version ::
    "nat \<Rightarrow> string list \<Rightarrow> cvalue \<Rightarrow> (string list \<times> evaluator_version) cres" where
  "compile_evaluator_version i seen entry =
     (let prefix = indexed ''evaluators.versions'' i in
      bindR (str_at entry prefix ''id'') (\<lambda>id.
      bindR (non_empty id (path prefix ''id'')) (\<lambda>_.
      bindR (unique seen ''evaluator version'' id) (\<lambda>seen'.
      bindR (bindR (str_at entry prefix ''kind'') (evaluator_kind_of (path prefix ''kind''))) (\<lambda>knd.
      bindR (string_list entry prefix ''argv'') (\<lambda>argv.
      bindR (ensure (argv \<noteq> []) (InvalidValue (path prefix ''argv'')
               (Fmt ''must name an executable; an evaluator is an argv vector, never a shell string'' []))) (\<lambda>_.
      bindR (i64_at entry prefix ''timeoutMs'') (\<lambda>timeout_ms.
      bindR (positive timeout_ms (path prefix ''timeoutMs'')) (\<lambda>_.
      bindR (str_at entry prefix ''resultProtocol'') (\<lambda>protocol.
      bindR (non_empty protocol (path prefix ''resultProtocol'')) (\<lambda>_.
      bindR (str_at entry prefix ''sandboxProfile'') (\<lambda>profile.
        Inr (seen', \<lparr>ev_id = id, ev_kind = knd, ev_argv = argv, ev_timeout_ms = timeout_ms,
          ev_sandbox_profile = profile, ev_result_protocol = protocol\<rparr>)))))))))))))"

definition compile_evaluator_ref :: "nat \<Rightarrow> string list \<Rightarrow> cvalue \<Rightarrow> (string list \<times> evaluator_ref) cres" where
  "compile_evaluator_ref i seen entry =
     (let prefix = indexed ''evaluators.refs'' i in
      bindR (str_at entry prefix ''ref'') (\<lambda>reference.
      bindR (non_empty reference (path prefix ''ref'')) (\<lambda>_.
      bindR (unique seen ''evaluator ref'' reference) (\<lambda>seen'.
      bindR (str_at entry prefix ''currentVersion'') (\<lambda>version.
        Inr (seen', \<lparr>er_reference = reference, er_current_version = version\<rparr>))))))"

definition compile_evaluators :: "cvalue \<Rightarrow> evaluator_component cres" where
  "compile_evaluators v =
     bindR (bindR (array_at v ''evaluators'' ''versions'') (compile_entries compile_evaluator_version)) (\<lambda>versions.
     bindR (bindR (array_at v ''evaluators'' ''refs'') (compile_entries compile_evaluator_ref)) (\<lambda>refs.
       Inr \<lparr>ec_refs = refs, ec_versions = versions\<rparr>))"

definition positive_at :: "cvalue \<Rightarrow> string \<Rightarrow> string \<Rightarrow> int cres" where
  "positive_at v prefix key =
     bindR (i64_at v prefix key) (\<lambda>n. bindR (positive n (path prefix key)) (\<lambda>_. Inr n))"

definition compile_context :: "cvalue \<Rightarrow> context_component cres" where
  "compile_context v =
     bindR (positive_at v ''context'' ''schemaVersion'') (\<lambda>schema_version.
     bindR (positive_at v ''context'' ''memoryLimitTokens'') (\<lambda>memory.
     bindR (positive_at v ''context'' ''workspaceOrientationLimitTokens'') (\<lambda>orientation.
     bindR (positive_at v ''context'' ''safetyMarginTokens'') (\<lambda>margin.
     bindR (version_u32 schema_version ''context.schemaVersion'') (\<lambda>schema_version'.
     bindR (string_list v ''context'' ''mandatorySections'') (\<lambda>mandatory.
     bindR (string_list v ''context'' ''preloadPriority'') (\<lambda>preload.
     bindR (string_list v ''context'' ''optionalDropOrder'') (\<lambda>drop_order.
       Inr \<lparr>cc_schema_version = schema_version', cc_mandatory_sections = mandatory,
            cc_preload_priority = preload, cc_memory_limit_tokens = memory,
            cc_workspace_orientation_limit_tokens = orientation,
            cc_safety_margin_tokens = margin, cc_optional_drop_order = drop_order\<rparr>))))))))"

definition rule_effect_of :: "string \<Rightarrow> string \<Rightarrow> rule_effect cres" where
  "rule_effect_of at s =
     (if s = ''permit'' then Inr Permit
      else if s = ''forbid'' then Inr Forbid
      else Inl (InvalidValue at (Fmt ''unknown effect {other:?}'' [FStr s])))"

definition compile_rule :: "nat \<times> cvalue \<Rightarrow> authorization_rule cres" where
  "compile_rule = (\<lambda>(i, entry).
     let prefix = indexed ''authorization.rules'' i in
     bindR (str_at entry prefix ''action'') (\<lambda>action.
     bindR (ensure (action \<in> set actions) (InvalidValue (path prefix ''action'')
              (Fmt ''{action:?} is not a canonical Pantheon action'' [FStr action]))) (\<lambda>_.
     bindR (bindR (str_at entry prefix ''effect'') (rule_effect_of (path prefix ''effect''))) (\<lambda>eff.
     bindR (ensure (\<not> (action = hard_denied_action \<and> eff = Permit)) (HardPolicyViolation
              (Fmt ''an authorization rule permits {HARD_DENIED_ACTION}, which v1 built-in hard policy denies non-approvably''
                [FStr hard_denied_action]))) (\<lambda>_.
       Inr \<lparr>ar_action = action, ar_effect = eff\<rparr>)))))"

definition compile_authorization :: "cvalue \<Rightarrow> authorization_component cres" where
  "compile_authorization v =
     bindR (positive_at v ''authorization'' ''schemaVersion'') (\<lambda>schema_version.
     bindR (bindR (array_at v ''authorization'' ''rules'') (\<lambda>es. traverse compile_rule (enumerate 0 es))) (\<lambda>rules.
     bindR (version_u32 schema_version ''authorization.schemaVersion'') (\<lambda>schema_version'.
       Inr \<lparr>az_schema_version = schema_version', az_rules = rules\<rparr>)))"

end
