(* ===== verification/Config_Valid.thy ===== *)
theory Config_Valid
  imports Config_Compile
begin

text \<open>
  Cross-reference validation and the compilation entry point
  (\<^verbatim>\<open>crates/pantheon-core/src/config/validate.rs\<close>, \<open>compile\<close> in
  \<^verbatim>\<open>config/compile.rs\<close>), with what a compiled configuration guarantees:
  \<open>consistent\<close> is exactly what the cross-reference pass decides, \<open>declared_ok\<close> is what
  the per-component passes guarantee of every declaration.
\<close>

section \<open>Cross-references\<close>

definition check_requirement :: "agent \<Rightarrow> sandbox_profile \<Rightarrow> string \<Rightarrow> unit cres" where
  "check_requirement a p required =
     ensure (required \<in> set (sp_guarantees p)) (IncompatibleCombination
       (Fmt ''agent {:?} requires sandbox guarantee {:?}, which profile {:?} does not assert''
         [FStr (ag_name a), FStr required, FStr (sp_name p)]))"

definition check_control_plane :: "agent \<Rightarrow> sandbox_profile \<Rightarrow> unit cres" where
  "check_control_plane a p =
     (case List.find (\<lambda>action. action \<in> set control_plane_actions) (ag_actions a) of
        None \<Rightarrow> Inr ()
      | Some action \<Rightarrow>
          bindR (ensure (can_isolate_control_plane (sp_isolation_class p)) (IncompatibleCombination
            (Fmt ''agent {:?} may run {action} but profile {:?} is {}, which cannot isolate the control plane''
              [FStr (ag_name a), FStr action, FStr (sp_name p),
               FStr (isolation_class_as_str (sp_isolation_class p))]))) (\<lambda>_.
          ensure (control_plane_guarantee \<in> set (sp_guarantees p)) (IncompatibleCombination
            (Fmt ''agent {:?} may run {action} but profile {:?} does not assert {CONTROL_PLANE_GUARANTEE}''
              [FStr (ag_name a), FStr action, FStr (sp_name p), FStr control_plane_guarantee]))))"

definition check_agent_placement :: "compiled_configuration \<Rightarrow> agent \<Rightarrow> unit cres" where
  "check_agent_placement c a =
     bindR (ensure (ag_route_policy a \<in> set (map rp_name (ro_policies (cf_routing c)))) (UnknownReference
        (Fmt ''agent {:?}'' [FStr (ag_name a)]) ''route policy'' (ag_route_policy a))) (\<lambda>_.
     bindR (ok_or (List.find (\<lambda>p. sp_name p = ag_sandbox_profile a) (ex_profiles (cf_execution c)))
        (UnknownReference (Fmt ''agent {:?}'' [FStr (ag_name a)]) ''sandbox profile'' (ag_sandbox_profile a))) (\<lambda>p.
     bindR (for_each (check_requirement a p) (ag_sandbox_requirements a)) (\<lambda>_.
       check_control_plane a p)))"

text \<open>One round of the Agent loop over \<open>declared_agents\<close> and \<open>current_names\<close>.\<close>

definition check_agent ::
    "compiled_configuration \<Rightarrow> logical_agent_version list \<times> string list \<Rightarrow> agent
      \<Rightarrow> (logical_agent_version list \<times> string list) cres" where
  "check_agent c = (\<lambda>(declared, currents) a.
     bindR (ensure (identity a \<notin> set declared) (DuplicateIdentity ''Agent version''
        (agent_label (ag_name a) (ag_version a)))) (\<lambda>_.
     bindR (ensure (\<not> (ag_current a \<and> ag_name a \<in> set currents)) (IncompatibleCombination
        (Fmt ''Logical Agent {:?} declares more than one current version'' [FStr (ag_name a)]))) (\<lambda>_.
     bindR (check_agent_placement c a) (\<lambda>_.
       Inr (declared @ [identity a], if ag_current a then currents @ [ag_name a] else currents)))))"

definition validate_agent_references ::
    "logical_agent_version list \<Rightarrow> logical_agent_version list \<Rightarrow> string \<Rightarrow> unit cres" where
  "validate_agent_references declared references knd =
     for_each (\<lambda>r. ensure (r \<in> set declared) (UnknownReference
       (Fmt ''routing Agent {kind}'' [FStr knd]) ''Agent version'' (agent_label (lav_name r) (lav_version r))))
       references"

definition check_pin :: "logical_agent_version list \<Rightarrow> logical_agent_version \<Rightarrow> unit cres" where
  "check_pin exclusions pin = ensure (pin \<notin> set exclusions) (IncompatibleCombination
     (Fmt (''Agent {:?}@'' @ ''{} is both pinned and excluded'') [FStr (lav_name pin), FInt (lav_version pin)]))"

definition check_evaluator_profile :: "execution_component \<Rightarrow> evaluator_version \<Rightarrow> unit cres" where
  "check_evaluator_profile e v =
     ensure (list_ex (\<lambda>p. sp_name p = ev_sandbox_profile v) (ex_profiles e)) (UnknownReference
       (Fmt ''evaluator version {:?}'' [FStr (ev_id v)]) ''sandbox profile'' (ev_sandbox_profile v))"

definition check_evaluator_ref :: "evaluator_component \<Rightarrow> evaluator_ref \<Rightarrow> unit cres" where
  "check_evaluator_ref e r =
     ensure (list_ex (\<lambda>v. ev_id v = er_current_version r) (ec_versions e)) (UnknownReference
       (Fmt ''evaluator ref {:?}'' [FStr (er_reference r)]) ''evaluator version'' (er_current_version r))"

definition check_drop :: "context_component \<Rightarrow> string \<Rightarrow> unit cres" where
  "check_drop x section = ensure (section \<notin> set (cc_mandatory_sections x)) (IncompatibleCombination
     (Fmt ''context section {section:?} is mandatory and cannot appear in the optional drop order'' [FStr section]))"

definition check_preload :: "context_component \<Rightarrow> string \<Rightarrow> unit cres" where
  "check_preload x section =
     ensure (section \<in> set (cc_mandatory_sections x) \<or> section \<in> set (cc_optional_drop_order x))
       (UnknownReference (Fmt ''context preload priority'' []) ''context section'' section)"

definition cross_references :: "compiled_configuration \<Rightarrow> unit cres" where
  "cross_references c =
     bindR (fold_res (check_agent c) ([], []) (cf_agents c)) (\<lambda>(declared, _).
     bindR (validate_agent_references declared (ro_agent_pins (cf_routing c)) ''pin'') (\<lambda>_.
     bindR (validate_agent_references declared (ro_agent_exclusions (cf_routing c)) ''exclusion'') (\<lambda>_.
     bindR (for_each (check_pin (ro_agent_exclusions (cf_routing c))) (ro_agent_pins (cf_routing c))) (\<lambda>_.
     bindR (for_each (check_evaluator_profile (cf_execution c)) (ec_versions (cf_evaluators c))) (\<lambda>_.
     bindR (for_each (check_evaluator_ref (cf_evaluators c)) (ec_refs (cf_evaluators c))) (\<lambda>_.
     bindR (for_each (check_drop (cf_context c)) (cc_optional_drop_order (cf_context c))) (\<lambda>_.
       for_each (check_preload (cf_context c)) (cc_preload_priority (cf_context c)))))))))"

definition is_container :: "isolation_class \<Rightarrow> bool" where
  "is_container class \<longleftrightarrow> class = Container"

definition compile_root :: "cvalue \<Rightarrow> compiled_configuration cres" where
  "compile_root root =
     bindR (bindR (field root '''' ''agents'') compile_agents) (\<lambda>agents.
     bindR (bindR (field root '''' ''routing'') compile_routing) (\<lambda>routing.
     bindR (bindR (field root '''' ''execution'') compile_execution) (\<lambda>execution.
     bindR (bindR (field root '''' ''evaluators'') compile_evaluators) (\<lambda>evaluators.
     bindR (bindR (field root '''' ''context'') compile_context) (\<lambda>context_policy.
     bindR (bindR (field root '''' ''authorization'') compile_authorization) (\<lambda>authorization.
     (let c = \<lparr>cf_agents = agents, cf_routing = routing, cf_execution = execution,
               cf_evaluators = evaluators, cf_context = context_policy,
               cf_authorization = authorization\<rparr>
      in bindR (cross_references c) (\<lambda>_. Inr c))))))))"

definition compile :: "string \<Rightarrow> compiled_configuration cres" where
  "compile source = decode_text Malformed compile_root source"

section \<open>What cross-reference validation decides\<close>

definition placeable :: "compiled_configuration \<Rightarrow> agent \<Rightarrow> bool" where
  "placeable c a \<longleftrightarrow>
     ag_route_policy a \<in> rp_name ` set (ro_policies (cf_routing c)) \<and>
     (case List.find (\<lambda>p. sp_name p = ag_sandbox_profile a) (ex_profiles (cf_execution c)) of
        None \<Rightarrow> False
      | Some p \<Rightarrow> set (ag_sandbox_requirements a) \<subseteq> set (sp_guarantees p) \<and>
          (set (ag_actions a) \<inter> set control_plane_actions \<noteq> {} \<longrightarrow>
             can_isolate_control_plane (sp_isolation_class p) \<and>
             control_plane_guarantee \<in> set (sp_guarantees p)))"

definition consistent :: "compiled_configuration \<Rightarrow> bool" where
  "consistent c \<longleftrightarrow>
     distinct (map identity (cf_agents c)) \<and>
     distinct (map ag_name (filter ag_current (cf_agents c))) \<and>
     (\<forall>a \<in> set (cf_agents c). placeable c a) \<and>
     set (ro_agent_pins (cf_routing c)) \<subseteq> identity ` set (cf_agents c) \<and>
     set (ro_agent_exclusions (cf_routing c)) \<subseteq> identity ` set (cf_agents c) \<and>
     set (ro_agent_pins (cf_routing c)) \<inter> set (ro_agent_exclusions (cf_routing c)) = {} \<and>
     (\<forall>v \<in> set (ec_versions (cf_evaluators c)).
        ev_sandbox_profile v \<in> sp_name ` set (ex_profiles (cf_execution c))) \<and>
     (\<forall>r \<in> set (ec_refs (cf_evaluators c)).
        er_current_version r \<in> ev_id ` set (ec_versions (cf_evaluators c))) \<and>
     set (cc_optional_drop_order (cf_context c)) \<inter> set (cc_mandatory_sections (cf_context c)) = {} \<and>
     set (cc_preload_priority (cf_context c)) \<subseteq>
       set (cc_mandatory_sections (cf_context c)) \<union> set (cc_optional_drop_order (cf_context c))"

lemma check_control_plane_iff [res_simps]:
  "check_control_plane a p = Inr u \<longleftrightarrow>
     (set (ag_actions a) \<inter> set control_plane_actions \<noteq> {} \<longrightarrow>
        can_isolate_control_plane (sp_isolation_class p) \<and> control_plane_guarantee \<in> set (sp_guarantees p))"
proof (cases "List.find (\<lambda>action. action \<in> set control_plane_actions) (ag_actions a)")
  case None
  then have "set (ag_actions a) \<inter> set control_plane_actions = {}" by (auto simp: find_None_iff)
  with None show ?thesis by (simp add: check_control_plane_def)
next
  case (Some action)
  then have "set (ag_actions a) \<inter> set control_plane_actions \<noteq> {}" using find_SomeD [OF Some] by blast
  with Some show ?thesis by (simp add: check_control_plane_def res_simps)
qed

lemma check_agent_placement_iff [res_simps]: "check_agent_placement c a = Inr u \<longleftrightarrow> placeable c a"
  by (auto simp: check_agent_placement_def placeable_def check_requirement_def res_simps
      split: option.splits)

lemma check_agent_iff [res_simps]:
  "check_agent c (declared, currents) a = Inr s \<longleftrightarrow>
     identity a \<notin> set declared \<and> (ag_current a \<longrightarrow> ag_name a \<notin> set currents) \<and> placeable c a \<and>
     s = (declared @ [identity a], if ag_current a then currents @ [ag_name a] else currents)"
  by (auto simp: check_agent_def res_simps)

lemma check_agents_iff:
  "fold_res (check_agent c) (declared, currents) as = Inr (d, r) \<longleftrightarrow>
     (distinct (map identity as) \<and> identity ` set as \<inter> set declared = {} \<and>
      distinct (map ag_name (filter ag_current as)) \<and>
      ag_name ` set (filter ag_current as) \<inter> set currents = {} \<and> (\<forall>a \<in> set as. placeable c a) \<and>
      d = declared @ map identity as \<and> r = currents @ map ag_name (filter ag_current as))"
proof (induction as arbitrary: declared currents)
  case Nil
  then show ?case by auto
next
  case (Cons a as)
  show ?case
    by (cases "ag_current a") (auto simp: res_simps Cons)
qed

lemma check_evaluator_profile_iff [res_simps]:
  "check_evaluator_profile e v = Inr u \<longleftrightarrow> ev_sandbox_profile v \<in> sp_name ` set (ex_profiles e)"
  by (force simp: check_evaluator_profile_def res_simps list_ex_iff)

lemma check_evaluator_ref_iff [res_simps]:
  "check_evaluator_ref e r = Inr u \<longleftrightarrow> er_current_version r \<in> ev_id ` set (ec_versions e)"
  by (force simp: check_evaluator_ref_def res_simps list_ex_iff)

lemma validate_agent_references_iff [res_simps]:
  "validate_agent_references declared refs knd = Inr u \<longleftrightarrow> set refs \<subseteq> set declared"
  by (auto simp: validate_agent_references_def res_simps)

lemma check_pin_iff [res_simps]: "check_pin exclusions pin = Inr u \<longleftrightarrow> pin \<notin> set exclusions"
  by (simp add: check_pin_def res_simps)

lemma check_drop_iff [res_simps]: "check_drop x s = Inr u \<longleftrightarrow> s \<notin> set (cc_mandatory_sections x)"
  by (simp add: check_drop_def res_simps)

lemma check_preload_iff [res_simps]:
  "check_preload x s = Inr u \<longleftrightarrow> s \<in> set (cc_mandatory_sections x) \<union> set (cc_optional_drop_order x)"
  by (simp add: check_preload_def res_simps)

lemma cross_references_iff: "cross_references c = Inr () \<longleftrightarrow> consistent c"
proof -
  have "cross_references c = Inr () \<longleftrightarrow>
    (\<exists>d r. fold_res (check_agent c) ([], []) (cf_agents c) = Inr (d, r) \<and>
      set (ro_agent_pins (cf_routing c)) \<subseteq> set d \<and>
      set (ro_agent_exclusions (cf_routing c)) \<subseteq> set d \<and>
      (\<forall>p \<in> set (ro_agent_pins (cf_routing c)). p \<notin> set (ro_agent_exclusions (cf_routing c))) \<and>
      (\<forall>v \<in> set (ec_versions (cf_evaluators c)).
        ev_sandbox_profile v \<in> sp_name ` set (ex_profiles (cf_execution c))) \<and>
      (\<forall>r \<in> set (ec_refs (cf_evaluators c)).
        er_current_version r \<in> ev_id ` set (ec_versions (cf_evaluators c))) \<and>
      (\<forall>s \<in> set (cc_optional_drop_order (cf_context c)). s \<notin> set (cc_mandatory_sections (cf_context c))) \<and>
      (\<forall>s \<in> set (cc_preload_priority (cf_context c)).
        s \<in> set (cc_mandatory_sections (cf_context c)) \<union> set (cc_optional_drop_order (cf_context c))))"
    by (simp add: cross_references_def res_simps split_paired_Ex)
  then show ?thesis unfolding check_agents_iff consistent_def by (simp add: subset_iff disjoint_iff) blast
qed

section \<open>What compilation guarantees of every declaration\<close>

text \<open>
  One iteration of a declaration loop: the identity of the accepted entry is new, it is
  appended to the identities seen, and the entry is acceptable.
\<close>

locale keyed_declarations =
  fixes body :: "nat \<Rightarrow> string list \<Rightarrow> cvalue \<Rightarrow> (string list \<times> 'a) cres"
    and key :: "'a \<Rightarrow> string"
    and ok :: "'a \<Rightarrow> bool"
  assumes body_Inr: "body i seen entry = Inr (seen', item) \<Longrightarrow>
      key item \<notin> set seen \<and> seen' = seen @ [key item] \<and> ok item"
begin

lemma compile_loop:
  "fold_res (\<lambda>(seen, items) (i, entry).
      bindR (body i seen entry) (\<lambda>(seen', item). Inr (seen', items @ [item]))) (seen, items) es
     = Inr (seen', items') \<Longrightarrow>
   seen = map key items \<Longrightarrow> distinct (map key items) \<Longrightarrow> list_all ok items \<Longrightarrow>
   distinct (map key items') \<and> list_all ok items'"
proof (induction es arbitrary: seen items)
  case (Cons e es)
  obtain i entry where e: "e = (i, entry)" by (cases e)
  obtain seen1 item where item: "body i seen entry = Inr (seen1, item)"
    and rest: "fold_res (\<lambda>(seen, items) (i, entry).
      bindR (body i seen entry) (\<lambda>(seen', item). Inr (seen', items @ [item])))
      (seen1, items @ [item]) es = Inr (seen', items')"
    using Cons.prems(1) by (auto simp: e res_simps)
  note new = body_Inr [OF item]
  from Cons.IH [OF rest] Cons.prems(2-4) new show ?case by simp
qed simp

lemma compile_entries_ok:
  "compile_entries body entries = Inr items \<Longrightarrow> distinct (map key items) \<and> list_all ok items"
  using compile_loop [of "[]" "[]" "enumerate 0 entries"]
  by (auto simp: compile_entries_def res_simps)

end

lemma unique_iff [res_simps]: "unique seen k x = Inr seen' \<longleftrightarrow> x \<notin> set seen \<and> seen' = seen @ [x]"
  by (auto simp: unique_def)

lemma unique_list_iff [res_simps]: "unique_list vs k = Inr u \<longleftrightarrow> distinct vs"
proof -
  have "(\<exists>s. fold_res (\<lambda>seen v. unique seen k v) seen vs = Inr s) \<longleftrightarrow> distinct vs \<and> set seen \<inter> set vs = {}" for seen
    by (induction vs arbitrary: seen) (auto simp: res_simps)
  then show ?thesis by (auto simp: unique_list_def res_simps)
qed

lemma non_empty_iff [res_simps]: "non_empty s at = Inr u \<longleftrightarrow> s \<noteq> []"
  by (simp add: non_empty_def res_simps)

lemma positive_iff [res_simps]: "positive n at = Inr u \<longleftrightarrow> 0 < n"
  by (simp add: positive_def res_simps)

lemma version_u32_iff [res_simps]: "version_u32 n at = Inr m \<longleftrightarrow> is_u32 n \<and> m = n"
  by (simp add: version_u32_def res_simps)

lemma unique_strings_distinct: "unique_strings entry prefix k knd = Inr vs \<Longrightarrow> distinct vs"
  by (simp add: unique_strings_def res_simps)

lemma non_empty_strings_ok: "non_empty_strings entry prefix k knd = Inr vs \<Longrightarrow> vs \<noteq> [] \<and> distinct vs"
  by (simp add: non_empty_strings_def non_empty_list_def res_simps)

lemma guidance_ok: "guidance entry prefix k = Inr s \<Longrightarrow> s \<noteq> [] \<and> chars_count s \<le> max_guidance_chars"
  by (simp add: guidance_def Let_def res_simps)

lemma check_agent_action_iff [res_simps]:
  "check_agent_action prefix name a = Inr u \<longleftrightarrow> a \<in> set actions - {hard_denied_action}"
  by (simp add: check_agent_action_def res_simps)

definition agent_ok :: "agent \<Rightarrow> bool" where
  "agent_ok a \<longleftrightarrow> ag_name a \<noteq> [] \<and> 0 < ag_version a \<and> is_u32 (ag_version a) \<and>
     0 < ag_min_context_tokens a \<and> set (ag_actions a) \<subseteq> set actions - {hard_denied_action} \<and>
     distinct (ag_actions a) \<and> ag_accepts a \<noteq> [] \<and> distinct (ag_accepts a) \<and>
     ag_competencies a \<noteq> [] \<and> distinct (ag_competencies a) \<and>
     distinct (ag_execution_features a) \<and> distinct (ag_sandbox_requirements a) \<and>
     ag_soul a \<noteq> [] \<and> chars_count (ag_soul a) \<le> max_guidance_chars \<and>
     ag_behavior a \<noteq> [] \<and> chars_count (ag_behavior a) \<le> max_guidance_chars"

definition policy_ok :: "route_policy \<Rightarrow> bool" where
  "policy_ok p \<longleftrightarrow> rp_name p \<noteq> [] \<and> set (rp_ordering p) \<subseteq> set route_preference_keys \<and>
     rp_tie_break p \<in> set route_tie_break_keys"

definition profile_ok :: "sandbox_profile \<Rightarrow> bool" where
  "profile_ok p \<longleftrightarrow> sp_name p \<noteq> [] \<and> sp_environment_identity p \<noteq> [] \<and> distinct (sp_guarantees p)"

definition backend_ok :: "backend_registration \<Rightarrow> bool" where
  "backend_ok b \<longleftrightarrow> br_backend_id b \<noteq> [] \<and> br_selector b \<noteq> []"

definition evaluator_version_ok :: "evaluator_version \<Rightarrow> bool" where
  "evaluator_version_ok v \<longleftrightarrow> ev_id v \<noteq> [] \<and> ev_argv v \<noteq> [] \<and> 0 < ev_timeout_ms v \<and>
     ev_result_protocol v \<noteq> []"

definition evaluator_ref_ok :: "evaluator_ref \<Rightarrow> bool" where
  "evaluator_ref_ok r \<longleftrightarrow> er_reference r \<noteq> []"

definition reference_ok :: "logical_agent_version \<Rightarrow> bool" where
  "reference_ok r \<longleftrightarrow> lav_name r \<noteq> [] \<and> 0 < lav_version r \<and> is_u32 (lav_version r)"

interpretation agent_decl: keyed_declarations compile_agent
  "\<lambda>a. agent_label (ag_name a) (ag_version a)" agent_ok
proof
  fix i seen entry seen' item assume "compile_agent i seen entry = Inr (seen', item)"
  then show "agent_label (ag_name item) (ag_version item) \<notin> set seen \<and>
      seen' = seen @ [agent_label (ag_name item) (ag_version item)] \<and> agent_ok item"
    unfolding compile_agent_def Let_def bindR_Inr_iff
    by (elim exE conjE)
      ((drule unique_strings_distinct non_empty_strings_ok guidance_ok)+,
       (thin_tac "str_at _ _ _ = _" | thin_tac "i64_at _ _ _ = _" | thin_tac "optional_bool _ _ _ _ = _"
        | thin_tac "reject_unknown_fields _ _ _ = _")+,
       simp only: unique_iff non_empty_iff positive_iff version_u32_iff sum.inject prod.inject,
       elim conjE, hypsubst, auto simp: agent_ok_def res_simps)
qed

interpretation policy_decl: keyed_declarations compile_policy rp_name policy_ok
proof
  fix i seen entry seen' item assume "compile_policy i seen entry = Inr (seen', item)"
  then show "rp_name item \<notin> set seen \<and> seen' = seen @ [rp_name item] \<and> policy_ok item"
    unfolding compile_policy_def Let_def bindR_Inr_iff
    by (elim exE conjE) (auto simp: policy_ok_def check_preference_key_def res_simps)
qed

interpretation profile_decl: keyed_declarations compile_profile sp_name profile_ok
proof
  fix i seen entry seen' item assume "compile_profile i seen entry = Inr (seen', item)"
  then show "sp_name item \<notin> set seen \<and> seen' = seen @ [sp_name item] \<and> profile_ok item"
    unfolding compile_profile_def Let_def bindR_Inr_iff
    by (elim exE conjE) (auto simp: profile_ok_def res_simps dest: unique_strings_distinct)
qed

interpretation backend_decl: keyed_declarations compile_backend br_backend_id backend_ok
proof
  fix i seen entry seen' item assume "compile_backend i seen entry = Inr (seen', item)"
  then show "br_backend_id item \<notin> set seen \<and> seen' = seen @ [br_backend_id item] \<and> backend_ok item"
    unfolding compile_backend_def Let_def bindR_Inr_iff
    by (elim exE conjE) (auto simp: backend_ok_def res_simps)
qed

interpretation evaluator_decl: keyed_declarations compile_evaluator_version ev_id evaluator_version_ok
proof
  fix i seen entry seen' item assume "compile_evaluator_version i seen entry = Inr (seen', item)"
  then show "ev_id item \<notin> set seen \<and> seen' = seen @ [ev_id item] \<and> evaluator_version_ok item"
    unfolding compile_evaluator_version_def Let_def bindR_Inr_iff
    by (elim exE conjE) (auto simp: evaluator_version_ok_def res_simps)
qed

interpretation evaluator_ref_decl: keyed_declarations compile_evaluator_ref er_reference evaluator_ref_ok
proof
  fix i seen entry seen' item assume "compile_evaluator_ref i seen entry = Inr (seen', item)"
  then show "er_reference item \<notin> set seen \<and> seen' = seen @ [er_reference item] \<and> evaluator_ref_ok item"
    unfolding compile_evaluator_ref_def Let_def bindR_Inr_iff
    by (elim exE conjE) (auto simp: evaluator_ref_ok_def res_simps)
qed

interpretation reference_decl: keyed_declarations "compile_reference k"
  "\<lambda>r. agent_label (lav_name r) (lav_version r)" reference_ok for k
proof
  fix i seen entry seen' item assume "compile_reference k i seen entry = Inr (seen', item)"
  then show "agent_label (lav_name item) (lav_version item) \<notin> set seen \<and>
      seen' = seen @ [agent_label (lav_name item) (lav_version item)] \<and> reference_ok item"
    unfolding compile_reference_def Let_def bindR_Inr_iff
    by (elim exE conjE) (auto simp: reference_ok_def res_simps)
qed

section \<open>What a compiled configuration guarantees\<close>

definition rule_ok :: "authorization_rule \<Rightarrow> bool" where
  "rule_ok r \<longleftrightarrow> ar_action r \<in> set actions \<and> (ar_action r = hard_denied_action \<longrightarrow> ar_effect r = Forbid)"

definition context_ok :: "context_component \<Rightarrow> bool" where
  "context_ok x \<longleftrightarrow> 0 < cc_schema_version x \<and> is_u32 (cc_schema_version x) \<and>
     0 < cc_memory_limit_tokens x \<and> 0 < cc_workspace_orientation_limit_tokens x \<and>
     0 < cc_safety_margin_tokens x"

definition declared_ok :: "compiled_configuration \<Rightarrow> bool" where
  "declared_ok c \<longleftrightarrow>
     list_all agent_ok (cf_agents c) \<and>
     list_all policy_ok (ro_policies (cf_routing c)) \<and> distinct (map rp_name (ro_policies (cf_routing c))) \<and>
     list_all reference_ok (ro_agent_pins (cf_routing c)) \<and> distinct (ro_agent_pins (cf_routing c)) \<and>
     list_all reference_ok (ro_agent_exclusions (cf_routing c)) \<and> distinct (ro_agent_exclusions (cf_routing c)) \<and>
     list_all profile_ok (ex_profiles (cf_execution c)) \<and> distinct (map sp_name (ex_profiles (cf_execution c))) \<and>
     list_all backend_ok (ex_backends (cf_execution c)) \<and> distinct (map br_backend_id (ex_backends (cf_execution c))) \<and>
     list_all evaluator_version_ok (ec_versions (cf_evaluators c)) \<and> distinct (map ev_id (ec_versions (cf_evaluators c))) \<and>
     list_all evaluator_ref_ok (ec_refs (cf_evaluators c)) \<and> distinct (map er_reference (ec_refs (cf_evaluators c))) \<and>
     context_ok (cf_context c) \<and> list_all rule_ok (az_rules (cf_authorization c))"

lemma compile_agents_ok: "compile_agents v = Inr as \<Longrightarrow> list_all agent_ok as"
  by (auto simp: compile_agents_def res_simps dest: agent_decl.compile_entries_ok)

lemma distinct_agent_label: "distinct (map (\<lambda>r. agent_label (lav_name r) (lav_version r)) rs) \<Longrightarrow> distinct rs"
  by (simp add: distinct_map)

lemma agent_references_ok: "agent_references v k = Inr rs \<Longrightarrow> list_all reference_ok rs \<and> distinct rs"
  by (auto simp: agent_references_def res_simps split: option.splits
      dest!: reference_decl.compile_entries_ok dest: distinct_agent_label)

lemma compile_routing_ok:
  "compile_routing v = Inr r \<Longrightarrow>
   list_all policy_ok (ro_policies r) \<and> distinct (map rp_name (ro_policies r)) \<and>
   list_all reference_ok (ro_agent_pins r) \<and> distinct (ro_agent_pins r) \<and>
   list_all reference_ok (ro_agent_exclusions r) \<and> distinct (ro_agent_exclusions r)"
  by (auto simp: compile_routing_def res_simps dest: policy_decl.compile_entries_ok agent_references_ok)

lemma compile_execution_ok:
  "compile_execution v = Inr e \<Longrightarrow>
   list_all profile_ok (ex_profiles e) \<and> distinct (map sp_name (ex_profiles e)) \<and>
   list_all backend_ok (ex_backends e) \<and> distinct (map br_backend_id (ex_backends e))"
  by (auto simp: compile_execution_def res_simps
      dest: profile_decl.compile_entries_ok backend_decl.compile_entries_ok)

lemma compile_evaluators_ok:
  "compile_evaluators v = Inr e \<Longrightarrow>
   list_all evaluator_version_ok (ec_versions e) \<and> distinct (map ev_id (ec_versions e)) \<and>
   list_all evaluator_ref_ok (ec_refs e) \<and> distinct (map er_reference (ec_refs e))"
  by (auto simp: compile_evaluators_def res_simps
      dest: evaluator_decl.compile_entries_ok evaluator_ref_decl.compile_entries_ok)

lemma compile_context_ok: "compile_context v = Inr x \<Longrightarrow> context_ok x"
  by (auto simp: compile_context_def context_ok_def positive_at_def res_simps)

lemma compile_rule_ok: "compile_rule e = Inr r \<Longrightarrow> rule_ok r"
  by (cases e) (auto simp: compile_rule_def rule_ok_def Let_def rule_effect_of_def res_simps split: if_splits)

lemma compile_authorization_ok: "compile_authorization v = Inr a \<Longrightarrow> list_all rule_ok (az_rules a)"
  by (auto simp: compile_authorization_def res_simps list_all_iff dest: traverse_Inr_all [where P = rule_ok, OF _ compile_rule_ok])

lemma compile_root_ok:
  assumes "compile_root root = Inr c"
  shows "consistent c \<and> declared_ok c"
proof -
  obtain a r x e t z where parts:
    "compile_agents a = Inr (cf_agents c)" "compile_routing r = Inr (cf_routing c)"
    "compile_execution x = Inr (cf_execution c)" "compile_evaluators e = Inr (cf_evaluators c)"
    "compile_context t = Inr (cf_context c)" "compile_authorization z = Inr (cf_authorization c)"
    and "cross_references c = Inr ()"
    using assms unfolding compile_root_def Let_def bindR_Inr_iff by auto
  then show ?thesis
    using compile_agents_ok [OF parts(1)] compile_routing_ok [OF parts(2)] compile_execution_ok [OF parts(3)]
      compile_evaluators_ok [OF parts(4)] compile_context_ok [OF parts(5)] compile_authorization_ok [OF parts(6)]
    by (simp add: declared_ok_def cross_references_iff)
qed

lemma compile_ok: "compile source = Inr c \<Longrightarrow> consistent c \<and> declared_ok c"
  by (auto simp: compile_def decode_text_def split: sum.splits dest: compile_root_ok)

end
