(* ===== verification/Execution.thy ===== *)
theory Execution
  imports Config_Valid Task Ordering
begin

text \<open>
  Logical Agent resolution and the pre-Run Execution Fabric rules
  (\<^verbatim>\<open>crates/pantheon-core/src/execution.rs\<close>): which configured Agents are semantically
  eligible for a Task, the provider-neutral request built for one of them, the checks that
  admit an offer as a candidate, and the deterministic selection among candidates.
\<close>

section \<open>Bindings and facts\<close>

record configuration_binding =
  cb_activation_sequence :: int
  cb_content_digest :: digest
  cb_component_digests :: component_digests

definition binding_matches :: "configuration_binding \<Rightarrow> configuration_binding \<Rightarrow> bool" where
  "binding_matches a b \<longleftrightarrow>
     cb_activation_sequence a = cb_activation_sequence b \<and>
     cb_content_digest a = cb_content_digest b \<and>
     cb_component_digests a = cb_component_digests b"

definition binding_to_value :: "configuration_binding \<Rightarrow> cvalue" where
  "binding_to_value b = object [
     (''activationSequence'', VInteger (cb_activation_sequence b)),
     (''contentDigest'', VString (display (cb_content_digest b))),
     (''componentDigests'', object [
        (''agents'', VString (display (cd_agents (cb_component_digests b)))),
        (''routing'', VString (display (cd_routing (cb_component_digests b)))),
        (''executionProfiles'', VString (display (cd_execution_profile (cb_component_digests b)))),
        (''evaluators'', VString (display (cd_evaluator_registry (cb_component_digests b)))),
        (''context'', VString (display (cd_context_policy (cb_component_digests b)))),
        (''authorization'', VString (display (cd_authorization (cb_component_digests b))))])]"

datatype launch_safety = KeyedRequired | ObservationalAllowed

datatype launch_semantics = KeyedIdempotent | Observational

fun launch_semantics_as_str :: "launch_semantics \<Rightarrow> string" where
  "launch_semantics_as_str KeyedIdempotent = ''KEYED_IDEMPOTENT''"
| "launch_semantics_as_str Observational = ''OBSERVATIONAL''"

record controller_safety_facts =
  sf_isolation_guarantees :: "string list"
  sf_observational_launch_safe :: bool

datatype resource_quantity = ResourceQuantity (rq_name: string) (rq_quantity: int)

text \<open>The derived \<open>Ord\<close>: by name, then by quantity.\<close>

instantiation resource_quantity :: linorder
begin

definition less_eq_resource_quantity :: "resource_quantity \<Rightarrow> resource_quantity \<Rightarrow> bool" where
  "less_eq_resource_quantity a b \<longleftrightarrow> (rq_name a, rq_quantity a) \<le> (rq_name b, rq_quantity b)"

definition less_resource_quantity :: "resource_quantity \<Rightarrow> resource_quantity \<Rightarrow> bool" where
  "less_resource_quantity a b \<longleftrightarrow> (rq_name a, rq_quantity a) < (rq_name b, rq_quantity b)"

instance
proof
  fix a b c :: resource_quantity
  show "(a < b) = (a \<le> b \<and> \<not> b \<le> a)"
    by (auto simp: less_resource_quantity_def less_eq_resource_quantity_def)
  show "a \<le> a" by (simp add: less_eq_resource_quantity_def)
  show "a \<le> b \<Longrightarrow> b \<le> c \<Longrightarrow> a \<le> c"
    unfolding less_eq_resource_quantity_def by (rule order_trans)
  show "a \<le> b \<Longrightarrow> b \<le> a \<Longrightarrow> a = b"
    unfolding less_eq_resource_quantity_def by (drule (1) order_antisym) (cases a; cases b; simp)
  show "a \<le> b \<or> b \<le> a"
    unfolding less_eq_resource_quantity_def by (rule linear)
qed

end

text \<open>The module's own \<open>strings\<close>: sorted and without repetitions.\<close>

definition sorted_strings :: "string list \<Rightarrow> cvalue" where
  "sorted_strings vs = VArray (map VString (remdups_adj (sort vs)))"

definition resources_value :: "resource_quantity list \<Rightarrow> cvalue" where
  "resources_value vs = VArray (map (\<lambda>r. object [
     (''name'', VString (rq_name r)), (''quantity'', VInteger (rq_quantity r))]) (sort vs))"

definition resource_quantity_of :: "resource_quantity list \<Rightarrow> string \<Rightarrow> int option" where
  "resource_quantity_of vs name = map_option rq_quantity (List.find (\<lambda>r. rq_name r = name) vs)"

definition sorted_difference :: "string list \<Rightarrow> string list \<Rightarrow> string list" where
  "sorted_difference required available =
     remdups_adj (sort (filter (\<lambda>v. v \<notin> set available) required))"

definition agent_value :: "logical_agent_version \<Rightarrow> cvalue" where
  "agent_value a = object [(''name'', VString (lav_name a)), (''version'', VInteger (lav_version a))]"

record backend_descriptor =
  bd_backend_id :: string
  bd_revision :: int
  bd_available_for_offers :: bool
  bd_placement :: "string list"
  bd_supported_execution_features :: "string list"
  bd_context_capacity_tokens :: int
  bd_isolation_facts :: "string list"
  bd_resources :: "resource_quantity list"
  bd_launch_semantics :: launch_semantics

definition descriptor_to_value :: "backend_descriptor \<Rightarrow> cvalue" where
  "descriptor_to_value d = object [
     (''backendId'', VString (bd_backend_id d)),
     (''revision'', VString (int_to_string (bd_revision d))),
     (''availableForOffers'', VBool (bd_available_for_offers d)),
     (''placement'', sorted_strings (bd_placement d)),
     (''supportedExecutionFeatures'', sorted_strings (bd_supported_execution_features d)),
     (''contextCapacityTokens'', VInteger (bd_context_capacity_tokens d)),
     (''isolationFacts'', sorted_strings (bd_isolation_facts d)),
     (''resources'', resources_value (bd_resources d)),
     (''launchSemantics'', VString (launch_semantics_as_str (bd_launch_semantics d)))]"

definition descriptor_digest :: "sha256 \<Rightarrow> backend_descriptor \<Rightarrow> digest" where
  "descriptor_digest sha d = value_digest sha (descriptor_to_value d)"

record execution_request =
  rq_task_id :: string
  rq_task_spec_digest :: digest
  rq_task_type :: string
  rq_task_competencies :: "string list"
  rq_agent :: logical_agent_version
  rq_required_execution_features :: "string list"
  rq_min_context_tokens :: int
  rq_placement_constraints :: "string list"
  rq_isolation_requirements :: "string list"
  rq_resource_requirements :: "resource_quantity list"
  rq_required_actions :: "string list"
  rq_configuration :: configuration_binding
  rq_route_policy_digest :: digest
  rq_execution_profile_digest :: digest
  rq_sandbox_profile_digest :: digest
  rq_launch_safety :: launch_safety

definition request_to_value :: "execution_request \<Rightarrow> cvalue" where
  "request_to_value r = object [
     (''taskId'', VString (rq_task_id r)),
     (''taskSpecDigest'', VString (display (rq_task_spec_digest r))),
     (''taskType'', VString (rq_task_type r)),
     (''taskCompetencies'', sorted_strings (rq_task_competencies r)),
     (''agent'', agent_value (rq_agent r)),
     (''requiredExecutionFeatures'', sorted_strings (rq_required_execution_features r)),
     (''minContextTokens'', VInteger (rq_min_context_tokens r)),
     (''placementConstraints'', sorted_strings (rq_placement_constraints r)),
     (''isolationRequirements'', sorted_strings (rq_isolation_requirements r)),
     (''resourceRequirements'', resources_value (rq_resource_requirements r)),
     (''requiredActions'', sorted_strings (rq_required_actions r)),
     (''configuration'', binding_to_value (rq_configuration r)),
     (''routePolicyDigest'', VString (display (rq_route_policy_digest r))),
     (''executionProfileDigest'', VString (display (rq_execution_profile_digest r))),
     (''sandboxProfileDigest'', VString (display (rq_sandbox_profile_digest r))),
     (''launchSafety'', VString (case rq_launch_safety r of
        KeyedRequired \<Rightarrow> ''KEYED_REQUIRED'' | ObservationalAllowed \<Rightarrow> ''OBSERVATIONAL_ALLOWED''))]"

definition request_digest :: "sha256 \<Rightarrow> execution_request \<Rightarrow> digest" where
  "request_digest sha r = value_digest sha (request_to_value r)"

section \<open>Agent resolution\<close>

record resolved_agent =
  ra_identity :: logical_agent_version
  ra_agent :: agent
  ra_route_policy :: route_policy
  ra_sandbox_profile :: sandbox_profile

datatype agent_rejection_reason =
    Disabled
  | NotCurrent
  | UnsupportedTaskType string
  | MissingCompetencies "string list"
  | PinnedOut
  | Excluded
  | PolicyIncompatible message
  | ConfigurationIncompatible message

record agent_rejection =
  aj_agent :: logical_agent_version
  aj_reason :: agent_rejection_reason

record agent_resolution =
  as_eligible :: "resolved_agent list"
  as_rejected :: "agent_rejection list"

datatype agent_resolution_error =
    ConfigurationMismatch digest digest
  | NoEligibleAgent string "agent_rejection list"

definition forbids :: "compiled_configuration \<Rightarrow> string \<Rightarrow> bool" where
  "forbids c action \<longleftrightarrow>
     list_ex (\<lambda>r. ar_action r = action \<and> ar_effect r = Forbid) (az_rules (cf_authorization c))"

definition policy_incompatibility :: "task_spec \<Rightarrow> agent \<Rightarrow> compiled_configuration \<Rightarrow> message option" where
  "policy_incompatibility t a c = (case List.find (forbids c) (ag_actions a) of
     Some action \<Rightarrow> Some (Fmt ''current policy forbids Agent action {action:?}'' [FStr action])
   | None \<Rightarrow> (case List.find (forbids c) (ts_permitted_effects (tk_scope t)) of
       Some eff \<Rightarrow> Some (Fmt ''current policy forbids Task effect {effect:?}'' [FStr eff])
     | None \<Rightarrow> None))"

text \<open>The chain of conditions that decides \<open>reason\<close>.\<close>

definition semantic_rejection ::
    "task_spec \<Rightarrow> compiled_configuration \<Rightarrow> configuration_binding \<Rightarrow> agent \<Rightarrow> agent_rejection_reason option" where
  "semantic_rejection t c b a =
     (let pins = ro_agent_pins (cf_routing c); exclusions = ro_agent_exclusions (cf_routing c);
          missing = sorted_difference (tk_competencies t) (ag_competencies a) in
      if \<not> ag_enabled a then Some Disabled
      else if \<not> ag_current a then Some NotCurrent
      else if tk_task_type t \<notin> set (ag_accepts a) then Some (UnsupportedTaskType (tk_task_type t))
      else if missing \<noteq> [] then Some (MissingCompetencies missing)
      else if pins \<noteq> [] \<and> identity a \<notin> set pins then Some PinnedOut
      else if identity a \<in> set exclusions then Some Excluded
      else (case policy_incompatibility t a c of
          Some detail \<Rightarrow> Some (PolicyIncompatible detail)
        | None \<Rightarrow>
            if cb_activation_sequence b < act_configuration_activation_sequence (tk_acceptance t) then
              Some (ConfigurationIncompatible
                (Fmt ''Task provenance names a future configuration activation'' []))
            else None))"

text \<open>One round of the loop: an Agent becomes eligible or is rejected with a reason.\<close>

definition resolve_agent ::
    "task_spec \<Rightarrow> compiled_configuration \<Rightarrow> configuration_binding \<Rightarrow> agent
      \<Rightarrow> (agent_rejection_reason, resolved_agent) res" where
  "resolve_agent t c b a = (case semantic_rejection t c b a of
     Some reason \<Rightarrow> Inl reason
   | None \<Rightarrow>
       bindR (ok_or (List.find (\<lambda>p. rp_name p = ag_route_policy a) (ro_policies (cf_routing c)))
                (ConfigurationIncompatible (Fmt ''unknown route policy {:?}'' [FStr (ag_route_policy a)]))) (\<lambda>policy.
       bindR (ok_or (List.find (\<lambda>p. sp_name p = ag_sandbox_profile a) (ex_profiles (cf_execution c)))
                (ConfigurationIncompatible (Fmt ''unknown sandbox profile {:?}'' [FStr (ag_sandbox_profile a)]))) (\<lambda>profile.
       bindR (ensure (\<not> list_ex (\<lambda>r. r \<notin> set (sp_guarantees profile)) (ag_sandbox_requirements a))
                (ConfigurationIncompatible (Fmt ''sandbox profile {:?} does not satisfy the Agent requirements''
                  [FStr (sp_name profile)]))) (\<lambda>_.
         Inr \<lparr>ra_identity = identity a, ra_agent = a, ra_route_policy = policy,
              ra_sandbox_profile = profile\<rparr>))))"

definition resolve_agents ::
    "sha256 \<Rightarrow> task_spec \<Rightarrow> compiled_configuration \<Rightarrow> configuration_binding
      \<Rightarrow> (agent_resolution_error, agent_resolution) res" where
  "resolve_agents sha t c b =
     (let actual = revision_digest sha c in
      if actual \<noteq> cb_content_digest b \<or> component_digests_of sha c \<noteq> cb_component_digests b then
        Inl (ConfigurationMismatch (cb_content_digest b) actual)
      else
        (let agents = sort_key identity (cf_agents c);
             eligible = List.map_filter (\<lambda>a. case resolve_agent t c b a of Inr r \<Rightarrow> Some r | Inl _ \<Rightarrow> None) agents;
             rejected = List.map_filter (\<lambda>a. case resolve_agent t c b a of
                 Inl reason \<Rightarrow> Some \<lparr>aj_agent = identity a, aj_reason = reason\<rparr> | Inr _ \<Rightarrow> None) agents
         in if eligible = [] then Inl (NoEligibleAgent (tk_task_type t) rejected)
            else Inr \<lparr>as_eligible = eligible, as_rejected = rejected\<rparr>))"

section \<open>Requests\<close>

datatype request_build_error = RequestConfigurationMismatch

definition build_execution_request ::
    "sha256 \<Rightarrow> string \<Rightarrow> task_spec \<Rightarrow> resolved_agent \<Rightarrow> compiled_configuration \<Rightarrow> configuration_binding
      \<Rightarrow> (request_build_error, execution_request) res" where
  "build_execution_request sha task_id t ra c b =
     (if revision_digest sha c \<noteq> cb_content_digest b \<or> component_digests_of sha c \<noteq> cb_component_digests b
      then Inl RequestConfigurationMismatch
      else Inr \<lparr>
        rq_task_id = task_id,
        rq_task_spec_digest = task_digest sha t,
        rq_task_type = tk_task_type t,
        rq_task_competencies = sort (tk_competencies t),
        rq_agent = ra_identity ra,
        rq_required_execution_features = sort (ag_execution_features (ra_agent ra)),
        rq_min_context_tokens = ag_min_context_tokens (ra_agent ra),
        rq_placement_constraints = [],
        rq_isolation_requirements = sort (ag_sandbox_requirements (ra_agent ra)),
        rq_resource_requirements = [],
        rq_required_actions = sort (ag_actions (ra_agent ra)),
        rq_configuration = b,
        rq_route_policy_digest = route_policy_digest sha (ra_route_policy ra),
        rq_execution_profile_digest = cd_execution_profile (cb_component_digests b),
        rq_sandbox_profile_digest = sandbox_profile_digest sha (ra_sandbox_profile ra),
        rq_launch_safety =
          (if rp_requires_keyed_launch (ra_route_policy ra) then KeyedRequired else ObservationalAllowed)\<rparr>)"

section \<open>Offers and candidates\<close>

record execution_offer =
  of_request_digest :: digest
  of_backend_id :: string
  of_descriptor_revision :: int
  of_descriptor_digest :: digest
  of_supported_execution_features :: "string list"
  of_context_capacity_tokens :: int
  of_placement :: "string list"
  of_isolation_facts :: "string list"
  of_resources :: "resource_quantity list"
  of_launch_semantics :: launch_semantics
  of_offer_reference :: string

definition offer_to_value :: "execution_offer \<Rightarrow> cvalue" where
  "offer_to_value x = object [
     (''requestDigest'', VString (display (of_request_digest x))),
     (''backendId'', VString (of_backend_id x)),
     (''descriptorRevision'', VString (int_to_string (of_descriptor_revision x))),
     (''descriptorDigest'', VString (display (of_descriptor_digest x))),
     (''supportedExecutionFeatures'', sorted_strings (of_supported_execution_features x)),
     (''contextCapacityTokens'', VInteger (of_context_capacity_tokens x)),
     (''placement'', sorted_strings (of_placement x)),
     (''isolationFacts'', sorted_strings (of_isolation_facts x)),
     (''resources'', resources_value (of_resources x)),
     (''launchSemantics'', VString (launch_semantics_as_str (of_launch_semantics x))),
     (''offerReference'', VString (of_offer_reference x))]"

definition offer_digest :: "sha256 \<Rightarrow> execution_offer \<Rightarrow> digest" where
  "offer_digest sha x = value_digest sha (offer_to_value x)"

definition offer_is_stale_against :: "execution_offer \<Rightarrow> backend_descriptor \<Rightarrow> bool" where
  "offer_is_stale_against x d \<longleftrightarrow>
     of_backend_id x \<noteq> bd_backend_id d \<or> of_descriptor_revision x \<noteq> bd_revision d"

record execution_candidate =
  ca_agent :: logical_agent_version
  ca_request_digest :: digest
  ca_offer :: execution_offer
  ca_route_policy :: route_policy
  ca_execution_profile_digest :: digest

definition candidate_digest :: "sha256 \<Rightarrow> execution_candidate \<Rightarrow> digest" where
  "candidate_digest sha x = value_digest sha (object [
     (''agent'', agent_value (ca_agent x)),
     (''requestDigest'', VString (display (ca_request_digest x))),
     (''offerDigest'', VString (display (offer_digest sha (ca_offer x)))),
     (''routePolicyDigest'', VString (display (route_policy_digest sha (ca_route_policy x)))),
     (''executionProfileDigest'', VString (display (ca_execution_profile_digest x)))])"

datatype candidate_rejection =
    BackendDisabled
  | BackendUnavailable
  | BackendMismatch
  | DescriptorRevisionMismatch
  | OfferRequestMismatch
  | MissingExecutionFeatures "string list"
  | ContextCapacityTooSmall int int
  | PlacementIncompatible "string list"
  | IsolationNotProven "string list"
  | ResourceIncompatible string int int
  | LaunchSemanticsMismatch
  | UnsafeLaunchSemantics
  | RoutePolicyMismatch

definition none_missing ::
    "(string list \<Rightarrow> candidate_rejection) \<Rightarrow> string list \<Rightarrow> (candidate_rejection, unit) res" where
  "none_missing err missing = ensure (missing = []) (err missing)"

definition check_quantity ::
    "resource_quantity \<Rightarrow> resource_quantity list \<Rightarrow> (candidate_rejection, unit) res" where
  "check_quantity required offered =
     bindR (ok_or (resource_quantity_of offered (rq_name required))
              (ResourceIncompatible (rq_name required) (rq_quantity required) 0)) (\<lambda>q.
       ensure (rq_quantity required \<le> q)
         (ResourceIncompatible (rq_name required) (rq_quantity required) q))"

definition check_resources ::
    "backend_descriptor \<Rightarrow> execution_offer \<Rightarrow> resource_quantity \<Rightarrow> (candidate_rejection, unit) res" where
  "check_resources d x required =
     bindR (check_quantity required (bd_resources d)) (\<lambda>_. check_quantity required (of_resources x))"

definition validate_execution_candidate ::
    "sha256 \<Rightarrow> execution_request \<Rightarrow> resolved_agent \<Rightarrow> backend_descriptor \<Rightarrow> execution_offer \<Rightarrow> bool
      \<Rightarrow> controller_safety_facts \<Rightarrow> (candidate_rejection, execution_candidate) res" where
  "validate_execution_candidate sha r ra d x backend_enabled safety =
     bindR (ensure backend_enabled BackendDisabled) (\<lambda>_.
     bindR (ensure (bd_available_for_offers d) BackendUnavailable) (\<lambda>_.
     bindR (ensure (bd_backend_id d = of_backend_id x) BackendMismatch) (\<lambda>_.
     bindR (ensure (bd_revision d = of_descriptor_revision x) DescriptorRevisionMismatch) (\<lambda>_.
     bindR (ensure (descriptor_digest sha d = of_descriptor_digest x) DescriptorRevisionMismatch) (\<lambda>_.
     bindR (ensure (request_digest sha r = of_request_digest x) OfferRequestMismatch) (\<lambda>_.
     bindR (ensure (ra_identity ra = rq_agent r \<and>
              route_policy_digest sha (ra_route_policy ra) = rq_route_policy_digest r) RoutePolicyMismatch) (\<lambda>_.
     bindR (none_missing MissingExecutionFeatures
              (sorted_difference (rq_required_execution_features r) (bd_supported_execution_features d))) (\<lambda>_.
     bindR (none_missing MissingExecutionFeatures
              (sorted_difference (rq_required_execution_features r) (of_supported_execution_features x))) (\<lambda>_.
     bindR (ensure (rq_min_context_tokens r \<le> bd_context_capacity_tokens d)
              (ContextCapacityTooSmall (rq_min_context_tokens r) (bd_context_capacity_tokens d))) (\<lambda>_.
     bindR (ensure (rq_min_context_tokens r \<le> of_context_capacity_tokens x)
              (ContextCapacityTooSmall (rq_min_context_tokens r) (of_context_capacity_tokens x))) (\<lambda>_.
     bindR (none_missing PlacementIncompatible
              (sorted_difference (rq_placement_constraints r) (bd_placement d))) (\<lambda>_.
     bindR (none_missing PlacementIncompatible
              (sorted_difference (rq_placement_constraints r) (of_placement x))) (\<lambda>_.
     bindR (none_missing IsolationNotProven
              (filter (\<lambda>q. q \<notin> set (sf_isolation_guarantees safety) \<or> q \<notin> set (bd_isolation_facts d)
                 \<or> q \<notin> set (of_isolation_facts x)) (rq_isolation_requirements r))) (\<lambda>_.
     bindR (ensure (bd_launch_semantics d = of_launch_semantics x) LaunchSemanticsMismatch) (\<lambda>_.
     bindR (ensure (\<not> (rq_launch_safety r = KeyedRequired \<and> of_launch_semantics x \<noteq> KeyedIdempotent))
              UnsafeLaunchSemantics) (\<lambda>_.
     bindR (ensure (\<not> (rq_launch_safety r = ObservationalAllowed \<and> of_launch_semantics x = Observational
              \<and> \<not> sf_observational_launch_safe safety)) UnsafeLaunchSemantics) (\<lambda>_.
     bindR (for_each (check_resources d x) (rq_resource_requirements r)) (\<lambda>_.
       Inr \<lparr>ca_agent = ra_identity ra, ca_request_digest = request_digest sha r, ca_offer = x,
            ca_route_policy = ra_route_policy ra,
            ca_execution_profile_digest = rq_execution_profile_digest r\<rparr>))))))))))))))))))"

section \<open>Selection\<close>

text \<open>The loop over the preference keys of the left policy.\<close>

fun compare_keys :: "string list \<Rightarrow> execution_offer \<Rightarrow> execution_offer \<Rightarrow> ordering" where
  "compare_keys [] l r = Eq"
| "compare_keys (key # keys) l r =
     (let c = (if key = ''contextCapacity'' then
                 cmp (of_context_capacity_tokens r) (of_context_capacity_tokens l) else Eq)
      in if c \<noteq> Eq then c else compare_keys keys l r)"

definition compare_tie :: "execution_candidate \<Rightarrow> execution_candidate \<Rightarrow> ordering" where
  "compare_tie l r =
     (if rp_tie_break (ca_route_policy l) = ''backendId'' then
        cmp (of_backend_id (ca_offer l)) (of_backend_id (ca_offer r))
      else if rp_tie_break (ca_route_policy l) = ''agentId'' then
        cmp (lav_name (ca_agent l), lav_version (ca_agent l)) (lav_name (ca_agent r), lav_version (ca_agent r))
      else Eq)"

type_synonym final_rank_fields = "string \<times> int \<times> string \<times> int \<times> digest"

definition final_rank :: "sha256 \<Rightarrow> execution_candidate \<Rightarrow> final_rank_fields" where
  "final_rank sha x = (lav_name (ca_agent x), lav_version (ca_agent x), of_backend_id (ca_offer x),
     of_descriptor_revision (ca_offer x), offer_digest sha (ca_offer x))"

definition compare_candidates :: "sha256 \<Rightarrow> execution_candidate \<Rightarrow> execution_candidate \<Rightarrow> ordering" where
  "compare_candidates sha l r =
     (let priority = cmp (rp_priority (ca_route_policy r)) (rp_priority (ca_route_policy l)) in
      if priority \<noteq> Eq then priority
      else if rp_name (ca_route_policy l) \<noteq> rp_name (ca_route_policy r) then
        cmp (rp_name (ca_route_policy l)) (rp_name (ca_route_policy r))
      else
        (let keys = compare_keys (rp_ordering (ca_route_policy l)) (ca_offer l) (ca_offer r) in
         if keys \<noteq> Eq then keys
         else (let tie = compare_tie l r in
           if tie \<noteq> Eq then tie else cmp (final_rank sha l) (final_rank sha r))))"

datatype selection_error = NoCandidates

definition select_execution_candidate ::
    "sha256 \<Rightarrow> execution_candidate list \<Rightarrow> (selection_error, execution_candidate) res" where
  "select_execution_candidate sha cs = ok_or (min_by (compare_candidates sha) cs) NoCandidates"

record routing_result =
  rr_task_id :: string
  rr_task_revision :: int
  rr_task_spec_digest :: digest
  rr_configuration :: configuration_binding
  rr_request :: execution_request
  rr_candidate :: execution_candidate

definition routing_is_stale_against :: "routing_result \<Rightarrow> configuration_binding \<Rightarrow> bool" where
  "routing_is_stale_against r current \<longleftrightarrow> \<not> binding_matches (rr_configuration r) current"

section \<open>What resolution decides\<close>

lemma sorted_difference_Nil: "sorted_difference required available = [] \<longleftrightarrow> set required \<subseteq> set available"
proof -
  have "set (sorted_difference required available) = set required - set available"
    by (auto simp: sorted_difference_def)
  then show ?thesis by (metis Diff_eq_empty_iff set_empty)
qed

definition eligible_for :: "task_spec \<Rightarrow> compiled_configuration \<Rightarrow> configuration_binding \<Rightarrow> agent \<Rightarrow> bool" where
  "eligible_for t c b a \<longleftrightarrow>
     ag_enabled a \<and> ag_current a \<and> tk_task_type t \<in> set (ag_accepts a) \<and>
     set (tk_competencies t) \<subseteq> set (ag_competencies a) \<and>
     (ro_agent_pins (cf_routing c) = [] \<or> identity a \<in> set (ro_agent_pins (cf_routing c))) \<and>
     identity a \<notin> set (ro_agent_exclusions (cf_routing c)) \<and>
     (\<forall>x \<in> set (ag_actions a) \<union> set (ts_permitted_effects (tk_scope t)).
        \<lparr>ar_action = x, ar_effect = Forbid\<rparr> \<notin> set (az_rules (cf_authorization c))) \<and>
     act_configuration_activation_sequence (tk_acceptance t) \<le> cb_activation_sequence b"

lemma forbids_iff: "forbids c x \<longleftrightarrow> \<lparr>ar_action = x, ar_effect = Forbid\<rparr> \<in> set (az_rules (cf_authorization c))"
proof
  assume "forbids c x"
  then obtain r where r: "r \<in> set (az_rules (cf_authorization c))" "ar_action r = x" "ar_effect r = Forbid"
    by (auto simp: forbids_def list_ex_iff)
  then have "r = \<lparr>ar_action = x, ar_effect = Forbid\<rparr>" by simp
  with r show "\<lparr>ar_action = x, ar_effect = Forbid\<rparr> \<in> set (az_rules (cf_authorization c))" by simp
next
  assume "\<lparr>ar_action = x, ar_effect = Forbid\<rparr> \<in> set (az_rules (cf_authorization c))"
  then show "forbids c x" unfolding forbids_def list_ex_iff by (rule bexI [rotated]) simp
qed

lemma policy_incompatibility_None:
  "policy_incompatibility t a c = None \<longleftrightarrow>
     (\<forall>x \<in> set (ag_actions a) \<union> set (ts_permitted_effects (tk_scope t)). \<not> forbids c x)"
  by (auto simp: policy_incompatibility_def find_None_iff split: option.splits dest!: find_SomeD)

lemma semantic_rejection_None: "semantic_rejection t c b a = None \<longleftrightarrow> eligible_for t c b a"
  using policy_incompatibility_None [of t a c]
  by (cases "policy_incompatibility t a c")
    (auto simp: semantic_rejection_def eligible_for_def Let_def sorted_difference_Nil not_less forbids_iff)

lemma placeable_lookups:
  assumes "placeable c a"
  obtains policy profile where
    "List.find (\<lambda>p. rp_name p = ag_route_policy a) (ro_policies (cf_routing c)) = Some policy"
    "List.find (\<lambda>p. sp_name p = ag_sandbox_profile a) (ex_profiles (cf_execution c)) = Some profile"
    "set (ag_sandbox_requirements a) \<subseteq> set (sp_guarantees profile)"
proof -
  obtain policy where "List.find (\<lambda>p. rp_name p = ag_route_policy a) (ro_policies (cf_routing c)) = Some policy"
    using assms by (cases "List.find (\<lambda>p. rp_name p = ag_route_policy a) (ro_policies (cf_routing c))")
      (auto simp: placeable_def find_None_iff)
  with that show ?thesis using assms by (auto simp: placeable_def split: option.splits)
qed

text \<open>In a consistent configuration an Agent is refused for semantic reasons only.\<close>

lemma resolve_agent_iff:
  assumes "placeable c a"
  shows "(\<exists>r. resolve_agent t c b a = Inr r) \<longleftrightarrow> eligible_for t c b a"
    and "resolve_agent t c b a = Inr r \<Longrightarrow> ra_agent r = a \<and> ra_identity r = identity a \<and>
      ra_route_policy r \<in> set (ro_policies (cf_routing c)) \<and> rp_name (ra_route_policy r) = ag_route_policy a \<and>
      ra_sandbox_profile r \<in> set (ex_profiles (cf_execution c)) \<and>
      sp_name (ra_sandbox_profile r) = ag_sandbox_profile a \<and>
      set (ag_sandbox_requirements a) \<subseteq> set (sp_guarantees (ra_sandbox_profile r))"
proof -
  obtain policy profile where l:
    "List.find (\<lambda>p. rp_name p = ag_route_policy a) (ro_policies (cf_routing c)) = Some policy"
    "List.find (\<lambda>p. sp_name p = ag_sandbox_profile a) (ex_profiles (cf_execution c)) = Some profile"
    "set (ag_sandbox_requirements a) \<subseteq> set (sp_guarantees profile)"
    using assms by (rule placeable_lookups)
  have "\<not> list_ex (\<lambda>r. r \<notin> set (sp_guarantees profile)) (ag_sandbox_requirements a)"
    using l(3) by (auto simp: list_ex_iff)
  then have eq: "resolve_agent t c b a = (case semantic_rejection t c b a of
      Some reason \<Rightarrow> Inl reason
    | None \<Rightarrow> Inr \<lparr>ra_identity = identity a, ra_agent = a, ra_route_policy = policy,
        ra_sandbox_profile = profile\<rparr>)"
    by (simp add: resolve_agent_def l split: option.splits)
  show "(\<exists>r. resolve_agent t c b a = Inr r) \<longleftrightarrow> eligible_for t c b a"
    using semantic_rejection_None [of t c b a] by (auto simp: eq split: option.splits)
  show "resolve_agent t c b a = Inr r \<Longrightarrow> ra_agent r = a \<and> ra_identity r = identity a \<and>
      ra_route_policy r \<in> set (ro_policies (cf_routing c)) \<and> rp_name (ra_route_policy r) = ag_route_policy a \<and>
      ra_sandbox_profile r \<in> set (ex_profiles (cf_execution c)) \<and>
      sp_name (ra_sandbox_profile r) = ag_sandbox_profile a \<and>
      set (ag_sandbox_requirements a) \<subseteq> set (sp_guarantees (ra_sandbox_profile r))"
    using l find_SomeD [OF l(1)] find_SomeD [OF l(2)] by (auto simp: eq split: option.splits)
qed

lemma map_filter_partition:
  assumes "\<And>x. x \<in> set xs \<Longrightarrow> f x = None \<longleftrightarrow> \<not> P x" and "\<And>x y. x \<in> set xs \<Longrightarrow> f x = Some y \<Longrightarrow> g y = h x"
  shows "map g (List.map_filter f xs) = map h (filter P xs)"
  using assms
proof (induction xs)
  case (Cons x xs)
  then have IH: "map g (List.map_filter f xs) = map h (filter P xs)" by simp
  show ?case
  proof (cases "f x")
    case None
    with Cons.prems(1) [of x] IH show ?thesis by (simp add: map_filter_simps)
  next
    case (Some y)
    with Cons.prems(1) [of x] Cons.prems(2) [of x y] IH show ?thesis by (simp add: map_filter_simps)
  qed
qed (simp add: map_filter_simps)

lemma resolve_agents_eligible:
  assumes "consistent c" and "resolve_agents sha t c b = Inr res"
  shows "map ra_agent (as_eligible res) = filter (eligible_for t c b) (sort_key identity (cf_agents c))"
    and "map aj_agent (as_rejected res) =
      map identity (filter (\<lambda>a. \<not> eligible_for t c b a) (sort_key identity (cf_agents c)))"
proof -
  define agents where "agents = sort_key identity (cf_agents c)"
  have pl: "placeable c a" if "a \<in> set agents" for a
    using that assms(1) by (simp add: agents_def consistent_def)
  have res: "as_eligible res = List.map_filter (\<lambda>a. case resolve_agent t c b a of Inr r \<Rightarrow> Some r | Inl _ \<Rightarrow> None) agents"
    "as_rejected res = List.map_filter (\<lambda>a. case resolve_agent t c b a of
       Inl reason \<Rightarrow> Some \<lparr>aj_agent = identity a, aj_reason = reason\<rparr> | Inr _ \<Rightarrow> None) agents"
    using assms(2) by (auto simp: resolve_agents_def Let_def agents_def split: if_splits)
  have iff: "(\<exists>r. resolve_agent t c b a = Inr r) \<longleftrightarrow> eligible_for t c b a"
    and agent: "resolve_agent t c b a = Inr r \<Longrightarrow> ra_agent r = a" if "a \<in> set agents" for a r
    using resolve_agent_iff [OF pl [OF that], of t b] by auto
  have "map ra_agent (as_eligible res) = map (\<lambda>a. a) (filter (eligible_for t c b) agents)"
    unfolding res
  proof (rule map_filter_partition)
    fix a assume a: "a \<in> set agents"
    show "(case resolve_agent t c b a of Inr r \<Rightarrow> Some r | Inl _ \<Rightarrow> None) = None \<longleftrightarrow> \<not> eligible_for t c b a"
      using iff [OF a] by (cases "resolve_agent t c b a") auto
    fix r assume "(case resolve_agent t c b a of Inr r \<Rightarrow> Some r | Inl _ \<Rightarrow> None) = Some r"
    then show "ra_agent r = a" using agent [OF a] by (cases "resolve_agent t c b a") auto
  qed
  then show "map ra_agent (as_eligible res) = filter (eligible_for t c b) (sort_key identity (cf_agents c))"
    by (simp add: agents_def)
  show "map aj_agent (as_rejected res) =
      map identity (filter (\<lambda>a. \<not> eligible_for t c b a) (sort_key identity (cf_agents c)))"
    unfolding res agents_def [symmetric]
  proof (rule map_filter_partition)
    fix a assume a: "a \<in> set agents"
    show "(case resolve_agent t c b a of
         Inl reason \<Rightarrow> Some \<lparr>aj_agent = identity a, aj_reason = reason\<rparr> | Inr _ \<Rightarrow> None) = None
       \<longleftrightarrow> \<not> \<not> eligible_for t c b a"
      using iff [OF a] by (cases "resolve_agent t c b a") auto
    fix j assume "(case resolve_agent t c b a of
         Inl reason \<Rightarrow> Some \<lparr>aj_agent = identity a, aj_reason = reason\<rparr> | Inr _ \<Rightarrow> None) = Some j"
    then show "aj_agent j = identity a" by (cases "resolve_agent t c b a") auto
  qed
qed

lemma map_filter_Nil_iff: "List.map_filter f xs = [] \<longleftrightarrow> (\<forall>x \<in> set xs. f x = None)"
  by (induction xs) (auto simp: map_filter_simps split: option.splits)

lemma resolve_agents_succeeds:
  assumes "consistent c" and "cb_content_digest b = revision_digest sha c"
    and "cb_component_digests b = component_digests_of sha c"
  shows "(\<exists>res. resolve_agents sha t c b = Inr res) \<longleftrightarrow> (\<exists>a \<in> set (cf_agents c). eligible_for t c b a)"
proof -
  have pl: "placeable c a" if "a \<in> set (cf_agents c)" for a
    using that assms(1) by (simp add: consistent_def)
  have "(case resolve_agent t c b a of Inr r \<Rightarrow> Some r | Inl _ \<Rightarrow> None) = None \<longleftrightarrow> \<not> eligible_for t c b a"
    if "a \<in> set (cf_agents c)" for a
    using resolve_agent_iff(1) [OF pl [OF that], of t b] by (auto split: sum.splits)
  then have "List.map_filter (\<lambda>a. case resolve_agent t c b a of Inr r \<Rightarrow> Some r | Inl _ \<Rightarrow> None)
      (sort_key identity (cf_agents c)) = [] \<longleftrightarrow> (\<forall>a \<in> set (cf_agents c). \<not> eligible_for t c b a)"
    by (simp add: map_filter_Nil_iff)
  then show ?thesis using assms(2,3) by (auto simp: resolve_agents_def Let_def)
qed

section \<open>What candidate validation decides\<close>

text \<open>The offered quantity of a resource, when one is offered, covers the requirement.\<close>

definition quantity_covers :: "resource_quantity list \<Rightarrow> resource_quantity \<Rightarrow> bool" where
  "quantity_covers offered required \<longleftrightarrow>
     (case resource_quantity_of offered (rq_name required) of None \<Rightarrow> False | Some q \<Rightarrow> rq_quantity required \<le> q)"

definition offer_answers :: "sha256 \<Rightarrow> execution_request \<Rightarrow> backend_descriptor \<Rightarrow> execution_offer \<Rightarrow> bool" where
  "offer_answers sha r d x \<longleftrightarrow>
     bd_available_for_offers d \<and> \<not> offer_is_stale_against x d \<and>
     of_descriptor_digest x = descriptor_digest sha d \<and> of_request_digest x = request_digest sha r"

definition capacity_suffices :: "execution_request \<Rightarrow> backend_descriptor \<Rightarrow> execution_offer \<Rightarrow> bool" where
  "capacity_suffices r d x \<longleftrightarrow>
     set (rq_required_execution_features r) \<subseteq>
       set (bd_supported_execution_features d) \<inter> set (of_supported_execution_features x) \<and>
     rq_min_context_tokens r \<le> bd_context_capacity_tokens d \<and>
     rq_min_context_tokens r \<le> of_context_capacity_tokens x \<and>
     set (rq_placement_constraints r) \<subseteq> set (bd_placement d) \<inter> set (of_placement x) \<and>
     (\<forall>q \<in> set (rq_resource_requirements r). quantity_covers (bd_resources d) q \<and> quantity_covers (of_resources x) q)"

definition launch_is_safe ::
    "execution_request \<Rightarrow> backend_descriptor \<Rightarrow> execution_offer \<Rightarrow> controller_safety_facts \<Rightarrow> bool" where
  "launch_is_safe r d x safety \<longleftrightarrow>
     bd_launch_semantics d = of_launch_semantics x \<and>
     (of_launch_semantics x = KeyedIdempotent
      \<or> rq_launch_safety r = ObservationalAllowed \<and> sf_observational_launch_safe safety)"

definition isolation_proven ::
    "execution_request \<Rightarrow> backend_descriptor \<Rightarrow> execution_offer \<Rightarrow> controller_safety_facts \<Rightarrow> bool" where
  "isolation_proven r d x safety \<longleftrightarrow>
     set (rq_isolation_requirements r) \<subseteq>
       set (sf_isolation_guarantees safety) \<inter> set (bd_isolation_facts d) \<inter> set (of_isolation_facts x)"

lemma none_missing_iff [res_simps]: "none_missing err missing = Inr u \<longleftrightarrow> missing = []"
  by (simp add: none_missing_def res_simps)

lemma check_quantity_iff: "check_quantity required offered = Inr u \<longleftrightarrow> quantity_covers offered required"
  by (auto simp: check_quantity_def quantity_covers_def res_simps split: option.splits)

lemma check_resources_iff [res_simps]:
  "check_resources d x q = Inr u \<longleftrightarrow> quantity_covers (bd_resources d) q \<and> quantity_covers (of_resources x) q"
  by (simp add: check_resources_def res_simps check_quantity_iff)

lemma filter_isolation_Nil:
  "filter (\<lambda>q. q \<notin> A \<or> q \<notin> B \<or> q \<notin> C) qs = [] \<longleftrightarrow> set qs \<subseteq> A \<inter> B \<inter> C"
  by (auto simp: filter_empty_conv)

lemma validate_candidate_iff:
  "validate_execution_candidate sha r ra d x enabled safety = Inr ca \<longleftrightarrow>
     enabled \<and> offer_answers sha r d x \<and> ra_identity ra = rq_agent r \<and>
     route_policy_digest sha (ra_route_policy ra) = rq_route_policy_digest r \<and>
     capacity_suffices r d x \<and> isolation_proven r d x safety \<and> launch_is_safe r d x safety \<and>
     ca = \<lparr>ca_agent = ra_identity ra, ca_request_digest = request_digest sha r, ca_offer = x,
           ca_route_policy = ra_route_policy ra,
           ca_execution_profile_digest = rq_execution_profile_digest r\<rparr>"
proof -
  have safe: "launch_is_safe r d x safety \<longleftrightarrow>
      bd_launch_semantics d = of_launch_semantics x \<and>
      \<not> (rq_launch_safety r = KeyedRequired \<and> of_launch_semantics x \<noteq> KeyedIdempotent) \<and>
      \<not> (rq_launch_safety r = ObservationalAllowed \<and> of_launch_semantics x = Observational \<and>
         \<not> sf_observational_launch_safe safety)"
    unfolding launch_is_safe_def by (cases "rq_launch_safety r"; cases "of_launch_semantics x") auto
  show ?thesis
    unfolding validate_execution_candidate_def offer_answers_def capacity_suffices_def safe
      isolation_proven_def offer_is_stale_against_def
    by (simp only: res_simps sorted_difference_Nil filter_isolation_Nil le_inf_iff simp_thms sum.inject
        de_Morgan_disj not_not) (rule iffI; elim conjE; intro conjI; (assumption | rule sym, assumption | blast))
qed

section \<open>Selection is by rank\<close>

definition key_rank :: "string list \<Rightarrow> execution_offer \<Rightarrow> int list" where
  "key_rank keys x =
     map (\<lambda>key. if key = ''contextCapacity'' then - of_context_capacity_tokens x else 0) keys"

definition tie_rank :: "execution_candidate \<Rightarrow> string \<times> int" where
  "tie_rank x =
     (if rp_tie_break (ca_route_policy x) = ''backendId'' then (of_backend_id (ca_offer x), 0)
      else if rp_tie_break (ca_route_policy x) = ''agentId'' then (lav_name (ca_agent x), lav_version (ca_agent x))
      else ([], 0))"

definition candidate_rank ::
    "sha256 \<Rightarrow> execution_candidate \<Rightarrow> int \<times> string \<times> int list \<times> (string \<times> int) \<times> final_rank_fields" where
  "candidate_rank sha x = (- rp_priority (ca_route_policy x), rp_name (ca_route_policy x),
     key_rank (rp_ordering (ca_route_policy x)) (ca_offer x), tie_rank x, final_rank sha x)"

text \<open>Candidates of one configuration: a policy name determines the policy.\<close>

definition one_policy_per_name :: "execution_candidate set \<Rightarrow> bool" where
  "one_policy_per_name A \<longleftrightarrow> (\<forall>x \<in> A. \<forall>y \<in> A.
     rp_name (ca_route_policy x) = rp_name (ca_route_policy y) \<longrightarrow> ca_route_policy x = ca_route_policy y)"

lemma compare_keys_rank: "compare_keys keys l r = cmp (key_rank keys l) (key_rank keys r)"
  by (induction keys) (auto simp: key_rank_def cmp_Cons cmp_minus Let_def)

lemma compare_tie_rank:
  "ca_route_policy l = ca_route_policy r \<Longrightarrow> compare_tie l r = cmp (tie_rank l) (tie_rank r)"
  by (auto simp: compare_tie_def tie_rank_def cmp_pair)

lemma compare_candidates_rank:
  assumes "rp_name (ca_route_policy l) = rp_name (ca_route_policy r) \<Longrightarrow> ca_route_policy l = ca_route_policy r"
  shows "compare_candidates sha l r = cmp (candidate_rank sha l) (candidate_rank sha r)"
proof (cases "rp_name (ca_route_policy l) = rp_name (ca_route_policy r)")
  case True
  from assms [OF True] show ?thesis
    by (simp add: compare_candidates_def candidate_rank_def cmp_pair compare_keys_rank
        compare_tie_rank Let_def del: cmp_simps)
next
  case False
  then show ?thesis
    by (simp add: compare_candidates_def candidate_rank_def cmp_pair cmp_minus Let_def)
qed

interpretation selection: key_comparator "compare_candidates sha" "candidate_rank sha" one_policy_per_name for sha
  by unfold_locales (rule compare_candidates_rank, auto simp: one_policy_per_name_def)

lemma select_Inr_iff: "select_execution_candidate sha cs = Inr c \<longleftrightarrow> min_by (compare_candidates sha) cs = Some c"
  by (simp add: select_execution_candidate_def res_simps)

lemma select_none_iff: "select_execution_candidate sha cs = Inl NoCandidates \<longleftrightarrow> cs = []"
  by (cases cs) (simp_all add: select_execution_candidate_def)

lemma select_least:
  assumes "one_policy_per_name (set cs)" and "select_execution_candidate sha cs = Inr c"
  shows "c \<in> set cs \<and> (\<forall>d \<in> set cs. candidate_rank sha c \<le> candidate_rank sha d)"
  using selection.min_by_least [OF assms(1)] assms(2) by (simp add: select_Inr_iff)

lemma select_order_independent:
  assumes "one_policy_per_name (set cs)" and "set cs = set ds"
    and "select_execution_candidate sha cs = Inr c" and "select_execution_candidate sha ds = Inr d"
  shows "ca_agent c = ca_agent d \<and> ca_route_policy c = ca_route_policy d \<and>
    of_backend_id (ca_offer c) = of_backend_id (ca_offer d) \<and>
    offer_digest sha (ca_offer c) = offer_digest sha (ca_offer d)"
proof -
  have rank: "candidate_rank sha c = candidate_rank sha d"
    using selection.min_by_rank_set [OF assms(1,2)] assms(3,4) by (simp add: select_Inr_iff)
  have "c \<in> set cs" using select_least [OF assms(1,3)] by simp
  moreover have "d \<in> set cs" using select_least [of ds sha d] assms by simp
  ultimately have "ca_route_policy c = ca_route_policy d"
    using rank assms(1) by (auto simp: one_policy_per_name_def candidate_rank_def)
  with rank show ?thesis
    by (cases "ca_agent c"; cases "ca_agent d") (simp add: candidate_rank_def final_rank_def)
qed

end
