(* ===== verification/Scheduling.thy ===== *)
theory Scheduling
  imports Execution
begin

text \<open>
  The scheduler vocabulary, the deterministic service order, and the immutable records a
  Run freezes (\<^verbatim>\<open>crates/pantheon-core/src/scheduling.rs\<close>), with the attempt-lineage
  words of \<^verbatim>\<open>crates/pantheon-core/src/attempt.rs\<close>.
\<close>

section \<open>Dispatch mode, observations and launch contact\<close>

datatype dispatch_mode = DRunning | DPaused

fun dispatch_mode_as_str :: "dispatch_mode \<Rightarrow> string" where
  "dispatch_mode_as_str DRunning = ''RUNNING''"
| "dispatch_mode_as_str DPaused = ''PAUSED''"

definition dispatch_mode_parse :: "string \<Rightarrow> dispatch_mode option" where
  "dispatch_mode_parse s =
     (if s = ''RUNNING'' then Some DRunning else if s = ''PAUSED'' then Some DPaused else None)"

interpretation dispatch_mode: wire_enum dispatch_mode_as_str dispatch_mode_parse
proof
  fix x show "dispatch_mode_parse (dispatch_mode_as_str x) = Some x"
    by (cases x) (simp_all add: dispatch_mode_parse_def)
next
  fix s x assume "dispatch_mode_parse s = Some x"
  then show "s = dispatch_mode_as_str x" by (auto simp: dispatch_mode_parse_def split: if_splits)
qed

datatype observation = ObsAbsent | ObsStarting | ObsRunning | ObsExited | ObsUnknown

fun observation_as_str :: "observation \<Rightarrow> string" where
  "observation_as_str ObsAbsent = ''ABSENT''"
| "observation_as_str ObsStarting = ''STARTING''"
| "observation_as_str ObsRunning = ''RUNNING''"
| "observation_as_str ObsExited = ''EXITED''"
| "observation_as_str ObsUnknown = ''UNKNOWN''"

definition observation_parse :: "string \<Rightarrow> observation option" where
  "observation_parse s =
     (if s = ''ABSENT'' then Some ObsAbsent
      else if s = ''STARTING'' then Some ObsStarting
      else if s = ''RUNNING'' then Some ObsRunning
      else if s = ''EXITED'' then Some ObsExited
      else if s = ''UNKNOWN'' then Some ObsUnknown
      else None)"

interpretation observation: wire_enum observation_as_str observation_parse
proof
  fix x show "observation_parse (observation_as_str x) = Some x"
    by (cases x) (simp_all add: observation_parse_def)
next
  fix s x assume "observation_parse s = Some x"
  then show "s = observation_as_str x" by (auto simp: observation_parse_def split: if_splits)
qed

datatype launch_contact_state = NotContacted | ContactMayHaveOccurred

fun launch_contact_as_str :: "launch_contact_state \<Rightarrow> string" where
  "launch_contact_as_str NotContacted = ''NOT_CONTACTED''"
| "launch_contact_as_str ContactMayHaveOccurred = ''CONTACT_MAY_HAVE_OCCURRED''"

definition launch_contact_parse :: "string \<Rightarrow> launch_contact_state option" where
  "launch_contact_parse s =
     (if s = ''NOT_CONTACTED'' then Some NotContacted
      else if s = ''CONTACT_MAY_HAVE_OCCURRED'' then Some ContactMayHaveOccurred else None)"

interpretation launch_contact: wire_enum launch_contact_as_str launch_contact_parse
proof
  fix x show "launch_contact_parse (launch_contact_as_str x) = Some x"
    by (cases x) (simp_all add: launch_contact_parse_def)
next
  fix s x assume "launch_contact_parse s = Some x"
  then show "s = launch_contact_as_str x" by (auto simp: launch_contact_parse_def split: if_splits)
qed

datatype suppression = OperatorPause | ConfigurationUnavailable | SlotHeld

section \<open>Service order\<close>

record goal_fairness =
  gf_goal_id :: string
  gf_last_served_sequence :: "int option"

record schedulable_task =
  st_task_id :: string
  st_goal_id :: string
  st_eligible_since :: int

type_synonym service_key_fields = "int \<times> string \<times> int \<times> string"

text \<open>The decision record of one Task; a Goal without a row counts as never served.\<close>

definition service_key :: "goal_fairness list \<Rightarrow> schedulable_task \<Rightarrow> service_key_fields" where
  "service_key goals t =
     (let served = Option.bind (List.find (\<lambda>g. gf_goal_id g = st_goal_id t) goals) gf_last_served_sequence
      in (case served of None \<Rightarrow> i64_min | Some n \<Rightarrow> n, st_goal_id t, st_eligible_since t, st_task_id t))"

definition service_order :: "goal_fairness list \<Rightarrow> schedulable_task list \<Rightarrow> (string \<times> string) list" where
  "service_order goals tasks =
     map (\<lambda>(_, goal_id, _, task_id). (goal_id, task_id)) (sort (map (service_key goals) tasks))"

definition select_service :: "goal_fairness list \<Rightarrow> schedulable_task list \<Rightarrow> (string \<times> string) option" where
  "select_service goals tasks = (case service_order goals tasks of [] \<Rightarrow> None | p # _ \<Rightarrow> Some p)"

section \<open>The frozen records\<close>

record execution_binding =
  eb_task_id :: string
  eb_agent :: logical_agent_version
  eb_request_digest :: digest
  eb_offer_digest :: digest
  eb_backend_id :: string
  eb_descriptor_revision :: int
  eb_descriptor_digest :: digest
  eb_execution_profile_digest :: digest
  eb_sandbox_profile_digest :: digest
  eb_route_policy_digest :: digest
  eb_configuration_activation_sequence :: int
  eb_configuration_content_digest :: digest
  eb_component_digests :: component_digests

text \<open>\<open>i64::try_from(u64).unwrap_or(i64::MAX)\<close>.\<close>

definition u64_saturating_i64 :: "int \<Rightarrow> int" where
  "u64_saturating_i64 n = (if is_i64 n then n else i64_max)"

definition binding_value :: "execution_binding \<Rightarrow> cvalue" where
  "binding_value b = object [
     (''taskId'', VString (eb_task_id b)),
     (''agent'', agent_value (eb_agent b)),
     (''requestDigest'', VString (display (eb_request_digest b))),
     (''offerDigest'', VString (display (eb_offer_digest b))),
     (''backendId'', VString (eb_backend_id b)),
     (''descriptorRevision'', VInteger (u64_saturating_i64 (eb_descriptor_revision b))),
     (''descriptorDigest'', VString (display (eb_descriptor_digest b))),
     (''executionProfileDigest'', VString (display (eb_execution_profile_digest b))),
     (''sandboxProfileDigest'', VString (display (eb_sandbox_profile_digest b))),
     (''routePolicyDigest'', VString (display (eb_route_policy_digest b))),
     (''configurationActivationSequence'', VInteger (eb_configuration_activation_sequence b)),
     (''configurationContentDigest'', VString (display (eb_configuration_content_digest b))),
     (''componentDigests'', component_digests_value (eb_component_digests b))]"

definition binding_digest :: "sha256 \<Rightarrow> execution_binding \<Rightarrow> digest" where
  "binding_digest sha b = value_digest sha (binding_value b)"

record context_source_snapshot =
  cs_task_spec_digest :: digest
  cs_goal_id :: string
  cs_goal_revision :: int
  cs_graph_revision :: int
  cs_agent :: logical_agent_version
  cs_configuration_activation_sequence :: int
  cs_context_policy_digest :: digest
  cs_agent_soul_digest :: digest
  cs_agent_behavior_digest :: digest
  cs_workspace_id :: string
  cs_workspace_resolved_base :: string

definition snapshot_to_value :: "context_source_snapshot \<Rightarrow> cvalue" where
  "snapshot_to_value s = object [
     (''taskSpecDigest'', VString (display (cs_task_spec_digest s))),
     (''goalId'', VString (cs_goal_id s)),
     (''goalRevision'', VInteger (cs_goal_revision s)),
     (''graphRevision'', VInteger (cs_graph_revision s)),
     (''agent'', agent_value (cs_agent s)),
     (''configurationActivationSequence'', VInteger (cs_configuration_activation_sequence s)),
     (''contextPolicyDigest'', VString (display (cs_context_policy_digest s))),
     (''agentSoulDigest'', VString (display (cs_agent_soul_digest s))),
     (''agentBehaviorDigest'', VString (display (cs_agent_behavior_digest s))),
     (''workspaceId'', VString (cs_workspace_id s)),
     (''workspaceResolvedBase'', VString (cs_workspace_resolved_base s))]"

definition snapshot_digest :: "sha256 \<Rightarrow> context_source_snapshot \<Rightarrow> digest" where
  "snapshot_digest sha s = value_digest sha (snapshot_to_value s)"

datatype snapshot_decode_error = SnapshotDecodeError message

definition snapshot_string :: "cvalue \<Rightarrow> string \<Rightarrow> (snapshot_decode_error, string) res" where
  "snapshot_string v name = (case get v name of
     Some (VString s) \<Rightarrow> Inr s
   | Some other \<Rightarrow> Inl (SnapshotDecodeError
       (Fmt ''{name} is not a string (found {})'' [FStr name, FStr (kind other)]))
   | None \<Rightarrow> Inl (SnapshotDecodeError (Fmt ''missing {name}'' [FStr name])))"

definition snapshot_integer :: "cvalue \<Rightarrow> string \<Rightarrow> (snapshot_decode_error, int) res" where
  "snapshot_integer v name = (case get v name of
     Some (VInteger n) \<Rightarrow> Inr n
   | Some other \<Rightarrow> Inl (SnapshotDecodeError
       (Fmt ''{name} is not an integer (found {})'' [FStr name, FStr (kind other)]))
   | None \<Rightarrow> Inl (SnapshotDecodeError (Fmt ''missing {name}'' [FStr name])))"

definition snapshot_digest_field :: "cvalue \<Rightarrow> string \<Rightarrow> (snapshot_decode_error, digest) res" where
  "snapshot_digest_field v name =
     bindR (snapshot_string v name) (\<lambda>s.
       ok_or (from_display s) (SnapshotDecodeError (Fmt ''{name} is not a sha256 digest'' [FStr name])))"

definition snapshot_agent :: "cvalue \<Rightarrow> (snapshot_decode_error, logical_agent_version) res" where
  "snapshot_agent v =
     bindR (ok_or (get v ''agent'') (SnapshotDecodeError (Fmt ''missing agent'' []))) (\<lambda>agent.
       (case (get agent ''name'', get agent ''version'') of
          (Some (VString name), Some (VInteger version)) \<Rightarrow>
            bindR (ok_or (u32_try_from version) (SnapshotDecodeError
                     (Fmt ''agent version does not fit a 32-bit number'' [])))
              (\<lambda>version'. Inr (LogicalAgentVersion name version'))
        | _ \<Rightarrow> Inl (SnapshotDecodeError (Fmt ''malformed agent identity'' []))))"

definition snapshot_of_value :: "cvalue \<Rightarrow> (snapshot_decode_error, context_source_snapshot) res" where
  "snapshot_of_value v =
     bindR (snapshot_agent v) (\<lambda>agent.
     bindR (snapshot_digest_field v ''taskSpecDigest'') (\<lambda>task_spec.
     bindR (snapshot_string v ''goalId'') (\<lambda>goal_id.
     bindR (snapshot_integer v ''goalRevision'') (\<lambda>goal_revision.
     bindR (snapshot_integer v ''graphRevision'') (\<lambda>graph_revision.
     bindR (snapshot_integer v ''configurationActivationSequence'') (\<lambda>sequence.
     bindR (snapshot_digest_field v ''contextPolicyDigest'') (\<lambda>context_policy.
     bindR (snapshot_digest_field v ''agentSoulDigest'') (\<lambda>soul.
     bindR (snapshot_digest_field v ''agentBehaviorDigest'') (\<lambda>behavior.
     bindR (snapshot_string v ''workspaceId'') (\<lambda>workspace_id.
     bindR (snapshot_string v ''workspaceResolvedBase'') (\<lambda>workspace_base.
       Inr \<lparr>cs_task_spec_digest = task_spec, cs_goal_id = goal_id, cs_goal_revision = goal_revision,
            cs_graph_revision = graph_revision, cs_agent = agent,
            cs_configuration_activation_sequence = sequence,
            cs_context_policy_digest = context_policy, cs_agent_soul_digest = soul,
            cs_agent_behavior_digest = behavior, cs_workspace_id = workspace_id,
            cs_workspace_resolved_base = workspace_base\<rparr>)))))))))))"

definition snapshot_parse_error :: "parse_error \<Rightarrow> snapshot_decode_error" where
  "snapshot_parse_error e = SnapshotDecodeError (parse_error_display e)"

definition snapshot_from_canonical_json :: "string \<Rightarrow> (snapshot_decode_error, context_source_snapshot) res" where
  "snapshot_from_canonical_json s = decode_text snapshot_parse_error snapshot_of_value s"

section \<open>The stored snapshot\<close>

definition wf_snapshot :: "context_source_snapshot \<Rightarrow> bool" where
  "wf_snapshot s \<longleftrightarrow> wf_digest (cs_task_spec_digest s) \<and> utf8_valid (cs_goal_id s) \<and>
     is_i64 (cs_goal_revision s) \<and> is_i64 (cs_graph_revision s) \<and>
     utf8_valid (lav_name (cs_agent s)) \<and> is_u32 (lav_version (cs_agent s)) \<and>
     is_i64 (cs_configuration_activation_sequence s) \<and> wf_digest (cs_context_policy_digest s) \<and>
     wf_digest (cs_agent_soul_digest s) \<and> wf_digest (cs_agent_behavior_digest s) \<and>
     utf8_valid (cs_workspace_id s) \<and> utf8_valid (cs_workspace_resolved_base s)"

lemma wf_agent_value: "utf8_valid (lav_name a) \<Longrightarrow> is_u32 (lav_version a) \<Longrightarrow> wf_value (agent_value a)"
  by (simp add: agent_value_def utf8_valid_literal is_u32_i64)

lemma wf_snapshot_to_value: "wf_snapshot s \<Longrightarrow> wf_value (snapshot_to_value s)"
  by (simp add: wf_snapshot_def snapshot_to_value_def utf8_valid_literal utf8_valid_display wf_agent_value)

lemma snapshot_field_simps [simp]:
  "get v name = Some (VString s) \<Longrightarrow> snapshot_string v name = Inr s"
  "get v name = Some (VInteger n) \<Longrightarrow> snapshot_integer v name = Inr n"
  "get v name = Some (VString (display d)) \<Longrightarrow> wf_digest d \<Longrightarrow> snapshot_digest_field v name = Inr d"
  by (simp_all add: snapshot_string_def snapshot_integer_def snapshot_digest_field_def from_display_display)

lemma snapshot_agent_value:
  "get v ''agent'' = Some (agent_value a) \<Longrightarrow> is_u32 (lav_version a) \<Longrightarrow> snapshot_agent v = Inr a"
  by (simp add: snapshot_agent_def agent_value_def get_object u32_try_from_def)

lemma snapshot_of_to_value: "wf_snapshot s \<Longrightarrow> snapshot_of_value (snapshot_to_value s) = Inr s"
  by (simp add: wf_snapshot_def snapshot_of_value_def snapshot_to_value_def get_object snapshot_agent_value)

interpretation snapshot_codec: canonical_codec snapshot_to_value snapshot_of_value wf_snapshot snapshot_parse_error
  by unfold_locales (simp_all add: wf_snapshot_to_value snapshot_of_to_value)

section \<open>Fairness of the service order\<close>

lemma service_order_mset:
  "mset (service_order goals tasks) = mset (map (\<lambda>t. (st_goal_id t, st_task_id t)) tasks)"
proof -
  have "mset (service_order goals tasks) =
      mset (map (\<lambda>(_, goal_id, _, task_id). (goal_id, task_id)) (map (service_key goals) tasks))"
    unfolding service_order_def mset_map by simp
  then show ?thesis by (simp add: service_key_def Let_def comp_def case_prod_beta)
qed

lemma service_order_input_order:
  assumes "mset tasks = mset tasks'" and "mset goals = mset goals'" and "distinct (map gf_goal_id goals)"
  shows "service_order goals tasks = service_order goals' tasks'"
proof -
  have d': "distinct (map gf_goal_id goals')"
    using assms(2,3) by (metis mset_eq_imp_distinct_iff mset_map)
  have find: "List.find (\<lambda>g. gf_goal_id g = k) gs = map_of (map (\<lambda>g. (gf_goal_id g, g)) gs) k" for k gs
    by (induction gs) auto
  have "set (map (\<lambda>g. (gf_goal_id g, g)) goals) = set (map (\<lambda>g. (gf_goal_id g, g)) goals')"
    using mset_eq_setD [OF assms(2)] by simp
  then have "map_of (map (\<lambda>g. (gf_goal_id g, g)) goals) = map_of (map (\<lambda>g. (gf_goal_id g, g)) goals')"
    using assms(3) d' by (subst map_of_inject_set) (simp_all add: comp_def)
  then have "service_key goals = service_key goals'" by (intro ext) (simp add: service_key_def find)
  moreover have "mset (map (service_key goals') tasks) = mset (map (service_key goals') tasks')"
    using assms(1) by simp
  from sort_mset [OF this] have "sort (map (service_key goals') tasks) = sort (map (service_key goals') tasks')" .
  ultimately show ?thesis unfolding service_order_def by simp
qed

text \<open>The position of a Goal, and the position after it was charged a service sequence.\<close>

definition served :: "goal_fairness list \<Rightarrow> string \<Rightarrow> int" where
  "served goals goal_id =
     (case Option.bind (List.find (\<lambda>g. gf_goal_id g = goal_id) goals) gf_last_served_sequence of
        None \<Rightarrow> i64_min | Some n \<Rightarrow> n)"

definition charge :: "goal_fairness list \<Rightarrow> string \<Rightarrow> int \<Rightarrow> goal_fairness list" where
  "charge goals goal_id n =
     (if list_ex (\<lambda>g. gf_goal_id g = goal_id) goals
      then map (\<lambda>g. if gf_goal_id g = goal_id then g\<lparr>gf_last_served_sequence := Some n\<rparr> else g) goals
      else goals @ [\<lparr>gf_goal_id = goal_id, gf_last_served_sequence = Some n\<rparr>])"

lemma find_charge:
  "List.find (\<lambda>g. gf_goal_id g = k)
     (map (\<lambda>g. if gf_goal_id g = goal_id then g\<lparr>gf_last_served_sequence := Some n\<rparr> else g) goals) =
   map_option (\<lambda>g. if k = goal_id then g\<lparr>gf_last_served_sequence := Some n\<rparr> else g)
     (List.find (\<lambda>g. gf_goal_id g = k) goals)"
  by (induction goals) auto

lemma served_charge: "served (charge goals goal_id n) k = (if k = goal_id then n else served goals k)"
proof (cases "list_ex (\<lambda>g. gf_goal_id g = goal_id) goals")
  case True
  then obtain g where "List.find (\<lambda>g. gf_goal_id g = goal_id) goals = Some g"
    by (cases "List.find (\<lambda>g. gf_goal_id g = goal_id) goals") (auto simp: find_None_iff list_ex_iff)
  with True show ?thesis
    by (auto simp: served_def charge_def find_charge option.map_ident)
next
  case False
  then have "List.find (\<lambda>g. gf_goal_id g = goal_id) goals = None"
    by (auto simp: find_None_iff list_ex_iff)
  with False show ?thesis
    by (auto simp: served_def charge_def find_append split: option.splits)
qed

lemma service_key_served:
  "service_key goals t = (served goals (st_goal_id t), st_goal_id t, st_eligible_since t, st_task_id t)"
  by (simp add: service_key_def served_def Let_def)

lemma select_service_Some:
  assumes "select_service goals tasks = Some (g, t)"
  obtains x where "x \<in> set tasks" and "st_goal_id x = g" and "st_task_id x = t"
    and "\<forall>y \<in> set tasks. service_key goals x \<le> service_key goals y"
proof -
  obtain k ks where k: "sort (map (service_key goals) tasks) = k # ks"
    using assms by (cases "sort (map (service_key goals) tasks)")
      (auto simp: select_service_def service_order_def)
  have "k \<in> set (map (service_key goals) tasks)" using k by (metis list.set_intros(1) set_sort)
  then obtain x where x: "x \<in> set tasks" "k = service_key goals x" by auto
  have "\<forall>z \<in> set (k # ks). k \<le> z" using sorted_sort [of "map (service_key goals) tasks"] k by simp
  then have "\<forall>y \<in> set tasks. k \<le> service_key goals y"
    using k by (metis (no_types, lifting) image_eqI list.set_map set_sort)
  moreover have "g = st_goal_id x" "t = st_task_id x"
    using assms k x(2) by (simp_all add: select_service_def service_order_def service_key_served)
  ultimately show ?thesis using that x by simp
qed

lemma select_service_None: "select_service goals tasks = None \<longleftrightarrow> tasks = []"
  by (cases "sort (map (service_key goals) tasks)")
    (auto simp: select_service_def service_order_def dest: arg_cong [where f = set])

lemma select_least_served:
  assumes "select_service goals tasks = Some (g, t)" and "y \<in> set tasks"
  shows "served goals g \<le> served goals (st_goal_id y)"
proof -
  obtain x where "st_goal_id x = g" "\<forall>y \<in> set tasks. service_key goals x \<le> service_key goals y"
    using assms(1) by (rule select_service_Some)
  then have "service_key goals x \<le> service_key goals y" using assms(2) by simp
  then show ?thesis using \<open>st_goal_id x = g\<close> by (auto simp: service_key_served less_eq_prod_def)
qed

text \<open>
  Rounds of service: each round selects from the Tasks eligible then and charges the
  selected Goal the next sequence number.
\<close>

fun serve_rounds :: "goal_fairness list \<Rightarrow> int \<Rightarrow> schedulable_task list list \<Rightarrow> string list" where
  "serve_rounds goals n [] = []"
| "serve_rounds goals n (tasks # rounds) = (case select_service goals tasks of
     None \<Rightarrow> serve_rounds goals n rounds
   | Some (g, _) \<Rightarrow> g # serve_rounds (charge goals g n) (n + 1) rounds)"

text \<open>While a Goal with an eligible Task waits, no other Goal is served twice.\<close>

lemma waiting_goal_precedes:
  assumes "\<forall>tasks \<in> set rounds. h \<in> st_goal_id ` set tasks" and "h \<notin> set (serve_rounds goals n rounds)"
    and "served goals h < n" and "g \<in> set (serve_rounds goals n rounds)"
  shows "served goals g \<le> served goals h"
  using assms
proof (induction rounds arbitrary: goals n)
  case (Cons tasks rounds)
  obtain y where y: "y \<in> set tasks" "st_goal_id y = h" using Cons.prems(1) by auto
  then obtain s t where s: "select_service goals tasks = Some (s, t)"
    using select_service_None [of goals tasks] by (cases "select_service goals tasks") auto
  have le: "served goals s \<le> served goals h" using select_least_served [OF s y(1)] y(2) by simp
  have "s \<noteq> h" using Cons.prems(2) s by auto
  show ?case
  proof (cases "g = s")
    case True
    with le show ?thesis by simp
  next
    case False
    then have "served (charge goals s n) g \<le> served (charge goals s n) h"
      using Cons.prems s \<open>s \<noteq> h\<close> by (intro Cons.IH) (auto simp: served_charge)
    with False \<open>s \<noteq> h\<close> show ?thesis by (simp add: served_charge)
  qed
qed simp

lemma waiting_goal_distinct:
  assumes "\<forall>tasks \<in> set rounds. h \<in> st_goal_id ` set tasks" and "h \<notin> set (serve_rounds goals n rounds)"
    and "served goals h < n"
  shows "distinct (serve_rounds goals n rounds) \<and> length (serve_rounds goals n rounds) = length rounds"
  using assms
proof (induction rounds arbitrary: goals n)
  case (Cons tasks rounds)
  obtain y where y: "y \<in> set tasks" "st_goal_id y = h" using Cons.prems(1) by auto
  then obtain s t where s: "select_service goals tasks = Some (s, t)"
    using select_service_None [of goals tasks] by (cases "select_service goals tasks") auto
  define goals' where "goals' = charge goals s n"
  have "s \<noteq> h" "h \<notin> set (serve_rounds goals' (n + 1) rounds)" "served goals' h < n + 1"
    "\<forall>tasks \<in> set rounds. h \<in> st_goal_id ` set tasks"
    using Cons.prems s by (auto simp: goals'_def served_charge)
  moreover have "s \<notin> set (serve_rounds goals' (n + 1) rounds)"
  proof
    assume "s \<in> set (serve_rounds goals' (n + 1) rounds)"
    from waiting_goal_precedes [OF calculation(4,2,3) this]
    show False using \<open>s \<noteq> h\<close> Cons.prems(3) by (simp add: goals'_def served_charge)
  qed
  ultimately show ?case using Cons.IH [of goals' "n + 1"] s by (simp add: goals'_def)
qed simp

end
