(* ===== verification/Context.thy ===== *)
theory Context
  imports Scheduling
begin

text \<open>
  The provider-neutral context plan (\<^verbatim>\<open>crates/pantheon-core/src/context.rs\<close>): the
  section vocabulary with its total order, the builder that selects the sections of one
  Run from its frozen sources, the optional drop order, and the extraction of the frozen
  Agent guidance. The lemmas show which plans are built, that their sections are listed
  in authority order whatever order the inputs were collected in, and what the drop
  order removes.
\<close>

section \<open>Sections\<close>

definition context_builder_version :: string where
  "context_builder_version = ''context-builder-v1''"

definition section_task_contract :: string where
  "section_task_contract = ''task-contract''"

definition section_goal_contract :: string where
  "section_goal_contract = ''goal-contract''"

definition section_agent_soul :: string where
  "section_agent_soul = ''agent-soul''"

definition section_agent_behavior :: string where
  "section_agent_behavior = ''agent-behavior''"

definition section_workspace_orientation :: string where
  "section_workspace_orientation = ''workspace-orientation''"

definition section_reference_input :: string where
  "section_reference_input = ''reference-input''"

lemmas section_names = section_task_contract_def section_goal_contract_def section_agent_soul_def
  section_agent_behavior_def section_workspace_orientation_def section_reference_input_def

datatype inclusion_class = Mandatory | Preload | OnDemand

fun inclusion_as_str :: "inclusion_class \<Rightarrow> string" where
  "inclusion_as_str Mandatory = ''mandatory''"
| "inclusion_as_str Preload = ''preload''"
| "inclusion_as_str OnDemand = ''on-demand''"

datatype precedence_stratum =
    ExecutionProtocol | GoalTaskContract | AgentGuidanceStratum | ContinuationEvidence | ReferenceData

fun stratum_as_str :: "precedence_stratum \<Rightarrow> string" where
  "stratum_as_str ExecutionProtocol = ''execution-protocol''"
| "stratum_as_str GoalTaskContract = ''goal-task-contract''"
| "stratum_as_str AgentGuidanceStratum = ''agent-guidance''"
| "stratum_as_str ContinuationEvidence = ''continuation-evidence''"
| "stratum_as_str ReferenceData = ''reference-data''"

fun stratum_rank :: "precedence_stratum \<Rightarrow> nat" where
  "stratum_rank ExecutionProtocol = 0"
| "stratum_rank GoalTaskContract = 1"
| "stratum_rank AgentGuidanceStratum = 2"
| "stratum_rank ContinuationEvidence = 3"
| "stratum_rank ReferenceData = 4"

definition kind_rank :: "string \<Rightarrow> nat" where
  "kind_rank k =
     (if k = section_task_contract then 0
      else if k = section_goal_contract then 1
      else if k = section_agent_soul then 2
      else if k = section_agent_behavior then 3
      else if k = section_workspace_orientation then 4
      else if k = section_reference_input then 5
      else 255)"

record context_section =
  sn_kind :: string
  sn_key :: string
  sn_inclusion :: inclusion_class
  sn_precedence :: precedence_stratum
  sn_provenance :: cvalue
  sn_instruction :: "string option"

fun inclusion_rank :: "inclusion_class \<Rightarrow> nat" where
  "inclusion_rank Mandatory = 0"
| "inclusion_rank Preload = 1"
| "inclusion_rank OnDemand = 2"

type_synonym section_order_key = "nat \<times> nat \<times> nat \<times> string \<times> string"

definition order_key :: "context_section \<Rightarrow> section_order_key" where
  "order_key s =
     (inclusion_rank (sn_inclusion s), stratum_rank (sn_precedence s), kind_rank (sn_kind s),
      sn_kind s, sn_key s)"

definition compare_sections :: "context_section \<Rightarrow> context_section \<Rightarrow> ordering" where
  "compare_sections l r = cmp (order_key l) (order_key r)"

definition section_to_value :: "context_section \<Rightarrow> cvalue" where
  "section_to_value s = object [
     (''kind'', VString (sn_kind s)),
     (''key'', VString (sn_key s)),
     (''inclusion'', VString (inclusion_as_str (sn_inclusion s))),
     (''precedence'', VString (stratum_as_str (sn_precedence s))),
     (''provenance'', sn_provenance s),
     (''instruction'', case sn_instruction s of Some t \<Rightarrow> VString t | None \<Rightarrow> VNull)]"

record dropped_section =
  ds_kind :: string
  ds_key :: string
  ds_reason :: string

definition dropped_to_value :: "dropped_section \<Rightarrow> cvalue" where
  "dropped_to_value d = object [
     (''kind'', VString (ds_kind d)),
     (''key'', VString (ds_key d)),
     (''reason'', VString (ds_reason d))]"

section \<open>The plan\<close>

record context_plan =
  cp_source_snapshot_digest :: digest
  cp_context_policy_digest :: digest
  cp_task_spec_digest :: digest
  cp_goal_id :: string
  cp_goal_revision :: int
  cp_graph_revision :: int
  cp_agent :: logical_agent_version
  cp_agent_soul_digest :: digest
  cp_agent_behavior_digest :: digest
  cp_workspace_id :: string
  cp_workspace_resolved_base :: string
  cp_sections :: "context_section list"
  cp_dropped :: "dropped_section list"

definition plan_to_value :: "context_plan \<Rightarrow> cvalue" where
  "plan_to_value p = object [
     (''builder'', object [
        (''version'', VString context_builder_version),
        (''contextPolicyDigest'', VString (display (cp_context_policy_digest p)))]),
     (''sourceSnapshot'', VString (display (cp_source_snapshot_digest p))),
     (''task'', object [
        (''specDigest'', VString (display (cp_task_spec_digest p))),
        (''goalId'', VString (cp_goal_id p)),
        (''goalRevision'', VInteger (cp_goal_revision p)),
        (''graphRevision'', VInteger (cp_graph_revision p))]),
     (''agent'', object [
        (''name'', VString (lav_name (cp_agent p))),
        (''version'', VInteger (lav_version (cp_agent p))),
        (''soul'', VString (display (cp_agent_soul_digest p))),
        (''behavior'', VString (display (cp_agent_behavior_digest p)))]),
     (''workspace'', object [
        (''id'', VString (cp_workspace_id p)),
        (''resolvedBase'', VString (cp_workspace_resolved_base p))]),
     (''sections'', VArray (map section_to_value (cp_sections p))),
     (''dropped'', VArray (map dropped_to_value (cp_dropped p)))]"

definition plan_digest :: "sha256 \<Rightarrow> context_plan \<Rightarrow> digest" where
  "plan_digest sha p = value_digest sha (plan_to_value p)"

record frozen_sources =
  fs_task_spec :: task_spec
  fs_goal_content_digest :: digest
  fs_soul :: string
  fs_behavior :: string
  fs_workspace_repository :: string

datatype context_plan_error = MandatorySectionUnsatisfiable string

section \<open>The optional drop order\<close>

text \<open>\<open>Iterator::max_by\<close>: the last of several maxima.\<close>

fun max_by :: "('a \<Rightarrow> 'a \<Rightarrow> ordering) \<Rightarrow> 'a list \<Rightarrow> 'a option" where
  "max_by c [] = None"
| "max_by c (x # xs) = Some (foldl (\<lambda>m y. if c m y = Gt then m else y) x xs)"

definition droppable :: "string \<Rightarrow> context_section \<Rightarrow> bool" where
  "droppable k s \<longleftrightarrow> sn_inclusion s = Preload \<and> sn_kind s = k"

definition victim :: "string \<Rightarrow> context_section list \<Rightarrow> context_section option" where
  "victim k kept = max_by compare_sections (filter (droppable k) kept)"

definition retain_others :: "context_section \<Rightarrow> context_section list \<Rightarrow> context_section list" where
  "retain_others s kept = filter (\<lambda>r. sn_kind r \<noteq> sn_kind s \<or> sn_key r \<noteq> sn_key s) kept"

definition dropped_of :: "context_section \<Rightarrow> dropped_section" where
  "dropped_of s = \<lparr>ds_kind = sn_kind s, ds_key = sn_key s, ds_reason = ''policy-drop-order''\<rparr>"

lemma foldl_max_in: "foldl (\<lambda>m y. if c m y = Gt then m else y) x xs \<in> insert x (set xs)"
proof (induction xs arbitrary: x)
  case Nil
  then show ?case by simp
next
  case (Cons y ys)
  show ?case using Cons.IH [of x] Cons.IH [of y] by auto
qed

lemma max_by_in: "max_by c xs = Some m \<Longrightarrow> m \<in> set xs"
  using foldl_max_in [of c] by (cases xs) auto

lemma max_by_None [simp]: "max_by c xs = None \<longleftrightarrow> xs = []"
  by (cases xs) auto

lemma victim_in: "victim k kept = Some s \<Longrightarrow> s \<in> set kept \<and> droppable k s"
  unfolding victim_def by (drule max_by_in) simp

lemma retain_others_shrinks: "victim k kept = Some s \<Longrightarrow> length (retain_others s kept) < length kept"
  using victim_in [of k kept s] unfolding retain_others_def
  by (intro length_filter_less [of s]) auto

text \<open>The \<open>while\<close> loop of one drop tier; every iteration removes its victim.\<close>

function drop_kind ::
  "(context_section list \<Rightarrow> bool) \<Rightarrow> string \<Rightarrow> context_section list \<Rightarrow> dropped_section list
     \<Rightarrow> context_section list \<times> dropped_section list" where
  "drop_kind exceeded k kept dropped =
     (if \<not> exceeded kept then (kept, dropped)
      else (case victim k kept of
          None \<Rightarrow> (kept, dropped)
        | Some s \<Rightarrow> drop_kind exceeded k (retain_others s kept) (dropped @ [dropped_of s])))"
  by pat_completeness auto
termination by (relation "measure (\<lambda>(_, _, kept, _). length kept)") (auto simp: retain_others_shrinks)

declare drop_kind.simps [simp del]

definition apply_optional_drop ::
  "context_section list \<Rightarrow> string list \<Rightarrow> (context_section list \<Rightarrow> bool)
     \<Rightarrow> context_section list \<times> dropped_section list" where
  "apply_optional_drop sections drop_order exceeded =
     foldl (\<lambda>(kept, dropped) k. drop_kind exceeded k kept dropped) (sections, []) drop_order"

section \<open>Building the plan\<close>

definition agent_section :: "string \<Rightarrow> context_source_snapshot \<Rightarrow> digest \<Rightarrow> string \<Rightarrow> context_section" where
  "agent_section knd s d body =
     \<lparr>sn_kind = knd, sn_key = [], sn_inclusion = Mandatory, sn_precedence = AgentGuidanceStratum,
      sn_provenance = object [
        (''agentName'', VString (lav_name (cs_agent s))),
        (''agentVersion'', VInteger (lav_version (cs_agent s))),
        (''digest'', VString (display d))],
      sn_instruction = Some body\<rparr>"

definition input_section :: "task_input \<Rightarrow> context_section" where
  "input_section i =
     \<lparr>sn_kind = section_reference_input, sn_key = ti_name i, sn_inclusion = OnDemand,
      sn_precedence = ReferenceData, sn_provenance = object [(''ref'', VString (ti_reference i))],
      sn_instruction = None\<rparr>"

definition candidate_sections :: "sha256 \<Rightarrow> context_source_snapshot \<Rightarrow> frozen_sources \<Rightarrow> context_section list" where
  "candidate_sections sha s f =
     [\<lparr>sn_kind = section_task_contract, sn_key = [], sn_inclusion = Mandatory,
       sn_precedence = GoalTaskContract,
       sn_provenance = object [
         (''specDigest'', VString (display (cs_task_spec_digest s))),
         (''acceptanceDigest'', VString (display (acceptance_digest sha (fs_task_spec f)))),
         (''goalId'', VString (cs_goal_id s)),
         (''goalRevision'', VInteger (cs_goal_revision s))],
       sn_instruction = Some (tk_objective (fs_task_spec f))\<rparr>,
      \<lparr>sn_kind = section_goal_contract, sn_key = [], sn_inclusion = Mandatory,
       sn_precedence = GoalTaskContract,
       sn_provenance = object [
         (''goalId'', VString (cs_goal_id s)),
         (''goalRevision'', VInteger (cs_goal_revision s)),
         (''contentDigest'', VString (display (fs_goal_content_digest f)))],
       sn_instruction = None\<rparr>,
      agent_section section_agent_soul s (cs_agent_soul_digest s) (fs_soul f),
      agent_section section_agent_behavior s (cs_agent_behavior_digest s) (fs_behavior f),
      \<lparr>sn_kind = section_workspace_orientation, sn_key = [], sn_inclusion = Preload,
       sn_precedence = ReferenceData,
       sn_provenance = object [
         (''workspaceId'', VString (cs_workspace_id s)),
         (''repository'', VString (fs_workspace_repository f)),
         (''resolvedBase'', VString (cs_workspace_resolved_base s))],
       sn_instruction = None\<rparr>]
     @ map input_section (sort_key ti_name (tk_inputs (fs_task_spec f)))"

definition build_context_plan ::
  "sha256 \<Rightarrow> context_source_snapshot \<Rightarrow> frozen_sources \<Rightarrow> context_component
     \<Rightarrow> (context_plan_error, context_plan) res" where
  "build_context_plan sha s f policy =
     (let sections = candidate_sections sha s f in
      bindR (for_each (\<lambda>required.
               ensure (list_ex (\<lambda>x. sn_kind x = required) sections) (MandatorySectionUnsatisfiable required))
             (cc_mandatory_sections policy)) (\<lambda>_.
        (let (kept, dropped) = apply_optional_drop sections (cc_optional_drop_order policy) (\<lambda>_. False)
         in Inr \<lparr>cp_source_snapshot_digest = snapshot_digest sha s,
                 cp_context_policy_digest = cs_context_policy_digest s,
                 cp_task_spec_digest = cs_task_spec_digest s,
                 cp_goal_id = cs_goal_id s,
                 cp_goal_revision = cs_goal_revision s,
                 cp_graph_revision = cs_graph_revision s,
                 cp_agent = cs_agent s,
                 cp_agent_soul_digest = cs_agent_soul_digest s,
                 cp_agent_behavior_digest = cs_agent_behavior_digest s,
                 cp_workspace_id = cs_workspace_id s,
                 cp_workspace_resolved_base = cs_workspace_resolved_base s,
                 cp_sections = sort_key order_key kept,
                 cp_dropped = dropped\<rparr>)))"

section \<open>Frozen Agent guidance\<close>

record agent_guidance =
  gu_soul :: string
  gu_behavior :: string

datatype guidance_source_error = VersionAbsent logical_agent_version | GuidanceMalformed message

definition is_agent_entry :: "logical_agent_version \<Rightarrow> cvalue \<Rightarrow> bool" where
  "is_agent_entry a entry = (case (get entry ''name'', get entry ''version'') of
     (Some (VString name), Some (VInteger version)) \<Rightarrow> name = lav_name a \<and> version = lav_version a
   | _ \<Rightarrow> False)"

definition guidance_text :: "cvalue \<Rightarrow> string \<Rightarrow> (guidance_source_error, string) res" where
  "guidance_text entry name = (case get entry name of
     Some (VString t) \<Rightarrow>
       (if t \<noteq> [] then Inr t
        else Inl (GuidanceMalformed (Fmt ''missing or empty {name}'' [FStr name])))
   | _ \<Rightarrow> Inl (GuidanceMalformed (Fmt ''missing or empty {name}'' [FStr name])))"

definition frozen_agent_guidance ::
  "cvalue \<Rightarrow> logical_agent_version \<Rightarrow> (guidance_source_error, agent_guidance) res" where
  "frozen_agent_guidance component a = (case get component ''agents'' of
     Some (VArray entries) \<Rightarrow>
       bindR (ok_or (List.find (is_agent_entry a) entries) (VersionAbsent a)) (\<lambda>entry.
       bindR (guidance_text entry ''soul'') (\<lambda>soul.
       bindR (guidance_text entry ''behavior'') (\<lambda>behavior.
         Inr \<lparr>gu_soul = soul, gu_behavior = behavior\<rparr>)))
   | _ \<Rightarrow> Inl (GuidanceMalformed (Fmt ''missing or malformed agents array'' [])))"

definition guidance_digest :: "sha256 \<Rightarrow> string \<Rightarrow> digest" where
  "guidance_digest sha t = value_digest sha (VString t)"

lemma is_agent_entry_iff: "is_agent_entry v (agent_to_value a) \<longleftrightarrow> identity a = v"
  by (cases v) (auto simp: is_agent_entry_def agent_to_value_def get_object identity_def)

lemma guidance_text_agent:
  "guidance_text (agent_to_value a) ''soul'' = Inr t \<longleftrightarrow> t = ag_soul a \<and> t \<noteq> []"
  "guidance_text (agent_to_value a) ''behavior'' = Inr t \<longleftrightarrow> t = ag_behavior a \<and> t \<noteq> []"
  by (auto simp: guidance_text_def agent_to_value_def get_object)

lemma find_agent_entry:
  assumes "distinct (map identity agents)"
  shows "List.find (is_agent_entry v) (map agent_to_value agents) = Some e \<longleftrightarrow>
    (\<exists>a \<in> set agents. identity a = v \<and> e = agent_to_value a)"
  using assms
proof (induction agents)
  case Nil
  then show ?case by simp
next
  case (Cons a agents)
  have notin: "identity b \<noteq> identity a" if "b \<in> set agents" for b
    using that Cons.prems by (metis distinct.simps(2) image_eqI list.map(2) list.set_map)
  show ?case
  proof (cases "identity a = v")
    case True
    with notin show ?thesis by (auto simp: is_agent_entry_iff)
  next
    case False
    with Cons show ?thesis by (auto simp: is_agent_entry_iff)
  qed
qed

lemma frozen_agent_guidance_iff:
  assumes "distinct (map identity agents)"
    and "\<forall>a \<in> set agents. ag_soul a \<noteq> [] \<and> ag_behavior a \<noteq> []"
  shows "frozen_agent_guidance (agents_to_value agents) v = Inr g \<longleftrightarrow>
    (\<exists>a \<in> set agents. identity a = v \<and> g = \<lparr>gu_soul = ag_soul a, gu_behavior = ag_behavior a\<rparr>)"
proof -
  have "distinct (map identity (sort_key identity agents))" using assms(1) by simp
  note find = find_agent_entry [OF this, of v]
  show ?thesis
    using assms(2)
    by (auto simp: frozen_agent_guidance_def agents_to_value_def get_object res_simps find guidance_text_agent)
qed

section \<open>What the drop order removes\<close>

lemma drop_nothing [simp]: "apply_optional_drop sections order (\<lambda>_. False) = (sections, [])"
proof -
  have "foldl (\<lambda>(kept, dropped) k. drop_kind (\<lambda>_. False) k kept dropped) (sections, []) order = (sections, [])"
    by (induction order) (simp_all add: drop_kind.simps)
  then show ?thesis by (simp add: apply_optional_drop_def)
qed

definition section_id :: "context_section \<Rightarrow> string \<times> string" where
  "section_id s = (sn_kind s, sn_key s)"

definition dropped_id :: "dropped_section \<Rightarrow> string \<times> string" where
  "dropped_id d = (ds_kind d, ds_key d)"

text \<open>
  What a partial drop of a section list keeps true: the survivors are the sections whose
  identity was not dropped, and every dropped identity is that of a preload section of a
  listed kind.
\<close>

definition drop_inv ::
  "context_section list \<Rightarrow> string set \<Rightarrow> context_section list \<Rightarrow> dropped_section list \<Rightarrow> bool" where
  "drop_inv sections kinds kept dropped \<longleftrightarrow>
     kept = filter (\<lambda>s. section_id s \<notin> dropped_id ` set dropped) sections \<and>
     distinct (map dropped_id dropped) \<and>
     (\<forall>d \<in> set dropped. ds_reason d = ''policy-drop-order'' \<and>
        (\<exists>s \<in> set sections. section_id s = dropped_id d \<and> sn_inclusion s = Preload \<and> sn_kind s \<in> kinds))"

lemma drop_inv_step:
  assumes "drop_inv sections kinds kept dropped" and "victim k kept = Some s" and "k \<in> kinds"
  shows "drop_inv sections kinds (retain_others s kept) (dropped @ [dropped_of s])"
proof -
  have s: "s \<in> set kept" "droppable k s" using victim_in [OF assms(2)] by simp_all
  have kept: "kept = filter (\<lambda>s. section_id s \<notin> dropped_id ` set dropped) sections"
    using assms(1) by (simp add: drop_inv_def)
  have id: "dropped_id (dropped_of s) = section_id s"
    by (simp add: dropped_id_def dropped_of_def section_id_def)
  have "section_id s \<notin> dropped_id ` set dropped" "s \<in> set sections" using s(1) kept by auto
  moreover have "retain_others s kept = filter (\<lambda>r. section_id r \<noteq> section_id s) kept"
    by (auto simp: retain_others_def section_id_def intro!: filter_cong)
  moreover have "ds_reason (dropped_of s) = ''policy-drop-order''" by (simp add: dropped_of_def)
  moreover have "sn_inclusion s = Preload" "sn_kind s \<in> kinds" using s(2) assms(3) by (simp_all add: droppable_def)
  ultimately show ?thesis
    using assms(1) by (auto simp: drop_inv_def id conj_commute)
qed

lemma drop_kind_inv:
  "drop_inv sections kinds kept dropped \<Longrightarrow> k \<in> kinds \<Longrightarrow>
   drop_kind exceeded k kept dropped = (kept', dropped') \<Longrightarrow>
   drop_inv sections kinds kept' dropped' \<and> set kept' \<subseteq> set kept \<and>
   (exceeded kept' \<longrightarrow> (\<forall>s \<in> set kept'. \<not> droppable k s))"
proof (induction exceeded k kept dropped rule: drop_kind.induct)
  case (1 exceeded k kept dropped)
  show ?case
  proof (cases "exceeded kept")
    case False
    with "1.prems" show ?thesis by (subst (asm) drop_kind.simps) simp
  next
    case True
    show ?thesis
    proof (cases "victim k kept")
      case None
      then have "\<forall>s \<in> set kept. \<not> droppable k s" by (simp add: victim_def filter_empty_conv)
      with None True "1.prems" show ?thesis by (subst (asm) drop_kind.simps) simp
    next
      case (Some s)
      have "drop_kind exceeded k (retain_others s kept) (dropped @ [dropped_of s]) = (kept', dropped')"
        using "1.prems"(3) True Some by (subst (asm) drop_kind.simps) simp
      from "1.IH" [OF _ Some drop_inv_step [OF "1.prems"(1) Some "1.prems"(2)] "1.prems"(2) this] True
      show ?thesis by (auto simp: retain_others_def)
    qed
  qed
qed

lemma drop_kind_not_exceeded: "\<not> exceeded kept \<Longrightarrow> drop_kind exceeded k kept dropped = (kept, dropped)"
  by (simp add: drop_kind.simps)

lemma drop_tiers_inv:
  "drop_inv sections kinds kept dropped \<Longrightarrow> set order \<subseteq> kinds \<Longrightarrow>
   foldl (\<lambda>(kept, dropped) k. drop_kind exceeded k kept dropped) (kept, dropped) order = (kept', dropped') \<Longrightarrow>
   drop_inv sections kinds kept' dropped' \<and> set kept' \<subseteq> set kept \<and>
   (exceeded kept' \<longrightarrow> (\<forall>k \<in> set order. \<forall>s \<in> set kept'. \<not> droppable k s))"
proof (induction order arbitrary: kept dropped)
  case Nil
  then show ?case by simp
next
  case (Cons k order)
  obtain kept1 dropped1 where k: "drop_kind exceeded k kept dropped = (kept1, dropped1)" by fastforce
  have rest: "foldl (\<lambda>(kept, dropped) k. drop_kind exceeded k kept dropped) (kept1, dropped1) order = (kept', dropped')"
    using Cons.prems(3) k by simp
  have step: "drop_inv sections kinds kept1 dropped1 \<and> set kept1 \<subseteq> set kept \<and>
      (exceeded kept1 \<longrightarrow> (\<forall>s \<in> set kept1. \<not> droppable k s))"
    by (rule drop_kind_inv [OF Cons.prems(1) _ k]) (use Cons.prems(2) in simp)
  have IH: "drop_inv sections kinds kept' dropped' \<and> set kept' \<subseteq> set kept1 \<and>
      (exceeded kept' \<longrightarrow> (\<forall>k \<in> set order. \<forall>s \<in> set kept'. \<not> droppable k s))"
    by (rule Cons.IH [OF _ _ rest]) (use step Cons.prems(2) in simp_all)
  have "exceeded kept' \<Longrightarrow> exceeded kept1"
  proof (rule ccontr)
    assume "exceeded kept'" "\<not> exceeded kept1"
    then have "foldl (\<lambda>(kept, dropped) k. drop_kind exceeded k kept dropped) (kept1, dropped1) order = (kept1, dropped1)"
      by (induction order) (simp_all add: drop_kind_not_exceeded)
    then show False using rest \<open>exceeded kept'\<close> \<open>\<not> exceeded kept1\<close> by simp
  qed
  with step IH show ?case by auto
qed

lemma apply_optional_drop_inv:
  assumes "apply_optional_drop sections order exceeded = (kept, dropped)"
  shows "drop_inv sections (set order) kept dropped \<and>
    (exceeded kept \<longrightarrow> (\<forall>s \<in> set kept. sn_inclusion s = Preload \<longrightarrow> sn_kind s \<notin> set order))"
proof -
  have "drop_inv sections (set order) sections []" by (simp add: drop_inv_def)
  from drop_tiers_inv [OF this subset_refl, of exceeded kept dropped] assms show ?thesis
    by (auto simp: apply_optional_drop_def droppable_def)
qed

lemma drop_inv_dropped:
  "drop_inv sections kinds kept dropped \<Longrightarrow> i \<in> dropped_id ` set dropped \<Longrightarrow>
   \<exists>s \<in> set sections. section_id s = i \<and> sn_inclusion s = Preload \<and> sn_kind s \<in> kinds"
  unfolding drop_inv_def by blast

lemma drop_inv_length:
  assumes inv: "drop_inv sections kinds kept dropped" and d: "distinct (map section_id sections)"
  shows "length kept + length dropped = length sections"
proof -
  have "dropped_id ` set dropped \<subseteq> section_id ` set sections"
    using drop_inv_dropped [OF inv] by (metis image_eqI subsetI)
  then have "dropped_id ` set dropped = {i \<in> section_id ` set sections. i \<in> dropped_id ` set dropped}"
    by auto
  also have "\<dots> = set (filter (\<lambda>i. i \<in> dropped_id ` set dropped) (map section_id sections))" by simp
  finally have "card (dropped_id ` set dropped) =
      length (filter (\<lambda>i. i \<in> dropped_id ` set dropped) (map section_id sections))"
    using distinct_card [OF distinct_filter [OF d]] by metis
  moreover have "card (dropped_id ` set dropped) = length dropped"
    using inv distinct_card [of "map dropped_id dropped"] by (simp add: drop_inv_def)
  ultimately have "length dropped = length (filter (\<lambda>s. section_id s \<in> dropped_id ` set dropped) sections)"
    by (simp add: filter_map comp_def)
  moreover have "kept = filter (\<lambda>s. section_id s \<notin> dropped_id ` set dropped) sections"
    using inv by (simp add: drop_inv_def)
  ultimately show ?thesis
    using sum_length_filter_compl [of "\<lambda>s. section_id s \<in> dropped_id ` set dropped" sections] by simp
qed

text \<open>
  With one section per identity, dropping never touches a mandatory section or an
  on-demand reference.
\<close>

lemma apply_optional_drop_keeps:
  assumes "apply_optional_drop sections order exceeded = (kept, dropped)"
    and "distinct (map section_id sections)" and "s \<in> set sections" and "sn_inclusion s \<noteq> Preload"
  shows "s \<in> set kept"
proof -
  have inv: "drop_inv sections (set order) kept dropped" using apply_optional_drop_inv [OF assms(1)] by simp
  have "section_id s \<notin> dropped_id ` set dropped"
    using drop_inv_dropped [OF inv] assms(2-4) by (metis distinct_map inj_onD)
  with assms(3) inv show ?thesis by (simp add: drop_inv_def)
qed

section \<open>Which plans are built\<close>

definition producible :: "task_spec \<Rightarrow> string set" where
  "producible t = {section_task_contract, section_goal_contract, section_agent_soul,
     section_agent_behavior, section_workspace_orientation} \<union>
     (if tk_inputs t = [] then {} else {section_reference_input})"

lemma candidate_sections_kinds: "sn_kind ` set (candidate_sections sha s f) = producible (fs_task_spec f)"
  by (auto simp: candidate_sections_def producible_def agent_section_def input_section_def image_iff
      neq_Nil_conv)

lemma build_context_plan_iff:
  "(\<exists>p. build_context_plan sha s f policy = Inr p) \<longleftrightarrow>
     set (cc_mandatory_sections policy) \<subseteq> producible (fs_task_spec f)"
  unfolding candidate_sections_kinds [of sha s f, symmetric]
  by (auto simp: build_context_plan_def Let_def res_simps list_ex_iff image_iff subset_iff)

lemma build_context_plan_sections:
  assumes "build_context_plan sha s f policy = Inr p"
  shows "cp_sections p = sort_key order_key (candidate_sections sha s f)" and "cp_dropped p = []"
    and "cp_source_snapshot_digest p = snapshot_digest sha s"
  using assms by (auto simp: build_context_plan_def Let_def res_simps)

lemma sorted_order_key_nth:
  assumes "sorted (map order_key xs)" and "i < j" and "j < length xs"
  shows "inclusion_rank (sn_inclusion (xs ! i)) \<le> inclusion_rank (sn_inclusion (xs ! j))"
    and "sn_inclusion (xs ! i) = sn_inclusion (xs ! j) \<Longrightarrow>
      stratum_rank (sn_precedence (xs ! i)) \<le> stratum_rank (sn_precedence (xs ! j))"
proof -
  have "order_key (xs ! i) \<le> order_key (xs ! j)"
    using sorted_nth_mono [OF assms(1), of i j] assms(2,3) by simp
  then show "inclusion_rank (sn_inclusion (xs ! i)) \<le> inclusion_rank (sn_inclusion (xs ! j))"
    and "sn_inclusion (xs ! i) = sn_inclusion (xs ! j) \<Longrightarrow>
      stratum_rank (sn_precedence (xs ! i)) \<le> stratum_rank (sn_precedence (xs ! j))"
    by (auto simp: order_key_def less_eq_prod_def)
qed

lemma candidate_sections_inputs:
  assumes "mset (tk_inputs (fs_task_spec f)) = mset (tk_inputs t)"
    and "distinct (map ti_name (tk_inputs (fs_task_spec f)))"
    and "tk_acceptance t = tk_acceptance (fs_task_spec f)" and "tk_objective t = tk_objective (fs_task_spec f)"
  shows "candidate_sections sha s f = candidate_sections sha s (f\<lparr>fs_task_spec := t\<rparr>)"
  using sort_key_distinct_mset [OF assms(1,2)] assms(3,4)
  by (simp add: candidate_sections_def acceptance_digest_def acceptance_value_def)

end
