(* ===== verification/Decisions.thy ===== *)
theory Decisions
  imports Documents Context
begin

text \<open>
  The properties of the decisions the program takes: what a compiled configuration
  guarantees, which Agents are eligible for a Task, which execution candidate is selected,
  in which order Goals are served, and which context a Run receives.
\<close>

section \<open>A configuration used by the witnesses\<close>

definition example_agent :: agent where
  "example_agent = \<lparr>ag_name = ''coder'', ag_version = 1, ag_enabled = True, ag_current = True,
     ag_accepts = [''code.change''], ag_competencies = [''code.editing''], ag_route_policy = ''default'',
     ag_execution_features = [], ag_min_context_tokens = 1000, ag_sandbox_profile = ''box'',
     ag_sandbox_requirements = [], ag_actions = [''shell.execute''], ag_soul = ''careful'', ag_behavior = ''terse''\<rparr>"

definition example_config :: compiled_configuration where
  "example_config = \<lparr>cf_agents = [example_agent],
     cf_routing = \<lparr>ro_policies = [\<lparr>rp_name = ''default'', rp_priority = 0, rp_ordering = [''contextCapacity''],
         rp_tie_break = ''backendId'', rp_requires_keyed_launch = True\<rparr>],
       ro_agent_pins = [], ro_agent_exclusions = []\<rparr>,
     cf_execution = \<lparr>ex_profiles = [\<lparr>sp_name = ''box'', sp_isolation_class = Container,
         sp_guarantees = [''isolation.control-plane''], sp_network_mode = NoNetwork,
         sp_environment_identity = ''sha256:00''\<rparr>],
       ex_backends = [\<lparr>br_backend_id = ''local'', br_enabled = True, br_selector = ''local''\<rparr>]\<rparr>,
     cf_evaluators = \<lparr>ec_refs = [\<lparr>er_reference = mvp_evaluator_ref, er_current_version = ''v1''\<rparr>],
       ec_versions = [\<lparr>ev_id = ''v1'', ev_kind = Check, ev_argv = [''make''], ev_timeout_ms = 1000,
         ev_sandbox_profile = ''box'', ev_result_protocol = ''exit-code''\<rparr>]\<rparr>,
     cf_context = \<lparr>cc_schema_version = 1, cc_mandatory_sections = [''task-contract''],
       cc_preload_priority = [''workspace-orientation''], cc_memory_limit_tokens = 100,
       cc_workspace_orientation_limit_tokens = 100, cc_safety_margin_tokens = 10,
       cc_optional_drop_order = [''workspace-orientation'']\<rparr>,
     cf_authorization = \<lparr>az_schema_version = 1, az_rules = [\<lparr>ar_action = ''secret.use'', ar_effect = Forbid\<rparr>]\<rparr>\<rparr>"

definition example_root :: cvalue where
  "example_root = object [
     (''agents'', VArray [agent_to_value example_agent]),
     (''routing'', routing_to_value (cf_routing example_config)),
     (''execution'', execution_to_value (cf_execution example_config)),
     (''evaluators'', evaluators_to_value (cf_evaluators example_config)),
     (''context'', context_to_value (cf_context example_config)),
     (''authorization'', authorization_to_value (cf_authorization example_config))]"

lemma wf_example_root: "wf_value example_root"
  by code_simp

lemma compile_example_root: "compile_root example_root = Inr example_config"
  by code_simp

lemma compile_example: "compile (to_canonical_bytes example_root) = Inr example_config"
  by (simp add: compile_def decode_text_def parse_to_canonical_bytes wf_example_root compile_example_root)

section \<open>Configuration\<close>

text \<open>C4.
  Whatever the compiler accepts is safe to activate: no Agent holds the hard-denied action
  and no rule permits it, an Agent that may reach the control plane runs only in a profile
  whose isolation class and guarantees protect it, every requirement of an Agent is
  guaranteed by its profile, each Agent version is declared once and each Agent has at
  most one current version.
\<close>

theorem compiled_configuration_safe:
  assumes "compile source = Inr c"
  shows "(\<forall>a \<in> set (cf_agents c). hard_denied_action \<notin> set (ag_actions a)) \<and>
    (\<forall>r \<in> set (az_rules (cf_authorization c)). \<not> (ar_action r = hard_denied_action \<and> ar_effect r = Permit)) \<and>
    (\<forall>a \<in> set (cf_agents c). \<exists>p \<in> set (ex_profiles (cf_execution c)). sp_name p = ag_sandbox_profile a \<and>
       set (ag_sandbox_requirements a) \<subseteq> set (sp_guarantees p) \<and>
       (set (ag_actions a) \<inter> set control_plane_actions \<noteq> {} \<longrightarrow>
          can_isolate_control_plane (sp_isolation_class p) \<and> control_plane_guarantee \<in> set (sp_guarantees p))) \<and>
    distinct (map identity (cf_agents c)) \<and> distinct (map ag_name (filter ag_current (cf_agents c)))"
proof -
  have ok: "consistent c" "declared_ok c" using compile_ok [OF assms] by simp_all
  have "\<exists>p \<in> set (ex_profiles (cf_execution c)). sp_name p = ag_sandbox_profile a \<and>
       set (ag_sandbox_requirements a) \<subseteq> set (sp_guarantees p) \<and>
       (set (ag_actions a) \<inter> set control_plane_actions \<noteq> {} \<longrightarrow>
          can_isolate_control_plane (sp_isolation_class p) \<and> control_plane_guarantee \<in> set (sp_guarantees p))"
    if "a \<in> set (cf_agents c)" for a
  proof -
    have "placeable c a" using ok(1) that by (simp add: consistent_def)
    then show ?thesis by (auto simp: placeable_def split: option.splits dest!: find_SomeD)
  qed
  moreover have "\<forall>a \<in> set (cf_agents c). hard_denied_action \<notin> set (ag_actions a)"
    using ok(2) by (auto simp: declared_ok_def agent_ok_def list_all_iff)
  moreover have "\<forall>r \<in> set (az_rules (cf_authorization c)). \<not> (ar_action r = hard_denied_action \<and> ar_effect r = Permit)"
    using ok(2) by (auto simp: declared_ok_def rule_ok_def list_all_iff)
  ultimately show ?thesis using ok(1) by (simp add: consistent_def)
qed

theorem compiled_configuration_safe_witness:
  "compile (to_canonical_bytes example_root) = Inr example_config \<and>
   hard_denied_action \<notin> set (ag_actions example_agent)"
  using compiled_configuration_safe [OF compile_example] compile_example
  by (simp add: example_config_def)

text \<open>
  The cross-reference pass decides consistency: it succeeds exactly on the configurations
  whose identities are unique, whose Agents are placeable, whose pins and exclusions name
  declared Agents and are disjoint, whose evaluators resolve, and whose context policy
  never drops a mandatory section.
\<close>

theorem cross_references_decide_consistency: "cross_references c = Inr () \<longleftrightarrow> consistent c"
  by (rule cross_references_iff)

text \<open>The revision digest does not depend on the order in which Agents, route policies, pins
  and exclusions were declared.
\<close>

theorem revision_digest_order_independent:
  assumes "consistent c" and "distinct (map rp_name (ro_policies (cf_routing c)))"
    and "mset (cf_agents c) = mset agents"
    and "mset (ro_policies (cf_routing c)) = mset (ro_policies routing)"
    and "mset (ro_agent_pins (cf_routing c)) = mset (ro_agent_pins routing)"
    and "mset (ro_agent_exclusions (cf_routing c)) = mset (ro_agent_exclusions routing)"
  shows "revision_digest sha (c\<lparr>cf_agents := agents, cf_routing := routing\<rparr>) = revision_digest sha c"
proof -
  have "distinct (map identity (cf_agents c))" using assms(1) by (simp add: consistent_def)
  from agents_to_value_mset [OF assms(3) this] routing_to_value_mset [OF assms(4,2,5,6)]
  show ?thesis by (simp add: revision_digest_def component_digests_of_def)
qed

lemma consistent_example: "consistent example_config"
  using compile_ok [OF compile_example] by simp

theorem revision_digest_order_independent_witness:
  "revision_digest zero_sha (example_config\<lparr>cf_agents := [example_agent], cf_routing := cf_routing example_config\<rparr>) =
   revision_digest zero_sha example_config"
  by (rule revision_digest_order_independent [OF consistent_example]) (simp_all add: example_config_def)

section \<open>Routing\<close>

text \<open>
  Agent resolution splits the declared Agents, in identity order, into exactly the
  eligible ones and the rejected ones, and on a binding of the same revision it succeeds
  exactly when some Agent is eligible.
\<close>

theorem agent_resolution_exact:
  assumes "consistent c"
  shows "(resolve_agents sha t c b = Inr res \<longrightarrow>
      map ra_agent (as_eligible res) = filter (eligible_for t c b) (sort_key identity (cf_agents c)) \<and>
      map aj_agent (as_rejected res) =
        map identity (filter (\<lambda>a. \<not> eligible_for t c b a) (sort_key identity (cf_agents c)))) \<and>
    (cb_content_digest b = revision_digest sha c \<and> cb_component_digests b = component_digests_of sha c \<longrightarrow>
      ((\<exists>res. resolve_agents sha t c b = Inr res) \<longleftrightarrow> (\<exists>a \<in> set (cf_agents c). eligible_for t c b a)))"
  using resolve_agents_eligible [OF assms] resolve_agents_succeeds [OF assms] by blast

definition example_binding :: configuration_binding where
  "example_binding = \<lparr>cb_activation_sequence = 1, cb_content_digest = revision_digest zero_sha example_config,
     cb_component_digests = component_digests_of zero_sha example_config\<rparr>"

lemma example_eligible: "eligible_for example_task example_config example_binding example_agent"
  by (simp add: eligible_for_def example_task_def example_config_def example_binding_def example_agent_def)

theorem agent_resolution_exact_witness:
  "\<exists>res. resolve_agents zero_sha example_task example_config example_binding = Inr res \<and>
     map ra_agent (as_eligible res) = [example_agent]"
proof -
  note exact = agent_resolution_exact [OF consistent_example, of zero_sha example_task example_binding]
  have "example_agent \<in> set (cf_agents example_config)" by (simp add: example_config_def)
  with exact example_eligible obtain res where
    res: "resolve_agents zero_sha example_task example_config example_binding = Inr res"
    by (auto simp: example_binding_def)
  with exact example_eligible show ?thesis by (auto simp: example_config_def)
qed

end
