(* ===== verification/Dispatch.thy ===== *)
theory Dispatch
  imports Decisions
begin

text \<open>
  The properties of dispatch: from an eligible Agent through a validated offer to the
  selected candidate, the order in which Goals are served, and the context a Run is
  started with.
\<close>

section \<open>Offers\<close>

text \<open>
  Candidate validation accepts exactly the offers of an enabled, available backend that
  answer this request with the current descriptor, for the request's Agent and route
  policy, with sufficient features, context, placement and resources, proven isolation
  and a safe launch; the candidate it returns binds exactly these.
\<close>

theorem candidate_validation_exact:
  "validate_execution_candidate sha r ra d x enabled safety = Inr ca \<longleftrightarrow>
     enabled \<and> offer_answers sha r d x \<and> ra_identity ra = rq_agent r \<and>
     route_policy_digest sha (ra_route_policy ra) = rq_route_policy_digest r \<and>
     capacity_suffices r d x \<and> isolation_proven r d x safety \<and> launch_is_safe r d x safety \<and>
     ca = \<lparr>ca_agent = ra_identity ra, ca_request_digest = request_digest sha r, ca_offer = x,
           ca_route_policy = ra_route_policy ra,
           ca_execution_profile_digest = rq_execution_profile_digest r\<rparr>"
  by (rule validate_candidate_iff)

lemma resolve_agents_member:
  assumes "resolve_agents sha t c b = Inr res" and "ra \<in> set (as_eligible res)"
  obtains a where "a \<in> set (cf_agents c)" and "resolve_agent t c b a = Inr ra"
  using assms that
  by (auto simp: resolve_agents_def Let_def List.map_filter_def split: if_splits sum.splits)

definition example_resolved :: resolved_agent where
  "example_resolved = \<lparr>ra_identity = LogicalAgentVersion ''coder'' 1, ra_agent = example_agent,
     ra_route_policy = hd (ro_policies (cf_routing example_config)),
     ra_sandbox_profile = hd (ex_profiles (cf_execution example_config))\<rparr>"

definition example_request :: execution_request where
  "example_request = (case build_execution_request zero_sha ''t1'' example_task example_resolved
     example_config example_binding of Inr r \<Rightarrow> r)"

definition example_descriptor :: backend_descriptor where
  "example_descriptor = \<lparr>bd_backend_id = ''local'', bd_revision = 1, bd_available_for_offers = True,
     bd_placement = [], bd_supported_execution_features = [], bd_context_capacity_tokens = 2000,
     bd_isolation_facts = [], bd_resources = [], bd_launch_semantics = KeyedIdempotent\<rparr>"

definition example_offer :: "int \<Rightarrow> execution_offer" where
  "example_offer tokens = \<lparr>of_request_digest = request_digest zero_sha example_request, of_backend_id = ''local'',
     of_descriptor_revision = 1, of_descriptor_digest = descriptor_digest zero_sha example_descriptor,
     of_supported_execution_features = [], of_context_capacity_tokens = tokens, of_placement = [],
     of_isolation_facts = [], of_resources = [], of_launch_semantics = KeyedIdempotent,
     of_offer_reference = ''offer''\<rparr>"

definition example_candidate :: "int \<Rightarrow> execution_candidate" where
  "example_candidate tokens = \<lparr>ca_agent = LogicalAgentVersion ''coder'' 1,
     ca_request_digest = request_digest zero_sha example_request, ca_offer = example_offer tokens,
     ca_route_policy = hd (ro_policies (cf_routing example_config)),
     ca_execution_profile_digest = rq_execution_profile_digest example_request\<rparr>"

definition example_safety :: controller_safety_facts where
  "example_safety = \<lparr>sf_isolation_guarantees = [], sf_observational_launch_safe = False\<rparr>"

lemma example_resolves:
  "resolve_agents zero_sha example_task example_config example_binding =
     Inr \<lparr>as_eligible = [example_resolved], as_rejected = []\<rparr>"
proof -
  have agents: "sort_key identity (cf_agents example_config) = [example_agent]" by (simp add: example_config_def)
  have "semantic_rejection example_task example_config example_binding example_agent = None"
    by (simp add: semantic_rejection_def policy_incompatibility_def forbids_def sorted_difference_def
        example_task_def example_config_def example_binding_def example_agent_def)
  then have "resolve_agent example_task example_config example_binding example_agent = Inr example_resolved"
    by (simp add: resolve_agent_def example_resolved_def example_config_def example_agent_def identity_def)
  with agents show ?thesis
    by (simp add: resolve_agents_def Let_def List.map_filter_def example_binding_def)
qed

lemma example_requested:
  "build_execution_request zero_sha ''t1'' example_task example_resolved example_config example_binding =
     Inr example_request"
  by (simp add: example_request_def build_execution_request_def example_binding_def)

lemma example_validated:
  "validate_execution_candidate zero_sha example_request example_resolved example_descriptor (example_offer 2000)
     True example_safety = Inr (example_candidate 2000)"
proof -
  have r: "rq_agent example_request = LogicalAgentVersion ''coder'' 1"
    "rq_route_policy_digest example_request = route_policy_digest zero_sha (hd (ro_policies (cf_routing example_config)))"
    "rq_required_execution_features example_request = []" "rq_min_context_tokens example_request = 1000"
    "rq_placement_constraints example_request = []" "rq_isolation_requirements example_request = []"
    "rq_resource_requirements example_request = []"
    by (simp_all add: example_request_def build_execution_request_def example_binding_def
        example_resolved_def example_agent_def)
  show ?thesis
    by (simp add: validate_candidate_iff r offer_answers_def offer_is_stale_against_def capacity_suffices_def
        isolation_proven_def launch_is_safe_def example_descriptor_def example_offer_def example_resolved_def
        example_candidate_def)
qed

text \<open>C13.
  Isolation carries through from the configuration to the selected backend: for an Agent
  resolved under a compiled configuration, every isolation requirement of the Agent is a
  guarantee of its sandbox profile and is attested by the controller, by the backend's
  descriptor and by its offer; and no Agent holding the hard-denied action is ever routed.
\<close>

theorem routed_execution_isolated:
  assumes "compile source = Inr c" and "resolve_agents sha t c b = Inr res" and "ra \<in> set (as_eligible res)"
    and "build_execution_request sha task_id t ra c b = Inr r"
    and "validate_execution_candidate sha r ra d x enabled safety = Inr ca"
  shows "set (ag_sandbox_requirements (ra_agent ra)) \<subseteq>
      set (sp_guarantees (ra_sandbox_profile ra)) \<inter> set (sf_isolation_guarantees safety) \<inter>
      set (bd_isolation_facts d) \<inter> set (of_isolation_facts x) \<and>
    ra_agent ra \<in> set (cf_agents c) \<and> ca_agent ca = identity (ra_agent ra) \<and>
    ag_enabled (ra_agent ra) \<and> hard_denied_action \<notin> set (ag_actions (ra_agent ra))"
proof -
  have ok: "consistent c" "declared_ok c" using compile_ok [OF assms(1)] by simp_all
  have mem: "ra_agent ra \<in> set (map ra_agent (as_eligible res))" using assms(3) by simp
  then have agent: "ra_agent ra \<in> set (cf_agents c)" "eligible_for t c b (ra_agent ra)"
    unfolding resolve_agents_eligible [OF ok(1) assms(2)] by simp_all
  obtain a where a: "a \<in> set (cf_agents c)" "resolve_agent t c b a = Inr ra"
    using assms(2,3) by (rule resolve_agents_member)
  have "placeable c a" using ok(1) a(1) by (simp add: consistent_def)
  note resolved = resolve_agent_iff(2) [OF this a(2)]
  have req: "rq_isolation_requirements r = sort (ag_sandbox_requirements (ra_agent ra))"
    using assms(4) by (auto simp: build_execution_request_def split: if_splits)
  have "isolation_proven r d x safety" "ca_agent ca = ra_identity ra"
    using assms(5) by (simp_all add: validate_candidate_iff)
  then show ?thesis
    using resolved agent req ok(2)
    by (auto simp: isolation_proven_def eligible_for_def declared_ok_def agent_ok_def list_all_iff)
qed

theorem routed_execution_isolated_witness:
  "ra_agent example_resolved \<in> set (cf_agents example_config) \<and>
   hard_denied_action \<notin> set (ag_actions (ra_agent example_resolved))"
  using routed_execution_isolated [OF compile_example example_resolves _ example_requested example_validated]
  by simp

section \<open>Selection\<close>

text \<open>
  Candidate selection returns a candidate of least rank (highest policy priority, then the
  policy's preference keys, its tie-break and the identities), fails only on an empty
  set, and chooses the same Agent, policy, backend and offer in whatever order the
  candidates were collected.
\<close>

theorem selection_least_and_stable:
  assumes "one_policy_per_name (set cs)" and "set cs = set ds"
    and "select_execution_candidate sha cs = Inr c" and "select_execution_candidate sha ds = Inr d"
  shows "c \<in> set cs \<and> (\<forall>e \<in> set cs. candidate_rank sha c \<le> candidate_rank sha e) \<and>
    ca_agent c = ca_agent d \<and> ca_route_policy c = ca_route_policy d \<and>
    of_backend_id (ca_offer c) = of_backend_id (ca_offer d) \<and>
    offer_digest sha (ca_offer c) = offer_digest sha (ca_offer d)"
  using select_least [OF assms(1,3)] select_order_independent [OF assms] by simp

theorem selection_least_and_stable_witness:
  "select_execution_candidate zero_sha [example_candidate 2000, example_candidate 3000] = Inr (example_candidate 3000) \<and>
   candidate_rank zero_sha (example_candidate 3000) \<le> candidate_rank zero_sha (example_candidate 2000)"
proof -
  have sel: "select_execution_candidate zero_sha [example_candidate 2000, example_candidate 3000] = Inr (example_candidate 3000)"
    "select_execution_candidate zero_sha [example_candidate 3000, example_candidate 2000] = Inr (example_candidate 3000)"
    by (simp_all add: select_execution_candidate_def compare_candidates_def Let_def cmp_def
        example_candidate_def example_offer_def example_config_def)
  have "one_policy_per_name (set [example_candidate 2000, example_candidate 3000])"
    by (simp add: one_policy_per_name_def example_candidate_def)
  from selection_least_and_stable [OF this _ sel] sel(1) show ?thesis by auto
qed

section \<open>Service order\<close>

text \<open>The service order lists every schedulable Task exactly once, by the Goal's last service,
  the Goal, the time the Task became eligible and the Task, and depends neither on the
  order of the Tasks nor on that of the fairness rows.
\<close>

theorem service_order_deterministic:
  assumes "distinct (map gf_goal_id goals)" and "mset tasks = mset tasks'" and "mset goals = mset goals'"
  shows "service_order goals tasks = service_order goals' tasks' \<and>
    mset (service_order goals tasks) = mset (map (\<lambda>t. (st_goal_id t, st_task_id t)) tasks)"
  using service_order_input_order [OF assms(2,3,1)] service_order_mset [of goals tasks] by simp

definition example_tasks :: "schedulable_task list" where
  "example_tasks = [\<lparr>st_task_id = ''t1'', st_goal_id = ''g1'', st_eligible_since = 5\<rparr>,
     \<lparr>st_task_id = ''t2'', st_goal_id = ''g2'', st_eligible_since = 3\<rparr>]"

theorem service_order_deterministic_witness:
  "service_order [\<lparr>gf_goal_id = ''g1'', gf_last_served_sequence = Some 1\<rparr>] example_tasks =
   service_order [\<lparr>gf_goal_id = ''g1'', gf_last_served_sequence = Some 1\<rparr>] (rev example_tasks)"
  using service_order_deterministic [of "[\<lparr>gf_goal_id = ''g1'', gf_last_served_sequence = Some 1\<rparr>]"
      example_tasks "rev example_tasks" "[\<lparr>gf_goal_id = ''g1'', gf_last_served_sequence = Some 1\<rparr>]"]
  by simp



section \<open>Context\<close>

text \<open>
  A stored context source snapshot decodes to exactly the snapshot that was frozen, and
  its digest names that snapshot unless the hash function collides.
\<close>

theorem snapshot_stored_roundtrip:
  assumes "wf_snapshot s" and "wf_snapshot t"
  shows "snapshot_from_canonical_json (to_canonical_bytes (snapshot_to_value s)) = Inr s \<and>
    (snapshot_digest sha s = snapshot_digest sha t \<longrightarrow> s = t \<or> (\<exists>x y. x \<noteq> y \<and> sha x = sha y))"
proof (intro conjI impI)
  show "snapshot_from_canonical_json (to_canonical_bytes (snapshot_to_value s)) = Inr s"
    unfolding snapshot_from_canonical_json_def by (rule snapshot_codec.stored_roundtrip [OF assms(1)])
  show "snapshot_digest sha s = snapshot_digest sha t \<Longrightarrow> s = t \<or> (\<exists>x y. x \<noteq> y \<and> sha x = sha y)"
    unfolding snapshot_digest_def by (rule snapshot_codec.digest_identity [OF assms])
qed

definition example_snapshot :: context_source_snapshot where
  "example_snapshot = \<lparr>cs_task_spec_digest = zero_digest, cs_goal_id = ''g1'', cs_goal_revision = 1,
     cs_graph_revision = 1, cs_agent = LogicalAgentVersion ''coder'' 1,
     cs_configuration_activation_sequence = 1, cs_context_policy_digest = zero_digest,
     cs_agent_soul_digest = zero_digest, cs_agent_behavior_digest = zero_digest,
     cs_workspace_id = ''w1'', cs_workspace_resolved_base = ''c0''\<rparr>"

lemma wf_example_snapshot: "wf_snapshot example_snapshot"
  by (simp add: wf_snapshot_def example_snapshot_def zero_digest_def wf_digest_def utf8_valid_literal
      is_i64_def is_u32_def i64_min_def i64_max_def)

theorem snapshot_stored_roundtrip_witness:
  "snapshot_from_canonical_json (to_canonical_bytes (snapshot_to_value example_snapshot)) = Inr example_snapshot"
  using snapshot_stored_roundtrip [OF wf_example_snapshot wf_example_snapshot] by blast

text \<open>
  A context plan is built exactly when every mandatory section of the policy is one the
  frozen sources produce; the plan drops nothing, is bound to the snapshot's digest, and
  lists its sections so that no later section has a stronger inclusion class and, within a
  class, none has a higher authority than an earlier one.
\<close>

theorem context_plan_ordered:
  "((\<exists>p. build_context_plan sha s f policy = Inr p) \<longleftrightarrow>
      set (cc_mandatory_sections policy) \<subseteq> producible (fs_task_spec f)) \<and>
   (build_context_plan sha s f policy = Inr p \<longrightarrow>
      mset (cp_sections p) = mset (candidate_sections sha s f) \<and> cp_dropped p = [] \<and>
      cp_source_snapshot_digest p = snapshot_digest sha s \<and>
      (\<forall>i j. i < j \<and> j < length (cp_sections p) \<longrightarrow>
         inclusion_rank (sn_inclusion (cp_sections p ! i)) \<le> inclusion_rank (sn_inclusion (cp_sections p ! j)) \<and>
         (sn_inclusion (cp_sections p ! i) = sn_inclusion (cp_sections p ! j) \<longrightarrow>
            stratum_rank (sn_precedence (cp_sections p ! i)) \<le> stratum_rank (sn_precedence (cp_sections p ! j)))))"
proof (intro conjI impI allI)
  show "(\<exists>p. build_context_plan sha s f policy = Inr p) \<longleftrightarrow>
      set (cc_mandatory_sections policy) \<subseteq> producible (fs_task_spec f)"
    by (rule build_context_plan_iff)
next
  assume p: "build_context_plan sha s f policy = Inr p"
  note sections = build_context_plan_sections [OF p]
  show "mset (cp_sections p) = mset (candidate_sections sha s f)" by (simp add: sections)
  show "cp_dropped p = []" "cp_source_snapshot_digest p = snapshot_digest sha s" by (fact sections)+
  fix i j assume ij: "i < j \<and> j < length (cp_sections p)"
  have "sorted (map order_key (cp_sections p))" by (simp add: sections)
  note ordered = sorted_order_key_nth [OF this, of i j]
  show "inclusion_rank (sn_inclusion (cp_sections p ! i)) \<le> inclusion_rank (sn_inclusion (cp_sections p ! j))"
    using ordered ij by simp
  show "sn_inclusion (cp_sections p ! i) = sn_inclusion (cp_sections p ! j) \<Longrightarrow>
      stratum_rank (sn_precedence (cp_sections p ! i)) \<le> stratum_rank (sn_precedence (cp_sections p ! j))"
    using ordered ij by simp
qed

definition example_sources :: frozen_sources where
  "example_sources = \<lparr>fs_task_spec = example_task, fs_goal_content_digest = zero_digest, fs_soul = ''careful'',
     fs_behavior = ''terse'', fs_workspace_repository = ''repo://main''\<rparr>"

theorem context_plan_ordered_witness:
  "\<exists>p. build_context_plan zero_sha example_snapshot example_sources (cf_context example_config) = Inr p \<and>
     cp_dropped p = []"
proof -
  note ordered = context_plan_ordered [of zero_sha example_snapshot example_sources "cf_context example_config"]
  have "set (cc_mandatory_sections (cf_context example_config)) \<subseteq> producible (fs_task_spec example_sources)"
    by (simp add: example_config_def producible_def section_names)
  with ordered show ?thesis by blast
qed

text \<open>
  With one section per kind and key, the optional drop order removes only preload sections
  of the listed kinds: every mandatory section and every on-demand reference survives,
  survivors and dropped sections account for all of them, and if the capacity is still
  exceeded at the end then no preload section of a listed kind is left.
\<close>

theorem optional_drop_exact:
  assumes "apply_optional_drop sections order exceeded = (kept, dropped)"
    and "distinct (map section_id sections)"
  shows "(\<forall>s \<in> set sections. sn_inclusion s \<noteq> Preload \<longrightarrow> s \<in> set kept) \<and>
    kept = filter (\<lambda>s. section_id s \<notin> dropped_id ` set dropped) sections \<and>
    length kept + length dropped = length sections \<and>
    (exceeded kept \<longrightarrow> (\<forall>s \<in> set kept. sn_inclusion s = Preload \<longrightarrow> sn_kind s \<notin> set order))"
proof -
  have inv: "drop_inv sections (set order) kept dropped" using apply_optional_drop_inv [OF assms(1)] by simp
  then have "kept = filter (\<lambda>s. section_id s \<notin> dropped_id ` set dropped) sections" by (simp add: drop_inv_def)
  with drop_inv_length [OF inv assms(2)] apply_optional_drop_keeps [OF assms]
    apply_optional_drop_inv [OF assms(1)] show ?thesis by blast
qed

theorem optional_drop_exact_witness:
  "\<exists>kept dropped. apply_optional_drop (candidate_sections zero_sha example_snapshot example_sources)
      [''workspace-orientation''] (\<lambda>s. 3 < length s) = (kept, dropped) \<and> length kept + length dropped = 6"
proof -
  obtain kept dropped where d: "apply_optional_drop (candidate_sections zero_sha example_snapshot example_sources)
      [''workspace-orientation''] (\<lambda>s. 3 < length s) = (kept, dropped)" by fastforce
  have "distinct (map section_id (candidate_sections zero_sha example_snapshot example_sources))"
    and "length (candidate_sections zero_sha example_snapshot example_sources) = 6"
    by (simp_all add: candidate_sections_def section_id_def agent_section_def input_section_def section_names
        example_sources_def example_task_def)
  with optional_drop_exact [OF d] d show ?thesis by auto
qed

text \<open>The guidance frozen for a Run is that of exactly the named Agent version: extraction
  from the agents component of a compiled configuration returns the soul and behavior of
  the declared Agent with that name and version, and fails when there is none.
\<close>

theorem frozen_guidance_exact:
  assumes "compile source = Inr c"
  shows "frozen_agent_guidance (agents_to_value (cf_agents c)) v = Inr g \<longleftrightarrow>
    (\<exists>a \<in> set (cf_agents c). identity a = v \<and> g = \<lparr>gu_soul = ag_soul a, gu_behavior = ag_behavior a\<rparr>)"
proof (rule frozen_agent_guidance_iff)
  have ok: "consistent c" "declared_ok c" using compile_ok [OF assms] by simp_all
  show "distinct (map identity (cf_agents c))" using ok(1) by (simp add: consistent_def)
  show "\<forall>a \<in> set (cf_agents c). ag_soul a \<noteq> [] \<and> ag_behavior a \<noteq> []"
    using ok(2) by (auto simp: declared_ok_def agent_ok_def list_all_iff)
qed

theorem frozen_guidance_exact_witness:
  "frozen_agent_guidance (agents_to_value (cf_agents example_config)) (LogicalAgentVersion ''coder'' 1) =
     Inr \<lparr>gu_soul = ''careful'', gu_behavior = ''terse''\<rparr>"
  by (subst frozen_guidance_exact [OF compile_example])
    (simp add: example_config_def example_agent_def identity_def)

end
