(* ===== verification/Schema.thy ===== *)
theory Schema
  imports Canonical
begin

text \<open>
  The relational schema of the authoritative store, as the production migrations leave it
  (\<^verbatim>\<open>crates/pantheon-store/src/migrations.rs\<close>): one record per table, with every column, and the
  declared constraints as Boolean functions of the database.

  \<^item> A \<open>TEXT\<close> column is a string, a \<open>BLOB\<close> a byte list, an \<open>INTEGER\<close> an integer, a nullable
    column an option. A table is the list of its rows in insertion order.
  \<^item> \<open>checks_ok\<close>, \<open>primary_keys_ok\<close>, \<open>uniques_ok\<close> and \<open>foreign_keys_ok\<close> gather the
    \<open>CHECK\<close>, \<open>PRIMARY KEY\<close>, \<open>UNIQUE\<close> (partial unique indexes included) and \<open>REFERENCES\<close>
    clauses; \<open>violated\<close> names the first kind a database breaks.
  \<^item> Phases and modes are stored as text, as the columns hold them; the code that reads them
    parses them back, with its own error when it cannot.
\<close>

section \<open>Rows\<close>

record system_state_row =
  ss_id :: int
  ss_restore_generation :: string

record journal_epoch_row =
  je_epoch :: string
  je_next_sequence :: int
  je_is_current :: int

record event_row =
  ej_event_id :: string
  ej_journal_epoch :: string
  ej_sequence :: int
  ej_event_type :: string
  ej_recorded_at :: int
  ej_command_epoch :: "string option"
  ej_command_id :: "string option"

record command_row =
  co_command_epoch :: string
  co_command_id :: string
  co_request_hash :: "byte list"
  co_journal_epoch :: string
  co_sequence :: int
  co_recorded_at :: int

record configuration_component_row =
  cfc_digest :: "byte list"
  cfc_domain :: string
  cfc_canonical_json :: string

record configuration_revision_row =
  cr_activation_sequence :: int
  cr_content_digest :: "byte list"
  cr_compiler_version :: string
  cr_source_set_digest :: "byte list"
  cr_agents_digest :: "byte list"
  cr_routing_digest :: "byte list"
  cr_execution_profile_digest :: "byte list"
  cr_evaluator_registry_digest :: "byte list"
  cr_context_policy_digest :: "byte list"
  cr_authorization_digest :: "byte list"
  cr_recorded_at :: int

record active_configuration_row =
  acf_id :: string
  acf_revision :: int
  acf_activation_sequence :: "int option"

record goal_row =
  g_id :: string
  g_phase :: string
  g_current_revision :: int
  g_revision :: int
  g_terminal_target :: "string option"
  g_created_at :: int

record goal_revision_row =
  gr_goal_id :: string
  gr_revision :: int
  gr_content_digest :: "byte list"
  gr_canonical_json :: string
  gr_created_at :: int

record task_graph_row =
  tg_id :: string
  tg_revision :: int

record task_spec_row =
  tsp_digest :: "byte list"
  tsp_goal_id :: string
  tsp_goal_revision :: int
  tsp_canonical_json :: string
  tsp_acceptance_digest :: "byte list"
  tsp_evaluator_registry_digest :: "byte list"
  tsp_configuration_activation_sequence :: int

record task_row =
  t_id :: string
  t_goal_id :: string
  t_created_graph_revision :: int
  t_phase :: string
  t_revision :: int
  t_terminal_target :: "string option"
  t_terminal_reason_json :: "string option"
  t_active_run_id :: "string option"
  t_spec_digest :: "byte list"

record task_graph_edge_row =
  te_goal_id :: string
  te_upstream_task_id :: string
  te_downstream_task_id :: string
  te_kind :: string
  te_created_graph_revision :: int
  te_removed_graph_revision :: "int option"

record planning_operation_row =
  po_id :: string
  po_goal_id :: string
  po_goal_revision :: int
  po_expected_graph_revision :: int
  po_trigger_kind :: string
  po_planning_input_digest :: "byte list"
  po_planner_implementation :: string
  po_planner_version :: string
  po_configuration_activation_sequence :: int
  po_state :: string
  po_revision :: int
  po_created_at :: int

record planning_record_row =
  pr_planning_operation_id :: string
  pr_proposal_digest :: "byte list"
  pr_canonical_proposal :: string
  pr_normalization_provenance :: string
  pr_created_at :: int

record workspace_row =
  w_id :: string
  w_task_id :: string
  w_repository :: string
  w_source_path :: string
  w_requested_base :: string
  w_resolved_base :: string
  w_phase :: string
  w_materialization :: string
  w_revision :: int
  w_created_at :: int

record scheduler_state_row =
  sc_id :: string
  sc_dispatch_mode :: string
  sc_next_service_sequence :: int
  sc_revision :: int
  sc_updated_at :: int

record goal_scheduling_row =
  gs_goal_id :: string
  gs_last_served_sequence :: "int option"
  gs_revision :: int
  gs_created_at :: int
  gs_updated_at :: int

record task_scheduling_row =
  tsc_task_id :: string
  tsc_eligible_since :: "int option"
  tsc_next_attempt_at :: "int option"
  tsc_last_failure_code :: "string option"
  tsc_last_failure_detail_json :: "string option"
  tsc_revision :: int
  tsc_updated_at :: int

record execution_binding_row =
  ebr_digest :: "byte list"
  ebr_task_id :: string
  ebr_configuration_activation_sequence :: int
  ebr_configuration_content_digest :: "byte list"
  ebr_canonical_json :: string
  ebr_created_at :: int

record source_snapshot_row =
  sn_digest :: "byte list"
  sn_configuration_activation_sequence :: int
  sn_context_policy_digest :: "byte list"
  sn_task_spec_digest :: "byte list"
  sn_goal_id :: string
  sn_goal_revision :: int
  sn_graph_revision :: int
  sn_agent_name :: string
  sn_agent_version :: int
  sn_agent_soul_digest :: "byte list option"
  sn_agent_behavior_digest :: "byte list option"
  sn_workspace_id :: string
  sn_workspace_resolved_base :: string
  sn_canonical_json :: string
  sn_created_at :: int

record run_row =
  ru_id :: string
  ru_task_id :: string
  ru_binding_digest :: "byte list"
  ru_context_source_snapshot_digest :: "byte list"
  ru_created_at :: int

record run_status_row =
  rs_run_id :: string
  rs_task_id :: string
  rs_phase :: string
  rs_terminal_target :: "string option"
  rs_revision :: int
  rs_active_slot :: "string option"
  rs_current_attempt_id :: "string option"
  rs_candidate_digest :: "byte list option"
  rs_updated_at :: int

record blob_row =
  bl_digest :: "byte list"
  bl_size :: int
  bl_created_at :: int

record artifact_row =
  ar_digest :: "byte list"
  ar_artifact_kind :: string
  ar_canonical_json :: string
  ar_created_at :: int

record artifact_member_row =
  am_artifact_digest :: "byte list"
  am_blob_digest :: "byte list"

record workspace_revision_row =
  wr_id :: string
  wr_workspace_id :: string
  wr_repository :: string
  wr_resolved_base :: string
  wr_state_digest :: "byte list"
  wr_canonical_json :: string
  wr_created_at :: int

record context_plan_row =
  cpl_digest :: "byte list"
  cpl_source_snapshot_digest :: "byte list"
  cpl_builder_version :: string
  cpl_canonical_json :: string
  cpl_created_at :: int

record run_context_plan_row =
  rcp_run_id :: string
  rcp_context_source_snapshot_digest :: "byte list"
  rcp_context_plan_digest :: "byte list"
  rcp_attached_at :: int

record attempt_row =
  at_id :: string
  at_run_id :: string
  at_ordinal :: int
  at_launch_key :: string
  at_created_at :: int

record attempt_status_row =
  as_attempt_id :: string
  as_run_id :: string
  as_observed_execution :: string
  as_terminal :: int
  as_revision :: int
  as_launch_contact_state :: string
  as_launch_contact_initiated_at :: "int option"
  as_launch_contact_epoch :: "string option"
  as_started_at :: "int option"
  as_finished_at :: "int option"
  as_updated_at :: int

record session_row =
  acs_id :: string
  acs_attempt_id :: string
  acs_restore_generation :: string
  acs_credential_revision :: int
  acs_credential_hash :: "byte list"
  acs_credential_rekeyed_at :: "int option"
  acs_state :: string
  acs_created_at :: int
  acs_revoked_at :: "int option"
  acs_revocation_reason :: "string option"

record agent_request_row =
  aq_attempt_id :: string
  aq_request_id :: string
  aq_request_hash :: "byte list"
  aq_operation :: string
  aq_state :: string
  aq_result_ref :: "string option"
  aq_problem_code :: "string option"
  aq_created_at :: int
  aq_updated_at :: int

record production_record_row =
  prr_run_id :: string
  prr_output_slot :: string
  prr_task_id :: string
  prr_attempt_id :: string
  prr_workspace_revision_id :: string
  prr_artifact_digest :: "byte list"
  prr_created_at :: int

record candidate_row =
  ca_digest :: "byte list"
  ca_task_id :: string
  ca_run_id :: string
  ca_canonical_json :: string
  ca_created_at :: int

record candidate_output_row =
  cao_candidate_digest :: "byte list"
  cao_output_slot :: string
  cao_artifact_digest :: "byte list"
  cao_production_run_id :: string

record sandbox_row =
  sbx_id :: string
  sbx_run_id :: string
  sbx_sandbox_plan_digest :: "byte list"
  sbx_environment_identity :: string
  sbx_phase :: string
  sbx_observed_presence :: string
  sbx_revision :: int
  sbx_created_at :: int
  sbx_updated_at :: int

record probe_result_row =
  prb_id :: int
  prb_sandbox_id :: string
  prb_run_id :: string
  prb_probe_name :: string
  prb_expected :: string
  prb_observed :: string
  prb_passed :: int
  prb_backend_descriptor :: string
  prb_backend_version :: string
  prb_platform :: string
  prb_architecture :: string
  prb_probe_implementation_version :: string
  prb_environment_identity :: string
  prb_sandbox_plan_digest :: "byte list"
  prb_launch_decision :: string
  prb_recorded_at :: int

section \<open>The database\<close>

record db =
  system_state :: "system_state_row list"
  journal_epochs :: "journal_epoch_row list"
  event_journal :: "event_row list"
  commands :: "command_row list"
  configuration_components :: "configuration_component_row list"
  configuration_revisions :: "configuration_revision_row list"
  active_configuration :: "active_configuration_row list"
  goals :: "goal_row list"
  goal_revisions :: "goal_revision_row list"
  task_graphs :: "task_graph_row list"
  task_specs :: "task_spec_row list"
  tasks :: "task_row list"
  task_graph_edges :: "task_graph_edge_row list"
  planning_operations :: "planning_operation_row list"
  planning_records :: "planning_record_row list"
  workspaces :: "workspace_row list"
  scheduler_state :: "scheduler_state_row list"
  goal_scheduling_state :: "goal_scheduling_row list"
  task_scheduling_state :: "task_scheduling_row list"
  execution_bindings :: "execution_binding_row list"
  context_source_snapshots :: "source_snapshot_row list"
  runs :: "run_row list"
  run_status :: "run_status_row list"
  blobs :: "blob_row list"
  artifacts :: "artifact_row list"
  artifact_members :: "artifact_member_row list"
  workspace_revisions :: "workspace_revision_row list"
  context_plans :: "context_plan_row list"
  run_context_plans :: "run_context_plan_row list"
  attempts :: "attempt_row list"
  attempt_status :: "attempt_status_row list"
  agent_control_sessions :: "session_row list"
  agent_requests :: "agent_request_row list"
  production_records :: "production_record_row list"
  candidates :: "candidate_row list"
  candidate_outputs :: "candidate_output_row list"
  sandbox_instances :: "sandbox_row list"
  sandbox_probe_results :: "probe_result_row list"

definition empty_db :: db where
  "empty_db = \<lparr>system_state = [], journal_epochs = [], event_journal = [], commands = [],
     configuration_components = [], configuration_revisions = [], active_configuration = [],
     goals = [], goal_revisions = [], task_graphs = [], task_specs = [], tasks = [],
     task_graph_edges = [], planning_operations = [], planning_records = [], workspaces = [],
     scheduler_state = [], goal_scheduling_state = [], task_scheduling_state = [],
     execution_bindings = [], context_source_snapshots = [], runs = [], run_status = [],
     blobs = [], artifacts = [], artifact_members = [], workspace_revisions = [],
     context_plans = [], run_context_plans = [], attempts = [], attempt_status = [],
     agent_control_sessions = [], agent_requests = [], production_records = [], candidates = [],
     candidate_outputs = [], sandbox_instances = [], sandbox_probe_results = []\<rparr>"

section \<open>Row-local constraints\<close>

text \<open>
  SQLite's \<open>length\<close> of a text counts its characters up to the first NUL; of a blob, its bytes.
\<close>

definition sql_length :: "string \<Rightarrow> nat" where
  "sql_length s = chars_count (takeWhile (\<lambda>c. c \<noteq> CHR 0x00) s)"

definition length_between :: "nat \<Rightarrow> nat \<Rightarrow> string \<Rightarrow> bool" where
  "length_between lo hi s \<longleftrightarrow> lo \<le> sql_length s \<and> sql_length s \<le> hi"

definition is_digest :: "byte list \<Rightarrow> bool" where
  "is_digest b \<longleftrightarrow> length b = 32"

definition is_null_or :: "('a \<Rightarrow> bool) \<Rightarrow> 'a option \<Rightarrow> bool" where
  "is_null_or P v = (case v of None \<Rightarrow> True | Some x \<Rightarrow> P x)"

definition check_system_state :: "system_state_row \<Rightarrow> bool" where
  "check_system_state r \<longleftrightarrow> ss_id r = 1 \<and> sql_length (ss_restore_generation r) = 32"

definition check_journal_epoch :: "journal_epoch_row \<Rightarrow> bool" where
  "check_journal_epoch r \<longleftrightarrow> sql_length (je_epoch r) = 32 \<and> 1 \<le> je_next_sequence r
     \<and> je_is_current r \<in> {0, 1}"

definition check_event :: "event_row \<Rightarrow> bool" where
  "check_event r \<longleftrightarrow> sql_length (ej_event_id r) = 32 \<and> 1 \<le> ej_sequence r
     \<and> length_between 1 128 (ej_event_type r)
     \<and> (ej_command_epoch r = None) = (ej_command_id r = None)"

definition check_command :: "command_row \<Rightarrow> bool" where
  "check_command r \<longleftrightarrow> sql_length (co_command_epoch r) = 32
     \<and> length_between 1 128 (co_command_id r) \<and> is_digest (co_request_hash r)"

definition check_configuration_component :: "configuration_component_row \<Rightarrow> bool" where
  "check_configuration_component r \<longleftrightarrow> is_digest (cfc_digest r)
     \<and> cfc_domain r \<in> set [''agents'', ''routing'', ''executionProfiles'',
          ''evaluators'', ''context'', ''authorization'']"

definition check_configuration_revision :: "configuration_revision_row \<Rightarrow> bool" where
  "check_configuration_revision r \<longleftrightarrow> 1 \<le> cr_activation_sequence r
     \<and> is_digest (cr_content_digest r) \<and> is_digest (cr_source_set_digest r)"

definition check_active_configuration :: "active_configuration_row \<Rightarrow> bool" where
  "check_active_configuration r \<longleftrightarrow> acf_id r = ''singleton'' \<and> 0 < acf_revision r"

text \<open>
  Terminal-intent coherence, the same for Goals and Tasks:
  \<^verbatim>\<open>(live AND target IS NULL) OR (Finalizing AND target IN terminal) OR (terminal AND target = phase)\<close>.
  A \<open>CHECK\<close> rejects a row only when its expression is false, and under SQL's three-valued logic
  a comparison with a null target is null: with no target the expression is true for a live
  phase and null for \<open>Finalizing\<close> and the terminal phases, so it never rejects.
\<close>

definition target_coherent :: "string list \<Rightarrow> string \<Rightarrow> string option \<Rightarrow> bool" where
  "target_coherent terminal phase target = (case target of
     None \<Rightarrow> True
   | Some t \<Rightarrow> (phase = ''Finalizing'' \<and> t \<in> set terminal) \<or> (phase \<in> set terminal \<and> t = phase))"

definition goal_live_phases :: "string list" where
  "goal_live_phases = [''Planning'', ''Active'', ''Evaluating'']"

definition goal_terminal_phases :: "string list" where
  "goal_terminal_phases = [''Succeeded'', ''Failed'', ''Cancelled'']"

definition task_live_phases :: "string list" where
  "task_live_phases = [''Pending'', ''Ready'', ''Active'', ''Waiting'', ''Evaluating'']"

definition task_terminal_phases :: "string list" where
  "task_terminal_phases = [''Succeeded'', ''Failed'', ''Cancelled'', ''Superseded'']"

definition check_goal :: "goal_row \<Rightarrow> bool" where
  "check_goal r \<longleftrightarrow> g_phase r \<in> set (goal_live_phases @ [''Finalizing''] @ goal_terminal_phases)
     \<and> 1 \<le> g_current_revision r \<and> 0 < g_revision r
     \<and> target_coherent goal_terminal_phases (g_phase r) (g_terminal_target r)"

definition check_goal_revision :: "goal_revision_row \<Rightarrow> bool" where
  "check_goal_revision r \<longleftrightarrow> 1 \<le> gr_revision r \<and> is_digest (gr_content_digest r)"

definition check_task_graph :: "task_graph_row \<Rightarrow> bool" where
  "check_task_graph r \<longleftrightarrow> 0 \<le> tg_revision r"

definition check_task_spec :: "task_spec_row \<Rightarrow> bool" where
  "check_task_spec r \<longleftrightarrow> is_digest (tsp_digest r) \<and> is_digest (tsp_acceptance_digest r)
     \<and> is_digest (tsp_evaluator_registry_digest r)"

definition check_task :: "task_row \<Rightarrow> bool" where
  "check_task r \<longleftrightarrow> t_phase r \<in> set (task_live_phases @ [''Finalizing''] @ task_terminal_phases)
     \<and> 0 < t_revision r
     \<and> target_coherent task_terminal_phases (t_phase r) (t_terminal_target r)
     \<and> (t_phase r \<notin> {''Ready'', ''Waiting''} \<or> t_active_run_id r = None)
     \<and> (t_phase r \<noteq> ''Active'' \<or> t_active_run_id r \<noteq> None)"

definition check_task_graph_edge :: "task_graph_edge_row \<Rightarrow> bool" where
  "check_task_graph_edge r \<longleftrightarrow> te_kind r = ''requires_success''
     \<and> te_upstream_task_id r \<noteq> te_downstream_task_id r
     \<and> is_null_or (\<lambda>n. te_created_graph_revision r < n) (te_removed_graph_revision r)"

definition check_planning_operation :: "planning_operation_row \<Rightarrow> bool" where
  "check_planning_operation r \<longleftrightarrow> 0 \<le> po_expected_graph_revision r
     \<and> po_trigger_kind r = ''initial'' \<and> is_digest (po_planning_input_digest r)
     \<and> po_state r \<in> {''Planned'', ''Materialized''} \<and> 0 < po_revision r"

definition check_planning_record :: "planning_record_row \<Rightarrow> bool" where
  "check_planning_record r \<longleftrightarrow> is_digest (pr_proposal_digest r)"

text \<open>
  The fence the Workspace and Sandbox tables share: \<open>Ready\<close> requires the external state to be
  present, \<open>Requested\<close> and \<open>Released\<close> require it to be absent.
\<close>

definition presence_fence :: "string \<Rightarrow> string \<Rightarrow> bool" where
  "presence_fence phase presence \<longleftrightarrow>
     (phase \<noteq> ''Ready'' \<or> presence = ''Present'')
     \<and> (phase \<noteq> ''Requested'' \<or> presence = ''Absent'')
     \<and> (phase \<noteq> ''Released'' \<or> presence = ''Absent'')"

definition check_workspace :: "workspace_row \<Rightarrow> bool" where
  "check_workspace r \<longleftrightarrow> length_between 1 512 (w_repository r) \<and> 0 < sql_length (w_source_path r)
     \<and> length_between 1 255 (w_requested_base r) \<and> sql_length (w_resolved_base r) \<in> {40, 64}
     \<and> w_phase r \<in> set [''Requested'', ''Materializing'', ''Ready'', ''Frozen'', ''Releasing'',
          ''Released'', ''Error'']
     \<and> w_materialization r \<in> {''Present'', ''Absent'', ''Unknown''} \<and> 0 < w_revision r
     \<and> presence_fence (w_phase r) (w_materialization r)"

definition check_scheduler_state :: "scheduler_state_row \<Rightarrow> bool" where
  "check_scheduler_state r \<longleftrightarrow> sc_id r = ''singleton''
     \<and> sc_dispatch_mode r \<in> {''RUNNING'', ''PAUSED''} \<and> 1 \<le> sc_next_service_sequence r
     \<and> 0 < sc_revision r"

definition check_goal_scheduling :: "goal_scheduling_row \<Rightarrow> bool" where
  "check_goal_scheduling r \<longleftrightarrow> is_null_or (\<lambda>n. 1 \<le> n) (gs_last_served_sequence r) \<and> 0 < gs_revision r"

definition check_task_scheduling :: "task_scheduling_row \<Rightarrow> bool" where
  "check_task_scheduling r \<longleftrightarrow> 0 < tsc_revision r"

definition check_execution_binding :: "execution_binding_row \<Rightarrow> bool" where
  "check_execution_binding r \<longleftrightarrow> is_digest (ebr_digest r)
     \<and> is_digest (ebr_configuration_content_digest r)"

definition check_source_snapshot :: "source_snapshot_row \<Rightarrow> bool" where
  "check_source_snapshot r \<longleftrightarrow> is_digest (sn_digest r) \<and> is_digest (sn_context_policy_digest r)
     \<and> is_digest (sn_task_spec_digest r) \<and> is_null_or is_digest (sn_agent_soul_digest r)
     \<and> is_null_or is_digest (sn_agent_behavior_digest r)"

definition run_nonterminal :: "run_status_row \<Rightarrow> bool" where
  "run_nonterminal r \<longleftrightarrow> rs_phase r \<in> {''Active'', ''Finalizing''}"

text \<open>
  The slot clause of \<open>run_status\<close>,
  \<^verbatim>\<open>(nonterminal AND active_slot = 'global') OR (terminal AND active_slot IS NULL)\<close>,
  is null, hence accepted, for a nonterminal run whose slot is null.
\<close>

definition check_run_status :: "run_status_row \<Rightarrow> bool" where
  "check_run_status r \<longleftrightarrow>
     rs_phase r \<in> set [''Active'', ''Finalizing'', ''Completed'', ''Failed'', ''Cancelled'', ''Yielded'']
     \<and> 0 < rs_revision r \<and> is_null_or is_digest (rs_candidate_digest r)
     \<and> (rs_phase r \<noteq> ''Finalizing'' \<or> rs_terminal_target r \<noteq> None)
     \<and> (rs_phase r \<noteq> ''Completed'' \<or> rs_candidate_digest r \<noteq> None)
     \<and> (case rs_active_slot r of None \<Rightarrow> True | Some slot \<Rightarrow> run_nonterminal r \<and> slot = ''global'')"

definition check_blob :: "blob_row \<Rightarrow> bool" where
  "check_blob r \<longleftrightarrow> is_digest (bl_digest r) \<and> 0 \<le> bl_size r"

definition check_artifact :: "artifact_row \<Rightarrow> bool" where
  "check_artifact r \<longleftrightarrow> is_digest (ar_digest r) \<and> length_between 1 128 (ar_artifact_kind r)"

definition check_workspace_revision :: "workspace_revision_row \<Rightarrow> bool" where
  "check_workspace_revision r \<longleftrightarrow> sql_length (wr_id r) = 32 \<and> length_between 1 512 (wr_repository r)
     \<and> sql_length (wr_resolved_base r) \<in> {40, 64} \<and> is_digest (wr_state_digest r)"

definition check_context_plan :: "context_plan_row \<Rightarrow> bool" where
  "check_context_plan r \<longleftrightarrow> is_digest (cpl_digest r) \<and> length_between 1 128 (cpl_builder_version r)"

definition check_run_context_plan :: "run_context_plan_row \<Rightarrow> bool" where
  "check_run_context_plan r \<longleftrightarrow> is_digest (rcp_context_plan_digest r)"

definition check_attempt :: "attempt_row \<Rightarrow> bool" where
  "check_attempt r \<longleftrightarrow> length_between 1 128 (at_id r) \<and> 1 \<le> at_ordinal r
     \<and> sql_length (at_launch_key r) = 64"

definition check_attempt_status :: "attempt_status_row \<Rightarrow> bool" where
  "check_attempt_status r \<longleftrightarrow>
     as_observed_execution r \<in> set [''ABSENT'', ''STARTING'', ''RUNNING'', ''EXITED'', ''UNKNOWN'']
     \<and> as_terminal r \<in> {0, 1} \<and> 0 < as_revision r
     \<and> as_launch_contact_state r \<in> {''NOT_CONTACTED'', ''CONTACT_MAY_HAVE_OCCURRED''}
     \<and> (as_launch_contact_state r = ''NOT_CONTACTED'') = (as_launch_contact_initiated_at r = None)
     \<and> (as_launch_contact_state r = ''NOT_CONTACTED'') = (as_launch_contact_epoch r = None)
     \<and> (as_terminal r \<noteq> 0 \<or> as_finished_at r = None)"

definition check_session :: "session_row \<Rightarrow> bool" where
  "check_session r \<longleftrightarrow> length_between 1 128 (acs_id r) \<and> sql_length (acs_restore_generation r) = 32
     \<and> 1 \<le> acs_credential_revision r \<and> is_digest (acs_credential_hash r)
     \<and> acs_state r \<in> {''ACTIVE'', ''REVOKED''}
     \<and> (acs_state r = ''ACTIVE'') = (acs_revoked_at r = None)"

definition check_agent_request :: "agent_request_row \<Rightarrow> bool" where
  "check_agent_request r \<longleftrightarrow> length_between 1 128 (aq_attempt_id r)
     \<and> length_between 1 128 (aq_request_id r) \<and> is_digest (aq_request_hash r)
     \<and> aq_operation r \<in> {''artifact.seal'', ''task.submit_result''}
     \<and> aq_state r \<in> {''STARTED'', ''SUCCEEDED'', ''FAILED''}
     \<and> is_null_or (length_between 1 128) (aq_result_ref r)
     \<and> is_null_or (length_between 1 64) (aq_problem_code r)
     \<and> (aq_state r = ''SUCCEEDED'') = (aq_result_ref r \<noteq> None)
     \<and> (aq_state r = ''FAILED'') = (aq_problem_code r \<noteq> None)"

definition check_production_record :: "production_record_row \<Rightarrow> bool" where
  "check_production_record r \<longleftrightarrow> length_between 1 128 (prr_output_slot r)"

definition check_candidate_row :: "candidate_row \<Rightarrow> bool" where
  "check_candidate_row r \<longleftrightarrow> is_digest (ca_digest r)"

definition check_candidate_output :: "candidate_output_row \<Rightarrow> bool" where
  "check_candidate_output r \<longleftrightarrow> length_between 1 128 (cao_output_slot r)"

definition check_sandbox :: "sandbox_row \<Rightarrow> bool" where
  "check_sandbox r \<longleftrightarrow> length_between 1 128 (sbx_id r) \<and> is_digest (sbx_sandbox_plan_digest r)
     \<and> 0 < sql_length (sbx_environment_identity r)
     \<and> sbx_phase r \<in> set [''Requested'', ''Preparing'', ''Ready'', ''Releasing'', ''Released'', ''Error'']
     \<and> sbx_observed_presence r \<in> {''Present'', ''Absent'', ''Unknown''} \<and> 0 < sbx_revision r
     \<and> presence_fence (sbx_phase r) (sbx_observed_presence r)"

definition check_probe_result :: "probe_result_row \<Rightarrow> bool" where
  "check_probe_result r \<longleftrightarrow> prb_passed r \<in> {0, 1} \<and> is_digest (prb_sandbox_plan_digest r)
     \<and> prb_launch_decision r \<in> {''blocked'', ''allowed''}"

section \<open>Database constraints\<close>

definition checks_ok :: "db \<Rightarrow> bool" where
  "checks_ok d \<longleftrightarrow>
     list_all check_system_state (system_state d)
     \<and> list_all check_journal_epoch (journal_epochs d)
     \<and> list_all check_event (event_journal d)
     \<and> list_all check_command (commands d)
     \<and> list_all check_configuration_component (configuration_components d)
     \<and> list_all check_configuration_revision (configuration_revisions d)
     \<and> list_all check_active_configuration (active_configuration d)
     \<and> list_all check_goal (goals d)
     \<and> list_all check_goal_revision (goal_revisions d)
     \<and> list_all check_task_graph (task_graphs d)
     \<and> list_all check_task_spec (task_specs d)
     \<and> list_all check_task (tasks d)
     \<and> list_all check_task_graph_edge (task_graph_edges d)
     \<and> list_all check_planning_operation (planning_operations d)
     \<and> list_all check_planning_record (planning_records d)
     \<and> list_all check_workspace (workspaces d)
     \<and> list_all check_scheduler_state (scheduler_state d)
     \<and> list_all check_goal_scheduling (goal_scheduling_state d)
     \<and> list_all check_task_scheduling (task_scheduling_state d)
     \<and> list_all check_execution_binding (execution_bindings d)
     \<and> list_all check_source_snapshot (context_source_snapshots d)
     \<and> list_all check_run_status (run_status d)
     \<and> list_all check_blob (blobs d)
     \<and> list_all check_artifact (artifacts d)
     \<and> list_all check_workspace_revision (workspace_revisions d)
     \<and> list_all check_context_plan (context_plans d)
     \<and> list_all check_run_context_plan (run_context_plans d)
     \<and> list_all check_attempt (attempts d)
     \<and> list_all check_attempt_status (attempt_status d)
     \<and> list_all check_session (agent_control_sessions d)
     \<and> list_all check_agent_request (agent_requests d)
     \<and> list_all check_production_record (production_records d)
     \<and> list_all check_candidate_row (candidates d)
     \<and> list_all check_candidate_output (candidate_outputs d)
     \<and> list_all check_sandbox (sandbox_instances d)
     \<and> list_all check_probe_result (sandbox_probe_results d)"

definition primary_keys_ok :: "db \<Rightarrow> bool" where
  "primary_keys_ok d \<longleftrightarrow>
     distinct (map ss_id (system_state d))
     \<and> distinct (map je_epoch (journal_epochs d))
     \<and> distinct (map ej_event_id (event_journal d))
     \<and> distinct (map (\<lambda>r. (co_command_epoch r, co_command_id r)) (commands d))
     \<and> distinct (map cfc_digest (configuration_components d))
     \<and> distinct (map cr_activation_sequence (configuration_revisions d))
     \<and> distinct (map acf_id (active_configuration d))
     \<and> distinct (map g_id (goals d))
     \<and> distinct (map (\<lambda>r. (gr_goal_id r, gr_revision r)) (goal_revisions d))
     \<and> distinct (map tg_id (task_graphs d))
     \<and> distinct (map tsp_digest (task_specs d))
     \<and> distinct (map t_id (tasks d))
     \<and> distinct (map po_id (planning_operations d))
     \<and> distinct (map pr_planning_operation_id (planning_records d))
     \<and> distinct (map w_id (workspaces d))
     \<and> distinct (map sc_id (scheduler_state d))
     \<and> distinct (map gs_goal_id (goal_scheduling_state d))
     \<and> distinct (map tsc_task_id (task_scheduling_state d))
     \<and> distinct (map ebr_digest (execution_bindings d))
     \<and> distinct (map sn_digest (context_source_snapshots d))
     \<and> distinct (map ru_id (runs d))
     \<and> distinct (map rs_run_id (run_status d))
     \<and> distinct (map bl_digest (blobs d))
     \<and> distinct (map ar_digest (artifacts d))
     \<and> distinct (map (\<lambda>r. (am_artifact_digest r, am_blob_digest r)) (artifact_members d))
     \<and> distinct (map wr_id (workspace_revisions d))
     \<and> distinct (map cpl_digest (context_plans d))
     \<and> distinct (map rcp_run_id (run_context_plans d))
     \<and> distinct (map at_id (attempts d))
     \<and> distinct (map as_attempt_id (attempt_status d))
     \<and> distinct (map acs_id (agent_control_sessions d))
     \<and> distinct (map (\<lambda>r. (aq_attempt_id r, aq_request_id r)) (agent_requests d))
     \<and> distinct (map (\<lambda>r. (prr_run_id r, prr_output_slot r)) (production_records d))
     \<and> distinct (map ca_digest (candidates d))
     \<and> distinct (map (\<lambda>r. (cao_candidate_digest r, cao_output_slot r)) (candidate_outputs d))
     \<and> distinct (map sbx_id (sandbox_instances d))
     \<and> distinct (map prb_id (sandbox_probe_results d))"

text \<open>
  \<open>UNIQUE\<close> clauses that are not implied by a primary key, and the partial unique indexes.
  (\<open>runs(id, task_id)\<close>, \<open>runs(id, context_source_snapshot_digest)\<close>, \<open>context_plans(digest, \<dots>)\<close>,
  \<open>attempts(id, run_id)\<close> and \<open>production_records(run_id, output_slot, \<dots>)\<close> extend a primary key
  and add nothing.)
\<close>

definition uniques_ok :: "db \<Rightarrow> bool" where
  "uniques_ok d \<longleftrightarrow>
     distinct (map je_is_current (filter (\<lambda>r. je_is_current r = 1) (journal_epochs d)))
     \<and> distinct (map (\<lambda>r. (ej_journal_epoch r, ej_sequence r)) (event_journal d))
     \<and> distinct (map w_task_id (filter (\<lambda>r. w_phase r \<noteq> ''Released'') (workspaces d)))
     \<and> distinct (map rs_task_id (filter run_nonterminal (run_status d)))
     \<and> distinct (map rs_active_slot (filter (\<lambda>r. rs_active_slot r \<noteq> None) (run_status d)))
     \<and> distinct (map (\<lambda>r. (wr_workspace_id r, wr_state_digest r)) (workspace_revisions d))
     \<and> distinct (map at_launch_key (attempts d))
     \<and> distinct (map as_run_id (filter (\<lambda>r. as_terminal r = 0) (attempt_status d)))
     \<and> distinct (map acs_attempt_id (agent_control_sessions d))
     \<and> distinct (map ca_run_id (candidates d))
     \<and> distinct (map sbx_run_id (filter (\<lambda>r. sbx_phase r \<noteq> ''Released'') (sandbox_instances d)))"

definition references :: "'a list \<Rightarrow> 'a list \<Rightarrow> bool" where
  "references children parents \<longleftrightarrow> list_all (\<lambda>x. List.member parents x) children"

definition goal_ids :: "db \<Rightarrow> string list" where
  "goal_ids d = map g_id (goals d)"

definition task_ids :: "db \<Rightarrow> string list" where
  "task_ids d = map t_id (tasks d)"

definition component_ids :: "db \<Rightarrow> byte list list" where
  "component_ids d = map cfc_digest (configuration_components d)"

definition run_holders :: "db \<Rightarrow> (string \<times> string) list" where
  "run_holders d = map (\<lambda>r. (ru_id r, ru_task_id r)) (runs d)"

definition attempt_holders :: "db \<Rightarrow> (string \<times> string) list" where
  "attempt_holders d = map (\<lambda>r. (at_id r, at_run_id r)) (attempts d)"

definition foreign_keys_ok :: "db \<Rightarrow> bool" where
  "foreign_keys_ok d \<longleftrightarrow>
     references (map ej_journal_epoch (event_journal d)) (map je_epoch (journal_epochs d))
     \<and> references (map cr_agents_digest (configuration_revisions d)) (component_ids d)
     \<and> references (map cr_routing_digest (configuration_revisions d)) (component_ids d)
     \<and> references (map cr_execution_profile_digest (configuration_revisions d)) (component_ids d)
     \<and> references (map cr_evaluator_registry_digest (configuration_revisions d)) (component_ids d)
     \<and> references (map cr_context_policy_digest (configuration_revisions d)) (component_ids d)
     \<and> references (map cr_authorization_digest (configuration_revisions d)) (component_ids d)
     \<and> references (List.map_filter acf_activation_sequence (active_configuration d))
         (map cr_activation_sequence (configuration_revisions d))
     \<and> references (map gr_goal_id (goal_revisions d)) (goal_ids d)
     \<and> references (map tg_id (task_graphs d)) (goal_ids d)
     \<and> references (map tsp_goal_id (task_specs d)) (goal_ids d)
     \<and> references (map (\<lambda>r. (tsp_goal_id r, tsp_goal_revision r)) (task_specs d))
         (map (\<lambda>r. (gr_goal_id r, gr_revision r)) (goal_revisions d))
     \<and> references (map t_goal_id (tasks d)) (goal_ids d)
     \<and> references (map t_spec_digest (tasks d)) (map tsp_digest (task_specs d))
     \<and> references (map te_goal_id (task_graph_edges d)) (map tg_id (task_graphs d))
     \<and> references (map te_upstream_task_id (task_graph_edges d)) (task_ids d)
     \<and> references (map te_downstream_task_id (task_graph_edges d)) (task_ids d)
     \<and> references (map po_goal_id (planning_operations d)) (goal_ids d)
     \<and> references (map (\<lambda>r. (po_goal_id r, po_goal_revision r)) (planning_operations d))
         (map (\<lambda>r. (gr_goal_id r, gr_revision r)) (goal_revisions d))
     \<and> references (map pr_planning_operation_id (planning_records d)) (map po_id (planning_operations d))
     \<and> references (map w_task_id (workspaces d)) (task_ids d)
     \<and> references (map gs_goal_id (goal_scheduling_state d)) (goal_ids d)
     \<and> references (map tsc_task_id (task_scheduling_state d)) (task_ids d)
     \<and> references (map ebr_task_id (execution_bindings d)) (task_ids d)
     \<and> references (map sn_goal_id (context_source_snapshots d)) (goal_ids d)
     \<and> references (map sn_workspace_id (context_source_snapshots d)) (map w_id (workspaces d))
     \<and> references (map ru_task_id (runs d)) (task_ids d)
     \<and> references (map ru_binding_digest (runs d)) (map ebr_digest (execution_bindings d))
     \<and> references (map ru_context_source_snapshot_digest (runs d)) (map sn_digest (context_source_snapshots d))
     \<and> references (map (\<lambda>r. (rs_run_id r, rs_task_id r)) (run_status d)) (run_holders d)
     \<and> references (List.map_filter (\<lambda>r. map_option (\<lambda>a. (a, rs_run_id r)) (rs_current_attempt_id r))
         (run_status d)) (attempt_holders d)
     \<and> references (map am_artifact_digest (artifact_members d)) (map ar_digest (artifacts d))
     \<and> references (map am_blob_digest (artifact_members d)) (map bl_digest (blobs d))
     \<and> references (map wr_workspace_id (workspace_revisions d)) (map w_id (workspaces d))
     \<and> references (map cpl_source_snapshot_digest (context_plans d)) (map sn_digest (context_source_snapshots d))
     \<and> references (map (\<lambda>r. (rcp_run_id r, rcp_context_source_snapshot_digest r)) (run_context_plans d))
         (map (\<lambda>r. (ru_id r, ru_context_source_snapshot_digest r)) (runs d))
     \<and> references (map (\<lambda>r. (rcp_context_plan_digest r, rcp_context_source_snapshot_digest r)) (run_context_plans d))
         (map (\<lambda>r. (cpl_digest r, cpl_source_snapshot_digest r)) (context_plans d))
     \<and> references (map at_run_id (attempts d)) (map ru_id (runs d))
     \<and> references (map (\<lambda>r. (as_attempt_id r, as_run_id r)) (attempt_status d)) (attempt_holders d)
     \<and> references (map acs_attempt_id (agent_control_sessions d)) (map at_id (attempts d))
     \<and> references (map aq_attempt_id (agent_requests d)) (map at_id (attempts d))
     \<and> references (map (\<lambda>r. (prr_run_id r, prr_task_id r)) (production_records d)) (run_holders d)
     \<and> references (map (\<lambda>r. (prr_attempt_id r, prr_run_id r)) (production_records d)) (attempt_holders d)
     \<and> references (map prr_workspace_revision_id (production_records d)) (map wr_id (workspace_revisions d))
     \<and> references (map prr_artifact_digest (production_records d)) (map ar_digest (artifacts d))
     \<and> references (map (\<lambda>r. (ca_run_id r, ca_task_id r)) (candidates d)) (run_holders d)
     \<and> references (map cao_candidate_digest (candidate_outputs d)) (map ca_digest (candidates d))
     \<and> references (map cao_artifact_digest (candidate_outputs d)) (map ar_digest (artifacts d))
     \<and> references (map (\<lambda>r. (cao_production_run_id r, cao_output_slot r, cao_artifact_digest r)) (candidate_outputs d))
         (map (\<lambda>r. (prr_run_id r, prr_output_slot r, prr_artifact_digest r)) (production_records d))"

datatype constraint = CheckConstraint | PrimaryKeyConstraint | UniqueConstraint | ForeignKeyConstraint

definition violated :: "db \<Rightarrow> constraint option" where
  "violated d =
     (if \<not> checks_ok d then Some CheckConstraint
      else if \<not> primary_keys_ok d then Some PrimaryKeyConstraint
      else if \<not> uniques_ok d then Some UniqueConstraint
      else if \<not> foreign_keys_ok d then Some ForeignKeyConstraint
      else None)"

definition schema_ok :: "db \<Rightarrow> bool" where
  "schema_ok d \<longleftrightarrow> violated d = None"

lemma schema_ok_iff:
  "schema_ok d \<longleftrightarrow> checks_ok d \<and> primary_keys_ok d \<and> uniques_ok d \<and> foreign_keys_ok d"
  by (simp add: schema_ok_def violated_def)

lemma references_iff: "references xs ys \<longleftrightarrow> set xs \<subseteq> set ys"
  by (auto simp: references_def list_all_iff)

end
