(* ===== verification/Transaction.thy ===== *)
theory Transaction
  imports Schema
begin

text \<open>
  The serialized authoritative write boundary and its compare-and-set primitive
  (\<^verbatim>\<open>crates/pantheon-store/src/transaction.rs\<close>, with \<open>StoreError\<close> of \<^verbatim>\<open>error.rs\<close> and
  \<open>Store::write\<close> of \<^verbatim>\<open>store.rs\<close>).

  A closure over \<open>&Writer\<close> is an \<open>action\<close>: it reads and changes the transaction's own database
  \<open>tx\<close> and the \<open>failed\<close> flag, and returns a result. SQLite is the environment of an action: the
  wall clock, the random identifiers and, at any statement, \<open>BEGIN\<close> or \<open>COMMIT\<close>, a storage fault
  are arbitrary functions of the number of calls made so far. A statement is applied only when
  the database it would leave satisfies every declared constraint.

  The locale \<open>revisioned_table\<close> states what a table owes the compare-and-set primitive; its
  lemmas are proved once and interpreted on every table the store updates this way.
\<close>

section \<open>Errors\<close>

datatype sqlite_error =
    ConstraintViolation "constraint"
  | DatatypeMismatch
  | InvalidColumnType
  | QueryReturnedNoRows
  | StorageFailure

datatype store_error =
    Sqlite sqlite_error
  | UnsupportedSchemaVersion int int
  | InconsistentMigrationState message
  | MigrationFailed int string sqlite_error
  | PolicyVerificationFailed message
  | RevisionConflict string string int "int option"
  | InvariantViolated message
  | AlreadyOpen string
  | StaleCommandEpoch string string
  | CommandConflict string
  | GoalNotCancellable string string "string option"
  | WorkspaceHolderIneligible string string
  | WorkspaceAlreadyCurrent string string
  | WorkspaceNotRematerializable string string
  | DispatchPaused
  | DispatchSlotUnavailable string string
  | TaskNotDispatchable string string "string option"
  | GoalNotDispatchable string string
  | WorkspaceBaseMismatch string string string
  | WorkspaceNotFreezable string string string
  | ContentIdentityConflict string string message
  | SealAuthorityInvalid string message
  | ConnectionUnavailable message
  | RunNotFound string
  | ContextSourceMismatch string string string
  | RunContextPlanConflict string string string
  | AttemptNotLaunchReady string message
  | AgentControlRekeyForbidden string message
  | LaunchContactStaleAuthority string message
  | AgentControlUnauthorized string string
  | AgentRequestConflict string string
  | CandidateExists string string
  | CandidateInvalid message
  | CandidateProvenanceInvalid message
  | SubmissionStaleAuthority string message
  | SandboxHolderIneligible string string
  | SandboxAlreadyCurrent string string

section \<open>The writer\<close>

record env =
  unixepoch :: "nat \<Rightarrow> int"
  randomblob_hex :: "nat \<Rightarrow> string"
  storage_fault :: "nat \<Rightarrow> bool"

record writer =
  tx :: db
  failed :: bool
  wr_env :: env
  wr_calls :: nat

type_synonym 'a action = "writer \<Rightarrow> (store_error, 'a) res \<times> writer"

definition returnW :: "'a \<Rightarrow> 'a action" where
  "returnW x = (\<lambda>w. (Inr x, w))"

definition bindW :: "'a action \<Rightarrow> ('a \<Rightarrow> 'b action) \<Rightarrow> 'b action" where
  "bindW m f = (\<lambda>w. case m w of (Inl e, w') \<Rightarrow> (Inl e, w') | (Inr x, w') \<Rightarrow> f x w')"

text \<open>\<open>Err(e)?\<close> without touching the writer, and \<open>Writer::fail\<close>, which also makes the
  transaction uncommittable.\<close>

definition errW :: "store_error \<Rightarrow> 'a action" where
  "errW e = (\<lambda>w. (Inl e, w))"

definition writer_fail :: "store_error \<Rightarrow> 'a action" where
  "writer_fail e = (\<lambda>w. (Inl e, w\<lparr>failed := True\<rparr>))"

text \<open>\<open>if !b { return writer.fail(e) }\<close> and \<open>x.ok_or_else(|| e)?\<close>.\<close>

definition requireW :: "bool \<Rightarrow> store_error \<Rightarrow> unit action" where
  "requireW b e = (if b then returnW () else writer_fail e)"

definition someW :: "'a option \<Rightarrow> store_error \<Rightarrow> 'a action" where
  "someW x e = (case x of None \<Rightarrow> errW e | Some v \<Rightarrow> returnW v)"

text \<open>\<open>let Some(x) = \<dots> else { return writer.fail(e) }\<close>.\<close>

definition expectW :: "'a option \<Rightarrow> store_error \<Rightarrow> 'a action" where
  "expectW x e = (case x of None \<Rightarrow> writer_fail e | Some v \<Rightarrow> returnW v)"

text \<open>A \<open>for\<close> loop over rows already collected, threading an accumulator.\<close>

fun foldW :: "('s \<Rightarrow> 'a \<Rightarrow> 's action) \<Rightarrow> 's \<Rightarrow> 'a list \<Rightarrow> 's action" where
  "foldW f s [] = returnW s"
| "foldW f s (x # xs) = bindW (f s x) (\<lambda>s'. foldW f s' xs)"

section \<open>Statements\<close>

definition tick :: "writer \<Rightarrow> writer" where
  "tick w = w\<lparr>wr_calls := Suc (wr_calls w)\<rparr>"

definition faulty :: "writer \<Rightarrow> bool" where
  "faulty w \<longleftrightarrow> storage_fault (wr_env w) (wr_calls w)"

text \<open>
  \<open>Writer::query_optional\<close> and \<open>Writer::query_all\<close>: a read of the transaction's snapshot.
  The row mapper may fail on a column of the wrong type.
\<close>

definition query_row :: "(db \<Rightarrow> 'r option) \<Rightarrow> ('r \<Rightarrow> (sqlite_error, 'a) res) \<Rightarrow> 'a option action" where
  "query_row sel decode = (\<lambda>w.
     if faulty w then writer_fail (Sqlite StorageFailure) (tick w)
     else (case sel (tx w) of
         None \<Rightarrow> returnW None (tick w)
       | Some r \<Rightarrow> (case decode r of
           Inl e \<Rightarrow> writer_fail (Sqlite e) (tick w)
         | Inr x \<Rightarrow> returnW (Some x) (tick w))))"

definition query_optional :: "(db \<Rightarrow> 'a option) \<Rightarrow> 'a option action" where
  "query_optional sel = query_row sel Inr"

definition query_all :: "(db \<Rightarrow> 'a list) \<Rightarrow> 'a list action" where
  "query_all sel = (\<lambda>w.
     if faulty w then writer_fail (Sqlite StorageFailure) (tick w)
     else returnW (sel (tx w)) (tick w))"

text \<open>\<open>row.get::<_, String>(i)\<close> of a nullable column.\<close>

definition not_null :: "'a option \<Rightarrow> (sqlite_error, 'a) res" where
  "not_null v = (case v of None \<Rightarrow> Inl InvalidColumnType | Some x \<Rightarrow> Inr x)"

text \<open>\<open>SELECT unixepoch()\<close> and \<open>SELECT lower(hex(randomblob(16)))\<close>.\<close>

definition query_unixepoch :: "int option action" where
  "query_unixepoch = (\<lambda>w. query_optional (\<lambda>_. Some (unixepoch (wr_env w) (wr_calls w))) w)"

definition query_randomblob :: "string option action" where
  "query_randomblob = (\<lambda>w. query_optional (\<lambda>_. Some (randomblob_hex (wr_env w) (wr_calls w))) w)"

text \<open>
  \<open>Writer::execute\<close>: a compiled-in statement. It reports the rows it affected; a storage fault,
  a value of the wrong type or a violated constraint undoes it and marks the transaction failed.
\<close>

type_synonym statement = "db \<Rightarrow> (sqlite_error, db \<times> nat) res"

definition execute :: "statement \<Rightarrow> nat action" where
  "execute stmt = (\<lambda>w.
     if faulty w then writer_fail (Sqlite StorageFailure) (tick w)
     else (case stmt (tx w) of
         Inl e \<Rightarrow> writer_fail (Sqlite e) (tick w)
       | Inr (d, n) \<Rightarrow> (case violated d of
           Some c \<Rightarrow> writer_fail (Sqlite (ConstraintViolation c)) (tick w)
         | None \<Rightarrow> returnW n ((tick w)\<lparr>tx := d\<rparr>))))"

text \<open>A statement whose text calls \<open>unixepoch()\<close> itself.\<close>

definition execute_now :: "(int \<Rightarrow> statement) \<Rightarrow> nat action" where
  "execute_now stmt = (\<lambda>w. execute (stmt (unixepoch (wr_env w) (wr_calls w))) w)"

text \<open>\<open>INSERT INTO t \<dots> VALUES \<dots>\<close>, given the update function of the table.\<close>

definition insert_into :: "(('r list \<Rightarrow> 'r list) \<Rightarrow> db \<Rightarrow> db) \<Rightarrow> 'r \<Rightarrow> statement" where
  "insert_into upd r = (\<lambda>d. Inr (upd (\<lambda>rs. rs @ [r]) d, 1))"

text \<open>\<open>INSERT \<dots> ON CONFLICT (key) DO NOTHING\<close>: the conflict clause covers uniqueness only, so
  the row's own \<open>CHECK\<close> still applies.\<close>

definition insert_or_ignore ::
    "(db \<Rightarrow> 'r list) \<Rightarrow> (('r list \<Rightarrow> 'r list) \<Rightarrow> db \<Rightarrow> db) \<Rightarrow> ('r \<Rightarrow> bool) \<Rightarrow> ('r \<Rightarrow> 'k) \<Rightarrow> 'r \<Rightarrow> statement" where
  "insert_or_ignore sel upd check key r = (\<lambda>d.
     if \<not> check r then Inl (ConstraintViolation CheckConstraint)
     else if List.member (map key (sel d)) (key r) then Inr (d, 0)
     else Inr (upd (\<lambda>rs. rs @ [r]) d, 1))"

text \<open>\<open>UPDATE t SET f WHERE p\<close>.\<close>

definition update_where ::
    "(db \<Rightarrow> 'r list) \<Rightarrow> (('r list \<Rightarrow> 'r list) \<Rightarrow> db \<Rightarrow> db) \<Rightarrow> ('r \<Rightarrow> bool) \<Rightarrow> ('r \<Rightarrow> 'r) \<Rightarrow> statement" where
  "update_where sel upd p f = (\<lambda>d.
     Inr (upd (map (\<lambda>r. if p r then f r else r)) d, length (filter p (sel d))))"

section \<open>Revisioned rows\<close>

definition is_ascii_digit :: "char \<Rightarrow> bool" where
  "is_ascii_digit c \<longleftrightarrow> 48 \<le> (of_char c :: nat) \<and> (of_char c :: nat) \<le> 57"

definition is_ascii_upper :: "char \<Rightarrow> bool" where
  "is_ascii_upper c \<longleftrightarrow> 65 \<le> (of_char c :: nat) \<and> (of_char c :: nat) \<le> 90"

definition is_ascii_lower :: "char \<Rightarrow> bool" where
  "is_ascii_lower c \<longleftrightarrow> 97 \<le> (of_char c :: nat) \<and> (of_char c :: nat) \<le> 122"

definition plain_identifier :: "string \<Rightarrow> bool" where
  "plain_identifier name \<longleftrightarrow> name \<noteq> [] \<and> \<not> is_ascii_digit (hd name)
     \<and> list_all (\<lambda>c. is_ascii_digit c \<or> is_ascii_upper c \<or> is_ascii_lower c \<or> c = CHR ''_'') name"

definition ensure_plain_identifier :: "string \<Rightarrow> string \<Rightarrow> unit action" where
  "ensure_plain_identifier what name = requireW (plain_identifier name)
     (InvariantViolated (Fmt ''{kind} name {name:?} is not a plain SQL identifier'' [FStr what, FStr name]))"

definition ascii_lowercase :: "string \<Rightarrow> string" where
  "ascii_lowercase = map (\<lambda>c. if is_ascii_upper c then char_of (of_char c + 32 :: nat) else c)"

definition eq_ignore_ascii_case :: "string \<Rightarrow> string \<Rightarrow> bool" where
  "eq_ignore_ascii_case a b \<longleftrightarrow> ascii_lowercase a = ascii_lowercase b"

text \<open>
  What the dynamic statement text of a revisioned update names: the table, its key column, and
  how they read and write rows.
\<close>

record 'r revisioned =
  table_name :: string
  key_column :: string
  table_rows :: "db \<Rightarrow> 'r list"
  table_update :: "('r list \<Rightarrow> 'r list) \<Rightarrow> db \<Rightarrow> db"
  row_key :: "'r \<Rightarrow> string"
  row_revision :: "'r \<Rightarrow> int"
  set_row_revision :: "int \<Rightarrow> 'r \<Rightarrow> 'r"

text \<open>An assignment of a column: its name, for the guard, and its effect on the row.\<close>

type_synonym 'r assignment = "string \<times> ('r \<Rightarrow> 'r)"

definition assign :: "'r assignment list \<Rightarrow> 'r \<Rightarrow> 'r" where
  "assign assignments r = fold (\<lambda>(_, f). f) assignments r"

definition assignable :: "'r revisioned \<Rightarrow> string \<Rightarrow> bool" where
  "assignable T column \<longleftrightarrow> \<not> eq_ignore_ascii_case column ''revision''
     \<and> \<not> eq_ignore_ascii_case column ''id'' \<and> \<not> eq_ignore_ascii_case column (key_column T)"

definition check_assignment :: "'r revisioned \<Rightarrow> unit \<Rightarrow> 'r assignment \<Rightarrow> unit action" where
  "check_assignment T u a =
     bindW (ensure_plain_identifier ''column'' (fst a)) (\<lambda>_.
     requireW (assignable T (fst a))
       (InvariantViolated (Fmt ''a revisioned update may not assign the {column} column of {table}''
          [FStr (fst a), FStr (table_name T)])))"

text \<open>
  \<^verbatim>\<open>UPDATE t SET \<dots>, revision = revision + 1 WHERE key = ?1 AND revision = ?2\<close>. A revision that
  leaves the 64-bit range becomes a float, which a \<open>STRICT\<close> integer column rejects.
\<close>

definition cas_row :: "'r revisioned \<Rightarrow> string \<Rightarrow> int \<Rightarrow> 'r assignment list \<Rightarrow> 'r \<Rightarrow> 'r" where
  "cas_row T key expected assignments r =
     (if row_key T r = key \<and> row_revision T r = expected
      then set_row_revision T (row_revision T r + 1) (assign assignments r) else r)"

definition cas_statement :: "'r revisioned \<Rightarrow> string \<Rightarrow> int \<Rightarrow> 'r assignment list \<Rightarrow> statement" where
  "cas_statement T key expected assignments = (\<lambda>d.
     let n = length (filter (\<lambda>r. row_key T r = key \<and> row_revision T r = expected) (table_rows T d)) in
     if 0 < n \<and> \<not> is_i64 (expected + 1) then Inl DatatypeMismatch
     else Inr (table_update T (map (cas_row T key expected assignments)) d, n))"

definition current_revision_by :: "'r revisioned \<Rightarrow> string \<Rightarrow> int option action" where
  "current_revision_by T key = (\<lambda>w.
     if faulty w then errW (Sqlite StorageFailure) (tick w)
     else returnW (map_option (row_revision T)
            (List.find (\<lambda>r. row_key T r = key) (table_rows T (tx w)))) (tick w))"

definition update_revisioned_by ::
    "'r revisioned \<Rightarrow> string \<Rightarrow> int \<Rightarrow> 'r assignment list \<Rightarrow> int action" where
  "update_revisioned_by T key expected assignments =
     bindW (ensure_plain_identifier ''table'' (table_name T)) (\<lambda>_.
     bindW (ensure_plain_identifier ''column'' (key_column T)) (\<lambda>_.
     bindW (foldW (check_assignment T) () assignments) (\<lambda>_.
     bindW (execute (cas_statement T key expected assignments)) (\<lambda>affected.
       if affected = 1 then returnW (expected + 1)
       else if affected = 0 then
         bindW (current_revision_by T key) (\<lambda>actual.
           writer_fail (RevisionConflict (table_name T) key expected actual))
       else writer_fail (InvariantViolated (Fmt
         ''revisioned update of {table} row {key} affected {more} rows, not exactly one''
         [FStr (table_name T), FStr key, FInt (int affected)]))))))"

section \<open>The transaction\<close>

text \<open>
  \<open>run\<close> and \<open>Store::write\<close>: \<open>BEGIN IMMEDIATE\<close>, the closure, then commit only when it returned
  \<open>Ok\<close> and nothing it did failed. Everything else leaves the database as it was.
\<close>

record store =
  database :: db
  st_env :: env
  st_calls :: nat

definition writer_new :: "store \<Rightarrow> writer" where
  "writer_new s = \<lparr>tx = database s, failed = False, wr_env = st_env s, wr_calls = Suc (st_calls s)\<rparr>"

definition run :: "'a action \<Rightarrow> store \<Rightarrow> (store_error, 'a) res \<times> store" where
  "run f s =
     (if storage_fault (st_env s) (st_calls s)
      then (Inl (Sqlite StorageFailure), s\<lparr>st_calls := Suc (st_calls s)\<rparr>)
      else (case f (writer_new s) of
          (Inl e, w) \<Rightarrow> (Inl e, s\<lparr>st_calls := wr_calls w\<rparr>)
        | (Inr v, w) \<Rightarrow>
            if failed w then
              (Inl (InvariantViolated (Fmt
                 ''an authoritative mutation failed inside this transaction and its error was discarded; the transaction was rolled back rather than committed'' [])),
               s\<lparr>st_calls := wr_calls w\<rparr>)
            else if faulty w then (Inl (Sqlite StorageFailure), s\<lparr>st_calls := Suc (wr_calls w)\<rparr>)
            else (Inr v, s\<lparr>database := tx w, st_calls := Suc (wr_calls w)\<rparr>)))"

section \<open>Evaluating actions\<close>

named_theorems wr \<open>what a successful action did\<close>

lemma tick_simps [simp]:
  "tx (tick w) = tx w" "failed (tick w) = failed w" "wr_env (tick w) = wr_env w"
  "wr_calls (tick w) = Suc (wr_calls w)"
  by (simp_all add: tick_def)

lemma returnW_iff [wr]: "returnW x w = (Inr y, w') \<longleftrightarrow> y = x \<and> w' = w"
  by (auto simp: returnW_def)

lemma bindW_iff [wr]:
  "bindW m f w = (Inr y, w') \<longleftrightarrow> (\<exists>x w1. m w = (Inr x, w1) \<and> f x w1 = (Inr y, w'))"
  by (auto simp: bindW_def split: prod.splits sum.splits)

lemma errW_iff [wr]: "errW e w = (Inr y, w') \<longleftrightarrow> False"
  by (simp add: errW_def)

lemma writer_fail_iff [wr]: "writer_fail e w = (Inr y, w') \<longleftrightarrow> False"
  by (simp add: writer_fail_def)

lemma requireW_iff [wr]: "requireW b e w = (Inr y, w') \<longleftrightarrow> b \<and> w' = w"
  by (auto simp: requireW_def wr)

lemma someW_iff [wr]: "someW x e w = (Inr y, w') \<longleftrightarrow> x = Some y \<and> w' = w"
  by (auto simp: someW_def wr split: option.splits)

lemma expectW_iff [wr]: "expectW x e w = (Inr y, w') \<longleftrightarrow> x = Some y \<and> w' = w"
  by (auto simp: expectW_def wr split: option.splits)

lemma query_row_iff [wr]:
  "query_row sel decode w = (Inr y, w') \<longleftrightarrow> \<not> faulty w \<and> w' = tick w
     \<and> (case sel (tx w) of None \<Rightarrow> y = None | Some r \<Rightarrow> (\<exists>x. decode r = Inr x \<and> y = Some x))"
  by (auto simp: query_row_def wr split: option.splits sum.splits)

lemma query_optional_iff [wr]:
  "query_optional sel w = (Inr y, w') \<longleftrightarrow> \<not> faulty w \<and> w' = tick w \<and> y = sel (tx w)"
  by (auto simp: query_optional_def wr split: option.splits)

lemma query_all_iff [wr]:
  "query_all sel w = (Inr y, w') \<longleftrightarrow> \<not> faulty w \<and> w' = tick w \<and> y = sel (tx w)"
  by (auto simp: query_all_def wr)

lemma query_unixepoch_iff [wr]:
  "query_unixepoch w = (Inr y, w') \<longleftrightarrow>
     \<not> faulty w \<and> w' = tick w \<and> y = Some (unixepoch (wr_env w) (wr_calls w))"
  by (auto simp: query_unixepoch_def wr)

lemma query_randomblob_iff [wr]:
  "query_randomblob w = (Inr y, w') \<longleftrightarrow>
     \<not> faulty w \<and> w' = tick w \<and> y = Some (randomblob_hex (wr_env w) (wr_calls w))"
  by (auto simp: query_randomblob_def wr)

lemma execute_iff [wr]:
  "execute stmt w = (Inr n, w') \<longleftrightarrow>
     \<not> faulty w \<and> (\<exists>d. stmt (tx w) = Inr (d, n) \<and> schema_ok d \<and> w' = (tick w)\<lparr>tx := d\<rparr>)"
  by (auto simp: execute_def wr schema_ok_def split: sum.splits option.splits)

lemma execute_now_iff [wr]:
  "execute_now stmt w = (Inr n, w') \<longleftrightarrow> execute (stmt (unixepoch (wr_env w) (wr_calls w))) w = (Inr n, w')"
  by (simp add: execute_now_def)

lemma insert_into_iff [wr]:
  "insert_into upd r d = Inr (d', n) \<longleftrightarrow> d' = upd (\<lambda>rs. rs @ [r]) d \<and> n = 1"
  by (auto simp: insert_into_def)

lemma insert_or_ignore_iff [wr]:
  "insert_or_ignore sel upd check key r d = Inr (d', n) \<longleftrightarrow> check r \<and>
     (if key r \<in> key ` set (sel d) then d' = d \<and> n = 0 else d' = upd (\<lambda>rs. rs @ [r]) d \<and> n = 1)"
  by (auto simp: insert_or_ignore_def)

lemma update_where_iff [wr]:
  "update_where sel upd p f d = Inr (d', n) \<longleftrightarrow>
     d' = upd (map (\<lambda>r. if p r then f r else r)) d \<and> n = length (filter p (sel d))"
  by (auto simp: update_where_def)


lemma insert_or_ignoreD:
  assumes "execute (insert_or_ignore sel upd check key r) w = (Inr n, w')"
    and "\<And>f d. sel (upd f d) = f (sel d)" and "\<And>d. upd (\<lambda>rs. rs) d = d"
    and "\<And>f g d. f (sel d) = g (sel d) \<Longrightarrow> upd f d = upd g d"
  shows "tx w' = upd (\<lambda>rs. if key r \<in> key ` set rs then rs else rs @ [r]) (tx w)"
proof (cases "key r \<in> key ` set (sel (tx w))")
  case True
  have "upd (\<lambda>rs. if key r \<in> key ` set rs then rs else rs @ [r]) (tx w) = upd (\<lambda>rs. rs) (tx w)"
    by (rule assms(4)) (simp add: True)
  with assms(1,3) True show ?thesis by (auto simp: wr)
next
  case False
  have "upd (\<lambda>rs. if key r \<in> key ` set rs then rs else rs @ [r]) (tx w) = upd (\<lambda>rs. rs @ [r]) (tx w)"
    by (rule assms(4)) (simp add: False)
  with assms(1) False show ?thesis by (auto simp: wr)
qed

section \<open>Atomicity\<close>

text \<open>
  A transaction either commits exactly what its closure left, with every constraint satisfied,
  or changes nothing; there is no third outcome.
\<close>

lemma run_Inr_iff:
  "run f s = (Inr v, s') \<longleftrightarrow>
     \<not> storage_fault (st_env s) (st_calls s) \<and>
     (\<exists>w. f (writer_new s) = (Inr v, w) \<and> \<not> failed w \<and> \<not> faulty w
          \<and> s' = s\<lparr>database := tx w, st_calls := Suc (wr_calls w)\<rparr>)"
  by (auto simp: run_def split: prod.splits sum.splits if_splits)

lemma run_Inl_database: "run f s = (Inl e, s') \<Longrightarrow> database s' = database s"
  by (auto simp: run_def split: prod.splits sum.splits if_splits)

lemma run_env: "run f s = (r, s') \<Longrightarrow> st_env s' = st_env s"
  by (auto simp: run_def split: prod.splits sum.splits if_splits)

lemma writer_new_simps [simp]:
  "tx (writer_new s) = database s" "failed (writer_new s) = False"
  "wr_env (writer_new s) = st_env s" "wr_calls (writer_new s) = Suc (st_calls s)"
  by (simp_all add: writer_new_def)

text \<open>
  \<open>keeps I f\<close>: a closure that returns carries \<open>I\<close> from the database it was given to the one it
  leaves. A failing closure is rolled back, so nothing is asked of it.
\<close>

definition keeps :: "(db \<Rightarrow> bool) \<Rightarrow> 'a action \<Rightarrow> bool" where
  "keeps I f \<longleftrightarrow> (\<forall>w x w'. f w = (Inr x, w') \<longrightarrow> I (tx w) \<longrightarrow> I (tx w'))"

lemma keepsI: "(\<And>w x w'. f w = (Inr x, w') \<Longrightarrow> I (tx w) \<Longrightarrow> I (tx w')) \<Longrightarrow> keeps I f"
  by (auto simp: keeps_def)

lemma keepsD: "keeps I f \<Longrightarrow> f w = (Inr x, w') \<Longrightarrow> I (tx w) \<Longrightarrow> I (tx w')"
  by (auto simp: keeps_def)

lemma keeps_bindW: "keeps I m \<Longrightarrow> (\<And>x. keeps I (f x)) \<Longrightarrow> keeps I (bindW m f)"
  unfolding keeps_def by (simp add: wr) blast

lemma keeps_simple [intro]:
  "keeps I (returnW x)" "keeps I (errW e)" "keeps I (writer_fail e)" "keeps I (requireW b e)"
  "keeps I (someW v e)" "keeps I (expectW v e)" "keeps I (query_row sel decode)"
  "keeps I (query_optional sel)" "keeps I (query_all sel')" "keeps I query_unixepoch"
  "keeps I query_randomblob"
  by (auto simp: keeps_def wr)

lemma keeps_execute:
  "(\<And>d d' n. stmt d = Inr (d', n) \<Longrightarrow> schema_ok d' \<Longrightarrow> I d \<Longrightarrow> I d') \<Longrightarrow> keeps I (execute stmt)"
  by (auto simp: keeps_def wr)

lemma keeps_foldW: "(\<And>s x. keeps I (f s x)) \<Longrightarrow> keeps I (foldW f s xs)"
proof (induction xs arbitrary: s)
  case Nil
  then show ?case by (auto simp: keeps_def wr)
next
  case (Cons x xs)
  show ?case by (simp, rule keeps_bindW) (use Cons in auto)
qed

lemma run_keeps:
  assumes "keeps I f" and "run f s = (r, s')" and "I (database s)"
  shows "I (database s')"
proof (cases r)
  case (Inl e)
  with assms show ?thesis by (metis run_Inl_database)
next
  case (Inr v)
  with assms show ?thesis by (auto simp: run_Inr_iff keeps_def)
qed

section \<open>The contract of a revisioned table\<close>

lemma foldW_check_iff:
  "foldW (check_assignment T) () as w = (Inr u, w') \<longleftrightarrow>
     list_all (\<lambda>a. plain_identifier (fst a) \<and> assignable T (fst a)) as \<and> w' = w"
  by (induction as arbitrary: w) (auto simp: wr check_assignment_def ensure_plain_identifier_def)

locale revisioned_table =
  fixes T :: "'r revisioned"
  assumes rows_update: "table_rows T (table_update T f d) = f (table_rows T d)"
    and update_cong: "f (table_rows T d) = g (table_rows T d) \<Longrightarrow> table_update T f d = table_update T g d"
    and update_id: "table_update T (\<lambda>rs. rs) d = d"
    and revision_set: "row_revision T (set_row_revision T n r) = n"
    and key_set: "row_key T (set_row_revision T n r) = row_key T r"
    and names_plain: "plain_identifier (table_name T)" "plain_identifier (key_column T)"
begin

lemma update_same: "f (table_rows T d) = table_rows T d \<Longrightarrow> table_update T f d = d"
  using update_cong [of f d "\<lambda>rs. rs"] update_id by simp

text \<open>A successful compare-and-set: exactly one row stood at the expected revision; it alone
  changed, and its revision advanced by one.\<close>

lemma update_SomeD:
  assumes "update_revisioned_by T key expected assignments w = (Inr n, w')"
  shows "n = expected + 1"
    and "is_i64 (expected + 1)"
    and "length (filter (\<lambda>r. row_key T r = key \<and> row_revision T r = expected) (table_rows T (tx w))) = 1"
    and "tx w' = table_update T (map (cas_row T key expected assignments)) (tx w)"
    and "schema_ok (tx w')" and "failed w' = failed w" and "wr_env w' = wr_env w"
  using assms
  by (auto simp: update_revisioned_by_def wr ensure_plain_identifier_def foldW_check_iff
      cas_statement_def Let_def split: if_splits)

lemma update_rows:
  assumes "update_revisioned_by T key expected assignments w = (Inr n, w')"
  shows "table_rows T (tx w') = map (cas_row T key expected assignments) (table_rows T (tx w))"
  by (simp add: update_SomeD(4) [OF assms] rows_update)

lemma update_found:
  assumes "update_revisioned_by T key expected assignments w = (Inr n, w')"
  obtains r where "r \<in> set (table_rows T (tx w))" "row_key T r = key" "row_revision T r = expected"
proof -
  have "filter (\<lambda>r. row_key T r = key \<and> row_revision T r = expected) (table_rows T (tx w)) \<noteq> []"
    using update_SomeD(3) [OF assms] by auto
  then show thesis using that by (auto simp: filter_empty_conv)
qed

text \<open>A stale or absent row is a conflict that names what is there.\<close>

lemma update_conflict:
  assumes "\<not> faulty w" and "\<not> faulty (tick w)" and "schema_ok (tx w)"
    and "list_all (\<lambda>a. plain_identifier (fst a) \<and> assignable T (fst a)) assignments"
    and "filter (\<lambda>r. row_key T r = key \<and> row_revision T r = expected) (table_rows T (tx w)) = []"
  shows "fst (update_revisioned_by T key expected assignments w) =
    Inl (RevisionConflict (table_name T) key expected
      (map_option (row_revision T) (List.find (\<lambda>r. row_key T r = key) (table_rows T (tx w)))))"
proof -
  have "map (cas_row T key expected assignments) (table_rows T (tx w)) = table_rows T (tx w)"
    using assms(5) by (intro map_idI) (auto simp: cas_row_def filter_empty_conv)
  then have upd: "table_update T (map (cas_row T key expected assignments)) (tx w) = tx w"
    by (rule update_same)
  have fold: "foldW (check_assignment T) () assignments w = (Inr (), w)"
    using assms(4) by (simp add: foldW_check_iff)
  have exec: "execute (cas_statement T key expected assignments) w = (Inr 0, (tick w)\<lparr>tx := tx w\<rparr>)"
    using assms(1,3,5) upd by (simp add: wr cas_statement_def Let_def)
  have "update_revisioned_by T key expected assignments w =
      bindW (current_revision_by T key) (\<lambda>actual.
        writer_fail (RevisionConflict (table_name T) key expected actual)) ((tick w)\<lparr>tx := tx w\<rparr>)"
    by (simp add: update_revisioned_by_def bindW_def ensure_plain_identifier_def requireW_def
        names_plain returnW_def fold exec)
  moreover have "(tick w)\<lparr>tx := tx w\<rparr> = tick w"
    by (simp add: tick_def)
  ultimately show ?thesis
    using assms(2) by (simp add: current_revision_by_def bindW_def returnW_def writer_fail_def)
qed

end

end
