(* ===== verification/Tables.thy ===== *)
theory Tables
  imports Transaction
begin

text \<open>
  The revisioned tables of the schema: for each, the key column the compare-and-set statement
  compares and the columns it reads and writes. Every one of them discharges the contract
  \<open>revisioned_table\<close>, so the lemmas about a compare-and-set hold of each.
\<close>

definition goals_table :: "goal_row revisioned" where
  "goals_table = \<lparr>table_name = ''goals'', key_column = ''id'', table_rows = goals,
     table_update = goals_update, row_key = g_id, row_revision = g_revision,
     set_row_revision = (\<lambda>n r. r\<lparr>g_revision := n\<rparr>)\<rparr>"

definition task_graphs_table :: "task_graph_row revisioned" where
  "task_graphs_table = \<lparr>table_name = ''task_graphs'', key_column = ''id'', table_rows = task_graphs,
     table_update = task_graphs_update, row_key = tg_id, row_revision = tg_revision,
     set_row_revision = (\<lambda>n r. r\<lparr>tg_revision := n\<rparr>)\<rparr>"

definition tasks_table :: "task_row revisioned" where
  "tasks_table = \<lparr>table_name = ''tasks'', key_column = ''id'', table_rows = tasks,
     table_update = tasks_update, row_key = t_id, row_revision = t_revision,
     set_row_revision = (\<lambda>n r. r\<lparr>t_revision := n\<rparr>)\<rparr>"

definition planning_operations_table :: "planning_operation_row revisioned" where
  "planning_operations_table = \<lparr>table_name = ''planning_operations'', key_column = ''id'', table_rows = planning_operations,
     table_update = planning_operations_update, row_key = po_id, row_revision = po_revision,
     set_row_revision = (\<lambda>n r. r\<lparr>po_revision := n\<rparr>)\<rparr>"

definition active_configuration_table :: "active_configuration_row revisioned" where
  "active_configuration_table = \<lparr>table_name = ''active_configuration'', key_column = ''id'', table_rows = active_configuration,
     table_update = active_configuration_update, row_key = acf_id, row_revision = acf_revision,
     set_row_revision = (\<lambda>n r. r\<lparr>acf_revision := n\<rparr>)\<rparr>"

definition workspaces_table :: "workspace_row revisioned" where
  "workspaces_table = \<lparr>table_name = ''workspaces'', key_column = ''id'', table_rows = workspaces,
     table_update = workspaces_update, row_key = w_id, row_revision = w_revision,
     set_row_revision = (\<lambda>n r. r\<lparr>w_revision := n\<rparr>)\<rparr>"

definition scheduler_state_table :: "scheduler_state_row revisioned" where
  "scheduler_state_table = \<lparr>table_name = ''scheduler_state'', key_column = ''id'', table_rows = scheduler_state,
     table_update = scheduler_state_update, row_key = sc_id, row_revision = sc_revision,
     set_row_revision = (\<lambda>n r. r\<lparr>sc_revision := n\<rparr>)\<rparr>"

definition goal_scheduling_state_table :: "goal_scheduling_row revisioned" where
  "goal_scheduling_state_table = \<lparr>table_name = ''goal_scheduling_state'', key_column = ''goal_id'', table_rows = goal_scheduling_state,
     table_update = goal_scheduling_state_update, row_key = gs_goal_id, row_revision = gs_revision,
     set_row_revision = (\<lambda>n r. r\<lparr>gs_revision := n\<rparr>)\<rparr>"

definition task_scheduling_state_table :: "task_scheduling_row revisioned" where
  "task_scheduling_state_table = \<lparr>table_name = ''task_scheduling_state'', key_column = ''task_id'', table_rows = task_scheduling_state,
     table_update = task_scheduling_state_update, row_key = tsc_task_id, row_revision = tsc_revision,
     set_row_revision = (\<lambda>n r. r\<lparr>tsc_revision := n\<rparr>)\<rparr>"

definition run_status_table :: "run_status_row revisioned" where
  "run_status_table = \<lparr>table_name = ''run_status'', key_column = ''run_id'', table_rows = run_status,
     table_update = run_status_update, row_key = rs_run_id, row_revision = rs_revision,
     set_row_revision = (\<lambda>n r. r\<lparr>rs_revision := n\<rparr>)\<rparr>"

definition attempt_status_table :: "attempt_status_row revisioned" where
  "attempt_status_table = \<lparr>table_name = ''attempt_status'', key_column = ''attempt_id'', table_rows = attempt_status,
     table_update = attempt_status_update, row_key = as_attempt_id, row_revision = as_revision,
     set_row_revision = (\<lambda>n r. r\<lparr>as_revision := n\<rparr>)\<rparr>"

definition sandbox_instances_table :: "sandbox_row revisioned" where
  "sandbox_instances_table = \<lparr>table_name = ''sandbox_instances'', key_column = ''id'', table_rows = sandbox_instances,
     table_update = sandbox_instances_update, row_key = sbx_id, row_revision = sbx_revision,
     set_row_revision = (\<lambda>n r. r\<lparr>sbx_revision := n\<rparr>)\<rparr>"

text \<open>Updating a table depends on its rows only.\<close>

lemma goals_update_cong: "f (goals d) = g (goals d) \<Longrightarrow> goals_update f d = goals_update g (d :: db)"
  by (cases d) simp

lemma task_graphs_update_cong: "f (task_graphs d) = g (task_graphs d) \<Longrightarrow> task_graphs_update f d = task_graphs_update g (d :: db)"
  by (cases d) simp

lemma tasks_update_cong: "f (tasks d) = g (tasks d) \<Longrightarrow> tasks_update f d = tasks_update g (d :: db)"
  by (cases d) simp

lemma planning_operations_update_cong: "f (planning_operations d) = g (planning_operations d) \<Longrightarrow> planning_operations_update f d = planning_operations_update g (d :: db)"
  by (cases d) simp

lemma active_configuration_update_cong: "f (active_configuration d) = g (active_configuration d) \<Longrightarrow> active_configuration_update f d = active_configuration_update g (d :: db)"
  by (cases d) simp

lemma workspaces_update_cong: "f (workspaces d) = g (workspaces d) \<Longrightarrow> workspaces_update f d = workspaces_update g (d :: db)"
  by (cases d) simp

lemma scheduler_state_update_cong: "f (scheduler_state d) = g (scheduler_state d) \<Longrightarrow> scheduler_state_update f d = scheduler_state_update g (d :: db)"
  by (cases d) simp

lemma goal_scheduling_state_update_cong: "f (goal_scheduling_state d) = g (goal_scheduling_state d) \<Longrightarrow> goal_scheduling_state_update f d = goal_scheduling_state_update g (d :: db)"
  by (cases d) simp

lemma task_scheduling_state_update_cong: "f (task_scheduling_state d) = g (task_scheduling_state d) \<Longrightarrow> task_scheduling_state_update f d = task_scheduling_state_update g (d :: db)"
  by (cases d) simp

lemma run_status_update_cong: "f (run_status d) = g (run_status d) \<Longrightarrow> run_status_update f d = run_status_update g (d :: db)"
  by (cases d) simp

lemma attempt_status_update_cong: "f (attempt_status d) = g (attempt_status d) \<Longrightarrow> attempt_status_update f d = attempt_status_update g (d :: db)"
  by (cases d) simp

lemma sandbox_instances_update_cong: "f (sandbox_instances d) = g (sandbox_instances d) \<Longrightarrow> sandbox_instances_update f d = sandbox_instances_update g (d :: db)"
  by (cases d) simp

lemmas plain_identifier_code = plain_identifier_def is_ascii_digit_def is_ascii_upper_def is_ascii_lower_def

interpretation goals: revisioned_table goals_table
  by unfold_locales (auto simp: goals_table_def plain_identifier_code intro: goals_update_cong)

interpretation task_graphs: revisioned_table task_graphs_table
  by unfold_locales (auto simp: task_graphs_table_def plain_identifier_code intro: task_graphs_update_cong)

interpretation tasks: revisioned_table tasks_table
  by unfold_locales (auto simp: tasks_table_def plain_identifier_code intro: tasks_update_cong)

interpretation planning_operations: revisioned_table planning_operations_table
  by unfold_locales (auto simp: planning_operations_table_def plain_identifier_code intro: planning_operations_update_cong)

interpretation active_configuration: revisioned_table active_configuration_table
  by unfold_locales (auto simp: active_configuration_table_def plain_identifier_code intro: active_configuration_update_cong)

interpretation workspaces: revisioned_table workspaces_table
  by unfold_locales (auto simp: workspaces_table_def plain_identifier_code intro: workspaces_update_cong)

interpretation scheduler_state: revisioned_table scheduler_state_table
  by unfold_locales (auto simp: scheduler_state_table_def plain_identifier_code intro: scheduler_state_update_cong)

interpretation goal_scheduling_state: revisioned_table goal_scheduling_state_table
  by unfold_locales (auto simp: goal_scheduling_state_table_def plain_identifier_code intro: goal_scheduling_state_update_cong)

interpretation task_scheduling_state: revisioned_table task_scheduling_state_table
  by unfold_locales (auto simp: task_scheduling_state_table_def plain_identifier_code intro: task_scheduling_state_update_cong)

interpretation run_status: revisioned_table run_status_table
  by unfold_locales (auto simp: run_status_table_def plain_identifier_code intro: run_status_update_cong)

interpretation attempt_status: revisioned_table attempt_status_table
  by unfold_locales (auto simp: attempt_status_table_def plain_identifier_code intro: attempt_status_update_cong)

interpretation sandbox_instances: revisioned_table sandbox_instances_table
  by unfold_locales (auto simp: sandbox_instances_table_def plain_identifier_code intro: sandbox_instances_update_cong)

text \<open>The columns of the table records.\<close>

lemma goals_table_simps [simp]:
  "table_name goals_table = ''goals''" "key_column goals_table = ''id''"
  "table_rows goals_table = goals" "table_update goals_table = goals_update"
  "row_key goals_table = g_id" "row_revision goals_table = g_revision"
  "set_row_revision goals_table n r = r\<lparr>g_revision := n\<rparr>"
  by (simp_all add: goals_table_def)

lemma task_graphs_table_simps [simp]:
  "table_name task_graphs_table = ''task_graphs''" "key_column task_graphs_table = ''id''"
  "table_rows task_graphs_table = task_graphs" "table_update task_graphs_table = task_graphs_update"
  "row_key task_graphs_table = tg_id" "row_revision task_graphs_table = tg_revision"
  "set_row_revision task_graphs_table n r = r\<lparr>tg_revision := n\<rparr>"
  by (simp_all add: task_graphs_table_def)

lemma tasks_table_simps [simp]:
  "table_name tasks_table = ''tasks''" "key_column tasks_table = ''id''"
  "table_rows tasks_table = tasks" "table_update tasks_table = tasks_update"
  "row_key tasks_table = t_id" "row_revision tasks_table = t_revision"
  "set_row_revision tasks_table n r = r\<lparr>t_revision := n\<rparr>"
  by (simp_all add: tasks_table_def)

lemma planning_operations_table_simps [simp]:
  "table_name planning_operations_table = ''planning_operations''" "key_column planning_operations_table = ''id''"
  "table_rows planning_operations_table = planning_operations" "table_update planning_operations_table = planning_operations_update"
  "row_key planning_operations_table = po_id" "row_revision planning_operations_table = po_revision"
  "set_row_revision planning_operations_table n r = r\<lparr>po_revision := n\<rparr>"
  by (simp_all add: planning_operations_table_def)

lemma active_configuration_table_simps [simp]:
  "table_name active_configuration_table = ''active_configuration''" "key_column active_configuration_table = ''id''"
  "table_rows active_configuration_table = active_configuration" "table_update active_configuration_table = active_configuration_update"
  "row_key active_configuration_table = acf_id" "row_revision active_configuration_table = acf_revision"
  "set_row_revision active_configuration_table n r = r\<lparr>acf_revision := n\<rparr>"
  by (simp_all add: active_configuration_table_def)

lemma workspaces_table_simps [simp]:
  "table_name workspaces_table = ''workspaces''" "key_column workspaces_table = ''id''"
  "table_rows workspaces_table = workspaces" "table_update workspaces_table = workspaces_update"
  "row_key workspaces_table = w_id" "row_revision workspaces_table = w_revision"
  "set_row_revision workspaces_table n r = r\<lparr>w_revision := n\<rparr>"
  by (simp_all add: workspaces_table_def)

lemma scheduler_state_table_simps [simp]:
  "table_name scheduler_state_table = ''scheduler_state''" "key_column scheduler_state_table = ''id''"
  "table_rows scheduler_state_table = scheduler_state" "table_update scheduler_state_table = scheduler_state_update"
  "row_key scheduler_state_table = sc_id" "row_revision scheduler_state_table = sc_revision"
  "set_row_revision scheduler_state_table n r = r\<lparr>sc_revision := n\<rparr>"
  by (simp_all add: scheduler_state_table_def)

lemma goal_scheduling_state_table_simps [simp]:
  "table_name goal_scheduling_state_table = ''goal_scheduling_state''" "key_column goal_scheduling_state_table = ''goal_id''"
  "table_rows goal_scheduling_state_table = goal_scheduling_state" "table_update goal_scheduling_state_table = goal_scheduling_state_update"
  "row_key goal_scheduling_state_table = gs_goal_id" "row_revision goal_scheduling_state_table = gs_revision"
  "set_row_revision goal_scheduling_state_table n r = r\<lparr>gs_revision := n\<rparr>"
  by (simp_all add: goal_scheduling_state_table_def)

lemma task_scheduling_state_table_simps [simp]:
  "table_name task_scheduling_state_table = ''task_scheduling_state''" "key_column task_scheduling_state_table = ''task_id''"
  "table_rows task_scheduling_state_table = task_scheduling_state" "table_update task_scheduling_state_table = task_scheduling_state_update"
  "row_key task_scheduling_state_table = tsc_task_id" "row_revision task_scheduling_state_table = tsc_revision"
  "set_row_revision task_scheduling_state_table n r = r\<lparr>tsc_revision := n\<rparr>"
  by (simp_all add: task_scheduling_state_table_def)

lemma run_status_table_simps [simp]:
  "table_name run_status_table = ''run_status''" "key_column run_status_table = ''run_id''"
  "table_rows run_status_table = run_status" "table_update run_status_table = run_status_update"
  "row_key run_status_table = rs_run_id" "row_revision run_status_table = rs_revision"
  "set_row_revision run_status_table n r = r\<lparr>rs_revision := n\<rparr>"
  by (simp_all add: run_status_table_def)

lemma attempt_status_table_simps [simp]:
  "table_name attempt_status_table = ''attempt_status''" "key_column attempt_status_table = ''attempt_id''"
  "table_rows attempt_status_table = attempt_status" "table_update attempt_status_table = attempt_status_update"
  "row_key attempt_status_table = as_attempt_id" "row_revision attempt_status_table = as_revision"
  "set_row_revision attempt_status_table n r = r\<lparr>as_revision := n\<rparr>"
  by (simp_all add: attempt_status_table_def)

lemma sandbox_instances_table_simps [simp]:
  "table_name sandbox_instances_table = ''sandbox_instances''" "key_column sandbox_instances_table = ''id''"
  "table_rows sandbox_instances_table = sandbox_instances" "table_update sandbox_instances_table = sandbox_instances_update"
  "row_key sandbox_instances_table = sbx_id" "row_revision sandbox_instances_table = sbx_revision"
  "set_row_revision sandbox_instances_table n r = r\<lparr>sbx_revision := n\<rparr>"
  by (simp_all add: sandbox_instances_table_def)

text \<open>What a successful compare-and-set on each table did.\<close>

lemmas update_revisionedD =
  goals.update_SomeD [simplified]
  task_graphs.update_SomeD [simplified]
  tasks.update_SomeD [simplified]
  planning_operations.update_SomeD [simplified]
  active_configuration.update_SomeD [simplified]
  workspaces.update_SomeD [simplified]
  scheduler_state.update_SomeD [simplified]
  goal_scheduling_state.update_SomeD [simplified]
  task_scheduling_state.update_SomeD [simplified]
  run_status.update_SomeD [simplified]
  attempt_status.update_SomeD [simplified]
  sandbox_instances.update_SomeD [simplified]

end
