(* ===== verification/Commands.thy ===== *)
theory Commands
  imports Tables
begin

text \<open>
  The durable command mutation kernel (\<^verbatim>\<open>crates/pantheon-store/src/command.rs\<close>): the epoch
  fence, the command ledger, the journal sequence allocator, the Event append, and the envelope
  \<open>execute_envelope\<close> that runs a mutation at most once under its durable identity.
\<close>

section \<open>Operations\<close>

record command =
  cmd_epoch :: string
  cmd_id :: string
  cmd_request_hash :: "byte list"
  cmd_event_type :: string

record journal_cursor =
  jc_epoch :: string
  jc_sequence :: int

datatype 'a committed = Executed 'a journal_cursor | Replayed journal_cursor int

fun committed_cursor :: "'a committed \<Rightarrow> journal_cursor" where
  "committed_cursor (Executed _ cursor) = cursor"
| "committed_cursor (Replayed cursor _) = cursor"

fun was_executed :: "'a committed \<Rightarrow> bool" where
  "was_executed (Executed _ _) = True"
| "was_executed (Replayed _ _) = False"

record ledger_entry =
  le_request_hash :: "byte list"
  le_cursor :: journal_cursor
  le_recorded_at :: int

definition select_restore_generation :: "db \<Rightarrow> string option" where
  "select_restore_generation d =
     map_option ss_restore_generation (List.find (\<lambda>r. ss_id r = 1) (system_state d))"

definition fence_epoch :: "string \<Rightarrow> unit action" where
  "fence_epoch supplied =
     bindW (query_optional select_restore_generation) (\<lambda>generation.
     bindW (someW generation (InvariantViolated
              (Fmt ''system_state has no installation identity row'' []))) (\<lambda>current.
     requireW (supplied = current) (StaleCommandEpoch supplied current)))"

definition find_command :: "string \<Rightarrow> string \<Rightarrow> db \<Rightarrow> command_row option" where
  "find_command epoch cid d =
     List.find (\<lambda>r. co_command_epoch r = epoch \<and> co_command_id r = cid) (commands d)"

definition lookup_command :: "command \<Rightarrow> ledger_entry option action" where
  "lookup_command c = query_optional (\<lambda>d.
     map_option (\<lambda>r. \<lparr>le_request_hash = co_request_hash r,
         le_cursor = \<lparr>jc_epoch = co_journal_epoch r, jc_sequence = co_sequence r\<rparr>,
         le_recorded_at = co_recorded_at r\<rparr>)
       (find_command (cmd_epoch c) (cmd_id c) d))"

definition find_current_epoch :: "db \<Rightarrow> journal_epoch_row option" where
  "find_current_epoch d = List.find (\<lambda>r. je_is_current r = 1) (journal_epochs d)"

text \<open>\<^verbatim>\<open>UPDATE journal_epochs SET next_sequence = next_sequence + 1 WHERE is_current = 1 AND next_sequence = ?1\<close>\<close>

definition advance_sequence :: "int \<Rightarrow> statement" where
  "advance_sequence n = (\<lambda>d.
     if \<not> is_i64 (n + 1) \<and> (\<exists>r \<in> set (journal_epochs d). je_is_current r = 1 \<and> je_next_sequence r = n)
     then Inl DatatypeMismatch
     else update_where journal_epochs journal_epochs_update
       (\<lambda>r. je_is_current r = 1 \<and> je_next_sequence r = n)
       (\<lambda>r. r\<lparr>je_next_sequence := je_next_sequence r + 1\<rparr>) d)"

definition allocate_sequence :: "journal_cursor action" where
  "allocate_sequence =
     bindW (query_optional find_current_epoch) (\<lambda>row.
     bindW (someW row (InvariantViolated (Fmt ''no current journal epoch exists'' []))) (\<lambda>row.
     bindW (execute (advance_sequence (je_next_sequence row))) (\<lambda>affected.
     bindW (requireW (affected = 1) (InvariantViolated (Fmt
              ''journal sequence allocation affected {affected} rows, not exactly one''
              [FInt (int affected)]))) (\<lambda>_.
     returnW \<lparr>jc_epoch = je_epoch row, jc_sequence = je_next_sequence row\<rparr>))))"

definition new_event_id :: "string action" where
  "new_event_id = bindW query_randomblob (\<lambda>v.
     someW v (InvariantViolated (Fmt ''could not generate an event id'' [])))"

definition now :: "int action" where
  "now = bindW query_unixepoch (\<lambda>v.
     someW v (InvariantViolated (Fmt ''could not read the current time'' [])))"

text \<open>
  The Event insert of a command. Only the \<open>UNIQUE (journal_epoch, sequence)\<close> violation is
  reported as an occupied slot; any other storage error is passed through.
\<close>

definition occupied_slot :: "journal_cursor \<Rightarrow> nat action \<Rightarrow> nat action" where
  "occupied_slot cursor m = (\<lambda>w. case m w of
     (Inl (Sqlite (ConstraintViolation UniqueConstraint)), w') \<Rightarrow>
       writer_fail (InvariantViolated (Fmt ''journal slot ({}, {}) is already occupied''
         [FStr (jc_epoch cursor), FInt (jc_sequence cursor)])) w'
   | other \<Rightarrow> other)"

definition append_event :: "command \<Rightarrow> journal_cursor \<Rightarrow> int action" where
  "append_event c cursor =
     bindW new_event_id (\<lambda>event_id.
     bindW now (\<lambda>recorded_at.
     bindW (occupied_slot cursor (execute (insert_into event_journal_update
         \<lparr>ej_event_id = event_id, ej_journal_epoch = jc_epoch cursor,
          ej_sequence = jc_sequence cursor, ej_event_type = cmd_event_type c,
          ej_recorded_at = recorded_at, ej_command_epoch = Some (cmd_epoch c),
          ej_command_id = Some (cmd_id c)\<rparr>))) (\<lambda>_.
     returnW recorded_at)))"

definition record_command :: "command \<Rightarrow> journal_cursor \<Rightarrow> int \<Rightarrow> unit action" where
  "record_command c cursor recorded_at =
     bindW (execute (insert_into commands_update
         \<lparr>co_command_epoch = cmd_epoch c, co_command_id = cmd_id c,
          co_request_hash = cmd_request_hash c, co_journal_epoch = jc_epoch cursor,
          co_sequence = jc_sequence cursor, co_recorded_at = recorded_at\<rparr>)) (\<lambda>_.
     returnW ())"

definition append_internal_event :: "string \<Rightarrow> journal_cursor action" where
  "append_internal_event event_type =
     bindW allocate_sequence (\<lambda>cursor.
     bindW new_event_id (\<lambda>event_id.
     bindW now (\<lambda>recorded_at.
     bindW (execute (insert_into event_journal_update
         \<lparr>ej_event_id = event_id, ej_journal_epoch = jc_epoch cursor,
          ej_sequence = jc_sequence cursor, ej_event_type = event_type,
          ej_recorded_at = recorded_at, ej_command_epoch = None, ej_command_id = None\<rparr>)) (\<lambda>_.
     returnW cursor))))"

definition execute_envelope :: "command \<Rightarrow> 'a action \<Rightarrow> 'a committed action" where
  "execute_envelope c mutation =
     bindW (fence_epoch (cmd_epoch c)) (\<lambda>_.
     bindW (lookup_command c) (\<lambda>found.
       case found of
         Some entry \<Rightarrow>
           bindW (requireW (le_request_hash entry = cmd_request_hash c) (CommandConflict (cmd_id c))) (\<lambda>_.
           returnW (Replayed (le_cursor entry) (le_recorded_at entry)))
       | None \<Rightarrow>
           bindW mutation (\<lambda>value.
           bindW allocate_sequence (\<lambda>cursor.
           bindW (append_event c cursor) (\<lambda>recorded_at.
           bindW (record_command c cursor recorded_at) (\<lambda>_.
           returnW (Executed value cursor)))))))"

text \<open>\<open>Store::execute_command\<close>: the envelope inside one \<open>Store::write\<close>.\<close>

definition execute_command :: "command \<Rightarrow> 'a action \<Rightarrow> store \<Rightarrow> (store_error, 'a committed) res \<times> store" where
  "execute_command c mutation s = run (execute_envelope c mutation) s"

definition restore_generation :: "store \<Rightarrow> string option" where
  "restore_generation s = select_restore_generation (database s)"


section \<open>What the kernel does\<close>

lemma now_iff [wr]:
  "now w = (Inr t, w') \<longleftrightarrow> \<not> faulty w \<and> w' = tick w \<and> t = unixepoch (wr_env w) (wr_calls w)"
  by (auto simp: now_def wr)

lemma new_event_id_iff [wr]:
  "new_event_id w = (Inr i, w') \<longleftrightarrow> \<not> faulty w \<and> w' = tick w \<and> i = randomblob_hex (wr_env w) (wr_calls w)"
  by (auto simp: new_event_id_def wr)

lemma occupied_slot_iff [wr]:
  "occupied_slot cursor m w = (Inr n, w') \<longleftrightarrow> m w = (Inr n, w')"
  by (auto simp: occupied_slot_def wr
      split: prod.splits sum.splits store_error.splits sqlite_error.splits constraint.splits)

lemma fence_epoch_iff [wr]:
  "fence_epoch supplied w = (Inr u, w') \<longleftrightarrow>
     \<not> faulty w \<and> select_restore_generation (tx w) = Some supplied \<and> w' = tick w"
  by (auto simp: fence_epoch_def wr)

definition bump_epoch :: "int \<Rightarrow> journal_epoch_row \<Rightarrow> journal_epoch_row" where
  "bump_epoch n r = (if je_is_current r = 1 \<and> je_next_sequence r = n
     then r\<lparr>je_next_sequence := je_next_sequence r + 1\<rparr> else r)"

definition cursor_of :: "journal_epoch_row \<Rightarrow> journal_cursor" where
  "cursor_of row = \<lparr>jc_epoch = je_epoch row, jc_sequence = je_next_sequence row\<rparr>"

lemma allocate_sequenceD:
  assumes "allocate_sequence w = (Inr cursor, w')"
  obtains row where "find_current_epoch (tx w) = Some row" "cursor = cursor_of row"
    "tx w' = journal_epochs_update (map (bump_epoch (je_next_sequence row))) (tx w)"
    "schema_ok (tx w')" "failed w' = failed w" "wr_env w' = wr_env w"
  using assms
  by (auto simp: allocate_sequence_def wr advance_sequence_def cursor_of_def bump_epoch_def [abs_def]
      split: if_splits)

text \<open>The Event a command appends, and the ledger row it records.\<close>

definition command_event :: "command \<Rightarrow> journal_cursor \<Rightarrow> string \<Rightarrow> int \<Rightarrow> event_row" where
  "command_event c cursor event_id t =
     \<lparr>ej_event_id = event_id, ej_journal_epoch = jc_epoch cursor, ej_sequence = jc_sequence cursor,
      ej_event_type = cmd_event_type c, ej_recorded_at = t,
      ej_command_epoch = Some (cmd_epoch c), ej_command_id = Some (cmd_id c)\<rparr>"

definition command_entry :: "command \<Rightarrow> journal_cursor \<Rightarrow> int \<Rightarrow> command_row" where
  "command_entry c cursor t =
     \<lparr>co_command_epoch = cmd_epoch c, co_command_id = cmd_id c, co_request_hash = cmd_request_hash c,
      co_journal_epoch = jc_epoch cursor, co_sequence = jc_sequence cursor, co_recorded_at = t\<rparr>"

definition ledger_append :: "command \<Rightarrow> journal_epoch_row \<Rightarrow> string \<Rightarrow> int \<Rightarrow> db \<Rightarrow> db" where
  "ledger_append c row event_id t d = d\<lparr>
     journal_epochs := map (bump_epoch (je_next_sequence row)) (journal_epochs d),
     event_journal := event_journal d @ [command_event c (cursor_of row) event_id t],
     commands := commands d @ [command_entry c (cursor_of row) t]\<rparr>"

lemma append_eventD:
  assumes "append_event c cursor w = (Inr t, w')"
  obtains event_id where "tx w' = event_journal_update (\<lambda>es. es @ [command_event c cursor event_id t]) (tx w)"
    "failed w' = failed w"
  using assms by (auto simp: append_event_def wr command_event_def)

lemma record_commandD:
  assumes "record_command c cursor t w = (Inr u, w')"
  shows "tx w' = commands_update (\<lambda>cs. cs @ [command_entry c cursor t]) (tx w)"
    and "schema_ok (tx w')" and "failed w' = failed w"
  using assms by (auto simp: record_command_def wr command_entry_def)

lemma lookup_commandD:
  assumes "lookup_command c w = (Inr found, w')"
  shows "\<not> faulty w" "w' = tick w" and "found = map_option (\<lambda>r. \<lparr>le_request_hash = co_request_hash r,
         le_cursor = \<lparr>jc_epoch = co_journal_epoch r, jc_sequence = co_sequence r\<rparr>,
         le_recorded_at = co_recorded_at r\<rparr>) (find_command (cmd_epoch c) (cmd_id c) (tx w))"
  using assms by (auto simp: lookup_command_def wr)

text \<open>
  The envelope returns in two ways. Either the identity is on record with the same request and
  nothing changes; or it is new, the mutation ran, and the ledger is extended by exactly its row
  and its Event.
\<close>

lemma execute_envelope_cases:
  assumes "execute_envelope c mutation w = (Inr outcome, w')"
  obtains
    (replayed) row where "select_restore_generation (tx w) = Some (cmd_epoch c)"
      "find_command (cmd_epoch c) (cmd_id c) (tx w) = Some row"
      "co_request_hash row = cmd_request_hash c"
      "outcome = Replayed \<lparr>jc_epoch = co_journal_epoch row, jc_sequence = co_sequence row\<rparr> (co_recorded_at row)"
      "tx w' = tx w"
  | (executed) v w1 epoch_row event_id t where "select_restore_generation (tx w) = Some (cmd_epoch c)"
      "find_command (cmd_epoch c) (cmd_id c) (tx w) = None"
      "mutation (tick (tick w)) = (Inr v, w1)"
      "find_current_epoch (tx w1) = Some epoch_row"
      "outcome = Executed v (cursor_of epoch_row)"
      "tx w' = ledger_append c epoch_row event_id t (tx w1)" "schema_ok (tx w')"
proof -
  from assms obtain found where gen: "select_restore_generation (tx w) = Some (cmd_epoch c)"
    and look: "lookup_command c (tick w) = (Inr found, tick (tick w))"
    and body: "(case found of
         Some entry \<Rightarrow>
           bindW (requireW (le_request_hash entry = cmd_request_hash c) (CommandConflict (cmd_id c))) (\<lambda>_.
           returnW (Replayed (le_cursor entry) (le_recorded_at entry)))
       | None \<Rightarrow>
           bindW mutation (\<lambda>value.
           bindW allocate_sequence (\<lambda>cursor.
           bindW (append_event c cursor) (\<lambda>recorded_at.
           bindW (record_command c cursor recorded_at) (\<lambda>_.
           returnW (Executed value cursor)))))) (tick (tick w)) = (Inr outcome, w')"
    by (auto simp: execute_envelope_def wr dest: lookup_commandD)
  show thesis
  proof (cases "find_command (cmd_epoch c) (cmd_id c) (tx w)")
    case (Some row)
    with lookup_commandD(3) [OF look] body gen show ?thesis
      by (auto simp: wr intro: replayed)
  next
    case None
    with lookup_commandD(3) [OF look] have "found = None" by simp
    with body obtain v w1 cursor w2 t w3 w4 where m: "mutation (tick (tick w)) = (Inr v, w1)"
      and a: "allocate_sequence w1 = (Inr cursor, w2)" and e: "append_event c cursor w2 = (Inr t, w3)"
      and r: "record_command c cursor t w3 = (Inr (), w4)" and o: "outcome = Executed v cursor" "w' = w4"
      by (auto simp: wr)
    from a obtain row where row: "find_current_epoch (tx w1) = Some row" "cursor = cursor_of row"
      "tx w2 = journal_epochs_update (map (bump_epoch (je_next_sequence row))) (tx w1)"
      by (rule allocate_sequenceD)
    from e obtain event_id where ev: "tx w3 = event_journal_update (\<lambda>es. es @ [command_event c cursor event_id t]) (tx w2)"
      by (rule append_eventD)
    have "tx w' = ledger_append c row event_id t (tx w1)"
      using record_commandD(1) [OF r] row ev o(2) by (simp add: ledger_append_def)
    with None gen m row o record_commandD(2) [OF r] show ?thesis
      by (intro executed) auto
  qed
qed

section \<open>Frames\<close>

text \<open>
  \<open>leaves p f\<close>: a closure that returns does not change the part \<open>p\<close> of the database. The rules are
  closed under the ways actions are built; for a statement on a table they ask that updating the
  table leaves the part alone.
\<close>

definition leaves :: "(db \<Rightarrow> 'p) \<Rightarrow> 'a action \<Rightarrow> bool" where
  "leaves p f \<longleftrightarrow> (\<forall>w x w'. f w = (Inr x, w') \<longrightarrow> p (tx w') = p (tx w))"

named_theorems frame \<open>actions that leave a part of the database alone\<close>

lemma leavesD: "leaves p f \<Longrightarrow> f w = (Inr x, w') \<Longrightarrow> p (tx w') = p (tx w)"
  by (auto simp: leaves_def)

lemma leaves_keeps: "leaves p f \<Longrightarrow> (\<And>d d'. p d' = p d \<Longrightarrow> I d \<Longrightarrow> I d') \<Longrightarrow> keeps I f"
  by (auto simp: keeps_def leaves_def)

lemma leaves_bindW [frame]:
  "leaves p m \<Longrightarrow> (\<And>x. leaves p (f x)) \<Longrightarrow> leaves p (bindW m f)"
  unfolding leaves_def by (simp add: wr) metis

lemma leaves_simple [frame]:
  "leaves p (returnW x)" "leaves p (errW e)" "leaves p (writer_fail e)"
  "leaves p (requireW b e)" "leaves p (someW v e)" "leaves p (expectW v e)"
  "leaves p (query_row sel decode)" "leaves p (query_optional sel)"
  "leaves p (query_all sel')" "leaves p query_unixepoch" "leaves p query_randomblob"
  "leaves p now"
  by (auto simp: leaves_def wr)

lemma leaves_execute:
  "(\<And>d d' n. stmt d = Inr (d', n) \<Longrightarrow> p d' = p d) \<Longrightarrow> leaves p (execute stmt)"
  by (auto simp: leaves_def wr)

lemma leaves_execute_now [frame]:
  "(\<And>t. leaves p (execute (stmt t))) \<Longrightarrow> leaves p (execute_now stmt)"
  by (auto simp: leaves_def execute_now_def)

lemma leaves_insert [frame]:
  "(\<And>f d. p (upd f d) = p d) \<Longrightarrow> leaves p (execute (insert_into upd r))"
  by (rule leaves_execute) (simp add: wr)

lemma leaves_insert_or_ignore [frame]:
  "(\<And>f d. p (upd f d) = p d) \<Longrightarrow> leaves p (execute (insert_or_ignore sel upd check key r))"
  by (rule leaves_execute) (simp add: wr split: if_splits)

lemma leaves_update_where [frame]:
  "(\<And>f d. p (upd f d) = p d) \<Longrightarrow> leaves p (execute (update_where sel upd q f))"
  by (rule leaves_execute) (simp add: wr)

lemma leaves_update_revisioned [frame]:
  "(\<And>f d. p (table_update T f d) = p d) \<Longrightarrow> leaves p (update_revisioned_by T key expected as)"
  unfolding leaves_def
  by (auto simp: update_revisioned_by_def wr ensure_plain_identifier_def foldW_check_iff
      cas_statement_def Let_def split: if_splits)

lemma leaves_foldW [frame]:
  "(\<And>s x. leaves p (f s x)) \<Longrightarrow> leaves p (foldW f s xs)"
proof (induction xs arbitrary: s)
  case (Cons x xs)
  then show ?case by (simp add: leaves_bindW)
qed (simp add: frame)

lemma leaves_if [frame]:
  "leaves p f \<Longrightarrow> leaves p g \<Longrightarrow> leaves p (if b then f else g)"
  by simp

lemma leaves_case_option [frame]:
  "leaves p f \<Longrightarrow> (\<And>x. leaves p (g x)) \<Longrightarrow> leaves p (case v of None \<Rightarrow> f | Some x \<Rightarrow> g x)"
  by (cases v) auto

lemma leaves_case_sum [frame]:
  "(\<And>x. leaves p (f x)) \<Longrightarrow> (\<And>x. leaves p (g x)) \<Longrightarrow>
   leaves p (case v of Inl x \<Rightarrow> f x | Inr x \<Rightarrow> g x)"
  by (cases v) auto

lemma leaves_case_prod [frame]:
  "(\<And>x y. leaves p (f x y)) \<Longrightarrow> leaves p (case v of (x, y) \<Rightarrow> f x y)"
  by (cases v) auto

text \<open>The tables the envelope itself works on, which no mutation under it writes.\<close>

definition ledger_part :: "db \<Rightarrow> system_state_row list \<times> journal_epoch_row list \<times> event_row list \<times> command_row list" where
  "ledger_part d = (system_state d, journal_epochs d, event_journal d, commands d)"

abbreviation leaves_ledger :: "'a action \<Rightarrow> bool" where
  "leaves_ledger f \<equiv> leaves ledger_part f"

end
