(* ===== verification/Ledger.thy ===== *)
theory Ledger
  imports Commands
begin

text \<open>
  What the command kernel promises, stated without tables: a ledger from command identities to
  outcomes and a journal cursor, a verdict per command, and the one transition a new command
  makes. The envelope refines it, for any mutation that leaves the ledger tables alone. The
  second half is the journal invariant: every journal history is gap-free and in order, and the
  ledger and the journal's command Events name each other one to one.
\<close>

section \<open>The abstract ledger\<close>

record ledger =
  lg_generation :: "string option"
  lg_outcome :: "string \<times> string \<Rightarrow> (byte list \<times> journal_cursor \<times> int) option"
  lg_next :: "journal_cursor option"

datatype verdict = Stale | Conflict | Known journal_cursor int | New

definition ledger_decide :: "command \<Rightarrow> ledger \<Rightarrow> verdict" where
  "ledger_decide c L =
     (if lg_generation L \<noteq> Some (cmd_epoch c) then Stale
      else (case lg_outcome L (cmd_epoch c, cmd_id c) of
          None \<Rightarrow> New
        | Some (hash, cursor, t) \<Rightarrow> if hash = cmd_request_hash c then Known cursor t else Conflict))"

definition ledger_commit :: "command \<Rightarrow> journal_cursor \<Rightarrow> int \<Rightarrow> ledger \<Rightarrow> ledger" where
  "ledger_commit c cursor t L = L\<lparr>
     lg_outcome := (lg_outcome L)((cmd_epoch c, cmd_id c) := Some (cmd_request_hash c, cursor, t)),
     lg_next := Some (cursor\<lparr>jc_sequence := jc_sequence cursor + 1\<rparr>)\<rparr>"

definition abs_ledger :: "db \<Rightarrow> ledger" where
  "abs_ledger d = \<lparr>
     lg_generation = select_restore_generation d,
     lg_outcome = (\<lambda>(epoch, cid). map_option (\<lambda>r. (co_request_hash r,
         \<lparr>jc_epoch = co_journal_epoch r, jc_sequence = co_sequence r\<rparr>, co_recorded_at r))
       (find_command epoch cid d)),
     lg_next = map_option cursor_of (find_current_epoch d)\<rparr>"

lemma find_current_bump:
  "find_current_epoch d = Some row \<Longrightarrow>
   List.find (\<lambda>r. je_is_current r = 1) (map (bump_epoch n) (journal_epochs d)) = Some (bump_epoch n row)"
  unfolding find_current_epoch_def by (subst find_map_same) (auto simp: bump_epoch_def)

lemma abs_ledger_frame: "ledger_part d' = ledger_part d \<Longrightarrow> abs_ledger d' = abs_ledger d"
  by (auto simp: abs_ledger_def ledger_part_def select_restore_generation_def find_command_def
      find_current_epoch_def)

lemma abs_ledger_append:
  assumes "find_command (cmd_epoch c) (cmd_id c) d = None"
    and "find_current_epoch d = Some row"
  shows "abs_ledger (ledger_append c row event_id t d) = ledger_commit c (cursor_of row) t (abs_ledger d)"
proof -
  have current: "je_is_current row = 1"
    using assms(2) find_SomeD unfolding find_current_epoch_def by fastforce
  have "find_current_epoch (ledger_append c row event_id t d) = Some (row\<lparr>je_next_sequence := je_next_sequence row + 1\<rparr>)"
    using find_current_bump [OF assms(2), of "je_next_sequence row"] current
    by (simp add: find_current_epoch_def ledger_append_def bump_epoch_def)
  moreover have "find_command epoch cid (ledger_append c row event_id t d) =
      (if epoch = cmd_epoch c \<and> cid = cmd_id c then Some (command_entry c (cursor_of row) t)
       else find_command epoch cid d)" for epoch cid
    using assms(1) by (auto simp: find_command_def ledger_append_def find_append command_entry_def
        split: option.splits)
  ultimately show ?thesis
    by (auto simp: abs_ledger_def ledger_commit_def cursor_of_def command_entry_def fun_eq_iff
        ledger_append_def select_restore_generation_def)
qed

section \<open>Refinement\<close>

lemma execute_command_refines:
  assumes "leaves_ledger mutation"
    and "execute_command c mutation s = (r, s')"
  shows "case r of
      Inl e \<Rightarrow> database s' = database s
    | Inr (Replayed cursor t) \<Rightarrow>
        ledger_decide c (abs_ledger (database s)) = Known cursor t \<and> database s' = database s
    | Inr (Executed v cursor) \<Rightarrow>
        ledger_decide c (abs_ledger (database s)) = New
        \<and> lg_next (abs_ledger (database s)) = Some cursor
        \<and> (\<exists>t. abs_ledger (database s') = ledger_commit c cursor t (abs_ledger (database s)))"
proof (cases r)
  case (Inl e)
  with assms(2) show ?thesis by (auto simp: execute_command_def dest: run_Inl_database)
next
  case (Inr outcome)
  with assms(2) obtain w where env: "execute_envelope c mutation (writer_new s) = (Inr outcome, w)"
    and db: "database s' = tx w"
    by (auto simp: execute_command_def run_Inr_iff)
  from env show ?thesis
  proof (cases rule: execute_envelope_cases)
    case (replayed row)
    with Inr db show ?thesis by (simp add: ledger_decide_def abs_ledger_def)
  next
    case (executed v w1 row event_id t)
    have part: "ledger_part (tx w1) = ledger_part (database s)"
      using leavesD [OF assms(1) executed(3)] by simp
    then have same: "abs_ledger (tx w1) = abs_ledger (database s)"
      by (rule abs_ledger_frame)
    have none: "find_command (cmd_epoch c) (cmd_id c) (tx w1) = None"
      using executed(2) part by (simp add: ledger_part_def find_command_def)
    have "abs_ledger (database s') = ledger_commit c (cursor_of row) t (abs_ledger (database s))"
      using abs_ledger_append [OF none executed(4), of event_id t] executed(6) db same by simp
    moreover have "ledger_decide c (abs_ledger (database s)) = New"
      using executed(1,2) by (simp add: ledger_decide_def abs_ledger_def)
    moreover have "lg_next (abs_ledger (database s)) = Some (cursor_of row)"
      using executed(4) by (simp flip: same) (simp add: abs_ledger_def)
    ultimately show ?thesis using Inr executed(5) by auto
  qed
qed

text \<open>The error verdicts, and that a replay needs nothing but the ledger.\<close>

lemma execute_command_stale:
  assumes "\<not> storage_fault (st_env s) (st_calls s)" "\<not> storage_fault (st_env s) (Suc (st_calls s))"
    and "select_restore_generation (database s) = Some g" "g \<noteq> cmd_epoch c"
  shows "fst (execute_command c mutation s) = Inl (StaleCommandEpoch (cmd_epoch c) g)"
  using assms
  by (auto simp: execute_command_def run_def execute_envelope_def bindW_def fence_epoch_def
      query_optional_def query_row_def faulty_def returnW_def someW_def requireW_def writer_fail_def)

lemma execute_command_known:
  assumes "\<And>n. \<not> storage_fault (st_env s) n"
    and "select_restore_generation (database s) = Some (cmd_epoch c)"
    and "find_command (cmd_epoch c) (cmd_id c) (database s) = Some row"
  shows "fst (execute_command c mutation s) =
     (if co_request_hash row = cmd_request_hash c
      then Inr (Replayed \<lparr>jc_epoch = co_journal_epoch row, jc_sequence = co_sequence row\<rparr> (co_recorded_at row))
      else Inl (CommandConflict (cmd_id c)))"
    and "database (snd (execute_command c mutation s)) = database s"
  using assms
  by (auto simp: execute_command_def run_def execute_envelope_def bindW_def fence_epoch_def
      query_optional_def query_row_def faulty_def returnW_def someW_def requireW_def writer_fail_def
      lookup_command_def)

section \<open>The journal invariant\<close>

definition epoch_sequences :: "string \<Rightarrow> db \<Rightarrow> int list" where
  "epoch_sequences epoch d = map ej_sequence (filter (\<lambda>r. ej_journal_epoch r = epoch) (event_journal d))"

definition event_identity :: "event_row \<Rightarrow> (string \<times> string \<times> string \<times> int \<times> int) option" where
  "event_identity r = (case (ej_command_epoch r, ej_command_id r) of
     (Some epoch, Some cid) \<Rightarrow> Some (epoch, cid, ej_journal_epoch r, ej_sequence r, ej_recorded_at r)
   | _ \<Rightarrow> None)"

definition command_identity :: "command_row \<Rightarrow> string \<times> string \<times> string \<times> int \<times> int" where
  "command_identity r = (co_command_epoch r, co_command_id r, co_journal_epoch r, co_sequence r, co_recorded_at r)"

definition journal_inv :: "db \<Rightarrow> bool" where
  "journal_inv d \<longleftrightarrow>
     (\<forall>e \<in> set (journal_epochs d). epoch_sequences (je_epoch e) d = map int [1..<nat (je_next_sequence e)])
     \<and> map command_identity (commands d) = List.map_filter event_identity (event_journal d)"

lemma journal_inv_frame: "ledger_part d' = ledger_part d \<Longrightarrow> journal_inv d' = journal_inv d"
  by (simp add: journal_inv_def ledger_part_def epoch_sequences_def)

lemma schema_current_unique:
  assumes "schema_ok d" and "r \<in> set (journal_epochs d)" "je_is_current r = 1"
    and "r' \<in> set (journal_epochs d)" "je_is_current r' = 1"
  shows "r = r'"
proof -
  have "inj_on je_is_current (set (filter (\<lambda>r. je_is_current r = 1) (journal_epochs d)))"
    using assms(1) by (simp add: schema_ok_iff uniques_ok_def distinct_map)
  then show ?thesis
    using assms by (auto simp: inj_on_def)
qed

text \<open>
  Appending one Event at the allocator's position keeps every history gap-free: the position is
  the next of its epoch, and no other epoch is touched.
\<close>

lemma epoch_sequences_append:
  assumes ok: "schema_ok d" and row: "find_current_epoch d = Some row"
    and inv: "\<And>e. e \<in> set (journal_epochs d) \<Longrightarrow>
      epoch_sequences (je_epoch e) d = map int [1..<nat (je_next_sequence e)]"
    and ev: "ej_journal_epoch ev = je_epoch row" "ej_sequence ev = je_next_sequence row"
    and e: "e \<in> set (map (bump_epoch (je_next_sequence row)) (journal_epochs d))"
  shows "map ej_sequence (filter (\<lambda>r. ej_journal_epoch r = je_epoch e) (event_journal d @ [ev]))
    = map int [1..<nat (je_next_sequence e)]"
proof -
  have row_in: "row \<in> set (journal_epochs d)" and current: "je_is_current row = 1"
    using row find_SomeD unfolding find_current_epoch_def by fastforce+
  have pos: "1 \<le> je_next_sequence r" if "r \<in> set (journal_epochs d)" for r
    using ok that by (auto simp: schema_ok_iff checks_ok_def list_all_iff check_journal_epoch_def)
  obtain e0 where e0: "e0 \<in> set (journal_epochs d)" "e = bump_epoch (je_next_sequence row) e0"
    using e by auto
  have epoch: "je_epoch e = je_epoch e0" using e0 by (simp add: bump_epoch_def)
  show ?thesis
  proof (cases "je_epoch e0 = je_epoch row")
    case True
    have "e0 = row"
      using ok e0(1) row_in True unfolding schema_ok_iff primary_keys_ok_def
      by (meson distinct_map inj_onD)
    then have "je_next_sequence e = je_next_sequence row + 1"
      using e0(2) current by (simp add: bump_epoch_def)
    moreover have "nat (je_next_sequence row + 1) = Suc (nat (je_next_sequence row))"
      using pos [OF row_in] by simp
    moreover have "1 \<le> nat (je_next_sequence row)" using pos [OF row_in] by simp
    ultimately have "map int [1..<nat (je_next_sequence e)]
        = map int [1..<nat (je_next_sequence row)] @ [je_next_sequence row]"
      using pos [OF row_in] by simp
    moreover have "je_epoch e = je_epoch row" using epoch True by simp
    ultimately show ?thesis
      using inv [OF row_in] ev by (simp add: epoch_sequences_def)
  next
    case False
    then have "e0 \<noteq> row" by auto
    then have "\<not> (je_is_current e0 = 1)"
      using schema_current_unique [OF ok e0(1) _ row_in current] by blast
    then have "e = e0" using e0 by (simp add: bump_epoch_def)
    with False inv [OF e0(1)] ev show ?thesis by (simp add: epoch_sequences_def)
  qed
qed

lemma map_filter_append: "List.map_filter f (xs @ ys) = List.map_filter f xs @ List.map_filter f ys"
  by (simp add: List.map_filter_def)

lemma journal_inv_append:
  assumes "schema_ok d" "journal_inv d" "find_current_epoch d = Some row"
  shows "journal_inv (ledger_append c row event_id t d)"
  using epoch_sequences_append [OF assms(1,3), of "command_event c (cursor_of row) event_id t"] assms(2)
  by (auto simp: journal_inv_def ledger_append_def command_event_def cursor_of_def epoch_sequences_def
      command_identity_def command_entry_def event_identity_def map_filter_append List.map_filter_def)

text \<open>The Event of a mutation without command identity.\<close>

lemma append_internal_eventD:
  assumes "append_internal_event event_type w = (Inr cursor, w')"
  obtains row ev where "find_current_epoch (tx w) = Some row"
    "ej_journal_epoch ev = je_epoch row" "ej_sequence ev = je_next_sequence row"
    "ej_command_epoch ev = None" "ej_command_id ev = None" "ej_event_type ev = event_type"
    "tx w' = (tx w)\<lparr>journal_epochs := map (bump_epoch (je_next_sequence row)) (journal_epochs (tx w)),
       event_journal := event_journal (tx w) @ [ev]\<rparr>"
    "schema_ok (tx w')"
proof -
  from assms obtain w1 i w2 t w3 n where a: "allocate_sequence w = (Inr cursor, w1)"
    and i: "new_event_id w1 = (Inr i, w2)" and t: "now w2 = (Inr t, w3)"
    and x: "execute (insert_into event_journal_update
         \<lparr>ej_event_id = i, ej_journal_epoch = jc_epoch cursor,
          ej_sequence = jc_sequence cursor, ej_event_type = event_type,
          ej_recorded_at = t, ej_command_epoch = None, ej_command_id = None\<rparr>) w3 = (Inr n, w')"
    by (auto simp: append_internal_event_def bindW_iff returnW_iff)
  from a obtain row where row: "find_current_epoch (tx w) = Some row" "cursor = cursor_of row"
    "tx w1 = journal_epochs_update (map (bump_epoch (je_next_sequence row))) (tx w)"
    by (rule allocate_sequenceD)
  show thesis
    by (rule that [OF row(1), where ev = "\<lparr>ej_event_id = i, ej_journal_epoch = jc_epoch cursor,
          ej_sequence = jc_sequence cursor, ej_event_type = event_type,
          ej_recorded_at = t, ej_command_epoch = None, ej_command_id = None\<rparr>"])
      (use row(2,3) i t x in \<open>auto simp: wr cursor_of_def\<close>)
qed

lemma keeps_journal_internal:
  "keeps (\<lambda>d. schema_ok d \<and> journal_inv d) (append_internal_event event_type)"
proof (rule keepsI)
  fix w cursor w'
  assume run: "append_internal_event event_type w = (Inr cursor, w')" and inv: "schema_ok (tx w) \<and> journal_inv (tx w)"
  from run obtain row ev where ev: "find_current_epoch (tx w) = Some row"
    "ej_journal_epoch ev = je_epoch row" "ej_sequence ev = je_next_sequence row"
    "ej_command_epoch ev = None"
    "tx w' = (tx w)\<lparr>journal_epochs := map (bump_epoch (je_next_sequence row)) (journal_epochs (tx w)),
       event_journal := event_journal (tx w) @ [ev]\<rparr>" "schema_ok (tx w')"
    by (rule append_internal_eventD)
  have "journal_inv (tx w')"
    using epoch_sequences_append [OF _ ev(1) _ ev(2,3)] inv ev(4,5)
    by (auto simp: journal_inv_def epoch_sequences_def event_identity_def map_filter_append List.map_filter_def)
  with ev(6) show "schema_ok (tx w') \<and> journal_inv (tx w')" by simp
qed

end
