(* ===== verification/Store_Planning.thy ===== *)
theory Store_Planning
  imports Ledger Planning
begin

text \<open>
  Durable Goal, planning and TaskGraph authority
  (\<^verbatim>\<open>crates/pantheon-store/src/planning.rs\<close>, \<^verbatim>\<open>planning/materialize.rs\<close>, \<^verbatim>\<open>planning/cancel.rs\<close>,
  \<^verbatim>\<open>planning/read.rs\<close>): creating a Goal, recording a planning decision, materializing a plan into
  the graph, and cancelling a Goal with its Tasks. Each operation is the body the store runs under
  the command envelope; its effect on the database is then stated as one equation.
\<close>

section \<open>Records\<close>

record goal_record =
  gl_id :: string
  gl_phase :: goal_phase
  gl_current_revision :: int
  gl_revision :: int

record graph_record =
  gh_goal_id :: string
  gh_revision :: int

record task_record =
  tr_id :: string
  tr_goal_id :: string
  tr_phase :: task_phase
  tr_created_graph_revision :: int
  tr_spec_digest :: digest
  tr_revision :: int
  tr_active_run_id :: "string option"

datatype planning_state = Planned | Materialized

fun planning_state_as_str :: "planning_state \<Rightarrow> string" where
  "planning_state_as_str Planned = ''Planned''"
| "planning_state_as_str Materialized = ''Materialized''"

definition planning_state_parse :: "string \<Rightarrow> planning_state option" where
  "planning_state_parse s =
     (if s = ''Planned'' then Some Planned
      else if s = ''Materialized'' then Some Materialized
      else None)"

interpretation planning_state: wire_enum planning_state_as_str planning_state_parse
proof
  fix x show "planning_state_parse (planning_state_as_str x) = Some x"
    by (cases x) (simp_all add: planning_state_parse_def)
next
  fix s x assume "planning_state_parse s = Some x"
  then show "s = planning_state_as_str x" by (auto simp: planning_state_parse_def split: if_splits)
qed

record planning_operation_record =
  por_id :: string
  por_goal_id :: string
  por_goal_revision :: int
  por_expected_graph_revision :: int
  por_configuration_activation_sequence :: int
  por_planning_input_digest :: digest
  por_state :: planning_state
  por_revision :: int

record planning_decision =
  pd_operation_id :: string
  pd_goal_id :: string
  pd_goal_revision :: int
  pd_expected_graph_revision :: int
  pd_configuration_activation_sequence :: int
  pd_planning_input_digest :: digest
  pd_trigger_kind :: string
  pd_planner_implementation :: string
  pd_planner_version :: string

record proposal_record =
  pp_digest :: digest
  pp_canonical :: string
  pp_normalization_provenance :: string

record materialized_plan =
  mp_task :: task_record
  mp_graph_revision :: int
  mp_goal_phase :: goal_phase

record cancellation =
  cn_goal :: goal_record
  cn_tasks_fenced :: nat
  cn_already_targeted :: bool

section \<open>Selections\<close>

definition find_goal :: "string \<Rightarrow> db \<Rightarrow> goal_row option" where
  "find_goal gid d = List.find (\<lambda>r. g_id r = gid) (goals d)"

definition find_goal_revision :: "string \<Rightarrow> int \<Rightarrow> db \<Rightarrow> goal_revision_row option" where
  "find_goal_revision gid n d =
     List.find (\<lambda>r. gr_goal_id r = gid \<and> gr_revision r = n) (goal_revisions d)"

definition find_graph :: "string \<Rightarrow> db \<Rightarrow> task_graph_row option" where
  "find_graph gid d = List.find (\<lambda>r. tg_id r = gid) (task_graphs d)"

definition find_task :: "string \<Rightarrow> db \<Rightarrow> task_row option" where
  "find_task tid d = List.find (\<lambda>r. t_id r = tid) (tasks d)"

definition find_operation :: "string \<Rightarrow> db \<Rightarrow> planning_operation_row option" where
  "find_operation oid d = List.find (\<lambda>r. po_id r = oid) (planning_operations d)"

definition find_planning_record :: "string \<Rightarrow> db \<Rightarrow> planning_record_row option" where
  "find_planning_record oid d = List.find (\<lambda>r. pr_planning_operation_id r = oid) (planning_records d)"

definition find_pointer :: "db \<Rightarrow> active_configuration_row option" where
  "find_pointer d = List.find (\<lambda>r. acf_id r = ''singleton'') (active_configuration d)"

definition goal_unknown_phase :: "string \<Rightarrow> store_error" where
  "goal_unknown_phase gid = InvariantViolated (Fmt ''goal {goal_id} has unknown phase'' [FStr gid])"

definition task_unknown_phase :: "string \<Rightarrow> store_error" where
  "task_unknown_phase tid = InvariantViolated (Fmt ''task {task_id} has unknown phase'' [FStr tid])"

section \<open>Creating a Goal\<close>

definition create_goal_body :: "sha256 \<Rightarrow> string \<Rightarrow> goal_spec \<Rightarrow> goal_record action" where
  "create_goal_body sha goal_id spec =
     bindW now (\<lambda>t.
     bindW (execute (insert_into goals_update
         \<lparr>g_id = goal_id, g_phase = goal_phase_as_str GPlanning, g_current_revision = 1,
          g_revision = 1, g_terminal_target = None, g_created_at = t\<rparr>)) (\<lambda>_.
     bindW (execute (insert_into goal_revisions_update
         \<lparr>gr_goal_id = goal_id, gr_revision = 1, gr_content_digest = as_bytes (goal_digest sha spec),
          gr_canonical_json = to_canonical_bytes (goal_to_value spec), gr_created_at = t\<rparr>)) (\<lambda>_.
     bindW (execute (insert_into task_graphs_update \<lparr>tg_id = goal_id, tg_revision = 0\<rparr>)) (\<lambda>_.
     returnW \<lparr>gl_id = goal_id, gl_phase = GPlanning, gl_current_revision = 1, gl_revision = 1\<rparr>))))"

definition create_goal ::
    "sha256 \<Rightarrow> command \<Rightarrow> string \<Rightarrow> goal_spec \<Rightarrow> store \<Rightarrow> (store_error, goal_record committed) res \<times> store" where
  "create_goal sha c goal_id spec = execute_command c (create_goal_body sha goal_id spec)"

section \<open>Recording a planning decision\<close>

definition operation_row :: "planning_decision \<Rightarrow> int \<Rightarrow> planning_operation_row" where
  "operation_row dec t =
     \<lparr>po_id = pd_operation_id dec, po_goal_id = pd_goal_id dec, po_goal_revision = pd_goal_revision dec,
      po_expected_graph_revision = pd_expected_graph_revision dec, po_trigger_kind = pd_trigger_kind dec,
      po_planning_input_digest = as_bytes (pd_planning_input_digest dec),
      po_planner_implementation = pd_planner_implementation dec,
      po_planner_version = pd_planner_version dec,
      po_configuration_activation_sequence = pd_configuration_activation_sequence dec,
      po_state = planning_state_as_str Planned, po_revision = 1, po_created_at = t\<rparr>"

definition record_planning_body :: "planning_decision \<Rightarrow> proposal_record \<Rightarrow> planning_operation_record action" where
  "record_planning_body dec p =
     bindW now (\<lambda>t.
     bindW (execute (insert_into planning_operations_update (operation_row dec t))) (\<lambda>_.
     bindW (execute (insert_into planning_records_update
         \<lparr>pr_planning_operation_id = pd_operation_id dec, pr_proposal_digest = as_bytes (pp_digest p),
          pr_canonical_proposal = pp_canonical p,
          pr_normalization_provenance = pp_normalization_provenance p, pr_created_at = t\<rparr>)) (\<lambda>_.
     returnW \<lparr>por_id = pd_operation_id dec, por_goal_id = pd_goal_id dec,
       por_goal_revision = pd_goal_revision dec,
       por_expected_graph_revision = pd_expected_graph_revision dec,
       por_configuration_activation_sequence = pd_configuration_activation_sequence dec,
       por_planning_input_digest = pd_planning_input_digest dec,
       por_state = Planned, por_revision = 1\<rparr>)))"

definition record_direct_planning ::
    "command \<Rightarrow> planning_decision \<Rightarrow> proposal_record \<Rightarrow> store \<Rightarrow>
     (store_error, planning_operation_record committed) res \<times> store" where
  "record_direct_planning c dec p = execute_command c (record_planning_body dec p)"

section \<open>Materializing a plan\<close>

text \<open>Step 1: the frozen decision, which must not have been spent.\<close>

definition read_decision :: "string \<Rightarrow> planning_operation_row action" where
  "read_decision operation_id =
     bindW (query_optional (find_operation operation_id)) (\<lambda>row.
     bindW (someW row (InvariantViolated
        (Fmt ''planning operation {operation_id} does not exist'' [FStr operation_id]))) (\<lambda>op.
     bindW (someW (planning_state_parse (po_state op)) (InvariantViolated
        (Fmt ''planning operation {operation_id} has unknown state'' [FStr operation_id]))) (\<lambda>state.
     bindW (requireW (state = Planned)
        (RevisionConflict ''planning_operations'' operation_id (po_revision op) (Some (po_revision op)))) (\<lambda>_.
     returnW op))))"

text \<open>Step 2: the Goal, its revision, the content the plan was validated against, and the
  proposal the decision recorded.\<close>

definition recheck_goal :: "string \<Rightarrow> planning_operation_row \<Rightarrow> materializable \<Rightarrow> goal_row action" where
  "recheck_goal operation_id op mplan =
     bindW (query_optional (find_goal (po_goal_id op))) (\<lambda>row.
     bindW (someW row (InvariantViolated (Fmt ''goal {goal_id} does not exist'' [FStr (po_goal_id op)]))) (\<lambda>goal.
     bindW (requireW (g_current_revision goal = po_goal_revision op)
        (RevisionConflict ''goal_revisions'' (po_goal_id op) (po_goal_revision op)
           (Some (g_current_revision goal)))) (\<lambda>_.
     bindW (requireW (mt_goal_revision mplan = po_goal_revision op) (InvariantViolated (Fmt
        ''plan was validated against goal revision {}, but the operation froze {frozen_goal_revision}''
        [FInt (mt_goal_revision mplan), FInt (po_goal_revision op)]))) (\<lambda>_.
     bindW (query_optional (find_goal_revision (po_goal_id op) (po_goal_revision op))) (\<lambda>rev.
     bindW (someW rev (InvariantViolated (Fmt
        ''goal {goal_id} revision {frozen_goal_revision} is not stored''
        [FStr (po_goal_id op), FInt (po_goal_revision op)]))) (\<lambda>rev.
     bindW (requireW (gr_content_digest rev = as_bytes (mt_goal_digest mplan)) (InvariantViolated (Fmt
        ''plan was validated against a goal whose content is not the stored revision {frozen_goal_revision}''
        [FInt (po_goal_revision op)]))) (\<lambda>_.
     bindW (requireW (tk_goal_id (mt_spec mplan) = po_goal_id op) (InvariantViolated (Fmt
        ''plan names goal {:?}, but operation {operation_id} belongs to {goal_id:?}''
        [FStr (tk_goal_id (mt_spec mplan)), FStr operation_id, FStr (po_goal_id op)]))) (\<lambda>_.
     bindW (query_optional (find_planning_record operation_id)) (\<lambda>recorded.
     bindW (someW recorded (InvariantViolated (Fmt
        ''planning operation {operation_id} has no recorded proposal'' [FStr operation_id]))) (\<lambda>recorded.
     bindW (requireW (pr_proposal_digest recorded = as_bytes (mt_proposal_digest mplan)) (InvariantViolated (Fmt
        ''plan does not match the proposal recorded for operation {operation_id}'' [FStr operation_id]))) (\<lambda>_.
     returnW goal)))))))))))"

text \<open>Step 3: the graph revision.\<close>

definition recheck_graph :: "planning_operation_row \<Rightarrow> int action" where
  "recheck_graph op =
     bindW (query_optional (find_graph (po_goal_id op))) (\<lambda>row.
     bindW (someW row (InvariantViolated (Fmt ''goal {goal_id} has no task graph'' [FStr (po_goal_id op)]))) (\<lambda>graph.
     bindW (requireW (tg_revision graph = po_expected_graph_revision op)
        (RevisionConflict ''task_graphs'' (po_goal_id op) (po_expected_graph_revision op)
           (Some (tg_revision graph)))) (\<lambda>_.
     returnW (tg_revision graph))))"

text \<open>Step 4: the active configuration.\<close>

definition recheck_configuration :: "planning_operation_row \<Rightarrow> unit action" where
  "recheck_configuration op =
     bindW (query_optional find_pointer) (\<lambda>row.
     bindW (someW (Option.bind row acf_activation_sequence) (InvariantViolated
        (Fmt ''no active configuration; cannot materialize a plan'' []))) (\<lambda>active.
     requireW (active = po_configuration_activation_sequence op)
        (RevisionConflict ''active_configuration'' ''singleton'' (po_configuration_activation_sequence op)
           (Some active))))"

definition unsatisfied_prerequisites :: "string \<Rightarrow> int \<Rightarrow> db \<Rightarrow> nat" where
  "unsatisfied_prerequisites task_id n d =
     length [(e, up). e \<leftarrow> task_graph_edges d, up \<leftarrow> tasks d,
        t_id up = te_upstream_task_id e \<and> te_downstream_task_id e = task_id
        \<and> te_kind e = ''requires_success'' \<and> te_created_graph_revision e \<le> n
        \<and> is_null_or (\<lambda>m. n < m) (te_removed_graph_revision e) \<and> t_phase up \<noteq> ''Succeeded'']"

definition prerequisites_satisfied :: "string \<Rightarrow> int \<Rightarrow> bool action" where
  "prerequisites_satisfied task_id n =
     bindW (query_optional (\<lambda>d. Some (unsatisfied_prerequisites task_id n d))) (\<lambda>count.
     returnW ((case count of None \<Rightarrow> 0 | Some k \<Rightarrow> k) = 0))"

definition spec_row :: "sha256 \<Rightarrow> string \<Rightarrow> task_spec \<Rightarrow> task_spec_row" where
  "spec_row sha goal_id spec =
     \<lparr>tsp_digest = as_bytes (task_digest sha spec), tsp_goal_id = goal_id,
      tsp_goal_revision = tk_goal_revision spec,
      tsp_canonical_json = to_canonical_bytes (task_to_value spec),
      tsp_acceptance_digest = as_bytes (acceptance_digest sha spec),
      tsp_evaluator_registry_digest = as_bytes (act_evaluator_registry_digest (tk_acceptance spec)),
      tsp_configuration_activation_sequence = act_configuration_activation_sequence (tk_acceptance spec)\<rparr>"

definition new_task_row :: "sha256 \<Rightarrow> string \<Rightarrow> string \<Rightarrow> int \<Rightarrow> task_phase \<Rightarrow> task_spec \<Rightarrow> task_row" where
  "new_task_row sha task_id goal_id n phase spec =
     \<lparr>t_id = task_id, t_goal_id = goal_id, t_created_graph_revision = n,
      t_phase = task_phase_as_str phase, t_revision = 1, t_terminal_target = None,
      t_terminal_reason_json = None, t_active_run_id = None,
      t_spec_digest = as_bytes (task_digest sha spec)\<rparr>"

text \<open>Step 5: the immutable specification, the Task at its canonical readiness, and for a
  \<open>Ready\<close> Task the start of its eligibility interval.\<close>

definition eligibility_row :: "string \<Rightarrow> int \<Rightarrow> task_scheduling_row" where
  "eligibility_row task_id t =
     \<lparr>tsc_task_id = task_id, tsc_eligible_since = Some t, tsc_next_attempt_at = None,
      tsc_last_failure_code = None, tsc_last_failure_detail_json = None, tsc_revision = 1,
      tsc_updated_at = t\<rparr>"

definition write_task :: "sha256 \<Rightarrow> string \<Rightarrow> string \<Rightarrow> int \<Rightarrow> task_spec \<Rightarrow> task_phase action" where
  "write_task sha task_id goal_id n spec =
     bindW (execute (insert_or_ignore task_specs task_specs_update check_task_spec tsp_digest
         (spec_row sha goal_id spec))) (\<lambda>_.
     bindW (prerequisites_satisfied task_id n) (\<lambda>satisfied.
     let phase = (if satisfied then TReady else TPending) in
     bindW (execute (insert_into tasks_update (new_task_row sha task_id goal_id n phase spec))) (\<lambda>_.
     bindW (if phase = TReady then
              bindW now (\<lambda>t.
              bindW (execute (insert_into task_scheduling_state_update (eligibility_row task_id t))) (\<lambda>_.
              returnW ()))
            else returnW ()) (\<lambda>_.
     returnW phase))))"

text \<open>Steps 6 to 8: the graph patch, the Goal leaving \<open>Planning\<close>, the decision spent.\<close>

definition set_goal_phase :: "goal_phase \<Rightarrow> goal_row assignment" where
  "set_goal_phase p = (''phase'', \<lambda>r. r\<lparr>g_phase := goal_phase_as_str p\<rparr>)"

definition patch_graph :: "string \<Rightarrow> planning_operation_row \<Rightarrow> goal_row \<Rightarrow> int \<Rightarrow> unit action" where
  "patch_graph operation_id op goal graph_revision =
     bindW (update_revisioned_by task_graphs_table (po_goal_id op) graph_revision []) (\<lambda>_.
     bindW (someW (goal_phase_parse (g_phase goal)) (goal_unknown_phase (po_goal_id op))) (\<lambda>phase.
     bindW (if phase = GPlanning
            then bindW (update_revisioned_by goals_table (po_goal_id op) (g_revision goal)
                   [set_goal_phase GActive]) (\<lambda>_. returnW ())
            else returnW ()) (\<lambda>_.
     bindW (update_revisioned_by planning_operations_table operation_id (po_revision op)
        [(''state'', \<lambda>r. r\<lparr>po_state := planning_state_as_str Materialized\<rparr>)]) (\<lambda>_.
     returnW ()))))"

definition materialize_apply ::
    "sha256 \<Rightarrow> string \<Rightarrow> string \<Rightarrow> materializable \<Rightarrow> materialized_plan action" where
  "materialize_apply sha operation_id task_id mplan =
     bindW (read_decision operation_id) (\<lambda>op.
     bindW (recheck_goal operation_id op mplan) (\<lambda>goal.
     bindW (recheck_graph op) (\<lambda>graph_revision.
     bindW (recheck_configuration op) (\<lambda>_.
     bindW (write_task sha task_id (po_goal_id op) (graph_revision + 1) (mt_spec mplan)) (\<lambda>phase.
     bindW (patch_graph operation_id op goal graph_revision) (\<lambda>_.
     returnW \<lparr>mp_task = \<lparr>tr_id = task_id, tr_goal_id = po_goal_id op, tr_phase = phase,
          tr_created_graph_revision = graph_revision + 1,
          tr_spec_digest = task_digest sha (mt_spec mplan), tr_revision = 1, tr_active_run_id = None\<rparr>,
        mp_graph_revision = graph_revision + 1, mp_goal_phase = GActive\<rparr>))))))"

definition materialize_plan ::
    "sha256 \<Rightarrow> command \<Rightarrow> string \<Rightarrow> string \<Rightarrow> materializable \<Rightarrow> store \<Rightarrow>
     (store_error, materialized_plan committed) res \<times> store" where
  "materialize_plan sha c operation_id task_id mplan =
     execute_command c (materialize_apply sha operation_id task_id mplan)"

section \<open>Cancelling a Goal\<close>

text \<open>Tasks come in \<open>ORDER BY id\<close>; each moves through its own compare-and-set.\<close>

definition goal_cancelled_json :: string where
  "goal_cancelled_json = CHR 0x7B # [CHR 0x22] @ ''code'' @ [CHR 0x22, CHR '':'', CHR 0x22]
     @ ''goal-cancelled'' @ [CHR 0x22, CHR 0x7D]"

definition fence_assignments :: "task_row assignment list" where
  "fence_assignments =
     [(''phase'', \<lambda>r. r\<lparr>t_phase := task_phase_as_str TFinalizing\<rparr>),
      (''terminal_target'', \<lambda>r. r\<lparr>t_terminal_target := Some (task_phase_as_str TCancelled)\<rparr>),
      (''terminal_reason_json'', \<lambda>r. r\<lparr>t_terminal_reason_json := Some goal_cancelled_json\<rparr>)]"

definition goal_tasks :: "string \<Rightarrow> db \<Rightarrow> task_row list" where
  "goal_tasks gid d = sort_key t_id (filter (\<lambda>r. t_goal_id r = gid) (tasks d))"

definition fence_task :: "nat \<Rightarrow> task_row \<Rightarrow> nat action" where
  "fence_task fenced r =
     bindW (someW (task_phase_parse (t_phase r)) (task_unknown_phase (t_id r))) (\<lambda>phase.
     if task_phase_is_terminal phase \<or> t_terminal_target r = Some ''Cancelled'' then returnW fenced
     else
       bindW (update_revisioned_by tasks_table (t_id r) (t_revision r) fence_assignments) (\<lambda>fenced_at.
       bindW (requireW (fenced_at = t_revision r + 1) (InvariantViolated (Fmt
          ''fencing task {task_id} left it at revision {}, not {}''
          [FStr (t_id r), FInt fenced_at, FInt (t_revision r + 1)]))) (\<lambda>_.
       returnW (Suc fenced))))"

definition fence_tasks :: "string \<Rightarrow> nat action" where
  "fence_tasks goal_id = bindW (query_all (goal_tasks goal_id)) (\<lambda>rows. foldW fence_task 0 rows)"

definition already_targeted :: "goal_phase \<Rightarrow> string option \<Rightarrow> bool option" where
  "already_targeted phase target =
     (if phase \<in> {GPlanning, GActive, GEvaluating} then Some False
      else if phase = GFinalizing \<and> (target = Some ''Succeeded'' \<or> target = Some ''Failed'') then Some False
      else if phase = GFinalizing \<and> target = Some ''Cancelled'' then Some True
      else None)"

definition retarget_assignments :: "goal_row assignment list" where
  "retarget_assignments =
     [set_goal_phase GFinalizing,
      (''terminal_target'', \<lambda>r. r\<lparr>g_terminal_target := Some (goal_phase_as_str GCancelled)\<rparr>)]"

definition cancel_goal_body :: "string \<Rightarrow> cancellation action" where
  "cancel_goal_body goal_id =
     bindW (query_optional (find_goal goal_id)) (\<lambda>row.
     bindW (someW row (InvariantViolated (Fmt ''goal {goal_id} does not exist'' [FStr goal_id]))) (\<lambda>goal.
     bindW (someW (goal_phase_parse (g_phase goal)) (goal_unknown_phase goal_id)) (\<lambda>phase.
     bindW (expectW (already_targeted phase (g_terminal_target goal))
        (GoalNotCancellable goal_id (goal_phase_as_str phase) (g_terminal_target goal))) (\<lambda>already.
     bindW (if already then returnW (g_revision goal)
            else update_revisioned_by goals_table goal_id (g_revision goal) retarget_assignments) (\<lambda>revision.
     bindW (fence_tasks goal_id) (\<lambda>fenced.
     returnW \<lparr>cn_goal = \<lparr>gl_id = goal_id, gl_phase = GFinalizing,
          gl_current_revision = g_current_revision goal, gl_revision = revision\<rparr>,
        cn_tasks_fenced = fenced, cn_already_targeted = already\<rparr>))))))"

definition cancel_goal ::
    "command \<Rightarrow> string \<Rightarrow> store \<Rightarrow> (store_error, cancellation committed) res \<times> store" where
  "cancel_goal c goal_id = execute_command c (cancel_goal_body goal_id)"

section \<open>Reading\<close>

definition digest_from :: "byte list \<Rightarrow> string \<Rightarrow> (store_error, digest) res" where
  "digest_from blob column = (if length blob = 32 then Inr (Digest blob)
     else Inl (InvariantViolated (Fmt ''{column} is {} bytes, not a 32-byte digest''
        [FStr column, FInt (int (length blob))])))"

definition read_goal :: "string \<Rightarrow> db \<Rightarrow> (store_error, goal_record option) res" where
  "read_goal goal_id d = (case find_goal goal_id d of
     None \<Rightarrow> Inr None
   | Some r \<Rightarrow> bindR (ok_or (goal_phase_parse (g_phase r)) (goal_unknown_phase goal_id)) (\<lambda>phase.
       Inr (Some \<lparr>gl_id = goal_id, gl_phase = phase, gl_current_revision = g_current_revision r,
         gl_revision = g_revision r\<rparr>)))"

definition goal_revision_json :: "string \<Rightarrow> int \<Rightarrow> db \<Rightarrow> string option" where
  "goal_revision_json goal_id n d = map_option gr_canonical_json (find_goal_revision goal_id n d)"

definition read_task_graph :: "string \<Rightarrow> db \<Rightarrow> graph_record option" where
  "read_task_graph goal_id d = map_option (\<lambda>r. \<lparr>gh_goal_id = goal_id, gh_revision = tg_revision r\<rparr>)
     (find_graph goal_id d)"

definition read_task :: "string \<Rightarrow> db \<Rightarrow> (store_error, task_record option) res" where
  "read_task task_id d = (case find_task task_id d of
     None \<Rightarrow> Inr None
   | Some r \<Rightarrow> bindR (ok_or (task_phase_parse (t_phase r)) (task_unknown_phase task_id)) (\<lambda>phase.
       bindR (digest_from (t_spec_digest r) ''spec_digest'') (\<lambda>digest.
       Inr (Some \<lparr>tr_id = task_id, tr_goal_id = t_goal_id r, tr_phase = phase,
         tr_created_graph_revision = t_created_graph_revision r, tr_spec_digest = digest,
         tr_revision = t_revision r, tr_active_run_id = t_active_run_id r\<rparr>))))"

definition task_spec_json :: "digest \<Rightarrow> db \<Rightarrow> string option" where
  "task_spec_json digest d = map_option tsp_canonical_json
     (List.find (\<lambda>r. tsp_digest r = as_bytes digest) (task_specs d))"

definition read_planning_operation :: "string \<Rightarrow> db \<Rightarrow> (store_error, planning_operation_record option) res" where
  "read_planning_operation operation_id d = (case find_operation operation_id d of
     None \<Rightarrow> Inr None
   | Some r \<Rightarrow> bindR (ok_or (planning_state_parse (po_state r)) (InvariantViolated
         (Fmt ''planning operation {operation_id} has unknown state'' [FStr operation_id]))) (\<lambda>state.
       bindR (digest_from (po_planning_input_digest r) ''planning_input_digest'') (\<lambda>digest.
       Inr (Some \<lparr>por_id = operation_id, por_goal_id = po_goal_id r,
         por_goal_revision = po_goal_revision r,
         por_expected_graph_revision = po_expected_graph_revision r,
         por_configuration_activation_sequence = po_configuration_activation_sequence r,
         por_planning_input_digest = digest, por_state = state, por_revision = po_revision r\<rparr>))))"

definition planning_record_proposal :: "string \<Rightarrow> db \<Rightarrow> (store_error, (digest \<times> string) option) res" where
  "planning_record_proposal operation_id d = (case find_planning_record operation_id d of
     None \<Rightarrow> Inr None
   | Some r \<Rightarrow> bindR (digest_from (pr_proposal_digest r) ''proposal_digest'') (\<lambda>digest.
       Inr (Some (digest, pr_canonical_proposal r))))"

definition find_revision :: "int \<Rightarrow> db \<Rightarrow> configuration_revision_row option" where
  "find_revision n d = List.find (\<lambda>r. cr_activation_sequence r = n) (configuration_revisions d)"

definition find_component :: "byte list \<Rightarrow> db \<Rightarrow> configuration_component_row option" where
  "find_component digest d = List.find (\<lambda>r. cfc_digest r = digest) (configuration_components d)"

definition active_evaluator_component_json :: "db \<Rightarrow> string option" where
  "active_evaluator_component_json d =
     Option.bind (find_pointer d) (\<lambda>p.
     Option.bind (acf_activation_sequence p) (\<lambda>n.
     Option.bind (find_revision n d) (\<lambda>r.
     map_option cfc_canonical_json (find_component (cr_evaluator_registry_digest r) d))))"

end
