(* ===== verification/Planning_Effects.thy ===== *)
theory Planning_Effects
  imports Store_Planning
begin

text \<open>
  What the planning operations do to the database, as equations: the rows a successful operation
  appended, the one row each compare-and-set replaced, the conditions that held, and that none of
  them writes the ledger tables.
\<close>

section \<open>Effects\<close>

lemma ledger_frame [frame]:
  "ledger_part (goals_update f d) = ledger_part d"
  "ledger_part (goal_revisions_update f1 d) = ledger_part d"
  "ledger_part (task_graphs_update f2 d) = ledger_part d"
  "ledger_part (task_specs_update f3 d) = ledger_part d"
  "ledger_part (tasks_update f4 d) = ledger_part d"
  "ledger_part (planning_operations_update f5 d) = ledger_part d"
  "ledger_part (planning_records_update f6 d) = ledger_part d"
  "ledger_part (task_scheduling_state_update f7 d) = ledger_part d"
  "ledger_part (table_update goals_table f8 d) = ledger_part d"
  "ledger_part (table_update task_graphs_table f9 d) = ledger_part d"
  "ledger_part (table_update tasks_table f10 d) = ledger_part d"
  "ledger_part (table_update planning_operations_table f11 d) = ledger_part d"
  by (simp_all add: ledger_part_def)

lemma leaves_ledger_planning [frame]:
  "leaves_ledger (create_goal_body sha gid spec)"
  "leaves_ledger (record_planning_body dec p)"
  "leaves_ledger (materialize_apply sha oid tid mplan)"
  "leaves_ledger (cancel_goal_body gid)"
  unfolding create_goal_body_def record_planning_body_def materialize_apply_def cancel_goal_body_def
    read_decision_def recheck_goal_def recheck_graph_def recheck_configuration_def write_task_def
    prerequisites_satisfied_def patch_graph_def fence_tasks_def fence_task_def Let_def
  by (intro frame)+

lemma create_goal_bodyD:
  assumes "create_goal_body sha gid spec w = (Inr r, w')"
  obtains t where "tx w' = task_graphs_update (\<lambda>rs. rs @ [\<lparr>tg_id = gid, tg_revision = 0\<rparr>])
      (goal_revisions_update (\<lambda>rs. rs @ [\<lparr>gr_goal_id = gid, gr_revision = 1,
          gr_content_digest = as_bytes (goal_digest sha spec),
          gr_canonical_json = to_canonical_bytes (goal_to_value spec), gr_created_at = t\<rparr>])
      (goals_update (\<lambda>rs. rs @ [\<lparr>g_id = gid, g_phase = ''Planning'', g_current_revision = 1,
          g_revision = 1, g_terminal_target = None, g_created_at = t\<rparr>]) (tx w)))"
    "r = \<lparr>gl_id = gid, gl_phase = GPlanning, gl_current_revision = 1, gl_revision = 1\<rparr>"
    "schema_ok (tx w')"
  using assms by (auto simp: create_goal_body_def wr)

lemma record_planning_bodyD:
  assumes "record_planning_body dec p w = (Inr r, w')"
  obtains t where "tx w' =
      planning_records_update (\<lambda>rs. rs @ [\<lparr>pr_planning_operation_id = pd_operation_id dec,
          pr_proposal_digest = as_bytes (pp_digest p), pr_canonical_proposal = pp_canonical p,
          pr_normalization_provenance = pp_normalization_provenance p, pr_created_at = t\<rparr>])
      (planning_operations_update (\<lambda>rs. rs @ [operation_row dec t]) (tx w))"
    "schema_ok (tx w')"
  using assms by (auto simp: record_planning_body_def wr)

text \<open>What must hold for a plan to materialize.\<close>

definition plan_current :: "string \<Rightarrow> materializable \<Rightarrow> planning_operation_row \<Rightarrow> goal_row \<Rightarrow> db \<Rightarrow> bool" where
  "plan_current oid mplan op goal d \<longleftrightarrow>
     find_operation oid d = Some op \<and> po_state op = ''Planned''
     \<and> find_goal (po_goal_id op) d = Some goal
     \<and> g_current_revision goal = po_goal_revision op
     \<and> mt_goal_revision mplan = po_goal_revision op
     \<and> map_option gr_content_digest (find_goal_revision (po_goal_id op) (po_goal_revision op) d)
         = Some (as_bytes (mt_goal_digest mplan))
     \<and> tk_goal_id (mt_spec mplan) = po_goal_id op
     \<and> map_option pr_proposal_digest (find_planning_record oid d) = Some (as_bytes (mt_proposal_digest mplan))
     \<and> map_option tg_revision (find_graph (po_goal_id op) d) = Some (po_expected_graph_revision op)
     \<and> Option.bind (find_pointer d) acf_activation_sequence = Some (po_configuration_activation_sequence op)"

definition task_ready :: "string \<Rightarrow> int \<Rightarrow> db \<Rightarrow> bool" where
  "task_ready tid n d \<longleftrightarrow> unsatisfied_prerequisites tid n d = 0"

definition task_written :: "sha256 \<Rightarrow> string \<Rightarrow> string \<Rightarrow> int \<Rightarrow> task_spec \<Rightarrow> int \<Rightarrow> db \<Rightarrow> db" where
  "task_written sha tid gid n spec t d =
     task_scheduling_state_update (\<lambda>rs. rs @ (if task_ready tid n d then [eligibility_row tid t] else []))
     (tasks_update (\<lambda>rs. rs @ [new_task_row sha tid gid n (if task_ready tid n d then TReady else TPending) spec])
     (task_specs_update (\<lambda>rs. if tsp_digest (spec_row sha gid spec) \<in> tsp_digest ` set rs
           then rs else rs @ [spec_row sha gid spec]) d))"

definition graph_patched :: "string \<Rightarrow> planning_operation_row \<Rightarrow> goal_row \<Rightarrow> int \<Rightarrow> db \<Rightarrow> db" where
  "graph_patched oid op goal n d =
     planning_operations_update (map (cas_row planning_operations_table oid (po_revision op)
           [(''state'', \<lambda>r. r\<lparr>po_state := ''Materialized''\<rparr>)]))
     (goals_update (if g_phase goal = ''Planning''
           then map (cas_row goals_table (po_goal_id op) (g_revision goal) [set_goal_phase GActive]) else (\<lambda>rs. rs))
     (task_graphs_update (map (cas_row task_graphs_table (po_goal_id op) n [])) d))"

lemma read_decisionD:
  assumes "read_decision oid w = (Inr op, w')"
  shows "find_operation oid (tx w) = Some op" "po_state op = ''Planned''" "tx w' = tx w"
  using assms by (auto simp: read_decision_def wr planning_state.of_str_iff)

lemma recheck_goalD:
  assumes "recheck_goal oid op mplan w = (Inr goal, w')"
  shows "find_goal (po_goal_id op) (tx w) = Some goal" "g_current_revision goal = po_goal_revision op"
    "mt_goal_revision mplan = po_goal_revision op"
    "map_option gr_content_digest (find_goal_revision (po_goal_id op) (po_goal_revision op) (tx w))
         = Some (as_bytes (mt_goal_digest mplan))"
    "tk_goal_id (mt_spec mplan) = po_goal_id op"
    "map_option pr_proposal_digest (find_planning_record oid (tx w)) = Some (as_bytes (mt_proposal_digest mplan))"
    "tx w' = tx w"
  using assms by (auto simp: recheck_goal_def wr)

lemma recheck_graphD:
  assumes "recheck_graph op w = (Inr n, w')"
  shows "n = po_expected_graph_revision op"
    "map_option tg_revision (find_graph (po_goal_id op) (tx w)) = Some (po_expected_graph_revision op)"
    "tx w' = tx w"
  using assms by (auto simp: recheck_graph_def wr)

lemma recheck_configurationD:
  assumes "recheck_configuration op w = (Inr u, w')"
  shows "Option.bind (find_pointer (tx w)) acf_activation_sequence = Some (po_configuration_activation_sequence op)"
    "tx w' = tx w"
  using assms by (auto simp: recheck_configuration_def wr)

lemma unsatisfied_frame [simp]:
  "unsatisfied_prerequisites tid n (task_specs_update f d) = unsatisfied_prerequisites tid n d"
  by (simp add: unsatisfied_prerequisites_def)

lemma write_taskD:
  assumes "write_task sha tid gid n spec w = (Inr phase, w')"
  obtains t where "phase = (if task_ready tid n (tx w) then TReady else TPending)"
    "tx w' = task_written sha tid gid n spec t (tx w)" "schema_ok (tx w')"
proof -
  define ready where "ready = task_ready tid n (tx w)"
  from assms obtain k w1 satisfied w2 where
    i: "execute (insert_or_ignore task_specs task_specs_update check_task_spec tsp_digest
         (spec_row sha gid spec)) w = (Inr k, w1)"
    and p: "prerequisites_satisfied tid n w1 = (Inr satisfied, w2)"
    and rest: "(let phase = (if satisfied then TReady else TPending) in
     bindW (execute (insert_into tasks_update (new_task_row sha tid gid n phase spec))) (\<lambda>_.
     bindW (if phase = TReady then
              bindW now (\<lambda>t.
              bindW (execute (insert_into task_scheduling_state_update (eligibility_row tid t))) (\<lambda>_.
              returnW ()))
            else returnW ()) (\<lambda>_.
     returnW phase))) w2 = (Inr phase, w')"
    by (auto simp: write_task_def bindW_iff)
  have w1: "tx w1 = task_specs_update (\<lambda>rs. if tsp_digest (spec_row sha gid spec) \<in> tsp_digest ` set rs
           then rs else rs @ [spec_row sha gid spec]) (tx w)"
    by (rule insert_or_ignoreD [OF i]) auto
  have ready: "satisfied = ready" and w2: "tx w2 = tx w1"
    using p by (auto simp: prerequisites_satisfied_def wr ready_def task_ready_def w1)
  show thesis
  proof (cases ready)
    case True
    from rest ready True show thesis
      by (auto simp: wr Let_def w1 w2 task_written_def ready_def [symmetric] intro!: that)
  next
    case False
    from rest ready False show thesis
      by (auto simp: wr Let_def w1 w2 task_written_def ready_def [symmetric] intro!: that)
  qed
qed

lemma goals_update_id [simp]: "goals_update (\<lambda>rs. rs) (d :: db) = d"
  using goals.update_id by simp

lemma patch_graphD:
  assumes "patch_graph oid op goal n w = (Inr u, w')"
  shows "tx w' = graph_patched oid op goal n (tx w)"
    and "schema_ok (tx w')"
proof -
  from assms obtain x1 w1 phase where g: "update_revisioned_by task_graphs_table (po_goal_id op) n [] w = (Inr x1, w1)"
    and ph: "goal_phase_parse (g_phase goal) = Some phase"
    and rest: "bindW (if phase = GPlanning
            then bindW (update_revisioned_by goals_table (po_goal_id op) (g_revision goal)
                   [set_goal_phase GActive]) (\<lambda>_. returnW ())
            else returnW ()) (\<lambda>_.
     bindW (update_revisioned_by planning_operations_table oid (po_revision op)
        [(''state'', \<lambda>r. r\<lparr>po_state := planning_state_as_str Materialized\<rparr>)]) (\<lambda>_.
     returnW ())) w1 = (Inr u, w')"
    by (auto simp: patch_graph_def wr)
  have planning: "phase = GPlanning \<longleftrightarrow> g_phase goal = ''Planning''"
    using ph by (auto simp: goal_phase.of_str_iff goal_phase.as_str_inj)
      (metis goal_phase.of_str_as_str goal_phase.of_str_iff goal_phase_as_str.simps(1) option.inject)
  have graph: "tx w1 = task_graphs_update (map (cas_row task_graphs_table (po_goal_id op) n [])) (tx w)"
    using task_graphs.update_SomeD(4) [OF g] by simp
  obtain w2 x3 where
    goal: "tx w2 = goals_update (if g_phase goal = ''Planning'' then map (cas_row goals_table (po_goal_id op) (g_revision goal) [set_goal_phase GActive]) else (\<lambda>rs. rs)) (tx w1)"
    and op: "update_revisioned_by planning_operations_table oid (po_revision op)
        [(''state'', \<lambda>r. r\<lparr>po_state := planning_state_as_str Materialized\<rparr>)] w2 = (Inr x3, w')"
  proof (cases "phase = GPlanning")
    case True
    with rest obtain y w2 x3 where g2: "update_revisioned_by goals_table (po_goal_id op) (g_revision goal)
                   [set_goal_phase GActive] w1 = (Inr y, w2)"
      and "update_revisioned_by planning_operations_table oid (po_revision op)
        [(''state'', \<lambda>r. r\<lparr>po_state := planning_state_as_str Materialized\<rparr>)] w2 = (Inr x3, w')"
      by (auto simp: bindW_iff returnW_iff)
    with True planning goals.update_SomeD(4) [OF g2] that show thesis by simp
  next
    case False
    with rest planning that show thesis by (auto simp: bindW_iff returnW_iff)
  qed
  show "schema_ok (tx w')" by (rule planning_operations.update_SomeD(5) [OF op])
  show "tx w' = graph_patched oid op goal n (tx w)"
    using planning_operations.update_SomeD(4) [OF op] graph goal
    by (simp add: graph_patched_def)
qed


lemma materialize_applyD:
  assumes "materialize_apply sha oid tid mplan w = (Inr r, w')"
  obtains op goal t where "plan_current oid mplan op goal (tx w)"
    "tx w' = graph_patched oid op goal (po_expected_graph_revision op)
      (task_written sha tid (po_goal_id op) (po_expected_graph_revision op + 1) (mt_spec mplan) t (tx w))"
    "r = \<lparr>mp_task = \<lparr>tr_id = tid, tr_goal_id = po_goal_id op,
          tr_phase = (if task_ready tid (po_expected_graph_revision op + 1) (tx w) then TReady else TPending),
          tr_created_graph_revision = po_expected_graph_revision op + 1,
          tr_spec_digest = task_digest sha (mt_spec mplan), tr_revision = 1, tr_active_run_id = None\<rparr>,
        mp_graph_revision = po_expected_graph_revision op + 1, mp_goal_phase = GActive\<rparr>"
    "schema_ok (tx w')"
proof -
  from assms obtain op w1 goal w2 n w3 w4 phase w5 where
    d: "read_decision oid w = (Inr op, w1)" and g: "recheck_goal oid op mplan w1 = (Inr goal, w2)"
    and n: "recheck_graph op w2 = (Inr n, w3)" and c: "recheck_configuration op w3 = (Inr (), w4)"
    and t: "write_task sha tid (po_goal_id op) (n + 1) (mt_spec mplan) w4 = (Inr phase, w5)"
    and p: "patch_graph oid op goal n w5 = (Inr (), w')"
    and r: "r = \<lparr>mp_task = \<lparr>tr_id = tid, tr_goal_id = po_goal_id op, tr_phase = phase,
          tr_created_graph_revision = n + 1,
          tr_spec_digest = task_digest sha (mt_spec mplan), tr_revision = 1, tr_active_run_id = None\<rparr>,
        mp_graph_revision = n + 1, mp_goal_phase = GActive\<rparr>"
    by (auto simp: materialize_apply_def bindW_iff returnW_iff)
  have same: "tx w1 = tx w" "tx w2 = tx w" "tx w3 = tx w" "tx w4 = tx w"
    using read_decisionD(3) [OF d] recheck_goalD(7) [OF g] recheck_graphD(3) [OF n]
      recheck_configurationD(2) [OF c] by simp_all
  from t obtain t' where "phase = (if task_ready tid (n + 1) (tx w) then TReady else TPending)"
    "tx w5 = task_written sha tid (po_goal_id op) (n + 1) (mt_spec mplan) t' (tx w)"
    by (rule write_taskD) (simp add: same)
  moreover have "plan_current oid mplan op goal (tx w)"
    using read_decisionD [OF d] recheck_goalD [OF g] recheck_graphD [OF n] recheck_configurationD [OF c]
    by (simp add: plan_current_def same)
  moreover have "n = po_expected_graph_revision op" by (rule recheck_graphD(1) [OF n])
  ultimately show thesis using that patch_graphD [OF p] r by simp
qed

section \<open>Cancellation\<close>

definition needs_fence :: "task_row \<Rightarrow> bool" where
  "needs_fence r \<longleftrightarrow> t_phase r \<notin> set task_terminal_phases \<and> t_terminal_target r \<noteq> Some ''Cancelled''"

definition fenced_row :: "task_row \<Rightarrow> task_row" where
  "fenced_row r = r\<lparr>t_phase := ''Finalizing'', t_revision := t_revision r + 1,
     t_terminal_target := Some ''Cancelled'', t_terminal_reason_json := Some goal_cancelled_json\<rparr>"

lemma task_phase_terminal_iff:
  "task_phase_parse s = Some p \<Longrightarrow> task_phase_is_terminal p \<longleftrightarrow> s \<in> set task_terminal_phases"
  by (cases p) (auto simp: task_phase.of_str_iff task_terminal_phases_def)

lemma cas_fence:
  "cas_row tasks_table tid n fence_assignments r =
     (if t_id r = tid \<and> t_revision r = n then fenced_row r else r)"
  by (simp add: cas_row_def assign_def fence_assignments_def fenced_row_def)

lemma fence_taskD:
  assumes "fence_task k r w = (Inr k', w')"
  shows "tx w' = tasks_update (map (\<lambda>t. if needs_fence r \<and> t_id t = t_id r \<and> t_revision t = t_revision r
      then fenced_row t else t)) (tx w)" and "k' = (if needs_fence r then Suc k else k)"
    and "needs_fence r \<Longrightarrow> schema_ok (tx w')"
proof -
  from assms obtain phase where p: "task_phase_parse (t_phase r) = Some phase"
    and rest: "(if task_phase_is_terminal phase \<or> t_terminal_target r = Some ''Cancelled'' then returnW k
     else
       bindW (update_revisioned_by tasks_table (t_id r) (t_revision r) fence_assignments) (\<lambda>fenced_at.
       bindW (requireW (fenced_at = t_revision r + 1) (InvariantViolated (Fmt
          ''fencing task {task_id} left it at revision {}, not {}''
          [FStr (t_id r), FInt fenced_at, FInt (t_revision r + 1)]))) (\<lambda>_.
       returnW (Suc k)))) w = (Inr k', w')"
    by (auto simp: fence_task_def bindW_iff someW_iff)
  have needs: "needs_fence r \<longleftrightarrow> \<not> (task_phase_is_terminal phase \<or> t_terminal_target r = Some ''Cancelled'')"
    using task_phase_terminal_iff [OF p] by (auto simp: needs_fence_def)
  have "tx w' = tasks_update (map (\<lambda>t. if needs_fence r \<and> t_id t = t_id r \<and> t_revision t = t_revision r
      then fenced_row t else t)) (tx w) \<and> k' = (if needs_fence r then Suc k else k)
      \<and> (needs_fence r \<longrightarrow> schema_ok (tx w'))"
  proof (cases "needs_fence r")
    case True
    with rest needs obtain n where u: "update_revisioned_by tasks_table (t_id r) (t_revision r) fence_assignments w = (Inr n, w')"
      and "k' = Suc k" by (auto simp: wr)
    with True tasks.update_SomeD(4,5) [OF u] show ?thesis
      by (simp add: cas_fence [abs_def])
  next
    case False
    then have "tasks_update (map (\<lambda>t. if needs_fence r \<and> t_id t = t_id r \<and> t_revision t = t_revision r
      then fenced_row t else t)) (tx w) = tx w"
      by (intro tasks.update_same [simplified]) simp
    with False rest needs show ?thesis by (auto simp: wr)
  qed
  then show "tx w' = tasks_update (map (\<lambda>t. if needs_fence r \<and> t_id t = t_id r \<and> t_revision t = t_revision r
      then fenced_row t else t)) (tx w)" "k' = (if needs_fence r then Suc k else k)"
    "needs_fence r \<Longrightarrow> schema_ok (tx w')" by blast+
qed

lemma fenced_row_simps [simp]: "t_id (fenced_row r) = t_id r" "t_goal_id (fenced_row r) = t_goal_id r"
  "t_revision (fenced_row r) = t_revision r + 1" "t_phase (fenced_row r) = ''Finalizing''"
  "t_terminal_target (fenced_row r) = Some ''Cancelled''"
  by (simp_all add: fenced_row_def)

lemma foldW_fenceD:
  assumes "foldW fence_task k rs w = (Inr k', w')" and "distinct (map t_id rs)"
  shows "tx w' = tasks_update (map (\<lambda>t. if (\<exists>r \<in> set rs. needs_fence r \<and> t_id t = t_id r \<and> t_revision t = t_revision r)
      then fenced_row t else t)) (tx w)
    \<and> k' = k + length (filter needs_fence rs) \<and> (schema_ok (tx w) \<longrightarrow> schema_ok (tx w'))"
  using assms
proof (induction rs arbitrary: k w)
  case Nil
  have "tasks_update (map (\<lambda>t. t)) (tx w) = tx w" by (intro tasks.update_same [simplified]) simp
  with Nil show ?case by (auto simp: wr)
next
  case (Cons r rs)
  from Cons.prems(1) obtain k1 w1 where f: "fence_task k r w = (Inr k1, w1)"
    and rest: "foldW fence_task k1 rs w1 = (Inr k', w')" by (auto simp: bindW_iff)
  note IH = Cons.IH [OF rest]
  have "t_id t = t_id r \<Longrightarrow> \<not> (\<exists>s \<in> set rs. needs_fence s \<and> t_id t = t_id s \<and> P s)" for t P
    using Cons.prems(2) by auto
  then have "map (\<lambda>t. if (\<exists>s \<in> set rs. needs_fence s \<and> t_id t = t_id s \<and> t_revision t = t_revision s) then fenced_row t else t)
        (map (\<lambda>t. if needs_fence r \<and> t_id t = t_id r \<and> t_revision t = t_revision r then fenced_row t else t) ts)
      = map (\<lambda>t. if (\<exists>s \<in> set (r # rs). needs_fence s \<and> t_id t = t_id s \<and> t_revision t = t_revision s) then fenced_row t else t) ts" for ts
    by (auto simp: o_def)
  then have "tasks_update (map (\<lambda>t. if (\<exists>s \<in> set rs. needs_fence s \<and> t_id t = t_id s \<and> t_revision t = t_revision s) then fenced_row t else t)) (tx w1)
      = tasks_update (map (\<lambda>t. if (\<exists>s \<in> set (r # rs). needs_fence s \<and> t_id t = t_id s \<and> t_revision t = t_revision s) then fenced_row t else t)) (tx w)"
    by (simp add: fence_taskD(1) [OF f] o_def)
  moreover have "schema_ok (tx w1)" if "schema_ok (tx w)"
  proof (cases "needs_fence r")
    case True
    then show ?thesis by (rule fence_taskD(3) [OF f])
  next
    case False
    then have "tx w1 = tx w" using fence_taskD(1) [OF f] tasks.update_same [simplified, of "map (\<lambda>t. t)"] by simp
    with that show ?thesis by simp
  qed
  ultimately show ?case using IH Cons.prems(2) fence_taskD(2) [OF f] by auto
qed


definition cancelled_tasks :: "string \<Rightarrow> db \<Rightarrow> db" where
  "cancelled_tasks gid = tasks_update (map (\<lambda>t. if t_goal_id t = gid \<and> needs_fence t then fenced_row t else t))"

lemma fence_tasksD:
  assumes "fence_tasks gid w = (Inr k, w')" and ok: "schema_ok (tx w)"
  shows "tx w' = cancelled_tasks gid (tx w)" and "schema_ok (tx w')"
    and "k = length (filter (\<lambda>t. t_goal_id t = gid \<and> needs_fence t) (tasks (tx w)))"
proof -
  let ?rs = "goal_tasks gid (tx w)"
  from assms(1) have f: "foldW fence_task 0 ?rs (tick w) = (Inr k, w')"
    by (auto simp: fence_tasks_def wr)
  have dist: "distinct (map t_id (tasks (tx w)))"
    using ok by (simp add: schema_ok_iff primary_keys_ok_def)
  then have "distinct (map t_id ?rs)"
    by (simp add: goal_tasks_def distinct_map distinct_map_filter inj_on_def)
  note F = foldW_fenceD [OF f this]
  have "(\<exists>r \<in> set ?rs. needs_fence r \<and> t_id t = t_id r \<and> t_revision t = t_revision r)
      \<longleftrightarrow> t_goal_id t = gid \<and> needs_fence t" if "t \<in> set (tasks (tx w))" for t
    using dist that by (auto simp: goal_tasks_def distinct_map inj_on_def)
  then have "map (\<lambda>t. if (\<exists>r \<in> set ?rs. needs_fence r \<and> t_id t = t_id r \<and> t_revision t = t_revision r)
      then fenced_row t else t) (tasks (tx w))
    = map (\<lambda>t. if t_goal_id t = gid \<and> needs_fence t then fenced_row t else t) (tasks (tx w))"
    by (intro map_cong) auto
  then have "tasks_update (map (\<lambda>t. if (\<exists>r \<in> set ?rs. needs_fence r \<and> t_id t = t_id r \<and> t_revision t = t_revision r)
      then fenced_row t else t)) (tx w) = cancelled_tasks gid (tx w)"
    unfolding cancelled_tasks_def by (rule tasks_update_cong)
  then show "tx w' = cancelled_tasks gid (tx w)" using F by simp
  show "schema_ok (tx w')" using conjunct2 [OF conjunct2 [OF F]] ok by (metis tick_simps(1))
  have "length (filter needs_fence ?rs) = length (filter needs_fence (filter (\<lambda>r. t_goal_id r = gid) (tasks (tx w))))"
    by (simp add: goal_tasks_def filter_sort)
  then show "k = length (filter (\<lambda>t. t_goal_id t = gid \<and> needs_fence t) (tasks (tx w)))"
    using F by (simp add: conj_commute)
qed

definition retargeted_row :: "goal_row \<Rightarrow> goal_row" where
  "retargeted_row r = r\<lparr>g_phase := ''Finalizing'', g_revision := g_revision r + 1, g_terminal_target := Some ''Cancelled''\<rparr>"

lemma cas_retarget:
  "cas_row goals_table gid n retarget_assignments r =
     (if g_id r = gid \<and> g_revision r = n then retargeted_row r else r)"
  by (simp add: cas_row_def assign_def retarget_assignments_def set_goal_phase_def retargeted_row_def)

text \<open>What a cancellation did: the Goal is retargeted unless it already was, and its Tasks fenced.\<close>

lemma cancel_goal_bodyD:
  assumes "cancel_goal_body gid w = (Inr r, w')" and ok: "schema_ok (tx w)"
  obtains goal phase already where "find_goal gid (tx w) = Some goal"
    "goal_phase_parse (g_phase goal) = Some phase"
    "already_targeted phase (g_terminal_target goal) = Some already"
    "tx w' = cancelled_tasks gid (goals_update (map (\<lambda>g. if \<not> already \<and> g_id g = gid then retargeted_row g else g)) (tx w))"
    "cn_already_targeted r = already" "schema_ok (tx w')"
    "cn_tasks_fenced r = length (filter (\<lambda>t. t_goal_id t = gid \<and> needs_fence t) (tasks (tx w)))"
    "gl_revision (cn_goal r) = g_revision goal + (if already then 0 else 1)"
proof -
  from assms(1) obtain goal phase already n w2 k where
    g: "find_goal gid (tx w) = Some goal" and p: "goal_phase_parse (g_phase goal) = Some phase"
    and a: "already_targeted phase (g_terminal_target goal) = Some already"
    and u: "(if already then returnW (g_revision goal)
            else update_revisioned_by goals_table gid (g_revision goal) retarget_assignments) (tick w) = (Inr n, w2)"
    and f: "fence_tasks gid w2 = (Inr k, w')"
    and r: "r = \<lparr>cn_goal = \<lparr>gl_id = gid, gl_phase = GFinalizing,
          gl_current_revision = g_current_revision goal, gl_revision = n\<rparr>,
        cn_tasks_fenced = k, cn_already_targeted = already\<rparr>"
    by (auto simp: cancel_goal_body_def wr)
  have dist: "distinct (map g_id (goals (tx w)))"
    using ok by (simp add: schema_ok_iff primary_keys_ok_def)
  have goal_in: "goal \<in> set (goals (tx w))" "g_id goal = gid"
    using g find_SomeD unfolding find_goal_def by fastforce+
  have "(g_id x = gid \<and> g_revision x = g_revision goal) = (g_id x = gid)" if "x \<in> set (goals (tx w))" for x
    using dist goal_in that by (auto simp: distinct_map inj_on_def)
  then have same: "map (cas_row goals_table gid (g_revision goal) retarget_assignments) (goals (tx w))
      = map (\<lambda>g. if g_id g = gid then retargeted_row g else g) (goals (tx w))"
    by (intro map_cong) (auto simp: cas_retarget)
  have w2: "tx w2 = goals_update (map (\<lambda>g. if \<not> already \<and> g_id g = gid then retargeted_row g else g)) (tx w)
      \<and> schema_ok (tx w2) \<and> n = g_revision goal + (if already then 0 else 1)"
  proof (cases already)
    case True
    have "goals_update (map (\<lambda>g. g)) (tx w) = tx w" by (simp add: list.map_ident)
    with True u ok show ?thesis by (auto simp: wr)
  next
    case False
    with u have c: "update_revisioned_by goals_table gid (g_revision goal) retarget_assignments (tick w) = (Inr n, w2)"
      by simp
    have "goals_update (map (cas_row goals_table gid (g_revision goal) retarget_assignments)) (tx w)
        = goals_update (map (\<lambda>g. if g_id g = gid then retargeted_row g else g)) (tx w)"
      by (rule goals_update_cong) (rule same)
    then have "tx w2 = goals_update (map (\<lambda>g. if g_id g = gid then retargeted_row g else g)) (tx w)"
      using goals.update_SomeD(4) [OF c] by simp
    with False goals.update_SomeD(1,5) [OF c] show ?thesis by simp
  qed
  then have "schema_ok (tx w2)" by blast
  note F = fence_tasksD [OF f this]
  show thesis
    by (rule that [OF g p a]) (use w2 F r in auto)
qed

end
