(* ===== verification/Store_Configuration.thy ===== *)
theory Store_Configuration
  imports Planning_Effects Config_Model
begin

text \<open>
  Durable configuration authority (\<^verbatim>\<open>crates/pantheon-store/src/configuration.rs\<close>): activating a
  compiled configuration as a new immutable revision and reading the active one back, with every
  stored component re-digested.
\<close>

section \<open>Operations\<close>

record active_configuration_record =
  acr_activation_sequence :: int
  acr_content_digest :: digest
  acr_components :: component_digests
  acr_source_set_digest :: digest
  acr_pointer_revision :: int

record configuration_pointer =
  cfp_active :: "active_configuration_record option"
  cfp_revision :: int

definition component_row :: "string \<times> digest \<times> string \<Rightarrow> configuration_component_row" where
  "component_row r = (case r of (domain, digest, json) \<Rightarrow>
     \<lparr>cfc_digest = as_bytes digest, cfc_domain = domain, cfc_canonical_json = json\<rparr>)"

definition insert_component :: "unit \<Rightarrow> string \<times> digest \<times> string \<Rightarrow> unit action" where
  "insert_component u r =
     bindW (execute (insert_or_ignore configuration_components configuration_components_update
        check_configuration_component cfc_digest (component_row r))) (\<lambda>_. returnW ())"

text \<open>\<^verbatim>\<open>SELECT COALESCE(MAX(activation_sequence), 0) + 1 FROM configuration_revisions\<close>\<close>

definition next_activation :: "db \<Rightarrow> int" where
  "next_activation d = (case configuration_revisions d of
     [] \<Rightarrow> 1
   | r # rs \<Rightarrow> fold max (map cr_activation_sequence rs) (cr_activation_sequence r) + 1)"

definition revision_row ::
    "sha256 \<Rightarrow> compiled_configuration \<Rightarrow> digest \<Rightarrow> int \<Rightarrow> int \<Rightarrow> configuration_revision_row" where
  "revision_row sha compiled source n t = (let c = component_digests_of sha compiled in
     \<lparr>cr_activation_sequence = n, cr_content_digest = as_bytes (revision_digest sha compiled),
      cr_compiler_version = compiler_version, cr_source_set_digest = as_bytes source,
      cr_agents_digest = as_bytes (cd_agents c), cr_routing_digest = as_bytes (cd_routing c),
      cr_execution_profile_digest = as_bytes (cd_execution_profile c),
      cr_evaluator_registry_digest = as_bytes (cd_evaluator_registry c),
      cr_context_policy_digest = as_bytes (cd_context_policy c),
      cr_authorization_digest = as_bytes (cd_authorization c), cr_recorded_at = t\<rparr>)"

definition write_activation ::
    "sha256 \<Rightarrow> compiled_configuration \<Rightarrow> digest \<Rightarrow> int \<Rightarrow> active_configuration_record action" where
  "write_activation sha compiled source expected =
     bindW (foldW insert_component () (component_records sha compiled)) (\<lambda>_.
     bindW (query_row (\<lambda>d. Some (next_activation d))
        (\<lambda>n. if is_i64 n then Inr n else Inl InvalidColumnType)) (\<lambda>n.
     bindW (someW n (InvariantViolated (Fmt ''could not allocate an activation sequence'' []))) (\<lambda>n.
     bindW now (\<lambda>t.
     bindW (execute (insert_into configuration_revisions_update (revision_row sha compiled source n t))) (\<lambda>_.
     bindW (update_revisioned_by active_configuration_table ''singleton'' expected
        [(''activation_sequence'', \<lambda>r. r\<lparr>acf_activation_sequence := Some n\<rparr>)]) (\<lambda>pointer_revision.
     returnW \<lparr>acr_activation_sequence = n, acr_content_digest = revision_digest sha compiled,
       acr_components = component_digests_of sha compiled, acr_source_set_digest = source,
       acr_pointer_revision = pointer_revision\<rparr>))))))"

definition activate_configuration ::
    "sha256 \<Rightarrow> command \<Rightarrow> compiled_configuration \<Rightarrow> digest \<Rightarrow> int \<Rightarrow> store \<Rightarrow>
     (store_error, active_configuration_record committed) res \<times> store" where
  "activate_configuration sha c compiled source expected =
     execute_command c (write_activation sha compiled source expected)"

definition verify_component :: "sha256 \<Rightarrow> db \<Rightarrow> string \<times> digest \<Rightarrow> (store_error, unit) res" where
  "verify_component sha d r = (case r of (domain, expected) \<Rightarrow>
     bindR (ok_or (find_component (as_bytes expected) d) (InvariantViolated (Fmt
        ''active configuration names {domain} component {expected}, which is not stored''
        [FStr domain, FStr (display expected)]))) (\<lambda>row.
     bindR (ensure (cfc_domain row = domain) (InvariantViolated (Fmt
        ''component {expected} is stored as {stored_domain}, but the revision uses it as {domain}''
        [FStr (display expected), FStr (cfc_domain row), FStr domain]))) (\<lambda>_.
     ensure (digest_of sha (cfc_canonical_json row) = expected) (InvariantViolated (Fmt
        ''{domain} component content hashes to {recomputed}, not the {expected} the active revision names''
        [FStr domain, FStr (display (digest_of sha (cfc_canonical_json row))), FStr (display expected)])))))"

definition read_components :: "configuration_revision_row \<Rightarrow> (store_error, component_digests) res" where
  "read_components r =
     bindR (digest_from (cr_agents_digest r) ''agents_digest'') (\<lambda>agents.
     bindR (digest_from (cr_routing_digest r) ''routing_digest'') (\<lambda>routing.
     bindR (digest_from (cr_execution_profile_digest r) ''execution_profile_digest'') (\<lambda>profile.
     bindR (digest_from (cr_evaluator_registry_digest r) ''evaluator_registry_digest'') (\<lambda>registry.
     bindR (digest_from (cr_context_policy_digest r) ''context_policy_digest'') (\<lambda>policy.
     bindR (digest_from (cr_authorization_digest r) ''authorization_digest'') (\<lambda>authorization.
     Inr \<lparr>cd_agents = agents, cd_routing = routing, cd_execution_profile = profile,
       cd_evaluator_registry = registry, cd_context_policy = policy, cd_authorization = authorization\<rparr>))))))"

definition component_domains :: "component_digests \<Rightarrow> (string \<times> digest) list" where
  "component_domains c =
     [(''agents'', cd_agents c), (''routing'', cd_routing c), (''executionProfiles'', cd_execution_profile c),
      (''evaluators'', cd_evaluator_registry c), (''context'', cd_context_policy c),
      (''authorization'', cd_authorization c)]"

definition read_revision_row :: "sha256 \<Rightarrow> int \<Rightarrow> int \<Rightarrow> db \<Rightarrow> (store_error, active_configuration_record) res" where
  "read_revision_row sha n pointer_revision d =
     bindR (ok_or (find_revision n d) (InvariantViolated (Fmt
        ''active configuration points at revision {sequence}, which does not exist'' [FInt n]))) (\<lambda>r.
     bindR (read_components r) (\<lambda>components.
     bindR (digest_from (cr_content_digest r) ''content_digest'') (\<lambda>content.
     bindR (ensure (digests_revision_digest sha components (cr_compiler_version r) = content) (InvariantViolated (Fmt
        ''revision {sequence} names content digest {content_digest}, but its components under compiler {compiler_version} produce {recomputed}''
        [FInt n, FStr (display content), FStr (cr_compiler_version r),
         FStr (display (digests_revision_digest sha components (cr_compiler_version r)))]))) (\<lambda>_.
     bindR (for_each (verify_component sha d) (component_domains components)) (\<lambda>_.
     bindR (digest_from (cr_source_set_digest r) ''source_set_digest'') (\<lambda>source.
     Inr \<lparr>acr_activation_sequence = n, acr_content_digest = content, acr_components = components,
       acr_source_set_digest = source, acr_pointer_revision = pointer_revision\<rparr>))))))"

definition read_configuration_pointer :: "sha256 \<Rightarrow> db \<Rightarrow> (store_error, configuration_pointer) res" where
  "read_configuration_pointer sha d =
     bindR (ok_or (find_pointer d) (Sqlite QueryReturnedNoRows)) (\<lambda>p.
     case acf_activation_sequence p of
       None \<Rightarrow> Inr \<lparr>cfp_active = None, cfp_revision = acf_revision p\<rparr>
     | Some n \<Rightarrow> bindR (read_revision_row sha n (acf_revision p) d) (\<lambda>active.
         Inr \<lparr>cfp_active = Some active, cfp_revision = acf_revision p\<rparr>))"

end
