(* ===== verification/Store_Scheduling.thy ===== *)
theory Store_Scheduling
  imports Planning_Effects Context
begin

text \<open>
  Durable scheduler state and the T3 Run-intent commit
  (\<^verbatim>\<open>crates/pantheon-store/src/scheduling.rs\<close>). T3 re-reads every precondition inside its
  transaction, in the order the code checks them, then freezes the binding and the source
  snapshot, creates the Run, activates the Task, charges the Goal and closes the Task's
  eligibility interval.
\<close>

section \<open>Records\<close>

record scheduler_state_record =
  ssr_dispatch_mode :: dispatch_mode
  ssr_next_service_sequence :: int
  ssr_revision :: int

record goal_scheduling_position =
  gsp_goal_id :: string
  gsp_last_served_sequence :: "int option"
  gsp_revision :: int

definition fairness :: "goal_scheduling_position \<Rightarrow> goal_fairness" where
  "fairness r = \<lparr>gf_goal_id = gsp_goal_id r, gf_last_served_sequence = gsp_last_served_sequence r\<rparr>"

record dispatch_candidate =
  dc_task_id :: string
  dc_goal_id :: string
  dc_spec_digest :: digest
  dc_eligible_since :: int
  dc_task_revision :: int
  dc_goal_current_revision :: int
  dc_goal_row_revision :: int
  dc_graph_revision :: int
  dc_workspace_id :: string
  dc_workspace_resolved_base :: string
  dc_workspace_revision :: int
  dc_scheduling_revision :: int

definition schedulable :: "dispatch_candidate \<Rightarrow> schedulable_task" where
  "schedulable c = \<lparr>st_task_id = dc_task_id c, st_goal_id = dc_goal_id c,
     st_eligible_since = dc_eligible_since c\<rparr>"

record scheduling_snapshot =
  sp_state :: scheduler_state_record
  sp_goals :: "goal_scheduling_position list"
  sp_candidates :: "dispatch_candidate list"
  sp_now :: int

record run_intent =
  ri_run_id :: string
  ri_task_id :: string
  ri_goal_id :: string
  ri_expected_task_revision :: int
  ri_expected_goal_row_revision :: int
  ri_expected_goal_current_revision :: int
  ri_expected_graph_revision :: int
  ri_expected_workspace_revision :: int
  ri_expected_scheduler_revision :: int
  ri_expected_goal_fairness_revision :: "int option"
  ri_expected_task_scheduling_revision :: int
  ri_configuration_activation_sequence :: int
  ri_binding_digest :: digest
  ri_binding :: execution_binding
  ri_snapshot_digest :: digest
  ri_snapshot :: context_source_snapshot

record run_intent_commit =
  rc_run_id :: string
  rc_task_revision :: int
  rc_scheduler_revision :: int
  rc_charged_service_sequence :: int

section \<open>The scheduler singleton\<close>

definition parse_state :: "scheduler_state_row \<Rightarrow> (store_error, scheduler_state_record) res" where
  "parse_state r = bindR (ok_or (dispatch_mode_parse (sc_dispatch_mode r)) (InvariantViolated (Fmt
        ''scheduler_state contains an unparsable dispatch mode {mode}'' [FStr (sc_dispatch_mode r)])))
     (\<lambda>mode. Inr \<lparr>ssr_dispatch_mode = mode, ssr_next_service_sequence = sc_next_service_sequence r,
        ssr_revision = sc_revision r\<rparr>)"

definition find_scheduler :: "db \<Rightarrow> scheduler_state_row option" where
  "find_scheduler d = List.find (\<lambda>r. sc_id r = ''singleton'') (scheduler_state d)"

definition no_singleton :: store_error where
  "no_singleton = InvariantViolated (Fmt ''scheduler_state has no singleton row'' [])"

definition liftW :: "(store_error, 'a) res \<Rightarrow> 'a action" where
  "liftW r = (case r of Inl e \<Rightarrow> errW e | Inr x \<Rightarrow> returnW x)"

definition read_state :: "scheduler_state_record action" where
  "read_state = bindW (query_optional find_scheduler) (\<lambda>row.
     bindW (someW row no_singleton) (\<lambda>r. liftW (parse_state r)))"

definition read_scheduler_state :: "db \<Rightarrow> (store_error, scheduler_state_record) res" where
  "read_scheduler_state d = bindR (ok_or (find_scheduler d) no_singleton) parse_state"

definition slot_holders :: "db \<Rightarrow> (string \<times> string) list" where
  "slot_holders d = map (\<lambda>r. (rs_run_id r, rs_task_id r))
     (sort_key rs_run_id (filter (\<lambda>r. rs_active_slot r \<noteq> None) (run_status d)))"

definition slot_holder :: "db \<Rightarrow> (store_error, (string \<times> string) option) res" where
  "slot_holder d = (case slot_holders d of
     [] \<Rightarrow> Inr None
   | [h] \<Rightarrow> Inr (Some h)
   | hs \<Rightarrow> Inl (InvariantViolated (Fmt ''{n} runs hold the single execution slot'' [FInt (int (length hs))])))"

definition set_dispatch_mode_body :: "dispatch_mode \<Rightarrow> int \<Rightarrow> scheduler_state_record action" where
  "set_dispatch_mode_body mode expected =
     bindW now (\<lambda>t.
     bindW (update_revisioned_by scheduler_state_table ''singleton'' expected
        [(''dispatch_mode'', \<lambda>r. r\<lparr>sc_dispatch_mode := dispatch_mode_as_str mode\<rparr>),
         (''updated_at'', \<lambda>r. r\<lparr>sc_updated_at := t\<rparr>)]) (\<lambda>_.
     read_state))"

definition set_dispatch_mode ::
    "command \<Rightarrow> dispatch_mode \<Rightarrow> int \<Rightarrow> store \<Rightarrow> (store_error, scheduler_state_record committed) res \<times> store" where
  "set_dispatch_mode c mode expected = execute_command c (set_dispatch_mode_body mode expected)"

definition backoff_body :: "string \<Rightarrow> int \<Rightarrow> string \<Rightarrow> string \<Rightarrow> int \<Rightarrow> int action" where
  "backoff_body task_id expected code detail next_attempt_at =
     bindW now (\<lambda>t.
     update_revisioned_by task_scheduling_state_table task_id expected
       [(''next_attempt_at'', \<lambda>r. r\<lparr>tsc_next_attempt_at := Some next_attempt_at\<rparr>),
        (''last_failure_code'', \<lambda>r. r\<lparr>tsc_last_failure_code := Some code\<rparr>),
        (''last_failure_detail_json'', \<lambda>r. r\<lparr>tsc_last_failure_detail_json := Some detail\<rparr>),
        (''updated_at'', \<lambda>r. r\<lparr>tsc_updated_at := t\<rparr>)])"

definition record_scheduling_backoff ::
    "string \<Rightarrow> int \<Rightarrow> string \<Rightarrow> string \<Rightarrow> int \<Rightarrow> store \<Rightarrow> (store_error, int) res \<times> store" where
  "record_scheduling_backoff task_id expected code detail next_attempt_at =
     run (backoff_body task_id expected code detail next_attempt_at)"

section \<open>The scheduling snapshot\<close>

text \<open>One row of the candidate query: a Task, its Goal, graph, Workspace and scheduling row.\<close>

definition dispatchable ::
    "int \<Rightarrow> db \<Rightarrow> task_row \<Rightarrow> goal_row \<Rightarrow> task_graph_row \<Rightarrow> workspace_row \<Rightarrow> task_scheduling_row \<Rightarrow> bool" where
  "dispatchable t d task goal graph ws s \<longleftrightarrow>
     g_id goal = t_goal_id task \<and> tg_id graph = t_goal_id task
     \<and> w_task_id ws = t_id task \<and> w_phase ws = ''Ready'' \<and> w_materialization ws = ''Present''
     \<and> tsc_task_id s = t_id task
     \<and> t_phase task = ''Ready'' \<and> g_phase goal \<in> set goal_live_phases
     \<and> tsc_eligible_since s \<noteq> None \<and> is_null_or (\<lambda>n. n \<le> t) (tsc_next_attempt_at s)
     \<and> \<not> (\<exists>rs \<in> set (run_status d). rs_task_id rs = t_id task \<and> run_nonterminal rs)
     \<and> unsatisfied_prerequisites (t_id task) (tg_revision graph) d = 0"

definition candidate_of ::
    "task_row \<Rightarrow> goal_row \<Rightarrow> task_graph_row \<Rightarrow> workspace_row \<Rightarrow> task_scheduling_row \<Rightarrow>
     (store_error, dispatch_candidate) res" where
  "candidate_of task goal graph ws s =
     bindR (if length (t_spec_digest task) = 32 then Inr (Digest (t_spec_digest task))
            else Inl (Sqlite InvalidColumnType)) (\<lambda>digest.
     bindR (ok_or (tsc_eligible_since s) (Sqlite InvalidColumnType)) (\<lambda>since.
     Inr \<lparr>dc_task_id = t_id task, dc_goal_id = t_goal_id task, dc_spec_digest = digest,
       dc_eligible_since = since, dc_task_revision = t_revision task,
       dc_goal_current_revision = g_current_revision goal, dc_goal_row_revision = g_revision goal,
       dc_graph_revision = tg_revision graph, dc_workspace_id = w_id ws,
       dc_workspace_resolved_base = w_resolved_base ws, dc_workspace_revision = w_revision ws,
       dc_scheduling_revision = tsc_revision s\<rparr>))"

definition candidate_rows ::
    "int \<Rightarrow> db \<Rightarrow> (task_row \<times> goal_row \<times> task_graph_row \<times> workspace_row \<times> task_scheduling_row) list" where
  "candidate_rows t d =
     [(task, goal, graph, ws, s). task \<leftarrow> sort_key t_id (tasks d), goal \<leftarrow> goals d, graph \<leftarrow> task_graphs d,
        ws \<leftarrow> workspaces d, s \<leftarrow> task_scheduling_state d, dispatchable t d task goal graph ws s]"

definition scheduling_positions :: "db \<Rightarrow> goal_scheduling_position list" where
  "scheduling_positions d = map (\<lambda>r. \<lparr>gsp_goal_id = gs_goal_id r,
     gsp_last_served_sequence = gs_last_served_sequence r, gsp_revision = gs_revision r\<rparr>)
     (sort_key gs_goal_id (goal_scheduling_state d))"

definition read_scheduling_snapshot :: "int \<Rightarrow> db \<Rightarrow> (store_error, scheduling_snapshot) res" where
  "read_scheduling_snapshot t d =
     bindR (bindR (ok_or (find_scheduler d)
        (InvariantViolated (Fmt ''scheduler_state singleton unreadable: {err}'' []))) parse_state) (\<lambda>state.
     bindR (traverse (\<lambda>(task, goal, graph, ws, s). candidate_of task goal graph ws s) (candidate_rows t d)) (\<lambda>cs.
     Inr \<lparr>sp_state = state, sp_goals = scheduling_positions d, sp_candidates = cs, sp_now = t\<rparr>))"

section \<open>T3: revalidation\<close>

text \<open>1. Dispatch permission and the scheduler fence.\<close>

definition t3_permission :: "run_intent \<Rightarrow> scheduler_state_record action" where
  "t3_permission i =
     bindW read_state (\<lambda>state.
     bindW (requireW (ssr_dispatch_mode state = DRunning) DispatchPaused) (\<lambda>_.
     bindW (requireW (ssr_revision state = ri_expected_scheduler_revision i)
        (RevisionConflict ''scheduler_state'' ''singleton'' (ri_expected_scheduler_revision i)
           (Some (ssr_revision state)))) (\<lambda>_.
     returnW state)))"

text \<open>2. Configuration currency: the captured revision is active, and every digest of the
  binding is that revision's.\<close>

definition stored_binding_matches :: "configuration_revision_row \<Rightarrow> execution_binding \<Rightarrow> bool" where
  "stored_binding_matches r b \<longleftrightarrow> (let c = eb_component_digests b in
     cr_content_digest r = as_bytes (eb_configuration_content_digest b)
     \<and> cr_agents_digest r = as_bytes (cd_agents c)
     \<and> cr_routing_digest r = as_bytes (cd_routing c)
     \<and> cr_execution_profile_digest r = as_bytes (cd_execution_profile c)
     \<and> cr_evaluator_registry_digest r = as_bytes (cd_evaluator_registry c)
     \<and> cr_context_policy_digest r = as_bytes (cd_context_policy c)
     \<and> cr_authorization_digest r = as_bytes (cd_authorization c))"

definition t3_configuration :: "run_intent \<Rightarrow> unit action" where
  "t3_configuration i =
     bindW (query_optional find_pointer) (\<lambda>row.
     let active = Option.bind row acf_activation_sequence in
     bindW (requireW (active = Some (ri_configuration_activation_sequence i))
        (RevisionConflict ''active_configuration'' ''singleton'' (ri_configuration_activation_sequence i) active)) (\<lambda>_.
     bindW (query_optional (find_revision (ri_configuration_activation_sequence i))) (\<lambda>stored.
     bindW (expectW stored (InvariantViolated (Fmt ''active configuration names revision {} which is not stored''
        [FInt (ri_configuration_activation_sequence i)]))) (\<lambda>r.
     requireW (stored_binding_matches r (ri_binding i)
          \<and> cs_context_policy_digest (ri_snapshot i) = cd_context_policy (eb_component_digests (ri_binding i)))
        (InvariantViolated (Fmt
          ''the frozen Binding or source snapshot does not belong to the active ConfigurationRevision'' []))))))"

text \<open>2b. Agent-guidance currency, recomputed from the stored agents component, then the owners
  the frozen records name.\<close>

definition stored_agents_json :: "int \<Rightarrow> db \<Rightarrow> string option" where
  "stored_agents_json n d = Option.bind (find_revision n d) (\<lambda>r.
     map_option cfc_canonical_json (find_component (cr_agents_digest r) d))"

definition stored_guidance :: "sha256 \<Rightarrow> logical_agent_version \<Rightarrow> string \<Rightarrow> (message, digest \<times> digest) res" where
  "stored_guidance sha agent json = (case parse json of
     Inl e \<Rightarrow> Inl (parse_error_display e)
   | Inr v \<Rightarrow> (case frozen_agent_guidance v agent of
       Inl (VersionAbsent a) \<Rightarrow> Inl (Fmt (''agents component does not contain agent {}@'' @ ''{}'')
         [FStr (lav_name a), FInt (lav_version a)])
     | Inl (GuidanceMalformed detail) \<Rightarrow> Inl (Fmt ''stored agents component is not readable: {detail}'' [FMsg detail])
     | Inr g \<Rightarrow> Inr (guidance_digest sha (gu_soul g), guidance_digest sha (gu_behavior g))))"

definition t3_guidance :: "sha256 \<Rightarrow> run_intent \<Rightarrow> unit action" where
  "t3_guidance sha i =
     bindW (query_optional (stored_agents_json (ri_configuration_activation_sequence i))) (\<lambda>json.
     bindW (expectW json (InvariantViolated (Fmt ''configuration revision {} has no stored agents component''
        [FInt (ri_configuration_activation_sequence i)]))) (\<lambda>json.
     bindW (case stored_guidance sha (cs_agent (ri_snapshot i)) json of
         Inr g \<Rightarrow> returnW g
       | Inl detail \<Rightarrow> writer_fail (InvariantViolated (Fmt
           (''the active ConfigurationRevision carries no usable guidance for agent {}@'' @ ''{}: {detail}'')
           [FStr (lav_name (cs_agent (ri_snapshot i))), FInt (lav_version (cs_agent (ri_snapshot i))), FMsg detail])))
       (\<lambda>(soul, behavior).
     bindW (requireW (soul = cs_agent_soul_digest (ri_snapshot i)
          \<and> behavior = cs_agent_behavior_digest (ri_snapshot i)) (InvariantViolated (Fmt
        ''the frozen source snapshot names Agent guidance that does not belong to the active ConfigurationRevision'' []))) (\<lambda>_.
     bindW (requireW (eb_task_id (ri_binding i) = ri_task_id i) (InvariantViolated (Fmt
        ''the frozen Binding names task {} but this Run commits for {}''
        [FStr (eb_task_id (ri_binding i)), FStr (ri_task_id i)]))) (\<lambda>_.
     requireW (cs_goal_id (ri_snapshot i) = ri_goal_id i) (InvariantViolated (Fmt
        ''the frozen source snapshot names goal {} but this Run commits under {}''
        [FStr (cs_goal_id (ri_snapshot i)), FStr (ri_goal_id i)])))))))"

text \<open>3. Task currency.\<close>

definition t3_task :: "run_intent \<Rightarrow> task_row action" where
  "t3_task i =
     bindW (query_optional (find_task (ri_task_id i))) (\<lambda>row.
     bindW (expectW row (TaskNotDispatchable (ri_task_id i) ''Absent'' None)) (\<lambda>task.
     bindW (someW (task_phase_parse (t_phase task)) (InvariantViolated (Fmt
        ''task {} has unknown phase {phase_text}'' [FStr (ri_task_id i), FStr (t_phase task)]))) (\<lambda>phase.
     bindW (requireW (t_goal_id task = ri_goal_id i)
        (TaskNotDispatchable (ri_task_id i) (task_phase_as_str phase) (t_active_run_id task))) (\<lambda>_.
     bindW (requireW (phase = TReady \<and> t_active_run_id task = None)
        (TaskNotDispatchable (ri_task_id i) (task_phase_as_str phase) (t_active_run_id task))) (\<lambda>_.
     bindW (requireW (t_revision task = ri_expected_task_revision i)
        (RevisionConflict ''tasks'' (ri_task_id i) (ri_expected_task_revision i) (Some (t_revision task)))) (\<lambda>_.
     bindW (requireW (t_spec_digest task = as_bytes (cs_task_spec_digest (ri_snapshot i))) (InvariantViolated (Fmt
        ''frozen source snapshot names task spec {:?} but task {} stores a different one''
        [FStr (display (cs_task_spec_digest (ri_snapshot i))), FStr (ri_task_id i)]))) (\<lambda>_.
     returnW task)))))))"

text \<open>4. Goal and graph currency.\<close>

definition t3_goal :: "run_intent \<Rightarrow> unit action" where
  "t3_goal i =
     bindW (query_optional (find_goal (ri_goal_id i))) (\<lambda>row.
     bindW (expectW row (InvariantViolated (Fmt ''task {} names goal {} which does not exist''
        [FStr (ri_task_id i), FStr (ri_goal_id i)]))) (\<lambda>goal.
     bindW (someW (goal_phase_parse (g_phase goal)) (InvariantViolated (Fmt
        ''goal {} has unknown phase {goal_phase_text}'' [FStr (ri_goal_id i), FStr (g_phase goal)]))) (\<lambda>phase.
     bindW (requireW (phase \<in> {GPlanning, GActive, GEvaluating})
        (GoalNotDispatchable (ri_goal_id i) (goal_phase_as_str phase))) (\<lambda>_.
     bindW (requireW (g_revision goal = ri_expected_goal_row_revision i)
        (RevisionConflict ''goals'' (ri_goal_id i) (ri_expected_goal_row_revision i) (Some (g_revision goal)))) (\<lambda>_.
     bindW (requireW (g_current_revision goal = ri_expected_goal_current_revision i
          \<and> g_current_revision goal = cs_goal_revision (ri_snapshot i))
        (RevisionConflict ''goal_revisions'' (ri_goal_id i) (cs_goal_revision (ri_snapshot i))
           (Some (g_current_revision goal)))) (\<lambda>_.
     bindW (query_optional (find_graph (ri_goal_id i))) (\<lambda>graph.
     bindW (someW graph (InvariantViolated (Fmt ''goal {} has no task graph'' [FStr (ri_goal_id i)]))) (\<lambda>graph.
     requireW (tg_revision graph = ri_expected_graph_revision i
          \<and> tg_revision graph = cs_graph_revision (ri_snapshot i))
        (RevisionConflict ''task_graphs'' (ri_goal_id i) (ri_expected_graph_revision i)
           (Some (tg_revision graph)))))))))))"

text \<open>5. Workspace currency.\<close>

definition find_workspace :: "string \<Rightarrow> db \<Rightarrow> workspace_row option" where
  "find_workspace wid d = List.find (\<lambda>r. w_id r = wid) (workspaces d)"

definition t3_workspace :: "run_intent \<Rightarrow> unit action" where
  "t3_workspace i = (let wid = cs_workspace_id (ri_snapshot i) in
     bindW (query_optional (find_workspace wid)) (\<lambda>row.
     bindW (expectW row (RevisionConflict ''workspaces'' wid (ri_expected_workspace_revision i) None)) (\<lambda>ws.
     bindW (requireW (w_task_id ws = ri_task_id i \<and> w_phase ws = ''Ready'' \<and> w_materialization ws = ''Present''
          \<and> w_revision ws = ri_expected_workspace_revision i)
        (RevisionConflict ''workspaces'' wid (ri_expected_workspace_revision i) (Some (w_revision ws)))) (\<lambda>_.
     requireW (w_resolved_base ws = cs_workspace_resolved_base (ri_snapshot i)) (InvariantViolated (Fmt
        ''frozen source snapshot names workspace base {:?} but the Workspace resolved to {ws_base:?}''
        [FStr (cs_workspace_resolved_base (ri_snapshot i)), FStr (w_resolved_base ws)]))))))"

text \<open>6. Capacity.\<close>

definition find_slot_run :: "db \<Rightarrow> run_status_row option" where
  "find_slot_run d = List.find (\<lambda>r. rs_active_slot r \<noteq> None) (run_status d)"

definition t3_capacity :: "unit action" where
  "t3_capacity =
     bindW (query_optional find_slot_run) (\<lambda>held.
       case held of
         None \<Rightarrow> returnW ()
       | Some r \<Rightarrow> writer_fail (DispatchSlotUnavailable (rs_run_id r) (rs_task_id r)))"

section \<open>T3: the commit\<close>

definition binding_row :: "run_intent \<Rightarrow> int \<Rightarrow> execution_binding_row" where
  "binding_row i t = (let b = ri_binding i in
     \<lparr>ebr_digest = as_bytes (ri_binding_digest i), ebr_task_id = eb_task_id b,
      ebr_configuration_activation_sequence = eb_configuration_activation_sequence b,
      ebr_configuration_content_digest = as_bytes (eb_configuration_content_digest b),
      ebr_canonical_json = to_canonical_bytes (binding_value b), ebr_created_at = t\<rparr>)"

definition source_row :: "run_intent \<Rightarrow> int \<Rightarrow> source_snapshot_row" where
  "source_row i t = (let s = ri_snapshot i in
     \<lparr>sn_digest = as_bytes (ri_snapshot_digest i),
      sn_configuration_activation_sequence = cs_configuration_activation_sequence s,
      sn_context_policy_digest = as_bytes (cs_context_policy_digest s),
      sn_task_spec_digest = as_bytes (cs_task_spec_digest s), sn_goal_id = cs_goal_id s,
      sn_goal_revision = cs_goal_revision s, sn_graph_revision = cs_graph_revision s,
      sn_agent_name = lav_name (cs_agent s), sn_agent_version = lav_version (cs_agent s),
      sn_agent_soul_digest = Some (as_bytes (cs_agent_soul_digest s)),
      sn_agent_behavior_digest = Some (as_bytes (cs_agent_behavior_digest s)),
      sn_workspace_id = cs_workspace_id s, sn_workspace_resolved_base = cs_workspace_resolved_base s,
      sn_canonical_json = to_canonical_bytes (snapshot_to_value s), sn_created_at = t\<rparr>)"

definition new_run_row :: "run_intent \<Rightarrow> int \<Rightarrow> run_row" where
  "new_run_row i t = \<lparr>ru_id = ri_run_id i, ru_task_id = ri_task_id i,
     ru_binding_digest = as_bytes (ri_binding_digest i),
     ru_context_source_snapshot_digest = as_bytes (ri_snapshot_digest i), ru_created_at = t\<rparr>"

definition new_run_status :: "run_intent \<Rightarrow> int \<Rightarrow> run_status_row" where
  "new_run_status i t = \<lparr>rs_run_id = ri_run_id i, rs_task_id = ri_task_id i, rs_phase = ''Active'',
     rs_terminal_target = None, rs_revision = 1, rs_active_slot = Some ''global'',
     rs_current_attempt_id = None, rs_candidate_digest = None, rs_updated_at = t\<rparr>"

text \<open>7. Freeze immutable authority and create the Run.\<close>

definition t3_create_run :: "run_intent \<Rightarrow> int \<Rightarrow> unit action" where
  "t3_create_run i t =
     bindW (execute (insert_or_ignore execution_bindings execution_bindings_update
        check_execution_binding ebr_digest (binding_row i t))) (\<lambda>_.
     bindW (execute (insert_or_ignore context_source_snapshots context_source_snapshots_update
        check_source_snapshot sn_digest (source_row i t))) (\<lambda>_.
     bindW (execute (insert_into runs_update (new_run_row i t))) (\<lambda>_.
     bindW (execute (insert_into run_status_update (new_run_status i t))) (\<lambda>_.
     returnW ()))))"

text \<open>8. Task activation; 9. the fairness charge; 10. closing the eligibility interval.\<close>

definition activate_assignments :: "run_intent \<Rightarrow> task_row assignment list" where
  "activate_assignments i =
     [(''phase'', \<lambda>r. r\<lparr>t_phase := task_phase_as_str TActive\<rparr>),
      (''active_run_id'', \<lambda>r. r\<lparr>t_active_run_id := Some (ri_run_id i)\<rparr>)]"

definition charge_row :: "run_intent \<Rightarrow> int \<Rightarrow> int \<Rightarrow> goal_scheduling_row" where
  "charge_row i charged t = \<lparr>gs_goal_id = ri_goal_id i, gs_last_served_sequence = Some charged,
     gs_revision = 1, gs_created_at = t, gs_updated_at = t\<rparr>"

definition charge_assignments :: "int \<Rightarrow> int \<Rightarrow> goal_scheduling_row assignment list" where
  "charge_assignments charged t =
     [(''last_served_sequence'', \<lambda>r. r\<lparr>gs_last_served_sequence := Some charged\<rparr>),
      (''updated_at'', \<lambda>r. r\<lparr>gs_updated_at := t\<rparr>)]"

definition vanished_fairness :: "run_intent \<Rightarrow> int action \<Rightarrow> int action" where
  "vanished_fairness i m = (\<lambda>w. case m w of
     (Inl (RevisionConflict tab key expected None), w') \<Rightarrow>
       writer_fail (InvariantViolated (Fmt
         ''goal {} had a fairness row at observation time and none at commit'' [FStr (ri_goal_id i)])) w'
   | other \<Rightarrow> other)"

definition t3_charge :: "run_intent \<Rightarrow> int \<Rightarrow> int \<Rightarrow> unit action" where
  "t3_charge i charged t = (case ri_expected_goal_fairness_revision i of
     None \<Rightarrow>
       bindW (execute (insert_into goal_scheduling_state_update (charge_row i charged t))) (\<lambda>affected.
       requireW (affected = 1) (InvariantViolated (Fmt
         ''fairness insert for goal {} affected {affected} rows'' [FStr (ri_goal_id i), FInt (int affected)])))
   | Some expected \<Rightarrow>
       bindW (vanished_fairness i (update_revisioned_by goal_scheduling_state_table (ri_goal_id i) expected
         (charge_assignments charged t))) (\<lambda>_. returnW ()))"

definition advance_assignments :: "int \<Rightarrow> int \<Rightarrow> scheduler_state_row assignment list" where
  "advance_assignments charged t =
     [(''next_service_sequence'', \<lambda>r. r\<lparr>sc_next_service_sequence := i64_succ charged\<rparr>),
      (''updated_at'', \<lambda>r. r\<lparr>sc_updated_at := t\<rparr>)]"

definition close_assignments :: "int \<Rightarrow> task_scheduling_row assignment list" where
  "close_assignments t =
     [(''eligible_since'', \<lambda>r. r\<lparr>tsc_eligible_since := None\<rparr>),
      (''next_attempt_at'', \<lambda>r. r\<lparr>tsc_next_attempt_at := None\<rparr>),
      (''last_failure_code'', \<lambda>r. r\<lparr>tsc_last_failure_code := None\<rparr>),
      (''last_failure_detail_json'', \<lambda>r. r\<lparr>tsc_last_failure_detail_json := None\<rparr>),
      (''updated_at'', \<lambda>r. r\<lparr>tsc_updated_at := t\<rparr>)]"

definition t3_commit :: "run_intent \<Rightarrow> scheduler_state_record \<Rightarrow> int \<Rightarrow> run_intent_commit action" where
  "t3_commit i state t = (let charged = ssr_next_service_sequence state in
     bindW (t3_create_run i t) (\<lambda>_.
     bindW (update_revisioned_by tasks_table (ri_task_id i) (ri_expected_task_revision i)
        (activate_assignments i)) (\<lambda>task_revision.
     bindW (t3_charge i charged t) (\<lambda>_.
     bindW (update_revisioned_by scheduler_state_table ''singleton'' (ssr_revision state)
        (advance_assignments charged t)) (\<lambda>scheduler_revision.
     bindW (update_revisioned_by task_scheduling_state_table (ri_task_id i)
        (ri_expected_task_scheduling_revision i) (close_assignments t)) (\<lambda>_.
     returnW \<lparr>rc_run_id = ri_run_id i, rc_task_revision = task_revision,
       rc_scheduler_revision = scheduler_revision, rc_charged_service_sequence = charged\<rparr>))))))"

definition apply_run_intent :: "sha256 \<Rightarrow> run_intent \<Rightarrow> run_intent_commit action" where
  "apply_run_intent sha i =
     bindW (t3_permission i) (\<lambda>state.
     bindW (t3_configuration i) (\<lambda>_.
     bindW (t3_guidance sha i) (\<lambda>_.
     bindW (t3_task i) (\<lambda>_.
     bindW (t3_goal i) (\<lambda>_.
     bindW (t3_workspace i) (\<lambda>_.
     bindW t3_capacity (\<lambda>_.
     bindW now (\<lambda>t.
     t3_commit i state t))))))))"

definition commit_run_intent ::
    "sha256 \<Rightarrow> command \<Rightarrow> run_intent \<Rightarrow> store \<Rightarrow> (store_error, run_intent_commit committed) res \<times> store" where
  "commit_run_intent sha c i = execute_command c (apply_run_intent sha i)"

end
