(* ===== verification/Scheduling_Effects.thy ===== *)
theory Scheduling_Effects
  imports Store_Scheduling
begin

text \<open>
  What T3 and the scheduler mutations do: the conditions a committed T3 found true of the database
  it committed into (\<open>t3_current\<close>), and the database it left (\<open>t3_effect\<close>).
\<close>

section \<open>The frame\<close>

lemma ledger_frame_scheduling [frame]:
  "ledger_part (scheduler_state_update f d) = ledger_part d"
  "ledger_part (goal_scheduling_state_update f1 d) = ledger_part d"
  "ledger_part (execution_bindings_update f2 d) = ledger_part d"
  "ledger_part (context_source_snapshots_update f3 d) = ledger_part d"
  "ledger_part (runs_update f4 d) = ledger_part d"
  "ledger_part (run_status_update f5 d) = ledger_part d"
  "ledger_part (table_update scheduler_state_table f6 d) = ledger_part d"
  "ledger_part (table_update goal_scheduling_state_table f7 d) = ledger_part d"
  "ledger_part (table_update task_scheduling_state_table f8 d) = ledger_part d"
  by (simp_all add: ledger_part_def)

lemma leaves_liftW [frame]: "leaves p (liftW r)"
  by (cases r) (simp_all add: liftW_def frame)

lemma vanished_fairness_iff [wr]: "vanished_fairness i m w = (Inr n, w') \<longleftrightarrow> m w = (Inr n, w')"
  by (auto simp: vanished_fairness_def wr split: prod.splits sum.splits store_error.splits option.splits)

lemma leaves_vanished [frame]: "leaves p m \<Longrightarrow> leaves p (vanished_fairness i m)"
  by (auto simp: leaves_def wr)

lemma leaves_ledger_scheduling [frame]:
  "leaves_ledger (set_dispatch_mode_body mode expected)"
  "leaves_ledger (backoff_body tid expected code detail at)"
  "leaves_ledger (apply_run_intent sha i)"
  unfolding set_dispatch_mode_body_def backoff_body_def apply_run_intent_def t3_permission_def
    t3_configuration_def t3_guidance_def t3_task_def t3_goal_def t3_workspace_def t3_capacity_def
    t3_commit_def t3_create_run_def t3_charge_def read_state_def Let_def
  by (intro frame)+

section \<open>Revalidation\<close>

lemma liftW_iff [wr]: "liftW r w = (Inr x, w') \<longleftrightarrow> r = Inr x \<and> w' = w"
  by (cases r) (auto simp: liftW_def wr)

lemma read_state_iff [wr]:
  "read_state w = (Inr s, w') \<longleftrightarrow>
     \<not> faulty w \<and> w' = tick w \<and> (\<exists>r. find_scheduler (tx w) = Some r \<and> parse_state r = Inr s)"
  by (auto simp: read_state_def wr)

lemma parse_state_iff:
  "parse_state r = Inr s \<longleftrightarrow> sc_dispatch_mode r = dispatch_mode_as_str (ssr_dispatch_mode s)
     \<and> ssr_next_service_sequence s = sc_next_service_sequence r \<and> ssr_revision s = sc_revision r"
  by (cases s) (auto simp: parse_state_def res_simps dispatch_mode.of_str_iff)

text \<open>Everything T3 re-reads, as a property of the database.\<close>

definition t3_current :: "sha256 \<Rightarrow> run_intent \<Rightarrow> scheduler_state_row \<Rightarrow> db \<Rightarrow> bool" where
  "t3_current sha i sched d \<longleftrightarrow>
     find_scheduler d = Some sched \<and> sc_dispatch_mode sched = ''RUNNING''
     \<and> sc_revision sched = ri_expected_scheduler_revision i
     \<and> Option.bind (find_pointer d) acf_activation_sequence = Some (ri_configuration_activation_sequence i)
     \<and> (\<exists>r. find_revision (ri_configuration_activation_sequence i) d = Some r \<and> stored_binding_matches r (ri_binding i))
     \<and> cs_context_policy_digest (ri_snapshot i) = cd_context_policy (eb_component_digests (ri_binding i))
     \<and> (\<exists>json. stored_agents_json (ri_configuration_activation_sequence i) d = Some json
          \<and> stored_guidance sha (cs_agent (ri_snapshot i)) json
            = Inr (cs_agent_soul_digest (ri_snapshot i), cs_agent_behavior_digest (ri_snapshot i)))
     \<and> eb_task_id (ri_binding i) = ri_task_id i \<and> cs_goal_id (ri_snapshot i) = ri_goal_id i
     \<and> (\<exists>task. find_task (ri_task_id i) d = Some task \<and> t_goal_id task = ri_goal_id i
          \<and> t_phase task = ''Ready'' \<and> t_active_run_id task = None
          \<and> t_revision task = ri_expected_task_revision i
          \<and> t_spec_digest task = as_bytes (cs_task_spec_digest (ri_snapshot i)))
     \<and> (\<exists>goal. find_goal (ri_goal_id i) d = Some goal \<and> g_phase goal \<in> set goal_live_phases
          \<and> g_revision goal = ri_expected_goal_row_revision i
          \<and> g_current_revision goal = ri_expected_goal_current_revision i
          \<and> g_current_revision goal = cs_goal_revision (ri_snapshot i))
     \<and> (\<exists>graph. find_graph (ri_goal_id i) d = Some graph
          \<and> tg_revision graph = ri_expected_graph_revision i
          \<and> tg_revision graph = cs_graph_revision (ri_snapshot i))
     \<and> (\<exists>ws. find_workspace (cs_workspace_id (ri_snapshot i)) d = Some ws
          \<and> w_task_id ws = ri_task_id i \<and> w_phase ws = ''Ready'' \<and> w_materialization ws = ''Present''
          \<and> w_revision ws = ri_expected_workspace_revision i
          \<and> w_resolved_base ws = cs_workspace_resolved_base (ri_snapshot i))
     \<and> find_slot_run d = None"

lemma t3_permissionD:
  assumes "t3_permission i w = (Inr s, w')"
  obtains sched where "find_scheduler (tx w) = Some sched" "sc_dispatch_mode sched = ''RUNNING''"
    "sc_revision sched = ri_expected_scheduler_revision i" "ssr_revision s = sc_revision sched"
    "ssr_next_service_sequence s = sc_next_service_sequence sched" "tx w' = tx w"
  using assms by (auto simp: t3_permission_def wr parse_state_iff)

lemma t3_configurationD:
  assumes "t3_configuration i w = (Inr u, w')"
  shows "tx w' = tx w"
    and "Option.bind (find_pointer (tx w)) acf_activation_sequence = Some (ri_configuration_activation_sequence i)"
    and "\<exists>r. find_revision (ri_configuration_activation_sequence i) (tx w) = Some r \<and> stored_binding_matches r (ri_binding i)"
    and "cs_context_policy_digest (ri_snapshot i) = cd_context_policy (eb_component_digests (ri_binding i))"
  using assms by (auto simp: t3_configuration_def wr Let_def)

lemma case_or_fail_iff [wr]:
  "(case r of Inl detail \<Rightarrow> writer_fail (E detail) | Inr g \<Rightarrow> returnW g) w = (Inr y, w') \<longleftrightarrow> r = Inr y \<and> w' = w"
  by (cases r) (auto simp: wr)

lemma t3_guidanceD:
  assumes "t3_guidance sha i w = (Inr u, w')"
  shows "tx w' = tx w" and "eb_task_id (ri_binding i) = ri_task_id i" and "cs_goal_id (ri_snapshot i) = ri_goal_id i"
    and "\<exists>json. stored_agents_json (ri_configuration_activation_sequence i) (tx w) = Some json
          \<and> stored_guidance sha (cs_agent (ri_snapshot i)) json
            = Inr (cs_agent_soul_digest (ri_snapshot i), cs_agent_behavior_digest (ri_snapshot i))"
  using assms by (auto simp: t3_guidance_def wr split: prod.splits)

lemma t3_taskD:
  assumes "t3_task i w = (Inr task, w')"
  shows "tx w' = tx w" and "find_task (ri_task_id i) (tx w) = Some task" and "t_goal_id task = ri_goal_id i"
    and "t_phase task = ''Ready''" and "t_active_run_id task = None"
    and "t_revision task = ri_expected_task_revision i"
    and "t_spec_digest task = as_bytes (cs_task_spec_digest (ri_snapshot i))"
  using assms by (auto simp: t3_task_def wr task_phase.of_str_iff)

lemma t3_goalD:
  assumes "t3_goal i w = (Inr u, w')"
  obtains goal graph where "tx w' = tx w" "find_goal (ri_goal_id i) (tx w) = Some goal"
    "g_phase goal \<in> set goal_live_phases" "g_revision goal = ri_expected_goal_row_revision i"
    "g_current_revision goal = ri_expected_goal_current_revision i"
    "g_current_revision goal = cs_goal_revision (ri_snapshot i)"
    "find_graph (ri_goal_id i) (tx w) = Some graph" "tg_revision graph = ri_expected_graph_revision i"
    "tg_revision graph = cs_graph_revision (ri_snapshot i)"
  using assms by (auto simp: t3_goal_def wr goal_phase.of_str_iff goal_live_phases_def)

lemma t3_workspaceD:
  assumes "t3_workspace i w = (Inr u, w')"
  obtains ws where "tx w' = tx w" "find_workspace (cs_workspace_id (ri_snapshot i)) (tx w) = Some ws"
    "w_task_id ws = ri_task_id i" "w_phase ws = ''Ready''" "w_materialization ws = ''Present''"
    "w_revision ws = ri_expected_workspace_revision i"
    "w_resolved_base ws = cs_workspace_resolved_base (ri_snapshot i)"
  using assms by (auto simp: t3_workspace_def wr Let_def)

lemma t3_capacityD:
  assumes "t3_capacity w = (Inr u, w')"
  shows "tx w' = tx w" and "find_slot_run (tx w) = None"
  using assms by (auto simp: t3_capacity_def wr split: option.splits)

section \<open>The commit\<close>

definition run_created :: "run_intent \<Rightarrow> int \<Rightarrow> db \<Rightarrow> db" where
  "run_created i t d =
     run_status_update (\<lambda>rs. rs @ [new_run_status i t])
     (runs_update (\<lambda>rs. rs @ [new_run_row i t])
     (context_source_snapshots_update (\<lambda>rs. if sn_digest (source_row i t) \<in> sn_digest ` set rs
        then rs else rs @ [source_row i t])
     (execution_bindings_update (\<lambda>rs. if ebr_digest (binding_row i t) \<in> ebr_digest ` set rs
        then rs else rs @ [binding_row i t]) d)))"

definition charged_rows :: "run_intent \<Rightarrow> int \<Rightarrow> int \<Rightarrow> goal_scheduling_row list \<Rightarrow> goal_scheduling_row list" where
  "charged_rows i charged t rs = (case ri_expected_goal_fairness_revision i of
     None \<Rightarrow> rs @ [charge_row i charged t]
   | Some expected \<Rightarrow> map (cas_row goal_scheduling_state_table (ri_goal_id i) expected (charge_assignments charged t)) rs)"

definition t3_effect :: "run_intent \<Rightarrow> int \<Rightarrow> int \<Rightarrow> int \<Rightarrow> db \<Rightarrow> db" where
  "t3_effect i revision charged t d =
     task_scheduling_state_update (map (cas_row task_scheduling_state_table (ri_task_id i)
        (ri_expected_task_scheduling_revision i) (close_assignments t)))
     (scheduler_state_update (map (cas_row scheduler_state_table ''singleton'' revision (advance_assignments charged t)))
     (goal_scheduling_state_update (charged_rows i charged t)
     (tasks_update (map (cas_row tasks_table (ri_task_id i) (ri_expected_task_revision i) (activate_assignments i)))
     (run_created i t d))))"

lemma run_created_bindings_cong:
  "f (execution_bindings d) = g (execution_bindings d) \<Longrightarrow> execution_bindings_update f d = execution_bindings_update g (d :: db)"
  "f' (context_source_snapshots d) = g' (context_source_snapshots d) \<Longrightarrow>
     context_source_snapshots_update f' d = context_source_snapshots_update g' (d :: db)"
  by (cases d; simp)+

lemma t3_create_runD:
  assumes "t3_create_run i t w = (Inr u, w')"
  shows "tx w' = run_created i t (tx w)" and "schema_ok (tx w')"
proof -
  from assms obtain a w1 b w2 c w3 e where
    1: "execute (insert_or_ignore execution_bindings execution_bindings_update
        check_execution_binding ebr_digest (binding_row i t)) w = (Inr a, w1)"
    and 2: "execute (insert_or_ignore context_source_snapshots context_source_snapshots_update
        check_source_snapshot sn_digest (source_row i t)) w1 = (Inr b, w2)"
    and 3: "execute (insert_into runs_update (new_run_row i t)) w2 = (Inr c, w3)"
    and 4: "execute (insert_into run_status_update (new_run_status i t)) w3 = (Inr e, w')"
    by (auto simp: t3_create_run_def bindW_iff returnW_iff)
  have "tx w1 = execution_bindings_update (\<lambda>rs. if ebr_digest (binding_row i t) \<in> ebr_digest ` set rs
        then rs else rs @ [binding_row i t]) (tx w)"
    by (rule insert_or_ignoreD [OF 1]) (auto intro: run_created_bindings_cong)
  moreover have "tx w2 = context_source_snapshots_update (\<lambda>rs. if sn_digest (source_row i t) \<in> sn_digest ` set rs
        then rs else rs @ [source_row i t]) (tx w1)"
    by (rule insert_or_ignoreD [OF 2]) (auto intro: run_created_bindings_cong)
  ultimately show "tx w' = run_created i t (tx w)" "schema_ok (tx w')"
    using 3 4 by (auto simp: wr run_created_def)
qed

lemma t3_chargeD:
  assumes "t3_charge i charged t w = (Inr u, w')"
  shows "tx w' = goal_scheduling_state_update (charged_rows i charged t) (tx w)"
proof (cases "ri_expected_goal_fairness_revision i")
  case None
  with assms show ?thesis by (auto simp: t3_charge_def wr charged_rows_def)
next
  case (Some expected)
  with assms obtain n where u: "update_revisioned_by goal_scheduling_state_table (ri_goal_id i) expected
      (charge_assignments charged t) w = (Inr n, w')"
    by (auto simp: t3_charge_def bindW_iff returnW_iff vanished_fairness_iff)
  show ?thesis
    using goal_scheduling_state.update_SomeD(4) [OF u] Some by (simp add: charged_rows_def [abs_def])
qed

lemma t3_commitD:
  assumes "t3_commit i s t w = (Inr r, w')"
  shows "tx w' = t3_effect i (ssr_revision s) (ssr_next_service_sequence s) t (tx w)"
    and "schema_ok (tx w')"
    and "r = \<lparr>rc_run_id = ri_run_id i, rc_task_revision = ri_expected_task_revision i + 1,
       rc_scheduler_revision = ssr_revision s + 1, rc_charged_service_sequence = ssr_next_service_sequence s\<rparr>"
proof -
  let ?c = "ssr_next_service_sequence s"
  from assms obtain w1 n1 w2 w3 n2 w4 n3 where
    1: "t3_create_run i t w = (Inr (), w1)"
    and 2: "update_revisioned_by tasks_table (ri_task_id i) (ri_expected_task_revision i) (activate_assignments i) w1 = (Inr n1, w2)"
    and 3: "t3_charge i ?c t w2 = (Inr (), w3)"
    and 4: "update_revisioned_by scheduler_state_table ''singleton'' (ssr_revision s) (advance_assignments ?c t) w3 = (Inr n2, w4)"
    and 5: "update_revisioned_by task_scheduling_state_table (ri_task_id i)
        (ri_expected_task_scheduling_revision i) (close_assignments t) w4 = (Inr n3, w')"
    and r: "r = \<lparr>rc_run_id = ri_run_id i, rc_task_revision = n1, rc_scheduler_revision = n2, rc_charged_service_sequence = ?c\<rparr>"
    by (auto simp: t3_commit_def Let_def bindW_iff returnW_iff)
  show "tx w' = t3_effect i (ssr_revision s) ?c t (tx w)"
    using t3_create_runD(1) [OF 1] tasks.update_SomeD(4) [OF 2] t3_chargeD [OF 3]
      scheduler_state.update_SomeD(4) [OF 4] task_scheduling_state.update_SomeD(4) [OF 5]
    by (simp add: t3_effect_def)
  show "schema_ok (tx w')" by (rule task_scheduling_state.update_SomeD(5) [OF 5])
  show "r = \<lparr>rc_run_id = ri_run_id i, rc_task_revision = ri_expected_task_revision i + 1,
       rc_scheduler_revision = ssr_revision s + 1, rc_charged_service_sequence = ?c\<rparr>"
    using r tasks.update_SomeD(1) [OF 2] scheduler_state.update_SomeD(1) [OF 4] by simp
qed

lemma apply_run_intentD:
  assumes "apply_run_intent sha i w = (Inr r, w')"
  obtains sched t where "t3_current sha i sched (tx w)"
    "tx w' = t3_effect i (sc_revision sched) (sc_next_service_sequence sched) t (tx w)"
    "schema_ok (tx w')"
    "r = \<lparr>rc_run_id = ri_run_id i, rc_task_revision = ri_expected_task_revision i + 1,
       rc_scheduler_revision = sc_revision sched + 1,
       rc_charged_service_sequence = sc_next_service_sequence sched\<rparr>"
proof -
  from assms obtain s w1 w2 w3 task w4 w5 w6 w7 t where
    p: "t3_permission i w = (Inr s, w1)" and c: "t3_configuration i w1 = (Inr (), w2)"
    and g: "t3_guidance sha i w2 = (Inr (), w3)" and k: "t3_task i w3 = (Inr task, w4)"
    and gl: "t3_goal i w4 = (Inr (), w5)" and ws: "t3_workspace i w5 = (Inr (), w6)"
    and cap: "t3_capacity w6 = (Inr (), w7)" and com: "t3_commit i s t (tick w7) = (Inr r, w')"
    by (auto simp: apply_run_intent_def bindW_iff now_iff)
  from p obtain sched where S: "find_scheduler (tx w) = Some sched" "sc_dispatch_mode sched = ''RUNNING''"
    "sc_revision sched = ri_expected_scheduler_revision i" "ssr_revision s = sc_revision sched"
    "ssr_next_service_sequence s = sc_next_service_sequence sched" "tx w1 = tx w"
    by (rule t3_permissionD)
  note C = t3_configurationD [OF c] and G = t3_guidanceD [OF g] and K = t3_taskD [OF k]
  from gl obtain goal graph where L: "tx w5 = tx w4" "find_goal (ri_goal_id i) (tx w4) = Some goal"
    "g_phase goal \<in> set goal_live_phases" "g_revision goal = ri_expected_goal_row_revision i"
    "g_current_revision goal = ri_expected_goal_current_revision i"
    "g_current_revision goal = cs_goal_revision (ri_snapshot i)"
    "find_graph (ri_goal_id i) (tx w4) = Some graph" "tg_revision graph = ri_expected_graph_revision i"
    "tg_revision graph = cs_graph_revision (ri_snapshot i)"
    by (rule t3_goalD)
  from ws obtain wk where W: "tx w6 = tx w5" "find_workspace (cs_workspace_id (ri_snapshot i)) (tx w5) = Some wk"
    "w_task_id wk = ri_task_id i" "w_phase wk = ''Ready''" "w_materialization wk = ''Present''"
    "w_revision wk = ri_expected_workspace_revision i"
    "w_resolved_base wk = cs_workspace_resolved_base (ri_snapshot i)"
    by (rule t3_workspaceD)
  note P = t3_capacityD [OF cap]
  have same: "tx w1 = tx w" "tx w2 = tx w" "tx w3 = tx w" "tx w4 = tx w" "tx w5 = tx w" "tx w6 = tx w" "tx w7 = tx w"
    using S(6) C(1) G(1) K(1) L(1) W(1) P(1) by simp_all
  have "t3_current sha i sched (tx w)"
    unfolding t3_current_def
    using S(1-3) C(2-4) [unfolded same] G(2-4) [unfolded same] K(2-7) [unfolded same] L(2-9) [unfolded same]
      W(2-7) [unfolded same] P(2) [unfolded same] by (intro conjI) blast+
  with that t3_commitD [OF com] S(4,5) same show thesis by simp
qed

end
