(* ===== verification/Store_Execution.thy ===== *)
theory Store_Execution
  imports Scheduling_Effects
begin

text \<open>
  Durable Attempt lineage (\<^verbatim>\<open>crates/pantheon-store/src/execution.rs\<close>): T4/T8 Attempt creation,
  the T4a pre-contact credential rekey, the T4b launch-contact marker, execution observations and
  their terminal update, concluding a Run, and the reads the Run Controller reconciles through.
\<close>

section \<open>Records\<close>

record attempt_record =
  atr_id :: string
  atr_run_id :: string
  atr_ordinal :: int
  atr_launch_key :: string

record session_view =
  sv_id :: string
  sv_attempt_id :: string
  sv_restore_generation :: string
  sv_credential_revision :: int
  sv_state :: string

record attempt_lineage =
  al_attempt :: attempt_record
  al_observed_execution :: observation
  al_terminal :: bool
  al_launch_contact_state :: launch_contact_state
  al_status_revision :: int
  al_session :: session_view

record run_execution_view =
  rv_run_id :: string
  rv_task_id :: string
  rv_binding_digest :: digest
  rv_source_snapshot_digest :: digest
  rv_phase :: string
  rv_revision :: int
  rv_current_attempt_id :: "string option"
  rv_context_plan_digest :: "digest option"
  rv_attempt :: "attempt_lineage option"

record run_inventory_entry =
  rie_run_id :: string
  rie_task_id :: string
  rie_phase :: string
  rie_revision :: int
  rie_current_attempt_id :: "string option"

record attempt_created =
  acd_attempt_id :: string
  acd_run_id :: string
  acd_ordinal :: int
  acd_launch_key :: string
  acd_session_id :: string
  acd_restore_generation :: string

record attempt_creation =
  acn_run_id :: string
  acn_attempt_id :: string
  acn_launch_key :: string
  acn_session_id :: string
  acn_credential_verifier :: "byte list"
  acn_expected_run_status_revision :: int

section \<open>Selections\<close>

definition find_run :: "string \<Rightarrow> db \<Rightarrow> run_row option" where
  "find_run rid d = List.find (\<lambda>r. ru_id r = rid) (runs d)"

definition find_run_status :: "string \<Rightarrow> db \<Rightarrow> run_status_row option" where
  "find_run_status rid d = List.find (\<lambda>r. rs_run_id r = rid) (run_status d)"

definition find_attempt :: "string \<Rightarrow> db \<Rightarrow> attempt_row option" where
  "find_attempt aid d = List.find (\<lambda>r. at_id r = aid) (attempts d)"

definition find_attempt_status :: "string \<Rightarrow> db \<Rightarrow> attempt_status_row option" where
  "find_attempt_status aid d = List.find (\<lambda>r. as_attempt_id r = aid) (attempt_status d)"

definition find_session :: "string \<Rightarrow> db \<Rightarrow> session_row option" where
  "find_session aid d = List.find (\<lambda>r. acs_attempt_id r = aid) (agent_control_sessions d)"

definition find_attachment :: "string \<Rightarrow> db \<Rightarrow> run_context_plan_row option" where
  "find_attachment rid d = List.find (\<lambda>r. rcp_run_id r = rid) (run_context_plans d)"

text \<open>\<^verbatim>\<open>SELECT s.revision FROM runs r JOIN run_status s ON s.run_id = r.id WHERE r.id = ?1 AND s.phase = 'Active'\<close>\<close>

definition active_run_status :: "string \<Rightarrow> db \<Rightarrow> run_status_row option" where
  "active_run_status rid d = Option.bind (find_run rid d) (\<lambda>_.
     List.find (\<lambda>s. rs_run_id s = rid \<and> rs_phase s = ''Active'') (run_status d))"

section \<open>T4 and T8: creating an Attempt\<close>

text \<open>\<^verbatim>\<open>SELECT COALESCE(MAX(ordinal), 0) + 1 FROM attempts WHERE run_id = ?1\<close>\<close>

definition next_ordinal :: "string \<Rightarrow> db \<Rightarrow> int" where
  "next_ordinal rid d = (case filter (\<lambda>a. at_run_id a = rid) (attempts d) of
     [] \<Rightarrow> 1
   | a # as \<Rightarrow> fold max (map at_ordinal as) (at_ordinal a) + 1)"

definition launch_ready :: "attempt_creation \<Rightarrow> unit action" where
  "launch_ready a =
     bindW (query_optional (active_run_status (acn_run_id a))) (\<lambda>run.
     bindW (expectW run (AttemptNotLaunchReady (acn_run_id a)
        (Fmt ''the Run does not exist or is not Active'' []))) (\<lambda>status.
     bindW (requireW (rs_revision status = acn_expected_run_status_revision a)
        (RevisionConflict ''run_status'' (acn_run_id a) (acn_expected_run_status_revision a)
           (Some (rs_revision status)))) (\<lambda>_.
     bindW (query_optional (find_attachment (acn_run_id a))) (\<lambda>attached.
     bindW (requireW (attached \<noteq> None) (AttemptNotLaunchReady (acn_run_id a)
        (Fmt ''no ContextPlan is attached; the Run is not LaunchReady'' []))) (\<lambda>_.
     bindW (query_optional (\<lambda>d. List.find (\<lambda>s. as_run_id s = acn_run_id a \<and> as_terminal s = 0) (attempt_status d))) (\<lambda>live.
     case live of
       None \<Rightarrow> returnW ()
     | Some s \<Rightarrow> writer_fail (AttemptNotLaunchReady (acn_run_id a)
         (Fmt ''nonterminal attempt {live} already owns this Run'' [FStr (as_attempt_id s)]))))))))"

definition attempt_rows_of :: "attempt_creation \<Rightarrow> int \<Rightarrow> string \<Rightarrow> int \<Rightarrow> attempt_row \<times> attempt_status_row \<times> session_row" where
  "attempt_rows_of a n generation t =
     (\<lparr>at_id = acn_attempt_id a, at_run_id = acn_run_id a, at_ordinal = n,
       at_launch_key = acn_launch_key a, at_created_at = t\<rparr>,
      \<lparr>as_attempt_id = acn_attempt_id a, as_run_id = acn_run_id a, as_observed_execution = ''ABSENT'',
       as_terminal = 0, as_revision = 1, as_launch_contact_state = ''NOT_CONTACTED'',
       as_launch_contact_initiated_at = None, as_launch_contact_epoch = None, as_started_at = None,
       as_finished_at = None, as_updated_at = t\<rparr>,
      \<lparr>acs_id = acn_session_id a, acs_attempt_id = acn_attempt_id a, acs_restore_generation = generation,
       acs_credential_revision = 1, acs_credential_hash = acn_credential_verifier a,
       acs_credential_rekeyed_at = None, acs_state = ''ACTIVE'', acs_created_at = t,
       acs_revoked_at = None, acs_revocation_reason = None\<rparr>)"

definition no_identity :: store_error where
  "no_identity = InvariantViolated (Fmt ''system_state has no installation identity row'' [])"

definition apply_attempt_creation :: "attempt_creation \<Rightarrow> attempt_created action" where
  "apply_attempt_creation a =
     bindW (launch_ready a) (\<lambda>_.
     bindW (query_row (\<lambda>d. Some (next_ordinal (acn_run_id a) d))
        (\<lambda>n. if is_i64 n then Inr n else Inl InvalidColumnType)) (\<lambda>n.
     bindW (someW n (InvariantViolated (Fmt ''ordinal aggregation returned no row'' []))) (\<lambda>n.
     bindW (query_optional select_restore_generation) (\<lambda>generation.
     bindW (someW generation no_identity) (\<lambda>generation.
     bindW now (\<lambda>t.
     (case attempt_rows_of a n generation t of (attempt, status, session) \<Rightarrow>
     bindW (execute (insert_into attempts_update attempt)) (\<lambda>_.
     bindW (execute (insert_into attempt_status_update status)) (\<lambda>_.
     bindW (execute (insert_into agent_control_sessions_update session)) (\<lambda>_.
     bindW (update_revisioned_by run_status_table (acn_run_id a) (acn_expected_run_status_revision a)
        [(''current_attempt_id'', \<lambda>r. r\<lparr>rs_current_attempt_id := Some (acn_attempt_id a)\<rparr>)]) (\<lambda>_.
     returnW \<lparr>acd_attempt_id = acn_attempt_id a, acd_run_id = acn_run_id a, acd_ordinal = n,
       acd_launch_key = acn_launch_key a, acd_session_id = acn_session_id a,
       acd_restore_generation = generation\<rparr>))))))))))) "

definition create_attempt ::
    "command \<Rightarrow> attempt_creation \<Rightarrow> store \<Rightarrow> (store_error, attempt_created committed) res \<times> store" where
  "create_attempt c a = execute_command c (apply_attempt_creation a)"

section \<open>T4a: rekeying before contact\<close>

text \<open>
  The current-attempt read of an Active Run: \<open>current_attempt_id\<close> is fetched as text, so a null
  pointer is a column-type error rather than an absence.
\<close>

definition active_pointer :: "string option \<Rightarrow> string option action" where
  "active_pointer rid = query_row (\<lambda>d. Option.bind rid (\<lambda>rid.
       List.find (\<lambda>s. rs_run_id s = rid \<and> rs_phase s = ''Active'') (run_status d)))
     (\<lambda>s. not_null (rs_current_attempt_id s))"

definition rekey_forbidden :: "string \<Rightarrow> message \<Rightarrow> store_error" where
  "rekey_forbidden attempt_id detail = AgentControlRekeyForbidden attempt_id detail"

definition no_longer_current :: message where
  "no_longer_current = Fmt ''the Attempt is no longer the Run's current one under an Active Run'' []"

text \<open>\<open>str::split_once\<close>; the generation and the state are read as one text joined by \<open>|\<close>.\<close>

fun split_once :: "char \<Rightarrow> string \<Rightarrow> (string \<times> string) option" where
  "split_once c [] = None"
| "split_once c (x # xs) =
     (if x = c then Some ([], xs) else map_option (\<lambda>(a, b). (x # a, b)) (split_once c xs))"

definition bound_session :: "string \<Rightarrow> db \<Rightarrow> string option" where
  "bound_session attempt_id d = map_option (\<lambda>r. acs_restore_generation r @ ''|'' @ acs_state r)
     (find_session attempt_id d)"

definition forbid_rekey_unless_precontact :: "string \<Rightarrow> unit action" where
  "forbid_rekey_unless_precontact attempt_id =
     bindW (query_optional (find_attempt_status attempt_id)) (\<lambda>facts.
     bindW (expectW facts (rekey_forbidden attempt_id (Fmt ''the Attempt does not exist'' []))) (\<lambda>st.
     bindW (requireW (as_terminal st = 0) (rekey_forbidden attempt_id (Fmt ''the Attempt is terminal'' []))) (\<lambda>_.
     bindW (requireW (as_launch_contact_state st = launch_contact_as_str NotContacted)
        (rekey_forbidden attempt_id (Fmt ''launch contact is {contact_text}; the credential revision is frozen''
           [FStr (as_launch_contact_state st)]))) (\<lambda>_.
     bindW (query_optional select_restore_generation) (\<lambda>generation.
     bindW (expectW generation no_identity) (\<lambda>generation.
     bindW (query_optional (bound_session attempt_id)) (\<lambda>session.
     bindW (expectW session (rekey_forbidden attempt_id
        (Fmt ''the Attempt owns no AgentControlSession'' []))) (\<lambda>bound.
     bindW (someW (split_once (CHR ''|'') bound) (InvariantViolated
        (Fmt ''session generation/state unreadable'' []))) (\<lambda>(bound_generation, state).
     bindW (requireW (state = ''ACTIVE'') (rekey_forbidden attempt_id
        (Fmt ''the session is {state}, not ACTIVE'' [FStr state]))) (\<lambda>_.
     bindW (requireW (bound_generation = generation) (rekey_forbidden attempt_id
        (Fmt ''the session belongs to an older RestoreGeneration'' []))) (\<lambda>_.
     bindW (\<lambda>w. active_pointer (map_option at_run_id (find_attempt attempt_id (tx w))) w) (\<lambda>current.
     requireW (current = Some attempt_id) (rekey_forbidden attempt_id no_longer_current)))))))))))))"

text \<open>\<^verbatim>\<open>UPDATE agent_control_sessions SET credential_revision = credential_revision + 1, \<dots>\<close>\<close>

definition rekey_statement :: "string \<Rightarrow> byte list \<Rightarrow> int \<Rightarrow> int \<Rightarrow> statement" where
  "rekey_statement attempt_id verifier t expected = (\<lambda>d.
     if \<not> is_i64 (expected + 1) \<and> (\<exists>r \<in> set (agent_control_sessions d). acs_attempt_id r = attempt_id
          \<and> acs_credential_revision r = expected \<and> acs_state r = ''ACTIVE'')
     then Inl DatatypeMismatch
     else update_where agent_control_sessions agent_control_sessions_update
       (\<lambda>r. acs_attempt_id r = attempt_id \<and> acs_credential_revision r = expected \<and> acs_state r = ''ACTIVE'')
       (\<lambda>r. r\<lparr>acs_credential_revision := acs_credential_revision r + 1, acs_credential_hash := verifier,
          acs_credential_rekeyed_at := Some t\<rparr>) d)"

definition apply_rekey :: "string \<Rightarrow> byte list \<Rightarrow> int \<Rightarrow> int action" where
  "apply_rekey attempt_id verifier expected =
     bindW (forbid_rekey_unless_precontact attempt_id) (\<lambda>_.
     bindW now (\<lambda>t.
     bindW (execute (rekey_statement attempt_id verifier t expected)) (\<lambda>affected.
     bindW (if affected = 1 then returnW ()
            else bindW (query_optional (\<lambda>d. map_option acs_credential_revision (find_session attempt_id d))) (\<lambda>actual.
              writer_fail (RevisionConflict ''agent_control_sessions'' attempt_id expected actual))) (\<lambda>_.
     bindW (append_internal_event ''agent-control.session.rekeyed'') (\<lambda>_.
     returnW (expected + 1))))))"

definition rekey_agent_control_session ::
    "string \<Rightarrow> byte list \<Rightarrow> int \<Rightarrow> store \<Rightarrow> (store_error, int) res \<times> store" where
  "rekey_agent_control_session attempt_id verifier expected = run (apply_rekey attempt_id verifier expected)"

section \<open>T4b: the launch-contact marker\<close>

definition stale_contact :: "string \<Rightarrow> message \<Rightarrow> store_error" where
  "stale_contact attempt_id detail = LaunchContactStaleAuthority attempt_id detail"

definition current_credential :: "string \<Rightarrow> db \<Rightarrow> int option" where
  "current_credential attempt_id d = Option.bind (select_restore_generation d) (\<lambda>generation.
     map_option acs_credential_revision (List.find (\<lambda>r. acs_attempt_id r = attempt_id
       \<and> acs_state r = ''ACTIVE'' \<and> acs_restore_generation r = generation) (agent_control_sessions d)))"

definition contact_assignments :: "string \<Rightarrow> int \<Rightarrow> attempt_status_row assignment list" where
  "contact_assignments epoch t =
     [(''launch_contact_state'', \<lambda>r. r\<lparr>as_launch_contact_state := launch_contact_as_str ContactMayHaveOccurred\<rparr>),
      (''launch_contact_initiated_at'', \<lambda>r. r\<lparr>as_launch_contact_initiated_at := Some t\<rparr>),
      (''launch_contact_epoch'', \<lambda>r. r\<lparr>as_launch_contact_epoch := Some epoch\<rparr>),
      (''updated_at'', \<lambda>r. r\<lparr>as_updated_at := t\<rparr>)]"

definition apply_launch_contact :: "string \<Rightarrow> string \<Rightarrow> string \<Rightarrow> int \<Rightarrow> int \<Rightarrow> unit action" where
  "apply_launch_contact run_id attempt_id epoch expected_status expected_credential =
     bindW (query_optional (\<lambda>d. List.find (\<lambda>s. as_attempt_id s = attempt_id \<and> as_run_id s = run_id
        \<and> as_terminal s = 0) (attempt_status d))) (\<lambda>status.
     bindW (expectW status (stale_contact attempt_id
        (Fmt ''the Attempt is absent, foreign to the Run, or terminal'' []))) (\<lambda>st.
     if as_launch_contact_state st = launch_contact_as_str ContactMayHaveOccurred then returnW ()
     else
       bindW (active_pointer (Some run_id)) (\<lambda>current.
       bindW (requireW (current = Some attempt_id) (stale_contact attempt_id no_longer_current)) (\<lambda>_.
       bindW (query_optional (current_credential attempt_id)) (\<lambda>session_revision.
       bindW (requireW (session_revision \<noteq> None) (stale_contact attempt_id
          (Fmt ''no current-generation ACTIVE session exists'' []))) (\<lambda>_.
       bindW (requireW (session_revision = Some expected_credential) (stale_contact attempt_id
          (Fmt ''session credential revision is {:?}, not the expected {expected_credential_revision}''
             [FInt (the session_revision), FInt expected_credential]))) (\<lambda>_.
       bindW now (\<lambda>t.
       bindW (update_revisioned_by attempt_status_table attempt_id expected_status (contact_assignments epoch t)) (\<lambda>_.
       bindW (append_internal_event ''run.attempt.contact-initiated'') (\<lambda>_.
       returnW ()))))))))))"

definition mark_launch_contact ::
    "string \<Rightarrow> string \<Rightarrow> string \<Rightarrow> int \<Rightarrow> int \<Rightarrow> store \<Rightarrow> (store_error, unit) res \<times> store" where
  "mark_launch_contact run_id attempt_id epoch expected_status expected_credential =
     run (apply_launch_contact run_id attempt_id epoch expected_status expected_credential)"

section \<open>Observations\<close>

datatype observation_update = Observe observation | TerminalUpdate observation

definition observe_assignments :: "observation \<Rightarrow> int \<Rightarrow> attempt_status_row assignment list" where
  "observe_assignments obs t =
     [(''observed_execution'', \<lambda>r. r\<lparr>as_observed_execution := observation_as_str obs\<rparr>),
      (''updated_at'', \<lambda>r. r\<lparr>as_updated_at := t\<rparr>)]"

definition terminal_assignments :: "observation \<Rightarrow> int \<Rightarrow> attempt_status_row assignment list" where
  "terminal_assignments obs t =
     [(''observed_execution'', \<lambda>r. r\<lparr>as_observed_execution := observation_as_str obs\<rparr>),
      (''terminal'', \<lambda>r. r\<lparr>as_terminal := 1\<rparr>),
      (''finished_at'', \<lambda>r. r\<lparr>as_finished_at := Some t\<rparr>),
      (''updated_at'', \<lambda>r. r\<lparr>as_updated_at := t\<rparr>)]"

definition stamp_started :: "string \<Rightarrow> int \<Rightarrow> statement" where
  "stamp_started attempt_id t = update_where attempt_status attempt_status_update
     (\<lambda>r. as_attempt_id r = attempt_id)
     (\<lambda>r. r\<lparr>as_started_at := Some (case as_started_at r of None \<Rightarrow> t | Some t0 \<Rightarrow> t0)\<rparr>)"

definition revoke_session :: "string \<Rightarrow> int \<Rightarrow> statement" where
  "revoke_session attempt_id t = update_where agent_control_sessions agent_control_sessions_update
     (\<lambda>r. acs_attempt_id r = attempt_id \<and> acs_state r = ''ACTIVE'')
     (\<lambda>r. r\<lparr>acs_state := ''REVOKED'', acs_revoked_at := Some t,
        acs_revocation_reason := Some (case acs_revocation_reason r of None \<Rightarrow> ''attempt-terminal'' | Some x \<Rightarrow> x)\<rparr>)"

definition apply_observe :: "string \<Rightarrow> int \<Rightarrow> observation \<Rightarrow> int \<Rightarrow> int action" where
  "apply_observe attempt_id expected obs t =
     bindW (requireW (obs \<noteq> ObsExited) (InvariantViolated
        (Fmt ''EXITED is definitive; use the terminal update'' []))) (\<lambda>_.
     bindW (update_revisioned_by attempt_status_table attempt_id expected (observe_assignments obs t)) (\<lambda>n.
     bindW (if obs = ObsStarting \<or> obs = ObsRunning
            then bindW (execute (stamp_started attempt_id t)) (\<lambda>_. returnW ()) else returnW ()) (\<lambda>_.
     returnW n)))"

definition apply_terminal :: "string \<Rightarrow> int \<Rightarrow> observation \<Rightarrow> int \<Rightarrow> int action" where
  "apply_terminal attempt_id expected obs t =
     bindW (query_optional (\<lambda>d. map_option as_launch_contact_state (find_attempt_status attempt_id d))) (\<lambda>contact.
     bindW (requireW (contact = Some (launch_contact_as_str ContactMayHaveOccurred)) (InvariantViolated
        (Fmt ''attempt {attempt_id} cannot terminalize while launch contact is not proven ({detail})''
           [FStr attempt_id, FStr (case contact of None \<Rightarrow> ''absent'' | Some c \<Rightarrow> c)]))) (\<lambda>_.
     bindW (update_revisioned_by attempt_status_table attempt_id expected (terminal_assignments obs t)) (\<lambda>n.
     bindW (execute (revoke_session attempt_id t)) (\<lambda>_.
     bindW (append_internal_event ''run.attempt.terminal'') (\<lambda>_.
     returnW n)))))"

definition apply_observation :: "string \<Rightarrow> int \<Rightarrow> observation_update \<Rightarrow> int action" where
  "apply_observation attempt_id expected upd =
     bindW now (\<lambda>t. case upd of
         Observe obs \<Rightarrow> apply_observe attempt_id expected obs t
       | TerminalUpdate obs \<Rightarrow> apply_terminal attempt_id expected obs t)"

definition record_execution_observation ::
    "string \<Rightarrow> int \<Rightarrow> observation_update \<Rightarrow> store \<Rightarrow> (store_error, int) res \<times> store" where
  "record_execution_observation attempt_id expected upd = run (apply_observation attempt_id expected upd)"

section \<open>Concluding a Run\<close>

definition conclude_assignments :: "string \<Rightarrow> int \<Rightarrow> run_status_row assignment list" where
  "conclude_assignments target t =
     [(''phase'', \<lambda>r. r\<lparr>rs_phase := target\<rparr>),
      (''terminal_target'', \<lambda>r. r\<lparr>rs_terminal_target := Some target\<rparr>),
      (''active_slot'', \<lambda>r. r\<lparr>rs_active_slot := None\<rparr>),
      (''updated_at'', \<lambda>r. r\<lparr>rs_updated_at := t\<rparr>)]"

definition apply_conclude_run :: "string \<Rightarrow> string \<Rightarrow> int \<Rightarrow> unit action" where
  "apply_conclude_run run_id target expected =
     bindW (requireW (target = ''Failed'' \<or> target = ''Cancelled'') (InvariantViolated
        (Fmt ''terminal target {terminal_target} cannot conclude a Run directly'' [FStr target]))) (\<lambda>_.
     bindW now (\<lambda>t.
     bindW (update_revisioned_by run_status_table run_id expected (conclude_assignments target t)) (\<lambda>_.
     bindW (append_internal_event ''run.concluded'') (\<lambda>_.
     returnW ()))))"

definition conclude_run :: "string \<Rightarrow> string \<Rightarrow> int \<Rightarrow> store \<Rightarrow> (store_error, unit) res \<times> store" where
  "conclude_run run_id target expected = run (apply_conclude_run run_id target expected)"

section \<open>Reads\<close>

definition lineage_rows :: "string \<Rightarrow> db \<Rightarrow> (attempt_status_row \<times> attempt_row \<times> session_row) list" where
  "lineage_rows run_id d =
     [(st, a, acs). st \<leftarrow> attempt_status d, a \<leftarrow> attempts d, acs \<leftarrow> agent_control_sessions d,
        at_id a = as_attempt_id st \<and> acs_attempt_id acs = at_id a \<and> as_run_id st = run_id \<and> as_terminal st = 0]"

definition load_current_lineage :: "string \<Rightarrow> db \<Rightarrow> (store_error, attempt_lineage option) res" where
  "load_current_lineage run_id d = (case lineage_rows run_id d of
     [] \<Rightarrow> Inr None
   | [(st, a, acs)] \<Rightarrow>
       bindR (ok_or (observation_parse (as_observed_execution st)) (InvariantViolated (Fmt
          ''attempt {attempt_id} stores unparsable observation {observed}''
          [FStr (at_id a), FStr (as_observed_execution st)]))) (\<lambda>obs.
       bindR (ok_or (launch_contact_parse (as_launch_contact_state st)) (InvariantViolated (Fmt
          ''attempt {attempt_id} stores unparsable contact state'' [FStr (at_id a)]))) (\<lambda>contact.
       bindR (ensure (acs_state acs = ''ACTIVE'') (InvariantViolated (Fmt
          ''nonterminal attempt {attempt_id} has a {session_state} session''
          [FStr (at_id a), FStr (acs_state acs)]))) (\<lambda>_.
       Inr (Some \<lparr>al_attempt = \<lparr>atr_id = at_id a, atr_run_id = run_id, atr_ordinal = at_ordinal a,
              atr_launch_key = at_launch_key a\<rparr>,
            al_observed_execution = obs, al_terminal = (as_terminal st \<noteq> 0),
            al_launch_contact_state = contact, al_status_revision = as_revision st,
            al_session = \<lparr>sv_id = acs_id acs, sv_attempt_id = at_id a,
              sv_restore_generation = acs_restore_generation acs,
              sv_credential_revision = acs_credential_revision acs, sv_state = acs_state acs\<rparr>\<rparr>))))
   | rows \<Rightarrow> Inl (InvariantViolated (Fmt
       ''run {run_id} has {n} nonterminal attempts; the partial unique index makes this unreachable without schema tampering''
       [FStr run_id, FInt (int (length rows))])))"

definition read_run_execution_view :: "string \<Rightarrow> db \<Rightarrow> (store_error, run_execution_view option) res" where
  "read_run_execution_view run_id d = (case (find_run run_id d, find_run_status run_id d) of
     (Some r, Some s) \<Rightarrow>
       bindR (load_current_lineage run_id d) (\<lambda>attempt.
       bindR (digest_from (ru_binding_digest r) ''binding_digest'') (\<lambda>binding.
       bindR (digest_from (ru_context_source_snapshot_digest r) ''context_source_snapshot_digest'') (\<lambda>source.
       bindR (case find_attachment run_id d of
           None \<Rightarrow> Inr None
         | Some p \<Rightarrow> bindR (digest_from (rcp_context_plan_digest p) ''context_plan_digest'') (\<lambda>x. Inr (Some x))) (\<lambda>plan_digest.
       Inr (Some \<lparr>rv_run_id = run_id, rv_task_id = ru_task_id r, rv_binding_digest = binding,
         rv_source_snapshot_digest = source, rv_phase = rs_phase s, rv_revision = rs_revision s,
         rv_current_attempt_id = rs_current_attempt_id s, rv_context_plan_digest = plan_digest,
         rv_attempt = attempt\<rparr>)))))
   | _ \<Rightarrow> Inr None)"

definition nonterminal_run_inventory :: "db \<Rightarrow> run_inventory_entry list" where
  "nonterminal_run_inventory d = map (\<lambda>r. \<lparr>rie_run_id = rs_run_id r, rie_task_id = rs_task_id r,
       rie_phase = rs_phase r, rie_revision = rs_revision r, rie_current_attempt_id = rs_current_attempt_id r\<rparr>)
     (sort_key rs_run_id (filter run_nonterminal (run_status d)))"

definition workspace_readiness :: "string \<Rightarrow> db \<Rightarrow> (string \<times> string) option" where
  "workspace_readiness run_id d =
     Option.bind (find_run run_id d) (\<lambda>r.
     Option.bind (List.find (\<lambda>s. sn_digest s = ru_context_source_snapshot_digest r) (context_source_snapshots d)) (\<lambda>s.
     map_option (\<lambda>ws. (w_phase ws, w_materialization ws)) (find_workspace (sn_workspace_id s) d)))"

definition attempt_history_count :: "string \<Rightarrow> db \<Rightarrow> nat" where
  "attempt_history_count run_id d = length (filter (\<lambda>a. at_run_id a = run_id) (attempts d))"

definition binding_canonical_json :: "digest \<Rightarrow> db \<Rightarrow> string option" where
  "binding_canonical_json digest d = map_option ebr_canonical_json
     (List.find (\<lambda>r. ebr_digest r = as_bytes digest) (execution_bindings d))"

definition attempt_status_revision :: "string \<Rightarrow> db \<Rightarrow> (store_error, int) res" where
  "attempt_status_revision attempt_id d =
     bindR (ok_or (find_attempt_status attempt_id d) (Sqlite QueryReturnedNoRows)) (\<lambda>r. Inr (as_revision r))"

end
