(* ===== verification/Store_Workspace.thy ===== *)
theory Store_Workspace
  imports Store_Execution Workspace Artifact
begin

text \<open>
  Durable Task-owned Workspace authority (\<^verbatim>\<open>crates/pantheon-store/src/workspace.rs\<close>) and the
  revalidation of a seal's execution authority (\<^verbatim>\<open>crates/pantheon-store/src/seal.rs\<close>): the
  lifecycle transitions of a Workspace, each a compare-and-set under the command envelope, and the
  freeze that a live Run must authorise.
\<close>

section \<open>Records\<close>

record workspace_record =
  wk_id :: string
  wk_task_id :: string
  wk_repository :: string
  wk_source_path :: string
  wk_requested_base :: string
  wk_resolved_base :: string
  wk_phase :: workspace_phase
  wk_materialization :: materialization
  wk_revision :: int

record workspace_binding =
  wb_task_id :: string
  wb_repository :: string
  wb_source_path :: string
  wb_requested_base :: string
  wb_resolved_base :: string

record seal_authority =
  sa_run_id :: string
  sa_expected_run_revision :: int

section \<open>Seal authority\<close>

definition digest_ref :: "byte list \<Rightarrow> string" where
  "digest_ref bs = ''0x'' @ concat (map byte_hex bs)"

definition seal_task :: "seal_authority \<Rightarrow> string \<Rightarrow> string \<Rightarrow> task_row action" where
  "seal_task a task_id wid =
     bindW (query_optional (find_task task_id)) (\<lambda>row.
     bindW (expectW row (SealAuthorityInvalid wid (Fmt ''task {task_id} no longer exists'' [FStr task_id]))) (\<lambda>task.
     bindW (requireW (t_phase task = task_phase_as_str TActive) (SealAuthorityInvalid wid (Fmt
        ''task {task_id} is {phase_text}, not Active under a responsible Run'' [FStr task_id, FStr (t_phase task)]))) (\<lambda>_.
     bindW (requireW (t_active_run_id task = Some (sa_run_id a)) (SealAuthorityInvalid wid (Fmt
        (''run {} is not task {task_id}'' @ [CHR 0x27] @ ''s current responsible run ({current})'') [FStr (sa_run_id a), FStr task_id,
          FStr (case t_active_run_id task of None \<Rightarrow> ''none'' | Some r \<Rightarrow> r)]))) (\<lambda>_.
     returnW task))))"

definition seal_run :: "seal_authority \<Rightarrow> string \<Rightarrow> string \<Rightarrow> run_row action" where
  "seal_run a task_id wid =
     bindW (query_optional (find_run (sa_run_id a))) (\<lambda>row.
     bindW (expectW row (SealAuthorityInvalid wid (Fmt ''run {} does not exist'' [FStr (sa_run_id a)]))) (\<lambda>r.
     bindW (requireW (ru_task_id r = task_id) (SealAuthorityInvalid wid (Fmt
        ''run {} belongs to task {run_task_id}, not {task_id}''
        [FStr (sa_run_id a), FStr (ru_task_id r), FStr task_id]))) (\<lambda>_.
     bindW (query_optional (find_run_status (sa_run_id a))) (\<lambda>status.
     bindW (expectW status (InvariantViolated (Fmt ''run {} has no status row'' [FStr (sa_run_id a)]))) (\<lambda>st.
     bindW (requireW (rs_phase st = ''Active'' \<or> rs_phase st = ''Finalizing'') (SealAuthorityInvalid wid (Fmt
        ''run {} is terminal ({run_phase})'' [FStr (sa_run_id a), FStr (rs_phase st)]))) (\<lambda>_.
     bindW (requireW (rs_revision st = sa_expected_run_revision a) (SealAuthorityInvalid wid (Fmt
        ''run {} moved: authority was read at revision {}, found {run_revision}''
        [FStr (sa_run_id a), FInt (sa_expected_run_revision a), FInt (rs_revision st)]))) (\<lambda>_.
     returnW r)))))))"

definition find_snapshot :: "byte list \<Rightarrow> db \<Rightarrow> source_snapshot_row option" where
  "find_snapshot digest d = List.find (\<lambda>r. sn_digest r = digest) (context_source_snapshots d)"

definition seal_frozen :: "seal_authority \<Rightarrow> task_row \<Rightarrow> run_row \<Rightarrow> string \<Rightarrow> string \<Rightarrow> unit action" where
  "seal_frozen a task r task_id wid =
     bindW (query_optional (find_snapshot (ru_context_source_snapshot_digest r))) (\<lambda>row.
     bindW (expectW row (InvariantViolated (Fmt ''run {} names source snapshot {:?} which is not stored''
        [FStr (sa_run_id a), FStr (digest_ref (ru_context_source_snapshot_digest r))]))) (\<lambda>s.
     bindW (requireW (sn_task_spec_digest s = t_spec_digest task) (SealAuthorityInvalid wid (Fmt
        ''run {} froze task-spec digest {:?} but task {task_id} stores a different one''
        [FStr (sa_run_id a), FStr (digest_ref (sn_task_spec_digest s)), FStr task_id]))) (\<lambda>_.
     bindW (requireW (sn_workspace_id s = wid) (SealAuthorityInvalid wid (Fmt
        ''run {} is bound to workspace {frozen_workspace_id}, not {workspace_id}''
        [FStr (sa_run_id a), FStr (sn_workspace_id s), FStr wid]))) (\<lambda>_.
     bindW (query_optional (find_workspace wid)) (\<lambda>ws.
     bindW (expectW ws (InvariantViolated (Fmt ''workspace {workspace_id} disappeared inside its own transaction''
        [FStr wid]))) (\<lambda>ws.
     requireW (w_resolved_base ws = sn_workspace_resolved_base s) (SealAuthorityInvalid wid (Fmt
        ''run {} is bound to base {frozen_base:?} but workspace {workspace_id} resolved to {workspace_base:?}''
        [FStr (sa_run_id a), FStr (sn_workspace_resolved_base s), FStr wid, FStr (w_resolved_base ws)]))))))))"

definition find_spec :: "byte list \<Rightarrow> db \<Rightarrow> task_spec_row option" where
  "find_spec digest d = List.find (\<lambda>r. tsp_digest r = digest) (task_specs d)"

definition seal_output :: "task_row \<Rightarrow> string \<Rightarrow> string \<Rightarrow> unit action" where
  "seal_output task slot wid =
     bindW (query_optional (find_spec (t_spec_digest task))) (\<lambda>row.
     bindW (expectW row (InvariantViolated (Fmt (''the task'' @ [CHR 0x27] @ ''s stored specification is not present'') []))) (\<lambda>row.
     bindW (case task_from_canonical_json (tsp_canonical_json row) of
         Inr spec \<Rightarrow> returnW spec
       | Inl (TaskDecodeError detail) \<Rightarrow> errW (InvariantViolated (Fmt
           (''the task'' @ [CHR 0x27] @ ''s stored specification cannot be decoded: {detail}'') [FMsg detail]))) (\<lambda>spec.
     bindW (expectW (List.find (\<lambda>x. to_name x = slot) (tk_outputs spec)) (SealAuthorityInvalid wid (Fmt
        ''no such output slot {output_slot:?}'' [FStr slot]))) (\<lambda>out.
     requireW (to_kind out = code_changeset_kind) (SealAuthorityInvalid wid (Fmt
        ''output slot {output_slot:?} permits {}, not {CODE_CHANGESET_KIND}''
        [FStr slot, FStr (to_kind out), FStr code_changeset_kind]))))))"

definition validate_seal_authority :: "seal_authority \<Rightarrow> string \<Rightarrow> string \<Rightarrow> string \<Rightarrow> unit action" where
  "validate_seal_authority a task_id slot wid =
     bindW (seal_task a task_id wid) (\<lambda>task.
     bindW (seal_run a task_id wid) (\<lambda>r.
     bindW (seal_frozen a task r task_id wid) (\<lambda>_.
     seal_output task slot wid)))"

section \<open>Reading a Workspace\<close>

fun base_error_display :: "base_error \<Rightarrow> message" where
  "base_error_display (NotAnObjectName v) =
     Fmt ''{value:?} is not a lowercase hexadecimal object name of 40 or 64 characters'' [FStr v]"
| "base_error_display (NotARefName v reason) =
     Fmt ''{value:?} is not a usable ref name: {reason}'' [FStr v, FStr reason]"

definition parse_requested :: "string \<Rightarrow> string \<Rightarrow> (store_error, string) res" where
  "parse_requested v wid = (case requested_base_parse v of
     Inr b \<Rightarrow> Inr b
   | Inl e \<Rightarrow> Inl (InvariantViolated (Fmt ''workspace {workspace_id} has an unusable requested base: {err}''
       [FStr wid, FMsg (base_error_display e)])))"

definition parse_resolved :: "string \<Rightarrow> string \<Rightarrow> (store_error, string) res" where
  "parse_resolved v wid = (case resolved_base_parse v of
     Inr b \<Rightarrow> Inr b
   | Inl e \<Rightarrow> Inl (InvariantViolated (Fmt ''workspace {workspace_id} has an unusable resolved base: {err}''
       [FStr wid, FMsg (base_error_display e)])))"

definition unknown_workspace_phase :: "string \<Rightarrow> string \<Rightarrow> store_error" where
  "unknown_workspace_phase wid phase =
     InvariantViolated (Fmt ''workspace {workspace_id} has unknown phase {phase}'' [FStr wid, FStr phase])"

definition unknown_materialization :: "string \<Rightarrow> string \<Rightarrow> store_error" where
  "unknown_materialization wid m =
     InvariantViolated (Fmt ''workspace {workspace_id} has unknown materialization {materialization}'' [FStr wid, FStr m])"

definition decode_workspace :: "workspace_row \<Rightarrow> (store_error, workspace_record) res" where
  "decode_workspace r =
     bindR (parse_requested (w_requested_base r) (w_id r)) (\<lambda>requested.
     bindR (parse_resolved (w_resolved_base r) (w_id r)) (\<lambda>resolved.
     bindR (ok_or (workspace_phase_parse (w_phase r)) (unknown_workspace_phase (w_id r) (w_phase r))) (\<lambda>phase.
     bindR (ok_or (materialization_parse (w_materialization r))
        (unknown_materialization (w_id r) (w_materialization r))) (\<lambda>m.
     Inr \<lparr>wk_id = w_id r, wk_task_id = w_task_id r, wk_repository = w_repository r,
       wk_source_path = w_source_path r, wk_requested_base = requested, wk_resolved_base = resolved,
       wk_phase = phase, wk_materialization = m, wk_revision = w_revision r\<rparr>))))"

definition read_in_transaction :: "string \<Rightarrow> workspace_record action" where
  "read_in_transaction wid =
     bindW (query_optional (find_workspace wid)) (\<lambda>row.
     bindW (someW row (InvariantViolated (Fmt ''workspace {workspace_id} disappeared inside its own transaction''
        [FStr wid]))) (\<lambda>r.
     liftW (decode_workspace r)))"

definition current_workspace :: "string \<Rightarrow> db \<Rightarrow> workspace_row option" where
  "current_workspace task_id d =
     List.find (\<lambda>r. w_task_id r = task_id \<and> w_phase r \<noteq> workspace_phase_as_str WReleased) (workspaces d)"

definition workspace_for_task :: "string \<Rightarrow> db \<Rightarrow> (store_error, workspace_record option) res" where
  "workspace_for_task task_id d = (case current_workspace task_id d of
     None \<Rightarrow> Inr None
   | Some r \<Rightarrow> bindR (decode_workspace r) (\<lambda>x. Inr (Some x)))"

definition read_workspace_record :: "string \<Rightarrow> db \<Rightarrow> (store_error, workspace_record option) res" where
  "read_workspace_record wid d = (case find_workspace wid d of
     None \<Rightarrow> Inr None
   | Some r \<Rightarrow> bindR (decode_workspace r) (\<lambda>x. Inr (Some x)))"

section \<open>Transitions\<close>

definition workspace_moved :: "string \<Rightarrow> int \<Rightarrow> int option \<Rightarrow> store_error" where
  "workspace_moved wid expected actual = RevisionConflict ''workspaces'' wid expected actual"

definition workspace_assignments ::
    "workspace_phase \<Rightarrow> materialization \<Rightarrow> workspace_row assignment list" where
  "workspace_assignments phase m =
     [(''phase'', \<lambda>r. r\<lparr>w_phase := workspace_phase_as_str phase\<rparr>),
      (''materialization'', \<lambda>r. r\<lparr>w_materialization := materialization_as_str m\<rparr>)]"

definition workspace_transition ::
    "string \<Rightarrow> int \<Rightarrow> workspace_phase \<Rightarrow> materialization \<Rightarrow> workspace_record action" where
  "workspace_transition wid expected phase m =
     bindW (update_revisioned_by workspaces_table wid expected (workspace_assignments phase m)) (\<lambda>revision.
     bindW (read_in_transaction wid) (\<lambda>r.
     returnW (r\<lparr>wk_revision := revision\<rparr>)))"

definition holder_phase :: "string \<Rightarrow> task_phase action" where
  "holder_phase task_id =
     bindW (query_optional (find_task task_id)) (\<lambda>row.
     bindW (expectW row (WorkspaceHolderIneligible task_id ''Absent'')) (\<lambda>task.
     someW (task_phase_parse (t_phase task)) (InvariantViolated
        (Fmt ''task {task_id} has unknown phase {phase}'' [FStr task_id, FStr (t_phase task)]))))"

definition workspace_phase_and_base :: "string \<Rightarrow> int \<Rightarrow> (workspace_phase \<times> string) action" where
  "workspace_phase_and_base wid expected =
     bindW (query_optional (find_workspace wid)) (\<lambda>row.
     bindW (expectW row (workspace_moved wid expected None)) (\<lambda>r.
     bindW (requireW (w_revision r = expected) (workspace_moved wid expected (Some (w_revision r)))) (\<lambda>_.
     bindW (someW (workspace_phase_parse (w_phase r)) (unknown_workspace_phase wid (w_phase r))) (\<lambda>phase.
     bindW (liftW (parse_resolved (w_resolved_base r) wid)) (\<lambda>base.
     returnW (phase, base))))))"

definition new_workspace_row :: "string \<Rightarrow> workspace_binding \<Rightarrow> int \<Rightarrow> workspace_row" where
  "new_workspace_row wid b t =
     \<lparr>w_id = wid, w_task_id = wb_task_id b, w_repository = wb_repository b,
      w_source_path = wb_source_path b, w_requested_base = wb_requested_base b,
      w_resolved_base = wb_resolved_base b, w_phase = workspace_phase_as_str WRequested,
      w_materialization = materialization_as_str MAbsent, w_revision = 1, w_created_at = t\<rparr>"

definition open_workspace_body :: "string \<Rightarrow> workspace_binding \<Rightarrow> workspace_record action" where
  "open_workspace_body wid b =
     bindW (holder_phase (wb_task_id b)) (\<lambda>phase.
     bindW (requireW (phase = TReady) (WorkspaceHolderIneligible (wb_task_id b) (task_phase_as_str phase))) (\<lambda>_.
     bindW (query_optional (current_workspace (wb_task_id b))) (\<lambda>existing.
     bindW (case existing of
         None \<Rightarrow> returnW ()
       | Some r \<Rightarrow> writer_fail (WorkspaceAlreadyCurrent (wb_task_id b) (w_id r))) (\<lambda>_.
     bindW now (\<lambda>t.
     bindW (execute (insert_into workspaces_update (new_workspace_row wid b t))) (\<lambda>_.
     returnW \<lparr>wk_id = wid, wk_task_id = wb_task_id b, wk_repository = wb_repository b,
       wk_source_path = wb_source_path b, wk_requested_base = wb_requested_base b,
       wk_resolved_base = wb_resolved_base b, wk_phase = WRequested,
       wk_materialization = MAbsent, wk_revision = 1\<rparr>))))))"

definition open_workspace ::
    "command \<Rightarrow> string \<Rightarrow> workspace_binding \<Rightarrow> store \<Rightarrow> (store_error, workspace_record committed) res \<times> store" where
  "open_workspace c wid b = execute_command c (open_workspace_body wid b)"

definition not_yet_mutable :: "string \<Rightarrow> workspace_phase \<Rightarrow> unit action" where
  "not_yet_mutable wid phase = requireW (\<not> has_been_mutable phase)
     (WorkspaceNotRematerializable wid (workspace_phase_as_str phase))"

definition begin_materialization_body :: "string \<Rightarrow> int \<Rightarrow> workspace_record action" where
  "begin_materialization_body wid expected =
     bindW (workspace_phase_and_base wid expected) (\<lambda>(phase, _).
     bindW (not_yet_mutable wid phase) (\<lambda>_.
     workspace_transition wid expected WMaterializing MUnknown))"

definition begin_workspace_materialization ::
    "command \<Rightarrow> string \<Rightarrow> int \<Rightarrow> store \<Rightarrow> (store_error, workspace_record committed) res \<times> store" where
  "begin_workspace_materialization c wid expected = execute_command c (begin_materialization_body wid expected)"

definition complete_materialization_body :: "string \<Rightarrow> int \<Rightarrow> string \<Rightarrow> workspace_record action" where
  "complete_materialization_body wid expected verified =
     bindW (workspace_phase_and_base wid expected) (\<lambda>(phase, bound).
     bindW (requireW (phase = WMaterializing) (InvariantViolated (Fmt
        ''workspace {workspace_id} is {phase} and cannot become Ready''
        [FStr wid, FStr (workspace_phase_as_str phase)]))) (\<lambda>_.
     bindW (requireW (bound = verified) (WorkspaceBaseMismatch wid bound verified)) (\<lambda>_.
     workspace_transition wid expected WReady MPresent)))"

definition complete_workspace_materialization ::
    "command \<Rightarrow> string \<Rightarrow> int \<Rightarrow> string \<Rightarrow> store \<Rightarrow> (store_error, workspace_record committed) res \<times> store" where
  "complete_workspace_materialization c wid expected verified =
     execute_command c (complete_materialization_body wid expected verified)"

definition fail_materialization_body :: "string \<Rightarrow> int \<Rightarrow> materialization \<Rightarrow> workspace_record action" where
  "fail_materialization_body wid expected observed =
     bindW (requireW (observed \<noteq> MPresent) (InvariantViolated (Fmt
        ''workspace {workspace_id} cannot record Present materialization on a failure path'' [FStr wid]))) (\<lambda>_.
     bindW (workspace_phase_and_base wid expected) (\<lambda>(phase, _).
     bindW (not_yet_mutable wid phase) (\<lambda>_.
     workspace_transition wid expected WError observed)))"

definition fail_workspace_materialization ::
    "command \<Rightarrow> string \<Rightarrow> int \<Rightarrow> materialization \<Rightarrow> store \<Rightarrow> (store_error, workspace_record committed) res \<times> store" where
  "fail_workspace_materialization c wid expected observed =
     execute_command c (fail_materialization_body wid expected observed)"

section \<open>Freezing\<close>

definition freezable :: "string \<Rightarrow> string \<Rightarrow> int \<Rightarrow> unit action" where
  "freezable task_id wid expected =
     bindW (query_optional (find_workspace wid)) (\<lambda>row.
     bindW (expectW row (workspace_moved wid expected None)) (\<lambda>r.
     bindW (requireW (w_task_id r = task_id) (SealAuthorityInvalid wid (Fmt
        ''the workspace is owned by {owner}, not {task_id}'' [FStr (w_task_id r), FStr task_id]))) (\<lambda>_.
     bindW (someW (workspace_phase_parse (w_phase r)) (unknown_workspace_phase wid (w_phase r))) (\<lambda>phase.
     bindW (someW (materialization_parse (w_materialization r))
        (unknown_materialization wid (w_materialization r))) (\<lambda>m.
     requireW (phase = WReady \<and> m = MPresent)
        (WorkspaceNotFreezable wid (workspace_phase_as_str phase) (materialization_as_str m)))))))"

definition freeze_body :: "seal_authority \<Rightarrow> string \<Rightarrow> string \<Rightarrow> string \<Rightarrow> int \<Rightarrow> workspace_record action" where
  "freeze_body a task_id slot wid expected =
     bindW (freezable task_id wid expected) (\<lambda>_.
     bindW (validate_seal_authority a task_id slot wid) (\<lambda>_.
     workspace_transition wid expected WFrozen MPresent))"

definition freeze_workspace ::
    "command \<Rightarrow> seal_authority \<Rightarrow> string \<Rightarrow> string \<Rightarrow> string \<Rightarrow> int \<Rightarrow> store \<Rightarrow>
     (store_error, workspace_record committed) res \<times> store" where
  "freeze_workspace c a task_id slot wid expected = execute_command c (freeze_body a task_id slot wid expected)"

definition at_revision :: "string \<Rightarrow> int \<Rightarrow> workspace_record action" where
  "at_revision wid expected =
     bindW (read_in_transaction wid) (\<lambda>r.
     bindW (requireW (wk_revision r = expected) (workspace_moved wid expected (Some (wk_revision r)))) (\<lambda>_.
     returnW r))"

definition validate_seal_body :: "seal_authority \<Rightarrow> string \<Rightarrow> string \<Rightarrow> string \<Rightarrow> int \<Rightarrow> workspace_record action" where
  "validate_seal_body a task_id slot wid expected =
     bindW (at_revision wid expected) (\<lambda>r.
     bindW (requireW (wk_task_id r = task_id) (SealAuthorityInvalid wid (Fmt
        ''the workspace is owned by {}, not {task_id}'' [FStr (wk_task_id r), FStr task_id]))) (\<lambda>_.
     bindW (requireW (wk_phase r = WFrozen \<and> wk_materialization r = MPresent)
        (WorkspaceNotFreezable wid (workspace_phase_as_str (wk_phase r))
          (materialization_as_str (wk_materialization r)))) (\<lambda>_.
     bindW (validate_seal_authority a task_id slot wid) (\<lambda>_.
     returnW r))))"

definition validate_seal_authority_command ::
    "command \<Rightarrow> seal_authority \<Rightarrow> string \<Rightarrow> string \<Rightarrow> string \<Rightarrow> int \<Rightarrow> store \<Rightarrow>
     (store_error, workspace_record committed) res \<times> store" where
  "validate_seal_authority_command c a task_id slot wid expected =
     execute_command c (validate_seal_body a task_id slot wid expected)"

definition capture_failure_body :: "string \<Rightarrow> int \<Rightarrow> workspace_record action" where
  "capture_failure_body wid expected =
     bindW (at_revision wid expected) (\<lambda>r.
     bindW (requireW (wk_phase r = WFrozen) (InvariantViolated (Fmt
        ''capture failure may only be recorded against a frozen workspace, and {workspace_id} is {}''
        [FStr wid, FStr (workspace_phase_as_str (wk_phase r))]))) (\<lambda>_.
     returnW r))"

definition record_capture_failure ::
    "command \<Rightarrow> string \<Rightarrow> int \<Rightarrow> store \<Rightarrow> (store_error, workspace_record committed) res \<times> store" where
  "record_capture_failure c wid expected = execute_command c (capture_failure_body wid expected)"

end
