(* ===== verification/Store_Context.thy ===== *)
theory Store_Context
  imports Store_Workspace
begin

text \<open>
  Durable context plans (\<^verbatim>\<open>crates/pantheon-store/src/context.rs\<close>): T3a, the one-time attachment of
  a content-addressed plan to its Run, and the reads preparation reconstructs frozen sources
  through.
\<close>

section \<open>Records\<close>

record run_record =
  rur_id :: string
  rur_task_id :: string
  rur_binding_digest :: digest
  rur_context_source_snapshot_digest :: digest

record run_context_plan_record =
  rp_run_id :: string
  rp_context_source_snapshot_digest :: digest
  rp_context_plan_digest :: digest

record goal_revision_content =
  gc_goal_id :: string
  gc_revision :: int
  gc_content_digest :: digest
  gc_canonical_json :: string

record context_plan_attachment =
  ca_at_run_id :: string
  ca_source_snapshot_digest :: digest
  ca_plan_digest :: digest
  ca_builder_version :: string
  ca_plan_canonical_json :: string

record attached_context_plan =
  acp_run_id :: string
  acp_context_plan_digest :: digest

section \<open>Reads\<close>

definition read_run :: "string \<Rightarrow> db \<Rightarrow> (store_error, run_record option) res" where
  "read_run run_id d = (case find_run run_id d of
     None \<Rightarrow> Inr None
   | Some r \<Rightarrow>
       bindR (digest_from (ru_binding_digest r) ''binding_digest'') (\<lambda>binding.
       bindR (digest_from (ru_context_source_snapshot_digest r) ''context_source_snapshot_digest'') (\<lambda>source.
       Inr (Some \<lparr>rur_id = run_id, rur_task_id = ru_task_id r, rur_binding_digest = binding,
         rur_context_source_snapshot_digest = source\<rparr>))))"

definition read_run_context_plan :: "string \<Rightarrow> db \<Rightarrow> (store_error, run_context_plan_record option) res" where
  "read_run_context_plan run_id d = (case find_attachment run_id d of
     None \<Rightarrow> Inr None
   | Some r \<Rightarrow>
       bindR (digest_from (rcp_context_source_snapshot_digest r) ''context_source_snapshot_digest'') (\<lambda>source.
       bindR (digest_from (rcp_context_plan_digest r) ''context_plan_digest'') (\<lambda>attached.
       Inr (Some \<lparr>rp_run_id = run_id, rp_context_source_snapshot_digest = source,
         rp_context_plan_digest = attached\<rparr>))))"

definition context_source_snapshot_json :: "digest \<Rightarrow> db \<Rightarrow> string option" where
  "context_source_snapshot_json digest d = map_option sn_canonical_json (find_snapshot (as_bytes digest) d)"

definition configuration_component_json :: "sha256 \<Rightarrow> digest \<Rightarrow> db \<Rightarrow> (store_error, (string \<times> string) option) res" where
  "configuration_component_json sha digest d = (case find_component (as_bytes digest) d of
     None \<Rightarrow> Inr None
   | Some r \<Rightarrow>
       bindR (ensure (digest_of sha (cfc_canonical_json r) = digest) (InvariantViolated (Fmt
          ''{domain} component content no longer hashes to {digest}'' [FStr (cfc_domain r), FStr (display digest)]))) (\<lambda>_.
       Inr (Some (cfc_domain r, cfc_canonical_json r))))"

definition revision_agents_component_json :: "int \<Rightarrow> db \<Rightarrow> (store_error, string option) res" where
  "revision_agents_component_json n d =
     (case [(r, c). r \<leftarrow> configuration_revisions d, c \<leftarrow> configuration_components d,
        cfc_digest c = cr_agents_digest r \<and> cr_activation_sequence r = n \<and> cfc_domain c = ''agents''] of
       [] \<Rightarrow> Inr None
     | (r, c) # _ \<Rightarrow>
         bindR (ensure (cr_activation_sequence r = n) (InvariantViolated (Fmt
            ''configuration revision lookup returned sequence {sequence}, not {activation_sequence}''
            [FInt (cr_activation_sequence r), FInt n]))) (\<lambda>_.
         Inr (Some (cfc_canonical_json c))))"

definition read_goal_revision_content :: "string \<Rightarrow> int \<Rightarrow> db \<Rightarrow> (store_error, goal_revision_content option) res" where
  "read_goal_revision_content goal_id n d = (case find_goal_revision goal_id n d of
     None \<Rightarrow> Inr None
   | Some r \<Rightarrow> bindR (digest_from (gr_content_digest r) ''content_digest'') (\<lambda>digest.
       Inr (Some \<lparr>gc_goal_id = goal_id, gc_revision = n, gc_content_digest = digest,
         gc_canonical_json = gr_canonical_json r\<rparr>)))"

section \<open>T3a: attaching a plan\<close>

text \<open>Renders a stored digest inside an error: a malformed one is its own error.\<close>

definition fail_with_digest :: "byte list \<Rightarrow> message \<Rightarrow> (digest \<Rightarrow> store_error) \<Rightarrow> 'a action" where
  "fail_with_digest bs malformed e =
     (if length bs = 32 then writer_fail (e (Digest bs)) else errW (InvariantViolated malformed))"

definition attachment_source :: "context_plan_attachment \<Rightarrow> unit action" where
  "attachment_source a =
     bindW (query_optional (find_run (ca_at_run_id a))) (\<lambda>row.
     bindW (expectW row (RunNotFound (ca_at_run_id a))) (\<lambda>r.
     if ru_context_source_snapshot_digest r = as_bytes (ca_source_snapshot_digest a) then returnW ()
     else fail_with_digest (ru_context_source_snapshot_digest r)
       (Fmt ''run {} stores a malformed snapshot digest'' [FStr (ca_at_run_id a)])
       (\<lambda>frozen. ContextSourceMismatch (ca_at_run_id a) (display frozen) (display (ca_source_snapshot_digest a)))))"

definition plan_row :: "context_plan_attachment \<Rightarrow> int \<Rightarrow> context_plan_row" where
  "plan_row a t = \<lparr>cpl_digest = as_bytes (ca_plan_digest a),
     cpl_source_snapshot_digest = as_bytes (ca_source_snapshot_digest a),
     cpl_builder_version = ca_builder_version a, cpl_canonical_json = ca_plan_canonical_json a,
     cpl_created_at = t\<rparr>"

definition find_plan :: "byte list \<Rightarrow> db \<Rightarrow> context_plan_row option" where
  "find_plan digest d = List.find (\<lambda>r. cpl_digest r = digest) (context_plans d)"

definition attachment_plan :: "sha256 \<Rightarrow> context_plan_attachment \<Rightarrow> unit action" where
  "attachment_plan sha a = (let computed = digest_of sha (ca_plan_canonical_json a) in
     bindW (requireW (computed = ca_plan_digest a)
        (ContentIdentityConflict ''context_plans'' (display (ca_plan_digest a)) (Fmt
          (''the plan'' @ [CHR 0x27] @ ''s canonical bytes hash to {computed}, not the claimed {}'')
          [FStr (display computed), FStr (display (ca_plan_digest a))]))) (\<lambda>_.
     bindW (execute_now (\<lambda>t. insert_or_ignore context_plans context_plans_update check_context_plan
        cpl_digest (plan_row a t))) (\<lambda>_.
     bindW (query_optional (find_plan (as_bytes (ca_plan_digest a)))) (\<lambda>stored.
     bindW (expectW stored (InvariantViolated (Fmt
        ''context_plans insert reported success but the row is unreadable'' []))) (\<lambda>p.
     bindW (requireW (cpl_canonical_json p = ca_plan_canonical_json a)
        (ContentIdentityConflict ''context_plans'' (display (ca_plan_digest a)) (Fmt
          ''an existing plan row under this digest holds different canonical content'' []))) (\<lambda>_.
     requireW (cpl_source_snapshot_digest p = as_bytes (ca_source_snapshot_digest a)) (InvariantViolated (Fmt
        ''context_plans row pairs the claimed digest with another source snapshot'' []))))))))"

definition attachment_row :: "context_plan_attachment \<Rightarrow> int \<Rightarrow> run_context_plan_row" where
  "attachment_row a t = \<lparr>rcp_run_id = ca_at_run_id a,
     rcp_context_source_snapshot_digest = as_bytes (ca_source_snapshot_digest a),
     rcp_context_plan_digest = as_bytes (ca_plan_digest a), rcp_attached_at = t\<rparr>"

definition apply_attachment :: "sha256 \<Rightarrow> context_plan_attachment \<Rightarrow> attached_context_plan action" where
  "apply_attachment sha a =
     bindW (attachment_source a) (\<lambda>_.
     bindW (attachment_plan sha a) (\<lambda>_.
     bindW (query_optional (find_attachment (ca_at_run_id a))) (\<lambda>existing.
     bindW (case existing of
         Some r \<Rightarrow>
           if rcp_context_plan_digest r = as_bytes (ca_plan_digest a) then returnW ()
           else fail_with_digest (rcp_context_plan_digest r)
             (Fmt ''run {} has a malformed attached plan digest'' [FStr (ca_at_run_id a)])
             (\<lambda>attached. RunContextPlanConflict (ca_at_run_id a) (display attached) (display (ca_plan_digest a)))
       | None \<Rightarrow>
           bindW (execute_now (\<lambda>t. insert_into run_context_plans_update (attachment_row a t))) (\<lambda>_. returnW ())) (\<lambda>_.
     returnW \<lparr>acp_run_id = ca_at_run_id a, acp_context_plan_digest = ca_plan_digest a\<rparr>))))"

definition attach_run_context_plan ::
    "sha256 \<Rightarrow> command \<Rightarrow> context_plan_attachment \<Rightarrow> store \<Rightarrow>
     (store_error, attached_context_plan committed) res \<times> store" where
  "attach_run_context_plan sha c a = execute_command c (apply_attachment sha a)"

end
