(* ===== verification/Store_Artifacts.thy ===== *)
theory Store_Artifacts
  imports Store_Context
begin

text \<open>
  Publication of a sealed change set (\<^verbatim>\<open>crates/pantheon-store/src/artifacts.rs\<close>): inside one
  transaction the freeze and the Run authority are proved again, the immutable blob, checkpoint
  and Artifact rows are reused after verification or created once, and the production record
  binds the content to the execution that produced it.
\<close>

record sealed_changeset =
  sl_workspace_id :: string
  sl_task_id :: string
  sl_fence_revision :: int
  sl_authority :: seal_authority
  sl_output_slot :: string
  sl_repository :: string
  sl_resolved_base :: string
  sl_revision_state_digest :: digest
  sl_revision_state_json :: string
  sl_artifact_digest :: digest
  sl_artifact_json :: string
  sl_members :: "(digest \<times> int) list"
  sl_producer :: "string option"

record seal_outcome =
  so_workspace_revision_id :: string
  so_artifact_reused :: bool

record artifact_record =
  afr_digest :: digest
  afr_kind :: string
  afr_canonical_json :: string

section \<open>Authority\<close>

definition seal_fence :: "sealed_changeset \<Rightarrow> unit action" where
  "seal_fence seal = (let wid = sl_workspace_id seal in
     bindW (query_optional (find_workspace wid)) (\<lambda>row.
     bindW (someW row (workspace_moved wid (sl_fence_revision seal) None)) (\<lambda>r.
     bindW (requireW (w_task_id r = sl_task_id seal) (SealAuthorityInvalid wid (Fmt
        ''the workspace is owned by {owner}, not {}'' [FStr (w_task_id r), FStr (sl_task_id seal)]))) (\<lambda>_.
     bindW (requireW (w_phase r = workspace_phase_as_str WFrozen) (SealAuthorityInvalid wid (Fmt
        ''the freeze did not hold: the workspace is {phase_text}'' [FStr (w_phase r)]))) (\<lambda>_.
     requireW (w_revision r = sl_fence_revision seal) (SealAuthorityInvalid wid (Fmt
        ''the freeze moved: fenced at revision {}, found {revision}''
        [FInt (sl_fence_revision seal), FInt (w_revision r)])))))))"

section \<open>Immutable rows\<close>

definition find_blob :: "byte list \<Rightarrow> db \<Rightarrow> blob_row option" where
  "find_blob digest d = List.find (\<lambda>r. bl_digest r = digest) (blobs d)"

definition ensure_blob :: "unit \<Rightarrow> digest \<times> int \<Rightarrow> unit action" where
  "ensure_blob u member = (case member of (digest, len) \<Rightarrow>
     bindW (someW (if is_i64 len then Some len else None) (InvariantViolated (Fmt
        ''blob size {size} exceeds what SQLite can store'' [FInt len]))) (\<lambda>stored_size.
     bindW (query_optional (find_blob (as_bytes digest))) (\<lambda>existing.
       case existing of
         Some r \<Rightarrow> requireW (bl_size r = stored_size) (ContentIdentityConflict ''blobs'' (display digest) (Fmt
           ''stored size {stored} disagrees with published {size}'' [FInt (bl_size r), FInt len]))
       | None \<Rightarrow>
           bindW (execute_now (\<lambda>t. insert_into blobs_update
             \<lparr>bl_digest = as_bytes digest, bl_size = stored_size, bl_created_at = t\<rparr>)) (\<lambda>_. returnW ()))))"

definition fresh_id :: "string action" where
  "fresh_id = bindW query_randomblob (\<lambda>v.
     someW v (InvariantViolated (Fmt ''could not generate an id'' [])))"

definition find_checkpoint :: "string \<Rightarrow> byte list \<Rightarrow> db \<Rightarrow> workspace_revision_row option" where
  "find_checkpoint wid digest d =
     List.find (\<lambda>r. wr_workspace_id r = wid \<and> wr_state_digest r = digest) (workspace_revisions d)"

definition ensure_checkpoint :: "sealed_changeset \<Rightarrow> string action" where
  "ensure_checkpoint seal =
     bindW (query_optional (find_checkpoint (sl_workspace_id seal) (as_bytes (sl_revision_state_digest seal)))) (\<lambda>found.
       case found of
         Some r \<Rightarrow> returnW (wr_id r)
       | None \<Rightarrow>
           bindW fresh_id (\<lambda>new_id.
           bindW (execute_now (\<lambda>t. insert_into workspace_revisions_update
             \<lparr>wr_id = new_id, wr_workspace_id = sl_workspace_id seal, wr_repository = sl_repository seal,
              wr_resolved_base = sl_resolved_base seal,
              wr_state_digest = as_bytes (sl_revision_state_digest seal),
              wr_canonical_json = sl_revision_state_json seal, wr_created_at = t\<rparr>)) (\<lambda>_.
           returnW new_id)))"

definition find_artifact :: "byte list \<Rightarrow> db \<Rightarrow> artifact_row option" where
  "find_artifact digest d = List.find (\<lambda>r. ar_digest r = digest) (artifacts d)"

definition ensure_artifact :: "sealed_changeset \<Rightarrow> bool action" where
  "ensure_artifact seal =
     bindW (query_optional (find_artifact (as_bytes (sl_artifact_digest seal)))) (\<lambda>found.
       case found of
         Some r \<Rightarrow>
           bindW (requireW (ar_artifact_kind r = code_changeset_kind \<and> ar_canonical_json r = sl_artifact_json seal)
             (ContentIdentityConflict ''artifacts'' (display (sl_artifact_digest seal)) (Fmt
                ''an artifact with this digest holds a different manifest'' []))) (\<lambda>_.
           returnW True)
       | None \<Rightarrow>
           bindW (execute_now (\<lambda>t. insert_into artifacts_update
             \<lparr>ar_digest = as_bytes (sl_artifact_digest seal), ar_artifact_kind = code_changeset_kind,
              ar_canonical_json = sl_artifact_json seal, ar_created_at = t\<rparr>)) (\<lambda>_.
           returnW False))"

definition add_member :: "sealed_changeset \<Rightarrow> unit \<Rightarrow> digest \<times> int \<Rightarrow> unit action" where
  "add_member seal u member =
     bindW (execute (insert_or_ignore artifact_members artifact_members_update (\<lambda>_. True)
        (\<lambda>r. (am_artifact_digest r, am_blob_digest r))
        \<lparr>am_artifact_digest = as_bytes (sl_artifact_digest seal), am_blob_digest = as_bytes (fst member)\<rparr>)) (\<lambda>_.
     returnW ())"

definition find_production :: "string \<Rightarrow> string \<Rightarrow> db \<Rightarrow> production_record_row option" where
  "find_production run_id slot d =
     List.find (\<lambda>r. prr_run_id r = run_id \<and> prr_output_slot r = slot) (production_records d)"

definition record_production :: "sealed_changeset \<Rightarrow> string \<Rightarrow> unit action" where
  "record_production seal checkpoint = (case sl_producer seal of
     None \<Rightarrow> returnW ()
   | Some attempt_id \<Rightarrow>
       bindW (query_optional (find_production (sa_run_id (sl_authority seal)) (sl_output_slot seal))) (\<lambda>found.
         case found of
           Some r \<Rightarrow>
             requireW (prr_task_id r = sl_task_id seal \<and> prr_attempt_id r = attempt_id
                 \<and> prr_workspace_revision_id r = checkpoint
                 \<and> prr_artifact_digest r = as_bytes (sl_artifact_digest seal))
               (ContentIdentityConflict ''production_records''
                  (sa_run_id (sl_authority seal) @ ''/'' @ sl_output_slot seal @ ''/'' @ display (sl_artifact_digest seal))
                  (Fmt ''the run already produced different content for this output slot'' []))
         | None \<Rightarrow>
             bindW (execute_now (\<lambda>t. insert_into production_records_update
               \<lparr>prr_run_id = sa_run_id (sl_authority seal), prr_output_slot = sl_output_slot seal,
                prr_task_id = sl_task_id seal, prr_attempt_id = attempt_id,
                prr_workspace_revision_id = checkpoint,
                prr_artifact_digest = as_bytes (sl_artifact_digest seal), prr_created_at = t\<rparr>)) (\<lambda>_.
             returnW ())))"

definition seal_body :: "sealed_changeset \<Rightarrow> seal_outcome action" where
  "seal_body seal =
     bindW (seal_fence seal) (\<lambda>_.
     bindW (validate_seal_authority (sl_authority seal) (sl_task_id seal) (sl_output_slot seal)
        (sl_workspace_id seal)) (\<lambda>_.
     bindW (foldW ensure_blob () (sl_members seal)) (\<lambda>_.
     bindW (ensure_checkpoint seal) (\<lambda>checkpoint.
     bindW (ensure_artifact seal) (\<lambda>reused.
     bindW (foldW (add_member seal) () (sl_members seal)) (\<lambda>_.
     bindW (record_production seal checkpoint) (\<lambda>_.
     returnW \<lparr>so_workspace_revision_id = checkpoint, so_artifact_reused = reused\<rparr>)))))))"

definition commit_changeset_seal ::
    "command \<Rightarrow> sealed_changeset \<Rightarrow> store \<Rightarrow> (store_error, seal_outcome committed) res \<times> store" where
  "commit_changeset_seal c seal = execute_command c (seal_body seal)"

definition read_artifact :: "digest \<Rightarrow> db \<Rightarrow> artifact_record option" where
  "read_artifact digest d = map_option (\<lambda>r. \<lparr>afr_digest = digest, afr_kind = ar_artifact_kind r,
     afr_canonical_json = ar_canonical_json r\<rparr>) (find_artifact (as_bytes digest) d)"

end
