(* ===== verification/Store_Agent_Control.thy ===== *)
theory Store_Agent_Control
  imports Store_Artifacts Candidate
begin

text \<open>
  Attempt-bound Agent Control persistence (\<^verbatim>\<open>crates/pantheon-store/src/agent_control.rs\<close>): the
  session authentication fence, the request ledger keyed by Attempt and request, and T6, the
  Candidate submission transaction.
\<close>

section \<open>Records\<close>

datatype agent_operation = SealArtifact | SubmitResult

fun agent_operation_as_str :: "agent_operation \<Rightarrow> string" where
  "agent_operation_as_str SealArtifact = ''artifact.seal''"
| "agent_operation_as_str SubmitResult = ''task.submit_result''"

record agent_credential =
  cred_attempt_id :: string
  cred_verifier :: "byte list"

datatype agent_request_state = Started | Succeeded string | Failed string

datatype agent_request_opened = OpenedStarted | Reconciled agent_request_state

record agent_session_description =
  ad_session_id :: string
  ad_attempt_id :: string
  ad_run_id :: string
  ad_task_id :: string
  ad_task_phase :: string
  ad_task_revision :: int
  ad_outputs :: "task_output list"

record candidate_submission =
  csub_credential :: agent_credential
  csub_request_id :: string
  csub_request_hash :: "byte list"
  csub_candidate :: candidate_result
  csub_expected_task_revision :: int

record candidate_committed =
  ccm_candidate_digest :: string
  ccm_task_revision :: int
  ccm_run_revision :: int

record submission_outcome =
  sot_committed :: candidate_committed
  sot_reconciled :: bool

definition request_state_from ::
    "string \<Rightarrow> string option \<Rightarrow> string option \<Rightarrow> (store_error, agent_request_state) res" where
  "request_state_from state result_ref problem_code =
     (if state = ''STARTED'' then Inr Started
      else if state = ''SUCCEEDED'' then
        bindR (ok_or result_ref (InvariantViolated (Fmt
          ''a SUCCEEDED agent request stores no result ref ({state})'' [FStr state]))) (\<lambda>r. Inr (Succeeded r))
      else if state = ''FAILED'' then
        bindR (ok_or problem_code (InvariantViolated (Fmt
          ''a FAILED agent request stores no problem code ({state})'' [FStr state]))) (\<lambda>p. Inr (Failed p))
      else Inl (InvariantViolated (Fmt ''agent_requests stores an unknown state {other:?}'' [FStr state])))"

section \<open>Authentication\<close>

text \<open>
  \<^verbatim>\<open>restore_generation = (SELECT restore_generation FROM system_state WHERE id = 1)\<close> is null, and
  its column unreadable as an integer, when there is no installation row.
\<close>

datatype session_facts = Authorized | SessionAbsent | GenerationFenced | NotActive string | VerifierMismatch

definition session_generation :: "string \<Rightarrow> db \<Rightarrow> (string \<times> bool option) option" where
  "session_generation attempt_id d = map_option (\<lambda>r. (acs_state r,
     map_option (\<lambda>g. acs_restore_generation r = g) (select_restore_generation d))) (find_session attempt_id d)"

definition read_generation :: "string \<times> bool option \<Rightarrow> (sqlite_error, string \<times> bool) res" where
  "read_generation facts = (case facts of (state, current) \<Rightarrow> bindR (not_null current) (\<lambda>c. Inr (state, c)))"

definition judge_session :: "agent_credential \<Rightarrow> session_facts action" where
  "judge_session cred =
     bindW (query_row (session_generation (cred_attempt_id cred)) read_generation) (\<lambda>facts.
       case facts of
         None \<Rightarrow> returnW SessionAbsent
       | Some (state, current) \<Rightarrow>
           if \<not> current then returnW GenerationFenced
           else if state \<noteq> ''ACTIVE'' then returnW (NotActive state)
           else
             bindW (query_optional (\<lambda>d. map_option (\<lambda>r. acs_credential_hash r = cred_verifier cred)
                (find_session (cred_attempt_id cred) d))) (\<lambda>matching.
             returnW (case matching of
                 Some True \<Rightarrow> Authorized
               | Some False \<Rightarrow> VerifierMismatch
               | None \<Rightarrow> SessionAbsent)))"

fun unauthorized_reason :: "session_facts \<Rightarrow> string" where
  "unauthorized_reason Authorized = ''''"
| "unauthorized_reason SessionAbsent = ''no AgentControlSession exists for the Attempt''"
| "unauthorized_reason GenerationFenced = ''the session belongs to an older RestoreGeneration''"
| "unauthorized_reason (NotActive state) =
     (if state = ''REVOKED'' then ''the session is REVOKED'' else ''the session is not ACTIVE'')"
| "unauthorized_reason VerifierMismatch = ''the presented bearer does not match the session verifier''"

definition authenticate_agent_session :: "agent_credential \<Rightarrow> unit action" where
  "authenticate_agent_session cred =
     bindW (judge_session cred) (\<lambda>facts.
       if facts = Authorized then returnW ()
       else errW (AgentControlUnauthorized (cred_attempt_id cred) (unauthorized_reason facts)))"

section \<open>Authenticated reads\<close>

definition read_authentication :: "agent_credential \<Rightarrow> db \<Rightarrow> (store_error, unit) res" where
  "read_authentication cred d = (let unauthorized = AgentControlUnauthorized (cred_attempt_id cred) in
     case session_generation (cred_attempt_id cred) d of
       None \<Rightarrow> Inl (unauthorized ''no AgentControlSession exists for the Attempt'')
     | Some (state, None) \<Rightarrow> Inl (Sqlite InvalidColumnType)
     | Some (state, Some current) \<Rightarrow>
         bindR (ensure current (unauthorized ''the session belongs to an older RestoreGeneration'')) (\<lambda>_.
         bindR (ensure (state = ''ACTIVE'') (unauthorized ''the session is not ACTIVE'')) (\<lambda>_.
         ensure (list_ex (\<lambda>r. acs_attempt_id r = cred_attempt_id cred \<and> acs_credential_hash r = cred_verifier cred)
             (agent_control_sessions d))
           (unauthorized ''the presented bearer does not match the session verifier''))))"

definition agent_submission_context :: "agent_credential \<Rightarrow> db \<Rightarrow> (store_error, string \<times> string) res" where
  "agent_submission_context cred d =
     bindR (read_authentication cred d) (\<lambda>_.
     ok_or (Option.bind (find_attempt (cred_attempt_id cred) d) (\<lambda>a.
         map_option (\<lambda>s. (rs_run_id s, rs_task_id s)) (find_run_status (at_run_id a) d)))
       (SubmissionStaleAuthority (cred_attempt_id cred) (Fmt ''the Attempt has no Run'' [])))"

definition session_lineages :: "string \<Rightarrow> db \<Rightarrow> (session_row \<times> run_status_row \<times> task_row) list" where
  "session_lineages attempt_id d =
     [(acs, rs, t). acs \<leftarrow> agent_control_sessions d, a \<leftarrow> attempts d, st \<leftarrow> attempt_status d,
        rs \<leftarrow> run_status d, t \<leftarrow> tasks d,
        acs_attempt_id acs = attempt_id \<and> at_id a = acs_attempt_id acs
        \<and> as_attempt_id st = at_id a \<and> as_terminal st = 0
        \<and> rs_run_id rs = at_run_id a \<and> rs_phase rs = ''Active''
        \<and> rs_current_attempt_id rs = Some (acs_attempt_id acs)
        \<and> t_id t = rs_task_id rs \<and> t_phase t = ''Active'' \<and> t_active_run_id t = Some (at_run_id a)]"

definition task_decode_display :: "task_decode_error \<Rightarrow> message" where
  "task_decode_display e = (case e of TaskDecodeError detail \<Rightarrow>
     Fmt ''stored task specification is not readable: {}'' [FMsg detail])"

definition decode_spec :: "string \<Rightarrow> (store_error, task_spec) res" where
  "decode_spec json = (case task_from_canonical_json json of
     Inr spec \<Rightarrow> Inr spec
   | Inl e \<Rightarrow> Inl (CandidateInvalid (task_decode_display e)))"

definition describe_agent_session :: "agent_credential \<Rightarrow> db \<Rightarrow> (store_error, agent_session_description) res" where
  "describe_agent_session cred d =
     bindR (read_authentication cred d) (\<lambda>_.
     (case session_lineages (cred_attempt_id cred) d of
       [] \<Rightarrow> Inl (AgentControlUnauthorized (cred_attempt_id cred)
               ''the Attempt no longer carries current Run/Task authority'')
     | (acs, rs, t) # _ \<Rightarrow>
         bindR (ok_or (find_spec (t_spec_digest t) d) (Sqlite QueryReturnedNoRows)) (\<lambda>row.
         bindR (decode_spec (tsp_canonical_json row)) (\<lambda>spec.
         Inr \<lparr>ad_session_id = acs_id acs, ad_attempt_id = cred_attempt_id cred, ad_run_id = rs_run_id rs,
           ad_task_id = t_id t, ad_task_phase = t_phase t, ad_task_revision = t_revision t,
           ad_outputs = tk_outputs spec\<rparr>))))"

section \<open>The request ledger\<close>

definition find_request :: "string \<Rightarrow> string \<Rightarrow> db \<Rightarrow> agent_request_row option" where
  "find_request attempt_id request_id d =
     List.find (\<lambda>r. aq_attempt_id r = attempt_id \<and> aq_request_id r = request_id) (agent_requests d)"

definition existing_request ::
    "agent_credential \<Rightarrow> string \<Rightarrow> byte list \<Rightarrow> agent_request_state option action" where
  "existing_request cred request_id hash =
     bindW (query_optional (find_request (cred_attempt_id cred) request_id)) (\<lambda>found.
       case found of
         None \<Rightarrow> returnW None
       | Some r \<Rightarrow>
           bindW (liftW (request_state_from (aq_state r) (aq_result_ref r) (aq_problem_code r))) (\<lambda>state.
           bindW (requireW (aq_request_hash r = hash) (AgentRequestConflict (cred_attempt_id cred) request_id)) (\<lambda>_.
           returnW (Some state))))"

definition request_row ::
    "agent_credential \<Rightarrow> string \<Rightarrow> byte list \<Rightarrow> agent_operation \<Rightarrow> string \<Rightarrow> string option \<Rightarrow> int \<Rightarrow> agent_request_row" where
  "request_row cred request_id hash op state result_ref t =
     \<lparr>aq_attempt_id = cred_attempt_id cred, aq_request_id = request_id, aq_request_hash = hash,
      aq_operation = agent_operation_as_str op, aq_state = state, aq_result_ref = result_ref,
      aq_problem_code = None, aq_created_at = t, aq_updated_at = t\<rparr>"

definition open_request_body ::
    "agent_credential \<Rightarrow> agent_operation \<Rightarrow> string \<Rightarrow> byte list \<Rightarrow> agent_request_opened action" where
  "open_request_body cred op request_id hash =
     bindW (authenticate_agent_session cred) (\<lambda>_.
     bindW (existing_request cred request_id hash) (\<lambda>existing.
       case existing of
         Some state \<Rightarrow> returnW (Reconciled state)
       | None \<Rightarrow>
           bindW now (\<lambda>t.
           bindW (execute (insert_into agent_requests_update
              (request_row cred request_id hash op ''STARTED'' None t))) (\<lambda>_.
           returnW OpenedStarted))))"

definition open_agent_request ::
    "agent_credential \<Rightarrow> agent_operation \<Rightarrow> string \<Rightarrow> byte list \<Rightarrow> store \<Rightarrow>
     (store_error, agent_request_opened) res \<times> store" where
  "open_agent_request cred op request_id hash = run (open_request_body cred op request_id hash)"

definition settle_request ::
    "(agent_request_row \<Rightarrow> bool) \<Rightarrow> string \<Rightarrow> string option \<Rightarrow> string option \<Rightarrow> int \<Rightarrow> statement" where
  "settle_request p state result_ref problem_code t =
     update_where agent_requests agent_requests_update p
       (\<lambda>r. r\<lparr>aq_state := state, aq_result_ref := result_ref, aq_problem_code := problem_code, aq_updated_at := t\<rparr>)"

definition started_request :: "agent_credential \<Rightarrow> string \<Rightarrow> agent_request_row \<Rightarrow> bool" where
  "started_request cred request_id r \<longleftrightarrow>
     aq_attempt_id r = cred_attempt_id cred \<and> aq_request_id r = request_id \<and> aq_state r = ''STARTED''"

definition complete_request_body :: "agent_credential \<Rightarrow> string \<Rightarrow> string \<Rightarrow> unit action" where
  "complete_request_body cred request_id result_ref =
     bindW (authenticate_agent_session cred) (\<lambda>_.
     bindW now (\<lambda>t.
     bindW (execute (settle_request (started_request cred request_id) ''SUCCEEDED'' (Some result_ref) None t)) (\<lambda>updated.
       if 0 < updated then returnW ()
       else
         bindW (query_optional (find_request (cred_attempt_id cred) request_id)) (\<lambda>current.
           case current of
             Some r \<Rightarrow> requireW (aq_state r = ''SUCCEEDED'') (InvariantViolated (Fmt
               ''agent request {request_id} is {other}; success cannot overwrite it'' [FStr request_id, FStr (aq_state r)]))
           | None \<Rightarrow> writer_fail (InvariantViolated (Fmt
               ''agent request {request_id} has no row to complete'' [FStr request_id]))))))"

definition complete_agent_request ::
    "agent_credential \<Rightarrow> string \<Rightarrow> string \<Rightarrow> store \<Rightarrow> (store_error, unit) res \<times> store" where
  "complete_agent_request cred request_id result_ref = run (complete_request_body cred request_id result_ref)"

definition fail_request_body :: "agent_credential \<Rightarrow> string \<Rightarrow> string \<Rightarrow> unit action" where
  "fail_request_body cred request_id problem_code =
     bindW (authenticate_agent_session cred) (\<lambda>_.
     bindW now (\<lambda>t.
     bindW (execute (settle_request (started_request cred request_id) ''FAILED'' None (Some problem_code) t)) (\<lambda>_.
     returnW ())))"

definition fail_agent_request ::
    "agent_credential \<Rightarrow> string \<Rightarrow> string \<Rightarrow> store \<Rightarrow> (store_error, unit) res \<times> store" where
  "fail_agent_request cred request_id problem_code = run (fail_request_body cred request_id problem_code)"

section \<open>T6: authority\<close>

definition stale_submission :: "candidate_submission \<Rightarrow> message \<Rightarrow> store_error" where
  "stale_submission s detail = SubmissionStaleAuthority (cred_attempt_id (csub_credential s)) detail"

definition t6_attempt :: "candidate_submission \<Rightarrow> string action" where
  "t6_attempt s = (let aid = cred_attempt_id (csub_credential s) in
     bindW (query_optional (\<lambda>d. Option.bind (find_attempt aid d) (\<lambda>a.
        map_option (\<lambda>st. (at_run_id a, as_terminal st)) (find_attempt_status aid d)))) (\<lambda>row.
     bindW (expectW row (stale_submission s (Fmt ''the Attempt does not exist'' []))) (\<lambda>(run_id, terminal).
     bindW (requireW (terminal = 0) (stale_submission s (Fmt ''the Attempt is terminal ({terminal})''
        [FInt terminal]))) (\<lambda>_.
     returnW run_id))))"

definition t6_run :: "candidate_submission \<Rightarrow> string \<Rightarrow> run_status_row action" where
  "t6_run s run_id =
     bindW (query_optional (find_run_status run_id)) (\<lambda>row.
     bindW (expectW row (stale_submission s (Fmt (''the Attempt'' @ [CHR 0x27] @ ''s Run has no status row'') []))) (\<lambda>rs.
     bindW (requireW (rs_phase rs = ''Active'' \<and> rs_active_slot rs \<noteq> None)
        (stale_submission s (Fmt ''the Run is {run_phase}, not Active'' [FStr (rs_phase rs)]))) (\<lambda>_.
     bindW (requireW (rs_current_attempt_id rs = Some (cred_attempt_id (csub_credential s)))
        (stale_submission s (Fmt (''the Attempt is no longer the Run'' @ [CHR 0x27] @ ''s current one'') []))) (\<lambda>_.
     returnW rs))))"

definition goal_phase_of_task :: "string \<Rightarrow> db \<Rightarrow> string option" where
  "goal_phase_of_task task_id d =
     Option.bind (find_task task_id d) (\<lambda>t. map_option g_phase (find_goal (t_goal_id t) d))"

definition t6_task :: "candidate_submission \<Rightarrow> run_status_row \<Rightarrow> task_row action" where
  "t6_task s rs = (let task_id = rs_task_id rs in
     bindW (query_optional (find_task task_id)) (\<lambda>row.
     bindW (expectW row (stale_submission s (Fmt (''the Run'' @ [CHR 0x27] @ ''s Task no longer exists'') []))) (\<lambda>task.
     bindW (requireW (t_phase task = ''Active'')
        (stale_submission s (Fmt ''the Task is {task_phase}, not Active'' [FStr (t_phase task)]))) (\<lambda>_.
     bindW (requireW (t_active_run_id task = Some (rs_run_id rs))
        (stale_submission s (Fmt (''the Task'' @ [CHR 0x27] @ ''s responsible-Run pointer moved'') []))) (\<lambda>_.
     bindW (query_optional (goal_phase_of_task task_id)) (\<lambda>goal_phase.
     bindW (requireW (goal_phase \<in> {Some ''Planning'', Some ''Active'', Some ''Evaluating''})
        (stale_submission s (Fmt ''the Goal is {}; Task submission authority is gone''
          [FStr (case goal_phase of None \<Rightarrow> ''absent'' | Some p \<Rightarrow> p)]))) (\<lambda>_.
     bindW (requireW (t_revision task = csub_expected_task_revision s)
        (RevisionConflict ''tasks'' task_id (csub_expected_task_revision s) (Some (t_revision task)))) (\<lambda>_.
     bindW (requireW (cr_run_id (csub_candidate s) = rs_run_id rs \<and> cr_task_id (csub_candidate s) = task_id)
        (CandidateInvalid (Fmt
          ''the candidate binds task {} run {}, but the authenticated lineage derives task {task_id} run {run_id}''
          [FStr (cr_task_id (csub_candidate s)), FStr (cr_run_id (csub_candidate s)), FStr task_id,
           FStr (rs_run_id rs)]))) (\<lambda>_.
     returnW task)))))))))"

section \<open>T6: the Candidate\<close>

fun candidate_error_display :: "candidate_error \<Rightarrow> message" where
  "candidate_error_display (DuplicateOutputSlot slot) =
     Fmt ''output slot {slot:?} was supplied more than once'' [FStr slot]"
| "candidate_error_display (InvalidOutputSlot slot reason) =
     Fmt ''output slot {slot:?} is invalid: {reason}'' [FStr slot, FStr reason]"
| "candidate_error_display (OutputKindMismatch slot permitted submitted) =
     Fmt ''output slot {slot:?} permits {permitted}, but the submitted Artifact kind is {submitted}''
       [FStr slot, FStr permitted, FStr submitted]"
| "candidate_error_display (UndeclaredOutputSlot slot) =
     Fmt ''output slot {slot:?} is not declared by the specification'' [FStr slot]"
| "candidate_error_display (MissingRequiredOutput slot) =
     Fmt ''required output slot {slot:?} is missing from the submission'' [FStr slot]"

definition candidate_check :: "(candidate_error, unit) res \<Rightarrow> unit action" where
  "candidate_check r = (case r of
     Inr u \<Rightarrow> returnW ()
   | Inl e \<Rightarrow> errW (CandidateInvalid (candidate_error_display e)))"

definition t6_specification :: "candidate_submission \<Rightarrow> task_row \<Rightarrow> task_spec action" where
  "t6_specification s task =
     bindW (query_optional (find_spec (t_spec_digest task))) (\<lambda>row.
     bindW (someW row (InvariantViolated (Fmt (''the task'' @ [CHR 0x27] @ ''s stored specification is not present'') []))) (\<lambda>row.
     bindW (liftW (decode_spec (tsp_canonical_json row))) (\<lambda>spec.
     bindW (candidate_check (validate_against_spec (csub_candidate s) spec)) (\<lambda>_.
     returnW spec))))"

text \<open>
  The payloads a stored manifest names, before and after side of every entry. The code sorts and
  deduplicates them and searches the sorted members, which decides membership.
\<close>

definition side_blob :: "candidate_output \<Rightarrow> cvalue \<Rightarrow> string \<Rightarrow> (store_error, byte list list) res" where
  "side_blob out entry side = (case Option.bind (get entry side) (\<lambda>state. get state ''blob'') of
     Some (VString blob) \<Rightarrow> (case from_display blob of
         Some digest \<Rightarrow> Inr [as_bytes digest]
       | None \<Rightarrow> Inl (CandidateInvalid (Fmt ''artifact {} has an unparsable {side} blob reference''
           [FStr (display (co_artifact out)), FStr side])))
   | _ \<Rightarrow> Inr [])"

definition entry_blobs :: "candidate_output \<Rightarrow> cvalue \<Rightarrow> (store_error, byte list list) res" where
  "entry_blobs out entry =
     bindR (side_blob out entry ''before'') (\<lambda>b.
     bindR (side_blob out entry ''after'') (\<lambda>a. Inr (b @ a)))"

definition referenced_blobs :: "candidate_output \<Rightarrow> string \<Rightarrow> (store_error, byte list list) res" where
  "referenced_blobs out json = (case parse json of
     Inl e \<Rightarrow> Inl (CandidateInvalid (Fmt ''artifact {} does not parse: {error}''
       [FStr (display (co_artifact out)), FMsg (parse_error_display e)]))
   | Inr manifest \<Rightarrow> (case get manifest ''entries'' of
       Some (VArray es) \<Rightarrow> bindR (traverse (entry_blobs out) es) (\<lambda>bs. Inr (concat bs))
     | _ \<Rightarrow> Inl (CandidateInvalid (Fmt ''artifact {} has no readable entries''
         [FStr (display (co_artifact out))]))))"

definition artifact_blobs :: "byte list \<Rightarrow> db \<Rightarrow> byte list list" where
  "artifact_blobs digest d =
     map am_blob_digest (filter (\<lambda>r. am_artifact_digest r = digest) (artifact_members d))"

definition ensure_artifact_complete :: "candidate_output \<Rightarrow> string \<Rightarrow> unit action" where
  "ensure_artifact_complete out json =
     bindW (liftW (referenced_blobs out json)) (\<lambda>referenced.
     bindW (query_all (artifact_blobs (as_bytes (co_artifact out)))) (\<lambda>members.
     if list_all (\<lambda>x. List.member members x) referenced then returnW ()
     else errW (CandidateInvalid (Fmt
       ''artifact {} is incomplete: the manifest references payload absent from its stored members''
       [FStr (display (co_artifact out))]))))"

definition display_digest :: "byte list \<Rightarrow> string" where
  "display_digest bs = (if length bs = 32 then display (Digest bs) else ''<malformed-digest>'')"

text \<open>
  \<open>declared_slot\<close> panics on an undeclared slot, which unwinds through \<open>run\<close> and rolls back;
  \<open>validate_against_spec\<close> has excluded it.
\<close>

definition declared_slot :: "task_spec \<Rightarrow> string \<Rightarrow> task_output action" where
  "declared_slot spec slot = someW (List.find (\<lambda>x. to_name x = slot) (tk_outputs spec)) (InvariantViolated
     (Fmt ''validate_against_spec already proved the slot is declared'' []))"

definition t6_output :: "string \<Rightarrow> task_spec \<Rightarrow> unit \<Rightarrow> candidate_output \<Rightarrow> unit action" where
  "t6_output run_id spec u out =
     bindW (query_optional (find_artifact (as_bytes (co_artifact out)))) (\<lambda>row.
     bindW (expectW row (CandidateInvalid (Fmt ''output {:?} references artifact {} which does not exist''
        [FStr (co_slot out), FStr (display (co_artifact out))]))) (\<lambda>artifact.
     bindW (declared_slot spec (co_slot out)) (\<lambda>slot.
     bindW (candidate_check (kind_permitted slot (ar_artifact_kind artifact))) (\<lambda>_.
     bindW (ensure_artifact_complete out (ar_canonical_json artifact)) (\<lambda>_.
     bindW (query_optional (find_production run_id (co_slot out))) (\<lambda>provenance.
     bindW (expectW provenance (CandidateProvenanceInvalid (Fmt ''run {run_id} has no production record for slot {:?}''
        [FStr run_id, FStr (co_slot out)]))) (\<lambda>p.
     requireW (prr_artifact_digest p = as_bytes (co_artifact out)) (CandidateProvenanceInvalid (Fmt
        ''run {run_id} slot {:?} produced {}, not {}''
        [FStr run_id, FStr (co_slot out), FStr (display_digest (prr_artifact_digest p)),
         FStr (display (co_artifact out))])))))))))"

section \<open>T6: the commit\<close>

definition candidate_digest_of :: "sha256 \<Rightarrow> candidate_submission \<Rightarrow> digest" where
  "candidate_digest_of sha s = candidate_result_digest sha (csub_candidate s)"

definition submitted_row :: "sha256 \<Rightarrow> candidate_submission \<Rightarrow> string \<Rightarrow> string \<Rightarrow> int \<Rightarrow> candidate_row" where
  "submitted_row sha s task_id run_id t =
     \<lparr>ca_digest = as_bytes (candidate_digest_of sha s), ca_task_id = task_id, ca_run_id = run_id,
      ca_canonical_json = to_canonical_bytes (candidate_to_value (csub_candidate s)), ca_created_at = t\<rparr>"

definition add_output :: "sha256 \<Rightarrow> candidate_submission \<Rightarrow> string \<Rightarrow> unit \<Rightarrow> candidate_output \<Rightarrow> unit action" where
  "add_output sha s run_id u out =
     bindW (execute (insert_into candidate_outputs_update
        \<lparr>cao_candidate_digest = as_bytes (candidate_digest_of sha s), cao_output_slot = co_slot out,
         cao_artifact_digest = as_bytes (co_artifact out), cao_production_run_id = run_id\<rparr>)) (\<lambda>_.
     returnW ())"

definition find_candidate_of_run :: "string \<Rightarrow> db \<Rightarrow> candidate_row option" where
  "find_candidate_of_run run_id d = List.find (\<lambda>r. ca_run_id r = run_id) (candidates d)"

definition create_candidate :: "sha256 \<Rightarrow> candidate_submission \<Rightarrow> string \<Rightarrow> string \<Rightarrow> int action" where
  "create_candidate sha s task_id run_id =
     bindW now (\<lambda>t.
     bindW (query_optional (find_candidate_of_run run_id)) (\<lambda>existing.
     bindW (requireW (existing = None) (CandidateExists run_id (display (candidate_digest_of sha s)))) (\<lambda>_.
     bindW (execute (insert_into candidates_update (submitted_row sha s task_id run_id t))) (\<lambda>_.
     bindW (foldW (add_output sha s run_id) () (cr_outputs (csub_candidate s))) (\<lambda>_.
     returnW t)))))"

definition finalize_assignments :: "digest \<Rightarrow> int \<Rightarrow> run_status_row assignment list" where
  "finalize_assignments digest t =
     [(''phase'', \<lambda>r. r\<lparr>rs_phase := ''Finalizing''\<rparr>),
      (''terminal_target'', \<lambda>r. r\<lparr>rs_terminal_target := Some ''Completed''\<rparr>),
      (''candidate_digest'', \<lambda>r. r\<lparr>rs_candidate_digest := Some (as_bytes digest)\<rparr>),
      (''updated_at'', \<lambda>r. r\<lparr>rs_updated_at := t\<rparr>)]"

definition evaluate_assignments :: "task_row assignment list" where
  "evaluate_assignments = [(''phase'', \<lambda>r. r\<lparr>t_phase := ''Evaluating''\<rparr>)]"

definition record_submission :: "sha256 \<Rightarrow> candidate_submission \<Rightarrow> bool \<Rightarrow> int \<Rightarrow> unit action" where
  "record_submission sha s prior t = (let result_ref = display (candidate_digest_of sha s); cred = csub_credential s in
     if prior then
       bindW (execute (settle_request (\<lambda>r. aq_attempt_id r = cred_attempt_id cred \<and> aq_request_id r = csub_request_id s)
          ''SUCCEEDED'' (Some result_ref) None t)) (\<lambda>_. returnW ())
     else
       bindW (execute (insert_into agent_requests_update
          (request_row cred (csub_request_id s) (csub_request_hash s) SubmitResult ''SUCCEEDED'' (Some result_ref) t)))
         (\<lambda>_. returnW ()))"

definition t6_commit :: "sha256 \<Rightarrow> candidate_submission \<Rightarrow> bool \<Rightarrow> submission_outcome action" where
  "t6_commit sha s prior =
     bindW (t6_attempt s) (\<lambda>run_id.
     bindW (t6_run s run_id) (\<lambda>rs.
     bindW (t6_task s rs) (\<lambda>task.
     bindW (t6_specification s task) (\<lambda>spec.
     bindW (foldW (t6_output run_id spec) () (cr_outputs (csub_candidate s))) (\<lambda>_.
     bindW (create_candidate sha s (rs_task_id rs) run_id) (\<lambda>t.
     bindW (update_revisioned_by run_status_table run_id (rs_revision rs)
        (finalize_assignments (candidate_digest_of sha s) t)) (\<lambda>run_revision.
     bindW (update_revisioned_by tasks_table (rs_task_id rs) (csub_expected_task_revision s)
        evaluate_assignments) (\<lambda>task_revision.
     bindW (record_submission sha s prior t) (\<lambda>_.
     bindW (append_internal_event ''candidate.submitted'') (\<lambda>_.
     returnW \<lparr>sot_committed = \<lparr>ccm_candidate_digest = display (candidate_digest_of sha s),
          ccm_task_revision = task_revision, ccm_run_revision = run_revision\<rparr>,
        sot_reconciled = False\<rparr>))))))))))"

definition load_committed_outcome :: "candidate_result \<Rightarrow> digest \<Rightarrow> candidate_committed action" where
  "load_committed_outcome c digest =
     bindW (query_optional (\<lambda>d. List.find (\<lambda>r. ca_digest r = as_bytes digest \<and> ca_run_id r = cr_run_id c) (candidates d))) (\<lambda>row.
     bindW (expectW row (InvariantViolated (Fmt ''an agent request references candidate {} which is not stored''
        [FStr (display digest)]))) (\<lambda>r.
     bindW (requireW (ca_canonical_json r = to_canonical_bytes (candidate_to_value c))
        (ContentIdentityConflict ''agent_requests'' (display digest) (Fmt
          ''a recorded agent-request outcome names a candidate whose content disagrees'' []))) (\<lambda>_.
     bindW (query_optional (\<lambda>d. map_option t_revision (find_task (cr_task_id c) d))) (\<lambda>task_revision.
     bindW (query_optional (\<lambda>d. map_option rs_revision (find_run_status (cr_run_id c) d))) (\<lambda>run_revision.
     returnW \<lparr>ccm_candidate_digest = display digest,
       ccm_task_revision = (case task_revision of None \<Rightarrow> 0 | Some n \<Rightarrow> n),
       ccm_run_revision = (case run_revision of None \<Rightarrow> 0 | Some n \<Rightarrow> n)\<rparr>)))))"

definition apply_candidate_submission :: "sha256 \<Rightarrow> candidate_submission \<Rightarrow> submission_outcome action" where
  "apply_candidate_submission sha s =
     bindW (authenticate_agent_session (csub_credential s)) (\<lambda>_.
     bindW (existing_request (csub_credential s) (csub_request_id s) (csub_request_hash s)) (\<lambda>existing.
       case existing of
         Some (Succeeded result_ref) \<Rightarrow>
           bindW (someW (from_display result_ref) (InvariantViolated (Fmt
              ''agent request stores an unparsable result ref {result_ref}'' [FStr result_ref]))) (\<lambda>digest.
           bindW (load_committed_outcome (csub_candidate s) digest) (\<lambda>committed.
           returnW \<lparr>sot_committed = committed, sot_reconciled = True\<rparr>))
       | Some Started \<Rightarrow> t6_commit sha s True
       | Some (Failed problem_code) \<Rightarrow> t6_commit sha s True
       | None \<Rightarrow> t6_commit sha s False))"

definition submit_candidate ::
    "sha256 \<Rightarrow> candidate_submission \<Rightarrow> store \<Rightarrow> (store_error, submission_outcome) res \<times> store" where
  "submit_candidate sha s = run (apply_candidate_submission sha s)"

end
