(* ===== verification/Store_Sandbox.thy ===== *)
theory Store_Sandbox
  imports Store_Workspace
begin

text \<open>
  Durable Run-owned Sandbox authority (\<^verbatim>\<open>crates/pantheon-store/src/sandbox.rs\<close>): the lifecycle of a
  Sandbox instance, each transition a compare-and-set under the command envelope, and the probe
  evidence kept beside it.
\<close>

section \<open>Records\<close>

record sandbox_record =
  sxr_id :: string
  sxr_run_id :: string
  sxr_sandbox_plan_digest :: "byte list"
  sxr_environment_identity :: string
  sxr_phase :: sandbox_phase
  sxr_observed_presence :: sandbox_presence
  sxr_revision :: int

record sandbox_binding =
  sxb_run_id :: string
  sxb_sandbox_plan_digest :: "byte list"
  sxb_environment_identity :: string

record sandbox_probe_evidence =
  pe_sandbox_id :: string
  pe_run_id :: string
  pe_probe_name :: string
  pe_expected :: string
  pe_observed :: string
  pe_passed :: bool
  pe_backend_descriptor :: string
  pe_backend_version :: string
  pe_platform :: string
  pe_architecture :: string
  pe_probe_implementation_version :: string
  pe_environment_identity :: string
  pe_sandbox_plan_digest :: "byte list"
  pe_launch_decision :: string

section \<open>Reading a Sandbox\<close>

definition find_sandbox :: "string \<Rightarrow> db \<Rightarrow> sandbox_row option" where
  "find_sandbox sid d = List.find (\<lambda>r. sbx_id r = sid) (sandbox_instances d)"

definition current_sandbox :: "string \<Rightarrow> db \<Rightarrow> sandbox_row option" where
  "current_sandbox run_id d =
     List.find (\<lambda>r. sbx_run_id r = run_id \<and> sbx_phase r \<noteq> sandbox_phase_as_str SReleased) (sandbox_instances d)"

text \<open>\<open>named\<close> is the identity the error texts of phase and presence carry: \<open>sandbox_for_run\<close> names
  the Run there.\<close>

definition decode_sandbox :: "string \<Rightarrow> sandbox_row \<Rightarrow> (store_error, sandbox_record) res" where
  "decode_sandbox named r =
     bindR (ensure (length (sbx_sandbox_plan_digest r) = 32) (InvariantViolated (Fmt
        ''sandbox {id} has a malformed plan digest'' [FStr (sbx_id r)]))) (\<lambda>_.
     bindR (ok_or (sandbox_phase_parse (sbx_phase r)) (InvariantViolated (Fmt
        ''sandbox {id} has unknown phase {phase}'' [FStr named, FStr (sbx_phase r)]))) (\<lambda>phase.
     bindR (ok_or (sandbox_presence_parse (sbx_observed_presence r)) (InvariantViolated (Fmt
        ''sandbox {id} has unknown presence {presence}'' [FStr named, FStr (sbx_observed_presence r)]))) (\<lambda>presence.
     Inr \<lparr>sxr_id = sbx_id r, sxr_run_id = sbx_run_id r, sxr_sandbox_plan_digest = sbx_sandbox_plan_digest r,
       sxr_environment_identity = sbx_environment_identity r, sxr_phase = phase,
       sxr_observed_presence = presence, sxr_revision = sbx_revision r\<rparr>)))"

definition read_sandbox_in_transaction :: "string \<Rightarrow> sandbox_record action" where
  "read_sandbox_in_transaction sid =
     bindW (query_optional (find_sandbox sid)) (\<lambda>row.
     bindW (someW row (InvariantViolated (Fmt ''sandbox {sandbox_id} disappeared inside its own transaction''
        [FStr sid]))) (\<lambda>r.
     liftW (decode_sandbox sid r)))"

definition sandbox_for_run :: "string \<Rightarrow> db \<Rightarrow> (store_error, sandbox_record option) res" where
  "sandbox_for_run run_id d = (case current_sandbox run_id d of
     None \<Rightarrow> Inr None
   | Some r \<Rightarrow> bindR (decode_sandbox run_id r) (\<lambda>x. Inr (Some x)))"

definition sandbox_by_id :: "string \<Rightarrow> db \<Rightarrow> (store_error, sandbox_record option) res" where
  "sandbox_by_id sid d = (case find_sandbox sid d of
     None \<Rightarrow> Inr None
   | Some r \<Rightarrow> bindR (decode_sandbox sid r) (\<lambda>x. Inr (Some x)))"

definition nonreleased_sandbox_inventory :: "db \<Rightarrow> (store_error, sandbox_record list) res" where
  "nonreleased_sandbox_inventory d = traverse (\<lambda>r. decode_sandbox (sbx_id r) r)
     (filter (\<lambda>r. sbx_phase r \<noteq> sandbox_phase_as_str SReleased) (sandbox_instances d))"

section \<open>Transitions\<close>

definition sandbox_moved :: "string \<Rightarrow> int \<Rightarrow> int option \<Rightarrow> store_error" where
  "sandbox_moved sid expected actual = RevisionConflict ''sandbox_instances'' sid expected actual"

definition sandbox_phase_at :: "string \<Rightarrow> int \<Rightarrow> sandbox_phase action" where
  "sandbox_phase_at sid expected =
     bindW (query_optional (find_sandbox sid)) (\<lambda>row.
     bindW (expectW row (sandbox_moved sid expected None)) (\<lambda>r.
     bindW (requireW (sbx_revision r = expected) (sandbox_moved sid expected (Some (sbx_revision r)))) (\<lambda>_.
     someW (sandbox_phase_parse (sbx_phase r)) (InvariantViolated (Fmt
        ''sandbox {sandbox_id} has unknown phase {phase}'' [FStr sid, FStr (sbx_phase r)])))))"

definition presence_assignment :: "sandbox_presence \<Rightarrow> sandbox_row assignment" where
  "presence_assignment p = (''observed_presence'', \<lambda>r. r\<lparr>sbx_observed_presence := sandbox_presence_as_str p\<rparr>)"

definition update_sandbox :: "string \<Rightarrow> int \<Rightarrow> sandbox_row assignment list \<Rightarrow> sandbox_record action" where
  "update_sandbox sid expected assignments =
     bindW (update_revisioned_by sandbox_instances_table sid expected assignments) (\<lambda>revision.
     bindW (read_sandbox_in_transaction sid) (\<lambda>r.
     returnW (r\<lparr>sxr_revision := revision\<rparr>)))"

definition sandbox_transition ::
    "string \<Rightarrow> int \<Rightarrow> sandbox_phase \<Rightarrow> sandbox_presence \<Rightarrow> sandbox_record action" where
  "sandbox_transition sid expected phase presence = update_sandbox sid expected
     [(''phase'', \<lambda>r. r\<lparr>sbx_phase := sandbox_phase_as_str phase\<rparr>), presence_assignment presence]"

definition transition_presence :: "string \<Rightarrow> int \<Rightarrow> sandbox_presence \<Rightarrow> sandbox_record action" where
  "transition_presence sid expected presence = update_sandbox sid expected [presence_assignment presence]"

definition new_sandbox_row :: "string \<Rightarrow> sandbox_binding \<Rightarrow> int \<Rightarrow> sandbox_row" where
  "new_sandbox_row key b t =
     \<lparr>sbx_id = key, sbx_run_id = sxb_run_id b, sbx_sandbox_plan_digest = sxb_sandbox_plan_digest b,
      sbx_environment_identity = sxb_environment_identity b, sbx_phase = sandbox_phase_as_str SRequested,
      sbx_observed_presence = sandbox_presence_as_str PAbsent, sbx_revision = 1, sbx_created_at = t,
      sbx_updated_at = t\<rparr>"

definition create_sandbox_body :: "string \<Rightarrow> sandbox_binding \<Rightarrow> sandbox_record action" where
  "create_sandbox_body key b =
     bindW (query_optional (current_sandbox (sxb_run_id b))) (\<lambda>existing.
     bindW (case existing of
         None \<Rightarrow> returnW ()
       | Some r \<Rightarrow> writer_fail (SandboxAlreadyCurrent (sxb_run_id b) (sbx_id r))) (\<lambda>_.
     bindW now (\<lambda>t.
     bindW (execute (insert_into sandbox_instances_update (new_sandbox_row key b t))) (\<lambda>_.
     returnW \<lparr>sxr_id = key, sxr_run_id = sxb_run_id b,
       sxr_sandbox_plan_digest = sxb_sandbox_plan_digest b,
       sxr_environment_identity = sxb_environment_identity b, sxr_phase = SRequested,
       sxr_observed_presence = PAbsent, sxr_revision = 1\<rparr>))))"

definition create_sandbox ::
    "command \<Rightarrow> string \<Rightarrow> sandbox_binding \<Rightarrow> store \<Rightarrow> (store_error, sandbox_record committed) res \<times> store" where
  "create_sandbox c key b = execute_command c (create_sandbox_body key b)"

definition move_sandbox ::
    "string \<Rightarrow> int \<Rightarrow> sandbox_phase \<Rightarrow> sandbox_phase \<Rightarrow> sandbox_presence \<Rightarrow> sandbox_record action" where
  "move_sandbox key expected source target presence =
     bindW (sandbox_phase_at key expected) (\<lambda>phase.
     bindW (requireW (phase = source) (InvariantViolated (Fmt ''sandbox {} is {phase} and cannot become {target}''
        [FStr key, FStr (sandbox_phase_as_str phase), FStr (sandbox_phase_as_str target)]))) (\<lambda>_.
     sandbox_transition key expected target presence))"

definition begin_sandbox_preparation ::
    "command \<Rightarrow> string \<Rightarrow> int \<Rightarrow> store \<Rightarrow> (store_error, sandbox_record committed) res \<times> store" where
  "begin_sandbox_preparation c key expected =
     execute_command c (move_sandbox key expected SRequested SPreparing PUnknown)"

definition complete_sandbox_preparation ::
    "command \<Rightarrow> string \<Rightarrow> int \<Rightarrow> store \<Rightarrow> (store_error, sandbox_record committed) res \<times> store" where
  "complete_sandbox_preparation c key expected =
     execute_command c (move_sandbox key expected SPreparing SReady PPresent)"

definition begin_sandbox_release ::
    "command \<Rightarrow> string \<Rightarrow> int \<Rightarrow> store \<Rightarrow> (store_error, sandbox_record committed) res \<times> store" where
  "begin_sandbox_release c key expected =
     execute_command c (move_sandbox key expected SReady SReleasing PUnknown)"

definition complete_release_body :: "string \<Rightarrow> int \<Rightarrow> sandbox_presence \<Rightarrow> sandbox_record action" where
  "complete_release_body key expected observed =
     bindW (requireW (observed \<noteq> PPresent) (InvariantViolated (Fmt
        ''sandbox {} cannot record Present on a release path'' [FStr key]))) (\<lambda>_.
     move_sandbox key expected SReleasing SReleased observed)"

definition complete_sandbox_release ::
    "command \<Rightarrow> string \<Rightarrow> int \<Rightarrow> sandbox_presence \<Rightarrow> store \<Rightarrow> (store_error, sandbox_record committed) res \<times> store" where
  "complete_sandbox_release c key expected observed =
     execute_command c (complete_release_body key expected observed)"

definition fail_sandbox_body :: "string \<Rightarrow> int \<Rightarrow> sandbox_presence \<Rightarrow> sandbox_record action" where
  "fail_sandbox_body key expected observed =
     bindW (requireW (observed \<noteq> PPresent) (InvariantViolated (Fmt
        ''sandbox {} cannot record Present on a failure path'' [FStr key]))) (\<lambda>_.
     sandbox_transition key expected SError observed)"

definition fail_sandbox ::
    "command \<Rightarrow> string \<Rightarrow> int \<Rightarrow> sandbox_presence \<Rightarrow> store \<Rightarrow> (store_error, sandbox_record committed) res \<times> store" where
  "fail_sandbox c key expected observed = execute_command c (fail_sandbox_body key expected observed)"

definition update_sandbox_presence ::
    "command \<Rightarrow> string \<Rightarrow> int \<Rightarrow> sandbox_presence \<Rightarrow> store \<Rightarrow> (store_error, sandbox_record committed) res \<times> store" where
  "update_sandbox_presence c key expected presence = execute_command c (transition_presence key expected presence)"

section \<open>Probe evidence\<close>

text \<open>\<open>INTEGER PRIMARY KEY\<close> without a value: one more than the largest row identity.\<close>

definition next_rowid :: "db \<Rightarrow> int" where
  "next_rowid d = (case sandbox_probe_results d of
     [] \<Rightarrow> 1
   | r # rs \<Rightarrow> fold max (map prb_id rs) (prb_id r) + 1)"

definition evidence_row :: "sandbox_probe_evidence \<Rightarrow> int \<Rightarrow> int \<Rightarrow> probe_result_row" where
  "evidence_row e rowid t =
     \<lparr>prb_id = rowid, prb_sandbox_id = pe_sandbox_id e, prb_run_id = pe_run_id e,
      prb_probe_name = pe_probe_name e, prb_expected = pe_expected e, prb_observed = pe_observed e,
      prb_passed = of_bool (pe_passed e), prb_backend_descriptor = pe_backend_descriptor e,
      prb_backend_version = pe_backend_version e, prb_platform = pe_platform e,
      prb_architecture = pe_architecture e,
      prb_probe_implementation_version = pe_probe_implementation_version e,
      prb_environment_identity = pe_environment_identity e,
      prb_sandbox_plan_digest = pe_sandbox_plan_digest e, prb_launch_decision = pe_launch_decision e,
      prb_recorded_at = t\<rparr>"

definition insert_evidence :: "sandbox_probe_evidence \<Rightarrow> int \<Rightarrow> statement" where
  "insert_evidence e t = (\<lambda>d. insert_into sandbox_probe_results_update (evidence_row e (next_rowid d) t) d)"

definition probe_evidence_body :: "sandbox_probe_evidence \<Rightarrow> unit action" where
  "probe_evidence_body e =
     bindW now (\<lambda>t.
     bindW (execute (insert_evidence e t)) (\<lambda>_.
     returnW ()))"

definition record_sandbox_probe_evidence ::
    "command \<Rightarrow> sandbox_probe_evidence \<Rightarrow> store \<Rightarrow> (store_error, unit committed) res \<times> store" where
  "record_sandbox_probe_evidence c e = execute_command c (probe_evidence_body e)"

definition read_probe_results :: "string \<Rightarrow> db \<Rightarrow> (store_error, probe_result_row list) res" where
  "read_probe_results sid d =
     traverse (\<lambda>r. if length (prb_sandbox_plan_digest r) = 32 then Inr r else Inl (Sqlite InvalidColumnType))
       (sort_key prb_recorded_at (filter (\<lambda>r. prb_sandbox_id r = sid) (sandbox_probe_results d)))"

end
