(* ===== verification/Store_Operator.thy ===== *)
theory Store_Operator
  imports Store_Execution Parse_Roundtrip
begin

text \<open>
  The read paths of the Operator Control surface (\<^verbatim>\<open>crates/pantheon-store/src/operator.rs\<close>): the
  journal cursor and its wire spelling, the consistent Goal views, and the resumable Event page.
  The lemmas give the round trip of a cursor, and what a page holds over a gap-free journal.
\<close>

section \<open>Cursors\<close>

record cursor =
  cu_journal_epoch :: string
  cu_sequence :: int

definition to_wire :: "cursor \<Rightarrow> string" where
  "to_wire c = cu_journal_epoch c @ '':'' @ int_to_string (cu_sequence c)"

text \<open>\<open>str::parse::<i64>\<close>, which takes one optional sign.\<close>

definition decimal_digits :: "string \<Rightarrow> bool" where
  "decimal_digits ds \<longleftrightarrow> ds \<noteq> [] \<and> list_all is_ascii_digit ds"

definition i64_from_str :: "string \<Rightarrow> int option" where
  "i64_from_str s =
     (let n = (case s of
          [] \<Rightarrow> None
        | c # ds \<Rightarrow>
            if c = CHR ''-'' then (if decimal_digits ds then Some (- int (digits_value ds)) else None)
            else if c = CHR ''+'' then (if decimal_digits ds then Some (int (digits_value ds)) else None)
            else (if decimal_digits s then Some (int (digits_value s)) else None))
      in Option.bind n (\<lambda>n. if is_i64 n then Some n else None))"

definition cursor_parse :: "string \<Rightarrow> cursor option" where
  "cursor_parse s = Option.bind (split_once (CHR '':'') s) (\<lambda>(epoch, seq).
     if epoch = [] then None
     else map_option (\<lambda>n. \<lparr>cu_journal_epoch = epoch, cu_sequence = n\<rparr>) (i64_from_str seq))"

record goal_detail =
  gd_goal :: goal_record
  gd_revision_json :: string
  gd_tasks :: "task_record list"

record goal_snapshot =
  gss_goals :: "goal_record list"
  gss_cursor :: cursor

datatype cursor_error = UnknownEpoch string string | AheadOfJournal int int

section \<open>Views\<close>

definition event_cursor :: "event_row \<Rightarrow> cursor" where
  "event_cursor r = \<lparr>cu_journal_epoch = ej_journal_epoch r, cu_sequence = ej_sequence r\<rparr>"

definition read_head :: "db \<Rightarrow> (store_error, cursor) res" where
  "read_head d = bindR (ok_or (find_current_epoch d) (Sqlite QueryReturnedNoRows)) (\<lambda>r.
     Inr \<lparr>cu_journal_epoch = je_epoch r, cu_sequence = je_next_sequence r - 1\<rparr>)"

definition task_record_of :: "task_row \<Rightarrow> (store_error, task_record) res" where
  "task_record_of r =
     bindR (ok_or (task_phase_parse (t_phase r)) (task_unknown_phase (t_id r))) (\<lambda>phase.
     bindR (digest_from (t_spec_digest r) ''spec_digest'') (\<lambda>digest.
     Inr \<lparr>tr_id = t_id r, tr_goal_id = t_goal_id r, tr_phase = phase,
       tr_created_graph_revision = t_created_graph_revision r, tr_spec_digest = digest,
       tr_revision = t_revision r, tr_active_run_id = t_active_run_id r\<rparr>))"

definition goal_record_of :: "goal_row \<Rightarrow> (store_error, goal_record) res" where
  "goal_record_of r =
     bindR (ok_or (goal_phase_parse (g_phase r)) (goal_unknown_phase (g_id r))) (\<lambda>phase.
     Inr \<lparr>gl_id = g_id r, gl_phase = phase, gl_current_revision = g_current_revision r,
       gl_revision = g_revision r\<rparr>)"

definition read_goal_detail :: "string \<Rightarrow> db \<Rightarrow> (store_error, goal_detail option) res" where
  "read_goal_detail goal_id d = (case find_goal goal_id d of
     None \<Rightarrow> Inr None
   | Some r \<Rightarrow>
       bindR (goal_record_of r) (\<lambda>goal.
       bindR (ok_or (find_goal_revision goal_id (g_current_revision r) d) (InvariantViolated (Fmt
          ''goal {goal_id} revision {current_revision} is not stored''
          [FStr goal_id, FInt (g_current_revision r)]))) (\<lambda>rev.
       bindR (traverse task_record_of (goal_tasks goal_id d)) (\<lambda>ts.
       Inr (Some \<lparr>gd_goal = goal, gd_revision_json = gr_canonical_json rev, gd_tasks = ts\<rparr>)))))"

definition read_goal_snapshot :: "db \<Rightarrow> (store_error, goal_snapshot) res" where
  "read_goal_snapshot d =
     bindR (traverse goal_record_of (sort_key g_id (goals d))) (\<lambda>gs.
     bindR (read_head d) (\<lambda>c.
     Inr \<lparr>gss_goals = gs, gss_cursor = c\<rparr>))"

text \<open>\<open>LIMIT n\<close>: a negative limit is none.\<close>

definition sql_limit :: "int \<Rightarrow> 'a list \<Rightarrow> 'a list" where
  "sql_limit n xs = (if n < 0 then xs else take (nat n) xs)"

definition events_since :: "cursor \<Rightarrow> db \<Rightarrow> event_row list" where
  "events_since c d = sort_key ej_sequence
     (filter (\<lambda>r. ej_journal_epoch r = cu_journal_epoch c \<and> cu_sequence c < ej_sequence r) (event_journal d))"

definition events_after :: "cursor \<Rightarrow> int \<Rightarrow> db \<Rightarrow> (store_error, (cursor_error, event_row list) res) res" where
  "events_after c limit d =
     bindR (read_head d) (\<lambda>head.
     Inr (bindR (ensure (cu_journal_epoch c = cu_journal_epoch head)
            (UnknownEpoch (cu_journal_epoch c) (cu_journal_epoch head))) (\<lambda>_.
          bindR (ensure (cu_sequence c \<le> cu_sequence head)
            (AheadOfJournal (cu_sequence c) (cu_sequence head))) (\<lambda>_.
          Inr (sql_limit limit (events_since c d))))))"

section \<open>The wire spelling\<close>

lemma split_once_append:
  "c \<notin> set a \<Longrightarrow> split_once c (a @ c # b) = Some (a, b)"
  by (induction a) auto

lemma decimal_digits_nat: "decimal_digits (nat_to_string n)"
  using nat_to_string_digits [of _ n]
  by (auto simp: decimal_digits_def list_all_iff is_ascii_digit_def)

lemma i64_from_str_int_to_string: "is_i64 n \<Longrightarrow> i64_from_str (int_to_string n) = Some n"
proof (cases "n < 0")
  case True
  assume "is_i64 n"
  with True show ?thesis
    by (simp add: i64_from_str_def int_to_string_def decimal_digits_nat)
next
  case False
  assume n: "is_i64 n"
  obtain c ds where split: "nat_to_string (nat n) = c # ds" by (cases "nat_to_string (nat n)") auto
  then have "is_ascii_digit c" using decimal_digits_nat [of "nat n"] by (simp add: decimal_digits_def)
  then have "c \<noteq> CHR ''-''" "c \<noteq> CHR ''+''" by (auto simp: is_ascii_digit_def)
  then have "i64_from_str (nat_to_string (nat n)) =
      Option.bind (Some (int (digits_value (nat_to_string (nat n))))) (\<lambda>n. if is_i64 n then Some n else None)"
    using decimal_digits_nat [of "nat n"] unfolding i64_from_str_def split Let_def by simp
  then show ?thesis using False n by (simp add: int_to_string_def)
qed

lemma cursor_roundtrip:
  assumes "cu_journal_epoch c \<noteq> []" "CHR '':'' \<notin> set (cu_journal_epoch c)" "is_i64 (cu_sequence c)"
  shows "cursor_parse (to_wire c) = Some c"
  using assms split_once_append [OF assms(2)]
  by (simp add: cursor_parse_def to_wire_def i64_from_str_int_to_string)

section \<open>What a page holds\<close>

lemma sorted_filter_above:
  "map f xs = map int [1..<Suc n] \<Longrightarrow> m \<le> n \<Longrightarrow>
   map f (filter (\<lambda>x. int m < f x) xs) = map int [Suc m..<Suc n]"
proof -
  assume xs: "map f xs = map int [1..<Suc n]" and m: "m \<le> n"
  have split: "[1..<Suc n] = [1..<Suc m] @ [Suc m..<Suc n]"
    using m by (metis Suc_le_mono le_add1 le_add_diff_inverse plus_1_eq_Suc upt_add_eq_append)
  have "map f (filter (\<lambda>x. int m < f x) xs) = filter (\<lambda>k. int m < k) (map f xs)"
    by (simp add: filter_map o_def)
  also have "\<dots> = filter (\<lambda>k. int m < k) (map int [1..<Suc m]) @ filter (\<lambda>k. int m < k) (map int [Suc m..<Suc n])"
    by (simp only: xs split map_append filter_append)
  also have "filter (\<lambda>k. int m < k) (map int [1..<Suc m]) = []"
    by (auto simp: filter_empty_conv)
  also have "filter (\<lambda>k. int m < k) (map int [Suc m..<Suc n]) = map int [Suc m..<Suc n]"
    by (auto simp: filter_id_conv)
  finally show ?thesis by simp
qed

text \<open>
  Over a gap-free journal the page after a cursor holds exactly the sequences from the next one to
  the head, in order, each once.
\<close>

lemma events_since_complete:
  assumes inv: "journal_inv d" and ok: "schema_ok d" and head: "read_head d = Inr h"
    and c: "cu_journal_epoch c = cu_journal_epoch h" "0 \<le> cu_sequence c" "cu_sequence c \<le> cu_sequence h"
  shows "map ej_sequence (events_since c d)
    = map int [Suc (nat (cu_sequence c))..<Suc (nat (cu_sequence h))]"
proof -
  obtain row where row: "find_current_epoch d = Some row"
    and h: "h = \<lparr>cu_journal_epoch = je_epoch row, cu_sequence = je_next_sequence row - 1\<rparr>"
    using head by (auto simp: read_head_def res_simps)
  have row_in: "row \<in> set (journal_epochs d)"
    using row find_SomeD unfolding find_current_epoch_def by fastforce
  then have pos: "1 \<le> je_next_sequence row"
    using ok by (auto simp: schema_ok_iff checks_ok_def list_all_iff check_journal_epoch_def)
  let ?es = "filter (\<lambda>r. ej_journal_epoch r = je_epoch row) (event_journal d)"
  have "nat (je_next_sequence row) = Suc (nat (cu_sequence h))" using pos h by simp
  with inv row_in have all: "map ej_sequence ?es = map int [1..<Suc (nat (cu_sequence h))]"
    by (auto simp: journal_inv_def epoch_sequences_def)
  let ?fs = "filter (\<lambda>r. int (nat (cu_sequence c)) < ej_sequence r) ?es"
  have fs: "map ej_sequence ?fs = map int [Suc (nat (cu_sequence c))..<Suc (nat (cu_sequence h))]"
    by (rule sorted_filter_above [OF all]) (use c(3) in simp)
  have "sorted (map int [a..<b])" for a b
    by (induction b) (auto simp: sorted_append)
  with fs have "sorted (map ej_sequence ?fs)" by presburger
  then have "sort_key ej_sequence ?fs = ?fs"
    by (rule sort_key_id_if_sorted)
  moreover have "filter (\<lambda>r. ej_journal_epoch r = cu_journal_epoch c \<and> cu_sequence c < ej_sequence r) (event_journal d) = ?fs"
    using c h by (auto intro!: filter_cong)
  ultimately show ?thesis using fs by (simp add: events_since_def)
qed

end
