(* ===== verification/Migrations.thy ===== *)
theory Migrations
  imports Transaction "HOL-Library.Word"
begin

text \<open>
  The migration runner (\<^verbatim>\<open>crates/pantheon-store/src/migrations.rs\<close>, \<open>run_with\<close> and below) and the
  rows the production migrations insert. What SQLite does with the text of one migration is the
  parameter \<open>batch\<close>; the runner's own bookkeeping, its refusal of a database it does not
  recognise and its FNV-1a checksum over 64-bit words are modelled. Each migration commits alone,
  so a failure leaves the prefix that was applied.
\<close>

section \<open>The runner\<close>

record migration =
  mg_version :: int
  mg_name :: string
  mg_sql :: string

record migration_row =
  sm_version :: int
  sm_name :: string
  sm_checksum :: string
  sm_applied_at :: int

record 'd schema =
  user_version :: int
  schema_migrations :: "migration_row list"
  content :: 'd

text \<open>\<^verbatim>\<open>hash ^= u64::from(byte); hash = hash.wrapping_mul(FNV_PRIME)\<close>, printed as \<open>{hash:016x}\<close>.\<close>

definition fnv_offset :: "64 word" where
  "fnv_offset = 0xcbf29ce484222325"

definition fnv_prime :: "64 word" where
  "fnv_prime = 0x00000100000001b3"

definition fnv_step :: "64 word \<Rightarrow> char \<Rightarrow> 64 word" where
  "fnv_step h c = (h XOR of_char c) * fnv_prime"

definition hex16 :: "64 word \<Rightarrow> string" where
  "hex16 h = map (\<lambda>i. from_digit16 (unat (drop_bit (4 * i) h AND 0xF))) (rev [0..<16])"

definition checksum :: "string \<Rightarrow> string" where
  "checksum sql = hex16 (foldl fnv_step fnv_offset sql)"

definition max_known :: "migration list \<Rightarrow> int" where
  "max_known ms = (case ms of [] \<Rightarrow> 0 | _ \<Rightarrow> mg_version (last ms))"

definition verify_row :: "migration list \<Rightarrow> int \<Rightarrow> migration_row \<Rightarrow> (store_error, int) res" where
  "verify_row ms expected r =
     bindR (ensure (sm_version r = expected) (InconsistentMigrationState (Fmt
        ''schema_migrations has a gap: expected version {expected_next}, found {version}''
        [FInt expected, FInt (sm_version r)]))) (\<lambda>_.
     bindR (ok_or (List.find (\<lambda>m. mg_version m = sm_version r) ms) (InconsistentMigrationState (Fmt
        ''schema_migrations records applied version {version}, which is not a migration this build knows''
        [FInt (sm_version r)]))) (\<lambda>m.
     bindR (ensure (sm_checksum r = checksum (mg_sql m)) (InconsistentMigrationState (Fmt
        ''schema_migrations checksum for version {version} does not match the compiled migration''
        [FInt (sm_version r)]))) (\<lambda>_.
     Inr (expected + 1))))"

definition verify_recorded_state :: "migration list \<Rightarrow> 'd schema \<Rightarrow> (store_error, unit) res" where
  "verify_recorded_state ms s =
     bindR (fold_res (verify_row ms) 1 (sort_key sm_version (schema_migrations s))) (\<lambda>next.
     ensure (next - 1 = user_version s) (InconsistentMigrationState (Fmt
        ''PRAGMA user_version={current_version} does not match highest recorded migration {highest_recorded}''
        [FInt (user_version s), FInt (next - 1)])))"

definition apply_one ::
    "(string \<Rightarrow> 'd \<Rightarrow> (sqlite_error, 'd) res) \<Rightarrow> (int \<Rightarrow> int) \<Rightarrow> 'd schema \<Rightarrow> migration \<Rightarrow> (store_error, 'd schema) res" where
  "apply_one batch clock s m = (case batch (mg_sql m) (content s) of
     Inl e \<Rightarrow> Inl (MigrationFailed (mg_version m) (mg_name m) e)
   | Inr d \<Rightarrow>
       if sm_version ` set (schema_migrations s) \<inter> {mg_version m} \<noteq> {}
       then Inl (Sqlite (ConstraintViolation PrimaryKeyConstraint))
       else Inr \<lparr>user_version = mg_version m,
         schema_migrations = schema_migrations s @ [\<lparr>sm_version = mg_version m, sm_name = mg_name m,
           sm_checksum = checksum (mg_sql m), sm_applied_at = clock (mg_version m)\<rparr>],
         content = d\<rparr>)"

text \<open>The loop stops at the first failure; what was committed before it stays.\<close>

fun apply_all ::
    "(string \<Rightarrow> 'd \<Rightarrow> (sqlite_error, 'd) res) \<Rightarrow> (int \<Rightarrow> int) \<Rightarrow> migration list \<Rightarrow> 'd schema \<Rightarrow>
     (store_error, unit) res \<times> 'd schema" where
  "apply_all batch clock [] s = (Inr (), s)"
| "apply_all batch clock (m # ms) s = (case apply_one batch clock s m of
     Inl e \<Rightarrow> (Inl e, s)
   | Inr s' \<Rightarrow> apply_all batch clock ms s')"

definition run_with ::
    "(string \<Rightarrow> 'd \<Rightarrow> (sqlite_error, 'd) res) \<Rightarrow> (int \<Rightarrow> int) \<Rightarrow> migration list \<Rightarrow> 'd schema \<Rightarrow>
     (store_error, unit) res \<times> 'd schema" where
  "run_with batch clock ms s =
     (if user_version s > max_known ms then (Inl (UnsupportedSchemaVersion (user_version s) (max_known ms)), s)
      else (case verify_recorded_state ms s of
          Inl e \<Rightarrow> (Inl e, s)
        | Inr u \<Rightarrow> apply_all batch clock (filter (\<lambda>m. user_version s < mg_version m) ms) s))"

section \<open>What the runner guarantees\<close>

text \<open>
  A migration set is numbered 1, 2, \<dots>; a database records a prefix of it when its version is the
  length of the prefix and its rows name exactly those migrations with their checksums.
\<close>

definition numbered :: "migration list \<Rightarrow> bool" where
  "numbered ms \<longleftrightarrow> map mg_version ms = map int [1..<Suc (length ms)]"

definition row_of :: "migration \<Rightarrow> int \<times> string" where
  "row_of m = (mg_version m, checksum (mg_sql m))"

definition records :: "migration list \<Rightarrow> nat \<Rightarrow> 'd schema \<Rightarrow> bool" where
  "records ms n s \<longleftrightarrow> n \<le> length ms \<and> user_version s = int n
     \<and> map (\<lambda>r. (sm_version r, sm_checksum r)) (schema_migrations s) = map row_of (take n ms)"

lemma numbered_nth: "numbered ms \<Longrightarrow> i < length ms \<Longrightarrow> mg_version (ms ! i) = int (Suc i)"
proof -
  assume n: "numbered ms" and i: "i < length ms"
  have "mg_version (ms ! i) = map mg_version ms ! i" using i by simp
  also have "\<dots> = int (Suc i)" using n i unfolding numbered_def by (simp del: upt_Suc)
  finally show ?thesis .
qed

lemma numbered_find: "numbered ms \<Longrightarrow> i < length ms \<Longrightarrow> List.find (\<lambda>m. mg_version m = int (Suc i)) ms = Some (ms ! i)"
  by (subst find_Some_iff) (auto simp: numbered_nth intro!: exI [of _ i])

lemma numbered_max: "numbered ms \<Longrightarrow> max_known ms = int (length ms)"
  using numbered_nth [of ms "length ms - 1"]
  by (cases "ms = []") (auto simp: max_known_def last_conv_nth split: list.splits)

lemma numbered_drop:
  assumes "numbered ms" and "n \<le> length ms"
  shows "filter (\<lambda>m. int n < mg_version m) ms = drop n ms"
proof -
  have "filter (\<lambda>m. int n < mg_version m) (take n ms) = []"
    using numbered_nth [OF assms(1)] assms(2) by (auto simp: filter_empty_conv in_set_conv_nth)
  moreover have "filter (\<lambda>m. int n < mg_version m) (drop n ms) = drop n ms"
    using numbered_nth [OF assms(1)] by (auto simp: filter_id_conv in_set_conv_nth)
  ultimately show ?thesis by (metis append_Nil append_take_drop_id filter_append)
qed

lemma verify_rows:
  assumes "numbered ms" "map (\<lambda>r. (sm_version r, sm_checksum r)) rs = map row_of (take k (drop i ms))" "i + k \<le> length ms"
  shows "fold_res (verify_row ms) (int (Suc i)) rs = Inr (int (Suc (i + k)))"
  using assms
proof (induction rs arbitrary: i k)
  case Nil
  then show ?case by auto
next
  case (Cons r rs)
  then obtain k' where k: "k = Suc k'" and i: "i < length ms"
    by (cases k; cases "i < length ms") auto
  have d: "take k (drop i ms) = ms ! i # take k' (drop (Suc i) ms)"
    using i k by (simp add: Cons_nth_drop_Suc [symmetric])
  with Cons.prems have r: "sm_version r = int (Suc i)" "sm_checksum r = checksum (mg_sql (ms ! i))"
    and rs: "map (\<lambda>r. (sm_version r, sm_checksum r)) rs = map row_of (take k' (drop (Suc i) ms))"
    using numbered_nth [OF Cons.prems(1) i] by (auto simp: row_of_def)
  have "verify_row ms (int (Suc i)) r = Inr (int (Suc (Suc i)))"
    using r numbered_find [OF Cons.prems(1) i] by (simp add: verify_row_def res_simps)
  with Cons.IH [OF Cons.prems(1) rs] Cons.prems(3) k show ?case by simp
qed

lemma records_versions:
  assumes "numbered ms" "records ms n s"
  shows "map sm_version (schema_migrations s) = map int [1..<Suc n]"
proof -
  have "map sm_version (schema_migrations s) = map fst (map (\<lambda>r. (sm_version r, sm_checksum r)) (schema_migrations s))"
    by simp
  also have "\<dots> = map mg_version (take n ms)"
    using assms(2) by (simp add: records_def row_of_def o_def)
  also have "\<dots> = take n (map int [1..<Suc (length ms)])"
    using assms(1) unfolding numbered_def by (metis take_map)
  also have "\<dots> = map int [1..<Suc n]"
    using assms(2) by (simp add: records_def take_map del: upt_Suc)
  finally show ?thesis .
qed

lemma verify_records:
  assumes "numbered ms" "records ms n s"
  shows "verify_recorded_state ms s = Inr ()"
proof -
  have "sorted (map int [1..<Suc n])" by (induction n) (auto simp: sorted_append)
  then have "sorted (map sm_version (schema_migrations s))"
    using records_versions [OF assms] by metis
  then have "sort_key sm_version (schema_migrations s) = schema_migrations s"
    by (rule sort_key_id_if_sorted)
  moreover have "fold_res (verify_row ms) 1 (schema_migrations s) = Inr (int (Suc n))"
    using verify_rows [of ms "schema_migrations s" n 0] assms by (simp add: records_def)
  ultimately show ?thesis
    using assms(2) by (simp add: verify_recorded_state_def records_def)
qed

lemma apply_one_records:
  assumes "numbered ms" "records ms n s" "n < length ms" "apply_one batch clock s (ms ! n) = Inr s'"
  shows "records ms (Suc n) s'"
  using assms numbered_nth [OF assms(1,3)]
  by (auto simp: apply_one_def records_def row_of_def take_Suc_conv_app_nth split: sum.splits if_splits)

text \<open>
  Whatever a run over a recorded prefix does, it leaves a recorded prefix at least as long, the
  whole set when it succeeds.
\<close>

lemma apply_all_records:
  assumes "numbered ms" "records ms n s" "apply_all batch clock (drop n ms) s = (r, s')"
  obtains n' where "n \<le> n'" "records ms n' s'" "r = Inr () \<Longrightarrow> n' = length ms"
  using assms
proof (induction "length ms - n" arbitrary: n s thesis)
  case 0
  then show ?case by (auto simp: records_def)
next
  case (Suc k)
  then have n: "n < length ms" by simp
  then have d: "drop n ms = ms ! n # drop (Suc n) ms" by (simp add: Cons_nth_drop_Suc)
  show ?case
  proof (cases "apply_one batch clock s (ms ! n)")
    case (Inl e)
    with Suc d show ?thesis by auto
  next
    case (Inr s1)
    have r1: "records ms (Suc n) s1" by (rule apply_one_records [OF Suc.prems(2,3) n Inr])
    have a: "apply_all batch clock (drop (Suc n) ms) s1 = (r, s')" using Suc.prems(4) d Inr by simp
    have k: "k = length ms - Suc n" using Suc.hyps(2) by simp
    show ?thesis
    proof (rule Suc.hyps(1) [OF k _ Suc.prems(2) r1 a])
      fix n' assume n': "Suc n \<le> n'" "records ms n' s'" "r = Inr () \<Longrightarrow> n' = length ms"
      show thesis by (rule Suc.prems(1) [of n']) (use n' in auto)
    qed
  qed
qed

lemma run_with_records:
  assumes "numbered ms" "records ms n s"
  shows "run_with batch clock ms s = apply_all batch clock (drop n ms) s"
  using assms numbered_drop [OF assms(1)] numbered_max [OF assms(1)] verify_records [OF assms]
  by (auto simp: run_with_def records_def)

end
