(* ===== verification/Write_Sets.thy ===== *)
theory Write_Sets
  imports Store_Configuration Store_Agent_Control Store_Sandbox Store_Operator Migrations
begin

text \<open>
  The write set of every operation of the store: a part of the database that updates to the listed
  tables leave alone is left alone by the operation. These are the frame conditions the invariants
  of the whole store are proved with.
\<close>

named_theorems writes \<open>the tables an operation writes\<close>

lemma leaves_advance [frame]:
  "(\<And>f d. p (journal_epochs_update f d) = p d) \<Longrightarrow> leaves p (execute (advance_sequence n))"
  by (rule leaves_execute) (auto simp: advance_sequence_def wr split: if_splits)

lemma leaves_occupied [frame]: "leaves p m \<Longrightarrow> leaves p (occupied_slot cursor m)"
  by (auto simp: leaves_def wr)

lemma leaves_rekey_statement [frame]:
  "(\<And>f d. p (agent_control_sessions_update f d) = p d) \<Longrightarrow> leaves p (execute (rekey_statement aid v t n))"
  by (rule leaves_execute) (auto simp: rekey_statement_def wr split: if_splits)

lemma leaves_insert_evidence [frame]:
  "(\<And>f d. p (sandbox_probe_results_update f d) = p d) \<Longrightarrow> leaves p (execute (insert_evidence e t))"
  by (rule leaves_execute) (auto simp: insert_evidence_def wr)

lemma leaves_pointer [frame]: "leaves p (\<lambda>w. active_pointer (r w) w)"
  by (auto simp: leaves_def active_pointer_def wr)

lemma leaves_case_request [frame]:
  "leaves p a \<Longrightarrow> (\<And>r. leaves p (b r)) \<Longrightarrow> (\<And>r. leaves p (c r)) \<Longrightarrow>
   leaves p (case v of Started \<Rightarrow> a | Succeeded r \<Rightarrow> b r | Failed r \<Rightarrow> c r)"
  by (cases v) auto

lemma leaves_case_update [frame]:
  "(\<And>r. leaves p (a r)) \<Longrightarrow> (\<And>r. leaves p (b r)) \<Longrightarrow>
   leaves p (case v of Observe r \<Rightarrow> a r | TerminalUpdate r \<Rightarrow> b r)"
  by (cases v) auto

lemma leaves_case_decode [frame]:
  "(\<And>r. leaves p (a r)) \<Longrightarrow> leaves p (case v of TaskDecodeError r \<Rightarrow> a r)"
  by (cases v) auto

lemma leaves_create_goal [writes]:
  "(\<And>f d. p (goals_update f d) = p d) \<Longrightarrow>
   (\<And>f d. p (goal_revisions_update f d) = p d) \<Longrightarrow>
   (\<And>f d. p (task_graphs_update f d) = p d) \<Longrightarrow>
   leaves p (create_goal_body sha gid spec)"
  unfolding create_goal_body_def Let_def
  by (intro frame writes | simp)+

lemma leaves_record_planning [writes]:
  "(\<And>f d. p (planning_operations_update f d) = p d) \<Longrightarrow>
   (\<And>f d. p (planning_records_update f d) = p d) \<Longrightarrow>
   leaves p (record_planning_body dec proposal)"
  unfolding record_planning_body_def Let_def
  by (intro frame writes | simp)+

lemma leaves_materialize [writes]:
  "(\<And>f d. p (task_specs_update f d) = p d) \<Longrightarrow>
   (\<And>f d. p (tasks_update f d) = p d) \<Longrightarrow>
   (\<And>f d. p (task_scheduling_state_update f d) = p d) \<Longrightarrow>
   (\<And>f d. p (task_graphs_update f d) = p d) \<Longrightarrow>
   (\<And>f d. p (goals_update f d) = p d) \<Longrightarrow>
   (\<And>f d. p (planning_operations_update f d) = p d) \<Longrightarrow>
   leaves p (materialize_apply sha oid tid mplan)"
  unfolding materialize_apply_def read_decision_def recheck_goal_def recheck_graph_def recheck_configuration_def write_task_def prerequisites_satisfied_def patch_graph_def Let_def
  by (intro frame writes | simp)+

lemma leaves_cancel_goal [writes]:
  "(\<And>f d. p (goals_update f d) = p d) \<Longrightarrow>
   (\<And>f d. p (tasks_update f d) = p d) \<Longrightarrow>
   leaves p (cancel_goal_body gid)"
  unfolding cancel_goal_body_def fence_tasks_def fence_task_def Let_def
  by (intro frame writes | simp)+

lemma leaves_set_dispatch_mode [writes]:
  "(\<And>f d. p (scheduler_state_update f d) = p d) \<Longrightarrow>
   leaves p (set_dispatch_mode_body mode expected)"
  unfolding set_dispatch_mode_body_def read_state_def Let_def
  by (intro frame writes | simp)+

lemma leaves_backoff [writes]:
  "(\<And>f d. p (task_scheduling_state_update f d) = p d) \<Longrightarrow>
   leaves p (backoff_body tid expected code detail next_at)"
  unfolding backoff_body_def Let_def
  by (intro frame writes | simp)+

lemma leaves_run_intent [writes]:
  "(\<And>f d. p (execution_bindings_update f d) = p d) \<Longrightarrow>
   (\<And>f d. p (context_source_snapshots_update f d) = p d) \<Longrightarrow>
   (\<And>f d. p (runs_update f d) = p d) \<Longrightarrow>
   (\<And>f d. p (run_status_update f d) = p d) \<Longrightarrow>
   (\<And>f d. p (tasks_update f d) = p d) \<Longrightarrow>
   (\<And>f d. p (goal_scheduling_state_update f d) = p d) \<Longrightarrow>
   (\<And>f d. p (scheduler_state_update f d) = p d) \<Longrightarrow>
   (\<And>f d. p (task_scheduling_state_update f d) = p d) \<Longrightarrow>
   leaves p (apply_run_intent sha i)"
  unfolding apply_run_intent_def t3_permission_def t3_configuration_def t3_guidance_def t3_task_def t3_goal_def t3_workspace_def t3_capacity_def t3_commit_def t3_create_run_def t3_charge_def read_state_def Let_def
  by (intro frame writes | simp)+

lemma leaves_activation [writes]:
  "(\<And>f d. p (configuration_components_update f d) = p d) \<Longrightarrow>
   (\<And>f d. p (configuration_revisions_update f d) = p d) \<Longrightarrow>
   (\<And>f d. p (active_configuration_update f d) = p d) \<Longrightarrow>
   leaves p (write_activation sha compiled source expected)"
  unfolding write_activation_def insert_component_def Let_def
  by (intro frame writes | simp)+

lemma leaves_attempt_creation [writes]:
  "(\<And>f d. p (attempts_update f d) = p d) \<Longrightarrow>
   (\<And>f d. p (attempt_status_update f d) = p d) \<Longrightarrow>
   (\<And>f d. p (agent_control_sessions_update f d) = p d) \<Longrightarrow>
   (\<And>f d. p (run_status_update f d) = p d) \<Longrightarrow>
   leaves p (apply_attempt_creation a)"
  unfolding apply_attempt_creation_def launch_ready_def Let_def
  by (intro frame writes | simp)+

lemma leaves_open_workspace [writes]:
  "(\<And>f d. p (workspaces_update f d) = p d) \<Longrightarrow>
   leaves p (open_workspace_body wid b)"
  unfolding open_workspace_body_def holder_phase_def Let_def
  by (intro frame writes | simp)+

lemma leaves_begin_materialization [writes]:
  "(\<And>f d. p (workspaces_update f d) = p d) \<Longrightarrow>
   leaves p (begin_materialization_body wid expected)"
  unfolding begin_materialization_body_def workspace_phase_and_base_def not_yet_mutable_def workspace_transition_def read_in_transaction_def Let_def
  by (intro frame writes | simp)+

lemma leaves_complete_materialization [writes]:
  "(\<And>f d. p (workspaces_update f d) = p d) \<Longrightarrow>
   leaves p (complete_materialization_body wid expected verified)"
  unfolding complete_materialization_body_def workspace_phase_and_base_def workspace_transition_def read_in_transaction_def Let_def
  by (intro frame writes | simp)+

lemma leaves_fail_materialization [writes]:
  "(\<And>f d. p (workspaces_update f d) = p d) \<Longrightarrow>
   leaves p (fail_materialization_body wid expected observed)"
  unfolding fail_materialization_body_def workspace_phase_and_base_def not_yet_mutable_def workspace_transition_def read_in_transaction_def Let_def
  by (intro frame writes | simp)+

lemma leaves_validate_seal_authority [writes]:
  "leaves p (validate_seal_authority au task_id slot wid)"
  unfolding validate_seal_authority_def seal_task_def seal_run_def seal_frozen_def seal_output_def Let_def
  by (intro frame writes | simp)+

lemma leaves_freeze [writes]:
  "(\<And>f d. p (workspaces_update f d) = p d) \<Longrightarrow>
   leaves p (freeze_body au task_id slot wid expected)"
  unfolding freeze_body_def freezable_def workspace_transition_def read_in_transaction_def Let_def
  by (intro frame writes | simp)+

lemma leaves_validate_seal [writes]:
  "leaves p (validate_seal_body au task_id slot wid expected)"
  unfolding validate_seal_body_def at_revision_def read_in_transaction_def Let_def
  by (intro frame writes | simp)+

lemma leaves_capture_failure [writes]:
  "leaves p (capture_failure_body wid expected)"
  unfolding capture_failure_body_def at_revision_def read_in_transaction_def Let_def
  by (intro frame writes | simp)+

lemma leaves_attachment [writes]:
  "(\<And>f d. p (context_plans_update f d) = p d) \<Longrightarrow>
   (\<And>f d. p (run_context_plans_update f d) = p d) \<Longrightarrow>
   leaves p (apply_attachment sha att)"
  unfolding apply_attachment_def attachment_source_def attachment_plan_def fail_with_digest_def Let_def
  by (intro frame writes | simp)+

lemma leaves_seal [writes]:
  "(\<And>f d. p (blobs_update f d) = p d) \<Longrightarrow>
   (\<And>f d. p (workspace_revisions_update f d) = p d) \<Longrightarrow>
   (\<And>f d. p (artifacts_update f d) = p d) \<Longrightarrow>
   (\<And>f d. p (artifact_members_update f d) = p d) \<Longrightarrow>
   (\<And>f d. p (production_records_update f d) = p d) \<Longrightarrow>
   leaves p (seal_body seal)"
  unfolding seal_body_def seal_fence_def ensure_blob_def ensure_checkpoint_def ensure_artifact_def add_member_def record_production_def fresh_id_def Let_def
  by (intro frame writes | simp)+

lemma leaves_create_sandbox [writes]:
  "(\<And>f d. p (sandbox_instances_update f d) = p d) \<Longrightarrow>
   leaves p (create_sandbox_body key sb)"
  unfolding create_sandbox_body_def Let_def
  by (intro frame writes | simp)+

lemma leaves_move_sandbox [writes]:
  "(\<And>f d. p (sandbox_instances_update f d) = p d) \<Longrightarrow>
   leaves p (move_sandbox key expected from_phase to_phase presence)"
  unfolding move_sandbox_def sandbox_phase_at_def sandbox_transition_def update_sandbox_def read_sandbox_in_transaction_def Let_def
  by (intro frame writes | simp)+

lemma leaves_complete_release [writes]:
  "(\<And>f d. p (sandbox_instances_update f d) = p d) \<Longrightarrow>
   leaves p (complete_release_body key expected observed_presence)"
  unfolding complete_release_body_def Let_def
  by (intro frame writes | simp)+

lemma leaves_fail_sandbox [writes]:
  "(\<And>f d. p (sandbox_instances_update f d) = p d) \<Longrightarrow>
   leaves p (fail_sandbox_body key expected observed_presence)"
  unfolding fail_sandbox_body_def sandbox_transition_def update_sandbox_def read_sandbox_in_transaction_def Let_def
  by (intro frame writes | simp)+

lemma leaves_transition_presence [writes]:
  "(\<And>f d. p (sandbox_instances_update f d) = p d) \<Longrightarrow>
   leaves p (transition_presence key expected presence)"
  unfolding transition_presence_def update_sandbox_def read_sandbox_in_transaction_def Let_def
  by (intro frame writes | simp)+

lemma leaves_probe_evidence [writes]:
  "(\<And>f d. p (sandbox_probe_results_update f d) = p d) \<Longrightarrow>
   leaves p (probe_evidence_body evidence)"
  unfolding probe_evidence_body_def Let_def
  by (intro frame writes | simp)+

lemma leaves_authenticate [writes]:
  "leaves p (authenticate_agent_session cred)"
  unfolding authenticate_agent_session_def judge_session_def Let_def
  by (intro frame writes | simp)+

lemma leaves_existing_request [writes]:
  "leaves p (existing_request cred rid hash)"
  unfolding existing_request_def Let_def
  by (intro frame writes | simp)+

lemma leaves_open_request [writes]:
  "(\<And>f d. p (agent_requests_update f d) = p d) \<Longrightarrow>
   leaves p (open_request_body cred op rid hash)"
  unfolding open_request_body_def Let_def
  by (intro frame writes | simp)+

lemma leaves_complete_request [writes]:
  "(\<And>f d. p (agent_requests_update f d) = p d) \<Longrightarrow>
   leaves p (complete_request_body cred rid result_ref)"
  unfolding complete_request_body_def settle_request_def Let_def
  by (intro frame writes | simp)+

lemma leaves_fail_request [writes]:
  "(\<And>f d. p (agent_requests_update f d) = p d) \<Longrightarrow>
   leaves p (fail_request_body cred rid problem)"
  unfolding fail_request_body_def settle_request_def Let_def
  by (intro frame writes | simp)+

lemma leaves_internal_event [writes]:
  "(\<And>f d. p (journal_epochs_update f d) = p d) \<Longrightarrow>
   (\<And>f d. p (event_journal_update f d) = p d) \<Longrightarrow>
   leaves p (append_internal_event event_type)"
  unfolding append_internal_event_def allocate_sequence_def new_event_id_def
  by (intro frame leaves_advance) auto

lemma leaves_rekey [writes]:
  "(\<And>f d. p (agent_control_sessions_update f d) = p d) \<Longrightarrow>
   (\<And>f d. p (journal_epochs_update f d) = p d) \<Longrightarrow>
   (\<And>f d. p (event_journal_update f d) = p d) \<Longrightarrow>
   leaves p (apply_rekey aid verifier expected)"
  unfolding apply_rekey_def forbid_rekey_unless_precontact_def Let_def
  by (intro frame writes | simp)+

lemma leaves_launch_contact [writes]:
  "(\<And>f d. p (attempt_status_update f d) = p d) \<Longrightarrow>
   (\<And>f d. p (journal_epochs_update f d) = p d) \<Longrightarrow>
   (\<And>f d. p (event_journal_update f d) = p d) \<Longrightarrow>
   leaves p (apply_launch_contact rid aid epoch expected credential)"
  unfolding apply_launch_contact_def active_pointer_def Let_def
  by (intro frame writes | simp)+

lemma leaves_observation [writes]:
  "(\<And>f d. p (attempt_status_update f d) = p d) \<Longrightarrow>
   (\<And>f d. p (agent_control_sessions_update f d) = p d) \<Longrightarrow>
   (\<And>f d. p (journal_epochs_update f d) = p d) \<Longrightarrow>
   (\<And>f d. p (event_journal_update f d) = p d) \<Longrightarrow>
   leaves p (apply_observation aid expected upd)"
  unfolding apply_observation_def apply_observe_def apply_terminal_def stamp_started_def revoke_session_def Let_def
  by (intro frame writes | simp)+

lemma leaves_conclude [writes]:
  "(\<And>f d. p (run_status_update f d) = p d) \<Longrightarrow>
   (\<And>f d. p (journal_epochs_update f d) = p d) \<Longrightarrow>
   (\<And>f d. p (event_journal_update f d) = p d) \<Longrightarrow>
   leaves p (apply_conclude_run rid target expected)"
  unfolding apply_conclude_run_def Let_def
  by (intro frame writes | simp)+

lemma leaves_submission [writes]:
  "(\<And>f d. p (candidates_update f d) = p d) \<Longrightarrow>
   (\<And>f d. p (candidate_outputs_update f d) = p d) \<Longrightarrow>
   (\<And>f d. p (run_status_update f d) = p d) \<Longrightarrow>
   (\<And>f d. p (tasks_update f d) = p d) \<Longrightarrow>
   (\<And>f d. p (agent_requests_update f d) = p d) \<Longrightarrow>
   (\<And>f d. p (journal_epochs_update f d) = p d) \<Longrightarrow>
   (\<And>f d. p (event_journal_update f d) = p d) \<Longrightarrow>
   leaves p (apply_candidate_submission sha submission)"
  unfolding apply_candidate_submission_def t6_commit_def t6_attempt_def t6_run_def t6_task_def t6_specification_def t6_output_def declared_slot_def candidate_check_def ensure_artifact_complete_def create_candidate_def add_output_def record_submission_def load_committed_outcome_def settle_request_def Let_def
  by (intro frame writes | simp)+

end
