(* ===== verification/System.thy ===== *)
theory System
  imports Write_Sets
begin

text \<open>
  The store as a state machine: the database a fresh installation starts from, one step per
  operation of the store, and what holds in every reachable store. A fact about the database
  that every operation preserves is an instance of the locale \<open>store_invariant\<close>; its consequences for
  reachable stores are proved once. Facts that stay true once established (a recorded command, a
  closed Goal, a spent planning decision, a revoked session) are instances of the same locale.
\<close>

section \<open>What every operation keeps\<close>

named_theorems keep \<open>actions that keep a property of the database\<close>

lemma keeps_closure [keep]:
  "keeps I m \<Longrightarrow> (\<And>x. keeps I (f x)) \<Longrightarrow> keeps I (bindW m f)"
  "keeps I (returnW x)" "keeps I (errW e)" "keeps I (writer_fail e)" "keeps I (requireW b e)"
  "keeps I (someW v e)" "keeps I (expectW v e)" "keeps I (query_row sel decode)"
  "keeps I (query_optional sel)" "keeps I (query_all sel')" "keeps I query_unixepoch"
  "keeps I query_randomblob"
  by (auto intro: keeps_bindW)

lemma keeps_now [keep]: "keeps I now"
  by (auto simp: keeps_def wr)

lemma keeps_liftW [keep]: "keeps I (liftW r)"
  by (auto simp: keeps_def wr)

lemma keeps_loop [keep]: "(\<And>s x. keeps I (f s x)) \<Longrightarrow> keeps I (foldW f s xs)"
  by (rule keeps_foldW)

lemma keeps_pointer [keep]: "keeps I (\<lambda>w. active_pointer (r w) w)" "keeps I (active_pointer q)"
  by (auto simp: keeps_def active_pointer_def wr)

lemma keeps_occupied [keep]: "keeps I m \<Longrightarrow> keeps I (occupied_slot cursor m)"
  by (auto simp: keeps_def wr)

lemma keeps_vanished [keep]: "keeps I m \<Longrightarrow> keeps I (vanished_fairness i m)"
  by (auto simp: keeps_def wr)

lemma keeps_branches [keep]:
  "keeps I f \<Longrightarrow> keeps I g \<Longrightarrow> keeps I (if b then f else g)"
  "keeps I f \<Longrightarrow> (\<And>x. keeps I (g1 x)) \<Longrightarrow> keeps I (case v1 of None \<Rightarrow> f | Some x \<Rightarrow> g1 x)"
  "(\<And>x. keeps I (f2 x)) \<Longrightarrow> (\<And>x. keeps I (g2 x)) \<Longrightarrow> keeps I (case v2 of Inl x \<Rightarrow> f2 x | Inr x \<Rightarrow> g2 x)"
  "(\<And>x y. keeps I (f3 x y)) \<Longrightarrow> keeps I (case v3 of (x, y) \<Rightarrow> f3 x y)"
  "keeps I a \<Longrightarrow> (\<And>r. keeps I (b4 r)) \<Longrightarrow> (\<And>r. keeps I (c4 r)) \<Longrightarrow>
   keeps I (case v4 of Started \<Rightarrow> a | Succeeded r \<Rightarrow> b4 r | Failed r \<Rightarrow> c4 r)"
  "(\<And>r. keeps I (a5 r)) \<Longrightarrow> (\<And>r. keeps I (b5 r)) \<Longrightarrow>
   keeps I (case v5 of Observe r \<Rightarrow> a5 r | TerminalUpdate r \<Rightarrow> b5 r)"
  "(\<And>r. keeps I (a6 r)) \<Longrightarrow> keeps I (case v6 of TaskDecodeError r \<Rightarrow> a6 r)"
  by (auto split: option.splits sum.splits prod.splits agent_request_state.splits
      observation_update.splits task_decode_error.splits)

text \<open>Every statement leaves the constraints satisfied, so every operation does.\<close>

lemma schema_execute [keep]: "keeps schema_ok (execute stmt)" "keeps schema_ok (execute_now stmt')"
  by (auto simp: keeps_def wr)

lemma schema_update [keep]: "keeps schema_ok (update_revisioned_by T key expected assignments)"
  unfolding update_revisioned_by_def ensure_plain_identifier_def check_assignment_def
  by (intro keep) (auto simp: keeps_def current_revision_by_def returnW_def errW_def split: if_splits)

lemma schema_kept [keep]:
  "keeps schema_ok (create_goal_body sha gid spec)"
  "keeps schema_ok (record_planning_body dec proposal)"
  "keeps schema_ok (materialize_apply sha oid tid mplan)"
  "keeps schema_ok (cancel_goal_body gid)"
  "keeps schema_ok (set_dispatch_mode_body mode expected)"
  "keeps schema_ok (backoff_body tid expected code detail next_at)"
  "keeps schema_ok (apply_run_intent sha i)"
  "keeps schema_ok (write_activation sha compiled source expected)"
  "keeps schema_ok (apply_attempt_creation a)"
  "keeps schema_ok (open_workspace_body wid b)"
  "keeps schema_ok (begin_materialization_body wid expected)"
  "keeps schema_ok (complete_materialization_body wid expected verified)"
  "keeps schema_ok (fail_materialization_body wid expected observed)"
  "keeps schema_ok (validate_seal_authority au task_id slot wid)"
  "keeps schema_ok (freeze_body au task_id slot wid expected)"
  "keeps schema_ok (validate_seal_body au task_id slot wid expected)"
  "keeps schema_ok (capture_failure_body wid expected)"
  "keeps schema_ok (apply_attachment sha att)"
  "keeps schema_ok (seal_body seal)"
  "keeps schema_ok (create_sandbox_body key sb)"
  "keeps schema_ok (move_sandbox key expected from_phase to_phase presence)"
  "keeps schema_ok (complete_release_body key expected observed_presence)"
  "keeps schema_ok (fail_sandbox_body key expected observed_presence)"
  "keeps schema_ok (transition_presence key expected presence)"
  "keeps schema_ok (probe_evidence_body evidence)"
  "keeps schema_ok (authenticate_agent_session cred)"
  "keeps schema_ok (existing_request cred rid hash)"
  "keeps schema_ok (open_request_body cred op rid hash)"
  "keeps schema_ok (complete_request_body cred rid result_ref)"
  "keeps schema_ok (fail_request_body cred rid problem)"
  "keeps schema_ok (append_internal_event event_type)"
  "keeps schema_ok (apply_rekey aid verifier expected)"
  "keeps schema_ok (apply_launch_contact rid aid epoch expected credential)"
  "keeps schema_ok (apply_observation aid expected upd)"
  "keeps schema_ok (apply_conclude_run rid target expected)"
  "keeps schema_ok (apply_candidate_submission sha submission)"
  unfolding append_internal_event_def allocate_sequence_def new_event_id_def
    create_goal_body_def record_planning_body_def materialize_apply_def read_decision_def
    recheck_goal_def recheck_graph_def recheck_configuration_def write_task_def
    prerequisites_satisfied_def patch_graph_def cancel_goal_body_def fence_tasks_def fence_task_def
    set_dispatch_mode_body_def read_state_def backoff_body_def apply_run_intent_def
    t3_permission_def t3_configuration_def t3_guidance_def t3_task_def t3_goal_def t3_workspace_def
    t3_capacity_def t3_commit_def t3_create_run_def t3_charge_def write_activation_def
    insert_component_def apply_attempt_creation_def launch_ready_def open_workspace_body_def
    holder_phase_def begin_materialization_body_def workspace_phase_and_base_def not_yet_mutable_def
    workspace_transition_def read_in_transaction_def complete_materialization_body_def
    fail_materialization_body_def validate_seal_authority_def seal_task_def seal_run_def
    seal_frozen_def seal_output_def freeze_body_def freezable_def validate_seal_body_def
    at_revision_def capture_failure_body_def apply_attachment_def attachment_source_def
    attachment_plan_def fail_with_digest_def seal_body_def seal_fence_def ensure_blob_def
    ensure_checkpoint_def ensure_artifact_def add_member_def record_production_def fresh_id_def
    create_sandbox_body_def move_sandbox_def sandbox_phase_at_def sandbox_transition_def
    update_sandbox_def read_sandbox_in_transaction_def complete_release_body_def
    fail_sandbox_body_def transition_presence_def probe_evidence_body_def
    authenticate_agent_session_def judge_session_def existing_request_def open_request_body_def
    complete_request_body_def settle_request_def fail_request_body_def apply_rekey_def
    forbid_rekey_unless_precontact_def apply_launch_contact_def apply_observation_def
    apply_observe_def apply_terminal_def stamp_started_def revoke_session_def apply_conclude_run_def
    apply_candidate_submission_def t6_commit_def t6_attempt_def t6_run_def t6_task_def
    t6_specification_def t6_output_def declared_slot_def candidate_check_def
    ensure_artifact_complete_def create_candidate_def add_output_def record_submission_def
    load_committed_outcome_def
    Let_def
  by (intro keep)+

section \<open>The store as a state machine\<close>

text \<open>
  The rows the production migrations insert: the installation identity, the journal epoch, the
  configuration pointer without a revision, and the scheduler in mode \<open>RUNNING\<close>.
\<close>

definition bootstrap :: "string \<Rightarrow> string \<Rightarrow> int \<Rightarrow> db" where
  "bootstrap generation epoch t = empty_db\<lparr>
     system_state := [\<lparr>ss_id = 1, ss_restore_generation = generation\<rparr>],
     journal_epochs := [\<lparr>je_epoch = epoch, je_next_sequence = 1, je_is_current = 1\<rparr>],
     active_configuration := [\<lparr>acf_id = ''singleton'', acf_revision = 1, acf_activation_sequence = None\<rparr>],
     scheduler_state := [\<lparr>sc_id = ''singleton'', sc_dispatch_mode = ''RUNNING'', sc_next_service_sequence = 1,
       sc_revision = 1, sc_updated_at = t\<rparr>]\<rparr>"

definition installed :: "store \<Rightarrow> bool" where
  "installed s \<longleftrightarrow> (\<exists>generation epoch t. sql_length generation = 32 \<and> sql_length epoch = 32
     \<and> database s = bootstrap generation epoch t)"

text \<open>One step: any operation of the store, with any arguments, whatever it returns.\<close>

inductive step :: "sha256 \<Rightarrow> store \<Rightarrow> store \<Rightarrow> bool" for sha where
  step_create_goal: "step sha s (snd (create_goal sha c gid spec s))"
| step_record_direct_planning: "step sha s (snd (record_direct_planning c dec proposal s))"
| step_materialize_plan: "step sha s (snd (materialize_plan sha c oid tid mplan s))"
| step_cancel_goal: "step sha s (snd (cancel_goal c gid s))"
| step_set_dispatch_mode: "step sha s (snd (set_dispatch_mode c mode expected s))"
| step_commit_run_intent: "step sha s (snd (commit_run_intent sha c i s))"
| step_activate_configuration: "step sha s (snd (activate_configuration sha c compiled source expected s))"
| step_create_attempt: "step sha s (snd (create_attempt c a s))"
| step_open_workspace: "step sha s (snd (open_workspace c wid b s))"
| step_begin_workspace_materialization: "step sha s (snd (begin_workspace_materialization c wid expected s))"
| step_complete_workspace_materialization: "step sha s (snd (complete_workspace_materialization c wid expected verified s))"
| step_fail_workspace_materialization: "step sha s (snd (fail_workspace_materialization c wid expected observed s))"
| step_freeze_workspace: "step sha s (snd (freeze_workspace c au task_id slot wid expected s))"
| step_validate_seal_authority_command: "step sha s (snd (validate_seal_authority_command c au task_id slot wid expected s))"
| step_record_capture_failure: "step sha s (snd (record_capture_failure c wid expected s))"
| step_attach_run_context_plan: "step sha s (snd (attach_run_context_plan sha c att s))"
| step_commit_changeset_seal: "step sha s (snd (commit_changeset_seal c seal s))"
| step_create_sandbox: "step sha s (snd (create_sandbox c key sb s))"
| step_begin_sandbox_preparation: "step sha s (snd (begin_sandbox_preparation c key expected s))"
| step_complete_sandbox_preparation: "step sha s (snd (complete_sandbox_preparation c key expected s))"
| step_begin_sandbox_release: "step sha s (snd (begin_sandbox_release c key expected s))"
| step_complete_sandbox_release: "step sha s (snd (complete_sandbox_release c key expected presence s))"
| step_fail_sandbox: "step sha s (snd (fail_sandbox c key expected presence s))"
| step_update_sandbox_presence: "step sha s (snd (update_sandbox_presence c key expected presence s))"
| step_record_sandbox_probe_evidence: "step sha s (snd (record_sandbox_probe_evidence c evidence s))"
| step_record_scheduling_backoff: "step sha s (snd (record_scheduling_backoff tid expected code detail next_at s))"
| step_rekey_agent_control_session: "step sha s (snd (rekey_agent_control_session aid verifier expected s))"
| step_mark_launch_contact: "step sha s (snd (mark_launch_contact rid aid epoch expected credential s))"
| step_record_execution_observation: "step sha s (snd (record_execution_observation aid expected upd s))"
| step_conclude_run: "step sha s (snd (conclude_run rid target expected s))"
| step_open_agent_request: "step sha s (snd (open_agent_request cred operation request_id hash s))"
| step_complete_agent_request: "step sha s (snd (complete_agent_request cred request_id result_ref s))"
| step_fail_agent_request: "step sha s (snd (fail_agent_request cred request_id problem s))"
| step_submit_candidate: "step sha s (snd (submit_candidate sha submission s))"

definition reachable :: "sha256 \<Rightarrow> store \<Rightarrow> bool" where
  "reachable sha s \<longleftrightarrow> (\<exists>s0. installed s0 \<and> (step sha)\<^sup>*\<^sup>* s0 s)"

section \<open>Invariants of the store\<close>

abbreviation preserves :: "(db \<Rightarrow> bool) \<Rightarrow> 'a action \<Rightarrow> bool" where
  "preserves I f \<equiv> keeps (\<lambda>d. schema_ok d \<and> I d) f"

lemma preservesI:
  assumes "keeps schema_ok f"
    and "\<And>w x w'. f w = (Inr x, w') \<Longrightarrow> schema_ok (tx w) \<Longrightarrow> schema_ok (tx w') \<Longrightarrow> I (tx w) \<Longrightarrow> I (tx w')"
  shows "preserves I f"
  using assms unfolding keeps_def by blast

lemma preserves_frame:
  assumes "leaves p f" and "keeps schema_ok f" and "\<And>d d'. p d' = p d \<Longrightarrow> I d' = I d"
  shows "preserves I f"
  using assms(2) by (rule preservesI) (metis assms(1,3) leavesD)

lemma keeps_envelope:
  assumes m: "preserves I m"
    and ledger: "\<And>d row event_id t. schema_ok d \<Longrightarrow> I d \<Longrightarrow> find_current_epoch d = Some row \<Longrightarrow>
      schema_ok (ledger_append c row event_id t d) \<Longrightarrow> I (ledger_append c row event_id t d)"
  shows "preserves I (execute_envelope c m)"
proof (rule keepsI)
  fix w x w'
  assume run: "execute_envelope c m w = (Inr x, w')" and pre: "schema_ok (tx w) \<and> I (tx w)"
  from run show "schema_ok (tx w') \<and> I (tx w')"
  proof (cases rule: execute_envelope_cases)
    case (replayed row)
    with pre show ?thesis by simp
  next
    case (executed v w1 row event_id t)
    have "schema_ok (tx w1) \<and> I (tx w1)"
      using keepsD [OF m executed(3)] pre by simp
    with ledger executed show ?thesis by metis
  qed
qed

text \<open>
  What an operation owes an invariant. Every obligation is about the body of one operation; the
  envelope, the transaction and the sequence of steps are handled here.
\<close>

locale store_invariant =
  fixes sha :: sha256 and I :: "db \<Rightarrow> bool"
  assumes ledger: "schema_ok d \<Longrightarrow> I d \<Longrightarrow> find_current_epoch d = Some row \<Longrightarrow>
      schema_ok (ledger_append c row event_id t d) \<Longrightarrow> I (ledger_append c row event_id t d)"
    and create_goal: "preserves I (create_goal_body sha gid spec)"
    and record_planning: "preserves I (record_planning_body dec proposal)"
    and materialize: "preserves I (materialize_apply sha oid tid mplan)"
    and cancel: "preserves I (cancel_goal_body gid)"
    and dispatch_mode: "preserves I (set_dispatch_mode_body mode expected)"
    and run_intent: "preserves I (apply_run_intent sha i)"
    and activation: "preserves I (write_activation sha compiled source expected)"
    and attempt: "preserves I (apply_attempt_creation a)"
    and open_workspace: "preserves I (open_workspace_body wid b)"
    and begin_materialization: "preserves I (begin_materialization_body wid expected)"
    and complete_materialization: "preserves I (complete_materialization_body wid expected verified)"
    and fail_materialization: "preserves I (fail_materialization_body wid expected observed)"
    and freeze: "preserves I (freeze_body au task_id slot wid expected)"
    and validate_seal: "preserves I (validate_seal_body au task_id slot wid expected)"
    and capture_failure: "preserves I (capture_failure_body wid expected)"
    and attachment: "preserves I (apply_attachment sha att)"
    and seal: "preserves I (seal_body seal)"
    and create_sandbox: "preserves I (create_sandbox_body key sb)"
    and move_sandbox: "preserves I (move_sandbox key expected source_phase target_phase presence)"
    and release_sandbox: "preserves I (complete_release_body key expected presence)"
    and fail_sandbox: "preserves I (fail_sandbox_body key expected presence)"
    and presence: "preserves I (transition_presence key expected presence)"
    and evidence: "preserves I (probe_evidence_body evidence)"
    and backoff: "preserves I (backoff_body tid expected code detail next_at)"
    and rekey: "preserves I (apply_rekey aid verifier expected)"
    and contact: "preserves I (apply_launch_contact rid aid epoch expected credential)"
    and observation: "preserves I (apply_observation aid expected upd)"
    and conclude: "preserves I (apply_conclude_run rid target expected)"
    and open_request: "preserves I (open_request_body cred operation request_id hash)"
    and complete_request: "preserves I (complete_request_body cred request_id result_ref)"
    and fail_request: "preserves I (fail_request_body cred request_id problem)"
    and submission: "preserves I (apply_candidate_submission sha submission)"
begin

lemma command_preserves:
  assumes "preserves I m" and "schema_ok (database s) \<and> I (database s)"
  shows "schema_ok (database (snd (execute_command c m s))) \<and> I (database (snd (execute_command c m s)))"
proof -
  have "preserves I (execute_envelope c m)"
    by (rule keeps_envelope [OF assms(1) ledger])
  then show ?thesis
    using run_keeps [of "\<lambda>d. schema_ok d \<and> I d" "execute_envelope c m" s] assms(2)
    by (metis execute_command_def prod.collapse)
qed

lemma plain_preserves:
  assumes "preserves I f" and "schema_ok (database s) \<and> I (database s)"
  shows "schema_ok (database (snd (run f s))) \<and> I (database (snd (run f s)))"
  using run_keeps [OF assms(1) _ assms(2)] by (metis prod.collapse)

lemma step_preserves:
  assumes "step sha s s'" and "schema_ok (database s) \<and> I (database s)"
  shows "schema_ok (database s') \<and> I (database s')"
  using assms
  by cases
    (simp_all only: create_goal_def record_direct_planning_def materialize_plan_def cancel_goal_def
      set_dispatch_mode_def commit_run_intent_def activate_configuration_def create_attempt_def
      open_workspace_def begin_workspace_materialization_def
      complete_workspace_materialization_def fail_workspace_materialization_def
      freeze_workspace_def validate_seal_authority_command_def record_capture_failure_def
      attach_run_context_plan_def commit_changeset_seal_def create_sandbox_def
      begin_sandbox_preparation_def complete_sandbox_preparation_def begin_sandbox_release_def
      complete_sandbox_release_def fail_sandbox_def update_sandbox_presence_def
      record_sandbox_probe_evidence_def record_scheduling_backoff_def
      rekey_agent_control_session_def mark_launch_contact_def record_execution_observation_def
      conclude_run_def open_agent_request_def complete_agent_request_def fail_agent_request_def
      submit_candidate_def command_preserves plain_preserves
      create_goal record_planning materialize cancel dispatch_mode run_intent activation attempt
      open_workspace begin_materialization complete_materialization fail_materialization freeze
      validate_seal capture_failure attachment seal create_sandbox move_sandbox release_sandbox
      fail_sandbox presence evidence backoff rekey contact observation conclude open_request
      complete_request fail_request submission)

lemma steps_preserve:
  assumes "(step sha)\<^sup>*\<^sup>* s s'" and "schema_ok (database s)" and "I (database s)"
  shows "schema_ok (database s') \<and> I (database s')"
  using assms(1)
  by (induction rule: rtranclp_induct) (use assms(2,3) step_preserves in auto)

end

lemma bootstrap_ok: "sql_length generation = 32 \<Longrightarrow> sql_length epoch = 32 \<Longrightarrow> schema_ok (bootstrap generation epoch t)"
  by (simp add: schema_ok_iff bootstrap_def empty_db_def checks_ok_def primary_keys_ok_def uniques_ok_def
      foreign_keys_ok_def check_system_state_def check_journal_epoch_def check_active_configuration_def
      check_scheduler_state_def references_def List.map_filter_def)

end
