(* ===== verification/Execution_Effects.thy ===== *)
theory Execution_Effects
  imports Write_Sets
begin

text \<open>
  What the Attempt and Agent Control operations do to the tables they write, and the conditions
  under which they return.
\<close>

section \<open>The row a compare-and-set replaces\<close>

context revisioned_table
begin

lemma cas_unique:
  assumes "distinct (map (row_key T) rows)" "r0 \<in> set rows" "row_key T r0 = key" "row_revision T r0 = expected"
  shows "map (cas_row T key expected assignments) rows
    = map (\<lambda>r. if row_key T r = key then set_row_revision T (expected + 1) (assign assignments r) else r) rows"
proof (rule map_cong [OF refl])
  fix r assume r: "r \<in> set rows"
  have "row_key T r = key \<Longrightarrow> r = r0"
    using assms r by (metis distinct_map inj_onD)
  with assms(4) show "cas_row T key expected assignments r
      = (if row_key T r = key then set_row_revision T (expected + 1) (assign assignments r) else r)"
    by (auto simp: cas_row_def)
qed

lemma update_unique:
  assumes u: "update_revisioned_by T key expected assignments w = (Inr n, w')"
    and d: "distinct (map (row_key T) (table_rows T (tx w)))"
  shows "table_rows T (tx w') = map (\<lambda>r. if row_key T r = key
      then set_row_revision T (expected + 1) (assign assignments r) else r) (table_rows T (tx w))"
proof -
  from u obtain r0 where r0: "r0 \<in> set (table_rows T (tx w))" "row_key T r0 = key" "row_revision T r0 = expected"
    by (rule update_found)
  show ?thesis unfolding update_rows [OF u] by (rule cas_unique [OF d r0])
qed

end

lemma keys_distinct:
  assumes "schema_ok d"
  shows "distinct (map rs_run_id (run_status d))" "distinct (map as_attempt_id (attempt_status d))"
    "distinct (map acs_attempt_id (agent_control_sessions d))" "distinct (map t_id (tasks d))"
    "distinct (map g_id (goals d))" "distinct (map w_id (workspaces d))" "distinct (map po_id (planning_operations d))"
    "distinct (map sc_id (scheduler_state d))" "distinct (map gs_goal_id (goal_scheduling_state d))"
    "distinct (map tsc_task_id (task_scheduling_state d))" "distinct (map at_id (attempts d))"
  using assms by (simp_all add: schema_ok_iff primary_keys_ok_def uniques_ok_def)

lemma find_distinct:
  "distinct (map key xs) \<Longrightarrow> x \<in> set xs \<Longrightarrow> List.find (\<lambda>y. key y = key x) xs = Some x"
  by (induction xs) auto

section \<open>Concluding a Run\<close>

definition concluded_row :: "string \<Rightarrow> int \<Rightarrow> run_status_row \<Rightarrow> run_status_row" where
  "concluded_row target t r = r\<lparr>rs_phase := target, rs_terminal_target := Some target, rs_active_slot := None,
     rs_updated_at := t, rs_revision := rs_revision r + 1\<rparr>"

lemma cas_conclude:
  "cas_row run_status_table rid n (conclude_assignments target t) r =
     (if rs_run_id r = rid \<and> rs_revision r = n then concluded_row target t r else r)"
  by (simp add: cas_row_def assign_def conclude_assignments_def concluded_row_def)

lemma internal_event_tables:
  assumes "append_internal_event ty w = (Inr c, w')"
  shows "run_status (tx w') = run_status (tx w)" "attempt_status (tx w') = attempt_status (tx w)"
    "agent_control_sessions (tx w') = agent_control_sessions (tx w)" "tasks (tx w') = tasks (tx w)"
    "candidates (tx w') = candidates (tx w)" "agent_requests (tx w') = agent_requests (tx w)"
  by (rule leavesD [OF leaves_internal_event assms]; simp)+

lemma apply_conclude_runD:
  assumes "apply_conclude_run rid target expected w = (Inr u, w')"
  obtains t where "target = ''Failed'' \<or> target = ''Cancelled''"
    "run_status (tx w') = map (\<lambda>r. if rs_run_id r = rid \<and> rs_revision r = expected then concluded_row target t r else r)
       (run_status (tx w))"
proof -
  from assms obtain t n w1 w2 c where target: "target = ''Failed'' \<or> target = ''Cancelled''"
    and u: "update_revisioned_by run_status_table rid expected (conclude_assignments target t) (tick w) = (Inr n, w1)"
    and e: "append_internal_event ''run.concluded'' w1 = (Inr c, w')"
    by (auto simp: apply_conclude_run_def bindW_iff returnW_iff requireW_iff now_iff)
  show thesis
    by (rule that [OF target, of t])
      (use run_status.update_rows [OF u] internal_event_tables(1) [OF e] in \<open>simp add: cas_conclude\<close>)
qed

section \<open>Creating an Attempt\<close>

lemma launch_readyD:
  assumes "launch_ready a w = (Inr u, w')"
  obtains status where "tx w' = tx w" "active_run_status (acn_run_id a) (tx w) = Some status"
    "rs_revision status = acn_expected_run_status_revision a" "find_attachment (acn_run_id a) (tx w) \<noteq> None"
    "\<forall>s \<in> set (attempt_status (tx w)). as_run_id s = acn_run_id a \<longrightarrow> as_terminal s \<noteq> 0"
  using assms
  by (auto simp: launch_ready_def wr find_None_iff split: option.splits)

definition pointed_row :: "attempt_creation \<Rightarrow> run_status_row \<Rightarrow> run_status_row" where
  "pointed_row a r = r\<lparr>rs_current_attempt_id := Some (acn_attempt_id a), rs_revision := rs_revision r + 1\<rparr>"

lemma apply_attempt_creationD:
  assumes "apply_attempt_creation a w = (Inr r, w')"
  obtains n generation t status where
    "active_run_status (acn_run_id a) (tx w) = Some status"
    "rs_revision status = acn_expected_run_status_revision a" "find_attachment (acn_run_id a) (tx w) \<noteq> None"
    "\<forall>s \<in> set (attempt_status (tx w)). as_run_id s = acn_run_id a \<longrightarrow> as_terminal s \<noteq> 0"
    "select_restore_generation (tx w) = Some generation"
    "n = next_ordinal (acn_run_id a) (tx w)" "acd_ordinal r = n"
    "attempts (tx w') = attempts (tx w) @ [fst (attempt_rows_of a n generation t)]"
    "attempt_status (tx w') = attempt_status (tx w) @ [fst (snd (attempt_rows_of a n generation t))]"
    "agent_control_sessions (tx w') = agent_control_sessions (tx w) @ [snd (snd (attempt_rows_of a n generation t))]"
    "run_status (tx w') = map (\<lambda>r. if rs_run_id r = acn_run_id a \<and> rs_revision r = acn_expected_run_status_revision a
       then pointed_row a r else r) (run_status (tx w))"
proof -
  from assms obtain w1 generation t n k1 k2 k3 w2 w3 w4 m where l: "launch_ready a w = (Inr (), w1)"
    and n: "n = next_ordinal (acn_run_id a) (tx w1)"
    and g: "select_restore_generation (tx w1) = Some generation"
    and x1: "execute (insert_into attempts_update (fst (attempt_rows_of a n generation t))) (tick (tick (tick w1))) = (Inr k1, w2)"
    and x2: "execute (insert_into attempt_status_update (fst (snd (attempt_rows_of a n generation t)))) w2 = (Inr k2, w3)"
    and x3: "execute (insert_into agent_control_sessions_update (snd (snd (attempt_rows_of a n generation t)))) w3 = (Inr k3, w4)"
    and u: "update_revisioned_by run_status_table (acn_run_id a) (acn_expected_run_status_revision a)
        [(''current_attempt_id'', \<lambda>r. r\<lparr>rs_current_attempt_id := Some (acn_attempt_id a)\<rparr>)] w4 = (Inr m, w')"
    and r: "acd_ordinal r = n"
    by (auto simp: apply_attempt_creation_def bindW_iff returnW_iff query_row_iff someW_iff query_optional_iff now_iff
        case_prod_unfold split: if_splits)
  have w4: "tx w4 = agent_control_sessions_update (\<lambda>rs. rs @ [snd (snd (attempt_rows_of a n generation t))])
      (attempt_status_update (\<lambda>rs. rs @ [fst (snd (attempt_rows_of a n generation t))])
      (attempts_update (\<lambda>rs. rs @ [fst (attempt_rows_of a n generation t)]) (tx w1)))"
    using x1 x2 x3 by (auto simp: wr)
  from l obtain status where L: "tx w1 = tx w" "active_run_status (acn_run_id a) (tx w) = Some status"
    "rs_revision status = acn_expected_run_status_revision a" "find_attachment (acn_run_id a) (tx w) \<noteq> None"
    "\<forall>s \<in> set (attempt_status (tx w)). as_run_id s = acn_run_id a \<longrightarrow> as_terminal s \<noteq> 0"
    by (rule launch_readyD)
  have w': "tx w' = run_status_update (map (cas_row run_status_table (acn_run_id a) (acn_expected_run_status_revision a)
      [(''current_attempt_id'', \<lambda>r. r\<lparr>rs_current_attempt_id := Some (acn_attempt_id a)\<rparr>)])) (tx w4)"
    using run_status.update_SomeD(4) [OF u] by simp
  show thesis
    by (rule that [OF L(2,3,4,5) g [unfolded L(1)] n [unfolded L(1)] r, of t])
      (simp_all add: w' w4 L(1) cas_row_def assign_def pointed_row_def)
qed

section \<open>Rekeying\<close>

definition rekeyed_row :: "byte list \<Rightarrow> int \<Rightarrow> session_row \<Rightarrow> session_row" where
  "rekeyed_row verifier t r = r\<lparr>acs_credential_revision := acs_credential_revision r + 1,
     acs_credential_hash := verifier, acs_credential_rekeyed_at := Some t\<rparr>"

lemma forbid_rekeyD:
  assumes "forbid_rekey_unless_precontact aid w = (Inr u, w')"
  obtains st where "tx w' = tx w" "find_attempt_status aid (tx w) = Some st" "as_terminal st = 0"
    "as_launch_contact_state st = ''NOT_CONTACTED''"
  using assms
  by (auto simp: forbid_rekey_unless_precontact_def bindW_iff query_optional_iff expectW_iff requireW_iff someW_iff
      active_pointer_def query_row_iff split: prod.splits)

lemma apply_rekeyD:
  assumes "apply_rekey aid verifier expected w = (Inr n, w')"
  obtains st t where "find_attempt_status aid (tx w) = Some st" "as_terminal st = 0"
    "as_launch_contact_state st = ''NOT_CONTACTED''" "n = expected + 1"
    "agent_control_sessions (tx w') = map (\<lambda>r. if acs_attempt_id r = aid \<and> acs_credential_revision r = expected
        \<and> acs_state r = ''ACTIVE'' then rekeyed_row verifier t r else r) (agent_control_sessions (tx w))"
proof -
  from assms obtain w1 t k w2 c where f: "forbid_rekey_unless_precontact aid w = (Inr (), w1)"
    and x: "execute (rekey_statement aid verifier t expected) (tick w1) = (Inr k, w2)"
    and e: "append_internal_event ''agent-control.session.rekeyed'' w2 = (Inr c, w')" and n: "n = expected + 1"
    by (auto simp: apply_rekey_def bindW_iff returnW_iff now_iff query_optional_iff writer_fail_iff split: if_splits)
  from f obtain st where st: "tx w1 = tx w" "find_attempt_status aid (tx w) = Some st" "as_terminal st = 0"
    "as_launch_contact_state st = ''NOT_CONTACTED''"
    by (rule forbid_rekeyD)
  have "agent_control_sessions (tx w2) = map (\<lambda>r. if acs_attempt_id r = aid \<and> acs_credential_revision r = expected
        \<and> acs_state r = ''ACTIVE'' then rekeyed_row verifier t r else r) (agent_control_sessions (tx w))"
    using x st(1) by (auto simp: wr rekey_statement_def rekeyed_row_def split: if_splits)
  with internal_event_tables(3) [OF e] show thesis
    by (intro that [OF st(2-4) n, of t]) simp
qed

section \<open>Launch contact\<close>

definition contacted_row :: "string \<Rightarrow> int \<Rightarrow> attempt_status_row \<Rightarrow> attempt_status_row" where
  "contacted_row epoch t r = r\<lparr>as_launch_contact_state := ''CONTACT_MAY_HAVE_OCCURRED'',
     as_launch_contact_initiated_at := Some t, as_launch_contact_epoch := Some epoch, as_updated_at := t,
     as_revision := as_revision r + 1\<rparr>"

lemma apply_launch_contactD:
  assumes "apply_launch_contact rid aid epoch expected credential w = (Inr u, w')"
  obtains
    (already) st where "st \<in> set (attempt_status (tx w))" "as_attempt_id st = aid" "as_terminal st = 0"
      "as_launch_contact_state st = ''CONTACT_MAY_HAVE_OCCURRED''" "tx w' = tx w"
  | (marked) st t where "st \<in> set (attempt_status (tx w))" "as_attempt_id st = aid" "as_terminal st = 0"
      "current_credential aid (tx w) = Some credential"
      "attempt_status (tx w') = map (\<lambda>r. if as_attempt_id r = aid \<and> as_revision r = expected
         then contacted_row epoch t r else r) (attempt_status (tx w))"
      "\<exists>r \<in> set (attempt_status (tx w)). as_attempt_id r = aid \<and> as_revision r = expected"
proof -
  from assms obtain st where st: "List.find (\<lambda>s. as_attempt_id s = aid \<and> as_run_id s = rid
        \<and> as_terminal s = 0) (attempt_status (tx w)) = Some st"
    and rest: "(if as_launch_contact_state st = launch_contact_as_str ContactMayHaveOccurred then returnW ()
     else
       bindW (active_pointer (Some rid)) (\<lambda>current.
       bindW (requireW (current = Some aid) (stale_contact aid no_longer_current)) (\<lambda>_.
       bindW (query_optional (current_credential aid)) (\<lambda>session_revision.
       bindW (requireW (session_revision \<noteq> None) (stale_contact aid
          (Fmt ''no current-generation ACTIVE session exists'' []))) (\<lambda>_.
       bindW (requireW (session_revision = Some credential) (stale_contact aid
          (Fmt ''session credential revision is {:?}, not the expected {expected_credential_revision}''
             [FInt (the session_revision), FInt credential]))) (\<lambda>_.
       bindW now (\<lambda>t.
       bindW (update_revisioned_by attempt_status_table aid expected (contact_assignments epoch t)) (\<lambda>_.
       bindW (append_internal_event ''run.attempt.contact-initiated'') (\<lambda>_.
       returnW ()))))))))) (tick w) = (Inr u, w')"
    by (auto simp: apply_launch_contact_def bindW_iff query_optional_iff expectW_iff)
  have st': "st \<in> set (attempt_status (tx w))" "as_attempt_id st = aid" "as_terminal st = 0"
    using find_SomeD [OF st] by auto
  show thesis
  proof (cases "as_launch_contact_state st = launch_contact_as_str ContactMayHaveOccurred")
    case True
    with rest st' show ?thesis by (intro already) (auto simp: wr)
  next
    case False
    with rest obtain t n w2 c where cred: "current_credential aid (tx w) = Some credential"
      and u: "update_revisioned_by attempt_status_table aid expected (contact_assignments epoch t)
        (tick (tick (tick (tick w)))) = (Inr n, w2)"
      and e: "append_internal_event ''run.attempt.contact-initiated'' w2 = (Inr c, w')"
      by (auto simp: bindW_iff returnW_iff requireW_iff query_optional_iff now_iff active_pointer_def query_row_iff)
    show ?thesis
      by (rule marked [OF st' cred, of t])
        (use attempt_status.update_rows [OF u] attempt_status.update_found [OF u] internal_event_tables(2) [OF e] in
          \<open>auto simp: cas_row_def assign_def contact_assignments_def contacted_row_def\<close>)
  qed
qed

section \<open>Observations\<close>

definition terminal_row :: "observation \<Rightarrow> int \<Rightarrow> attempt_status_row \<Rightarrow> attempt_status_row" where
  "terminal_row obs t r = r\<lparr>as_observed_execution := observation_as_str obs, as_terminal := 1,
     as_finished_at := Some t, as_updated_at := t, as_revision := as_revision r + 1\<rparr>"

definition revoked_row :: "int \<Rightarrow> session_row \<Rightarrow> session_row" where
  "revoked_row t r = r\<lparr>acs_state := ''REVOKED'', acs_revoked_at := Some t,
     acs_revocation_reason := Some (case acs_revocation_reason r of None \<Rightarrow> ''attempt-terminal'' | Some x \<Rightarrow> x)\<rparr>"

definition same_standing :: "attempt_status_row \<Rightarrow> attempt_status_row \<Rightarrow> bool" where
  "same_standing r r' \<longleftrightarrow> as_attempt_id r' = as_attempt_id r \<and> as_run_id r' = as_run_id r
     \<and> as_terminal r' = as_terminal r \<and> as_launch_contact_state r' = as_launch_contact_state r"

lemma same_standing_map: "(\<And>r. same_standing r (f r)) \<Longrightarrow> list_all2 same_standing rs (map f rs)"
  by (simp add: list_all2_conv_all_nth)

lemma apply_observeD:
  assumes "apply_observe aid expected obs t w = (Inr n, w')"
  shows "list_all2 same_standing (attempt_status (tx w)) (attempt_status (tx w'))"
    and "agent_control_sessions (tx w') = agent_control_sessions (tx w)"
proof -
  from assms obtain w1 where u: "update_revisioned_by attempt_status_table aid expected (observe_assignments obs t) w = (Inr n, w1)"
    and s: "tx w' = tx w1 \<or> (\<exists>k. execute (stamp_started aid t) w1 = (Inr k, w'))"
    by (auto simp: apply_observe_def bindW_iff returnW_iff requireW_iff split: if_splits)
  have 1: "list_all2 same_standing (attempt_status (tx w)) (attempt_status (tx w1))"
    using attempt_status.update_rows [OF u]
    by (simp add: same_standing_map same_standing_def cas_row_def assign_def observe_assignments_def)
  have 2: "list_all2 same_standing (attempt_status (tx w1)) (attempt_status (tx w'))"
    using s by (auto simp: wr stamp_started_def same_standing_def intro!: same_standing_map list_all2_refl)
  from 1 2 show "list_all2 same_standing (attempt_status (tx w)) (attempt_status (tx w'))"
    by (rule list_all2_trans [rotated]) (simp add: same_standing_def)
  have "agent_control_sessions (tx w1) = agent_control_sessions (tx w)"
    using attempt_status.update_SomeD(4) [OF u] by simp
  then show "agent_control_sessions (tx w') = agent_control_sessions (tx w)"
    using s by (auto simp: wr stamp_started_def)
qed

lemma apply_terminalD:
  assumes "apply_terminal aid expected obs t w = (Inr n, w')"
  obtains st where "find_attempt_status aid (tx w) = Some st"
    "as_launch_contact_state st = ''CONTACT_MAY_HAVE_OCCURRED''"
    "attempt_status (tx w') = map (\<lambda>r. if as_attempt_id r = aid \<and> as_revision r = expected
       then terminal_row obs t r else r) (attempt_status (tx w))"
    "agent_control_sessions (tx w') = map (\<lambda>r. if acs_attempt_id r = aid \<and> acs_state r = ''ACTIVE''
       then revoked_row t r else r) (agent_control_sessions (tx w))"
proof -
  from assms obtain st w1 k w2 c where st: "find_attempt_status aid (tx w) = Some st"
    "as_launch_contact_state st = ''CONTACT_MAY_HAVE_OCCURRED''"
    and u: "update_revisioned_by attempt_status_table aid expected (terminal_assignments obs t) (tick w) = (Inr n, w1)"
    and x: "execute (revoke_session aid t) w1 = (Inr k, w2)"
    and e: "append_internal_event ''run.attempt.terminal'' w2 = (Inr c, w')"
    by (auto simp: apply_terminal_def bindW_iff returnW_iff requireW_iff query_optional_iff)
  have "attempt_status (tx w') = map (\<lambda>r. if as_attempt_id r = aid \<and> as_revision r = expected
       then terminal_row obs t r else r) (attempt_status (tx w))"
    using attempt_status.update_rows [OF u] x internal_event_tables(2) [OF e]
    by (auto simp: wr revoke_session_def cas_row_def assign_def terminal_assignments_def terminal_row_def)
  moreover have "agent_control_sessions (tx w') = map (\<lambda>r. if acs_attempt_id r = aid \<and> acs_state r = ''ACTIVE''
       then revoked_row t r else r) (agent_control_sessions (tx w))"
    using attempt_status.update_SomeD(4) [OF u] x internal_event_tables(3) [OF e]
    by (auto simp: wr revoke_session_def revoked_row_def)
  ultimately show thesis by (rule that [OF st])
qed

end
