(* ===== verification/Submission_Effects.thy ===== *)
theory Submission_Effects
  imports Execution_Effects
begin

text \<open>
  What T6 does: the authority a committed submission found (\<open>t6_current\<close>), the rows it left
  (\<open>finalized_row\<close>, \<open>evaluating_row\<close>, the Candidate and its outputs), and the reconciled replay that
  writes nothing.
\<close>

section \<open>The fence\<close>

definition t6_current :: "candidate_submission \<Rightarrow> run_status_row \<Rightarrow> task_row \<Rightarrow> db \<Rightarrow> bool" where
  "t6_current s rs task d \<longleftrightarrow>
     (\<exists>a st. find_attempt (cred_attempt_id (csub_credential s)) d = Some a \<and> at_run_id a = rs_run_id rs
        \<and> find_attempt_status (cred_attempt_id (csub_credential s)) d = Some st \<and> as_terminal st = 0)
     \<and> find_run_status (rs_run_id rs) d = Some rs \<and> rs_phase rs = ''Active'' \<and> rs_active_slot rs \<noteq> None
     \<and> rs_current_attempt_id rs = Some (cred_attempt_id (csub_credential s))
     \<and> find_task (rs_task_id rs) d = Some task \<and> t_phase task = ''Active''
     \<and> t_active_run_id task = Some (rs_run_id rs) \<and> t_revision task = csub_expected_task_revision s
     \<and> goal_phase_of_task (rs_task_id rs) d \<in> {Some ''Planning'', Some ''Active'', Some ''Evaluating''}
     \<and> cr_run_id (csub_candidate s) = rs_run_id rs \<and> cr_task_id (csub_candidate s) = rs_task_id rs
     \<and> find_candidate_of_run (rs_run_id rs) d = None"

lemma t6_attemptD:
  assumes "t6_attempt s w = (Inr rid, w')"
  obtains a st where "tx w' = tx w" "find_attempt (cred_attempt_id (csub_credential s)) (tx w) = Some a"
    "at_run_id a = rid" "find_attempt_status (cred_attempt_id (csub_credential s)) (tx w) = Some st" "as_terminal st = 0"
  using assms by (auto simp: t6_attempt_def Let_def wr bind_eq_Some_conv case_prod_unfold)

lemma t6_runD:
  assumes "t6_run s rid w = (Inr rs, w')"
  shows "tx w' = tx w" "find_run_status rid (tx w) = Some rs" "rs_run_id rs = rid" "rs_phase rs = ''Active''"
    "rs_active_slot rs \<noteq> None" "rs_current_attempt_id rs = Some (cred_attempt_id (csub_credential s))"
  using assms by (auto simp: t6_run_def wr find_run_status_def dest: find_SomeD)

lemma t6_taskD:
  assumes "t6_task s rs w = (Inr task, w')"
  shows "tx w' = tx w" "find_task (rs_task_id rs) (tx w) = Some task" "t_phase task = ''Active''"
    "t_active_run_id task = Some (rs_run_id rs)" "t_revision task = csub_expected_task_revision s"
    "goal_phase_of_task (rs_task_id rs) (tx w) \<in> {Some ''Planning'', Some ''Active'', Some ''Evaluating''}"
    "cr_run_id (csub_candidate s) = rs_run_id rs" "cr_task_id (csub_candidate s) = rs_task_id rs"
  using assms by (auto simp: t6_task_def Let_def wr)

lemma t6_reads:
  "leaves (\<lambda>d. d) (t6_specification s task)"
  "leaves (\<lambda>d. d) (foldW (t6_output rid spec) u outs)"
  "leaves (\<lambda>d. d) (load_committed_outcome c digest)"
  "leaves (\<lambda>d. d) (authenticate_agent_session cred)"
  "leaves (\<lambda>d. d) (existing_request cred request_id hash)"
  unfolding t6_specification_def t6_output_def declared_slot_def candidate_check_def
    ensure_artifact_complete_def load_committed_outcome_def authenticate_agent_session_def
    judge_session_def existing_request_def Let_def
  by (intro frame)+

lemma create_candidateD:
  assumes "create_candidate sha s tid rid w = (Inr t, w')"
  shows "find_candidate_of_run rid (tx w) = None"
    and "candidates (tx w') = candidates (tx w) @ [submitted_row sha s tid rid t]"
    and "leaves p (foldW (add_output sha s rid) () (cr_outputs (csub_candidate s))) \<Longrightarrow>
      (\<And>f d. p (candidates_update f d) = p d) \<Longrightarrow> p (tx w') = p (tx w)"
    and "distinct (map rs_run_id (run_status (tx w)))" and "distinct (map t_id (tasks (tx w)))"
proof -
  from assms obtain w1 n w2 u where none: "find_candidate_of_run rid (tx w) = None"
    and i: "execute (insert_into candidates_update (submitted_row sha s tid rid t)) w1 = (Inr n, w2)"
    and same: "tx w1 = tx w"
    and o: "foldW (add_output sha s rid) () (cr_outputs (csub_candidate s)) w2 = (Inr u, w')"
    by (auto simp: create_candidate_def bindW_iff returnW_iff now_iff query_optional_iff requireW_iff)
  show "find_candidate_of_run rid (tx w) = None" by (rule none)
  have "schema_ok (tx w2)" "run_status (tx w2) = run_status (tx w)" "tasks (tx w2) = tasks (tx w)"
    using i same by (auto simp: wr)
  from keys_distinct [OF this(1)] this(2,3)
  show "distinct (map rs_run_id (run_status (tx w)))" "distinct (map t_id (tasks (tx w)))" by simp_all
  have "leaves candidates (foldW (add_output sha s rid) () (cr_outputs (csub_candidate s)))"
    unfolding add_output_def by (intro frame; simp)
  from leavesD [OF this o] show "candidates (tx w') = candidates (tx w) @ [submitted_row sha s tid rid t]"
    using i same by (auto simp: wr)
  assume p: "leaves p (foldW (add_output sha s rid) () (cr_outputs (csub_candidate s)))"
    and c: "\<And>f d. p (candidates_update f d) = p d"
  from leavesD [OF p o] show "p (tx w') = p (tx w)" using i same c by (auto simp: wr)
qed

section \<open>The commit\<close>

definition finalized_row :: "byte list \<Rightarrow> int \<Rightarrow> run_status_row \<Rightarrow> run_status_row" where
  "finalized_row digest t r = r\<lparr>rs_phase := ''Finalizing'', rs_terminal_target := Some ''Completed'',
     rs_candidate_digest := Some digest, rs_updated_at := t, rs_revision := rs_revision r + 1\<rparr>"

definition evaluating_row :: "task_row \<Rightarrow> task_row" where
  "evaluating_row r = r\<lparr>t_phase := ''Evaluating'', t_revision := t_revision r + 1\<rparr>"

lemma cas_finalize:
  "cas_row run_status_table rid n (finalize_assignments digest t) =
     (\<lambda>r. if rs_run_id r = rid \<and> rs_revision r = n then finalized_row (as_bytes digest) t r else r)"
  by (auto simp: cas_row_def assign_def finalize_assignments_def finalized_row_def)

lemma cas_evaluate:
  "cas_row tasks_table tid n evaluate_assignments =
     (\<lambda>r. if t_id r = tid \<and> t_revision r = n then evaluating_row r else r)"
  by (auto simp: cas_row_def assign_def evaluate_assignments_def evaluating_row_def)

lemma map_key_revision:
  assumes "distinct (map key xs)" and "x \<in> set xs" "key x = k" "ver x = n"
  shows "map (\<lambda>r. if key r = k \<and> ver r = n then f r else r) xs = map (\<lambda>r. if key r = k then f r else r) xs"
  using assms by (auto simp: distinct_map inj_on_def)

lemma leaves_record_submission:
  "(\<And>f d. p (agent_requests_update f d) = p d) \<Longrightarrow> leaves p (record_submission sha s prior t)"
  unfolding record_submission_def settle_request_def Let_def by (intro frame; simp)

lemma leaves_outputs:
  "(\<And>f d. p (candidate_outputs_update f d) = p d) \<Longrightarrow>
   leaves p (foldW (add_output sha s rid) () outs)"
  unfolding add_output_def by (intro frame; simp)

lemma t6_commitD:
  assumes "t6_commit sha s prior w = (Inr out, w')"
  obtains rs task t where "t6_current s rs task (tx w)"
    "candidates (tx w') = candidates (tx w) @ [submitted_row sha s (rs_task_id rs) (rs_run_id rs) t]"
    "run_status (tx w') = map (\<lambda>r. if rs_run_id r = rs_run_id rs
       then finalized_row (as_bytes (candidate_digest_of sha s)) t r else r) (run_status (tx w))"
    "tasks (tx w') = map (\<lambda>r. if t_id r = rs_task_id rs then evaluating_row r else r) (tasks (tx w))"
    "out = \<lparr>sot_committed = \<lparr>ccm_candidate_digest = display (candidate_digest_of sha s),
          ccm_task_revision = csub_expected_task_revision s + 1, ccm_run_revision = rs_revision rs + 1\<rparr>,
        sot_reconciled = False\<rparr>"
proof -
  let ?d = "candidate_digest_of sha s"
  from assms obtain rid w1 rs w2 task w3 spec w4 u w5 t w6 n w7 m w8 v w9 c where
    a: "t6_attempt s w = (Inr rid, w1)" and r: "t6_run s rid w1 = (Inr rs, w2)"
    and k: "t6_task s rs w2 = (Inr task, w3)" and sp: "t6_specification s task w3 = (Inr spec, w4)"
    and o: "foldW (t6_output rid spec) () (cr_outputs (csub_candidate s)) w4 = (Inr u, w5)"
    and cc: "create_candidate sha s (rs_task_id rs) rid w5 = (Inr t, w6)"
    and ru: "update_revisioned_by run_status_table rid (rs_revision rs) (finalize_assignments ?d t) w6 = (Inr n, w7)"
    and tu: "update_revisioned_by tasks_table (rs_task_id rs) (csub_expected_task_revision s) evaluate_assignments w7 = (Inr m, w8)"
    and q: "record_submission sha s prior t w8 = (Inr v, w9)"
    and e: "append_internal_event ''candidate.submitted'' w9 = (Inr c, w')"
    and out: "out = \<lparr>sot_committed = \<lparr>ccm_candidate_digest = display ?d,
          ccm_task_revision = m, ccm_run_revision = n\<rparr>, sot_reconciled = False\<rparr>"
    by (auto simp: t6_commit_def bindW_iff returnW_iff)
  note R = t6_runD [OF r] and K = t6_taskD [OF k]
  from a obtain att st where A: "tx w1 = tx w" "find_attempt (cred_attempt_id (csub_credential s)) (tx w) = Some att"
    "at_run_id att = rid" "find_attempt_status (cred_attempt_id (csub_credential s)) (tx w) = Some st" "as_terminal st = 0"
    by (rule t6_attemptD)
  have same: "tx w5 = tx w"
    using leavesD [OF t6_reads(1) sp] leavesD [OF t6_reads(2) o] K(1) R(1) A(1) by simp
  have other: "run_status (tx w6) = run_status (tx w)" "tasks (tx w6) = tasks (tx w)"
    using create_candidateD(3) [OF cc, of run_status] create_candidateD(3) [OF cc, of tasks]
    by (simp_all add: leaves_outputs same)
  note rest = leavesD [OF leaves_record_submission q]
  note dist = create_candidateD(4,5) [OF cc, unfolded same]
  have runs: "run_status (tx w7) = map (\<lambda>r. if rs_run_id r = rid then finalized_row (as_bytes ?d) t r else r)
      (run_status (tx w))"
    unfolding run_status.update_rows [OF ru, simplified] other cas_finalize
    using R(2,3) A(1) by (intro map_key_revision dist) (auto simp: find_run_status_def dest: find_SomeD)
  have kept: "tasks (tx w7) = tasks (tx w)"
    using other run_status.update_SomeD(4) [OF ru] by simp
  have ts: "tasks (tx w8) = map (\<lambda>r. if t_id r = rs_task_id rs then evaluating_row r else r) (tasks (tx w))"
    unfolding tasks.update_rows [OF tu, simplified] cas_evaluate kept
    using K(2,5) R(1) A(1)
    by (intro map_key_revision dist) (auto simp: find_task_def dest: find_SomeD)
  have "t6_current s rs task (tx w)"
    using A R K create_candidateD(1) [OF cc] by (simp add: t6_current_def same)
  moreover have "candidates (tx w') = candidates (tx w) @ [submitted_row sha s (rs_task_id rs) (rs_run_id rs) t]"
    using create_candidateD(2) [OF cc] rest [of candidates] internal_event_tables [OF e] R(3) same
      run_status.update_SomeD(4) [OF ru] tasks.update_SomeD(4) [OF tu] by simp
  moreover have "run_status (tx w') = map (\<lambda>r. if rs_run_id r = rs_run_id rs
       then finalized_row (as_bytes ?d) t r else r) (run_status (tx w))"
    using runs internal_event_tables(1) [OF e] rest [of run_status] tasks.update_SomeD(4) [OF tu] R(3) by simp
  moreover have "tasks (tx w') = map (\<lambda>r. if t_id r = rs_task_id rs then evaluating_row r else r) (tasks (tx w))"
    using ts internal_event_tables(4) [OF e] rest [of tasks] by simp
  ultimately show thesis
    using that out run_status.update_SomeD(1) [OF ru] tasks.update_SomeD(1) [OF tu] by simp
qed

lemma apply_candidate_submissionD:
  assumes run: "apply_candidate_submission sha s w = (Inr out, w')"
  obtains
    (reconciled) "tx w' = tx w" "sot_reconciled out"
  | (committed) rs task t where "t6_current s rs task (tx w)"
    "candidates (tx w') = candidates (tx w) @ [submitted_row sha s (rs_task_id rs) (rs_run_id rs) t]"
    "run_status (tx w') = map (\<lambda>r. if rs_run_id r = rs_run_id rs
       then finalized_row (as_bytes (candidate_digest_of sha s)) t r else r) (run_status (tx w))"
    "tasks (tx w') = map (\<lambda>r. if t_id r = rs_task_id rs then evaluating_row r else r) (tasks (tx w))"
    "out = \<lparr>sot_committed = \<lparr>ccm_candidate_digest = display (candidate_digest_of sha s),
          ccm_task_revision = csub_expected_task_revision s + 1, ccm_run_revision = rs_revision rs + 1\<rparr>,
        sot_reconciled = False\<rparr>"
proof -
  from run obtain w1 existing w2 where a: "authenticate_agent_session (csub_credential s) w = (Inr (), w1)"
    and q: "existing_request (csub_credential s) (csub_request_id s) (csub_request_hash s) w1 = (Inr existing, w2)"
    and rest: "(case existing of
         Some (Succeeded result_ref) \<Rightarrow>
           bindW (someW (from_display result_ref) (InvariantViolated (Fmt
              ''agent request stores an unparsable result ref {result_ref}'' [FStr result_ref]))) (\<lambda>digest.
           bindW (load_committed_outcome (csub_candidate s) digest) (\<lambda>committed.
           returnW \<lparr>sot_committed = committed, sot_reconciled = True\<rparr>))
       | Some Started \<Rightarrow> t6_commit sha s True
       | Some (Failed problem_code) \<Rightarrow> t6_commit sha s True
       | None \<Rightarrow> t6_commit sha s False) w2 = (Inr out, w')"
    by (auto simp: apply_candidate_submission_def bindW_iff)
  have same: "tx w2 = tx w" using leavesD [OF t6_reads(4) a] leavesD [OF t6_reads(5) q] by simp
  show thesis
  proof (cases "\<exists>result_ref. existing = Some (Succeeded result_ref)")
    case True
    with rest obtain c digest w3 where "load_committed_outcome (csub_candidate s) digest w2 = (Inr c, w3)"
      "w' = w3" "sot_reconciled out" by (auto simp: bindW_iff someW_iff returnW_iff)
    then show ?thesis using leavesD [OF t6_reads(3)] same by (metis reconciled)
  next
    case False
    with rest obtain prior where "t6_commit sha s prior w2 = (Inr out, w')"
      by (auto split: option.splits agent_request_state.splits)
    then show ?thesis by (elim t6_commitD) (simp_all add: same committed)
  qed
qed

end
