(* ===== verification/Invariants.thy ===== *)
theory Invariants
  imports System Submission_Effects
begin

text \<open>
  The invariants of the reachable stores, each an interpretation of \<open>store_invariant\<close>: the journal,
  the single execution slot, the fairness charges, the eligibility of Ready Tasks, the authority
  of terminal Attempts. An operation that does not write the tables an invariant reads is
  discharged by its write set; the others by what they do to the rows.
\<close>

section \<open>The journal\<close>

lemma journal_leaf:
  assumes "leaves_ledger f" and "keeps schema_ok f"
  shows "preserves journal_inv f"
  using assms by (rule preserves_frame) (rule journal_inv_frame)

lemma journal_touched:
  "preserves journal_inv (apply_rekey aid verifier expected)"
  "preserves journal_inv (apply_launch_contact rid aid epoch expected credential)"
  "preserves journal_inv (apply_observation aid expected upd)"
  "preserves journal_inv (apply_conclude_run rid target expected)"
  "preserves journal_inv (apply_candidate_submission sha submission)"
  unfolding apply_rekey_def forbid_rekey_unless_precontact_def apply_launch_contact_def
    apply_observation_def apply_observe_def apply_terminal_def stamp_started_def revoke_session_def
    apply_conclude_run_def apply_candidate_submission_def t6_commit_def t6_attempt_def t6_run_def t6_task_def
    t6_specification_def t6_output_def declared_slot_def candidate_check_def ensure_artifact_complete_def
    create_candidate_def add_output_def record_submission_def load_committed_outcome_def settle_request_def
    authenticate_agent_session_def judge_session_def existing_request_def Let_def
  by (intro keep keeps_journal_internal | (rule journal_leaf, (intro frame; simp add: ledger_part_def), intro keep))+

interpretation journal: store_invariant sha journal_inv for sha
  by unfold_locales
    (erule (2) journal_inv_append | rule journal_touched
     | (rule journal_leaf, (rule writes; simp add: ledger_part_def), rule schema_kept))+

section \<open>The execution slot\<close>

definition slot_inv :: "db \<Rightarrow> bool" where
  "slot_inv d \<longleftrightarrow> (\<forall>r \<in> set (run_status d). run_nonterminal r \<longrightarrow> rs_active_slot r = Some ''global'')"

lemma slot_invI:
  assumes "run_status d' = map f (run_status d)" "slot_inv d"
    and "\<And>r. r \<in> set (run_status d) \<Longrightarrow> run_nonterminal (f r) \<Longrightarrow>
      run_nonterminal r \<and> rs_active_slot (f r) = rs_active_slot r"
  shows "slot_inv d'"
  using assms by (auto simp: slot_inv_def)

lemma run_status_unique:
  assumes "schema_ok d" "find_run_status rid d = Some rs" "r \<in> set (run_status d)" "rs_run_id r = rid"
  shows "r = rs"
  using keys_distinct(1) [OF assms(1)] find_SomeD [OF assms(2) [unfolded find_run_status_def]] assms(3,4)
  by (auto simp: distinct_map inj_on_def)

lemma slot_touched:
  "preserves slot_inv (apply_run_intent sha i)"
  "preserves slot_inv (apply_attempt_creation a)"
  "preserves slot_inv (apply_conclude_run rid target expected)"
  "preserves slot_inv (apply_candidate_submission sha submission)"
proof -
  show "preserves slot_inv (apply_run_intent sha i)"
    by (rule preservesI, rule schema_kept, erule apply_run_intentD)
      (auto simp: slot_inv_def t3_effect_def run_created_def new_run_status_def)
  show "preserves slot_inv (apply_attempt_creation a)"
    by (rule preservesI, rule schema_kept, erule apply_attempt_creationD, erule slot_invI)
      (auto simp: run_nonterminal_def pointed_row_def split: if_splits)
  show "preserves slot_inv (apply_conclude_run rid target expected)"
    by (rule preservesI, rule schema_kept, erule apply_conclude_runD, erule slot_invI)
      (auto simp: run_nonterminal_def concluded_row_def split: if_splits)
  show "preserves slot_inv (apply_candidate_submission sha submission)"
  proof (rule preservesI, rule schema_kept)
    fix w x w'
    assume run: "apply_candidate_submission sha submission w = (Inr x, w')"
      and ok: "schema_ok (tx w)" and inv: "slot_inv (tx w)"
    from run ok show "slot_inv (tx w')"
    proof (cases rule: apply_candidate_submissionD)
      case (committed rs task t)
      have "run_nonterminal r" if "r \<in> set (run_status (tx w))" "rs_run_id r = rs_run_id rs" for r
        using run_status_unique [OF ok _ that] committed(1) by (auto simp: t6_current_def run_nonterminal_def)
      with committed(3) inv show ?thesis
        by (elim slot_invI) (auto simp: finalized_row_def split: if_splits)
    qed (simp add: inv)
  qed
qed

lemma slot_leaf:
  assumes "leaves run_status f" and "keeps schema_ok f"
  shows "preserves slot_inv f"
  using assms by (rule preserves_frame) (simp add: slot_inv_def)

interpretation slot: store_invariant sha slot_inv for sha
  by unfold_locales
    (rule slot_touched | (rule slot_leaf, (rule writes; simp), rule schema_kept)
     | simp add: slot_inv_def ledger_append_def)+

text \<open>With the UNIQUE index on the slot: at most one Run is in flight.\<close>

lemma slot_unique:
  assumes "schema_ok d" "slot_inv d" and "r \<in> set (run_status d)" "r' \<in> set (run_status d)"
    and "run_nonterminal r" "run_nonterminal r'"
  shows "r = r'"
  using assms by (auto simp: schema_ok_iff uniques_ok_def slot_inv_def distinct_map inj_on_def)

section \<open>Fairness charges\<close>

text \<open>
  Every charge a Goal carries was drawn from the service counter: it is below the counter, and no
  other Goal carries the same one. The counter cannot wrap: the wrapped value fails its CHECK.
\<close>

definition charged_once :: "goal_scheduling_row list \<Rightarrow> bool" where
  "charged_once rows \<longleftrightarrow> (\<forall>r \<in> set rows. \<forall>r' \<in> set rows. \<forall>n. gs_last_served_sequence r = Some n \<longrightarrow>
     gs_last_served_sequence r' = Some n \<longrightarrow> gs_goal_id r = gs_goal_id r')"

definition charges_below :: "int \<Rightarrow> goal_scheduling_row list \<Rightarrow> bool" where
  "charges_below k rows \<longleftrightarrow> (\<forall>r \<in> set rows. \<forall>n. gs_last_served_sequence r = Some n \<longrightarrow> n < k)"

definition charge_inv :: "db \<Rightarrow> bool" where
  "charge_inv d \<longleftrightarrow> charged_once (goal_scheduling_state d)
     \<and> (\<forall>s \<in> set (scheduler_state d). charges_below (sc_next_service_sequence s) (goal_scheduling_state d))"

lemma scheduler_single:
  assumes "schema_ok d" "find_scheduler d = Some sched"
  shows "scheduler_state d = [sched]"
proof -
  have "sched \<in> set (scheduler_state d)"
    using find_SomeD assms(2) unfolding find_scheduler_def by fastforce
  moreover have "list_all check_scheduler_state (scheduler_state d)" "distinct (map sc_id (scheduler_state d))"
    using assms(1) by (simp_all add: schema_ok_iff checks_ok_def primary_keys_ok_def)
  ultimately show ?thesis
    by (cases "scheduler_state d"; cases "tl (scheduler_state d)")
      (auto simp: check_scheduler_state_def)
qed

lemma charged_rows_new:
  "r \<in> set (charged_rows i k t rows) \<Longrightarrow>
     gs_goal_id r = ri_goal_id i \<and> gs_last_served_sequence r = Some k \<or> r \<in> set rows"
  by (auto simp: charged_rows_def charge_row_def cas_row_def assign_def charge_assignments_def
      split: option.splits if_splits)

lemma charged_rows_below:
  assumes "charges_below k rows" "k < k'"
  shows "charges_below k' (charged_rows i k t rows)"
  using assms by (fastforce simp: charges_below_def dest: charged_rows_new)

lemma charged_rows_once:
  assumes below: "charges_below k rows" and once: "charged_once rows"
  shows "charged_once (charged_rows i k t rows)"
  unfolding charged_once_def
proof (intro ballI allI impI)
  fix r r' n
  assume r: "r \<in> set (charged_rows i k t rows)" "gs_last_served_sequence r = Some n"
    and r': "r' \<in> set (charged_rows i k t rows)" "gs_last_served_sequence r' = Some n"
  have old: "x \<in> set rows \<Longrightarrow> gs_last_served_sequence x = Some n \<Longrightarrow> n < k" for x
    using below by (auto simp: charges_below_def)
  from charged_rows_new [OF r(1)] charged_rows_new [OF r'(1)]
  show "gs_goal_id r = gs_goal_id r'"
  proof (elim disjE)
    assume "r \<in> set rows" "r' \<in> set rows"
    with once r(2) r'(2) show ?thesis unfolding charged_once_def by blast
  qed (use r r' old in auto)
qed

lemma charge_touched:
  "preserves charge_inv (set_dispatch_mode_body mode expected)"
  "preserves charge_inv (apply_run_intent sha i)"
proof -
  show "preserves charge_inv (set_dispatch_mode_body mode expected)"
  proof (rule preservesI, rule schema_kept)
    fix w x w'
    assume "set_dispatch_mode_body mode expected w = (Inr x, w')" and inv: "charge_inv (tx w)"
    then obtain t n w1 where u: "update_revisioned_by scheduler_state_table ''singleton'' expected
        [(''dispatch_mode'', \<lambda>r. r\<lparr>sc_dispatch_mode := dispatch_mode_as_str mode\<rparr>),
         (''updated_at'', \<lambda>r. r\<lparr>sc_updated_at := t\<rparr>)] (tick w) = (Inr n, w1)" and "tx w' = tx w1"
      by (auto simp: set_dispatch_mode_body_def bindW_iff now_iff read_state_iff)
    then show "charge_inv (tx w')"
      using scheduler_state.update_SomeD(4) [OF u] inv by (auto simp: charge_inv_def cas_row_def assign_def)
  qed
  show "preserves charge_inv (apply_run_intent sha i)"
  proof (rule preservesI, rule schema_kept)
    fix w x w'
    assume "apply_run_intent sha i w = (Inr x, w')" and ok: "schema_ok (tx w)" "schema_ok (tx w')"
      and inv: "charge_inv (tx w)"
    then obtain sched t where cur: "t3_current sha i sched (tx w)"
      and w': "tx w' = t3_effect i (sc_revision sched) (sc_next_service_sequence sched) t (tx w)"
      by (elim apply_run_intentD)
    have s: "scheduler_state (tx w) = [sched]"
      using cur by (intro scheduler_single ok) (simp add: t3_current_def)
    let ?s' = "sched\<lparr>sc_next_service_sequence := i64_succ (sc_next_service_sequence sched), sc_updated_at := t,
       sc_revision := sc_revision sched + 1\<rparr>"
    have "sc_id sched = ''singleton''"
      using ok(1) s by (simp add: schema_ok_iff checks_ok_def check_scheduler_state_def)
    then have s': "scheduler_state (tx w') = [?s']"
      using s by (simp add: w' t3_effect_def run_created_def cas_row_def assign_def advance_assignments_def)
    then have "1 \<le> i64_succ (sc_next_service_sequence sched)"
      using ok(2) by (simp add: schema_ok_iff checks_ok_def check_scheduler_state_def)
    then have "sc_next_service_sequence sched < i64_succ (sc_next_service_sequence sched)"
      by (auto simp: i64_succ_def i64_min_def split: if_splits)
    then show "charge_inv (tx w')"
      using inv by (simp add: charge_inv_def s s', simp add: w' t3_effect_def run_created_def charged_rows_once charged_rows_below)
  qed
qed

lemma charge_leaf:
  assumes "leaves (\<lambda>d. (scheduler_state d, goal_scheduling_state d)) f" and "keeps schema_ok f"
  shows "preserves charge_inv f"
  using assms by (rule preserves_frame) (simp add: charge_inv_def)

lemma charge_ledger: "charge_inv d \<Longrightarrow> charge_inv (ledger_append c row event_id t d)"
  by (simp add: charge_inv_def ledger_append_def)

interpretation charge: store_invariant sha charge_inv for sha
  by unfold_locales
    (rule charge_touched | erule charge_ledger | (rule charge_leaf, (rule writes; simp), rule schema_kept))+

section \<open>Eligibility\<close>

text \<open>
  A Ready Task is one the scheduler can see and nobody executes: it has an open eligibility row and
  no responsible Run.
\<close>

definition eligible :: "string \<Rightarrow> db \<Rightarrow> bool" where
  "eligible tid d \<longleftrightarrow> (\<exists>s \<in> set (task_scheduling_state d). tsc_task_id s = tid \<and> tsc_eligible_since s \<noteq> None)"

definition ready_inv :: "db \<Rightarrow> bool" where
  "ready_inv d \<longleftrightarrow> (\<forall>t \<in> set (tasks d). t_phase t = ''Ready'' \<longrightarrow> t_active_run_id t = None \<and> eligible (t_id t) d)"

lemma ready_map:
  assumes "tasks d' = map f (tasks d)" "ready_inv d"
    and "\<And>t. t \<in> set (tasks d) \<Longrightarrow> t_phase (f t) = ''Ready'' \<Longrightarrow> f t = t \<and> (eligible (t_id t) d \<longrightarrow> eligible (t_id t) d')"
  shows "ready_inv d'"
  using assms unfolding ready_inv_def by fastforce

lemma eligible_map:
  assumes "eligible tid d" "task_scheduling_state d' = map f (task_scheduling_state d)"
    and "\<And>s. s \<in> set (task_scheduling_state d) \<Longrightarrow> tsc_task_id s = tid \<Longrightarrow>
      tsc_task_id (f s) = tid \<and> (tsc_eligible_since s \<noteq> None \<longrightarrow> tsc_eligible_since (f s) \<noteq> None)"
  shows "eligible tid d'"
  using assms unfolding eligible_def by fastforce

lemma task_unique:
  assumes "schema_ok d" "find_task tid d = Some task" "t \<in> set (tasks d)" "t_id t = tid"
  shows "t = task"
  using keys_distinct(4) [OF assms(1)] find_SomeD [OF assms(2) [unfolded find_task_def]] assms(3,4)
  by (auto simp: distinct_map inj_on_def)

lemma ready_run_intent: "preserves ready_inv (apply_run_intent sha i)"
proof (rule preservesI, rule schema_kept)
  fix w x w'
  assume "apply_run_intent sha i w = (Inr x, w')" and ok: "schema_ok (tx w)" and inv: "ready_inv (tx w)"
  then obtain sched t where c: "t3_current sha i sched (tx w)"
    and w': "tx w' = t3_effect i (sc_revision sched) (sc_next_service_sequence sched) t (tx w)"
    by (elim apply_run_intentD)
  from c obtain task where cur: "find_task (ri_task_id i) (tx w) = Some task"
      "t_revision task = ri_expected_task_revision i" by (auto simp: t3_current_def)
  let ?f = "cas_row tasks_table (ri_task_id i) (ri_expected_task_revision i) (activate_assignments i)"
  show "ready_inv (tx w')"
  proof (rule ready_map [OF _ inv, of _ ?f])
    show "tasks (tx w') = map ?f (tasks (tx w))"
      by (simp add: w' t3_effect_def run_created_def)
  next
    fix r assume r: "r \<in> set (tasks (tx w))" "t_phase (?f r) = ''Ready''"
    have "t_id r \<noteq> ri_task_id i"
      using r task_unique [OF ok cur(1) r(1)] cur(2)
      by (auto simp: cas_row_def assign_def activate_assignments_def)
    moreover from this have "eligible (t_id r) (tx w')" if "eligible (t_id r) (tx w)"
      by (intro eligible_map [OF that, of _ "cas_row task_scheduling_state_table (ri_task_id i)
          (ri_expected_task_scheduling_revision i) (close_assignments t)"])
        (simp_all add: w' t3_effect_def run_created_def cas_row_def)
    ultimately show "?f r = r \<and> (eligible (t_id r) (tx w) \<longrightarrow> eligible (t_id r) (tx w'))"
      by (simp add: cas_row_def)
  qed
qed

lemma ready_touched:
  "preserves ready_inv (materialize_apply sha oid tid mplan)"
  "preserves ready_inv (cancel_goal_body gid)"
  "preserves ready_inv (backoff_body tid expected code detail next_at)"
  "preserves ready_inv (apply_candidate_submission sha submission)"
proof -
  show "preserves ready_inv (materialize_apply sha oid tid mplan)"
    by (rule preservesI, rule schema_kept, erule materialize_applyD)
      (auto simp: ready_inv_def eligible_def graph_patched_def task_written_def new_task_row_def
        eligibility_row_def split: if_splits)
  show "preserves ready_inv (cancel_goal_body gid)"
  proof (rule preservesI, rule schema_kept)
    fix w x w'
    assume "cancel_goal_body gid w = (Inr x, w')" and ok: "schema_ok (tx w)" and inv: "ready_inv (tx w)"
    then obtain already where w': "tx w' = cancelled_tasks gid (goals_update (map (\<lambda>g. if \<not> already \<and> g_id g = gid
        then retargeted_row g else g)) (tx w))" by (elim cancel_goal_bodyD)
    show "ready_inv (tx w')"
      by (rule ready_map [OF _ inv, of _ "\<lambda>t. if t_goal_id t = gid \<and> needs_fence t then fenced_row t else t"])
        (auto simp: w' cancelled_tasks_def eligible_def split: if_splits)
  qed
  show "preserves ready_inv (backoff_body tid expected code detail next_at)"
  proof (rule preservesI, rule schema_kept)
    fix w x w'
    assume "backoff_body tid expected code detail next_at w = (Inr x, w')" and inv: "ready_inv (tx w)"
    then obtain t where u: "update_revisioned_by task_scheduling_state_table tid expected
       [(''next_attempt_at'', \<lambda>r. r\<lparr>tsc_next_attempt_at := Some next_at\<rparr>),
        (''last_failure_code'', \<lambda>r. r\<lparr>tsc_last_failure_code := Some code\<rparr>),
        (''last_failure_detail_json'', \<lambda>r. r\<lparr>tsc_last_failure_detail_json := Some detail\<rparr>),
        (''updated_at'', \<lambda>r. r\<lparr>tsc_updated_at := t\<rparr>)] (tick w) = (Inr x, w')"
      by (auto simp: backoff_body_def bindW_iff now_iff)
    have eligible: "eligible k (tx w')" if "eligible k (tx w)" for k
      by (rule eligible_map [OF that task_scheduling_state.update_rows [OF u, simplified]])
        (simp add: cas_row_def assign_def)
    from inv show "ready_inv (tx w')"
      by (rule ready_map [rotated, where f = "\<lambda>t. t"])
        (simp_all add: eligible, simp add: task_scheduling_state.update_SomeD(4) [OF u])
  qed
  show "preserves ready_inv (apply_candidate_submission sha submission)"
  proof (rule preservesI, rule schema_kept)
    fix w x w'
    assume run: "apply_candidate_submission sha submission w = (Inr x, w')"
      and ok: "schema_ok (tx w)" and inv: "ready_inv (tx w)"
    have same: "task_scheduling_state (tx w') = task_scheduling_state (tx w)"
      by (rule leavesD [where p = task_scheduling_state and f = "apply_candidate_submission sha submission", OF _ run]) (rule writes; simp)
    from run ok show "ready_inv (tx w')"
    proof (cases rule: apply_candidate_submissionD)
      case (committed rs task t)
      show ?thesis
        by (rule ready_map [OF committed(4) inv]) (auto simp: evaluating_row_def eligible_def same split: if_splits)
    qed (simp add: inv)
  qed
qed

lemma ready_leaf:
  assumes "leaves (\<lambda>d. (tasks d, task_scheduling_state d)) f" and "keeps schema_ok f"
  shows "preserves ready_inv f"
  using assms by (rule preserves_frame) (simp add: ready_inv_def eligible_def)

lemma ready_ledger: "ready_inv d \<Longrightarrow> ready_inv (ledger_append c row event_id t d)"
  by (simp add: ready_inv_def eligible_def ledger_append_def)

interpretation ready: store_invariant sha ready_inv for sha
  by unfold_locales
    (rule ready_touched ready_run_intent | erule ready_ledger | (rule ready_leaf, (rule writes; simp), rule schema_kept))+

section \<open>Terminal Attempts\<close>

text \<open>
  An Attempt becomes terminal only after contact with its launch was recorded, and from then on
  its Agent Control session is revoked: its bearer opens nothing.
\<close>

definition attempt_inv :: "db \<Rightarrow> bool" where
  "attempt_inv d \<longleftrightarrow> (\<forall>st \<in> set (attempt_status d). as_terminal st = 1 \<longrightarrow>
     as_launch_contact_state st = ''CONTACT_MAY_HAVE_OCCURRED''
     \<and> (\<forall>se \<in> set (agent_control_sessions d). acs_attempt_id se = as_attempt_id st \<longrightarrow> acs_state se = ''REVOKED''))"

lemma attempt_inv_sessions:
  assumes "attempt_inv d" "attempt_status d' = attempt_status d"
    "agent_control_sessions d' = map f (agent_control_sessions d)"
    and "\<And>se. acs_attempt_id (f se) = acs_attempt_id se \<and> acs_state (f se) = acs_state se"
  shows "attempt_inv d'"
  using assms by (auto simp: attempt_inv_def)

lemma attempt_inv_standing:
  assumes inv: "attempt_inv d" and st: "list_all2 same_standing (attempt_status d) (attempt_status d')"
    and "agent_control_sessions d' = agent_control_sessions d"
  shows "attempt_inv d'"
proof -
  have "\<exists>r \<in> set (attempt_status d). same_standing r r'" if "r' \<in> set (attempt_status d')" for r'
    using st that by (metis in_set_conv_nth list_all2_conv_all_nth)
  then show ?thesis using inv unfolding attempt_inv_def assms(3) same_standing_def by metis
qed

lemma attempt_create: "preserves attempt_inv (apply_attempt_creation a)"
proof (rule preservesI, rule schema_kept)
  fix w x w'
  assume "apply_attempt_creation a w = (Inr x, w')" and ok: "schema_ok (tx w')" and inv: "attempt_inv (tx w)"
  then obtain n generation t where
    st: "attempt_status (tx w') = attempt_status (tx w) @ [fst (snd (attempt_rows_of a n generation t))]"
    and se: "agent_control_sessions (tx w') = agent_control_sessions (tx w) @ [snd (snd (attempt_rows_of a n generation t))]"
    by (elim apply_attempt_creationD)
  have "acn_attempt_id a \<notin> as_attempt_id ` set (attempt_status (tx w))"
    using keys_distinct(2) [OF ok] by (simp add: st attempt_rows_of_def)
  with inv show "attempt_inv (tx w')"
    by (auto simp: attempt_inv_def st se attempt_rows_of_def)
qed

lemma attempt_observe: "preserves attempt_inv (apply_observation aid expected upd)"
proof (rule preservesI, rule schema_kept)
  fix w x w'
  assume run: "apply_observation aid expected upd w = (Inr x, w')" and ok: "schema_ok (tx w)" and inv: "attempt_inv (tx w)"
  show "attempt_inv (tx w')"
  proof (cases upd)
    case (Observe obs)
    with run obtain t where o: "apply_observe aid expected obs t (tick w) = (Inr x, w')"
      by (auto simp: apply_observation_def bindW_iff now_iff)
    from inv show ?thesis
      by (rule attempt_inv_standing) (use apply_observeD [OF o] in simp_all)
  next
    case (TerminalUpdate obs)
    with run obtain t where "apply_terminal aid expected obs t (tick w) = (Inr x, w')"
      by (auto simp: apply_observation_def bindW_iff now_iff)
    then obtain st where found: "find_attempt_status aid (tx w) = Some st"
      "as_launch_contact_state st = ''CONTACT_MAY_HAVE_OCCURRED''"
      and ast: "attempt_status (tx w') = map (\<lambda>r. if as_attempt_id r = aid \<and> as_revision r = expected
       then terminal_row obs t r else r) (attempt_status (tx w))"
      and acs: "agent_control_sessions (tx w') = map (\<lambda>r. if acs_attempt_id r = aid \<and> acs_state r = ''ACTIVE''
       then revoked_row t r else r) (agent_control_sessions (tx w))"
      by (elim apply_terminalD) simp
    have contacted: "as_launch_contact_state r = ''CONTACT_MAY_HAVE_OCCURRED''"
      if "r \<in> set (attempt_status (tx w))" "as_attempt_id r = aid" for r
      using keys_distinct(2) [OF ok] find_SomeD [OF found(1) [unfolded find_attempt_status_def]] that found(2)
      by (auto simp: distinct_map inj_on_def)
    have states: "acs_state se \<in> {''ACTIVE'', ''REVOKED''}" if "se \<in> set (agent_control_sessions (tx w))" for se
      using ok that by (auto simp: schema_ok_iff checks_ok_def list_all_iff check_session_def)
    show ?thesis
      unfolding attempt_inv_def
    proof (intro ballI impI conjI)
      fix r assume r: "r \<in> set (attempt_status (tx w'))" "as_terminal r = 1"
      then obtain r0 where r0: "r0 \<in> set (attempt_status (tx w))" "as_attempt_id r = as_attempt_id r0"
        "as_launch_contact_state r = as_launch_contact_state r0" "as_attempt_id r0 = aid \<or> as_terminal r0 = 1"
        by (auto simp: ast terminal_row_def split: if_splits)
      with contacted inv show "as_launch_contact_state r = ''CONTACT_MAY_HAVE_OCCURRED''"
        by (auto simp: attempt_inv_def)
      fix se assume "se \<in> set (agent_control_sessions (tx w'))" "acs_attempt_id se = as_attempt_id r"
      with r0 inv states show "acs_state se = ''REVOKED''"
        by (auto simp: attempt_inv_def acs revoked_row_def split: if_splits)
    qed
  qed
qed

lemma attempt_contact:
  "preserves attempt_inv (apply_rekey aid verifier expected)"
  "preserves attempt_inv (apply_launch_contact rid aid epoch expected credential)"
proof -
  show "preserves attempt_inv (apply_rekey aid verifier expected)"
  proof (rule preservesI, rule schema_kept)
    fix w x w'
    assume run: "apply_rekey aid verifier expected w = (Inr x, w')" and inv: "attempt_inv (tx w)"
    have "attempt_status (tx w') = attempt_status (tx w)"
      by (rule leavesD [where p = attempt_status and f = "apply_rekey aid verifier expected", OF _ run]) (rule writes; simp)
    with run inv show "attempt_inv (tx w')"
      by (elim apply_rekeyD) (erule (2) attempt_inv_sessions, simp add: rekeyed_row_def)
  qed
  show "preserves attempt_inv (apply_launch_contact rid aid epoch expected credential)"
  proof (rule preservesI, rule schema_kept)
    fix w x w'
    assume run: "apply_launch_contact rid aid epoch expected credential w = (Inr x, w')" and inv: "attempt_inv (tx w)"
    have "agent_control_sessions (tx w') = agent_control_sessions (tx w)"
      by (rule leavesD [where p = agent_control_sessions and f = "apply_launch_contact rid aid epoch expected credential", OF _ run]) (rule writes; simp)
    with run inv show "attempt_inv (tx w')"
      by (elim apply_launch_contactD) (auto simp: attempt_inv_def contacted_row_def)
  qed
qed

lemma attempt_leaf:
  assumes "leaves (\<lambda>d. (attempt_status d, agent_control_sessions d)) f" and "keeps schema_ok f"
  shows "preserves attempt_inv f"
  using assms by (rule preserves_frame) (simp add: attempt_inv_def)

lemma attempt_ledger: "attempt_inv d \<Longrightarrow> attempt_inv (ledger_append c row event_id t d)"
  by (simp add: attempt_inv_def ledger_append_def)

interpretation attempt: store_invariant sha attempt_inv for sha
  by unfold_locales
    (rule attempt_create attempt_observe attempt_contact | erule attempt_ledger
     | (rule attempt_leaf, (rule writes; simp), rule schema_kept))+

end
