(* ===== verification/Stability.thy ===== *)
theory Stability
  imports Invariants
begin

text \<open>
  Facts that no operation undoes, each an interpretation of \<open>store_invariant\<close>: a recorded command,
  a closed Goal, a materialised planning operation, a terminal Attempt, a Workspace that has been
  mutable. What the store refuses once such a fact holds it refuses for ever.
\<close>

lemma find_updated:
  assumes "List.find (\<lambda>x. key x = k) xs = Some r" "xs' = map f xs @ new" "\<And>x. key (f x) = key x"
  shows "List.find (\<lambda>x. key x = k) xs' = Some (f r)"
  using assms by (simp add: find_append find_map_same)

section \<open>Recorded commands\<close>

definition recorded :: "string \<Rightarrow> command_row \<Rightarrow> db \<Rightarrow> bool" where
  "recorded generation row d \<longleftrightarrow> select_restore_generation d = Some generation
     \<and> find_command (co_command_epoch row) (co_command_id row) d = Some row"

lemma recorded_leaf:
  assumes "leaves (\<lambda>d. (system_state d, commands d)) f" and "keeps schema_ok f"
  shows "preserves (recorded generation row) f"
  using assms
  by (rule preserves_frame) (simp add: recorded_def select_restore_generation_def find_command_def)

lemma recorded_ledger: "recorded generation row d \<Longrightarrow> recorded generation row (ledger_append c e event_id t d)"
  by (simp add: recorded_def ledger_append_def select_restore_generation_def find_command_def find_append)

interpretation recorded: store_invariant sha "recorded generation row" for sha generation row
  by unfold_locales (erule recorded_ledger | (rule recorded_leaf, (rule writes; simp), rule schema_kept))+

section \<open>Closed Goals\<close>

definition closed_goal :: "string \<Rightarrow> db \<Rightarrow> bool" where
  "closed_goal gid d \<longleftrightarrow> (\<exists>g. find_goal gid d = Some g \<and> g_phase g \<notin> set goal_live_phases)"

lemma closed_goalI:
  assumes "closed_goal gid d" "goals d' = map f (goals d) @ new"
    and "\<And>g. g_id (f g) = g_id g"
    and "\<And>g. find_goal gid d = Some g \<Longrightarrow> g_phase g \<notin> set goal_live_phases \<Longrightarrow> g_phase (f g) \<notin> set goal_live_phases"
  shows "closed_goal gid d'"
  using assms(1,4) find_updated [where key = g_id and f = f, OF _ assms(2,3)]
  by (auto simp: closed_goal_def find_goal_def)

lemma closed_materialize: "preserves (closed_goal gid) (materialize_apply sha oid tid mplan)"
proof (rule preservesI, rule schema_kept)
  fix w x w'
  assume "materialize_apply sha oid tid mplan w = (Inr x, w')" and inv: "closed_goal gid (tx w)"
  then obtain op goal t where cur: "plan_current oid mplan op goal (tx w)"
    and w': "tx w' = graph_patched oid op goal (po_expected_graph_revision op)
      (task_written sha tid (po_goal_id op) (po_expected_graph_revision op + 1) (mt_spec mplan) t (tx w))"
    by (elim materialize_applyD)
  let ?f = "if g_phase goal = ''Planning''
    then cas_row goals_table (po_goal_id op) (g_revision goal) [set_goal_phase GActive] else (\<lambda>g. g)"
  show "closed_goal gid (tx w')"
  proof (rule closed_goalI [OF inv, where f = ?f and new = "[]"])
    show "goals (tx w') = map ?f (goals (tx w)) @ []"
      by (simp add: w' graph_patched_def task_written_def)
  next
    fix g assume g: "find_goal gid (tx w) = Some g" "g_phase g \<notin> set goal_live_phases"
    have "g_id g = gid" using find_SomeD [OF g(1) [unfolded find_goal_def]] by simp
    with g cur show "g_phase (?f g) \<notin> set goal_live_phases"
      by (auto simp: cas_row_def plan_current_def goal_live_phases_def)
  qed (simp add: cas_row_def assign_def set_goal_phase_def)
qed

lemma closed_touched:
  "preserves (closed_goal gid) (create_goal_body sha gid' spec)"
  "preserves (closed_goal gid) (cancel_goal_body gid')"
proof -
  show "preserves (closed_goal gid) (create_goal_body sha gid' spec)"
    by (rule preservesI, rule schema_kept, erule create_goal_bodyD)
      (erule closed_goalI [where f = "\<lambda>g. g"], simp_all)
  show "preserves (closed_goal gid) (cancel_goal_body gid')"
  proof (rule preservesI, rule schema_kept)
    fix w x w'
    assume "cancel_goal_body gid' w = (Inr x, w')" and ok: "schema_ok (tx w)" and inv: "closed_goal gid (tx w)"
    then obtain already where w': "tx w' = cancelled_tasks gid' (goals_update (map (\<lambda>g. if \<not> already \<and> g_id g = gid'
        then retargeted_row g else g)) (tx w))" by (elim cancel_goal_bodyD)
    show "closed_goal gid (tx w')"
      by (rule closed_goalI [OF inv, where new = "[]" and f = "\<lambda>g. if \<not> already \<and> g_id g = gid' then retargeted_row g else g"])
        (auto simp: w' cancelled_tasks_def retargeted_row_def goal_live_phases_def)
  qed
qed

lemma closed_leaf:
  assumes "leaves goals f" and "keeps schema_ok f"
  shows "preserves (closed_goal gid) f"
  using assms by (rule preserves_frame) (simp add: closed_goal_def find_goal_def)

lemma closed_ledger: "closed_goal gid d \<Longrightarrow> closed_goal gid (ledger_append c e event_id t d)"
  by (simp add: closed_goal_def ledger_append_def find_goal_def)

interpretation closed: store_invariant sha "closed_goal gid" for sha gid
  by unfold_locales (rule closed_touched closed_materialize | erule closed_ledger
    | (rule closed_leaf, (rule writes; simp), rule schema_kept))+

section \<open>Materialised operations\<close>

definition spent_operation :: "string \<Rightarrow> db \<Rightarrow> bool" where
  "spent_operation oid d \<longleftrightarrow> (\<exists>op. find_operation oid d = Some op \<and> po_state op = ''Materialized'')"

lemma spent_operationI:
  assumes "spent_operation oid d" "planning_operations d' = map f (planning_operations d) @ new"
    and "\<And>op. po_id (f op) = po_id op" and "\<And>op. po_state op = ''Materialized'' \<Longrightarrow> po_state (f op) = ''Materialized''"
  shows "spent_operation oid d'"
  using assms(1,4) find_updated [where key = po_id and f = f, OF _ assms(2,3)]
  by (auto simp: spent_operation_def find_operation_def)

lemma spent_touched:
  "preserves (spent_operation oid) (record_planning_body dec proposal)"
  "preserves (spent_operation oid) (materialize_apply sha oid' tid mplan)"
proof -
  show "preserves (spent_operation oid) (record_planning_body dec proposal)"
    by (rule preservesI, rule schema_kept, erule record_planning_bodyD)
      (erule spent_operationI [where f = "\<lambda>g. g"], simp_all)
  show "preserves (spent_operation oid) (materialize_apply sha oid' tid mplan)"
  proof (rule preservesI, rule schema_kept)
    fix w x w'
    assume "materialize_apply sha oid' tid mplan w = (Inr x, w')" and inv: "spent_operation oid (tx w)"
    then obtain op goal t where w': "tx w' = graph_patched oid' op goal (po_expected_graph_revision op)
      (task_written sha tid (po_goal_id op) (po_expected_graph_revision op + 1) (mt_spec mplan) t (tx w))"
      by (elim materialize_applyD)
    show "spent_operation oid (tx w')"
      by (rule spent_operationI [OF inv, where new = "[]" and f = "cas_row planning_operations_table oid' (po_revision op)
           [(''state'', \<lambda>r. r\<lparr>po_state := ''Materialized''\<rparr>)]"])
        (simp_all add: w' graph_patched_def task_written_def cas_row_def assign_def)
  qed
qed

lemma spent_leaf:
  assumes "leaves planning_operations f" and "keeps schema_ok f"
  shows "preserves (spent_operation oid) f"
  using assms by (rule preserves_frame) (simp add: spent_operation_def find_operation_def)

lemma spent_ledger: "spent_operation oid d \<Longrightarrow> spent_operation oid (ledger_append c e event_id t d)"
  by (simp add: spent_operation_def ledger_append_def find_operation_def)

interpretation spent: store_invariant sha "spent_operation oid" for sha oid
  by unfold_locales (rule spent_touched | erule spent_ledger
    | (rule spent_leaf, (rule writes; simp), rule schema_kept))+

section \<open>The standing of Attempts\<close>

text \<open>
  A fact about the status of an Attempt that launch contact and observations keep, and that depends
  on nothing an observation may change, holds for ever.
\<close>

definition attempt_is :: "(attempt_status_row \<Rightarrow> bool) \<Rightarrow> string \<Rightarrow> db \<Rightarrow> bool" where
  "attempt_is P aid d \<longleftrightarrow> (\<exists>st. find_attempt_status aid d = Some st \<and> P st)"

lemma attempt_isI:
  assumes "attempt_is P aid d" "attempt_status d' = map f (attempt_status d) @ new"
    and "\<And>r. as_attempt_id (f r) = as_attempt_id r" and "\<And>r. P r \<Longrightarrow> P (f r)"
  shows "attempt_is P aid d'"
  using assms(1,4) find_updated [where key = as_attempt_id and f = f, OF _ assms(2,3)]
  by (auto simp: attempt_is_def find_attempt_status_def)

lemma same_standing_find:
  assumes "list_all2 same_standing rows rows'" "List.find (\<lambda>r. as_attempt_id r = aid) rows = Some st"
  obtains st' where "List.find (\<lambda>r. as_attempt_id r = aid) rows' = Some st'" "same_standing st st'"
  using assms by (induction rule: list_all2_induct) (auto simp: same_standing_def split: if_splits)

locale attempt_standing =
  fixes P :: "attempt_status_row \<Rightarrow> bool"
  assumes same: "same_standing r r' \<Longrightarrow> P r \<Longrightarrow> P r'"
    and contacted: "P r \<Longrightarrow> P (contacted_row epoch t r)"
    and terminated: "P r \<Longrightarrow> P (terminal_row obs t r)"
begin

lemma standing_created: "preserves (attempt_is P aid) (apply_attempt_creation a)"
  by (rule preservesI, rule schema_kept, erule apply_attempt_creationD)
    (erule attempt_isI [where f = "\<lambda>g. g"], simp_all)

lemma standing_contacted: "preserves (attempt_is P aid) (apply_launch_contact rid aid' epoch expected credential)"
proof (rule preservesI, rule schema_kept)
  fix w x w'
  assume run: "apply_launch_contact rid aid' epoch expected credential w = (Inr x, w')"
    and inv: "attempt_is P aid (tx w)"
  from run show "attempt_is P aid (tx w')"
  proof (cases rule: apply_launch_contactD)
    case (marked st t)
    show ?thesis
      by (rule attempt_isI [OF inv, where new = "[]" and f = "\<lambda>r. if as_attempt_id r = aid' \<and> as_revision r = expected
           then contacted_row epoch t r else r"])
        (use contacted in \<open>simp_all add: marked(5)\<close>, simp add: contacted_row_def)
  qed (use inv in \<open>simp add: attempt_is_def find_attempt_status_def\<close>)
qed

lemma standing_observed: "preserves (attempt_is P aid) (apply_observation aid' expected upd)"
proof (rule preservesI, rule schema_kept)
  fix w x w'
  assume run: "apply_observation aid' expected upd w = (Inr x, w')" and inv: "attempt_is P aid (tx w)"
  show "attempt_is P aid (tx w')"
  proof (cases upd)
    case (Observe obs)
    with run obtain t where o: "apply_observe aid' expected obs t (tick w) = (Inr x, w')"
      by (auto simp: apply_observation_def bindW_iff now_iff)
    from inv show ?thesis
      unfolding attempt_is_def find_attempt_status_def
      by (metis same_standing_find same apply_observeD(1) [OF o] tick_simps(1))
  next
    case (TerminalUpdate obs)
    with run obtain t where o: "apply_terminal aid' expected obs t (tick w) = (Inr x, w')"
      by (auto simp: apply_observation_def bindW_iff now_iff)
    from o show ?thesis
      by (rule apply_terminalD)
        (rule attempt_isI [OF inv, where new = "[]" and f = "\<lambda>r. if as_attempt_id r = aid' \<and> as_revision r = expected
             then terminal_row obs t r else r"], use terminated in \<open>simp_all\<close>, simp add: terminal_row_def)
  qed
qed

lemma standing_leaf:
  assumes "leaves attempt_status f" and "keeps schema_ok f"
  shows "preserves (attempt_is P aid) f"
  using assms by (rule preserves_frame) (simp add: attempt_is_def find_attempt_status_def)

lemma standing_ledger: "attempt_is P aid d \<Longrightarrow> attempt_is P aid (ledger_append c e event_id t d)"
  by (simp add: attempt_is_def ledger_append_def find_attempt_status_def)

lemma standing_invariant: "store_invariant sha (attempt_is P aid)"
  by unfold_locales (rule standing_created standing_contacted standing_observed | erule standing_ledger
    | (rule standing_leaf, (rule writes; simp), rule schema_kept))+

end

text \<open>A terminal Attempt, and an Attempt whose launch may have been contacted.\<close>

interpretation terminal_standing: attempt_standing "\<lambda>st. as_terminal st = 1"
  by unfold_locales (auto simp: same_standing_def contacted_row_def terminal_row_def)

interpretation contact_standing: attempt_standing "\<lambda>st. as_launch_contact_state st = ''CONTACT_MAY_HAVE_OCCURRED''"
  by unfold_locales (auto simp: same_standing_def contacted_row_def terminal_row_def)

definition terminal_attempt :: "string \<Rightarrow> db \<Rightarrow> bool" where
  "terminal_attempt aid d \<longleftrightarrow> (\<exists>st. find_attempt_status aid d = Some st \<and> as_terminal st = 1)"

definition contacted_attempt :: "string \<Rightarrow> db \<Rightarrow> bool" where
  "contacted_attempt aid d \<longleftrightarrow> (\<exists>st. find_attempt_status aid d = Some st
     \<and> as_launch_contact_state st = ''CONTACT_MAY_HAVE_OCCURRED'')"

lemma attempt_is_cases:
  "terminal_attempt aid = attempt_is (\<lambda>st. as_terminal st = 1) aid"
  "contacted_attempt aid = attempt_is (\<lambda>st. as_launch_contact_state st = ''CONTACT_MAY_HAVE_OCCURRED'') aid"
  by (simp_all add: fun_eq_iff terminal_attempt_def contacted_attempt_def attempt_is_def)

interpretation terminal: store_invariant sha "terminal_attempt aid" for sha aid
  unfolding attempt_is_cases by (rule terminal_standing.standing_invariant)

interpretation contacted: store_invariant sha "contacted_attempt aid" for sha aid
  unfolding attempt_is_cases by (rule contact_standing.standing_invariant)

text \<open>A launch contact that was accepted is on record.\<close>

lemma launch_contact_recorded:
  assumes ok: "schema_ok (database s)" and mark: "mark_launch_contact rid aid epoch expected credential s = (Inr u, s')"
  shows "contacted_attempt aid (database s')"
proof -
  from mark obtain w where w: "apply_launch_contact rid aid epoch expected credential (writer_new s) = (Inr u, w)"
    and db: "database s' = tx w"
    by (auto simp: mark_launch_contact_def run_Inr_iff)
  have found: "find_attempt_status aid d = Some st"
    if "schema_ok d" "st \<in> set (attempt_status d)" "as_attempt_id st = aid" for d st
    using that keys_distinct(2) [OF that(1)] find_SomeD [of _ "attempt_status d"]
    by (cases "find_attempt_status aid d")
      (fastforce simp: find_attempt_status_def find_None_iff distinct_map inj_on_def)+
  from w show ?thesis
  proof (cases rule: apply_launch_contactD)
    case (already st)
    with found [of "database s" st] ok db show ?thesis by (auto simp: contacted_attempt_def)
  next
    case (marked st t)
    then obtain r where r: "r \<in> set (attempt_status (database s))" "as_attempt_id r = aid" "as_revision r = expected"
      by auto
    let ?f = "\<lambda>r. if as_attempt_id r = aid \<and> as_revision r = expected then contacted_row epoch t r else r"
    have "List.find (\<lambda>r. as_attempt_id r = aid) (attempt_status (tx w)) = Some (?f r)"
      by (rule find_updated [OF found [OF ok r(1,2), unfolded find_attempt_status_def], where new = "[]"])
        (use marked(5) in \<open>simp_all add: contacted_row_def\<close>)
    then have "find_attempt_status aid (tx w) = Some (contacted_row epoch t r)"
      using r by (simp add: find_attempt_status_def)
    then show ?thesis by (simp add: db contacted_attempt_def contacted_row_def)
  qed
qed

section \<open>Workspaces that have been mutable\<close>

definition mutable_phases :: "string list" where
  "mutable_phases = [''Ready'', ''Frozen'', ''Releasing'', ''Released'']"

text \<open>The Workspace's holder, repository and bases as they were bound.\<close>

definition bound_as :: "workspace_row \<Rightarrow> workspace_row \<Rightarrow> bool" where
  "bound_as r0 r \<longleftrightarrow> w_task_id r = w_task_id r0 \<and> w_repository r = w_repository r0
     \<and> w_source_path r = w_source_path r0 \<and> w_requested_base r = w_requested_base r0
     \<and> w_resolved_base r = w_resolved_base r0"

definition mutable_workspace :: "workspace_row \<Rightarrow> db \<Rightarrow> bool" where
  "mutable_workspace r0 d \<longleftrightarrow> (\<exists>r. find_workspace (w_id r0) d = Some r \<and> bound_as r0 r
     \<and> w_phase r \<in> set mutable_phases)"

lemma has_been_mutable_iff:
  "workspace_phase_parse s = Some p \<Longrightarrow> has_been_mutable p \<longleftrightarrow> s \<in> set mutable_phases"
  by (cases p) (auto simp: workspace_phase.of_str_iff mutable_phases_def)

lemma mutable_workspaceI:
  assumes "mutable_workspace r0 d" "workspaces d' = map f (workspaces d) @ new"
    and "\<And>r. w_id (f r) = w_id r"
    and "\<And>r. find_workspace (w_id r0) d = Some r \<Longrightarrow> w_phase r \<in> set mutable_phases \<Longrightarrow>
      bound_as r (f r) \<and> w_phase (f r) \<in> set mutable_phases"
  shows "mutable_workspace r0 d'"
proof -
  from assms(1) obtain r where r: "find_workspace (w_id r0) d = Some r" "bound_as r0 r" "w_phase r \<in> set mutable_phases"
    by (auto simp: mutable_workspace_def)
  have "find_workspace (w_id r0) d' = Some (f r)"
    using find_updated [where key = w_id, OF r(1) [unfolded find_workspace_def] assms(2,3)] by (simp add: find_workspace_def)
  with r assms(4) [OF r(1,3)] show ?thesis by (auto simp: mutable_workspace_def bound_as_def)
qed

lemma workspace_phase_and_baseD:
  assumes "workspace_phase_and_base wid expected w = (Inr (phase, base), w')"
  obtains r where "tx w' = tx w" "find_workspace wid (tx w) = Some r" "w_revision r = expected"
    "workspace_phase_parse (w_phase r) = Some phase"
  using assms by (auto simp: workspace_phase_and_base_def wr)

lemma workspace_transitionD:
  assumes "workspace_transition wid expected phase m w = (Inr x, w')"
  shows "workspaces (tx w') = map (\<lambda>r. if w_id r = wid \<and> w_revision r = expected
    then r\<lparr>w_phase := workspace_phase_as_str phase, w_materialization := materialization_as_str m,
      w_revision := expected + 1\<rparr> else r) (workspaces (tx w))"
proof -
  from assms obtain n w1 v where u: "update_revisioned_by workspaces_table wid expected (workspace_assignments phase m) w = (Inr n, w1)"
    and r: "read_in_transaction wid w1 = (Inr v, w')"
    by (auto simp: workspace_transition_def bindW_iff returnW_iff)
  have "leaves workspaces (read_in_transaction wid)"
    unfolding read_in_transaction_def by (intro frame)
  from leavesD [OF this r] show ?thesis
    using workspaces.update_rows [OF u]
    by (auto simp: cas_row_def [abs_def] assign_def workspace_assignments_def)
qed

lemma mutable_transition:
  assumes inv: "mutable_workspace r0 (tx w)" and tr: "workspace_transition wid expected phase m w = (Inr x, w')"
    and allowed: "has_been_mutable phase \<or>
      (\<exists>r p. find_workspace wid (tx w) = Some r \<and> workspace_phase_parse (w_phase r) = Some p \<and> \<not> has_been_mutable p)"
  shows "mutable_workspace r0 (tx w')"
proof (rule mutable_workspaceI [OF inv, where new = "[]"])
  show "workspaces (tx w') = map (\<lambda>r. if w_id r = wid \<and> w_revision r = expected
    then r\<lparr>w_phase := workspace_phase_as_str phase, w_materialization := materialization_as_str m,
      w_revision := expected + 1\<rparr> else r) (workspaces (tx w)) @ []"
    by (simp only: workspace_transitionD [OF tr] append_Nil2)
next
  fix r assume r: "find_workspace (w_id r0) (tx w) = Some r" "w_phase r \<in> set mutable_phases"
  have id: "w_id r = w_id r0" using find_SomeD [OF r(1) [unfolded find_workspace_def]] by simp
  have "has_been_mutable phase" if "w_id r = wid"
    using allowed r id that by (auto simp: has_been_mutable_iff)
  then show "bound_as r (if w_id r = wid \<and> w_revision r = expected
    then r\<lparr>w_phase := workspace_phase_as_str phase, w_materialization := materialization_as_str m,
      w_revision := expected + 1\<rparr> else r) \<and> w_phase (if w_id r = wid \<and> w_revision r = expected
    then r\<lparr>w_phase := workspace_phase_as_str phase, w_materialization := materialization_as_str m,
      w_revision := expected + 1\<rparr> else r) \<in> set mutable_phases"
    using r(2) has_been_mutable_iff [of "workspace_phase_as_str phase" phase]
    by (auto simp: bound_as_def workspace_phase.of_str_iff)
qed simp

lemma mutable_phase_step:
  assumes inv: "mutable_workspace r0 (tx w)"
    and p: "workspace_phase_and_base wid expected w = (Inr (q, base), w1)"
    and tr: "workspace_transition wid expected phase m w1 = (Inr x, w')"
    and "has_been_mutable phase \<or> \<not> has_been_mutable q"
  shows "mutable_workspace r0 (tx w')"
  by (rule workspace_phase_and_baseD [OF p], rule mutable_transition [OF _ tr]) (use inv assms(4) in auto)

lemma mutable_touched:
  "preserves (mutable_workspace r0) (open_workspace_body wid b)"
  "preserves (mutable_workspace r0) (begin_materialization_body wid expected)"
  "preserves (mutable_workspace r0) (complete_materialization_body wid expected verified)"
  "preserves (mutable_workspace r0) (fail_materialization_body wid expected observed)"
  "preserves (mutable_workspace r0) (freeze_body au task_id slot wid expected)"
proof -
  show "preserves (mutable_workspace r0) (open_workspace_body wid b)"
  proof (rule preservesI, rule schema_kept)
    fix w x w'
    assume "open_workspace_body wid b w = (Inr x, w')" and inv: "mutable_workspace r0 (tx w)"
    then obtain t where "workspaces (tx w') = workspaces (tx w) @ [new_workspace_row wid b t]"
      by (auto simp: open_workspace_body_def holder_phase_def wr split: option.splits)
    with inv show "mutable_workspace r0 (tx w')"
      by (elim mutable_workspaceI [where f = "\<lambda>r. r"]) (simp_all add: bound_as_def)
  qed
  show "preserves (mutable_workspace r0) (begin_materialization_body wid expected)"
  proof (rule preservesI, rule schema_kept)
    fix w x w'
    assume run: "begin_materialization_body wid expected w = (Inr x, w')" and inv: "mutable_workspace r0 (tx w)"
    from run obtain q base w1 where p: "workspace_phase_and_base wid expected w = (Inr (q, base), w1)"
      and tr: "workspace_transition wid expected WMaterializing MUnknown w1 = (Inr x, w')" and q: "\<not> has_been_mutable q"
      by (auto simp: begin_materialization_body_def not_yet_mutable_def bindW_iff requireW_iff)
    show "mutable_workspace r0 (tx w')" by (rule mutable_phase_step [OF inv p tr disjI2 [OF q]])
  qed
  show "preserves (mutable_workspace r0) (complete_materialization_body wid expected verified)"
  proof (rule preservesI, rule schema_kept)
    fix w x w'
    assume run: "complete_materialization_body wid expected verified w = (Inr x, w')" and inv: "mutable_workspace r0 (tx w)"
    from run obtain q base w1 where p: "workspace_phase_and_base wid expected w = (Inr (q, base), w1)"
      and tr: "workspace_transition wid expected WReady MPresent w1 = (Inr x, w')"
      by (auto simp: complete_materialization_body_def not_yet_mutable_def bindW_iff requireW_iff)
    show "mutable_workspace r0 (tx w')" by (rule mutable_phase_step [OF inv p tr]) simp
  qed
  show "preserves (mutable_workspace r0) (fail_materialization_body wid expected observed)"
  proof (rule preservesI, rule schema_kept)
    fix w x w'
    assume run: "fail_materialization_body wid expected observed w = (Inr x, w')" and inv: "mutable_workspace r0 (tx w)"
    from run obtain q base w1 where p: "workspace_phase_and_base wid expected w = (Inr (q, base), w1)"
      and tr: "workspace_transition wid expected WError observed w1 = (Inr x, w')" and q: "\<not> has_been_mutable q"
      by (auto simp: fail_materialization_body_def not_yet_mutable_def bindW_iff requireW_iff)
    show "mutable_workspace r0 (tx w')" by (rule mutable_phase_step [OF inv p tr disjI2 [OF q]])
  qed
  show "preserves (mutable_workspace r0) (freeze_body au task_id slot wid expected)"
  proof (rule preservesI, rule schema_kept)
    fix w x w'
    assume "freeze_body au task_id slot wid expected w = (Inr x, w')" and inv: "mutable_workspace r0 (tx w)"
    then obtain w1 w2 where f: "freezable task_id wid expected w = (Inr (), w1)"
      and v: "validate_seal_authority au task_id slot wid w1 = (Inr (), w2)"
      and tr: "workspace_transition wid expected WFrozen MPresent w2 = (Inr x, w')"
      by (auto simp: freeze_body_def bindW_iff)
    have "leaves (\<lambda>d. d) (freezable task_id wid expected)" "leaves (\<lambda>d. d) (validate_seal_authority au task_id slot wid)"
      unfolding freezable_def validate_seal_authority_def seal_task_def seal_run_def seal_frozen_def seal_output_def Let_def
      by (intro frame)+
    from leavesD [OF this(1) f] leavesD [OF this(2) v] inv tr
    show "mutable_workspace r0 (tx w')" by (intro mutable_transition [OF _ tr]) simp_all
  qed
qed

lemma mutable_leaf:
  assumes "leaves workspaces f" and "keeps schema_ok f"
  shows "preserves (mutable_workspace r0) f"
  using assms by (rule preserves_frame) (simp add: mutable_workspace_def find_workspace_def)

lemma mutable_ledger: "mutable_workspace r0 d \<Longrightarrow> mutable_workspace r0 (ledger_append c e event_id t d)"
  by (simp add: mutable_workspace_def ledger_append_def find_workspace_def)

interpretation mutable: store_invariant sha "mutable_workspace r0" for sha r0
  by unfold_locales (rule mutable_touched | erule mutable_ledger
    | (rule mutable_leaf, (rule writes; simp), rule schema_kept))+

end
