(* ===== verification/Example_Store.thy ===== *)
theory Example_Store
  imports Stability
begin

text \<open>
  Concrete stores and the equations that evaluate the store's operations on them: a freshly
  installed store, and a store in the middle of its life, with a Goal, its Tasks, a Workspace, a
  Run and a terminal Attempt.
\<close>

section \<open>Evaluation\<close>

lemmas evaluate = run_def writer_new_def bindW_def returnW_def errW_def requireW_def someW_def expectW_def
  writer_fail_def query_row_def query_optional_def query_all_def query_unixepoch_def query_randomblob_def
  execute_def faulty_def tick_def insert_into_def update_where_def update_revisioned_by_def cas_statement_def
  ensure_plain_identifier_def plain_identifier_code assign_def cas_row_def check_assignment_def assignable_def
  eq_ignore_ascii_case_def ascii_lowercase_def is_i64_def i64_min_def i64_max_def current_revision_by_def
  execute_command_def execute_envelope_def fence_epoch_def lookup_command_def allocate_sequence_def
  append_event_def record_command_def new_event_id_def now_def occupied_slot_def advance_sequence_def cursor_of_def

lemmas evaluate_schema =
  violated_def checks_ok_def primary_keys_ok_def uniques_ok_def foreign_keys_ok_def references_def
  List.map_filter_def length_between_def is_digest_def is_null_or_def check_system_state_def
  check_journal_epoch_def check_event_def check_command_def check_configuration_component_def
  check_configuration_revision_def check_active_configuration_def target_coherent_def goal_live_phases_def
  goal_terminal_phases_def task_live_phases_def task_terminal_phases_def check_goal_def
  check_goal_revision_def check_task_graph_def check_task_spec_def check_task_def check_task_graph_edge_def
  check_planning_operation_def check_planning_record_def presence_fence_def check_workspace_def
  check_scheduler_state_def check_goal_scheduling_def check_task_scheduling_def check_execution_binding_def
  check_source_snapshot_def run_nonterminal_def check_run_status_def check_blob_def check_artifact_def
  check_workspace_revision_def check_context_plan_def check_run_context_plan_def check_attempt_def
  check_attempt_status_def check_session_def check_agent_request_def check_production_record_def
  check_candidate_row_def check_candidate_output_def check_sandbox_def check_probe_result_def goal_ids_def
  task_ids_def component_ids_def run_holders_def attempt_holders_def

lemma sql_length_ascii:
  "list_all (\<lambda>c. c \<noteq> CHR 0x00 \<and> of_char c < (128 :: nat)) s \<Longrightarrow> sql_length s = length s"
  by (induction s) (simp_all add: sql_length_def chars_count_def is_continuation_def)

lemma list_all_replicate [simp]: "list_all P (replicate n x) = (n = 0 \<or> P x)"
  by (induction n) auto

section \<open>A fresh store\<close>

definition example_env :: env where
  "example_env = \<lparr>unixepoch = (\<lambda>n. 1000 + int n),
     randomblob_hex = (\<lambda>n. replicate (n mod 33) CHR ''a'' @ replicate (32 - n mod 33) CHR ''b''),
     storage_fault = (\<lambda>_. False)\<rparr>"

definition example_generation :: string where
  "example_generation = replicate 32 CHR ''0''"

definition example_epoch :: string where
  "example_epoch = replicate 32 CHR ''1''"

definition example_store :: "db \<Rightarrow> store" where
  "example_store d = \<lparr>database = d, st_env = example_env, st_calls = 0\<rparr>"

definition fresh_store :: store where
  "fresh_store = example_store (bootstrap example_generation example_epoch 1000)"

definition example_command :: "string \<Rightarrow> command" where
  "example_command name = \<lparr>cmd_epoch = example_generation, cmd_id = name, cmd_request_hash = replicate 32 0,
     cmd_event_type = ''example''\<rparr>"

lemma example_lengths [simp]: "sql_length example_generation = 32" "sql_length example_epoch = 32"
  by (simp_all add: example_generation_def example_epoch_def sql_length_ascii)

lemma fresh_store_installed: "installed fresh_store"
  unfolding installed_def fresh_store_def example_store_def
  by (intro exI [of _ example_generation] exI [of _ example_epoch] exI [of _ 1000]) simp

lemma fresh_store_ok: "schema_ok (database fresh_store)"
  by (simp add: fresh_store_def example_store_def bootstrap_ok)

section \<open>A store in the middle of its life\<close>

text \<open>
  One Goal with a materialised plan; its first Task has a frozen Workspace and a Run whose only
  Attempt has ended, its second Task is Ready.
\<close>

definition example_bytes :: "byte list" where
  "example_bytes = replicate 32 7"

definition example_workspace :: workspace_row where
  "example_workspace = \<lparr>w_id = ''w1'', w_task_id = ''t1'', w_repository = ''repo'', w_source_path = ''/src'',
     w_requested_base = ''main'', w_resolved_base = replicate 40 CHR ''a'', w_phase = ''Frozen'',
     w_materialization = ''Present'', w_revision = 3, w_created_at = 10\<rparr>"

definition example_tasks_rows :: "task_row list" where
  "example_tasks_rows =
     [\<lparr>t_id = ''t1'', t_goal_id = ''g1'', t_created_graph_revision = 1, t_phase = ''Active'', t_revision = 2,
       t_terminal_target = None, t_terminal_reason_json = None, t_active_run_id = Some ''r1'',
       t_spec_digest = example_bytes\<rparr>,
      \<lparr>t_id = ''t2'', t_goal_id = ''g1'', t_created_graph_revision = 1, t_phase = ''Ready'', t_revision = 1,
       t_terminal_target = None, t_terminal_reason_json = None, t_active_run_id = None,
       t_spec_digest = example_bytes\<rparr>]"

definition example_db :: db where
  "example_db = (bootstrap example_generation example_epoch 1000)\<lparr>
     goals := [\<lparr>g_id = ''g1'', g_phase = ''Active'', g_current_revision = 1, g_revision = 2,
       g_terminal_target = None, g_created_at = 1\<rparr>],
     goal_revisions := [\<lparr>gr_goal_id = ''g1'', gr_revision = 1, gr_content_digest = example_bytes,
       gr_canonical_json = ''{}'', gr_created_at = 1\<rparr>],
     task_graphs := [\<lparr>tg_id = ''g1'', tg_revision = 1\<rparr>],
     task_specs := [\<lparr>tsp_digest = example_bytes, tsp_goal_id = ''g1'', tsp_goal_revision = 1,
       tsp_canonical_json = ''{}'', tsp_acceptance_digest = example_bytes,
       tsp_evaluator_registry_digest = example_bytes, tsp_configuration_activation_sequence = 1\<rparr>],
     tasks := example_tasks_rows,
     planning_operations := [\<lparr>po_id = ''p1'', po_goal_id = ''g1'', po_goal_revision = 1,
       po_expected_graph_revision = 0, po_trigger_kind = ''initial'', po_planning_input_digest = example_bytes,
       po_planner_implementation = ''direct'', po_planner_version = ''1'',
       po_configuration_activation_sequence = 1, po_state = ''Materialized'', po_revision = 2, po_created_at = 2\<rparr>],
     workspaces := [example_workspace],
     task_scheduling_state := [\<lparr>tsc_task_id = ''t2'', tsc_eligible_since = Some 5, tsc_next_attempt_at = None,
       tsc_last_failure_code = None, tsc_last_failure_detail_json = None, tsc_revision = 1, tsc_updated_at = 5\<rparr>],
     execution_bindings := [\<lparr>ebr_digest = example_bytes, ebr_task_id = ''t1'',
       ebr_configuration_activation_sequence = 1, ebr_configuration_content_digest = example_bytes,
       ebr_canonical_json = ''{}'', ebr_created_at = 6\<rparr>],
     context_source_snapshots := [\<lparr>sn_digest = example_bytes, sn_configuration_activation_sequence = 1,
       sn_context_policy_digest = example_bytes, sn_task_spec_digest = example_bytes, sn_goal_id = ''g1'',
       sn_goal_revision = 1, sn_graph_revision = 1, sn_agent_name = ''agent'', sn_agent_version = 1,
       sn_agent_soul_digest = None, sn_agent_behavior_digest = None, sn_workspace_id = ''w1'',
       sn_workspace_resolved_base = replicate 40 CHR ''a'', sn_canonical_json = ''{}'', sn_created_at = 6\<rparr>],
     runs := [\<lparr>ru_id = ''r1'', ru_task_id = ''t1'', ru_binding_digest = example_bytes,
       ru_context_source_snapshot_digest = example_bytes, ru_created_at = 6\<rparr>],
     run_status := [\<lparr>rs_run_id = ''r1'', rs_task_id = ''t1'', rs_phase = ''Active'', rs_terminal_target = None,
       rs_revision = 2, rs_active_slot = Some ''global'', rs_current_attempt_id = Some ''a1'',
       rs_candidate_digest = None, rs_updated_at = 7\<rparr>],
     attempts := [\<lparr>at_id = ''a1'', at_run_id = ''r1'', at_ordinal = 1, at_launch_key = replicate 64 CHR ''c'', at_created_at = 7\<rparr>],
     attempt_status := [\<lparr>as_attempt_id = ''a1'', as_run_id = ''r1'', as_observed_execution = ''EXITED'',
       as_terminal = 1, as_revision = 3, as_launch_contact_state = ''CONTACT_MAY_HAVE_OCCURRED'',
       as_launch_contact_initiated_at = Some 8, as_launch_contact_epoch = Some ''e'', as_started_at = Some 8,
       as_finished_at = Some 9, as_updated_at = 9\<rparr>],
     agent_control_sessions := [\<lparr>acs_id = ''s1'', acs_attempt_id = ''a1'',
       acs_restore_generation = example_generation, acs_credential_revision = 1,
       acs_credential_hash = example_bytes, acs_credential_rekeyed_at = None, acs_state = ''REVOKED'',
       acs_created_at = 7, acs_revoked_at = Some 9, acs_revocation_reason = Some ''attempt-terminal''\<rparr>]\<rparr>"

lemma example_bytes_length [simp]: "length example_bytes = 32"
  by (simp add: example_bytes_def)

lemmas evaluate_example = example_db_def example_tasks_rows_def example_workspace_def bootstrap_def empty_db_def
  example_store_def example_env_def example_command_def
  select_restore_generation_def find_command_def find_current_epoch_def

lemma example_db_ok: "schema_ok example_db"
  by (simp add: schema_ok_def evaluate_schema evaluate_example sql_length_ascii)

lemma example_store_database [simp]: "database (example_store d) = d"
  by (simp add: example_store_def)

lemma example_db_facts:
  "attempt_inv example_db" "terminal_attempt ''a1'' example_db" "spent_operation ''p1'' example_db"
  "mutable_workspace example_workspace example_db"
  by (simp_all add: attempt_inv_def terminal_attempt_def find_attempt_status_def spent_operation_def
      find_operation_def mutable_workspace_def mutable_phases_def bound_as_def find_workspace_def evaluate_example)

lemma env_run [simp]: "st_env (snd (run f s)) = st_env s"
  by (metis run_env prod.collapse)

section \<open>An executed command\<close>

definition paused_store :: store where
  "paused_store = snd (set_dispatch_mode (example_command ''pause'') DPaused 1 fresh_store)"

lemma pause_outcome:
  "\<exists>v. fst (set_dispatch_mode (example_command ''pause'') DPaused 1 fresh_store) =
    Inr (Executed v \<lparr>jc_epoch = example_epoch, jc_sequence = 1\<rparr>)"
  by (simp add: set_dispatch_mode_def set_dispatch_mode_body_def read_state_def find_scheduler_def parse_state_def liftW_def dispatch_mode_parse_def res_simps
      fresh_store_def evaluate evaluate_schema evaluate_example sql_length_ascii)

lemma pause_executes:
  "\<exists>v. set_dispatch_mode (example_command ''pause'') DPaused 1 fresh_store =
    (Inr (Executed v \<lparr>jc_epoch = example_epoch, jc_sequence = 1\<rparr>), paused_store)"
  unfolding paused_store_def using pause_outcome by (metis prod.collapse)

lemma paused_store_quiet: "\<not> storage_fault (st_env paused_store) n"
  by (simp add: paused_store_def set_dispatch_mode_def execute_command_def fresh_store_def example_store_def example_env_def)

end
