(* ===== verification/Permanence.thy ===== *)
theory Permanence
  imports Example_Store Documents
begin

text \<open>
  What no sequence of operations undoes: a materialised plan, a cancelled Goal, a terminal
  Attempt, a Workspace that has been mutable.
\<close>

lemma executed_mutation:
  assumes "execute_command c m s = (Inr (Executed v cursor), s1)"
  obtains w w1 row event_id t where "tx w = database s" "m w = (Inr v, w1)"
    "database s1 = ledger_append c row event_id t (tx w1)" "schema_ok (database s1)"
proof -
  from assms obtain w where e: "execute_envelope c m (writer_new s) = (Inr (Executed v cursor), w)" and db: "database s1 = tx w"
    by (auto simp: execute_command_def run_Inr_iff)
  from e show thesis
  proof (cases rule: execute_envelope_cases)
    case (executed u w1 row event_id t)
    from executed(5) have "u = v" by simp
    show thesis
      by (rule that [of "tick (tick (writer_new s))" w1 row event_id t]) (use executed db \<open>u = v\<close> in simp_all)
  qed simp
qed

lemma materialize_spends:
  assumes "execute_command c (materialize_apply sha oid tid mplan) s = (Inr (Executed r cursor), s1)"
  shows "spent_operation oid (database s1)"
proof -
  from assms obtain w w1 row event_id t where w: "materialize_apply sha oid tid mplan w = (Inr r, w1)"
    and s1: "database s1 = ledger_append c row event_id t (tx w1)" by (rule executed_mutation)
  from w obtain op goal t' where cur: "plan_current oid mplan op goal (tx w)"
    and w1: "tx w1 = graph_patched oid op goal (po_expected_graph_revision op)
      (task_written sha tid (po_goal_id op) (po_expected_graph_revision op + 1) (mt_spec mplan) t' (tx w))"
    by (rule materialize_applyD)
  let ?f = "cas_row planning_operations_table oid (po_revision op) [(''state'', \<lambda>r. r\<lparr>po_state := ''Materialized''\<rparr>)]"
  have op: "List.find (\<lambda>r. po_id r = oid) (planning_operations (tx w)) = Some op"
    using cur by (simp add: plan_current_def find_operation_def)
  have "List.find (\<lambda>r. po_id r = oid) (planning_operations (tx w1)) = Some (?f op)"
    by (rule find_updated [OF op, where new = "[]"])
      (simp_all add: w1 graph_patched_def task_written_def cas_row_def assign_def)
  moreover have "po_state (?f op) = ''Materialized''"
    using find_SomeD [OF op] by (simp add: cas_row_def assign_def)
  ultimately show ?thesis
    by (simp add: s1 spent_operation_def find_operation_def ledger_append_def)
qed

text \<open>
  C15. A plan materialises at most once. Once a planning operation is Materialized, or a
  materialisation of it has been executed, no later materialisation of it executes, whatever
  command, Task identifier and plan it brings and whatever happened in between.
\<close>

theorem plan_materializes_once:
  assumes ok: "schema_ok (database s)"
    and spent: "spent_operation oid (database s)
      \<or> (\<exists>c tid mplan r cursor s0. materialize_plan sha c oid tid mplan s0 = (Inr (Executed r cursor), s))"
    and later: "(step sha)\<^sup>*\<^sup>* s s'"
  shows "fst (materialize_plan sha c' oid tid' mplan' s') \<noteq> Inr (Executed r' cursor')"
proof
  assume "fst (materialize_plan sha c' oid tid' mplan' s') = Inr (Executed r' cursor')"
  then obtain w w1 where w: "tx w = database s'" "materialize_apply sha oid tid' mplan' w = (Inr r', w1)"
    unfolding materialize_plan_def by (metis executed_mutation prod.collapse)
  from spent have "spent_operation oid (database s)"
    by (auto simp: materialize_plan_def intro: materialize_spends)
  then have "spent_operation oid (database s')"
    using spent.steps_preserve [OF later ok] by blast
  with w show False
    by (auto simp: spent_operation_def plan_current_def elim!: materialize_applyD)
qed

theorem plan_materializes_once_witness:
  "\<nexists>r cursor. fst (materialize_plan zero_sha (example_command ''again'') ''p1'' ''t9'' 
     \<lparr>mt_spec = example_task, mt_proposal_digest = zero_digest, mt_goal_revision = 1, mt_goal_digest = zero_digest\<rparr>
     (example_store example_db)) = Inr (Executed r cursor)"
proof -
  have "schema_ok (database (example_store example_db))" by (simp add: example_db_ok)
  moreover have "spent_operation ''p1'' (database (example_store example_db))" by (simp add: example_db_facts)
  ultimately show ?thesis
    using plan_materializes_once [OF _ disjI1 rtranclp.rtrancl_refl] by blast
qed

lemma cancel_closes:
  assumes "cancel_goal_body gid w = (Inr r, w')" and "schema_ok (tx w)"
  shows "closed_goal gid (tx w')"
proof -
  from assms obtain goal phase already where g: "find_goal gid (tx w) = Some goal"
    and p: "goal_phase_parse (g_phase goal) = Some phase" and a: "already_targeted phase (g_terminal_target goal) = Some already"
    and w': "tx w' = cancelled_tasks gid (goals_update (map (\<lambda>g. if \<not> already \<and> g_id g = gid then retargeted_row g else g)) (tx w))"
    by (rule cancel_goal_bodyD)
  have id: "g_id goal = gid" using find_SomeD [OF g [unfolded find_goal_def]] by simp
  have f: "find_goal gid (tx w') = Some (if \<not> already \<and> g_id goal = gid then retargeted_row goal else goal)"
    unfolding find_goal_def
    by (rule find_updated [OF g [unfolded find_goal_def], where new = "[]"])
      (simp_all add: w' cancelled_tasks_def retargeted_row_def)
  have "g_phase goal \<notin> set goal_live_phases" if already
    using a p that by (auto simp: already_targeted_def goal_phase.of_str_iff goal_live_phases_def split: if_splits goal_phase.splits)
  then show ?thesis using id
    by (auto simp: closed_goal_def f retargeted_row_def goal_live_phases_def)
qed

text \<open>
  C16. A cancelled Goal executes nothing more. After a cancellation has been executed, whatever
  happens next, no Run is committed for the Goal, and a Candidate submitted for one of its Tasks
  is at most the replay of a submission committed before.
\<close>

theorem cancelled_goal_stays_cancelled:
  assumes ok: "schema_ok (database s)"
    and cancel: "cancel_goal c gid s = (Inr (Executed r cursor), s1)"
    and later: "(step sha)\<^sup>*\<^sup>* s1 s2"
  shows "(ri_goal_id i = gid \<longrightarrow> fst (commit_run_intent sha c' i s2) \<noteq> Inr (Executed r' cursor'))
    \<and> (find_task (cr_task_id (csub_candidate submission)) (database s2) = Some task \<longrightarrow> t_goal_id task = gid \<longrightarrow>
        fst (submit_candidate sha submission s2) = Inr out \<longrightarrow> sot_reconciled out)"
proof -
  from cancel obtain w w1 row event_id t where w: "tx w = database s" "cancel_goal_body gid w = (Inr r, w1)"
    and s1: "database s1 = ledger_append c row event_id t (tx w1)" "schema_ok (database s1)"
    unfolding cancel_goal_def by (rule executed_mutation)
  have "closed_goal gid (tx w1)" by (rule cancel_closes [OF w(2)]) (simp add: w(1) ok)
  then have "closed_goal gid (database s1)" by (simp add: s1(1) closed_ledger)
  then have closed: "schema_ok (database s2)" "closed_goal gid (database s2)"
    using closed.steps_preserve [OF later s1(2)] by auto
  show ?thesis
  proof (intro conjI impI notI)
    assume "ri_goal_id i = gid" "fst (commit_run_intent sha c' i s2) = Inr (Executed r' cursor')"
    then obtain v v1 where "tx v = database s2" "apply_run_intent sha i v = (Inr r', v1)"
      unfolding commit_run_intent_def by (metis executed_mutation prod.collapse)
    then show False using closed(2) \<open>ri_goal_id i = gid\<close>
      by (auto simp: closed_goal_def t3_current_def elim!: apply_run_intentD)
  next
    assume task: "find_task (cr_task_id (csub_candidate submission)) (database s2) = Some task" "t_goal_id task = gid"
      and sub: "fst (submit_candidate sha submission s2) = Inr out"
    from sub obtain v where v: "apply_candidate_submission sha submission (writer_new s2) = (Inr out, v)"
      unfolding submit_candidate_def by (metis prod.collapse run_Inr_iff)
    have "schema_ok (tx (writer_new s2))" using closed(1) by simp
    with v show "sot_reconciled out"
    proof (cases rule: apply_candidate_submissionD)
      case (committed rs t' t'')
      then show ?thesis using task closed(2)
        by (auto simp: t6_current_def goal_phase_of_task_def closed_goal_def goal_live_phases_def)
    qed
  qed
qed

definition cancelled_store :: store where
  "cancelled_store = snd (cancel_goal (example_command ''cancel'') ''g1'' (example_store example_db))"

lemma cancel_outcome:
  "\<exists>r. fst (cancel_goal (example_command ''cancel'') ''g1'' (example_store example_db)) =
    Inr (Executed r \<lparr>jc_epoch = example_epoch, jc_sequence = 1\<rparr>)"
  by (simp add: cancel_goal_def cancel_goal_body_def find_goal_def goal_phase_parse_def already_targeted_def
      retarget_assignments_def set_goal_phase_def fence_tasks_def goal_tasks_def fence_task_def
      task_phase_parse_def fence_assignments_def
      evaluate evaluate_schema evaluate_example sql_length_ascii)

lemma cancel_executes:
  "\<exists>r. cancel_goal (example_command ''cancel'') ''g1'' (example_store example_db) =
    (Inr (Executed r \<lparr>jc_epoch = example_epoch, jc_sequence = 1\<rparr>), cancelled_store)"
  unfolding cancelled_store_def using cancel_outcome by (metis prod.collapse)

theorem cancelled_goal_stays_cancelled_witness:
  "\<nexists>i r cursor. ri_goal_id i = ''g1'' \<and>
     fst (commit_run_intent zero_sha (example_command ''run'') i cancelled_store) = Inr (Executed r cursor)"
proof -
  have ok: "schema_ok (database (example_store example_db))"
    by (simp add: example_db_ok)
  from cancel_executes cancelled_goal_stays_cancelled [OF ok _ rtranclp.rtrancl_refl] show ?thesis by blast
qed

lemma run_fails: "(\<exists>e. fst (run f s) = Inl e) \<longleftrightarrow> \<not> (\<exists>x w. run f s = (Inr x, w))"
  by (cases "run f s"; cases "fst (run f s)") auto

lemma run_InlI:
  assumes "\<And>x w'. f (writer_new s) \<noteq> (Inr x, w')"
  shows "\<exists>e. fst (run f s) = Inl e"
  using assms unfolding run_fails by (metis run_Inr_iff)

lemma terminal_sessions:
  assumes "attempt_inv d" "terminal_attempt aid d" "find_session aid d = Some se"
  shows "acs_state se = ''REVOKED''"
proof -
  from assms(2) obtain st where st: "find_attempt_status aid d = Some st" "as_terminal st = 1"
    by (auto simp: terminal_attempt_def)
  have "st \<in> set (attempt_status d)" "as_attempt_id st = aid"
    using find_SomeD [OF st(1) [unfolded find_attempt_status_def]] by auto
  moreover have "se \<in> set (agent_control_sessions d)" "acs_attempt_id se = aid"
    using find_SomeD [OF assms(3) [unfolded find_session_def]] by auto
  ultimately show ?thesis using assms(1) st(2) by (auto simp: attempt_inv_def)
qed

lemma authenticate_terminal:
  assumes "attempt_inv (tx w)" "terminal_attempt aid (tx w)" "cred_attempt_id cr = aid"
  shows "authenticate_agent_session cr w \<noteq> (Inr x, w')"
  using terminal_sessions [OF assms(1,2)] assms(3)
  by (auto simp: authenticate_agent_session_def judge_session_def wr session_generation_def read_generation_def
      res_simps split: if_splits option.splits)

text \<open>
  C17. A terminal Attempt has no authority left. In a store whose terminal Attempts have revoked
  sessions (as every reachable store has), once an Attempt is terminal, whatever happens next, its
  bearer neither submits a Candidate nor opens, completes or fails a request, its session is not
  rekeyed, and its launch is not contacted again.
\<close>

theorem terminal_attempt_powerless:
  assumes ok: "schema_ok (database s)" "attempt_inv (database s)" and terminal: "terminal_attempt aid (database s)"
    and later: "(step sha)\<^sup>*\<^sup>* s s'" and cred: "cred_attempt_id cred = aid" "cred_attempt_id (csub_credential submission) = aid"
  shows "(\<exists>e. fst (submit_candidate sha submission s') = Inl e)
    \<and> (\<exists>e. fst (open_agent_request cred operation request_id hash s') = Inl e)
    \<and> (\<exists>e. fst (complete_agent_request cred request_id result_ref s') = Inl e)
    \<and> (\<exists>e. fst (fail_agent_request cred request_id problem s') = Inl e)
    \<and> (\<exists>e. fst (rekey_agent_control_session aid verifier expected s') = Inl e)
    \<and> (\<exists>e. fst (mark_launch_contact rid aid epoch expected credential s') = Inl e)"
proof -
  have ok': "schema_ok (database s')" and inv: "attempt_inv (database s')" and t: "terminal_attempt aid (database s')"
    using attempt.steps_preserve [OF later ok] terminal.steps_preserve [OF later ok(1) terminal] by auto
  have no_auth: "\<exists>e. fst (run (bindW (authenticate_agent_session cr) f) s') = Inl e"
    if c: "cred_attempt_id cr = aid" for cr and f :: "unit \<Rightarrow> 'x action"
  proof (rule run_InlI)
    have "\<And>x w'. authenticate_agent_session cr (writer_new s') \<noteq> (Inr x, w')"
      by (rule authenticate_terminal) (simp_all add: inv t c)
    then show "bindW (authenticate_agent_session cr) f (writer_new s') \<noteq> (Inr x, w')" for x w'
      by (auto simp: bindW_iff)
  qed
  have rekey: "\<exists>e. fst (run (apply_rekey aid verifier expected) s') = Inl e"
    by (rule run_InlI, rule notI, erule apply_rekeyD) (use t in \<open>auto simp: terminal_attempt_def\<close>)
  have live: False if "st \<in> set (attempt_status (database s'))" "as_attempt_id st = aid" "as_terminal st = 0" for st
    using t that keys_distinct(2) [OF ok'] find_SomeD
    by (fastforce simp: terminal_attempt_def find_attempt_status_def distinct_map inj_on_def)
  have contact: "\<exists>e. fst (run (apply_launch_contact rid aid epoch expected credential) s') = Inl e"
    by (rule run_InlI, rule notI, erule apply_launch_contactD) (use live in auto)
  show ?thesis
    unfolding submit_candidate_def apply_candidate_submission_def open_agent_request_def open_request_body_def
      complete_agent_request_def complete_request_body_def fail_agent_request_def fail_request_body_def
      rekey_agent_control_session_def mark_launch_contact_def
    by (intro conjI no_auth cred rekey contact)
qed

theorem terminal_attempt_powerless_witness:
  "(\<exists>e. fst (open_agent_request \<lparr>cred_attempt_id = ''a1'', cred_verifier = example_bytes\<rparr> SubmitResult ''q'' example_bytes
        (example_store example_db)) = Inl e)
   \<and> (\<exists>e. fst (mark_launch_contact ''r1'' ''a1'' ''e'' 3 1 (example_store example_db)) = Inl e)"
proof -
  have facts: "schema_ok (database (example_store example_db))" "attempt_inv (database (example_store example_db))"
    "terminal_attempt ''a1'' (database (example_store example_db))"
    using example_db_ok example_db_facts by simp_all
  from terminal_attempt_powerless [OF facts rtranclp.rtrancl_refl, where cred = "\<lparr>cred_attempt_id = ''a1'', cred_verifier = example_bytes\<rparr>"
      and submission = "\<lparr>csub_credential = \<lparr>cred_attempt_id = ''a1'', cred_verifier = example_bytes\<rparr>,
        csub_request_id = ''q'', csub_request_hash = example_bytes,
        csub_candidate = \<lparr>cr_task_id = ''t1'', cr_run_id = ''r1'', cr_outputs = []\<rparr>, csub_expected_task_revision = 2\<rparr>"]
  show ?thesis by simp
qed



end
