(* ===== verification/Authority.thy ===== *)
theory Authority
  imports Example_Store
begin

text \<open>
  The properties of the store as a whole: the write boundary, the command ledger, what holds of
  every store its operations can reach.
\<close>

section \<open>The write boundary\<close>

text \<open>
  C1. A transaction is all or nothing. Whatever the actions of a transaction do, an error
  (returned, or swallowed after a failed mutation, or raised by the commit) leaves the database
  as it was; otherwise the database is exactly what the actions built, and no mutation in them
  failed.
\<close>

theorem transaction_atomic:
  "case run f s of
     (Inl e, s') \<Rightarrow> database s' = database s
   | (Inr x, s') \<Rightarrow> \<exists>w. f (writer_new s) = (Inr x, w) \<and> \<not> failed w \<and> database s' = tx w"
  by (auto simp: run_def split: prod.splits sum.splits if_splits)

definition marks_failure :: "'a action \<Rightarrow> bool" where
  "marks_failure f \<longleftrightarrow> (\<forall>w e w'. f w = (Inl e, w') \<longrightarrow> failed w')"

lemma bindW_Inl_iff:
  "bindW m f w = (Inl e, w') \<longleftrightarrow>
     m w = (Inl e, w') \<or> (\<exists>x w1. m w = (Inr x, w1) \<and> f x w1 = (Inl e, w'))"
  by (auto simp: bindW_def split: prod.splits sum.splits)

lemma marks_failure_bind [intro]:
  "marks_failure m \<Longrightarrow> (\<And>x. marks_failure (f x)) \<Longrightarrow> marks_failure (bindW m f)"
  by (auto simp: marks_failure_def bindW_def split: prod.splits sum.splits)

lemma marks_failure_basic [intro]:
  "marks_failure (returnW x)" "marks_failure (writer_fail e)" "marks_failure (requireW b e)"
  "marks_failure (execute stmt)" "marks_failure (query_row sel decode)"
  by (auto simp: marks_failure_def returnW_def writer_fail_def requireW_def execute_def query_row_def
      split: if_splits sum.splits option.splits prod.splits)

lemma marks_failure_if: "marks_failure f \<Longrightarrow> marks_failure g \<Longrightarrow> marks_failure (if b then f else g)"
  by simp

lemma marks_failure_fold: "(\<And>u a. marks_failure (f u a)) \<Longrightarrow> marks_failure (foldW f u xs)"
  by (induction xs arbitrary: u) auto

lemma update_failure:
  assumes T: "revisioned_table T" and u: "update_revisioned_by T key expected assignments w = (Inl e, w')"
  shows "failed w' \<or> tx w' = tx w"
proof -
  let ?hits = "filter (\<lambda>r. row_key T r = key \<and> row_revision T r = expected) (table_rows T (tx w))"
  let ?check = "bindW (ensure_plain_identifier ''table'' (table_name T)) (\<lambda>_.
      bindW (ensure_plain_identifier ''column'' (key_column T)) (\<lambda>_. foldW (check_assignment T) () assignments))"
  let ?rest = "\<lambda>affected. if affected = 1 then returnW (expected + 1)
      else if affected = 0 then bindW (current_revision_by T key) (\<lambda>actual.
        writer_fail (RevisionConflict (table_name T) key expected actual))
      else writer_fail (InvariantViolated (Fmt
        ''revisioned update of {table} row {key} affected {more} rows, not exactly one''
        [FStr (table_name T), FStr key, FInt (int affected)]))"
  have eq: "update_revisioned_by T key expected assignments w =
      bindW ?check (\<lambda>_. bindW (execute (cas_statement T key expected assignments)) ?rest) w"
    by (simp add: update_revisioned_by_def bindW_def split: prod.splits sum.splits)
  have mf: "marks_failure ?check"
    unfolding ensure_plain_identifier_def check_assignment_def
    by (intro marks_failure_bind marks_failure_basic marks_failure_fold)
  have same: "w1 = w" if "?check w = (Inr u, w1)" for u w1
    using that by (auto simp: wr ensure_plain_identifier_def foldW_check_iff)
  note split = bindW_Inl_iff [THEN iffD1, OF u [unfolded eq]]
  consider (1) "failed w'" | (2) "bindW (execute (cas_statement T key expected assignments)) ?rest w = (Inl e, w')"
    using split
  proof (elim disjE exE conjE)
    assume "?check w = (Inl e, w')"
    with mf have "failed w'" unfolding marks_failure_def by blast
    then show ?thesis by (rule that(1))
  next
    fix x w1 assume "?check w = (Inr x, w1)" "bindW (execute (cas_statement T key expected assignments)) ?rest w1 = (Inl e, w')"
    then show ?thesis using same that(2) by simp
  qed
  then show ?thesis
  proof cases
    case 2
    from bindW_Inl_iff [THEN iffD1, OF 2] show ?thesis
    proof (elim disjE exE conjE)
      assume "execute (cas_statement T key expected assignments) w = (Inl e, w')"
      then show ?thesis using marks_failure_basic(4) unfolding marks_failure_def by blast
    next
      fix n w1
      assume x: "execute (cas_statement T key expected assignments) w = (Inr n, w1)" and r: "?rest n w1 = (Inl e, w')"
      show ?thesis
      proof (cases "n = 0")
        case True
        with x have "?hits = []" and w1: "tx w1 = table_update T (map (cas_row T key expected assignments)) (tx w)"
          by (auto simp: wr cas_statement_def Let_def split: if_splits)
        then have "map (cas_row T key expected assignments) (table_rows T (tx w)) = table_rows T (tx w)"
          by (intro map_idI) (auto simp: cas_row_def filter_empty_conv)
        then have "tx w1 = tx w" using revisioned_table.update_same [OF T] w1 by metis
        with r True show ?thesis
          by (auto simp: bindW_def current_revision_by_def errW_def returnW_def writer_fail_def split: if_splits)
      next
        case False
        with r show ?thesis by (auto simp: returnW_def writer_fail_def split: if_splits)
      qed
    qed
  qed simp
qed

text \<open>
  C35. The compare-and-set every authoritative row is written with. On success exactly one row
  carried the key at the expected revision; that row gets the assignments and the next revision,
  no other row and no other table changes, and the schema holds. Otherwise the transaction is
  marked failed and cannot commit, whatever its caller does with the error, or nothing has been
  written (the read that names the conflicting revision failed).
\<close>

theorem compare_and_set_exact:
  assumes "revisioned_table T"
  shows "case update_revisioned_by T key expected assignments w of
      (Inr n, w') \<Rightarrow> n = expected + 1 \<and> is_i64 n
        \<and> length (filter (\<lambda>r. row_key T r = key \<and> row_revision T r = expected) (table_rows T (tx w))) = 1
        \<and> tx w' = table_update T (map (\<lambda>r. if row_key T r = key \<and> row_revision T r = expected
             then set_row_revision T n (assign assignments r) else r)) (tx w)
        \<and> schema_ok (tx w') \<and> failed w' = failed w
    | (Inl e, w') \<Rightarrow> failed w' \<or> tx w' = tx w"
proof (cases "update_revisioned_by T key expected assignments w")
  case (Pair r w')
  show ?thesis
  proof (cases r)
    case (Inr n)
    with Pair have u: "update_revisioned_by T key expected assignments w = (Inr n, w')" by simp
    show ?thesis
      using revisioned_table.update_SomeD [OF assms u] Pair Inr by (simp add: cas_row_def [abs_def] cong: if_cong)
  next
    case (Inl e)
    with Pair have "update_revisioned_by T key expected assignments w = (Inl e, w')" by simp
    from update_failure [OF assms this] Pair Inl show ?thesis by simp
  qed
qed

theorem compare_and_set_exact_witness:
  "\<exists>w'. update_revisioned_by goals_table ''g1'' 2 [set_goal_phase GEvaluating] (writer_new (example_store example_db)) = (Inr 3, w')
    \<and> tx w' = goals_update (map (\<lambda>r. if g_id r = ''g1'' \<and> g_revision r = 2 then r\<lparr>g_phase := ''Evaluating'', g_revision := 3\<rparr> else r)) example_db"
proof -
  obtain w' where u: "update_revisioned_by goals_table ''g1'' 2 [set_goal_phase GEvaluating] (writer_new (example_store example_db)) = (Inr 3, w')"
    by (simp add: evaluate evaluate_schema evaluate_example set_goal_phase_def sql_length_ascii)
  show ?thesis
    using u compare_and_set_exact [OF goals.revisioned_table_axioms, where key = "''g1''" and expected = 2
        and assignments = "[set_goal_phase GEvaluating]" and w = "writer_new (example_store example_db)"]
    by (simp add: set_goal_phase_def assign_def example_store_def cong: if_cong)
qed

section \<open>Commands\<close>

text \<open>
  C2. The command kernel refines the abstract ledger. An error changes nothing; a replay reports
  exactly the cursor and time the ledger holds for the command and changes nothing; an execution
  happens only for a command the ledger does not know, at the next position of the journal, and
  its whole effect on the ledger is to record that outcome and advance the journal by one.
\<close>

theorem command_kernel_refines_ledger:
  assumes "leaves_ledger m"
  shows "case execute_command c m s of
      (Inl e, s') \<Rightarrow> database s' = database s
    | (Inr (Replayed cursor t), s') \<Rightarrow>
        ledger_decide c (abs_ledger (database s)) = Known cursor t \<and> database s' = database s
    | (Inr (Executed v cursor), s') \<Rightarrow>
        ledger_decide c (abs_ledger (database s)) = New
        \<and> lg_next (abs_ledger (database s)) = Some cursor
        \<and> (\<exists>t. abs_ledger (database s') = ledger_commit c cursor t (abs_ledger (database s)))"
proof (cases "execute_command c m s")
  case (Pair r s')
  with execute_command_refines [OF assms Pair] show ?thesis
    by (cases r) (auto split: committed.splits)
qed

theorem command_kernel_refines_ledger_witness:
  "\<exists>v t. execute_command (example_command ''pause'') (set_dispatch_mode_body DPaused 1) fresh_store
      = (Inr (Executed v \<lparr>jc_epoch = example_epoch, jc_sequence = 1\<rparr>), paused_store)
    \<and> abs_ledger (database paused_store) = ledger_commit (example_command ''pause'')
        \<lparr>jc_epoch = example_epoch, jc_sequence = 1\<rparr> t (abs_ledger (database fresh_store))"
proof -
  obtain v where v: "execute_command (example_command ''pause'') (set_dispatch_mode_body DPaused 1) fresh_store =
    (Inr (Executed v \<lparr>jc_epoch = example_epoch, jc_sequence = 1\<rparr>), paused_store)"
    using pause_executes by (auto simp: set_dispatch_mode_def)
  with command_kernel_refines_ledger [OF leaves_ledger_scheduling(1), where c = "example_command ''pause''" and s = fresh_store
      and mode1 = DPaused and expected1 = 1]
  show ?thesis by auto
qed

lemma executed_recorded:
  assumes m: "leaves_ledger m" and run: "execute_command c m s = (Inr (Executed v cursor), s1)"
  obtains t where "schema_ok (database s1)" "recorded (cmd_epoch c) (command_entry c cursor t) (database s1)"
proof -
  from run obtain w where e: "execute_envelope c m (writer_new s) = (Inr (Executed v cursor), w)" and db: "database s1 = tx w"
    by (auto simp: execute_command_def run_Inr_iff)
  from e show thesis
  proof (cases rule: execute_envelope_cases)
    case (executed u w1 row event_id t)
    have part: "ledger_part (tx w1) = ledger_part (database s)"
      using leavesD [OF m executed(3)] by simp
    then have "recorded (cmd_epoch c) (command_entry c cursor t) (database s1)"
      using executed db
      by (auto simp: recorded_def ledger_part_def select_restore_generation_def find_command_def ledger_append_def
          find_append command_entry_def)
    then show thesis using that executed(7) db by simp
  qed simp
qed

text \<open>
  C11. Exactly once. When a command has been executed, every later submission of it, with whatever
  mutation and after whatever operations have happened in between, is answered from the ledger
  with the cursor and time of the execution, and changes nothing; reusing its identifier for
  another request is a conflict.
\<close>

theorem command_executes_once:
  assumes m: "leaves_ledger m"
    and first: "execute_command c m s = (Inr (Executed v cursor), s1)"
    and later: "(step sha)\<^sup>*\<^sup>* s1 s2" and quiet: "\<And>n. \<not> storage_fault (st_env s2) n"
    and same: "cmd_epoch c' = cmd_epoch c" "cmd_id c' = cmd_id c"
  shows "(\<exists>t. fst (execute_command c' m' s2) =
      (if cmd_request_hash c' = cmd_request_hash c then Inr (Replayed cursor t) else Inl (CommandConflict (cmd_id c))))
    \<and> database (snd (execute_command c' m' s2)) = database s2"
proof -
  obtain t where ok: "schema_ok (database s1)" and rec: "recorded (cmd_epoch c) (command_entry c cursor t) (database s1)"
    by (rule executed_recorded [OF m first])
  have "recorded (cmd_epoch c) (command_entry c cursor t) (database s2)"
    using recorded.steps_preserve [OF later ok rec] by simp
  then have known: "select_restore_generation (database s2) = Some (cmd_epoch c')"
    "find_command (cmd_epoch c') (cmd_id c') (database s2) = Some (command_entry c cursor t)"
    by (simp_all add: recorded_def same command_entry_def)
  show ?thesis
    using execute_command_known [OF quiet known, of m'] same by (auto simp: command_entry_def)
qed

theorem command_executes_once_witness:
  "(\<exists>t. fst (execute_command (example_command ''pause'') (set_dispatch_mode_body DRunning 2) paused_store) =
      Inr (Replayed \<lparr>jc_epoch = example_epoch, jc_sequence = 1\<rparr> t))
    \<and> database (snd (execute_command (example_command ''pause'') (set_dispatch_mode_body DRunning 2) paused_store)) = database paused_store"
proof -
  obtain v where v: "execute_command (example_command ''pause'') (set_dispatch_mode_body DPaused 1) fresh_store =
    (Inr (Executed v \<lparr>jc_epoch = example_epoch, jc_sequence = 1\<rparr>), paused_store)"
    using pause_executes by (auto simp: set_dispatch_mode_def)
  from command_executes_once [OF leaves_ledger_scheduling(1) v rtranclp.rtrancl_refl paused_store_quiet refl refl]
  show ?thesis by simp
qed

section \<open>Reachable stores\<close>

context store_invariant
begin

lemma reachable_holds:
  assumes "\<And>generation epoch t. I (bootstrap generation epoch t)" and "reachable sha s"
  shows "schema_ok (database s)" and "I (database s)"
proof -
  from assms(2) obtain s0 where "installed s0" and steps: "(step sha)\<^sup>*\<^sup>* s0 s" by (auto simp: reachable_def)
  then have "schema_ok (database s0)" "I (database s0)"
    using assms(1) bootstrap_ok by (auto simp: installed_def)
  from steps_preserve [OF steps this] show "schema_ok (database s)" "I (database s)" by auto
qed

end

lemma bootstrap_invariants:
  "journal_inv (bootstrap generation epoch t)" "slot_inv (bootstrap generation epoch t)"
  "charge_inv (bootstrap generation epoch t)" "ready_inv (bootstrap generation epoch t)"
  "attempt_inv (bootstrap generation epoch t)"
  by (simp_all add: bootstrap_def empty_db_def journal_inv_def slot_inv_def charge_inv_def ready_inv_def
      attempt_inv_def charged_once_def charges_below_def epoch_sequences_def List.map_filter_def)

lemma paused_store_reachable: "reachable sha paused_store"
  unfolding reachable_def paused_store_def
  using fresh_store_installed step_set_dispatch_mode by (metis r_into_rtranclp)

text \<open>
  C34. In every store the operations can reach, the journal is a gap-free history: the Events of
  every epoch carry exactly the sequence numbers 1 up to the next one, in order; and the ledger
  and the journal agree one to one: the commands recorded are exactly the commands the Events
  name, at the same positions and times.
\<close>

theorem reachable_journal_gap_free:
  assumes "reachable sha s"
  shows "(\<forall>e. e \<in> set (journal_epochs (database s)) \<longrightarrow>
      map ej_sequence (filter (\<lambda>r. ej_journal_epoch r = je_epoch e) (event_journal (database s)))
        = map int [1..<nat (je_next_sequence e)])
    \<and> map command_identity (commands (database s)) = List.map_filter event_identity (event_journal (database s))"
  using journal.reachable_holds(2) [OF bootstrap_invariants(1) assms]
  by (simp add: journal_inv_def epoch_sequences_def)

theorem reachable_journal_gap_free_witness:
  "map command_identity (commands (database paused_store)) = List.map_filter event_identity (event_journal (database paused_store))"
  using reachable_journal_gap_free [OF paused_store_reachable] by simp

lemma distinct_all_eq:
  "distinct xs \<Longrightarrow> (\<And>x y. x \<in> set xs \<Longrightarrow> y \<in> set xs \<Longrightarrow> x = y) \<Longrightarrow> length xs \<le> 1"
proof (rule ccontr)
  assume d: "distinct xs" and eq: "\<And>x y. x \<in> set xs \<Longrightarrow> y \<in> set xs \<Longrightarrow> x = y" and len: "\<not> length xs \<le> 1"
  from len obtain x y zs where xs: "xs = x # y # zs" by (cases xs; cases "tl xs") auto
  have "x = y" by (rule eq) (simp_all add: xs)
  with d xs show False by simp
qed

text \<open>
  C10. At most one Run is in flight: in every reachable store the Runs that hold the global
  execution slot are exactly those that are Active or Finalizing, and there is at most one.
\<close>

theorem one_run_in_flight:
  assumes "reachable sha s"
  shows "filter (\<lambda>r. rs_phase r \<in> {''Active'', ''Finalizing''}) (run_status (database s))
      = filter (\<lambda>r. rs_active_slot r = Some ''global'') (run_status (database s))
    \<and> length (filter (\<lambda>r. rs_active_slot r = Some ''global'') (run_status (database s))) \<le> 1"
proof -
  let ?rs = "run_status (database s)"
  note ok = slot.reachable_holds [OF bootstrap_invariants(2) assms]
  have held: "rs_phase r \<in> {''Active'', ''Finalizing''}"
    if r: "r \<in> set ?rs" "rs_active_slot r = Some ''global''" for r
  proof -
    have "check_run_status r" using ok(1) r(1) by (auto simp: schema_ok_iff checks_ok_def list_all_iff)
    with r(2) show ?thesis by (auto simp: check_run_status_def run_nonterminal_def)
  qed
  have slot: "rs_phase r \<in> {''Active'', ''Finalizing''} \<longleftrightarrow> rs_active_slot r = Some ''global''" if "r \<in> set ?rs" for r
    using held [OF that] ok(2) that unfolding slot_inv_def run_nonterminal_def by blast
  have "distinct ?rs" using keys_distinct(1) [OF ok(1)] by (rule distinct_map [THEN iffD1, THEN conjunct1])
  moreover have "r = r'" if "r \<in> set (filter (\<lambda>r. rs_active_slot r = Some ''global'') ?rs)"
    "r' \<in> set (filter (\<lambda>r. rs_active_slot r = Some ''global'') ?rs)" for r r'
    using that held slot_unique [OF ok, of r r'] by (simp add: run_nonterminal_def)
  ultimately have "length (filter (\<lambda>r. rs_active_slot r = Some ''global'') ?rs) \<le> 1"
    by (intro distinct_all_eq) auto
  moreover have "filter (\<lambda>r. rs_phase r \<in> {''Active'', ''Finalizing''}) ?rs = filter (\<lambda>r. rs_active_slot r = Some ''global'') ?rs"
    by (rule filter_cong [OF refl slot])
  ultimately show ?thesis by blast
qed

theorem one_run_in_flight_witness:
  "length (filter (\<lambda>r. rs_active_slot r = Some ''global'') (run_status (database paused_store))) \<le> 1"
  using one_run_in_flight [OF paused_store_reachable] by simp

text \<open>
  Fairness accounting and eligibility in every reachable store: no two Goals carry the same
  service charge, every charge is below the service counter, and every Ready Task has an open
  eligibility row and no responsible Run.
\<close>

theorem reachable_scheduling_state:
  assumes "reachable sha s"
  shows "charged_once (goal_scheduling_state (database s))
    \<and> (\<forall>r. r \<in> set (scheduler_state (database s)) \<longrightarrow>
        charges_below (sc_next_service_sequence r) (goal_scheduling_state (database s)))
    \<and> (\<forall>t. t \<in> set (tasks (database s)) \<longrightarrow> t_phase t = ''Ready'' \<longrightarrow>
        t_active_run_id t = None \<and> eligible (t_id t) (database s))"
  using charge.reachable_holds(2) [OF bootstrap_invariants(3) assms] ready.reachable_holds(2) [OF bootstrap_invariants(4) assms]
  by (simp add: charge_inv_def ready_inv_def)

theorem reachable_scheduling_state_witness:
  "charged_once (goal_scheduling_state (database paused_store))"
  using reachable_scheduling_state [OF paused_store_reachable] by simp

end
