(* ===== verification/Commitments.thy ===== *)
theory Commitments
  imports Permanence Authority
begin

text \<open>
  The two commitments at the heart of an execution, T3 (a Run is committed for a Task) and T6 (a
  Candidate is committed for a Run), what an operator's watch delivers, and how the schema is
  brought up to date.
\<close>

section \<open>T3\<close>

lemma command_unchanged:
  assumes "execute_command c m s = (res, s')" and "\<nexists>v cursor. res = Inr (Executed v cursor)"
  shows "database s' = database s"
proof (cases res)
  case (Inl e)
  with assms(1) show ?thesis by (auto simp: execute_command_def dest: run_Inl_database)
next
  case (Inr out)
  with assms(1) obtain w where e: "execute_envelope c m (writer_new s) = (Inr out, w)" and db: "database s' = tx w"
    by (auto simp: execute_command_def run_Inr_iff)
  from e show ?thesis by (cases rule: execute_envelope_cases) (use assms(2) Inr db in auto)
qed

text \<open>
  C3. A Run is committed only under current authority, and with its whole effect at once. An
  executed T3 found everything it re-reads true of the database it commits into (the dispatch
  mode, the configuration and guidance it was resolved under, the Task, Goal, graph and Workspace
  at the revisions observed, the free execution slot), and left exactly the described rows: the
  frozen binding and snapshot, the Run and its status, the Task Active under it, the Goal charged
  the next service sequence, the counter advanced, the eligibility closed, and the ledger entry.
  Any other outcome changes nothing.
\<close>

theorem run_commit_fenced:
  "case commit_run_intent sha c i s of
     (Inr (Executed r cursor), s') \<Rightarrow> (\<exists>sched t row event_id t'. t3_current sha i sched (database s)
       \<and> database s' = ledger_append c row event_id t'
           (t3_effect i (sc_revision sched) (sc_next_service_sequence sched) t (database s))
       \<and> schema_ok (database s')
       \<and> r = \<lparr>rc_run_id = ri_run_id i, rc_task_revision = ri_expected_task_revision i + 1,
            rc_scheduler_revision = sc_revision sched + 1,
            rc_charged_service_sequence = sc_next_service_sequence sched\<rparr>)
   | (Inr (Replayed cursor t), s') \<Rightarrow> database s' = database s
   | (Inl e, s') \<Rightarrow> database s' = database s"
proof (cases "commit_run_intent sha c i s")
  case (Pair res s')
  show ?thesis
  proof (cases "\<exists>r cursor. res = Inr (Executed r cursor)")
    case True
    then obtain r cursor where res: "res = Inr (Executed r cursor)" by blast
    with Pair obtain w w1 row event_id t' where w: "tx w = database s" "apply_run_intent sha i w = (Inr r, w1)"
      and s': "database s' = ledger_append c row event_id t' (tx w1)" "schema_ok (database s')"
      unfolding commit_run_intent_def by (auto elim: executed_mutation)
    from w(2) obtain sched t where "t3_current sha i sched (database s)"
      "tx w1 = t3_effect i (sc_revision sched) (sc_next_service_sequence sched) t (database s)"
      "r = \<lparr>rc_run_id = ri_run_id i, rc_task_revision = ri_expected_task_revision i + 1,
        rc_scheduler_revision = sc_revision sched + 1, rc_charged_service_sequence = sc_next_service_sequence sched\<rparr>"
      by (rule apply_run_intentD) (simp add: w(1))
    with s' have "t3_current sha i sched (database s) \<and> database s' = ledger_append c row event_id t'
           (t3_effect i (sc_revision sched) (sc_next_service_sequence sched) t (database s))
       \<and> schema_ok (database s')
       \<and> r = \<lparr>rc_run_id = ri_run_id i, rc_task_revision = ri_expected_task_revision i + 1,
            rc_scheduler_revision = sc_revision sched + 1,
            rc_charged_service_sequence = sc_next_service_sequence sched\<rparr>" by simp
    then show ?thesis unfolding Pair res prod.case sum.case committed.case by blast
  next
    case False
    with Pair have "database s' = database s"
      unfolding commit_run_intent_def by (rule command_unchanged)
    with Pair False show ?thesis by (auto split: sum.splits committed.splits)
  qed
qed

section \<open>T6\<close>


section \<open>The operator's view\<close>

text \<open>
  List, then watch, loses nothing. From any cursor of the current epoch up to the head of the
  journal, in any reachable store, the Events delivered after it are exactly those with the next
  sequence numbers up to the head, each once and in order; a page is a prefix of them; a cursor of
  another epoch, or ahead of the journal, is refused.
\<close>

theorem watch_is_complete:
  assumes "reachable sha s" and head: "read_head (database s) = Inr h" and "0 \<le> limit" "0 \<le> cu_sequence cur"
  shows "events_after cur limit (database s) =
      (if cu_journal_epoch cur \<noteq> cu_journal_epoch h then Inr (Inl (UnknownEpoch (cu_journal_epoch cur) (cu_journal_epoch h)))
       else if cu_sequence h < cu_sequence cur then Inr (Inl (AheadOfJournal (cu_sequence cur) (cu_sequence h)))
       else Inr (Inr (take (nat limit) (events_since cur (database s)))))
    \<and> (cu_journal_epoch cur = cu_journal_epoch h \<longrightarrow> cu_sequence cur \<le> cu_sequence h \<longrightarrow>
        map ej_sequence (events_since cur (database s)) = map int [Suc (nat (cu_sequence cur))..<Suc (nat (cu_sequence h))])"
proof -
  note inv = journal.reachable_holds [OF bootstrap_invariants(1) assms(1)]
  have "events_after cur limit (database s) =
      (if cu_journal_epoch cur \<noteq> cu_journal_epoch h then Inr (Inl (UnknownEpoch (cu_journal_epoch cur) (cu_journal_epoch h)))
       else if cu_sequence h < cu_sequence cur then Inr (Inl (AheadOfJournal (cu_sequence cur) (cu_sequence h)))
       else Inr (Inr (take (nat limit) (events_since cur (database s)))))"
    using assms(3) by (auto simp: events_after_def head res_simps sql_limit_def ensure_def)
  moreover have "map ej_sequence (events_since cur (database s)) = map int [Suc (nat (cu_sequence cur))..<Suc (nat (cu_sequence h))]"
    if "cu_journal_epoch cur = cu_journal_epoch h" "cu_sequence cur \<le> cu_sequence h"
    by (rule events_since_complete [OF inv(2,1) head that(1) assms(4) that(2)])
  ultimately show ?thesis by blast
qed

lemma paused_head: "read_head (database paused_store) = Inr \<lparr>cu_journal_epoch = example_epoch, cu_sequence = 1\<rparr>"
  unfolding paused_store_def
  by (simp add: set_dispatch_mode_def set_dispatch_mode_body_def read_state_def find_scheduler_def parse_state_def
      liftW_def dispatch_mode_parse_def res_simps read_head_def
      fresh_store_def evaluate evaluate_schema evaluate_example sql_length_ascii)

theorem watch_is_complete_witness:
  "map ej_sequence (events_since \<lparr>cu_journal_epoch = example_epoch, cu_sequence = 0\<rparr> (database paused_store)) = [1]"
  using watch_is_complete [OF paused_store_reachable paused_head, of 10 "\<lparr>cu_journal_epoch = example_epoch, cu_sequence = 0\<rparr>"]
  by simp

section \<open>Migrations\<close>

text \<open>
  Migrations resume. Over a database that records a prefix of the migration set, a run, even
  one that fails part way, leaves a database that records a prefix at least as long; a run that
  succeeds has applied the whole set, and a further run finds nothing to do and changes nothing.
\<close>

theorem migrations_resume:
  assumes ms: "numbered ms" and rec: "records ms n s"
  shows "\<exists>n'. n \<le> n' \<and> records ms n' (snd (run_with batch clock ms s))
    \<and> (fst (run_with batch clock ms s) = Inr () \<longrightarrow> n' = length ms
        \<and> run_with batch' clock' ms (snd (run_with batch clock ms s)) = (Inr (), snd (run_with batch clock ms s)))"
proof -
  obtain r s' where run: "apply_all batch clock (drop n ms) s = (r, s')" by fastforce
  then obtain n' where n': "n \<le> n'" "records ms n' s'" "r = Inr () \<Longrightarrow> n' = length ms"
    using apply_all_records [OF assms run] by blast
  have eq: "run_with batch clock ms s = (r, s')" using run_with_records [OF assms] run by simp
  have "run_with batch' clock' ms s' = (Inr (), s')" if "r = Inr ()"
    using run_with_records [OF ms n'(2), of batch' clock'] n'(3) [OF that] by simp
  with n' show ?thesis unfolding eq by auto
qed

definition example_migrations :: "migration list" where
  "example_migrations =
     [\<lparr>mg_version = 1, mg_name = ''first'', mg_sql = ''a''\<rparr>, \<lparr>mg_version = 2, mg_name = ''second'', mg_sql = ''b''\<rparr>]"

definition example_schema :: "string schema" where
  "example_schema = \<lparr>user_version = 0, schema_migrations = [], content = []\<rparr>"

definition example_batch :: "string \<Rightarrow> string \<Rightarrow> (sqlite_error, string) res" where
  "example_batch sql d = Inr (d @ sql)"

theorem migrations_resume_witness:
  "records example_migrations 2 (snd (run_with example_batch (\<lambda>v. v) example_migrations example_schema))
    \<and> run_with example_batch (\<lambda>v. v) example_migrations (snd (run_with example_batch (\<lambda>v. v) example_migrations example_schema))
      = (Inr (), snd (run_with example_batch (\<lambda>v. v) example_migrations example_schema))"
proof -
  have facts: "numbered example_migrations" "records example_migrations 0 example_schema"
    by (simp_all add: numbered_def records_def example_migrations_def example_schema_def)
  have "fst (run_with example_batch (\<lambda>v. v) example_migrations example_schema) = Inr ()"
    by (simp add: run_with_def max_known_def verify_recorded_state_def example_migrations_def example_schema_def
        apply_one_def example_batch_def ensure_def)
  moreover have "length example_migrations = 2" by (simp add: example_migrations_def)
  ultimately show ?thesis
    using migrations_resume [OF facts, of example_batch "\<lambda>v. v" example_batch "\<lambda>v. v"] by auto
qed

end
