(* ===== verification/Engine.thy ===== *)
theory Engine
  imports Stability Store_Configuration
begin

text \<open>
  The world a controller of \<^verbatim>\<open>crates/pantheon-engine\<close> runs in. A controller holds the store and the
  published configuration, which other threads of the daemon use at the same time, and reaches
  external systems through ports.

  Every access to the store is one atomic transaction or one consistent read; between two accesses
  of a controller the other threads may do anything to the shared state. They are the function
  \<open>others\<close> of the world, applied before every access; what is proved of a controller holds for
  every such function whose effect on the store is a sequence of store operations. A read may
  fail at any access (\<open>reader_fault\<close>). The world outside, which only ports change, is a type
  parameter.
\<close>

section \<open>The published configuration\<close>

text \<open>\<open>Snapshot\<close> and the process-local half of \<open>ConfigurationAuthority\<close> (\<^verbatim>\<open>configuration.rs\<close>).\<close>

record snapshot =
  sps_active :: active_configuration_record
  sps_compiled :: "compiled_configuration option"

record shared =
  sh_store :: store
  sh_published :: "snapshot option"
  sh_poisoned :: bool

record 'x world =
  shared_state :: shared
  external :: 'x
  others :: "nat \<Rightarrow> shared \<Rightarrow> shared"
  reader_fault :: "nat \<Rightarrow> bool"
  reader_clock :: "nat \<Rightarrow> int"
  accesses :: nat

abbreviation the_store :: "'x world \<Rightarrow> store" where
  "the_store w \<equiv> sh_store (shared_state w)"

abbreviation the_database :: "'x world \<Rightarrow> db" where
  "the_database w \<equiv> database (the_store w)"

type_synonym ('x, 'e, 'a) controller = "'x world \<Rightarrow> ('e, 'a) res \<times> 'x world"

section \<open>Controllers\<close>

definition returnE :: "'a \<Rightarrow> ('x, 'e, 'a) controller" where
  "returnE x = (\<lambda>w. (Inr x, w))"

definition raiseE :: "'e \<Rightarrow> ('x, 'e, 'a) controller" where
  "raiseE e = (\<lambda>w. (Inl e, w))"

definition bindE :: "('x, 'e, 'a) controller \<Rightarrow> ('a \<Rightarrow> ('x, 'e, 'b) controller) \<Rightarrow> ('x, 'e, 'b) controller" where
  "bindE m f = (\<lambda>w. case m w of (Inl e, w') \<Rightarrow> (Inl e, w') | (Inr x, w') \<Rightarrow> f x w')"

text \<open>A pure \<open>Result\<close> under \<open>?\<close>, \<open>ok_or_else\<close>, and a guard with an early return.\<close>

definition liftE :: "('e, 'a) res \<Rightarrow> ('x, 'e, 'a) controller" where
  "liftE r = (\<lambda>w. (r, w))"

definition someE :: "'a option \<Rightarrow> 'e \<Rightarrow> ('x, 'e, 'a) controller" where
  "someE x e = liftE (ok_or x e)"

definition requireE :: "bool \<Rightarrow> 'e \<Rightarrow> ('x, 'e, unit) controller" where
  "requireE b e = liftE (ensure b e)"

text \<open>\<open>map_err\<close>, the conversion \<open>?\<close> applies, and a \<open>Result\<close> inspected instead of propagated.\<close>

definition mapE :: "('e \<Rightarrow> 'f) \<Rightarrow> ('x, 'e, 'a) controller \<Rightarrow> ('x, 'f, 'a) controller" where
  "mapE g m = (\<lambda>w. case m w of (r, w') \<Rightarrow> (map_sum g id r, w'))"

definition tryE :: "('x, 'e, 'a) controller \<Rightarrow> ('x, 'f, ('e, 'a) res) controller" where
  "tryE m = (\<lambda>w. case m w of (r, w') \<Rightarrow> (Inr r, w'))"

fun foldE :: "('s \<Rightarrow> 'a \<Rightarrow> ('x, 'e, 's) controller) \<Rightarrow> 's \<Rightarrow> 'a list \<Rightarrow> ('x, 'e, 's) controller" where
  "foldE f s [] = returnE s"
| "foldE f s (a # as) = bindE (f s a) (\<lambda>s'. foldE f s' as)"

section \<open>Accesses\<close>

definition interfere :: "'x world \<Rightarrow> 'x world" where
  "interfere w = w\<lparr>shared_state := others w (accesses w) (shared_state w), accesses := Suc (accesses w)\<rparr>"

text \<open>A read of the store, and a store operation; both report failures as \<open>store_error\<close>.\<close>

definition readE :: "(db \<Rightarrow> (store_error, 'a) res) \<Rightarrow> ('x, store_error, 'a) controller" where
  "readE f = (\<lambda>w. let w' = interfere w in
     (if reader_fault w (accesses w) then Inl (Sqlite StorageFailure) else f (the_database w'), w'))"

definition getE :: "(db \<Rightarrow> 'a) \<Rightarrow> ('x, store_error, 'a) controller" where
  "getE f = readE (\<lambda>d. Inr (f d))"

text \<open>A read whose text calls \<open>unixepoch()\<close> itself.\<close>

definition read_nowE :: "(int \<Rightarrow> db \<Rightarrow> (store_error, 'a) res) \<Rightarrow> ('x, store_error, 'a) controller" where
  "read_nowE f = (\<lambda>w. readE (f (reader_clock w (accesses w))) w)"

definition storeE :: "(store \<Rightarrow> (store_error, 'a) res \<times> store) \<Rightarrow> ('x, store_error, 'a) controller" where
  "storeE f = (\<lambda>w. let w' = interfere w in
     case f (the_store w') of (r, s) \<Rightarrow> (r, w'\<lparr>shared_state := (shared_state w')\<lparr>sh_store := s\<rparr>\<rparr>))"

text \<open>A call of a port: it sees and changes the world outside, and nothing else.\<close>

definition portE :: "('x \<Rightarrow> 'r \<times> 'x) \<Rightarrow> ('x, 'e, 'r) controller" where
  "portE p = (\<lambda>w. case p (external w) of (r, x) \<Rightarrow> (Inr r, w\<lparr>external := x\<rparr>))"

text \<open>A port call that observes without changing anything.\<close>

definition observeE :: "('x \<Rightarrow> 'r) \<Rightarrow> ('x, 'e, 'r) controller" where
  "observeE p = (\<lambda>w. (Inr (p (external w)), w))"

text \<open>\<open>Store::restore_generation\<close> through a reader.\<close>

definition read_restore_generation :: "db \<Rightarrow> (store_error, string) res" where
  "read_restore_generation d = ok_or (select_restore_generation d) (Sqlite QueryReturnedNoRows)"

lemmas engine_defs = returnE_def raiseE_def bindE_def liftE_def someE_def requireE_def mapE_def tryE_def
  interfere_def readE_def getE_def read_nowE_def storeE_def portE_def observeE_def

section \<open>What a controller does\<close>

lemma bindE_Inr_iff:
  "bindE m f w = (Inr y, w') \<longleftrightarrow> (\<exists>x w1. m w = (Inr x, w1) \<and> f x w1 = (Inr y, w'))"
  by (auto simp: bindE_def split: prod.splits sum.splits)

lemma bindE_iff:
  "bindE m f w = (r, w') \<longleftrightarrow>
     (\<exists>e. m w = (Inl e, w') \<and> r = Inl e) \<or> (\<exists>x w1. m w = (Inr x, w1) \<and> f x w1 = (r, w'))"
  by (auto simp: bindE_def split: prod.splits sum.splits)

lemma simple_iff:
  "returnE x w = (r, w') \<longleftrightarrow> r = Inr x \<and> w' = w"
  "raiseE e w = (r, w') \<longleftrightarrow> r = Inl e \<and> w' = w"
  "liftE q w = (r, w') \<longleftrightarrow> r = q \<and> w' = w"
  "someE v e w = (r, w') \<longleftrightarrow> r = ok_or v e \<and> w' = w"
  "requireE b e w = (u, w') \<longleftrightarrow> u = ensure b e \<and> w' = w"
  by (auto simp: engine_defs)

lemma mapE_iff: "mapE g m w = (r, w') \<longleftrightarrow> (\<exists>q. m w = (q, w') \<and> r = map_sum g id q)"
  by (auto simp: mapE_def split: prod.splits)

lemma tryE_iff: "tryE m w = (r, w') \<longleftrightarrow> (\<exists>q. m w = (q, w') \<and> r = Inr q)"
  by (auto simp: tryE_def split: prod.splits)

lemma readE_iff:
  "readE f w = (r, w') \<longleftrightarrow> w' = interfere w \<and>
     r = (if reader_fault w (accesses w) then Inl (Sqlite StorageFailure) else f (the_database w'))"
  by (auto simp: readE_def Let_def)

lemma storeE_iff:
  "storeE f w = (r, w') \<longleftrightarrow> (\<exists>s. f (the_store (interfere w)) = (r, s) \<and>
     w' = (interfere w)\<lparr>shared_state := (shared_state (interfere w))\<lparr>sh_store := s\<rparr>\<rparr>)"
  by (auto simp: storeE_def Let_def split: prod.splits)

lemmas engine_iff = bindE_iff simple_iff mapE_iff tryE_iff readE_iff storeE_iff

subsection \<open>The store moves by its own operations\<close>

definition other_steps :: "sha256 \<Rightarrow> 'x world \<Rightarrow> bool" where
  "other_steps sha w \<longleftrightarrow> (\<forall>n sh. (step sha)\<^sup>*\<^sup>* (sh_store sh) (sh_store (others w n sh)))"

definition advances :: "sha256 \<Rightarrow> ('x, 'e, 'a) controller \<Rightarrow> bool" where
  "advances sha m \<longleftrightarrow> (\<forall>w. other_steps sha w \<longrightarrow>
     (step sha)\<^sup>*\<^sup>* (the_store w) (the_store (snd (m w))) \<and> others (snd (m w)) = others w)"

named_theorems engine \<open>what a controller keeps, by the shape of its definition\<close>

lemma advancesD:
  assumes "advances sha m" and "m w = (r, w')" and "other_steps sha w"
  shows "(step sha)\<^sup>*\<^sup>* (the_store w) (the_store w')" and "other_steps sha w'"
  using assms unfolding advances_def other_steps_def by (metis snd_conv)+

lemma interfere_steps:
  "other_steps sha w \<Longrightarrow> (step sha)\<^sup>*\<^sup>* (the_store w) (the_store (interfere w))"
  by (simp add: other_steps_def interfere_def)

lemma interfere_simps [simp]:
  "others (interfere w) = others w" "external (interfere w) = external w"
  "reader_fault (interfere w) = reader_fault w"
  by (simp_all add: interfere_def)

lemma advances_bind [engine]:
  assumes "advances sha m" and "\<And>x. advances sha (f x)"
  shows "advances sha (bindE m f)"
  unfolding advances_def
proof (intro allI impI)
  fix w :: "'a world" assume ok: "other_steps sha w"
  obtain r w1 where m: "m w = (r, w1)" by fastforce
  note first = advancesD [OF assms(1) m ok] and same = assms(1) [unfolded advances_def, rule_format, OF ok]
  show "(step sha)\<^sup>*\<^sup>* (the_store w) (the_store (snd (bindE m f w))) \<and> others (snd (bindE m f w)) = others w"
  proof (cases r)
    case (Inl e)
    then show ?thesis using same m by (simp add: bindE_def)
  next
    case (Inr x)
    then show ?thesis
      using first same m assms(2) [of x, unfolded advances_def, rule_format, OF first(2)]
      by (auto simp: bindE_def intro: rtranclp_trans)
  qed
qed

lemma advances_simple [engine]:
  "advances sha (returnE x)" "advances sha (raiseE e)" "advances sha (liftE r)"
  "advances sha (someE x' e)" "advances sha (requireE b e)" "advances sha (observeE q)"
  by (simp_all add: advances_def engine_defs)

lemma advances_port [engine]: "advances sha (portE p)"
  by (auto simp: advances_def engine_defs split: prod.splits)

lemma advances_map [engine]: "advances sha m \<Longrightarrow> advances sha (mapE g m)"
  by (auto simp: advances_def mapE_def split: prod.splits)

lemma advances_try [engine]: "advances sha m \<Longrightarrow> advances sha (tryE m)"
  by (auto simp: advances_def tryE_def split: prod.splits)

lemma advances_read [engine]: "advances sha (readE f)" "advances sha (getE g)" "advances sha (read_nowE h)"
  by (auto simp: advances_def readE_def getE_def read_nowE_def Let_def interfere_steps)

lemma advances_store [engine]:
  assumes "\<And>s. step sha s (snd (f s))"
  shows "advances sha (storeE f)"
  unfolding advances_def
proof (intro allI impI)
  fix w :: "'b world" assume ok: "other_steps sha w"
  have "(step sha)\<^sup>*\<^sup>* (the_store w) (snd (f (the_store (interfere w))))"
    by (rule rtranclp.rtrancl_into_rtrancl [OF interfere_steps [OF ok] assms])
  then show "(step sha)\<^sup>*\<^sup>* (the_store w) (the_store (snd (storeE f w))) \<and> others (snd (storeE f w)) = others w"
    by (auto simp: storeE_def Let_def split: prod.splits)
qed

lemma advances_fold [engine]:
  "(\<And>s a. advances sha (f s a)) \<Longrightarrow> advances sha (foldE f s as)"
  by (induction as arbitrary: s) (auto intro: engine)

lemma advances_cases [engine]:
  "advances sha m \<Longrightarrow> (\<And>x. advances sha (f x)) \<Longrightarrow> advances sha (case v of None \<Rightarrow> m | Some x \<Rightarrow> f x)"
  "(\<And>x. advances sha (g x)) \<Longrightarrow> (\<And>x. advances sha (h x)) \<Longrightarrow> advances sha (case u of Inl x \<Rightarrow> g x | Inr x \<Rightarrow> h x)"
  "(\<And>x y. advances sha (k x y)) \<Longrightarrow> advances sha (case p of (x, y) \<Rightarrow> k x y)"
  "(\<And>x y. advances sha (k' x y)) \<Longrightarrow> (\<And>x y. advances sha (l x y)) \<Longrightarrow>
     advances sha (case c of Executed x y \<Rightarrow> k' x y | Replayed x' y' \<Rightarrow> l x' y')"
  "advances sha a \<Longrightarrow> advances sha b \<Longrightarrow> advances sha (if q then a else b)"
  by (simp_all split: option.split sum.split prod.split committed.split)

text \<open>The schema's own constraints, as the invariant that asks for nothing more.\<close>

interpretation schema_only: store_invariant sha "\<lambda>_. True" for sha
  by unfold_locales (rule TrueI | (rule preservesI, rule schema_kept, rule TrueI))+

lemma steps_schema_ok: "(step sha)\<^sup>*\<^sup>* s s' \<Longrightarrow> schema_ok (database s) \<Longrightarrow> schema_ok (database s')"
  using schema_only.steps_preserve by blast

context store_invariant
begin

lemma controller_preserves:
  assumes "advances sha m" and "m w = (r, w')" and "other_steps sha w"
    and "schema_ok (the_database w)" and "I (the_database w)"
  shows "schema_ok (the_database w')" and "I (the_database w')"
  using steps_preserve [OF advancesD(1) [OF assms(1-3)] assms(4,5)] by auto

end

subsection \<open>The world outside moves by ports only\<close>

text \<open>What an action leaves of the world outside, seen through \<open>view\<close>.\<close>

definition untouched :: "('x \<Rightarrow> 'v) \<Rightarrow> ('x, 'e, 'a) controller \<Rightarrow> bool" where
  "untouched view m \<longleftrightarrow> (\<forall>w. view (external (snd (m w))) = view (external w))"

lemma untouchedD: "untouched view m \<Longrightarrow> m w = (r, w') \<Longrightarrow> view (external w') = view (external w)"
  unfolding untouched_def by (metis snd_conv)

lemma untouched_bind [engine]:
  "untouched view m \<Longrightarrow> (\<And>x. untouched view (f x)) \<Longrightarrow> untouched view (bindE m f)"
  by (auto simp: untouched_def bindE_def split: prod.splits sum.splits) (metis snd_conv)+

lemma untouched_simple [engine]:
  "untouched view (returnE x)" "untouched view (raiseE e)" "untouched view (liftE r)"
  "untouched view (someE x' e)" "untouched view (requireE b e)" "untouched view (observeE q)"
  "untouched view (readE f)" "untouched view (getE g)" "untouched view (read_nowE k)" "untouched view (storeE h)"
  by (auto simp: untouched_def engine_defs Let_def split: prod.splits)

lemma untouched_port [engine]: "(\<And>x. view (snd (p x)) = view x) \<Longrightarrow> untouched view (portE p)"
  by (auto simp: untouched_def portE_def split: prod.splits) (metis snd_conv)

lemma untouched_map [engine]: "untouched view m \<Longrightarrow> untouched view (mapE g m)" "untouched view m \<Longrightarrow> untouched view (tryE m)"
  by (auto simp: untouched_def mapE_def tryE_def split: prod.splits) (metis snd_conv)+

lemma untouched_fold [engine]:
  "(\<And>s a. untouched view (f s a)) \<Longrightarrow> untouched view (foldE f s as)"
  by (induction as arbitrary: s) (auto intro: engine)

lemma untouched_cases [engine]:
  "untouched view m \<Longrightarrow> (\<And>x. untouched view (f x)) \<Longrightarrow> untouched view (case v of None \<Rightarrow> m | Some x \<Rightarrow> f x)"
  "(\<And>x. untouched view (g x)) \<Longrightarrow> (\<And>x. untouched view (h x)) \<Longrightarrow> untouched view (case u of Inl x \<Rightarrow> g x | Inr x \<Rightarrow> h x)"
  "(\<And>x y. untouched view (k x y)) \<Longrightarrow> untouched view (case p of (x, y) \<Rightarrow> k x y)"
  "(\<And>x y. untouched view (k' x y)) \<Longrightarrow> (\<And>x y. untouched view (l x y)) \<Longrightarrow>
     untouched view (case c of Executed x y \<Rightarrow> k' x y | Replayed x' y' \<Rightarrow> l x' y')"
  "untouched view a \<Longrightarrow> untouched view b \<Longrightarrow> untouched view (if q then a else b)"
  by (simp_all split: option.split sum.split prod.split committed.split)

end
