(* ===== verification/Engine_Workspace.thy ===== *)
theory Engine_Workspace
  imports Engine Store_Workspace
begin

text \<open>
  The Task-owned Workspace control path (\<^verbatim>\<open>crates/pantheon-engine/src/workspace.rs\<close>): resolve the
  requested base, commit the identity, commit the side-effect marker, create the repository state
  through the materialiser port, commit the verified materialisation.
\<close>

section \<open>The port\<close>

record materialization_target =
  mt_workspace_id :: string
  mt_source :: string
  mt_destination :: string
  mt_base :: string

record materializer_error =
  me_code :: string
  me_detail :: message

record 'x materializer =
  mz_resolve_base :: "string \<Rightarrow> string \<Rightarrow> 'x \<Rightarrow> (materializer_error, string) res \<times> 'x"
  mz_materialize :: "materialization_target \<Rightarrow> 'x \<Rightarrow> (materializer_error, string) res \<times> 'x"
  mz_observe :: "materialization_target \<Rightarrow> 'x \<Rightarrow> (materializer_error, materialization) res \<times> 'x"
  mz_discard :: "materialization_target \<Rightarrow> 'x \<Rightarrow> (materializer_error, unit) res \<times> 'x"

text \<open>What the port documents of its reads: resolving a base is read-only, observing observes.\<close>

definition reads_only :: "'x materializer \<Rightarrow> bool" where
  "reads_only mz \<longleftrightarrow> (\<forall>source requested x. snd (mz_resolve_base mz source requested x) = x)
     \<and> (\<forall>target x. snd (mz_observe mz target x) = x)"

section \<open>Requests and errors\<close>

record workspace_request =
  wq_source :: string
  wq_requested_base :: string

record workspace_command =
  wc_epoch :: string
  wc_id :: string
  wc_request_hash :: "byte list"

datatype workspace_error =
    WorkspaceStore store_error
  | Ineligible string message
  | TaskSpecUnusable string message
  | Materialization string materializer_error
  | Missing string materialization
  | WorkspaceConflict string message
  | WorkspaceCommandIdentityTooLong string

definition max_command_id :: nat where
  "max_command_id = 128"

section \<open>Paths and identities\<close>

text \<open>\<open>Path::join\<close>: an absolute component replaces, a relative one is appended.\<close>

definition path_join :: "string \<Rightarrow> string \<Rightarrow> string" where
  "path_join base component =
     (if component \<noteq> [] \<and> hd component = CHR ''/'' then component
      else if base = [] \<or> last base = CHR ''/'' then base @ component
      else base @ ''/'' @ component)"

definition path_of :: "string \<Rightarrow> string \<Rightarrow> string" where
  "path_of root workspace_id = path_join (path_join root workspace_id) ''repo''"

definition path_text :: "string \<Rightarrow> string option" where
  "path_text p = (if utf8_valid p then Some p else None)"

definition derive_workspace_command :: "string \<Rightarrow> string \<Rightarrow> int option \<Rightarrow> (workspace_error, string) res" where
  "derive_workspace_command base suffix from =
     (let id = (case from of
          Some revision \<Rightarrow> base @ '':workspace:'' @ suffix @ '':'' @ int_to_string revision
        | None \<Rightarrow> base @ '':workspace:'' @ suffix)
      in if max_command_id < length id then Inl (WorkspaceCommandIdentityTooLong id) else Inr id)"

definition workspace_step_command :: "workspace_command \<Rightarrow> string \<Rightarrow> string \<Rightarrow> command" where
  "workspace_step_command c cid event =
     \<lparr>cmd_epoch = wc_epoch c, cmd_id = cid, cmd_request_hash = wc_request_hash c, cmd_event_type = event\<rparr>"

definition target_of :: "string \<Rightarrow> workspace_record \<Rightarrow> materialization_target" where
  "target_of root current =
     \<lparr>mt_workspace_id = wk_id current, mt_source = wk_source_path current,
      mt_destination = path_of root (wk_id current), mt_base = wk_resolved_base current\<rparr>"

section \<open>Steps\<close>

text \<open>A replay carries no value: the current durable state is read back.\<close>

definition settle_workspace ::
    "string \<Rightarrow> workspace_record committed \<Rightarrow> ('x, workspace_error, workspace_record) controller" where
  "settle_workspace task_id committed = (case committed of
     Executed v _ \<Rightarrow> returnE v
   | Replayed _ _ \<Rightarrow>
       bindE (mapE WorkspaceStore (readE (workspace_for_task task_id))) (\<lambda>found.
       someE found (Ineligible task_id (Fmt ''a replayed workspace command left no current workspace'' []))))"

definition spec_repository :: "sha256 \<Rightarrow> string \<Rightarrow> task_record \<Rightarrow> string \<Rightarrow> (workspace_error, string) res" where
  "spec_repository sha task_id task canonical = (case task_from_canonical_json canonical of
     Inl (TaskDecodeError detail) \<Rightarrow> Inl (TaskSpecUnusable task_id detail)
   | Inr spec \<Rightarrow>
       bindR (ensure (task_digest sha spec = tr_spec_digest task) (TaskSpecUnusable task_id
          (Fmt ''the stored specification does not match its digest'' []))) (\<lambda>_.
       ok_or (map_option ti_reference (List.find (\<lambda>input. ti_name input = repository_input) (tk_inputs spec)))
         (Ineligible task_id (Fmt ''it declares no {REPOSITORY_INPUT} input to work in'' [FStr repository_input]))))"

definition repository_of :: "sha256 \<Rightarrow> string \<Rightarrow> ('x, workspace_error, string) controller" where
  "repository_of sha task_id =
     bindE (mapE WorkspaceStore (readE (read_task task_id))) (\<lambda>found.
     bindE (someE found (Ineligible task_id (Fmt ''no such task'' []))) (\<lambda>task.
     bindE (requireE (tr_phase task = TReady)
        (Ineligible task_id (Fmt ''task is {}'' [FStr (task_phase_as_str (tr_phase task))]))) (\<lambda>_.
     bindE (mapE WorkspaceStore (getE (task_spec_json (tr_spec_digest task)))) (\<lambda>found.
     bindE (someE found (TaskSpecUnusable task_id (Fmt ''the specification the task names is not stored'' []))) (\<lambda>canonical.
     liftE (spec_repository sha task_id task canonical))))))"

definition check_matches :: "workspace_record \<Rightarrow> workspace_request \<Rightarrow> (workspace_error, unit) res" where
  "check_matches current request =
     bindR (ensure (wk_requested_base current = wq_requested_base request) (WorkspaceConflict (wk_id current)
        (Fmt ''it was opened for {} and the request asks for {}''
           [FStr (wk_requested_base current), FStr (wq_requested_base request)]))) (\<lambda>_.
     case path_text (wq_source request) of
       Some source \<Rightarrow> ensure (source = wk_source_path current) (WorkspaceConflict (wk_id current)
         (Fmt ''it was opened against {} and the request names {source}'' [FStr (wk_source_path current), FStr source]))
     | None \<Rightarrow> Inl (WorkspaceConflict (wk_id current) (Fmt ''the source repository path is not valid UTF-8'' [])))"

definition open_step ::
    "sha256 \<Rightarrow> 'x materializer \<Rightarrow> workspace_command \<Rightarrow> string \<Rightarrow> string \<Rightarrow> workspace_request \<Rightarrow>
     ('x, workspace_error, workspace_record) controller" where
  "open_step sha mz c wid task_id request =
     bindE (repository_of sha task_id) (\<lambda>repository.
     bindE (portE (mz_resolve_base mz (wq_source request) (wq_requested_base request))) (\<lambda>answer.
     bindE (mapE (Materialization wid) (liftE answer)) (\<lambda>resolved.
     bindE (someE (path_text (wq_source request)) (Ineligible task_id
        (Fmt ''the source repository path is not valid UTF-8'' []))) (\<lambda>source.
     bindE (liftE (derive_workspace_command (wc_id c) ''open'' None)) (\<lambda>id.
     bindE (mapE WorkspaceStore (storeE (open_workspace (workspace_step_command c id ''workspace.requested'') wid
        \<lparr>wb_task_id = task_id, wb_repository = repository, wb_source_path = source,
         wb_requested_base = wq_requested_base request, wb_resolved_base = resolved\<rparr>))) (\<lambda>committed.
     settle_workspace task_id committed))))))"

text \<open>An error is not evidence of absence, and a failure path never claims verification.\<close>

definition failure_observation :: "(materializer_error, materialization) res \<Rightarrow> materialization" where
  "failure_observation answer = (case answer of
     Inr MAbsent \<Rightarrow> MAbsent
   | _ \<Rightarrow> MUnknown)"

definition record_failure ::
    "'x materializer \<Rightarrow> workspace_command \<Rightarrow> workspace_record \<Rightarrow> materialization_target \<Rightarrow> materializer_error \<Rightarrow>
     ('x, workspace_error, workspace_record) controller" where
  "record_failure mz c current target e =
     bindE (portE (mz_observe mz target)) (\<lambda>answer.
     bindE (liftE (derive_workspace_command (wc_id c) ''failed'' (Some (wk_revision current)))) (\<lambda>id.
     bindE (mapE WorkspaceStore (storeE (fail_workspace_materialization (workspace_step_command c id ''workspace.failed'')
        (wk_id current) (wk_revision current) (failure_observation answer)))) (\<lambda>_.
     raiseE (Materialization (wk_id current) e))))"

text \<open>The target keeps the identity and base of the record the marker was committed from.\<close>

definition materialize_step ::
    "string \<Rightarrow> 'x materializer \<Rightarrow> workspace_command \<Rightarrow> workspace_record \<Rightarrow>
     ('x, workspace_error, workspace_record) controller" where
  "materialize_step root mz c current =
     bindE (liftE (derive_workspace_command (wc_id c) ''materializing'' (Some (wk_revision current)))) (\<lambda>id.
     bindE (mapE WorkspaceStore (storeE (begin_workspace_materialization
        (workspace_step_command c id ''workspace.materializing'') (wk_id current) (wk_revision current)))) (\<lambda>committed.
     bindE (settle_workspace (wk_task_id current) committed) (\<lambda>marked.
     bindE (portE (mz_discard mz (target_of root current))) (\<lambda>discarded.
     case discarded of
       Inl e \<Rightarrow> record_failure mz c marked (target_of root current) e
     | Inr _ \<Rightarrow>
         bindE (portE (mz_materialize mz (target_of root current))) (\<lambda>built.
         case built of
           Inl e \<Rightarrow> record_failure mz c marked (target_of root current) e
         | Inr verified \<Rightarrow>
             bindE (liftE (derive_workspace_command (wc_id c) ''ready'' (Some (wk_revision marked)))) (\<lambda>id.
             bindE (mapE WorkspaceStore (storeE (complete_workspace_materialization
                (workspace_step_command c id ''workspace.ready'') (wk_id marked) (wk_revision marked) verified))) (\<lambda>committed.
             settle_workspace (wk_task_id marked) committed)))))))"

definition reopen :: "string \<Rightarrow> 'x materializer \<Rightarrow> workspace_record \<Rightarrow> ('x, workspace_error, workspace_record) controller" where
  "reopen root mz current =
     bindE (portE (mz_observe mz (target_of root current))) (\<lambda>answer.
     bindE (mapE (Materialization (wk_id current)) (liftE answer)) (\<lambda>observed.
     bindE (requireE (observed = MPresent) (Missing (wk_id current) observed)) (\<lambda>_.
     returnE current)))"

section \<open>Ensuring a Workspace\<close>

definition drive_workspace ::
    "string \<Rightarrow> 'x materializer \<Rightarrow> workspace_command \<Rightarrow> workspace_record \<Rightarrow>
     ('x, workspace_error, workspace_record) controller" where
  "drive_workspace root mz c current =
     (if wk_phase current = WReady then reopen root mz current
      else if wk_phase current = WRequested \<or> wk_phase current = WMaterializing \<or> wk_phase current = WError
      then materialize_step root mz c current
      else raiseE (WorkspaceConflict (wk_id current) (Fmt ''workspace is {phase} and cannot be brought to Ready here''
        [FStr (workspace_phase_as_str (wk_phase current))])))"

definition ensure_workspace ::
    "sha256 \<Rightarrow> string \<Rightarrow> 'x materializer \<Rightarrow> workspace_command \<Rightarrow> string \<Rightarrow> string \<Rightarrow> workspace_request \<Rightarrow>
     ('x, workspace_error, workspace_record) controller" where
  "ensure_workspace sha root mz c wid task_id request =
     bindE (mapE WorkspaceStore (readE (workspace_for_task task_id))) (\<lambda>existing.
     bindE (case existing of
         Some record \<Rightarrow> bindE (liftE (check_matches record request)) (\<lambda>_. returnE record)
       | None \<Rightarrow> open_step sha mz c wid task_id request) (\<lambda>current.
     drive_workspace root mz c current))"

section \<open>What the controller keeps\<close>

lemma advances_workspace_parts [engine]:
  "advances sha (settle_workspace task_id committed)"
  "advances sha (repository_of sha' task_id)"
  "advances sha (reopen root mz current)"
  "advances sha (record_failure mz c current target e)"
  unfolding settle_workspace_def repository_of_def reopen_def record_failure_def
  by (intro engine step.intros)+

lemma advances_open [engine]: "advances sha (open_step sha' mz c wid task_id request)"
  unfolding open_step_def by (intro engine step.intros)

lemma advances_materialize [engine]: "advances sha (materialize_step root mz c current)"
  unfolding materialize_step_def by (intro engine step.intros)

lemma advances_ensure_workspace [engine]: "advances sha (ensure_workspace sha' root mz c wid task_id request)"
  unfolding ensure_workspace_def drive_workspace_def by (intro engine)

end
