(* ===== verification/Engine_Sealing.thy ===== *)
theory Engine_Sealing
  imports Engine_Workspace Store_Artifacts Scope
begin

text \<open>
  Sealing a Task's settled Workspace into a \<open>code.changeset\<close>
  (\<^verbatim>\<open>crates/pantheon-engine/src/sealing.rs\<close>): establish or revalidate the freeze under the claimed Run
  authority, capture the tree into the content-addressed store, compare it with the trusted base,
  and publish the manifest in one transaction.
\<close>

section \<open>Ports\<close>

record external_fault =
  xf_code :: string
  xf_detail :: message

record captured_entry =
  cpe_path :: repository_path
  cpe_kind :: entry_kind
  cpe_bytes :: string

record base_object =
  bo_kind :: entry_kind
  bo_oid :: string
  bo_size :: int

record object_ref =
  obr_digest :: digest
  obr_size :: int

text \<open>
  \<open>capture_tree\<close> streams the entries of the tree to its sink and stops with the sink's error; the
  port is the stream it produces and the fault, if any, it ends with. A \<open>BTreeMap\<close> of the base
  reader is the list of its entries. \<open>object_store\<close> has the one operation sealing calls.
\<close>

record 'x sealing_ports =
  sp_capture_tree :: "string \<Rightarrow> 'x \<Rightarrow> (captured_entry list \<times> external_fault option) \<times> 'x"
  sp_base_tree :: "string \<Rightarrow> string \<Rightarrow> 'x \<Rightarrow> (external_fault, (string \<times> base_object) list) res \<times> 'x"
  sp_blob_object_names :: "string \<Rightarrow> string list \<Rightarrow> 'x \<Rightarrow> (external_fault, string list) res \<times> 'x"
  sp_blob_bytes :: "string \<Rightarrow> string \<Rightarrow> 'x \<Rightarrow> (external_fault, string) res \<times> 'x"
  sp_publish :: "string \<Rightarrow> 'x \<Rightarrow> (external_fault, object_ref) res \<times> 'x"

section \<open>Requests, results, errors\<close>

record seal_command =
  skc_epoch :: string
  skc_id :: string
  skc_request_hash :: "byte list"

record seal_request =
  srq_task_id :: string
  srq_output_slot :: string
  srq_authority :: seal_authority
  srq_producer_attempt_id :: "string option"

record sealed_artifact =
  sla_artifact_digest :: digest
  sla_artifact_json :: string
  sla_revision_state_digest :: digest
  sla_artifact_reused :: bool

datatype seal_error =
    SealStore store_error
  | TaskUnusable string message
  | OutputSlotInvalid string string message
  | WorkspaceState string message
  | Capture external_fault
  | ScopeViolated message
  | CeilingsExceeded message
  | CommandIdentityTooLong string

fun changeset_error_display :: "changeset_error \<Rightarrow> message" where
  "changeset_error_display (InvalidPath v reason) = Fmt ''repository path {value:?} is invalid: {reason}'' [FStr v, FStr reason]"
| "changeset_error_display (OperationStateMismatch detail) = Fmt ''changeset entry is inconsistent: {detail}'' [FMsg detail]"

definition changeset_failure :: "changeset_error \<Rightarrow> seal_error" where
  "changeset_failure e = SealStore (InvariantViolated (Fmt ''changeset construction failed: {err}'' [FMsg (changeset_error_display e)]))"

definition max_entries :: nat where
  "max_entries = 100000"

definition max_total_bytes :: int where
  "max_total_bytes = 2 ^ 30"

definition max_identity_batch_bytes :: nat where
  "max_identity_batch_bytes = 2 ^ 24"

definition scope_fault_code :: string where
  "scope_fault_code = ''workspace.scope-violated''"

section \<open>Identities\<close>

definition authority_tag :: "seal_authority \<Rightarrow> string" where
  "authority_tag a = sa_run_id a @ ''@'' @ int_to_string (sa_expected_run_revision a)"

definition derive_seal_command :: "string \<Rightarrow> string \<Rightarrow> (seal_error, string) res" where
  "derive_seal_command base suffix =
     (let cid = base @ '':seal:'' @ suffix in
      if max_command_id < length cid then Inl (CommandIdentityTooLong cid) else Inr cid)"

definition seal_step_command :: "seal_command \<Rightarrow> string \<Rightarrow> string \<Rightarrow> command" where
  "seal_step_command c cid event =
     \<lparr>cmd_epoch = skc_epoch c, cmd_id = cid, cmd_request_hash = skc_request_hash c, cmd_event_type = event\<rparr>"

section \<open>Authority\<close>

definition check_sealed_spec :: "sha256 \<Rightarrow> string \<Rightarrow> task_record \<Rightarrow> string \<Rightarrow> (seal_error, task_spec) res" where
  "check_sealed_spec sha task_id task canonical = (case task_from_canonical_json canonical of
     Inl (TaskDecodeError detail) \<Rightarrow> Inl (TaskUnusable task_id detail)
   | Inr spec \<Rightarrow>
       bindR (ensure (task_digest sha spec = tr_spec_digest task) (TaskUnusable task_id
          (Fmt ''the stored specification does not match its digest'' []))) (\<lambda>_.
       Inr spec))"

definition load_spec :: "sha256 \<Rightarrow> string \<Rightarrow> ('x, seal_error, task_spec) controller" where
  "load_spec sha task_id =
     bindE (mapE SealStore (readE (read_task task_id))) (\<lambda>found.
     bindE (someE found (TaskUnusable task_id (Fmt ''no such task'' []))) (\<lambda>task.
     bindE (requireE (tr_phase task = TActive) (TaskUnusable task_id
        (Fmt ''the task is {}; sealing runs under its current Run'' [FStr (task_phase_as_str (tr_phase task))]))) (\<lambda>_.
     bindE (mapE SealStore (getE (task_spec_json (tr_spec_digest task)))) (\<lambda>found.
     bindE (someE found (TaskUnusable task_id (Fmt ''the specification the task names is not stored'' []))) (\<lambda>canonical.
     liftE (check_sealed_spec sha task_id task canonical))))))"

definition check_output_slot :: "seal_request \<Rightarrow> task_spec \<Rightarrow> (seal_error, unit) res" where
  "check_output_slot request spec =
     bindR (ok_or (List.find (\<lambda>out. to_name out = srq_output_slot request) (tk_outputs spec))
        (OutputSlotInvalid (srq_task_id request) (srq_output_slot request)
           (Fmt ''no such output slot in the immutable specification'' []))) (\<lambda>slot.
     ensure (to_kind slot = code_changeset_kind) (OutputSlotInvalid (srq_task_id request) (srq_output_slot request)
        (Fmt ''it permits {}, not {CODE_CHANGESET_KIND}'' [FStr (to_kind slot), FStr code_changeset_kind])))"

definition check_repository :: "seal_request \<Rightarrow> task_spec \<Rightarrow> workspace_record \<Rightarrow> (seal_error, unit) res" where
  "check_repository request spec ws =
     bindR (ok_or (map_option ti_reference (List.find (\<lambda>input. ti_name input = repository_input) (tk_inputs spec)))
        (TaskUnusable (srq_task_id request) (Fmt ''it declares no repository input to have worked in'' []))) (\<lambda>reference.
     ensure (wk_repository ws = reference) (WorkspaceState (wk_id ws)
        (Fmt ''it binds {} but the Task declares {repository_ref}'' [FStr (wk_repository ws), FStr reference])))"

definition frozen_revision :: "string \<Rightarrow> string \<Rightarrow> ('x, seal_error, int) controller" where
  "frozen_revision task_id wid =
     bindE (mapE SealStore (readE (workspace_for_task task_id))) (\<lambda>found.
     bindE (someE (case found of Some r \<Rightarrow> if wk_id r = wid then Some r else None | None \<Rightarrow> None)
        (WorkspaceState wid (Fmt ''it vanished immediately after its own freeze'' []))) (\<lambda>r.
     bindE (requireE (wk_phase r = WFrozen \<and> wk_materialization r = MPresent) (WorkspaceState wid
        (Fmt ''after freezing it is {} ({})'' [FStr (workspace_phase_as_str (wk_phase r)),
           FStr (materialization_as_str (wk_materialization r))]))) (\<lambda>_.
     returnE (wk_revision r))))"

text \<open>The fence: freeze a Ready Workspace, or revalidate the authority of a frozen one.\<close>

definition establish_fence ::
    "seal_command \<Rightarrow> seal_request \<Rightarrow> workspace_record \<Rightarrow> ('x, seal_error, int) controller" where
  "establish_fence c request ws =
     (if wk_phase ws = WReady then
        bindE (liftE (derive_seal_command (skc_id c)
           (''freeze:'' @ int_to_string (wk_revision ws) @ '':'' @ authority_tag (srq_authority request)))) (\<lambda>cid.
        bindE (mapE SealStore (storeE (freeze_workspace (seal_step_command c cid ''workspace.frozen'')
           (srq_authority request) (srq_task_id request) (srq_output_slot request) (wk_id ws) (wk_revision ws)))) (\<lambda>_.
        frozen_revision (wk_task_id ws) (wk_id ws)))
      else if wk_phase ws = WFrozen then
        bindE (requireE (wk_materialization ws = MPresent) (WorkspaceState (wk_id ws)
           (Fmt ''it is frozen but its materialization is not verified present'' []))) (\<lambda>_.
        bindE (liftE (derive_seal_command (skc_id c)
           (''validated:'' @ int_to_string (wk_revision ws) @ '':'' @ authority_tag (srq_authority request)))) (\<lambda>cid.
        bindE (mapE SealStore (storeE (validate_seal_authority_command
           (seal_step_command c cid ''workspace.seal-authority.validated'')
           (srq_authority request) (srq_task_id request) (srq_output_slot request) (wk_id ws) (wk_revision ws)))) (\<lambda>_.
        returnE (wk_revision ws))))
      else raiseE (WorkspaceState (wk_id ws) (Fmt
        ''it is {phase}; capture requires a verified, mutable-or-frozen Workspace'' [FStr (workspace_phase_as_str (wk_phase ws))])))"

section \<open>Capture\<close>

type_synonym captured_state = "entry_kind \<times> digest \<times> int"

record capture_progress =
  cg_final_state :: "(string \<times> captured_state) list"
  cg_unpublished :: "string list"
  cg_total_bytes :: int
  cg_batch :: "(string \<times> string) list"
  cg_batch_bytes :: nat
  cg_identities :: "(string \<times> string) list"

definition capture_start :: capture_progress where
  "capture_start = \<lparr>cg_final_state = [], cg_unpublished = [], cg_total_bytes = 0, cg_batch = [],
     cg_batch_bytes = 0, cg_identities = []\<rparr>"

text \<open>\<open>u64::saturating_add\<close>.\<close>

definition saturating_add :: "int \<Rightarrow> int \<Rightarrow> int" where
  "saturating_add a b = min (2 ^ 64 - 1) (a + b)"

definition flush_identity_batch ::
    "'x sealing_ports \<Rightarrow> string \<Rightarrow> capture_progress \<Rightarrow> ('x, external_fault, capture_progress) controller" where
  "flush_identity_batch ports source g =
     (if cg_batch g = [] then returnE g
      else
        bindE (portE (sp_blob_object_names ports source (map snd (cg_batch g)))) (\<lambda>answer.
        bindE (liftE answer) (\<lambda>names.
        bindE (requireE (length names = length (cg_batch g)) \<lparr>xf_code = ''workspace.base-unavailable'',
           xf_detail = Fmt ''the base identity derivation returned {} names for {} payloads''
             [FInt (int (length names)), FInt (int (length (cg_batch g)))]\<rparr>) (\<lambda>_.
        returnE (g\<lparr>cg_batch := [],
          cg_identities := fold (\<lambda>((key, _), name). btree_insert key name) (zip (cg_batch g) names) (cg_identities g)\<rparr>)))))"

definition retain_bytes ::
    "sha256 \<Rightarrow> 'x sealing_ports \<Rightarrow> workspace_scope \<Rightarrow> captured_entry \<Rightarrow> ('x, external_fault, bool) controller" where
  "retain_bytes sha ports scope entry =
     (if authorizes scope (cpe_path entry) then
        bindE (portE (sp_publish ports (cpe_bytes entry))) (\<lambda>answer.
        bindE (liftE answer) (\<lambda>published.
        bindE (requireE (obr_size published = int (length (cpe_bytes entry)) \<and> obr_digest published = digest_of sha (cpe_bytes entry))
           \<lparr>xf_code = ''cas.verify-failed'', xf_detail = Fmt ''published {} bytes as {}, expected {} as {}''
             [FInt (obr_size published), FStr (display (obr_digest published)),
              FInt (int (length (cpe_bytes entry))), FStr (display (digest_of sha (cpe_bytes entry)))]\<rparr>) (\<lambda>_.
        returnE True)))
      else returnE False)"

text \<open>Present in the base at the same path, kind and size: only content can still distinguish it.\<close>

definition comparison_candidate :: "(string \<times> base_object) list \<Rightarrow> captured_entry \<Rightarrow> bool" where
  "comparison_candidate base entry = (case map_of base (path_sort_key (cpe_path entry)) of
     None \<Rightarrow> False
   | Some before \<Rightarrow> bo_kind before = cpe_kind entry \<and> bo_size before = int (length (cpe_bytes entry)))"

definition note_entry ::
    "sha256 \<Rightarrow> (string \<times> base_object) list \<Rightarrow> captured_entry \<Rightarrow> bool \<Rightarrow> capture_progress \<Rightarrow> capture_progress" where
  "note_entry sha base entry retained g =
     (let key = path_sort_key (cpe_path entry);
          g1 = g\<lparr>cg_unpublished := (if retained then cg_unpublished g else key # cg_unpublished g),
            cg_final_state := btree_insert key (cpe_kind entry, digest_of sha (cpe_bytes entry), int (length (cpe_bytes entry)))
              (cg_final_state g)\<rparr>
      in if comparison_candidate base entry
         then g1\<lparr>cg_batch := cg_batch g1 @ [(key, cpe_bytes entry)], cg_batch_bytes := cg_batch_bytes g1 + length (cpe_bytes entry)\<rparr>
         else g1)"

definition capture_entry ::
    "sha256 \<Rightarrow> 'x sealing_ports \<Rightarrow> workspace_scope \<Rightarrow> string \<Rightarrow> (string \<times> base_object) list \<Rightarrow> capture_progress \<Rightarrow> captured_entry \<Rightarrow>
     ('x, external_fault, capture_progress) controller" where
  "capture_entry sha ports scope source base g entry =
     bindE (requireE (length (cg_final_state g) < max_entries) \<lparr>xf_code = ''workspace.capture-ceiling'',
        xf_detail = Fmt ''more than {MAX_ENTRIES} entries'' [FInt (int max_entries)]\<rparr>) (\<lambda>_.
     let total = saturating_add (cg_total_bytes g) (int (length (cpe_bytes entry))) in
     bindE (requireE (total \<le> max_total_bytes) \<lparr>xf_code = ''workspace.capture-ceiling'',
        xf_detail = Fmt ''more than {MAX_TOTAL_BYTES} captured bytes'' [FInt max_total_bytes]\<rparr>) (\<lambda>_.
     bindE (retain_bytes sha ports scope entry) (\<lambda>retained.
     let g1 = note_entry sha base entry retained (g\<lparr>cg_total_bytes := total\<rparr>) in
     if comparison_candidate base entry \<and> max_identity_batch_bytes \<le> cg_batch_bytes g1
     then bindE (flush_identity_batch ports source g1) (\<lambda>g2. returnE (g2\<lparr>cg_batch_bytes := 0\<rparr>))
     else returnE g1)))"

definition capture_fault :: "external_fault \<Rightarrow> seal_error" where
  "capture_fault f = (if xf_code f = scope_fault_code then ScopeViolated (xf_detail f) else Capture f)"

definition capture_all ::
    "sha256 \<Rightarrow> 'x sealing_ports \<Rightarrow> workspace_scope \<Rightarrow> string \<Rightarrow> string \<Rightarrow> (string \<times> base_object) list \<Rightarrow>
     ('x, seal_error, capture_progress) controller" where
  "capture_all sha ports scope root source base =
     bindE (portE (sp_capture_tree ports root)) (\<lambda>(stream, ended).
     bindE (mapE capture_fault (foldE (capture_entry sha ports scope source base) capture_start stream)) (\<lambda>g.
     bindE (case ended of None \<Rightarrow> returnE () | Some f \<Rightarrow> raiseE (capture_fault f)) (\<lambda>_.
     mapE Capture (flush_identity_batch ports source g))))"

section \<open>The difference\<close>

definition before_state ::
    "'x sealing_ports \<Rightarrow> string \<Rightarrow> base_object \<Rightarrow> ('x, seal_error, entry_state) controller" where
  "before_state ports source before =
     bindE (portE (sp_blob_bytes ports source (bo_oid before))) (\<lambda>answer.
     bindE (mapE Capture (liftE answer)) (\<lambda>bs.
     bindE (portE (sp_publish ports bs)) (\<lambda>answer.
     bindE (mapE Capture (liftE answer)) (\<lambda>published.
     bindE (requireE (obr_size published = int (length bs) \<and> obr_size published = bo_size before)
        (Capture \<lparr>xf_code = ''cas.verify-failed'', xf_detail = Fmt ''preimage for {} published {} bytes, claimed {}''
           [FStr (bo_oid before), FInt (obr_size published), FInt (bo_size before)]\<rparr>)) (\<lambda>_.
     returnE (Present (bo_kind before) (obr_digest published) (obr_size published)))))))"

definition refuse_unpublished_change :: "string \<Rightarrow> string list \<Rightarrow> (seal_error, unit) res" where
  "refuse_unpublished_change key unpublished = ensure (key \<notin> set unpublished) (ScopeViolated
     (case path_from_bytes key of
        Inr p \<Rightarrow> Fmt ''{}'' [FStr (to_manifest_string p)]
      | Inl _ \<Rightarrow> Fmt ''(unrepresentable)'' []))"

definition repository_path_of :: "string \<Rightarrow> ('x, seal_error, repository_path) controller" where
  "repository_path_of key = mapE changeset_failure (liftE (path_from_bytes key))"

definition new_entry ::
    "repository_path \<Rightarrow> operation \<Rightarrow> entry_state \<Rightarrow> entry_state \<Rightarrow> ('x, seal_error, changeset_entry) controller" where
  "new_entry rpath op before after = mapE changeset_failure (liftE (changeset_entry_new rpath op before after))"

definition unchanged :: "(string \<times> string) list \<Rightarrow> string \<Rightarrow> base_object \<Rightarrow> captured_state \<Rightarrow> bool" where
  "unchanged identities key before after = (case after of (knd, _, sz) \<Rightarrow>
     bo_kind before = knd \<and> bo_size before = sz \<and> map_of identities key = Some (bo_oid before))"

definition after_state :: "captured_state \<Rightarrow> entry_state" where
  "after_state after = (case after of (knd, blob, sz) \<Rightarrow> Present knd blob sz)"

definition diff_present ::
    "'x sealing_ports \<Rightarrow> string \<Rightarrow> (string \<times> base_object) list \<Rightarrow> capture_progress \<Rightarrow> changeset_entry list \<Rightarrow>
     string \<times> captured_state \<Rightarrow> ('x, seal_error, changeset_entry list) controller" where
  "diff_present ports source base g es entry = (case entry of (key, after) \<Rightarrow>
     bindE (repository_path_of key) (\<lambda>rpath.
     case map_of base key of
       None \<Rightarrow>
         bindE (liftE (refuse_unpublished_change key (cg_unpublished g))) (\<lambda>_.
         bindE (new_entry rpath Add Absent (after_state after)) (\<lambda>e. returnE (es @ [e])))
     | Some before \<Rightarrow>
         if unchanged (cg_identities g) key before after then returnE es
         else
           bindE (liftE (refuse_unpublished_change key (cg_unpublished g))) (\<lambda>_.
           bindE (before_state ports source before) (\<lambda>b.
           bindE (new_entry rpath Modify b (after_state after)) (\<lambda>e. returnE (es @ [e]))))))"

definition diff_deleted ::
    "'x sealing_ports \<Rightarrow> workspace_scope \<Rightarrow> string \<Rightarrow> capture_progress \<Rightarrow> changeset_entry list \<Rightarrow>
     string \<times> base_object \<Rightarrow> ('x, seal_error, changeset_entry list) controller" where
  "diff_deleted ports scope source g es entry = (case entry of (key, before) \<Rightarrow>
     if map_of (cg_final_state g) key \<noteq> None then returnE es
     else
       bindE (repository_path_of key) (\<lambda>rpath.
       bindE (requireE (authorizes scope rpath) (ScopeViolated (Fmt ''{}'' [FStr (to_manifest_string rpath)]))) (\<lambda>_.
       bindE (before_state ports source before) (\<lambda>b.
       bindE (new_entry rpath Delete b Absent) (\<lambda>e. returnE (es @ [e]))))))"

definition changeset_of ::
    "'x sealing_ports \<Rightarrow> workspace_scope \<Rightarrow> string \<Rightarrow> (string \<times> base_object) list \<Rightarrow> capture_progress \<Rightarrow>
     ('x, seal_error, changeset_entry list) controller" where
  "changeset_of ports scope source base g =
     bindE (foldE (diff_present ports source base g) [] (cg_final_state g)) (\<lambda>es.
     foldE (diff_deleted ports scope source g) es base)"

section \<open>Publication\<close>

definition final_entry_of :: "string \<times> captured_state \<Rightarrow> (seal_error, final_entry) res" where
  "final_entry_of entry = (case entry of (key, knd, blob, sz) \<Rightarrow>
     bindR (map_sum changeset_failure id (path_from_bytes key)) (\<lambda>rpath.
     Inr \<lparr>fe_path = rpath, fe_kind = knd, fe_blob = blob, fe_size = sz\<rparr>))"

definition state_member :: "entry_state \<Rightarrow> (digest \<times> int) option" where
  "state_member st = (case st of Present _ blob sz \<Rightarrow> Some (blob, sz) | Absent \<Rightarrow> None)"

fun unique_members :: "(digest \<times> int) list \<Rightarrow> (digest \<times> int) list \<Rightarrow> (digest \<times> int) list" where
  "unique_members acc [] = acc"
| "unique_members acc (m # ms) = unique_members (if fst m \<in> set (map fst acc) then acc else acc @ [m]) ms"

definition changeset_members :: "changeset_entry list \<Rightarrow> (digest \<times> int) list" where
  "changeset_members es = unique_members []
     (List.map_filter (\<lambda>e. state_member (ce_before e)) es @ List.map_filter (\<lambda>e. state_member (ce_after e)) es)"

definition publish_seal ::
    "sha256 \<Rightarrow> seal_command \<Rightarrow> seal_request \<Rightarrow> workspace_record \<Rightarrow> int \<Rightarrow> capture_progress \<Rightarrow> changeset_entry list \<Rightarrow>
     ('x, seal_error, sealed_artifact) controller" where
  "publish_seal sha c request ws fence g es =
     bindE (liftE (traverse final_entry_of (cg_final_state g))) (\<lambda>final_entries.
     bindE (mapE changeset_failure (liftE (revision_state_new sha final_entries))) (\<lambda>st.
     let json = to_canonical_bytes (changeset_manifest (wk_repository ws) (wk_resolved_base ws) (rs_digest st) es);
         artifact = digest_of sha json in
     bindE (liftE (derive_seal_command (skc_id c)
        (''sealed:'' @ int_to_string fence @ '':'' @ authority_tag (srq_authority request)))) (\<lambda>cid.
     bindE (mapE SealStore (storeE (commit_changeset_seal (seal_step_command c cid ''workspace.sealed'')
        \<lparr>sl_workspace_id = wk_id ws, sl_task_id = wk_task_id ws, sl_fence_revision = fence,
         sl_authority = srq_authority request, sl_output_slot = srq_output_slot request,
         sl_repository = wk_repository ws, sl_resolved_base = wk_resolved_base ws,
         sl_revision_state_digest = rs_digest st, sl_revision_state_json = revision_state_to_canonical_json st,
         sl_artifact_digest = artifact, sl_artifact_json = json, sl_members = changeset_members es,
         sl_producer = srq_producer_attempt_id request\<rparr>))) (\<lambda>committed.
     bindE (case committed of
         Executed v _ \<Rightarrow> returnE (so_artifact_reused v)
       | Replayed _ _ \<Rightarrow> bindE (mapE SealStore (getE (read_artifact artifact))) (\<lambda>found. returnE (found \<noteq> None))) (\<lambda>reused.
     returnE \<lparr>sla_artifact_digest = artifact, sla_artifact_json = json, sla_revision_state_digest = rs_digest st,
       sla_artifact_reused = reused\<rparr>)))))"

definition capture_and_seal ::
    "sha256 \<Rightarrow> string \<Rightarrow> 'x sealing_ports \<Rightarrow> seal_command \<Rightarrow> seal_request \<Rightarrow> workspace_record \<Rightarrow> int \<Rightarrow> workspace_scope \<Rightarrow>
     ('x, seal_error, sealed_artifact) controller" where
  "capture_and_seal sha root ports c request ws fence scope =
     bindE (portE (sp_base_tree ports (wk_source_path ws) (wk_resolved_base ws))) (\<lambda>answer.
     bindE (mapE Capture (liftE answer)) (\<lambda>listed.
     let base = btree_of listed in
     bindE (capture_all sha ports scope (path_of root (wk_id ws)) (wk_source_path ws) base) (\<lambda>g.
     bindE (changeset_of ports scope (wk_source_path ws) base g) (\<lambda>es.
     publish_seal sha c request ws fence g es))))"

section \<open>Sealing\<close>

definition record_seal_failure ::
    "seal_command \<Rightarrow> workspace_record \<Rightarrow> int \<Rightarrow> seal_error \<Rightarrow> ('x, seal_error, sealed_artifact) controller" where
  "record_seal_failure c ws fence e =
     bindE (liftE (derive_seal_command (skc_id c) (''capture-failed:'' @ int_to_string fence))) (\<lambda>cid.
     bindE (mapE SealStore (storeE (record_capture_failure (seal_step_command c cid ''workspace.capture-failed'')
        (wk_id ws) fence))) (\<lambda>_.
     raiseE e))"

definition compile_seal_scope :: "task_spec \<Rightarrow> (seal_error, workspace_scope) res" where
  "compile_seal_scope spec =
     bindR (map_sum (\<lambda>_. CeilingsExceeded (Fmt (''the Task'' @ [CHR 0x27] @ ''s declared scope patterns are unusable'') [])) id
        (scope_compile (ts_resources (tk_scope spec)))) (\<lambda>scope.
     bindR (ensure (\<not> scope_is_empty scope) (ScopeViolated (Fmt ''(every path: the Task declares no resource scope)'' []))) (\<lambda>_.
     Inr scope))"

definition seal ::
    "sha256 \<Rightarrow> string \<Rightarrow> 'x sealing_ports \<Rightarrow> seal_command \<Rightarrow> seal_request \<Rightarrow> ('x, seal_error, sealed_artifact) controller" where
  "seal sha root ports c request =
     bindE (load_spec sha (srq_task_id request)) (\<lambda>spec.
     bindE (liftE (check_output_slot request spec)) (\<lambda>_.
     bindE (mapE SealStore (readE (workspace_for_task (srq_task_id request)))) (\<lambda>found.
     bindE (someE found (WorkspaceState ''-'' (Fmt ''task {} owns no current Workspace'' [FStr (srq_task_id request)]))) (\<lambda>ws.
     bindE (liftE (check_repository request spec ws)) (\<lambda>_.
     bindE (establish_fence c request ws) (\<lambda>fence.
     bindE (liftE (compile_seal_scope spec)) (\<lambda>scope.
     bindE (tryE (capture_and_seal sha root ports c request ws fence scope)) (\<lambda>r.
     case r of
       Inr sealed \<Rightarrow> returnE sealed
     | Inl e \<Rightarrow> record_seal_failure c ws fence e))))))))"

section \<open>What the controller keeps\<close>

lemma advances_seal_authority [engine]:
  "advances sha (load_spec sha' task_id)" "advances sha (frozen_revision task_id wid)"
  "advances sha (establish_fence c request ws)" "advances sha (record_seal_failure c ws fence e)"
  unfolding establish_fence_def load_spec_def frozen_revision_def record_seal_failure_def
  by (intro engine step.intros)+

lemma advances_capture [engine]:
  "advances sha (flush_identity_batch ports source g)"
  "advances sha (retain_bytes sha' ports scope entry)"
  "advances sha (capture_entry sha' ports scope source base g entry)"
  "advances sha (capture_all sha' ports scope root source base)"
  unfolding capture_all_def capture_entry_def flush_identity_batch_def retain_bytes_def Let_def
  by (intro engine)+

lemma advances_diff [engine]:
  "advances sha (before_state ports source before)"
  "advances sha (diff_present ports source base g es entry)"
  "advances sha (diff_deleted ports scope source g es entry')"
  "advances sha (changeset_of ports scope source base g)"
  unfolding changeset_of_def diff_present_def diff_deleted_def before_state_def repository_path_of_def new_entry_def
  by (intro engine)+

lemma advances_publish_seal [engine]: "advances sha (publish_seal sha' c request ws fence g es)"
  unfolding publish_seal_def Let_def by (intro engine step.intros)

lemma advances_seal [engine]: "advances sha (seal sha root ports c request)"
  unfolding seal_def capture_and_seal_def Let_def by (intro engine)

end
