(* ===== verification/Engine_Agent_Control.thy ===== *)
theory Engine_Agent_Control
  imports Engine_Sealing Store_Execution Store_Agent_Control
begin

text \<open>
  The Agent Control gateway (\<^verbatim>\<open>crates/pantheon-engine/src/agent_control.rs\<close>): the restricted
  worker-facing surface. A request carries a credential, an Attempt-scoped request id and a bounded
  payload; every other fact is derived from durable state.
\<close>

section \<open>Credentials and errors\<close>

record worker_credential =
  wc_attempt_id :: string
  wc_bearer :: string

definition credential_verifier :: "sha256 \<Rightarrow> worker_credential \<Rightarrow> byte list" where
  "credential_verifier sha cred = as_bytes (digest_of sha (wc_bearer cred))"

definition store_view :: "sha256 \<Rightarrow> worker_credential \<Rightarrow> agent_credential" where
  "store_view sha cred = \<lparr>cred_attempt_id = wc_attempt_id cred, cred_verifier = credential_verifier sha cred\<rparr>"

datatype agent_control_error =
    AgentStore store_error
  | AgentSeal seal_error
  | RequestRefused string
  | AgentCandidate candidate_error

datatype agent_seal_outcome =
    SealExecuted sealed_artifact
  | SealReconciled digest
  | SealRefused string

record submitted_candidate =
  sc_candidate_digest :: string
  sc_reconciled :: bool

record submit_result_request =
  srr_request_id :: string
  srr_expected_task_revision :: int
  srr_outputs :: "(string \<times> digest) list"

section \<open>Request identity\<close>

definition canonical_request_hash :: "sha256 \<Rightarrow> string \<Rightarrow> string \<Rightarrow> string \<Rightarrow> (string \<times> string) list \<Rightarrow> byte list" where
  "canonical_request_hash sha operation attempt_id request_id pairs =
     as_bytes (digest_of sha (to_canonical_bytes (object (
       [(''attempt'', VString attempt_id), (''operation'', VString operation), (''request'', VString request_id)]
       @ map (\<lambda>(k, v). (k, VString v)) pairs))))"

definition canonical_request_hash_pairs :: "sha256 \<Rightarrow> string \<Rightarrow> (string \<times> string) list \<Rightarrow> candidate_result \<Rightarrow> byte list" where
  "canonical_request_hash_pairs sha operation header c =
     as_bytes (digest_of sha (to_canonical_bytes (object (
       [(''operation'', VString operation)] @ map (\<lambda>(k, v). (k, VString v)) header
       @ [(''candidate'', VString (to_canonical_bytes (candidate_to_value c)))]))))"

definition internal_command_id :: "sha256 \<Rightarrow> string \<Rightarrow> byte list \<Rightarrow> string" where
  "internal_command_id sha attempt_id request_hash =
     ''acs:'' @ attempt_id @ '':'' @ take 16 (to_hex (digest_of sha (map (\<lambda>b. char_of (unat b)) request_hash)))"

definition parse_recorded_digest :: "string \<Rightarrow> (agent_control_error, digest) res" where
  "parse_recorded_digest result_ref = ok_or (from_display result_ref) (AgentStore (InvariantViolated (Fmt
     ''a recorded agent-request outcome stores an unparsable ref {result_ref}'' [FStr result_ref])))"

definition problem_code_domain :: "string list" where
  "problem_code_domain = [''output-slot-invalid'', ''workspace-state'', ''scope-violated'', ''ceilings-exceeded'',
     ''capture-failed'', ''task-unusable'', ''internal'', ''authority-stale'', ''invalid-candidate'']"

definition recorded_problem_code :: "string \<Rightarrow> string option" where
  "recorded_problem_code code = (if code \<in> set problem_code_domain then Some code else None)"

fun problem_code_of :: "agent_control_error \<Rightarrow> string" where
  "problem_code_of (AgentSeal (OutputSlotInvalid _ _ _)) = ''output-slot-invalid''"
| "problem_code_of (AgentSeal (WorkspaceState _ _)) = ''workspace-state''"
| "problem_code_of (AgentSeal (ScopeViolated _)) = ''scope-violated''"
| "problem_code_of (AgentSeal (CeilingsExceeded _)) = ''ceilings-exceeded''"
| "problem_code_of (AgentSeal (Capture _)) = ''capture-failed''"
| "problem_code_of (AgentSeal (TaskUnusable _ _)) = ''task-unusable''"
| "problem_code_of (AgentSeal (CommandIdentityTooLong _)) = ''internal''"
| "problem_code_of (AgentSeal (SealStore _)) = ''internal''"
| "problem_code_of (AgentStore _) = ''authority-stale''"
| "problem_code_of (AgentCandidate _) = ''invalid-candidate''"
| "problem_code_of (RequestRefused _) = ''already-refused''"

section \<open>Operations\<close>

definition gateway_describe ::
    "sha256 \<Rightarrow> worker_credential \<Rightarrow> ('x, agent_control_error, agent_session_description) controller" where
  "gateway_describe sha cred = mapE AgentStore (readE (describe_agent_session (store_view sha cred)))"

definition drive_seal ::
    "sha256 \<Rightarrow> string \<Rightarrow> 'x sealing_ports \<Rightarrow> worker_credential \<Rightarrow> byte list \<Rightarrow> string \<Rightarrow>
     ('x, agent_control_error, sealed_artifact) controller" where
  "drive_seal sha root ports cred request_hash output_slot =
     bindE (gateway_describe sha cred) (\<lambda>description.
     bindE (mapE AgentStore (readE (read_run_execution_view (ad_run_id description)))) (\<lambda>found.
     bindE (someE found (AgentStore (RunNotFound (ad_run_id description)))) (\<lambda>run_view.
     bindE (mapE AgentStore (readE read_restore_generation)) (\<lambda>generation.
     mapE AgentSeal (seal sha root ports
       \<lparr>skc_epoch = generation, skc_id = internal_command_id sha (wc_attempt_id cred) request_hash,
        skc_request_hash = request_hash\<rparr>
       \<lparr>srq_task_id = ad_task_id description, srq_output_slot = output_slot,
        srq_authority = \<lparr>sa_run_id = ad_run_id description, sa_expected_run_revision = rv_revision run_view\<rparr>,
        srq_producer_attempt_id = Some (wc_attempt_id cred)\<rparr>)))))"

text \<open>A definitive failure is recorded through the same fence; a failure to record it is ignored.\<close>

definition drive_and_record ::
    "sha256 \<Rightarrow> string \<Rightarrow> 'x sealing_ports \<Rightarrow> worker_credential \<Rightarrow> byte list \<Rightarrow> string \<Rightarrow> string \<Rightarrow>
     ('x, agent_control_error, agent_seal_outcome) controller" where
  "drive_and_record sha root ports cred request_hash request_id output_slot =
     bindE (tryE (drive_seal sha root ports cred request_hash output_slot)) (\<lambda>r.
     case r of
       Inl e \<Rightarrow> bindE (tryE (storeE (fail_agent_request (store_view sha cred) request_id (problem_code_of e)))) (\<lambda>_.
         raiseE e)
     | Inr sealed \<Rightarrow> bindE (mapE AgentStore (storeE (complete_agent_request (store_view sha cred) request_id
           (display (sla_artifact_digest sealed))))) (\<lambda>_.
         returnE (SealExecuted sealed)))"

definition seal_request_hash :: "sha256 \<Rightarrow> worker_credential \<Rightarrow> string \<Rightarrow> string \<Rightarrow> byte list" where
  "seal_request_hash sha cred request_id output_slot =
     canonical_request_hash sha ''artifact.seal'' (wc_attempt_id cred) request_id [(''outputSlot'', output_slot)]"

definition seal_artifact ::
    "sha256 \<Rightarrow> string \<Rightarrow> 'x sealing_ports \<Rightarrow> worker_credential \<Rightarrow> string \<Rightarrow> string \<Rightarrow>
     ('x, agent_control_error, agent_seal_outcome) controller" where
  "seal_artifact sha root ports cred request_id output_slot =
     (let request_hash = seal_request_hash sha cred request_id output_slot in
     bindE (mapE AgentStore (storeE (open_agent_request (store_view sha cred) SealArtifact request_id request_hash))) (\<lambda>opened.
     case opened of
       OpenedStarted \<Rightarrow> drive_and_record sha root ports cred request_hash request_id output_slot
     | Reconciled Started \<Rightarrow> drive_and_record sha root ports cred request_hash request_id output_slot
     | Reconciled (Succeeded result_ref) \<Rightarrow>
         bindE (liftE (parse_recorded_digest result_ref)) (\<lambda>d. returnE (SealReconciled d))
     | Reconciled (Failed code) \<Rightarrow>
         returnE (SealRefused (case recorded_problem_code code of Some c \<Rightarrow> c | None \<Rightarrow> ''recorded-refusal''))))"

definition submission_of ::
    "sha256 \<Rightarrow> worker_credential \<Rightarrow> submit_result_request \<Rightarrow> candidate_result \<Rightarrow> candidate_submission" where
  "submission_of sha cred request c =
     \<lparr>csub_credential = store_view sha cred, csub_request_id = srr_request_id request,
      csub_request_hash = canonical_request_hash_pairs sha ''task.submit_result''
        [(''attempt'', wc_attempt_id cred), (''request'', srr_request_id request)] c,
      csub_candidate = c, csub_expected_task_revision = srr_expected_task_revision request\<rparr>"

definition submit_result ::
    "sha256 \<Rightarrow> worker_credential \<Rightarrow> submit_result_request \<Rightarrow> ('x, agent_control_error, submitted_candidate) controller" where
  "submit_result sha cred request =
     bindE (mapE AgentStore (readE (agent_submission_context (store_view sha cred)))) (\<lambda>(run_id, task_id).
     bindE (mapE AgentCandidate (liftE (candidate_new task_id run_id (srr_outputs request)))) (\<lambda>c.
     bindE (mapE AgentStore (storeE (submit_candidate sha (submission_of sha cred request c)))) (\<lambda>outcome.
     returnE \<lparr>sc_candidate_digest = ccm_candidate_digest (sot_committed outcome),
       sc_reconciled = sot_reconciled outcome\<rparr>)))"

section \<open>What the gateway keeps\<close>

lemma advances_opened [engine]:
  "advances sha m \<Longrightarrow> (\<And>x. advances sha (f x)) \<Longrightarrow>
     advances sha (case v of OpenedStarted \<Rightarrow> m | Reconciled x \<Rightarrow> f x)"
  "advances sha m' \<Longrightarrow> (\<And>x. advances sha (g x)) \<Longrightarrow> (\<And>x. advances sha (h x)) \<Longrightarrow>
     advances sha (case u of Started \<Rightarrow> m' | Succeeded x \<Rightarrow> g x | Failed x \<Rightarrow> h x)"
  by (simp_all split: agent_request_opened.split agent_request_state.split)

lemma advances_drive_seal [engine]:
  "advances sha (gateway_describe sha cred)" "advances sha (drive_seal sha root ports cred hash slot)"
  "advances sha (drive_and_record sha root ports cred hash request_id slot)"
  unfolding gateway_describe_def drive_seal_def drive_and_record_def
  by (intro engine step.intros)+

lemma advances_agent_control [engine]:
  "advances sha (seal_artifact sha root ports cred request_id slot)"
  "advances sha (submit_result sha cred request)"
  unfolding seal_artifact_def submit_result_def Let_def by (intro engine step.intros)+

end
