(* ===== verification/Engine_Planning.thy ===== *)
theory Engine_Planning
  imports Engine
begin

text \<open>
  The Goal-to-Ready-Task control path (\<^verbatim>\<open>crates/pantheon-engine/src/planning.rs\<close>): planning
  produces durable evidence, materialisation validates a proposal against the Goal the store
  holds and asks the store to commit it.
\<close>

section \<open>Errors\<close>

datatype planning_error =
    PlanInvalid plan_error
  | PlanningStore store_error
  | PlanningConfiguration message

fun goal_decode_display :: "goal_decode_error \<Rightarrow> message" where
  "goal_decode_display (GoalDecodeError detail) = Fmt ''stored goal revision is not readable: {}'' [FMsg detail]"

section \<open>Planning context\<close>

record planning_context =
  px_goal :: goal_spec
  px_goal_revision :: int
  px_graph_revision :: int
  px_configuration_activation_sequence :: int
  px_evaluator_registry_digest :: digest
  px_evaluators :: registry_resolver

definition load_planning_context :: "sha256 \<Rightarrow> string \<Rightarrow> ('x, planning_error, planning_context) controller" where
  "load_planning_context sha goal_id =
     bindE (mapE PlanningStore (readE (read_goal goal_id))) (\<lambda>found.
     bindE (someE found (PlanningConfiguration (Fmt ''goal {goal_id} does not exist'' [FStr goal_id]))) (\<lambda>goal.
     bindE (mapE PlanningStore (getE (read_task_graph goal_id))) (\<lambda>found.
     bindE (someE found (PlanningConfiguration (Fmt ''goal {goal_id} has no task graph'' [FStr goal_id]))) (\<lambda>graph.
     bindE (mapE PlanningStore (readE (read_configuration_pointer sha))) (\<lambda>pointer.
     bindE (someE (cfp_active pointer) (PlanningConfiguration (Fmt ''no active configuration'' []))) (\<lambda>active.
     bindE (mapE PlanningStore (getE active_evaluator_component_json)) (\<lambda>found.
     bindE (someE found (PlanningConfiguration (Fmt ''active configuration has no evaluators'' []))) (\<lambda>component.
     bindE (mapE (\<lambda>e. PlanningConfiguration (parse_error_display e))
        (liftE (registry_from_canonical_json component))) (\<lambda>evaluators.
     bindE (mapE PlanningStore (getE (goal_revision_json goal_id (gl_current_revision goal)))) (\<lambda>found.
     bindE (someE found (PlanningConfiguration (Fmt ''goal {goal_id} revision {} is not stored''
        [FStr goal_id, FInt (gl_current_revision goal)]))) (\<lambda>stored.
     bindE (mapE (\<lambda>e. PlanningConfiguration (goal_decode_display e))
        (liftE (goal_from_canonical_json stored))) (\<lambda>spec.
     returnE \<lparr>px_goal = spec, px_goal_revision = gl_current_revision goal,
       px_graph_revision = gh_revision graph,
       px_configuration_activation_sequence = acr_activation_sequence active,
       px_evaluator_registry_digest = cd_evaluator_registry (acr_components active),
       px_evaluators = evaluators\<rparr>))))))))))))"

definition context_input :: "string \<Rightarrow> planning_context \<Rightarrow> planning_input" where
  "context_input goal_id cx =
     \<lparr>pi_goal_id = goal_id, pi_goal_revision = px_goal_revision cx, pi_goal = px_goal cx,
      pi_expected_graph_revision = px_graph_revision cx,
      pi_configuration_activation_sequence = px_configuration_activation_sequence cx,
      pi_trigger = TriggerInitial\<rparr>"

definition context_authority :: "string \<Rightarrow> planning_context \<Rightarrow> authority" where
  "context_authority goal_id cx =
     \<lparr>au_goal = px_goal cx, au_goal_id = goal_id, au_goal_revision = px_goal_revision cx,
      au_evaluators = registry_resolve (px_evaluators cx),
      au_evaluator_registry_digest = px_evaluator_registry_digest cx,
      au_configuration_activation_sequence = px_configuration_activation_sequence cx\<rparr>"

section \<open>Operations\<close>

definition controller_create_goal ::
    "sha256 \<Rightarrow> command \<Rightarrow> string \<Rightarrow> goal_spec \<Rightarrow> ('x, planning_error, goal_record committed) controller" where
  "controller_create_goal sha c goal_id spec = mapE PlanningStore (storeE (create_goal sha c goal_id spec))"

definition planned_decision :: "sha256 \<Rightarrow> string \<Rightarrow> string \<Rightarrow> planning_context \<Rightarrow> planning_decision" where
  "planned_decision sha operation_id goal_id cx =
     \<lparr>pd_operation_id = operation_id, pd_goal_id = goal_id, pd_goal_revision = px_goal_revision cx,
      pd_expected_graph_revision = px_graph_revision cx,
      pd_configuration_activation_sequence = px_configuration_activation_sequence cx,
      pd_planning_input_digest = planning_input_digest sha (context_input goal_id cx),
      pd_trigger_kind = trigger_as_str TriggerInitial,
      pd_planner_implementation = planner_implementation, pd_planner_version = planner_version\<rparr>"

text \<open>\<open>String::from_utf8\<close> of canonical bytes always succeeds: the strings of a \<open>Value\<close> are UTF-8.\<close>

definition controller_plan ::
    "sha256 \<Rightarrow> command \<Rightarrow> string \<Rightarrow> string \<Rightarrow> ('x, planning_error, planning_operation_record committed) controller" where
  "controller_plan sha c operation_id goal_id =
     bindE (load_planning_context sha goal_id) (\<lambda>cx.
     let proposal = plan (context_input goal_id cx) in
     mapE PlanningStore (storeE (record_direct_planning c (planned_decision sha operation_id goal_id cx)
       \<lparr>pp_digest = proposal_digest sha proposal,
        pp_canonical = to_canonical_bytes (proposal_to_value proposal),
        pp_normalization_provenance = ''direct/v1''\<rparr>)))"

definition controller_proposal :: "sha256 \<Rightarrow> string \<Rightarrow> ('x, planning_error, proposal) controller" where
  "controller_proposal sha goal_id =
     bindE (load_planning_context sha goal_id) (\<lambda>cx. returnE (plan (context_input goal_id cx)))"

definition controller_validate ::
    "sha256 \<Rightarrow> string \<Rightarrow> proposal \<Rightarrow> ('x, planning_error, materializable) controller" where
  "controller_validate sha goal_id proposal =
     bindE (load_planning_context sha goal_id) (\<lambda>cx.
     mapE PlanInvalid (liftE (validate sha proposal (context_authority goal_id cx))))"

definition controller_materialize ::
    "sha256 \<Rightarrow> command \<Rightarrow> string \<Rightarrow> string \<Rightarrow> string \<Rightarrow> proposal \<Rightarrow>
     ('x, planning_error, materialized_plan committed) controller" where
  "controller_materialize sha c operation_id task_id goal_id proposal =
     bindE (controller_validate sha goal_id proposal) (\<lambda>mplan.
     mapE PlanningStore (storeE (materialize_plan sha c operation_id task_id mplan)))"

section \<open>What the controller keeps\<close>

lemma advances_planning_context [engine]: "advances sha (load_planning_context sha goal_id)"
  unfolding load_planning_context_def by (intro engine)

lemma advances_planning [engine]:
  "advances sha (controller_create_goal sha c goal_id spec)"
  "advances sha (controller_plan sha c operation_id goal_id)"
  "advances sha (controller_proposal sha goal_id)"
  "advances sha (controller_validate sha goal_id proposal)"
  "advances sha (controller_materialize sha c operation_id task_id goal_id proposal)"
  unfolding controller_create_goal_def controller_plan_def controller_proposal_def controller_validate_def
    controller_materialize_def Let_def
  by (intro engine step.intros)+

lemma untouched_planning_context [engine]: "untouched view (load_planning_context sha goal_id)"
  unfolding load_planning_context_def by (intro engine)

lemma untouched_planning [engine]:
  "untouched view (controller_create_goal sha c goal_id spec)"
  "untouched view (controller_plan sha c operation_id goal_id)"
  "untouched view (controller_proposal sha goal_id)"
  "untouched view (controller_materialize sha c operation_id task_id goal_id proposal)"
  unfolding controller_create_goal_def controller_plan_def controller_proposal_def controller_validate_def
    controller_materialize_def Let_def
  by (intro engine)+

end
