(* ===== verification/Engine_Configuration.thy ===== *)
theory Engine_Configuration
  imports Engine Config_Valid
begin

text \<open>
  Configuration publication (\<^verbatim>\<open>crates/pantheon-engine/src/configuration.rs\<close>): compiling candidates,
  activating them, and keeping the published snapshot consistent with durable authority. The
  publication barrier is a mutex: while a controller holds it no other thread changes what is
  published.
\<close>

section \<open>Sources and status\<close>

record source_file =
  sf_name :: string
  sf_text :: string

type_synonym source_set = "source_file list"

definition source_set_single :: "string \<Rightarrow> string \<Rightarrow> source_set" where
  "source_set_single name text = [\<lparr>sf_name = name, sf_text = text\<rparr>]"

definition sources_digest :: "sha256 \<Rightarrow> source_set \<Rightarrow> digest" where
  "sources_digest sha files = source_set_digest sha (map (\<lambda>f. (sf_name f, sf_text f)) files)"

definition compile_sources :: "source_set \<Rightarrow> (config_error, compiled_configuration) res" where
  "compile_sources files = (case files of
     [] \<Rightarrow> Inl (MissingField ''sources'')
   | primary # _ \<Rightarrow> compile (sf_text primary))"

datatype configuration_status =
    Uninitialized
  | StatusActive active_configuration_record
  | Drifted active_configuration_record digest

fun status_active :: "configuration_status \<Rightarrow> active_configuration_record option" where
  "status_active Uninitialized = None"
| "status_active (StatusActive a) = Some a"
| "status_active (Drifted a _) = Some a"

definition is_drifted :: "configuration_status \<Rightarrow> bool" where
  "is_drifted s = (case s of Drifted _ _ \<Rightarrow> True | _ \<Rightarrow> False)"

datatype configuration_error =
    InvalidConfiguration config_error
  | ConfigurationStore store_error
  | Unavailable message

section \<open>The published snapshot\<close>

definition snapshot_new ::
    "sha256 \<Rightarrow> active_configuration_record \<Rightarrow> compiled_configuration option \<Rightarrow> (configuration_error, snapshot) res" where
  "snapshot_new sha active compiled = (case compiled of
     Some k \<Rightarrow> if revision_digest sha k \<noteq> acr_content_digest active
       then Inl (Unavailable (Fmt ''refusing to publish semantics for {} under revision {} identity''
         [FStr (display (revision_digest sha k)), FStr (display (acr_content_digest active))]))
       else Inr \<lparr>sps_active = active, sps_compiled = compiled\<rparr>
   | None \<Rightarrow> Inr \<lparr>sps_active = active, sps_compiled = compiled\<rparr>)"

text \<open>What the other threads may do while this one holds the lock.\<close>

definition exclusive :: "(nat \<Rightarrow> shared \<Rightarrow> shared) \<Rightarrow> nat \<Rightarrow> shared \<Rightarrow> shared" where
  "exclusive f n sh = (f n sh)\<lparr>sh_published := sh_published sh, sh_poisoned := sh_poisoned sh\<rparr>"

definition barrier_poisoned :: configuration_error where
  "barrier_poisoned = Unavailable (Fmt ''the configuration publication barrier is poisoned'' [])"

text \<open>\<open>self.lock()?\<close> and what is done under the guard.\<close>

definition with_lock :: "('x, configuration_error, 'a) controller \<Rightarrow> ('x, configuration_error, 'a) controller" where
  "with_lock m = (\<lambda>w. let w1 = interfere w in
     if sh_poisoned (shared_state w1) then (Inl barrier_poisoned, w1)
     else (case m (w1\<lparr>others := exclusive (others w)\<rparr>) of (r, w2) \<Rightarrow> (r, w2\<lparr>others := others w\<rparr>)))"

definition set_published :: "snapshot option \<Rightarrow> ('x, 'e, unit) controller" where
  "set_published p = (\<lambda>w. (Inr (), w\<lparr>shared_state := (shared_state w)\<lparr>sh_published := p\<rparr>\<rparr>))"

definition get_published :: "('x, 'e, snapshot option) controller" where
  "get_published = (\<lambda>w. (Inr (sh_published (shared_state w)), w))"

section \<open>Operations\<close>

definition configuration_snapshot :: "('x, configuration_error, snapshot) controller" where
  "configuration_snapshot =
     bindE (with_lock get_published) (\<lambda>p.
     someE p (Unavailable (Fmt ''no configuration has been published; the daemon is not ready'' [])))"

definition recover_compiled ::
    "sha256 \<Rightarrow> source_set \<Rightarrow> active_configuration_record \<Rightarrow> compiled_configuration option" where
  "recover_compiled sha sources active = (case compile_sources sources of
     Inl _ \<Rightarrow> None
   | Inr k \<Rightarrow> if revision_digest sha k = acr_content_digest active then Some k else None)"

definition load_configuration :: "sha256 \<Rightarrow> source_set \<Rightarrow> ('x, configuration_error, configuration_status) controller" where
  "load_configuration sha sources =
     bindE (mapE ConfigurationStore (readE (read_configuration_pointer sha))) (\<lambda>pointer.
     case cfp_active pointer of
       None \<Rightarrow> bindE (with_lock (set_published None)) (\<lambda>_. returnE Uninitialized)
     | Some active \<Rightarrow>
         let recovered = recover_compiled sha sources active;
             source_digest = sources_digest sha sources;
             drifted = recovered = None \<or> source_digest \<noteq> acr_source_set_digest active
         in bindE (liftE (snapshot_new sha active recovered)) (\<lambda>snap.
            bindE (with_lock (set_published (Some snap))) (\<lambda>_.
            returnE (if drifted then Drifted active source_digest else StatusActive active))))"

definition publish_committed ::
    "sha256 \<Rightarrow> compiled_configuration \<Rightarrow> active_configuration_record committed \<Rightarrow> active_configuration_record \<Rightarrow>
     ('x, configuration_error, active_configuration_record committed) controller" where
  "publish_committed sha compiled committed active =
     bindE (liftE (snapshot_new sha active (Some compiled))) (\<lambda>snap.
     bindE (set_published (Some snap)) (\<lambda>_. returnE committed))"

definition activate ::
    "sha256 \<Rightarrow> command \<Rightarrow> source_set \<Rightarrow> ('x, configuration_error, active_configuration_record committed) controller" where
  "activate sha c sources =
     bindE (mapE InvalidConfiguration (liftE (compile_sources sources))) (\<lambda>compiled.
     with_lock (
     bindE (mapE ConfigurationStore (readE (read_configuration_pointer sha))) (\<lambda>pointer.
     bindE (mapE ConfigurationStore (storeE
        (activate_configuration sha c compiled (sources_digest sha sources) (cfp_revision pointer)))) (\<lambda>committed.
     case committed of
       Executed v cursor \<Rightarrow> publish_committed sha compiled committed v
     | Replayed cursor t \<Rightarrow>
         bindE (mapE ConfigurationStore (readE (read_configuration_pointer sha))) (\<lambda>again.
         case cfp_active again of
           Some active \<Rightarrow> publish_committed sha compiled committed active
         | None \<Rightarrow> returnE committed)))))"

definition status_of :: "sha256 \<Rightarrow> source_set \<Rightarrow> ('x, configuration_error, configuration_status) controller" where
  "status_of sha sources =
     bindE (mapE ConfigurationStore (readE (read_configuration_pointer sha))) (\<lambda>pointer.
     case cfp_active pointer of
       None \<Rightarrow> returnE Uninitialized
     | Some active \<Rightarrow> returnE (
         if sources_digest sha sources = acr_source_set_digest active then StatusActive active
         else Drifted active (sources_digest sha sources)))"

section \<open>The lock\<close>

lemma other_steps_exclusive:
  "other_steps sha w \<Longrightarrow> other_steps sha (w1\<lparr>others := exclusive (others w)\<rparr>)"
  by (simp add: other_steps_def exclusive_def)

lemma advances_lock [engine]:
  assumes "advances sha m"
  shows "advances sha (with_lock m)"
  unfolding advances_def
proof (intro allI impI)
  fix w :: "'a world" assume ok: "other_steps sha w"
  let ?w1 = "interfere w"
  have "(step sha)\<^sup>*\<^sup>* (the_store ?w1) (the_store (snd (m (?w1\<lparr>others := exclusive (others w)\<rparr>))))"
    using assms [unfolded advances_def, rule_format, OF other_steps_exclusive [OF ok]] by simp
  with interfere_steps [OF ok] show "(step sha)\<^sup>*\<^sup>* (the_store w) (the_store (snd (with_lock m w))) \<and> others (snd (with_lock m w)) = others w"
    by (auto simp: with_lock_def Let_def split: prod.splits)
qed

lemma untouched_lock [engine]:
  assumes "untouched view m"
  shows "untouched view (with_lock m)"
  unfolding untouched_def
proof
  fix w :: "'a world"
  have "view (external (snd (m ((interfere w)\<lparr>others := exclusive (others w)\<rparr>)))) = view (external w)"
    using assms unfolding untouched_def by simp
  then show "view (external (snd (with_lock m w))) = view (external w)"
    by (auto simp: with_lock_def Let_def split: prod.splits)
qed

lemma published_access [engine]:
  "advances sha (set_published p)" "advances sha get_published"
  "untouched view (set_published p)" "untouched view get_published"
  by (simp_all add: advances_def untouched_def set_published_def get_published_def)

end
