(* ===== verification/Engine_Routing.thy ===== *)
theory Engine_Routing
  imports Engine_Configuration
begin

text \<open>
  Pre-Run Agent and Execution Fabric orchestration (\<^verbatim>\<open>crates/pantheon-engine/src/routing.rs\<close>): one
  captured ConfigurationRevision, the durable Ready Task, core resolution and the offers of the
  backends are composed into a routing result. The backends are the port \<open>ExecutorBackend\<close>.
\<close>

section \<open>The backend port\<close>

type_synonym backend_error = string

record 'x executor_backend_port =
  ep_describe :: "'x \<Rightarrow> backend_descriptor \<times> 'x"
  ep_offer :: "execution_request \<Rightarrow> 'x \<Rightarrow> (backend_error, execution_offer list) res \<times> 'x"
  ep_safety :: controller_safety_facts

record offer_rejection =
  oj_agent :: logical_agent_version
  oj_backend_id :: string
  oj_reason :: candidate_rejection

text \<open>The derived \<open>Ord\<close> of a rejection: the variant, then its fields in order.\<close>

fun rejection_rank :: "candidate_rejection \<Rightarrow> nat \<times> string list \<times> int list" where
  "rejection_rank BackendDisabled = (0, [], [])"
| "rejection_rank BackendUnavailable = (1, [], [])"
| "rejection_rank BackendMismatch = (2, [], [])"
| "rejection_rank DescriptorRevisionMismatch = (3, [], [])"
| "rejection_rank OfferRequestMismatch = (4, [], [])"
| "rejection_rank (MissingExecutionFeatures missing) = (5, missing, [])"
| "rejection_rank (ContextCapacityTooSmall required offered) = (6, [], [required, offered])"
| "rejection_rank (PlacementIncompatible missing) = (7, missing, [])"
| "rejection_rank (IsolationNotProven missing) = (8, missing, [])"
| "rejection_rank (ResourceIncompatible name required offered) = (9, [name], [required, offered])"
| "rejection_rank LaunchSemanticsMismatch = (10, [], [])"
| "rejection_rank UnsafeLaunchSemantics = (11, [], [])"
| "rejection_rank RoutePolicyMismatch = (12, [], [])"

definition offer_rejection_key ::
    "offer_rejection \<Rightarrow> (string \<times> int) \<times> string \<times> nat \<times> string list \<times> int list" where
  "offer_rejection_key r =
     ((lav_name (oj_agent r), lav_version (oj_agent r)), oj_backend_id r, rejection_rank (oj_reason r))"

datatype routing_error =
    RoutingStore store_error
  | RoutingConfiguration configuration_error
  | TaskNotFound string
  | TaskNotReady string task_phase "string option"
  | TaskSpecUnavailable string
  | InvalidTaskSpec string message
  | TaskSpecDigestMismatch string
  | AgentResolution agent_resolution_error
  | RequestBuild request_build_error
  | UnregisteredBackend string
  | DuplicateBackendDescriptor string
  | BackendOffer string backend_error
  | NoCompatibleOffers string "offer_rejection list"
  | Selection selection_error
  | StaleConfiguration

section \<open>The Task\<close>

definition ensure_ready :: "task_record \<Rightarrow> (routing_error, unit) res" where
  "ensure_ready task = ensure (tr_phase task = TReady \<and> tr_active_run_id task = None)
     (TaskNotReady (tr_id task) (tr_phase task) (tr_active_run_id task))"

definition check_loaded_spec :: "sha256 \<Rightarrow> task_record \<Rightarrow> string \<Rightarrow> (routing_error, task_spec) res" where
  "check_loaded_spec sha task canonical = (case task_from_canonical_json canonical of
     Inl (TaskDecodeError detail) \<Rightarrow> Inl (InvalidTaskSpec (tr_id task) detail)
   | Inr spec \<Rightarrow>
       bindR (ensure (task_digest sha spec = tr_spec_digest task) (TaskSpecDigestMismatch (tr_id task))) (\<lambda>_.
       bindR (ensure (tk_goal_id spec = tr_goal_id task) (InvalidTaskSpec (tr_id task)
          (Fmt ''Task specification names a different Goal'' []))) (\<lambda>_.
       Inr spec)))"

definition load_task_spec :: "sha256 \<Rightarrow> task_record \<Rightarrow> ('x, routing_error, task_spec) controller" where
  "load_task_spec sha task =
     bindE (mapE RoutingStore (getE (task_spec_json (tr_spec_digest task)))) (\<lambda>found.
     bindE (someE found (TaskSpecUnavailable (tr_id task))) (\<lambda>canonical.
     liftE (check_loaded_spec sha task canonical)))"

definition binding_from_snapshot :: "snapshot \<Rightarrow> configuration_binding" where
  "binding_from_snapshot snap =
     \<lparr>cb_activation_sequence = acr_activation_sequence (sps_active snap),
      cb_content_digest = acr_content_digest (sps_active snap),
      cb_component_digests = acr_components (sps_active snap)\<rparr>"

section \<open>Descriptors, offers, candidates\<close>

record 'x backend_view =
  bv_port :: "'x executor_backend_port"
  bv_descriptor :: backend_descriptor
  bv_enabled :: bool

definition describe_backend ::
    "compiled_configuration \<Rightarrow> 'x backend_view list \<Rightarrow> 'x executor_backend_port \<Rightarrow>
     ('x, routing_error, 'x backend_view list) controller" where
  "describe_backend compiled views port =
     bindE (portE (ep_describe port)) (\<lambda>descriptor.
     bindE (requireE (bd_backend_id descriptor \<notin> set (map (\<lambda>v. bd_backend_id (bv_descriptor v)) views))
        (DuplicateBackendDescriptor (bd_backend_id descriptor))) (\<lambda>_.
     bindE (someE (List.find (\<lambda>r. br_backend_id r = bd_backend_id descriptor) (ex_backends (cf_execution compiled)))
        (UnregisteredBackend (bd_backend_id descriptor))) (\<lambda>registration.
     returnE (views @ [\<lparr>bv_port = port, bv_descriptor = descriptor, bv_enabled = br_enabled registration\<rparr>]))))"

definition judge_offer ::
    "sha256 \<Rightarrow> resolved_agent \<Rightarrow> execution_request \<Rightarrow> 'x backend_view \<Rightarrow>
     execution_candidate list \<times> offer_rejection list \<Rightarrow> execution_offer \<Rightarrow>
     execution_candidate list \<times> offer_rejection list" where
  "judge_offer sha agent request view acc offer = (case acc of (accepted, rejections) \<Rightarrow>
     (case validate_execution_candidate sha request agent (bv_descriptor view) offer (bv_enabled view)
         (ep_safety (bv_port view)) of
       Inr candidate \<Rightarrow> (accepted @ [candidate], rejections)
     | Inl reason \<Rightarrow> (accepted, rejections @ [\<lparr>oj_agent = ra_identity agent,
         oj_backend_id = bd_backend_id (bv_descriptor view), oj_reason = reason\<rparr>])))"

definition offers_of ::
    "sha256 \<Rightarrow> resolved_agent \<times> execution_request \<Rightarrow> execution_candidate list \<times> offer_rejection list \<Rightarrow>
     'x backend_view \<Rightarrow> ('x, routing_error, execution_candidate list \<times> offer_rejection list) controller" where
  "offers_of sha r acc view = (case r of (agent, request) \<Rightarrow>
     if \<not> bv_enabled view \<or> \<not> bd_available_for_offers (bv_descriptor view) then returnE acc
     else bindE (portE (ep_offer (bv_port view) request)) (\<lambda>answer.
       case answer of
         Inl e \<Rightarrow> raiseE (BackendOffer (bd_backend_id (bv_descriptor view)) e)
       | Inr offers \<Rightarrow> returnE (foldl (judge_offer sha agent request view) acc offers)))"

definition collect_offers ::
    "sha256 \<Rightarrow> 'x backend_view list \<Rightarrow> execution_candidate list \<times> offer_rejection list \<Rightarrow>
     resolved_agent \<times> execution_request \<Rightarrow>
     ('x, routing_error, execution_candidate list \<times> offer_rejection list) controller" where
  "collect_offers sha views acc r = foldE (offers_of sha r) acc views"

section \<open>Routing one Task\<close>

definition build_requests ::
    "sha256 \<Rightarrow> string \<Rightarrow> task_spec \<Rightarrow> compiled_configuration \<Rightarrow> configuration_binding \<Rightarrow>
     (routing_error, (resolved_agent \<times> execution_request) list) res" where
  "build_requests sha task_id spec compiled b = (case resolve_agents sha spec compiled b of
     Inl e \<Rightarrow> Inl (AgentResolution e)
   | Inr resolution \<Rightarrow> traverse (\<lambda>agent. case build_execution_request sha task_id spec agent compiled b of
         Inl e \<Rightarrow> Inl (RequestBuild e)
       | Inr request \<Rightarrow> Inr (agent, request)) (as_eligible resolution))"

definition choose_candidate ::
    "sha256 \<Rightarrow> string \<Rightarrow> (resolved_agent \<times> execution_request) list \<Rightarrow>
     execution_candidate list \<times> offer_rejection list \<Rightarrow>
     (routing_error, execution_candidate \<times> execution_request) res" where
  "choose_candidate sha task_id requests acc = (case acc of (accepted, rejections) \<Rightarrow>
     (case select_execution_candidate sha accepted of
       Inl _ \<Rightarrow> Inl (NoCompatibleOffers task_id (sort_key offer_rejection_key rejections))
     | Inr candidate \<Rightarrow> bindR (ok_or
           (map_option snd (List.find (\<lambda>(_, r). request_digest sha r = ca_request_digest candidate) requests))
           (Selection NoCandidates)) (\<lambda>request. Inr (candidate, request))))"

definition route_ready_task ::
    "sha256 \<Rightarrow> string \<Rightarrow> 'x executor_backend_port list \<Rightarrow> ('x, routing_error, routing_result) controller" where
  "route_ready_task sha task_id backends =
     bindE (mapE RoutingConfiguration configuration_snapshot) (\<lambda>snap.
     let b = binding_from_snapshot snap in
     bindE (someE (sps_compiled snap) (RoutingConfiguration (Unavailable
        (Fmt ''the captured configuration has no usable compiled semantics'' [])))) (\<lambda>compiled.
     bindE (mapE RoutingStore (readE (read_task task_id))) (\<lambda>found.
     bindE (someE found (TaskNotFound task_id)) (\<lambda>task.
     bindE (liftE (ensure_ready task)) (\<lambda>_.
     bindE (load_task_spec sha task) (\<lambda>spec.
     bindE (liftE (build_requests sha task_id spec compiled b)) (\<lambda>requests.
     bindE (foldE (describe_backend compiled) [] backends) (\<lambda>views.
     let ordered = sort_key (\<lambda>v. (bd_backend_id (bv_descriptor v), bd_revision (bv_descriptor v))) views in
     bindE (foldE (collect_offers sha ordered) ([], []) requests) (\<lambda>acc.
     bindE (liftE (choose_candidate sha task_id requests acc)) (\<lambda>(candidate, request).
     bindE (mapE RoutingConfiguration configuration_snapshot) (\<lambda>current.
     bindE (requireE (binding_matches b (binding_from_snapshot current)) StaleConfiguration) (\<lambda>_.
     returnE \<lparr>rr_task_id = task_id, rr_task_revision = tr_revision task,
       rr_task_spec_digest = task_digest sha spec, rr_configuration = b,
       rr_request = request, rr_candidate = candidate\<rparr>))))))))))))"

section \<open>What routing keeps\<close>

lemma advances_snapshot [engine]: "advances sha configuration_snapshot"
  unfolding configuration_snapshot_def by (intro engine)

lemma advances_describe [engine]: "advances sha (describe_backend compiled views port)"
  unfolding describe_backend_def by (intro engine)

lemma advances_offers [engine]: "advances sha (offers_of sha r acc view)" "advances sha (collect_offers sha views acc r)"
  unfolding collect_offers_def offers_of_def by (intro engine)+

lemma advances_load_task_spec [engine]: "advances sha (load_task_spec sha task)"
  unfolding load_task_spec_def by (intro engine)

lemma advances_route [engine]: "advances sha (route_ready_task sha task_id backends)"
  unfolding route_ready_task_def Let_def by (intro engine)

end
