(* ===== verification/Engine_Scheduling.thy ===== *)
theory Engine_Scheduling
  imports Engine_Routing
begin

text \<open>
  The Scheduler to Run-Controller path (\<^verbatim>\<open>crates/pantheon-engine/src/scheduling.rs\<close>): durable
  eligibility, the service order, admission with side-effect-free routing, and the T3 commit of
  one Run intent.
\<close>

section \<open>Outcomes\<close>

definition backoff_seconds :: int where
  "backoff_seconds = 60"

datatype scheduling_error =
    SchedulingStore store_error
  | SchedulingConfiguration configuration_error

datatype schedule_outcome =
    Idle
  | Suppressed suppression
  | Deferred string string
  | Contention string
  | Committed string string

section \<open>Identities\<close>

definition short_hex :: "byte list \<Rightarrow> string" where
  "short_hex hash = concat (map byte_hex (take 16 hash))"

definition intent_request_hash :: "sha256 \<Rightarrow> string \<Rightarrow> digest \<Rightarrow> digest \<Rightarrow> int \<Rightarrow> int \<Rightarrow> byte list" where
  "intent_request_hash sha task_id b s scheduler_revision task_revision =
     as_bytes (value_digest sha (object [
       (''kind'', VString ''scheduler.run-intent''),
       (''taskId'', VString task_id),
       (''bindingDigest'', VString (display b)),
       (''snapshotDigest'', VString (display s)),
       (''schedulerRevision'', VInteger scheduler_revision),
       (''taskRevision'', VInteger task_revision)]))"

definition run_identity_value :: "string \<Rightarrow> digest \<Rightarrow> digest \<Rightarrow> int \<Rightarrow> cvalue" where
  "run_identity_value task_id b s next_service_sequence = object [
     (''kind'', VString ''run''),
     (''taskId'', VString task_id),
     (''bindingDigest'', VString (display b)),
     (''snapshotDigest'', VString (display s)),
     (''nextServiceSequence'', VInteger next_service_sequence)]"

definition backoff_code :: "routing_error \<Rightarrow> string option" where
  "backoff_code e = (case e of
     NoCompatibleOffers _ _ \<Rightarrow> Some ''no-compatible-offer''
   | AgentResolution _ \<Rightarrow> Some ''no-eligible-agent''
   | UnregisteredBackend _ \<Rightarrow> Some ''backend-unregistered''
   | BackendOffer _ _ \<Rightarrow> Some ''backend-offer-failed''
   | Selection _ \<Rightarrow> Some ''no-compatible-offer''
   | StaleConfiguration \<Rightarrow> Some ''stale-configuration''
   | _ \<Rightarrow> None)"

section \<open>The commit\<close>

definition frozen_binding :: "sha256 \<Rightarrow> string \<Rightarrow> routing_result \<Rightarrow> configuration_binding \<Rightarrow> execution_binding" where
  "frozen_binding sha task_id routed b =
     \<lparr>eb_task_id = task_id, eb_agent = ca_agent (rr_candidate routed),
      eb_request_digest = request_digest sha (rr_request routed),
      eb_offer_digest = offer_digest sha (ca_offer (rr_candidate routed)),
      eb_backend_id = of_backend_id (ca_offer (rr_candidate routed)),
      eb_descriptor_revision = of_descriptor_revision (ca_offer (rr_candidate routed)),
      eb_descriptor_digest = of_descriptor_digest (ca_offer (rr_candidate routed)),
      eb_execution_profile_digest = ca_execution_profile_digest (rr_candidate routed),
      eb_sandbox_profile_digest = rq_sandbox_profile_digest (rr_request routed),
      eb_route_policy_digest = rq_route_policy_digest (rr_request routed),
      eb_configuration_activation_sequence = cb_activation_sequence b,
      eb_configuration_content_digest = cb_content_digest b,
      eb_component_digests = cb_component_digests b\<rparr>"

definition frozen_snapshot ::
    "sha256 \<Rightarrow> string \<Rightarrow> routing_result \<Rightarrow> configuration_binding \<Rightarrow> goal_record \<Rightarrow> graph_record \<Rightarrow> agent \<Rightarrow> workspace_record \<Rightarrow>
     context_source_snapshot" where
  "frozen_snapshot sha goal_id routed b goal graph agent ws =
     \<lparr>cs_task_spec_digest = rr_task_spec_digest routed, cs_goal_id = goal_id,
      cs_goal_revision = gl_current_revision goal, cs_graph_revision = gh_revision graph,
      cs_agent = ca_agent (rr_candidate routed),
      cs_configuration_activation_sequence = cb_activation_sequence b,
      cs_context_policy_digest = cd_context_policy (cb_component_digests b),
      cs_agent_soul_digest = guidance_digest sha (ag_soul agent),
      cs_agent_behavior_digest = guidance_digest sha (ag_behavior agent),
      cs_workspace_id = wk_id ws, cs_workspace_resolved_base = wk_resolved_base ws\<rparr>"

definition intent_of ::
    "sha256 \<Rightarrow> string \<Rightarrow> string \<Rightarrow> dispatch_candidate \<Rightarrow> scheduling_snapshot \<Rightarrow> configuration_binding \<Rightarrow> goal_record \<Rightarrow>
     graph_record \<Rightarrow> workspace_record \<Rightarrow> execution_binding \<Rightarrow> context_source_snapshot \<Rightarrow> run_intent" where
  "intent_of sha goal_id task_id candidate snap b goal graph ws eb cs =
     \<lparr>ri_run_id = ''run-'' @ short_hex (as_bytes (value_digest sha (run_identity_value task_id
          (binding_digest sha eb) (snapshot_digest sha cs) (ssr_next_service_sequence (sp_state snap))))),
      ri_task_id = task_id, ri_goal_id = goal_id,
      ri_expected_task_revision = dc_task_revision candidate,
      ri_expected_goal_row_revision = gl_revision goal,
      ri_expected_goal_current_revision = gl_current_revision goal,
      ri_expected_graph_revision = gh_revision graph,
      ri_expected_workspace_revision = wk_revision ws,
      ri_expected_scheduler_revision = ssr_revision (sp_state snap),
      ri_expected_goal_fairness_revision =
        map_option gsp_revision (List.find (\<lambda>r. gsp_goal_id r = goal_id) (sp_goals snap)),
      ri_expected_task_scheduling_revision = dc_scheduling_revision candidate,
      ri_configuration_activation_sequence = cb_activation_sequence b,
      ri_binding_digest = binding_digest sha eb, ri_binding = eb,
      ri_snapshot_digest = snapshot_digest sha cs, ri_snapshot = cs\<rparr>"

definition intent_command :: "sha256 \<Rightarrow> string \<Rightarrow> run_intent \<Rightarrow> command" where
  "intent_command sha epoch i =
     (let hash = intent_request_hash sha (ri_task_id i) (ri_binding_digest i) (ri_snapshot_digest i)
            (ri_expected_scheduler_revision i) (ri_expected_task_revision i)
      in \<lparr>cmd_epoch = epoch, cmd_id = ''t3-'' @ short_hex hash, cmd_request_hash = hash,
          cmd_event_type = ''run.committed''\<rparr>)"

definition invariant_violated :: "string \<Rightarrow> fmt_arg list \<Rightarrow> scheduling_error" where
  "invariant_violated template arguments = SchedulingStore (InvariantViolated (Fmt template arguments))"

definition settle_intent ::
    "string \<Rightarrow> run_intent \<Rightarrow> (store_error, run_intent_commit committed) res \<Rightarrow> (scheduling_error, schedule_outcome) res" where
  "settle_intent task_id i r = (case r of
     Inr (Executed v _) \<Rightarrow> Inr (Committed (rc_run_id v) task_id)
   | Inr (Replayed _ _) \<Rightarrow> Inr (Committed (ri_run_id i) task_id)
   | Inl DispatchPaused \<Rightarrow> Inr (Contention task_id)
   | Inl (DispatchSlotUnavailable _ _) \<Rightarrow> Inr (Contention task_id)
   | Inl (RevisionConflict _ _ _ _) \<Rightarrow> Inr (Contention task_id)
   | Inl e \<Rightarrow> Inl (SchedulingStore e))"

definition commit_routed ::
    "sha256 \<Rightarrow> routing_result \<Rightarrow> dispatch_candidate \<Rightarrow> string \<Rightarrow> string \<Rightarrow> scheduling_snapshot \<Rightarrow> configuration_binding \<Rightarrow>
     ('x, scheduling_error, schedule_outcome) controller" where
  "commit_routed sha routed candidate goal_id task_id snap b =
     bindE (mapE SchedulingStore (readE (read_goal goal_id))) (\<lambda>found.
     bindE (someE found (invariant_violated ''selected goal {goal_id} disappeared'' [FStr goal_id])) (\<lambda>goal.
     bindE (mapE SchedulingStore (getE (read_task_graph goal_id))) (\<lambda>found.
     bindE (someE found (invariant_violated ''selected goal {goal_id} has no graph'' [FStr goal_id])) (\<lambda>graph.
     bindE (mapE SchedulingStore (readE (workspace_for_task task_id))) (\<lambda>found.
     bindE (someE found (invariant_violated ''selected task {task_id} has no Workspace'' [FStr task_id])) (\<lambda>ws.
     bindE (mapE SchedulingConfiguration configuration_snapshot) (\<lambda>published.
     bindE (someE (sps_compiled published) (invariant_violated
        ''the active ConfigurationRevision is not usable for scheduling'' [])) (\<lambda>compiled.
     bindE (someE (List.find (\<lambda>a. identity a = ca_agent (rr_candidate routed)) (cf_agents compiled))
        (invariant_violated (''routed agent {}'' @ [CHR 0x40] @ ''{} is absent from the captured configuration'')
           [FStr (lav_name (ca_agent (rr_candidate routed))), FInt (lav_version (ca_agent (rr_candidate routed)))])) (\<lambda>agent.
     let eb = frozen_binding sha task_id routed b;
         cs = frozen_snapshot sha goal_id routed b goal graph agent ws;
         i = intent_of sha goal_id task_id candidate snap b goal graph ws eb cs in
     bindE (mapE SchedulingStore (readE read_restore_generation)) (\<lambda>epoch.
     bindE (tryE (storeE (commit_run_intent sha (intent_command sha epoch i) i))) (\<lambda>r.
     liftE (settle_intent task_id i r))))))))))))"

text \<open>Durable backoff for a routing failure before T3; \<open>None\<close> when the state corrects itself.\<close>

definition defer_task :: "dispatch_candidate \<Rightarrow> routing_error \<Rightarrow> int \<Rightarrow> ('x, scheduling_error, string \<times> string) controller" where
  "defer_task candidate e t = (case backoff_code e of
     None \<Rightarrow> returnE (dc_task_id candidate, ''routing-state-moved'')
   | Some code \<Rightarrow>
       bindE (mapE SchedulingStore (storeE (record_scheduling_backoff (dc_task_id candidate)
          (dc_scheduling_revision candidate) code ''{}'' (t + backoff_seconds)))) (\<lambda>_.
       returnE (dc_task_id candidate, code)))"

section \<open>One cycle\<close>

text \<open>The walk over the service order. The ordered Task comes from the same snapshot, so the
  lookup of its candidate succeeds.\<close>

fun walk_order ::
    "sha256 \<Rightarrow> 'x executor_backend_port list \<Rightarrow> scheduling_snapshot \<Rightarrow> configuration_binding \<Rightarrow>
     (string \<times> string) option \<Rightarrow> (string \<times> string) list \<Rightarrow> ('x, scheduling_error, schedule_outcome) controller" where
  "walk_order sha backends snap b last_deferred [] = returnE (case last_deferred of
     Some (task_id, reason) \<Rightarrow> Deferred task_id reason
   | None \<Rightarrow> Idle)"
| "walk_order sha backends snap b last_deferred ((goal_id, task_id) # rest) =
     (case List.find (\<lambda>c. dc_task_id c = task_id) (sp_candidates snap) of
       None \<Rightarrow> raiseE (invariant_violated ''the ordered Task came from the same snapshot'' [])
     | Some candidate \<Rightarrow>
         bindE (tryE (route_ready_task sha task_id backends)) (\<lambda>r.
         case r of
           Inr routed \<Rightarrow> commit_routed sha routed candidate goal_id task_id snap b
         | Inl e \<Rightarrow> bindE (defer_task candidate e (sp_now snap)) (\<lambda>d. walk_order sha backends snap b (Some d) rest)))"

definition schedule_once ::
    "sha256 \<Rightarrow> 'x executor_backend_port list \<Rightarrow> ('x, scheduling_error, schedule_outcome) controller" where
  "schedule_once sha backends =
     bindE (mapE SchedulingConfiguration configuration_snapshot) (\<lambda>published.
     if sps_compiled published = None then returnE (Suppressed ConfigurationUnavailable)
     else let b = binding_from_snapshot published in
     bindE (mapE SchedulingStore (read_nowE read_scheduling_snapshot)) (\<lambda>snap.
     if ssr_dispatch_mode (sp_state snap) = DPaused then returnE (Suppressed OperatorPause)
     else bindE (mapE SchedulingStore (readE slot_holder)) (\<lambda>holder.
     if holder \<noteq> None then returnE (Suppressed SlotHeld)
     else let order = service_order (map fairness (sp_goals snap)) (map schedulable (sp_candidates snap)) in
     if order = [] then returnE Idle
     else walk_order sha backends snap b None order)))"

section \<open>What scheduling keeps\<close>

lemma advances_commit_routed [engine]: "advances sha (commit_routed sha routed candidate goal_id task_id snap b)"
  unfolding commit_routed_def Let_def by (intro engine step.intros)

lemma advances_defer_task [engine]: "advances sha (defer_task candidate e t)"
  unfolding defer_task_def by (intro engine step.intros)

lemma advances_walk [engine]: "advances sha (walk_order sha backends snap b deferred order)"
  by (induction sha backends snap b deferred order rule: walk_order.induct)
    (auto intro!: engine split: option.split)

lemma advances_schedule [engine]: "advances sha (schedule_once sha backends)"
  unfolding schedule_once_def Let_def by (intro engine)

end
