(* ===== verification/Engine_Operator.thy ===== *)
theory Engine_Operator
  imports Engine_Planning Engine_Scheduling Store_Operator
begin

text \<open>
  The operations Operator Control serves (\<^verbatim>\<open>crates/pantheon-engine/src/operator.rs\<close> and
  \<^verbatim>\<open>operator/goals.rs\<close>, \<^verbatim>\<open>dispatch.rs\<close>, \<^verbatim>\<open>events.rs\<close>, \<^verbatim>\<open>system.rs\<close>): views composed from
  durable state, and mutations issued under the operator's own command identity. Where the code
  keeps the rendering of an error, the model keeps the error.
\<close>

section \<open>Identities\<close>

record operator_command_identity =
  ci_epoch :: string
  ci_id :: string
  ci_request_hash :: "byte list"

definition identifier_hex :: nat where
  "identifier_hex = 32"

definition short :: "string \<Rightarrow> string" where
  "short hex = take (min identifier_hex (length hex)) hex"

definition derive_command_id :: "sha256 \<Rightarrow> string \<Rightarrow> string \<Rightarrow> string \<Rightarrow> string" where
  "derive_command_id sha epoch command_id stp =
     stp @ ''-'' @ short (to_hex (value_digest sha (object [
       (''commandEpoch'', VString epoch), (''commandId'', VString command_id), (''step'', VString stp)])))"

definition derive_goal_id :: "sha256 \<Rightarrow> string \<Rightarrow> string \<Rightarrow> string" where
  "derive_goal_id sha epoch command_id =
     ''goal-'' @ short (to_hex (value_digest sha (object [
       (''commandEpoch'', VString epoch), (''commandId'', VString command_id)])))"

definition identity_step :: "sha256 \<Rightarrow> operator_command_identity \<Rightarrow> string \<Rightarrow> operator_command_identity" where
  "identity_step sha c stp = c\<lparr>ci_id := derive_command_id sha (ci_epoch c) (ci_id c) stp\<rparr>"

definition identity_command :: "operator_command_identity \<Rightarrow> string \<Rightarrow> command" where
  "identity_command c event = \<lparr>cmd_epoch = ci_epoch c, cmd_id = ci_id c, cmd_request_hash = ci_request_hash c,
     cmd_event_type = event\<rparr>"

section \<open>Errors\<close>

datatype not_ready = NotReadyConfiguration message | NotReadySnapshot configuration_error
datatype cursor_gone = CursorRefused cursor_error | CursorMalformed message
datatype internal_cause = StoreCause store_error | GoalCause goal_decode_error

datatype operator_error =
    NotFound string string
  | Conflict store_error
  | OperatorStaleCommandEpoch string string
  | OperatorCommandConflict string
  | CursorGone cursor_gone
  | NotReady not_ready
  | OperatorInvalid plan_error
  | StaleRevision message
  | Internal internal_cause

fun operator_store_error :: "store_error \<Rightarrow> operator_error" where
  "operator_store_error (StaleCommandEpoch supplied current) = OperatorStaleCommandEpoch supplied current"
| "operator_store_error (CommandConflict command_id) = OperatorCommandConflict command_id"
| "operator_store_error (GoalNotCancellable g p t) = Conflict (GoalNotCancellable g p t)"
| "operator_store_error (RevisionConflict table row expected actual) = Conflict (RevisionConflict table row expected actual)"
| "operator_store_error e = Internal (StoreCause e)"

fun operator_planning_error :: "planning_error \<Rightarrow> operator_error" where
  "operator_planning_error (PlanningStore e) = operator_store_error e"
| "operator_planning_error (PlanInvalid e) = OperatorInvalid e"
| "operator_planning_error (PlanningConfiguration detail) = NotReady (NotReadyConfiguration detail)"

fun operator_scheduling_error :: "scheduling_error \<Rightarrow> operator_error" where
  "operator_scheduling_error (SchedulingStore e) = operator_store_error e"
| "operator_scheduling_error (SchedulingConfiguration e) = NotReady (NotReadySnapshot e)"

section \<open>Goals\<close>

record task_view =
  tv_id :: string
  tv_phase :: task_phase
  tv_created_graph_revision :: int
  tv_spec_digest :: string

record goal_view =
  gv_id :: string
  gv_phase :: goal_phase
  gv_goal_revision :: int
  gv_revision :: int
  gv_spec :: goal_spec
  gv_tasks :: "task_view list"

record goal_summary =
  gsu_id :: string
  gsu_phase :: goal_phase
  gsu_goal_revision :: int
  gsu_revision :: int

record goals_page =
  gp_goals :: "goal_summary list"
  gp_snapshot_cursor :: cursor

definition task_view_of :: "task_record \<Rightarrow> task_view" where
  "task_view_of r = \<lparr>tv_id = tr_id r, tv_phase = tr_phase r,
     tv_created_graph_revision = tr_created_graph_revision r, tv_spec_digest = to_hex (tr_spec_digest r)\<rparr>"

definition goal_summary_of :: "goal_record \<Rightarrow> goal_summary" where
  "goal_summary_of r = \<lparr>gsu_id = gl_id r, gsu_phase = gl_phase r, gsu_goal_revision = gl_current_revision r,
     gsu_revision = gl_revision r\<rparr>"

definition view_goal :: "goal_detail \<Rightarrow> (operator_error, goal_view) res" where
  "view_goal detail = (case goal_from_canonical_json (gd_revision_json detail) of
     Inl e \<Rightarrow> Inl (Internal (GoalCause e))
   | Inr spec \<Rightarrow> Inr \<lparr>gv_id = gl_id (gd_goal detail), gv_phase = gl_phase (gd_goal detail),
       gv_goal_revision = gl_current_revision (gd_goal detail), gv_revision = gl_revision (gd_goal detail),
       gv_spec = spec, gv_tasks = map task_view_of (gd_tasks detail)\<rparr>)"

definition operator_goal :: "string \<Rightarrow> ('x, operator_error, goal_view) controller" where
  "operator_goal goal_id =
     bindE (mapE operator_store_error (readE (read_goal_detail goal_id))) (\<lambda>found.
     bindE (someE found (NotFound ''goal'' goal_id)) (\<lambda>detail.
     liftE (view_goal detail)))"

definition operator_goals :: "('x, operator_error, goals_page) controller" where
  "operator_goals =
     bindE (mapE operator_store_error (readE read_goal_snapshot)) (\<lambda>snap.
     returnE \<lparr>gp_goals = map goal_summary_of (gss_goals snap), gp_snapshot_cursor = gss_cursor snap\<rparr>)"

text \<open>Three commands, each under an identity derived from the operator's own.\<close>

definition operator_create_goal ::
    "sha256 \<Rightarrow> operator_command_identity \<Rightarrow> goal_spec \<Rightarrow> ('x, operator_error, goal_view) controller" where
  "operator_create_goal sha c spec =
     (let goal_id = derive_goal_id sha (ci_epoch c) (ci_id c);
          operation_id = derive_command_id sha (ci_epoch c) (ci_id c) ''plan'';
          task_id = derive_command_id sha (ci_epoch c) (ci_id c) ''task'' in
     bindE (mapE operator_planning_error (controller_create_goal sha
        (identity_command (identity_step sha c ''goal-create'') ''goal.created'') goal_id spec)) (\<lambda>_.
     bindE (mapE operator_planning_error (controller_plan sha
        (identity_command (identity_step sha c ''goal-plan'') ''planning.recorded'') operation_id goal_id)) (\<lambda>_.
     bindE (mapE operator_planning_error (controller_proposal sha goal_id)) (\<lambda>proposal.
     bindE (mapE operator_planning_error (controller_materialize sha
        (identity_command (identity_step sha c ''goal-materialize'') ''task.materialized'')
        operation_id task_id goal_id proposal)) (\<lambda>_.
     operator_goal goal_id)))))"

definition operator_cancel_goal :: "operator_command_identity \<Rightarrow> string \<Rightarrow> ('x, operator_error, goal_view) controller" where
  "operator_cancel_goal c goal_id =
     bindE (mapE operator_store_error (readE (read_goal goal_id))) (\<lambda>found.
     bindE (requireE (found \<noteq> None) (NotFound ''goal'' goal_id)) (\<lambda>_.
     bindE (mapE operator_store_error (storeE (cancel_goal (identity_command c ''goal.cancel.requested'') goal_id))) (\<lambda>_.
     operator_goal goal_id)))"

section \<open>Dispatch\<close>

record dispatch_view =
  dv_desired_mode :: dispatch_mode
  dv_revision :: int
  dv_effective_can_dispatch :: bool
  dv_blocked_by :: "string list"

definition configuration_usable :: "('x, 'e, bool) controller" where
  "configuration_usable = bindE (tryE configuration_snapshot) (\<lambda>r.
     returnE (case r of Inl _ \<Rightarrow> False | Inr snap \<Rightarrow> sps_compiled snap \<noteq> None))"

definition dispatch_view_of :: "scheduler_state_record \<Rightarrow> bool \<Rightarrow> dispatch_view" where
  "dispatch_view_of state usable =
     (let blocked_by = (if ssr_dispatch_mode state = DPaused then [''operator-pause''] else [])
          @ (if usable then [] else [''configuration''])
      in \<lparr>dv_desired_mode = ssr_dispatch_mode state, dv_revision = ssr_revision state,
          dv_effective_can_dispatch = (blocked_by = []), dv_blocked_by = blocked_by\<rparr>)"

definition dispatch_status :: "('x, operator_error, dispatch_view) controller" where
  "dispatch_status =
     bindE (mapE operator_store_error (readE read_scheduler_state)) (\<lambda>state.
     bindE configuration_usable (\<lambda>usable.
     returnE (dispatch_view_of state usable)))"

fun scheduler_conflict :: "store_error \<Rightarrow> bool" where
  "scheduler_conflict (RevisionConflict table _ _ _) = (table = ''scheduler_state'')"
| "scheduler_conflict _ = False"

definition set_dispatch ::
    "operator_command_identity \<Rightarrow> dispatch_mode \<Rightarrow> string \<Rightarrow> int \<Rightarrow> ('x, operator_error, dispatch_view) controller" where
  "set_dispatch c mode event expected =
     bindE (tryE (storeE (set_dispatch_mode (identity_command c event) mode expected))) (\<lambda>committed.
     case committed of
       Inr _ \<Rightarrow> dispatch_status
     | Inl e \<Rightarrow>
         if scheduler_conflict e then
           bindE (mapE operator_store_error (readE read_scheduler_state)) (\<lambda>current.
           raiseE (StaleRevision (Fmt ''dispatch desired state is at revision {}; the request carried {expected}''
             [FInt (ssr_revision current), FInt expected])))
         else raiseE (operator_store_error e))"

definition pause_dispatch :: "operator_command_identity \<Rightarrow> int \<Rightarrow> ('x, operator_error, dispatch_view) controller" where
  "pause_dispatch c expected = set_dispatch c DPaused ''dispatch.paused'' expected"

definition resume_dispatch :: "operator_command_identity \<Rightarrow> int \<Rightarrow> ('x, operator_error, dispatch_view) controller" where
  "resume_dispatch c expected = set_dispatch c DRunning ''dispatch.resumed'' expected"

section \<open>Events\<close>

definition max_events :: int where
  "max_events = 256"

record event_view =
  ev_event_id :: string
  ev_cursor :: cursor
  ev_event_type :: string
  ev_recorded_at :: int
  ev_command_epoch :: "string option"
  ev_command_id :: "string option"

record event_page =
  ep_events :: "event_view list"
  ep_next :: cursor

definition event_view_of :: "event_row \<Rightarrow> event_view" where
  "event_view_of r = \<lparr>ev_event_id = ej_event_id r, ev_cursor = event_cursor r, ev_event_type = ej_event_type r,
     ev_recorded_at = ej_recorded_at r, ev_command_epoch = ej_command_epoch r, ev_command_id = ej_command_id r\<rparr>"

definition clamp :: "int \<Rightarrow> int \<Rightarrow> int \<Rightarrow> int" where
  "clamp low high n = (if n < low then low else if high < n then high else n)"

definition event_page_of :: "cursor \<Rightarrow> event_row list \<Rightarrow> event_page" where
  "event_page_of c events = \<lparr>ep_events = map event_view_of events,
     ep_next = (if events = [] then c else event_cursor (last events))\<rparr>"

definition operator_journal_head :: "('x, operator_error, cursor) controller" where
  "operator_journal_head = mapE operator_store_error (readE read_head)"

definition operator_events_after :: "cursor \<Rightarrow> int \<Rightarrow> ('x, operator_error, event_page) controller" where
  "operator_events_after c limit =
     bindE (mapE operator_store_error (readE (events_after c (clamp 1 max_events limit)))) (\<lambda>answer.
     bindE (mapE (\<lambda>e. CursorGone (CursorRefused e)) (liftE answer)) (\<lambda>events.
     returnE (event_page_of c events)))"

section \<open>System and readiness\<close>

datatype component_state = Satisfied | Unsatisfied | Unimplemented

record readiness_component =
  rc_name :: string
  rc_state :: component_state
  rc_detail :: "(message + configuration_error) option"

record readiness_report =
  rr_ready :: bool
  rr_components :: "readiness_component list"

record journal_view =
  jv_epoch :: string
  jv_latest_sequence :: "int option"

record active_configuration_view =
  acv_activation_sequence :: int
  acv_content_digest :: digest
  acv_semantics_loaded :: bool

record system_view =
  sv_api_versions :: "string list"
  sv_schema_version :: int
  sv_command_epoch :: string
  sv_journal :: journal_view
  sv_active_configuration :: "active_configuration_view option"
  sv_readiness :: readiness_report

definition journal_view_from_head :: "cursor \<Rightarrow> journal_view" where
  "journal_view_from_head head = \<lparr>jv_epoch = cu_journal_epoch head,
     jv_latest_sequence = (if 1 \<le> cu_sequence head then Some (cu_sequence head) else None)\<rparr>"

definition configuration_component :: "(configuration_error, snapshot) res \<Rightarrow> readiness_component" where
  "configuration_component r = (case r of
     Inr snap \<Rightarrow> if sps_compiled snap \<noteq> None
       then \<lparr>rc_name = ''active-configuration'', rc_state = Satisfied, rc_detail = None\<rparr>
       else \<lparr>rc_name = ''active-configuration'', rc_state = Unsatisfied, rc_detail = Some (Inl (Fmt
         (''the active revision'' @ [CHR 0x27] @ ''s source has drifted, so its semantics are not loaded'') []))\<rparr>
   | Inl (Unavailable detail) \<Rightarrow> \<lparr>rc_name = ''active-configuration'', rc_state = Unsatisfied, rc_detail = Some (Inl detail)\<rparr>
   | Inl e \<Rightarrow> \<lparr>rc_name = ''active-configuration'', rc_state = Unsatisfied, rc_detail = Some (Inr e)\<rparr>)"

definition readiness_of :: "(configuration_error, snapshot) res \<Rightarrow> readiness_report" where
  "readiness_of r =
     (let components = [
        \<lparr>rc_name = ''recovery-barrier'', rc_state = Unimplemented, rc_detail = Some (Inl (Fmt
           ''no startup recovery barrier exists in this build; readiness does not assert one was passed'' []))\<rparr>,
        configuration_component r,
        \<lparr>rc_name = ''dispatch'', rc_state = Satisfied, rc_detail = None\<rparr>]
      in \<lparr>rr_ready = list_all (\<lambda>k. rc_state k \<noteq> Unsatisfied) components, rr_components = components\<rparr>)"

definition readiness :: "('x, 'e, readiness_report) controller" where
  "readiness = bindE (tryE configuration_snapshot) (\<lambda>r. returnE (readiness_of r))"

definition active_configuration_view_of :: "(configuration_error, snapshot) res \<Rightarrow> active_configuration_view option" where
  "active_configuration_view_of r = (case r of
     Inl _ \<Rightarrow> None
   | Inr snap \<Rightarrow> Some \<lparr>acv_activation_sequence = acr_activation_sequence (sps_active snap),
       acv_content_digest = acr_content_digest (sps_active snap),
       acv_semantics_loaded = (sps_compiled snap \<noteq> None)\<rparr>)"

definition api_versions :: "string list" where
  "api_versions = [''v1'']"

text \<open>\<open>pragma_version\<close> is the schema version the opened database reports.\<close>

definition operator_system :: "int \<Rightarrow> ('x, operator_error, system_view) controller" where
  "operator_system pragma_version =
     bindE (mapE operator_store_error (readE read_head)) (\<lambda>head.
     bindE (mapE operator_store_error (getE (\<lambda>_. pragma_version))) (\<lambda>version.
     bindE (mapE operator_store_error (readE read_restore_generation)) (\<lambda>epoch.
     bindE (tryE configuration_snapshot) (\<lambda>published.
     bindE readiness (\<lambda>report.
     returnE \<lparr>sv_api_versions = api_versions, sv_schema_version = version, sv_command_epoch = epoch,
       sv_journal = journal_view_from_head head, sv_active_configuration = active_configuration_view_of published,
       sv_readiness = report\<rparr>)))))"

section \<open>What Operator Control keeps\<close>

lemma snapshot_kept [engine]: "advances sha configuration_snapshot" "untouched view configuration_snapshot"
  unfolding configuration_snapshot_def by (intro engine)+

lemma advances_operator_goal [engine]: "advances sha (operator_goal goal_id)"
  unfolding operator_goal_def by (intro engine)

lemma advances_operator_goals [engine]:
  "advances sha (operator_create_goal sha c spec)" "advances sha (operator_cancel_goal c goal_id)"
  "advances sha operator_goals"
  unfolding operator_create_goal_def operator_cancel_goal_def operator_goals_def Let_def
  by (intro engine step.intros)+

lemma advances_dispatch [engine]:
  "advances sha configuration_usable" "advances sha dispatch_status"
  "advances sha (set_dispatch c mode event expected)"
  unfolding dispatch_status_def set_dispatch_def configuration_usable_def by (intro engine step.intros)+

lemma advances_events [engine]:
  "advances sha operator_journal_head" "advances sha (operator_events_after k limit)"
  "advances sha readiness" "advances sha (operator_system version)"
  unfolding operator_journal_head_def operator_events_after_def readiness_def operator_system_def by (intro engine)+

end
