(* ===== verification/Engine_Sandbox.thy ===== *)
theory Engine_Sandbox
  imports Engine Store_Sandbox
begin

text \<open>
  The Sandbox lifecycle controller (\<^verbatim>\<open>crates/pantheon-engine/src/sandbox.rs\<close>): durable identity,
  provisioning through the backend port, verification, reconciliation and release.
\<close>

section \<open>The port\<close>

record 'x sandbox_backend =
  xb_ensure :: "string \<Rightarrow> sandbox_plan \<Rightarrow> 'x \<Rightarrow> (string, sandbox_presence) res \<times> 'x"
  xb_inspect :: "string \<Rightarrow> 'x \<Rightarrow> (string, sandbox_presence) res \<times> 'x"
  xb_release :: "string \<Rightarrow> 'x \<Rightarrow> (string, unit) res \<times> 'x"
  xb_verify :: "string \<Rightarrow> sandbox_plan \<Rightarrow> 'x \<Rightarrow> (string, sandbox_verification) res \<times> 'x"

section \<open>Errors\<close>

text \<open>The \<open>detail\<close> text of a provisioning failure; a nested error is kept as a value.\<close>

datatype provisioning_detail =
    Detail message
  | EvidenceRecordingFailed store_error
  | FailureRecordingFailed store_error

datatype sandbox_controller_error =
    SandboxStore store_error
  | ProvisioningFailed string provisioning_detail
  | VerificationFailed string
  | InspectionFailed string string
  | ReleaseFailed string string
  | SandboxInvariant message
  | DerivedKeyInvalid

text \<open>\<open>derive_sandbox_key\<close>; its \<open>expect\<close> is the error \<open>DerivedKeyInvalid\<close>.\<close>

definition derive_sandbox_key :: "string \<Rightarrow> (sandbox_controller_error, string) res" where
  "derive_sandbox_key run_id = (case sandbox_key_new (''sandbox-'' @ run_id) of
     Inr key \<Rightarrow> Inr key
   | Inl _ \<Rightarrow> Inl DerivedKeyInvalid)"

definition sub_command :: "command \<Rightarrow> string \<Rightarrow> string \<Rightarrow> string \<Rightarrow> command" where
  "sub_command c epoch suffix event =
     \<lparr>cmd_epoch = epoch, cmd_id = cmd_id c @ suffix, cmd_request_hash = cmd_request_hash c, cmd_event_type = event\<rparr>"

section \<open>Settling a committed transition\<close>

definition replayed_not_found :: "string \<Rightarrow> sandbox_controller_error" where
  "replayed_not_found run_id =
     SandboxInvariant (Fmt ''sandbox for run {run_id} reported replayed but not found'' [FStr run_id])"

definition sandbox_of_run :: "string \<Rightarrow> sandbox_controller_error \<Rightarrow> ('x, sandbox_controller_error, sandbox_record) controller" where
  "sandbox_of_run run_id missing =
     bindE (mapE SandboxStore (readE (sandbox_for_run run_id))) (\<lambda>found. someE found missing)"

definition settle_sandbox ::
    "string \<Rightarrow> sandbox_record committed \<Rightarrow> ('x, sandbox_controller_error, sandbox_record) controller" where
  "settle_sandbox run_id committed = (case committed of
     Executed v _ \<Rightarrow> returnE v
   | Replayed _ _ \<Rightarrow> sandbox_of_run run_id (replayed_not_found run_id))"

definition settle_by_id :: "string \<Rightarrow> sandbox_record committed \<Rightarrow> ('x, sandbox_controller_error, sandbox_record) controller" where
  "settle_by_id key committed = (case committed of
     Executed v _ \<Rightarrow> returnE v
   | Replayed _ _ \<Rightarrow>
       bindE (mapE SandboxStore (readE (sandbox_by_id key))) (\<lambda>found.
       someE found (SandboxInvariant (Fmt ''sandbox {} reported replayed but not found'' [FStr key]))))"

section \<open>Probe evidence\<close>

definition probe_evidence ::
    "sha256 \<Rightarrow> string \<Rightarrow> string \<Rightarrow> sandbox_plan \<Rightarrow> sandbox_verification \<Rightarrow> sandbox_probe_result \<Rightarrow> sandbox_probe_evidence" where
  "probe_evidence sha run_id key p v result =
     \<lparr>pe_sandbox_id = key, pe_run_id = run_id, pe_probe_name = pb_name result, pe_expected = pb_expected result,
      pe_observed = pb_observed result, pe_passed = pb_passed result,
      pe_backend_descriptor = sv_backend_descriptor v, pe_backend_version = sv_backend_version v,
      pe_platform = sv_platform v, pe_architecture = sv_architecture v,
      pe_probe_implementation_version = sv_probe_implementation_version v,
      pe_environment_identity = sb_environment_identity p,
      pe_sandbox_plan_digest = as_bytes (sandbox_plan_digest sha p), pe_launch_decision = ''blocked''\<rparr>"

definition record_probe_evidence ::
    "sha256 \<Rightarrow> command \<Rightarrow> string \<Rightarrow> string \<Rightarrow> sandbox_plan \<Rightarrow> sandbox_verification \<Rightarrow> ('x, store_error, unit) controller" where
  "record_probe_evidence sha c run_id key p v =
     foldE (\<lambda>_ result. bindE (storeE (record_sandbox_probe_evidence
         (sub_command c (cmd_epoch c) (''-probe-'' @ pb_name result) ''sandbox.probe.recorded'')
         (probe_evidence sha run_id key p v result))) (\<lambda>_. returnE ()))
       () (sv_probe_results v)"

section \<open>Provisioning\<close>

definition acquire_sandbox ::
    "sha256 \<Rightarrow> command \<Rightarrow> string \<Rightarrow> string \<Rightarrow> sandbox_plan \<Rightarrow> ('x, sandbox_controller_error, sandbox_record) controller" where
  "acquire_sandbox sha c run_id key p =
     bindE (tryE (storeE (create_sandbox c key \<lparr>sxb_run_id = run_id,
        sxb_sandbox_plan_digest = as_bytes (sandbox_plan_digest sha p),
        sxb_environment_identity = sb_environment_identity p\<rparr>))) (\<lambda>r.
     case r of
       Inr committed \<Rightarrow> settle_sandbox run_id committed
     | Inl (SandboxAlreadyCurrent _ _) \<Rightarrow> sandbox_of_run run_id
         (SandboxInvariant (Fmt ''sandbox for run {run_id} is current but not found'' [FStr run_id]))
     | Inl e \<Rightarrow> raiseE (SandboxStore e))"

definition begin_preparation ::
    "command \<Rightarrow> string \<Rightarrow> string \<Rightarrow> sandbox_record \<Rightarrow> ('x, sandbox_controller_error, sandbox_record) controller" where
  "begin_preparation c run_id key record =
     (if sxr_phase record = SRequested then
        bindE (mapE SandboxStore (readE read_restore_generation)) (\<lambda>epoch.
        bindE (mapE SandboxStore (storeE (begin_sandbox_preparation
           (sub_command c epoch ''-begin-preparation'' ''sandbox.preparation.begun'') key (sxr_revision record)))) (\<lambda>begun.
        settle_sandbox run_id begun))
      else returnE record)"

text \<open>The external Sandbox is present: verify it, and record Ready only when every fact passed.\<close>

definition verify_and_complete ::
    "sha256 \<Rightarrow> 'x sandbox_backend \<Rightarrow> command \<Rightarrow> string \<Rightarrow> string \<Rightarrow> string \<Rightarrow> sandbox_plan \<Rightarrow> sandbox_record \<Rightarrow>
     ('x, sandbox_controller_error, sandbox_record) controller" where
  "verify_and_complete sha backend c epoch run_id key p record =
     bindE (portE (xb_verify backend key p)) (\<lambda>answer.
     bindE (mapE (\<lambda>detail. ProvisioningFailed key (Detail (Fmt detail []))) (liftE answer)) (\<lambda>verified.
     if \<not> all_passed verified then
       bindE (mapE (\<lambda>e. ProvisioningFailed key (EvidenceRecordingFailed e))
          (record_probe_evidence sha c run_id key p verified)) (\<lambda>_.
       bindE (mapE (\<lambda>e. ProvisioningFailed key (FailureRecordingFailed e)) (storeE (fail_sandbox
          (sub_command c epoch ''-fail'' ''sandbox.failed'') key (sxr_revision record) PUnknown))) (\<lambda>_.
       raiseE (VerificationFailed key)))
     else
       bindE (mapE SandboxStore (storeE (complete_sandbox_preparation
          (sub_command c epoch ''-complete-preparation'' ''sandbox.preparation.completed'') key (sxr_revision record)))) (\<lambda>completed.
       settle_sandbox run_id completed)))"

definition prepare_sandbox ::
    "sha256 \<Rightarrow> 'x sandbox_backend \<Rightarrow> command \<Rightarrow> string \<Rightarrow> string \<Rightarrow> sandbox_plan \<Rightarrow> sandbox_record \<Rightarrow>
     ('x, sandbox_controller_error, sandbox_record) controller" where
  "prepare_sandbox sha backend c run_id key p record =
     bindE (begin_preparation c run_id key record) (\<lambda>record.
     bindE (mapE SandboxStore (readE read_restore_generation)) (\<lambda>epoch.
     bindE (portE (xb_ensure backend key p)) (\<lambda>answer.
     case answer of
       Inl detail \<Rightarrow>
         bindE (tryE (storeE (fail_sandbox (sub_command c epoch ''-fail'' ''sandbox.failed'') key
            (sxr_revision record) PUnknown))) (\<lambda>_.
         raiseE (ProvisioningFailed key (Detail (Fmt detail []))))
     | Inr presence \<Rightarrow>
         if presence = PPresent then verify_and_complete sha backend c epoch run_id key p record
         else
           bindE (tryE (storeE (fail_sandbox (sub_command c epoch ''-fail'' ''sandbox.failed'') key
              (sxr_revision record) presence))) (\<lambda>_.
           raiseE (ProvisioningFailed key (Detail (Fmt ''sandbox did not reach Present: {presence}''
              [FStr (sandbox_presence_as_str presence)])))))))"

definition provision ::
    "sha256 \<Rightarrow> 'x sandbox_backend \<Rightarrow> command \<Rightarrow> string \<Rightarrow> sandbox_plan \<Rightarrow>
     ('x, sandbox_controller_error, sandbox_record) controller" where
  "provision sha backend c run_id p =
     bindE (liftE (derive_sandbox_key run_id)) (\<lambda>key.
     bindE (acquire_sandbox sha c run_id key p) (\<lambda>record.
     case sxr_phase record of
       SReady \<Rightarrow> returnE record
     | SError \<Rightarrow> raiseE (ProvisioningFailed key (Detail
         (Fmt ''sandbox is in Error phase from a previous provisioning attempt'' [])))
     | SReleasing \<Rightarrow> raiseE (ProvisioningFailed key (Detail (Fmt ''sandbox is in Releasing phase'' [])))
     | SRequested \<Rightarrow> prepare_sandbox sha backend c run_id key p record
     | SPreparing \<Rightarrow> prepare_sandbox sha backend c run_id key p record
     | SReleased \<Rightarrow> raiseE (SandboxInvariant
         (Fmt ''sandbox for run {run_id} is current but Released'' [FStr run_id]))))"

section \<open>Reconciliation and release\<close>

record reconciled_sandbox =
  rsx_record :: sandbox_record
  rsx_presence :: sandbox_presence

definition reconcile_sandbox ::
    "'x sandbox_backend \<Rightarrow> command \<Rightarrow> sandbox_record \<Rightarrow> ('x, sandbox_controller_error, reconciled_sandbox) controller" where
  "reconcile_sandbox backend c record =
     bindE (case sandbox_key_new (sxr_id record) of
         Inr key \<Rightarrow> returnE key
       | Inl e \<Rightarrow> raiseE (SandboxInvariant (Fmt ''invalid stored key: {err}'' []))) (\<lambda>key.
     bindE (portE (xb_inspect backend key)) (\<lambda>answer.
     bindE (mapE (InspectionFailed (sxr_id record)) (liftE answer)) (\<lambda>presence.
     bindE (mapE SandboxStore (storeE (update_sandbox_presence c key (sxr_revision record) presence))) (\<lambda>updated.
     bindE (settle_sandbox (sxr_run_id record) updated) (\<lambda>current.
     returnE \<lparr>rsx_record = current, rsx_presence = presence\<rparr>)))))"

definition controller_begin_release ::
    "'x sandbox_backend \<Rightarrow> command \<Rightarrow> string \<Rightarrow> int \<Rightarrow> ('x, sandbox_controller_error, sandbox_record) controller" where
  "controller_begin_release backend c key expected =
     bindE (mapE SandboxStore (storeE (begin_sandbox_release c key expected))) (\<lambda>committed.
     bindE (portE (xb_release backend key)) (\<lambda>answer.
     bindE (mapE (ReleaseFailed key) (liftE answer)) (\<lambda>_.
     settle_by_id key committed)))"

definition controller_complete_release ::
    "command \<Rightarrow> string \<Rightarrow> int \<Rightarrow> sandbox_presence \<Rightarrow> ('x, sandbox_controller_error, sandbox_record) controller" where
  "controller_complete_release c key expected observed =
     bindE (mapE SandboxStore (storeE (complete_sandbox_release c key expected observed))) (\<lambda>committed.
     settle_by_id key committed)"

section \<open>What the controller keeps\<close>

lemma advances_sandbox_cases [engine]:
  "advances sha a \<Longrightarrow> advances sha b \<Longrightarrow> advances sha c \<Longrightarrow> advances sha d \<Longrightarrow> advances sha e \<Longrightarrow> advances sha f \<Longrightarrow>
   advances sha (case p of SRequested \<Rightarrow> a | SPreparing \<Rightarrow> b | SReady \<Rightarrow> c | SReleasing \<Rightarrow> d | SReleased \<Rightarrow> e | SError \<Rightarrow> f)"
  by (cases p) simp_all

lemma advances_sandbox_parts [engine]:
  "advances sha (sandbox_of_run run_id missing)"
  "advances sha (settle_sandbox run_id committed)"
  "advances sha (settle_by_id key committed)"
  "advances sha (record_probe_evidence sha' c run_id key p v)"
  unfolding settle_sandbox_def sandbox_of_run_def settle_by_id_def record_probe_evidence_def
  by (intro engine step.intros)+

lemma advances_acquire [engine]: "advances sha (acquire_sandbox sha' c run_id key p)"
  unfolding acquire_sandbox_def
  by (intro engine step.intros) (auto intro: engine split: sum.split store_error.split)

lemma advances_prepare [engine]:
  "advances sha (begin_preparation c run_id key record)"
  "advances sha (verify_and_complete sha' backend c epoch run_id key p record)"
  unfolding begin_preparation_def verify_and_complete_def by (intro engine step.intros)+

lemma advances_provision [engine]: "advances sha (provision sha' backend c run_id p)"
  unfolding provision_def prepare_sandbox_def by (intro engine step.intros)

lemma advances_release [engine]:
  "advances sha (reconcile_sandbox backend c record)"
  "advances sha (controller_begin_release backend c key expected)"
  "advances sha (controller_complete_release c key expected observed)"
  unfolding reconcile_sandbox_def controller_begin_release_def controller_complete_release_def
  by (intro engine step.intros)+

end
