(* ===== verification/Engine_Context.thy ===== *)
theory Engine_Context
  imports Engine_Planning Store_Context Context
begin

text \<open>
  Run context preparation (\<^verbatim>\<open>crates/pantheon-engine/src/context.rs\<close>): the Run's frozen source
  snapshot and every source it names are read back by identity and verified, the plan is built
  from them, and attached to the Run once.
\<close>

section \<open>Errors\<close>

record prepared_context =
  pc_run_id :: string
  pc_source_snapshot_digest :: digest
  pc_context_plan_digest :: digest
  pc_plan :: context_plan

datatype context_preparation_error =
    ContextStore store_error
  | FrozenSnapshotUnavailable string
  | SourceDigestMismatch string message message
  | RequiredSourceUnavailable message
  | WrongSourceRelation message
  | MalformedSource message
  | PolicyUnsatisfiable message

fun snapshot_decode_display :: "snapshot_decode_error \<Rightarrow> message" where
  "snapshot_decode_display (SnapshotDecodeError detail) =
     Fmt ''stored context source snapshot is not readable: {}'' [FMsg detail]"

fun context_policy_decode_display :: "context_policy_decode_error \<Rightarrow> message" where
  "context_policy_decode_display (ContextPolicyDecodeError detail) =
     Fmt ''stored context policy is not readable: {}'' [FMsg detail]"

fun context_plan_error_display :: "context_plan_error \<Rightarrow> message" where
  "context_plan_error_display (MandatorySectionUnsatisfiable section) =
     Fmt ''the frozen context policy requires section {section:?}, which cannot be produced from the frozen sources''
       [FStr section]"

definition digest_text :: "digest \<Rightarrow> message" where
  "digest_text d = Fmt ''{}'' [FStr (display d)]"

section \<open>Verifying the frozen sources\<close>

definition decode_frozen_snapshot ::
    "sha256 \<Rightarrow> string option \<Rightarrow> digest \<Rightarrow> (context_preparation_error, context_source_snapshot) res" where
  "decode_frozen_snapshot sha stored expected =
     bindR (ok_or stored (FrozenSnapshotUnavailable (display expected))) (\<lambda>text.
     bindR (ensure (digest_of sha text = expected) (SourceDigestMismatch ''context-source-snapshot''
        (digest_text expected) (digest_text (digest_of sha text)))) (\<lambda>_.
     bindR (map_sum (\<lambda>e. MalformedSource (snapshot_decode_display e)) id (snapshot_from_canonical_json text)) (\<lambda>s.
     bindR (ensure (snapshot_digest sha s = expected) (SourceDigestMismatch ''context-source-snapshot''
        (digest_text expected) (digest_text (snapshot_digest sha s)))) (\<lambda>_.
     Inr s))))"

definition decode_frozen_policy ::
    "(string \<times> string) option \<Rightarrow> digest \<Rightarrow> (context_preparation_error, context_component) res" where
  "decode_frozen_policy stored expected =
     bindR (ok_or stored (RequiredSourceUnavailable (Fmt ''context policy component {expected}'' [FStr (display expected)])))
     (\<lambda>(domain, json).
     bindR (ensure (domain = ''context'') (MalformedSource (Fmt
        ''digest {expected} is stored as the {domain} component, not context'' [FStr (display expected), FStr domain]))) (\<lambda>_.
     bindR (map_sum (\<lambda>e. MalformedSource (parse_error_display e)) id (parse json)) (\<lambda>v.
     map_sum (\<lambda>e. MalformedSource (context_policy_decode_display e)) id (context_from_canonical_value v))))"

definition decode_task_spec :: "sha256 \<Rightarrow> string option \<Rightarrow> digest \<Rightarrow> (context_preparation_error, task_spec) res" where
  "decode_task_spec sha stored expected =
     bindR (ok_or stored (RequiredSourceUnavailable (Fmt ''task specification {expected}'' [FStr (display expected)]))) (\<lambda>text.
     bindR (map_sum (\<lambda>e. MalformedSource (task_decode_display e)) id (task_from_canonical_json text)) (\<lambda>spec.
     bindR (ensure (task_digest sha spec = expected) (SourceDigestMismatch ''task-specification''
        (digest_text expected) (digest_text (task_digest sha spec)))) (\<lambda>_.
     Inr spec)))"

definition verify_task_relation ::
    "task_spec \<Rightarrow> context_source_snapshot \<Rightarrow> (context_preparation_error, unit) res" where
  "verify_task_relation spec s =
     ensure (tk_goal_id spec = cs_goal_id s \<and> tk_goal_revision spec = cs_goal_revision s) (WrongSourceRelation (Fmt
       (''spec names goal {}'' @ [CHR 0x40] @ ''{} but the snapshot froze goal {}'' @ [CHR 0x40] @ ''{}'')
       [FStr (tk_goal_id spec), FInt (tk_goal_revision spec), FStr (cs_goal_id s), FInt (cs_goal_revision s)]))"

definition verify_goal_content :: "sha256 \<Rightarrow> goal_revision_content \<Rightarrow> (context_preparation_error, unit) res" where
  "verify_goal_content sha gc =
     ensure (digest_of sha (gc_canonical_json gc) = gc_content_digest gc) (SourceDigestMismatch ''goal-revision''
       (digest_text (gc_content_digest gc)) (digest_text (digest_of sha (gc_canonical_json gc))))"

definition guidance_error :: "guidance_source_error \<Rightarrow> context_preparation_error" where
  "guidance_error e = (case e of
     VersionAbsent agent \<Rightarrow> RequiredSourceUnavailable (Fmt (''agent {}'' @ [CHR 0x40] @ ''{} in the frozen agents component'')
       [FStr (lav_name agent), FInt (lav_version agent)])
   | GuidanceMalformed detail \<Rightarrow> MalformedSource detail)"

definition guidance_text_of :: "digest \<Rightarrow> digest \<Rightarrow> message" where
  "guidance_text_of soul behavior = Fmt ''soul {}, behavior {}'' [FStr (display soul), FStr (display behavior)]"

definition decode_agent_guidance ::
    "sha256 \<Rightarrow> string \<Rightarrow> context_source_snapshot \<Rightarrow> (context_preparation_error, agent_guidance) res" where
  "decode_agent_guidance sha json s =
     bindR (map_sum (\<lambda>e. MalformedSource (parse_error_display e)) id (parse json)) (\<lambda>v.
     bindR (map_sum guidance_error id (frozen_agent_guidance v (cs_agent s))) (\<lambda>g.
     bindR (ensure (guidance_digest sha (gu_soul g) = cs_agent_soul_digest s
         \<and> guidance_digest sha (gu_behavior g) = cs_agent_behavior_digest s) (SourceDigestMismatch ''agent-guidance''
        (guidance_text_of (cs_agent_soul_digest s) (cs_agent_behavior_digest s))
        (guidance_text_of (guidance_digest sha (gu_soul g)) (guidance_digest sha (gu_behavior g))))) (\<lambda>_.
     Inr g)))"

definition verify_workspace_relation ::
    "workspace_record option \<Rightarrow> string \<Rightarrow> context_source_snapshot \<Rightarrow> (context_preparation_error, workspace_record) res" where
  "verify_workspace_relation found task_id s =
     bindR (ok_or found (RequiredSourceUnavailable (Fmt ''workspace {}'' [FStr (cs_workspace_id s)]))) (\<lambda>ws.
     bindR (ensure (wk_task_id ws = task_id) (WrongSourceRelation (Fmt
        ''workspace {} belongs to task {} but this Run commits for {task_id}''
        [FStr (cs_workspace_id s), FStr (wk_task_id ws), FStr task_id]))) (\<lambda>_.
     bindR (ensure (wk_resolved_base ws = cs_workspace_resolved_base s) (WrongSourceRelation (Fmt
        ''workspace {} resolved to {}, not the frozen base {}''
        [FStr (cs_workspace_id s), FStr (wk_resolved_base ws), FStr (cs_workspace_resolved_base s)]))) (\<lambda>_.
     Inr ws)))"

section \<open>Preparation\<close>

text \<open>Steps 1 to 8: the plan, from the frozen sources alone.\<close>

definition frozen_plan :: "sha256 \<Rightarrow> run_record \<Rightarrow> ('x, context_preparation_error, context_plan) controller" where
  "frozen_plan sha r =
     bindE (mapE ContextStore (getE (context_source_snapshot_json (rur_context_source_snapshot_digest r)))) (\<lambda>stored.
     bindE (liftE (decode_frozen_snapshot sha stored (rur_context_source_snapshot_digest r))) (\<lambda>s.
     bindE (mapE ContextStore (readE (configuration_component_json sha (cs_context_policy_digest s)))) (\<lambda>stored.
     bindE (liftE (decode_frozen_policy stored (cs_context_policy_digest s))) (\<lambda>policy.
     bindE (mapE ContextStore (getE (task_spec_json (cs_task_spec_digest s)))) (\<lambda>stored.
     bindE (liftE (decode_task_spec sha stored (cs_task_spec_digest s))) (\<lambda>spec.
     bindE (liftE (verify_task_relation spec s)) (\<lambda>_.
     bindE (mapE ContextStore (readE (read_goal_revision_content (cs_goal_id s) (cs_goal_revision s)))) (\<lambda>found.
     bindE (someE found (RequiredSourceUnavailable (Fmt (''goal revision {}'' @ [CHR 0x40] @ ''{}'')
        [FStr (cs_goal_id s), FInt (cs_goal_revision s)]))) (\<lambda>goal.
     bindE (liftE (verify_goal_content sha goal)) (\<lambda>_.
     bindE (mapE ContextStore (readE (revision_agents_component_json (cs_configuration_activation_sequence s)))) (\<lambda>found.
     bindE (someE found (RequiredSourceUnavailable (Fmt ''agents component of configuration revision {}''
        [FInt (cs_configuration_activation_sequence s)]))) (\<lambda>agents_json.
     bindE (liftE (decode_agent_guidance sha agents_json s)) (\<lambda>g.
     bindE (mapE ContextStore (readE (read_workspace_record (cs_workspace_id s)))) (\<lambda>found.
     bindE (liftE (verify_workspace_relation found (rur_task_id r) s)) (\<lambda>ws.
     mapE (\<lambda>e. PolicyUnsatisfiable (context_plan_error_display e)) (liftE (build_context_plan sha s
       \<lparr>fs_task_spec = spec, fs_goal_content_digest = gc_content_digest goal, fs_soul = gu_soul g,
        fs_behavior = gu_behavior g, fs_workspace_repository = wk_repository ws\<rparr> policy)))))))))))))))))"

definition attachment_hash :: "sha256 \<Rightarrow> run_record \<Rightarrow> digest \<Rightarrow> byte list" where
  "attachment_hash sha r digest = as_bytes (value_digest sha (object [
     (''kind'', VString ''run.context-plan-attachment''),
     (''runId'', VString (rur_id r)),
     (''sourceSnapshotDigest'', VString (display (rur_context_source_snapshot_digest r))),
     (''planDigest'', VString (display digest))]))"

definition attachment_command :: "sha256 \<Rightarrow> string \<Rightarrow> run_record \<Rightarrow> digest \<Rightarrow> command" where
  "attachment_command sha epoch r digest = (let hash = attachment_hash sha r digest in
     \<lparr>cmd_epoch = epoch, cmd_id = ''t3a-'' @ concat (map byte_hex (take 16 hash)), cmd_request_hash = hash,
      cmd_event_type = ''run.context.attached''\<rparr>)"

definition prepare_run_context :: "sha256 \<Rightarrow> string \<Rightarrow> ('x, context_preparation_error, prepared_context) controller" where
  "prepare_run_context sha run_id =
     bindE (mapE ContextStore (readE (read_run run_id))) (\<lambda>found.
     bindE (someE found (ContextStore (RunNotFound run_id))) (\<lambda>r.
     bindE (frozen_plan sha r) (\<lambda>built.
     let digest = plan_digest sha built;
         prepared = \<lparr>pc_run_id = rur_id r, pc_source_snapshot_digest = rur_context_source_snapshot_digest r,
           pc_context_plan_digest = digest, pc_plan = built\<rparr> in
     bindE (mapE ContextStore (readE (read_run_context_plan (rur_id r)))) (\<lambda>existing.
     if map_option rp_context_plan_digest existing = Some digest then returnE prepared
     else
       bindE (mapE ContextStore (readE read_restore_generation)) (\<lambda>epoch.
       bindE (mapE ContextStore (storeE (attach_run_context_plan sha (attachment_command sha epoch r digest)
          \<lparr>ca_at_run_id = rur_id r, ca_source_snapshot_digest = rur_context_source_snapshot_digest r,
           ca_plan_digest = digest, ca_builder_version = context_builder_version,
           ca_plan_canonical_json = to_canonical_bytes (plan_to_value built)\<rparr>))) (\<lambda>_.
       returnE prepared))))))"

section \<open>What the controller keeps\<close>

lemma advances_frozen_plan [engine]: "advances sha (frozen_plan sha' r)"
  unfolding frozen_plan_def by (intro engine)

lemma advances_prepare_context [engine]: "advances sha (prepare_run_context sha run_id)"
  unfolding prepare_run_context_def Let_def by (intro engine step.intros)

lemma untouched_prepare_context [engine]: "untouched view (frozen_plan sha r)" "untouched view (prepare_run_context sha run_id)"
  unfolding prepare_run_context_def frozen_plan_def Let_def by (intro engine)+

end
