(* ===== verification/Engine_Run.thy ===== *)
theory Engine_Run
  imports Engine_Sandbox Engine_Context Store_Execution
begin

text \<open>
  The Run Controller (\<^verbatim>\<open>crates/pantheon-engine/src/run.rs\<close>): preparation of a committed Run, the
  Attempt lineage, the durable launch boundary and same-lineage reconciliation.

  The controller's own memory (the raw bearers) and what lies outside it (entropy, launcher,
  Sandbox runtime) are the external world of its actions: \<open>run_world\<close>.
\<close>

section \<open>Memory, entropy and ports\<close>

record bearer_state =
  bs_bearer :: string
  bs_credential_revision :: int

record 'y run_world =
  rw_bearers :: "string \<Rightarrow> bearer_state option"
  rw_outside :: 'y

type_synonym 'y random_bytes = "'y \<Rightarrow> (string, byte list) res \<times> 'y"

record launch_package =
  lp_launch_key :: string
  lp_run_id :: string
  lp_attempt_id :: string
  lp_credential :: string
  lp_context_plan_digest :: digest

record 'y execution_launcher =
  el_backend_id :: string
  el_launch_semantics :: launch_semantics
  el_ensure_execution :: "launch_package \<Rightarrow> 'y \<Rightarrow> (string, observation) res \<times> 'y"
  el_inspect_execution :: "string \<Rightarrow> 'y \<Rightarrow> (string, observation) res \<times> 'y"

record 'y reconciliation_deps =
  rd_launcher :: "'y execution_launcher"
  rd_sandbox :: "'y sandbox_backend"
  rd_max_attempts_per_run :: nat

text \<open>A port of the outside, called from the controller.\<close>

definition outside :: "('y \<Rightarrow> 'r \<times> 'y) \<Rightarrow> 'y run_world \<Rightarrow> 'r \<times> 'y run_world" where
  "outside p x = (case p (rw_outside x) of (r, y) \<Rightarrow> (r, x\<lparr>rw_outside := y\<rparr>))"

definition lifted_backend :: "'y sandbox_backend \<Rightarrow> 'y run_world sandbox_backend" where
  "lifted_backend b =
     \<lparr>xb_ensure = \<lambda>key p. outside (xb_ensure b key p), xb_inspect = \<lambda>key. outside (xb_inspect b key),
      xb_release = \<lambda>key. outside (xb_release b key), xb_verify = \<lambda>key p. outside (xb_verify b key p)\<rparr>"

definition set_bearer :: "string \<Rightarrow> bearer_state \<Rightarrow> ('y run_world, 'e, unit) controller" where
  "set_bearer attempt_id b = portE (\<lambda>x. ((), x\<lparr>rw_bearers := (rw_bearers x)(attempt_id := Some b)\<rparr>))"

definition get_bearer :: "string \<Rightarrow> ('y run_world, 'e, bearer_state option) controller" where
  "get_bearer attempt_id = observeE (\<lambda>x. rw_bearers x attempt_id)"

section \<open>Outcomes and errors\<close>

datatype run_controller_error = RunStore store_error | Entropy string

text \<open>The text of the gate that stayed shut; nested errors are kept as values.\<close>

datatype gate =
    WorkspaceGate string string
  | FrozenWorkspaceUnavailable
  | SandboxGate sandbox_controller_error
  | ContextGate context_preparation_error

datatype run_outcome =
    UnknownRun
  | Inactive string
  | ConcludedInPreparation gate
  | AttemptEstablished string string
  | Launched string observation
  | Reconciled string observation
  | UnknownFenced string
  | RetryArmed string int
  | ConcludedAfterFailure string

definition run_invariant :: "string \<Rightarrow> fmt_arg list \<Rightarrow> run_controller_error" where
  "run_invariant template arguments = RunStore (InvariantViolated (Fmt template arguments))"

definition random_hex :: "'y random_bytes \<Rightarrow> ('y run_world, run_controller_error, string) controller" where
  "random_hex random =
     bindE (portE (outside random)) (\<lambda>answer.
     bindE (mapE Entropy (liftE answer)) (\<lambda>bs.
     returnE (concat (map byte_hex bs))))"

definition verifier :: "sha256 \<Rightarrow> string \<Rightarrow> byte list" where
  "verifier sha bearer = as_bytes (digest_of sha bearer)"

definition derive_identifier :: "sha256 \<Rightarrow> string \<Rightarrow> string \<Rightarrow> int \<Rightarrow> string" where
  "derive_identifier sha knd run_id ordinal = knd @ ''-'' @ concat (map byte_hex (take 16 (as_bytes (value_digest sha
     (object [(''kind'', VString knd), (''runId'', VString run_id), (''ordinal'', VInteger ordinal)])))))"

section \<open>The frozen profile\<close>

record frozen_binding_identity =
  fi_sandbox_profile_digest :: digest
  fi_execution_profiles_component :: digest

definition string_field :: "cvalue \<Rightarrow> string \<Rightarrow> string option" where
  "string_field v key = (case get v key of Some (VString t) \<Rightarrow> Some t | _ \<Rightarrow> None)"

definition array_field :: "cvalue \<Rightarrow> string \<Rightarrow> cvalue list option" where
  "array_field v key = (case get v key of Some (VArray items) \<Rightarrow> Some items | _ \<Rightarrow> None)"

definition digest_member :: "cvalue \<Rightarrow> string \<Rightarrow> (run_controller_error, digest) res" where
  "digest_member v name =
     bindR (ok_or (string_field v name) (run_invariant ''stored binding has no readable {name}'' [FStr name])) (\<lambda>t.
     ok_or (from_display t) (run_invariant ''stored binding {name} is not a sha256 digest'' [FStr name]))"

definition decode_binding_identity :: "string \<Rightarrow> (run_controller_error, frozen_binding_identity) res" where
  "decode_binding_identity json =
     bindR (map_sum (\<lambda>e. run_invariant ''stored binding is unreadable: {error}'' [FMsg (parse_error_display e)]) id (parse json)) (\<lambda>v.
     bindR (ok_or (get v ''componentDigests'') (run_invariant ''stored binding has no componentDigests'' [])) (\<lambda>components.
     bindR (digest_member v ''sandboxProfileDigest'') (\<lambda>profile.
     bindR (digest_member components ''executionProfiles'') (\<lambda>component.
     Inr \<lparr>fi_sandbox_profile_digest = profile, fi_execution_profiles_component = component\<rparr>))))"

definition binding_profile_identity ::
    "run_execution_view \<Rightarrow> ('y run_world, run_controller_error, frozen_binding_identity) controller" where
  "binding_profile_identity view =
     bindE (mapE RunStore (getE (binding_canonical_json (rv_binding_digest view)))) (\<lambda>found.
     bindE (someE found (run_invariant ''run {} binds {:?} which is not stored''
        [FStr (rv_run_id view), FStr (display (rv_binding_digest view))])) (\<lambda>json.
     liftE (decode_binding_identity json)))"

definition isolation_of :: "string \<Rightarrow> (message, isolation_class) res" where
  "isolation_of s =
     (if s = ''TRUSTED_HOST'' then Inr TrustedHost
      else if s = ''CONTAINER'' then Inr Container
      else Inl (Fmt ''unknown isolation class {other:?}'' [FStr s]))"

definition profile_text :: "cvalue \<Rightarrow> string \<Rightarrow> (message, string) res" where
  "profile_text v name = ok_or (string_field v name) (Fmt ''profile entry has no readable {name}'' [FStr name])"

definition text_item :: "cvalue \<Rightarrow> string option" where
  "text_item v = (case v of VString t \<Rightarrow> Some t | _ \<Rightarrow> None)"

definition decode_sandbox_profile :: "cvalue \<Rightarrow> (message, sandbox_profile) res" where
  "decode_sandbox_profile v =
     bindR (bindR (profile_text v ''isolationClass'') isolation_of) (\<lambda>isolation.
     bindR (bindR (profile_text v ''networkMode'') (\<lambda>mode.
        if mode = ''NONE'' then Inr NoNetwork else Inl (Fmt ''unknown network mode {other:?}'' [FStr mode]))) (\<lambda>network.
     let guarantees = (case array_field v ''guarantees'' of None \<Rightarrow> [] | Some items \<Rightarrow> List.map_filter text_item items) in
     bindR (profile_text v ''name'') (\<lambda>name.
     bindR (profile_text v ''environmentIdentity'') (\<lambda>environment.
     Inr \<lparr>sp_name = name, sp_isolation_class = isolation, sp_guarantees = guarantees,
       sp_network_mode = network, sp_environment_identity = environment\<rparr>))))"

definition find_frozen_profile ::
    "sha256 \<Rightarrow> string \<Rightarrow> frozen_binding_identity \<Rightarrow> string \<Rightarrow> (run_controller_error, sandbox_profile) res" where
  "find_frozen_profile sha run_id fi json =
     bindR (map_sum (\<lambda>e. run_invariant ''frozen execution profiles unreadable: {error}'' [FMsg (parse_error_display e)]) id (parse json)) (\<lambda>v.
     bindR (ok_or (array_field v ''profiles'') (run_invariant ''frozen execution profiles carry no profiles array'' [])) (\<lambda>entries.
     ok_or (List.find (\<lambda>p. sandbox_profile_digest sha p = fi_sandbox_profile_digest fi)
         (List.map_filter (\<lambda>entry. case decode_sandbox_profile entry of Inr p \<Rightarrow> Some p | Inl _ \<Rightarrow> None) entries))
       (run_invariant (''run {run_id}: frozen profiles do not contain the Binding'' @ [CHR 0x27] @ ''s sandbox identity'') [FStr run_id])))"

definition verify_policy_ready ::
    "sha256 \<Rightarrow> string \<Rightarrow> frozen_binding_identity \<Rightarrow> ('y run_world, run_controller_error, sandbox_profile) controller" where
  "verify_policy_ready sha run_id fi =
     bindE (mapE RunStore (readE (configuration_component_json sha (fi_execution_profiles_component fi)))) (\<lambda>found.
     bindE (someE found (run_invariant ''run {run_id}: frozen execution-profiles component is unavailable'' [FStr run_id])) (\<lambda>(_, json).
     liftE (find_frozen_profile sha run_id fi json)))"

section \<open>Preparation and T4\<close>

definition conclude_in_preparation ::
    "string \<Rightarrow> int \<Rightarrow> gate \<Rightarrow> ('y run_world, run_controller_error, run_outcome) controller" where
  "conclude_in_preparation run_id revision g =
     bindE (mapE RunStore (storeE (conclude_run run_id ''Failed'' revision))) (\<lambda>_.
     returnE (ConcludedInPreparation g))"

definition run_sandbox_plan :: "frozen_binding_identity \<Rightarrow> sandbox_profile \<Rightarrow> workspace_record \<Rightarrow> sandbox_plan" where
  "run_sandbox_plan fi profile ws =
     \<lparr>sb_sandbox_profile_digest = fi_sandbox_profile_digest fi,
      sb_environment_identity = sp_environment_identity profile,
      sb_mounts = [\<lparr>sm_source = wk_source_path ws, sm_destination = ''/workspace'', sm_read_only = False\<rparr>],
      sb_network_mode = (case sp_network_mode profile of NoNetwork \<Rightarrow> NetNone | Brokered \<Rightarrow> NetBrokered),
      sb_cpu_limit_millicores = None, sb_memory_limit_mb = None\<rparr>"

text \<open>WorkspaceReady; \<open>None\<close> when the gate is open.\<close>

definition workspace_gate :: "(string \<times> string) option \<Rightarrow> gate option" where
  "workspace_gate readiness = (case readiness of
     Some (phase, m) \<Rightarrow> if phase = ''Ready'' \<and> m = ''Present'' then None else Some (WorkspaceGate phase m)
   | None \<Rightarrow> Some FrozenWorkspaceUnavailable)"

text \<open>SandboxReady: the profile the Binding froze, the plan it yields, and its provisioning.\<close>

definition provision_for_run ::
    "sha256 \<Rightarrow> 'y reconciliation_deps \<Rightarrow> string \<Rightarrow> run_execution_view \<Rightarrow>
     ('y run_world, run_controller_error, frozen_binding_identity \<times> (sandbox_controller_error, sandbox_record) res) controller" where
  "provision_for_run sha deps run_id view =
     bindE (binding_profile_identity view) (\<lambda>fi.
     bindE (verify_policy_ready sha run_id fi) (\<lambda>profile.
     bindE (mapE RunStore (readE (workspace_for_task (rv_task_id view)))) (\<lambda>found.
     bindE (someE found (run_invariant ''run {run_id}: task {} has no current workspace'' [FStr run_id, FStr (rv_task_id view)])) (\<lambda>ws.
     let p = run_sandbox_plan fi profile ws in
     bindE (mapE RunStore (readE read_restore_generation)) (\<lambda>epoch.
     bindE (tryE (provision sha (lifted_backend (rd_sandbox deps))
        \<lparr>cmd_epoch = epoch, cmd_id = ''sandbox-provision-'' @ run_id,
         cmd_request_hash = as_bytes (sandbox_plan_digest sha p), cmd_event_type = ''sandbox.provisioned''\<rparr> run_id p)) (\<lambda>r.
     returnE (fi, r)))))))"

definition creation_command :: "sha256 \<Rightarrow> string \<Rightarrow> string \<Rightarrow> int \<Rightarrow> command" where
  "creation_command sha epoch run_id ordinal =
     \<lparr>cmd_epoch = epoch, cmd_id = ''t4-'' @ run_id @ ''-'' @ int_to_string ordinal,
      cmd_request_hash = as_bytes (value_digest sha (object [(''kind'', VString ''attempt.creation''),
        (''runId'', VString run_id), (''ordinal'', VInteger ordinal)])),
      cmd_event_type = ''run.attempt.created''\<rparr>"

text \<open>LaunchReady: one authoritative lineage creation, and its bearer kept in memory.\<close>

definition create_lineage ::
    "sha256 \<Rightarrow> 'y random_bytes \<Rightarrow> string \<Rightarrow> int \<Rightarrow> ('y run_world, run_controller_error, run_outcome) controller" where
  "create_lineage sha random run_id revision =
     bindE (mapE RunStore (getE (attempt_history_count run_id))) (\<lambda>used.
     let ordinal = int used + 1; attempt_id = derive_identifier sha ''attempt'' run_id ordinal;
         session_id = derive_identifier sha ''acs'' run_id ordinal in
     bindE (random_hex random) (\<lambda>launch_key.
     bindE (random_hex random) (\<lambda>bearer.
     bindE (mapE RunStore (readE read_restore_generation)) (\<lambda>epoch.
     bindE (mapE RunStore (storeE (create_attempt (creation_command sha epoch run_id ordinal)
        \<lparr>acn_run_id = run_id, acn_attempt_id = attempt_id, acn_launch_key = launch_key, acn_session_id = session_id,
         acn_credential_verifier = verifier sha bearer, acn_expected_run_status_revision = revision\<rparr>))) (\<lambda>committed.
     bindE (case committed of
         Executed _ _ \<Rightarrow> set_bearer attempt_id \<lparr>bs_bearer = bearer, bs_credential_revision = 1\<rparr>
       | Replayed _ _ \<Rightarrow> returnE ()) (\<lambda>_.
     returnE (AttemptEstablished attempt_id launch_key)))))))"

definition establish_attempt ::
    "sha256 \<Rightarrow> 'y random_bytes \<Rightarrow> 'y reconciliation_deps \<Rightarrow> string \<Rightarrow> run_execution_view \<Rightarrow>
     ('y run_world, run_controller_error, run_outcome) controller" where
  "establish_attempt sha random deps run_id view =
     bindE (mapE RunStore (getE (workspace_readiness run_id))) (\<lambda>readiness.
     case workspace_gate readiness of
       Some g \<Rightarrow> conclude_in_preparation run_id (rv_revision view) g
     | None \<Rightarrow>
         bindE (provision_for_run sha deps run_id view) (\<lambda>(fi, provisioned).
         case provisioned of
           Inl e \<Rightarrow> conclude_in_preparation run_id (rv_revision view) (SandboxGate e)
         | Inr _ \<Rightarrow>
             bindE (tryE (prepare_run_context sha run_id)) (\<lambda>prepared.
             case prepared of
               Inl (ContextStore e) \<Rightarrow> raiseE (RunStore e)
             | Inl e \<Rightarrow> conclude_in_preparation run_id (rv_revision view) (ContextGate e)
             | Inr _ \<Rightarrow>
                 bindE (verify_policy_ready sha run_id fi) (\<lambda>_.
                 create_lineage sha random run_id (rv_revision view)))))"

section \<open>Bearers and T4a\<close>

definition ensure_current_bearer ::
    "sha256 \<Rightarrow> 'y random_bytes \<Rightarrow> attempt_lineage \<Rightarrow> ('y run_world, run_controller_error, unit) controller" where
  "ensure_current_bearer sha random lineage =
     (let attempt_id = atr_id (al_attempt lineage); revision = sv_credential_revision (al_session lineage) in
     bindE (get_bearer attempt_id) (\<lambda>known.
     if map_option bs_credential_revision known = Some revision then returnE ()
     else
       bindE (random_hex random) (\<lambda>bearer.
       bindE (mapE RunStore (storeE (rekey_agent_control_session attempt_id (verifier sha bearer) revision))) (\<lambda>new_revision.
       set_bearer attempt_id \<lparr>bs_bearer = bearer, bs_credential_revision = new_revision\<rparr>))))"

section \<open>T4b and first contact\<close>

definition record_observation ::
    "string \<Rightarrow> observation_update \<Rightarrow> ('y run_world, run_controller_error, unit) controller" where
  "record_observation attempt_id upd =
     bindE (mapE RunStore (readE (attempt_status_revision attempt_id))) (\<lambda>revision.
     bindE (mapE RunStore (storeE (record_execution_observation attempt_id revision upd))) (\<lambda>_.
     returnE ()))"

definition attached_plan_digest :: "string \<Rightarrow> ('y run_world, run_controller_error, digest) controller" where
  "attached_plan_digest run_id =
     bindE (mapE RunStore (readE (read_run_execution_view run_id))) (\<lambda>view.
     someE (Option.bind view rv_context_plan_digest)
       (run_invariant ''run {run_id} has no attached plan at launch time'' [FStr run_id]))"

text \<open>The incarnation of the controller names the contact epoch.\<close>

definition launch ::
    "'y reconciliation_deps \<Rightarrow> string \<Rightarrow> string \<Rightarrow> attempt_lineage \<Rightarrow> ('y run_world, run_controller_error, run_outcome) controller" where
  "launch deps incarnation run_id lineage =
     bindE (requireE (el_launch_semantics (rd_launcher deps) = KeyedIdempotent)
        (run_invariant ''backend {} does not factually advertise KEYED_IDEMPOTENT semantics''
           [FStr (el_backend_id (rd_launcher deps))])) (\<lambda>_.
     let attempt_id = atr_id (al_attempt lineage) in
     bindE (attached_plan_digest run_id) (\<lambda>digest.
     bindE (get_bearer attempt_id) (\<lambda>known.
     bindE (someE known (run_invariant ''no current bearer for attempt {attempt_id}; refusing to launch'' [FStr attempt_id])) (\<lambda>b.
     bindE (mapE RunStore (storeE (mark_launch_contact run_id attempt_id incarnation (al_status_revision lineage)
        (sv_credential_revision (al_session lineage))))) (\<lambda>_.
     bindE (portE (outside (el_ensure_execution (rd_launcher deps)
        \<lparr>lp_launch_key = atr_launch_key (al_attempt lineage), lp_run_id = run_id, lp_attempt_id = attempt_id,
         lp_credential = bs_bearer b, lp_context_plan_digest = digest\<rparr>))) (\<lambda>answer.
     let obs = (case answer of Inr seen \<Rightarrow> seen | Inl _ \<Rightarrow> ObsUnknown);
         upd = (if obs = ObsExited then TerminalUpdate ObsExited else Observe obs) in
     bindE (record_observation attempt_id upd) (\<lambda>_.
     returnE (Launched attempt_id obs))))))))"

section \<open>Same-lineage reconciliation\<close>

definition decide_after_terminal ::
    "'y reconciliation_deps \<Rightarrow> string \<Rightarrow> string \<Rightarrow> ('y run_world, run_controller_error, run_outcome) controller" where
  "decide_after_terminal deps run_id attempt_id =
     bindE (mapE RunStore (getE (attempt_history_count run_id))) (\<lambda>used.
     if used < rd_max_attempts_per_run deps then returnE (RetryArmed attempt_id (int used + 1))
     else
       bindE (mapE RunStore (readE (read_run_execution_view run_id))) (\<lambda>view.
       bindE (someE (map_option rv_revision view)
          (run_invariant ''run {run_id} vanished during recovery decision'' [FStr run_id])) (\<lambda>revision.
       bindE (mapE RunStore (storeE (conclude_run run_id ''Failed'' revision))) (\<lambda>_.
       returnE (ConcludedAfterFailure attempt_id)))))"

definition reconcile_contacted ::
    "'y reconciliation_deps \<Rightarrow> attempt_lineage \<Rightarrow> ('y run_world, run_controller_error, run_outcome) controller" where
  "reconcile_contacted deps lineage =
     (let attempt_id = atr_id (al_attempt lineage) in
     bindE (portE (outside (el_inspect_execution (rd_launcher deps) (atr_launch_key (al_attempt lineage))))) (\<lambda>answer.
     case (case answer of Inr seen \<Rightarrow> seen | Inl _ \<Rightarrow> ObsUnknown) of
       ObsStarting \<Rightarrow> bindE (record_observation attempt_id (Observe ObsStarting)) (\<lambda>_. returnE (Reconciled attempt_id ObsStarting))
     | ObsRunning \<Rightarrow> bindE (record_observation attempt_id (Observe ObsRunning)) (\<lambda>_. returnE (Reconciled attempt_id ObsRunning))
     | ObsUnknown \<Rightarrow> bindE (record_observation attempt_id (Observe ObsUnknown)) (\<lambda>_. returnE (UnknownFenced attempt_id))
     | ObsAbsent \<Rightarrow> bindE (record_observation attempt_id (TerminalUpdate ObsAbsent)) (\<lambda>_.
         decide_after_terminal deps (atr_run_id (al_attempt lineage)) attempt_id)
     | ObsExited \<Rightarrow> bindE (record_observation attempt_id (TerminalUpdate ObsExited)) (\<lambda>_.
         decide_after_terminal deps (atr_run_id (al_attempt lineage)) attempt_id)))"

definition current_lineage :: "string \<Rightarrow> string \<Rightarrow> ('y run_world, run_controller_error, attempt_lineage) controller" where
  "current_lineage run_id attempt_id =
     bindE (mapE RunStore (readE (read_run_execution_view run_id))) (\<lambda>found.
     bindE (someE found (run_invariant ''run {run_id} vanished mid-reconciliation'' [FStr run_id])) (\<lambda>view.
     someE (rv_attempt view) (run_invariant ''attempt {attempt_id} is no longer current for run {run_id}''
        [FStr attempt_id, FStr run_id])))"

definition reconcile_lineage ::
    "sha256 \<Rightarrow> 'y random_bytes \<Rightarrow> 'y reconciliation_deps \<Rightarrow> string \<Rightarrow> string \<Rightarrow> attempt_lineage \<Rightarrow>
     ('y run_world, run_controller_error, run_outcome) controller" where
  "reconcile_lineage sha random deps incarnation run_id lineage =
     (if al_terminal lineage then decide_after_terminal deps run_id (atr_id (al_attempt lineage))
      else case al_launch_contact_state lineage of
        NotContacted \<Rightarrow>
          bindE (ensure_current_bearer sha random lineage) (\<lambda>_.
          bindE (current_lineage run_id (atr_id (al_attempt lineage))) (\<lambda>refreshed.
          launch deps incarnation run_id refreshed))
      | ContactMayHaveOccurred \<Rightarrow> reconcile_contacted deps lineage)"

definition reconcile_run ::
    "sha256 \<Rightarrow> 'y random_bytes \<Rightarrow> 'y reconciliation_deps \<Rightarrow> string \<Rightarrow> string \<Rightarrow>
     ('y run_world, run_controller_error, run_outcome) controller" where
  "reconcile_run sha random deps incarnation run_id =
     bindE (mapE RunStore (readE (read_run_execution_view run_id))) (\<lambda>found.
     case found of
       None \<Rightarrow> returnE UnknownRun
     | Some view \<Rightarrow>
         if rv_phase view \<noteq> ''Active'' then returnE (Inactive (rv_phase view))
         else (case rv_attempt view of
             None \<Rightarrow> establish_attempt sha random deps run_id view
           | Some lineage \<Rightarrow> reconcile_lineage sha random deps incarnation run_id lineage))"

definition reconcile_all ::
    "sha256 \<Rightarrow> 'y random_bytes \<Rightarrow> 'y reconciliation_deps \<Rightarrow> string \<Rightarrow>
     ('y run_world, store_error, (string \<times> (run_controller_error, run_outcome) res) list) controller" where
  "reconcile_all sha random deps incarnation =
     bindE (getE nonterminal_run_inventory) (\<lambda>inventory.
     foldE (\<lambda>results entry.
         bindE (tryE (reconcile_run sha random deps incarnation (rie_run_id entry))) (\<lambda>r.
         returnE (results @ [(rie_run_id entry, r)])))
       [] inventory)"

section \<open>What the controller keeps\<close>

lemma advances_run_cases [engine]:
  "advances sha a \<Longrightarrow> advances sha b \<Longrightarrow> advances sha (case v of NotContacted \<Rightarrow> a | ContactMayHaveOccurred \<Rightarrow> b)"
  "advances sha a \<Longrightarrow> advances sha b \<Longrightarrow> advances sha c \<Longrightarrow> advances sha d \<Longrightarrow> advances sha e \<Longrightarrow>
   advances sha (case u of ObsAbsent \<Rightarrow> a | ObsStarting \<Rightarrow> b | ObsRunning \<Rightarrow> c | ObsExited \<Rightarrow> d | ObsUnknown \<Rightarrow> e)"
  by (cases v; simp) (cases u; simp)

lemma advances_run_parts [engine]:
  "advances sha (set_bearer attempt_id b)" "advances sha (get_bearer attempt_id)"
  "advances sha (random_hex random)" "advances sha (binding_profile_identity view)"
  "advances sha (verify_policy_ready sha' run_id fi)"
  "advances sha (conclude_in_preparation run_id revision g)"
  "advances sha (record_observation attempt_id upd)"
  "advances sha (attached_plan_digest run_id)"
  "advances sha (current_lineage run_id attempt_id)"
  unfolding set_bearer_def get_bearer_def random_hex_def binding_profile_identity_def verify_policy_ready_def
    conclude_in_preparation_def record_observation_def attached_plan_digest_def current_lineage_def
  by (intro engine step.intros)+

lemma advances_establish [engine]:
  "advances sha (provision_for_run sha' deps run_id view)"
  "advances sha (create_lineage sha' random run_id revision)"
  unfolding provision_for_run_def create_lineage_def Let_def by (intro engine step.intros)+

lemma advances_context_case [engine]:
  "(\<And>e. advances sha (f e)) \<Longrightarrow> advances sha g \<Longrightarrow>
   advances sha (case e of ContextStore s \<Rightarrow> f s | _ \<Rightarrow> g)"
  by (cases e) simp_all

lemma advances_establish_attempt [engine]: "advances sha (establish_attempt sha random deps run_id view)"
  unfolding establish_attempt_def
  by (intro engine) (auto intro!: engine split: context_preparation_error.split)

lemma advances_lineage [engine]:
  "advances sha (ensure_current_bearer sha' random lineage)"
  "advances sha (launch deps incarnation run_id lineage)"
  "advances sha (decide_after_terminal deps run_id attempt_id)"
  unfolding ensure_current_bearer_def launch_def decide_after_terminal_def Let_def
  by (intro engine step.intros)+

lemma advances_reconcile [engine]:
  "advances sha (reconcile_contacted deps lineage)"
  unfolding reconcile_contacted_def Let_def by (intro engine)

lemma advances_reconcile_run [engine]:
  "advances sha (reconcile_run sha random deps incarnation run_id)"
  "advances sha (reconcile_all sha random deps incarnation)"
  unfolding reconcile_all_def reconcile_run_def reconcile_lineage_def
  by (intro engine)+

end
