(* ===== verification/Launch.thy ===== *)
theory Launch
  imports Engine_Run
begin

text \<open>
  The launch boundary of the Run Controller: over every interleaving with the other threads of the
  daemon, the launcher has only ever been asked to execute Attempts whose contact is on record.
\<close>

section \<open>What the ports of the Run Controller leave alone\<close>

text \<open>
  \<open>launched\<close> reads off the world outside the Attempts the launcher was asked to execute: asking it
  adds at most the Attempt of the package, inspection, entropy and the Sandbox runtime add none.
\<close>

definition launches_tracked ::
    "('y \<Rightarrow> string set) \<Rightarrow> 'y random_bytes \<Rightarrow> 'y reconciliation_deps \<Rightarrow> bool" where
  "launches_tracked launched random deps \<longleftrightarrow>
     (\<forall>y. launched (snd (random y)) = launched y)
     \<and> (\<forall>key p y. launched (snd (xb_ensure (rd_sandbox deps) key p y)) = launched y)
     \<and> (\<forall>key p y. launched (snd (xb_verify (rd_sandbox deps) key p y)) = launched y)
     \<and> (\<forall>key y. launched (snd (el_inspect_execution (rd_launcher deps) key y)) = launched y)
     \<and> (\<forall>package y. launched (snd (el_ensure_execution (rd_launcher deps) package y))
          \<subseteq> insert (lp_attempt_id package) (launched y))"

abbreviation seen :: "('y \<Rightarrow> 'v) \<Rightarrow> 'y run_world \<Rightarrow> 'v" where
  "seen launched x \<equiv> launched (rw_outside x)"

lemma untouched_outside [engine]:
  "(\<And>y. launched (snd (p y)) = launched y) \<Longrightarrow> untouched (seen launched) (portE (outside p))"
  by (rule untouched_port) (simp add: outside_def split: prod.split, metis snd_conv)

lemma untouched_bearers [engine]:
  "untouched (seen launched) (set_bearer aid b)" "untouched view (get_bearer aid)"
  unfolding set_bearer_def get_bearer_def by (intro engine; simp)+

lemma untouched_sandbox_cases [engine]:
  "untouched view a \<Longrightarrow> untouched view b \<Longrightarrow> untouched view c \<Longrightarrow> untouched view d \<Longrightarrow> untouched view e \<Longrightarrow> untouched view f \<Longrightarrow>
   untouched view (case p of SRequested \<Rightarrow> a | SPreparing \<Rightarrow> b | SReady \<Rightarrow> c | SReleasing \<Rightarrow> d | SReleased \<Rightarrow> e | SError \<Rightarrow> f)"
  by (cases p) simp_all

lemma untouched_run_cases [engine]:
  "untouched view a \<Longrightarrow> untouched view b \<Longrightarrow> untouched view c \<Longrightarrow> untouched view d \<Longrightarrow> untouched view e \<Longrightarrow>
   untouched view (case u of ObsAbsent \<Rightarrow> a | ObsStarting \<Rightarrow> b | ObsRunning \<Rightarrow> c | ObsExited \<Rightarrow> d | ObsUnknown \<Rightarrow> e)"
  by (cases u) simp_all

lemma untouched_sandbox_parts [engine]:
  "untouched view (sandbox_of_run run_id missing)"
  "untouched view (settle_sandbox run_id committed)"
  "untouched view (record_probe_evidence sha c run_id key p v)"
  "untouched view (begin_preparation c run_id key record)"
  unfolding settle_sandbox_def sandbox_of_run_def record_probe_evidence_def begin_preparation_def
  by (intro engine)+

lemma untouched_acquire [engine]: "untouched view (acquire_sandbox sha c run_id key p)"
  unfolding acquire_sandbox_def
  by (intro engine) (auto intro: engine split: sum.split store_error.split)

lemma untouched_provision [engine]:
  assumes "\<And>key p y. launched (snd (xb_ensure b key p y)) = launched y"
    and "\<And>key p y. launched (snd (xb_verify b key p y)) = launched y"
  shows "untouched (seen launched) (provision sha (lifted_backend b) c run_id p)"
  unfolding provision_def prepare_sandbox_def verify_and_complete_def lifted_backend_def sandbox_backend.simps
  by (intro engine assms)

lemma untouched_run_parts [engine]:
  "untouched view (binding_profile_identity x)" "untouched view (verify_policy_ready sha run_id fi)"
  "untouched view (conclude_in_preparation run_id revision g)" "untouched view (record_observation aid upd)"
  "untouched view (attached_plan_digest run_id)" "untouched view (current_lineage run_id aid)"
  "untouched view (decide_after_terminal deps run_id aid)"
  unfolding binding_profile_identity_def verify_policy_ready_def conclude_in_preparation_def
    record_observation_def attached_plan_digest_def current_lineage_def decide_after_terminal_def
  by (intro engine)+

lemma untouched_random [engine]:
  "(\<And>y. launched (snd (random y)) = launched y) \<Longrightarrow> untouched (seen launched) (random_hex random)"
  unfolding random_hex_def by (intro engine)

lemma untouched_establish:
  assumes "launches_tracked launched random deps"
  shows "untouched (seen launched) (establish_attempt sha random deps run_id x)"
    and "untouched (seen launched) (ensure_current_bearer sha random lineage)"
    and "untouched (seen launched) (reconcile_contacted deps lineage)"
proof -
  have ports: "launched (snd (random y)) = launched y"
    "launched (snd (xb_ensure (rd_sandbox deps) key p y)) = launched y"
    "launched (snd (xb_verify (rd_sandbox deps) key p y)) = launched y"
    "launched (snd (el_inspect_execution (rd_launcher deps) key y)) = launched y" for key p y
    using assms by (simp_all add: launches_tracked_def)
  have 1: "untouched (seen launched) (provision_for_run sha deps run_id x)"
    "untouched (seen launched) (create_lineage sha random run_id revision)" for revision
    unfolding provision_for_run_def create_lineage_def Let_def by (intro engine ports)+
  show "untouched (seen launched) (establish_attempt sha random deps run_id x)"
    unfolding establish_attempt_def
    by (intro engine 1) (auto intro!: engine 1 split: context_preparation_error.split)
  show "untouched (seen launched) (ensure_current_bearer sha random lineage)"
    unfolding ensure_current_bearer_def Let_def by (intro engine ports)
  show "untouched (seen launched) (reconcile_contacted deps lineage)"
    unfolding reconcile_contacted_def Let_def by (intro engine ports)
qed

section \<open>Launched Attempts are on record\<close>

definition on_record :: "sha256 \<Rightarrow> ('y \<Rightarrow> string set) \<Rightarrow> 'y run_world world \<Rightarrow> bool" where
  "on_record sha launched w \<longleftrightarrow> other_steps sha w \<and> schema_ok (the_database w)
     \<and> (\<forall>aid \<in> launched (rw_outside (external w)). contacted_attempt aid (the_database w))"

definition maintains :: "sha256 \<Rightarrow> ('y \<Rightarrow> string set) \<Rightarrow> ('y run_world, 'e, 'a) controller \<Rightarrow> bool" where
  "maintains sha launched m \<longleftrightarrow> (\<forall>w. on_record sha launched w \<longrightarrow> on_record sha launched (snd (m w)))"

lemma maintainsD: "maintains sha launched m \<Longrightarrow> on_record sha launched w \<Longrightarrow> m w = (r, w') \<Longrightarrow> on_record sha launched w'"
  unfolding maintains_def by (metis snd_conv)

lemma contacts_last:
  assumes "advances sha m" "m w = (r, w')" "on_record sha launched w"
  shows "other_steps sha w'" and "schema_ok (the_database w')"
    and "contacted_attempt aid (the_database w) \<Longrightarrow> contacted_attempt aid (the_database w')"
proof -
  have ok: "other_steps sha w" "schema_ok (the_database w)" using assms(3) by (simp_all add: on_record_def)
  note steps = advancesD(1) [OF assms(1,2) ok(1)]
  show "other_steps sha w'" by (rule advancesD(2) [OF assms(1,2) ok(1)])
  show "contacted_attempt aid (the_database w) \<Longrightarrow> contacted_attempt aid (the_database w')"
    using contacted.steps_preserve [OF steps ok(2)] by blast
  show "schema_ok (the_database w')"
    by (rule steps_schema_ok [OF steps ok(2)])
qed

lemma maintains_quiet:
  assumes "advances sha m" and "untouched (seen launched) m"
  shows "maintains sha launched m"
  unfolding maintains_def
proof (intro allI impI)
  fix w assume ok: "on_record sha launched w"
  obtain r w' where m: "m w = (r, w')" by fastforce
  from contacts_last [OF assms(1) m ok] ok untouchedD [OF assms(2) m] m
  show "on_record sha launched (snd (m w))" by (auto simp: on_record_def)
qed

lemma maintains_bind:
  assumes "maintains sha launched m" and "\<And>x. maintains sha launched (f x)"
  shows "maintains sha launched (bindE m f)"
  unfolding maintains_def
proof (intro allI impI)
  fix w assume ok: "on_record sha launched w"
  obtain r w' where m: "m w = (r, w')" by fastforce
  note w' = maintainsD [OF assms(1) ok m]
  from m show "on_record sha launched (snd (bindE m f w))"
    using w' assms(2) [unfolded maintains_def, rule_format, OF w']
    by (cases r) (simp_all add: bindE_def)
qed

text \<open>First contact: the mark is committed before the launcher is called, for the same Attempt.\<close>

lemma maintains_contact:
  assumes tracked: "launches_tracked launched random deps" and same: "lp_attempt_id package = aid"
    and rest: "\<And>x. maintains sha launched (f x)"
  shows "maintains sha launched (bindE (mapE E (storeE (mark_launch_contact rid aid epoch expected credential))) (\<lambda>_.
    bindE (portE (outside (el_ensure_execution (rd_launcher deps) package))) f))"
  unfolding maintains_def
proof (intro allI impI)
  fix w assume ok: "on_record sha launched w"
  let ?mark = "storeE (mark_launch_contact rid aid epoch expected credential) :: ('a run_world, store_error, unit) controller"
  let ?call = "portE (outside (el_ensure_execution (rd_launcher deps) package))"
  obtain q w1 where mark: "?mark w = (q, w1)" by fastforce
  have adv: "advances sha ?mark" and quiet: "untouched (seen launched) ?mark" by (intro engine step.intros)+
  note w1 = maintainsD [OF maintains_quiet [OF adv quiet] ok mark]
  show "on_record sha launched (snd (bindE (mapE E ?mark) (\<lambda>_. bindE ?call f) w))"
  proof (cases q)
    case (Inl e)
    with mark w1 show ?thesis by (simp add: bindE_def mapE_def)
  next
    case (Inr u)
    have "schema_ok (the_database (interfere w))"
      using ok steps_schema_ok [OF interfere_steps] by (auto simp: on_record_def)
    with mark Inr have aid: "contacted_attempt aid (the_database w1)"
      by (auto simp: storeE_iff intro: launch_contact_recorded)
    obtain answer y where p: "el_ensure_execution (rd_launcher deps) package (rw_outside (external w1)) = (answer, y)"
      by fastforce
    define w2 where "w2 = w1\<lparr>external := (external w1)\<lparr>rw_outside := y\<rparr>\<rparr>"
    have "launched (rw_outside (external w2)) \<subseteq> insert aid (launched (rw_outside (external w1)))"
      "shared_state w2 = shared_state w1" "others w2 = others w1"
      using tracked same p by (simp_all add: w2_def launches_tracked_def) (metis snd_conv)
    with w1 aid have "on_record sha launched w2" by (auto simp: on_record_def other_steps_def)
    from rest [unfolded maintains_def, rule_format, OF this] show ?thesis
      using mark Inr by (simp add: bindE_def mapE_def portE_def outside_def p w2_def [symmetric])
  qed
qed

lemma maintains_simple:
  "maintains sha launched (returnE x)" "maintains sha launched (liftE r)"
  "maintains sha launched (someE x' e)" "maintains sha launched (requireE b e)"
  by (intro maintains_quiet engine)+

lemma maintains_launch:
  assumes "launches_tracked launched random deps"
  shows "maintains sha launched (launch deps incarnation run_id lineage)"
proof -
  have leaf: "maintains sha launched (attached_plan_digest run_id)" "maintains sha launched (get_bearer aid)"
    "maintains sha launched (record_observation aid upd)" for aid upd
    by (rule maintains_quiet; intro engine)+
  show ?thesis
    unfolding launch_def Let_def
    by (rule launch_package.simps leaf maintains_simple | rule maintains_contact [OF assms] | rule maintains_bind)+
qed

lemma maintains_reconcile_run:
  assumes tracked: "launches_tracked launched random deps"
  shows "maintains sha launched (reconcile_run sha random deps incarnation run_id)"
proof -
  note quiet = untouched_establish [OF tracked]
  have "maintains sha launched (reconcile_lineage sha random deps incarnation run_id lineage)" for lineage
  proof (cases "al_launch_contact_state lineage")
    case NotContacted
    have "maintains sha launched (bindE (ensure_current_bearer sha random lineage) (\<lambda>_.
        bindE (current_lineage run_id (atr_id (al_attempt lineage))) (launch deps incarnation run_id)))"
      by (intro maintains_bind maintains_launch [OF tracked]; rule maintains_quiet; intro engine quiet)
    then show ?thesis
      unfolding reconcile_lineage_def
      by (cases "al_terminal lineage") (simp_all add: NotContacted maintains_quiet engine)
  next
    case ContactMayHaveOccurred
    show ?thesis
      unfolding reconcile_lineage_def
      by (cases "al_terminal lineage") (simp_all add: ContactMayHaveOccurred maintains_quiet engine quiet)
  qed
  then have rest: "maintains sha launched (case found of None \<Rightarrow> returnE UnknownRun
     | Some view \<Rightarrow> if rv_phase view \<noteq> ''Active'' then returnE (Inactive (rv_phase view))
         else (case rv_attempt view of
             None \<Rightarrow> establish_attempt sha random deps run_id view
           | Some lineage \<Rightarrow> reconcile_lineage sha random deps incarnation run_id lineage))" for found
    by (auto split: option.split intro!: maintains_simple maintains_quiet engine quiet)
  show ?thesis
    unfolding reconcile_run_def
    by (intro maintains_bind rest; rule maintains_quiet; intro engine)
qed

lemma maintains_try: "maintains sha launched m \<Longrightarrow> maintains sha launched (tryE m)"
  by (auto simp: maintains_def tryE_def split: prod.splits)

lemma maintains_fold:
  "(\<And>s a. maintains sha launched (f s a)) \<Longrightarrow> maintains sha launched (foldE f s as)"
  by (induction as arbitrary: s) (auto intro: maintains_simple maintains_bind)

lemma maintains_reconcile_all:
  assumes "launches_tracked launched random deps"
  shows "maintains sha launched (reconcile_all sha random deps incarnation)"
  unfolding reconcile_all_def
  by (rule maintains_bind maintains_fold maintains_try maintains_simple maintains_reconcile_run [OF assms]
    | (rule maintains_quiet; intro engine))+

end
