(* ===== verification/Controllers.thy ===== *)
theory Controllers
  imports Engine_Agent_Control Engine_Operator Launch Authority
begin

text \<open>
  The daemon as a state machine: one step is a controller operation, interleaved with whatever the
  other threads do between its accesses to the store.
\<close>

section \<open>The steps of the daemon\<close>

inductive controller_step :: "sha256 \<Rightarrow> 'y run_world world \<Rightarrow> 'y run_world world \<Rightarrow> bool" for sha where
  controller_load: "controller_step sha w (snd (load_configuration sha sources w))"
| controller_activate: "controller_step sha w (snd (activate sha c sources w))"
| controller_status: "controller_step sha w (snd (status_of sha sources w))"
| controller_goal: "controller_step sha w (snd (operator_create_goal sha ident spec w))"
| controller_cancel: "controller_step sha w (snd (operator_cancel_goal ident goal_id w))"
| controller_dispatch: "controller_step sha w (snd (set_dispatch ident mode event expected w))"
| controller_schedule: "controller_step sha w (snd (schedule_once sha backends w))"
| controller_workspace: "controller_step sha w (snd (ensure_workspace sha root mz wc wid task_id request w))"
| controller_context: "controller_step sha w (snd (prepare_run_context sha run_id w))"
| controller_runs: "controller_step sha w (snd (reconcile_all sha random deps incarnation w))"
| controller_sandbox: "controller_step sha w (snd (reconcile_sandbox backend c record w))"
| controller_release: "controller_step sha w (snd (controller_begin_release backend c key expected w))"
| controller_released: "controller_step sha w (snd (controller_complete_release c key expected observed w))"
| controller_seal: "controller_step sha w (snd (seal sha root ports sc request' w))"
| controller_describe: "controller_step sha w (snd (gateway_describe sha cred w))"
| controller_agent_seal: "controller_step sha w (snd (seal_artifact sha root ports cred request_id slot w))"
| controller_submit: "controller_step sha w (snd (submit_result sha cred submission w))"
| controller_goals: "controller_step sha w (snd (operator_goals w))"
| controller_events: "controller_step sha w (snd (operator_events_after cursor limit w))"
| controller_system: "controller_step sha w (snd (operator_system version w))"

lemma advances_configuration [engine]:
  "advances sha (load_configuration sha' sources)" "advances sha (status_of sha' sources)"
  unfolding load_configuration_def status_of_def Let_def by (intro engine)+

lemma advances_activate [engine]: "advances sha (activate sha c sources)"
  unfolding activate_def publish_committed_def by (intro engine step.intros)

lemma advances_steps:
  "advances sha m \<Longrightarrow> other_steps sha w \<Longrightarrow>
   (step sha)\<^sup>*\<^sup>* (the_store w) (the_store (snd (m w))) \<and> others (snd (m w)) = others w"
  by (simp add: advances_def)

lemma controller_step_steps:
  assumes "controller_step sha w w'" and "other_steps sha w"
  shows "(step sha)\<^sup>*\<^sup>* (the_store w) (the_store w') \<and> others w' = others w"
  using assms(1) by cases (simp_all only:, (rule advances_steps [OF _ assms(2)], intro engine)+)

lemma controller_steps:
  assumes "(controller_step sha)\<^sup>*\<^sup>* w w'" and "other_steps sha w"
  shows "(step sha)\<^sup>*\<^sup>* (the_store w) (the_store w')"
proof -
  from assms have "(step sha)\<^sup>*\<^sup>* (the_store w) (the_store w') \<and> others w' = others w"
  proof (induction rule: rtranclp_induct)
    case (step u v)
    then have "other_steps sha u" by (simp add: other_steps_def)
    from controller_step_steps [OF step.hyps(2) this] step show ?case by (auto intro: rtranclp_trans)
  qed simp
  then show ?thesis by simp
qed

section \<open>Worlds to evaluate in\<close>

definition quiet_world :: "store \<Rightarrow> 'x \<Rightarrow> 'x world" where
  "quiet_world s x = \<lparr>shared_state = \<lparr>sh_store = s, sh_published = None, sh_poisoned = False\<rparr>, external = x,
     others = (\<lambda>_ sh. sh), reader_fault = (\<lambda>_. False), reader_clock = (\<lambda>_. 1000), accesses = 0\<rparr>"

lemma quiet_world_simps [simp]:
  "the_store (quiet_world s x) = s" "external (quiet_world s x) = x" "other_steps sha (quiet_world s x)"
  by (simp_all add: quiet_world_def other_steps_def)

section \<open>Authority under concurrency\<close>

text \<open>
  C5. The daemon keeps its authority consistent whatever interleaves. Start from a reachable store
  and run any sequence of controller operations, each interrupted before every access by arbitrary
  store operations of the other threads and with arbitrary ports: the store reached is reachable,
  satisfies its schema, has a gap-free journal that agrees with the command ledger, one execution
  slot, unique service charges below the counter, eligibility timestamps for exactly the eligible
  Tasks, and revoked sessions for terminal Attempts.
\<close>

theorem daemon_keeps_authority:
  assumes "reachable sha (the_store w)" and "other_steps sha w" and "(controller_step sha)\<^sup>*\<^sup>* w w'"
  shows "reachable sha (the_store w') \<and> schema_ok (the_database w') \<and> journal_inv (the_database w')
    \<and> slot_inv (the_database w') \<and> charge_inv (the_database w') \<and> ready_inv (the_database w')
    \<and> attempt_inv (the_database w')"
proof -
  have r: "reachable sha (the_store w')"
    using controller_steps [OF assms(3,2)] assms(1) by (auto simp: reachable_def intro: rtranclp_trans)
  then show ?thesis
    using journal.reachable_holds [OF bootstrap_invariants(1) r] slot.reachable_holds [OF bootstrap_invariants(2) r]
      charge.reachable_holds [OF bootstrap_invariants(3) r] ready.reachable_holds [OF bootstrap_invariants(4) r]
      attempt.reachable_holds [OF bootstrap_invariants(5) r] by blast
qed

theorem daemon_keeps_authority_witness:
  "slot_inv (the_database (snd (pause_dispatch \<lparr>ci_epoch = example_generation, ci_id = ''again'', ci_request_hash = example_bytes\<rparr> 2
     (quiet_world paused_store \<lparr>rw_bearers = (\<lambda>_. None), rw_outside = ()\<rparr>))))"
proof -
  let ?w = "quiet_world paused_store \<lparr>rw_bearers = (\<lambda>_. None), rw_outside = ()\<rparr>"
  have "reachable (\<lambda>_. []) (the_store ?w)" by (simp add: paused_store_reachable)
  moreover have "(controller_step (\<lambda>_. []))\<^sup>*\<^sup>* ?w (snd (pause_dispatch
      \<lparr>ci_epoch = example_generation, ci_id = ''again'', ci_request_hash = example_bytes\<rparr> 2 ?w))"
    unfolding pause_dispatch_def by (intro r_into_rtranclp controller_dispatch)
  ultimately show ?thesis using daemon_keeps_authority [of "\<lambda>_. []" ?w] by simp
qed

section \<open>The launch boundary\<close>

text \<open>
  C6. Contact is recorded before it is made. Let \<open>launched\<close> show which Attempts the launcher has
  been asked to execute. If every one of them is durably marked as possibly contacted, then after a
  reconciliation of the whole inventory, with arbitrary interleaving of the other threads, failing
  reads, writes and entropy, every Attempt launched until then is still or newly so marked: no
  execution ever exists that a crash could make the store forget.
\<close>

theorem launch_follows_contact:
  assumes "launches_tracked launched random deps" and "other_steps sha w" and "schema_ok (the_database w)"
    and "launched (rw_outside (external w)) \<subseteq> {aid. contacted_attempt aid (the_database w)}"
    and "reconcile_all sha random deps incarnation w = (r, w')"
  shows "launched (rw_outside (external w')) \<subseteq> {aid. contacted_attempt aid (the_database w')}"
  using maintainsD [OF maintains_reconcile_all [OF assms(1)] _ assms(5)] assms(2-4) by (auto simp: on_record_def)

definition demo_deps :: "string set reconciliation_deps" where
  "demo_deps = \<lparr>rd_launcher = \<lparr>el_backend_id = ''demo'', el_launch_semantics = KeyedIdempotent,
       el_ensure_execution = (\<lambda>package y. (Inr ObsRunning, insert (lp_attempt_id package) y)),
       el_inspect_execution = (\<lambda>_ y. (Inr ObsRunning, y))\<rparr>,
     rd_sandbox = \<lparr>xb_ensure = (\<lambda>_ _ y. (Inr PPresent, y)), xb_inspect = (\<lambda>_ y. (Inr PPresent, y)),
       xb_release = (\<lambda>_ y. (Inr (), y)), xb_verify = (\<lambda>_ _ y. (Inl ''unavailable'', y))\<rparr>,
     rd_max_attempts_per_run = 2\<rparr>"

theorem launch_follows_contact_witness:
  "rw_outside (external (snd (reconcile_all (\<lambda>_. []) (\<lambda>y. (Inl ''no entropy'', y)) demo_deps ''i''
      (quiet_world (example_store example_db) \<lparr>rw_bearers = (\<lambda>_. None), rw_outside = {''a1''}\<rparr>))))
    \<subseteq> {aid. contacted_attempt aid (the_database (snd (reconcile_all (\<lambda>_. []) (\<lambda>y. (Inl ''no entropy'', y)) demo_deps ''i''
      (quiet_world (example_store example_db) \<lparr>rw_bearers = (\<lambda>_. None), rw_outside = {''a1''}\<rparr>))))}"
proof -
  let ?w = "quiet_world (example_store example_db) \<lparr>rw_bearers = (\<lambda>_. None), rw_outside = {''a1''}\<rparr>"
  have tracked: "launches_tracked (\<lambda>y. y) (\<lambda>y. (Inl ''no entropy'', y)) demo_deps"
    by (simp add: launches_tracked_def demo_deps_def)
  have "schema_ok (the_database ?w)" by (simp add: example_db_ok)
  moreover have "contacted_attempt ''a1'' (the_database ?w)"
    by (simp add: contacted_attempt_def find_attempt_status_def evaluate_example)
  ultimately show ?thesis
    using launch_follows_contact [OF tracked _ _ _ prod.collapse [symmetric], of "\<lambda>_. []" ?w "''i''"] by simp
qed

section \<open>Publication of the configuration\<close>

text \<open>
  C22. The publication barrier. Activating a source that does not compile, or whose activation the
  store refuses, leaves what is published as it was when the barrier was taken. An executed
  activation publishes exactly the committed identity together with the semantics compiled from the
  activated source, whose digest is that identity. A replayed one publishes the compiled semantics
  under the current identity only if their digests agree, and otherwise leaves what is published.
\<close>

theorem activation_publishes_committed:
  "case activate sha c sources w of
     (Inl _, w') \<Rightarrow> sh_published (shared_state w') \<in> {sh_published (shared_state w), sh_published (shared_state (interfere w))}
   | (Inr (Executed v _), w') \<Rightarrow> \<exists>k. compile_sources sources = Inr k \<and> revision_digest sha k = acr_content_digest v
       \<and> sh_published (shared_state w') = Some \<lparr>sps_active = v, sps_compiled = Some k\<rparr>
   | (Inr (Replayed _ _), w') \<Rightarrow> sh_published (shared_state w') = sh_published (shared_state (interfere w))
       \<or> (\<exists>k v. compile_sources sources = Inr k \<and> revision_digest sha k = acr_content_digest v
           \<and> sh_published (shared_state w') = Some \<lparr>sps_active = v, sps_compiled = Some k\<rparr>)"
proof (cases "compile_sources sources")
  case (Inl e)
  then show ?thesis by (simp add: activate_def engine_defs)
next
  case (Inr k)
  then show ?thesis
    by (auto simp: activate_def engine_defs with_lock_def publish_committed_def snapshot_new_def set_published_def
        exclusive_def Let_def split: prod.splits sum.splits committed.splits option.splits if_splits)
qed

section \<open>The frozen Sandbox profile\<close>

lemma map_filter_text_item [simp]: "List.map_filter text_item (map VString xs) = xs"
  by (induction xs) (simp_all add: text_item_def List.map_filter_simps)

text \<open>
  What a Run can be prepared with. Decoding the stored form of a Sandbox profile returns the
  profile, guarantees in canonical order, exactly when it has no network; a profile with brokered
  network access, which the configuration compiler accepts, is never decoded.
\<close>

theorem frozen_profile_decodes:
  "decode_sandbox_profile (sandbox_profile_to_value p) =
     (if sp_network_mode p = NoNetwork then Inr (p\<lparr>sp_guarantees := sort (sp_guarantees p)\<rparr>)
      else Inl (Fmt ''unknown network mode {other:?}'' [FStr ''BROKERED'']))"
  by (cases p; cases "sp_isolation_class p"; cases "sp_network_mode p")
    (simp_all add: decode_sandbox_profile_def sandbox_profile_to_value_def object_def btree_of_def profile_text_def
      string_field_def array_field_def isolation_of_def ok_or_def set_strings_def)

end
