(* ===== verification/External_Effects.thy ===== *)
theory External_Effects
  imports Engine_Agent_Control Controllers
begin

text \<open>
  What the controllers do to the world outside: a Workspace that may hold an Agent's work is never
  rebuilt, a sealed change set is exactly the authorised difference to the base, and a settled
  request is never driven again.
\<close>

section \<open>Workspaces\<close>

lemma drive_held_workspace:
  assumes "reads_only mz" and "wk_phase ws \<notin> {WRequested, WMaterializing, WError}"
    and "drive_workspace root mz c ws w = (r, w')"
  shows "external w' = external w \<and> shared_state w' = shared_state w
    \<and> (case r of Inl _ \<Rightarrow> True | Inr v \<Rightarrow> v = ws \<and> wk_phase ws = WReady
          \<and> fst (mz_observe mz (target_of root ws) (external w)) = Inr MPresent)"
proof -
  obtain answer where answer: "mz_observe mz (target_of root ws) (external w) = (answer, external w)"
    using assms(1) unfolding reads_only_def by (metis prod.collapse)
  show ?thesis
    using assms(2,3) answer
    by (cases answer)
      (auto simp: drive_workspace_def reopen_def engine_iff portE_def ok_or_def ensure_def split: sum.splits if_splits)
qed

text \<open>
  C19. A Workspace that holds work is never rebuilt. When the Task's current Workspace, as the
  controller reads it, is Ready, Frozen, Releasing or Released, ensuring the Workspace changes
  nothing outside and nothing in the store: it returns that very Workspace, Ready and observed
  present, or it fails.
\<close>

theorem held_workspace_untouched:
  assumes "reads_only mz" and "workspace_for_task task_id (the_database (interfere w)) = Inr (Some ws)"
    and "wk_phase ws \<notin> {WRequested, WMaterializing, WError}"
  shows "external (snd (ensure_workspace sha root mz c wid task_id request w)) = external w
    \<and> the_store (snd (ensure_workspace sha root mz c wid task_id request w)) = the_store (interfere w)
    \<and> (case fst (ensure_workspace sha root mz c wid task_id request w) of Inl _ \<Rightarrow> True
       | Inr v \<Rightarrow> v = ws \<and> wk_phase ws = WReady \<and> fst (mz_observe mz (target_of root ws) (external w)) = Inr MPresent)"
proof -
  obtain r w' where run: "ensure_workspace sha root mz c wid task_id request w = (r, w')" by fastforce
  from run assms(2) consider e where "r = Inl e" "w' = interfere w"
    | "drive_workspace root mz c ws (interfere w) = (r, w')"
    by (auto simp: ensure_workspace_def engine_iff split: if_splits)
  then show ?thesis
  proof cases
    case 1
    then show ?thesis by (simp add: run)
  next
    case 2
    from drive_held_workspace [OF assms(1,3) 2] show ?thesis by (cases r) (simp_all add: run)
  qed
qed

definition demo_materializer :: "nat materializer" where
  "demo_materializer = \<lparr>mz_resolve_base = (\<lambda>_ _ x. (Inr [], x)), mz_materialize = (\<lambda>_ x. (Inr [], Suc x)),
     mz_observe = (\<lambda>_ x. (Inr MPresent, x)), mz_discard = (\<lambda>_ x. (Inr (), Suc x))\<rparr>"

theorem held_workspace_untouched_witness:
  "external (snd (ensure_workspace (\<lambda>_. []) ''/root'' demo_materializer
     \<lparr>wc_epoch = example_generation, wc_id = ''c'', wc_request_hash = example_bytes\<rparr> ''w9'' ''t1''
     \<lparr>wq_source = ''/src'', wq_requested_base = ''main''\<rparr> (quiet_world (example_store example_db) 0))) = 0"
proof -
  have "reads_only demo_materializer" by (simp add: reads_only_def demo_materializer_def)
  moreover have "\<exists>ws. workspace_for_task ''t1'' (the_database (interfere (quiet_world (example_store example_db) 0)))
      = Inr (Some ws) \<and> wk_phase ws \<notin> {WRequested, WMaterializing, WError}"
    by (simp add: interfere_def quiet_world_def workspace_for_task_def current_workspace_def decode_workspace_def
        workspace_phase_parse_def materialization_parse_def parse_requested_def parse_resolved_def resolved_base_parse_def
        requested_base_parse_def max_requested_base_len_def is_lower_hex_def ends_with_def check_ref_char_def
        res_simps evaluate_example)
  ultimately show ?thesis using held_workspace_untouched by fastforce
qed

section \<open>Sealing\<close>


lemma map_sum_Inr: "Inr x = map_sum f id q \<longleftrightarrow> q = Inr x" "map_sum f id q = Inr x \<longleftrightarrow> q = Inr x"
  by (cases q; auto)+







subsection \<open>The difference\<close>

definition changed :: "(string \<times> base_object) list \<Rightarrow> capture_progress \<Rightarrow> string \<times> captured_state \<Rightarrow> bool" where
  "changed base g entry \<longleftrightarrow> (case map_of base (fst entry) of
     None \<Rightarrow> True
   | Some before \<Rightarrow> \<not> unchanged (cg_identities g) (fst entry) before (snd entry))"

definition preimage :: "base_object \<Rightarrow> entry_state \<Rightarrow> bool" where
  "preimage before st \<longleftrightarrow> (\<exists>blob. st = Present (bo_kind before) blob (bo_size before))"

text \<open>What one entry of the change set says of a captured path, and of a deleted one.\<close>

definition records_change ::
    "(string \<times> base_object) list \<Rightarrow> capture_progress \<Rightarrow> string \<times> captured_state \<Rightarrow> changeset_entry \<Rightarrow> bool" where
  "records_change base g entry e \<longleftrightarrow> ce_path e = RepositoryPath (fst entry) \<and> ce_after e = after_state (snd entry)
     \<and> fst entry \<notin> set (cg_unpublished g)
     \<and> (case map_of base (fst entry) of
          None \<Rightarrow> ce_operation e = Add \<and> ce_before e = Absent
        | Some before \<Rightarrow> ce_operation e = Modify \<and> preimage before (ce_before e))"

definition records_deletion :: "workspace_scope \<Rightarrow> string \<times> base_object \<Rightarrow> changeset_entry \<Rightarrow> bool" where
  "records_deletion scope entry e \<longleftrightarrow> ce_path e = RepositoryPath (fst entry) \<and> ce_operation e = Delete
     \<and> preimage (snd entry) (ce_before e) \<and> ce_after e = Absent \<and> authorizes scope (RepositoryPath (fst entry))"

lemma foldE_appends:
  assumes "\<And>s a s' w w'. f s a w = (Inr s', w') \<Longrightarrow>
      (if Q a then \<exists>e. s' = s @ [e] \<and> R a e else s' = s)"
  shows "foldE f s as w = (Inr s', w') \<Longrightarrow> \<exists>es. s' = s @ es \<and> list_all2 R (filter Q as) es"
proof (induction as arbitrary: s w)
  case Nil
  then show ?case by (simp add: engine_iff)
next
  case (Cons a as)
  then obtain s1 w1 where f: "f s a w = (Inr s1, w1)" and rest: "foldE f s1 as w1 = (Inr s', w')"
    by (auto simp: engine_iff)
  from Cons.IH [OF rest] obtain es where es: "s' = s1 @ es" "list_all2 R (filter Q as) es" by blast
  show ?case
  proof (cases "Q a")
    case True
    with assms [OF f] obtain e where "s1 = s @ [e]" "R a e" by auto
    with es True show ?thesis by (intro exI [of _ "e # es"]) simp
  next
    case False
    with assms [OF f] es show ?thesis by auto
  qed
qed

lemma before_state_preimage:
  "before_state ports source before w = (Inr st, w') \<Longrightarrow> preimage before st"
  by (auto simp: before_state_def preimage_def engine_iff map_sum_Inr ensure_def split: if_splits)

lemma new_entry_Inr:
  "new_entry p op before after w = (Inr e, w') \<Longrightarrow>
   e = \<lparr>ce_path = p, ce_operation = op, ce_before = before, ce_after = after\<rparr>"
  by (auto simp: new_entry_def engine_iff map_sum_Inr changeset_entry_new_def split: if_splits)

lemma repository_path_of_Inr: "repository_path_of key w = (Inr p, w') \<Longrightarrow> p = RepositoryPath key"
  by (auto simp: repository_path_of_def engine_iff map_sum_Inr dest: path_from_bytes_Inr)

lemma diff_present_step:
  assumes "diff_present ports source base g es entry w = (Inr es', w')"
  shows "if changed base g entry then \<exists>e. es' = es @ [e] \<and> records_change base g entry e else es' = es"
  using assms
  by (cases entry)
    (auto simp: diff_present_def changed_def records_change_def engine_iff map_sum_Inr refuse_unpublished_change_def ensure_def
      dest!: repository_path_of_Inr new_entry_Inr before_state_preimage split: option.splits if_splits)

lemma diff_deleted_step:
  assumes "diff_deleted ports scope source g es entry w = (Inr es', w')"
  shows "if map_of (cg_final_state g) (fst entry) = None
    then \<exists>e. es' = es @ [e] \<and> records_deletion scope entry e else es' = es"
  using assms
  by (cases entry)
    (auto simp: diff_deleted_def records_deletion_def engine_iff map_sum_Inr ensure_def
      dest!: repository_path_of_Inr new_entry_Inr before_state_preimage split: if_splits)

lemma changeset_exact:
  assumes "changeset_of ports scope source base g w = (Inr es, w')"
  obtains es1 es2 where "es = es1 @ es2"
    "list_all2 (records_change base g) (filter (changed base g) (cg_final_state g)) es1"
    "list_all2 (records_deletion scope) (filter (\<lambda>entry. map_of (cg_final_state g) (fst entry) = None) base) es2"
proof -
  from assms obtain es1 w1 where f1: "foldE (diff_present ports source base g) [] (cg_final_state g) w = (Inr es1, w1)"
    and f2: "foldE (diff_deleted ports scope source g) es1 base w1 = (Inr es, w')"
    by (auto simp: changeset_of_def engine_iff)
  have "\<exists>es'. es1 = [] @ es' \<and> list_all2 (records_change base g) (filter (changed base g) (cg_final_state g)) es'"
    by (rule foldE_appends [OF _ f1]) (rule diff_present_step)
  moreover have "\<exists>es'. es = es1 @ es' \<and> list_all2 (records_deletion scope)
      (filter (\<lambda>entry. map_of (cg_final_state g) (fst entry) = None) base) es'"
    by (rule foldE_appends [OF _ f2]) (rule diff_deleted_step)
  ultimately show thesis using that by auto
qed







text \<open>
  C20. A change set is exactly the difference. Whenever the comparison of a captured tree with
  its base succeeds, its entries are, in order: for every captured path that the base does not have
  or that is not proved unchanged, an addition or a modification to the captured content, never of
  a path whose bytes were not retained; then for every base path that was not captured and only for
  those, an authorised deletion. A modification or a deletion records a preimage of the kind and
  size the base has.
\<close>

theorem changeset_is_difference:
  "case changeset_of ports scope source base g w of
     (Inl _, _) \<Rightarrow> True
   | (Inr es, _) \<Rightarrow> \<exists>es1 es2. es = es1 @ es2
       \<and> list_all2 (records_change base g) (filter (changed base g) (cg_final_state g)) es1
       \<and> list_all2 (records_deletion scope) (filter (\<lambda>entry. map_of (cg_final_state g) (fst entry) = None) base) es2"
  by (auto split: prod.split sum.split elim!: changeset_exact)


section \<open>Settled requests\<close>

lemma request_state_settled:
  "request_state_from state result_ref problem = Inr s \<Longrightarrow> state \<noteq> ''STARTED'' \<Longrightarrow> s \<noteq> Started"
  by (auto simp: request_state_from_def res_simps split: if_splits)

lemma open_settled_request:
  assumes "find_request (cred_attempt_id cred) request_id (database s) = Some row" and "aq_state row \<noteq> ''STARTED''"
    and "open_agent_request cred operation request_id hash s = (r, s')"
  shows "database s' = database s
    \<and> (case r of Inl _ \<Rightarrow> True | Inr OpenedStarted \<Rightarrow> False | Inr (agent_request_opened.Reconciled state) \<Rightarrow> state \<noteq> Started)"
proof (cases r)
  case (Inl e)
  with assms(3) show ?thesis by (auto simp: open_agent_request_def dest: run_Inl_database)
next
  case (Inr opened)
  with assms(3) obtain w where w: "open_request_body cred operation request_id hash (writer_new s) = (Inr opened, w)"
    and db: "database s' = tx w"
    by (auto simp: open_agent_request_def run_Inr_iff)
  have auth: "leaves (\<lambda>d. d) (authenticate_agent_session cred)"
    unfolding authenticate_agent_session_def judge_session_def by (intro frame)
  from w obtain w1 found w2 where a: "authenticate_agent_session cred (writer_new s) = (Inr (), w1)"
    and f: "existing_request cred request_id hash w1 = (Inr found, w2)"
    and k: "(case found of Some state \<Rightarrow> returnW (agent_request_opened.Reconciled state)
       | None \<Rightarrow> bindW now (\<lambda>t. bindW (execute (insert_into agent_requests_update
              (request_row cred request_id hash operation ''STARTED'' None t))) (\<lambda>_. returnW OpenedStarted))) w2 = (Inr opened, w)"
    by (auto simp: open_request_body_def bindW_iff)
  have "tx w1 = database s" using leavesD [OF auth a] by simp
  with assms(1) f obtain state where "found = Some state" "state \<noteq> Started" "tx w2 = database s"
    using request_state_settled [OF _ assms(2)]
    by (auto simp: existing_request_def bindW_iff query_optional_iff wr)
  with k db Inr show ?thesis by (auto simp: returnW_iff)
qed

text \<open>
  C21. A settled request is never driven again. When the request of a seal is found succeeded or
  failed, whatever the credential and the rest of the request, the gateway touches nothing outside,
  changes nothing in the store, and answers with the recorded outcome or an error, never with a
  fresh execution.
\<close>

theorem settled_seal_not_repeated:
  assumes "find_request (wc_attempt_id cred) request_id (the_database (interfere w)) = Some row"
    and "aq_state row \<noteq> ''STARTED''"
  shows "external (snd (seal_artifact sha root ports cred request_id slot w)) = external w
    \<and> the_database (snd (seal_artifact sha root ports cred request_id slot w)) = the_database (interfere w)
    \<and> (case fst (seal_artifact sha root ports cred request_id slot w) of
         Inl _ \<Rightarrow> True | Inr (SealExecuted _) \<Rightarrow> False | Inr _ \<Rightarrow> True)"
proof -
  let ?open = "open_agent_request (store_view sha cred) SealArtifact request_id (seal_request_hash sha cred request_id slot)"
  obtain r s' where o: "?open (the_store (interfere w)) = (r, s')" by fastforce
  have "cred_attempt_id (store_view sha cred) = wc_attempt_id cred" by (simp add: store_view_def)
  from open_settled_request [OF _ assms(2) o] assms(1) this
  have kept: "database s' = the_database (interfere w)"
    and settled: "case r of Inl _ \<Rightarrow> True | Inr OpenedStarted \<Rightarrow> False | Inr (agent_request_opened.Reconciled state) \<Rightarrow> state \<noteq> Started"
    by simp_all
  from o kept settled show ?thesis
    by (auto simp: seal_artifact_def Let_def engine_defs parse_recorded_digest_def
        split: sum.splits agent_request_opened.splits agent_request_state.splits option.splits prod.splits)
qed

definition demo_request :: agent_request_row where
  "demo_request = \<lparr>aq_attempt_id = ''a1'', aq_request_id = ''q1'', aq_request_hash = example_bytes,
     aq_operation = ''artifact.seal'', aq_state = ''FAILED'', aq_result_ref = None, aq_problem_code = Some ''capture-failed'',
     aq_created_at = 9, aq_updated_at = 9\<rparr>"

definition demo_ports :: "nat sealing_ports" where
  "demo_ports = \<lparr>sp_capture_tree = (\<lambda>_ x. (([], None), Suc x)), sp_base_tree = (\<lambda>_ _ x. (Inr [], Suc x)),
     sp_blob_object_names = (\<lambda>_ _ x. (Inr [], Suc x)), sp_blob_bytes = (\<lambda>_ _ x. (Inr [], Suc x)),
     sp_publish = (\<lambda>_ x. (Inl \<lparr>xf_code = ''cas.unavailable'', xf_detail = Fmt ''read-only store'' []\<rparr>, Suc x))\<rparr>"

theorem settled_seal_not_repeated_witness:
  "external (snd (seal_artifact (\<lambda>_. []) ''/root'' demo_ports \<lparr>wc_attempt_id = ''a1'', wc_bearer = ''b''\<rparr> ''q1'' ''patch''
     (quiet_world (example_store (example_db\<lparr>agent_requests := [demo_request]\<rparr>)) 0))) = 0"
proof -
  have "find_request (wc_attempt_id \<lparr>wc_attempt_id = ''a1'', wc_bearer = ''b''\<rparr>) ''q1''
      (the_database (interfere (quiet_world (example_store (example_db\<lparr>agent_requests := [demo_request]\<rparr>)) 0))) = Some demo_request"
    by (simp add: interfere_def quiet_world_def example_store_def find_request_def demo_request_def)
  moreover have "aq_state demo_request \<noteq> ''STARTED''" by (simp add: demo_request_def)
  ultimately show ?thesis using settled_seal_not_repeated by fastforce
qed

end
