(* ===== verification/Host.thy ===== *)
theory Host
  imports Workspace
begin

text \<open>
  The operating system as the platform crates use it: processes that are spawned and waited for,
  and path-based file operations. It is the record \<open>host\<close>, a parameter of every definition that
  reaches it, over an arbitrary state of the machine that any call may change. An I/O error is its
  kind and its printed text. The second half holds the text functions of the standard library
  that the platform crates apply to what they read.
\<close>

section \<open>The interface\<close>

record process_output =
  pc_success :: bool
  pc_code :: "int option"
  pc_stdout :: string
  pc_stderr :: string

text \<open>A command: \<open>env_clear\<close> followed by assignments is \<open>Some\<close>, an inherited environment \<open>None\<close>.\<close>

record command_line =
  cl_program :: string
  cl_args :: "string list"
  cl_env :: "(string \<times> string) list option"
  cl_stdin :: "string option"

datatype io_kind = NotFoundKind | AlreadyExistsKind | OtherKind

record io_error =
  io_error_kind :: io_kind
  io_error_text :: string

text \<open>
  \<open>ho_feed\<close> spawns a process, writes \<open>cl_stdin\<close> to it and waits: the outer error is that it could not
  be started, the inner one that it could not be waited for. \<open>ho_counter\<close> is the process-wide counter
  that names scratch files; the last two fields are constants of the process.
\<close>

record 'h host =
  ho_output :: "command_line \<Rightarrow> 'h \<Rightarrow> (io_error, process_output) res \<times> 'h"
  ho_read :: "string \<Rightarrow> 'h \<Rightarrow> (io_error, string) res \<times> 'h"
  ho_read_link :: "string \<Rightarrow> 'h \<Rightarrow> (io_error, string) res \<times> 'h"
  ho_exists :: "string \<Rightarrow> 'h \<Rightarrow> bool \<times> 'h"
  ho_symlink_metadata :: "string \<Rightarrow> 'h \<Rightarrow> (io_error, unit) res \<times> 'h"
  ho_create_dir_all :: "string \<Rightarrow> 'h \<Rightarrow> (io_error, unit) res \<times> 'h"
  ho_remove_dir_all :: "string \<Rightarrow> 'h \<Rightarrow> (io_error, unit) res \<times> 'h"
  ho_write :: "string \<Rightarrow> string \<Rightarrow> 'h \<Rightarrow> (io_error, unit) res \<times> 'h"
  ho_feed :: "command_line \<Rightarrow> 'h \<Rightarrow> (io_error, (io_error, process_output) res) res \<times> 'h"
  ho_counter :: "'h \<Rightarrow> int \<times> 'h"
  ho_process_id :: int
  ho_path_variable :: "string option"

type_synonym ('h, 'e, 'a) effect = "'h \<Rightarrow> ('e, 'a) res \<times> 'h"

definition returnH :: "'a \<Rightarrow> ('h, 'e, 'a) effect" where
  "returnH x = (\<lambda>h. (Inr x, h))"

definition raiseH :: "'e \<Rightarrow> ('h, 'e, 'a) effect" where
  "raiseH e = (\<lambda>h. (Inl e, h))"

definition bindH :: "('h, 'e, 'a) effect \<Rightarrow> ('a \<Rightarrow> ('h, 'e, 'b) effect) \<Rightarrow> ('h, 'e, 'b) effect" where
  "bindH m f = (\<lambda>h. case m h of (Inl e, h') \<Rightarrow> (Inl e, h') | (Inr x, h') \<Rightarrow> f x h')"

definition liftH :: "('e, 'a) res \<Rightarrow> ('h, 'e, 'a) effect" where
  "liftH r = (\<lambda>h. (r, h))"

definition mapH :: "('e \<Rightarrow> 'f) \<Rightarrow> ('h, 'e, 'a) effect \<Rightarrow> ('h, 'f, 'a) effect" where
  "mapH g m = (\<lambda>h. case m h of (r, h') \<Rightarrow> (map_sum g id r, h'))"

text \<open>A \<open>Result\<close> that is inspected instead of propagated, and an observation that cannot fail.\<close>

definition tryH :: "('h, 'e, 'a) effect \<Rightarrow> ('h, 'f, ('e, 'a) res) effect" where
  "tryH m = (\<lambda>h. case m h of (r, h') \<Rightarrow> (Inr r, h'))"

definition seeH :: "('h \<Rightarrow> 'a \<times> 'h) \<Rightarrow> ('h, 'e, 'a) effect" where
  "seeH m = (\<lambda>h. case m h of (x, h') \<Rightarrow> (Inr x, h'))"

fun foldH :: "('s \<Rightarrow> 'a \<Rightarrow> ('h, 'e, 's) effect) \<Rightarrow> 's \<Rightarrow> 'a list \<Rightarrow> ('h, 'e, 's) effect" where
  "foldH f s [] = returnH s"
| "foldH f s (a # as) = bindH (f s a) (\<lambda>s'. foldH f s' as)"

lemmas host_defs = returnH_def raiseH_def bindH_def liftH_def mapH_def tryH_def seeH_def

lemma bindH_iff:
  "bindH m f h = (r, h') \<longleftrightarrow>
     (\<exists>e. m h = (Inl e, h') \<and> r = Inl e) \<or> (\<exists>x h1. m h = (Inr x, h1) \<and> f x h1 = (r, h'))"
  by (auto simp: bindH_def split: prod.splits sum.splits)

lemma simpleH_iff:
  "returnH x h = (r, h') \<longleftrightarrow> r = Inr x \<and> h' = h"
  "raiseH e h = (r, h') \<longleftrightarrow> r = Inl e \<and> h' = h"
  "liftH q h = (r, h') \<longleftrightarrow> q = r \<and> h' = h"
  by (auto simp: host_defs)

lemma mapH_iff: "mapH g m h = (r, h') \<longleftrightarrow> (\<exists>q. m h = (q, h') \<and> r = map_sum g id q)"
  by (auto simp: mapH_def split: prod.splits)

lemma tryH_iff: "tryH m h = (r, h') \<longleftrightarrow> (\<exists>q. m h = (q, h') \<and> r = Inr q)"
  by (auto simp: tryH_def split: prod.splits)

lemma seeH_iff: "seeH m h = (r, h') \<longleftrightarrow> (\<exists>x. m h = (x, h') \<and> r = Inr x)"
  by (auto simp: seeH_def split: prod.splits)

lemmas host_iff = bindH_iff simpleH_iff mapH_iff tryH_iff seeH_iff

lemma map_sum_id_eq [simp]:
  "map_sum f id q = Inr x \<longleftrightarrow> q = Inr x" "Inr x = map_sum f id q \<longleftrightarrow> q = Inr x"
  "map_sum f id q = Inl e \<longleftrightarrow> (\<exists>d. q = Inl d \<and> e = f d)" "Inl e = map_sum f id q \<longleftrightarrow> (\<exists>d. q = Inl d \<and> e = f d)"
  by (cases q; auto)+

section \<open>Commands\<close>

text \<open>\<open>Command::new(program).args(args)\<close>, and its record of the commands spawned so far.\<close>

definition command_new :: "string \<Rightarrow> string list \<Rightarrow> command_line" where
  "command_new program args = \<lparr>cl_program = program, cl_args = args, cl_env = None, cl_stdin = None\<rparr>"

text \<open>The same host with a history of the commands it was asked to run.\<close>

definition recording :: "'h host \<Rightarrow> ('h \<times> command_line list) host" where
  "recording H =
     \<lparr>ho_output = (\<lambda>c s. case ho_output H c (fst s) of (r, h) \<Rightarrow> (r, (h, snd s @ [c]))),
      ho_read = (\<lambda>p s. case ho_read H p (fst s) of (r, h) \<Rightarrow> (r, (h, snd s))),
      ho_read_link = (\<lambda>p s. case ho_read_link H p (fst s) of (r, h) \<Rightarrow> (r, (h, snd s))),
      ho_exists = (\<lambda>p s. case ho_exists H p (fst s) of (r, h) \<Rightarrow> (r, (h, snd s))),
      ho_symlink_metadata = (\<lambda>p s. case ho_symlink_metadata H p (fst s) of (r, h) \<Rightarrow> (r, (h, snd s))),
      ho_create_dir_all = (\<lambda>p s. case ho_create_dir_all H p (fst s) of (r, h) \<Rightarrow> (r, (h, snd s))),
      ho_remove_dir_all = (\<lambda>p s. case ho_remove_dir_all H p (fst s) of (r, h) \<Rightarrow> (r, (h, snd s))),
      ho_write = (\<lambda>p b s. case ho_write H p b (fst s) of (r, h) \<Rightarrow> (r, (h, snd s))),
      ho_feed = (\<lambda>c s. case ho_feed H c (fst s) of (r, h) \<Rightarrow> (r, (h, snd s @ [c]))),
      ho_counter = (\<lambda>s. case ho_counter H (fst s) of (n, h) \<Rightarrow> (n, (h, snd s))),
      ho_process_id = ho_process_id H, ho_path_variable = ho_path_variable H\<rparr>"

text \<open>Every command an effect of the recording host runs satisfies \<open>P\<close>.\<close>

definition runs_only :: "(command_line \<Rightarrow> bool) \<Rightarrow> ('h \<times> command_line list, 'e, 'a) effect \<Rightarrow> bool" where
  "runs_only P m \<longleftrightarrow> (\<forall>h cs. list_all P cs \<longrightarrow> list_all P (snd (snd (m (h, cs)))))"

lemma runs_onlyD: "runs_only P m \<Longrightarrow> list_all P cs \<Longrightarrow> m (h, cs) = (r, (h1, cs1)) \<Longrightarrow> list_all P cs1"
  unfolding runs_only_def by (metis snd_conv)

named_theorems runs \<open>which commands an effect runs\<close>

lemma runs_only_output [runs]:
  "P c \<Longrightarrow> runs_only P (ho_output (recording H) c)" "P c \<Longrightarrow> runs_only P (ho_feed (recording H) c)"
  by (auto simp: runs_only_def recording_def split: prod.splits)

lemma runs_only_files [runs]:
  "runs_only P (ho_read (recording H) p)" "runs_only P (ho_read_link (recording H) p)"
  "runs_only P (ho_symlink_metadata (recording H) p)" "runs_only P (ho_create_dir_all (recording H) p)"
  "runs_only P (ho_remove_dir_all (recording H) p)" "runs_only P (ho_write (recording H) p b)"
  "runs_only P (seeH (ho_exists (recording H) p))" "runs_only P (seeH (ho_counter (recording H)))"
  by (auto simp: runs_only_def recording_def seeH_def split: prod.splits)

lemma runs_only_simple [runs]: "runs_only P (returnH x)" "runs_only P (raiseH e)" "runs_only P (liftH q)"
  by (simp_all add: runs_only_def host_defs)

lemma runs_only_bind [runs]:
  assumes "runs_only P m" and "\<And>x. runs_only P (f x)"
  shows "runs_only P (bindH m f)"
  unfolding runs_only_def
proof (intro allI impI)
  fix h cs assume "list_all P cs"
  moreover obtain r h1 cs1 where m: "m (h, cs) = (r, (h1, cs1))" by (metis prod.exhaust)
  ultimately have "list_all P cs1" using assms(1) by (auto intro: runs_onlyD)
  then show "list_all P (snd (snd (bindH m f (h, cs))))"
    using assms(2) by (cases r) (simp_all add: bindH_def m runs_only_def)
qed

lemma runs_only_map [runs]: "runs_only P m \<Longrightarrow> runs_only P (mapH g m)"
  unfolding runs_only_def mapH_def by (auto split: prod.splits) (metis snd_conv)

lemma runs_only_try [runs]: "runs_only P m \<Longrightarrow> runs_only P (tryH m)"
  unfolding runs_only_def tryH_def by (auto split: prod.splits) (metis snd_conv)

lemma runs_only_if [runs]:
  "runs_only P m \<Longrightarrow> runs_only P n \<Longrightarrow> runs_only P (if b then m else n)"
  by simp

lemma runs_only_fold [runs]: "(\<And>s a. runs_only P (f s a)) \<Longrightarrow> runs_only P (foldH f s as)"
  by (induction as arbitrary: s) (auto intro!: runs)

section \<open>Text of the standard library\<close>

text \<open>\<open>String::from_utf8_lossy\<close>: every maximal ill-formed prefix of a character becomes U+FFFD.\<close>

definition ill_formed_len :: "string \<Rightarrow> nat" where
  "ill_formed_len s = (case s of
     [] \<Rightarrow> 1
   | a # t \<Rightarrow> (case utf8_need a of
       None \<Rightarrow> 1
     | Some (n, lo, hi) \<Rightarrow> (case t of
         [] \<Rightarrow> 1
       | b # u \<Rightarrow>
           if in_range lo hi b then (case u of c # _ \<Rightarrow> if 4 \<le> n \<and> is_continuation c then 3 else 2 | [] \<Rightarrow> 2)
           else 1)))"

lemma ill_formed_len_pos: "0 < ill_formed_len s"
  by (auto simp: ill_formed_len_def split: list.splits option.splits)

function utf8_lossy :: "string \<Rightarrow> string" where
  "utf8_lossy s = (if s = [] then [] else (case utf8_step s of
     Some n \<Rightarrow> take n s @ utf8_lossy (drop n s)
   | None \<Rightarrow> [CHR 0xEF, CHR 0xBF, CHR 0xBD] @ utf8_lossy (drop (ill_formed_len s) s)))"
  by pat_completeness auto
termination
  by (relation "measure length") (auto dest: utf8_step_bounds simp: ill_formed_len_pos)

declare utf8_lossy.simps [simp del]

lemma utf8_lossy_valid: "utf8_valid s \<Longrightarrow> utf8_lossy s = s"
proof (induction s rule: utf8_lossy.induct)
  case (1 s)
  show ?case
  proof (cases "s = []")
    case False
    with 1(3) obtain n where n: "utf8_step s = Some n" "utf8_valid (drop n s)"
      by (auto simp: utf8_valid.simps [of s] split: option.splits)
    with 1(2) [OF False n(1)] False show ?thesis by (simp add: utf8_lossy.simps [of s])
  qed (simp add: utf8_lossy.simps)
qed

text \<open>\<open>str::trim_start\<close>, \<open>trim_end\<close> and \<open>trim\<close> on Unicode white space.\<close>

function trim_start :: "string \<Rightarrow> string" where
  "trim_start s = (if white_space_len s = 0 \<or> s = [] then s else trim_start (drop (white_space_len s) s))"
  by pat_completeness auto
termination by (relation "measure length") auto

declare trim_start.simps [simp del]

definition white_space_end :: "string \<Rightarrow> nat" where
  "white_space_end s =
     (let n = length s in
      if 1 \<le> n \<and> white_space_len (drop (n - 1) s) = 1 then 1
      else if 2 \<le> n \<and> white_space_len (drop (n - 2) s) = 2 then 2
      else if 3 \<le> n \<and> white_space_len (drop (n - 3) s) = 3 then 3
      else 0)"

function trim_end :: "string \<Rightarrow> string" where
  "trim_end s = (if white_space_end s = 0 \<or> s = [] then s else trim_end (take (length s - white_space_end s) s))"
  by pat_completeness auto
termination by (relation "measure length") auto

declare trim_end.simps [simp del]

definition str_trim :: "string \<Rightarrow> string" where
  "str_trim s = trim_end (trim_start s)"

text \<open>\<open>str::lines\<close>: split at line feeds, a trailing carriage return removed, no empty last line.\<close>

definition strip_cr :: "string \<Rightarrow> string" where
  "strip_cr line = (if line \<noteq> [] \<and> last line = CHR 0x0D then butlast line else line)"

definition str_lines :: "string \<Rightarrow> string list" where
  "str_lines s = (let pieces = split_on (CHR 0x0A) s;
     kept = (if last pieces = [] then butlast pieces else pieces) in
     map strip_cr (butlast kept) @ (if kept = [] then [] else
       [if length kept = length pieces then last kept else strip_cr (last kept)]))"

text \<open>\<open>str::split_whitespace\<close>: the nonempty pieces between white space.\<close>

function split_white_space :: "string \<Rightarrow> string \<Rightarrow> string list" where
  "split_white_space word s =
     (if s = [] then (if word = [] then [] else [word])
      else if white_space_len s = 0 then split_white_space (word @ [hd s]) (tl s)
      else (if word = [] then [] else [word]) @ split_white_space [] (drop (white_space_len s) s))"
  by pat_completeness auto
termination by (relation "measure (\<lambda>(_, s). length s)") auto

declare split_white_space.simps [simp del]

text \<open>\<open>str::parse::<u64>\<close> with the text of its errors.\<close>

definition u64_parse :: "string \<Rightarrow> (string, int) res" where
  "u64_parse s = (let ds = (case s of c # t \<Rightarrow> if c = CHR ''+'' \<and> t \<noteq> [] then t else s | [] \<Rightarrow> []) in
     if ds = [] then Inl ''cannot parse integer from empty string''
     else if \<not> list_all (\<lambda>c. 48 \<le> (of_char c :: nat) \<and> (of_char c :: nat) \<le> 57) ds then Inl ''invalid digit found in string''
     else if \<not> is_u64 (int (digits_value ds)) then Inl ''number too large to fit in target type''
     else Inr (int (digits_value ds)))"

text \<open>\<open>str::find\<close> of a character, as a byte index.\<close>

fun find_char :: "char \<Rightarrow> string \<Rightarrow> nat option" where
  "find_char c [] = None"
| "find_char c (x # xs) = (if x = c then Some 0 else map_option Suc (find_char c xs))"

end
