(* ===== verification/Container_Backend.thy ===== *)
theory Container_Backend
  imports Host Engine_Sandbox
begin

text \<open>
  The local container backend of the Sandbox port (\<^verbatim>\<open>crates/pantheon-sandbox/src/lib.rs\<close>): the commands
  it gives the container runtime, the facts it reads back from \<open>inspect\<close>, the probes it runs from
  the host, and the verification it assembles from them. The JSON reader is a third-party crate and
  a parameter, like the build's constants and the rendering of a binary floating-point quotient.
\<close>

section \<open>Platform\<close>

datatype json_number = PosInt int | NegInt int | JFloat string

datatype json =
    JNull
  | JBool bool
  | JNumber json_number
  | JString string
  | JArray "json list"
  | JObject "(string \<times> json) list"

record platform =
  pl_arch :: string
  pl_os :: string
  pl_cpus_text :: "int \<Rightarrow> string"
  pl_from_json :: "string \<Rightarrow> (string, json) res"

text \<open>The accessors of \<open>serde_json::Value\<close>.\<close>

fun json_get :: "string \<Rightarrow> json \<Rightarrow> json option" where
  "json_get k (JObject es) = map_of es k"
| "json_get k _ = None"

fun json_bool :: "json \<Rightarrow> bool option" where
  "json_bool (JBool b) = Some b"
| "json_bool _ = None"

fun json_str :: "json \<Rightarrow> string option" where
  "json_str (JString s) = Some s"
| "json_str _ = None"

fun json_array :: "json \<Rightarrow> json list option" where
  "json_array (JArray vs) = Some vs"
| "json_array _ = None"

fun json_u64 :: "json \<Rightarrow> int option" where
  "json_u64 (JNumber (PosInt n)) = Some n"
| "json_u64 _ = None"

fun json_i64 :: "json \<Rightarrow> int option" where
  "json_i64 (JNumber (PosInt n)) = (if n \<le> i64_max then Some n else None)"
| "json_i64 (JNumber (NegInt n)) = Some n"
| "json_i64 _ = None"

definition get_str :: "string \<Rightarrow> json \<Rightarrow> string" where
  "get_str k v = (case Option.bind (json_get k v) json_str of Some s \<Rightarrow> s | None \<Rightarrow> [])"

definition get_strs :: "string \<Rightarrow> json \<Rightarrow> string list" where
  "get_strs k v = (case Option.bind (json_get k v) json_array of
     Some vs \<Rightarrow> List.map_filter json_str vs | None \<Rightarrow> [])"

section \<open>The backend\<close>

datatype runtime_kind = Podman | Docker

record container_backend =
  cb_runtime :: string
  cb_kind :: runtime_kind
  cb_name_prefix :: string
  cb_run_user :: "string option"

definition has_executable :: "'h host \<Rightarrow> string \<Rightarrow> ('h, 'e, bool) effect" where
  "has_executable H name = bindH (tryH (ho_output H (command_new ''which'' [name]))) (\<lambda>answer.
     returnH (case answer of Inr out \<Rightarrow> pc_success out | Inl _ \<Rightarrow> False))"

definition backend_for :: "string \<Rightarrow> runtime_kind \<Rightarrow> container_backend" where
  "backend_for runtime knd = \<lparr>cb_runtime = runtime, cb_kind = knd, cb_name_prefix = ''pantheon-sandbox-'',
     cb_run_user = Some ''1000''\<rparr>"

definition detect :: "'h host \<Rightarrow> ('h, string, container_backend) effect" where
  "detect H =
     bindH (has_executable H ''podman'') (\<lambda>podman.
     if podman then returnH (backend_for ''podman'' Podman)
     else bindH (has_executable H ''docker'') (\<lambda>docker.
       if docker then returnH (backend_for ''docker'' Docker)
       else raiseH ''no supported container runtime found on PATH (tried: podman, docker)''))"

definition with_runtime :: "'h host \<Rightarrow> string \<Rightarrow> ('h, string, container_backend) effect" where
  "with_runtime H runtime =
     (let knd = (if contains_str ''podman'' runtime then Podman else Docker) in
     bindH (has_executable H runtime) (\<lambda>usable.
     if \<not> usable then raiseH (''container runtime '' @ runtime @ '' is not available on PATH'')
     else returnH (backend_for runtime knd)))"

definition container_name :: "container_backend \<Rightarrow> string \<Rightarrow> string" where
  "container_name b key = cb_name_prefix b @ key"

text \<open>One invocation of the runtime whose failure to start is reported as \<open>what\<close>.\<close>

definition runtime_output ::
    "'h host \<Rightarrow> container_backend \<Rightarrow> string \<Rightarrow> string list \<Rightarrow> ('h, string, process_output) effect" where
  "runtime_output H b what args =
     mapH (\<lambda>e. what @ '': '' @ io_error_text e) (ho_output H (command_new (cb_runtime b) args))"

definition runtime_checked ::
    "'h host \<Rightarrow> container_backend \<Rightarrow> string \<Rightarrow> string \<Rightarrow> string list \<Rightarrow> ('h, string, process_output) effect" where
  "runtime_checked H b what verb args =
     bindH (runtime_output H b what args) (\<lambda>out.
     if pc_success out then returnH out
     else raiseH (cb_runtime b @ '' '' @ verb @ '' failed: '' @ utf8_lossy (pc_stderr out)))"

definition backend_version :: "'h host \<Rightarrow> container_backend \<Rightarrow> ('h, string, string) effect" where
  "backend_version H b =
     bindH (tryH (ho_output H (command_new (cb_runtime b) [''--version'']))) (\<lambda>answer.
     case answer of
       Inr out \<Rightarrow>
         if pc_success out then returnH (str_trim (utf8_lossy (pc_stdout out)))
         else raiseH (cb_runtime b @ '' --version failed: '' @ utf8_lossy (pc_stderr out))
     | Inl e \<Rightarrow> raiseH (''could not run '' @ cb_runtime b @ '' --version: '' @ io_error_text e))"

section \<open>Container commands\<close>

definition name_filter :: "string \<Rightarrow> string" where
  "name_filter name = ''name=^'' @ name @ ''$''"

definition names_format :: string where
  "names_format = [CHR 0x7B, CHR 0x7B] @ ''.Names'' @ [CHR 0x7D, CHR 0x7D]"

definition container_exists :: "'h host \<Rightarrow> container_backend \<Rightarrow> string \<Rightarrow> ('h, string, bool) effect" where
  "container_exists H b name =
     bindH (runtime_checked H b ''could not list containers'' ''ps''
        [''ps'', ''-a'', ''--filter'', name_filter name, ''--format'', names_format]) (\<lambda>out.
     returnH (str_trim (utf8_lossy (pc_stdout out)) = name))"

definition container_running :: "'h host \<Rightarrow> container_backend \<Rightarrow> string \<Rightarrow> ('h, string, bool) effect" where
  "container_running H b name =
     bindH (runtime_checked H b ''could not list running containers'' ''ps''
        [''ps'', ''--filter'', name_filter name, ''--format'', names_format]) (\<lambda>out.
     returnH (str_trim (utf8_lossy (pc_stdout out)) = name))"

definition mount_spec :: "sandbox_mount \<Rightarrow> string" where
  "mount_spec m = ''type=bind,source='' @ sm_source m @ '',destination='' @ sm_destination m
     @ (if sm_read_only m then '',readonly'' else [])"

definition network_args :: "sandbox_network_mode \<Rightarrow> string list" where
  "network_args mode = (case mode of NetNone \<Rightarrow> [''--network=none''] | NetBrokered \<Rightarrow> [''--network=none''])"

definition create_args :: "platform \<Rightarrow> container_backend \<Rightarrow> string \<Rightarrow> sandbox_plan \<Rightarrow> string list" where
  "create_args pl b name p =
     [''create'', ''--name'', name]
     @ [''--security-opt=no-new-privileges:true'', ''--cap-drop=ALL'']
     @ (case cb_run_user b of Some user \<Rightarrow> [''--user'', user] | None \<Rightarrow> [])
     @ network_args (sb_network_mode p)
     @ (case sb_cpu_limit_millicores p of Some cpu \<Rightarrow> [''--cpus'', pl_cpus_text pl cpu] | None \<Rightarrow> [])
     @ (case sb_memory_limit_mb p of Some mem \<Rightarrow> [''--memory'', int_to_string mem @ ''m''] | None \<Rightarrow> [])
     @ concat (map (\<lambda>m. [''--mount'', mount_spec m]) (sb_mounts p))
     @ [sb_environment_identity p, ''sleep'', ''3600'']"

definition create_container ::
    "'h host \<Rightarrow> platform \<Rightarrow> container_backend \<Rightarrow> string \<Rightarrow> sandbox_plan \<Rightarrow> ('h, string, unit) effect" where
  "create_container H pl b name p =
     bindH (runtime_checked H b ''could not create container'' ''create'' (create_args pl b name p)) (\<lambda>_. returnH ())"

definition start_container :: "'h host \<Rightarrow> container_backend \<Rightarrow> string \<Rightarrow> ('h, string, unit) effect" where
  "start_container H b name =
     bindH (runtime_checked H b ''could not start container'' ''start'' [''start'', name]) (\<lambda>_. returnH ())"

text \<open>The exit status of \<open>stop\<close> and of \<open>rm\<close> is not looked at.\<close>

definition stop_container :: "'h host \<Rightarrow> container_backend \<Rightarrow> string \<Rightarrow> ('h, string, unit) effect" where
  "stop_container H b name =
     bindH (runtime_output H b ''could not stop container'' [''stop'', ''-t'', ''10'', name]) (\<lambda>_. returnH ())"

definition remove_container :: "'h host \<Rightarrow> container_backend \<Rightarrow> string \<Rightarrow> ('h, string, unit) effect" where
  "remove_container H b name =
     bindH (runtime_output H b ''could not remove container'' [''rm'', ''-f'', name]) (\<lambda>_. returnH ())"

definition inspect_container :: "'h host \<Rightarrow> container_backend \<Rightarrow> string \<Rightarrow> ('h, string, string) effect" where
  "inspect_container H b name =
     bindH (runtime_checked H b ''could not inspect container'' ''inspect'' [''inspect'', name]) (\<lambda>out.
     returnH (utf8_lossy (pc_stdout out)))"

definition exec_in_container_raw ::
    "'h host \<Rightarrow> container_backend \<Rightarrow> string \<Rightarrow> string list \<Rightarrow> ('h, string, process_output) effect" where
  "exec_in_container_raw H b name cmd =
     runtime_output H b ''could not exec in container'' ([''exec'', name] @ cmd)"

section \<open>Lifecycle\<close>

definition container_ensure ::
    "'h host \<Rightarrow> platform \<Rightarrow> container_backend \<Rightarrow> string \<Rightarrow> sandbox_plan \<Rightarrow> ('h, string, sandbox_presence) effect" where
  "container_ensure H pl b key p =
     (let name = container_name b key in
     bindH (container_exists H b name) (\<lambda>exists.
     if exists then
       bindH (container_running H b name) (\<lambda>running.
       if running then returnH PPresent
       else bindH (start_container H b name) (\<lambda>_. returnH PPresent))
     else
       bindH (create_container H pl b name p) (\<lambda>_.
       bindH (start_container H b name) (\<lambda>_. returnH PPresent))))"

definition container_inspect :: "'h host \<Rightarrow> container_backend \<Rightarrow> string \<Rightarrow> ('h, string, sandbox_presence) effect" where
  "container_inspect H b key =
     (let name = container_name b key in
     bindH (container_exists H b name) (\<lambda>exists.
     if \<not> exists then returnH PAbsent
     else bindH (container_running H b name) (\<lambda>running.
       returnH (if running then PPresent else PUnknown))))"

definition container_release :: "'h host \<Rightarrow> container_backend \<Rightarrow> string \<Rightarrow> ('h, string, unit) effect" where
  "container_release H b key =
     (let name = container_name b key in
     bindH (container_exists H b name) (\<lambda>exists.
     if \<not> exists then returnH ()
     else bindH (stop_container H b name) (\<lambda>_. remove_container H b name)))"

section \<open>Facts read from the host\<close>

definition first_object :: "platform \<Rightarrow> string \<Rightarrow> (string, json) res" where
  "first_object pl text =
     bindR (map_sum (\<lambda>e. ''inspect output is not valid JSON: '' @ e) id (pl_from_json pl text)) (\<lambda>v.
     case json_array v of
       Some (obj # _) \<Rightarrow> Inr obj
     | _ \<Rightarrow> Inl ''inspect output is empty'')"

text \<open>The last conversion is \<open>pid as u32\<close>.\<close>

definition container_pid_from_inspect :: "platform \<Rightarrow> string \<Rightarrow> (string, int) res" where
  "container_pid_from_inspect pl text =
     bindR (first_object pl text) (\<lambda>obj.
     bindR (ok_or (json_get ''State'' obj) ''inspect output missing State'') (\<lambda>state.
     bindR (ok_or (Option.bind (json_get ''Pid'' state) json_u64) ''inspect output missing State.Pid'') (\<lambda>pid.
     bindR (ensure (pid \<noteq> 0) ''container is not running'') (\<lambda>_.
     Inr (pid mod 2 ^ 32)))))"

definition proc_path :: "int \<Rightarrow> string \<Rightarrow> string" where
  "proc_path pid f = ''/proc/'' @ int_to_string pid @ ''/'' @ f"

text \<open>
  The slice between the brackets panics when the closing one comes first: \<open>None\<close>, which ends
  the verification without a result, like the errors around it.
\<close>

definition ns_inode_of :: "string \<Rightarrow> (string, int) res option" where
  "ns_inode_of link = (let s = utf8_lossy link in
     case find_char (CHR ''['') s of
       None \<Rightarrow> Some (Inl ''no [ in ns symlink'')
     | Some i \<Rightarrow> (case find_char (CHR '']'') s of
         None \<Rightarrow> Some (Inl ''no ] in ns symlink'')
       | Some j \<Rightarrow>
           if j < Suc i then None
           else Some (u64_parse (take (j - Suc i) (drop (Suc i) s)))))"

definition panicked :: string where
  "panicked = ''panicked''"

definition read_ns_inode :: "'h host \<Rightarrow> int \<Rightarrow> string \<Rightarrow> ('h, string, int) effect" where
  "read_ns_inode H pid ns =
     bindH (mapH io_error_text (ho_read_link H (proc_path pid (''ns/'' @ ns)))) (\<lambda>link.
     liftH (case ns_inode_of link of Some r \<Rightarrow> r | None \<Rightarrow> Inl panicked))"

definition read_proc_file :: "'h host \<Rightarrow> int \<Rightarrow> string \<Rightarrow> ('h, string, string) effect" where
  "read_proc_file H pid f =
     bindH (mapH io_error_text (ho_read H (proc_path pid f))) (\<lambda>bs.
     if utf8_valid bs then returnH bs else raiseH ''stream did not contain valid UTF-8'')"

definition nsenter_net :: "'h host \<Rightarrow> int \<Rightarrow> string list \<Rightarrow> ('h, string, process_output) effect" where
  "nsenter_net H pid cmd =
     mapH io_error_text (ho_output H (command_new ''nsenter'' ([''-t'', int_to_string pid, ''-n''] @ cmd)))"

definition verify_container_arch_from_host :: "'h host \<Rightarrow> platform \<Rightarrow> int \<Rightarrow> ('h, string, bool) effect" where
  "verify_container_arch_from_host H pl pid =
     (let exe = proc_path pid ''exe'' in
     bindH (mapH (\<lambda>e. ''cannot run file on '' @ exe @ '': '' @ io_error_text e)
        (ho_output H (command_new ''file'' [''-L'', exe]))) (\<lambda>out.
     if \<not> pc_success out then raiseH (''file command failed: '' @ utf8_lossy (pc_stderr out))
     else let text = utf8_lossy (pc_stdout out); has = (\<lambda>w. contains_str w text) in
       if pl_os pl \<noteq> ''linux'' then returnH False
       else if pl_arch pl = ''x86_64'' then returnH (has ''x86-64'' \<or> has ''x86_64'')
       else if pl_arch pl = ''aarch64'' then returnH (has ''aarch64'' \<or> has ''ARM aarch64'')
       else if pl_arch pl = ''i686'' then returnH (has ''Intel 80386'' \<or> has ''i386'')
       else if pl_arch pl = ''arm'' then returnH (has ''ARM'')
       else if pl_arch pl = ''riscv64'' then returnH (has ''RISC-V'')
       else raiseH (''unsupported host architecture for host-side verification: '' @ pl_arch pl)))"

section \<open>Probes\<close>

definition probe_result :: "string \<Rightarrow> string \<Rightarrow> string \<Rightarrow> bool \<Rightarrow> sandbox_probe_result" where
  "probe_result name expected observed passed =
     \<lparr>pb_name = name, pb_expected = expected, pb_observed = observed, pb_passed = passed\<rparr>"

definition probe_seccomp :: "'h host \<Rightarrow> int \<Rightarrow> ('h, string, sandbox_probe_result) effect" where
  "probe_seccomp H pid =
     bindH (mapH (\<lambda>e. ''cannot read '' @ proc_path pid ''status'' @ '': '' @ e) (read_proc_file H pid ''status'')) (\<lambda>status.
     let observed = (case List.find (starts_with ''Seccomp:'') (str_lines status) of
           Some line \<Rightarrow> str_trim line | None \<Rightarrow> ''Seccomp line missing'') in
     returnH (probe_result ''seccomp_active'' ''Seccomp: 2'' observed (observed = ''Seccomp:'' @ [CHR 0x09] @ ''2'')))"

definition namespace_inodes :: "'h host \<Rightarrow> int \<Rightarrow> string \<Rightarrow> string \<Rightarrow> ('h, string, int \<times> int) effect" where
  "namespace_inodes H pid ns what =
     bindH (mapH (\<lambda>e. ''cannot read host '' @ what @ '' namespace: '' @ e) (read_ns_inode H (ho_process_id H) ns)) (\<lambda>host.
     bindH (mapH (\<lambda>e. ''cannot read container '' @ what @ '' namespace: '' @ e) (read_ns_inode H pid ns)) (\<lambda>container.
     returnH (host, container)))"

definition probe_namespace ::
    "'h host \<Rightarrow> int \<Rightarrow> string \<Rightarrow> string \<Rightarrow> string \<Rightarrow> ('h, string, sandbox_probe_result) effect" where
  "probe_namespace H pid ns what name =
     bindH (namespace_inodes H pid ns what) (\<lambda>(host, container).
     returnH (probe_result name (''distinct from host '' @ what @ '' namespace'')
       (''host '' @ ns @ '':['' @ int_to_string host @ ''] container '' @ ns @ '':['' @ int_to_string container @ '']'')
       (host \<noteq> container)))"

definition probe_pid_namespace :: "'h host \<Rightarrow> int \<Rightarrow> ('h, string, sandbox_probe_result) effect" where
  "probe_pid_namespace H pid = probe_namespace H pid ''pid'' ''PID'' ''pid_namespace''"

definition probe_user_namespace :: "'h host \<Rightarrow> int \<Rightarrow> ('h, string, sandbox_probe_result) effect" where
  "probe_user_namespace H pid = probe_namespace H pid ''user'' ''user'' ''user_namespace''"

definition probe_mount_namespace :: "'h host \<Rightarrow> int \<Rightarrow> ('h, string, sandbox_probe_result) effect" where
  "probe_mount_namespace H pid = probe_namespace H pid ''mnt'' ''mount'' ''mount_namespace''"

definition is_interface_line :: "string \<Rightarrow> bool" where
  "is_interface_line l \<longleftrightarrow> (let t = str_trim l in
     t \<noteq> [] \<and> \<not> starts_with ''Inter-|'' t \<and> \<not> starts_with ''face |'' t \<and> \<not> starts_with ''lo:'' t)"

definition bool_text :: "bool \<Rightarrow> string" where
  "bool_text b = (if b then ''true'' else ''false'')"

definition probe_network_namespace :: "'h host \<Rightarrow> int \<Rightarrow> ('h, string, sandbox_probe_result) effect" where
  "probe_network_namespace H pid =
     bindH (namespace_inodes H pid ''net'' ''net'') (\<lambda>(host, container).
     bindH (mapH (\<lambda>e. ''nsenter net check failed: '' @ e) (nsenter_net H pid [''cat'', ''/proc/net/dev''])) (\<lambda>out.
     let non_lo = length (filter is_interface_line (str_lines (utf8_lossy (pc_stdout out)))) in
     returnH (probe_result ''network_namespace'' ''distinct from host net namespace, 0 non-loopback interfaces''
       (''net ns distinct='' @ bool_text (host \<noteq> container) @ '' non-loopback interfaces='' @ nat_to_string non_lo)
       (host \<noteq> container \<and> non_lo = 0))))"

text \<open>The script \<open>try_connect_nsenter\<close> gives to the shell, and the attempt itself.\<close>

definition tcp_script :: "string \<Rightarrow> string \<Rightarrow> string" where
  "tcp_script host port = ''echo > /dev/tcp/'' @ host @ ''/'' @ port @ '' 2>/dev/null && echo REACHABLE || echo BLOCKED''"

definition try_connect_nsenter ::
    "'h host \<Rightarrow> int \<Rightarrow> string \<Rightarrow> string \<Rightarrow> ('h, string, string \<times> string) effect" where
  "try_connect_nsenter H pid host port =
     bindH (tryH (nsenter_net H pid [''nc'', ''-z'', ''-w'', ''2'', host, port])) (\<lambda>nc.
     let answered = (case nc of
           Inr out \<Rightarrow>
             if pc_success out then Some (''REACHABLE'', str_trim (utf8_lossy (pc_stderr out)))
             else if pc_code out = Some 1 then Some (''BLOCKED'', str_trim (utf8_lossy (pc_stderr out)))
             else None
         | Inl _ \<Rightarrow> None) in
     case answered of
       Some r \<Rightarrow> returnH r
     | None \<Rightarrow>
         bindH (mapH (\<lambda>e. ''nsenter failed: '' @ e)
            (nsenter_net H pid [''/bin/bash'', ''-c'', tcp_script host port])) (\<lambda>out.
         returnH (str_trim (utf8_lossy (pc_stdout out)), str_trim (utf8_lossy (pc_stderr out)))))"

definition probe_blocked ::
    "'h host \<Rightarrow> int \<Rightarrow> string \<Rightarrow> string \<Rightarrow> string \<Rightarrow> ('h, string, sandbox_probe_result) effect" where
  "probe_blocked H pid host port name =
     bindH (tryH (try_connect_nsenter H pid host port)) (\<lambda>answer.
     returnH (case answer of
       Inl e \<Rightarrow> probe_result name ''BLOCKED'' (''probe execution error: '' @ e) False
     | Inr (out, err) \<Rightarrow>
         probe_result name ''BLOCKED'' (if out = [] \<and> err \<noteq> [] then ''stderr='' @ err else out) (out = ''BLOCKED'')))"

definition probe_cloud_metadata :: "'h host \<Rightarrow> int \<Rightarrow> ('h, string, sandbox_probe_result) effect" where
  "probe_cloud_metadata H pid = probe_blocked H pid ''169.254.169.254'' ''80'' ''cloud_metadata_reachability''"

definition probe_dns_denied :: "'h host \<Rightarrow> int \<Rightarrow> ('h, string, sandbox_probe_result) effect" where
  "probe_dns_denied H pid = probe_blocked H pid ''8.8.8.8'' ''53'' ''dns_resolution''"

definition read_mountinfo :: "'h host \<Rightarrow> int \<Rightarrow> ('h, string, string) effect" where
  "read_mountinfo H pid = mapH (\<lambda>e. ''cannot read container mountinfo: '' @ e) (read_proc_file H pid ''mountinfo'')"

definition forbidden_mounts :: "string list" where
  "forbidden_mounts = [''/.ssh'', ''/.gnupg'', ''/root/.ssh'', ''/root/.gnupg'', ''/root/.aws'', ''/root/.config/gcloud'',
     ''/var/run/docker.sock'', ''/run/docker.sock'']"

definition runtime_sockets :: "string list" where
  "runtime_sockets = [''/run/docker.sock'', ''/run/containerd.sock'', ''/run/crio.sock'', ''/run/podman/podman.sock'',
     ''/var/run/docker.sock'', ''/var/run/containerd.sock'', ''/var/run/crio.sock'', ''/var/run/podman/podman.sock'']"

definition control_plane_paths :: "string list" where
  "control_plane_paths = [''/pantheon.db'', ''/workspace/pantheon.db'', ''/root/.pantheon/pantheon.db'']"

definition found_text :: "string \<Rightarrow> string list \<Rightarrow> string" where
  "found_text none found = (if found = [] then none else intercalate '', '' found)"

definition probe_forbidden_mounts :: "'h host \<Rightarrow> int \<Rightarrow> ('h, string, sandbox_probe_result) effect" where
  "probe_forbidden_mounts H pid =
     bindH (read_mountinfo H pid) (\<lambda>mountinfo.
     let found = filter (\<lambda>p. contains_str p mountinfo) forbidden_mounts in
     returnH (probe_result ''forbidden_mounts'' ''no host credential mounts'' (found_text ''none found'' found) (found = [])))"

definition probe_runtime_sockets :: "'h host \<Rightarrow> int \<Rightarrow> ('h, string, sandbox_probe_result) effect" where
  "probe_runtime_sockets H pid =
     bindH (read_mountinfo H pid) (\<lambda>mountinfo.
     let found = filter (\<lambda>p. contains_str p mountinfo) runtime_sockets in
     returnH (probe_result ''runtime_socket_absent'' ''no container runtime sockets mounted''
       (found_text ''none found'' found) (found = [])))"

definition control_plane_found :: "string \<Rightarrow> string list" where
  "control_plane_found mountinfo =
     filter (\<lambda>p. contains_str p mountinfo) control_plane_paths
     @ (if list_ex (\<lambda>line. list_ex (contains_str ''pantheon.db'') (split_white_space [] line)) (str_lines mountinfo)
        then [''pantheon.db mounted''] else [])"

definition probe_control_plane :: "'h host \<Rightarrow> int \<Rightarrow> ('h, string, sandbox_probe_result) effect" where
  "probe_control_plane H pid =
     bindH (read_mountinfo H pid) (\<lambda>mountinfo.
     let found = control_plane_found mountinfo in
     returnH (probe_result ''control_plane_reachability'' ''pantheon.db not accessible''
       (found_text ''none accessible'' found) (found = [])))"

record behavioral_probes =
  bp_seccomp_active :: bool
  bp_host_pid_hidden :: bool
  bp_host_user_namespace :: bool
  bp_host_mount_namespace :: bool
  bp_network_isolated :: bool
  bp_cloud_metadata_unreachable :: bool
  bp_dns_denied :: bool
  bp_forbidden_mounts_absent :: bool
  bp_runtime_socket_absent :: bool
  bp_control_plane_unreachable :: bool

definition run_probes ::
    "'h host \<Rightarrow> int \<Rightarrow> ('h, string, sandbox_probe_result list \<times> behavioral_probes) effect" where
  "run_probes H pid =
     bindH (probe_seccomp H pid) (\<lambda>seccomp.
     bindH (probe_pid_namespace H pid) (\<lambda>pid_ns.
     bindH (probe_user_namespace H pid) (\<lambda>user_ns.
     bindH (probe_mount_namespace H pid) (\<lambda>mount_ns.
     bindH (probe_network_namespace H pid) (\<lambda>net_ns.
     bindH (probe_cloud_metadata H pid) (\<lambda>cloud.
     bindH (probe_dns_denied H pid) (\<lambda>dns.
     bindH (probe_forbidden_mounts H pid) (\<lambda>forbidden.
     bindH (probe_runtime_sockets H pid) (\<lambda>sockets.
     bindH (probe_control_plane H pid) (\<lambda>ctrl.
     returnH ([seccomp, pid_ns, user_ns, mount_ns, net_ns, cloud, dns, forbidden, sockets, ctrl],
       \<lparr>bp_seccomp_active = pb_passed seccomp, bp_host_pid_hidden = pb_passed pid_ns,
        bp_host_user_namespace = pb_passed user_ns, bp_host_mount_namespace = pb_passed mount_ns,
        bp_network_isolated = pb_passed net_ns, bp_cloud_metadata_unreachable = pb_passed cloud,
        bp_dns_denied = pb_passed dns, bp_forbidden_mounts_absent = pb_passed forbidden,
        bp_runtime_socket_absent = pb_passed sockets, bp_control_plane_unreachable = pb_passed ctrl\<rparr>)))))))))))"

section \<open>Verification\<close>

definition mount_matches :: "sandbox_mount \<Rightarrow> json \<Rightarrow> bool" where
  "mount_matches m v =
     (let rw = (case Option.bind (json_get ''RW'' v) json_bool of
            Some b \<Rightarrow> b
          | None \<Rightarrow> (case Option.bind (json_get ''ReadOnly'' v) json_bool of Some ro \<Rightarrow> \<not> ro | None \<Rightarrow> True)) in
      get_str ''Source'' v = sm_source m \<and> get_str ''Destination'' v = sm_destination m
      \<and> rw \<noteq> sm_read_only m \<and> (\<not> sm_read_only m \<or> contains_str ''ro'' (get_str ''Mode'' v)))"

definition verify_mounts :: "json list \<Rightarrow> sandbox_mount list \<Rightarrow> bool" where
  "verify_mounts actual expected = list_all (\<lambda>m. list_ex (mount_matches m) actual) expected"

definition trim_slashes :: "string \<Rightarrow> string" where
  "trim_slashes s = dropWhile (\<lambda>c. c = CHR ''/'') s"

definition mapped_arch :: "string \<Rightarrow> string" where
  "mapped_arch arch = (if arch = ''amd64'' then ''x86_64'' else if arch = ''arm64'' then ''aarch64''
     else if arch = ''386'' then ''i686'' else arch)"

text \<open>\<open>Platform\<close> split at slashes, or the fields \<open>Os\<close> and \<open>Architecture\<close>.\<close>

definition container_platform :: "json \<Rightarrow> string \<times> string" where
  "container_platform obj = (case Option.bind (json_get ''Platform'' obj) json_str of
     Some p \<Rightarrow> (case split_on (CHR ''/'') p of os # arch # _ \<Rightarrow> (os, arch) | [os] \<Rightarrow> (os, []) | [] \<Rightarrow> ([], []))
   | None \<Rightarrow> (get_str ''Os'' obj, get_str ''Architecture'' obj))"

record inspected_facts =
  if_mounts :: bool
  if_network_mode :: bool
  if_privilege :: bool
  if_capability :: bool
  if_limits :: bool
  if_identity :: bool
  if_environment :: bool

text \<open>The judgements on the inspected object, in one record.\<close>

definition judge_inspected :: "string \<Rightarrow> sandbox_plan \<Rightarrow> json \<Rightarrow> json \<Rightarrow> json \<Rightarrow> inspected_facts" where
  "judge_inspected key p obj host_config config =
     \<lparr>if_mounts = verify_mounts (case Option.bind (json_get ''Mounts'' obj) json_array of Some vs \<Rightarrow> vs | None \<Rightarrow> [])
        (sb_mounts p),
      if_network_mode = (get_str ''NetworkMode'' host_config = ''none''),
      if_privilege = (\<not> (case Option.bind (json_get ''Privileged'' host_config) json_bool of Some b \<Rightarrow> b | None \<Rightarrow> False)),
      if_capability = (get_strs ''CapDrop'' host_config \<noteq> [] \<and> get_strs ''CapAdd'' host_config = []),
      if_limits =
        ((sb_cpu_limit_millicores p \<noteq> None) = (Option.bind (json_get ''NanoCpus'' host_config) json_i64 \<noteq> None)
         \<and> (sb_memory_limit_mb p \<noteq> None) = (Option.bind (json_get ''Memory'' host_config) json_i64 \<noteq> None)),
      if_identity = (trim_slashes (get_str ''Name'' obj) = ''pantheon-sandbox-'' @ key),
      if_environment =
        (get_str ''Image'' config = sb_environment_identity p \<or> get_str ''ImageName'' obj = sb_environment_identity p
         \<or> ends_with (''/'' @ sb_environment_identity p) (get_str ''Image'' config))\<rparr>"

definition arch_mismatch :: "platform \<Rightarrow> string \<times> string \<Rightarrow> string" where
  "arch_mismatch pl c = ''container architecture/platform mismatch or unverifiable: container='' @ fst c @ ''/'' @ snd c
     @ '', host='' @ pl_os pl @ ''/'' @ pl_arch pl"

definition verify_arch :: "'h host \<Rightarrow> platform \<Rightarrow> int \<Rightarrow> json \<Rightarrow> ('h, string, unit) effect" where
  "verify_arch H pl pid obj =
     (let c = container_platform obj in
     bindH (if snd c = [] \<and> fst c = [] then verify_container_arch_from_host H pl pid
            else returnH (mapped_arch (snd c) = pl_arch pl \<and> fst c = pl_os pl)) (\<lambda>ok.
     if ok then returnH () else raiseH (arch_mismatch pl c)))"

text \<open>The verification before the probes ran.\<close>

definition inspected_verification :: "string \<Rightarrow> sandbox_plan \<Rightarrow> inspected_facts \<Rightarrow> sandbox_verification" where
  "inspected_verification key p facts =
       \<lparr>sv_sandbox_key = key, sv_holder_id = key, sv_environment_identity = sb_environment_identity p,
        sv_mounts_verified = (if_mounts facts \<and> if_identity facts \<and> if_environment facts),
        sv_network_mode_verified = if_network_mode facts, sv_privilege_verified = if_privilege facts,
        sv_capability_verified = if_capability facts, sv_agent_control_route_verified = if_mounts facts,
        sv_workspace_binding_verified = if_mounts facts, sv_resource_limits_verified = if_limits facts,
        sv_seccomp_active_verified = False, sv_host_pid_hidden_verified = False,
        sv_host_user_namespace_verified = False, sv_host_mount_namespace_verified = False,
        sv_cloud_metadata_unreachable_verified = False, sv_dns_resolution_denied_verified = False,
        sv_forbidden_mounts_absent_verified = False, sv_runtime_socket_absent_verified = False,
        sv_cross_attempt_isolation_verified = False, sv_control_plane_unreachable_verified = False,
        sv_probe_results = [], sv_backend_descriptor = ''unknown'', sv_backend_version = ''unknown'',
        sv_platform = ''unknown'', sv_architecture = ''unknown'', sv_probe_implementation_version = ''unknown''\<rparr>"

definition verify_container_json ::
    "'h host \<Rightarrow> platform \<Rightarrow> string \<Rightarrow> string \<Rightarrow> sandbox_plan \<Rightarrow> int \<Rightarrow> ('h, string, sandbox_verification) effect" where
  "verify_container_json H pl text key p pid =
     bindH (liftH (first_object pl text)) (\<lambda>obj.
     bindH (liftH (ok_or (json_get ''HostConfig'' obj) ''inspect output missing HostConfig'')) (\<lambda>host_config.
     bindH (liftH (ok_or (json_get ''Config'' obj) ''inspect output missing Config'')) (\<lambda>config.
     bindH (verify_arch H pl pid obj) (\<lambda>_.
     bindH (seeH (ho_exists H (''/proc/'' @ int_to_string pid))) (\<lambda>alive.
     if \<not> alive then raiseH (''container PID '' @ int_to_string pid @ '' does not exist in host /proc'')
     else returnH (inspected_verification key p (judge_inspected key p obj host_config config)))))))"

definition with_probes ::
    "platform \<Rightarrow> container_backend \<Rightarrow> string \<Rightarrow> sandbox_probe_result list \<Rightarrow> behavioral_probes \<Rightarrow>
     sandbox_verification \<Rightarrow> sandbox_verification" where
  "with_probes pl b version results probes v = v\<lparr>
     sv_seccomp_active_verified := bp_seccomp_active probes,
     sv_host_pid_hidden_verified := bp_host_pid_hidden probes,
     sv_host_user_namespace_verified := bp_host_user_namespace probes,
     sv_host_mount_namespace_verified := bp_host_mount_namespace probes,
     sv_cloud_metadata_unreachable_verified := bp_cloud_metadata_unreachable probes,
     sv_dns_resolution_denied_verified := bp_dns_denied probes,
     sv_forbidden_mounts_absent_verified := bp_forbidden_mounts_absent probes,
     sv_runtime_socket_absent_verified := bp_runtime_socket_absent probes,
     sv_control_plane_unreachable_verified := bp_control_plane_unreachable probes,
     sv_cross_attempt_isolation_verified := bp_host_mount_namespace probes,
     sv_probe_results := results, sv_backend_descriptor := cb_runtime b, sv_backend_version := version,
     sv_platform := pl_os pl, sv_architecture := pl_arch pl, sv_probe_implementation_version := ''2''\<rparr>"

definition container_verify ::
    "'h host \<Rightarrow> platform \<Rightarrow> container_backend \<Rightarrow> string \<Rightarrow> sandbox_plan \<Rightarrow> ('h, string, sandbox_verification) effect" where
  "container_verify H pl b key p =
     bindH (inspect_container H b (container_name b key)) (\<lambda>text.
     bindH (liftH (container_pid_from_inspect pl text)) (\<lambda>pid.
     bindH (verify_container_json H pl text key p pid) (\<lambda>v.
     bindH (run_probes H pid) (\<lambda>(results, probes).
     bindH (backend_version H b) (\<lambda>version.
     returnH (with_probes pl b version results probes v))))))"

text \<open>\<open>impl SandboxBackend for LocalContainerBackend\<close>.\<close>

definition local_container_backend :: "'h host \<Rightarrow> platform \<Rightarrow> container_backend \<Rightarrow> 'h sandbox_backend" where
  "local_container_backend H pl b =
     \<lparr>xb_ensure = container_ensure H pl b, xb_inspect = container_inspect H b,
      xb_release = container_release H b, xb_verify = container_verify H pl b\<rparr>"

end
