(* ===== verification/Containment.thy ===== *)
theory Containment
  imports Container_Backend
begin

text \<open>
  What the container backend guarantees: which evidence a passed verification rests on, how the
  runtime reads the command that creates a container, and which containers exist after each
  operation.
\<close>

section \<open>The evidence behind a verification\<close>

















section \<open>A runtime to evaluate with\<close>

definition demo_answer :: "string \<Rightarrow> (io_error, process_output) res" where
  "demo_answer out = Inr \<lparr>pc_success = True, pc_code = Some 0, pc_stdout = out, pc_stderr = []\<rparr>"

definition demo_name :: string where
  "demo_name = ''pantheon-sandbox-k1''"

text \<open>It keeps containers by name and answers listings for \<open>demo_name\<close>.\<close>

definition demo_runtime :: "(string \<Rightarrow> bool option) host" where
  "demo_runtime =
     \<lparr>ho_output = (\<lambda>c h. case cl_args c of
          [] \<Rightarrow> (demo_answer [], h)
        | verb # rest \<Rightarrow>
            if verb = ''ps'' then (demo_answer
              (if (if hd rest = ''-a'' then h demo_name \<noteq> None else h demo_name = Some True)
               then demo_name @ [CHR 0x0A] else []), h)
            else if verb = ''create'' then (demo_answer [], h(hd (tl rest) \<mapsto> False))
            else if verb = ''start'' then (demo_answer [], h(hd rest \<mapsto> True))
            else (demo_answer [], h)),
      ho_read = (\<lambda>_ h. (Inr [], h)), ho_read_link = (\<lambda>_ h. (Inr [], h)), ho_exists = (\<lambda>_ h. (False, h)),
      ho_symlink_metadata = (\<lambda>_ h. (Inr (), h)), ho_create_dir_all = (\<lambda>_ h. (Inr (), h)),
      ho_remove_dir_all = (\<lambda>_ h. (Inr (), h)), ho_write = (\<lambda>_ _ h. (Inr (), h)),
      ho_feed = (\<lambda>_ h. (Inr (demo_answer []), h)), ho_counter = (\<lambda>h. (0, h)), ho_process_id = 7, ho_path_variable = None\<rparr>"

definition demo_platform :: platform where
  "demo_platform = \<lparr>pl_arch = ''x86_64'', pl_os = ''linux'', pl_cpus_text = (\<lambda>_. ''0.50''),
     pl_from_json = (\<lambda>_. Inl ''unsupported'')\<rparr>"

definition demo_plan :: sandbox_plan where
  "demo_plan = \<lparr>sb_sandbox_profile_digest = Digest [], sb_environment_identity = ''registry/agent:1'',
     sb_mounts = [\<lparr>sm_source = ''/srv/w'', sm_destination = ''/workspace'', sm_read_only = False\<rparr>],
     sb_network_mode = NetNone, sb_cpu_limit_millicores = Some 500, sb_memory_limit_mb = None\<rparr>"

lemma demo_listing:
  "str_trim (utf8_lossy (demo_name @ [CHR 0x0A])) = demo_name" "str_trim (utf8_lossy []) \<noteq> demo_name"
  by code_simp+

section \<open>The command that creates a container\<close>














lemma runs_runtime_checked [runs]:
  "P (command_new (cb_runtime b) args) \<Longrightarrow> runs_only P (runtime_checked (recording H) b what verb args)"
  by (auto simp: runtime_checked_def runtime_output_def intro!: runs)




section \<open>Which containers exist\<close>

definition ps_all :: "container_backend \<Rightarrow> string \<Rightarrow> command_line" where
  "ps_all b name = command_new (cb_runtime b) [''ps'', ''-a'', ''--filter'', name_filter name, ''--format'', names_format]"

definition ps_running :: "container_backend \<Rightarrow> string \<Rightarrow> command_line" where
  "ps_running b name = command_new (cb_runtime b) [''ps'', ''--filter'', name_filter name, ''--format'', names_format]"

definition succeeded :: "(io_error, process_output) res \<Rightarrow> bool" where
  "succeeded r = (case r of Inr out \<Rightarrow> pc_success out | Inl _ \<Rightarrow> False)"

definition lists :: "string \<Rightarrow> (io_error, process_output) res \<Rightarrow> bool" where
  "lists name r = (case r of Inr out \<Rightarrow> str_trim (utf8_lossy (pc_stdout out)) = name | Inl _ \<Rightarrow> False)"

text \<open>
  What the backend relies on in a container runtime, for the container called \<open>name\<close>; \<open>view\<close> says
  of every name whether a container of that name exists and whether it runs. Listing changes
  nothing and, when it succeeds, answers the truth; creating adds a stopped container; starting
  makes it run; a command that fails leaves things as they were. All of them, stopping and removing
  too, leave other containers alone.
\<close>

definition runtime_laws :: "'h host \<Rightarrow> container_backend \<Rightarrow> string \<Rightarrow> ('h \<Rightarrow> string \<Rightarrow> bool option) \<Rightarrow> bool" where
  "runtime_laws H b name view \<longleftrightarrow>
     (\<forall>h r h'. ho_output H (ps_all b name) h = (r, h') \<longrightarrow>
        view h' = view h \<and> (succeeded r \<longrightarrow> (lists name r \<longleftrightarrow> view h name \<noteq> None)))
   \<and> (\<forall>h r h'. ho_output H (ps_running b name) h = (r, h') \<longrightarrow>
        view h' = view h \<and> (succeeded r \<longrightarrow> (lists name r \<longleftrightarrow> view h name = Some True)))
   \<and> (\<forall>args h r h'. ho_output H (command_new (cb_runtime b) (''create'' # ''--name'' # name # args)) h = (r, h') \<longrightarrow>
        view h' = (if succeeded r then (view h)(name \<mapsto> False) else view h))
   \<and> (\<forall>h r h'. ho_output H (command_new (cb_runtime b) [''start'', name]) h = (r, h') \<longrightarrow>
        view h' = (if succeeded r then (view h)(name \<mapsto> True) else view h))"

definition presence_of :: "bool option \<Rightarrow> sandbox_presence" where
  "presence_of v = (case v of None \<Rightarrow> PAbsent | Some running \<Rightarrow> if running then PPresent else PUnknown)"

lemma runtime_checked_iff:
  "runtime_checked H b what verb args h = (Inr out, h') \<longleftrightarrow>
     ho_output H (command_new (cb_runtime b) args) h = (Inr out, h') \<and> pc_success out"
  by (auto simp: runtime_checked_def runtime_output_def host_iff split: if_splits)

lemma runtime_lawsD:
  assumes "runtime_laws H b name view" and "pc_success out"
  shows "ho_output H (ps_all b name) h = (Inr out, h') \<Longrightarrow>
      view h' = view h \<and> (str_trim (utf8_lossy (pc_stdout out)) = name \<longleftrightarrow> view h name \<noteq> None)"
    and "ho_output H (ps_running b name) h = (Inr out, h') \<Longrightarrow>
      view h' = view h \<and> (str_trim (utf8_lossy (pc_stdout out)) = name \<longleftrightarrow> view h name = Some True)"
    and "ho_output H (command_new (cb_runtime b) (''create'' # ''--name'' # name # args)) h = (Inr out, h') \<Longrightarrow>
      view h' = (view h)(name \<mapsto> False)"
    and "ho_output H (command_new (cb_runtime b) [''start'', name]) h = (Inr out, h') \<Longrightarrow> view h' = (view h)(name \<mapsto> True)"
proof -
  have ok: "succeeded (Inr out)" "lists name (Inr out) \<longleftrightarrow> str_trim (utf8_lossy (pc_stdout out)) = name"
    using assms(2) by (simp_all add: succeeded_def lists_def)
  note laws = assms(1) [unfolded runtime_laws_def]
  show "ho_output H (ps_all b name) h = (Inr out, h') \<Longrightarrow>
      view h' = view h \<and> (str_trim (utf8_lossy (pc_stdout out)) = name \<longleftrightarrow> view h name \<noteq> None)"
    using laws ok by metis
  show "ho_output H (ps_running b name) h = (Inr out, h') \<Longrightarrow>
      view h' = view h \<and> (str_trim (utf8_lossy (pc_stdout out)) = name \<longleftrightarrow> view h name = Some True)"
    using laws ok by metis
  show "ho_output H (command_new (cb_runtime b) (''create'' # ''--name'' # name # args)) h = (Inr out, h') \<Longrightarrow>
      view h' = (view h)(name \<mapsto> False)"
    using laws ok(1) by metis
  show "ho_output H (command_new (cb_runtime b) [''start'', name]) h = (Inr out, h') \<Longrightarrow> view h' = (view h)(name \<mapsto> True)"
    using laws ok(1) by metis
qed

lemma runtime_operations:
  assumes "runtime_laws H b name view"
  shows "container_exists H b name h = (Inr e, h') \<Longrightarrow> view h' = view h \<and> e = (view h name \<noteq> None)"
    and "container_running H b name h = (Inr e, h') \<Longrightarrow> view h' = view h \<and> e = (view h name = Some True)"
    and "create_container H pl b name p h = (Inr u, h') \<Longrightarrow> view h' = (view h)(name \<mapsto> False)"
    and "start_container H b name h = (Inr u, h') \<Longrightarrow> view h' = (view h)(name \<mapsto> True)"
  subgoal
    unfolding container_exists_def host_iff runtime_checked_iff ps_all_def [symmetric]
    using runtime_lawsD(1) [OF assms] by blast
  subgoal
    unfolding container_running_def host_iff runtime_checked_iff ps_running_def [symmetric]
    using runtime_lawsD(2) [OF assms] by blast
  subgoal
    using runtime_lawsD(3) [OF assms] by (auto simp: create_container_def host_iff runtime_checked_iff create_args_def)
  subgoal
    using runtime_lawsD(4) [OF assms] by (auto simp: start_container_def host_iff runtime_checked_iff)
  done

text \<open>
  An ensured Sandbox runs. Under a runtime that behaves as documented, a successful ensure
  leaves the container of the key running and every other container as it was, and an inspection
  of the key right after it reports it present.
\<close>

theorem ensured_sandbox_runs:
  assumes "runtime_laws H b (container_name b key) view"
    and "container_ensure H pl b key p h = (Inr r, h1)" and "container_inspect H b key h1 = (Inr seen, h2)"
  shows "r = PPresent \<and> seen = PPresent \<and> view h2 = (view h)(container_name b key \<mapsto> True)"
proof -
  note laws = runtime_operations [OF assms(1)]
  have "r = PPresent \<and> view h1 = (view h)(container_name b key \<mapsto> True)"
    using assms(2) by (auto simp: container_ensure_def Let_def host_iff split: if_splits dest!: laws)
  moreover from this have "seen = presence_of (Some True) \<and> view h2 = view h1"
    using assms(3) by (auto simp: container_inspect_def Let_def host_iff presence_of_def split: if_splits dest!: laws)
  ultimately show ?thesis by (simp add: presence_of_def)
qed

lemma demo_runtime_laws: "runtime_laws demo_runtime (backend_for runtime knd) demo_name id"
  unfolding runtime_laws_def ps_all_def ps_running_def command_new_def demo_runtime_def demo_answer_def succeeded_def lists_def
  by (auto simp: demo_listing split: if_splits)

theorem ensured_sandbox_runs_witness:
  "\<exists>h1 h2. container_ensure demo_runtime demo_platform (backend_for ''podman'' Podman) ''k1'' demo_plan (\<lambda>_. None) = (Inr PPresent, h1)
     \<and> container_inspect demo_runtime (backend_for ''podman'' Podman) ''k1'' h1 = (Inr PPresent, h2) \<and> h2 demo_name = Some True"
proof -
  let ?b = "backend_for ''podman'' Podman"
  have name: "container_name ?b ''k1'' = demo_name" by (simp add: container_name_def backend_for_def demo_name_def)
  let ?h1 = "(\<lambda>_. None)(demo_name \<mapsto> False, demo_name \<mapsto> True)"
  note evaluate = Let_def name container_exists_def container_running_def create_container_def start_container_def
    runtime_checked_def runtime_output_def host_defs demo_runtime_def demo_answer_def command_new_def demo_listing create_args_def
  have e: "container_ensure demo_runtime demo_platform ?b ''k1'' demo_plan (\<lambda>_. None) = (Inr PPresent, ?h1)"
    by (simp add: container_ensure_def evaluate)
  have i: "container_inspect demo_runtime ?b ''k1'' ?h1 = (Inr PPresent, ?h1)"
    by (simp add: container_inspect_def evaluate exI [of _ True])
  from ensured_sandbox_runs [OF demo_runtime_laws [folded name] e i] name e i show ?thesis by auto
qed

text \<open>
  Releasing ignores the exit status of \<open>rm\<close>: it reports success although the container is still
  there, here under a runtime whose \<open>rm\<close> does nothing.
\<close>

lemma release_ignores_failed_removal:
  "\<exists>h'. container_release demo_runtime (backend_for ''podman'' Podman) ''k1'' ((\<lambda>_. None)(demo_name \<mapsto> True)) = (Inr (), h')
     \<and> h' demo_name = Some True"
  by (simp add: container_release_def Let_def container_exists_def stop_container_def remove_container_def
      runtime_checked_def runtime_output_def host_defs demo_runtime_def demo_answer_def command_new_def demo_listing
      container_name_def backend_for_def demo_name_def [symmetric])

end
