(* ===== verification/Git_Materializer.thy ===== *)
theory Git_Materializer
  imports Host Engine_Workspace
begin

text \<open>
  The Git implementation of the materialiser port (\<^verbatim>\<open>crates/pantheon-git/src/sterile.rs\<close> and
  \<^verbatim>\<open>materializer.rs\<close>): the sterile profile every Git process runs under, and resolving, materialising,
  observing and discarding a Workspace repository. What Git does is the host's business; the model
  is the commands, their environment and order, and what is concluded from their answers.
\<close>

section \<open>The sterile profile\<close>

record sterile_profile =
  sf_base :: string
  sf_home :: string
  sf_empty :: string
  sf_empty_config :: string

definition sterile_create :: "'h host \<Rightarrow> string \<Rightarrow> ('h, io_error, sterile_profile) effect" where
  "sterile_create H control_root =
     (let base = path_join control_root ''sterile''; home = path_join base ''home''; empty = path_join base ''empty'';
          empty_config = path_join base ''empty.gitconfig'' in
     bindH (ho_create_dir_all H home) (\<lambda>_.
     bindH (ho_create_dir_all H empty) (\<lambda>_.
     bindH (ho_write H empty_config []) (\<lambda>_.
     returnH \<lparr>sf_base = base, sf_home = home, sf_empty = empty, sf_empty_config = empty_config\<rparr>))))"

definition scratch_dir :: "'h host \<Rightarrow> sterile_profile \<Rightarrow> string \<Rightarrow> ('h, io_error, string) effect" where
  "scratch_dir H st purpose =
     bindH (seeH (ho_counter H)) (\<lambda>unique.
     let dir = path_join (path_join (sf_base st) ''scratch'')
           (purpose @ ''-'' @ int_to_string (ho_process_id H) @ ''-'' @ int_to_string unique) in
     bindH (ho_create_dir_all H dir) (\<lambda>_. returnH dir))"

definition sterile_env :: "'h host \<Rightarrow> sterile_profile \<Rightarrow> (string \<times> string) list" where
  "sterile_env H st =
     (case ho_path_variable H of Some p \<Rightarrow> [(''PATH'', p)] | None \<Rightarrow> [])
     @ [(''HOME'', sf_home st), (''XDG_CONFIG_HOME'', sf_home st), (''GIT_CONFIG_NOSYSTEM'', ''1''),
        (''GIT_CONFIG_GLOBAL'', sf_empty_config st), (''GIT_CONFIG_SYSTEM'', sf_empty_config st),
        (''GIT_ATTR_NOSYSTEM'', ''1''), (''GIT_TERMINAL_PROMPT'', ''0''), (''LC_ALL'', ''C'')]"

definition sterile_args :: "sterile_profile \<Rightarrow> string list" where
  "sterile_args st = [''-c'', ''core.hooksPath='' @ utf8_lossy (sf_empty st), ''-c'', ''advice.detachedHead=false'',
     ''-c'', ''init.defaultBranch=main'']"

definition sterile_command :: "'h host \<Rightarrow> sterile_profile \<Rightarrow> string list \<Rightarrow> command_line" where
  "sterile_command H st args = \<lparr>cl_program = ''git'', cl_args = sterile_args st @ args, cl_env = Some (sterile_env H st),
     cl_stdin = None\<rparr>"

definition sterile_run :: "'h host \<Rightarrow> sterile_profile \<Rightarrow> string list \<Rightarrow> ('h, io_error, process_output) effect" where
  "sterile_run H st args = ho_output H (sterile_command H st args)"

section \<open>Running Git\<close>

definition pantheon_base_ref :: string where
  "pantheon_base_ref = ''refs/pantheon/base''"

definition workspace_identity_name :: string where
  "workspace_identity_name = ''Pantheon Task Workspace''"

definition workspace_identity_email :: string where
  "workspace_identity_email = ''workspace'' @ [CHR 0x40] @ ''pantheon.invalid''"

definition unresolvable_code :: string where
  "unresolvable_code = ''workspace.base-unresolvable''"

definition failed_code :: string where
  "failed_code = ''workspace.materialization-failed''"

definition hostile_code :: string where
  "hostile_code = ''workspace.hostile-repository-state''"

definition materializer_git ::
    "'h host \<Rightarrow> sterile_profile \<Rightarrow> string \<Rightarrow> string \<Rightarrow> string list \<Rightarrow> ('h, materializer_error, string) effect" where
  "materializer_git H st code what args =
     bindH (mapH (\<lambda>e. \<lparr>me_code = code, me_detail = Fmt ''could not run git while {what}: {err}'' [FStr what, FStr (io_error_text e)]\<rparr>)
        (sterile_run H st args)) (\<lambda>out.
     if pc_success out then returnH (utf8_lossy (pc_stdout out))
     else raiseH \<lparr>me_code = code, me_detail = Fmt ''git failed while {what}: {}''
       [FStr what, FStr (str_trim (utf8_lossy (pc_stderr out)))]\<rparr>)"

definition git_probe :: "'h host \<Rightarrow> sterile_profile \<Rightarrow> string list \<Rightarrow> ('h, 'e, string option) effect" where
  "git_probe H st args =
     bindH (tryH (sterile_run H st args)) (\<lambda>answer.
     returnH (case answer of
       Inr out \<Rightarrow> if pc_success out then Some (str_trim (utf8_lossy (pc_stdout out))) else None
     | Inl _ \<Rightarrow> None))"

definition refuse :: "message \<Rightarrow> ('h, materializer_error, 'a) effect" where
  "refuse detail = raiseH \<lparr>me_code = hostile_code, me_detail = detail\<rparr>"

definition common_dir_args :: "string \<Rightarrow> string list" where
  "common_dir_args dest = [''-C'', dest, ''rev-parse'', ''--path-format=absolute'', ''--git-common-dir'']"

definition git_dir_args :: "string \<Rightarrow> string list" where
  "git_dir_args dest = [''-C'', dest, ''rev-parse'', ''--path-format=absolute'', ''--git-dir'']"

definition verify_isolation :: "'h host \<Rightarrow> sterile_profile \<Rightarrow> string \<Rightarrow> ('h, materializer_error, unit) effect" where
  "verify_isolation H st destination =
     (let dest = utf8_lossy destination in
     bindH (git_probe H st (common_dir_args dest)) (\<lambda>c.
     bindH (git_probe H st (git_dir_args dest)) (\<lambda>g.
     let common = (case c of Some t \<Rightarrow> t | None \<Rightarrow> []); git_dir = (case g of Some t \<Rightarrow> t | None \<Rightarrow> []) in
     if common = [] \<or> common \<noteq> git_dir then refuse (Fmt
       ''{dest} has git dir {git_dir:?} and common dir {common:?}, which are not the same repository''
       [FStr dest, FStr git_dir, FStr common])
     else
     bindH (tryH (ho_symlink_metadata H (path_join destination ''.git/objects/info/alternates''))) (\<lambda>alternates.
     case alternates of
       Inr _ \<Rightarrow> refuse (Fmt ''{dest} borrows an alternate object database'' [FStr dest])
     | Inl _ \<Rightarrow>
         bindH (git_probe H st [''-C'', dest, ''remote'']) (\<lambda>r.
         case r of
           None \<Rightarrow> refuse (Fmt ''could not list remotes of {dest}'' [FStr dest])
         | Some remotes \<Rightarrow>
             if str_trim remotes \<noteq> [] then refuse (Fmt ''{dest} has configured remotes: {remotes:?}'' [FStr dest, FStr remotes])
             else returnH ())))))"

section \<open>The port\<close>

definition git_resolve_base :: "'h host \<Rightarrow> sterile_profile \<Rightarrow> string \<Rightarrow> string \<Rightarrow> ('h, materializer_error, string) effect" where
  "git_resolve_base H st source requested =
     (let revision = requested @ ''^'' @ [CHR 0x7B] @ ''commit'' @ [CHR 0x7D] in
     bindH (materializer_git H st unresolvable_code ''resolving the requested base''
        [''-C'', utf8_lossy source, ''rev-parse'', ''--verify'', ''--quiet'', ''--end-of-options'', revision]) (\<lambda>resolved.
     liftH (map_sum (\<lambda>e. \<lparr>me_code = unresolvable_code,
         me_detail = Fmt ''{} did not resolve to a usable commit: {err}'' [FStr requested, FMsg (base_error_display e)]\<rparr>) id
       (resolved_base_parse (str_trim resolved)))))"

text \<open>\<open>Path::parent\<close> of a path without a trailing separator.\<close>

definition path_parent :: "string \<Rightarrow> string option" where
  "path_parent p = (if p = [] \<or> p = ''/'' then None
     else (let d = rev (dropWhile (\<lambda>c. c \<noteq> CHR ''/'') (rev p)) in
       Some (if d = ''/'' then d else rev (dropWhile (\<lambda>c. c = CHR ''/'') (rev d)))))"

text \<open>The commands of \<open>materialize\<close> up to the isolation check, each with what it does.\<close>

definition materialize_steps :: "sterile_profile \<Rightarrow> materialization_target \<Rightarrow> (string \<times> string list) list" where
  "materialize_steps st t =
     (let destination = utf8_lossy (mt_destination t); base = mt_base t in
     [(''creating the workspace repository'',
        [''init'', ''--quiet'', ''--template'', utf8_lossy (sf_empty st), destination]),
      (''fetching the immutable base'',
        [''-C'', destination, ''fetch'', ''--quiet'', ''--no-tags'', ''--end-of-options'', utf8_lossy (mt_source t), base]),
      (''pinning the base'', [''-C'', destination, ''update-ref'', pantheon_base_ref, base]),
      (''checking out the base'', [''-C'', destination, ''checkout'', ''--quiet'', ''--detach'', base]),
      (''setting the workspace commit identity'', [''-C'', destination, ''config'', ''user.name'', workspace_identity_name]),
      (''setting the workspace commit identity'', [''-C'', destination, ''config'', ''user.email'', workspace_identity_email])])"

definition git_materialize ::
    "'h host \<Rightarrow> sterile_profile \<Rightarrow> materialization_target \<Rightarrow> ('h, materializer_error, string) effect" where
  "git_materialize H st t =
     bindH (case path_parent (mt_destination t) of
         Some parent \<Rightarrow> mapH (\<lambda>e. \<lparr>me_code = failed_code, me_detail = Fmt ''could not create the workspace directory: {err}''
             [FStr (io_error_text e)]\<rparr>) (ho_create_dir_all H parent)
       | None \<Rightarrow> returnH ()) (\<lambda>_.
     bindH (foldH (\<lambda>_ (what, args). bindH (materializer_git H st failed_code what args) (\<lambda>_. returnH ())) ()
        (materialize_steps st t)) (\<lambda>_.
     bindH (verify_isolation H st (mt_destination t)) (\<lambda>_.
     bindH (materializer_git H st failed_code ''verifying the checked-out base''
        [''-C'', utf8_lossy (mt_destination t), ''rev-parse'', ''--verify'', ''HEAD'']) (\<lambda>head.
     liftH (map_sum (\<lambda>e. \<lparr>me_code = failed_code,
         me_detail = Fmt ''the workspace HEAD is not a usable object name: {err}'' [FMsg (base_error_display e)]\<rparr>) id
       (resolved_base_parse (str_trim head)))))))"

definition git_observe ::
    "'h host \<Rightarrow> sterile_profile \<Rightarrow> materialization_target \<Rightarrow> ('h, materializer_error, materialization) effect" where
  "git_observe H st t =
     bindH (tryH (ho_symlink_metadata H (mt_destination t))) (\<lambda>metadata.
     case metadata of
       Inl e \<Rightarrow> returnH (if io_error_kind e = NotFoundKind then MAbsent else MUnknown)
     | Inr _ \<Rightarrow>
         let destination = utf8_lossy (mt_destination t) in
         bindH (git_probe H st [''-C'', destination, ''rev-parse'', ''--verify'', ''HEAD'']) (\<lambda>head.
         bindH (git_probe H st [''-C'', destination, ''cat-file'', ''-e'', mt_base t]) (\<lambda>base.
         bindH (tryH (verify_isolation H st (mt_destination t))) (\<lambda>isolated.
         returnH (if head \<noteq> None \<and> base \<noteq> None \<and> isolated = Inr () then MPresent else MUnknown)))))"

definition git_discard :: "'h host \<Rightarrow> materialization_target \<Rightarrow> ('h, materializer_error, unit) effect" where
  "git_discard H t =
     bindH (tryH (ho_remove_dir_all H (mt_destination t))) (\<lambda>answer.
     case answer of
       Inr _ \<Rightarrow> returnH ()
     | Inl e \<Rightarrow>
         if io_error_kind e = NotFoundKind then returnH ()
         else raiseH \<lparr>me_code = failed_code, me_detail = Fmt ''could not discard {}: {err}''
           [FStr (utf8_lossy (mt_destination t)), FStr (io_error_text e)]\<rparr>)"

definition git_materializer :: "'h host \<Rightarrow> sterile_profile \<Rightarrow> 'h materializer" where
  "git_materializer H st =
     \<lparr>mz_resolve_base = git_resolve_base H st, mz_materialize = git_materialize H st,
      mz_observe = git_observe H st, mz_discard = git_discard H\<rparr>"

section \<open>The commands an operation runs, in order\<close>

text \<open>
  \<open>m\<close> runs a prefix of the commands \<open>cs\<close>, and all of them unless it fails.
\<close>

definition follows :: "command_line list \<Rightarrow> ('h \<times> command_line list, 'e, 'a) effect \<Rightarrow> bool" where
  "follows cs m \<longleftrightarrow> (\<forall>h log. \<exists>k. snd (snd (m (h, log))) = log @ take k cs \<and> (length cs \<le> k \<or> isl (fst (m (h, log)))))"

lemma follows_bind:
  assumes "follows cs m" and "\<And>x. follows ds (f x)"
  shows "follows (cs @ ds) (bindH m f)"
  unfolding follows_def
proof (intro allI)
  fix h log
  obtain r h1 log1 where m: "m (h, log) = (r, (h1, log1))" by (metis prod.exhaust)
  from assms(1) obtain k where k: "log1 = log @ take k cs" "length cs \<le> k \<or> isl r"
    unfolding follows_def by (metis m fst_conv snd_conv)
  show "\<exists>k. snd (snd (bindH m f (h, log))) = log @ take k (cs @ ds) \<and> (length (cs @ ds) \<le> k \<or> isl (fst (bindH m f (h, log))))"
  proof (cases r)
    case (Inl e)
    with k m show ?thesis by (intro exI [of _ "min k (length cs)"]) (simp add: bindH_def min_def)
  next
    case (Inr x)
    from assms(2) obtain j where "snd (snd (f x (h1, log1))) = log1 @ take j ds"
      "length ds \<le> j \<or> isl (fst (f x (h1, log1)))"
      unfolding follows_def by metis
    with k m Inr show ?thesis by (intro exI [of _ "length cs + j"]) (auto simp: bindH_def)
  qed
qed

lemma sterile_command_recording [simp]: "sterile_command (recording H) st args = sterile_command H st args"
  by (simp add: sterile_command_def sterile_env_def recording_def)

lemma follows_output: "follows [c] (ho_output (recording H) c)" "follows [c] (tryH (ho_output (recording H) c))"
  unfolding follows_def by (auto simp: recording_def tryH_def intro!: exI [of _ 1] split: prod.split)

lemma follows_done: "follows [] (returnH x)" "follows cs (raiseH e)" "follows [] (liftH q)"
  by (auto simp: follows_def host_defs intro: exI [of _ 0])

lemma follows_map: "follows cs m \<Longrightarrow> follows cs (mapH g m)"
  unfolding follows_def mapH_def by (auto split: prod.split) (metis fst_conv isl_map_sum snd_conv)

lemma follows_files:
  "follows [] (ho_create_dir_all (recording H) p)" "follows [] (tryH (ho_symlink_metadata (recording H) p))"
  unfolding follows_def by (auto simp: recording_def tryH_def split: prod.split)

lemma follows_git: "follows [sterile_command H st args] (materializer_git (recording H) st code what args)"
proof -
  have "follows ([sterile_command H st args] @ []) (materializer_git (recording H) st code what args)"
    unfolding materializer_git_def sterile_run_def sterile_command_recording
    by (intro follows_bind follows_map follows_output) (simp_all add: follows_done)
  then show ?thesis by simp
qed

lemma follows_probe: "follows [sterile_command H st args] (git_probe (recording H) st args)"
proof -
  have "follows ([sterile_command H st args] @ []) (git_probe (recording H) st args)"
    unfolding git_probe_def sterile_run_def sterile_command_recording by (intro follows_bind follows_output follows_done)
  then show ?thesis by simp
qed

definition isolation_script :: "string \<Rightarrow> string list list" where
  "isolation_script dest = [common_dir_args dest, git_dir_args dest, [''-C'', dest, ''remote'']]"

lemma follows_isolation:
  "follows (map (sterile_command H st) (isolation_script (utf8_lossy d))) (verify_isolation (recording H) st d)"
proof -
  let ?c = "sterile_command H st"
  have last: "follows ([?c [''-C'', utf8_lossy d, ''remote'']] @ [])
      (bindH (git_probe (recording H) st [''-C'', utf8_lossy d, ''remote'']) (\<lambda>r. case r of
         None \<Rightarrow> refuse m1 | Some remotes \<Rightarrow> if str_trim remotes \<noteq> [] then refuse (m2 remotes) else returnH ()))" for m1 m2
    by (intro follows_bind follows_probe) (simp add: refuse_def follows_done split: option.split)
  have "follows ([?c (common_dir_args (utf8_lossy d))] @ [?c (git_dir_args (utf8_lossy d))]
      @ [] @ [?c [''-C'', utf8_lossy d, ''remote'']]) (verify_isolation (recording H) st d)"
    unfolding verify_isolation_def Let_def
    apply (intro follows_bind follows_probe)
    apply (simp only: if_split)
    apply (intro conjI impI)
     apply (simp add: refuse_def follows_done)
    apply (intro follows_bind [where cs = "[]", simplified] follows_files)
    using last by (auto simp: refuse_def follows_done split: sum.split)
  then show ?thesis by (simp add: isolation_script_def)
qed

lemma follows_fold: "(\<And>s a. follows [c a] (f s a)) \<Longrightarrow> follows (map c as) (foldH f s as)"
proof (induction as arbitrary: s)
  case Nil
  show ?case by (simp add: follows_done)
next
  case (Cons a as)
  have "follows ([c a] @ map c as) (bindH (f s a) (\<lambda>s'. foldH f s' as))"
    by (intro follows_bind Cons.prems Cons.IH)
  then show ?case by simp
qed

definition materialize_script :: "'h host \<Rightarrow> sterile_profile \<Rightarrow> materialization_target \<Rightarrow> command_line list" where
  "materialize_script H st t = map (sterile_command H st) (map snd (materialize_steps st t)
     @ isolation_script (utf8_lossy (mt_destination t))
     @ [[''-C'', utf8_lossy (mt_destination t), ''rev-parse'', ''--verify'', ''HEAD'']])"

lemma follows_materialize: "follows (materialize_script H st t) (git_materialize (recording H) st t)"
proof -
  let ?c = "sterile_command H st"
  have dir: "follows [] (case path_parent (mt_destination t) of
      Some parent \<Rightarrow> mapH g (ho_create_dir_all (recording H) parent) | None \<Rightarrow> returnH ())" for g :: "io_error \<Rightarrow> materializer_error"
    by (auto intro: follows_map follows_files follows_done split: option.split)
  have step: "follows [?c (snd a)] (case a of (what, args) \<Rightarrow>
      bindH (materializer_git (recording H) st failed_code what args) (\<lambda>_. returnH ()))" for a
    using follows_bind [OF follows_git follows_done(1)] by (cases a) simp
  have head: "follows [?c args] (bindH (materializer_git (recording H) st failed_code what args) (\<lambda>x. liftH (q x)))" for args what q
    using follows_bind [OF follows_git follows_done(3)] by simp
  have "follows ([] @ map (\<lambda>a. ?c (snd a)) (materialize_steps st t)
      @ map ?c (isolation_script (utf8_lossy (mt_destination t)))
      @ [?c [''-C'', utf8_lossy (mt_destination t), ''rev-parse'', ''--verify'', ''HEAD'']]) (git_materialize (recording H) st t)"
    unfolding git_materialize_def by (intro follows_bind dir follows_fold step follows_isolation head)
  then show ?thesis by (simp add: materialize_script_def comp_def)
qed

section \<open>What the profile removes\<close>

text \<open>
  A command that carries no ambient authority: Git with the hooks directory of the profile, an
  environment rebuilt from nothing in which only \<open>PATH\<close> is inherited, and a read or one of the
  commands that build a repository.
\<close>

definition permitted_git :: "string list \<Rightarrow> bool" where
  "permitted_git args \<longleftrightarrow> hd args = ''init'' \<or> hd args = ''-C'' \<and>
     args ! 2 \<in> {''rev-parse'', ''cat-file'', ''remote'', ''fetch'', ''update-ref'', ''checkout'', ''config''}"

definition sterile :: "'h host \<Rightarrow> sterile_profile \<Rightarrow> command_line \<Rightarrow> bool" where
  "sterile H st c \<longleftrightarrow> cl_program c = ''git'' \<and> cl_stdin c = None
     \<and> (\<exists>env. cl_env c = Some env \<and> map_of env =
           (Map.empty(''HOME'' \<mapsto> sf_home st, ''XDG_CONFIG_HOME'' \<mapsto> sf_home st, ''GIT_CONFIG_NOSYSTEM'' \<mapsto> ''1'',
            ''GIT_CONFIG_GLOBAL'' \<mapsto> sf_empty_config st, ''GIT_CONFIG_SYSTEM'' \<mapsto> sf_empty_config st,
            ''GIT_ATTR_NOSYSTEM'' \<mapsto> ''1'', ''GIT_TERMINAL_PROMPT'' \<mapsto> ''0'', ''LC_ALL'' \<mapsto> ''C'',
            ''PATH'' := ho_path_variable H)))
     \<and> (\<exists>args. cl_args c = [''-c'', ''core.hooksPath='' @ utf8_lossy (sf_empty st), ''-c'', ''advice.detachedHead=false'',
           ''-c'', ''init.defaultBranch=main''] @ args \<and> permitted_git args)"

lemma sterile_env_map: "map_of (sterile_env H st) =
   (Map.empty(''HOME'' \<mapsto> sf_home st, ''XDG_CONFIG_HOME'' \<mapsto> sf_home st, ''GIT_CONFIG_NOSYSTEM'' \<mapsto> ''1'',
    ''GIT_CONFIG_GLOBAL'' \<mapsto> sf_empty_config st, ''GIT_CONFIG_SYSTEM'' \<mapsto> sf_empty_config st,
    ''GIT_ATTR_NOSYSTEM'' \<mapsto> ''1'', ''GIT_TERMINAL_PROMPT'' \<mapsto> ''0'', ''LC_ALL'' \<mapsto> ''C'',
            ''PATH'' := ho_path_variable H))"
  by (rule ext) (simp add: sterile_env_def split: option.split)

lemma sterile_command_sterile: "permitted_git args \<Longrightarrow> sterile H st (sterile_command H st args)"
  unfolding sterile_def sterile_command_def sterile_args_def using sterile_env_map [of H st]
  by (intro conjI exI) simp_all

lemma runs_sterile [runs]:
  assumes "permitted_git args"
  shows "runs_only (sterile H st) (materializer_git (recording H) st code what args)"
    and "runs_only (sterile H st) (git_probe (recording H) st args)"
  using sterile_command_sterile [OF assms, of H st]
  by (auto simp: materializer_git_def git_probe_def sterile_run_def intro!: runs)

lemma permitted_reads [simp]:
  "permitted_git (common_dir_args d)" "permitted_git (git_dir_args d)" "permitted_git (''-C'' # d # ''remote'' # ws)"
  "permitted_git (''-C'' # d # ''rev-parse'' # ws)" "permitted_git (''-C'' # d # ''cat-file'' # ws)"
  by (simp_all add: permitted_git_def common_dir_args_def git_dir_args_def)

lemma runs_sterile_isolation [runs]: "runs_only (sterile H st) (verify_isolation (recording H) st d)"
  unfolding verify_isolation_def Let_def refuse_def
  by (intro runs_only_bind runs_sterile) (auto intro!: runs split: sum.split option.split)

end
