(* ===== verification/Git_Capture.thy ===== *)
theory Git_Capture
  imports Git_Materializer Engine_Sealing
begin

text \<open>
  Capture of a Workspace tree and reads of the trusted base (\<^verbatim>\<open>crates/pantheon-git/src/capture.rs\<close>). The
  descriptor-relative system calls are a parameter, the record \<open>confined_fs\<close>: an adversary who
  rewrites the tree between any two of them is one such record. Every call is a step of the
  history the properties speak about.
\<close>

section \<open>Faults\<close>

definition hostile_filesystem :: string where
  "hostile_filesystem = ''workspace.hostile-filesystem-state''"

definition hostile_repository :: string where
  "hostile_repository = ''workspace.hostile-repository-state''"

definition base_unavailable :: string where
  "base_unavailable = ''workspace.base-unavailable''"

definition capture_io :: string where
  "capture_io = ''workspace.capture-io''"

definition ceiling_code :: string where
  "ceiling_code = ''workspace.capture-ceiling''"

definition fault :: "string \<Rightarrow> message \<Rightarrow> external_fault" where
  "fault code detail = \<lparr>xf_code = code, xf_detail = detail\<rparr>"

definition max_depth :: nat where
  "max_depth = 64"

definition max_object_bytes :: int where
  "max_object_bytes = 2 ^ 29"

section \<open>Descriptors\<close>

datatype errno = ELoop | ENotDir | EIsDir | ENoEnt | EOther string

definition errno_text :: "errno \<Rightarrow> string" where
  "errno_text e = (case e of ELoop \<Rightarrow> ''Too many levels of symbolic links'' | ENotDir \<Rightarrow> ''Not a directory''
     | EIsDir \<Rightarrow> ''Is a directory'' | ENoEnt \<Rightarrow> ''No such file or directory'' | EOther t \<Rightarrow> t)"

record file_stat =
  fs_mode :: int
  fs_dev :: int
  fs_ino :: int
  fs_size :: int

datatype open_flag = ORdonly | ODirectory | ONofollow | ONonblock

text \<open>
  \<open>openat\<close> (from the working directory when no descriptor is given), \<open>fstat\<close>, \<open>fstatat\<close> without
  following, a directory read with one result per entry, \<open>readlinkat\<close>, and a read to the end of at
  most so many bytes.
\<close>

record 'h confined_fs =
  cf_openat :: "int option \<Rightarrow> string \<Rightarrow> open_flag list \<Rightarrow> 'h \<Rightarrow> (errno, int) res \<times> 'h"
  cf_fstat :: "int \<Rightarrow> 'h \<Rightarrow> (errno, file_stat) res \<times> 'h"
  cf_statat :: "int \<Rightarrow> string \<Rightarrow> 'h \<Rightarrow> (errno, file_stat) res \<times> 'h"
  cf_read_dir :: "int \<Rightarrow> 'h \<Rightarrow> (errno, (errno, string) res list) res \<times> 'h"
  cf_readlinkat :: "int \<Rightarrow> string \<Rightarrow> 'h \<Rightarrow> (errno, string) res \<times> 'h"
  cf_read :: "int \<Rightarrow> int \<Rightarrow> 'h \<Rightarrow> (string, string) res \<times> 'h"

definition file_type_field :: "int \<Rightarrow> int" where
  "file_type_field mode = and mode 0xF000"

definition dev_of :: "file_stat \<Rightarrow> int" where
  "dev_of st = fs_dev st mod 2 ^ 64"

definition ft_directory :: int where
  "ft_directory = 0x4000"

definition ft_regular :: int where
  "ft_regular = 0x8000"

definition ft_symlink :: int where
  "ft_symlink = 0xA000"

section \<open>Capture\<close>

definition component_bytes :: "string \<Rightarrow> (external_fault, string) res" where
  "component_bytes name = (if name \<in> {[], ''.'', ''..''}
     then Inl (fault hostile_filesystem (Fmt ''a directory yielded a relative-path component'' [])) else Inr name)"

definition verify_identity ::
    "'h confined_fs \<Rightarrow> int \<Rightarrow> file_stat \<Rightarrow> repository_path \<Rightarrow> ('h, external_fault, unit) effect" where
  "verify_identity F fd inspected rpath =
     bindH (mapH (\<lambda>e. fault capture_io (Fmt ''could not verify identity: {errno}'' [FStr (errno_text e)])) (cf_fstat F fd)) (\<lambda>opened.
     if fs_ino opened \<noteq> fs_ino inspected \<or> fs_dev opened \<noteq> fs_dev inspected
     then raiseH (fault hostile_filesystem (Fmt ''{} was replaced between inspection and open'' [FStr (to_manifest_string rpath)]))
     else returnH ())"

datatype read_fault = ReadIo string | Grew | OverCeiling

definition saturating_succ :: "int \<Rightarrow> int" where
  "saturating_succ n = (if n = 2 ^ 64 - 1 then n else n + 1)"

definition read_bounded :: "'h confined_fs \<Rightarrow> int \<Rightarrow> int \<Rightarrow> int \<Rightarrow> ('h, read_fault, string) effect" where
  "read_bounded F fd expected maximum =
     bindH (mapH ReadIo (cf_read F fd (saturating_succ maximum))) (\<lambda>bs.
     if maximum < int (length bs) then raiseH OverCeiling
     else if int (length bs) \<noteq> expected then raiseH Grew
     else returnH bs)"

definition read_fault_of :: "repository_path \<Rightarrow> read_fault \<Rightarrow> external_fault" where
  "read_fault_of rpath f = (let shown = FStr (to_manifest_string rpath) in case f of
     ReadIo e \<Rightarrow> fault capture_io (Fmt ''could not read {}: {err}'' [shown, FStr e])
   | Grew \<Rightarrow> fault hostile_filesystem (Fmt ''{} changed size while being captured'' [shown])
   | OverCeiling \<Rightarrow> fault ceiling_code (Fmt ''{} exceeds the per-object ceiling'' [shown]))"

text \<open>The names of a directory, without \<open>.\<close> and \<open>..\<close>, sorted by their bytes.\<close>

fun collect_names :: "(errno, string) res list \<Rightarrow> (external_fault, string list) res" where
  "collect_names [] = Inr []"
| "collect_names (Inl e # es) = Inl (fault capture_io (Fmt ''directory enumeration failed: {errno}'' [FStr (errno_text e)]))"
| "collect_names (Inr name # es) = (if name = ''.'' \<or> name = ''..'' then collect_names es
     else bindR (collect_names es) (\<lambda>names. Inr (name # names)))"

definition directory_names :: "'h confined_fs \<Rightarrow> int \<Rightarrow> ('h, external_fault, string list) effect" where
  "directory_names F fd =
     bindH (mapH (\<lambda>e. fault capture_io (Fmt ''could not enumerate: {errno}'' [FStr (errno_text e)])) (cf_read_dir F fd)) (\<lambda>entries.
     bindH (liftH (collect_names entries)) (\<lambda>names. returnH (sort names)))"

definition stat_fault :: "string \<Rightarrow> string \<Rightarrow> errno \<Rightarrow> external_fault" where
  "stat_fault prefix component e =
     (if e = ENoEnt then fault hostile_filesystem (Fmt ''entry {}{} vanished during capture''
        [FStr (utf8_lossy prefix), FStr (utf8_lossy component)])
      else fault capture_io (Fmt ''could not inspect {}: {other}'' [FStr (utf8_lossy component), FStr (errno_text e)]))"

definition child_path :: "string \<Rightarrow> string \<Rightarrow> string" where
  "child_path prefix component = (if prefix = [] then component else prefix @ ''/'' @ component)"

text \<open>A directory entry: \<open>descend\<close> captures the child behind its verified descriptor.\<close>

definition capture_directory ::
    "'h confined_fs \<Rightarrow> (int \<Rightarrow> string \<Rightarrow> int \<Rightarrow> ('h, external_fault, unit) effect) \<Rightarrow> int \<Rightarrow> int \<Rightarrow> string \<Rightarrow> string \<Rightarrow>
     file_stat \<Rightarrow> repository_path \<Rightarrow> ('h, external_fault, unit) effect" where
  "capture_directory F descend dir dev component bytes_of st rpath =
     (let shown = FStr (to_manifest_string rpath) in
     if dev_of st \<noteq> dev then raiseH (fault hostile_filesystem (Fmt ''{} crosses onto another filesystem'' [shown]))
     else
       bindH (mapH (\<lambda>e. if e = ELoop \<or> e = ENotDir
           then fault hostile_filesystem (Fmt ''{} was replaced by non-directory state during capture'' [shown])
           else fault capture_io (Fmt ''could not descend into {}: {other}'' [shown, FStr (errno_text e)]))
         (cf_openat F (Some dir) component [ORdonly, ODirectory, ONofollow])) (\<lambda>child.
       bindH (verify_identity F child st rpath) (\<lambda>_.
       descend child bytes_of (dev_of st))))"

definition capture_symlink ::
    "'h confined_fs \<Rightarrow> (captured_entry \<Rightarrow> ('h, external_fault, unit) effect) \<Rightarrow> int \<Rightarrow> string \<Rightarrow> repository_path \<Rightarrow>
     ('h, external_fault, unit) effect" where
  "capture_symlink F sink dir component rpath =
     bindH (mapH (\<lambda>e. fault capture_io (Fmt ''could not read link {}: {errno}''
         [FStr (to_manifest_string rpath), FStr (errno_text e)])) (cf_readlinkat F dir component)) (\<lambda>target.
     sink \<lparr>cpe_path = rpath, cpe_kind = Symlink, cpe_bytes = target\<rparr>)"

definition capture_regular ::
    "'h confined_fs \<Rightarrow> (captured_entry \<Rightarrow> ('h, external_fault, unit) effect) \<Rightarrow> int \<Rightarrow> string \<Rightarrow> file_stat \<Rightarrow> repository_path \<Rightarrow>
     ('h, external_fault, unit) effect" where
  "capture_regular F sink dir component st rpath =
     (let shown = FStr (to_manifest_string rpath) in
     if fs_size st < 0 \<or> max_object_bytes < fs_size st
     then raiseH (fault ceiling_code (Fmt ''{} exceeds the per-object ceiling'' [shown]))
     else
       bindH (mapH (\<lambda>e. if e = ELoop \<or> e = EIsDir
           then fault hostile_filesystem (Fmt ''{} was replaced by non-file state during capture'' [shown])
           else fault capture_io (Fmt ''could not open {}: {other}'' [shown, FStr (errno_text e)]))
         (cf_openat F (Some dir) component [ORdonly, ONofollow, ONonblock])) (\<lambda>fd.
       bindH (verify_identity F fd st rpath) (\<lambda>_.
       bindH (mapH (read_fault_of rpath) (read_bounded F fd (max (fs_size st) 0) max_object_bytes)) (\<lambda>bs.
       sink \<lparr>cpe_path = rpath, cpe_kind = (if and (fs_mode st) 73 \<noteq> 0 then Executable else Regular), cpe_bytes = bs\<rparr>))))"

definition capture_name ::
    "'h confined_fs \<Rightarrow> (captured_entry \<Rightarrow> ('h, external_fault, unit) effect) \<Rightarrow>
     (int \<Rightarrow> string \<Rightarrow> int \<Rightarrow> ('h, external_fault, unit) effect) \<Rightarrow> int \<Rightarrow> string \<Rightarrow> int \<Rightarrow> string \<Rightarrow>
     ('h, external_fault, unit) effect" where
  "capture_name F sink descend dir prefix dev name =
     bindH (liftH (component_bytes name)) (\<lambda>component.
     if prefix = [] \<and> component = ''.git'' then returnH ()
     else if CHR 0x00 \<in> set component then raiseH (fault hostile_filesystem (Fmt ''an entry name contains a NUL byte'' []))
     else
       bindH (mapH (stat_fault prefix component) (cf_statat F dir component)) (\<lambda>st.
       bindH (liftH (map_sum (\<lambda>e. fault hostile_filesystem (Fmt ''a captured path cannot be represented: {err}''
           [FMsg (changeset_error_display e)])) id (path_from_bytes (child_path prefix component)))) (\<lambda>rpath.
       if component = ''.git'' then raiseH (fault hostile_filesystem
         (Fmt ''{} nests a repository below the Workspace root'' [FStr (to_manifest_string rpath)]))
       else if file_type_field (fs_mode st) = ft_directory
       then capture_directory F descend dir dev component (child_path prefix component) st rpath
       else if file_type_field (fs_mode st) = ft_symlink then capture_symlink F sink dir component rpath
       else if file_type_field (fs_mode st) = ft_regular then capture_regular F sink dir component st rpath
       else raiseH (fault hostile_filesystem
         (Fmt ''{} is a special filesystem object capture must not touch'' [FStr (to_manifest_string rpath)])))))"

text \<open>The first argument is how many more levels may be entered: \<open>MAX_DEPTH + 1 - depth\<close>.\<close>

primrec walk_directory ::
    "nat \<Rightarrow> 'h confined_fs \<Rightarrow> (captured_entry \<Rightarrow> ('h, external_fault, unit) effect) \<Rightarrow> int \<Rightarrow> string \<Rightarrow> int \<Rightarrow>
     ('h, external_fault, unit) effect" where
  "walk_directory 0 F sink dir prefix dev =
     raiseH (fault ceiling_code (Fmt ''directory nesting deeper than {MAX_DEPTH} levels'' [FInt (int max_depth)]))"
| "walk_directory (Suc levels) F sink dir prefix dev =
     bindH (directory_names F dir) (\<lambda>names.
     foldH (\<lambda>_ name. capture_name F sink (walk_directory levels F sink) dir prefix dev name) () names)"

definition capture_tree ::
    "'h confined_fs \<Rightarrow> (captured_entry \<Rightarrow> ('h, external_fault, unit) effect) \<Rightarrow> string \<Rightarrow> ('h, external_fault, unit) effect" where
  "capture_tree F sink root =
     bindH (mapH (\<lambda>e. if e = ELoop \<or> e = ENotDir
         then fault hostile_filesystem (Fmt ''{} is a symlink or not a directory, not the trusted capture root'' [FStr (utf8_lossy root)])
         else fault capture_io (Fmt ''could not open the capture root {}: {other}'' [FStr (utf8_lossy root), FStr (errno_text e)]))
       (cf_openat F None root [ORdonly, ODirectory, ONofollow])) (\<lambda>root_fd.
     bindH (mapH (\<lambda>e. fault capture_io (Fmt ''could not inspect the capture root: {errno}'' [FStr (errno_text e)]))
       (cf_fstat F root_fd)) (\<lambda>st.
     walk_directory (Suc max_depth) F sink root_fd [] (dev_of st)))"

text \<open>The port: what a sink that keeps every entry has when the capture ends.\<close>

definition collecting :: "'h confined_fs \<Rightarrow> ('h \<times> captured_entry list) confined_fs" where
  "collecting F =
     \<lparr>cf_openat = (\<lambda>d n flags s. case cf_openat F d n flags (fst s) of (r, h) \<Rightarrow> (r, (h, snd s))),
      cf_fstat = (\<lambda>fd s. case cf_fstat F fd (fst s) of (r, h) \<Rightarrow> (r, (h, snd s))),
      cf_statat = (\<lambda>d n s. case cf_statat F d n (fst s) of (r, h) \<Rightarrow> (r, (h, snd s))),
      cf_read_dir = (\<lambda>fd s. case cf_read_dir F fd (fst s) of (r, h) \<Rightarrow> (r, (h, snd s))),
      cf_readlinkat = (\<lambda>d n s. case cf_readlinkat F d n (fst s) of (r, h) \<Rightarrow> (r, (h, snd s))),
      cf_read = (\<lambda>fd n s. case cf_read F fd n (fst s) of (r, h) \<Rightarrow> (r, (h, snd s)))\<rparr>"

definition keep_entry :: "captured_entry \<Rightarrow> ('h \<times> captured_entry list, external_fault, unit) effect" where
  "keep_entry e s = (Inr (), (fst s, snd s @ [e]))"

definition confined_capture ::
    "'h confined_fs \<Rightarrow> string \<Rightarrow> 'h \<Rightarrow> (captured_entry list \<times> external_fault option) \<times> 'h" where
  "confined_capture F root h = (case capture_tree (collecting F) keep_entry root (h, []) of
     (r, (h', es)) \<Rightarrow> ((es, case r of Inl f \<Rightarrow> Some f | Inr _ \<Rightarrow> None), h'))"

section \<open>The trusted base\<close>

definition base_git ::
    "'h host \<Rightarrow> sterile_profile \<Rightarrow> string \<Rightarrow> string \<Rightarrow> string list \<Rightarrow> ('h, external_fault, string) effect" where
  "base_git H st code what args =
     bindH (mapH (\<lambda>e. fault code (Fmt ''could not run git while {what}: {err}'' [FStr what, FStr (io_error_text e)]))
        (sterile_run H st args)) (\<lambda>out.
     if pc_success out then returnH (pc_stdout out)
     else raiseH (fault code (Fmt ''git failed while {what}: {}'' [FStr what, FStr (str_trim (utf8_lossy (pc_stderr out)))])))"

definition is_canonical_object_name :: "string \<Rightarrow> bool" where
  "is_canonical_object_name name \<longleftrightarrow> (length name = 40 \<or> length name = 64) \<and> list_all is_lower_hex name"

definition parse_object_names :: "string \<Rightarrow> string list option" where
  "parse_object_names out =
     (if utf8_valid out \<and> list_all is_canonical_object_name (str_lines out) then Some (str_lines out) else None)"

definition payload_name :: "nat \<Rightarrow> string" where
  "payload_name i = ''payload-'' @ replicate (6 - length (nat_to_string i)) (CHR ''0'') @ nat_to_string i"

definition stage_payload ::
    "'h host \<Rightarrow> string \<Rightarrow> string \<Rightarrow> nat \<times> string \<Rightarrow> ('h, external_fault, string) effect" where
  "stage_payload H stage paths payload =
     (let staged = path_join stage (payload_name (fst payload)) in
     bindH (mapH (\<lambda>e. fault capture_io (Fmt ''could not stage comparison payload: {err}'' [FStr (io_error_text e)]))
        (ho_write H staged (snd payload))) (\<lambda>_.
     returnH (paths @ utf8_lossy staged @ [CHR 0x0A])))"

definition hash_staged_blobs ::
    "'h host \<Rightarrow> sterile_profile \<Rightarrow> string \<Rightarrow> string \<Rightarrow> string list \<Rightarrow> ('h, external_fault, string list) effect" where
  "hash_staged_blobs H st source stage contents =
     bindH (foldH (stage_payload H stage) [] (enumerate 0 contents)) (\<lambda>paths.
     bindH (mapH (\<lambda>e. fault base_unavailable (Fmt ''could not run git while naming captured blobs: {err}'' [FStr (io_error_text e)]))
        (ho_feed H ((sterile_command H st [''-C'', source, ''hash-object'', ''--stdin-paths'', ''--no-filters''])\<lparr>cl_stdin := Some paths\<rparr>)))
       (\<lambda>waited.
     bindH (liftH (map_sum (\<lambda>e. fault base_unavailable (Fmt ''could not read object names from git: {err}'' [FStr (io_error_text e)]))
        id waited)) (\<lambda>out.
     if \<not> pc_success out then raiseH (fault base_unavailable (Fmt ''git failed while naming captured blobs: {}''
       [FStr (str_trim (utf8_lossy (pc_stderr out)))]))
     else liftH (ok_or (parse_object_names (pc_stdout out)) (fault base_unavailable
       (Fmt ''git hash-object output is not one canonical object name per payload'' []))))))"

definition git_blob_object_names ::
    "'h host \<Rightarrow> sterile_profile \<Rightarrow> string \<Rightarrow> string list \<Rightarrow> ('h, external_fault, string list) effect" where
  "git_blob_object_names H st source contents =
     (if contents = [] then returnH []
      else
        bindH (mapH (\<lambda>e. fault capture_io (Fmt ''could not create comparison staging: {err}'' [FStr (io_error_text e)]))
           (scratch_dir H st ''base-compare'')) (\<lambda>stage.
        bindH (tryH (hash_staged_blobs H st source stage contents)) (\<lambda>r.
        bindH (tryH (ho_remove_dir_all H stage)) (\<lambda>_.
        liftH r))))"

definition tree_kind :: "string \<Rightarrow> string \<Rightarrow> (external_fault, entry_kind) res" where
  "tree_kind knd mode =
     (if knd = ''blob'' \<and> mode = ''100644'' then Inr Regular
      else if knd = ''blob'' \<and> mode = ''100755'' then Inr Executable
      else if knd = ''blob'' \<and> mode = ''120000'' then Inr Symlink
      else if knd = ''commit'' \<or> knd = ''blob'' \<and> mode = ''160000'' then Inl (fault hostile_repository
        (Fmt ''the base tree contains a submodule entry, which v1 capture does not support'' []))
      else Inl (fault hostile_repository (Fmt ''the base tree contains an unsupported entry type'' [])))"

definition tree_size :: "string \<Rightarrow> (external_fault, int) res" where
  "tree_size raw = (case (if utf8_valid raw then u64_parse (dropWhile (\<lambda>c. c = CHR ''-'') raw) else Inl []) of
     Inr n \<Rightarrow> Inr n
   | Inl _ \<Rightarrow> Inl (fault hostile_repository (Fmt ''a base tree record has no usable size'' [])))"

definition parse_tree_record :: "string \<Rightarrow> (external_fault, string \<times> base_object) res" where
  "parse_tree_record record =
     bindR (ok_or (split_once (CHR 0x09) record)
        (fault hostile_repository (Fmt ''the base tree listing is not shaped like ls-tree output'' []))) (\<lambda>(meta, key).
     case filter (\<lambda>f. f \<noteq> []) (split_on (CHR '' '') meta) of
       [mode, knd, oid, sz] \<Rightarrow>
         bindR (tree_kind knd mode) (\<lambda>k.
         bindR (map_sum (\<lambda>e. fault hostile_repository (Fmt ''the base tree names an unusable path: {err}''
             [FMsg (changeset_error_display e)])) id (path_from_bytes key)) (\<lambda>_.
         bindR (ensure (utf8_valid oid) (fault hostile_repository (Fmt ''object name is not UTF-8'' []))) (\<lambda>_.
         bindR (tree_size sz) (\<lambda>n.
         Inr (key, \<lparr>bo_kind = k, bo_oid = oid, bo_size = n\<rparr>)))))
     | _ \<Rightarrow> Inl (fault hostile_repository (Fmt ''a base tree record does not have four fields'' [])))"

definition parse_base_tree :: "string \<Rightarrow> (external_fault, (string \<times> base_object) list) res" where
  "parse_base_tree out = fold_res (\<lambda>tree record.
       if record = [] then Inr tree
       else bindR (parse_tree_record record) (\<lambda>(key, object). Inr (btree_insert key object tree)))
     [] (split_on (CHR 0x00) out)"

definition git_base_tree ::
    "'h host \<Rightarrow> sterile_profile \<Rightarrow> string \<Rightarrow> string \<Rightarrow> ('h, external_fault, (string \<times> base_object) list) effect" where
  "git_base_tree H st source base =
     bindH (base_git H st base_unavailable ''reading the immutable base tree''
        [''-C'', source, ''ls-tree'', ''--full-tree'', ''-r'', ''-l'', ''-z'', base]) (\<lambda>out.
     liftH (parse_base_tree out))"

definition git_blob_bytes :: "'h host \<Rightarrow> sterile_profile \<Rightarrow> string \<Rightarrow> string \<Rightarrow> ('h, external_fault, string) effect" where
  "git_blob_bytes H st source oid =
     (if \<not> is_canonical_object_name oid
      then raiseH (fault hostile_repository (Fmt ''{oid:?} is not a canonical object name'' [FStr oid]))
      else base_git H st base_unavailable ''reading a base blob'' [''-C'', source, ''cat-file'', ''blob'', oid])"

end
