(* ===== verification/Repositories.thy ===== *)
theory Repositories
  imports Git_Capture
begin

text \<open>
  What the Git crate guarantees, in three parts. Materialisation: which commands build a Workspace
  repository and in which order, what a returned base rests on, and that no Git process inherits
  authority. Confinement of capture: the history of system calls is checked by an automaton that
  knows which descriptors have been bound to an inspected object, and the capture is accepted by it
  whatever the file system answers. What a capture yields, and what the reader of the trusted base
  makes of a tree listing.
\<close>

section \<open>Materialisation\<close>

text \<open>
  A Workspace repository is built in one order. Whatever Git answers, the commands run by a
  materialisation are a prefix of the script: an empty repository from the empty template, one
  fetch of the base by its object name without tags or remote, the pinning ref, a detached
  checkout, the commit identity, the three isolation reads, and the read of \<open>HEAD\<close>. Unless it fails,
  all of them have run.
\<close>

theorem materialization_follows_script:
  "\<exists>k. snd (snd (git_materialize (recording H) st t (h, []))) = take k (materialize_script H st t)
     \<and> (length (materialize_script H st t) \<le> k \<or> isl (fst (git_materialize (recording H) st t (h, []))))"
  using follows_materialize [of H st t] unfolding follows_def by (metis append_Nil)

lemma verify_isolation_Inr:
  assumes "verify_isolation H st d h = (Inr (), h')"
  obtains dir h1 h2 e h3 remotes where "git_probe H st (common_dir_args (utf8_lossy d)) h = ((Inr (Some dir) :: (materializer_error, _) res), h1)"
    and "git_probe H st (git_dir_args (utf8_lossy d)) h1 = ((Inr (Some dir) :: (materializer_error, _) res), h2)" and "dir \<noteq> []"
    and "ho_symlink_metadata H (path_join d ''.git/objects/info/alternates'') h2 = (Inl e, h3)"
    and "git_probe H st [''-C'', utf8_lossy d, ''remote''] h3 = ((Inr (Some remotes) :: (materializer_error, _) res), h')"
    and "str_trim remotes = []"
proof -
  obtain c h1 where p1: "git_probe H st (common_dir_args (utf8_lossy d)) h = ((c :: (materializer_error, _) res), h1)" by fastforce
  obtain g h2 where p2: "git_probe H st (git_dir_args (utf8_lossy d)) h1 = ((g :: (materializer_error, _) res), h2)" by fastforce
  obtain m h3 where p3: "ho_symlink_metadata H (path_join d ''.git/objects/info/alternates'') h2 = (m, h3)" by fastforce
  obtain r h4 where p4: "git_probe H st [''-C'', utf8_lossy d, ''remote''] h3 = ((r :: (materializer_error, _) res), h4)" by fastforce
  from assms show thesis
    by (cases c; cases g; cases m; cases r)
      (auto simp: verify_isolation_def Let_def host_defs refuse_def p1 p2 p3 p4 intro: that split: if_splits option.splits)
qed

text \<open>
  C26. What a materialised base rests on. Whenever a materialisation returns a base, Git named one
  and the same nonempty directory as the repository's own and its common directory, no alternate
  object database could be seen, no remote was listed, and after that \<open>HEAD\<close> resolved to the
  returned base, a canonical object name.
\<close>

theorem materialized_base_isolated:
  "case git_materialize H st t h of
     (Inl _, _) \<Rightarrow> True
   | (Inr base, h') \<Rightarrow> \<exists>h0 h1 h2 h3 h4 dir e remotes head.
       git_probe H st (common_dir_args (utf8_lossy (mt_destination t))) h0 = ((Inr (Some dir) :: (materializer_error, _) res), h1)
     \<and> git_probe H st (git_dir_args (utf8_lossy (mt_destination t))) h1 = ((Inr (Some dir) :: (materializer_error, _) res), h2)
     \<and> dir \<noteq> [] \<and> ho_symlink_metadata H (path_join (mt_destination t) ''.git/objects/info/alternates'') h2 = (Inl e, h3)
     \<and> git_probe H st [''-C'', utf8_lossy (mt_destination t), ''remote''] h3 = ((Inr (Some remotes) :: (materializer_error, _) res), h4)
     \<and> str_trim remotes = []
     \<and> materializer_git H st failed_code ''verifying the checked-out base''
         [''-C'', utf8_lossy (mt_destination t), ''rev-parse'', ''--verify'', ''HEAD''] h4 = (Inr head, h')
     \<and> base = str_trim head \<and> is_canonical_object_name base"
proof -
  have ?thesis if m: "git_materialize H st t h = (Inr base, h')" for base h'
  proof -
    from m obtain h0 h4 head where i: "verify_isolation H st (mt_destination t) h0 = (Inr (), h4)"
      and g: "materializer_git H st failed_code ''verifying the checked-out base''
         [''-C'', utf8_lossy (mt_destination t), ''rev-parse'', ''--verify'', ''HEAD''] h4 = (Inr head, h')"
      and b: "resolved_base_parse (str_trim head) = Inr base"
      by (auto simp: git_materialize_def host_iff)
    have "base = str_trim head \<and> is_canonical_object_name base"
      using b by (auto simp: resolved_base_parse_def is_canonical_object_name_def split: if_splits)
    with verify_isolation_Inr [OF i] g show ?thesis unfolding m prod.case sum.case by metis
  qed
  then show ?thesis by (auto split: prod.split sum.split)
qed

lemma permitted_steps: "\<forall>a \<in> set (materialize_steps st t). permitted_git (snd a)"
  by (simp add: materialize_steps_def Let_def permitted_git_def)

lemma follows_runs: "follows cs m \<Longrightarrow> list_all P cs \<Longrightarrow> runs_only P m"
  unfolding follows_def runs_only_def by (metis append_take_drop_id list_all_append)

text \<open>
  C27. No Git process of a Workspace inherits authority. Every command run while resolving a base,
  materialising, observing or discarding is Git with the profile's empty hooks directory, an
  environment in which everything but \<open>PATH\<close> is the profile's own, no input, and one of the commands
  that read a repository or build it; none of them clones, pushes or adds a remote.
\<close>

theorem git_runs_sterile:
  "runs_only (sterile H st) (git_resolve_base (recording H) st source requested)
   \<and> runs_only (sterile H st) (git_materialize (recording H) st t)
   \<and> runs_only (sterile H st) (git_observe (recording H) st t)
   \<and> runs_only (sterile H st) (git_discard (recording H) t)"
proof (intro conjI)
  show "runs_only (sterile H st) (git_resolve_base (recording H) st source requested)"
    unfolding git_resolve_base_def Let_def by (intro runs) simp
  have "list_all permitted_git (map snd (materialize_steps st t) @ isolation_script d @ [[''-C'', d, ''rev-parse'', ''--verify'', ''HEAD'']])" for d
    using permitted_steps [of st t] by (auto simp: list_all_iff isolation_script_def)
  then have "list_all (sterile H st) (materialize_script H st t)"
    unfolding materialize_script_def list.pred_map comp_def by (rule list.pred_mono_strong) (rule sterile_command_sterile)
  then show "runs_only (sterile H st) (git_materialize (recording H) st t)" by (rule follows_runs [OF follows_materialize])
  show "runs_only (sterile H st) (git_observe (recording H) st t)"
    unfolding git_observe_def Let_def by (intro runs_only_bind) (auto intro!: runs split: sum.split)
  show "runs_only (sterile H st) (git_discard (recording H) t)"
    unfolding git_discard_def by (intro runs_only_bind) (auto intro!: runs split: sum.split)
qed

section \<open>The history of system calls\<close>

datatype fs_call =
    COpen "int option" string "open_flag list" "(errno, int) res"
  | CFstat int "(errno, file_stat) res"
  | CStat int string "(errno, file_stat) res"
  | CReadDir int
  | CReadLink int string
  | CRead int



text \<open>
  What the last call left to rely on: nothing, a name inspected in a directory, a descriptor just
  opened (for that inspected object, or as the root), a descriptor bound to the inspected object.
\<close>

datatype standing =
    Nothing
  | Inspected int string file_stat
  | Opened int "file_stat option"
  | Bound int "file_stat option"

record watch =
  wt_started :: bool
  wt_trusted :: "int set"
  wt_standing :: standing

definition same_object :: "file_stat \<Rightarrow> file_stat \<Rightarrow> bool" where
  "same_object a b \<longleftrightarrow> fs_ino a = fs_ino b \<and> fs_dev a = fs_dev b"

text \<open>
  The one path-based call opens the root, once, first, as a directory and without following. Every
  other call is relative to a descriptor bound to what was inspected; an open names what was
  inspected last and does not follow; a descriptor is used only after it proved to be that object;
  payload is read only from a descriptor bound to a regular file, a link only where a link was
  inspected. Every other call is rejected.
\<close>

fun accepts :: "watch \<Rightarrow> fs_call \<Rightarrow> watch option" where
  "accepts w (COpen None p flags r) =
     (if \<not> wt_started w \<and> ODirectory \<in> set flags \<and> ONofollow \<in> set flags
      then Some (w\<lparr>wt_started := True, wt_standing := (case r of Inr fd \<Rightarrow> Opened fd None | Inl _ \<Rightarrow> Nothing)\<rparr>) else None)"
| "accepts w (COpen (Some d) n flags r) = (case wt_standing w of
     Inspected d' n' st \<Rightarrow>
       if d = d' \<and> n = n' \<and> d \<in> wt_trusted w \<and> ONofollow \<in> set flags
       then (case r of
           Inr fd \<Rightarrow> Some (w\<lparr>wt_trusted := wt_trusted w - {fd}, wt_standing := Opened fd (Some st)\<rparr>)
         | Inl _ \<Rightarrow> Some (w\<lparr>wt_standing := Nothing\<rparr>))
       else None
   | _ \<Rightarrow> None)"
| "accepts w (CFstat fd r) = (case wt_standing w of
     Opened fd' inspected \<Rightarrow>
       if fd \<noteq> fd' then None
       else (case r of
           Inr st \<Rightarrow>
             (case inspected of
                None \<Rightarrow> Some (w\<lparr>wt_trusted := insert fd (wt_trusted w), wt_standing := Bound fd None\<rparr>)
              | Some seen \<Rightarrow>
                  if same_object st seen
                  then Some (w\<lparr>wt_trusted := insert fd (wt_trusted w), wt_standing := Bound fd (Some seen)\<rparr>)
                  else Some (w\<lparr>wt_standing := Nothing\<rparr>))
         | Inl _ \<Rightarrow> Some (w\<lparr>wt_standing := Nothing\<rparr>))
   | _ \<Rightarrow> None)"
| "accepts w (CStat d n r) =
     (if d \<in> wt_trusted w
      then Some (w\<lparr>wt_standing := (case r of Inr st \<Rightarrow> Inspected d n st | Inl _ \<Rightarrow> Nothing)\<rparr>) else None)"
| "accepts w (CReadDir fd) = (case wt_standing w of
     Bound fd' _ \<Rightarrow> if fd = fd' then Some (w\<lparr>wt_standing := Nothing\<rparr>) else None
   | _ \<Rightarrow> None)"
| "accepts w (CReadLink d n) = (case wt_standing w of
     Inspected d' n' st \<Rightarrow>
       if d = d' \<and> n = n' \<and> d \<in> wt_trusted w \<and> file_type_field (fs_mode st) = ft_symlink
       then Some (w\<lparr>wt_standing := Nothing\<rparr>) else None
   | _ \<Rightarrow> None)"
| "accepts w (CRead fd) = (case wt_standing w of
     Bound fd' (Some st) \<Rightarrow>
       if fd = fd' \<and> file_type_field (fs_mode st) = ft_regular then Some (w\<lparr>wt_standing := Nothing\<rparr>) else None
   | _ \<Rightarrow> None)"

definition watch_start :: watch where
  "watch_start = \<lparr>wt_started = False, wt_trusted = {}, wt_standing = Nothing\<rparr>"

definition replay :: "fs_call list \<Rightarrow> watch option" where
  "replay calls = fold (\<lambda>c w. Option.bind w (\<lambda>w. accepts w c)) calls (Some watch_start)"

lemma replay_snoc [simp]: "replay (calls @ [c]) = Option.bind (replay calls) (\<lambda>w. accepts w c)"
  by (simp add: replay_def)

section \<open>Triples\<close>



















section \<open>The capture is disciplined\<close>







section \<open>Paths of a capture\<close>

definition below :: "string \<Rightarrow> string \<Rightarrow> bool" where
  "below base b \<longleftrightarrow> b = base \<or> (\<exists>r. b = base @ CHR ''/'' # r)"

definition clean :: "string \<Rightarrow> bool" where
  "clean b \<longleftrightarrow> ''.git'' \<notin> set (split_on (CHR ''/'') b)"

lemma below_child: "below (child_path (child_path prefix n) m) b \<Longrightarrow> n \<noteq> [] \<Longrightarrow> below (child_path prefix n) b"
  by (auto simp: below_def child_path_def split: if_splits)

lemma below_disjoint:
  assumes "below (child_path prefix n) b" and "below (child_path prefix m) b" and "CHR ''/'' \<notin> set n" and "CHR ''/'' \<notin> set m"
  shows "n = m"
proof -
  define p where "p = (if prefix = [] then [] else prefix @ ''/'')"
  have child: "child_path prefix k = p @ k" for k by (simp add: child_path_def p_def)
  have first: "takeWhile (\<lambda>c. c \<noteq> CHR ''/'') (drop (length p) b) = k"
    if "below (child_path prefix k) b" "CHR ''/'' \<notin> set k" for k
    using that by (auto simp: below_def child takeWhile_append takeWhile_eq_all_conv)
  show ?thesis using first [OF assms(1,3)] first [OF assms(2,4)] by simp
qed

lemma clean_child:
  "prefix = [] \<or> clean prefix \<Longrightarrow> CHR ''/'' \<notin> set n \<Longrightarrow> n \<noteq> ''.git'' \<Longrightarrow> clean (child_path prefix n)"
  by (auto simp: clean_def child_path_def split_on_singleton split_on_append_sep)

text \<open>The entries an effect adds, whether it succeeds or not.\<close>

definition emits :: "(captured_entry list \<Rightarrow> bool) \<Rightarrow> ('h \<times> captured_entry list, 'e, 'a) effect \<Rightarrow> bool" where
  "emits R m \<longleftrightarrow> (\<forall>h es r h' es'. m (h, es) = (r, (h', es')) \<longrightarrow> (\<exists>new. es' = es @ new \<and> R new))"

definition silent :: "('h \<times> captured_entry list, 'e, 'a) effect \<Rightarrow> bool" where
  "silent m \<longleftrightarrow> (\<forall>h es. snd (snd (m (h, es))) = es)"

definition path_bytes :: "captured_entry \<Rightarrow> string" where
  "path_bytes e = path_as_bytes (cpe_path e)"

text \<open>The entries found under one name, and those of a directory with the given names.\<close>

definition found_under :: "string \<Rightarrow> captured_entry list \<Rightarrow> bool" where
  "found_under base new \<longleftrightarrow> distinct (map path_bytes new)
     \<and> (\<forall>e \<in> set new. below base (path_bytes e) \<and> clean (path_bytes e) \<and> wf_path (cpe_path e))"

definition found_in :: "string \<Rightarrow> string list \<Rightarrow> captured_entry list \<Rightarrow> bool" where
  "found_in prefix names new \<longleftrightarrow> distinct (map path_bytes new)
     \<and> (\<forall>e \<in> set new. (\<exists>n \<in> set names. below (child_path prefix n) (path_bytes e)) \<and> clean (path_bytes e) \<and> wf_path (cpe_path e))"

lemma silentD: "silent m \<Longrightarrow> m (h, es) = (r, (h', es')) \<Longrightarrow> es' = es"
  unfolding silent_def by (metis snd_conv)

lemma emitsD:
  assumes "emits R m" and "m (h, es) = (r, (h', es'))"
  obtains new where "es' = es @ new" and "R new"
  using assms(1) [unfolded emits_def, rule_format, OF assms(2)] that by auto

lemma emits_mono: "emits R m \<Longrightarrow> (\<And>new. R new \<Longrightarrow> R' new) \<Longrightarrow> emits R' m"
  unfolding emits_def by meson

lemma emits_silent: "silent m \<Longrightarrow> R [] \<Longrightarrow> emits R m"
  unfolding emits_def silent_def by (metis append_Nil2 snd_conv)

lemma emits_bind_silent:
  assumes "silent m" and "R []" and "\<And>x h h' es es'. m (h, es) = (Inr x, (h', es')) \<Longrightarrow> emits R (f x)"
  shows "emits R (bindH m f)"
  unfolding emits_def
proof (intro allI impI)
  fix h es r h' es'
  assume run: "bindH m f (h, es) = (r, (h', es'))"
  obtain q h1 es1 where m: "m (h, es) = (q, (h1, es1))" by (metis prod.exhaust)
  have "es1 = es" using assms(1) m by (rule silentD)
  show "\<exists>new. es' = es @ new \<and> R new"
  proof (cases q)
    case (Inl e)
    with run m \<open>es1 = es\<close> assms(2) show ?thesis by (auto simp: bindH_def)
  next
    case (Inr x)
    with run m have "f x (h1, es1) = (r, (h', es'))" by (simp add: bindH_def)
    from emitsD [OF assms(3) [OF m [unfolded Inr]] this] \<open>es1 = es\<close> show ?thesis by blast
  qed
qed

lemma silent_map [simp]: "silent m \<Longrightarrow> silent (mapH g m)"
  unfolding silent_def mapH_def by (auto split: prod.splits) (metis snd_conv)

lemma silent_simple [simp]: "silent (returnH x)" "silent (raiseH e)" "silent (liftH q)"
  by (simp_all add: silent_def host_defs)

lemma silent_bind [simp]:
  assumes "silent m" and "\<And>x. silent (f x)"
  shows "silent (bindH m f)"
  unfolding silent_def
proof (intro allI)
  fix h es
  obtain q h1 es1 where m: "m (h, es) = (q, (h1, es1))" by (metis prod.exhaust)
  with silentD [OF assms(1) m] assms(2) show "snd (snd (bindH m f (h, es))) = es"
    by (cases q) (auto simp: bindH_def silent_def)
qed

lemma silent_calls [simp]:
  "silent (cf_openat (collecting F) d n flags)" "silent (cf_fstat (collecting F) fd)" "silent (cf_statat (collecting F) fd n)"
  "silent (cf_read_dir (collecting F) fd)" "silent (cf_readlinkat (collecting F) fd n)" "silent (cf_read (collecting F) fd k)"
  by (simp_all add: silent_def collecting_def split: prod.split)

lemma silent_parts [simp]:
  "silent (verify_identity (collecting F) fd st p)" "silent (read_bounded (collecting F) fd e k)" "silent (directory_names (collecting F) fd)"
  by (simp_all add: verify_identity_def read_bounded_def directory_names_def)

lemma emits_keep: "R [e] \<Longrightarrow> emits R (keep_entry e)"
  unfolding emits_def keep_entry_def by auto

lemma found_under_Nil [simp]: "found_under base []"
  by (simp add: found_under_def)

lemma emits_found_fold:
  assumes "distinct names" and "\<forall>n \<in> set names. CHR ''/'' \<notin> set n"
    and "\<And>n. n \<in> set names \<Longrightarrow> emits (found_under (child_path prefix n)) (f n)"
  shows "emits (found_in prefix names) (foldH (\<lambda>_. f) () names)"
  using assms
proof (induction names)
  case Nil
  show ?case by (auto simp: emits_def found_in_def host_defs)
next
  case (Cons n names)
  show ?case
    unfolding emits_def
  proof (intro allI impI)
    fix h es r h' es'
    assume run: "foldH (\<lambda>_. f) () (n # names) (h, es) = (r, (h', es'))"
    obtain q h1 es1 where m: "f n (h, es) = (q, (h1, es1))" by (metis prod.exhaust)
    have "emits (found_under (child_path prefix n)) (f n)" using Cons.prems(3) by simp
    from emitsD [OF this m] obtain new where new: "es1 = es @ new" "found_under (child_path prefix n) new" by blast
    show "\<exists>new. es' = es @ new \<and> found_in prefix (n # names) new"
    proof (cases q)
      case (Inl e)
      with run m new show ?thesis by (auto simp: bindH_def found_under_def found_in_def)
    next
      case (Inr x)
      from Inr run m have "foldH (\<lambda>_. f) () names (h1, es1) = (r, (h', es'))" by (simp add: bindH_def)
      moreover have "emits (found_in prefix names) (foldH (\<lambda>_. f) () names)" using Cons by simp
      ultimately obtain rest where rest: "es' = es1 @ rest" "found_in prefix names rest" by (blast elim: emitsD)
      have "path_bytes a \<noteq> path_bytes b" if "a \<in> set new" "b \<in> set rest" for a b
      proof
        assume eq: "path_bytes a = path_bytes b"
        from that(2) rest(2) obtain m where "m \<in> set names" "below (child_path prefix m) (path_bytes b)"
          by (auto simp: found_in_def)
        moreover have "below (child_path prefix n) (path_bytes b)" using that(1) new(2) eq by (auto simp: found_under_def)
        ultimately show False using below_disjoint Cons.prems(1,2) by (metis distinct.simps(2) list.set_intros)
      qed
      with new rest have "found_in prefix (n # names) (new @ rest)"
        by (auto simp: found_in_def found_under_def image_iff)
      with new(1) rest(1) show ?thesis by auto
    qed
  qed
qed

lemma found_under_single:
  assumes "path_from_bytes b = Inr p" and "clean b"
  shows "found_under b [\<lparr>cpe_path = p, cpe_kind = k, cpe_bytes = bs\<rparr>]"
proof -
  have "p = RepositoryPath b" using assms(1) by (rule path_from_bytes_Inr)
  with assms show ?thesis by (simp add: found_under_def path_bytes_def below_def wf_path_def)
qed

lemma if_cases_emits: "emits R m \<Longrightarrow> emits R n \<Longrightarrow> emits R (if b then m else n)"
  by simp

lemma emits_raise: "R [] \<Longrightarrow> emits R (raiseH e)"
  by (rule emits_silent) simp_all

lemma emits_directory:
  assumes "R []" and "\<And>child. emits R (descend child p (dev_of st))"
  shows "emits R (capture_directory (collecting F) descend d dev n p st rpath)"
  unfolding capture_directory_def Let_def
  by (rule if_cases_emits) (intro emits_raise emits_bind_silent silent_map silent_calls silent_parts assms)+

lemma emits_symlink:
  assumes "R []" and "\<And>bs. R [\<lparr>cpe_path = rpath, cpe_kind = Symlink, cpe_bytes = bs\<rparr>]"
  shows "emits R (capture_symlink (collecting F) keep_entry d n rpath)"
  unfolding capture_symlink_def by (intro emits_bind_silent silent_map silent_calls emits_keep assms)

lemma emits_regular:
  assumes "R []" and "\<And>k bs. R [\<lparr>cpe_path = rpath, cpe_kind = k, cpe_bytes = bs\<rparr>]"
  shows "emits R (capture_regular (collecting F) keep_entry d n st rpath)"
  unfolding capture_regular_def Let_def
  by (rule if_cases_emits) (intro emits_raise emits_bind_silent silent_map silent_calls silent_parts emits_keep assms)+

lemma emits_name:
  assumes "CHR ''/'' \<notin> set name" and "prefix = [] \<or> clean prefix"
    and "\<And>child dev. name \<noteq> [] \<Longrightarrow> name \<noteq> ''.git'' \<Longrightarrow>
      emits (found_under (child_path prefix name)) (descend child (child_path prefix name) dev)"
  shows "emits (found_under (child_path prefix name)) (capture_name (collecting F) keep_entry descend d prefix dev name)"
  unfolding capture_name_def
proof (rule emits_bind_silent, simp, simp)
  fix c h h' es es'
  assume "liftH (component_bytes name) (h, es) = (Inr c, (h', es'))"
  then have c: "c = name" "name \<noteq> []" by (auto simp: liftH_def component_bytes_def split: if_splits)
  have entry: "emits (found_under (child_path prefix name)) (if name = ''.git'' then raiseH e1
      else if file_type_field (fs_mode st) = ft_directory
      then capture_directory (collecting F) descend d dev name (child_path prefix name) st rpath
      else if file_type_field (fs_mode st) = ft_symlink then capture_symlink (collecting F) keep_entry d name rpath
      else if file_type_field (fs_mode st) = ft_regular then capture_regular (collecting F) keep_entry d name st rpath
      else raiseH e2)" if "path_from_bytes (child_path prefix name) = Inr rpath" for e1 e2 st rpath
  proof (cases "name = ''.git''")
    case False
    note single = found_under_single [OF that clean_child [OF assms(2,1) False]]
    show ?thesis
      using False by (simp only: if_False) (intro if_cases_emits emits_directory emits_symlink emits_regular emits_raise
        assms(3) [OF c(2)] single found_under_Nil)
  qed (simp add: emits_silent)
  show "emits (found_under (child_path prefix name)) (if prefix = [] \<and> c = ''.git'' then returnH ()
        else if CHR 0x00 \<in> set c then raiseH (fault hostile_filesystem (Fmt ''an entry name contains a NUL byte'' []))
        else bindH (mapH (stat_fault prefix c) (cf_statat (collecting F) d c)) (\<lambda>st.
          bindH (liftH (map_sum (\<lambda>e. fault hostile_filesystem (Fmt ''a captured path cannot be represented: {err}''
              [FMsg (changeset_error_display e)])) id (path_from_bytes (child_path prefix c)))) (\<lambda>rpath.
          if c = ''.git'' then raiseH (fault hostile_filesystem
            (Fmt ''{} nests a repository below the Workspace root'' [FStr (to_manifest_string rpath)]))
          else if file_type_field (fs_mode st) = ft_directory
          then capture_directory (collecting F) descend d dev c (child_path prefix c) st rpath
          else if file_type_field (fs_mode st) = ft_symlink then capture_symlink (collecting F) keep_entry d c rpath
          else if file_type_field (fs_mode st) = ft_regular then capture_regular (collecting F) keep_entry d c st rpath
          else raiseH (fault hostile_filesystem
            (Fmt ''{} is a special filesystem object capture must not touch'' [FStr (to_manifest_string rpath)])))))"
    unfolding c(1)
    apply (rule if_cases_emits, simp add: emits_silent)
    apply (rule if_cases_emits, simp add: emits_raise)
    apply (rule emits_bind_silent, simp, simp)
    apply (rule emits_bind_silent, simp, simp)
    by (rule entry) (auto simp: liftH_def)
qed

text \<open>What a directory read promises: no name twice, and none with a separator.\<close>

definition names_of :: "(errno, string) res list \<Rightarrow> string list" where
  "names_of entries = [n. Inr n \<leftarrow> entries]"

definition lawful_names :: "'h confined_fs \<Rightarrow> bool" where
  "lawful_names F \<longleftrightarrow> (\<forall>fd h entries h'. cf_read_dir F fd h = (Inr entries, h') \<longrightarrow>
     distinct (names_of entries) \<and> (\<forall>n \<in> set (names_of entries). CHR ''/'' \<notin> set n))"

lemma collect_names_Inr: "collect_names entries = Inr names \<Longrightarrow> names = filter (\<lambda>n. n \<noteq> ''.'' \<and> n \<noteq> ''..'') (names_of entries)"
  by (induction entries arbitrary: names rule: collect_names.induct) (auto simp: names_of_def res_simps split: if_splits)

lemma directory_names_lawful:
  assumes "lawful_names F" and "directory_names (collecting F) fd (h, es) = (Inr names, (h', es'))"
  shows "distinct names \<and> (\<forall>n \<in> set names. CHR ''/'' \<notin> set n)"
proof -
  from assms(2) obtain entries h1 where r: "cf_read_dir F fd h = (Inr entries, h1)"
    and c: "\<exists>ns. collect_names entries = Inr ns \<and> names = sort ns"
    by (auto simp: directory_names_def host_iff collecting_def split: prod.splits)
  have "distinct (names_of entries) \<and> (\<forall>n \<in> set (names_of entries). CHR ''/'' \<notin> set n)"
    using assms(1) r unfolding lawful_names_def by blast
  with c show ?thesis by (auto dest!: collect_names_Inr)
qed

lemma emits_walk:
  assumes "lawful_names F"
  shows "prefix = [] \<or> clean prefix \<Longrightarrow>
    emits (\<lambda>new. \<exists>names. found_in prefix names new) (walk_directory levels (collecting F) keep_entry d prefix dev)"
proof (induction levels arbitrary: d prefix dev)
  case 0
  show ?case by (auto intro!: emits_silent exI [of _ "[]"] simp: found_in_def)
next
  case (Suc levels)
  show ?case
    unfolding walk_directory.simps
  proof (rule emits_bind_silent, simp)
    show "\<exists>names. found_in prefix names []" by (simp add: found_in_def)
    fix names h h' es es'
    assume "directory_names (collecting F) d (h, es) = (Inr names, (h', es'))"
    from directory_names_lawful [OF assms this] have ok: "distinct names" "\<forall>n \<in> set names. CHR ''/'' \<notin> set n" by auto
    have "emits (found_under (child_path prefix n)) (capture_name (collecting F) keep_entry
        (walk_directory levels (collecting F) keep_entry) d prefix dev n)" if "n \<in> set names" for n
    proof (rule emits_name)
      show "CHR ''/'' \<notin> set n" using ok(2) that by blast
      show "prefix = [] \<or> clean prefix" by (rule Suc.prems)
      fix child dev' assume "n \<noteq> []" "n \<noteq> ''.git''"
      then have "clean (child_path prefix n)" using clean_child [OF Suc.prems] ok(2) that by blast
      moreover have "below (child_path prefix n) b" if "below (child_path (child_path prefix n) m) b" for m b
        using below_child [OF that \<open>n \<noteq> []\<close>] .
      ultimately show "emits (found_under (child_path prefix n)) (walk_directory levels (collecting F) keep_entry child (child_path prefix n) dev')"
        by (intro emits_mono [OF Suc.IH]) (auto simp: found_in_def found_under_def)
    qed
    from emits_found_fold [OF ok this]
    show "emits (\<lambda>new. \<exists>names. found_in prefix names new) (foldH (\<lambda>_ name. capture_name (collecting F) keep_entry
        (walk_directory levels (collecting F) keep_entry) d prefix dev name) () names)"
      by (rule emits_mono) (assumption, rule exI)
  qed
qed

text \<open>
  A capture names every path once and never Git's own state. Over a file system whose
  directory reads yield no name twice and none with a separator, and whatever else it does, the
  entries of a capture, complete or cut short, have distinct, representable paths, none of which
  has a component called \<open>.git\<close>.
\<close>

theorem captured_paths_sound:
  assumes "lawful_names F"
  shows "case confined_capture F root h of ((es, _), _) \<Rightarrow>
    distinct (map cpe_path es) \<and> list_all (\<lambda>e. wf_path (cpe_path e) \<and> ''.git'' \<notin> set (split_on (CHR ''/'') (path_as_bytes (cpe_path e)))) es"
proof -
  obtain r h' es where run: "capture_tree (collecting F) keep_entry root (h, []) = (r, (h', es))" by (metis prod.exhaust)
  have none: "\<exists>names. found_in [] names []" by (simp add: found_in_def)
  have "emits (\<lambda>new. \<exists>names. found_in [] names new) (capture_tree (collecting F) keep_entry root)"
    unfolding capture_tree_def
    by (intro emits_bind_silent silent_map silent_calls none emits_walk [OF assms]) simp
  from emitsD [OF this run] obtain names where "found_in [] names es" by auto
  moreover from this have "distinct (map path_as_bytes (map cpe_path es))"
    by (simp add: found_in_def path_bytes_def [abs_def] comp_def)
  then have "distinct (map cpe_path es)" by (simp only: distinct_map)
  ultimately show ?thesis by (auto simp: confined_capture_def run found_in_def clean_def path_bytes_def list_all_iff)
qed

text \<open>A tree with one file beside Git's own directory.\<close>

definition demo_fs :: "unit confined_fs" where
  "demo_fs =
     \<lparr>cf_openat = (\<lambda>d _ _ h. (Inr (case d of None \<Rightarrow> 3 | Some _ \<Rightarrow> 4), h)),
      cf_fstat = (\<lambda>fd h. (Inr \<lparr>fs_mode = (if fd = 3 then 0x41ED else 0x81A4), fs_dev = 1, fs_ino = fd, fs_size = 0\<rparr>, h)),
      cf_statat = (\<lambda>_ _ h. (Inr \<lparr>fs_mode = 0x81A4, fs_dev = 1, fs_ino = 4, fs_size = 0\<rparr>, h)),
      cf_read_dir = (\<lambda>_ h. (Inr [Inr ''.'', Inr ''..'', Inr ''a'', Inr ''.git''], h)),
      cf_readlinkat = (\<lambda>_ _ h. (Inr [], h)), cf_read = (\<lambda>_ _ h. (Inr [], h))\<rparr>"

theorem captured_paths_sound_witness:
  "case confined_capture demo_fs ''/w'' () of ((es, _), _) \<Rightarrow>
     distinct (map cpe_path es) \<and> list_all (\<lambda>e. wf_path (cpe_path e) \<and> ''.git'' \<notin> set (split_on (CHR ''/'') (path_as_bytes (cpe_path e)))) es"
  by (rule captured_paths_sound) (simp add: lawful_names_def demo_fs_def names_of_def)

section \<open>The listing of the base\<close>

text \<open>The documented form of \<open>git ls-tree -l -z\<close>: mode, type, name and right-aligned size, a tab, the path, a null byte.\<close>

definition mode_of :: "entry_kind \<Rightarrow> string" where
  "mode_of k = (case k of Regular \<Rightarrow> ''100644'' | Executable \<Rightarrow> ''100755'' | Symlink \<Rightarrow> ''120000'')"

definition listed_record :: "string \<times> base_object \<Rightarrow> string" where
  "listed_record e = (let sz = nat_to_string (nat (bo_size (snd e))) in
     mode_of (bo_kind (snd e)) @ '' blob '' @ bo_oid (snd e) @ '' '' @ replicate (7 - length sz) (CHR '' '') @ sz @ [CHR 0x09] @ fst e)"

definition listing :: "(string \<times> base_object) list \<Rightarrow> string" where
  "listing es = concat (map (\<lambda>e. listed_record e @ [CHR 0x00]) es)"

definition listable :: "string \<times> base_object \<Rightarrow> bool" where
  "listable e \<longleftrightarrow> wf_path (RepositoryPath (fst e)) \<and> is_canonical_object_name (bo_oid (snd e)) \<and> is_u64 (bo_size (snd e))"

lemma wf_path_bytes: "wf_path (RepositoryPath key) \<Longrightarrow> path_from_bytes key = Inr (RepositoryPath key) \<and> CHR 0x00 \<notin> set key"
  by (auto simp: wf_path_def path_from_bytes_def split: if_splits)

lemma digit_facts:
  assumes "c \<in> set (nat_to_string n)"
  shows "48 \<le> (of_char c :: nat) \<and> (of_char c :: nat) \<le> 57"
  using nat_to_string_digits [OF assms] by auto

lemma canonical_name_facts:
  assumes "is_canonical_object_name oid"
  shows "utf8_valid oid" and "oid \<noteq> []" and "CHR '' '' \<notin> set oid" and "CHR 0x09 \<notin> set oid" and "CHR 0x00 \<notin> set oid"
proof -
  have hex: "c \<in> set oid \<Longrightarrow> is_lower_hex c" for c using assms by (auto simp: is_canonical_object_name_def list_all_iff)
  show "utf8_valid oid" by (rule utf8_valid_ascii) (auto dest!: hex simp: is_lower_hex_def)
  show "oid \<noteq> []" using assms by (auto simp: is_canonical_object_name_def)
  show "CHR '' '' \<notin> set oid" "CHR 0x09 \<notin> set oid" "CHR 0x00 \<notin> set oid" by (auto dest!: hex simp: is_lower_hex_def)
qed

lemma nat_text_facts:
  "utf8_valid (nat_to_string n)" "CHR '' '' \<notin> set (nat_to_string n)" "CHR 0x09 \<notin> set (nat_to_string n)"
  "CHR 0x00 \<notin> set (nat_to_string n)" "dropWhile (\<lambda>c. c = CHR ''-'') (nat_to_string n) = nat_to_string n"
proof -
  show "utf8_valid (nat_to_string n)" by (rule utf8_valid_ascii) (auto dest!: digit_facts)
  show "CHR '' '' \<notin> set (nat_to_string n)" "CHR 0x09 \<notin> set (nat_to_string n)" "CHR 0x00 \<notin> set (nat_to_string n)"
    by (auto dest!: digit_facts)
  have "CHR ''-'' \<notin> set (nat_to_string n)" by (auto dest!: digit_facts)
  then show "dropWhile (\<lambda>c. c = CHR ''-'') (nat_to_string n) = nat_to_string n"
    by (cases "nat_to_string n") auto
qed

lemma u64_parse_nat: "is_u64 (int n) \<Longrightarrow> u64_parse (nat_to_string n) = Inr (int n)"
proof -
  assume u: "is_u64 (int n)"
  obtain c cs where s: "nat_to_string n = c # cs" by (cases "nat_to_string n") auto
  have "c \<noteq> CHR ''+''" using digit_facts [of c n] s by auto
  moreover have "list_all (\<lambda>c. 48 \<le> (of_char c :: nat) \<and> (of_char c :: nat) \<le> 57) (nat_to_string n)"
    by (simp add: list_all_iff digit_facts)
  ultimately show ?thesis using u digits_value_nat_to_string [of n] by (simp add: u64_parse_def s)
qed

lemma split_on_spaces: "split_on d (replicate k d @ w) = replicate k [] @ split_on d w"
  by (induction k) simp_all

lemma parse_listed_record:
  assumes "listable e"
  shows "parse_tree_record (listed_record e) = Inr e"
proof -
  obtain key k oid n where e: "e = (key, \<lparr>bo_kind = k, bo_oid = oid, bo_size = int n\<rparr>)"
    using assms by (cases e, cases "snd e") (auto simp: listable_def is_u64_def dest: nonneg_int_cases elim: nonneg_int_cases)
  note ok = assms [unfolded e listable_def, simplified]
  define meta where "meta = mode_of k @ '' blob '' @ oid @ '' '' @ replicate (7 - length (nat_to_string n)) (CHR '' '') @ nat_to_string n"
  have whole: "listed_record e = meta @ CHR 0x09 # key" by (simp add: listed_record_def e meta_def Let_def)
  have "CHR 0x09 \<notin> set meta"
    using canonical_name_facts(4) [of oid] ok nat_text_facts(3) [of n]
    by (auto simp: meta_def mode_of_def split: entry_kind.splits)
  then have once: "split_once (CHR 0x09) (listed_record e) = Some (meta, key)" unfolding whole by (rule split_once_append)
  have mode: "CHR '' '' \<notin> set (mode_of k)" "mode_of k \<noteq> []" by (auto simp: mode_of_def split: entry_kind.splits)
  have "meta = mode_of k @ CHR '' '' # (''blob'' @ CHR '' '' # (oid @ CHR '' '' # (replicate (7 - length (nat_to_string n)) (CHR '' '') @ nat_to_string n)))"
    by (simp add: meta_def)
  then have "filter (\<lambda>f. f \<noteq> []) (split_on (CHR '' '') meta) = [mode_of k, ''blob'', oid, nat_to_string n]"
    using mode canonical_name_facts(2,3) [of oid] ok nat_text_facts(2) [of n]
    by (simp only: split_on_append_sep split_on_spaces) (simp add: split_on_singleton)
  moreover have "tree_kind ''blob'' (mode_of k) = Inr k" by (cases k) (simp_all add: tree_kind_def mode_of_def)
  moreover have "tree_size (nat_to_string n) = Inr (int n)" using ok by (simp add: tree_size_def nat_text_facts u64_parse_nat)
  ultimately show ?thesis
    using ok canonical_name_facts(1) [of oid] wf_path_bytes [of key]
    by (simp add: parse_tree_record_def once [unfolded e] ok_or_def ensure_def e)
qed

lemma listed_record_facts: "listable e \<Longrightarrow> listed_record e \<noteq> [] \<and> CHR 0x00 \<notin> set (listed_record e)"
  using canonical_name_facts(5) [of "bo_oid (snd e)"] nat_text_facts(4) wf_path_bytes [of "fst e"]
  by (auto simp: listed_record_def listable_def Let_def mode_of_def split: entry_kind.splits)

text \<open>
  The base is read back exactly. The listing of any entries with representable paths,
  canonical object names and sizes of 64 bits parses to the map of those entries; a later entry of
  the same path would win, as in the map the code builds.
\<close>

theorem base_listing_roundtrip:
  assumes "list_all listable es"
  shows "parse_base_tree (listing es) = Inr (btree_of es)"
proof -
  have split: "list_all listable es \<Longrightarrow> split_on (CHR 0x00) (listing es) = map listed_record es @ [[]]" for es
    by (induction es) (auto simp: listing_def split_on_append_sep split_on_singleton listed_record_facts)
  have "fold_res (\<lambda>tree record. if record = [] then Inr tree
       else bindR (parse_tree_record record) (\<lambda>(key, object). Inr (btree_insert key object tree))) t (map listed_record es @ [[]])
     = Inr (fold (\<lambda>(k, v). btree_insert k v) es t)" if "list_all listable es" for t es
    using that by (induction es arbitrary: t) (auto simp: parse_listed_record listed_record_facts)
  with assms show ?thesis by (simp add: parse_base_tree_def split btree_of_def)
qed

definition demo_listing_entry :: "string \<times> base_object" where
  "demo_listing_entry = (''src/main.rs'', \<lparr>bo_kind = Regular, bo_oid = replicate 40 (CHR ''a''), bo_size = 12\<rparr>)"

theorem base_listing_roundtrip_witness:
  "parse_base_tree (listing [demo_listing_entry]) = Inr [demo_listing_entry]"
proof -
  have "list_all listable [demo_listing_entry]"
    by (simp add: demo_listing_entry_def listable_def wf_path_def path_from_bytes_def check_component_def max_path_bytes_def
        is_canonical_object_name_def list_all_iff is_lower_hex_def is_u64_def res_simps ensure_def)
  from base_listing_roundtrip [OF this] show ?thesis by (simp add: btree_of_def demo_listing_entry_def)
qed

end
