(* ===== verification/Object_Store.thy ===== *)
theory Object_Store
  imports Host Engine_Sealing
begin

text \<open>
  The content-addressed object store (\<^verbatim>\<open>crates/pantheon-cas/src/lib.rs\<close>): staging under a private
  name, linking into the digest namespace, and reads that verify what they return. The file
  operations are a parameter; \<open>object_laws\<close> says what is documented of them.
\<close>

section \<open>The store\<close>

record 'h object_fs =
  of_exists :: "string \<Rightarrow> 'h \<Rightarrow> bool \<times> 'h"
  of_create_dir_all :: "string \<Rightarrow> 'h \<Rightarrow> (io_error, unit) res \<times> 'h"
  of_create_new :: "string \<Rightarrow> 'h \<Rightarrow> (io_error, unit) res \<times> 'h"
  of_write_all :: "string \<Rightarrow> string \<Rightarrow> 'h \<Rightarrow> (io_error, unit) res \<times> 'h"
  of_sync_all :: "string \<Rightarrow> 'h \<Rightarrow> (io_error, unit) res \<times> 'h"
  of_hard_link :: "string \<Rightarrow> string \<Rightarrow> 'h \<Rightarrow> (io_error, unit) res \<times> 'h"
  of_read :: "string \<Rightarrow> 'h \<Rightarrow> (io_error, string) res \<times> 'h"
  of_remove_file :: "string \<Rightarrow> 'h \<Rightarrow> (io_error, unit) res \<times> 'h"
  of_sync_dir :: "string \<Rightarrow> 'h \<Rightarrow> (io_error, unit) res \<times> 'h"
  of_counter :: "'h \<Rightarrow> int \<times> 'h"
  of_process_id :: int

definition cas_open :: "'h object_fs \<Rightarrow> string \<Rightarrow> ('h, io_error, string) effect" where
  "cas_open C root =
     (let dir = path_join (path_join root ''objects'') ''sha256'' in
     bindH (of_create_dir_all C dir) (\<lambda>_. returnH dir))"

definition object_path :: "string \<Rightarrow> digest \<Rightarrow> string" where
  "object_path dir d = path_join dir (to_hex d)"

definition cas_fault :: "string \<Rightarrow> message \<Rightarrow> external_fault" where
  "cas_fault code detail = \<lparr>xf_code = code, xf_detail = detail\<rparr>"

definition read_verified ::
    "'h object_fs \<Rightarrow> sha256 \<Rightarrow> string \<Rightarrow> object_ref \<Rightarrow> ('h, external_fault, string) effect" where
  "read_verified C sha p ref =
     bindH (mapH (\<lambda>e. cas_fault ''cas.object-unavailable'' (Fmt ''could not read {}: {err}'' [FStr p, FStr (io_error_text e)]))
        (of_read C p)) (\<lambda>bs.
     if int (length bs) \<noteq> obr_size ref then raiseH (cas_fault ''cas.corrupt-object'' (Fmt ''{} holds {} bytes, expected {}''
       [FStr p, FInt (int (length bs)), FInt (obr_size ref)]))
     else if digest_of sha bs \<noteq> obr_digest ref then raiseH (cas_fault ''cas.corrupt-object'' (Fmt ''{} hashes to {actual}, expected {}''
       [FStr p, FStr (display (digest_of sha bs)), FStr (display (obr_digest ref))]))
     else returnH bs)"

definition discard_staged :: "'h object_fs \<Rightarrow> string \<Rightarrow> ('h, external_fault, unit) effect" where
  "discard_staged C staged =
     mapH (\<lambda>e. cas_fault ''cas.publish-failed'' (Fmt ''could not remove the staged object: {err}'' [FStr (io_error_text e)]))
       (of_remove_file C staged)"

definition sync_dir :: "'h object_fs \<Rightarrow> string \<Rightarrow> ('h, external_fault, unit) effect" where
  "sync_dir C dir =
     mapH (\<lambda>e. cas_fault ''cas.durability-failed'' (Fmt ''could not flush the object directory: {err}'' [FStr (io_error_text e)]))
       (of_sync_dir C dir)"

definition finalize_object ::
    "'h object_fs \<Rightarrow> sha256 \<Rightarrow> string \<Rightarrow> string \<Rightarrow> string \<Rightarrow> object_ref \<Rightarrow> ('h, external_fault, unit) effect" where
  "finalize_object C sha dir staged final ref =
     bindH (tryH (of_hard_link C staged final)) (\<lambda>linked.
     case linked of
       Inr _ \<Rightarrow> bindH (discard_staged C staged) (\<lambda>_. sync_dir C dir)
     | Inl e \<Rightarrow>
         if io_error_kind e = AlreadyExistsKind
         then bindH (read_verified C sha final ref) (\<lambda>_. discard_staged C staged)
         else raiseH (cas_fault ''cas.publish-failed'' (Fmt ''could not link into {}: {err}'' [FStr final, FStr (io_error_text e)])))"

definition staging_name :: "'h object_fs \<Rightarrow> string \<Rightarrow> int \<Rightarrow> string" where
  "staging_name C dir n = path_join dir (''incoming-'' @ int_to_string (of_process_id C) @ ''-'' @ int_to_string n)"

definition write_staged :: "'h object_fs \<Rightarrow> string \<Rightarrow> string \<Rightarrow> ('h, external_fault, string) effect" where
  "write_staged C candidate bs =
     bindH (mapH (\<lambda>e. cas_fault ''cas.write-failed'' (Fmt ''could not stage object bytes: {err}'' [FStr (io_error_text e)]))
        (of_write_all C candidate bs)) (\<lambda>_.
     bindH (mapH (\<lambda>e. cas_fault ''cas.durability-failed'' (Fmt ''could not make staged bytes durable: {err}'' [FStr (io_error_text e)]))
        (of_sync_all C candidate)) (\<lambda>_.
     returnH candidate))"

text \<open>The staging loop tries names until one is free; \<open>None\<close> is that it never ends.\<close>

partial_function (option) stage_object ::
    "'h object_fs \<Rightarrow> string \<Rightarrow> string \<Rightarrow> 'h \<Rightarrow> ((external_fault, string) res \<times> 'h) option" where
  "stage_object C dir bs h = (case of_counter C h of (n, h1) \<Rightarrow>
     (case of_create_new C (staging_name C dir n) h1 of
        (Inr _, h2) \<Rightarrow> Some (write_staged C (staging_name C dir n) bs h2)
      | (Inl e, h2) \<Rightarrow>
          if io_error_kind e = AlreadyExistsKind then stage_object C dir bs h2
          else Some (Inl (cas_fault ''cas.write-failed'' (Fmt ''could not stage an object: {err}'' [FStr (io_error_text e)])), h2)))"

definition publish_staged ::
    "'h object_fs \<Rightarrow> sha256 \<Rightarrow> string \<Rightarrow> object_ref \<Rightarrow> (external_fault, string) res \<times> 'h \<Rightarrow> (external_fault, object_ref) res \<times> 'h" where
  "publish_staged C sha dir ref staged = (case staged of
     (Inl e, h) \<Rightarrow> (Inl e, h)
   | (Inr candidate, h) \<Rightarrow>
       bindH (finalize_object C sha dir candidate (object_path dir (obr_digest ref)) ref) (\<lambda>_. returnH ref) h)"

definition cas_publish ::
    "'h object_fs \<Rightarrow> sha256 \<Rightarrow> string \<Rightarrow> string \<Rightarrow> 'h \<Rightarrow> ((external_fault, object_ref) res \<times> 'h) option" where
  "cas_publish C sha dir bs h =
     (let ref = \<lparr>obr_digest = digest_of sha bs, obr_size = int (length bs)\<rparr>; final = object_path dir (obr_digest ref) in
     case of_exists C final h of (present, h1) \<Rightarrow>
       if present then Some (bindH (read_verified C sha final ref) (\<lambda>_. returnH ref) h1)
       else map_option (publish_staged C sha dir ref) (stage_object C dir bs h1))"

definition cas_verify :: "'h object_fs \<Rightarrow> sha256 \<Rightarrow> string \<Rightarrow> object_ref \<Rightarrow> ('h, external_fault, unit) effect" where
  "cas_verify C sha dir ref = bindH (read_verified C sha (object_path dir (obr_digest ref)) ref) (\<lambda>_. returnH ())"

definition cas_read :: "'h object_fs \<Rightarrow> sha256 \<Rightarrow> string \<Rightarrow> object_ref \<Rightarrow> ('h, external_fault, string) effect" where
  "cas_read C sha dir ref = read_verified C sha (object_path dir (obr_digest ref)) ref"

section \<open>What the file system promises\<close>

text \<open>
  \<open>files\<close> is the content of every name. Other processes and threads may publish at any moment, so a
  call promises only what holds beside them: \<open>objects_kept\<close>, that an object once there stays with its
  content, and what it says of its own file, whose staging name nobody else uses. A creation or a
  link that succeeds makes a name that was free.
\<close>

definition objects_kept :: "string \<Rightarrow> (string \<Rightarrow> string option) \<Rightarrow> (string \<Rightarrow> string option) \<Rightarrow> bool" where
  "objects_kept dir old new \<longleftrightarrow>
     (\<forall>d. old (object_path dir d) \<noteq> None \<longrightarrow> new (object_path dir d) = old (object_path dir d))"

definition is_object :: "string \<Rightarrow> string \<Rightarrow> bool" where
  "is_object dir p \<longleftrightarrow> (\<exists>d. p = object_path dir d)"

definition observing_laws :: "'h object_fs \<Rightarrow> string \<Rightarrow> ('h \<Rightarrow> string \<Rightarrow> string option) \<Rightarrow> bool" where
  "observing_laws C dir files \<longleftrightarrow>
     (\<forall>p h b h'. of_exists C p h = (b, h') \<longrightarrow> objects_kept dir (files h) (files h'))
   \<and> (\<forall>h n h'. of_counter C h = (n, h') \<longrightarrow> objects_kept dir (files h) (files h'))
   \<and> (\<forall>p h r h'. of_sync_all C p h = (r, h') \<longrightarrow> objects_kept dir (files h) (files h') \<and> files h' p = files h p)
   \<and> (\<forall>p h r h'. of_sync_dir C p h = (r, h') \<longrightarrow> objects_kept dir (files h) (files h'))
   \<and> (\<forall>p h r h'. of_read C p h = (r, h') \<longrightarrow> objects_kept dir (files h) (files h')
        \<and> (case r of Inr bs \<Rightarrow> is_object dir p \<longrightarrow> files h' p = Some bs | Inl _ \<Rightarrow> True))"

definition changing_laws :: "'h object_fs \<Rightarrow> string \<Rightarrow> ('h \<Rightarrow> string \<Rightarrow> string option) \<Rightarrow> bool" where
  "changing_laws C dir files \<longleftrightarrow>
     (\<forall>p h r h'. of_create_new C p h = (r, h') \<longrightarrow> objects_kept dir (files h) (files h'))
   \<and> (\<forall>p bs h r h'. of_write_all C p bs h = (r, h') \<longrightarrow> \<not> is_object dir p \<longrightarrow>
        objects_kept dir (files h) (files h') \<and> (case r of Inr _ \<Rightarrow> files h' p = Some bs | Inl _ \<Rightarrow> True))
   \<and> (\<forall>a b h r h'. of_hard_link C a b h = (r, h') \<longrightarrow> objects_kept dir (files h) (files h')
        \<and> (case r of Inr _ \<Rightarrow> files h' b = files h a | Inl _ \<Rightarrow> True))
   \<and> (\<forall>p h r h'. of_remove_file C p h = (r, h') \<longrightarrow> \<not> is_object dir p \<longrightarrow> objects_kept dir (files h) (files h'))"

definition object_laws :: "'h object_fs \<Rightarrow> string \<Rightarrow> ('h \<Rightarrow> string \<Rightarrow> string option) \<Rightarrow> bool" where
  "object_laws C dir files \<longleftrightarrow> observing_laws C dir files \<and> changing_laws C dir files"

lemma observing_law:
  assumes "object_laws C dir files"
  shows "of_exists C p h = (b, h') \<Longrightarrow> objects_kept dir (files h) (files h')"
    and "of_counter C h = (n, h') \<Longrightarrow> objects_kept dir (files h) (files h')"
    and "of_sync_all C p h = (r, h') \<Longrightarrow> objects_kept dir (files h) (files h') \<and> files h' p = files h p"
    and "of_sync_dir C p h = (r, h') \<Longrightarrow> objects_kept dir (files h) (files h')"
    and "of_read C p h = (q, h') \<Longrightarrow> objects_kept dir (files h) (files h')"
    and "of_read C p h = (Inr bs, h') \<Longrightarrow> is_object dir p \<Longrightarrow> files h' p = Some bs"
  using assms unfolding object_laws_def observing_laws_def by (blast, blast, blast, blast, blast, fastforce)

lemma changing_law:
  assumes "object_laws C dir files"
  shows "of_create_new C p h = (r, h') \<Longrightarrow> objects_kept dir (files h) (files h')"
    and "of_write_all C p bs h = (r, h') \<Longrightarrow> \<not> is_object dir p \<Longrightarrow> objects_kept dir (files h) (files h')"
    and "of_write_all C p bs h = (Inr u, h') \<Longrightarrow> \<not> is_object dir p \<Longrightarrow> files h' p = Some bs"
    and "of_hard_link C a b h = (r, h') \<Longrightarrow> objects_kept dir (files h) (files h')"
    and "of_hard_link C a b h = (Inr u, h') \<Longrightarrow> files h' b = files h a"
    and "of_remove_file C p h = (r, h') \<Longrightarrow> \<not> is_object dir p \<Longrightarrow> objects_kept dir (files h) (files h')"
  using assms unfolding object_laws_def changing_laws_def by (blast, blast, fastforce, blast, fastforce, blast)

lemma objects_kept_refl [simp]: "objects_kept dir f f"
  by (simp add: objects_kept_def)

lemma objects_kept_trans [trans]: "objects_kept dir f g \<Longrightarrow> objects_kept dir g k \<Longrightarrow> objects_kept dir f k"
  by (simp add: objects_kept_def)

lemma object_stays:
  "objects_kept dir f g \<Longrightarrow> f (object_path dir d) = Some c \<Longrightarrow> g (object_path dir d) = Some c"
  by (simp add: objects_kept_def)

text \<open>A staging name is never the name of an object, since its first letter is no hexadecimal digit.\<close>

lemma hex_first: "hex_nibble c = None \<Longrightarrow> hex_bytes (c # s) = None"
  by (cases s) simp_all

lemma path_join_relative_inj:
  "path_join dir a = path_join dir b \<Longrightarrow> (\<And>s. a \<noteq> CHR ''/'' # s) \<Longrightarrow> (\<And>s. b \<noteq> CHR ''/'' # s) \<Longrightarrow> a = b"
  by (cases a; cases b) (auto simp: path_join_def split: if_splits)

lemma staging_not_object: "\<not> is_object dir (staging_name C dir n)"
proof
  assume "is_object dir (staging_name C dir n)"
  then obtain bs where eq: "staging_name C dir n = object_path dir (Digest bs)"
    unfolding is_object_def by (metis digest.exhaust)
  have hex: "hex_bytes (to_hex (Digest bs)) = Some bs" by (simp add: hex_bytes_byte_hex)
  have "hex_nibble (CHR ''/'') = None" and "hex_nibble (CHR ''i'') = None" by (simp_all add: hex_nibble_def)
  then have slash: "to_hex (Digest bs) \<noteq> CHR ''/'' # s" and letter: "to_hex (Digest bs) \<noteq> CHR ''i'' # s" for s
    using hex by (metis hex_first option.distinct(1))+
  have "''incoming-'' @ int_to_string (of_process_id C) @ ''-'' @ int_to_string n = to_hex (Digest bs)"
    using eq unfolding staging_name_def object_path_def
    by (rule path_join_relative_inj) (use slash in \<open>simp_all del: to_hex.simps\<close>)
  then show False
    using letter by (metis append_Cons)
qed

section \<open>Reading and staging\<close>

lemma read_verified_reads:
  assumes laws: "object_laws C dir files" and out: "read_verified C sha p ref h = (r, h')"
  shows "objects_kept dir (files h) (files h')"
    and "r = Inr bs \<Longrightarrow> is_object dir p \<Longrightarrow>
      files h' p = Some bs \<and> int (length bs) = obr_size ref \<and> digest_of sha bs = obr_digest ref"
  using out by (auto simp: read_verified_def host_iff split: if_splits dest: observing_law(5,6) [OF laws])

definition staged_well :: "'h object_fs \<Rightarrow> string \<Rightarrow> string \<Rightarrow> (string \<Rightarrow> string option) \<Rightarrow> (external_fault, string) res \<Rightarrow>
    (string \<Rightarrow> string option) \<Rightarrow> bool" where
  "staged_well C dir bs old r new \<longleftrightarrow> objects_kept dir old new
     \<and> (case r of Inl _ \<Rightarrow> True | Inr q \<Rightarrow> (\<exists>n. q = staging_name C dir n) \<and> new q = Some bs)"

lemma write_staged_well:
  assumes laws: "object_laws C dir files" and w: "write_staged C (staging_name C dir n) bs h = (r, h')"
  shows "staged_well C dir bs (files h) r (files h')"
proof -
  note own = staging_not_object [of dir C n]
  have kept: "objects_kept dir (files h) (files h')"
    using w by (auto simp: write_staged_def host_iff
        dest: changing_law(2) [OF laws _ own] observing_law(3) [OF laws] intro: objects_kept_trans)
  have held: "q = staging_name C dir n \<and> files h' q = Some bs" if "r = Inr q" for q
    using w that by (auto simp: write_staged_def host_iff dest!: changing_law(3) [OF laws _ own] observing_law(3) [OF laws])
  show ?thesis
  proof (cases r)
    case (Inr q)
    with kept held [OF Inr] show ?thesis by (auto simp: staged_well_def)
  qed (simp add: staged_well_def kept)
qed

lemma staged_well_before: "objects_kept dir f g \<Longrightarrow> staged_well C dir bs g r k \<Longrightarrow> staged_well C dir bs f r k"
  by (auto simp: staged_well_def intro: objects_kept_trans)

lemma stage_object_stages:
  assumes laws: "object_laws C dir files"
  shows "stage_object C dir bs h = Some out \<Longrightarrow> staged_well C dir bs (files h) (fst out) (files (snd out))"
proof (rule stage_object.raw_induct
    [of "\<lambda>D d b h out. D = C \<longrightarrow> d = dir \<longrightarrow> staged_well C dir b (files h) (fst out) (files (snd out))", rule_format])
  fix rest D d b h out
  assume hyp: "\<And>D d b h out. rest D d b h = Some out \<Longrightarrow> D = C \<Longrightarrow> d = dir \<Longrightarrow>
      staged_well C dir b (files h) (fst out) (files (snd out))"
    and D: "D = C" "d = dir"
    and step: "(case of_counter D h of (n, h1) \<Rightarrow>
       case of_create_new D (staging_name D d n) h1 of
         (Inl e, h2) \<Rightarrow> if io_error_kind e = AlreadyExistsKind then rest D d b h2
           else Some (Inl (cas_fault ''cas.write-failed'' (Fmt ''could not stage an object: {err}'' [FStr (io_error_text e)])), h2)
       | (Inr x, h2) \<Rightarrow> Some (write_staged D (staging_name D d n) b h2)) = Some out"
  obtain n h1 r h2 where cnt: "of_counter C h = (n, h1)" and cr: "of_create_new C (staging_name C dir n) h1 = (r, h2)"
    by fastforce
  have kept: "objects_kept dir (files h) (files h2)"
    using observing_law(2) [OF laws cnt] changing_law(1) [OF laws cr] by (rule objects_kept_trans)
  have "staged_well C dir b (files h2) (fst out) (files (snd out))"
    using step D cnt cr hyp [of C dir b h2 out] write_staged_well [OF laws, of n b h2 "fst out" "snd out"]
    by (auto simp: staged_well_def split: sum.splits if_splits)
  with kept show "staged_well C dir b (files h) (fst out) (files (snd out))" by (rule staged_well_before)
qed simp_all

section \<open>The staging loop ends\<close>

text \<open>
  \<open>tally\<close> is the process's \<open>AtomicU64\<close>, which wraps; \<open>taken\<close> holds every name that is refused because
  it exists, which the calls of the loop do not add to.
\<close>

definition counting_laws :: "'h object_fs \<Rightarrow> ('h \<Rightarrow> int) \<Rightarrow> ('h \<Rightarrow> string set) \<Rightarrow> bool" where
  "counting_laws C tally taken \<longleftrightarrow>
     (\<forall>h n h'. of_counter C h = (n, h') \<longrightarrow> n = tally h \<and> tally h' = (tally h + 1) mod 2 ^ 64 \<and> taken h' \<subseteq> taken h)
   \<and> (\<forall>p h b h'. of_exists C p h = (b, h') \<longrightarrow> tally h' = tally h \<and> taken h' \<subseteq> taken h)
   \<and> (\<forall>p h e h'. of_create_new C p h = (Inl e, h') \<longrightarrow> tally h' = tally h \<and> taken h' \<subseteq> taken h
        \<and> (io_error_kind e = AlreadyExistsKind \<longrightarrow> p \<in> taken h))"

lemma counting_law:
  assumes "counting_laws C tally taken"
  shows "of_counter C h = (n, h') \<Longrightarrow> n = tally h \<and> tally h' = (tally h + 1) mod 2 ^ 64 \<and> taken h' \<subseteq> taken h"
    and "of_exists C p h = (b, h') \<Longrightarrow> tally h' = tally h \<and> taken h' \<subseteq> taken h"
    and "of_create_new C p h = (Inl e, h') \<Longrightarrow> tally h' = tally h \<and> taken h' \<subseteq> taken h"
    and "of_create_new C p h = (Inl e, h') \<Longrightarrow> io_error_kind e = AlreadyExistsKind \<Longrightarrow> p \<in> taken h"
  using assms unfolding counting_laws_def by blast+

lemma stage_object_ends:
  assumes laws: "counting_laws C tally taken"
  shows "staging_name C dir ((tally h + int k) mod 2 ^ 64) \<notin> taken h \<Longrightarrow> 0 \<le> tally h \<Longrightarrow> tally h < 2 ^ 64 \<Longrightarrow>
    stage_object C dir bs h \<noteq> None"
proof (induction k arbitrary: h)
  case (0 h)
  obtain n h1 r h2 where cnt: "of_counter C h = (n, h1)" and cr: "of_create_new C (staging_name C dir n) h1 = (r, h2)"
    by fastforce
  show ?case
    using 0 cnt cr counting_law(1) [OF laws cnt] counting_law(4) [OF laws, of "staging_name C dir n" h1 _ h2]
    by (subst stage_object.simps) (auto split: sum.splits)
next
  case (Suc k h)
  obtain n h1 r h2 where cnt: "of_counter C h = (n, h1)" and cr: "of_create_new C (staging_name C dir n) h1 = (r, h2)"
    by fastforce
  note c = counting_law(1) [OF laws cnt]
  show ?case
  proof (cases "\<exists>e. r = Inl e \<and> io_error_kind e = AlreadyExistsKind")
    case True
    then obtain e where r: "r = Inl e" "io_error_kind e = AlreadyExistsKind" by blast
    note same = counting_law(3) [OF laws cr [unfolded r(1)]]
    have "(tally h2 + int k) mod 2 ^ 64 = (tally h + int (Suc k)) mod 2 ^ 64"
      using c same by (simp add: mod_simps ac_simps)
    then have "stage_object C dir bs h2 \<noteq> None"
      using Suc.IH [of h2] Suc.prems c same by (auto simp: subset_iff)
    then show ?thesis using cnt cr r by (subst stage_object.simps) simp
  next
    case False
    then show ?thesis using cnt cr by (subst stage_object.simps) (auto split: sum.splits)
  qed
qed

section \<open>Publication\<close>

definition intact :: "sha256 \<Rightarrow> string \<Rightarrow> object_ref \<Rightarrow> (string \<Rightarrow> string option) \<Rightarrow> bool" where
  "intact sha dir ref new \<longleftrightarrow> (case new (object_path dir (obr_digest ref)) of None \<Rightarrow> False
     | Some c \<Rightarrow> int (length c) = obr_size ref \<and> digest_of sha c = obr_digest ref)"

lemma intact_stays: "intact sha dir ref f \<Longrightarrow> objects_kept dir f g \<Longrightarrow> intact sha dir ref g"
  by (auto simp: intact_def split: option.splits dest: object_stays)

lemma is_object_path [simp]: "is_object dir (object_path dir d)"
  by (auto simp: is_object_def)

lemma read_verified_intact:
  assumes laws: "object_laws C dir files"
    and out: "read_verified C sha (object_path dir (obr_digest ref)) ref h = (Inr bs, h')"
  shows "intact sha dir ref (files h')"
  using read_verified_reads(2) [OF laws out refl] by (simp add: intact_def)

lemma discard_keeps:
  assumes "object_laws C dir files" and "discard_staged C (staging_name C dir n) h = (r, h')"
  shows "objects_kept dir (files h) (files h')"
  using assms(2) changing_law(6) [OF assms(1) _ staging_not_object] by (auto simp: discard_staged_def host_iff)

lemma sync_dir_keeps:
  assumes "object_laws C dir files" and "sync_dir C d h = (r, h')"
  shows "objects_kept dir (files h) (files h')"
  using assms(2) observing_law(4) [OF assms(1)] by (auto simp: sync_dir_def host_iff)

lemma finalize_publishes:
  assumes laws: "object_laws C dir files"
    and ref: "ref = \<lparr>obr_digest = digest_of sha bs, obr_size = int (length bs)\<rparr>"
    and staged: "files h (staging_name C dir n) = Some bs"
    and out: "finalize_object C sha dir (staging_name C dir n) (object_path dir (obr_digest ref)) ref h = (r, h')"
  shows "objects_kept dir (files h) (files h')" and "\<not> isl r \<Longrightarrow> intact sha dir ref (files h')"
proof -
  obtain l h1 where link: "of_hard_link C (staging_name C dir n) (object_path dir (obr_digest ref)) h = (l, h1)"
    by fastforce
  note k1 = changing_law(4) [OF laws link]
  have rest: "objects_kept dir (files h1) (files h') \<and> (\<not> isl r \<longrightarrow> intact sha dir ref (files h'))"
  proof (cases l)
    case (Inr u)
    have here: "intact sha dir ref (files h1)"
      using changing_law(5) [OF laws link [unfolded Inr]] staged by (simp add: intact_def ref)
    have "objects_kept dir (files h1) (files h')"
      using out link Inr
      by (auto simp: finalize_object_def host_iff dest: discard_keeps [OF laws] sync_dir_keeps [OF laws] intro: objects_kept_trans)
    with here show ?thesis by (blast intro: intact_stays)
  next
    case (Inl e)
    then show ?thesis
      using out link
      by (auto simp: finalize_object_def host_iff split: if_splits
          dest: discard_keeps [OF laws] read_verified_reads(1) [OF laws] read_verified_intact [OF laws]
          intro: objects_kept_trans intact_stays)
  qed
  from rest k1 show "objects_kept dir (files h) (files h')" and "\<not> isl r \<Longrightarrow> intact sha dir ref (files h')"
    by (blast intro: objects_kept_trans)+
qed

lemma staged_publishes:
  assumes laws: "object_laws C dir files" and ref: "ref = \<lparr>obr_digest = digest_of sha bs, obr_size = int (length bs)\<rparr>"
    and st: "stage_object C dir bs h = Some (s, h2)" and pub: "publish_staged C sha dir ref (s, h2) = (r, h')"
  shows "objects_kept dir (files h) (files h') \<and> (\<forall>q. r = Inr q \<longrightarrow> q = ref \<and> intact sha dir ref (files h'))"
proof -
  note well = stage_object_stages [OF laws st, simplified]
  show ?thesis
  proof (cases s)
    case (Inl e)
    then show ?thesis using pub well by (auto simp: publish_staged_def staged_well_def)
  next
    case (Inr q)
    then obtain n where q: "q = staging_name C dir n" "files h2 (staging_name C dir n) = Some bs"
      and k2: "objects_kept dir (files h) (files h2)"
      using well by (auto simp: staged_well_def)
    obtain f where fin: "finalize_object C sha dir (staging_name C dir n) (object_path dir (obr_digest ref)) ref h2 = (f, h')"
      and r: "r = map_sum id (\<lambda>_. ref) f"
      using pub Inr q by (auto simp: publish_staged_def host_iff)
    note fine = finalize_publishes [OF laws ref q(2) fin]
    have "objects_kept dir (files h) (files h')" using k2 fine(1) by (rule objects_kept_trans)
    moreover have "p = ref \<and> intact sha dir ref (files h')" if "r = Inr p" for p
      using fine(2) that r by (cases f) auto
    ultimately show ?thesis by blast
  qed
qed

text \<open>
  C28. Publication is safe beside any other publisher: whatever happens, every object that was in
  the store keeps its content, and a reference is returned only for the digest and the length of
  the bytes given, when the object under that digest holds content of exactly that length and
  digest. The bytes are staged under a name that is no object's and an object that was already
  there is read and verified, never trusted by its name.
\<close>

theorem publication_safe:
  assumes laws: "object_laws C dir files"
  shows "case cas_publish C sha dir bs h of None \<Rightarrow> True
    | Some (r, h') \<Rightarrow> objects_kept dir (files h) (files h')
        \<and> (case r of Inl _ \<Rightarrow> True
           | Inr ref \<Rightarrow> ref = \<lparr>obr_digest = digest_of sha bs, obr_size = int (length bs)\<rparr> \<and> intact sha dir ref (files h'))"
proof -
  define ref where "ref = \<lparr>obr_digest = digest_of sha bs, obr_size = int (length bs)\<rparr>"
  obtain b h1 where ex: "of_exists C (object_path dir (obr_digest ref)) h = (b, h1)" by fastforce
  note k1 = observing_law(1) [OF laws ex]
  have "objects_kept dir (files h) (files h') \<and> (\<forall>q. r = Inr q \<longrightarrow> q = ref \<and> intact sha dir ref (files h'))"
    if out: "cas_publish C sha dir bs h = Some (r, h')" for r h'
  proof (cases b)
    case True
    then have "bindH (read_verified C sha (object_path dir (obr_digest ref)) ref) (\<lambda>_. returnH ref) h1 = (r, h')"
      using out ex by (simp add: cas_publish_def ref_def [symmetric])
    then show ?thesis
      using k1 by (auto simp: host_iff dest: read_verified_reads(1) [OF laws] read_verified_intact [OF laws]
          intro: objects_kept_trans)
  next
    case False
    then obtain s h2 where st: "stage_object C dir bs h1 = Some (s, h2)" and pub: "publish_staged C sha dir ref (s, h2) = (r, h')"
      using out ex by (auto simp: cas_publish_def ref_def [symmetric])
    show ?thesis using staged_publishes [OF laws ref_def st pub] k1 by (blast intro: objects_kept_trans)
  qed
  then show ?thesis
    unfolding ref_def [symmetric] by (auto split: option.splits sum.splits)
qed

text \<open>
  C29. Publication ends: when some later value of the process's counter, which wraps at 64 bits,
  makes a staging name that does not exist, the staging loop finds a free name or fails with a
  fault, whatever files crashed stagings have left.
\<close>

theorem publication_ends:
  assumes laws: "counting_laws C tally taken" and "0 \<le> tally h" and "tally h < 2 ^ 64"
    and free: "staging_name C dir ((tally h + int k) mod 2 ^ 64) \<notin> taken h"
  shows "\<exists>r h'. cas_publish C sha dir bs h = Some (r, h')"
proof -
  obtain b h1 where ex: "of_exists C (object_path dir (digest_of sha bs)) h = (b, h1)" by fastforce
  have "stage_object C dir bs h1 \<noteq> None"
    using stage_object_ends [OF laws, where h = h1 and k = k and dir = dir and bs = bs] counting_law(2) [OF laws ex] assms(2-4) by auto
  then show ?thesis
    using ex by (auto simp: cas_publish_def Let_def)
qed

section \<open>A file system in memory\<close>

text \<open>Files and a counter: an instance of the interface at which the properties are evaluated.\<close>

definition io_failed :: "io_kind \<Rightarrow> io_error" where
  "io_failed k = \<lparr>io_error_kind = k, io_error_text = []\<rparr>"

definition memory_fs :: "((string \<Rightarrow> string option) \<times> int) object_fs" where
  "memory_fs =
     \<lparr>of_exists = (\<lambda>p s. (fst s p \<noteq> None, s)),
      of_create_dir_all = (\<lambda>_ s. (Inr (), s)),
      of_create_new = (\<lambda>p s. if fst s p = None then (Inr (), ((fst s)(p \<mapsto> []), snd s)) else (Inl (io_failed AlreadyExistsKind), s)),
      of_write_all = (\<lambda>p bs s. (Inr (), ((fst s)(p \<mapsto> bs), snd s))),
      of_sync_all = (\<lambda>_ s. (Inr (), s)),
      of_hard_link = (\<lambda>a b s. if fst s b \<noteq> None then (Inl (io_failed AlreadyExistsKind), s)
        else (Inr (), ((fst s)(b := fst s a), snd s))),
      of_read = (\<lambda>p s. (case fst s p of None \<Rightarrow> Inl (io_failed NotFoundKind) | Some bs \<Rightarrow> Inr bs, s)),
      of_remove_file = (\<lambda>p s. (Inr (), ((fst s)(p := None), snd s))),
      of_sync_dir = (\<lambda>_ s. (Inr (), s)),
      of_counter = (\<lambda>s. (snd s, (fst s, (snd s + 1) mod 2 ^ 64))),
      of_process_id = 4\<rparr>"

lemma kept_update: "\<not> is_object dir p \<Longrightarrow> objects_kept dir f (f(p := c))"
  by (auto simp: objects_kept_def is_object_def)

lemma kept_free: "f p = None \<Longrightarrow> objects_kept dir f (f(p := c))"
  by (auto simp: objects_kept_def)

lemma memory_object_laws: "object_laws memory_fs dir fst"
  unfolding object_laws_def observing_laws_def changing_laws_def
  by (auto simp: memory_fs_def kept_update kept_free split: if_splits option.splits sum.splits)

lemma memory_counting_laws: "counting_laws memory_fs snd (\<lambda>s. dom (fst s))"
  by (auto simp: counting_laws_def memory_fs_def split: if_splits)

definition leftover :: "(string \<Rightarrow> string option) \<times> int" where
  "leftover = ([''/cas/incoming-4-7'' \<mapsto> ''x''], 7)"

lemma memory_fs_simps:
  "of_exists memory_fs p s = (fst s p \<noteq> None, s)"
  "of_create_new memory_fs p s = (if fst s p = None then (Inr (), ((fst s)(p \<mapsto> []), snd s)) else (Inl (io_failed AlreadyExistsKind), s))"
  "of_write_all memory_fs p bs s = (Inr (), ((fst s)(p \<mapsto> bs), snd s))"
  "of_sync_all memory_fs p s = (Inr (), s)" "of_sync_dir memory_fs p s = (Inr (), s)"
  "of_hard_link memory_fs a b s = (if fst s b \<noteq> None then (Inl (io_failed AlreadyExistsKind), s) else (Inr (), ((fst s)(b := fst s a), snd s)))"
  "of_remove_file memory_fs p s = (Inr (), ((fst s)(p := None), snd s))"
  "of_counter memory_fs s = (snd s, (fst s, (snd s + 1) mod 2 ^ 64))"
  by (simp_all add: memory_fs_def)

lemma leftover_names: "staging_name memory_fs ''/cas'' 7 = ''/cas/incoming-4-7''" "staging_name memory_fs ''/cas'' 8 = ''/cas/incoming-4-8''"
  by (simp_all add: staging_name_def memory_fs_def path_join_def int_to_string_def nat_to_string.simps
      digit_char_def char_of_def bit_0)

lemma leftover_published:
  "cas_publish memory_fs (\<lambda>_. [0xAB]) ''/cas'' ''data'' leftover =
     Some (Inr \<lparr>obr_digest = Digest [0xAB], obr_size = 4\<rparr>,
       ([''/cas/incoming-4-7'' \<mapsto> ''x'', ''/cas/ab'' \<mapsto> ''data''], 9))"
proof -
  have "object_path ''/cas'' (Digest [0xAB]) = ''/cas/ab''"
    by (simp add: object_path_def path_join_def byte_hex_def from_digit16_def char_of_def bit_0)
  moreover have "stage_object memory_fs ''/cas'' ''data'' leftover =
      Some (Inr ''/cas/incoming-4-8'', ([''/cas/incoming-4-7'' \<mapsto> ''x'', ''/cas/incoming-4-8'' \<mapsto> ''data''], 9))"
    by (subst stage_object.simps, simp add: memory_fs_simps leftover_names leftover_def io_failed_def,
        subst stage_object.simps, simp add: memory_fs_simps leftover_names write_staged_def host_defs)
  ultimately show ?thesis
    by (auto simp: cas_publish_def publish_staged_def finalize_object_def discard_staged_def sync_dir_def host_defs
        digest_of_def memory_fs_simps leftover_def)
qed

theorem publication_safe_witness:
  "object_laws memory_fs ''/cas'' fst
   \<and> intact (\<lambda>_. [0xAB]) ''/cas'' \<lparr>obr_digest = Digest [0xAB], obr_size = 4\<rparr>
       [''/cas/incoming-4-7'' \<mapsto> ''x'', ''/cas/ab'' \<mapsto> ''data'']"
  using publication_safe [OF memory_object_laws, where dir = "''/cas''" and sha = "\<lambda>_. [0xAB]" and bs = "''data''" and h = leftover] memory_object_laws
  by (simp add: leftover_published digest_of_def)

theorem publication_ends_witness:
  "counting_laws memory_fs snd (\<lambda>s. dom (fst s))
   \<and> (\<exists>r h'. cas_publish memory_fs (\<lambda>_. [0xAB]) ''/cas'' ''data'' leftover = Some (r, h'))"
  using publication_ends [OF memory_counting_laws, of leftover "''/cas''" 1 "\<lambda>_. [0xAB]" "''data''"] memory_counting_laws
  by (simp add: leftover_def leftover_names)

end
