(* ===== verification/Operator_Api.thy ===== *)
theory Operator_Api
  imports Host Engine_Operator
begin

text \<open>
  The Operator Control surface: the wire contract (\<^verbatim>\<open>crates/pantheon-operator-protocol\<close>) and the
  handlers that serve it (\<^verbatim>\<open>crates/pantheon-operator-api/src/problem.rs\<close>, \<^verbatim>\<open>command.rs\<close>,
  \<^verbatim>\<open>dispatch.rs\<close>, \<^verbatim>\<open>goals.rs\<close>, \<^verbatim>\<open>events.rs\<close>, \<^verbatim>\<open>system.rs\<close>, \<^verbatim>\<open>socket.rs\<close>). A handler
  is a function from the decoded request to a response over the world the engine's controllers run
  in. The JSON of a request body is decoded by a parameter, and a response carries its typed body;
  where the code renders an engine error as text, the model keeps the error. The engine's
  operations are total here, so the join error of a panicked blocking task does not arise.
\<close>

section \<open>Problems\<close>

datatype problem_code =
    CodeNotFound | CodeValidation | CodePreconditionRequired | CodeStaleRevision | CodeStaleCommandEpoch
  | CodeConflict | CodeCursorGone | CodeTemporarilyUnavailable | CodeInternal

fun problem_code_as_str :: "problem_code \<Rightarrow> string" where
  "problem_code_as_str CodeNotFound = ''not-found''"
| "problem_code_as_str CodeValidation = ''validation''"
| "problem_code_as_str CodePreconditionRequired = ''precondition-required''"
| "problem_code_as_str CodeStaleRevision = ''stale-revision''"
| "problem_code_as_str CodeStaleCommandEpoch = ''stale-command-epoch''"
| "problem_code_as_str CodeConflict = ''conflict''"
| "problem_code_as_str CodeCursorGone = ''cursor-gone''"
| "problem_code_as_str CodeTemporarilyUnavailable = ''temporarily-unavailable''"
| "problem_code_as_str CodeInternal = ''internal''"

fun problem_code_status :: "problem_code \<Rightarrow> int" where
  "problem_code_status CodeNotFound = 404"
| "problem_code_status CodeValidation = 400"
| "problem_code_status CodeCursorGone = 410"
| "problem_code_status CodeStaleRevision = 412"
| "problem_code_status CodePreconditionRequired = 428"
| "problem_code_status CodeStaleCommandEpoch = 409"
| "problem_code_status CodeConflict = 409"
| "problem_code_status CodeInternal = 500"
| "problem_code_status CodeTemporarilyUnavailable = 503"

definition problem_code_type_uri :: "problem_code \<Rightarrow> string" where
  "problem_code_type_uri c = ''urn:pantheon:problem:'' @ problem_code_as_str c"

fun problem_code_title :: "problem_code \<Rightarrow> string" where
  "problem_code_title CodeNotFound = ''Resource not found''"
| "problem_code_title CodeValidation = ''Request is not valid''"
| "problem_code_title CodePreconditionRequired = ''Required precondition is missing''"
| "problem_code_title CodeStaleRevision = ''Revision precondition failed''"
| "problem_code_title CodeStaleCommandEpoch = ''Command epoch is not current''"
| "problem_code_title CodeConflict = ''Current state forbids this request''"
| "problem_code_title CodeCursorGone = ''Requested journal position is unreachable''"
| "problem_code_title CodeTemporarilyUnavailable = ''Control plane is not ready''"
| "problem_code_title CodeInternal = ''Internal error''"

text \<open>A detail is a text, or the rendering of an engine error, which is kept as the error.\<close>

datatype problem_detail = DetailText message | DetailError operator_error

record problem =
  pb_type_uri :: string
  pb_title :: string
  pb_status :: int
  pb_detail :: problem_detail
  pb_code :: problem_code

definition problem_new :: "problem_code \<Rightarrow> problem_detail \<Rightarrow> problem" where
  "problem_new code detail = \<lparr>pb_type_uri = problem_code_type_uri code, pb_title = problem_code_title code,
     pb_status = problem_code_status code, pb_detail = detail, pb_code = code\<rparr>"

definition undisclosed :: problem_detail where
  "undisclosed = DetailText (Fmt ''the daemon could not complete this request'' [])"

fun problem_of :: "operator_error \<Rightarrow> problem" where
  "problem_of (StaleRevision detail) = problem_new CodeStaleRevision (DetailText detail)"
| "problem_of (Internal cause) = problem_new CodeInternal undisclosed"
| "problem_of (NotFound k i) = problem_new CodeNotFound (DetailError (NotFound k i))"
| "problem_of (Conflict e) = problem_new CodeConflict (DetailError (Conflict e))"
| "problem_of (OperatorStaleCommandEpoch s c) = problem_new CodeStaleCommandEpoch (DetailError (OperatorStaleCommandEpoch s c))"
| "problem_of (OperatorCommandConflict i) = problem_new CodeConflict (DetailError (OperatorCommandConflict i))"
| "problem_of (CursorGone e) = problem_new CodeCursorGone (DetailError (CursorGone e))"
| "problem_of (NotReady e) = problem_new CodeTemporarilyUnavailable (DetailError (NotReady e))"
| "problem_of (OperatorInvalid e) = problem_new CodeValidation (DetailError (OperatorInvalid e))"

definition invalid :: "message \<Rightarrow> problem" where
  "invalid detail = problem_new CodeValidation (DetailText detail)"

definition precondition_required :: "message \<Rightarrow> problem" where
  "precondition_required detail = problem_new CodePreconditionRequired (DetailText detail)"

section \<open>Requests\<close>

definition api_prefix :: string where
  "api_prefix = ''/api/v1''"

definition command_id_header :: string where
  "command_id_header = ''pantheon-command-id''"

definition command_epoch_header :: string where
  "command_epoch_header = ''pantheon-command-epoch''"

text \<open>A header map, names in lower case; \<open>to_str\<close> accepts visible ASCII, spaces and tabs.\<close>

type_synonym headers = "(string \<times> string) list"

definition header_to_str :: "string \<Rightarrow> string option" where
  "header_to_str v = (if list_all (\<lambda>c. c = CHR 0x09 \<or> 32 \<le> (of_char c :: nat) \<and> (of_char c :: nat) < 127) v then Some v else None)"

definition required_header :: "headers \<Rightarrow> string \<Rightarrow> (problem, string) res" where
  "required_header hs name =
     bindR (ok_or (map_of hs name) (precondition_required (Fmt ''{name} is required for a mutation'' [FStr name]))) (\<lambda>v.
     bindR (ok_or (header_to_str v) (precondition_required (Fmt ''{name} must be ASCII'' [FStr name]))) (\<lambda>s.
     bindR (ensure (s \<noteq> []) (precondition_required (Fmt ''{name} must not be empty'' [FStr name]))) (\<lambda>_.
     Inr s)))"

definition identity_from_headers :: "headers \<Rightarrow> byte list \<Rightarrow> (problem, operator_command_identity) res" where
  "identity_from_headers hs request_hash =
     bindR (required_header hs command_epoch_header) (\<lambda>epoch.
     bindR (required_header hs command_id_header) (\<lambda>command_id.
     Inr \<lparr>ci_epoch = epoch, ci_id = command_id, ci_request_hash = request_hash\<rparr>))"

definition request_hash_of :: "sha256 \<Rightarrow> string \<Rightarrow> string \<Rightarrow> cvalue \<Rightarrow> byte list" where
  "request_hash_of sha method route body = as_bytes (digest_of sha (to_canonical_bytes (object [
     (''method'', VString method), (''path'', VString route), (''body'', body)])))"

section \<open>Representations\<close>

record dispatch_response =
  dr_desired_mode :: string
  dr_revision :: int
  dr_effective_can_dispatch :: bool
  dr_blocked_by :: "string list"

record goal_input_payload =
  gip_name :: string
  gip_reference :: string

record deliverable_payload =
  dp_name :: string
  dp_kind :: string
  dp_required :: bool

record goal_constraints_payload =
  gcp_permitted_effects :: "string list"
  gcp_forbidden_effects :: "string list"
  gcp_permitted_resources :: "string list"

record goal_spec_payload =
  gsp_objective :: string
  gsp_inputs :: "goal_input_payload list"
  gsp_deliverables :: "deliverable_payload list"
  gsp_constraints :: goal_constraints_payload

record create_goal_request =
  cgr_goal :: goal_spec_payload

record task_response =
  trs_id :: string
  trs_phase :: string
  trs_created_graph_revision :: int
  trs_spec_digest :: string

record goal_response =
  grs_id :: string
  grs_phase :: string
  grs_goal_revision :: int
  grs_revision :: int
  grs_goal :: goal_spec_payload
  grs_tasks :: "task_response list"

record goal_summary_response =
  gsr_id :: string
  gsr_phase :: string
  gsr_goal_revision :: int
  gsr_revision :: int

record goal_list_response =
  glr_goals :: "goal_summary_response list"
  glr_snapshot_cursor :: string

record event_response =
  ers_event_id :: string
  ers_cursor :: string
  ers_event_type :: string
  ers_recorded_at :: int
  ers_command_epoch :: "string option"
  ers_command_id :: "string option"

record event_list_response =
  elr_events :: "event_response list"
  elr_next_cursor :: string

record journal_response =
  jrs_epoch :: string
  jrs_latest_sequence :: "int option"

record active_configuration_response =
  acs_activation_sequence :: int
  acs_content_digest :: string
  acs_semantics_loaded :: bool

record readiness_component_response =
  rcr_name :: string
  rcr_state :: string
  rcr_detail :: "(message + configuration_error) option"

record readiness_response =
  rds_ready :: bool
  rds_components :: "readiness_component_response list"

record system_response =
  srs_daemon_version :: string
  srs_api_versions :: "string list"
  srs_schema_version :: int
  srs_command_epoch :: string
  srs_journal :: journal_response
  srs_active_configuration :: "active_configuration_response option"
  srs_readiness :: readiness_response

datatype response_body =
    DispatchBody dispatch_response | GoalBody goal_response | GoalListBody goal_list_response
  | EventListBody event_list_response | SystemBody system_response | ReadinessBody readiness_response
  | LivenessBody bool | ProblemBody problem | EventStream cursor

record response =
  hr_status :: int
  hr_etag :: "string option"
  hr_body :: response_body

definition ok_response :: "response_body \<Rightarrow> response" where
  "ok_response b = \<lparr>hr_status = 200, hr_etag = None, hr_body = b\<rparr>"

definition problem_response :: "problem \<Rightarrow> response" where
  "problem_response p = \<lparr>hr_status = pb_status p, hr_etag = None, hr_body = ProblemBody p\<rparr>"

text \<open>A handler: an operation of the engine, whose refusal is turned into its problem.\<close>

definition blocking :: "('x, operator_error, 'a) controller \<Rightarrow> ('x, problem, 'a) controller" where
  "blocking m = mapE problem_of m"

definition respond :: "('x, problem, response) controller \<Rightarrow> 'x world \<Rightarrow> response \<times> 'x world" where
  "respond m w = (case m w of (Inl p, w') \<Rightarrow> (problem_response p, w') | (Inr r, w') \<Rightarrow> (r, w'))"

text \<open>\<open>HeaderValue::from_str\<close>: visible ASCII, bytes from 128 on and tabs.\<close>

definition header_from_str :: "string \<Rightarrow> string option" where
  "header_from_str s = (if list_all (\<lambda>c. c = CHR 0x09 \<or> 32 \<le> (of_char c :: nat) \<and> (of_char c :: nat) \<noteq> 127) s then Some s else None)"

section \<open>Dispatch\<close>

definition quote_char :: char where
  "quote_char = CHR 0x22"

definition dispatch_etag :: "dispatch_view \<Rightarrow> string" where
  "dispatch_etag v = [quote_char] @ ''dispatch-'' @ int_to_string (dv_revision v) @ [quote_char]"

definition not_this_etag :: "string \<Rightarrow> problem" where
  "not_this_etag s = invalid (Fmt (''If-Match {text} is not this resource'' @ [CHR 0x27] @ ''s ETag'') [FStr s])"

definition strip_suffix_char :: "char \<Rightarrow> string \<Rightarrow> string option" where
  "strip_suffix_char c s = (if s \<noteq> [] \<and> last s = c then Some (butlast s) else None)"

definition expected_revision :: "headers \<Rightarrow> (problem, int) res" where
  "expected_revision hs =
     bindR (ok_or (map_of hs ''if-match'') (precondition_required (Fmt ''dispatch desired-state changes require If-Match'' []))) (\<lambda>supplied.
     bindR (ok_or (header_to_str supplied) (invalid (Fmt ''If-Match must be a valid ETag string'' []))) (\<lambda>s.
     bindR (ok_or (Option.bind (strip_prefix ([quote_char] @ ''dispatch-'') (str_trim s)) (strip_suffix_char quote_char))
        (not_this_etag s)) (\<lambda>unprefixed.
     ok_or (i64_from_str unprefixed) (not_this_etag s))))"

definition dispatch_response_of :: "dispatch_view \<Rightarrow> dispatch_response" where
  "dispatch_response_of v = \<lparr>dr_desired_mode = dispatch_mode_as_str (dv_desired_mode v), dr_revision = dv_revision v,
     dr_effective_can_dispatch = dv_effective_can_dispatch v, dr_blocked_by = dv_blocked_by v\<rparr>"

definition dispatch_answer :: "int \<Rightarrow> dispatch_view \<Rightarrow> response" where
  "dispatch_answer status v = \<lparr>hr_status = status, hr_etag = header_from_str (dispatch_etag v),
     hr_body = DispatchBody (dispatch_response_of v)\<rparr>"

definition dispatch_status_handler :: "'x world \<Rightarrow> response \<times> 'x world" where
  "dispatch_status_handler = respond (bindE (blocking dispatch_status) (\<lambda>v. returnE (dispatch_answer 200 v)))"

definition set_mode ::
    "sha256 \<Rightarrow> headers \<Rightarrow> string \<Rightarrow> (operator_command_identity \<Rightarrow> int \<Rightarrow> ('x, operator_error, dispatch_view) controller) \<Rightarrow>
     'x world \<Rightarrow> response \<times> 'x world" where
  "set_mode sha hs route apply_mode = respond (
     bindE (liftE (expected_revision hs)) (\<lambda>expected.
     bindE (liftE (identity_from_headers hs (request_hash_of sha ''POST'' route (VString route)))) (\<lambda>identity.
     bindE (blocking (apply_mode identity expected)) (\<lambda>v.
     returnE (dispatch_answer 200 v)))))"

definition pause_handler :: "sha256 \<Rightarrow> headers \<Rightarrow> 'x world \<Rightarrow> response \<times> 'x world" where
  "pause_handler sha hs = set_mode sha hs ''/api/v1/dispatch/actions/pause'' pause_dispatch"

definition resume_handler :: "sha256 \<Rightarrow> headers \<Rightarrow> 'x world \<Rightarrow> response \<times> 'x world" where
  "resume_handler sha hs = set_mode sha hs ''/api/v1/dispatch/actions/resume'' resume_dispatch"

section \<open>Goals\<close>

definition payload_from :: "goal_spec \<Rightarrow> goal_spec_payload" where
  "payload_from g = \<lparr>gsp_objective = gs_objective g,
     gsp_inputs = map (\<lambda>i. \<lparr>gip_name = gi_name i, gip_reference = gi_reference i\<rparr>) (gs_inputs g),
     gsp_deliverables = map (\<lambda>d. \<lparr>dp_name = dl_name d, dp_kind = dl_kind d, dp_required = dl_required d\<rparr>) (gs_deliverables g),
     gsp_constraints = \<lparr>gcp_permitted_effects = gc_permitted_effects (gs_constraints g),
       gcp_forbidden_effects = gc_forbidden_effects (gs_constraints g),
       gcp_permitted_resources = gc_permitted_resources (gs_constraints g)\<rparr>\<rparr>"

definition spec_from :: "goal_spec_payload \<Rightarrow> (problem, goal_spec) res" where
  "spec_from p =
     bindR (ensure (\<not> is_blank (gsp_objective p)) (invalid (Fmt ''goal.objective must not be empty'' []))) (\<lambda>_.
     Inr \<lparr>gs_objective = gsp_objective p,
       gs_inputs = map (\<lambda>i. \<lparr>gi_name = gip_name i, gi_reference = gip_reference i\<rparr>) (gsp_inputs p),
       gs_deliverables = map (\<lambda>d. \<lparr>dl_name = dp_name d, dl_kind = dp_kind d, dl_required = dp_required d\<rparr>) (gsp_deliverables p),
       gs_constraints = \<lparr>gc_permitted_effects = gcp_permitted_effects (gsp_constraints p),
         gc_forbidden_effects = gcp_forbidden_effects (gsp_constraints p),
         gc_permitted_resources = gcp_permitted_resources (gsp_constraints p)\<rparr>\<rparr>)"

definition task_response_of :: "task_view \<Rightarrow> task_response" where
  "task_response_of t = \<lparr>trs_id = tv_id t, trs_phase = task_phase_as_str (tv_phase t),
     trs_created_graph_revision = tv_created_graph_revision t, trs_spec_digest = tv_spec_digest t\<rparr>"

definition goal_response_of :: "goal_view \<Rightarrow> goal_response" where
  "goal_response_of v = \<lparr>grs_id = gv_id v, grs_phase = goal_phase_as_str (gv_phase v), grs_goal_revision = gv_goal_revision v,
     grs_revision = gv_revision v, grs_goal = payload_from (gv_spec v), grs_tasks = map task_response_of (gv_tasks v)\<rparr>"

definition goal_etag :: "goal_view \<Rightarrow> string" where
  "goal_etag v = [quote_char] @ gv_id v @ ''-'' @ int_to_string (gv_revision v) @ [quote_char]"

definition goal_answer :: "int \<Rightarrow> goal_view \<Rightarrow> response" where
  "goal_answer status v = \<lparr>hr_status = status, hr_etag = header_from_str (goal_etag v), hr_body = GoalBody (goal_response_of v)\<rparr>"

definition goal_list_response_of :: "goals_page \<Rightarrow> goal_list_response" where
  "goal_list_response_of p = \<lparr>
     glr_goals = map (\<lambda>g. \<lparr>gsr_id = gsu_id g, gsr_phase = goal_phase_as_str (gsu_phase g),
       gsr_goal_revision = gsu_goal_revision g, gsr_revision = gsu_revision g\<rparr>) (gp_goals p),
     glr_snapshot_cursor = to_wire (gp_snapshot_cursor p)\<rparr>"

definition goals_list_handler :: "'x world \<Rightarrow> response \<times> 'x world" where
  "goals_list_handler = respond (bindE (blocking operator_goals) (\<lambda>p. returnE (ok_response (GoalListBody (goal_list_response_of p)))))"

definition goals_get_handler :: "string \<Rightarrow> 'x world \<Rightarrow> response \<times> 'x world" where
  "goals_get_handler goal_id = respond (bindE (blocking (operator_goal goal_id)) (\<lambda>v. returnE (goal_answer 200 v)))"

text \<open>\<open>decode\<close> is \<open>serde_json::from_slice\<close> at the request type, with the text of its error.\<close>

definition goals_create_handler ::
    "sha256 \<Rightarrow> (string \<Rightarrow> (string, create_goal_request) res) \<Rightarrow> headers \<Rightarrow> string \<Rightarrow> 'x world \<Rightarrow> response \<times> 'x world" where
  "goals_create_handler sha decode hs body = respond (
     bindE (liftE (map_sum (\<lambda>e. invalid (Fmt ''{}'' [FStr e])) id (decode body))) (\<lambda>request.
     bindE (liftE (spec_from (cgr_goal request))) (\<lambda>spec.
     bindE (liftE (identity_from_headers hs (request_hash_of sha ''POST'' ''/api/v1/goals'' (goal_to_value spec)))) (\<lambda>identity.
     bindE (blocking (operator_create_goal sha identity spec)) (\<lambda>v.
     returnE (goal_answer 201 v))))))"

definition cancel_route :: string where
  "cancel_route = ''/api/v1/goals/'' @ [CHR 0x7B] @ ''id'' @ [CHR 0x7D] @ ''/actions/cancel''"

definition goals_cancel_handler :: "sha256 \<Rightarrow> headers \<Rightarrow> string \<Rightarrow> 'x world \<Rightarrow> response \<times> 'x world" where
  "goals_cancel_handler sha hs goal_id = respond (
     bindE (liftE (identity_from_headers hs (request_hash_of sha ''POST'' cancel_route (VString goal_id)))) (\<lambda>identity.
     bindE (blocking (operator_cancel_goal identity goal_id)) (\<lambda>v.
     returnE (goal_answer 202 v))))"

section \<open>Events\<close>

definition watch_page :: int where
  "watch_page = 64"

definition event_response_of :: "event_view \<Rightarrow> event_response" where
  "event_response_of e = \<lparr>ers_event_id = ev_event_id e, ers_cursor = to_wire (ev_cursor e), ers_event_type = ev_event_type e,
     ers_recorded_at = ev_recorded_at e, ers_command_epoch = ev_command_epoch e, ers_command_id = ev_command_id e\<rparr>"

definition event_list_response_of :: "event_page \<Rightarrow> event_list_response" where
  "event_list_response_of p = \<lparr>elr_events = map event_response_of (ep_events p), elr_next_cursor = to_wire (ep_next p)\<rparr>"

definition resolve_cursor :: "string option \<Rightarrow> ('x, operator_error, cursor) controller" where
  "resolve_cursor after = (case after of
     None \<Rightarrow> operator_journal_head
   | Some s \<Rightarrow> someE (cursor_parse s) (CursorGone (CursorMalformed (Fmt ''{text} is not a journal cursor'' [FStr s]))))"

definition events_list_handler :: "string option \<Rightarrow> int option \<Rightarrow> 'x world \<Rightarrow> response \<times> 'x world" where
  "events_list_handler after limit = respond (
     bindE (blocking (bindE (resolve_cursor after) (\<lambda>c.
        operator_events_after c (case limit of None \<Rightarrow> watch_page | Some n \<Rightarrow> n)))) (\<lambda>p.
     returnE (ok_response (EventListBody (event_list_response_of p)))))"

definition watch_start :: "string option \<Rightarrow> ('x, operator_error, cursor) controller" where
  "watch_start after = bindE (resolve_cursor after) (\<lambda>c. bindE (operator_events_after c 1) (\<lambda>_. returnE c))"

definition events_watch_handler :: "string option \<Rightarrow> 'x world \<Rightarrow> response \<times> 'x world" where
  "events_watch_handler after = respond (bindE (blocking (watch_start after)) (\<lambda>c. returnE (ok_response (EventStream c))))"

text \<open>
  The task behind a stream. Each round reads one page and sends its Events until one cannot be
  encoded; \<open>encode\<close> is \<open>json_data\<close>. A failed read ends the stream. The task has no bound of its own,
  so \<open>watch_rounds n\<close> is what it has sent after at most \<open>n\<close> rounds, the flag that it is still going, and
  where it stands.
\<close>

record sse_message =
  sm_id :: string
  sm_event :: string
  sm_data :: string

definition sse_of :: "(event_response \<Rightarrow> string option) \<Rightarrow> event_view \<Rightarrow> sse_message option" where
  "sse_of encode e = map_option (\<lambda>d. \<lparr>sm_id = to_wire (ev_cursor e), sm_event = ev_event_type e, sm_data = d\<rparr>)
     (encode (event_response_of e))"

fun sent :: "(event_response \<Rightarrow> string option) \<Rightarrow> event_view list \<Rightarrow> sse_message list" where
  "sent encode [] = []"
| "sent encode (e # es) = (case sse_of encode e of None \<Rightarrow> [] | Some m \<Rightarrow> m # sent encode es)"

fun watch_rounds ::
    "nat \<Rightarrow> (event_response \<Rightarrow> string option) \<Rightarrow> cursor \<Rightarrow> 'x world \<Rightarrow> (sse_message list \<times> bool \<times> cursor) \<times> 'x world" where
  "watch_rounds 0 encode c w = (([], True, c), w)"
| "watch_rounds (Suc n) encode c w = (case operator_events_after c watch_page w of
     (Inl _, w') \<Rightarrow> (([], False, c), w')
   | (Inr p, w') \<Rightarrow> (case watch_rounds n encode (ep_next p) w' of
       ((ms, going, k), w'') \<Rightarrow> ((sent encode (ep_events p) @ ms, going, k), w'')))"

section \<open>System\<close>

fun component_state_as_str :: "component_state \<Rightarrow> string" where
  "component_state_as_str Satisfied = ''satisfied''"
| "component_state_as_str Unsatisfied = ''unsatisfied''"
| "component_state_as_str Unimplemented = ''unimplemented''"

definition readiness_response_of :: "readiness_report \<Rightarrow> readiness_response" where
  "readiness_response_of r = \<lparr>rds_ready = rr_ready r,
     rds_components = map (\<lambda>k. \<lparr>rcr_name = rc_name k, rcr_state = component_state_as_str (rc_state k), rcr_detail = rc_detail k\<rparr>)
       (rr_components r)\<rparr>"

text \<open>\<open>version\<close> is the package version the daemon was built with.\<close>

definition system_response_of :: "string \<Rightarrow> system_view \<Rightarrow> system_response" where
  "system_response_of version v = \<lparr>srs_daemon_version = version, srs_api_versions = sv_api_versions v,
     srs_schema_version = sv_schema_version v, srs_command_epoch = sv_command_epoch v,
     srs_journal = \<lparr>jrs_epoch = jv_epoch (sv_journal v), jrs_latest_sequence = jv_latest_sequence (sv_journal v)\<rparr>,
     srs_active_configuration = map_option (\<lambda>a. \<lparr>acs_activation_sequence = acv_activation_sequence a,
       acs_content_digest = to_hex (acv_content_digest a), acs_semantics_loaded = acv_semantics_loaded a\<rparr>) (sv_active_configuration v),
     srs_readiness = readiness_response_of (sv_readiness v)\<rparr>"

definition system_handler :: "string \<Rightarrow> int \<Rightarrow> 'x world \<Rightarrow> response \<times> 'x world" where
  "system_handler version pragma_version = respond (bindE (blocking (operator_system pragma_version)) (\<lambda>v.
     returnE (ok_response (SystemBody (system_response_of version v)))))"

definition live_handler :: response where
  "live_handler = ok_response (LivenessBody True)"

definition ready_handler :: "'x world \<Rightarrow> response \<times> 'x world" where
  "ready_handler = respond (bindE (blocking readiness) (\<lambda>r.
     returnE \<lparr>hr_status = (if rr_ready r then 200 else 503), hr_etag = None, hr_body = ReadinessBody (readiness_response_of r)\<rparr>))"

section \<open>The router\<close>

text \<open>The routes, on the segments of the path; what matches none is answered by the framework.\<close>

datatype http_method = Get | Post

datatype endpoint =
    LiveEndpoint | ReadyEndpoint | SystemEndpoint | GoalsList | GoalsCreate | GoalsGet string | GoalsCancel string
  | DispatchRead | DispatchPause | DispatchResume | EventsList | EventsWatch

definition route :: "http_method \<Rightarrow> string list \<Rightarrow> endpoint option" where
  "route m segments =
     (if m = Get \<and> segments = [''health'', ''live''] then Some LiveEndpoint
      else if m = Get \<and> segments = [''health'', ''ready''] then Some ReadyEndpoint
      else (case segments of
        a # v # rest \<Rightarrow> if a \<noteq> ''api'' \<or> v \<noteq> ''v1'' then None
          else if m = Get \<and> rest = [''system''] then Some SystemEndpoint
          else if rest = [''goals''] then Some (if m = Get then GoalsList else GoalsCreate)
          else if rest = [''dispatch''] then (if m = Get then Some DispatchRead else None)
          else if rest = [''dispatch'', ''actions'', ''pause''] then (if m = Post then Some DispatchPause else None)
          else if rest = [''dispatch'', ''actions'', ''resume''] then (if m = Post then Some DispatchResume else None)
          else if rest = [''events''] then (if m = Get then Some EventsList else None)
          else if rest = [''events'', ''watch''] then (if m = Get then Some EventsWatch else None)
          else (case rest of
            [g, i] \<Rightarrow> if g = ''goals'' \<and> i \<noteq> [] \<and> m = Get then Some (GoalsGet i) else None
          | [g, i, k, c] \<Rightarrow> if g = ''goals'' \<and> i \<noteq> [] \<and> k = ''actions'' \<and> c = ''cancel'' \<and> m = Post then Some (GoalsCancel i) else None
          | _ \<Rightarrow> None)
      | _ \<Rightarrow> None))"

record build =
  bu_sha :: sha256
  bu_decode :: "string \<Rightarrow> (string, create_goal_request) res"
  bu_version :: string
  bu_schema :: int

text \<open>What a served request carries beside its route: headers, body and the decoded query.\<close>

record request =
  rq_headers :: headers
  rq_body :: string
  rq_after :: "string option"
  rq_limit :: "int option"

fun serve_endpoint :: "build \<Rightarrow> request \<Rightarrow> endpoint \<Rightarrow> 'x world \<Rightarrow> response \<times> 'x world" where
  "serve_endpoint b q LiveEndpoint w = (live_handler, w)"
| "serve_endpoint b q ReadyEndpoint w = ready_handler w"
| "serve_endpoint b q SystemEndpoint w = system_handler (bu_version b) (bu_schema b) w"
| "serve_endpoint b q GoalsList w = goals_list_handler w"
| "serve_endpoint b q GoalsCreate w = goals_create_handler (bu_sha b) (bu_decode b) (rq_headers q) (rq_body q) w"
| "serve_endpoint b q (GoalsGet i) w = goals_get_handler i w"
| "serve_endpoint b q (GoalsCancel i) w = goals_cancel_handler (bu_sha b) (rq_headers q) i w"
| "serve_endpoint b q DispatchRead w = dispatch_status_handler w"
| "serve_endpoint b q DispatchPause w = pause_handler (bu_sha b) (rq_headers q) w"
| "serve_endpoint b q DispatchResume w = resume_handler (bu_sha b) (rq_headers q) w"
| "serve_endpoint b q EventsList w = events_list_handler (rq_after q) (rq_limit q) w"
| "serve_endpoint b q EventsWatch w = events_watch_handler (rq_after q) w"

end
