(* ===== verification/Command_Line.thy ===== *)
theory Command_Line
  imports Operator_Api Engine_Workspace
begin

text \<open>
  The operator client (\<^verbatim>\<open>crates/pantheon-cli/src/args.rs\<close>, \<^verbatim>\<open>commands.rs\<close>, \<^verbatim>\<open>commands/goals.rs\<close>,
  \<^verbatim>\<open>commands/dispatch.rs\<close>, \<^verbatim>\<open>commands/events.rs\<close>) and the arguments of the daemon
  (\<^verbatim>\<open>crates/pantheond/src/options.rs\<close>): argument parsing, the requests a command issues, and the
  framing of the Event stream. The daemon at the other end of the socket is a parameter.
\<close>

section \<open>Parsing what the operator typed\<close>

record goal_request =
  gq_objective :: string
  gq_inputs :: "(string \<times> string) list"
  gq_deliverables :: "(string \<times> string \<times> bool) list"
  gq_permitted_effects :: "string list"
  gq_forbidden_effects :: "string list"
  gq_permitted_resources :: "string list"

datatype cli_command =
    CliStatus | CliVersion | CliGoalCreate goal_request | CliGoalGet string | CliGoalList | CliGoalCancel string
  | CliDispatchStatus | CliDispatchPause | CliDispatchResume
  | CliEventsList "string option" "int option" | CliEventsWatch "string option"

record invocation =
  in_socket :: string
  in_json :: bool
  in_command_id :: "string option"
  in_command :: cli_command



















section \<open>Requests\<close>

definition goal_payload :: "goal_request \<Rightarrow> goal_spec_payload" where
  "goal_payload r = \<lparr>gsp_objective = gq_objective r,
     gsp_inputs = map (\<lambda>(n, f). \<lparr>gip_name = n, gip_reference = f\<rparr>) (gq_inputs r),
     gsp_deliverables = map (\<lambda>(n, k, b). \<lparr>dp_name = n, dp_kind = k, dp_required = b\<rparr>) (gq_deliverables r),
     gsp_constraints = \<lparr>gcp_permitted_effects = gq_permitted_effects r, gcp_forbidden_effects = gq_forbidden_effects r,
       gcp_permitted_resources = gq_permitted_resources r\<rparr>\<rparr>"

datatype client_error = ClientRefused problem | ClientUnreachable message
datatype failure = Refused problem | Unreachable message | Usage message

fun failure_of :: "client_error \<Rightarrow> failure" where
  "failure_of (ClientRefused p) = Refused p"
| "failure_of (ClientUnreachable m) = Unreachable m"

text \<open>
  The daemon behind the socket: \<open>dm_get\<close> reads a resource at a path and \<open>dm_post\<close> issues a mutation at
  a path under an epoch, an identifier, an If-Match and a body; either may refuse or be unreachable.
  \<open>dm_random\<close> draws sixteen bytes.
\<close>

record 'h daemon =
  dm_get :: "string \<Rightarrow> 'h \<Rightarrow> (client_error, response_body) res \<times> 'h"
  dm_post :: "string \<Rightarrow> string \<Rightarrow> string \<Rightarrow> string option \<Rightarrow> create_goal_request option \<Rightarrow> 'h \<Rightarrow> (client_error, response_body) res \<times> 'h"
  dm_random :: "'h \<Rightarrow> (io_error, byte list) res \<times> 'h"

definition versioned_path :: "string \<Rightarrow> string" where
  "versioned_path suffix = api_prefix @ suffix"

text \<open>\<open>decode::<T>\<close>: a body of another shape is not understood.\<close>

definition not_understood :: client_error where
  "not_understood = ClientUnreachable (Fmt (''could not understand pantheond'' @ [CHR 0x27] @ ''s response: {err}'') [])"

definition decode_system :: "response_body \<Rightarrow> (client_error, system_response) res" where
  "decode_system b = (case b of SystemBody s \<Rightarrow> Inr s | _ \<Rightarrow> Inl not_understood)"

definition decode_dispatch :: "response_body \<Rightarrow> (client_error, dispatch_response) res" where
  "decode_dispatch b = (case b of DispatchBody d \<Rightarrow> Inr d | _ \<Rightarrow> Inl not_understood)"

definition decode_goal :: "response_body \<Rightarrow> (client_error, goal_response) res" where
  "decode_goal b = (case b of GoalBody g \<Rightarrow> Inr g | _ \<Rightarrow> Inl not_understood)"

definition client_get :: "'h daemon \<Rightarrow> (response_body \<Rightarrow> (client_error, 'a) res) \<Rightarrow> string \<Rightarrow> ('h, failure, 'a) effect" where
  "client_get D dec p = mapH failure_of (bindH (dm_get D (versioned_path p)) (\<lambda>b. liftH (dec b)))"

definition client_post ::
    "'h daemon \<Rightarrow> (response_body \<Rightarrow> (client_error, 'a) res) \<Rightarrow> string \<Rightarrow> string \<Rightarrow> string \<Rightarrow> string option \<Rightarrow>
     create_goal_request option \<Rightarrow> ('h, failure, 'a) effect" where
  "client_post D dec p epoch command_id if_match body =
     mapH failure_of (bindH (dm_post D (versioned_path p) epoch command_id if_match body) (\<lambda>b. liftH (dec b)))"

definition command_epoch_of :: "'h daemon \<Rightarrow> ('h, failure, string) effect" where
  "command_epoch_of D = bindH (client_get D decode_system ''/system'') (\<lambda>s. returnH (srs_command_epoch s))"

definition fresh_command_id :: "'h daemon \<Rightarrow> ('h, failure, string) effect" where
  "fresh_command_id D =
     bindH (mapH (\<lambda>e. Unreachable (Fmt ''could not draw a command id from /dev/urandom: {err}'' [FStr (io_error_text e)]))
        (dm_random D)) (\<lambda>bs. returnH (concat (map byte_hex bs)))"

definition invocation_command_id :: "'h daemon \<Rightarrow> invocation \<Rightarrow> ('h, failure, string) effect" where
  "invocation_command_id D i = (case in_command_id i of
     Some c \<Rightarrow> if is_blank c then raiseH (Usage (Fmt ''--command-id must not be empty'' [])) else returnH c
   | None \<Rightarrow> fresh_command_id D)"

definition create_goal_command :: "'h daemon \<Rightarrow> invocation \<Rightarrow> goal_request \<Rightarrow> ('h, failure, goal_response) effect" where
  "create_goal_command D i r =
     bindH (command_epoch_of D) (\<lambda>epoch.
     bindH (invocation_command_id D i) (\<lambda>command_id.
     client_post D decode_goal ''/goals'' epoch command_id None (Some \<lparr>cgr_goal = goal_payload r\<rparr>)))"

definition cancel_goal_command :: "'h daemon \<Rightarrow> invocation \<Rightarrow> string \<Rightarrow> ('h, failure, goal_response) effect" where
  "cancel_goal_command D i goal_id =
     bindH (command_epoch_of D) (\<lambda>epoch.
     bindH (invocation_command_id D i) (\<lambda>command_id.
     client_post D decode_goal (''/goals/'' @ goal_id @ ''/actions/cancel'') epoch command_id None None))"

definition set_mode_command :: "'h daemon \<Rightarrow> invocation \<Rightarrow> string \<Rightarrow> ('h, failure, dispatch_response) effect" where
  "set_mode_command D i action =
     bindH (client_get D decode_dispatch ''/dispatch'') (\<lambda>current.
     let if_match = [quote_char] @ ''dispatch-'' @ int_to_string (dr_revision current) @ [quote_char] in
     bindH (command_epoch_of D) (\<lambda>epoch.
     bindH (invocation_command_id D i) (\<lambda>command_id.
     client_post D decode_dispatch (''/dispatch/actions/'' @ action) epoch command_id (Some if_match) None)))"

definition events_list_path :: "string option \<Rightarrow> int option \<Rightarrow> string" where
  "events_list_path after limit =
     (let query = (case after of Some a \<Rightarrow> [''after='' @ a] | None \<Rightarrow> [])
          @ (case limit of Some n \<Rightarrow> [''limit='' @ int_to_string n] | None \<Rightarrow> [])
      in if query = [] then ''/events'' else ''/events?'' @ intercalate ''&'' query)"

definition events_watch_path :: "string option \<Rightarrow> string" where
  "events_watch_path after = (case after of Some a \<Rightarrow> ''/events/watch?after='' @ a | None \<Rightarrow> ''/events/watch'')"

section \<open>The Event stream\<close>

text \<open>
  \<open>find_separator\<close> looks for the first of the two separators, \<open>drain_messages\<close> takes every complete
  message out of the buffer, and \<open>watch_chunks\<close> is the loop over the frames of the body. The message
  taken out and the buffer kept are the bytes before and after the separator.
\<close>

definition crlf_twice :: string where
  "crlf_twice = [CHR 0x0D, CHR 0x0A, CHR 0x0D, CHR 0x0A]"

definition lf_twice :: string where
  "lf_twice = [CHR 0x0A, CHR 0x0A]"

fun find_separator :: "string \<Rightarrow> (nat \<times> nat) option" where
  "find_separator [] = None"
| "find_separator (c # s) =
     (if take 4 (c # s) = crlf_twice then Some (0, 4)
      else if take 2 (c # s) = lf_twice then Some (0, 2)
      else map_option (\<lambda>(i, k). (Suc i, k)) (find_separator s))"

lemma take_full: "take n xs = ys \<Longrightarrow> length ys = n \<Longrightarrow> n \<le> length xs"
  by auto

lemma separator_lengths: "take 4 s = crlf_twice \<Longrightarrow> 4 \<le> length s" "take 2 s = lf_twice \<Longrightarrow> 2 \<le> length s"
  by (rule take_full, assumption, simp add: crlf_twice_def lf_twice_def)+

lemma find_separator_bound: "find_separator s = Some (i, k) \<Longrightarrow> i + k \<le> length s \<and> 2 \<le> k"
proof (induction s arbitrary: i)
  case (Cons c s)
  then show ?case using separator_lengths [of "c # s"] by (auto split: if_splits)
qed simp

function drain_messages :: "string \<Rightarrow> string list \<times> string" where
  "drain_messages buffer = (case find_separator buffer of
     None \<Rightarrow> ([], buffer)
   | Some (i, k) \<Rightarrow> (case drain_messages (drop (i + k) buffer) of (ms, rest) \<Rightarrow> (take i buffer # ms, rest)))"
  by pat_completeness auto
termination by (relation "measure length") (auto dest: find_separator_bound)

declare drain_messages.simps [simp del]

fun watch_chunks :: "string \<Rightarrow> string list \<Rightarrow> string list \<times> string" where
  "watch_chunks pending [] = ([], pending)"
| "watch_chunks pending (chunk # chunks) = (case drain_messages (pending @ chunk) of (ms, rest) \<Rightarrow>
     (case watch_chunks rest chunks of (further, left) \<Rightarrow> (ms @ further, left)))"

text \<open>What one message prints, and the cursor it carries; \<open>decode\<close> is \<open>serde_json::from_str\<close>.\<close>

definition message_line :: "string option \<times> string \<Rightarrow> string \<Rightarrow> string option \<times> string" where
  "message_line st line = (case strip_prefix ''id:'' line of
     Some v \<Rightarrow> (Some (str_trim v), snd st)
   | None \<Rightarrow> (case strip_prefix ''data:'' line of
       Some v \<Rightarrow> (fst st, snd st @ str_trim v)
     | None \<Rightarrow> st))"

definition emit_message ::
    "(string \<Rightarrow> (string, event_response) res) \<Rightarrow> string \<Rightarrow> (string, event_response) res option \<times> string option" where
  "emit_message decode message =
     (case foldl message_line (None, []) (str_lines (utf8_lossy message)) of (found, data) \<Rightarrow>
        if data = [] then (None, found)
        else (case decode data of
          Inr e \<Rightarrow> (Some (Inr e), Some (ers_cursor e))
        | Inl err \<Rightarrow> (Some (Inl err), found)))"

definition last_cursor :: "(string \<Rightarrow> (string, event_response) res) \<Rightarrow> string list \<Rightarrow> string option" where
  "last_cursor decode messages = foldl (\<lambda>acc m. case snd (emit_message decode m) of Some c \<Rightarrow> Some c | None \<Rightarrow> acc) None messages"

section \<open>The arguments of the daemon\<close>

record daemon_options =
  op_data_dir :: string
  op_socket :: string
  op_configuration :: string
  op_fake_executor :: bool
  op_tick_millis :: int

definition max_socket_path :: nat where
  "max_socket_path = 100"

definition default_tick_millis :: int where
  "default_tick_millis = 10000"

record typed_options =
  ty_data_dir :: "string option"
  ty_socket :: "string option"
  ty_configuration :: "string option"
  ty_fake_executor :: bool
  ty_tick_millis :: "int option"

definition takes_value :: "string list" where
  "takes_value = [''--data-dir'', ''--socket'', ''--config'', ''--executor'', ''--tick-millis'']"

definition option_value :: "string \<Rightarrow> string \<Rightarrow> typed_options \<Rightarrow> (message, typed_options) res" where
  "option_value arg v t =
     (if arg = ''--data-dir'' then Inr (t\<lparr>ty_data_dir := Some v\<rparr>)
      else if arg = ''--socket'' then Inr (t\<lparr>ty_socket := Some v\<rparr>)
      else if arg = ''--config'' then Inr (t\<lparr>ty_configuration := Some v\<rparr>)
      else if arg = ''--executor'' then
        (if v = ''fake'' then Inr (t\<lparr>ty_fake_executor := True\<rparr>)
         else Inl (Fmt (''unknown executor {other}; only '' @ [CHR 0x27] @ ''fake'' @ [CHR 0x27] @ '' exists'') [FStr v]))
      else (case u64_parse v of
          Inr n \<Rightarrow> Inr (t\<lparr>ty_tick_millis := Some n\<rparr>)
        | Inl _ \<Rightarrow> Inl (Fmt ''--tick-millis expects a number, got {raw}'' [FStr v])))"

fun options_loop :: "typed_options \<Rightarrow> string list \<Rightarrow> (message, typed_options option) res" where
  "options_loop t [] = Inr (Some t)"
| "options_loop t (arg # words) =
     (if arg = ''-h'' \<or> arg = ''--help'' then Inr None
      else if arg \<in> set takes_value then
        (case words of
           [] \<Rightarrow> Inl (Fmt ''{name} needs a value'' [FStr arg])
         | v # ws \<Rightarrow> (case option_value arg v t of Inl e \<Rightarrow> Inl e | Inr t' \<Rightarrow> options_loop t' ws))
      else Inl (Fmt ''unrecognized argument {other}'' [FStr arg]))"

definition options_of :: "typed_options \<Rightarrow> (string \<Rightarrow> string option) \<Rightarrow> daemon_options" where
  "options_of t env =
     (let data_dir = (case ty_data_dir t of Some d \<Rightarrow> d | None \<Rightarrow>
        (case env ''PANTHEON_DATA_DIR'' of Some d \<Rightarrow> d | None \<Rightarrow> ''pantheon-data'')) in
      \<lparr>op_data_dir = data_dir,
       op_socket = (case ty_socket t of Some s \<Rightarrow> s | None \<Rightarrow> path_join (path_join data_dir ''run'') ''pantheond.sock''),
       op_configuration = (case ty_configuration t of Some c \<Rightarrow> c | None \<Rightarrow> path_join data_dir ''configuration.json''),
       op_fake_executor = ty_fake_executor t,
       op_tick_millis = (case ty_tick_millis t of Some n \<Rightarrow> n | None \<Rightarrow> default_tick_millis)\<rparr>)"

definition options_parse :: "string list \<Rightarrow> (string \<Rightarrow> string option) \<Rightarrow> (message, daemon_options option) res" where
  "options_parse args env =
     bindR (options_loop \<lparr>ty_data_dir = None, ty_socket = None, ty_configuration = None, ty_fake_executor = False,
       ty_tick_millis = None\<rparr> args) (\<lambda>found. (case found of
       None \<Rightarrow> Inr None
     | Some t \<Rightarrow> let r = options_of t env; n = length (op_socket r) in
         if max_socket_path < n then Inl (Fmt
           ''the socket path is {length} bytes; a Unix socket address holds at most {MAX_SOCKET_PATH}. Pass a shorter --socket.''
           [FInt (int n), FInt (int max_socket_path)])
         else Inr (Some r)))"

definition database_file :: "daemon_options \<Rightarrow> string" where
  "database_file t = path_join (op_data_dir t) ''pantheon.db''"

section \<open>The framing of a stream\<close>

lemma find_separator_append: "find_separator s = Some (i, k) \<Longrightarrow> find_separator (s @ x) = Some (i, k)"
proof (induction s arbitrary: i)
  case (Cons c s)
  show ?case
  proof (cases "take 4 (c # s) = crlf_twice \<or> take 2 (c # s) = lf_twice")
    case True
    moreover have "take 4 (c # s @ x) = crlf_twice \<Longrightarrow> take 2 (c # s) = lf_twice \<Longrightarrow> False"
      by (simp add: crlf_twice_def lf_twice_def numeral_eq_Suc)
    moreover have "take 4 (c # s) = crlf_twice \<Longrightarrow> take 4 (c # s @ x) = crlf_twice" "take 2 (c # s) = lf_twice \<Longrightarrow> take 2 (c # s @ x) = lf_twice"
      using separator_lengths [of "c # s"] by auto
    ultimately show ?thesis using Cons.prems by (auto split: if_splits)
  next
    case False
    then obtain j where j: "find_separator s = Some (j, k)" "i = Suc j" using Cons.prems by (auto split: if_splits)
    note b = find_separator_bound [OF j(1)]
    have "take 2 (c # s @ x) \<noteq> lf_twice" using b False by simp
    moreover have "take 4 (c # s @ x) \<noteq> crlf_twice"
    proof (cases "3 \<le> length s")
      case False
      then obtain a d where "s = [a, d]" using b by (cases s; cases "tl s") (auto simp: Suc_le_eq)
      with j(1) show ?thesis by (auto simp: crlf_twice_def lf_twice_def split: if_splits)
    qed (use False in simp)
    ultimately show ?thesis using False j Cons.IH [OF j(1)] by simp
  qed
qed simp

lemma drain_append:
  "drain_messages (s @ x) = (case drain_messages s of (ms, rest) \<Rightarrow> case drain_messages (rest @ x) of (further, left) \<Rightarrow> (ms @ further, left))"
proof (induction s rule: drain_messages.induct)
  case (1 s)
  show ?case
  proof (cases "find_separator s")
    case None
    then show ?thesis by (simp add: drain_messages.simps [of s] split: prod.splits)
  next
    case (Some p)
    obtain i k where p: "p = (i, k)" by fastforce
    note b = find_separator_bound [OF Some [unfolded p]] and ext = find_separator_append [OF Some [unfolded p], of x]
    have "drain_messages (s @ x) = (case drain_messages (drop (i + k) s @ x) of (ms, rest) \<Rightarrow> (take i s # ms, rest))"
      using b ext by (subst drain_messages.simps) simp
    then show ?thesis
      using 1 [OF Some p [symmetric]] Some p by (simp add: drain_messages.simps [of s] split: prod.splits)
  qed
qed

lemma drained: "drain_messages s = (ms, rest) \<Longrightarrow> drain_messages rest = ([], rest)"
proof (induction s arbitrary: ms rule: drain_messages.induct)
  case (1 s)
  then show ?case
    by (cases "find_separator s") (auto simp: drain_messages.simps [of s] drain_messages.simps [of rest] split: prod.splits)
qed

lemma watch_chunks_concat: "drain_messages pending = ([], pending) \<Longrightarrow> watch_chunks pending chunks = drain_messages (pending @ concat chunks)"
proof (induction chunks arbitrary: pending)
  case (Cons chunk chunks)
  obtain ms rest where d: "drain_messages (pending @ chunk) = (ms, rest)" by fastforce
  have "drain_messages (pending @ concat (chunk # chunks)) = (case drain_messages (rest @ concat chunks) of (further, left) \<Rightarrow> (ms @ further, left))"
    using drain_append [of "pending @ chunk" "concat chunks"] d by simp
  then show ?case
    using Cons.IH [OF drained [OF d]] d by simp
qed simp

lemma drain_written:
  "(\<And>m. m \<in> set messages \<Longrightarrow> find_separator (m @ lf_twice) = Some (length m, 2)) \<Longrightarrow>
   drain_messages (concat (map (\<lambda>m. m @ lf_twice) messages)) = (messages, [])"
proof (induction messages)
  case (Cons m messages)
  let ?rest = "concat (map (\<lambda>m. m @ lf_twice) messages)"
  have "find_separator ((m @ lf_twice) @ ?rest) = Some (length m, 2)" by (rule find_separator_append) (use Cons.prems in simp)
  then show ?case
    using Cons by (subst drain_messages.simps) (simp add: lf_twice_def)
qed (simp add: drain_messages.simps)

section \<open>A Goal typed and read back\<close>
















text \<open>
  The client reads exactly the messages that were sent, however the bytes arrive: for messages
  that hold no separator, each followed by an empty line, any division of the stream into frames
  yields those messages, in order, and leaves nothing in the buffer.
\<close>

theorem stream_framing:
  assumes "\<And>m. m \<in> set messages \<Longrightarrow> find_separator (m @ lf_twice) = Some (length m, 2)"
    and "concat chunks = concat (map (\<lambda>m. m @ lf_twice) messages)"
  shows "watch_chunks [] chunks = (messages, [])"
  using watch_chunks_concat [of "[]" chunks] drain_written [of messages] assms by (simp add: drain_messages.simps [of "[]"])

theorem stream_framing_witness:
  "watch_chunks [] [''id: e:1'' @ [CHR 0x0A] @ ''da'', ''ta: {'' @ [CHR 0x0A], [CHR 0x0A] @ ''id: e:2'', [], lf_twice]
   = ([''id: e:1'' @ [CHR 0x0A] @ ''data: {'', ''id: e:2''], [])"
  by (rule stream_framing) (auto simp: lf_twice_def crlf_twice_def)

end
