(* ===== verification/Surface.thy ===== *)
theory Surface
  imports Operator_Api Controllers Commitments
begin

text \<open>
  What the Operator Control surface guarantees on top of the engine: streams without gaps, and
  mutations that reach the engine only under a complete identity.
\<close>

section \<open>One page of a stream\<close>

definition at_sequence :: "cursor \<Rightarrow> nat \<Rightarrow> cursor" where
  "at_sequence c i = c\<lparr>cu_sequence := cu_sequence c + int i\<rparr>"

lemma at_sequence_simps [simp]:
  "at_sequence c 0 = c" "at_sequence (at_sequence c i) j = at_sequence c (i + j)"
  "0 \<le> cu_sequence c \<Longrightarrow> 0 \<le> cu_sequence (at_sequence c i)"
  by (simp_all add: at_sequence_def)

text \<open>The Events a page delivers, and the cursor it leaves, in any reachable store.\<close>

lemma page_consecutive:
  assumes reach: "reachable sha s" and page: "events_after c limit (database s) = Inr (Inr es)"
    and "0 \<le> limit" and "0 \<le> cu_sequence c"
  shows "map event_cursor es = map (at_sequence c) [1..<Suc (length es)]"
proof -
  note inv = journal.reachable_holds [OF bootstrap_invariants(1) reach]
  obtain h where head: "read_head (database s) = Inr h"
    using page by (auto simp: events_after_def res_simps)
  have c: "cu_journal_epoch c = cu_journal_epoch h" "cu_sequence c \<le> cu_sequence h"
    and es: "es = take (nat limit) (events_since c (database s))"
    using page assms(3) by (auto simp: events_after_def head res_simps sql_limit_def)
  have "map ej_sequence (events_since c (database s)) = map int [Suc (nat (cu_sequence c))..<Suc (nat (cu_sequence h))]"
    by (rule events_since_complete [OF inv(2,1) head c(1) assms(4) c(2)])
  then have "map ej_sequence es = map int (take (nat limit) [Suc (nat (cu_sequence c))..<Suc (nat (cu_sequence h))])"
    unfolding es take_map by (metis take_map)
  then have seqs: "ej_sequence (es ! i) = cu_sequence c + int (Suc i)" if "i < length es" for i
    using that assms(4) nth_map [of i es ej_sequence] length_map [of ej_sequence es]
    by (auto simp del: upt_Suc dest: map_eq_imp_length_eq)
  have "ej_journal_epoch e = cu_journal_epoch c" if "e \<in> set es" for e
    using that by (auto simp: es events_since_def dest: in_set_takeD)
  then show ?thesis
    by (intro nth_equalityI) (auto simp: event_cursor_def at_sequence_def seqs simp del: upt_Suc)
qed

lemma watched_page:
  assumes read: "operator_events_after c limit w = (Inr p, w')" and reach: "reachable sha (the_store w)"
    and others: "other_steps sha w" and "0 \<le> cu_sequence c"
  shows "map ev_cursor (ep_events p) = map (at_sequence c) [1..<Suc (length (ep_events p))]"
    and "ep_next p = at_sequence c (length (ep_events p))" and "reachable sha (the_store w')" and "other_steps sha w'"
proof -
  have "advances sha (operator_events_after c limit :: ('a, operator_error, event_page) controller)" by (rule engine)
  note moved = advancesD [OF this read others]
  show r': "reachable sha (the_store w')" "other_steps sha w'"
    using moved reach by (auto simp: reachable_def)
  obtain es where es: "events_after c (clamp 1 max_events limit) (the_database w') = Inr (Inr es)" and p: "p = event_page_of c es"
    using read by (auto simp: operator_events_after_def bindE_iff mapE_iff simple_iff readE_iff split: if_splits)
  have cons: "map event_cursor es = map (at_sequence c) [1..<Suc (length es)]"
    by (rule page_consecutive [OF r'(1) es]) (use assms(4) in \<open>simp_all add: clamp_def max_events_def\<close>)
  then show "map ev_cursor (ep_events p) = map (at_sequence c) [1..<Suc (length (ep_events p))]"
    by (simp add: p event_page_of_def event_view_of_def comp_def)
  show "ep_next p = at_sequence c (length (ep_events p))"
    using cons by (cases es rule: rev_cases) (simp_all add: p event_page_of_def)
qed

lemma sent_all: "(\<And>e. encode e \<noteq> None) \<Longrightarrow> map sm_id (sent encode es) = map (\<lambda>e. to_wire (ev_cursor e)) es"
proof (induction es)
  case (Cons e es)
  obtain d where "encode (event_response_of e) = Some d" using Cons.prems [of "event_response_of e"] by blast
  then show ?case using Cons by (simp add: sse_of_def)
qed simp

lemma upt_shift: "[Suc 0..<Suc (m + l)] = [Suc 0..<Suc m] @ map ((+) m) [Suc 0..<Suc l]"
  by (induction l) auto

text \<open>
  C31. An Event stream has no gap and repeats nothing. Whatever store operations other threads run
  between its reads, the messages a stream has sent after any number of rounds carry exactly the
  cursors of the sequence numbers that follow the one it started from, one by one, and the stream
  stands at the last of them, so that a watch resumed there continues it.
\<close>

theorem stream_without_gaps:
  assumes "reachable sha (the_store w)" and "other_steps sha w" and "0 \<le> cu_sequence c" and total: "\<And>e. encode e \<noteq> None"
  shows "case watch_rounds n encode c w of ((messages, going, k), w') \<Rightarrow>
    map sm_id messages = map (\<lambda>i. to_wire (at_sequence c i)) [1..<Suc (length messages)] \<and> k = at_sequence c (length messages)"
  using assms(1-3)
proof (induction n arbitrary: c w)
  case (Suc n c w)
  show ?case
  proof (cases "operator_events_after c watch_page w")
    case (Pair r w')
    show ?thesis
    proof (cases r)
      case (Inr p)
      note page = watched_page [OF Pair [unfolded Inr] Suc.prems]
      define m where "m = length (ep_events p)"
      obtain ms going k w'' where rest: "watch_rounds n encode (ep_next p) w' = ((ms, going, k), w'')"
        by (metis prod.exhaust)
      have ih: "map sm_id ms = map (\<lambda>i. to_wire (at_sequence c (m + i))) [1..<Suc (length ms)]" "k = at_sequence c (m + length ms)"
        using Suc.IH [OF page(3,4), of "ep_next p"] Suc.prems(3) rest by (simp_all add: page(2) m_def del: upt_Suc)
      have first: "map sm_id (sent encode (ep_events p)) = map (\<lambda>i. to_wire (at_sequence c i)) [1..<Suc m]"
        unfolding sent_all [where es = "ep_events p" and encode = encode, OF total]
        using arg_cong [OF page(1), of "map to_wire"] by (simp add: m_def comp_def del: upt_Suc)
      then have len: "length (sent encode (ep_events p)) = m" using map_eq_imp_length_eq by fastforce
      show ?thesis
        using Pair Inr rest first ih len by (simp add: upt_shift comp_def del: upt_Suc)
    qed (simp add: Pair)
  qed
qed simp

section \<open>What a request may write\<close>

text \<open>An action that leaves the store alone, in a world where nobody else acts.\<close>

definition alone :: "'x world \<Rightarrow> bool" where
  "alone w \<longleftrightarrow> (\<forall>n sh. others w n sh = sh)"

definition looks_only :: "('x, 'e, 'a) controller \<Rightarrow> bool" where
  "looks_only m \<longleftrightarrow> (\<forall>w. alone w \<longrightarrow> the_store (snd (m w)) = the_store w \<and> alone (snd (m w)))"

named_theorems reading \<open>actions that only read\<close>

lemma looks_only_bind [reading]:
  "looks_only m \<Longrightarrow> (\<And>x. looks_only (f x)) \<Longrightarrow> looks_only (bindE m f)"
  by (auto simp: looks_only_def bindE_def split: prod.splits sum.splits)

lemma looks_only_basic [reading]:
  "looks_only (returnE x)" "looks_only (raiseE e)" "looks_only (liftE r)" "looks_only (someE y d)"
  "looks_only (readE f)" "looks_only (getE g)"
  by (simp_all add: looks_only_def engine_defs alone_def Let_def)

lemma looks_only_map [reading]: "looks_only m \<Longrightarrow> looks_only (mapE g m)" "looks_only m \<Longrightarrow> looks_only (tryE m)"
  by (auto simp: looks_only_def mapE_def tryE_def split: prod.splits)

lemma looks_only_cases [reading]:
  "looks_only m \<Longrightarrow> (\<And>x. looks_only (f x)) \<Longrightarrow> looks_only (case v of None \<Rightarrow> m | Some x \<Rightarrow> f x)"
  by (simp split: option.split)

lemma looks_only_snapshot [reading]: "looks_only configuration_snapshot"
  unfolding configuration_snapshot_def
  by (intro reading) (auto simp: looks_only_def with_lock_def get_published_def exclusive_def interfere_def alone_def Let_def)

lemma looks_only_operations [reading]:
  "looks_only (operator_goal i)" "looks_only operator_goals" "looks_only dispatch_status" "looks_only operator_journal_head"
  "looks_only (operator_events_after c limit)" "looks_only readiness" "looks_only (operator_system v)"
  unfolding operator_goal_def operator_goals_def dispatch_status_def configuration_usable_def operator_journal_head_def
    operator_events_after_def readiness_def operator_system_def
  by (intro reading)+

lemma looks_only_stream [reading]: "looks_only (resolve_cursor after)" "looks_only (watch_start after)"
  unfolding watch_start_def resolve_cursor_def by (intro reading)+

lemma looks_only_blocking [reading]: "looks_only m \<Longrightarrow> looks_only (blocking m)"
  unfolding blocking_def by (rule reading)

lemma respond_reads: "looks_only m \<Longrightarrow> alone w \<Longrightarrow> the_store (snd (respond m w)) = the_store w"
  by (auto simp: looks_only_def respond_def split: prod.splits sum.splits)

fun is_mutation :: "endpoint \<Rightarrow> bool" where
  "is_mutation GoalsCreate = True"
| "is_mutation (GoalsCancel _) = True"
| "is_mutation DispatchPause = True"
| "is_mutation DispatchResume = True"
| "is_mutation _ = False"

fun changes_dispatch :: "endpoint \<Rightarrow> bool" where
  "changes_dispatch DispatchPause = True"
| "changes_dispatch DispatchResume = True"
| "changes_dispatch _ = False"

text \<open>A header that names an identity: there, printable and not empty.\<close>

definition carries :: "headers \<Rightarrow> string \<Rightarrow> bool" where
  "carries hs name \<longleftrightarrow> (case map_of hs name of None \<Rightarrow> False | Some v \<Rightarrow> header_to_str v = Some v \<and> v \<noteq> [])"

lemma required_header_iff: "(\<exists>v. required_header hs name = Inr v) \<longleftrightarrow> carries hs name"
  by (auto simp: required_header_def carries_def res_simps header_to_str_def split: option.splits)

lemma identity_carried: "identity_from_headers hs hash = Inr c \<Longrightarrow> carries hs command_epoch_header \<and> carries hs command_id_header"
  by (auto simp: identity_from_headers_def res_simps required_header_iff [symmetric])

lemma refused_unchanged:
  "snd (set_mode sha hs r f w) \<noteq> w \<Longrightarrow> (\<exists>n. expected_revision hs = Inr n) \<and> carries hs command_epoch_header \<and> carries hs command_id_header"
  "snd (goals_create_handler sha decode hs body w) \<noteq> w \<Longrightarrow> carries hs command_epoch_header \<and> carries hs command_id_header"
  "snd (goals_cancel_handler sha hs i w) \<noteq> w \<Longrightarrow> carries hs command_epoch_header \<and> carries hs command_id_header"
  by (auto simp: set_mode_def goals_create_handler_def goals_cancel_handler_def respond_def bindE_def liftE_def
      split: sum.splits prod.splits dest: identity_carried)

lemma reading_unchanged:
  assumes "alone w" and "\<not> is_mutation e"
  shows "the_store (snd (serve_endpoint b q e w)) = the_store w"
  using assms
  by (cases e) (auto simp: ready_handler_def system_handler_def goals_list_handler_def goals_get_handler_def dispatch_status_handler_def
      events_list_handler_def events_watch_handler_def intro!: respond_reads reading)

text \<open>
  C30. Only an identified mutation writes. Where no other thread acts, whatever is requested of the
  surface, the store changes only on one of the four mutating routes, and then the request carried
  a printable, nonempty command epoch and command identifier; a change of the dispatch mode also
  carried an If-Match that parses to a revision.
\<close>

theorem only_identified_mutations_write:
  assumes "alone w" and changed: "the_store (snd (serve_endpoint b q e w)) \<noteq> the_store w"
  shows "is_mutation e \<and> carries (rq_headers q) command_epoch_header \<and> carries (rq_headers q) command_id_header
    \<and> (changes_dispatch e \<longrightarrow> (\<exists>n. expected_revision (rq_headers q) = Inr n))"
proof -
  have m: "is_mutation e" using reading_unchanged [OF assms(1), of e b q] changed by blast
  have "snd (serve_endpoint b q e w) \<noteq> w" using changed by auto
  with m show ?thesis
    by (cases e) (auto simp: pause_handler_def resume_handler_def dest!: refused_unchanged)
qed

section \<open>Both at a concrete store\<close>

theorem stream_without_gaps_witness:
  "case watch_rounds 2 (\<lambda>_. Some []) \<lparr>cu_journal_epoch = example_epoch, cu_sequence = 0\<rparr> (quiet_world paused_store ()) of
     ((messages, going, k), w') \<Rightarrow>
       map sm_id messages = map (\<lambda>i. to_wire (at_sequence \<lparr>cu_journal_epoch = example_epoch, cu_sequence = 0\<rparr> i)) [1..<Suc (length messages)]
       \<and> k = at_sequence \<lparr>cu_journal_epoch = example_epoch, cu_sequence = 0\<rparr> (length messages)"
  by (rule stream_without_gaps [where sha = "\<lambda>_. []"]) (simp_all add: paused_store_reachable)

definition pause_request :: request where
  "pause_request = \<lparr>rq_headers = [(''if-match'', [quote_char] @ ''dispatch-1'' @ [quote_char]),
     (command_epoch_header, example_generation), (command_id_header, ''pause'')], rq_body = [], rq_after = None, rq_limit = None\<rparr>"

definition example_build :: build where
  "example_build = \<lparr>bu_sha = (\<lambda>_. replicate 32 0), bu_decode = (\<lambda>_. Inl []), bu_version = [], bu_schema = 0\<rparr>"

lemma etag_trimmed: "str_trim ([quote_char] @ ''dispatch-1'' @ [quote_char]) = [quote_char] @ ''dispatch-1'' @ [quote_char]"
  by (simp add: str_trim_def trim_start.simps trim_end.simps white_space_end_def white_space_len_def quote_char_def)

lemma pause_request_read:
  "expected_revision (rq_headers pause_request) = Inr 1"
  "required_header (rq_headers pause_request) command_epoch_header = Inr example_generation"
  "required_header (rq_headers pause_request) command_id_header = Inr ''pause''"
  by (simp_all add: expected_revision_def required_header_def pause_request_def etag_trimmed [unfolded quote_char_def, simplified]
      header_to_str_def command_epoch_header_def command_id_header_def example_generation_def
      strip_prefix_def strip_suffix_char_def quote_char_def i64_from_str_def decimal_digits_def is_ascii_digit_def digits_value_def
      is_i64_def i64_min_def i64_max_def ok_or_def ensure_def res_simps numeral_eq_Suc)

lemma pause_request_executes:
  "\<exists>v c s. set_dispatch_mode \<lparr>cmd_epoch = example_generation, cmd_id = ''pause'', cmd_request_hash = replicate 32 0,
      cmd_event_type = ''dispatch.paused''\<rparr> DPaused 1 fresh_store = (Inr (Executed v c), s) \<and> event_journal (database s) \<noteq> []"
  by (simp add: set_dispatch_mode_def set_dispatch_mode_body_def read_state_def find_scheduler_def parse_state_def liftW_def dispatch_mode_parse_def res_simps
      fresh_store_def evaluate evaluate_schema evaluate_example sql_length_ascii)

lemma pause_request_writes:
  "the_store (snd (serve_endpoint example_build pause_request DispatchPause (quiet_world fresh_store ()))) \<noteq> the_store (quiet_world fresh_store ())"
proof -
  obtain v c s where set: "set_dispatch_mode \<lparr>cmd_epoch = example_generation, cmd_id = ''pause'', cmd_request_hash = replicate 32 0,
      cmd_event_type = ''dispatch.paused''\<rparr> DPaused 1 fresh_store = (Inr (Executed v c), s)" and s: "event_journal (database s) \<noteq> []"
    using pause_request_executes by blast
  define w where "w = quiet_world s ()\<lparr>accesses := 1\<rparr>"
  have run: "pause_dispatch \<lparr>ci_epoch = example_generation, ci_id = ''pause'', ci_request_hash = replicate 32 0\<rparr> 1 (quiet_world fresh_store ())
      = dispatch_status w"
    by (simp add: pause_dispatch_def set_dispatch_def identity_command_def engine_defs Let_def quiet_world_def set w_def)
  have "alone w" by (simp add: w_def alone_def quiet_world_def)
  then have "the_store (snd (dispatch_status w)) = s"
    using looks_only_operations(3) by (auto simp: looks_only_def w_def)
  then have "the_store (snd (serve_endpoint example_build pause_request DispatchPause (quiet_world fresh_store ()))) = s"
    by (auto simp: pause_handler_def set_mode_def pause_request_read identity_from_headers_def res_simps respond_def bindE_def liftE_def
        example_build_def request_hash_of_def digest_of_def blocking_def mapE_def run returnE_def split: prod.splits sum.splits)
  moreover have "event_journal (database fresh_store) = []" by (simp add: fresh_store_def evaluate_example)
  ultimately show ?thesis using s by auto
qed

theorem only_identified_mutations_write_witness:
  "carries (rq_headers pause_request) command_epoch_header \<and> (\<exists>n. expected_revision (rq_headers pause_request) = Inr n)"
  using only_identified_mutations_write [OF _ pause_request_writes]
  by (simp add: alone_def quiet_world_def)

end
