(* ===== verification/Daemon.thy ===== *)
theory Daemon
  imports Command_Line Surface
begin

text \<open>
  The composition root (\<^verbatim>\<open>crates/pantheond/src/main.rs\<close>): establishing the configuration at start-up
  and the ticks of the two controllers; its deterministic test backend (\<^verbatim>\<open>fake.rs\<close>); and the
  preparation of the operator socket (\<^verbatim>\<open>crates/pantheon-operator-api/src/socket.rs\<close>). Sleeping,
  printing and signals are not modelled.
\<close>

section \<open>Start-up\<close>

datatype startup_error =
    SourceUnreadable message | LoadFailed configuration_error | EpochUnreadable store_error
  | ActivationFailed configuration_error | ReloadFailed configuration_error

text \<open>\<open>Path::file_name\<close>: the last normal component.\<close>

definition path_file_name :: "string \<Rightarrow> string option" where
  "path_file_name p = (case filter (\<lambda>c. c \<noteq> [] \<and> c \<noteq> ''.'') (split_on (CHR ''/'') p) of
     [] \<Rightarrow> None
   | cs \<Rightarrow> if last cs = ''..'' then None else Some (last cs))"

definition source_name :: "daemon_options \<Rightarrow> string" where
  "source_name t = (case path_file_name (op_configuration t) of None \<Rightarrow> ''configuration'' | Some n \<Rightarrow> utf8_lossy n)"

definition bootstrap_command :: "sha256 \<Rightarrow> string \<Rightarrow> source_set \<Rightarrow> command" where
  "bootstrap_command sha epoch sources =
     \<lparr>cmd_epoch = epoch, cmd_id = ''bootstrap-'' @ to_hex (sources_digest sha sources),
      cmd_request_hash = as_bytes (sources_digest sha sources), cmd_event_type = ''configuration.activated''\<rparr>"

text \<open>\<open>read_source\<close> is \<open>read_to_string\<close> on the configuration path, with the text of its error.\<close>

definition daemon_publish ::
    "sha256 \<Rightarrow> ('x \<Rightarrow> (string, string) res \<times> 'x) \<Rightarrow> daemon_options \<Rightarrow> ('x, startup_error, configuration_status) controller" where
  "daemon_publish sha read_source t =
     bindE (portE read_source) (\<lambda>r.
     bindE (liftE (map_sum (\<lambda>e. SourceUnreadable (Fmt ''could not read the configuration source {}: {err}''
        [FStr (op_configuration t), FStr e])) id r)) (\<lambda>s.
     let sources = source_set_single (source_name t) s in
     bindE (mapE LoadFailed (load_configuration sha sources)) (\<lambda>loaded.
     if loaded \<noteq> Uninitialized then returnE loaded
     else
       bindE (mapE EpochUnreadable (readE read_restore_generation)) (\<lambda>epoch.
       bindE (mapE ActivationFailed (activate sha (bootstrap_command sha epoch sources) sources)) (\<lambda>_.
       mapE ReloadFailed (load_configuration sha sources))))))"

section \<open>The fake backend\<close>

datatype fake_lineage = FakeStarting | FakeRunning | FakeExited

type_synonym fake_world = "string \<Rightarrow> fake_lineage option"

fun fake_advance :: "fake_lineage \<Rightarrow> fake_lineage" where
  "fake_advance FakeStarting = FakeRunning"
| "fake_advance FakeRunning = FakeExited"
| "fake_advance FakeExited = FakeExited"

fun fake_observe :: "fake_lineage \<Rightarrow> observation" where
  "fake_observe FakeStarting = ObsStarting"
| "fake_observe FakeRunning = ObsRunning"
| "fake_observe FakeExited = ObsExited"

definition fake_describe :: backend_descriptor where
  "fake_describe = \<lparr>bd_backend_id = ''fake-local'', bd_revision = 1, bd_available_for_offers = True, bd_placement = [],
     bd_supported_execution_features = [''exec.shell''], bd_context_capacity_tokens = 32000,
     bd_isolation_facts = [''isolation.control-plane''], bd_resources = [], bd_launch_semantics = KeyedIdempotent\<rparr>"

definition fake_offer :: "sha256 \<Rightarrow> execution_request \<Rightarrow> execution_offer list" where
  "fake_offer sha q = [\<lparr>of_request_digest = request_digest sha q, of_backend_id = ''fake-local'', of_descriptor_revision = 1,
     of_descriptor_digest = descriptor_digest sha fake_describe, of_supported_execution_features = [''exec.shell''],
     of_context_capacity_tokens = 32000, of_placement = [], of_isolation_facts = [''isolation.control-plane''],
     of_resources = [], of_launch_semantics = KeyedIdempotent, of_offer_reference = ''fake://'' @ rq_task_id q\<rparr>]"

definition fake_port :: "sha256 \<Rightarrow> 'x executor_backend_port" where
  "fake_port sha = \<lparr>ep_describe = (\<lambda>x. (fake_describe, x)), ep_offer = (\<lambda>q x. (Inr (fake_offer sha q), x)),
     ep_safety = \<lparr>sf_isolation_guarantees = [''isolation.control-plane''], sf_observational_launch_safe = False\<rparr>\<rparr>"

definition fake_ensure_execution :: "launch_package \<Rightarrow> fake_world \<Rightarrow> (string, observation) res \<times> fake_world" where
  "fake_ensure_execution p f =
     (Inr ObsStarting, if f (lp_launch_key p) = None then f(lp_launch_key p \<mapsto> FakeStarting) else f)"

definition fake_inspect_execution :: "string \<Rightarrow> fake_world \<Rightarrow> (string, observation) res \<times> fake_world" where
  "fake_inspect_execution k f = (case f k of
     None \<Rightarrow> (Inr ObsAbsent, f)
   | Some lin \<Rightarrow> (Inr (fake_observe (fake_advance lin)), f(k \<mapsto> fake_advance lin)))"

text \<open>\<open>os\<close> and \<open>arch\<close> are the constants of the build.\<close>

definition fake_verification :: "string \<Rightarrow> string \<Rightarrow> string \<Rightarrow> sandbox_plan \<Rightarrow> sandbox_verification" where
  "fake_verification os arch key p = \<lparr>sv_sandbox_key = key, sv_holder_id = ''fake'', sv_environment_identity = sb_environment_identity p,
     sv_mounts_verified = True, sv_network_mode_verified = True, sv_privilege_verified = True, sv_capability_verified = True,
     sv_agent_control_route_verified = True, sv_workspace_binding_verified = True, sv_resource_limits_verified = True,
     sv_seccomp_active_verified = True, sv_host_pid_hidden_verified = True, sv_host_user_namespace_verified = True,
     sv_host_mount_namespace_verified = True, sv_cloud_metadata_unreachable_verified = True,
     sv_dns_resolution_denied_verified = True, sv_forbidden_mounts_absent_verified = True,
     sv_runtime_socket_absent_verified = True, sv_cross_attempt_isolation_verified = True,
     sv_control_plane_unreachable_verified = True, sv_probe_results = [], sv_backend_descriptor = ''fake'',
     sv_backend_version = ''0.0.0'', sv_platform = os, sv_architecture = arch, sv_probe_implementation_version = ''1''\<rparr>"

definition fake_deps :: "string \<Rightarrow> string \<Rightarrow> (fake_world \<times> 'r) reconciliation_deps" where
  "fake_deps os arch =
     \<lparr>rd_launcher = \<lparr>el_backend_id = ''fake-local'', el_launch_semantics = KeyedIdempotent,
        el_ensure_execution = (\<lambda>p (f, r). case fake_ensure_execution p f of (x, f') \<Rightarrow> (x, (f', r))),
        el_inspect_execution = (\<lambda>k (f, r). case fake_inspect_execution k f of (x, f') \<Rightarrow> (x, (f', r)))\<rparr>,
      rd_sandbox = \<lparr>xb_ensure = (\<lambda>_ _ y. (Inr PPresent, y)), xb_inspect = (\<lambda>_ y. (Inr PPresent, y)),
        xb_release = (\<lambda>_ y. (Inr (), y)), xb_verify = (\<lambda>k p y. (Inr (fake_verification os arch k p), y))\<rparr>,
      rd_max_attempts_per_run = 1\<rparr>"

section \<open>Ticks\<close>

definition scheduler_tick :: "sha256 \<Rightarrow> bool \<Rightarrow> ('x, scheduling_error, schedule_outcome) controller" where
  "scheduler_tick sha fake = schedule_once sha (if fake then [fake_port sha] else [])"

text \<open>
  The backend is created in the body of the loop, so each pass starts in an empty world; \<open>random\<close> is
  the operating system's source of bytes.
\<close>

definition run_controller_tick ::
    "sha256 \<Rightarrow> ('r \<Rightarrow> (string, byte list) res \<times> 'r) \<Rightarrow> string \<Rightarrow> string \<Rightarrow> int \<Rightarrow>
     ((fake_world \<times> 'r) run_world, store_error, (string \<times> (run_controller_error, run_outcome) res) list) controller" where
  "run_controller_tick sha random os arch process_id w =
     reconcile_all sha (\<lambda>(f, r). case random r of (x, r') \<Rightarrow> (x, (f, r'))) (fake_deps os arch) (''pantheond-'' @ int_to_string process_id)
       (w\<lparr>external := (external w)\<lparr>rw_outside := (\<lambda>_. None, snd (rw_outside (external w)))\<rparr>\<rparr>)"

section \<open>The operator socket\<close>

datatype socket_error = AlreadyServing string | NotASocket string | NoParentDirectory string | SocketIo message io_error

text \<open>\<open>sk_metadata\<close> tells whether the entry at a path, not followed, is a socket.\<close>

record 'h socket_os =
  sk_create_dir_all :: "string \<Rightarrow> 'h \<Rightarrow> (io_error, unit) res \<times> 'h"
  sk_set_permissions :: "string \<Rightarrow> int \<Rightarrow> 'h \<Rightarrow> (io_error, unit) res \<times> 'h"
  sk_metadata :: "string \<Rightarrow> 'h \<Rightarrow> (io_error, bool) res \<times> 'h"
  sk_connect :: "string \<Rightarrow> 'h \<Rightarrow> (io_error, unit) res \<times> 'h"
  sk_remove_file :: "string \<Rightarrow> 'h \<Rightarrow> (io_error, unit) res \<times> 'h"
  sk_bind :: "string \<Rightarrow> 'h \<Rightarrow> (io_error, unit) res \<times> 'h"

definition directory_mode :: int where
  "directory_mode = 448"

definition socket_mode :: int where
  "socket_mode = 384"

definition clear_stale :: "'h socket_os \<Rightarrow> string \<Rightarrow> ('h, socket_error, unit) effect" where
  "clear_stale S p =
     bindH (tryH (sk_metadata S p)) (\<lambda>found. case found of
       Inl e \<Rightarrow> if io_error_kind e = NotFoundKind then returnH ()
         else raiseH (SocketIo (Fmt ''could not inspect {}'' [FStr p]) e)
     | Inr is_socket \<Rightarrow>
         if \<not> is_socket then raiseH (NotASocket p)
         else bindH (tryH (sk_connect S p)) (\<lambda>connected. case connected of
             Inr _ \<Rightarrow> raiseH (AlreadyServing p)
           | Inl _ \<Rightarrow> mapH (SocketIo (Fmt ''could not remove the stale operator socket {}'' [FStr p])) (sk_remove_file S p)))"

text \<open>\<open>parent\<close> is \<open>Path::parent\<close>.\<close>

definition bind_socket :: "'h socket_os \<Rightarrow> (string \<Rightarrow> string option) \<Rightarrow> string \<Rightarrow> ('h, socket_error, unit) effect" where
  "bind_socket S parent p =
     bindH (liftH (ok_or (case parent p of Some d \<Rightarrow> if d = [] then None else Some d | None \<Rightarrow> None) (NoParentDirectory p))) (\<lambda>d.
     bindH (mapH (SocketIo (Fmt ''could not create the operator socket directory {}'' [FStr d])) (sk_create_dir_all S d)) (\<lambda>_.
     bindH (mapH (SocketIo (Fmt ''could not restrict the operator socket directory {}'' [FStr d])) (sk_set_permissions S d directory_mode)) (\<lambda>_.
     bindH (clear_stale S p) (\<lambda>_.
     bindH (mapH (SocketIo (Fmt ''could not bind the operator socket {}'' [FStr p])) (sk_bind S p)) (\<lambda>_.
     mapH (SocketIo (Fmt ''could not restrict the operator socket {}'' [FStr p])) (sk_set_permissions S p socket_mode))))))"

section \<open>A restart adopts nothing\<close>

lemma looks_onlyD: "looks_only m \<Longrightarrow> alone w \<Longrightarrow> m w = (r, w') \<Longrightarrow> the_store w' = the_store w \<and> alone w'"
  unfolding looks_only_def by (metis snd_conv)

lemma alone_interfere: "alone w \<Longrightarrow> alone (interfere w) \<and> shared_state (interfere w) = shared_state w"
  by (simp add: alone_def interfere_def)

lemma looks_only_lock [reading]:
  assumes "looks_only m"
  shows "looks_only (with_lock m)"
  unfolding looks_only_def
proof (intro allI impI)
  fix w :: "'a world" assume a: "alone w"
  let ?w1 = "(interfere w)\<lparr>others := exclusive (others w)\<rparr>"
  have "alone ?w1" using a by (simp add: alone_def exclusive_def)
  then have "the_store (snd (m ?w1)) = the_store w" using assms alone_interfere [OF a] unfolding looks_only_def by simp
  then show "the_store (snd (with_lock m w)) = the_store w \<and> alone (snd (with_lock m w))"
    using a alone_interfere [OF a] by (auto simp: with_lock_def Let_def alone_def split: prod.splits)
qed

lemma looks_only_publish [reading]: "looks_only (set_published p)" "looks_only (portE q)"
  by (auto simp: looks_only_def set_published_def portE_def alone_def split: prod.splits)

lemma looks_only_load [reading]: "looks_only (load_configuration sha sources)"
  unfolding load_configuration_def Let_def by (intro reading)

lemma lock_published: "with_lock (set_published p) w = (Inr u, w') \<Longrightarrow> sh_published (shared_state w') = p"
  by (auto simp: with_lock_def set_published_def Let_def split: if_splits)

lemma snapshot_new_active: "snapshot_new sha active k = Inr snap \<Longrightarrow> sps_active snap = active"
  by (auto simp: snapshot_new_def split: option.splits if_splits)

lemma load_publishes:
  assumes a: "alone w" and load: "load_configuration sha sources w = (Inr st, w')"
    and p: "read_configuration_pointer sha (the_database w) = Inr p" and active: "cfp_active p = Some active"
  shows "status_active st = Some active \<and> (\<exists>snap. sh_published (shared_state w') = Some snap \<and> sps_active snap = active)"
proof -
  let ?k = "recover_compiled sha sources active"
  have "shared_state (interfere w) = shared_state w" using alone_interfere [OF a] by blast
  then have "\<exists>snap. snapshot_new sha active ?k = Inr snap \<and> with_lock (set_published (Some snap)) (interfere w) = (Inr (), w')
      \<and> status_active st = Some active"
    using load p active
    by (auto simp: load_configuration_def bindE_iff mapE_iff simple_iff readE_iff Let_def eq_commute [of "Inr _" "snapshot_new _ _ _"]
        split: if_splits)
  then show ?thesis using lock_published snapshot_new_active by blast
qed

text \<open>Once the source has been read, the daemon does what its first load does unless nothing is active.\<close>

lemma publish_is_load:
  assumes "(portE read_source w :: (startup_error, _) res \<times> _) = (Inr (Inr s), w1)"
    and "load_configuration sha (source_set_single (source_name t) s) w1 = (l, w2)" and "l \<noteq> Inr Uninitialized"
  shows "daemon_publish sha read_source t w = (map_sum LoadFailed id l, w2)"
  using assms by (cases l) (simp_all add: daemon_publish_def bindE_def liftE_def mapE_def returnE_def Let_def)

lemma publish_unreadable:
  "(portE read_source w :: (startup_error, _) res \<times> _) = (Inr (Inl e), w1) \<Longrightarrow> isl (fst (daemon_publish sha read_source t w)) \<and> snd (daemon_publish sha read_source t w) = w1"
  by (simp add: daemon_publish_def bindE_def liftE_def)

lemma restart_keeps:
  assumes a: "alone w" and p: "read_configuration_pointer sha (the_database w) = Inr p" "cfp_active p = Some active"
    and out: "daemon_publish sha read_source t w = (r, w')"
  shows "the_store w' = the_store w \<and> (\<forall>st. r = Inr st \<longrightarrow> status_active st = Some active
      \<and> (\<exists>snap. sh_published (shared_state w') = Some snap \<and> sps_active snap = active))"
proof -
  obtain x w1 where port: "(portE read_source w :: (startup_error, _) res \<times> _) = (Inr x, w1)"
    by (cases "read_source (external w)") (simp add: portE_def)
  note w1 = looks_onlyD [OF looks_only_publish(2) a port]
  show ?thesis
  proof (cases x)
    case (Inl e)
    then show ?thesis using publish_unreadable [OF port [unfolded Inl], of sha t] out w1 by auto
  next
    case (Inr s)
    let ?sources = "source_set_single (source_name t) s"
    obtain l w2 where load: "load_configuration sha ?sources w1 = (l, w2)" by fastforce
    note w2 = looks_onlyD [OF looks_only_load conjunct2 [OF w1] load]
    have p1: "read_configuration_pointer sha (the_database w1) = Inr p" using p(1) w1 by simp
    have "l \<noteq> Inr Uninitialized" using load_publishes [OF conjunct2 [OF w1] _ p1 p(2)] load by fastforce
    then have "daemon_publish sha read_source t w = (map_sum LoadFailed id l, w2)"
      by (rule publish_is_load [OF port [unfolded Inr] load])
    then show ?thesis using out w1 w2 load load_publishes [OF conjunct2 [OF w1] _ p1 p(2)] by auto
  qed
qed

text \<open>
  C33. A restart adopts nothing. Where a configuration is active and no other thread acts, starting
  the daemon leaves the store exactly as it is, whatever the configuration source now says, and
  when it succeeds what is published is the active revision's own identity; only an installation
  with nothing active is initialised.
\<close>

theorem restart_adopts_nothing:
  "case read_configuration_pointer sha (the_database w) of Inl _ \<Rightarrow> True
   | Inr p \<Rightarrow> (case cfp_active p of None \<Rightarrow> True
     | Some active \<Rightarrow> (case daemon_publish sha read_source t (w\<lparr>others := \<lambda>_ sh. sh\<rparr>) of (r, w') \<Rightarrow>
         the_store w' = the_store w
         \<and> (case r of Inl _ \<Rightarrow> True
            | Inr st \<Rightarrow> status_active st = Some active
                \<and> (\<exists>snap. sh_published (shared_state w') = Some snap \<and> sps_active snap = active))))"
proof (cases "read_configuration_pointer sha (the_database w)")
  case (Inr p)
  show ?thesis
  proof (cases "cfp_active p")
    case (Some active)
    obtain r w' where out: "daemon_publish sha read_source t (w\<lparr>others := \<lambda>_ sh. sh\<rparr>) = (r, w')" by fastforce
    have "alone (w\<lparr>others := \<lambda>_ sh. sh\<rparr>)" by (simp add: alone_def)
    from restart_keeps [OF this _ Some out] Inr show ?thesis
      by (simp add: Some out split: sum.split)
  qed (simp add: Inr)
qed simp

section \<open>A socket is never stolen\<close>

text \<open>Something that is not a socket, or a socket that answers, ends the preparation with the path as it was found.\<close>

lemma socket_not_stolen:
  "sk_metadata S p h = (Inr False, h1) \<Longrightarrow> clear_stale S p h = (Inl (NotASocket p), h1)"
  "sk_metadata S p h = (Inr True, h1) \<Longrightarrow> sk_connect S p h1 = (Inr u, h2) \<Longrightarrow> clear_stale S p h = (Inl (AlreadyServing p), h2)"
  by (simp_all add: clear_stale_def host_defs)

end
