(* ===== verification/Spec2Isabelle.thy ===== *)
theory Spec2Isabelle
  imports Dispatch Commitments External_Effects Containment Repositories Object_Store Daemon
begin

text \<open>
  A verification development of Pantheon (\<^verbatim>\<open>src/crates\<close>): a daemon that accepts Goals from an operator,
  plans each Goal into a Task, schedules Runs of the Task one at a time, prepares a Git Workspace and
  a container Sandbox for a Run, launches an Agent in it, takes the Agent's requests, and seals the
  Agent's changes into a content-addressed Candidate.

  \<^bold>\<open>The program.\<close> Six layers call each other downwards.

  \<^item> \<^verbatim>\<open>pantheon-core\<close> holds the pure rules: canonical documents and their digests, the configuration
    compiler, Goals, Tasks and planning, workspace scopes, change sets, Candidates, the choice of
    Agent and execution candidate, the service order of Goals and the context of a Run.
  \<^item> \<^verbatim>\<open>pantheon-store\<close> holds all authority: one SQLite database, written through serialised transactions.
    Every mutation is a command recorded in a ledger together with an Event of a gap-free journal,
    and every update of a row with a revision is a compare-and-set.
  \<^item> \<^verbatim>\<open>pantheon-engine\<close> holds the controllers. A controller keeps no authority of its own: it reads the
    store, decides with the core, performs external effects through ports, and commits.
  \<^item> \<^verbatim>\<open>pantheon-git\<close>, \<^verbatim>\<open>pantheon-sandbox\<close> and \<^verbatim>\<open>pantheon-cas\<close> implement the ports.
  \<^item> \<^verbatim>\<open>pantheon-operator-api\<close> and \<^verbatim>\<open>pantheon-operator-protocol\<close> serve the engine on a local socket.
  \<^item> \<^verbatim>\<open>pantheond\<close> composes the whole; \<^verbatim>\<open>pantheon-cli\<close> is the operator's client.

  \<^bold>\<open>Conventions.\<close> A struct is a record, an enum a datatype, a \<open>Result\<close> the sum \<open>'e + 'a\<close> with the error
  on the left, the object of a canonical value a list sorted by key. Strings are their UTF-8 bytes, as Rust has them.
  Integers are \<open>int\<close> or \<open>nat\<close> with the bounds, saturation and wrap-around of the source written
  out, and words where the code works on bits. A formatted message is kept as its template with
  its arguments (\<open>Fmt\<close>). Each operation is one definition, with its guards and early returns in the
  order of the source. SHA-256 is the parameter \<open>sha\<close>, of which only the width of its result is ever
  assumed. Theory \<open>Prelude\<close> holds the result monad, the strings and the locale \<open>wire_enum\<close>, whose
  interpretations show of every stored or transmitted enum that its spelling is injective and
  that its parser inverts it.

  \<^bold>\<open>Core\<close> (\<^verbatim>\<open>crates/pantheon-core/src\<close>).

  \<^item> \<open>Canonical\<close>, \<open>Utf8\<close>, \<open>Parse\<close>: \<^verbatim>\<open>config/canonical.rs\<close>, \<^verbatim>\<open>digest.rs\<close>, \<^verbatim>\<open>parse.rs\<close>. \<open>Parse_Progress\<close>,
    \<open>Parse_Correct\<close> and \<open>Parse_Roundtrip\<close> show that the parser always returns, that it accepts only
    well-formed values, and that it inverts the canonical encoder.
  \<^item> \<open>Config_Model\<close>, \<open>Config_Compile\<close>, \<open>Config_Valid\<close>: \<^verbatim>\<open>config/model.rs\<close>, \<^verbatim>\<open>revision.rs\<close>, \<^verbatim>\<open>reader.rs\<close>,
    \<^verbatim>\<open>error.rs\<close>, \<^verbatim>\<open>compile.rs\<close>, \<^verbatim>\<open>validate.rs\<close>. The locale \<open>keyed_declarations\<close> carries, once for all seven
    kinds of declaration, that keys are distinct and every declared component is well formed.
  \<^item> \<open>Goal\<close>, \<open>Task\<close>, \<open>Planning\<close>, \<open>Scope\<close>: \<^verbatim>\<open>planning/\<close>. \<open>Codec\<close> holds the locale \<open>canonical_codec\<close> of a
    stored document (what is written is read back, and different documents are written differently),
    interpreted for Goals, Tasks, context policies and context snapshots.
  \<^item> \<open>Artifact\<close>, \<open>Candidate\<close>, \<open>Workspace\<close>: \<^verbatim>\<open>artifact.rs\<close>, \<^verbatim>\<open>candidate.rs\<close>, \<^verbatim>\<open>workspace.rs\<close>, \<^verbatim>\<open>sandbox.rs\<close>.
  \<^item> \<open>Execution\<close>, \<open>Scheduling\<close>, \<open>Context\<close>: \<^verbatim>\<open>execution.rs\<close>, \<^verbatim>\<open>scheduling.rs\<close>, \<^verbatim>\<open>attempt.rs\<close>, \<^verbatim>\<open>context.rs\<close>.
    \<open>Ordering\<close> holds the facts on stable sorting and the locale \<open>key_comparator\<close>, interpreted for the
    comparison of execution candidates.

  Their properties are in \<open>Documents\<close> (canonical round trip, the exact languages of patterns and
  bases, soundness and completeness of proposal validation, what a materialised Task may exceed),
  \<open>Decisions\<close> (what a compiled configuration grants) and \<open>Dispatch\<close> (isolation of the selected
  execution, no starvation of a Goal).

  \<^bold>\<open>Store\<close> (\<^verbatim>\<open>crates/pantheon-store/src\<close>).

  \<^item> \<open>Schema\<close> is the schema as \<^verbatim>\<open>migrations.rs\<close> leaves it: one record per table and, as executable
    predicates, every \<open>CHECK\<close>, \<open>UNIQUE\<close>, \<open>PRIMARY KEY\<close> and \<open>FOREIGN KEY\<close> clause, with SQL's three-valued
    reading of \<open>NULL\<close>. \<open>Migrations\<close> is the migration runner.
  \<^item> \<open>Transaction\<close> is \<^verbatim>\<open>transaction.rs\<close>: statements, the compare-and-set primitive, commit and rollback,
    over an environment (\<open>env\<close>) that supplies the clock and fresh identifiers and may fail any
    statement. The locale \<open>revisioned_table\<close> states the law of compare-and-set; \<open>Tables\<close> interprets it
    for the twelve revisioned tables.
  \<^item> \<open>Commands\<close> is \<^verbatim>\<open>command.rs\<close>, the command envelope; \<open>Ledger\<close> is what it promises, stated without
    tables.
  \<^item> \<open>Store_Planning\<close>, \<open>Store_Scheduling\<close>, \<open>Store_Configuration\<close>, \<open>Store_Execution\<close>, \<open>Store_Workspace\<close>,
    \<open>Store_Sandbox\<close>, \<open>Store_Artifacts\<close>, \<open>Store_Agent_Control\<close>, \<open>Store_Context\<close> and \<open>Store_Operator\<close> are the
    operations, one theory per source file or directory.
  \<^item> \<open>System\<close> makes of them a state machine: \<open>step\<close> has one rule per operation, and the locale
    \<open>store_invariant\<close> turns a predicate that every operation keeps into a fact of all reachable
    stores. \<open>Write_Sets\<close>, \<open>Planning_Effects\<close>, \<open>Scheduling_Effects\<close>, \<open>Execution_Effects\<close> and
    \<open>Submission_Effects\<close> say which tables an operation writes and what it leaves there. \<open>Invariants\<close>
    (journal, execution slot, fairness charges, ready Tasks, Attempts) and \<open>Stability\<close> (a recorded
    command, a closed Goal, a materialised plan, a terminal or contacted Attempt, a mutable
    Workspace) are its interpretations. \<open>Example_Store\<close> has the concrete stores of the witnesses.

  Their properties are in \<open>Authority\<close> (transactions are atomic, the command kernel refines the
  ledger, a command executes once, one Run in flight, the journal has no gap), \<open>Commitments\<close> (what T3
  and T6 find true of the store they commit into, and exactly which rows they leave) and
  \<open>Permanence\<close> (what no later sequence of operations undoes).

  \<^bold>\<open>Engine\<close> (\<^verbatim>\<open>crates/pantheon-engine/src\<close>). \<open>Engine\<close> is the world of a controller: the store and the
  published configuration, which it shares with the other threads, and the world outside. Before
  every access of a controller to what is shared the function \<open>others\<close> of the world is applied, so a
  statement for all worlds is a statement for all interleavings; a read may fail at any access.
  \<open>Engine_Configuration\<close>, \<open>Engine_Planning\<close>, \<open>Engine_Routing\<close>, \<open>Engine_Scheduling\<close>, \<open>Engine_Workspace\<close>,
  \<open>Engine_Sandbox\<close>, \<open>Engine_Context\<close>, \<open>Engine_Run\<close>, \<open>Engine_Sealing\<close>, \<open>Engine_Agent_Control\<close> and
  \<open>Engine_Operator\<close> are the source files of those names; a port is a record of functions on the
  outside world. \<open>Launch\<close> follows the launch boundary. Their properties are in \<open>Controllers\<close> (every
  controller changes the store by store operations only, a launch follows its durable mark, an
  activation publishes what it committed) and \<open>External_Effects\<close> (a held Workspace is not touched, a
  change set is the authorised difference, a settled seal is not repeated).

  \<^bold>\<open>Platform.\<close> \<open>Host\<close> is the operating system as a record of functions: processes and paths.
  \<open>Git_Materializer\<close> and \<open>Git_Capture\<close> are \<^verbatim>\<open>crates/pantheon-git/src\<close>, \<open>Container_Backend\<close> is
  \<^verbatim>\<open>crates/pantheon-sandbox/src/lib.rs\<close>, \<open>Object_Store\<close> is \<^verbatim>\<open>crates/pantheon-cas/src/lib.rs\<close>. Their
  properties hold whatever the host answers and are in \<open>Repositories\<close> (which Git commands are run
  and in which environment, what a returned base rests on, and that a capture stays inside the
  Workspace), \<open>Containment\<close> (which container is created and on what evidence it is verified) and
  \<open>Object_Store\<close> (a published object is complete, and other publishers lose nothing).

  \<^bold>\<open>Surface.\<close> \<open>Operator_Api\<close> is \<^verbatim>\<open>crates/pantheon-operator-protocol\<close> and \<^verbatim>\<open>crates/pantheon-operator-api\<close>,
  with its properties in \<open>Surface\<close> (only identified mutations write, an Event stream has no gap).
  \<open>Command_Line\<close> is \<^verbatim>\<open>crates/pantheon-cli/src\<close> and the options of the daemon, with the property that a
  typed Goal arrives as it was typed. \<open>Daemon\<close> is \<^verbatim>\<open>crates/pantheond/src/main.rs\<close>, its deterministic
  backend \<^verbatim>\<open>fake.rs\<close> and the operator socket, with the property that a restart adopts nothing.

  \<^bold>\<open>Loops and bounds.\<close>

  \<^item> The parser's mutual recursion has fuel: \<open>parse\<close> supplies three units per byte and one more. Every
    call spends at most that, so \<open>parse_fuel\<close> never answers \<open>None\<close>, and any more fuel gives the
    same result (\<open>Documents.parse_terminates\<close>).
  \<^item> The walk of a Workspace recurses on the levels that remain below \<open>MAX_DEPTH\<close>, which is 64 in the
    source: the root and 64 levels are walked and a deeper directory is the error of the source, so
    the bound is the program's and not the model's.
  \<^item> The staging loop of the object store may not end, and is a \<open>partial_function\<close> whose value \<open>None\<close> is
    not ending; \<open>Object_Store.publication_ends\<close> shows when it returns.
  \<^item> The task behind an Event stream never ends by itself: \<open>watch_rounds n\<close> is what it has sent after
    at most \<open>n\<close> rounds, and its property holds for every \<open>n\<close>.
  \<^item> Every other loop is a terminating function.

  \<^bold>\<open>Not under the sources, and therefore parameters:\<close> SHA-256, the reader and writer of JSON used at
  the wire, the container runtime, the Git program, the file system, the launcher and the Executor
  backends, the entropy source. SQLite is modelled as far as the store uses it: statements on
  tables with constraints, in serialised transactions that either commit or leave no trace.

  \<^bold>\<open>Not modelled:\<close> opening the database file and its pragmas (\<^verbatim>\<open>policy.rs\<close>, part of \<^verbatim>\<open>store.rs\<close>); the
  rendered text of store errors; serving HTTP and its connections; printing, rendering and exit
  codes of the client; signals and sleeping in the daemon. They hold no authority: nothing decided
  above depends on them.
\<close>

end
